(* ===== verification/Prelude.thy ===== *)
theory Prelude
  imports Complex_Main "HOL-Library.Char_ord" "HOL-Library.List_Lexorder"
begin

text \<open>
  Shared vocabulary of the development: the result type of fallible code, Python's
  insertion-ordered dictionaries as association lists, decimal and hexadecimal texts,
  and the generic lemmas the component theories use.

  Python texts. A Python \<open>str\<close> is represented by the bytes of its UTF-8 encoding
  (with the \<open>surrogatepass\<close> convention for lone surrogates, so that every \<open>str\<close>
  has exactly one representation). HOL's \<^typ>\<open>char\<close> is a byte, so the type is
  \<^typ>\<open>string\<close>. Under this representation \<open>s.encode("utf-8")\<close> is the identity
  on texts without surrogates, its length is the number of encoded bytes, and the byte
  order of UTF-8 is the code-point order that Python's comparison and \<open>sorted\<close> use.
\<close>

named_theorems result_simps "computation rules of the result type"
named_theorems dict_simps "lookup rules of association-list dictionaries"

section \<open>Results of fallible code\<close>

type_synonym ('e, 'a) result = "'e + 'a"

definition bindR :: "('e, 'a) result \<Rightarrow> ('a \<Rightarrow> ('e, 'b) result) \<Rightarrow> ('e, 'b) result" where
  "bindR m f = (case m of Inl e \<Rightarrow> Inl e | Inr x \<Rightarrow> f x)"

definition guardR :: "bool \<Rightarrow> 'e \<Rightarrow> ('e, 'a) result \<Rightarrow> ('e, 'a) result" where
  "guardR ok e m = (if ok then m else Inl e)"

fun mapR :: "('a \<Rightarrow> ('e, 'b) result) \<Rightarrow> 'a list \<Rightarrow> ('e, 'b list) result" where
  "mapR f [] = Inr []"
| "mapR f (x # xs) = bindR (f x) (\<lambda>y. bindR (mapR f xs) (\<lambda>ys. Inr (y # ys)))"

definition is_ok :: "('e, 'a) result \<Rightarrow> bool" where
  "is_ok m = (case m of Inl _ \<Rightarrow> False | Inr _ \<Rightarrow> True)"

lemma bindR_Inl [simp, result_simps]: "bindR (Inl e) f = Inl e"
  by (simp add: bindR_def)

lemma bindR_Inr [simp, result_simps]: "bindR (Inr x) f = f x"
  by (simp add: bindR_def)

text \<open>Evaluate the first computation before the continuation is looked at.\<close>

lemma bindR_weak_cong: "m = m' \<Longrightarrow> bindR m f = bindR m' f"
  by simp

lemma bindR_eq_Inr: "bindR m f = Inr y \<longleftrightarrow> (\<exists>x. m = Inr x \<and> f x = Inr y)"
  by (cases m) auto

lemma bindR_eq_Inl:
  "bindR m f = Inl e \<longleftrightarrow> m = Inl e \<or> (\<exists>x. m = Inr x \<and> f x = Inl e)"
  by (cases m) auto

lemma bindR_eq_InrE [elim!]:
  assumes "bindR m f = Inr y"
  obtains x where "m = Inr x" and "f x = Inr y"
  using assms by (auto simp: bindR_eq_Inr)

lemma guardR_True [simp, result_simps]: "guardR True e m = m"
  and guardR_False [simp, result_simps]: "guardR False e m = Inl e"
  by (simp_all add: guardR_def)

lemma guardR_eq_Inr [simp]: "guardR b e m = Inr y \<longleftrightarrow> b \<and> m = Inr y"
  by (simp add: guardR_def)

lemma is_ok_Inl [simp]: "\<not> is_ok (Inl e)" and is_ok_Inr [simp]: "is_ok (Inr x)"
  by (simp_all add: is_ok_def)

lemma is_ok_iff: "is_ok m \<longleftrightarrow> (\<exists>x. m = Inr x)"
  by (cases m) auto

lemma mapR_eq_Inr: "mapR f xs = Inr ys \<longleftrightarrow> list_all2 (\<lambda>x y. f x = Inr y) xs ys"
proof (induction xs arbitrary: ys)
  case Nil
  then show ?case by auto
next
  case (Cons x xs)
  then show ?case by (cases ys) (auto simp: bindR_eq_Inr)
qed

lemma mapR_cong [fundef_cong]:
  "xs = ys \<Longrightarrow> (\<And>x. x \<in> set ys \<Longrightarrow> f x = g x) \<Longrightarrow> mapR f xs = mapR g ys"
  by (induction ys arbitrary: xs) auto

lemma mapR_total:
  "(\<And>x. x \<in> set xs \<Longrightarrow> f x = Inr (g x)) \<Longrightarrow> mapR f xs = Inr (map g xs)"
  by (induction xs) auto

section \<open>Dictionaries\<close>

text \<open>
  A Python \<open>dict\<close> with text keys is an association list in insertion order; a
  well-formed one has distinct keys. \<open>d[k] = v\<close> keeps the position of an existing
  key and appends a new one.
\<close>

fun dput :: "('k \<times> 'v) list \<Rightarrow> 'k \<Rightarrow> 'v \<Rightarrow> ('k \<times> 'v) list" where
  "dput [] k v = [(k, v)]"
| "dput ((k', v') # d) k v = (if k' = k then (k, v) # d else (k', v') # dput d k v)"

abbreviation dget :: "('k \<times> 'v) list \<Rightarrow> 'k \<Rightarrow> 'v option" where
  "dget d k \<equiv> map_of d k"

definition dmem :: "('k \<times> 'v) list \<Rightarrow> 'k \<Rightarrow> bool" where
  "dmem d k = (map_of d k \<noteq> None)"

text \<open>\<open>{**a, **b}\<close>: the entries of \<open>b\<close> stored one after the other into \<open>a\<close>.\<close>

definition dmerge :: "('k \<times> 'v) list \<Rightarrow> ('k \<times> 'v) list \<Rightarrow> ('k \<times> 'v) list" where
  "dmerge a b = fold (\<lambda>(k, v) d. dput d k v) b a"

definition dict_wf :: "('k \<times> 'v) list \<Rightarrow> bool" where
  "dict_wf d = distinct (map fst d)"

lemma map_of_dput [simp, dict_simps]: "map_of (dput d k v) = (map_of d)(k \<mapsto> v)"
  by (induction d k v rule: dput.induct) auto

lemma keys_dput: "set (map fst (dput d k v)) = insert k (set (map fst d))"
  by (induction d k v rule: dput.induct) auto

lemma dict_wf_dput [intro]: "dict_wf d \<Longrightarrow> dict_wf (dput d k v)"
proof (induction d k v rule: dput.induct)
  case (2 k' v' d k v)
  then show ?case
    using keys_dput [of d k v] by (auto simp: dict_wf_def)
qed (simp add: dict_wf_def)

lemma dmem_iff [dict_simps]: "dmem d k \<longleftrightarrow> k \<in> set (map fst d)"
  by (simp add: dmem_def map_of_eq_None_iff)

lemma dict_wf_Nil [simp]: "dict_wf []"
  by (simp add: dict_wf_def)

lemma dict_wf_Cons [simp]: "dict_wf ((k, v) # d) \<longleftrightarrow> k \<notin> fst ` set d \<and> dict_wf d"
  by (simp add: dict_wf_def)

lemma dmerge_Nil [simp]: "dmerge a [] = a"
  by (simp add: dmerge_def)

lemma dmerge_Cons [simp]: "dmerge a ((k, v) # b) = dmerge (dput a k v) b"
  by (simp add: dmerge_def)

lemma dict_wf_dmerge [intro]: "dict_wf a \<Longrightarrow> dict_wf (dmerge a b)"
  by (induction b arbitrary: a) (auto simp: dict_wf_dput)

lemma map_of_dmerge [dict_simps]:
  "dict_wf b \<Longrightarrow> map_of (dmerge a b) = map_of a ++ map_of b"
proof (induction b arbitrary: a)
  case (Cons p b)
  obtain k v where p: "p = (k, v)" by (cases p)
  have "k \<notin> dom (map_of b)"
    using Cons.prems p by (auto simp: dict_wf_def dom_map_of_conv_image_fst)
  then show ?case
    using Cons p by (auto simp: dict_wf_def map_add_def fun_eq_iff dom_def split: option.splits)
qed simp

lemma map_of_eq_Some_iff_wf:
  "dict_wf d \<Longrightarrow> map_of d k = Some v \<longleftrightarrow> (k, v) \<in> set d"
  by (simp add: dict_wf_def)

section \<open>Decimal texts\<close>

text \<open>The digit \<open>n\<close> of \<open>0..9\<close> as an ASCII character, and the reverse.\<close>

definition digit_char :: "nat \<Rightarrow> char" where
  "digit_char n = char_of (48 + n)"

definition is_digit :: "char \<Rightarrow> bool" where
  "is_digit c = (48 \<le> (of_char c :: nat) \<and> (of_char c :: nat) \<le> 57)"

definition digit_val :: "char \<Rightarrow> nat" where
  "digit_val c = of_char c - 48"

fun show_nat :: "nat \<Rightarrow> string" where
  "show_nat n = (if n < 10 then [digit_char n] else show_nat (n div 10) @ [digit_char (n mod 10)])"

declare show_nat.simps [simp del]

definition show_int :: "int \<Rightarrow> string" where
  "show_int i = (if i < 0 then CHR ''-'' # show_nat (nat (- i)) else show_nat (nat i))"

text \<open>Fixed width, padded with zeros on the left (the width is never exceeded by the callers).\<close>

fun show_pad :: "nat \<Rightarrow> nat \<Rightarrow> string" where
  "show_pad 0 n = []"
| "show_pad (Suc w) n = show_pad w (n div 10) @ [digit_char (n mod 10)]"

definition read_nat :: "string \<Rightarrow> nat" where
  "read_nat = foldl (\<lambda>acc c. 10 * acc + digit_val c) 0"

lemma of_char_digit [simp]: "n < 10 \<Longrightarrow> (of_char (digit_char n) :: nat) = 48 + n"
  by (simp add: digit_char_def)

lemma is_digit_digit_char [simp]: "n < 10 \<Longrightarrow> is_digit (digit_char n)"
  by (simp add: is_digit_def)

lemma digit_val_digit_char [simp]: "n < 10 \<Longrightarrow> digit_val (digit_char n) = n"
  by (simp add: digit_val_def)

lemma digit_char_inj: "m < 10 \<Longrightarrow> n < 10 \<Longrightarrow> digit_char m = digit_char n \<longleftrightarrow> m = n"
  by (metis digit_val_digit_char)

lemma digit_char_less: "m < 10 \<Longrightarrow> n < 10 \<Longrightarrow> digit_char m < digit_char n \<longleftrightarrow> m < n"
  by (simp add: less_char_def)

lemma read_nat_snoc [simp]: "read_nat (s @ [c]) = 10 * read_nat s + digit_val c"
  by (simp add: read_nat_def)

lemma read_nat_Nil [simp]: "read_nat [] = 0"
  by (simp add: read_nat_def)

lemma read_show_nat [simp]: "read_nat (show_nat n) = n"
proof (induction n rule: show_nat.induct)
  case (1 n)
  show ?case
  proof (cases "n < 10")
    case True
    then show ?thesis
      using read_nat_snoc [of "[]" "digit_char n"] by (simp add: show_nat.simps [of n])
  next
    case False
    with 1 show ?thesis by (simp add: show_nat.simps [of n])
  qed
qed

lemma show_nat_digits: "list_all is_digit (show_nat n)"
proof (induction n rule: show_nat.induct)
  case (1 n)
  then show ?case
    by (cases "n < 10") (simp_all add: show_nat.simps [of n])
qed

lemma show_nat_nonempty [simp]: "show_nat n \<noteq> []"
  by (subst show_nat.simps) simp

lemma show_nat_inj [simp]: "show_nat m = show_nat n \<longleftrightarrow> m = n"
  by (metis read_show_nat)

lemma not_digit_minus [simp]: "\<not> is_digit CHR ''-''"
  by (simp add: is_digit_def)

lemma hd_show_nat_not_minus: "show_nat n \<noteq> CHR ''-'' # s"
  using show_nat_digits [of n] by auto

lemma show_int_inj [simp]: "show_int i = show_int j \<longleftrightarrow> i = j"
  using hd_show_nat_not_minus hd_show_nat_not_minus [symmetric]
  by (auto simp: show_int_def split: if_splits)

lemma length_show_pad [simp]: "length (show_pad w n) = w"
  by (induction w arbitrary: n) auto

lemma show_pad_digits [simp]: "list_all is_digit (show_pad w n)"
  by (induction w arbitrary: n) auto

lemma read_show_pad: "read_nat (show_pad w n) = n mod 10 ^ w"
proof (induction w arbitrary: n)
  case (Suc w)
  have "n mod 10 ^ Suc w = 10 * (n div 10 mod 10 ^ w) + n mod 10"
    using mod_mult2_eq [of n 10 "10 ^ w"] by simp
  then show ?case by (simp add: Suc)
qed simp

lemma read_show_pad_small [simp]: "n < 10 ^ w \<Longrightarrow> read_nat (show_pad w n) = n"
  by (simp add: read_show_pad)

text \<open>Fixed-width decimal texts of the same width are ordered as the numbers are.\<close>

lemma less_div_mod_10:
  fixes m n :: nat
  shows "m div 10 < n div 10 \<or> m div 10 = n div 10 \<and> m mod 10 < n mod 10 \<longleftrightarrow> m < n"
proof -
  have "10 * (m div 10) + m mod 10 = m" and "10 * (n div 10) + n mod 10 = n"
    and "m mod 10 < 10" and "n mod 10 < 10"
    by simp_all
  then show ?thesis by linarith
qed

lemma snoc_less_snoc:
  fixes a b :: "'a :: linorder list"
  shows "length a = length b \<Longrightarrow> a @ [x] < b @ [y] \<longleftrightarrow> a < b \<or> a = b \<and> x < y"
  by (induction a b rule: list_induct2) auto

lemma append_less_append:
  fixes a b :: "'a :: linorder list"
  shows "length a = length b \<Longrightarrow> a @ x < b @ y \<longleftrightarrow> a < b \<or> a = b \<and> x < y"
  by (induction a b rule: list_induct2) auto

lemma show_pad_eq_iff:
  "m < 10 ^ w \<Longrightarrow> n < 10 ^ w \<Longrightarrow> show_pad w m = show_pad w n \<longleftrightarrow> m = n"
  by (metis read_show_pad_small)

lemma show_pad_less_iff:
  "m < 10 ^ w \<Longrightarrow> n < 10 ^ w \<Longrightarrow> show_pad w m < show_pad w n \<longleftrightarrow> m < n"
proof (induction w arbitrary: m n)
  case (Suc w)
  have m: "m div 10 < 10 ^ w" and n: "n div 10 < 10 ^ w"
    using Suc.prems by auto
  have "show_pad (Suc w) m < show_pad (Suc w) n \<longleftrightarrow>
      m div 10 < n div 10 \<or> m div 10 = n div 10 \<and> m mod 10 < n mod 10"
    using Suc.IH [OF m n] show_pad_eq_iff [OF m n]
    by (simp add: snoc_less_snoc digit_char_less)
  then show ?case by (simp only: less_div_mod_10)
qed simp

section \<open>Hexadecimal texts\<close>

definition hex_digit :: "nat \<Rightarrow> char" where
  "hex_digit n = (if n < 10 then char_of (48 + n) else char_of (87 + n))"

definition is_hex_lower :: "char \<Rightarrow> bool" where
  "is_hex_lower c = (is_digit c \<or> (97 \<le> (of_char c :: nat) \<and> (of_char c :: nat) \<le> 102))"

definition hex_of_byte :: "char \<Rightarrow> string" where
  "hex_of_byte c = [hex_digit (of_char c div 16), hex_digit (of_char c mod 16)]"

definition hex_of_bytes :: "string \<Rightarrow> string" where
  "hex_of_bytes bs = concat (map hex_of_byte bs)"

lemma of_char_hex_digit:
  "n < 16 \<Longrightarrow> (of_char (hex_digit n) :: nat) = (if n < 10 then 48 + n else 87 + n)"
  by (simp add: hex_digit_def)

lemma hex_digit_inj: "m < 16 \<Longrightarrow> n < 16 \<Longrightarrow> hex_digit m = hex_digit n \<longleftrightarrow> m = n"
proof -
  assume m: "m < 16" and n: "n < 16"
  have "hex_digit m = hex_digit n \<longleftrightarrow> (of_char (hex_digit m) :: nat) = of_char (hex_digit n)"
    by simp
  also have "\<dots> \<longleftrightarrow> m = n"
    using m n by (auto simp: of_char_hex_digit split: if_splits)
  finally show ?thesis .
qed

lemma of_char_lt_256: "(of_char (c :: char) :: nat) < 256"
  by (metis of_char_mod_256 mod_less_divisor zero_less_numeral)

lemma hex_of_byte_inj: "hex_of_byte c = hex_of_byte d \<longleftrightarrow> c = d"
proof
  assume "hex_of_byte c = hex_of_byte d"
  then have "(of_char c :: nat) div 16 = of_char d div 16" "(of_char c :: nat) mod 16 = of_char d mod 16"
    using of_char_lt_256 [of c] of_char_lt_256 [of d]
    by (auto simp: hex_of_byte_def hex_digit_inj)
  then have "(of_char c :: nat) = of_char d"
    by (metis div_mult_mod_eq)
  then show "c = d" by simp
qed simp

lemma hex_of_bytes_inj: "hex_of_bytes a = hex_of_bytes b \<longleftrightarrow> a = b"
proof
  show "hex_of_bytes a = hex_of_bytes b \<Longrightarrow> a = b"
  proof (induction a arbitrary: b)
    case Nil
    then show ?case by (cases b) (auto simp: hex_of_bytes_def hex_of_byte_def)
  next
    case (Cons c a)
    then obtain d b' where b: "b = d # b'"
      by (cases b) (auto simp: hex_of_bytes_def hex_of_byte_def)
    with Cons.prems have "hex_of_byte c = hex_of_byte d" "hex_of_bytes a = hex_of_bytes b'"
      by (auto simp: hex_of_bytes_def hex_of_byte_def)
    with Cons.IH b show ?case by (simp add: hex_of_byte_inj)
  qed
qed simp

section \<open>Texts\<close>

text \<open>\<open>sep.join(parts)\<close>.\<close>

fun join_with :: "string \<Rightarrow> string list \<Rightarrow> string" where
  "join_with sep [] = []"
| "join_with sep [s] = s"
| "join_with sep (s # t # ss) = s @ sep @ join_with sep (t # ss)"

text \<open>The code points of a text: a lead byte with its continuation bytes.\<close>

definition is_continuation :: "char \<Rightarrow> bool" where
  "is_continuation c = (128 \<le> (of_char c :: nat) \<and> (of_char c :: nat) < 192)"

function codepoints :: "string \<Rightarrow> string list" where
  "codepoints [] = []"
| "codepoints (c # cs) = (c # takeWhile is_continuation cs) # codepoints (dropWhile is_continuation cs)"
  by pat_completeness auto
termination
  by (relation "measure length") (auto simp: length_dropWhile_le le_imp_less_Suc)

lemma concat_codepoints: "concat (codepoints s) = s"
  by (induction s rule: codepoints.induct) auto

text \<open>
  A lone surrogate (U+D800 to U+DFFF) is the byte 0xED followed by a byte from 0xA0 on;
  0xED never occurs as a continuation byte.
\<close>

fun has_surrogate :: "string \<Rightarrow> bool" where
  "has_surrogate (a # b # s) =
     (((of_char a :: nat) = 237 \<and> 160 \<le> (of_char b :: nat)) \<or> has_surrogate (b # s))"
| "has_surrogate _ = False"

end
