(* ===== verification/Values.thy ===== *)
theory Values
  imports Prelude
begin

text \<open>
  The Python values the kernel moves around: JSON-like data as \<open>json.loads\<close> and the
  \<open>to_dict\<close> methods produce it, Python's equality and truth value on it, and the
  well-formedness of its dictionaries. \<open>JOther\<close> stands for an object of any other
  Python type, which the canonicaliser refuses.
\<close>

datatype pyfloat = FinF rat | InfF bool | NaNF

datatype json =
    JNull
  | JBool bool
  | JInt int
  | JFloat pyfloat
  | JStr string
  | JArr "json list"
  | JTup "json list"
  | JObj "(string \<times> json) list"
  | JOther string

type_synonym dict = "(string \<times> json) list"

section \<open>Equality and truth\<close>

text \<open>
  \<open>a == b\<close>: numbers of all types compare by value (\<open>True == 1 == 1.0\<close>), a list
  never equals a tuple, dictionaries compare without regard to the order of their keys.
\<close>

fun num_of :: "json \<Rightarrow> rat option" where
  "num_of (JBool b) = Some (if b then 1 else 0)"
| "num_of (JInt i) = Some (of_int i)"
| "num_of (JFloat (FinF r)) = Some r"
| "num_of _ = None"

fun py_eq :: "json \<Rightarrow> json \<Rightarrow> bool"
  and py_eq_list :: "json list \<Rightarrow> json list \<Rightarrow> bool"
  and py_eq_items :: "(string \<times> json) list \<Rightarrow> (string \<times> json) list \<Rightarrow> bool" where
  "py_eq JNull b = (b = JNull)"
| "py_eq (JStr s) b = (b = JStr s)"
| "py_eq (JOther s) b = (b = JOther s)"
| "py_eq (JArr xs) b = (case b of JArr ys \<Rightarrow> py_eq_list xs ys | _ \<Rightarrow> False)"
| "py_eq (JTup xs) b = (case b of JTup ys \<Rightarrow> py_eq_list xs ys | _ \<Rightarrow> False)"
| "py_eq (JObj d) b = (case b of JObj e \<Rightarrow> length d = length e \<and> py_eq_items d e | _ \<Rightarrow> False)"
| "py_eq (JFloat (InfF p)) b = (b = JFloat (InfF p))"
| "py_eq (JFloat NaNF) b = False"
| "py_eq (JBool p) b = (num_of b = num_of (JBool p))"
| "py_eq (JInt i) b = (num_of b = num_of (JInt i))"
| "py_eq (JFloat (FinF r)) b = (num_of b = Some r)"
| "py_eq_list [] ys = (ys = [])"
| "py_eq_list (x # xs) ys = (case ys of [] \<Rightarrow> False | y # ys' \<Rightarrow> py_eq x y \<and> py_eq_list xs ys')"
| "py_eq_items [] e = True"
| "py_eq_items ((k, v) # d) e =
     ((case map_of e k of None \<Rightarrow> False | Some w \<Rightarrow> py_eq v w) \<and> py_eq_items d e)"

definition dict_eq :: "dict \<Rightarrow> dict \<Rightarrow> bool" where
  "dict_eq d e = py_eq (JObj d) (JObj e)"

lemma py_eq_JStr [simp]: "py_eq a (JStr s) \<longleftrightarrow> a = JStr s"
proof (cases a)
  case (JFloat f)
  then show ?thesis by (cases f) auto
qed auto

fun truthy :: "json \<Rightarrow> bool" where
  "truthy JNull = False"
| "truthy (JBool b) = b"
| "truthy (JInt i) = (i \<noteq> 0)"
| "truthy (JFloat f) = (f \<noteq> FinF 0)"
| "truthy (JStr s) = (s \<noteq> [])"
| "truthy (JArr xs) = (xs \<noteq> [])"
| "truthy (JTup xs) = (xs \<noteq> [])"
| "truthy (JObj d) = (d \<noteq> [])"
| "truthy (JOther s) = True"

text \<open>\<open>hash(v)\<close> succeeds: a list or a dictionary is not hashable.\<close>

fun hashable :: "json \<Rightarrow> bool" where
  "hashable (JArr xs) = False"
| "hashable (JObj d) = False"
| "hashable (JTup xs) = list_all hashable xs"
| "hashable _ = True"

text \<open>\<open>d.get(k)\<close> with the default \<open>None\<close>, and with a given default.\<close>

definition get_or_null :: "dict \<Rightarrow> string \<Rightarrow> json" where
  "get_or_null d k = (case map_of d k of None \<Rightarrow> JNull | Some v \<Rightarrow> v)"

definition get_or :: "dict \<Rightarrow> string \<Rightarrow> json \<Rightarrow> json" where
  "get_or d k dflt = (case map_of d k of None \<Rightarrow> dflt | Some v \<Rightarrow> v)"

text \<open>\<open>payload[k] = v\<close> under a condition, the idiom of every \<open>to_dict\<close>.\<close>

definition put_if :: "bool \<Rightarrow> string \<Rightarrow> json \<Rightarrow> dict \<Rightarrow> dict" where
  "put_if c k v d = (if c then dput d k v else d)"

lemma map_of_put_if [dict_simps]:
  "map_of (put_if c k v d) = (if c then (map_of d)(k \<mapsto> v) else map_of d)"
  by (simp add: put_if_def)

lemma dict_wf_put_if [intro]: "dict_wf d \<Longrightarrow> dict_wf (put_if c k v d)"
  by (auto simp: put_if_def)

lemma get_or_null_Cons [simp]: "get_or_null ((k, v) # d) k' = (if k = k' then v else get_or_null d k')"
  by (simp add: get_or_null_def)

lemma get_or_null_Nil [simp]: "get_or_null [] k = JNull"
  by (simp add: get_or_null_def)

lemma get_or_Cons [simp]: "get_or ((k, v) # d) k' x = (if k = k' then v else get_or d k' x)"
  by (simp add: get_or_def)

lemma get_or_Nil [simp]: "get_or [] k x = x"
  by (simp add: get_or_def)

lemma get_or_null_put_if [simp]:
  "get_or_null (put_if c k v d) k' = (if c \<and> k = k' then v else get_or_null d k')"
  by (simp add: get_or_null_def put_if_def)

lemma get_or_put_if [simp]:
  "get_or (put_if c k v d) k' x = (if c \<and> k = k' then v else get_or d k' x)"
  by (simp add: get_or_def put_if_def)

text \<open>
  The three shapes this idiom has: \<open>if v is not None\<close>, and \<open>if v\<close> for a dict and for a list.
\<close>

definition put_field :: "string \<Rightarrow> json \<Rightarrow> dict \<Rightarrow> dict" where
  "put_field k v d = put_if (v \<noteq> JNull) k v d"

definition put_dict :: "string \<Rightarrow> dict \<Rightarrow> dict \<Rightarrow> dict" where
  "put_dict k v d = put_if (v \<noteq> []) k (JObj v) d"

definition put_array :: "string \<Rightarrow> json list \<Rightarrow> dict \<Rightarrow> dict" where
  "put_array k v d = put_if (v \<noteq> []) k (JArr v) d"

lemma put_field_lookup [simp]:
  "get_or_null d k = JNull \<Longrightarrow> get_or_null (put_field k v d) k = v"
  "k \<noteq> k' \<Longrightarrow> get_or_null (put_field k v d) k' = get_or_null d k'"
  "k \<noteq> k' \<Longrightarrow> get_or (put_field k v d) k' x = get_or d k' x"
  by (simp_all add: put_field_def)

lemma put_dict_lookup [simp]:
  "get_or d k (JObj []) = JObj [] \<Longrightarrow> get_or (put_dict k v d) k (JObj []) = JObj v"
  "k \<noteq> k' \<Longrightarrow> get_or_null (put_dict k v d) k' = get_or_null d k'"
  "k \<noteq> k' \<Longrightarrow> get_or (put_dict k v d) k' x = get_or d k' x"
  by (simp_all add: put_dict_def)

lemma put_array_lookup [simp]:
  "get_or d k (JArr []) = JArr [] \<Longrightarrow> get_or (put_array k v d) k (JArr []) = JArr v"
  "k \<noteq> k' \<Longrightarrow> get_or_null (put_array k v d) k' = get_or_null d k'"
  "k \<noteq> k' \<Longrightarrow> get_or (put_array k v d) k' x = get_or d k' x"
  by (simp_all add: put_array_def)

lemmas put_defs = put_field_def put_dict_def put_array_def

lemma get_or_null_dput [simp]:
  "get_or_null (dput d k v) k' = (if k = k' then v else get_or_null d k')"
  by (simp add: get_or_null_def)

lemma get_or_dput [simp]:
  "get_or (dput d k v) k' x = (if k = k' then v else get_or d k' x)"
  by (simp add: get_or_def)

lemma get_or_null_Some [simp]: "map_of d k = Some v \<Longrightarrow> get_or_null d k = v"
  and get_or_null_None [simp]: "map_of d k = None \<Longrightarrow> get_or_null d k = JNull"
  by (simp_all add: get_or_null_def)

lemma get_or_Some [simp]: "map_of d k = Some v \<Longrightarrow> get_or d k x = v"
  and get_or_None [simp]: "map_of d k = None \<Longrightarrow> get_or d k x = x"
  by (simp_all add: get_or_def)

section \<open>Nesting depth and well-formedness\<close>

fun json_depth :: "json \<Rightarrow> nat" where
  "json_depth (JArr xs) = Suc (fold max (map json_depth xs) 0)"
| "json_depth (JTup xs) = Suc (fold max (map json_depth xs) 0)"
| "json_depth (JObj d) = Suc (fold max (map (\<lambda>p. json_depth (snd p)) d) 0)"
| "json_depth _ = 1"

fun json_wf :: "json \<Rightarrow> bool" where
  "json_wf (JArr xs) = list_all json_wf xs"
| "json_wf (JTup xs) = list_all json_wf xs"
| "json_wf (JObj d) = (dict_wf d \<and> list_all (\<lambda>p. json_wf (snd p)) d)"
| "json_wf _ = True"

fun json_children :: "json \<Rightarrow> json list" where
  "json_children (JArr xs) = xs"
| "json_children (JTup xs) = xs"
| "json_children (JObj d) = map snd d"
| "json_children _ = []"

lemma fold_max_le:
  fixes xs :: "nat list"
  shows "fold max xs a \<le> b \<longleftrightarrow> a \<le> b \<and> (\<forall>x\<in>set xs. x \<le> b)"
  by (induction xs arbitrary: a) auto

lemma json_depth_le_iff:
  "json_depth v \<le> n \<longleftrightarrow> 1 \<le> n \<and> (\<forall>c\<in>set (json_children v). json_depth c \<le> n - 1)"
  by (cases v) (cases n; auto simp: fold_max_le)+

lemma json_depth_pos: "1 \<le> json_depth v"
  by (cases v) auto

end
