(* ===== verification/Errors.thy ===== *)
theory Errors
  imports Values
begin

text \<open>
  Exceptions (\<^verbatim>\<open>core/errors.py\<close> and the built-in classes the kernel's \<open>except\<close>
  clauses tell apart). \<open>Refuse\<close> carries a \<open>RefusalException\<close>, \<open>Raise\<close> any other
  exception by its class and message. Messages that Python builds with \<open>repr\<close> or that
  no artifact ever carries are shortened to their fixed part.
\<close>

section \<open>Exception classes\<close>

datatype pyclass =
    ValueError | TypeError | KeyError | AttributeError | RuntimeError
  | OverflowError | RecursionError | OSError
  | DuplicateJSONKeyError | JSONInputTooLargeError | JSONNestingDepthError
  | CanonicalisationError | CapabilityError
  | OtherError string

text \<open>\<open>type(exc).__name__\<close>.\<close>

fun class_name :: "pyclass \<Rightarrow> string" where
  "class_name ValueError = ''ValueError''"
| "class_name TypeError = ''TypeError''"
| "class_name KeyError = ''KeyError''"
| "class_name AttributeError = ''AttributeError''"
| "class_name RuntimeError = ''RuntimeError''"
| "class_name OverflowError = ''OverflowError''"
| "class_name RecursionError = ''RecursionError''"
| "class_name OSError = ''OSError''"
| "class_name DuplicateJSONKeyError = ''DuplicateJSONKeyError''"
| "class_name JSONInputTooLargeError = ''JSONInputTooLargeError''"
| "class_name JSONNestingDepthError = ''JSONNestingDepthError''"
| "class_name CanonicalisationError = ''CanonicalisationError''"
| "class_name CapabilityError = ''CapabilityError''"
| "class_name (OtherError n) = n"

section \<open>Refusals\<close>

record violation =
  vi_code :: string
  vi_message :: string
  vi_field_path :: json
  vi_expected :: json
  vi_observed :: json

record refusal_exception =
  re_category :: string
  re_code :: string
  re_message :: string
  re_retryable :: bool
  re_rule_refs :: "string list"
  re_violations :: "violation list"
  re_details :: dict

datatype exn = Raise pyclass string | Refuse refusal_exception

type_synonym 'a res = "(exn, 'a) result"

text \<open>The constructors of \<^verbatim>\<open>core/errors.py\<close>.\<close>

definition RefusalException :: "string \<Rightarrow> string \<Rightarrow> string \<Rightarrow> bool \<Rightarrow> dict \<Rightarrow> exn" where
  "RefusalException category code message retryable details =
     Refuse \<lparr>re_category = category, re_code = code, re_message = message,
       re_retryable = retryable, re_rule_refs = [], re_violations = [], re_details = details\<rparr>"

definition ContractValidationError :: "string \<Rightarrow> violation list \<Rightarrow> exn" where
  "ContractValidationError message violations =
     Refuse \<lparr>re_category = ''schema'', re_code = ''SCHEMA_INVALID'', re_message = message,
       re_retryable = False, re_rule_refs = [], re_violations = violations, re_details = []\<rparr>"

definition PolicyDecisionError :: "string \<Rightarrow> string \<Rightarrow> string list \<Rightarrow> dict \<Rightarrow> exn" where
  "PolicyDecisionError code message rule_refs details =
     Refuse \<lparr>re_category = ''policy'', re_code = code, re_message = message,
       re_retryable = False, re_rule_refs = rule_refs, re_violations = [], re_details = details\<rparr>"

definition ProofVerificationError :: "string \<Rightarrow> string \<Rightarrow> exn" where
  "ProofVerificationError code message = RefusalException ''proof'' code message False []"

definition EscrowValidationError :: "string \<Rightarrow> string \<Rightarrow> exn" where
  "EscrowValidationError code message = RefusalException ''escrow'' code message False []"

definition EscrowConfigurationError :: "string \<Rightarrow> string \<Rightarrow> string \<Rightarrow> exn" where
  "EscrowConfigurationError message missing_field minting_step =
     RefusalException ''escrow'' ''ESCROW_CONFIGURATION_INVALID'' message False
       [(''missing_field'', JStr missing_field), (''minting_step'', JStr minting_step)]"

definition ReplayValidationError :: "string \<Rightarrow> string \<Rightarrow> dict \<Rightarrow> exn" where
  "ReplayValidationError code message details = RefusalException ''replay'' code message False details"

lemmas error_defs = RefusalException_def ContractValidationError_def PolicyDecisionError_def
  ProofVerificationError_def EscrowValidationError_def EscrowConfigurationError_def
  ReplayValidationError_def

definition is_refusal :: "exn \<Rightarrow> bool" where
  "is_refusal e = (case e of Refuse _ \<Rightarrow> True | Raise _ _ \<Rightarrow> False)"

text \<open>The refusal code of an exception, for stating which refusal an operation gives.\<close>

definition code_of :: "exn \<Rightarrow> string option" where
  "code_of e = (case e of Refuse r \<Rightarrow> Some (re_code r) | Raise _ _ \<Rightarrow> None)"

definition refusal_code :: "'a res \<Rightarrow> string option" where
  "refusal_code m = (case m of Inl e \<Rightarrow> code_of e | Inr _ \<Rightarrow> None)"

lemma is_refusal_simps [simp]:
  "is_refusal (Refuse r)" "\<not> is_refusal (Raise c m)"
  "is_refusal (RefusalException cat code msg b det)"
  "is_refusal (ContractValidationError msg vs)"
  "is_refusal (PolicyDecisionError code msg rs det)"
  "is_refusal (ProofVerificationError code msg)"
  "is_refusal (EscrowValidationError code msg)"
  "is_refusal (ReplayValidationError code msg det)"
  by (simp_all add: is_refusal_def error_defs)

lemma code_of_simps [simp]:
  "code_of (Refuse r) = Some (re_code r)"
  "code_of (Raise c m) = None"
  "code_of (RefusalException cat code msg b det) = Some code"
  "code_of (ContractValidationError msg vs) = Some ''SCHEMA_INVALID''"
  "code_of (PolicyDecisionError code msg rs det) = Some code"
  "code_of (ProofVerificationError code msg) = Some code"
  "code_of (EscrowValidationError code msg) = Some code"
  "code_of (ReplayValidationError code msg det) = Some code"
  by (simp_all add: code_of_def error_defs)

lemma refusal_code_simps [simp]:
  "refusal_code (Inl e) = code_of e" "refusal_code (Inr x) = None"
  by (simp_all add: refusal_code_def)

text \<open>All refusals a computation can end with satisfy \<open>P\<close>; other exceptions are not constrained.\<close>

definition refusals_in :: "(exn \<Rightarrow> bool) \<Rightarrow> 'a res \<Rightarrow> bool" where
  "refusals_in P m \<longleftrightarrow> (\<forall>e. m = Inl e \<longrightarrow> is_refusal e \<longrightarrow> P e)"

lemma refusals_in_simps [simp]:
  "refusals_in P (Inr x)" "refusals_in P (Inl e) \<longleftrightarrow> (is_refusal e \<longrightarrow> P e)"
  "refusals_in P (if c then m else m') \<longleftrightarrow> (c \<longrightarrow> refusals_in P m) \<and> (\<not> c \<longrightarrow> refusals_in P m')"
  by (simp_all add: refusals_in_def)

lemma refusals_in_bindR [intro]:
  "refusals_in P m \<Longrightarrow> (\<And>x. m = Inr x \<Longrightarrow> refusals_in P (f x)) \<Longrightarrow> refusals_in P (bindR m f)"
  by (auto simp: refusals_in_def bindR_eq_Inl)

lemma refusals_in_mapR [intro]:
  "(\<And>x. x \<in> set xs \<Longrightarrow> refusals_in P (f x)) \<Longrightarrow> refusals_in P (mapR f xs)"
  by (induction xs) (auto intro!: refusals_in_bindR)

section \<open>What the sources import from other packages\<close>

text \<open>
  The kernel's only runtime dependency is \<open>actenon_protocol\<close>, whose code is not part of
  this repository, and it hashes with SHA-256. Everything it takes from them is a field of
  this record, an argument of the definitions that use it:
  the depth limit and the profile names of the canonicalisation, the capability and
  authority helpers, the effect helpers, whether the two exception classes of the protocol
  are subclasses of \<open>ValueError\<close>, and the digest function on bytes.
\<close>

record deps =
  dep_max_json_depth :: int
  dep_profile :: string
  dep_accepted_profiles :: "string list"
  dep_capability_in_scope :: "string \<Rightarrow> string list \<Rightarrow> bool"
  dep_scope_capabilities_for_mint :: "string list \<Rightarrow> string list res"
  dep_parse_authority_extension :: "dict \<Rightarrow> dict res"
  dep_effect_profile :: string
  dep_effect_identity :: "dict \<Rightarrow> string res"
  dep_validate_effect_outcome :: "json \<Rightarrow> json \<Rightarrow> json \<Rightarrow> unit res"
  dep_canonicalisation_error_is_value_error :: bool
  dep_capability_error_is_value_error :: bool
  dep_sha256 :: "string \<Rightarrow> string"

text \<open>\<open>isinstance(exc, ValueError)\<close>.\<close>

fun is_value_error :: "deps \<Rightarrow> pyclass \<Rightarrow> bool" where
  "is_value_error D ValueError = True"
| "is_value_error D DuplicateJSONKeyError = True"
| "is_value_error D JSONInputTooLargeError = True"
| "is_value_error D JSONNestingDepthError = True"
| "is_value_error D CanonicalisationError = dep_canonicalisation_error_is_value_error D"
| "is_value_error D CapabilityError = dep_capability_error_is_value_error D"
| "is_value_error D _ = False"

text \<open>\<open>except (TypeError, ValueError)\<close> and \<open>except (TypeError, ValueError, RecursionError)\<close>.\<close>

definition catches_type_value :: "deps \<Rightarrow> exn \<Rightarrow> bool" where
  "catches_type_value D e =
     (case e of Raise c _ \<Rightarrow> c = TypeError \<or> is_value_error D c | Refuse _ \<Rightarrow> False)"

definition catches_type_value_recursion :: "deps \<Rightarrow> exn \<Rightarrow> bool" where
  "catches_type_value_recursion D e =
     (case e of Raise c _ \<Rightarrow> c = TypeError \<or> c = RecursionError \<or> is_value_error D c
      | Refuse _ \<Rightarrow> False)"

lemma catches_type_value_simps [simp]:
  "catches_type_value D (Raise TypeError m)"
  "catches_type_value D (Raise c m) \<longleftrightarrow> c = TypeError \<or> is_value_error D c"
  by (auto simp: catches_type_value_def)

end
