(* ===== verification/Json.thy ===== *)
theory Json
  imports Errors
begin

text \<open>
  JSON input hardening (\<^verbatim>\<open>core/json.py\<close>): the duplicate-key hook, the iterative depth
  check and the loader that combines them with the size limit. The grammar of JSON texts
  itself, \<open>json.loads\<close> without its hook, is a parameter of the loader: it yields the
  parse tree whose objects are still lists of pairs, possibly with repeated keys. The
  loader's guarantees (size, no duplicate key anywhere, bounded depth) hold for every
  such function.
\<close>

definition DEFAULT_MAX_JSON_BYTES :: int where
  "DEFAULT_MAX_JSON_BYTES = 1048576"

definition DEFAULT_MAX_JSON_DEPTH :: int where
  "DEFAULT_MAX_JSON_DEPTH = 128"

section \<open>Duplicate keys\<close>

fun reject_pairs_loop :: "dict \<Rightarrow> dict \<Rightarrow> dict res" where
  "reject_pairs_loop payload [] = Inr payload"
| "reject_pairs_loop payload ((key, v) # pairs) =
     (if dmem payload key then Inl (Raise DuplicateJSONKeyError ''duplicate JSON object key'')
      else reject_pairs_loop (dput payload key v) pairs)"

definition reject_duplicate_object_pairs :: "dict \<Rightarrow> dict res" where
  "reject_duplicate_object_pairs pairs = reject_pairs_loop [] pairs"

text \<open>\<open>object_pairs_hook\<close> is applied to every object, innermost first.\<close>

fun apply_hook :: "json \<Rightarrow> json res" where
  "apply_hook (JArr xs) = bindR (mapR apply_hook xs) (\<lambda>ys. Inr (JArr ys))"
| "apply_hook (JTup xs) = bindR (mapR apply_hook xs) (\<lambda>ys. Inr (JTup ys))"
| "apply_hook (JObj d) =
     bindR (mapR (\<lambda>p. bindR (apply_hook (snd p)) (\<lambda>w. Inr (fst p, w))) d) (\<lambda>e.
     bindR (reject_duplicate_object_pairs e) (\<lambda>f. Inr (JObj f)))"
| "apply_hook v = Inr v"

section \<open>Nesting depth\<close>

text \<open>
  The stack of \<open>(item, depth)\<close> pairs; its top is the head of the list, so that
  \<open>stack.extend\<close> puts the last child on top.
\<close>

function depth_loop :: "int \<Rightarrow> (json \<times> int) list \<Rightarrow> unit res" where
  "depth_loop max_depth [] = Inr ()"
| "depth_loop max_depth ((item, depth) # stack) =
     (if depth > max_depth
      then Inl (Raise JSONNestingDepthError ''JSON value exceeds maximum nesting depth'')
      else depth_loop max_depth (rev (map (\<lambda>c. (c, depth + 1)) (json_children item)) @ stack))"
  by pat_completeness auto

lemma sum_list_children_less:
  "sum_list (map (\<lambda>c. Suc (size c)) (json_children v)) < Suc (size (v :: json))"
proof (cases v)
  case (JArr xs)
  have "sum_list (map (\<lambda>c. Suc (size c)) xs) = size_list size xs"
    by (induction xs) auto
  with JArr show ?thesis by simp
next
  case (JTup xs)
  have "sum_list (map (\<lambda>c. Suc (size c)) xs) = size_list size xs"
    by (induction xs) auto
  with JTup show ?thesis by simp
next
  case (JObj d)
  have "sum_list (map ((\<lambda>c. Suc (size c)) \<circ> snd) d) \<le> size_list (size_prod (\<lambda>x. 0) size) d"
    by (induction d) auto
  with JObj show ?thesis by (simp add: comp_def)
qed auto

termination depth_loop
proof (relation "measure (\<lambda>(m, st). sum_list (map (\<lambda>p. Suc (size (fst p))) st))", goal_cases)
  case (2 max_depth item depth stack)
  then show ?case
    using sum_list_children_less [of item]
    by (simp add: rev_map [symmetric] comp_def sum_list_rev)
qed simp

definition validate_json_depth :: "int \<Rightarrow> json \<Rightarrow> unit res" where
  "validate_json_depth max_depth v =
     (if max_depth \<le> 0 then Inl (Raise ValueError ''max_depth must be positive'')
      else depth_loop max_depth [(v, 1)])"

section \<open>The loader\<close>

datatype raw_input = RawStr string | RawBytes string

text \<open>
  \<open>_input_size\<close>: a text is measured by its UTF-8 encoding, which fails on a lone
  surrogate with \<open>UnicodeEncodeError\<close>, a subclass of \<open>ValueError\<close>.
\<close>

fun input_size :: "raw_input \<Rightarrow> int res" where
  "input_size (RawStr s) =
     (if has_surrogate s then Inl (Raise ValueError ''surrogates not allowed'')
      else Inr (int (length s)))"
| "input_size (RawBytes b) = Inr (int (length b))"

definition loads_no_duplicate_keys ::
  "(string \<Rightarrow> string res) \<Rightarrow> (string \<Rightarrow> json res) \<Rightarrow> int \<Rightarrow> int \<Rightarrow> raw_input \<Rightarrow> json res" where
  "loads_no_duplicate_keys decode parse max_bytes max_depth raw =
     (if max_bytes \<le> 0 then Inl (Raise ValueError ''max_bytes must be positive'')
      else bindR (input_size raw) (\<lambda>n.
        if n > max_bytes then Inl (Raise JSONInputTooLargeError ''JSON input exceeds maximum size'')
        else bindR (case raw of RawStr s \<Rightarrow> Inr s | RawBytes b \<Rightarrow> decode b) (\<lambda>text.
        bindR (case bindR (parse text) apply_hook of
                 Inl (Raise RecursionError m) \<Rightarrow>
                   Inl (Raise JSONNestingDepthError ''JSON input exceeds maximum nesting depth'')
               | r \<Rightarrow> r) (\<lambda>payload.
        bindR (validate_json_depth max_depth payload) (\<lambda>_. Inr payload)))))"

section \<open>Conversions to a dictionary\<close>

text \<open>
  The built-in \<open>dict(x)\<close> that the contract parsers apply to unchecked fields: a mapping
  is copied, an iterable must consist of two-element iterables, anything else is a
  \<open>TypeError\<close>. Keys are texts throughout the model: a pair whose first element is not a
  text is refused here with the \<open>TypeError\<close> that Python gives for it when the object is
  canonicalised.
\<close>

fun as_sequence :: "json \<Rightarrow> json list option" where
  "as_sequence (JArr xs) = Some xs"
| "as_sequence (JTup xs) = Some xs"
| "as_sequence (JStr s) = Some (map JStr (codepoints s))"
| "as_sequence (JObj d) = Some (map (\<lambda>p. JStr (fst p)) d)"
| "as_sequence _ = None"

definition dict_pair :: "nat \<Rightarrow> json \<Rightarrow> (string \<times> json) res" where
  "dict_pair i x = (case as_sequence x of
       None \<Rightarrow> Inl (Raise TypeError ''cannot convert dictionary update sequence element to a sequence'')
     | Some [k, v] \<Rightarrow> (case k of JStr s \<Rightarrow> Inr (s, v)
         | _ \<Rightarrow> Inl (Raise TypeError ''canonical JSON object keys must be strings''))
     | Some ys \<Rightarrow> Inl (Raise ValueError (''dictionary update sequence element #'' @ show_nat i
         @ '' has length '' @ show_nat (length ys) @ ''; 2 is required'')))"

fun dict_pairs :: "nat \<Rightarrow> json list \<Rightarrow> dict \<Rightarrow> dict res" where
  "dict_pairs i [] d = Inr d"
| "dict_pairs i (x # xs) d = bindR (dict_pair i x) (\<lambda>p. dict_pairs (Suc i) xs (dput d (fst p) (snd p)))"

fun py_dict :: "json \<Rightarrow> dict res" where
  "py_dict (JObj d) = Inr d"
| "py_dict v = (case as_sequence v of
       None \<Rightarrow> Inl (Raise TypeError ''object is not iterable'')
     | Some xs \<Rightarrow> dict_pairs 0 xs [])"

section \<open>Lemmas\<close>

lemma reject_pairs_loop_Inr:
  "dict_wf payload \<Longrightarrow> reject_pairs_loop payload pairs = Inr d \<Longrightarrow>
     dict_wf d \<and> d = payload @ pairs"
proof (induction payload pairs rule: reject_pairs_loop.induct)
  case (2 payload key v pairs)
  have "dput payload key v = payload @ [(key, v)]" if "\<not> dmem payload key"
    using that by (induction payload key v rule: dput.induct) (auto simp: dmem_def split: if_splits)
  moreover have "dict_wf (payload @ [(key, v)])" if "\<not> dmem payload key"
    using that 2 by (auto simp: dict_wf_def dmem_iff)
  ultimately show ?case using 2 by (auto split: if_splits)
qed auto

lemma reject_duplicate_object_pairs_Inr:
  "reject_duplicate_object_pairs pairs = Inr d \<Longrightarrow> dict_wf d \<and> d = pairs"
  using reject_pairs_loop_Inr [of "[]" pairs d] by (auto simp: reject_duplicate_object_pairs_def)

lemma reject_pairs_loop_wf:
  "dict_wf (payload @ pairs) \<Longrightarrow> reject_pairs_loop payload pairs = Inr (payload @ pairs)"
proof (induction payload pairs rule: reject_pairs_loop.induct)
  case (2 payload key v pairs)
  have "\<not> dmem payload key"
    using 2 by (auto simp: dict_wf_def dmem_iff)
  moreover from this have "dput payload key v = payload @ [(key, v)]"
    by (induction payload key v rule: dput.induct) (auto simp: dmem_def split: if_splits)
  ultimately show ?case using 2 by simp
qed simp

lemma reject_duplicate_object_pairs_iff:
  "reject_duplicate_object_pairs pairs =
     (if dict_wf pairs then Inr pairs
      else Inl (Raise DuplicateJSONKeyError ''duplicate JSON object key''))"
proof (cases "dict_wf pairs")
  case True
  then show ?thesis
    using reject_pairs_loop_wf [of "[]" pairs] by (simp add: reject_duplicate_object_pairs_def)
next
  case False
  have "reject_pairs_loop payload ps = Inl e \<Longrightarrow>
      e = Raise DuplicateJSONKeyError ''duplicate JSON object key''" for payload ps e
    by (induction payload ps rule: reject_pairs_loop.induct) (auto split: if_splits)
  with False reject_duplicate_object_pairs_Inr [of pairs] show ?thesis
    by (cases "reject_pairs_loop [] pairs") (auto simp: reject_duplicate_object_pairs_def)
qed

lemma apply_hook_wf: "apply_hook v = Inr w \<Longrightarrow> json_wf w"
proof (induction v arbitrary: w rule: apply_hook.induct)
  case (1 xs)
  then show ?case
    by (auto simp: mapR_eq_Inr list_all2_conv_all_nth list_all_length) (metis nth_mem)
next
  case (2 xs)
  then show ?case
    by (auto simp: mapR_eq_Inr list_all2_conv_all_nth list_all_length) (metis nth_mem)
next
  case (3 d)
  then obtain e f where e: "mapR (\<lambda>p. bindR (apply_hook (snd p)) (\<lambda>w. Inr (fst p, w))) d = Inr e"
    and f: "reject_duplicate_object_pairs e = Inr f" and w: "w = JObj f"
    by auto
  have "list_all (\<lambda>p. json_wf (snd p)) e"
    unfolding list_all_length
  proof (intro allI impI)
    fix n assume n: "n < length e"
    from e have l: "list_all2 (\<lambda>p q. bindR (apply_hook (snd p)) (\<lambda>w. Inr (fst p, w)) = Inr q) d e"
      by (simp add: mapR_eq_Inr)
    from list_all2_nthD2 [OF l n] have "apply_hook (snd (d ! n)) = Inr (snd (e ! n))"
      by (auto simp: prod_eq_iff)
    moreover have "d ! n \<in> set d"
      using l n by (simp add: list_all2_lengthD)
    ultimately show "json_wf (snd (e ! n))" using "3.IH" by blast
  qed
  with f w show ?case
    by (auto dest: reject_duplicate_object_pairs_Inr)
qed auto

lemma depth_loop_iff:
  "is_ok (depth_loop m st) \<longleftrightarrow>
     (\<forall>(v, k) \<in> set st. k + int (json_depth v) - 1 \<le> m)"
proof (induction m st rule: depth_loop.induct)
  case (2 m item k st)
  show ?case
  proof (cases "k > m")
    case True
    then show ?thesis
      using json_depth_pos [of item] by auto
  next
    case False
    have "(\<forall>c\<in>set (json_children item). k + 1 + int (json_depth c) - 1 \<le> m) \<longleftrightarrow>
        k + int (json_depth item) - 1 \<le> m"
    proof -
      have "k + int (json_depth item) - 1 \<le> m \<longleftrightarrow> json_depth item \<le> nat (m - k + 1)"
        using False by linarith
      also have "\<dots> \<longleftrightarrow> (\<forall>c\<in>set (json_children item). json_depth c \<le> nat (m - k))"
        using False by (subst json_depth_le_iff) (simp add: nat_diff_distrib' nat_add_distrib le_nat_iff)
      finally show ?thesis
        using False by (force simp: le_nat_iff)
    qed
    moreover have "is_ok (depth_loop m ((item, k) # st)) \<longleftrightarrow>
        (\<forall>(v, j) \<in> set (rev (map (\<lambda>c. (c, k + 1)) (json_children item)) @ st). j + int (json_depth v) - 1 \<le> m)"
      using 2 False by simp
    ultimately show ?thesis by (simp add: ball_Un)
  qed
qed simp

lemma validate_json_depth_iff:
  "is_ok (validate_json_depth m v) \<longleftrightarrow> 0 < m \<and> int (json_depth v) \<le> m"
  using depth_loop_iff [of m "[(v, 1)]"] by (auto simp: validate_json_depth_def)

lemma depth_loop_error:
  "depth_loop m st = Inl e \<Longrightarrow> e = Raise JSONNestingDepthError ''JSON value exceeds maximum nesting depth''"
  by (induction m st rule: depth_loop.induct) (auto split: if_splits)

lemma depth_loop_eq:
  "depth_loop m [(v, 1)] =
     (if int (json_depth v) \<le> m then Inr ()
      else Inl (Raise JSONNestingDepthError ''JSON value exceeds maximum nesting depth''))"
  using depth_loop_iff [of m "[(v, 1)]"] depth_loop_error [of m "[(v, 1)]"]
  by (cases "depth_loop m [(v, 1)]") auto

lemma dict_pairs_wf: "dict_wf d \<Longrightarrow> dict_pairs i xs d = Inr e \<Longrightarrow> dict_wf e"
  by (induction i xs d rule: dict_pairs.induct) (auto intro: dict_wf_dput)

end
