(* ===== verification/Timestamps.thy ===== *)
theory Timestamps
  imports Json
begin

text \<open>
  Timestamps (\<^verbatim>\<open>models/contracts.py\<close>: \<open>format_timestamp\<close>, \<open>parse_timestamp\<close>,
  \<open>parse_calendar_date\<close>). An aware \<open>datetime\<close> is the instant it denotes, the number
  of microseconds since 0001-01-01T00:00:00 UTC: comparison, subtraction and
  \<open>astimezone\<close> of aware datetimes only depend on it. The proleptic Gregorian calendar of
  the \<open>datetime\<close> module is written out, and texts are parsed by the grammar the
  source's regular expression states.
\<close>

type_synonym datetime = int

section \<open>The calendar\<close>

definition is_leap :: "nat \<Rightarrow> bool" where
  "is_leap y = (y mod 4 = 0 \<and> (y mod 100 \<noteq> 0 \<or> y mod 400 = 0))"

text \<open>Days before the first of January of the year \<open>z + 1\<close>.\<close>

definition days_before_year :: "nat \<Rightarrow> nat" where
  "days_before_year z = 365 * z + z div 4 - z div 100 + z div 400"

definition days_in_month :: "bool \<Rightarrow> nat \<Rightarrow> nat" where
  "days_in_month leap m =
     (if m = 2 then (if leap then 29 else 28) else if m \<in> {4, 6, 9, 11} then 30 else 31)"

definition days_before_month :: "bool \<Rightarrow> nat \<Rightarrow> nat" where
  "days_before_month leap m = [0, 0, 31, 59, 90, 120, 151, 181, 212, 243, 273, 304, 334] ! m
     + (if leap \<and> 2 < m then 1 else 0)"

text \<open>\<open>date.toordinal() - 1\<close> and its inverse.\<close>

definition days_of_ymd :: "nat \<Rightarrow> nat \<Rightarrow> nat \<Rightarrow> nat" where
  "days_of_ymd y m d = days_before_year (y - 1) + days_before_month (is_leap y) m + d - 1"

definition year_of_days :: "nat \<Rightarrow> nat" where
  "year_of_days n = (let z = n * 400 div 146097 in
     if days_before_year (z + 1) \<le> n then z + 2 else z + 1)"

definition month_of_yday :: "bool \<Rightarrow> nat \<Rightarrow> nat" where
  "month_of_yday leap r = length (filter (\<lambda>m. days_before_month leap m \<le> r) [1..<13])"

definition ymd_of_days :: "nat \<Rightarrow> nat \<times> nat \<times> nat" where
  "ymd_of_days n = (let y = year_of_days n;
       r = n - days_before_year (y - 1);
       m = month_of_yday (is_leap y) r
     in (y, m, r - days_before_month (is_leap y) m + 1))"

definition valid_ymd :: "nat \<Rightarrow> nat \<Rightarrow> nat \<Rightarrow> bool" where
  "valid_ymd y m d = (1 \<le> y \<and> y \<le> 9999 \<and> 1 \<le> m \<and> m \<le> 12 \<and> 1 \<le> d \<and> d \<le> days_in_month (is_leap y) m)"

definition valid_clock :: "nat \<Rightarrow> nat \<Rightarrow> nat \<Rightarrow> bool" where
  "valid_clock h mi s = (h \<le> 23 \<and> mi \<le> 59 \<and> s \<le> 59)"

text \<open>The range of \<open>datetime\<close>: years 1 to 9999.\<close>

definition datetime_limit :: int where
  "datetime_limit = 315537897600000000"

definition dt_ok :: "datetime \<Rightarrow> bool" where
  "dt_ok t = (0 \<le> t \<and> t < datetime_limit)"

section \<open>Formatting\<close>

definition date_text :: "nat \<Rightarrow> string" where
  "date_text n = (case ymd_of_days n of (y, m, d) \<Rightarrow>
     show_pad 4 y @ ''-'' @ show_pad 2 m @ ''-'' @ show_pad 2 d)"

definition clock_text :: "nat \<Rightarrow> string" where
  "clock_text sod = show_pad 2 (sod div 3600) @ '':'' @ show_pad 2 (sod div 60 mod 60) @ '':''
     @ show_pad 2 (sod mod 60)"

definition fraction_text :: "nat \<Rightarrow> string" where
  "fraction_text us = (if us = 0 then [] else ''.'' @ show_pad 6 us)"

text \<open>\<open>value.astimezone(utc).isoformat().replace("+00:00", "Z")\<close>: no fraction when it is zero.\<close>

definition format_timestamp :: "datetime \<Rightarrow> string" where
  "format_timestamp t = (let n = nat t; secs = n div 1000000 in
     date_text (secs div 86400) @ ''T'' @ clock_text (secs mod 86400)
       @ fraction_text (n mod 1000000) @ ''Z'')"

section \<open>Parsing\<close>

definition is_full_date :: "string \<Rightarrow> bool" where
  "is_full_date s = (length s = 10 \<and> list_all is_digit (take 4 s) \<and> s ! 4 = CHR ''-''
     \<and> is_digit (s ! 5) \<and> is_digit (s ! 6) \<and> s ! 7 = CHR ''-'' \<and> is_digit (s ! 8) \<and> is_digit (s ! 9))"

definition is_clock :: "string \<Rightarrow> bool" where
  "is_clock s = (length s = 8 \<and> is_digit (s ! 0) \<and> is_digit (s ! 1) \<and> s ! 2 = CHR '':''
     \<and> is_digit (s ! 3) \<and> is_digit (s ! 4) \<and> s ! 5 = CHR '':'' \<and> is_digit (s ! 6) \<and> is_digit (s ! 7))"

definition is_offset :: "string \<Rightarrow> bool" where
  "is_offset s = (s = ''Z'' \<or> (length s = 6 \<and> (s ! 0 = CHR ''+'' \<or> s ! 0 = CHR ''-'')
     \<and> is_digit (s ! 1) \<and> is_digit (s ! 2) \<and> s ! 3 = CHR '':'' \<and> is_digit (s ! 4) \<and> is_digit (s ! 5)))"

text \<open>\<open>_DATE_TIME.fullmatch\<close>: the groups date, time, frac and offset (empty when absent).\<close>

definition match_fraction :: "string \<Rightarrow> (string \<times> string) option" where
  "match_fraction rest = (case rest of
       [] \<Rightarrow> Some ([], [])
     | c # r \<Rightarrow> (if c = CHR ''.'' then
           (if takeWhile is_digit r = [] then None
            else Some (takeWhile is_digit r, dropWhile is_digit r))
         else Some ([], rest)))"

definition match_date_time :: "string \<Rightarrow> (string \<times> string \<times> string \<times> string) option" where
  "match_date_time raw =
     (if 19 \<le> length raw \<and> is_full_date (take 10 raw)
         \<and> (raw ! 10 = CHR ''T'' \<or> raw ! 10 = CHR ''t'' \<or> raw ! 10 = CHR '' '')
         \<and> is_clock (take 8 (drop 11 raw))
      then (case match_fraction (drop 19 raw) of
          None \<Rightarrow> None
        | Some (fr, off) \<Rightarrow>
            (if off = [] \<or> is_offset off
             then Some (take 10 raw, take 8 (drop 11 raw), fr, off) else None))
      else None)"

definition offset_minutes :: "string \<Rightarrow> int" where
  "offset_minutes off = (if off = ''Z'' then 0
     else (if off ! 0 = CHR ''-'' then -1 else 1)
       * int (read_nat (take 2 (drop 1 off)) * 60 + read_nat (take 2 (drop 4 off))))"

definition pad_fraction :: "string \<Rightarrow> string" where
  "pad_fraction fr = take 6 fr @ replicate (6 - length (take 6 fr)) CHR ''0''"

text \<open>
  \<open>datetime.fromisoformat\<close> on the normalised form, then \<open>astimezone(utc)\<close>: calendar
  and clock ranges are \<open>ValueError\<close>s that the source catches, while leaving the range
  of \<open>datetime\<close> by the offset is an \<open>OverflowError\<close> that it does not catch.
\<close>

definition instant_of :: "string \<Rightarrow> string \<Rightarrow> string \<Rightarrow> string \<Rightarrow> string \<Rightarrow> datetime res" where
  "instant_of field_name date clock fr off =
     (let y = read_nat (take 4 date); m = read_nat (take 2 (drop 5 date)); d = read_nat (drop 8 date);
          h = read_nat (take 2 clock); mi = read_nat (take 2 (drop 3 clock)); s = read_nat (drop 6 clock);
          us = read_nat (pad_fraction fr)
      in if valid_ymd y m d \<and> valid_clock h mi s
         then (let t = int ((days_of_ymd y m d * 86400 + h * 3600 + mi * 60 + s) * 1000000 + us)
                 - offset_minutes off * 60000000
               in if dt_ok t then Inr t else Inl (Raise OverflowError ''date value out of range''))
         else Inl (Raise ValueError (field_name @ '' must be an RFC3339 timestamp string'')))"

definition parse_timestamp :: "json \<Rightarrow> string \<Rightarrow> datetime res" where
  "parse_timestamp raw field_name =
     (case raw of
        JStr s \<Rightarrow> (case match_date_time s of
            None \<Rightarrow> Inl (Raise ValueError (field_name @ '' must be an RFC3339 timestamp string''))
          | Some (date, clock, fr, off) \<Rightarrow>
              if off = [] then Inl (Raise ValueError (field_name @ '' must include timezone information''))
              else if off \<noteq> ''Z'' \<and> (23 < read_nat (take 2 (drop 1 off)) \<or> 59 < read_nat (take 2 (drop 4 off)))
              then Inl (Raise ValueError (field_name @ '' must be an RFC3339 timestamp string''))
              else instant_of field_name date clock fr off)
      | _ \<Rightarrow> Inl (Raise ValueError (field_name @ '' must be an RFC3339 timestamp string'')))"

definition parse_calendar_date :: "json \<Rightarrow> string \<Rightarrow> (nat \<times> nat \<times> nat) res" where
  "parse_calendar_date raw field_name =
     (case raw of
        JStr s \<Rightarrow>
          (let y = read_nat (take 4 s); m = read_nat (take 2 (drop 5 s)); d = read_nat (drop 8 s)
           in if is_full_date s \<and> valid_ymd y m d then Inr (y, m, d)
              else Inl (Raise ValueError (field_name @ '' must be a YYYY-MM-DD date'')))
      | _ \<Rightarrow> Inl (Raise ValueError (field_name @ '' must be a YYYY-MM-DD date'')))"

section \<open>The calendar is a bijection\<close>

lemma days_before_year_eq: "days_before_year z + z div 100 = 365 * z + z div 4 + z div 400"
proof -
  have "z div 100 \<le> z div 4"
    by (simp add: div_le_mono2)
  then show ?thesis
    unfolding days_before_year_def by linarith
qed

lemma days_before_year_bounds:
  "400 * days_before_year z \<le> 146097 * z + 399" "146097 * z < 400 * days_before_year z + 700"
proof -
  have b: "4 * (z div 4) \<le> z" "z < 4 * (z div 4) + 4" "100 * (z div 100) \<le> z"
    "z < 100 * (z div 100) + 100" "400 * (z div 400) \<le> z" "z < 400 * (z div 400) + 400"
    by simp_all
  show "400 * days_before_year z \<le> 146097 * z + 399"
    using b days_before_year_eq [of z] by linarith
  show "146097 * z < 400 * days_before_year z + 700"
    using b days_before_year_eq [of z] by linarith
qed

lemma days_before_year_Suc:
  "days_before_year (Suc z) = days_before_year z + (if is_leap (Suc z) then 366 else 365)"
proof -
  have d: "Suc z div k = (if Suc z mod k = 0 then Suc (z div k) else z div k)" if "k \<in> {4, 100, 400}" for k
    using that by (auto simp: div_Suc)
  have "Suc z mod 100 = 0 \<Longrightarrow> Suc z mod 4 = 0" "Suc z mod 400 = 0 \<Longrightarrow> Suc z mod 100 = 0"
    by presburger+
  then show ?thesis
    using days_before_year_eq [of z] days_before_year_eq [of "Suc z"] d [of 4] d [of 100] d [of 400]
    unfolding is_leap_def by (auto split: if_splits)
qed

lemma year_of_days_bounds:
  "1 \<le> year_of_days n" "days_before_year (year_of_days n - 1) \<le> n" "n < days_before_year (year_of_days n)"
proof -
  define z where "z = n * 400 div 146097"
  have z: "146097 * z \<le> 400 * n" "400 * n < 146097 * z + 146097"
    unfolding z_def by simp_all
  show "1 \<le> year_of_days n"
    by (simp add: year_of_days_def Let_def)
  show "days_before_year (year_of_days n - 1) \<le> n"
    using z days_before_year_bounds [of z]
    unfolding year_of_days_def z_def [symmetric] Let_def by (auto split: if_splits)
  show "n < days_before_year (year_of_days n)"
  proof (cases "days_before_year (z + 1) \<le> n")
    case True
    have "400 * n < 400 * (days_before_year (z + 1) + 2)"
      using z days_before_year_bounds(2) [of "z + 1"] by simp
    then have "n < days_before_year (z + 1) + 2"
      by (simp only: mult_less_cancel1)
    also have "\<dots> \<le> days_before_year (z + 2)"
      using days_before_year_Suc [of "z + 1"] by (auto split: if_splits)
    finally show ?thesis
      using True by (simp add: year_of_days_def Let_def z_def [symmetric])
  next
    case False
    then show ?thesis
      by (simp add: year_of_days_def Let_def z_def [symmetric])
  qed
qed

lemma days_before_year_mono: "a \<le> b \<Longrightarrow> days_before_year a \<le> days_before_year b"
proof (induction b)
  case (Suc b)
  then show ?case
    by (cases "a = Suc b") (auto simp: days_before_year_Suc)
qed simp

lemma year_of_days_unique:
  assumes "1 \<le> y" "days_before_year (y - 1) \<le> n" "n < days_before_year y"
  shows "year_of_days n = y"
proof (rule antisym)
  show "year_of_days n \<le> y"
    using assms year_of_days_bounds(2) [of n] days_before_year_mono [of y "year_of_days n - 1"]
    by linarith
  show "y \<le> year_of_days n"
    using assms year_of_days_bounds(3) [of n] days_before_year_mono [of "year_of_days n" "y - 1"]
    by linarith
qed

lemma month_cases:
  assumes "1 \<le> m" "m \<le> (12 :: nat)"
  obtains "m = 1" | "m = 2" | "m = 3" | "m = 4" | "m = 5" | "m = 6" | "m = 7" | "m = 8"
    | "m = 9" | "m = 10" | "m = 11" | "m = 12"
proof -
  have "m = 1 \<or> m = 2 \<or> m = 3 \<or> m = 4 \<or> m = 5 \<or> m = 6 \<or> m = 7 \<or> m = 8 \<or> m = 9 \<or> m = 10
      \<or> m = 11 \<or> m = 12"
    using assms by presburger
  then show ?thesis using that by blast
qed

lemma days_before_month_Suc:
  "1 \<le> m \<Longrightarrow> m < 12 \<Longrightarrow> days_before_month leap (Suc m) = days_before_month leap m + days_in_month leap m"
  by (rule month_cases [of m]) (simp_all add: days_before_month_def days_in_month_def)

lemma days_before_month_mono:
  "1 \<le> k \<Longrightarrow> k \<le> m \<Longrightarrow> m \<le> 12 \<Longrightarrow> days_before_month leap k \<le> days_before_month leap m"
proof (induction m)
  case (Suc m)
  then show ?case
    using days_before_month_Suc [of m leap] by (cases "k = Suc m") auto
qed simp

lemma month_of_yday_unique:
  assumes m: "1 \<le> m" "m \<le> 12" and r: "days_before_month leap m \<le> r"
    "r < days_before_month leap m + days_in_month leap m"
  shows "month_of_yday leap r = m"
proof -
  have "days_before_month leap k \<le> r \<longleftrightarrow> k \<le> m" if "k \<in> set [1..<13]" for k
  proof
    show "k \<le> m \<Longrightarrow> days_before_month leap k \<le> r"
      using days_before_month_mono [of k m leap] that m r by auto
    show "days_before_month leap k \<le> r \<Longrightarrow> k \<le> m"
    proof (rule ccontr)
      assume "days_before_month leap k \<le> r" "\<not> k \<le> m"
      then show False
        using days_before_month_mono [of "Suc m" k leap] days_before_month_Suc [of m leap] that m r
        by simp
    qed
  qed
  then have "filter (\<lambda>k. days_before_month leap k \<le> r) [1..<13] = filter (\<lambda>k. k \<le> m) [1..<13]"
    by (intro filter_cong) auto
  also have "\<dots> = [1..<Suc m]"
  proof -
    have "[1..<13] = [1..<Suc m] @ [Suc m..<13]"
      using m upt_add_eq_append [of 1 "Suc m" "12 - m"] by (simp del: upt_Suc)
    then show ?thesis
      by (auto simp: filter_id_conv filter_empty_conv)
  qed
  finally have "filter (\<lambda>k. days_before_month leap k \<le> r) [1..<13] = [1..<Suc m]" .
  then show ?thesis
    by (simp only: month_of_yday_def) simp
qed

lemma month_of_yday_bounds:
  assumes "r < (if leap then 366 else 365)"
  shows "1 \<le> month_of_yday leap r \<and> month_of_yday leap r \<le> 12
    \<and> days_before_month leap (month_of_yday leap r) \<le> r
    \<and> r < days_before_month leap (month_of_yday leap r) + days_in_month leap (month_of_yday leap r)"
proof -
  have ex: "\<exists>m. 1 \<le> m \<and> m \<le> 12 \<and> days_before_month leap m \<le> r
      \<and> r < days_before_month leap m + days_in_month leap m"
  proof (rule ccontr)
    assume "\<not> ?thesis"
    then have *: "days_before_month leap m \<le> r \<Longrightarrow> days_before_month leap m + days_in_month leap m \<le> r"
      if "1 \<le> m" "m \<le> 12" for m
      using that by force
    show False
      using assms * [of 1] * [of 2] * [of 3] * [of 4] * [of 5] * [of 6] * [of 7] * [of 8] * [of 9]
        * [of 10] * [of 11] * [of 12]
      by (cases leap) (simp_all add: days_before_month_def days_in_month_def)
  qed
  then obtain m where m: "1 \<le> m" "m \<le> 12" "days_before_month leap m \<le> r"
    "r < days_before_month leap m + days_in_month leap m"
    by blast
  with month_of_yday_unique [OF m] show ?thesis by simp
qed

lemma days_in_year: "days_before_month leap m + days_in_month leap m \<le> (if leap then 366 else 365)"
  if "1 \<le> m" "m \<le> 12"
  by (rule month_cases [OF that]) (simp_all add: days_before_month_def days_in_month_def)

lemma ymd_of_days_valid:
  assumes "ymd_of_days n = (y, m, d)"
  shows "1 \<le> y \<and> 1 \<le> m \<and> m \<le> 12 \<and> 1 \<le> d \<and> d \<le> days_in_month (is_leap y) m \<and> days_of_ymd y m d = n"
proof -
  define r where "r = n - days_before_year (year_of_days n - 1)"
  have y: "y = year_of_days n" and m: "m = month_of_yday (is_leap y) r"
    and d: "d = r - days_before_month (is_leap y) m + 1"
    using assms by (auto simp: ymd_of_days_def Let_def r_def)
  have "r < (if is_leap y then 366 else 365)"
    using year_of_days_bounds [of n] days_before_year_Suc [of "year_of_days n - 1"]
    by (auto simp: r_def y split: if_splits)
  from month_of_yday_bounds [OF this] show ?thesis
    using year_of_days_bounds [of n] unfolding m [symmetric]
    by (auto simp: days_of_ymd_def d r_def y)
qed

lemma ymd_of_days_of_ymd:
  assumes "valid_ymd y m d"
  shows "ymd_of_days (days_of_ymd y m d) = (y, m, d)"
proof -
  define n where "n = days_of_ymd y m d"
  have v: "1 \<le> y" "1 \<le> m" "m \<le> 12" "1 \<le> d" "d \<le> days_in_month (is_leap y) m"
    using assms by (auto simp: valid_ymd_def)
  have n: "n = days_before_year (y - 1) + (days_before_month (is_leap y) m + (d - 1))"
    using v by (simp add: n_def days_of_ymd_def)
  have "days_before_month (is_leap y) m + (d - 1) < (if is_leap y then 366 else 365)"
    using days_in_year [of m "is_leap y"] v by (auto split: if_splits)
  then have "n < days_before_year y"
    using days_before_year_Suc [of "y - 1"] v by (auto simp: n split: if_splits)
  then have y: "year_of_days n = y"
    using v n by (intro year_of_days_unique) auto
  have "month_of_yday (is_leap y) (days_before_month (is_leap y) m + (d - 1)) = m"
    using v by (intro month_of_yday_unique) auto
  then have "ymd_of_days n = (y, m, d)"
    using v unfolding ymd_of_days_def y Let_def by (simp add: n)
  then show ?thesis by (simp add: n_def)
qed

lemma year_of_days_le: "n < 3652059 \<Longrightarrow> year_of_days n \<le> 9999"
proof (rule ccontr)
  assume n: "n < 3652059" and "\<not> year_of_days n \<le> 9999"
  then have "days_before_year 9999 \<le> days_before_year (year_of_days n - 1)"
    by (intro days_before_year_mono) simp
  moreover have "days_before_year 9999 = 3652059"
    by (simp add: days_before_year_def)
  ultimately show False
    using n year_of_days_bounds(2) [of n] by linarith
qed

section \<open>Round trip\<close>

lemma show_pad_2: "show_pad 2 n = [digit_char (n div 10 mod 10), digit_char (n mod 10)]"
  by (simp only: numeral_2_eq_2 show_pad.simps append.simps)

lemma show_pad_4: "show_pad 4 n = [digit_char (n div 1000 mod 10), digit_char (n div 100 mod 10),
    digit_char (n div 10 mod 10), digit_char (n mod 10)]"
proof -
  have "(4 :: nat) = Suc (Suc (Suc (Suc 0)))"
    by simp
  then have "show_pad 4 n = [digit_char (n div 10 div 10 div 10 mod 10),
      digit_char (n div 10 div 10 mod 10), digit_char (n div 10 mod 10), digit_char (n mod 10)]"
    by (simp only: show_pad.simps append.simps)
  then show ?thesis
    by (simp add: div_mult2_eq [symmetric])
qed

lemma length_date_text [simp]: "length (date_text n) = 10"
  by (simp add: date_text_def split: prod.splits)

lemma length_clock_text [simp]: "length (clock_text n) = 8"
  by (simp add: clock_text_def)

lemma is_full_date_text: "is_full_date (date_text n)"
  by (simp add: is_full_date_def date_text_def show_pad_2 show_pad_4 split: prod.splits)

lemma is_clock_text: "is_clock (clock_text n)"
  by (simp add: is_clock_def clock_text_def show_pad_2)

lemma date_text_read:
  assumes "n < 3652059" "ymd_of_days n = (y, m, d)"
  shows "read_nat (take 4 (date_text n)) = y" "read_nat (take 2 (drop 5 (date_text n))) = m"
    "read_nat (drop 8 (date_text n)) = d" "valid_ymd y m d" "days_of_ymd y m d = n"
proof -
  have y: "y \<le> 9999"
    using year_of_days_le [OF assms(1)] assms(2) by (auto simp: ymd_of_days_def Let_def)
  have v: "1 \<le> y \<and> 1 \<le> m \<and> m \<le> 12 \<and> 1 \<le> d \<and> d \<le> days_in_month (is_leap y) m \<and> days_of_ymd y m d = n"
    using assms(2) by (rule ymd_of_days_valid)
  have d: "d < 100" and m: "m < 100"
    using v by (auto simp: days_in_month_def split: if_splits)
  show "read_nat (take 4 (date_text n)) = y" "read_nat (take 2 (drop 5 (date_text n))) = m"
    "read_nat (drop 8 (date_text n)) = d"
    using y m d by (simp_all add: date_text_def assms(2))
  show "valid_ymd y m d" "days_of_ymd y m d = n"
    using v y by (simp_all add: valid_ymd_def)
qed

lemma clock_text_read:
  assumes "n < 86400"
  shows "read_nat (take 2 (clock_text n)) = n div 3600"
    "read_nat (take 2 (drop 3 (clock_text n))) = n div 60 mod 60"
    "read_nat (drop 6 (clock_text n)) = n mod 60"
proof -
  have b: "n div 3600 < 100" "n div 60 mod 60 < 100" "n mod 60 < 100"
    using assms by (auto simp: less_mult_imp_div_less intro: less_trans [of _ 60])
  show "read_nat (take 2 (clock_text n)) = n div 3600"
    "read_nat (take 2 (drop 3 (clock_text n))) = n div 60 mod 60"
    "read_nat (drop 6 (clock_text n)) = n mod 60"
    using b by (simp_all add: clock_text_def)
qed

lemma clock_sum: "n div 3600 * 3600 + n div 60 mod 60 * 60 + n mod 60 = (n :: nat)"
proof -
  have "n div 3600 = n div 60 div 60"
    by (simp add: div_mult2_eq [symmetric])
  then have "n div 3600 * 60 + n div 60 mod 60 = n div 60"
    by simp
  then have "n div 3600 * 3600 + n div 60 mod 60 * 60 = n div 60 * 60"
    by simp
  then show ?thesis
    using div_mult_mod_eq [of n 60] by linarith
qed

lemma match_fraction_text:
  "match_fraction (fraction_text us @ ''Z'') = Some (if us = 0 then [] else show_pad 6 us, ''Z'')"
proof -
  have nz: "\<not> is_digit CHR ''Z''"
    by (simp add: is_digit_def)
  have "takeWhile is_digit (show_pad 6 us @ ''Z'') = show_pad 6 us"
    "dropWhile is_digit (show_pad 6 us @ ''Z'') = ''Z''"
    using show_pad_digits [of 6 us] nz
    by (auto simp: takeWhile_append list_all_iff dropWhile_append)
  moreover have "show_pad 6 us \<noteq> []"
    using length_show_pad [of 6 us] by fastforce
  ultimately show ?thesis
    by (simp add: match_fraction_def fraction_text_def)
qed

lemma pad_fraction_read:
  "us < 1000000 \<Longrightarrow> read_nat (pad_fraction (if us = 0 then [] else show_pad 6 us)) = us"
proof (cases "us = 0")
  case True
  have "show_pad w 0 = replicate w CHR ''0''" for w
    by (induction w) (simp_all add: digit_char_def replicate_append_same char_of_def bit_0)
  from this [of 6, symmetric] True show ?thesis by (simp add: pad_fraction_def)
qed (simp add: pad_fraction_def)

lemma match_format_timestamp:
  assumes "t = (secs * 1000000 + us)" "us < 1000000"
  shows "match_date_time (format_timestamp (int t)) =
    Some (date_text (secs div 86400), clock_text (secs mod 86400), if us = 0 then [] else show_pad 6 us, ''Z'')"
proof -
  define D where "D = date_text (secs div 86400)"
  define C where "C = clock_text (secs mod 86400)"
  have "nat (int t) div 1000000 = secs" "nat (int t) mod 1000000 = us"
    using assms unfolding nat_int by simp_all
  then have f: "format_timestamp (int t) = D @ ''T'' @ C @ fraction_text us @ ''Z''"
    by (simp only: format_timestamp_def Let_def D_def C_def)
  have l: "length D = 10" "length C = 8"
    by (simp_all add: D_def C_def)
  have "take 10 (format_timestamp (int t)) = D" "take 8 (drop 11 (format_timestamp (int t))) = C"
    "drop 19 (format_timestamp (int t)) = fraction_text us @ ''Z''"
    "format_timestamp (int t) ! 10 = CHR ''T''" "19 \<le> length (format_timestamp (int t))"
    using l by (simp_all add: f nth_append)
  then show ?thesis
    by (simp add: match_date_time_def match_fraction_text is_offset_def D_def C_def
        is_full_date_text is_clock_text)
qed

lemma parse_format_timestamp:
  assumes "dt_ok t"
  shows "parse_timestamp (JStr (format_timestamp t)) field_name = Inr t"
proof -
  define n where "n = nat t"
  define secs where "secs = n div 1000000"
  define us where "us = n mod 1000000"
  have t: "t = int n" and n: "n = secs * 1000000 + us" and us: "us < 1000000"
    using assms by (simp_all add: n_def secs_def us_def dt_ok_def)
  define q where "q = secs div 86400"
  define r where "r = secs mod 86400"
  have secs: "secs = q * 86400 + r" and r: "r < 86400"
    by (simp_all add: q_def r_def)
  have "n < 315537897600000000"
    using assms t by (simp add: dt_ok_def datetime_limit_def)
  then have "q * 86400000000 + r * 1000000 + us < 3652059 * 86400000000"
    unfolding n secs by (simp add: algebra_simps)
  then have "q * 86400000000 < 3652059 * 86400000000"
    by linarith
  then have q: "q < 3652059"
    by (simp only: mult_less_cancel2)
  obtain y m d where ymd: "ymd_of_days q = (y, m, d)"
    by (cases "ymd_of_days q")
  note D = date_text_read [OF q ymd] and C = clock_text_read [OF r]
  have vc: "valid_clock (r div 3600) (r div 60 mod 60) (r mod 60)"
    using r by (simp add: valid_clock_def less_Suc_eq_le [symmetric] less_mult_imp_div_less)
  have "int ((q * 86400 + r div 3600 * 3600 + r div 60 mod 60 * 60 + r mod 60) * 1000000 + us) = t"
    using clock_sum [of r] by (simp only: t n secs add.assoc)
  then have "instant_of field_name (date_text q) (clock_text r) (if us = 0 then [] else show_pad 6 us) ''Z'' = Inr t"
    using assms by (simp only: instant_of_def Let_def D C vc pad_fraction_read [OF us] offset_minutes_def if_True) simp
  moreover have "match_date_time (format_timestamp t) =
      Some (date_text q, clock_text r, if us = 0 then [] else show_pad 6 us, ''Z'')"
    using match_format_timestamp [OF n us] by (simp only: t q_def r_def)
  ultimately show ?thesis
    by (simp add: parse_timestamp_def)
qed

lemma format_timestamp_inj: "dt_ok a \<Longrightarrow> dt_ok b \<Longrightarrow> format_timestamp a = format_timestamp b \<longleftrightarrow> a = b"
  by (metis parse_format_timestamp sum.inject(2))

lemma parse_timestamp_ok: "parse_timestamp raw f = Inr t \<Longrightarrow> dt_ok t"
  by (auto simp: parse_timestamp_def instant_of_def Let_def split: json.splits option.splits prod.splits if_splits)

section \<open>The order of timestamp texts\<close>

text \<open>
  The stores keep timestamps as texts and compare them as texts. A family of texts is
  ordered by a value when equal-length texts compare as their values do; concatenation
  composes such families like the digits of a mixed-radix number.
\<close>

definition text_ordered :: "('a \<Rightarrow> bool) \<Rightarrow> ('a \<Rightarrow> string) \<Rightarrow> ('a \<Rightarrow> nat) \<Rightarrow> bool" where
  "text_ordered P T v = (\<forall>x y. P x \<longrightarrow> P y \<longrightarrow>
     length (T x) = length (T y) \<and> (T x < T y \<longleftrightarrow> v x < v y) \<and> (T x = T y \<longleftrightarrow> v x = v y))"

lemma text_orderedD:
  assumes "text_ordered P T v" "P x" "P y"
  shows "length (T x) = length (T y)" "T x < T y \<longleftrightarrow> v x < v y" "T x = T y \<longleftrightarrow> v x = v y"
  using assms unfolding text_ordered_def by blast+

lemma text_orderedI:
  assumes "\<And>x y. P x \<Longrightarrow> P y \<Longrightarrow> length (T x) = length (T y)"
    and "\<And>x y. P x \<Longrightarrow> P y \<Longrightarrow> T x < T y \<longleftrightarrow> v x < v y"
    and "\<And>x y. P x \<Longrightarrow> P y \<Longrightarrow> T x = T y \<longleftrightarrow> v x = v y"
  shows "text_ordered P T v"
  using assms unfolding text_ordered_def by blast

lemma mixed_radix_less:
  fixes q q' r r' B :: nat
  assumes "r < B" "r' < B"
  shows "q * B + r < q' * B + r' \<longleftrightarrow> q < q' \<or> q = q' \<and> r < r'"
proof -
  have "q < q' \<Longrightarrow> q * B + r < q' * B + r'"
  proof -
    assume "q < q'"
    then have "Suc q * B \<le> q' * B" by (intro mult_le_mono1) simp
    with assms show ?thesis by simp
  qed
  moreover have "q' < q \<Longrightarrow> q' * B + r' < q * B + r"
  proof -
    assume "q' < q"
    then have "Suc q' * B \<le> q * B" by (intro mult_le_mono1) simp
    with assms show ?thesis by simp
  qed
  ultimately show ?thesis by (cases q q' rule: linorder_cases) auto
qed

lemma text_ordered_append:
  assumes "text_ordered P T v" "text_ordered P U w" "\<And>x. P x \<Longrightarrow> w x < B"
  shows "text_ordered P (\<lambda>x. T x @ U x) (\<lambda>x. v x * B + w x)"
  unfolding text_ordered_def
proof (intro allI impI)
  fix x y assume P: "P x" "P y"
  note T = text_orderedD [OF assms(1) P] and U = text_orderedD [OF assms(2) P]
  have lt: "v x * B + w x < v y * B + w y \<longleftrightarrow> v x < v y \<or> v x = v y \<and> w x < w y"
    and gt: "v y * B + w y < v x * B + w x \<longleftrightarrow> v y < v x \<or> v y = v x \<and> w y < w x"
    using assms(3) [OF P(1)] assms(3) [OF P(2)] by (simp_all only: mixed_radix_less)
  have "v x * B + w x = v y * B + w y \<longleftrightarrow> v x = v y \<and> w x = w y"
    using lt gt by (metis linorder_neq_iff)
  with T U lt show "length (T x @ U x) = length (T y @ U y) \<and>
      (T x @ U x < T y @ U y \<longleftrightarrow> v x * B + w x < v y * B + w y) \<and>
      (T x @ U x = T y @ U y \<longleftrightarrow> v x * B + w x = v y * B + w y)"
    by (simp add: append_less_append)
qed

lemma text_ordered_const: "text_ordered P (\<lambda>x. s) (\<lambda>x. 0)"
  by (simp add: text_ordered_def)

lemma text_ordered_sep:
  "text_ordered P T v \<Longrightarrow> text_ordered P (\<lambda>x. T x @ s) v"
  using text_ordered_append [of P T v "\<lambda>x. s" "\<lambda>x. 0" 1] by (simp add: text_ordered_const)

lemma text_ordered_sep_left:
  assumes "text_ordered P T v"
  shows "text_ordered P (\<lambda>x. s @ T x) v"
proof (rule text_orderedI)
  fix x y assume P: "P x" "P y"
  note T = text_orderedD [OF assms P]
  show "length (s @ T x) = length (s @ T y)"
    using T(1) by simp
  show "s @ T x < s @ T y \<longleftrightarrow> v x < v y"
    unfolding append_less_append [OF refl] using T(2) by simp
  show "s @ T x = s @ T y \<longleftrightarrow> v x = v y"
    using T(3) by simp
qed

lemma text_ordered_pad: "(\<And>x. P x \<Longrightarrow> v x < 10 ^ w) \<Longrightarrow> text_ordered P (\<lambda>x. show_pad w (v x)) v"
  by (rule text_orderedI) (simp_all add: show_pad_less_iff show_pad_eq_iff)

lemma text_ordered_value:
  assumes "text_ordered P T v" "\<And>x y. P x \<Longrightarrow> P y \<Longrightarrow> (v x < v y \<longleftrightarrow> w x < w y)"
  shows "text_ordered P T w"
  unfolding text_ordered_def
proof (intro allI impI)
  fix x y assume P: "P x" "P y"
  have "v x = v y \<longleftrightarrow> w x = w y"
    using assms(2) [OF P] assms(2) [OF P(2,1)] by linarith
  then show "length (T x) = length (T y) \<and> (T x < T y \<longleftrightarrow> w x < w y) \<and> (T x = T y \<longleftrightarrow> w x = w y)"
    using text_orderedD [OF assms(1) P] assms(2) [OF P] by blast
qed

lemma ymd_less:
  assumes "ymd_of_days a = (y, m, d)" "ymd_of_days b = (y', m', d')" "a < b"
  shows "(y * 13 + m) * 32 + d < (y' * 13 + m') * 32 + d'"
proof -
  have A: "1 \<le> y \<and> 1 \<le> m \<and> m \<le> 12 \<and> 1 \<le> d \<and> d \<le> days_in_month (is_leap y) m \<and> days_of_ymd y m d = a"
    and B: "1 \<le> y' \<and> 1 \<le> m' \<and> m' \<le> 12 \<and> 1 \<le> d' \<and> d' \<le> days_in_month (is_leap y') m' \<and> days_of_ymd y' m' d' = b"
    using ymd_of_days_valid [OF assms(1)] ymd_of_days_valid [OF assms(2)] by auto
  have d: "d < 32" "d' < 32"
    using A B by (auto simp: days_in_month_def split: if_splits)
  have y: "y = year_of_days a" "y' = year_of_days b"
    using assms(1,2) by (auto simp: ymd_of_days_def Let_def)
  have "y \<le> y'"
  proof (rule ccontr)
    assume "\<not> y \<le> y'"
    then have "days_before_year y' \<le> days_before_year (y - 1)"
      by (intro days_before_year_mono) simp
    then show False
      using assms(3) year_of_days_bounds [of a] year_of_days_bounds [of b] y by simp
  qed
  moreover have "m \<le> m'" if "y = y'"
  proof (rule ccontr)
    assume "\<not> m \<le> m'"
    then have "days_before_month (is_leap y) (Suc m') \<le> days_before_month (is_leap y) m"
      using A B by (intro days_before_month_mono) auto
    moreover have "days_before_month (is_leap y) (Suc m') =
        days_before_month (is_leap y) m' + days_in_month (is_leap y) m'"
      using \<open>\<not> m \<le> m'\<close> A B by (intro days_before_month_Suc) auto
    ultimately show False
      using A B assms(3) that by (auto simp: days_of_ymd_def)
  qed
  moreover have "d < d'" if "y = y'" "m = m'"
    using A B assms(3) that by (auto simp: days_of_ymd_def)
  ultimately show ?thesis
    using A B d by (cases "y = y'"; cases "m = m'") auto
qed

lemma date_text_ordered: "text_ordered (\<lambda>n. n < 3652059) date_text (\<lambda>n. n)"
proof (rule text_ordered_value)
  let ?P = "\<lambda>n. n < (3652059 :: nat)"
  let ?y = "\<lambda>n. fst (ymd_of_days n)" and ?m = "\<lambda>n. fst (snd (ymd_of_days n))"
    and ?d = "\<lambda>n. snd (snd (ymd_of_days n))"
  have m: "?m n < 13" and d: "?d n < 32" for n
    using ymd_of_days_valid [of n]
    by (cases "ymd_of_days n"; force simp: days_in_month_def split: if_splits)+
  have mw: "?m n < 10 ^ 2" and dw: "?d n < 10 ^ 2" for n
    using m [of n] d [of n] by simp_all
  have y: "?y n < 10 ^ 4" if "?P n" for n
    using year_of_days_le [OF that] by (simp add: ymd_of_days_def Let_def)
  have "text_ordered ?P (\<lambda>n. (show_pad 4 (?y n) @ ''-'') @ (show_pad 2 (?m n) @ ''-'')) (\<lambda>n. ?y n * 13 + ?m n)"
    by (intro text_ordered_append text_ordered_sep text_ordered_pad y mw m)
  then have "text_ordered ?P (\<lambda>n. ((show_pad 4 (?y n) @ ''-'') @ (show_pad 2 (?m n) @ ''-'')) @ show_pad 2 (?d n))
      (\<lambda>n. (?y n * 13 + ?m n) * 32 + ?d n)"
    by (rule text_ordered_append) (intro text_ordered_pad dw d)+
  moreover have "date_text = (\<lambda>n. ((show_pad 4 (?y n) @ ''-'') @ (show_pad 2 (?m n) @ ''-'')) @ show_pad 2 (?d n))"
    by (simp add: fun_eq_iff date_text_def case_prod_beta)
  ultimately show "text_ordered ?P date_text (\<lambda>n. (?y n * 13 + ?m n) * 32 + ?d n)"
    by (simp only:)
next
  fix x y :: nat
  show "(fst (ymd_of_days x) * 13 + fst (snd (ymd_of_days x))) * 32 + snd (snd (ymd_of_days x))
      < (fst (ymd_of_days y) * 13 + fst (snd (ymd_of_days y))) * 32 + snd (snd (ymd_of_days y)) \<longleftrightarrow> x < y"
    using ymd_less [of x _ _ _ y] ymd_less [of y _ _ _ x]
    by (cases "ymd_of_days x"; cases "ymd_of_days y"; cases x y rule: linorder_cases) fastforce+
qed

lemma clock_text_ordered: "text_ordered (\<lambda>n. n < 86400) clock_text (\<lambda>n. n)"
proof -
  let ?P = "\<lambda>n. n < (86400 :: nat)"
  have h: "n div 3600 < 10 ^ 2" if "?P n" for n
    using that by (simp add: less_mult_imp_div_less)
  have b: "n div 60 mod 60 < 10 ^ 2" "n mod 60 < 10 ^ 2" "n div 60 mod 60 < 60" "n mod 60 < 60" for n :: nat
    using mod_less_divisor [of 60 "n div 60"] mod_less_divisor [of 60 n] by simp_all
  have "text_ordered ?P (\<lambda>n. (show_pad 2 (n div 3600) @ '':'') @ (show_pad 2 (n div 60 mod 60) @ '':''))
      (\<lambda>n. n div 3600 * 60 + n div 60 mod 60)"
    by (intro text_ordered_append text_ordered_sep text_ordered_pad h b)
  then have "text_ordered ?P (\<lambda>n. ((show_pad 2 (n div 3600) @ '':'') @ (show_pad 2 (n div 60 mod 60) @ '':''))
      @ show_pad 2 (n mod 60)) (\<lambda>n. (n div 3600 * 60 + n div 60 mod 60) * 60 + n mod 60)"
    by (rule text_ordered_append) (intro text_ordered_pad b)+
  moreover have "(n div 3600 * 60 + n div 60 mod 60) * 60 + n mod 60 = n" for n :: nat
    using clock_sum [of n] by (simp add: algebra_simps)
  ultimately show ?thesis
    by (simp add: clock_text_def [abs_def])
qed

lemma whole_seconds_ordered:
  "text_ordered (\<lambda>n. n < 315537897600) (\<lambda>n. date_text (n div 86400) @ ''T'' @ clock_text (n mod 86400)) (\<lambda>n. n)"
proof -
  let ?P = "\<lambda>n. n < (315537897600 :: nat)"
  have q: "n div 86400 < 3652059" if "?P n" for n
    using that by (simp add: less_mult_imp_div_less)
  have D: "text_ordered ?P (\<lambda>n. date_text (n div 86400)) (\<lambda>n. n div 86400)"
    using date_text_ordered q by (intro text_orderedI) (simp_all add: text_orderedD [OF date_text_ordered])
  have C: "text_ordered ?P (\<lambda>n. ''T'' @ clock_text (n mod 86400)) (\<lambda>n. n mod 86400)"
    by (intro text_ordered_sep_left, rule text_orderedI) (simp_all add: text_orderedD [OF clock_text_ordered])
  have "text_ordered ?P (\<lambda>n. date_text (n div 86400) @ (''T'' @ clock_text (n mod 86400)))
      (\<lambda>n. n div 86400 * 86400 + n mod 86400)"
    by (rule text_ordered_append [OF D C]) simp
  then show ?thesis by simp
qed

text \<open>
  Timestamp texts of the same shape (both with, or both without a fraction) compare as
  the instants do.
\<close>

lemma format_timestamp_less:
  assumes ok: "dt_ok a" "dt_ok b" and shape: "a mod 1000000 = 0 \<longleftrightarrow> b mod 1000000 = 0"
  shows "format_timestamp a < format_timestamp b \<longleftrightarrow> a < b"
proof -
  define m n where "m = nat a" and "n = nat b"
  have ab: "a = int m" "b = int n"
    using ok by (simp_all add: m_def n_def dt_ok_def)
  let ?W = "\<lambda>s. date_text (s div 86400) @ ''T'' @ clock_text (s mod 86400)"
  let ?F = "\<lambda>n. fraction_text (n mod 1000000)"
  have f: "format_timestamp (int n) = ?W (n div 1000000) @ ?F n @ ''Z''" for n
    by (simp add: format_timestamp_def Let_def)
  have "x div 1000000 < 315537897600" if "dt_ok (int x)" for x
    using that by (simp add: dt_ok_def datetime_limit_def less_mult_imp_div_less)
  then have P: "m div 1000000 < 315537897600" "n div 1000000 < 315537897600"
    using ok ab by simp_all
  note W = text_orderedD [OF whole_seconds_ordered P]
  have us: "m mod 1000000 < 10 ^ 6" "n mod 1000000 < 10 ^ 6"
    by simp_all
  have "int (m mod 1000000) = 0 \<longleftrightarrow> int (n mod 1000000) = 0"
    using shape by (simp only: ab zmod_int of_nat_numeral)
  then have "m mod 1000000 = 0 \<longleftrightarrow> n mod 1000000 = 0"
    by (simp only: of_nat_eq_0_iff)
  then have F: "?F m @ ''Z'' < ?F n @ ''Z'' \<longleftrightarrow> m mod 1000000 < n mod 1000000"
    using us by (auto simp: fraction_text_def append_less_append show_pad_less_iff)
  have "format_timestamp a < format_timestamp b \<longleftrightarrow>
      m div 1000000 < n div 1000000 \<or> m div 1000000 = n div 1000000 \<and> m mod 1000000 < n mod 1000000"
    unfolding ab f using W F by (simp only: append_less_append)
  also have "\<dots> \<longleftrightarrow> m < n"
    using mixed_radix_less [of "m mod 1000000" 1000000 "n mod 1000000" "m div 1000000" "n div 1000000"]
    by simp
  finally show ?thesis by (simp add: ab)
qed

lemma format_timestamp_le:
  assumes "dt_ok a" "dt_ok b" "a mod 1000000 = 0 \<longleftrightarrow> b mod 1000000 = 0"
  shows "format_timestamp a \<le> format_timestamp b \<longleftrightarrow> a \<le> b"
  using format_timestamp_less [OF assms(2,1)] assms(3) by (auto simp: linorder_not_less [symmetric])

end
