(* ===== verification/Canonical.thy ===== *)
theory Canonical
  imports Json
begin

text \<open>
  Canonical JSON (\<^verbatim>\<open>proof/canonical.py\<close>): the text every hash and signature of the
  kernel is taken over. The main result is that the canonical text determines the value
  up to the order of dictionary keys and the difference between lists and tuples, so that
  comparing canonical bytes compares contents.
\<close>

definition DEFAULT_MAX_CANONICAL_OUTPUT_BYTES :: int where
  "DEFAULT_MAX_CANONICAL_OUTPUT_BYTES = 1048576"

text \<open>CPython refuses to convert integers of more than 4300 decimal digits to text.\<close>

definition INT_MAX_STR_DIGITS :: nat where
  "INT_MAX_STR_DIGITS = 4300"

section \<open>Texts\<close>

text \<open>The escapes of \<open>json.dumps(value, ensure_ascii=False)\<close>.\<close>

definition escape_char :: "char \<Rightarrow> string" where
  "escape_char c =
     (if c = CHR 0x22 then [CHR 0x5C, CHR 0x22]
      else if c = CHR 0x5C then [CHR 0x5C, CHR 0x5C]
      else if c = CHR 0x0A then [CHR 0x5C, CHR ''n'']
      else if c = CHR 0x0D then [CHR 0x5C, CHR ''r'']
      else if c = CHR 0x09 then [CHR 0x5C, CHR ''t'']
      else if c = CHR 0x08 then [CHR 0x5C, CHR ''b'']
      else if c = CHR 0x0C then [CHR 0x5C, CHR ''f'']
      else if (of_char c :: nat) < 32 then [CHR 0x5C, CHR ''u'', CHR ''0'', CHR ''0''] @ hex_of_byte c
      else [c])"

definition quote_string :: "string \<Rightarrow> string" where
  "quote_string s = CHR 0x22 # concat (map escape_char s) @ [CHR 0x22]"

definition canonicalize_string :: "string \<Rightarrow> string res" where
  "canonicalize_string s =
     (if has_surrogate s then Inl (Raise CanonicalisationError
        ''strings must contain only Unicode scalar values (lone surrogate found)'')
      else Inr (quote_string s))"

section \<open>Values\<close>

fun canonicalize_value :: "json \<Rightarrow> string res" where
  "canonicalize_value JNull = Inr ''null''"
| "canonicalize_value (JBool b) = Inr (if b then ''true'' else ''false'')"
| "canonicalize_value (JInt i) =
     (if INT_MAX_STR_DIGITS < length (show_nat (nat \<bar>i\<bar>))
      then Inl (Raise ValueError ''Exceeds the limit (4300 digits) for integer string conversion'')
      else Inr (show_int i))"
| "canonicalize_value (JFloat f) =
     Inl (Raise TypeError ''floating-point values are not supported in canonical action hashing'')"
| "canonicalize_value (JStr s) = canonicalize_string s"
| "canonicalize_value (JArr xs) =
     bindR (mapR canonicalize_value xs) (\<lambda>ys. Inr (''['' @ join_with '','' ys @ '']''))"
| "canonicalize_value (JTup xs) =
     bindR (mapR canonicalize_value xs) (\<lambda>ys. Inr (''['' @ join_with '','' ys @ '']''))"
| "canonicalize_value (JObj d) =
     bindR (mapR (\<lambda>p. bindR (canonicalize_string (fst p)) (\<lambda>k. bindR (snd p) (\<lambda>v. Inr (k @ '':'' @ v))))
         (sort_key fst (map (\<lambda>p. (fst p, canonicalize_value (snd p))) d)))
       (\<lambda>pieces. Inr (''{'' @ join_with '','' pieces @ ''}''))"
| "canonicalize_value (JOther s) = Inl (Raise TypeError ''unsupported value type for canonicalization'')"

definition canonicalize_json :: "int \<Rightarrow> json \<Rightarrow> string res" where
  "canonicalize_json max_depth v =
     bindR (validate_json_depth (max_depth + 1) v) (\<lambda>_. canonicalize_value v)"

definition canonicalize_bytes_within :: "int \<Rightarrow> int \<Rightarrow> json \<Rightarrow> string res" where
  "canonicalize_bytes_within max_depth max_output_bytes v =
     (if max_output_bytes \<le> 0 then Inl (Raise ValueError ''max_output_bytes must be positive'')
      else bindR (canonicalize_json max_depth v) (\<lambda>encoded.
        if int (length encoded) > max_output_bytes
        then Inl (Raise JSONInputTooLargeError ''canonical JSON output exceeds maximum size'')
        else Inr encoded))"

definition canonicalize_bytes :: "deps \<Rightarrow> json \<Rightarrow> string res" where
  "canonicalize_bytes D v =
     canonicalize_bytes_within (dep_max_json_depth D) DEFAULT_MAX_CANONICAL_OUTPUT_BYTES v"

definition sha256_hex :: "deps \<Rightarrow> json \<Rightarrow> string res" where
  "sha256_hex D v = bindR (canonicalize_bytes D v) (\<lambda>b. Inr (hex_of_bytes (dep_sha256 D b)))"

section \<open>Normal forms\<close>

text \<open>Lists for tuples, dictionary entries sorted by key.\<close>

fun json_norm :: "json \<Rightarrow> json" where
  "json_norm (JArr xs) = JArr (map json_norm xs)"
| "json_norm (JTup xs) = JArr (map json_norm xs)"
| "json_norm (JObj d) = JObj (sort_key fst (map (\<lambda>p. (fst p, json_norm (snd p))) d))"
| "json_norm v = v"

fun json_plain :: "json \<Rightarrow> bool" where
  "json_plain (JArr xs) = list_all json_plain xs"
| "json_plain (JTup xs) = False"
| "json_plain (JObj d) = list_all (\<lambda>p. json_plain (snd p)) d"
| "json_plain (JFloat f) = False"
| "json_plain (JOther s) = False"
| "json_plain v = True"

fun encode :: "json \<Rightarrow> string" where
  "encode JNull = ''null''"
| "encode (JBool b) = (if b then ''true'' else ''false'')"
| "encode (JInt i) = show_int i"
| "encode (JStr s) = quote_string s"
| "encode (JArr xs) = ''['' @ join_with '','' (map encode xs) @ '']''"
| "encode (JObj d) = ''{'' @ join_with '','' (map (\<lambda>p. quote_string (fst p) @ '':'' @ encode (snd p)) d) @ ''}''"
| "encode v = []"

lemma insort_map_fst:
  "insort_key fst (fst p, h (snd p)) (map (\<lambda>p. (fst p, h (snd p))) ys) =
     map (\<lambda>p. (fst p, h (snd p))) (insort_key fst p ys)"
  by (induction ys) auto

lemma sort_map_fst:
  "sort_key fst (map (\<lambda>p. (fst p, h (snd p))) d) = map (\<lambda>p. (fst p, h (snd p))) (sort_key fst d)"
  by (induction d) (simp_all add: insort_map_fst)

lemma canonicalize_string_Inr: "canonicalize_string s = Inr t \<Longrightarrow> t = quote_string s"
  by (simp add: canonicalize_string_def split: if_splits)

lemma canonicalize_value_encode:
  "canonicalize_value v = Inr s \<Longrightarrow> s = encode (json_norm v) \<and> json_plain (json_norm v)"
proof (induction v arbitrary: s rule: canonicalize_value.induct)
  case (6 xs)
  then obtain ys where ys: "list_all2 (\<lambda>x y. canonicalize_value x = Inr y) xs ys"
    and s: "s = ''['' @ join_with '','' ys @ '']''"
    by (auto simp: mapR_eq_Inr)
  have "ys = map (encode \<circ> json_norm) xs \<and> list_all (json_plain \<circ> json_norm) xs"
    using ys "6.IH" by (induction rule: list_all2_induct) auto
  with s show ?case by (simp add: list.pred_map)
next
  case (7 xs)
  then obtain ys where ys: "list_all2 (\<lambda>x y. canonicalize_value x = Inr y) xs ys"
    and s: "s = ''['' @ join_with '','' ys @ '']''"
    by (auto simp: mapR_eq_Inr)
  have "ys = map (encode \<circ> json_norm) xs \<and> list_all (json_plain \<circ> json_norm) xs"
    using ys "7.IH" by (induction rule: list_all2_induct) auto
  with s show ?case by (simp add: list.pred_map)
next
  case (8 d)
  let ?e = "sort_key fst d"
  obtain ps where ps: "list_all2 (\<lambda>p q. bindR (canonicalize_string (fst p)) (\<lambda>k.
        bindR (canonicalize_value (snd p)) (\<lambda>v. Inr (k @ '':'' @ v))) = Inr q) ?e ps"
    and s: "s = ''{'' @ join_with '','' ps @ ''}''"
    using "8.prems" unfolding canonicalize_value.simps sort_map_fst
    by (auto simp: mapR_eq_Inr list_all2_map1)
  have IH: "\<And>p t. p \<in> set ?e \<Longrightarrow> canonicalize_value (snd p) = Inr t \<Longrightarrow>
      t = encode (json_norm (snd p)) \<and> json_plain (json_norm (snd p))"
    using "8.IH" by simp
  have "ps = map (\<lambda>p. quote_string (fst p) @ '':'' @ encode (json_norm (snd p))) ?e
      \<and> list_all (\<lambda>p. json_plain (json_norm (snd p))) ?e"
    using ps IH
    by (induction rule: list_all2_induct) (auto dest!: canonicalize_string_Inr)
  with s show ?case
    by (simp add: sort_map_fst list.pred_map comp_def)
qed (auto split: if_splits dest!: canonicalize_string_Inr)

section \<open>The canonical text determines the normal form\<close>

text \<open>Every piece is followed by the end of the text or by a character that is not a digit.\<close>

definition delim :: "string \<Rightarrow> bool" where
  "delim r = (case r of [] \<Rightarrow> True | c # _ \<Rightarrow> \<not> is_digit c)"

lemma show_nat_cancel:
  assumes "show_nat m @ r = show_nat n @ r'" "delim r" "delim r'"
  shows "m = n \<and> r = r'"
proof -
  have tw: "takeWhile is_digit (show_nat k @ q) = show_nat k" if "delim q" for k q
    using show_nat_digits [of k] that
    by (cases q) (auto simp: takeWhile_append list_all_iff delim_def takeWhile_eq_all_conv)
  have "show_nat m = show_nat n"
    using arg_cong [OF assms(1), of "takeWhile is_digit"] tw assms(2,3) by simp
  with assms(1) show ?thesis by simp
qed

lemma show_nat_hd: "\<exists>c s. show_nat n = c # s \<and> is_digit c"
  using show_nat_digits [of n] show_nat_nonempty [of n] by (cases "show_nat n") auto

lemma show_int_hd: "\<exists>c s. show_int i = c # s \<and> (is_digit c \<or> c = CHR ''-'')"
  using show_nat_hd [of "nat i"] by (auto simp: show_int_def)

lemma show_int_ne: "\<not> is_digit h \<Longrightarrow> h \<noteq> CHR ''-'' \<Longrightarrow> show_int i @ r \<noteq> h # s"
  using show_int_hd [of i] by auto

lemma show_int_cancel:
  assumes eq: "show_int i @ r = show_int j @ r'" and dl: "delim r" "delim r'"
  shows "i = j \<and> r = r'"
proof -
  have n: "CHR ''-'' # s \<noteq> show_nat k @ q" for s k q
    using show_nat_hd [of k] by auto
  consider "i < 0" "j < 0" | "0 \<le> i" "0 \<le> j"
    using eq n n [symmetric] by (cases "i < 0"; cases "j < 0") (auto simp: show_int_def)
  then show ?thesis
  proof cases
    case 1
    with eq have "show_nat (nat (- i)) @ r = show_nat (nat (- j)) @ r'"
      by (simp add: show_int_def)
    from show_nat_cancel [OF this dl] 1 show ?thesis by auto
  next
    case 2
    with eq have "show_nat (nat i) @ r = show_nat (nat j) @ r'"
      by (simp add: show_int_def)
    from show_nat_cancel [OF this dl] 2 show ?thesis by auto
  qed
qed

lemma escape_char_nonempty: "escape_char c \<noteq> []"
  by (simp add: escape_char_def)

lemma escape_char_not_quote: "escape_char c @ x \<noteq> CHR 0x22 # y"
  by (simp add: escape_char_def)

lemma escape_char_cancel: "escape_char c @ x = escape_char d @ y \<Longrightarrow> c = d \<and> x = y"
proof -
  assume eq: "escape_char c @ x = escape_char d @ y"
  have h: "hex_of_byte a @ x = hex_of_byte b @ y \<Longrightarrow> a = b \<and> x = y" for a b
    using hex_of_byte_inj [of a b] by (auto simp: hex_of_byte_def)
  show ?thesis
    using eq h unfolding escape_char_def by (simp split: if_splits)
qed

lemma quote_string_cancel:
  "quote_string s @ r = quote_string t @ r' \<Longrightarrow> s = t \<and> r = r'"
proof -
  have "concat (map escape_char s) @ CHR 0x22 # r = concat (map escape_char t) @ CHR 0x22 # r' \<Longrightarrow>
      s = t \<and> r = r'"
  proof (induction s arbitrary: t)
    case Nil
    then show ?case
      using escape_char_not_quote [symmetric] by (cases t) auto
  next
    case (Cons c s)
    show ?case
    proof (cases t)
      case Nil
      with Cons.prems escape_char_not_quote show ?thesis by auto
    next
      case t: (Cons d u)
      with Cons.prems have "escape_char c @ (concat (map escape_char s) @ CHR 0x22 # r) =
          escape_char d @ (concat (map escape_char u) @ CHR 0x22 # r')"
        by simp
      from escape_char_cancel [OF this] Cons.IH t show ?thesis by auto
    qed
  qed
  then show "quote_string s @ r = quote_string t @ r' \<Longrightarrow> s = t \<and> r = r'"
    by (simp add: quote_string_def)
qed

text \<open>
  Joined pieces: if the pieces can be split off, none is empty or begins with the closing
  character, and neither separator nor closing character is a digit, then the whole list
  can be split off.
\<close>

lemma join_cancel:
  assumes cancel: "\<And>x y r r'. x \<in> set xs \<Longrightarrow> y \<in> set ys \<Longrightarrow> e x @ r = e y @ r' \<Longrightarrow>
      delim r \<Longrightarrow> delim r' \<Longrightarrow> x = y \<and> r = r'"
    and start: "\<And>x. x \<in> set xs \<union> set ys \<Longrightarrow> \<exists>h t. e x = h # t \<and> h \<noteq> c"
    and c: "\<not> is_digit c" "c \<noteq> CHR '',''"
    and eq: "join_with '','' (map e xs) @ c # r = join_with '','' (map e ys) @ c # r'"
  shows "xs = ys \<and> r = r'"
  using assms(1,2,5)
proof (induction xs arbitrary: ys)
  case Nil
  then show ?case
  proof (cases ys)
    case (Cons y zs)
    with Nil.prems(2) [of y] obtain h t where "e y = h # t" "h \<noteq> c" by auto
    with Nil.prems(3) Cons show ?thesis by (cases zs) auto
  qed simp
next
  case (Cons x xs)
  have comma: "\<not> is_digit CHR '',''" by (simp add: is_digit_def)
  obtain h t where ex: "e x = h # t" "h \<noteq> c" using Cons.prems(2) [of x] by auto
  then obtain y zs where ys: "ys = y # zs"
    using Cons.prems(3) by (cases ys; cases xs) auto
  define R where "R = (case xs of [] \<Rightarrow> c # r | _ \<Rightarrow> '','' @ join_with '','' (map e xs) @ c # r)"
  define R' where "R' = (case zs of [] \<Rightarrow> c # r' | _ \<Rightarrow> '','' @ join_with '','' (map e zs) @ c # r')"
  have "e x @ R = e y @ R'"
    using Cons.prems(3) ys by (cases xs; cases zs) (simp_all add: R_def R'_def)
  moreover have "delim R" "delim R'"
    using c comma by (auto simp: R_def R'_def delim_def split: list.splits)
  ultimately have xy: "x = y" and R: "R = R'"
    using Cons.prems(1) [of x y R R'] ys by auto
  show ?case
  proof (cases "xs = [] \<or> zs = []")
    case True
    with R c xy ys show ?thesis by (auto simp: R_def R'_def split: list.splits)
  next
    case False
    with R have "join_with '','' (map e xs) @ c # r = join_with '','' (map e zs) @ c # r'"
      by (auto simp: R_def R'_def split: list.splits)
    with Cons.IH [of zs] Cons.prems(1,2) ys xy show ?thesis by auto
  qed
qed

lemma encode_hd:
  "json_plain v \<Longrightarrow> \<exists>h t. encode v = h # t \<and> (is_digit h \<or> h \<in> set ''-ntf[{'' \<or> h = CHR 0x22)"
  using show_nat_hd [of "nat (case v of JInt i \<Rightarrow> i | _ \<Rightarrow> 0)"]
  by (cases v) (auto simp: show_int_def quote_string_def)

lemma encode_hd_ne:
  "json_plain v \<Longrightarrow> \<exists>h t. encode v = h # t \<and> h \<noteq> CHR '']'' \<and> h \<noteq> CHR ''}''"
  using encode_hd [of v] by (auto simp: is_digit_def)

lemmas encode_ne = show_int_ne show_int_ne [symmetric]

lemma encode_cancel:
  "json_plain v \<Longrightarrow> json_plain w \<Longrightarrow> encode v @ r = encode w @ r' \<Longrightarrow> delim r \<Longrightarrow> delim r' \<Longrightarrow>
     v = w \<and> r = r'"
proof (induction v arbitrary: w r r' rule: encode.induct)
  case (3 i)
  then show ?case
    by (cases w) (auto simp: encode_ne is_digit_def quote_string_def split: if_splits dest: show_int_cancel)
next
  case (4 s)
  then show ?case
    by (cases w) (auto simp: encode_ne is_digit_def split: if_splits dest: quote_string_cancel,
        auto simp: encode_ne is_digit_def quote_string_def split: if_splits)
next
  case (5 xs)
  show ?case
  proof (cases w)
    case (JArr ys)
    have "xs = ys \<and> r = r'"
    proof (rule join_cancel [where e = encode and c = "CHR '']''"])
      fix x y q q' assume x: "x \<in> set xs" and y: "y \<in> set ys" and eq: "encode x @ q = encode y @ q'"
        and dl: "delim q" "delim q'"
      have "json_plain x" "json_plain y"
        using x y "5.prems"(1,2) JArr by (auto simp: list_all_iff)
      from "5.IH" [OF x this eq dl] show "x = y \<and> q = q'" .
    next
      fix x assume "x \<in> set xs \<union> set ys"
      with "5.prems"(1,2) JArr have "json_plain x"
        by (auto simp: list_all_iff)
      with encode_hd_ne show "\<exists>h t. encode x = h # t \<and> h \<noteq> CHR '']''" by blast
    qed (use "5.prems"(3) JArr in \<open>simp_all add: is_digit_def\<close>)
    with JArr show ?thesis by simp
  qed (use "5.prems" in \<open>auto simp: encode_ne is_digit_def quote_string_def split: if_splits\<close>)
next
  case (6 d)
  let ?e = "\<lambda>p. quote_string (fst p) @ '':'' @ encode (snd p)"
  show ?case
  proof (cases w)
    case (JObj d')
    have "d = d' \<and> r = r'"
    proof (rule join_cancel [where e = ?e and c = "CHR ''}''"])
      fix p q u u' assume p: "p \<in> set d" and q: "q \<in> set d'" and eq: "?e p @ u = ?e q @ u'"
        and dl: "delim u" "delim u'"
      have k: "fst p = fst q" and v: "encode (snd p) @ u = encode (snd q) @ u'"
        using quote_string_cancel [of "fst p" "'':'' @ encode (snd p) @ u" "fst q" "'':'' @ encode (snd q) @ u'"] eq
        by auto
      have "json_plain (snd p)" "json_plain (snd q)"
        using p q "6.prems"(1,2) JObj by (auto simp: list_all_iff)
      from "6.IH" [OF p this v dl] k show "p = q \<and> u = u'" by (simp add: prod_eq_iff)
    qed (use "6.prems"(3) JObj in \<open>auto simp: is_digit_def quote_string_def\<close>)
    with JObj show ?thesis by simp
  qed (use "6.prems" in \<open>auto simp: encode_ne is_digit_def quote_string_def split: if_splits\<close>)
next
  case 1
  then show ?case
    by (cases w) (auto simp: encode_ne is_digit_def quote_string_def split: if_splits)
next
  case (2 b)
  then show ?case
    by (cases w) (auto simp: encode_ne is_digit_def quote_string_def split: if_splits)
qed auto

lemma encode_inj: "json_plain v \<Longrightarrow> json_plain w \<Longrightarrow> encode v = encode w \<Longrightarrow> v = w"
  using encode_cancel [of v w "[]" "[]"] by (simp add: delim_def)

lemma canonicalize_value_inj:
  "canonicalize_value v = Inr s \<Longrightarrow> canonicalize_value w = Inr s \<Longrightarrow> json_norm v = json_norm w"
  using canonicalize_value_encode encode_inj by metis

lemma canonicalize_bytes_value: "canonicalize_bytes D v = Inr s \<Longrightarrow> canonicalize_value v = Inr s"
  by (auto simp: canonicalize_bytes_def canonicalize_bytes_within_def canonicalize_json_def split: if_splits)

lemma canonicalize_bytes_inj:
  "canonicalize_bytes D v = Inr s \<Longrightarrow> canonicalize_bytes D w = Inr s \<Longrightarrow> json_norm v = json_norm w"
  by (blast dest: canonicalize_bytes_value intro: canonicalize_value_inj)

lemma canonicalize_bytes_bounds:
  assumes "canonicalize_bytes D v = Inr s"
  shows "length s \<le> 1048576" "int (json_depth v) \<le> dep_max_json_depth D + 1"
proof -
  show "length s \<le> 1048576"
    using assms by (auto simp: canonicalize_bytes_def canonicalize_bytes_within_def
        DEFAULT_MAX_CANONICAL_OUTPUT_BYTES_def split: if_splits)
  have "is_ok (validate_json_depth (dep_max_json_depth D + 1) v)"
    using assms by (auto simp: canonicalize_bytes_def canonicalize_bytes_within_def canonicalize_json_def
        DEFAULT_MAX_CANONICAL_OUTPUT_BYTES_def)
  then show "int (json_depth v) \<le> dep_max_json_depth D + 1"
    by (simp add: validate_json_depth_iff)
qed

text \<open>When the canonical text of a value exists, so does that of every value it contains.\<close>

lemma canonicalize_bytes_iff:
  "canonicalize_bytes D v = Inr s \<longleftrightarrow> canonicalize_value v = Inr s
     \<and> int (json_depth v) \<le> dep_max_json_depth D + 1 \<and> length s \<le> 1048576"
proof -
  have "validate_json_depth (dep_max_json_depth D + 1) v = Inr () \<longleftrightarrow>
      int (json_depth v) \<le> dep_max_json_depth D + 1"
    using validate_json_depth_iff[of "dep_max_json_depth D + 1" v] json_depth_pos[of v]
    by (auto simp: is_ok_iff)
  then show ?thesis
    by (auto simp: canonicalize_bytes_def canonicalize_bytes_within_def canonicalize_json_def
        DEFAULT_MAX_CANONICAL_OUTPUT_BYTES_def bindR_eq_Inr not_less split: if_splits)
qed

lemma length_join_with: "t \<in> set ts \<Longrightarrow> length t \<le> length (join_with sep ts)"
  by (induction sep ts rule: join_with.induct) auto

lemma mapR_Inr_member: "mapR f xs = Inr ys \<Longrightarrow> x \<in> set xs \<Longrightarrow> \<exists>y \<in> set ys. f x = Inr y"
  by (induction xs arbitrary: ys) auto

lemma canonicalize_value_part:
  assumes "canonicalize_value w = Inr s" "v \<in> set (json_children w)"
  shows "\<exists>t. canonicalize_value v = Inr t \<and> length t \<le> length s"
proof (cases w)
  case (JArr xs)
  with assms obtain ys where "mapR canonicalize_value xs = Inr ys" "s = ''['' @ join_with '','' ys @ '']''"
    by auto
  with assms(2) JArr show ?thesis
    by (fastforce dest!: mapR_Inr_member[of _ _ _ v] dest: length_join_with[of _ _ "'',''"])
next
  case (JTup xs)
  with assms obtain ys where "mapR canonicalize_value xs = Inr ys" "s = ''['' @ join_with '','' ys @ '']''"
    by auto
  with assms(2) JTup show ?thesis
    by (fastforce dest!: mapR_Inr_member[of _ _ _ v] dest: length_join_with[of _ _ "'',''"])
next
  case (JObj d)
  let ?f = "\<lambda>p. bindR (canonicalize_string (fst p)) (\<lambda>k. bindR (snd p) (\<lambda>v. Inr (k @ '':'' @ v)))"
  from JObj assms obtain ys where ys: "mapR ?f (sort_key fst (map (\<lambda>p. (fst p, canonicalize_value (snd p))) d)) = Inr ys"
      "s = ''{'' @ join_with '','' ys @ ''}''" by auto
  from assms(2) JObj obtain k where "(k, v) \<in> set d" by auto
  then have "(k, canonicalize_value v) \<in> set (sort_key fst (map (\<lambda>p. (fst p, canonicalize_value (snd p))) d))"
    by force
  from mapR_Inr_member[OF ys(1) this] obtain y k' t where
    "y \<in> set ys" "canonicalize_value v = Inr t" "y = k' @ '':'' @ t" by auto
  with length_join_with[of y ys "'',''"] ys(2) show ?thesis by auto
qed (use assms(2) in auto)

lemma canonicalize_bytes_part:
  assumes "canonicalize_bytes D w = Inr s" "v \<in> set (json_children w)"
  shows "is_ok (canonicalize_bytes D v)"
proof -
  have "json_depth v \<le> json_depth w"
    using json_depth_le_iff[of w "json_depth w"] assms(2) by fastforce
  with canonicalize_value_part[of w s v] assms show ?thesis
    by (fastforce simp: canonicalize_bytes_iff is_ok_iff)
qed

text \<open>Normal forms keep the entries of a dictionary.\<close>

lemma distinct_map_sort_fst: "distinct (map fst d) \<Longrightarrow> distinct (map fst (sort_key fst d))"
  by (metis distinct_map distinct_sort set_sort)

lemma map_of_map_snd: "map_of (map (\<lambda>p. (fst p, h (snd p))) d) k = map_option h (map_of d k)"
  by (induction d) auto

lemma map_of_sort_key: "dict_wf d \<Longrightarrow> map_of (sort_key fst d) = map_of d"
  unfolding dict_wf_def
  by (rule map_of_inject_set[THEN iffD2])
     (simp_all add: distinct_map_sort_fst)

lemma json_norm_lookup:
  assumes "dict_wf d" "dict_wf e" "json_norm (JObj d) = json_norm (JObj e)"
  shows "map_option json_norm (map_of d k) = map_option json_norm (map_of e k)"
proof -
  have "map_of (sort_key fst (map (\<lambda>p. (fst p, json_norm (snd p))) d)) k = map_option json_norm (map_of d k)"
    if "dict_wf d" for d
    by (simp only: sort_map_fst map_of_map_snd map_of_sort_key[OF that])
  from this[OF assms(1)] this[OF assms(2)] assms(3) show ?thesis by simp
qed

text \<open>Canonicalisation never ends in a refusal: its errors are plain exceptions.\<close>

lemma canonicalize_value_no_refusal: "refusals_in P (canonicalize_value v)"
proof (induction v rule: canonicalize_value.induct)
  case (8 d)
  then show ?case
    by (auto intro!: refusals_in_bindR refusals_in_mapR simp: canonicalize_string_def)
qed (auto intro!: refusals_in_bindR refusals_in_mapR simp: canonicalize_string_def)

lemma canonicalize_bytes_no_refusal [simp]: "refusals_in P (canonicalize_bytes D v)"
  unfolding canonicalize_bytes_def canonicalize_bytes_within_def canonicalize_json_def
    validate_json_depth_def depth_loop_eq
  by (auto intro!: refusals_in_bindR canonicalize_value_no_refusal)

lemma sha256_hex_no_refusal [simp]: "refusals_in P (sha256_hex D v)"
  unfolding sha256_hex_def by (auto intro!: refusals_in_bindR)

section \<open>Which values have a canonical text\<close>

fun json_clean :: "json \<Rightarrow> bool" where
  "json_clean JNull = True"
| "json_clean (JBool b) = True"
| "json_clean (JInt i) = (length (show_nat (nat \<bar>i\<bar>)) \<le> INT_MAX_STR_DIGITS)"
| "json_clean (JFloat f) = False"
| "json_clean (JStr s) = (\<not> has_surrogate s)"
| "json_clean (JArr xs) = list_all json_clean xs"
| "json_clean (JTup xs) = list_all json_clean xs"
| "json_clean (JObj d) = list_all (\<lambda>p. \<not> has_surrogate (fst p) \<and> json_clean (snd p)) d"
| "json_clean (JOther s) = False"

text \<open>An upper bound of the length of the canonical text.\<close>

fun text_bound :: "json \<Rightarrow> nat" where
  "text_bound JNull = 4"
| "text_bound (JBool b) = 5"
| "text_bound (JInt i) = length (show_int i)"
| "text_bound (JStr s) = 6 * length s + 2"
| "text_bound (JArr xs) = 2 + sum_list (map (\<lambda>x. Suc (text_bound x)) xs)"
| "text_bound (JTup xs) = 2 + sum_list (map (\<lambda>x. Suc (text_bound x)) xs)"
| "text_bound (JObj d) = 2 + sum_list (map (\<lambda>p. 6 * length (fst p) + 4 + text_bound (snd p)) d)"
| "text_bound _ = 0"

lemma is_ok_mapR: "is_ok (mapR f xs) \<longleftrightarrow> (\<forall>x \<in> set xs. is_ok (f x))"
  by (induction xs) (auto simp: bindR_def split: sum.splits)

lemma is_ok_bindR_Inr: "is_ok (bindR m (\<lambda>x. Inr (f x))) \<longleftrightarrow> is_ok m"
  by (cases m) simp_all

lemma canonicalize_value_ok: "is_ok (canonicalize_value v) \<longleftrightarrow> json_clean v"
proof (induction v rule: json_clean.induct)
  case (8 d)
  have "is_ok (bindR (canonicalize_string (fst p)) (\<lambda>k. bindR (snd p) (\<lambda>v. Inr (k @ '':'' @ v))))
      \<longleftrightarrow> \<not> has_surrogate (fst p) \<and> is_ok (snd p)" for p :: "string \<times> string res"
    by (simp add: canonicalize_string_def is_ok_bindR_Inr)
  with 8 show ?case
    by (auto simp: is_ok_bindR_Inr is_ok_mapR list_all_iff)
qed (auto simp: is_ok_bindR_Inr is_ok_mapR list_all_iff canonicalize_string_def)

lemma length_escape_char: "length (escape_char c) \<le> 6"
  by (simp add: escape_char_def hex_of_byte_def)

lemma length_quote_string: "length (quote_string s) \<le> 6 * length s + 2"
proof -
  have "length (concat (map escape_char s)) \<le> 6 * length s"
    using length_escape_char by (induction s) (auto intro: add_mono simp: add_le_mono)
  then show ?thesis by (simp add: quote_string_def)
qed

lemma length_join_comma: "length (join_with '','' ts) \<le> sum_list (map (\<lambda>t. Suc (length t)) ts)"
  by (induction "'',''" ts rule: join_with.induct) auto

lemma sum_list_sort: "sum_list (map f (sort_key k xs)) = sum_list (map (f :: 'a \<Rightarrow> nat) xs)"
proof -
  have "sum_list (map f (insort_key k x ys)) = f x + sum_list (map f ys)" for x ys
    by (induction ys) auto
  then show ?thesis by (induction xs) simp_all
qed

lemma length_encode: "length (encode (json_norm v)) \<le> text_bound v"
proof (induction v rule: text_bound.induct)
  case (4 s)
  then show ?case using length_quote_string[of s] by simp
next
  case (5 xs)
  have "sum_list (map (\<lambda>x. Suc (length (encode (json_norm x)))) xs) \<le> sum_list (map (\<lambda>x. Suc (text_bound x)) xs)"
    using 5 by (intro sum_list_mono) simp
  then show ?case using length_join_comma[of "map (encode \<circ> json_norm) xs"] by (simp add: comp_def)
next
  case (6 xs)
  have "sum_list (map (\<lambda>x. Suc (length (encode (json_norm x)))) xs) \<le> sum_list (map (\<lambda>x. Suc (text_bound x)) xs)"
    using 6 by (intro sum_list_mono) simp
  then show ?case using length_join_comma[of "map (encode \<circ> json_norm) xs"] by (simp add: comp_def)
next
  case (7 d)
  let ?t = "\<lambda>p. quote_string (fst p) @ '':'' @ encode (json_norm (snd p))"
  have "sum_list (map (\<lambda>p. Suc (length (?t p))) (sort_key fst d)) = sum_list (map (\<lambda>p. Suc (length (?t p))) d)"
    by (rule sum_list_sort)
  also have "\<dots> \<le> sum_list (map (\<lambda>p. 6 * length (fst p) + 4 + text_bound (snd p)) d)"
  proof (intro sum_list_mono)
    fix p assume "p \<in> set d"
    with 7[of p] length_quote_string[of "fst p"]
    show "Suc (length (?t p)) \<le> 6 * length (fst p) + 4 + text_bound (snd p)" by simp
  qed
  finally show ?case
    using length_join_comma[of "map ?t (sort_key fst d)"] by (simp add: sort_map_fst comp_def)
qed auto

lemma canonicalize_bytes_ok:
  "json_clean v \<Longrightarrow> int (json_depth v) \<le> dep_max_json_depth D + 1 \<Longrightarrow> text_bound v \<le> 1048576 \<Longrightarrow>
   is_ok (canonicalize_bytes D v)"
proof -
  assume v: "json_clean v" "int (json_depth v) \<le> dep_max_json_depth D + 1" "text_bound v \<le> 1048576"
  then obtain s where s: "canonicalize_value v = Inr s" using canonicalize_value_ok[of v] by (auto simp: is_ok_iff)
  moreover have "length s \<le> 1048576"
    using canonicalize_value_encode[OF s] length_encode[of v] v(3) by simp
  ultimately show ?thesis using v(2) by (auto simp: canonicalize_bytes_iff is_ok_iff)
qed

lemma ascii_no_surrogate: "list_all (\<lambda>c. (of_char c :: nat) < 128) s \<Longrightarrow> \<not> has_surrogate s"
  by (induction s rule: has_surrogate.induct) auto

end
