(* ===== verification/Contracts.thy ===== *)
theory Contracts
  imports Timestamps Canonical
begin

text \<open>
  The contract types of \<^verbatim>\<open>models/contracts.py\<close>: references, Action Intent and PCCB, each
  with its \<open>from_dict\<close> parser and its \<open>to_dict\<close> printer. Fields the parsers take
  without a type check are \<^typ>\<open>json\<close> values, where \<open>JNull\<close> is Python's \<open>None\<close>.
  The parsers evaluate their fields in the order of the source, so the first failing field
  decides the error.
\<close>

named_theorems contract_simps
named_theorems contract_wf

section \<open>Field checks\<close>

definition expect_mapping :: "json \<Rightarrow> string \<Rightarrow> dict res" where
  "expect_mapping raw field_name = (case raw of JObj d \<Rightarrow> Inr d
     | _ \<Rightarrow> Inl (Raise ValueError (field_name @ '' must be an object'')))"

definition expect_string :: "json \<Rightarrow> string \<Rightarrow> string res" where
  "expect_string raw field_name = (case raw of
       JStr s \<Rightarrow> (if s \<noteq> [] then Inr s
         else Inl (Raise ValueError (field_name @ '' must be a non-empty string'')))
     | _ \<Rightarrow> Inl (Raise ValueError (field_name @ '' must be a non-empty string'')))"

definition expect_bool :: "json \<Rightarrow> string \<Rightarrow> bool res" where
  "expect_bool raw field_name = (case raw of JBool b \<Rightarrow> Inr b
     | _ \<Rightarrow> Inl (Raise ValueError (field_name @ '' must be a boolean'')))"

fun is_json_scalar :: "json \<Rightarrow> bool" where
  "is_json_scalar JNull = True"
| "is_json_scalar (JBool b) = True"
| "is_json_scalar (JInt i) = True"
| "is_json_scalar (JFloat f) = True"
| "is_json_scalar (JStr s) = True"
| "is_json_scalar _ = False"

definition expect_json_scalar :: "json \<Rightarrow> string \<Rightarrow> json res" where
  "expect_json_scalar raw field_name = (if is_json_scalar raw then Inr raw
     else Inl (Raise ValueError (field_name @ '' must be a JSON scalar'')))"

text \<open>\<open>for item in x\<close> over an unchecked value.\<close>

definition py_iter :: "json \<Rightarrow> json list res" where
  "py_iter v = (case as_sequence v of Some xs \<Rightarrow> Inr xs
     | None \<Rightarrow> Inl (Raise TypeError ''object is not iterable''))"

text \<open>\<open>contract.get("name") != n or contract.get("version") != "v1"\<close>.\<close>

definition check_contract :: "dict \<Rightarrow> string \<Rightarrow> unit res" where
  "check_contract data n = bindR (expect_mapping (get_or_null data ''contract'') ''contract'') (\<lambda>contract.
     if get_or_null contract ''name'' \<noteq> JStr n \<or> get_or_null contract ''version'' \<noteq> JStr ''v1''
     then Inl (Raise ValueError (''contract must declare '' @ n @ '' v1''))
     else Inr ())"

definition contract_entry :: "string \<Rightarrow> json" where
  "contract_entry n = JObj [(''name'', JStr n), (''version'', JStr ''v1'')]"

lemma expect_mapping_JObj [simp]: "expect_mapping (JObj d) f = Inr d"
  by (simp add: expect_mapping_def)

lemma expect_string_JStr [simp]: "s \<noteq> [] \<Longrightarrow> expect_string (JStr s) f = Inr s"
  by (simp add: expect_string_def)

lemma expect_bool_JBool [simp]: "expect_bool (JBool b) f = Inr b"
  by (simp add: expect_bool_def)

lemma expect_mapping_Inr: "expect_mapping raw f = Inr d \<longleftrightarrow> raw = JObj d"
  by (simp add: expect_mapping_def split: json.splits)

lemma expect_string_Inr: "expect_string raw f = Inr s \<longleftrightarrow> raw = JStr s \<and> s \<noteq> []"
  by (auto simp: expect_string_def split: json.splits)

lemma py_iter_JArr [simp]: "py_iter (JArr xs) = Inr xs"
  by (simp add: py_iter_def)

lemma check_contract_entry [simp]:
  "get_or_null d ''contract'' = contract_entry n \<Longrightarrow> check_contract d n = Inr ()"
  by (simp add: check_contract_def contract_entry_def get_or_null_def)

section \<open>References\<close>

record tenant_ref =
  tn_tenant_id :: string
  tn_attributes :: dict

definition tenant_from_dict :: "json \<Rightarrow> tenant_ref res" where
  "tenant_from_dict raw =
     bindR (expect_mapping raw ''tenant'') (\<lambda>data.
     bindR (expect_string (get_or_null data ''tenant_id'') ''tenant.tenant_id'') (\<lambda>tid.
     bindR (py_dict (get_or data ''attributes'' (JObj []))) (\<lambda>attrs.
     Inr \<lparr>tn_tenant_id = tid, tn_attributes = attrs\<rparr>)))"

definition tenant_to_dict :: "tenant_ref \<Rightarrow> dict" where
  "tenant_to_dict t = put_dict ''attributes'' (tn_attributes t)
     [(''tenant_id'', JStr (tn_tenant_id t))]"

record party_ref =
  pa_type :: string
  pa_id :: string
  pa_display_name :: json
  pa_attributes :: dict

definition party_from_dict :: "json \<Rightarrow> string \<Rightarrow> party_ref res" where
  "party_from_dict raw field_name =
     bindR (expect_mapping raw field_name) (\<lambda>data.
     bindR (expect_string (get_or_null data ''type'') (field_name @ ''.type'')) (\<lambda>ty.
     bindR (expect_string (get_or_null data ''id'') (field_name @ ''.id'')) (\<lambda>i.
     bindR (py_dict (get_or data ''attributes'' (JObj []))) (\<lambda>attrs.
     Inr \<lparr>pa_type = ty, pa_id = i, pa_display_name = get_or_null data ''display_name'',
       pa_attributes = attrs\<rparr>))))"

definition party_to_dict :: "party_ref \<Rightarrow> dict" where
  "party_to_dict p = put_dict ''attributes'' (pa_attributes p)
     (put_field ''display_name'' (pa_display_name p)
       [(''type'', JStr (pa_type p)), (''id'', JStr (pa_id p))])"

record audience_ref =
  au_type :: string
  au_id :: string
  au_uri :: json

definition audience_from_dict :: "json \<Rightarrow> string \<Rightarrow> audience_ref res" where
  "audience_from_dict raw field_name =
     bindR (expect_mapping raw field_name) (\<lambda>data.
     bindR (expect_string (get_or_null data ''type'') (field_name @ ''.type'')) (\<lambda>ty.
     bindR (expect_string (get_or_null data ''id'') (field_name @ ''.id'')) (\<lambda>i.
     Inr \<lparr>au_type = ty, au_id = i, au_uri = get_or_null data ''uri''\<rparr>)))"

definition audience_to_dict :: "audience_ref \<Rightarrow> dict" where
  "audience_to_dict a = put_field ''uri'' (au_uri a)
     [(''type'', JStr (au_type a)), (''id'', JStr (au_id a))]"

record action_spec =
  ac_name :: string
  ac_capability :: string
  ac_parameters :: dict
  ac_constraints :: dict
  ac_scope :: dict

definition action_from_dict :: "json \<Rightarrow> action_spec res" where
  "action_from_dict raw =
     bindR (expect_mapping raw ''action'') (\<lambda>data.
     bindR (expect_string (get_or_null data ''name'') ''action.name'') (\<lambda>n.
     bindR (expect_string (get_or_null data ''capability'') ''action.capability'') (\<lambda>c.
     bindR (expect_mapping (get_or_null data ''parameters'') ''action.parameters'') (\<lambda>ps.
     bindR (py_dict (get_or data ''constraints'' (JObj []))) (\<lambda>cs.
     bindR (py_dict (get_or data ''scope'' (JObj []))) (\<lambda>sc.
     Inr \<lparr>ac_name = n, ac_capability = c, ac_parameters = ps, ac_constraints = cs, ac_scope = sc\<rparr>))))))"

definition action_to_dict :: "action_spec \<Rightarrow> dict" where
  "action_to_dict a = put_dict ''scope'' (ac_scope a)
     (put_dict ''constraints'' (ac_constraints a)
       [(''name'', JStr (ac_name a)), (''capability'', JStr (ac_capability a)),
        (''parameters'', JObj (ac_parameters a))])"

record target_ref =
  tg_resource_type :: string
  tg_resource_id :: string
  tg_uri :: json
  tg_selectors :: dict

definition target_from_dict :: "json \<Rightarrow> target_ref res" where
  "target_from_dict raw =
     bindR (expect_mapping raw ''target'') (\<lambda>data.
     bindR (expect_string (get_or_null data ''resource_type'') ''target.resource_type'') (\<lambda>ty.
     bindR (expect_string (get_or_null data ''resource_id'') ''target.resource_id'') (\<lambda>i.
     bindR (py_dict (get_or data ''selectors'' (JObj []))) (\<lambda>sel.
     Inr \<lparr>tg_resource_type = ty, tg_resource_id = i, tg_uri = get_or_null data ''uri'',
       tg_selectors = sel\<rparr>))))"

definition target_to_dict :: "target_ref \<Rightarrow> dict" where
  "target_to_dict t = put_dict ''selectors'' (tg_selectors t)
     (put_field ''uri'' (tg_uri t)
       [(''resource_type'', JStr (tg_resource_type t)), (''resource_id'', JStr (tg_resource_id t))])"

record evidence_ref =
  ev_type :: string
  ev_value :: string
  ev_digest :: dict

definition evidence_from_dict :: "json \<Rightarrow> evidence_ref res" where
  "evidence_from_dict raw =
     bindR (expect_mapping raw ''evidence_ref'') (\<lambda>data.
     bindR (expect_string (get_or_null data ''type'') ''evidence_ref.type'') (\<lambda>ty.
     bindR (expect_string (get_or_null data ''value'') ''evidence_ref.value'') (\<lambda>v.
     bindR (py_dict (get_or data ''digest'' (JObj []))) (\<lambda>dg.
     Inr \<lparr>ev_type = ty, ev_value = v, ev_digest = dg\<rparr>))))"

definition evidence_to_dict :: "evidence_ref \<Rightarrow> dict" where
  "evidence_to_dict e = put_dict ''digest'' (ev_digest e)
     [(''type'', JStr (ev_type e)), (''value'', JStr (ev_value e))]"

record scope_spec =
  sc_mode :: string
  sc_capabilities :: "string list"
  sc_single_use :: bool
  sc_resource_selectors :: "dict list"
  sc_parameter_constraints :: dict

definition scope_from_dict :: "json \<Rightarrow> scope_spec res" where
  "scope_from_dict raw =
     bindR (expect_mapping raw ''scope'') (\<lambda>data.
     bindR (case get_or_null data ''capabilities'' of
         JArr xs \<Rightarrow> (if xs \<noteq> [] then Inr xs
           else Inl (Raise ValueError ''scope.capabilities must be a non-empty array''))
       | _ \<Rightarrow> Inl (Raise ValueError ''scope.capabilities must be a non-empty array'')) (\<lambda>raw_caps.
     bindR (mapR (\<lambda>x. expect_string x ''scope.capabilities[]'') raw_caps) (\<lambda>caps.
     bindR (bindR (py_iter (get_or data ''resource_selectors'' (JArr [])))
         (mapR (\<lambda>x. expect_mapping x ''scope.resource_selectors[]''))) (\<lambda>sels.
     bindR (expect_string (get_or_null data ''mode'') ''scope.mode'') (\<lambda>mode.
     bindR (expect_bool (get_or_null data ''single_use'') ''scope.single_use'') (\<lambda>single.
     bindR (py_dict (get_or data ''parameter_constraints'' (JObj []))) (\<lambda>pcs.
     Inr \<lparr>sc_mode = mode, sc_capabilities = caps, sc_single_use = single,
       sc_resource_selectors = sels, sc_parameter_constraints = pcs\<rparr>)))))))"

definition scope_to_dict :: "scope_spec \<Rightarrow> dict" where
  "scope_to_dict s =
     put_dict ''parameter_constraints'' (sc_parameter_constraints s)
     (put_array ''resource_selectors'' (map JObj (sc_resource_selectors s))
       [(''mode'', JStr (sc_mode s)), (''capabilities'', JArr (map JStr (sc_capabilities s))),
        (''single_use'', JBool (sc_single_use s))])"

record action_hash_spec =
  ah_algorithm :: string
  ah_canonicalization :: string
  ah_value :: string

definition action_hash_from_dict :: "json \<Rightarrow> string \<Rightarrow> action_hash_spec res" where
  "action_hash_from_dict raw field_name =
     bindR (expect_mapping raw field_name) (\<lambda>data.
     bindR (expect_string (get_or_null data ''algorithm'') (field_name @ ''.algorithm'')) (\<lambda>a.
     bindR (expect_string (get_or_null data ''canonicalization'') (field_name @ ''.canonicalization'')) (\<lambda>c.
     bindR (expect_string (get_or_null data ''value'') (field_name @ ''.value'')) (\<lambda>v.
     Inr \<lparr>ah_algorithm = a, ah_canonicalization = c, ah_value = v\<rparr>))))"

definition action_hash_to_dict :: "action_hash_spec \<Rightarrow> dict" where
  "action_hash_to_dict h = [(''algorithm'', JStr (ah_algorithm h)),
     (''canonicalization'', JStr (ah_canonicalization h)), (''value'', JStr (ah_value h))]"

record digest_spec =
  dg_algorithm :: string
  dg_canonicalization :: string
  dg_value :: string

definition digest_from_dict :: "json \<Rightarrow> string \<Rightarrow> digest_spec res" where
  "digest_from_dict raw field_name =
     bindR (expect_mapping raw field_name) (\<lambda>data.
     bindR (expect_string (get_or_null data ''algorithm'') (field_name @ ''.algorithm'')) (\<lambda>a.
     bindR (expect_string (get_or_null data ''canonicalization'') (field_name @ ''.canonicalization'')) (\<lambda>c.
     bindR (expect_string (get_or_null data ''value'') (field_name @ ''.value'')) (\<lambda>v.
     Inr \<lparr>dg_algorithm = a, dg_canonicalization = c, dg_value = v\<rparr>))))"

definition digest_to_dict :: "digest_spec \<Rightarrow> dict" where
  "digest_to_dict h = [(''algorithm'', JStr (dg_algorithm h)),
     (''canonicalization'', JStr (dg_canonicalization h)), (''value'', JStr (dg_value h))]"

record signature_spec =
  sg_algorithm :: string
  sg_key_id :: string
  sg_encoding :: string
  sg_value :: string

definition signature_from_dict :: "json \<Rightarrow> signature_spec res" where
  "signature_from_dict raw =
     bindR (expect_mapping raw ''signature'') (\<lambda>data.
     bindR (expect_string (get_or_null data ''algorithm'') ''signature.algorithm'') (\<lambda>a.
     bindR (expect_string (get_or_null data ''key_id'') ''signature.key_id'') (\<lambda>k.
     bindR (expect_string (get_or_null data ''encoding'') ''signature.encoding'') (\<lambda>e.
     bindR (expect_string (get_or_null data ''value'') ''signature.value'') (\<lambda>v.
     Inr \<lparr>sg_algorithm = a, sg_key_id = k, sg_encoding = e, sg_value = v\<rparr>)))))"

definition signature_to_dict :: "signature_spec \<Rightarrow> dict" where
  "signature_to_dict s = [(''algorithm'', JStr (sg_algorithm s)), (''key_id'', JStr (sg_key_id s)),
     (''encoding'', JStr (sg_encoding s)), (''value'', JStr (sg_value s))]"

section \<open>Action Intent\<close>

record action_intent =
  ai_intent_id :: string
  ai_issued_at :: datetime
  ai_expires_at :: datetime
  ai_tenant :: tenant_ref
  ai_requester :: party_ref
  ai_action :: action_spec
  ai_target :: target_ref
  ai_idempotency_key :: json
  ai_justification :: json
  ai_context :: dict
  ai_evidence_refs :: "evidence_ref list"
  ai_metadata :: dict
  ai_extensions :: dict

definition intent_from_dict :: "json \<Rightarrow> action_intent res" where
  "intent_from_dict raw =
     bindR (expect_mapping raw ''action_intent'') (\<lambda>data.
     bindR (check_contract data ''action_intent'') (\<lambda>_.
     bindR (bindR (py_iter (get_or data ''evidence_refs'' (JArr []))) (mapR evidence_from_dict)) (\<lambda>evs.
     bindR (expect_string (get_or_null data ''intent_id'') ''intent_id'') (\<lambda>iid.
     bindR (parse_timestamp (get_or_null data ''issued_at'') ''issued_at'') (\<lambda>issued.
     bindR (parse_timestamp (get_or_null data ''expires_at'') ''expires_at'') (\<lambda>expires.
     bindR (tenant_from_dict (get_or_null data ''tenant'')) (\<lambda>tenant.
     bindR (party_from_dict (get_or_null data ''requester'') ''requester'') (\<lambda>requester.
     bindR (action_from_dict (get_or_null data ''action'')) (\<lambda>action.
     bindR (target_from_dict (get_or_null data ''target'')) (\<lambda>target.
     bindR (py_dict (get_or data ''context'' (JObj []))) (\<lambda>ctx.
     bindR (py_dict (get_or data ''metadata'' (JObj []))) (\<lambda>meta.
     bindR (py_dict (get_or data ''extensions'' (JObj []))) (\<lambda>ext.
     Inr \<lparr>ai_intent_id = iid, ai_issued_at = issued, ai_expires_at = expires, ai_tenant = tenant,
       ai_requester = requester, ai_action = action, ai_target = target,
       ai_idempotency_key = get_or_null data ''idempotency_key'',
       ai_justification = get_or_null data ''justification'', ai_context = ctx,
       ai_evidence_refs = evs, ai_metadata = meta, ai_extensions = ext\<rparr>)))))))))))))"

definition intent_to_dict :: "action_intent \<Rightarrow> dict" where
  "intent_to_dict i =
     put_dict ''extensions'' (ai_extensions i)
     (put_dict ''metadata'' (ai_metadata i)
     (put_array ''evidence_refs'' (map (\<lambda>e. JObj (evidence_to_dict e)) (ai_evidence_refs i))
     (put_dict ''context'' (ai_context i)
     (put_field ''justification'' (ai_justification i)
     (put_field ''idempotency_key'' (ai_idempotency_key i)
       [(''contract'', contract_entry ''action_intent''),
        (''intent_id'', JStr (ai_intent_id i)),
        (''issued_at'', JStr (format_timestamp (ai_issued_at i))),
        (''expires_at'', JStr (format_timestamp (ai_expires_at i))),
        (''tenant'', JObj (tenant_to_dict (ai_tenant i))),
        (''requester'', JObj (party_to_dict (ai_requester i))),
        (''action'', JObj (action_to_dict (ai_action i))),
        (''target'', JObj (target_to_dict (ai_target i)))])))))"

section \<open>PCCB\<close>

record pccb =
  pc_pccb_id :: string
  pc_issued_at :: datetime
  pc_not_before :: datetime
  pc_expires_at :: datetime
  pc_issuer :: party_ref
  pc_subject :: party_ref
  pc_tenant :: tenant_ref
  pc_audience :: audience_ref
  pc_action :: action_spec
  pc_target :: target_ref
  pc_scope :: scope_spec
  pc_nonce :: string
  pc_action_hash :: action_hash_spec
  pc_signature :: signature_spec
  pc_intent_id :: json
  pc_escrow_id :: json
  pc_extensions :: dict

text \<open>\<open>(data.get("escrow_reference") or {}).get("escrow_id")\<close>.\<close>

definition escrow_reference_id :: "dict \<Rightarrow> json res" where
  "escrow_reference_id data =
     (let ref = get_or_null data ''escrow_reference'' in
      if \<not> truthy ref then Inr JNull
      else case ref of JObj d \<Rightarrow> Inr (get_or_null d ''escrow_id'')
        | _ \<Rightarrow> Inl (Raise AttributeError ''object has no attribute get''))"

definition pccb_from_dict :: "json \<Rightarrow> pccb res" where
  "pccb_from_dict raw =
     bindR (expect_mapping raw ''pccb'') (\<lambda>data.
     bindR (check_contract data ''pccb'') (\<lambda>_.
     bindR (expect_string (get_or_null data ''pccb_id'') ''pccb_id'') (\<lambda>pid.
     bindR (parse_timestamp (get_or_null data ''issued_at'') ''issued_at'') (\<lambda>issued.
     bindR (parse_timestamp (get_or_null data ''not_before'') ''not_before'') (\<lambda>nbf.
     bindR (parse_timestamp (get_or_null data ''expires_at'') ''expires_at'') (\<lambda>expires.
     bindR (party_from_dict (get_or_null data ''issuer'') ''issuer'') (\<lambda>issuer.
     bindR (party_from_dict (get_or_null data ''subject'') ''subject'') (\<lambda>subject.
     bindR (tenant_from_dict (get_or_null data ''tenant'')) (\<lambda>tenant.
     bindR (audience_from_dict (get_or_null data ''audience'') ''audience'') (\<lambda>audience.
     bindR (action_from_dict (get_or_null data ''action'')) (\<lambda>action.
     bindR (target_from_dict (get_or_null data ''target'')) (\<lambda>target.
     bindR (scope_from_dict (get_or_null data ''scope'')) (\<lambda>scope.
     bindR (expect_string (get_or_null data ''nonce'') ''nonce'') (\<lambda>nonce.
     bindR (action_hash_from_dict (get_or_null data ''action_hash'') ''action_hash'') (\<lambda>ahash.
     bindR (signature_from_dict (get_or_null data ''signature'')) (\<lambda>sig.
     bindR (escrow_reference_id data) (\<lambda>eid.
     bindR (py_dict (get_or data ''extensions'' (JObj []))) (\<lambda>ext.
     Inr \<lparr>pc_pccb_id = pid, pc_issued_at = issued, pc_not_before = nbf, pc_expires_at = expires,
       pc_issuer = issuer, pc_subject = subject, pc_tenant = tenant, pc_audience = audience,
       pc_action = action, pc_target = target, pc_scope = scope, pc_nonce = nonce,
       pc_action_hash = ahash, pc_signature = sig, pc_intent_id = get_or_null data ''intent_id'',
       pc_escrow_id = eid, pc_extensions = ext\<rparr>))))))))))))))))))"

definition unsigned_payload :: "pccb \<Rightarrow> dict" where
  "unsigned_payload p =
     put_dict ''extensions'' (pc_extensions p)
     (put_if (pc_escrow_id p \<noteq> JNull) ''escrow_reference''
        (JObj [(''escrow_id'', pc_escrow_id p), (''single_use'', JBool (sc_single_use (pc_scope p)))])
     (put_field ''intent_id'' (pc_intent_id p)
       [(''contract'', contract_entry ''pccb''),
        (''pccb_id'', JStr (pc_pccb_id p)),
        (''issued_at'', JStr (format_timestamp (pc_issued_at p))),
        (''not_before'', JStr (format_timestamp (pc_not_before p))),
        (''expires_at'', JStr (format_timestamp (pc_expires_at p))),
        (''issuer'', JObj (party_to_dict (pc_issuer p))),
        (''subject'', JObj (party_to_dict (pc_subject p))),
        (''tenant'', JObj (tenant_to_dict (pc_tenant p))),
        (''audience'', JObj (audience_to_dict (pc_audience p))),
        (''action'', JObj (action_to_dict (pc_action p))),
        (''target'', JObj (target_to_dict (pc_target p))),
        (''scope'', JObj (scope_to_dict (pc_scope p))),
        (''nonce'', JStr (pc_nonce p)),
        (''action_hash'', JObj (action_hash_to_dict (pc_action_hash p)))]))"

definition pccb_to_dict :: "pccb \<Rightarrow> dict" where
  "pccb_to_dict p = dput (unsigned_payload p) ''signature'' (JObj (signature_to_dict (pc_signature p)))"

section \<open>Texts of timestamps and digests\<close>

lemma is_digit_ascii: "is_digit c \<Longrightarrow> (of_char c :: nat) < 128"
  by (simp add: is_digit_def)

lemma show_pad_ascii: "list_all (\<lambda>c. (of_char c :: nat) < 128) (show_pad w n)"
  using show_pad_digits[of w n] by (auto simp: list_all_iff is_digit_ascii)

lemma format_timestamp_clean [simp]: "\<not> has_surrogate (format_timestamp t)"
  by (rule ascii_no_surrogate)
     (simp add: format_timestamp_def Let_def date_text_def clock_text_def fraction_text_def
       show_pad_ascii split: prod.split)

lemma length_format_timestamp: "length (format_timestamp t) \<le> 27"
  by (simp add: format_timestamp_def Let_def fraction_text_def)

lemma hex_digit_ascii: "n < 16 \<Longrightarrow> (of_char (hex_digit n) :: nat) < 128"
  by (simp add: of_char_hex_digit)

lemma hex_of_bytes_clean [simp]: "\<not> has_surrogate (hex_of_bytes b)"
proof (rule ascii_no_surrogate)
  have "byte div 16 < 16" if "byte < 256" for byte :: nat
    using that by (simp add: div_less_iff_less_mult)
  then show "list_all (\<lambda>c. (of_char c :: nat) < 128) (hex_of_bytes b)"
    using of_char_lt_256 by (auto simp: hex_of_bytes_def hex_of_byte_def list_all_iff hex_digit_ascii)
qed

lemma length_hex_of_bytes: "length (hex_of_bytes b) = 2 * length b"
  by (induction b) (simp_all add: hex_of_bytes_def hex_of_byte_def)

section \<open>Well-formed contract values\<close>

text \<open>What the constructors of the source produce and the parsers accept back.\<close>

definition tenant_wf :: "tenant_ref \<Rightarrow> bool" where
  "tenant_wf t \<longleftrightarrow> tn_tenant_id t \<noteq> []"

definition party_wf :: "party_ref \<Rightarrow> bool" where
  "party_wf p \<longleftrightarrow> pa_type p \<noteq> [] \<and> pa_id p \<noteq> []"

definition audience_wf :: "audience_ref \<Rightarrow> bool" where
  "audience_wf a \<longleftrightarrow> au_type a \<noteq> [] \<and> au_id a \<noteq> []"

definition action_wf :: "action_spec \<Rightarrow> bool" where
  "action_wf a \<longleftrightarrow> ac_name a \<noteq> [] \<and> ac_capability a \<noteq> []"

definition target_wf :: "target_ref \<Rightarrow> bool" where
  "target_wf t \<longleftrightarrow> tg_resource_type t \<noteq> [] \<and> tg_resource_id t \<noteq> []"

definition evidence_wf :: "evidence_ref \<Rightarrow> bool" where
  "evidence_wf e \<longleftrightarrow> ev_type e \<noteq> [] \<and> ev_value e \<noteq> []"

definition scope_wf :: "scope_spec \<Rightarrow> bool" where
  "scope_wf s \<longleftrightarrow> sc_mode s \<noteq> [] \<and> sc_capabilities s \<noteq> [] \<and> (\<forall>c \<in> set (sc_capabilities s). c \<noteq> [])"

definition action_hash_wf :: "action_hash_spec \<Rightarrow> bool" where
  "action_hash_wf h \<longleftrightarrow> ah_algorithm h \<noteq> [] \<and> ah_canonicalization h \<noteq> [] \<and> ah_value h \<noteq> []"

definition digest_wf :: "digest_spec \<Rightarrow> bool" where
  "digest_wf h \<longleftrightarrow> dg_algorithm h \<noteq> [] \<and> dg_canonicalization h \<noteq> [] \<and> dg_value h \<noteq> []"

definition signature_wf :: "signature_spec \<Rightarrow> bool" where
  "signature_wf s \<longleftrightarrow> sg_algorithm s \<noteq> [] \<and> sg_key_id s \<noteq> [] \<and> sg_encoding s \<noteq> [] \<and> sg_value s \<noteq> []"

definition intent_wf :: "action_intent \<Rightarrow> bool" where
  "intent_wf i \<longleftrightarrow> ai_intent_id i \<noteq> [] \<and> dt_ok (ai_issued_at i) \<and> dt_ok (ai_expires_at i)
     \<and> tenant_wf (ai_tenant i) \<and> party_wf (ai_requester i) \<and> action_wf (ai_action i)
     \<and> target_wf (ai_target i) \<and> (\<forall>e \<in> set (ai_evidence_refs i). evidence_wf e)"

definition pccb_wf :: "pccb \<Rightarrow> bool" where
  "pccb_wf p \<longleftrightarrow> pc_pccb_id p \<noteq> [] \<and> dt_ok (pc_issued_at p) \<and> dt_ok (pc_not_before p)
     \<and> dt_ok (pc_expires_at p) \<and> party_wf (pc_issuer p) \<and> party_wf (pc_subject p)
     \<and> tenant_wf (pc_tenant p) \<and> audience_wf (pc_audience p) \<and> action_wf (pc_action p)
     \<and> target_wf (pc_target p) \<and> scope_wf (pc_scope p) \<and> pc_nonce p \<noteq> []
     \<and> action_hash_wf (pc_action_hash p) \<and> signature_wf (pc_signature p)"

lemmas ref_wf_defs = tenant_wf_def party_wf_def audience_wf_def action_wf_def target_wf_def
  evidence_wf_def scope_wf_def action_hash_wf_def digest_wf_def signature_wf_def

section \<open>Printing and parsing are inverse\<close>

lemma tenant_round_trip [contract_simps]:
  "tenant_wf t \<Longrightarrow> tenant_from_dict (JObj (tenant_to_dict t)) = Inr t"
  by (simp add: tenant_from_dict_def tenant_to_dict_def ref_wf_defs)

lemma party_round_trip [contract_simps]:
  "party_wf p \<Longrightarrow> party_from_dict (JObj (party_to_dict p)) f = Inr p"
  by (simp add: party_from_dict_def party_to_dict_def ref_wf_defs)

lemma audience_round_trip [contract_simps]:
  "audience_wf a \<Longrightarrow> audience_from_dict (JObj (audience_to_dict a)) f = Inr a"
  by (simp add: audience_from_dict_def audience_to_dict_def ref_wf_defs)

lemma action_round_trip [contract_simps]:
  "action_wf a \<Longrightarrow> action_from_dict (JObj (action_to_dict a)) = Inr a"
  by (simp add: action_from_dict_def action_to_dict_def ref_wf_defs)

lemma target_round_trip [contract_simps]:
  "target_wf t \<Longrightarrow> target_from_dict (JObj (target_to_dict t)) = Inr t"
  by (simp add: target_from_dict_def target_to_dict_def ref_wf_defs)

lemma evidence_round_trip [contract_simps]:
  "evidence_wf e \<Longrightarrow> evidence_from_dict (JObj (evidence_to_dict e)) = Inr e"
  by (simp add: evidence_from_dict_def evidence_to_dict_def ref_wf_defs)

lemma action_hash_round_trip [contract_simps]:
  "action_hash_wf h \<Longrightarrow> action_hash_from_dict (JObj (action_hash_to_dict h)) f = Inr h"
  by (simp add: action_hash_from_dict_def action_hash_to_dict_def ref_wf_defs)

lemma digest_round_trip [contract_simps]:
  "digest_wf h \<Longrightarrow> digest_from_dict (JObj (digest_to_dict h)) f = Inr h"
  by (simp add: digest_from_dict_def digest_to_dict_def ref_wf_defs)

lemma signature_round_trip [contract_simps]:
  "signature_wf s \<Longrightarrow> signature_from_dict (JObj (signature_to_dict s)) = Inr s"
  by (simp add: signature_from_dict_def signature_to_dict_def ref_wf_defs)

lemma mapR_map: "mapR f (map g xs) = mapR (\<lambda>x. f (g x)) xs"
  by (induction xs) simp_all

lemma mapR_id: "(\<And>x. x \<in> set xs \<Longrightarrow> f x = Inr x) \<Longrightarrow> mapR f xs = Inr xs"
  by (induction xs) simp_all

lemma scope_round_trip [contract_simps]:
  "scope_wf s \<Longrightarrow> scope_from_dict (JObj (scope_to_dict s)) = Inr s"
  by (simp add: scope_from_dict_def scope_to_dict_def ref_wf_defs mapR_map mapR_id)

lemma evidence_list_round_trip [contract_simps]:
  "\<forall>e \<in> set es. evidence_wf e \<Longrightarrow>
   mapR evidence_from_dict (map (\<lambda>e. JObj (evidence_to_dict e)) es) = Inr es"
  by (simp add: mapR_map mapR_id evidence_round_trip)

lemma intent_to_dict_lookup:
  "get_or_null (intent_to_dict i) ''contract'' = contract_entry ''action_intent''"
  "get_or_null (intent_to_dict i) ''intent_id'' = JStr (ai_intent_id i)"
  "get_or_null (intent_to_dict i) ''issued_at'' = JStr (format_timestamp (ai_issued_at i))"
  "get_or_null (intent_to_dict i) ''expires_at'' = JStr (format_timestamp (ai_expires_at i))"
  "get_or_null (intent_to_dict i) ''tenant'' = JObj (tenant_to_dict (ai_tenant i))"
  "get_or_null (intent_to_dict i) ''requester'' = JObj (party_to_dict (ai_requester i))"
  "get_or_null (intent_to_dict i) ''action'' = JObj (action_to_dict (ai_action i))"
  "get_or_null (intent_to_dict i) ''target'' = JObj (target_to_dict (ai_target i))"
  "get_or_null (intent_to_dict i) ''idempotency_key'' = ai_idempotency_key i"
  "get_or_null (intent_to_dict i) ''justification'' = ai_justification i"
  "get_or (intent_to_dict i) ''context'' (JObj []) = JObj (ai_context i)"
  "get_or (intent_to_dict i) ''evidence_refs'' (JArr []) = JArr (map (\<lambda>e. JObj (evidence_to_dict e)) (ai_evidence_refs i))"
  "get_or (intent_to_dict i) ''metadata'' (JObj []) = JObj (ai_metadata i)"
  "get_or (intent_to_dict i) ''extensions'' (JObj []) = JObj (ai_extensions i)"
  by (simp_all add: intent_to_dict_def)

lemma intent_round_trip [contract_simps]:
  "intent_wf i \<Longrightarrow> intent_from_dict (JObj (intent_to_dict i)) = Inr i"
  by (simp add: intent_from_dict_def intent_to_dict_lookup intent_wf_def contract_simps
      parse_format_timestamp cong: bindR_weak_cong)

lemma pccb_to_dict_lookup:
  "get_or_null (pccb_to_dict p) ''contract'' = contract_entry ''pccb''"
  "get_or_null (pccb_to_dict p) ''pccb_id'' = JStr (pc_pccb_id p)"
  "get_or_null (pccb_to_dict p) ''issued_at'' = JStr (format_timestamp (pc_issued_at p))"
  "get_or_null (pccb_to_dict p) ''not_before'' = JStr (format_timestamp (pc_not_before p))"
  "get_or_null (pccb_to_dict p) ''expires_at'' = JStr (format_timestamp (pc_expires_at p))"
  "get_or_null (pccb_to_dict p) ''issuer'' = JObj (party_to_dict (pc_issuer p))"
  "get_or_null (pccb_to_dict p) ''subject'' = JObj (party_to_dict (pc_subject p))"
  "get_or_null (pccb_to_dict p) ''tenant'' = JObj (tenant_to_dict (pc_tenant p))"
  "get_or_null (pccb_to_dict p) ''audience'' = JObj (audience_to_dict (pc_audience p))"
  "get_or_null (pccb_to_dict p) ''action'' = JObj (action_to_dict (pc_action p))"
  "get_or_null (pccb_to_dict p) ''target'' = JObj (target_to_dict (pc_target p))"
  "get_or_null (pccb_to_dict p) ''scope'' = JObj (scope_to_dict (pc_scope p))"
  "get_or_null (pccb_to_dict p) ''nonce'' = JStr (pc_nonce p)"
  "get_or_null (pccb_to_dict p) ''action_hash'' = JObj (action_hash_to_dict (pc_action_hash p))"
  "get_or_null (pccb_to_dict p) ''signature'' = JObj (signature_to_dict (pc_signature p))"
  "get_or_null (pccb_to_dict p) ''intent_id'' = pc_intent_id p"
  "get_or (pccb_to_dict p) ''extensions'' (JObj []) = JObj (pc_extensions p)"
  by (simp_all add: pccb_to_dict_def unsigned_payload_def)

lemma escrow_reference_id_pccb: "escrow_reference_id (pccb_to_dict p) = Inr (pc_escrow_id p)"
  by (simp add: escrow_reference_id_def pccb_to_dict_def unsigned_payload_def)

lemma pccb_round_trip [contract_simps]:
  "pccb_wf p \<Longrightarrow> pccb_from_dict (JObj (pccb_to_dict p)) = Inr p"
  by (simp add: pccb_from_dict_def pccb_to_dict_lookup escrow_reference_id_pccb pccb_wf_def contract_simps
      parse_format_timestamp cong: bindR_weak_cong)

section \<open>What the parsers guarantee\<close>

lemma refs_wf [contract_wf]:
  "tenant_from_dict raw = Inr t \<Longrightarrow> tenant_wf t"
  "party_from_dict raw f = Inr p \<Longrightarrow> party_wf p"
  "audience_from_dict raw f = Inr a \<Longrightarrow> audience_wf a"
  "action_from_dict raw = Inr ac \<Longrightarrow> action_wf ac"
  "target_from_dict raw = Inr tg \<Longrightarrow> target_wf tg"
  "evidence_from_dict raw = Inr e \<Longrightarrow> evidence_wf e"
  "action_hash_from_dict raw f = Inr h \<Longrightarrow> action_hash_wf h"
  "digest_from_dict raw f = Inr dg \<Longrightarrow> digest_wf dg"
  "signature_from_dict raw = Inr sg \<Longrightarrow> signature_wf sg"
  by (auto simp: tenant_from_dict_def party_from_dict_def audience_from_dict_def action_from_dict_def
      target_from_dict_def evidence_from_dict_def action_hash_from_dict_def digest_from_dict_def
      signature_from_dict_def ref_wf_defs expect_string_Inr)

lemma mapR_Inr_set: "mapR f xs = Inr ys \<Longrightarrow> y \<in> set ys \<Longrightarrow> \<exists>x \<in> set xs. f x = Inr y"
  by (induction xs arbitrary: ys) auto

lemma mapR_Inr_Nil [simp]: "mapR f xs = Inr [] \<longleftrightarrow> xs = []"
  by (cases xs) (auto simp: bindR_eq_Inr)

lemma evidence_list_wf: "mapR evidence_from_dict xs = Inr es \<Longrightarrow> \<forall>e \<in> set es. evidence_wf e"
  by (auto dest!: mapR_Inr_set dest: refs_wf)

lemma expect_strings_wf:
  "mapR (\<lambda>x. expect_string x f) xs = Inr ys \<Longrightarrow> (ys = [] \<longleftrightarrow> xs = []) \<and> (\<forall>y \<in> set ys. y \<noteq> [])"
  by (induction xs arbitrary: ys) (auto simp: expect_string_Inr)

lemma nonempty_array_Inr:
  "(case v of JArr xs \<Rightarrow> if xs \<noteq> [] then Inr xs else Inl e | _ \<Rightarrow> Inl e) = Inr ys \<Longrightarrow> ys \<noteq> []"
  by (cases v) (simp_all split: if_splits)

lemma scope_from_dict_wf [contract_wf]: "scope_from_dict raw = Inr s \<Longrightarrow> scope_wf s"
  unfolding scope_from_dict_def
  by (elim bindR_eq_InrE, drule Inr_inject, erule subst, drule nonempty_array_Inr)
     (simp add: scope_wf_def expect_string_Inr expect_strings_wf)

lemma intent_from_dict_wf [contract_wf]: "intent_from_dict raw = Inr i \<Longrightarrow> intent_wf i"
  unfolding intent_from_dict_def
  by (elim bindR_eq_InrE, drule Inr_inject, erule subst)
     (simp add: intent_wf_def expect_string_Inr contract_wf parse_timestamp_ok evidence_list_wf)

lemma pccb_from_dict_wf [contract_wf]: "pccb_from_dict raw = Inr p \<Longrightarrow> pccb_wf p"
  unfolding pccb_from_dict_def
  by (elim bindR_eq_InrE, drule Inr_inject, erule subst)
     (simp add: pccb_wf_def expect_string_Inr contract_wf parse_timestamp_ok)

end
