(* ===== verification/Artifacts.thy ===== *)
theory Artifacts
  imports Contracts
begin

text \<open>
  The evidence contracts of \<^verbatim>\<open>models/contracts.py\<close>: correlation references, violations, receipts,
  refusals and execution anchors, with their parsers, printers and constructor checks.
\<close>

section \<open>Optional parts\<close>

text \<open>\<open>X.from_dict(data.get(k)) if data.get(k) else None\<close>: a falsy value is no part at all.\<close>

definition opt_part :: "(json \<Rightarrow> 'a res) \<Rightarrow> json \<Rightarrow> 'a option res" where
  "opt_part f raw = (if truthy raw then bindR (f raw) (\<lambda>x. Inr (Some x)) else Inr None)"

definition put_opt :: "string \<Rightarrow> ('a \<Rightarrow> dict) \<Rightarrow> 'a option \<Rightarrow> dict \<Rightarrow> dict" where
  "put_opt k f part d = (case part of None \<Rightarrow> d | Some x \<Rightarrow> dput d k (JObj (f x)))"

lemma opt_part_JNull [simp]: "opt_part f JNull = Inr None"
  by (simp add: opt_part_def)

lemma opt_part_JObj [simp]: "d \<noteq> [] \<Longrightarrow> opt_part f (JObj d) = bindR (f (JObj d)) (\<lambda>x. Inr (Some x))"
  by (simp add: opt_part_def)

lemma opt_part_Inr: "opt_part f raw = Inr p \<Longrightarrow> p = None \<or> (\<exists>x. p = Some x \<and> f raw = Inr x)"
  by (auto simp: opt_part_def bindR_eq_Inr split: if_splits)

lemma put_opt_lookup [simp]:
  "get_or_null d k = JNull \<Longrightarrow>
   get_or_null (put_opt k f part d) k = (case part of None \<Rightarrow> JNull | Some x \<Rightarrow> JObj (f x))"
  "k \<noteq> k' \<Longrightarrow> get_or_null (put_opt k f part d) k' = get_or_null d k'"
  "k \<noteq> k' \<Longrightarrow> get_or (put_opt k f part d) k' v = get_or d k' v"
  by (simp_all add: put_opt_def split: option.split)

definition opt_wf :: "('a \<Rightarrow> bool) \<Rightarrow> 'a option \<Rightarrow> bool" where
  "opt_wf P part = (case part of None \<Rightarrow> True | Some x \<Rightarrow> P x)"

lemma opt_wf_simps [simp]: "opt_wf P None" "opt_wf P (Some x) = P x"
  by (simp_all add: opt_wf_def)

text \<open>The round trip of an optional part, from that of the part.\<close>

lemma opt_part_round_trip:
  assumes "opt_wf P part" "\<And>x. P x \<Longrightarrow> from (JObj (to x)) = Inr x" "\<And>x. to x \<noteq> []"
  shows "opt_part from (case part of None \<Rightarrow> JNull | Some x \<Rightarrow> JObj (to x)) = Inr part"
  using assms by (cases part) simp_all

lemma opt_part_wf:
  "opt_part f raw = Inr part \<Longrightarrow> (\<And>x. f raw = Inr x \<Longrightarrow> P x) \<Longrightarrow> opt_wf P part"
  by (auto dest: opt_part_Inr)

lemma put_if_nonempty [simp]: "d \<noteq> [] \<Longrightarrow> put_if c k v d \<noteq> []"
  by (cases d) (auto simp: put_if_def split: if_splits)

lemma to_dict_nonempty [simp]:
  "tenant_to_dict t \<noteq> []" "party_to_dict p \<noteq> []" "audience_to_dict a \<noteq> []" "action_to_dict ac \<noteq> []"
  "target_to_dict tg \<noteq> []" "action_hash_to_dict h \<noteq> []" "digest_to_dict dg \<noteq> []"
  by (simp_all add: tenant_to_dict_def party_to_dict_def audience_to_dict_def action_to_dict_def
      target_to_dict_def action_hash_to_dict_def digest_to_dict_def put_defs)

text \<open>The round trips of the optional parts the contracts have.\<close>

lemma opt_parts_round_trip [contract_simps]:
  "opt_wf tenant_wf tn \<Longrightarrow>
   opt_part tenant_from_dict (case tn of None \<Rightarrow> JNull | Some x \<Rightarrow> JObj (tenant_to_dict x)) = Inr tn"
  "opt_wf party_wf pa \<Longrightarrow>
   opt_part (\<lambda>r. party_from_dict r f) (case pa of None \<Rightarrow> JNull | Some x \<Rightarrow> JObj (party_to_dict x)) = Inr pa"
  "opt_wf audience_wf au \<Longrightarrow>
   opt_part (\<lambda>r. audience_from_dict r f)
     (case au of None \<Rightarrow> JNull | Some x \<Rightarrow> JObj (audience_to_dict x)) = Inr au"
  "opt_wf action_wf ac \<Longrightarrow>
   opt_part action_from_dict (case ac of None \<Rightarrow> JNull | Some x \<Rightarrow> JObj (action_to_dict x)) = Inr ac"
  "opt_wf target_wf tg \<Longrightarrow>
   opt_part target_from_dict (case tg of None \<Rightarrow> JNull | Some x \<Rightarrow> JObj (target_to_dict x)) = Inr tg"
  "opt_wf action_hash_wf h \<Longrightarrow>
   opt_part (\<lambda>r. action_hash_from_dict r f)
     (case h of None \<Rightarrow> JNull | Some x \<Rightarrow> JObj (action_hash_to_dict x)) = Inr h"
  "opt_wf digest_wf dg \<Longrightarrow>
   opt_part (\<lambda>r. digest_from_dict r f)
     (case dg of None \<Rightarrow> JNull | Some x \<Rightarrow> JObj (digest_to_dict x)) = Inr dg"
  by (auto intro!: opt_part_round_trip simp: contract_simps)

section \<open>Correlation references\<close>

record correlation_ref =
  co_pccb_id :: json
  co_escrow_id :: json
  co_refusal_id :: json
  co_receipt_id :: json
  co_request_id :: json
  co_action_hash :: "action_hash_spec option"
  co_execution_attempt_id :: json
  co_protocol_version :: json
  co_execution_mode :: json
  co_verifier_identity :: json
  co_target_digest :: "action_hash_spec option"

definition correlation_from_dict :: "json \<Rightarrow> correlation_ref res" where
  "correlation_from_dict raw =
     bindR (expect_mapping raw ''correlation'') (\<lambda>data.
     bindR (opt_part (\<lambda>h. action_hash_from_dict h ''correlation.action_hash'')
         (get_or_null data ''action_hash'')) (\<lambda>ahash.
     bindR (opt_part (\<lambda>h. action_hash_from_dict h ''correlation.target_digest'')
         (get_or_null data ''target_digest'')) (\<lambda>tdigest.
     Inr \<lparr>co_pccb_id = get_or_null data ''pccb_id'', co_escrow_id = get_or_null data ''escrow_id'',
       co_refusal_id = get_or_null data ''refusal_id'', co_receipt_id = get_or_null data ''receipt_id'',
       co_request_id = get_or_null data ''request_id'', co_action_hash = ahash,
       co_execution_attempt_id = get_or_null data ''execution_attempt_id'',
       co_protocol_version = get_or_null data ''protocol_version'',
       co_execution_mode = get_or_null data ''execution_mode'',
       co_verifier_identity = get_or_null data ''verifier_identity'', co_target_digest = tdigest\<rparr>)))"

definition correlation_to_dict :: "correlation_ref \<Rightarrow> dict" where
  "correlation_to_dict c =
     put_opt ''target_digest'' action_hash_to_dict (co_target_digest c)
     (put_field ''verifier_identity'' (co_verifier_identity c)
     (put_field ''execution_mode'' (co_execution_mode c)
     (put_field ''protocol_version'' (co_protocol_version c)
     (put_field ''execution_attempt_id'' (co_execution_attempt_id c)
     (put_opt ''action_hash'' action_hash_to_dict (co_action_hash c)
     (put_field ''request_id'' (co_request_id c)
     (put_field ''receipt_id'' (co_receipt_id c)
     (put_field ''refusal_id'' (co_refusal_id c)
     (put_field ''escrow_id'' (co_escrow_id c)
     (put_field ''pccb_id'' (co_pccb_id c) []))))))))))"

definition correlation_wf :: "correlation_ref \<Rightarrow> bool" where
  "correlation_wf c \<longleftrightarrow> opt_wf action_hash_wf (co_action_hash c) \<and> opt_wf action_hash_wf (co_target_digest c)"

lemma correlation_round_trip [contract_simps]:
  "correlation_wf c \<Longrightarrow> correlation_from_dict (JObj (correlation_to_dict c)) = Inr c"
  by (simp add: correlation_from_dict_def correlation_to_dict_def correlation_wf_def contract_simps)

lemma correlation_from_dict_wf [contract_wf]: "correlation_from_dict raw = Inr c \<Longrightarrow> correlation_wf c"
  unfolding correlation_from_dict_def
  by (elim bindR_eq_InrE, drule Inr_inject, erule subst)
     (auto simp: correlation_wf_def intro: contract_wf opt_part_wf)

section \<open>Violations\<close>

definition violation_from_dict :: "json \<Rightarrow> violation res" where
  "violation_from_dict raw =
     bindR (expect_mapping raw ''violation'') (\<lambda>data.
     bindR (expect_string (get_or_null data ''code'') ''violation.code'') (\<lambda>c.
     bindR (expect_string (get_or_null data ''message'') ''violation.message'') (\<lambda>m.
     Inr \<lparr>vi_code = c, vi_message = m, vi_field_path = get_or_null data ''field_path'',
       vi_expected = get_or_null data ''expected'', vi_observed = get_or_null data ''observed''\<rparr>)))"

definition violation_to_dict :: "violation \<Rightarrow> dict" where
  "violation_to_dict v = put_field ''observed'' (vi_observed v)
     (put_field ''expected'' (vi_expected v) (put_field ''field_path'' (vi_field_path v)
       [(''code'', JStr (vi_code v)), (''message'', JStr (vi_message v))]))"

definition violation_wf :: "violation \<Rightarrow> bool" where
  "violation_wf v \<longleftrightarrow> vi_code v \<noteq> [] \<and> vi_message v \<noteq> []"

lemma violation_round_trip [contract_simps]:
  "violation_wf v \<Longrightarrow> violation_from_dict (JObj (violation_to_dict v)) = Inr v"
  by (simp add: violation_from_dict_def violation_to_dict_def violation_wf_def)

lemma violation_list_round_trip [contract_simps]:
  "\<forall>v \<in> set vs. violation_wf v \<Longrightarrow>
   mapR violation_from_dict (map (\<lambda>v. JObj (violation_to_dict v)) vs) = Inr vs"
  by (simp add: mapR_map mapR_id violation_round_trip)

lemma string_list_round_trip [contract_simps]:
  "\<forall>s \<in> set ss. s \<noteq> [] \<Longrightarrow> mapR (\<lambda>x. expect_string x f) (map JStr ss) = Inr ss"
  by (simp add: mapR_map mapR_id)

section \<open>Receipts\<close>

record receipt =
  rc_receipt_id :: string
  rc_intent_id :: string
  rc_occurred_at :: datetime
  rc_outcome :: string
  rc_tenant :: tenant_ref
  rc_subject :: party_ref
  rc_action :: action_spec
  rc_target :: target_ref
  rc_summary :: string
  rc_phase :: json
  rc_correlation :: "correlation_ref option"
  rc_reason_codes :: "string list"
  rc_follow_up :: dict
  rc_side_effects :: dict
  rc_details :: dict
  rc_metadata :: dict
  rc_extensions :: dict

text \<open>\<open>if not isinstance(raw, list): raise ValueError(...)\<close>.\<close>

definition expect_array :: "json \<Rightarrow> string \<Rightarrow> json list res" where
  "expect_array raw field_name = (case raw of JArr xs \<Rightarrow> Inr xs
     | _ \<Rightarrow> Inl (Raise ValueError (field_name @ '' must be an array when provided'')))"

lemma expect_array_JArr [simp]: "expect_array (JArr xs) f = Inr xs"
  by (simp add: expect_array_def)

definition receipt_from_dict :: "json \<Rightarrow> receipt res" where
  "receipt_from_dict raw =
     bindR (expect_mapping raw ''receipt'') (\<lambda>data.
     bindR (check_contract data ''receipt'') (\<lambda>_.
     bindR (expect_array (get_or data ''reason_codes'' (JArr [])) ''reason_codes'') (\<lambda>reason_codes_raw.
     bindR (expect_string (get_or_null data ''receipt_id'') ''receipt_id'') (\<lambda>rid.
     bindR (expect_string (get_or_null data ''intent_id'') ''intent_id'') (\<lambda>iid.
     bindR (parse_timestamp (get_or_null data ''occurred_at'') ''occurred_at'') (\<lambda>occurred.
     bindR (expect_string (get_or_null data ''outcome'') ''outcome'') (\<lambda>outcome.
     bindR (tenant_from_dict (get_or_null data ''tenant'')) (\<lambda>tenant.
     bindR (party_from_dict (get_or_null data ''subject'') ''subject'') (\<lambda>subject.
     bindR (action_from_dict (get_or_null data ''action'')) (\<lambda>action.
     bindR (target_from_dict (get_or_null data ''target'')) (\<lambda>target.
     bindR (opt_part correlation_from_dict (get_or_null data ''correlation'')) (\<lambda>corr.
     bindR (expect_string (get_or_null data ''summary'') ''summary'') (\<lambda>summary.
     bindR (mapR (\<lambda>x. expect_string x ''reason_codes[]'') reason_codes_raw) (\<lambda>codes.
     bindR (py_dict (get_or data ''follow_up'' (JObj []))) (\<lambda>follow.
     bindR (py_dict (get_or data ''side_effects'' (JObj []))) (\<lambda>side.
     bindR (py_dict (get_or data ''details'' (JObj []))) (\<lambda>details.
     bindR (py_dict (get_or data ''metadata'' (JObj []))) (\<lambda>meta.
     bindR (py_dict (get_or data ''extensions'' (JObj []))) (\<lambda>ext.
     Inr \<lparr>rc_receipt_id = rid, rc_intent_id = iid, rc_occurred_at = occurred, rc_outcome = outcome,
       rc_tenant = tenant, rc_subject = subject, rc_action = action, rc_target = target,
       rc_summary = summary, rc_phase = get_or_null data ''phase'', rc_correlation = corr,
       rc_reason_codes = codes, rc_follow_up = follow, rc_side_effects = side, rc_details = details,
       rc_metadata = meta, rc_extensions = ext\<rparr>)))))))))))))))))))"

text \<open>\<open>if c is not None and c.to_dict()\<close>: an empty correlation is not printed.\<close>

definition put_correlation :: "correlation_ref option \<Rightarrow> dict \<Rightarrow> dict" where
  "put_correlation corr d = (case corr of None \<Rightarrow> d
     | Some c \<Rightarrow> put_if (correlation_to_dict c \<noteq> []) ''correlation'' (JObj (correlation_to_dict c)) d)"

definition receipt_to_dict :: "receipt \<Rightarrow> dict" where
  "receipt_to_dict r =
     put_dict ''extensions'' (rc_extensions r)
     (put_dict ''metadata'' (rc_metadata r)
     (put_dict ''details'' (rc_details r)
     (put_dict ''side_effects'' (rc_side_effects r)
     (put_dict ''follow_up'' (rc_follow_up r)
     (put_array ''reason_codes'' (map JStr (rc_reason_codes r))
     (put_correlation (rc_correlation r)
     (put_field ''phase'' (rc_phase r)
       [(''contract'', contract_entry ''receipt''),
        (''receipt_id'', JStr (rc_receipt_id r)),
        (''intent_id'', JStr (rc_intent_id r)),
        (''occurred_at'', JStr (format_timestamp (rc_occurred_at r))),
        (''outcome'', JStr (rc_outcome r)),
        (''tenant'', JObj (tenant_to_dict (rc_tenant r))),
        (''subject'', JObj (party_to_dict (rc_subject r))),
        (''action'', JObj (action_to_dict (rc_action r))),
        (''target'', JObj (target_to_dict (rc_target r))),
        (''summary'', JStr (rc_summary r))])))))))"

lemma put_correlation_lookup [simp]:
  "get_or_null d ''correlation'' = JNull \<Longrightarrow>
   get_or_null (put_correlation corr d) ''correlation'' = (case corr of None \<Rightarrow> JNull
     | Some c \<Rightarrow> if correlation_to_dict c \<noteq> [] then JObj (correlation_to_dict c) else JNull)"
  "k' \<noteq> ''correlation'' \<Longrightarrow> get_or_null (put_correlation corr d) k' = get_or_null d k'"
  "k' \<noteq> ''correlation'' \<Longrightarrow> get_or (put_correlation corr d) k' x = get_or d k' x"
  by (auto simp: put_correlation_def split: option.split)

text \<open>A correlation that prints to nothing would be read back as no correlation.\<close>

definition correlation_part_wf :: "correlation_ref option \<Rightarrow> bool" where
  "correlation_part_wf corr = opt_wf (\<lambda>c. correlation_wf c \<and> correlation_to_dict c \<noteq> []) corr"

lemma correlation_part_round_trip:
  "correlation_part_wf corr \<Longrightarrow>
   opt_part correlation_from_dict (case corr of None \<Rightarrow> JNull
     | Some c \<Rightarrow> if correlation_to_dict c \<noteq> [] then JObj (correlation_to_dict c) else JNull) = Inr corr"
  by (cases corr) (simp_all add: correlation_part_wf_def contract_simps)

definition receipt_wf :: "receipt \<Rightarrow> bool" where
  "receipt_wf r \<longleftrightarrow> rc_receipt_id r \<noteq> [] \<and> rc_intent_id r \<noteq> [] \<and> dt_ok (rc_occurred_at r)
     \<and> rc_outcome r \<noteq> [] \<and> tenant_wf (rc_tenant r) \<and> party_wf (rc_subject r) \<and> action_wf (rc_action r)
     \<and> target_wf (rc_target r) \<and> rc_summary r \<noteq> [] \<and> correlation_part_wf (rc_correlation r)
     \<and> (\<forall>c \<in> set (rc_reason_codes r). c \<noteq> [])"

lemma receipt_to_dict_lookup:
  "get_or_null (receipt_to_dict r) ''contract'' = contract_entry ''receipt''"
  "get_or_null (receipt_to_dict r) ''receipt_id'' = JStr (rc_receipt_id r)"
  "get_or_null (receipt_to_dict r) ''intent_id'' = JStr (rc_intent_id r)"
  "get_or_null (receipt_to_dict r) ''occurred_at'' = JStr (format_timestamp (rc_occurred_at r))"
  "get_or_null (receipt_to_dict r) ''outcome'' = JStr (rc_outcome r)"
  "get_or_null (receipt_to_dict r) ''tenant'' = JObj (tenant_to_dict (rc_tenant r))"
  "get_or_null (receipt_to_dict r) ''subject'' = JObj (party_to_dict (rc_subject r))"
  "get_or_null (receipt_to_dict r) ''action'' = JObj (action_to_dict (rc_action r))"
  "get_or_null (receipt_to_dict r) ''target'' = JObj (target_to_dict (rc_target r))"
  "get_or_null (receipt_to_dict r) ''summary'' = JStr (rc_summary r)"
  "get_or_null (receipt_to_dict r) ''phase'' = rc_phase r"
  "get_or_null (receipt_to_dict r) ''correlation'' = (case rc_correlation r of None \<Rightarrow> JNull
     | Some c \<Rightarrow> if correlation_to_dict c \<noteq> [] then JObj (correlation_to_dict c) else JNull)"
  "get_or (receipt_to_dict r) ''reason_codes'' (JArr []) = JArr (map JStr (rc_reason_codes r))"
  "get_or (receipt_to_dict r) ''follow_up'' (JObj []) = JObj (rc_follow_up r)"
  "get_or (receipt_to_dict r) ''side_effects'' (JObj []) = JObj (rc_side_effects r)"
  "get_or (receipt_to_dict r) ''details'' (JObj []) = JObj (rc_details r)"
  "get_or (receipt_to_dict r) ''metadata'' (JObj []) = JObj (rc_metadata r)"
  "get_or (receipt_to_dict r) ''extensions'' (JObj []) = JObj (rc_extensions r)"
  by (simp_all add: receipt_to_dict_def)

lemma receipt_round_trip [contract_simps]:
  "receipt_wf r \<Longrightarrow> receipt_from_dict (JObj (receipt_to_dict r)) = Inr r"
  by (simp add: receipt_from_dict_def receipt_to_dict_lookup receipt_wf_def contract_simps
      parse_format_timestamp correlation_part_round_trip cong: bindR_weak_cong)

lemma correlation_part_wfI:
  "opt_part correlation_from_dict raw = Inr corr \<Longrightarrow>
   corr = None \<or> correlation_to_dict (the corr) \<noteq> [] \<Longrightarrow> correlation_part_wf corr"
  by (auto simp: correlation_part_wf_def contract_wf dest: opt_part_Inr)

lemma receipt_from_dict_wf [contract_wf]:
  "receipt_from_dict raw = Inr r \<Longrightarrow> rc_correlation r = None \<or>
     correlation_to_dict (the (rc_correlation r)) \<noteq> [] \<Longrightarrow> receipt_wf r"
  unfolding receipt_from_dict_def
  by (elim bindR_eq_InrE, drule Inr_inject, drule sym, hypsubst)
     (simp add: receipt_wf_def expect_string_Inr contract_wf parse_timestamp_ok
       correlation_part_wfI expect_strings_wf)

section \<open>Refusals\<close>

record refusal =
  rf_refusal_id :: string
  rf_category :: string
  rf_reason_code :: string
  rf_message :: string
  rf_retryable :: bool
  rf_refused_at :: datetime
  rf_intent_id :: json
  rf_tenant :: "tenant_ref option"
  rf_subject :: "party_ref option"
  rf_audience :: "audience_ref option"
  rf_action :: "action_spec option"
  rf_target :: "target_ref option"
  rf_correlation :: "correlation_ref option"
  rf_rule_refs :: "string list"
  rf_violations :: "violation list"
  rf_details :: dict
  rf_extensions :: dict

text \<open>
  \<open>Refusal.__init__\<close>: the required arguments it checks itself, and the deprecated
  \<open>refusal_code\<close> alias of \<open>reason_code\<close>. \<open>rest\<close> holds the arguments it stores as they come.
\<close>

definition Refusal_init :: "string option \<Rightarrow> string option \<Rightarrow> string option \<Rightarrow> bool option \<Rightarrow> datetime option
    \<Rightarrow> refusal \<Rightarrow> refusal res" where
  "Refusal_init reason_code legacy_code message retryable refused_at rest =
     (if reason_code \<noteq> None \<and> legacy_code \<noteq> None \<and> reason_code \<noteq> legacy_code
      then Inl (Raise ValueError ''reason_code and refusal_code must match when both are provided'')
      else
        (let resolved = (if reason_code \<noteq> None then reason_code else legacy_code) in
         case resolved of
           None \<Rightarrow> Inl (Raise TypeError ''Refusal requires reason_code'')
         | Some code \<Rightarrow> (case message of
             None \<Rightarrow> Inl (Raise TypeError ''Refusal requires message'')
           | Some msg \<Rightarrow> (case retryable of
               None \<Rightarrow> Inl (Raise TypeError ''Refusal requires retryable'')
             | Some rt \<Rightarrow> (case refused_at of
                 None \<Rightarrow> Inl (Raise TypeError ''Refusal requires refused_at'')
               | Some t \<Rightarrow> Inr (rest\<lparr>rf_reason_code := code, rf_message := msg, rf_retryable := rt,
                   rf_refused_at := t\<rparr>))))))"

definition refusal_from_dict :: "json \<Rightarrow> refusal res" where
  "refusal_from_dict raw =
     bindR (expect_mapping raw ''refusal'') (\<lambda>data.
     bindR (check_contract data ''refusal'') (\<lambda>_.
     bindR (expect_array (get_or data ''rule_refs'' (JArr [])) ''rule_refs'') (\<lambda>rule_refs_raw.
     bindR (expect_array (get_or data ''violations'' (JArr [])) ''violations'') (\<lambda>violations_raw.
     let reason_code_raw = get_or_null data ''reason_code'';
         legacy_refusal_code_raw = get_or_null data ''refusal_code'' in
     guardR (\<not> (reason_code_raw \<noteq> JNull \<and> legacy_refusal_code_raw \<noteq> JNull
         \<and> \<not> py_eq reason_code_raw legacy_refusal_code_raw))
       (Raise ValueError ''reason_code and refusal_code must match when both are provided'') (
     let reason_code = (if reason_code_raw \<noteq> JNull then reason_code_raw else legacy_refusal_code_raw) in
     bindR (expect_string (get_or_null data ''refusal_id'') ''refusal_id'') (\<lambda>rid.
     bindR (expect_string (get_or_null data ''category'') ''category'') (\<lambda>category.
     bindR (expect_string reason_code ''reason_code'') (\<lambda>code.
     bindR (expect_string (get_or_null data ''message'') ''message'') (\<lambda>msg.
     bindR (expect_bool (get_or_null data ''retryable'') ''retryable'') (\<lambda>rt.
     bindR (parse_timestamp (get_or_null data ''refused_at'') ''refused_at'') (\<lambda>refused.
     bindR (opt_part tenant_from_dict (get_or_null data ''tenant'')) (\<lambda>tenant.
     bindR (opt_part (\<lambda>r. party_from_dict r ''subject'') (get_or_null data ''subject'')) (\<lambda>subject.
     bindR (opt_part (\<lambda>r. audience_from_dict r ''audience'') (get_or_null data ''audience'')) (\<lambda>audience.
     bindR (opt_part action_from_dict (get_or_null data ''action'')) (\<lambda>action.
     bindR (opt_part target_from_dict (get_or_null data ''target'')) (\<lambda>target.
     bindR (opt_part correlation_from_dict (get_or_null data ''correlation'')) (\<lambda>corr.
     bindR (mapR (\<lambda>x. expect_string x ''rule_refs[]'') rule_refs_raw) (\<lambda>rules.
     bindR (mapR violation_from_dict violations_raw) (\<lambda>viols.
     bindR (py_dict (get_or data ''details'' (JObj []))) (\<lambda>details.
     bindR (py_dict (get_or data ''extensions'' (JObj []))) (\<lambda>ext.
     Refusal_init (Some code) None (Some msg) (Some rt) (Some refused)
       \<lparr>rf_refusal_id = rid, rf_category = category, rf_reason_code = code, rf_message = msg,
        rf_retryable = rt, rf_refused_at = refused, rf_intent_id = get_or_null data ''intent_id'',
        rf_tenant = tenant, rf_subject = subject, rf_audience = audience, rf_action = action,
        rf_target = target, rf_correlation = corr, rf_rule_refs = rules, rf_violations = viols,
        rf_details = details, rf_extensions = ext\<rparr>)))))))))))))))))))))"

definition refusal_to_dict :: "refusal \<Rightarrow> dict" where
  "refusal_to_dict r =
     put_dict ''extensions'' (rf_extensions r)
     (put_dict ''details'' (rf_details r)
     (put_array ''violations'' (map (\<lambda>v. JObj (violation_to_dict v)) (rf_violations r))
     (put_array ''rule_refs'' (map JStr (rf_rule_refs r))
     (put_correlation (rf_correlation r)
     (put_opt ''target'' target_to_dict (rf_target r)
     (put_opt ''action'' action_to_dict (rf_action r)
     (put_opt ''audience'' audience_to_dict (rf_audience r)
     (put_opt ''subject'' party_to_dict (rf_subject r)
     (put_opt ''tenant'' tenant_to_dict (rf_tenant r)
     (put_field ''intent_id'' (rf_intent_id r)
       [(''contract'', contract_entry ''refusal''),
        (''refusal_id'', JStr (rf_refusal_id r)),
        (''category'', JStr (rf_category r)),
        (''reason_code'', JStr (rf_reason_code r)),
        (''message'', JStr (rf_message r)),
        (''retryable'', JBool (rf_retryable r)),
        (''refused_at'', JStr (format_timestamp (rf_refused_at r)))]))))))))))"

definition refusal_wf :: "refusal \<Rightarrow> bool" where
  "refusal_wf r \<longleftrightarrow> rf_refusal_id r \<noteq> [] \<and> rf_category r \<noteq> [] \<and> rf_reason_code r \<noteq> [] \<and> rf_message r \<noteq> []
     \<and> dt_ok (rf_refused_at r) \<and> opt_wf tenant_wf (rf_tenant r) \<and> opt_wf party_wf (rf_subject r)
     \<and> opt_wf audience_wf (rf_audience r) \<and> opt_wf action_wf (rf_action r) \<and> opt_wf target_wf (rf_target r)
     \<and> correlation_part_wf (rf_correlation r) \<and> (\<forall>c \<in> set (rf_rule_refs r). c \<noteq> [])
     \<and> (\<forall>v \<in> set (rf_violations r). violation_wf v)"

lemma refusal_to_dict_lookup:
  "get_or_null (refusal_to_dict r) ''contract'' = contract_entry ''refusal''"
  "get_or_null (refusal_to_dict r) ''refusal_id'' = JStr (rf_refusal_id r)"
  "get_or_null (refusal_to_dict r) ''category'' = JStr (rf_category r)"
  "get_or_null (refusal_to_dict r) ''reason_code'' = JStr (rf_reason_code r)"
  "get_or_null (refusal_to_dict r) ''refusal_code'' = JNull"
  "get_or_null (refusal_to_dict r) ''message'' = JStr (rf_message r)"
  "get_or_null (refusal_to_dict r) ''retryable'' = JBool (rf_retryable r)"
  "get_or_null (refusal_to_dict r) ''refused_at'' = JStr (format_timestamp (rf_refused_at r))"
  "get_or_null (refusal_to_dict r) ''intent_id'' = rf_intent_id r"
  "get_or_null (refusal_to_dict r) ''tenant'' = (case rf_tenant r of None \<Rightarrow> JNull | Some x \<Rightarrow> JObj (tenant_to_dict x))"
  "get_or_null (refusal_to_dict r) ''subject'' = (case rf_subject r of None \<Rightarrow> JNull | Some x \<Rightarrow> JObj (party_to_dict x))"
  "get_or_null (refusal_to_dict r) ''audience'' = (case rf_audience r of None \<Rightarrow> JNull | Some x \<Rightarrow> JObj (audience_to_dict x))"
  "get_or_null (refusal_to_dict r) ''action'' = (case rf_action r of None \<Rightarrow> JNull | Some x \<Rightarrow> JObj (action_to_dict x))"
  "get_or_null (refusal_to_dict r) ''target'' = (case rf_target r of None \<Rightarrow> JNull | Some x \<Rightarrow> JObj (target_to_dict x))"
  "get_or_null (refusal_to_dict r) ''correlation'' = (case rf_correlation r of None \<Rightarrow> JNull
     | Some c \<Rightarrow> if correlation_to_dict c \<noteq> [] then JObj (correlation_to_dict c) else JNull)"
  "get_or (refusal_to_dict r) ''rule_refs'' (JArr []) = JArr (map JStr (rf_rule_refs r))"
  "get_or (refusal_to_dict r) ''violations'' (JArr []) = JArr (map (\<lambda>v. JObj (violation_to_dict v)) (rf_violations r))"
  "get_or (refusal_to_dict r) ''details'' (JObj []) = JObj (rf_details r)"
  "get_or (refusal_to_dict r) ''extensions'' (JObj []) = JObj (rf_extensions r)"
  by (simp_all add: refusal_to_dict_def)

lemma refusal_round_trip [contract_simps]:
  "refusal_wf r \<Longrightarrow> refusal_from_dict (JObj (refusal_to_dict r)) = Inr r"
  by (simp add: refusal_from_dict_def refusal_to_dict_lookup refusal_wf_def contract_simps
      parse_format_timestamp correlation_part_round_trip Refusal_init_def cong: bindR_weak_cong)

section \<open>Execution anchors\<close>

record execution_anchor =
  ea_published_at :: datetime
  ea_outcome :: string
  ea_action_hash :: action_hash_spec
  ea_pccb_digest :: digest_spec
  ea_receipt_digest :: "digest_spec option"
  ea_refusal_digest :: "digest_spec option"
  ea_metadata :: dict

text \<open>The loop over \<open>metadata.items()\<close> that \<open>__post_init__\<close> and \<open>from_dict\<close> both run.\<close>

fun check_anchor_metadata :: "dict \<Rightarrow> unit res" where
  "check_anchor_metadata [] = Inr ()"
| "check_anchor_metadata ((k, v) # rest) =
     (if k = [] then Inl (Raise ValueError ''metadata keys must be non-empty strings'')
      else bindR (expect_json_scalar v (''metadata.'' @ k)) (\<lambda>_. check_anchor_metadata rest))"

definition anchor_post_init :: "execution_anchor \<Rightarrow> execution_anchor res" where
  "anchor_post_init a =
     (if ea_outcome a \<notin> {''executed'', ''refused''}
      then Inl (Raise ValueError ''outcome must be executed or refused'')
      else if ea_outcome a = ''executed'' \<and> ea_receipt_digest a = None
      then Inl (Raise ValueError ''receipt_digest is required when outcome is executed'')
      else if ea_outcome a = ''executed'' \<and> ea_refusal_digest a \<noteq> None
      then Inl (Raise ValueError ''refusal_digest must not be set when outcome is executed'')
      else if ea_outcome a = ''refused'' \<and> ea_refusal_digest a = None
      then Inl (Raise ValueError ''refusal_digest is required when outcome is refused'')
      else if ea_outcome a = ''refused'' \<and> ea_receipt_digest a \<noteq> None
      then Inl (Raise ValueError ''receipt_digest must not be set when outcome is refused'')
      else bindR (check_anchor_metadata (ea_metadata a)) (\<lambda>_. Inr a))"

fun read_anchor_metadata :: "dict \<Rightarrow> dict res" where
  "read_anchor_metadata [] = Inr []"
| "read_anchor_metadata ((k, v) # rest) =
     bindR (expect_string (JStr k) ''metadata key'') (\<lambda>k'.
     bindR (expect_json_scalar v (''metadata.'' @ k)) (\<lambda>v'.
     bindR (read_anchor_metadata rest) (\<lambda>rest'. Inr ((k', v') # rest'))))"

definition anchor_from_dict :: "json \<Rightarrow> execution_anchor res" where
  "anchor_from_dict raw =
     bindR (expect_mapping raw ''execution_anchor'') (\<lambda>data.
     bindR (check_contract data ''execution_anchor'') (\<lambda>_.
     bindR (let metadata_raw = get_or data ''metadata'' (JObj []) in
         if truthy metadata_raw then expect_mapping metadata_raw ''metadata'' else Inr []) (\<lambda>mapping.
     bindR (read_anchor_metadata mapping) (\<lambda>meta.
     bindR (parse_timestamp (get_or_null data ''published_at'') ''published_at'') (\<lambda>published.
     bindR (expect_string (get_or_null data ''outcome'') ''outcome'') (\<lambda>outcome.
     bindR (action_hash_from_dict (get_or_null data ''action_hash'') ''action_hash'') (\<lambda>ahash.
     bindR (digest_from_dict (get_or_null data ''pccb_digest'') ''pccb_digest'') (\<lambda>pdigest.
     bindR (opt_part (\<lambda>r. digest_from_dict r ''receipt_digest'') (get_or_null data ''receipt_digest'')) (\<lambda>rdigest.
     bindR (opt_part (\<lambda>r. digest_from_dict r ''refusal_digest'') (get_or_null data ''refusal_digest'')) (\<lambda>fdigest.
     anchor_post_init \<lparr>ea_published_at = published, ea_outcome = outcome, ea_action_hash = ahash,
       ea_pccb_digest = pdigest, ea_receipt_digest = rdigest, ea_refusal_digest = fdigest,
       ea_metadata = meta\<rparr>))))))))))"

definition anchor_to_dict :: "execution_anchor \<Rightarrow> dict" where
  "anchor_to_dict a =
     put_dict ''metadata'' (ea_metadata a)
     (put_opt ''refusal_digest'' digest_to_dict (ea_refusal_digest a)
     (put_opt ''receipt_digest'' digest_to_dict (ea_receipt_digest a)
       [(''contract'', contract_entry ''execution_anchor''),
        (''published_at'', JStr (format_timestamp (ea_published_at a))),
        (''outcome'', JStr (ea_outcome a)),
        (''action_hash'', JObj (action_hash_to_dict (ea_action_hash a))),
        (''pccb_digest'', JObj (digest_to_dict (ea_pccb_digest a)))]))"

text \<open>The well-formed anchors: their parts parse back and the constructor accepts them.\<close>

definition anchor_wf :: "execution_anchor \<Rightarrow> bool" where
  "anchor_wf a \<longleftrightarrow> dt_ok (ea_published_at a) \<and> action_hash_wf (ea_action_hash a)
     \<and> digest_wf (ea_pccb_digest a) \<and> opt_wf digest_wf (ea_receipt_digest a)
     \<and> opt_wf digest_wf (ea_refusal_digest a) \<and> anchor_post_init a = Inr a"

lemma read_anchor_metadata_id: "check_anchor_metadata d = Inr () \<Longrightarrow> read_anchor_metadata d = Inr d"
  by (induction d rule: check_anchor_metadata.induct)
     (auto simp: expect_json_scalar_def split: if_splits)

lemma anchor_post_init_Inr:
  "anchor_post_init a = Inr b \<Longrightarrow> b = a \<and> check_anchor_metadata (ea_metadata a) = Inr () \<and>
     (ea_outcome a = ''executed'' \<and> ea_receipt_digest a \<noteq> None \<and> ea_refusal_digest a = None
      \<or> ea_outcome a = ''refused'' \<and> ea_refusal_digest a \<noteq> None \<and> ea_receipt_digest a = None)"
  by (auto simp: anchor_post_init_def bindR_eq_Inr split: if_splits)

lemma anchor_round_trip [contract_simps]:
  assumes "anchor_wf a"
  shows "anchor_from_dict (JObj (anchor_to_dict a)) = Inr a"
proof -
  from assms have post: "anchor_post_init a = Inr a" by (simp add: anchor_wf_def)
  from anchor_post_init_Inr[OF post]
  have meta: "read_anchor_metadata (ea_metadata a) = Inr (ea_metadata a)" and out: "ea_outcome a \<noteq> []"
    by (auto intro: read_anchor_metadata_id)
  have eta: "\<lparr>ea_published_at = ea_published_at a, ea_outcome = ea_outcome a,
      ea_action_hash = ea_action_hash a, ea_pccb_digest = ea_pccb_digest a,
      ea_receipt_digest = ea_receipt_digest a, ea_refusal_digest = ea_refusal_digest a,
      ea_metadata = ea_metadata a\<rparr> = a"
    by simp
  have "(if truthy (JObj d) then expect_mapping (JObj d) f else Inr []) = Inr d" for d f
    by simp
  then show ?thesis using assms post meta out
    by (simp add: eta anchor_from_dict_def anchor_to_dict_def anchor_wf_def contract_simps
        parse_format_timestamp Let_def cong: bindR_weak_cong del: truthy.simps)
qed

lemma anchor_from_dict_wf [contract_wf]:
  "anchor_from_dict raw = Inr a \<Longrightarrow> anchor_wf a"
  unfolding anchor_from_dict_def
  by (elim bindR_eq_InrE, frule anchor_post_init_Inr)
     (auto simp: anchor_wf_def contract_wf parse_timestamp_ok dest: opt_part_Inr)

end
