(* ===== verification/Runtime.thy ===== *)
theory Runtime
  imports Artifacts
begin

text \<open>
  The runtime values of \<^verbatim>\<open>models/runtime.py\<close> that the components exchange: the dynamic context of
  a request, rule evaluations and policy decisions, and the results of admission and execution.
\<close>

record dynamic_context =
  cx_request_id :: string
  cx_audience :: audience_ref
  cx_scope_capabilities :: "string list"
  cx_now :: datetime
  cx_facts :: dict
  cx_parameter_constraints :: dict
  cx_resource_selectors :: "dict list"
  cx_required_evidence_types :: "string list"
  cx_approver_types :: "string list"
  cx_max_ttl_seconds :: "int option"

record rule_evaluation =
  ru_rule_id :: string
  ru_outcome :: string
  ru_reason_code :: string
  ru_summary :: string
  ru_details :: dict
  ru_required_evidence :: "string list"
  ru_approver_types :: "string list"

record policy_decision =
  pd_outcome :: string
  pd_summary :: string
  pd_rule_evaluations :: "rule_evaluation list"
  pd_reason_codes :: "string list"
  pd_required_evidence :: "string list"
  pd_approver_types :: "string list"

definition decision_allowed :: "policy_decision \<Rightarrow> bool" where
  "decision_allowed d \<longleftrightarrow> pd_outcome d = ''allow''"

record admission_result =
  ar_intent :: "action_intent option"
  ar_decision :: "policy_decision option"
  ar_receipt :: "receipt option"
  ar_refusal :: "refusal option"
  ar_pccb :: "pccb option"
  ar_escrow_id :: json

record execution_request =
  rq_intent :: action_intent
  rq_pccb :: pccb
  rq_context :: dynamic_context

record execution_result =
  xr_receipt :: "receipt option"
  xr_refusal :: "refusal option"
  xr_payload :: "dict option"

text \<open>Addition of a \<open>timedelta\<close> to a \<open>datetime\<close>: outside the range of the type it raises.\<close>

definition dt_add :: "datetime \<Rightarrow> int \<Rightarrow> datetime res" where
  "dt_add t delta = (if dt_ok (t + delta) then Inr (t + delta)
     else Inl (Raise OverflowError ''date value out of range''))"

lemma dt_add_Inr: "dt_add t d = Inr u \<longleftrightarrow> dt_ok (t + d) \<and> u = t + d"
  by (auto simp: dt_add_def)

end
