(* ===== verification/Posture.thy ===== *)
theory Posture
  imports Errors
begin

text \<open>
  The security posture: \<^verbatim>\<open>security_posture.py\<close> (explicit development intent and named downgrades),
  the construction guards of the local HMAC signer (\<^verbatim>\<open>proof/signers/local.py\<close>) and the
  disclosure profile of the verifier (\<^verbatim>\<open>proof/service.py\<close>). The process keeps an environment and
  the context variable \<open>_DECLARED_INTENT\<close>.
\<close>

section \<open>Strings of the environment\<close>

text \<open>
  \<open>str.strip()\<close> removes Unicode white space on both sides; \<open>py_lower\<close> lowers ASCII letters,
  which decides membership in sets of ASCII words without the letter \<open>k\<close> as
  \<open>str.lower()\<close> does (the only character outside ASCII whose lower case is a single ASCII
  letter is the Kelvin sign).
\<close>

definition unicode_spaces :: "string list" where
  "unicode_spaces = map (\<lambda>n. [char_of (n :: nat)]) ([9, 10, 11, 12, 13] @ [28, 29, 30, 31, 32])
     @ map (map (\<lambda>n. char_of (n :: nat)))
        ([[194, 133], [194, 160], [225, 154, 128]]
         @ map (\<lambda>n. [226, 128, n]) [128, 129, 130, 131, 132, 133, 134, 135, 136, 137, 138, 168, 169, 175]
         @ [[226, 129, 159], [227, 128, 128]])"

definition py_strip :: "string \<Rightarrow> string" where
  "py_strip s = (let sp = (\<lambda>c. c \<in> set unicode_spaces) in
     concat (rev (dropWhile sp (rev (dropWhile sp (codepoints s))))))"

definition lower_char :: "char \<Rightarrow> char" where
  "lower_char c = (let n = (of_char c :: nat) in if 65 \<le> n \<and> n \<le> 90 then char_of (n + 32) else c)"

definition py_lower :: "string \<Rightarrow> string" where
  "py_lower s = map lower_char s"

text \<open>A text that begins and ends with visible ASCII is not changed by \<open>strip\<close>.\<close>

lemma one_byte_spaces: "list_all (\<lambda>e. length e = 1 \<longrightarrow> of_char (hd e) < (33 :: nat)) unicode_spaces"
  by (simp add: unicode_spaces_def of_char_of)

lemma letter_not_space: "\<not> of_char c < (33 :: nat) \<Longrightarrow> [c] \<notin> set unicode_spaces"
  using one_byte_spaces by (auto simp: list_all_iff dest!: bspec)

lemma codepoints_snoc: "\<not> is_continuation c \<Longrightarrow> codepoints (s @ [c]) = codepoints s @ [[c]]"
proof (induction s rule: codepoints.induct)
  case (2 a s)
  show ?case
  proof (cases "\<forall>x \<in> set s. is_continuation x")
    case True
    then have eqs: "takeWhile is_continuation s = s" "dropWhile is_continuation s = []"
        "takeWhile is_continuation (s @ [c]) = s" "dropWhile is_continuation (s @ [c]) = [c]"
      using 2(2) by (simp_all add: takeWhile_eq_all_conv takeWhile_append2 dropWhile_append2)
    show ?thesis unfolding append_Cons codepoints.simps eqs by simp
  next
    case False
    then show ?thesis using 2 by (auto simp: takeWhile_append dropWhile_append)
  qed
qed simp

lemma py_strip_visible:
  assumes "\<not> of_char c < (33 :: nat)" "\<not> of_char d < (33 :: nat)" "of_char c < (128 :: nat)" "of_char d < (128 :: nat)"
    and "\<not> is_continuation (hd (s @ [d]))"
  shows "py_strip (c # s @ [d]) = c # s @ [d]"
proof -
  have d: "\<not> is_continuation d" using assms(4) by (simp add: is_continuation_def)
  have "codepoints (c # s @ [d]) = [c] # codepoints (s @ [d])"
    using assms(5) by (cases "s @ [d]") auto
  also have "\<dots> = [c] # codepoints s @ [[d]]" using codepoints_snoc[OF d] by simp
  finally have "codepoints (c # s @ [d]) = [c] # codepoints s @ [[d]]" .
  then show ?thesis
    using assms(1,2)[THEN letter_not_space] by (simp add: py_strip_def concat_codepoints)
qed

section \<open>Development intent\<close>

record process =
  pr_environ :: "(string \<times> string) list"
  pr_declared :: "string option"

definition DEVELOPMENT_ENV_VALUES :: "string list" where
  "DEVELOPMENT_ENV_VALUES = [''development'', ''dev'', ''local'', ''test'']"

definition PRODUCTION_FLAG_ENVS :: "string list" where
  "PRODUCTION_FLAG_ENVS = [''ACTENON_PRODUCTION'', ''ACTENON_CI_RELEASE'', ''ACTENON_RELEASE_BUILD'']"

definition env_truthy :: "string option \<Rightarrow> bool" where
  "env_truthy raw = (case raw of None \<Rightarrow> False
     | Some s \<Rightarrow> py_lower (py_strip s) \<in> {''1'', ''true'', ''yes'', ''on''})"

definition environ_get :: "process \<Rightarrow> string \<Rightarrow> string" where
  "environ_get P name = (case dget (pr_environ P) name of None \<Rightarrow> [] | Some s \<Rightarrow> s)"

definition normalized_environment :: "process \<Rightarrow> string" where
  "normalized_environment P = py_lower (py_strip (environ_get P ''ACTENON_ENV''))"

definition production_flag_set :: "process \<Rightarrow> bool" where
  "production_flag_set P = list_ex (\<lambda>name. env_truthy (dget (pr_environ P) name)) PRODUCTION_FLAG_ENVS"

definition development_environment :: "process \<Rightarrow> bool" where
  "development_environment P \<longleftrightarrow>
     \<not> production_flag_set P \<and> normalized_environment P \<in> set DEVELOPMENT_ENV_VALUES"

definition development_intent :: "process \<Rightarrow> bool" where
  "development_intent P =
     (if production_flag_set P then False
      else if normalized_environment P \<in> set DEVELOPMENT_ENV_VALUES then True
      else normalized_environment P = [] \<and> pr_declared P \<noteq> None)"

definition declared_development_source :: "process \<Rightarrow> string option" where
  "declared_development_source P = pr_declared P"

text \<open>
  The context manager: refused in an environment declared non-development; otherwise the block
  runs with the declaration set and it is reset afterwards, also when the block raises.
\<close>

definition explicit_development_intent ::
    "string \<Rightarrow> (process \<Rightarrow> 'a res \<times> process) \<Rightarrow> process \<Rightarrow> 'a res \<times> process" where
  "explicit_development_intent source block P =
     (let env = normalized_environment P in
      if production_flag_set P \<or> env \<noteq> [] \<and> env \<notin> set DEVELOPMENT_ENV_VALUES
      then (Inl (Raise (OtherError ''DevelopmentIntentConflictError'')
             (source @ '' is a development-only entry point'')), P)
      else (let (r, P') = block (P\<lparr>pr_declared := Some source\<rparr>)
            in (r, P'\<lparr>pr_declared := pr_declared P\<rparr>)))"

definition declare_process_development_intent :: "string \<Rightarrow> process \<Rightarrow> unit res \<times> process" where
  "declare_process_development_intent source P =
     (case explicit_development_intent source (\<lambda>Q. (Inr (), Q)) P of
        (Inl e, P') \<Rightarrow> (Inl e, P')
      | (Inr _, P') \<Rightarrow> (Inr (),
          if py_strip (environ_get P' ''ACTENON_ENV'') = []
          then P'\<lparr>pr_environ := dput (pr_environ P') ''ACTENON_ENV'' ''development''\<rparr> else P'))"

definition require_development_intent :: "process \<Rightarrow> string \<Rightarrow> unit res" where
  "require_development_intent P what =
     (if development_intent P then Inr ()
      else Inl (Raise (OtherError ''InsecureDefaultRefusedError'')
        (what @ '' requires explicit development intent'')))"

definition permit_downgrade :: "process \<Rightarrow> string \<Rightarrow> string \<Rightarrow> string \<Rightarrow> string res" where
  "permit_downgrade P downgrade override_env what =
     (if development_intent P then Inr downgrade
      else if env_truthy (dget (pr_environ P) override_env) then Inr downgrade
      else Inl (Raise (OtherError ''InsecureDefaultRefusedError'')
        (what @ '' requires explicit development intent'')))"

section \<open>Construction of the local HMAC signer\<close>

definition LOCAL_PROOF_SECRET :: string where
  "LOCAL_PROOF_SECRET = ''actenon-local-proof-secret-v1''"

definition PRODUCTION_ENV_VALUES :: "string list" where
  "PRODUCTION_ENV_VALUES = [''prod'', ''production'', ''staging'', ''release'', ''ci'', ''non-dev'', ''nondev'']"

definition production_like_environment :: "process \<Rightarrow> bool" where
  "production_like_environment P \<longleftrightarrow> normalized_environment P \<in> set PRODUCTION_ENV_VALUES
     \<or> list_ex (\<lambda>name. env_truthy (dget (pr_environ P) name)) PRODUCTION_FLAG_ENVS"

definition resolve_local_hmac_secret :: "process \<Rightarrow> string option \<Rightarrow> string" where
  "resolve_local_hmac_secret P secret = (case secret of Some s \<Rightarrow> s
     | None \<Rightarrow> (case dget (pr_environ P) ''ACTENON_LOCAL_HMAC_SECRET'' of
          Some s \<Rightarrow> s | None \<Rightarrow> LOCAL_PROOF_SECRET))"

definition guard_local_hmac_creation :: "process \<Rightarrow> unit res" where
  "guard_local_hmac_creation P = (if production_like_environment P
     then Inl (Raise (OtherError ''LocalHmacProductionGuardError'') ''local HMAC proof signing is disabled'')
     else Inr ())"

definition guard_public_secret :: "process \<Rightarrow> string \<Rightarrow> unit res" where
  "guard_public_secret P secret = (if secret = LOCAL_PROOF_SECRET \<and> \<not> development_intent P
     then Inl (Raise (OtherError ''LocalHmacProductionGuardError'') ''the public development HMAC secret is refused'')
     else Inr ())"

record hmac_signer =
  hs_secret :: string
  hs_key_id :: string
  hs_algorithm :: string

definition HmacSha256Signer :: "process \<Rightarrow> string \<Rightarrow> string \<Rightarrow> hmac_signer res" where
  "HmacSha256Signer P secret key_id =
     bindR (guard_local_hmac_creation P) (\<lambda>_.
     bindR (guard_public_secret P secret) (\<lambda>_.
     Inr \<lparr>hs_secret = secret, hs_key_id = key_id, hs_algorithm = ''HS256''\<rparr>))"

definition build_local_proof_signer :: "process \<Rightarrow> string option \<Rightarrow> string \<Rightarrow> hmac_signer res" where
  "build_local_proof_signer P secret key_id = HmacSha256Signer P (resolve_local_hmac_secret P secret) key_id"

section \<open>Disclosure profile of the verifier\<close>

datatype disclosure_mode = PUBLIC_GENERIC | TRUSTED_DETAILED | LOCAL_DEBUG

definition is_production_like_env :: "process \<Rightarrow> bool" where
  "is_production_like_env P \<longleftrightarrow>
     normalized_environment P \<notin> {''development'', ''local'', ''dev'', ''test'', ''demo'', []}"

definition default_disclosure_mode :: "process \<Rightarrow> disclosure_mode" where
  "default_disclosure_mode P = (if is_production_like_env P then TRUSTED_DETAILED else LOCAL_DEBUG)"

text \<open>\<open>PCCBVerifier.__post_init__\<close>, with the skew in microseconds.\<close>

definition verifier_post_init :: "process \<Rightarrow> int \<Rightarrow> disclosure_mode \<Rightarrow> unit res" where
  "verifier_post_init P clock_skew_tolerance mode =
     (if clock_skew_tolerance < 0 then Inl (Raise ValueError ''clock_skew_tolerance must be non-negative'')
      else if mode = LOCAL_DEBUG \<and> is_production_like_env P
      then Inl (Raise ValueError ''VerifierDisclosureMode.LOCAL_DEBUG cannot be enabled'')
      else Inr ())"

section \<open>Lemmas\<close>

lemma development_intent_no_flag: "development_intent P \<Longrightarrow> \<not> production_flag_set P"
  by (simp add: development_intent_def split: if_splits)

lemma declared_irrelevant [simp]:
  "normalized_environment (P\<lparr>pr_declared := d\<rparr>) = normalized_environment P"
  "production_flag_set (P\<lparr>pr_declared := d\<rparr>) = production_flag_set P"
  by (simp_all add: normalized_environment_def environ_get_def production_flag_set_def)

text \<open>Inside a block that was entered, the context has development intent.\<close>

lemma intent_inside_block:
  "\<not> (production_flag_set P \<or> normalized_environment P \<noteq> [] \<and>
      normalized_environment P \<notin> set DEVELOPMENT_ENV_VALUES) \<Longrightarrow>
   development_intent (P\<lparr>pr_declared := Some source\<rparr>)"
  by (auto simp: development_intent_def)

lemma explicit_intent_scoped:
  "explicit_development_intent source block P = (r, P') \<Longrightarrow> pr_declared P' = pr_declared P"
  by (auto simp: explicit_development_intent_def Let_def split: if_splits prod.splits)

lemma production_like_flag: "production_flag_set P \<Longrightarrow> production_like_environment P"
  by (simp add: production_flag_set_def production_like_environment_def)

end
