(* ===== verification/Signers.thy ===== *)
theory Signers
  imports Contracts Posture
begin

text \<open>
  Proof signatures: the base64url codec of \<^verbatim>\<open>proof/signers/base.py\<close>, the HMAC-SHA-256 signer of
  \<^verbatim>\<open>proof/signers/local.py\<close> over the digest function of the dependencies, and the contract
  a signer keeps (the \<open>Signer\<close> protocol), as the locale \<open>signer\<close>.
\<close>

section \<open>base64url\<close>

definition b64_char :: "nat \<Rightarrow> char" where
  "b64_char n = (if n < 26 then char_of (65 + n) else if n < 52 then char_of (71 + n)
     else if n < 62 then char_of (n - 4) else if n = 62 then CHR ''-'' else CHR ''_'')"

text \<open>
  \<open>base64.b64decode(..., altchars=b"-_")\<close> maps \<open>-_\<close> to \<open>+/\<close> and then reads the
  standard alphabet, so it takes both spellings of the last two digits.
\<close>

definition b64_val :: "char \<Rightarrow> nat option" where
  "b64_val c = (let n = (of_char c :: nat) in
     if 65 \<le> n \<and> n \<le> 90 then Some (n - 65)
     else if 97 \<le> n \<and> n \<le> 122 then Some (n - 71)
     else if 48 \<le> n \<and> n \<le> 57 then Some (n + 4)
     else if c \<in> {CHR ''-'', CHR ''+''} then Some 62
     else if c \<in> {CHR ''_'', CHR ''/''} then Some 63 else None)"

abbreviation byte :: "char \<Rightarrow> nat" where
  "byte c \<equiv> of_char c"

fun urlsafe_b64encode :: "string \<Rightarrow> string" where
  "urlsafe_b64encode [] = []"
| "urlsafe_b64encode [a] =
     [b64_char (byte a div 4), b64_char (byte a mod 4 * 16), CHR ''='', CHR ''='']"
| "urlsafe_b64encode [a, b] =
     [b64_char (byte a div 4), b64_char (byte a mod 4 * 16 + byte b div 16),
      b64_char (byte b mod 16 * 4), CHR ''='']"
| "urlsafe_b64encode (a # b # c # rest) =
     [b64_char (byte a div 4), b64_char (byte a mod 4 * 16 + byte b div 16),
      b64_char (byte b mod 16 * 4 + byte c div 64), b64_char (byte c mod 64)] @ urlsafe_b64encode rest"

definition b64url_encode :: "string \<Rightarrow> string" where
  "b64url_encode raw = rev (dropWhile (\<lambda>c. c = CHR ''='') (rev (urlsafe_b64encode raw)))"

fun b64_groups :: "nat list \<Rightarrow> string" where
  "b64_groups (w # x # y # z # rest) =
     [char_of (w * 4 + x div 16), char_of (x mod 16 * 16 + y div 4), char_of (y mod 4 * 64 + z)]
       @ b64_groups rest"
| "b64_groups [w, x, y] = [char_of (w * 4 + x div 16), char_of (x mod 16 * 16 + y div 4)]"
| "b64_groups [w, x] = [char_of (w * 4 + x div 16)]"
| "b64_groups _ = []"

text \<open>
  The decoder pads, requires the alphabet followed by at most two \<open>=\<close> (\<open>validate=True\<close>),
  and ignores unused trailing bits as \<open>binascii\<close> does.
\<close>

definition b64url_decode :: "string \<Rightarrow> string res" where
  "b64url_decode raw =
     (let padded = raw @ replicate (nat (- int (length raw) mod 4)) CHR ''='';
          data = takeWhile (\<lambda>c. c \<noteq> CHR ''='') padded;
          pad = dropWhile (\<lambda>c. c \<noteq> CHR ''='') padded in
      if length pad \<le> 2 \<and> list_all (\<lambda>c. c = CHR ''='') pad \<and> list_all (\<lambda>c. b64_val c \<noteq> None) data
      then Inr (b64_groups (map (\<lambda>c. the (b64_val c)) data))
      else Inl (Raise ValueError ''invalid base64url input''))"

lemma b64_char_code: "n < 64 \<Longrightarrow> (of_char (b64_char n) :: nat) =
   (if n < 26 then 65 + n else if n < 52 then 71 + n else if n < 62 then n - 4 else if n = 62 then 45 else 95)"
  by (simp add: b64_char_def of_char_of)

lemma b64_val_char [simp]: "n < 64 \<Longrightarrow> b64_val (b64_char n) = Some n"
  by (auto simp: b64_val_def Let_def b64_char_code b64_char_def)

lemma b64_char_not_pad [simp]: "n < 64 \<Longrightarrow> b64_char n \<noteq> CHR ''=''"
  using b64_val_char[of n] by (auto simp: b64_val_def Let_def)

lemma byte_less [simp]: "byte c < 256"
  by (rule of_char_lt_256)

text \<open>The arithmetic of regrouping bytes into six-bit digits and back.\<close>

lemma regroup_less:
  fixes x y z :: nat
  shows "x < 256 \<Longrightarrow> x div 4 < 64" "x mod 4 * 16 < 64" "x mod 16 * 4 < 64" "x mod 64 < 64"
    "y < 256 \<Longrightarrow> x mod 4 * 16 + y div 16 < 64" "z < 256 \<Longrightarrow> y mod 16 * 4 + z div 64 < 64"
proof -
  have m: "x mod 4 < 4" "y mod 16 < 16" "x mod 16 < 16" by simp_all
  show "x < 256 \<Longrightarrow> x div 4 < 64" by (simp add: div_less_iff_less_mult)
  show "x mod 4 * 16 < 64" "x mod 16 * 4 < 64" "x mod 64 < 64" using m by simp_all
  show "x mod 4 * 16 + y div 16 < 64" if "y < 256"
  proof -
    have "y div 16 < 16" using that by (simp add: div_less_iff_less_mult)
    then show ?thesis using m by linarith
  qed
  show "y mod 16 * 4 + z div 64 < 64" if "z < 256"
  proof -
    have "z div 64 < 4" using that by (simp add: div_less_iff_less_mult)
    then show ?thesis using m by linarith
  qed
qed

lemma regroup:
  fixes x y z :: nat
  shows "y < 256 \<Longrightarrow> x div 4 * 4 + (x mod 4 * 16 + y div 16) div 16 = x"
    "y < 256 \<Longrightarrow> z < 256 \<Longrightarrow>
       (x mod 4 * 16 + y div 16) mod 16 * 16 + (y mod 16 * 4 + z div 64) div 4 = y"
    "z < 256 \<Longrightarrow> (y mod 16 * 4 + z div 64) mod 4 * 64 + z mod 64 = z"
proof -
  have y: "y div 16 < 16" if "y < 256" using that by (simp add: div_less_iff_less_mult)
  have z: "z div 64 < 4" if "z < 256" using that by (simp add: div_less_iff_less_mult)
  show "x div 4 * 4 + (x mod 4 * 16 + y div 16) div 16 = x" if "y < 256"
    using y[OF that] by simp
  show "(x mod 4 * 16 + y div 16) mod 16 * 16 + (y mod 16 * 4 + z div 64) div 4 = y"
    if "y < 256" "z < 256"
  proof -
    have "(x mod 4 * 16 + y div 16) mod 16 = y div 16" using y[OF that(1)] by simp
    moreover have "(y mod 16 * 4 + z div 64) div 4 = y mod 16" using z[OF that(2)] by simp
    ultimately show ?thesis by simp
  qed
  show "(y mod 16 * 4 + z div 64) mod 4 * 64 + z mod 64 = z" if "z < 256"
  proof -
    have "(y mod 16 * 4 + z div 64) mod 4 = z div 64" using z[OF that] by simp
    then show ?thesis by simp
  qed
qed

lemmas byte_parts [simp] = regroup_less(1)[OF byte_less] regroup_less(2-4)
  regroup_less(5)[OF byte_less] regroup_less(6)[OF byte_less]

lemma byte_regroup [simp]:
  "char_of (byte a div 4 * 4 + (byte a mod 4 * 16) div 16) = a"
  "char_of (byte a div 4 * 4 + (byte a mod 4 * 16 + byte b div 16) div 16) = a"
  "char_of ((byte a mod 4 * 16 + byte b div 16) mod 16 * 16 + (byte b mod 16 * 4) div 4) = b"
  "char_of ((byte a mod 4 * 16 + byte b div 16) mod 16 * 16 + (byte b mod 16 * 4 + byte c div 64) div 4) = b"
  "char_of ((byte b mod 16 * 4 + byte c div 64) mod 4 * 64 + byte c mod 64) = c"
  using regroup(1)[of 0 "byte a"] regroup(1)[of "byte b" "byte a"] regroup(2)[of "byte b" 0 "byte a"]
    regroup(2)[of "byte b" "byte c" "byte a"] regroup(3)[of "byte c" "byte b"]
  by (simp_all only: byte_less char_of_char div_0 add_0_right zero_less_numeral)

text \<open>The encoder's digits without the padding.\<close>

fun b64_digits :: "string \<Rightarrow> nat list" where
  "b64_digits [] = []"
| "b64_digits [a] = [byte a div 4, byte a mod 4 * 16]"
| "b64_digits [a, b] = [byte a div 4, byte a mod 4 * 16 + byte b div 16, byte b mod 16 * 4]"
| "b64_digits (a # b # c # rest) =
     [byte a div 4, byte a mod 4 * 16 + byte b div 16, byte b mod 16 * 4 + byte c div 64, byte c mod 64]
       @ b64_digits rest"

lemma b64_digits_less: "n \<in> set (b64_digits s) \<Longrightarrow> n < 64"
  by (induction s rule: b64_digits.induct) auto

definition b64_padding :: "string \<Rightarrow> string" where
  "b64_padding s = replicate (nat (- int (length s) mod 3)) CHR ''=''"

lemma b64_padding_step: "b64_padding (a # b # c # rest) = b64_padding rest"
proof -
  have "- (3 + k) mod 3 = - k mod (3 :: int)" for k by presburger
  from this[of "int (length rest)"] show ?thesis by (simp add: b64_padding_def)
qed

lemma urlsafe_b64encode_digits: "urlsafe_b64encode s = map b64_char (b64_digits s) @ b64_padding s"
proof (induction s rule: urlsafe_b64encode.induct)
  case (4 a b c rest)
  then show ?case by (simp add: b64_padding_step)
qed (simp_all add: b64_padding_def numeral_2_eq_2)

lemma drop_replicate: "dropWhile (\<lambda>c. c = x) (replicate n x @ ys) = dropWhile (\<lambda>c. c = x) ys"
  by (induction n) simp_all

lemma b64url_encode_digits: "b64url_encode s = map b64_char (b64_digits s)"
proof -
  have "dropWhile (\<lambda>c. c = CHR ''='') (rev (map b64_char ns)) = rev (map b64_char ns)"
    if "\<forall>n \<in> set ns. n < 64" for ns
    using that by (cases ns rule: rev_cases) auto
  from this[of "b64_digits s"] show ?thesis
    by (simp add: b64url_encode_def urlsafe_b64encode_digits b64_padding_def b64_digits_less
        drop_replicate)
qed

lemma b64_digits_length_mod: "length (b64_digits s) mod 4 \<noteq> 1"
  by (induction s rule: b64_digits.induct) auto

lemma b64_groups_digits [simp]: "b64_groups (b64_digits s) = s"
  by (induction s rule: b64_digits.induct) 
     (simp_all only: b64_digits.simps b64_groups.simps append.simps byte_regroup)

lemma b64url_decode_digits:
  assumes "\<forall>n \<in> set ds. n < 64" "length ds mod 4 \<noteq> 1"
  shows "b64url_decode (map b64_char ds) = Inr (b64_groups ds)"
proof -
  have "- int (length ds) mod 4 \<le> 2" using assms(2) by presburger
  then have pad: "nat (- int (length ds) mod 4) \<le> 2" by simp
  have "map ((\<lambda>c. the (b64_val c)) \<circ> b64_char) ds = ds"
    using assms(1) by (auto intro!: map_idI)
  moreover have "takeWhile (\<lambda>c. c \<noteq> CHR ''='') (map b64_char ds @ replicate n CHR ''='') = map b64_char ds"
      "dropWhile (\<lambda>c. c \<noteq> CHR ''='') (map b64_char ds @ replicate n CHR ''='') = replicate n CHR ''=''" for n
    using assms(1) by (induction ds) (simp_all add: takeWhile_replicate dropWhile_replicate)
  ultimately show ?thesis
    using pad assms(1) by (simp add: b64url_decode_def Let_def list_all_iff)
qed

lemma b64url_decode_encode: "b64url_decode (b64url_encode s) = Inr s"
  unfolding b64url_encode_digits
  by (subst b64url_decode_digits) (auto simp: b64_digits_less b64_digits_length_mod simp del: One_nat_def)

lemma b64url_encode_nonempty: "s \<noteq> [] \<Longrightarrow> b64url_encode s \<noteq> []"
  by (cases s rule: b64_digits.cases) (simp_all add: b64url_encode_digits)

section \<open>HMAC\<close>

text \<open>\<open>hmac.new(key, message, sha256).digest()\<close> (RFC 2104 with the block size 64).\<close>

definition xor_byte :: "nat \<Rightarrow> char \<Rightarrow> char" where
  "xor_byte n c = char_of (xor (byte c) n)"

definition hmac_key_block :: "deps \<Rightarrow> string \<Rightarrow> string" where
  "hmac_key_block D key = (let k = (if length key > 64 then dep_sha256 D key else key) in
     k @ replicate (64 - length k) (char_of (0 :: nat)))"

definition hmac_digest :: "deps \<Rightarrow> string \<Rightarrow> string \<Rightarrow> string" where
  "hmac_digest D key msg =
     dep_sha256 D (map (xor_byte 92) (hmac_key_block D key)
       @ dep_sha256 D (map (xor_byte 54) (hmac_key_block D key) @ msg))"

section \<open>Local signer\<close>

definition hmac_sign :: "deps \<Rightarrow> hmac_signer \<Rightarrow> string \<Rightarrow> signature_spec" where
  "hmac_sign D S payload = \<lparr>sg_algorithm = hs_algorithm S, sg_key_id = hs_key_id S,
     sg_encoding = ''base64url'', sg_value = b64url_encode (hmac_digest D (hs_secret S) payload)\<rparr>"

definition hmac_verify :: "deps \<Rightarrow> hmac_signer \<Rightarrow> string \<Rightarrow> signature_spec \<Rightarrow> bool" where
  "hmac_verify D S payload sig =
     (if sg_algorithm sig \<noteq> hs_algorithm S \<or> sg_key_id sig \<noteq> hs_key_id S \<or> sg_encoding sig \<noteq> ''base64url''
      then False
      else case b64url_decode (sg_value sig) of
        Inl _ \<Rightarrow> False
      | Inr provided \<Rightarrow> provided = hmac_digest D (hs_secret S) payload)"

section \<open>The signer contract\<close>

text \<open>
  What minting and verification rely on: a signature a signer produced verifies for its
  payload, and it uses the encoding the verifier requires.
\<close>

locale signer =
  fixes sign :: "string \<Rightarrow> signature_spec" and verify :: "string \<Rightarrow> signature_spec \<Rightarrow> bool"
  assumes verify_sign: "verify p (sign p)"
    and sign_encoding: "sg_encoding (sign p) = ''base64url''"
begin

text \<open>A verifier that accepts one signature for at most one payload tells payloads apart.\<close>

lemma sign_inj:
  assumes "\<And>p q s. verify p s \<Longrightarrow> verify q s \<Longrightarrow> p = q"
  shows "sign p = sign q \<longleftrightarrow> p = q"
  using assms verify_sign by metis

end

interpretation hmac: signer "hmac_sign D S" "hmac_verify D S" for D S
  by unfold_locales (simp_all add: hmac_sign_def hmac_verify_def b64url_decode_encode)

lemma hmac_verify_iff:
  "hmac_verify D S p sig \<longleftrightarrow> sg_algorithm sig = hs_algorithm S \<and> sg_key_id sig = hs_key_id S
     \<and> sg_encoding sig = ''base64url'' \<and> b64url_decode (sg_value sig) = Inr (hmac_digest D (hs_secret S) p)"
  by (auto simp: hmac_verify_def split: sum.splits)

section \<open>The verifier's view of a signer\<close>

text \<open>
  \<open>PCCBVerifier\<close> takes any object with \<open>verify\<close>, and prefers \<open>verify_with_metadata\<close>
  when the object has one (the key resolvers of \<^verbatim>\<open>well_known.py\<close> do). Both may raise.
\<close>

record signature_verifier =
  sv_verify :: "string \<Rightarrow> signature_spec \<Rightarrow> bool res"
  sv_verify_with_metadata :: "(string \<Rightarrow> signature_spec \<Rightarrow> party_ref \<Rightarrow> datetime \<Rightarrow> bool res) option"

record signer_ops =
  so_algorithm :: string
  so_key_id :: string
  so_sign :: "string \<Rightarrow> signature_spec res"

definition plain_verifier :: "(string \<Rightarrow> signature_spec \<Rightarrow> bool) \<Rightarrow> signature_verifier" where
  "plain_verifier verify_fn = \<lparr>sv_verify = (\<lambda>p s. Inr (verify_fn p s)), sv_verify_with_metadata = None\<rparr>"

definition plain_signer :: "string \<Rightarrow> string \<Rightarrow> (string \<Rightarrow> signature_spec) \<Rightarrow> signer_ops" where
  "plain_signer algorithm key_id sign_fn =
     \<lparr>so_algorithm = algorithm, so_key_id = key_id, so_sign = (\<lambda>p. Inr (sign_fn p))\<rparr>"

definition hmac_verifier :: "deps \<Rightarrow> hmac_signer \<Rightarrow> signature_verifier" where
  "hmac_verifier D S = plain_verifier (hmac_verify D S)"

definition hmac_signer_ops :: "deps \<Rightarrow> hmac_signer \<Rightarrow> signer_ops" where
  "hmac_signer_ops D S = plain_signer (hs_algorithm S) (hs_key_id S) (hmac_sign D S)"

end
