(* ===== verification/Samples.thy ===== *)
theory Samples
  imports Runtime Signers
begin

text \<open>
  Concrete values at which the hypotheses of the properties hold: a refund intent, the context and
  the local signer of an endpoint, and an instance of the dependencies that behaves as they are
  documented to (exact capability matching, authority extensions with a \<open>revocable\<close> flag,
  digests of 32 bytes).
\<close>

definition sample_sha256 :: "string \<Rightarrow> string" where
  "sample_sha256 m = take 32 (drop 40 m @ replicate 32 CHR ''0'')"

definition sample_deps :: deps where
  "sample_deps = \<lparr>dep_max_json_depth = 32, dep_profile = ''ACTENON-JCS-STRICT-1'',
     dep_accepted_profiles = [''ACTENON-JCS-STRICT-1'', ''RFC8785-JCS''],
     dep_capability_in_scope = (\<lambda>c cs. c \<in> set cs),
     dep_scope_capabilities_for_mint = (\<lambda>cs. if cs = [] then Inl (Raise CapabilityError ''empty scope'') else Inr cs),
     dep_parse_authority_extension = (\<lambda>ext. case dget ext ''authority'' of
         Some (JObj d) \<Rightarrow> (case dget d ''revocable'' of
             Some (JBool b) \<Rightarrow> Inr d | _ \<Rightarrow> Inl (Raise CapabilityError ''revocable''))
       | _ \<Rightarrow> Inl (Raise CapabilityError ''authority'')),
     dep_effect_profile = ''ACTENON-EFFECT-1'',
     dep_effect_identity = (\<lambda>d. case dget d ''effect_id'' of Some (JStr s) \<Rightarrow> Inr s | _ \<Rightarrow> Inl (Raise ValueError ''effect'')),
     dep_validate_effect_outcome = (\<lambda>a b c. Inr ()),
     dep_canonicalisation_error_is_value_error = True,
     dep_capability_error_is_value_error = True,
     dep_sha256 = sample_sha256\<rparr>"

definition sample_audience :: audience_ref where
  "sample_audience = \<lparr>au_type = ''endpoint'', au_id = ''refunds'', au_uri = JNull\<rparr>"

definition sample_intent :: action_intent where
  "sample_intent = \<lparr>ai_intent_id = ''intent-1'', ai_issued_at = 63000000000000000,
     ai_expires_at = 63000000600000000,
     ai_tenant = \<lparr>tn_tenant_id = ''t1'', tn_attributes = []\<rparr>,
     ai_requester = \<lparr>pa_type = ''agent'', pa_id = ''a1'', pa_display_name = JNull, pa_attributes = []\<rparr>,
     ai_action = \<lparr>ac_name = ''refund'', ac_capability = ''refund.create'',
       ac_parameters = [(''amount'', JInt 5)], ac_constraints = [], ac_scope = []\<rparr>,
     ai_target = \<lparr>tg_resource_type = ''order'', tg_resource_id = ''o1'', tg_uri = JNull, tg_selectors = []\<rparr>,
     ai_idempotency_key = JNull, ai_justification = JNull, ai_context = [], ai_evidence_refs = [],
     ai_metadata = [], ai_extensions = []\<rparr>"

definition sample_context :: dynamic_context where
  "sample_context = \<lparr>cx_request_id = ''req-1'', cx_audience = sample_audience,
     cx_scope_capabilities = [''refund.create''], cx_now = 63000000060000000, cx_facts = [],
     cx_parameter_constraints = [(''max'', JInt 10)],
     cx_resource_selectors = [[(''resource_type'', JStr ''order'')]],
     cx_required_evidence_types = [], cx_approver_types = [], cx_max_ttl_seconds = Some 900\<rparr>"

definition sample_signer :: hmac_signer where
  "sample_signer = \<lparr>hs_secret = ''secret'', hs_key_id = ''k1'', hs_algorithm = ''HS256''\<rparr>"

definition sample_allow :: policy_decision where
  "sample_allow = \<lparr>pd_outcome = ''allow'', pd_summary = ''ok'', pd_rule_evaluations = [],
     pd_reason_codes = [], pd_required_evidence = [], pd_approver_types = []\<rparr>"

lemmas sample_defs = sample_sha256_def sample_deps_def sample_audience_def sample_intent_def
  sample_context_def sample_signer_def sample_allow_def

end
