(* ===== verification/Proof.thy ===== *)
theory Proof
  imports Samples
begin

text \<open>
  Minting and verifying proofs (\<^verbatim>\<open>proof/service.py\<close>), the public refusal messages
  (\<^verbatim>\<open>proof/refusal_messages.py\<close>) and the mint audit record (\<^verbatim>\<open>proof/audit.py\<close>).
  \<open>verify\<close> is split into the phases its source marks; each phase runs its checks in the order of
  the source and the first failing one decides the refusal.
\<close>

section \<open>Refusal messages\<close>

definition PUBLIC_PROOF_REFUSAL_MESSAGES :: "(string \<times> string) list" where
  "PUBLIC_PROOF_REFUSAL_MESSAGES =
    [(''PROOF_INVALID'', ''The proof could not be verified.''),
     (''PROOF_NOT_YET_VALID'', ''The proof is not yet valid.''),
     (''PROOF_EXPIRED'', ''The proof has expired.''),
     (''AUDIENCE_MISMATCH'', ''The proof audience does not match this endpoint.''),
     (''SCOPE_MODE_INVALID'', ''The proof scope mode is not supported.''),
     (''SCOPE_CAPABILITY_MISMATCH'', ''The proof scope does not allow this capability.''),
     (''INTENT_MISMATCH'', ''The proof does not match the supplied action intent.''),
     (''TENANT_MISMATCH'', ''The proof tenant does not match the action intent.''),
     (''SUBJECT_MISMATCH'', ''The proof subject does not match the action intent.''),
     (''ACTION_MISMATCH'', ''The proof action does not exactly match the action intent.''),
     (''TARGET_MISMATCH'', ''The proof target does not exactly match the action intent.''),
     (''ACTION_HASH_INVALID'', ''The action hash could not be recomputed safely.''),
     (''ACTION_HASH_ALGORITHM_INVALID'', ''The proof action hash metadata is invalid.''),
     (''ACTION_HASH_MISMATCH'', ''The proof action hash does not match the action intent.''),
     (''PROOF_PAYLOAD_INVALID'', ''The proof payload could not be canonicalized safely.''),
     (''SIGNATURE_INVALID'', ''The proof signature could not be verified.''),
     (''UNSUPPORTED_PROTOCOL_VERSION'', ''The proof declares an unsupported protocol version.''),
     (''AUTHORITY_REVOKED'', ''The proof authority has been revoked.''),
     (''PARAMETER_MISMATCH'', ''The proof parameter constraints do not cover this endpoint'' @ [CHR 0x27] @ ''s constraints.'')]"

definition EDGE_BINDING_REFUSAL_MESSAGES :: "(string \<times> string) list" where
  "EDGE_BINDING_REFUSAL_MESSAGES =
    [(''SCOPE_CAPABILITY_MISMATCH'', ''The action capability is not one this endpoint performs.''),
     (''PARAMETER_MISMATCH'', ''The proof parameter constraints do not cover this endpoint'' @ [CHR 0x27] @ ''s constraints.''),
     (''TARGET_MISMATCH'', ''The proof target does not satisfy this endpoint'' @ [CHR 0x27] @ ''s resource selectors.'')]"

definition public_proof_refusal_message :: "string \<Rightarrow> string res" where
  "public_proof_refusal_message code = (case dget PUBLIC_PROOF_REFUSAL_MESSAGES code of
     Some m \<Rightarrow> Inr m
   | None \<Rightarrow> Inl (Raise ValueError (''unknown public proof refusal reason code: '' @ code)))"

section \<open>Action hash and canonical comparison\<close>

definition build_action_hash_input :: "action_intent \<Rightarrow> json" where
  "build_action_hash_input i = JObj
     [(''intent_id'', JStr (ai_intent_id i)),
      (''tenant'', JObj (tenant_to_dict (ai_tenant i))),
      (''requester'', JObj (party_to_dict (ai_requester i))),
      (''action'', JObj (action_to_dict (ai_action i))),
      (''target'', JObj (target_to_dict (ai_target i))),
      (''issued_at'', JStr (format_timestamp (ai_issued_at i))),
      (''expires_at'', JStr (format_timestamp (ai_expires_at i)))]"

definition canonical_equal :: "deps \<Rightarrow> json \<Rightarrow> json \<Rightarrow> bool res" where
  "canonical_equal D a b =
     (case bindR (canonicalize_bytes D a) (\<lambda>x. bindR (canonicalize_bytes D b) (\<lambda>y. Inr (x = y))) of
        Inl e \<Rightarrow> if catches_type_value D e then Inr False else Inl e
      | Inr r \<Rightarrow> Inr r)"

text \<open>The loop of \<open>_target_satisfies\<close> over one selector.\<close>

fun selector_satisfied :: "deps \<Rightarrow> target_ref \<Rightarrow> dict \<Rightarrow> bool res" where
  "selector_satisfied D t [] = Inr True"
| "selector_satisfied D t ((key, v) # rest) =
     (let actual = (if key = ''resource_id'' then Some (JStr (tg_resource_id t))
          else if key = ''resource_type'' then Some (JStr (tg_resource_type t))
          else dget (tg_selectors t) key) in
      case actual of None \<Rightarrow> Inr False
      | Some a \<Rightarrow> bindR (canonical_equal D a v) (\<lambda>eq.
          if \<not> eq then Inr False else selector_satisfied D t rest))"

definition target_satisfies :: "deps \<Rightarrow> target_ref \<Rightarrow> dict \<Rightarrow> bool res" where
  "target_satisfies D t selector = (if selector = [] then Inr False else selector_satisfied D t selector)"

fun any_target_satisfies :: "deps \<Rightarrow> target_ref \<Rightarrow> dict list \<Rightarrow> bool res" where
  "any_target_satisfies D t [] = Inr False"
| "any_target_satisfies D t (s # ss) = bindR (target_satisfies D t s) (\<lambda>b.
     if b then Inr True else any_target_satisfies D t ss)"

section \<open>Audit record of a mint\<close>

definition audit_digest :: "deps \<Rightarrow> json \<Rightarrow> json res" where
  "audit_digest D v = bindR (sha256_hex D v) (\<lambda>h.
     Inr (JObj [(''algorithm'', JStr ''sha-256''), (''value'', JStr h)]))"

definition minimal_party :: "string \<Rightarrow> string \<Rightarrow> json" where
  "minimal_party ty i = JObj [(''type'', JStr ty), (''id'', JStr i)]"

definition mint_audit_record :: "deps \<Rightarrow> pccb \<Rightarrow> dict res" where
  "mint_audit_record D p =
     bindR (audit_digest D (JObj (tenant_to_dict (pc_tenant p)))) (\<lambda>tenant_digest.
     bindR (audit_digest D (JObj (party_to_dict (pc_subject p)))) (\<lambda>subject_digest.
     bindR (audit_digest D (JObj (target_to_dict (pc_target p)))) (\<lambda>resource_digest.
     bindR (audit_digest D (JStr (pc_nonce p))) (\<lambda>nonce_digest.
     Inr (put_field ''escrow_id'' (pc_escrow_id p)
      [(''contract'', contract_entry ''pccb_mint_audit_record''),
       (''event_type'', JStr ''pccb_minted''),
       (''pccb_id'', JStr (pc_pccb_id p)),
       (''intent_id'', pc_intent_id p),
       (''issued_at'', JStr (format_timestamp (pc_issued_at p))),
       (''not_before'', JStr (format_timestamp (pc_not_before p))),
       (''expires_at'', JStr (format_timestamp (pc_expires_at p))),
       (''issuer'', minimal_party (pa_type (pc_issuer p)) (pa_id (pc_issuer p))),
       (''audience'', minimal_party (au_type (pc_audience p)) (au_id (pc_audience p))),
       (''tenant_digest'', tenant_digest),
       (''subject_digest'', subject_digest),
       (''action'', JObj [(''name'', JStr (ac_name (pc_action p))),
          (''capability'', JStr (ac_capability (pc_action p)))]),
       (''target'', JObj [(''resource_type'', JStr (tg_resource_type (pc_target p))),
          (''resource_digest'', resource_digest)]),
       (''scope'', JObj [(''mode'', JStr (sc_mode (pc_scope p))),
          (''capabilities'', JTup (map JStr (sort (sc_capabilities (pc_scope p))))),
          (''single_use'', JBool (sc_single_use (pc_scope p)))]),
       (''action_hash'', JObj (action_hash_to_dict (pc_action_hash p))),
       (''nonce_digest'', nonce_digest),
       (''signature'', JObj [(''algorithm'', JStr (sg_algorithm (pc_signature p))),
          (''key_id'', JStr (sg_key_id (pc_signature p))),
          (''encoding'', JStr (sg_encoding (pc_signature p)))])])))))"

section \<open>Minting\<close>

record minter =
  mi_signer :: signer_ops
  mi_issuer :: party_ref
  mi_audit_sink :: "(pccb \<Rightarrow> unit res) option"

text \<open>\<open>pccb_id\<close> and \<open>nonce\<close> are the values the two factories return for this call.\<close>

definition unsigned_pccb ::
    "deps \<Rightarrow> minter \<Rightarrow> string \<Rightarrow> string \<Rightarrow> action_intent \<Rightarrow> dynamic_context \<Rightarrow> json \<Rightarrow> dict \<Rightarrow> pccb res" where
  "unsigned_pccb D M pccb_id nonce i cx escrow_id extensions =
     bindR (dep_scope_capabilities_for_mint D (cx_scope_capabilities cx)) (\<lambda>caps.
     bindR (sha256_hex D (build_action_hash_input i)) (\<lambda>h.
     Inr \<lparr>pc_pccb_id = pccb_id, pc_issued_at = cx_now cx, pc_not_before = cx_now cx,
       pc_expires_at = ai_expires_at i, pc_issuer = mi_issuer M, pc_subject = ai_requester i,
       pc_tenant = ai_tenant i, pc_audience = cx_audience cx, pc_action = ai_action i,
       pc_target = ai_target i,
       pc_scope = \<lparr>sc_mode = ''exact'', sc_capabilities = sort (remdups caps), sc_single_use = True,
         sc_resource_selectors = cx_resource_selectors cx,
         sc_parameter_constraints = cx_parameter_constraints cx\<rparr>,
       pc_nonce = nonce,
       pc_action_hash = \<lparr>ah_algorithm = ''sha-256'', ah_canonicalization = dep_profile D, ah_value = h\<rparr>,
       pc_signature = \<lparr>sg_algorithm = so_algorithm (mi_signer M), sg_key_id = so_key_id (mi_signer M),
         sg_encoding = ''base64url'', sg_value = ''pending''\<rparr>,
       pc_intent_id = JStr (ai_intent_id i), pc_escrow_id = escrow_id, pc_extensions = extensions\<rparr>))"

definition mint :: "deps \<Rightarrow> minter \<Rightarrow> string \<Rightarrow> string \<Rightarrow> action_intent \<Rightarrow> policy_decision \<Rightarrow>
    dynamic_context \<Rightarrow> json \<Rightarrow> dict \<Rightarrow> pccb res" where
  "mint D M pccb_id nonce i decision cx escrow_id extensions =
     (if \<not> decision_allowed decision
      then Inl (Raise ValueError ''PCCB minting requires an allow decision'')
      else
        bindR (unsigned_pccb D M pccb_id nonce i cx escrow_id extensions) (\<lambda>unsigned.
        bindR (canonicalize_bytes D (JObj (unsigned_payload unsigned))) (\<lambda>payload.
        bindR (so_sign (mi_signer M) payload) (\<lambda>signature.
        let p = unsigned\<lparr>pc_signature := signature\<rparr> in
        case mi_audit_sink M of
          None \<Rightarrow> Inr p
        | Some record_pccb_mint \<Rightarrow> bindR (record_pccb_mint p) (\<lambda>_. Inr p)))))"

section \<open>Verification\<close>

record verifier =
  ve_signer :: signature_verifier
  ve_clock_skew_tolerance :: int
  ve_disclosure_mode :: disclosure_mode
  ve_revocation_checker :: "(pccb \<Rightarrow> dynamic_context \<Rightarrow> bool res) option"
  ve_boundary_id :: "string option"

definition proof_refusal :: "string res \<Rightarrow> string \<Rightarrow> exn" where
  "proof_refusal msg code = (case msg of Inl e \<Rightarrow> e | Inr m \<Rightarrow> ProofVerificationError code m)"

definition raise_pre_auth_failure :: "verifier \<Rightarrow> string \<Rightarrow> exn" where
  "raise_pre_auth_failure V internal_code =
     (if ve_disclosure_mode V = LOCAL_DEBUG
      then proof_refusal (public_proof_refusal_message internal_code) internal_code
      else proof_refusal (public_proof_refusal_message ''PROOF_INVALID'') ''PROOF_INVALID'')"

definition raise_post_auth_failure :: "verifier \<Rightarrow> string \<Rightarrow> bool \<Rightarrow> string option \<Rightarrow> exn" where
  "raise_post_auth_failure V detailed_code edge_binding message =
     (if ve_disclosure_mode V = PUBLIC_GENERIC
      then proof_refusal (public_proof_refusal_message ''PROOF_INVALID'') ''PROOF_INVALID''
      else proof_refusal
        (case message of Some m \<Rightarrow> Inr m
         | None \<Rightarrow>
            if edge_binding
            then (case dget EDGE_BINDING_REFUSAL_MESSAGES detailed_code of
                Some m \<Rightarrow> Inr m | None \<Rightarrow> Inl (Raise KeyError detailed_code))
            else public_proof_refusal_message detailed_code)
        detailed_code)"

abbreviation fail_post :: "verifier \<Rightarrow> string \<Rightarrow> 'a res" where
  "fail_post V code \<equiv> Inl (raise_post_auth_failure V code False None)"

abbreviation fail_edge :: "verifier \<Rightarrow> string \<Rightarrow> 'a res" where
  "fail_edge V code \<equiv> Inl (raise_post_auth_failure V code True None)"

definition validate_signature_structure :: "pccb \<Rightarrow> string option" where
  "validate_signature_structure p =
     (if sg_value (pc_signature p) = [] then Some ''SIGNATURE_INVALID''
      else if sg_encoding (pc_signature p) \<noteq> ''base64url'' then Some ''SIGNATURE_INVALID''
      else None)"

text \<open>Phase A: steps 1 to 5, until the signature is known to be valid.\<close>

definition verify_authenticity :: "deps \<Rightarrow> verifier \<Rightarrow> pccb \<Rightarrow> unit res" where
  "verify_authenticity D V p =
     (case get_or_null (unsigned_payload p) ''contract'' of
        JObj contract \<Rightarrow>
          if get_or_null contract ''name'' \<noteq> JStr ''pccb'' \<or> get_or_null contract ''version'' \<noteq> JStr ''v1''
          then Inl (raise_pre_auth_failure V ''UNSUPPORTED_PROTOCOL_VERSION'')
          else (case validate_signature_structure p of
            Some sig_error \<Rightarrow> Inl (raise_pre_auth_failure V sig_error)
          | None \<Rightarrow> (case canonicalize_bytes D (JObj (unsigned_payload p)) of
              Inl e \<Rightarrow> if catches_type_value_recursion D e
                then Inl (raise_pre_auth_failure V ''PROOF_PAYLOAD_INVALID'') else Inl e
            | Inr payload \<Rightarrow>
                bindR (case sv_verify_with_metadata (ve_signer V) of
                    Some verify_with_metadata \<Rightarrow>
                      verify_with_metadata payload (pc_signature p) (pc_issuer p) (pc_issued_at p)
                  | None \<Rightarrow> sv_verify (ve_signer V) payload (pc_signature p)) (\<lambda>is_valid.
                if \<not> is_valid then Inl (raise_pre_auth_failure V ''SIGNATURE_INVALID'') else Inr ())))
      | _ \<Rightarrow> Inl (Raise AttributeError ''get''))"

text \<open>Step 6.\<close>

definition verify_time :: "verifier \<Rightarrow> pccb \<Rightarrow> dynamic_context \<Rightarrow> unit res" where
  "verify_time V p cx =
     bindR (dt_add (cx_now cx) (ve_clock_skew_tolerance V)) (\<lambda>late.
     if late < pc_not_before p then fail_post V ''PROOF_NOT_YET_VALID''
     else bindR (dt_add (cx_now cx) (- ve_clock_skew_tolerance V)) (\<lambda>early.
     if early > pc_expires_at p then fail_post V ''PROOF_EXPIRED'' else Inr ()))"

definition require_equal :: "deps \<Rightarrow> verifier \<Rightarrow> string \<Rightarrow> dict \<Rightarrow> dict \<Rightarrow> unit res" where
  "require_equal D V code a b = bindR (canonical_equal D (JObj a) (JObj b)) (\<lambda>eq.
     if \<not> eq then fail_post V code else Inr ())"

text \<open>Steps 7 to 9.\<close>

definition verify_audience_and_target ::
    "deps \<Rightarrow> verifier \<Rightarrow> action_intent \<Rightarrow> pccb \<Rightarrow> dynamic_context \<Rightarrow> unit res" where
  "verify_audience_and_target D V i p cx =
     bindR (require_equal D V ''AUDIENCE_MISMATCH'' (audience_to_dict (pc_audience p))
         (audience_to_dict (cx_audience cx))) (\<lambda>_.
     case ve_boundary_id V of
       Some b \<Rightarrow> if au_id (pc_audience p) \<noteq> b then fail_post V ''AUDIENCE_MISMATCH''
         else require_equal D V ''TARGET_MISMATCH'' (target_to_dict (pc_target p)) (target_to_dict (ai_target i))
     | None \<Rightarrow> require_equal D V ''TARGET_MISMATCH'' (target_to_dict (pc_target p)) (target_to_dict (ai_target i)))"

text \<open>Step 10: scope, capability, intent id, tenant, subject and action.\<close>

definition verify_action_binding ::
    "deps \<Rightarrow> verifier \<Rightarrow> action_intent \<Rightarrow> pccb \<Rightarrow> dynamic_context \<Rightarrow> unit res" where
  "verify_action_binding D V i p cx =
     (if sc_mode (pc_scope p) \<noteq> ''exact'' \<or> \<not> sc_single_use (pc_scope p)
      then fail_post V ''SCOPE_MODE_INVALID''
      else if \<not> dep_capability_in_scope D (ac_capability (ai_action i)) (sc_capabilities (pc_scope p))
      then fail_post V ''SCOPE_CAPABILITY_MISMATCH''
      else if \<not> dep_capability_in_scope D (ac_capability (ai_action i)) (cx_scope_capabilities cx)
      then fail_edge V ''SCOPE_CAPABILITY_MISMATCH''
      else if truthy (pc_intent_id p) \<and> \<not> py_eq (pc_intent_id p) (JStr (ai_intent_id i))
      then fail_post V ''INTENT_MISMATCH''
      else
        bindR (require_equal D V ''TENANT_MISMATCH'' (tenant_to_dict (pc_tenant p)) (tenant_to_dict (ai_tenant i))) (\<lambda>_.
        bindR (require_equal D V ''SUBJECT_MISMATCH'' (party_to_dict (pc_subject p)) (party_to_dict (ai_requester i))) (\<lambda>_.
        require_equal D V ''ACTION_MISMATCH'' (action_to_dict (pc_action p)) (action_to_dict (ai_action i)))))"

text \<open>Step 11.\<close>

definition verify_action_hash :: "deps \<Rightarrow> verifier \<Rightarrow> action_intent \<Rightarrow> pccb \<Rightarrow> unit res" where
  "verify_action_hash D V i p =
     (case sha256_hex D (build_action_hash_input i) of
        Inl e \<Rightarrow> if catches_type_value_recursion D e then fail_post V ''ACTION_HASH_INVALID'' else Inl e
      | Inr expected_hash \<Rightarrow>
          if ah_algorithm (pc_action_hash p) \<noteq> ''sha-256''
             \<or> ah_canonicalization (pc_action_hash p) \<notin> set (dep_accepted_profiles D)
          then fail_post V ''ACTION_HASH_ALGORITHM_INVALID''
          else if ah_value (pc_action_hash p) \<noteq> expected_hash then fail_post V ''ACTION_HASH_MISMATCH''
          else Inr ())"

text \<open>Step 11b: the declarations of the edge.\<close>

fun constraints_signed :: "deps \<Rightarrow> verifier \<Rightarrow> dict \<Rightarrow> dict \<Rightarrow> unit res" where
  "constraints_signed D V signed [] = Inr ()"
| "constraints_signed D V signed ((key, v) # rest) =
     (case dget signed key of
        None \<Rightarrow> fail_edge V ''PARAMETER_MISMATCH''
      | Some s \<Rightarrow> bindR (canonical_equal D s v) (\<lambda>eq.
          if \<not> eq then fail_edge V ''PARAMETER_MISMATCH'' else constraints_signed D V signed rest))"

definition verify_edge :: "deps \<Rightarrow> verifier \<Rightarrow> pccb \<Rightarrow> dynamic_context \<Rightarrow> unit res" where
  "verify_edge D V p cx =
     bindR (constraints_signed D V (sc_parameter_constraints (pc_scope p)) (cx_parameter_constraints cx)) (\<lambda>_.
     if cx_resource_selectors cx = [] then Inr ()
     else bindR (any_target_satisfies D (pc_target p) (cx_resource_selectors cx)) (\<lambda>ok.
       if \<not> ok then fail_edge V ''TARGET_MISMATCH'' else Inr ()))"

text \<open>Step 13.\<close>

definition AUTHORITY_STATUS_UNKNOWN_MESSAGE :: string where
  "AUTHORITY_STATUS_UNKNOWN_MESSAGE =
     ''The proof authority'' @ [CHR 0x27] @ ''s revocation status could not be established.''"

definition authority_revocable :: "deps \<Rightarrow> verifier \<Rightarrow> pccb \<Rightarrow> bool res" where
  "authority_revocable D V p =
     (if dmem (pc_extensions p) ''authority''
      then (case dep_parse_authority_extension D (pc_extensions p) of
          Inl e \<Rightarrow> (case e of
              Raise CapabilityError m \<Rightarrow>
                Inl (raise_post_auth_failure V ''AUTHORITY_REVOKED'' False (Some AUTHORITY_STATUS_UNKNOWN_MESSAGE))
            | _ \<Rightarrow> Inl e)
        | Inr authority \<Rightarrow> (case dget authority ''revocable'' of
              None \<Rightarrow> Inl (Raise KeyError ''revocable'')
            | Some r \<Rightarrow> Inr (r = JBool True)))
      else Inr False)"

definition verify_revocation :: "deps \<Rightarrow> verifier \<Rightarrow> pccb \<Rightarrow> dynamic_context \<Rightarrow> unit res" where
  "verify_revocation D V p cx =
     bindR (authority_revocable D V p) (\<lambda>revocable.
     case ve_revocation_checker V of
       None \<Rightarrow> if revocable
         then Inl (raise_post_auth_failure V ''AUTHORITY_REVOKED'' False (Some AUTHORITY_STATUS_UNKNOWN_MESSAGE))
         else Inr ()
     | Some checker \<Rightarrow> (case checker p cx of
           Inl _ \<Rightarrow> Inl (raise_post_auth_failure V ''AUTHORITY_REVOKED'' False (Some AUTHORITY_STATUS_UNKNOWN_MESSAGE))
         | Inr is_not_revoked \<Rightarrow> if \<not> is_not_revoked then fail_post V ''AUTHORITY_REVOKED'' else Inr ()))"

definition verify :: "deps \<Rightarrow> verifier \<Rightarrow> action_intent \<Rightarrow> pccb \<Rightarrow> dynamic_context \<Rightarrow> unit res" where
  "verify D V i p cx =
     bindR (verify_authenticity D V p) (\<lambda>_.
     bindR (verify_time V p cx) (\<lambda>_.
     bindR (verify_audience_and_target D V i p cx) (\<lambda>_.
     bindR (verify_action_binding D V i p cx) (\<lambda>_.
     bindR (verify_action_hash D V i p) (\<lambda>_.
     bindR (verify_edge D V p cx) (\<lambda>_.
     verify_revocation D V p cx))))))"

section \<open>What verification means\<close>

text \<open>Two values have the same canonical text.\<close>

definition same_text :: "deps \<Rightarrow> json \<Rightarrow> json \<Rightarrow> bool" where
  "same_text D a b \<longleftrightarrow> (\<exists>s. canonicalize_bytes D a = Inr s \<and> canonicalize_bytes D b = Inr s)"

lemma canonical_equal_True [simp]: "canonical_equal D a b = Inr True \<longleftrightarrow> same_text D a b"
  by (auto simp: canonical_equal_def same_text_def bindR_def split: sum.splits if_splits)

lemma same_text_norm: "same_text D a b \<Longrightarrow> json_norm a = json_norm b"
  by (auto simp: same_text_def intro: canonicalize_bytes_inj)

lemma same_text_refl: "is_ok (canonicalize_bytes D a) \<Longrightarrow> same_text D a a"
  by (auto simp: same_text_def is_ok_iff)

lemma same_text_trans: "same_text D a b \<Longrightarrow> same_text D a c \<Longrightarrow> same_text D b c"
  by (auto simp: same_text_def)

definition signature_accepted :: "verifier \<Rightarrow> pccb \<Rightarrow> string \<Rightarrow> bool" where
  "signature_accepted V p payload \<longleftrightarrow>
     (case sv_verify_with_metadata (ve_signer V) of
        Some f \<Rightarrow> f payload (pc_signature p) (pc_issuer p) (pc_issued_at p) = Inr True
      | None \<Rightarrow> sv_verify (ve_signer V) payload (pc_signature p) = Inr True)"

definition authentic :: "deps \<Rightarrow> verifier \<Rightarrow> pccb \<Rightarrow> bool" where
  "authentic D V p \<longleftrightarrow> sg_value (pc_signature p) \<noteq> [] \<and> sg_encoding (pc_signature p) = ''base64url'' \<and>
     (\<exists>payload. canonicalize_bytes D (JObj (unsigned_payload p)) = Inr payload \<and> signature_accepted V p payload)"

definition in_time :: "verifier \<Rightarrow> pccb \<Rightarrow> dynamic_context \<Rightarrow> bool" where
  "in_time V p cx \<longleftrightarrow> dt_ok (cx_now cx + ve_clock_skew_tolerance V) \<and> dt_ok (cx_now cx - ve_clock_skew_tolerance V)
     \<and> pc_not_before p \<le> cx_now cx + ve_clock_skew_tolerance V
     \<and> cx_now cx - ve_clock_skew_tolerance V \<le> pc_expires_at p"

definition bound_to :: "deps \<Rightarrow> action_intent \<Rightarrow> pccb \<Rightarrow> bool" where
  "bound_to D i p \<longleftrightarrow>
     same_text D (JObj (target_to_dict (pc_target p))) (JObj (target_to_dict (ai_target i)))
     \<and> same_text D (JObj (tenant_to_dict (pc_tenant p))) (JObj (tenant_to_dict (ai_tenant i)))
     \<and> same_text D (JObj (party_to_dict (pc_subject p))) (JObj (party_to_dict (ai_requester i)))
     \<and> same_text D (JObj (action_to_dict (pc_action p))) (JObj (action_to_dict (ai_action i)))
     \<and> (truthy (pc_intent_id p) \<longrightarrow> pc_intent_id p = JStr (ai_intent_id i))
     \<and> ah_algorithm (pc_action_hash p) = ''sha-256''
     \<and> ah_canonicalization (pc_action_hash p) \<in> set (dep_accepted_profiles D)
     \<and> sha256_hex D (build_action_hash_input i) = Inr (ah_value (pc_action_hash p))"

definition edge_accepts :: "deps \<Rightarrow> verifier \<Rightarrow> action_intent \<Rightarrow> pccb \<Rightarrow> dynamic_context \<Rightarrow> bool" where
  "edge_accepts D V i p cx \<longleftrightarrow>
     same_text D (JObj (audience_to_dict (pc_audience p))) (JObj (audience_to_dict (cx_audience cx)))
     \<and> (\<forall>b. ve_boundary_id V = Some b \<longrightarrow> au_id (pc_audience p) = b)
     \<and> sc_mode (pc_scope p) = ''exact'' \<and> sc_single_use (pc_scope p)
     \<and> dep_capability_in_scope D (ac_capability (ai_action i)) (sc_capabilities (pc_scope p))
     \<and> dep_capability_in_scope D (ac_capability (ai_action i)) (cx_scope_capabilities cx)
     \<and> (\<forall>(k, v) \<in> set (cx_parameter_constraints cx).
          \<exists>s. dget (sc_parameter_constraints (pc_scope p)) k = Some s \<and> same_text D s v)
     \<and> (cx_resource_selectors cx \<noteq> [] \<longrightarrow>
          any_target_satisfies D (pc_target p) (cx_resource_selectors cx) = Inr True)"

definition not_revoked :: "deps \<Rightarrow> verifier \<Rightarrow> pccb \<Rightarrow> dynamic_context \<Rightarrow> bool" where
  "not_revoked D V p cx \<longleftrightarrow>
     (case ve_revocation_checker V of
        None \<Rightarrow> authority_revocable D V p = Inr False
      | Some checker \<Rightarrow> is_ok (authority_revocable D V p) \<and> checker p cx = Inr True)"

lemma unit_res_eq: "(m :: unit res) = Inr () \<longleftrightarrow> is_ok m"
  by (simp add: is_ok_iff)

lemma require_equal_ok [simp]: "require_equal D V code a b = Inr () \<longleftrightarrow> same_text D (JObj a) (JObj b)"
  by (auto simp: require_equal_def bindR_eq_Inr simp flip: canonical_equal_True)

lemma verify_authenticity_ok: "verify_authenticity D V p = Inr () \<longleftrightarrow> authentic D V p"
proof -
  have c: "get_or_null (unsigned_payload p) ''contract'' = JObj [(''name'', JStr ''pccb''), (''version'', JStr ''v1'')]"
    by (simp add: unsigned_payload_def contract_entry_def)
  show ?thesis
    by (auto simp: verify_authenticity_def authentic_def c validate_signature_structure_def
        signature_accepted_def bindR_eq_Inr split: sum.splits option.splits if_splits)
qed

lemma verify_time_ok: "verify_time V p cx = Inr () \<longleftrightarrow> in_time V p cx"
  by (auto simp: verify_time_def in_time_def bindR_eq_Inr dt_add_Inr)

lemma verify_action_hash_ok:
  "verify_action_hash D V i p = Inr () \<longleftrightarrow> ah_algorithm (pc_action_hash p) = ''sha-256''
     \<and> ah_canonicalization (pc_action_hash p) \<in> set (dep_accepted_profiles D)
     \<and> sha256_hex D (build_action_hash_input i) = Inr (ah_value (pc_action_hash p))"
  by (auto simp: verify_action_hash_def split: sum.splits if_splits)

lemma constraints_signed_ok:
  "constraints_signed D V signed cs = Inr () \<longleftrightarrow>
     (\<forall>(k, v) \<in> set cs. \<exists>s. dget signed k = Some s \<and> same_text D s v)"
  by (induction D V signed cs rule: constraints_signed.induct)
     (auto simp: bindR_eq_Inr split: option.splits simp flip: canonical_equal_True)

lemma verify_revocation_ok: "verify_revocation D V p cx = Inr () \<longleftrightarrow> not_revoked D V p cx"
proof (cases "ve_revocation_checker V")
  case None
  then show ?thesis by (simp add: verify_revocation_def not_revoked_def bindR_eq_Inr) blast
next
  case (Some checker)
  then show ?thesis
    by (cases "checker p cx") (simp_all add: verify_revocation_def not_revoked_def bindR_eq_Inr is_ok_iff)
qed

lemma verify_phases_ok:
  "verify D V i p cx = Inr () \<longleftrightarrow>
     verify_authenticity D V p = Inr () \<and> verify_time V p cx = Inr ()
     \<and> verify_audience_and_target D V i p cx = Inr () \<and> verify_action_binding D V i p cx = Inr ()
     \<and> verify_action_hash D V i p = Inr () \<and> verify_edge D V p cx = Inr ()
     \<and> verify_revocation D V p cx = Inr ()"
  by (simp add: verify_def bindR_eq_Inr)

lemma verify_audience_and_target_ok:
  "verify_audience_and_target D V i p cx = Inr () \<longleftrightarrow>
     same_text D (JObj (audience_to_dict (pc_audience p))) (JObj (audience_to_dict (cx_audience cx)))
     \<and> (\<forall>b. ve_boundary_id V = Some b \<longrightarrow> au_id (pc_audience p) = b)
     \<and> same_text D (JObj (target_to_dict (pc_target p))) (JObj (target_to_dict (ai_target i)))"
  by (auto simp: verify_audience_and_target_def bindR_eq_Inr split: option.splits)

lemma verify_action_binding_ok:
  "verify_action_binding D V i p cx = Inr () \<longleftrightarrow>
     sc_mode (pc_scope p) = ''exact'' \<and> sc_single_use (pc_scope p)
     \<and> dep_capability_in_scope D (ac_capability (ai_action i)) (sc_capabilities (pc_scope p))
     \<and> dep_capability_in_scope D (ac_capability (ai_action i)) (cx_scope_capabilities cx)
     \<and> (truthy (pc_intent_id p) \<longrightarrow> pc_intent_id p = JStr (ai_intent_id i))
     \<and> same_text D (JObj (tenant_to_dict (pc_tenant p))) (JObj (tenant_to_dict (ai_tenant i)))
     \<and> same_text D (JObj (party_to_dict (pc_subject p))) (JObj (party_to_dict (ai_requester i)))
     \<and> same_text D (JObj (action_to_dict (pc_action p))) (JObj (action_to_dict (ai_action i)))"
  by (simp add: verify_action_binding_def bindR_eq_Inr) blast

lemma verify_edge_ok:
  "verify_edge D V p cx = Inr () \<longleftrightarrow>
     (\<forall>(k, v) \<in> set (cx_parameter_constraints cx).
          \<exists>s. dget (sc_parameter_constraints (pc_scope p)) k = Some s \<and> same_text D s v)
     \<and> (cx_resource_selectors cx \<noteq> [] \<longrightarrow>
          any_target_satisfies D (pc_target p) (cx_resource_selectors cx) = Inr True)"
  by (simp add: verify_edge_def bindR_eq_Inr constraints_signed_ok) blast

lemma verify_ok:
  "verify D V i p cx = Inr () \<longleftrightarrow>
     authentic D V p \<and> in_time V p cx \<and> bound_to D i p \<and> edge_accepts D V i p cx \<and> not_revoked D V p cx"
  by (simp only: verify_phases_ok verify_authenticity_ok verify_time_ok verify_audience_and_target_ok
      verify_action_binding_ok verify_action_hash_ok verify_edge_ok verify_revocation_ok
      bound_to_def edge_accepts_def)
     blast

section \<open>What a minted proof holds\<close>

lemma mint_Inr:
  assumes "mint D M pccb_id nonce i decision cx escrow_id extensions = Inr p"
  obtains unsigned payload signature where
    "decision_allowed decision"
    "unsigned_pccb D M pccb_id nonce i cx escrow_id extensions = Inr unsigned"
    "canonicalize_bytes D (JObj (unsigned_payload unsigned)) = Inr payload"
    "so_sign (mi_signer M) payload = Inr signature"
    "p = unsigned\<lparr>pc_signature := signature\<rparr>"
proof -
  from assms have "decision_allowed decision"
    by (auto simp: mint_def split: if_splits)
  moreover from assms obtain unsigned payload signature where
    "unsigned_pccb D M pccb_id nonce i cx escrow_id extensions = Inr unsigned"
    "canonicalize_bytes D (JObj (unsigned_payload unsigned)) = Inr payload"
    "so_sign (mi_signer M) payload = Inr signature"
    "p = unsigned\<lparr>pc_signature := signature\<rparr>"
    by (auto simp: mint_def Let_def split: if_splits option.splits)
  ultimately show thesis by (rule that)
qed

lemma unsigned_payload_signature [simp]: "unsigned_payload (p\<lparr>pc_signature := s\<rparr>) = unsigned_payload p"
  by (simp add: unsigned_payload_def)

text \<open>The fields of a minted proof, as the intent and the context determine them.\<close>

lemma unsigned_pccb_fields:
  assumes "unsigned_pccb D M pccb_id nonce i cx escrow_id extensions = Inr u"
  shows "pc_pccb_id u = pccb_id" "pc_nonce u = nonce" "pc_issued_at u = cx_now cx"
    "pc_not_before u = cx_now cx" "pc_expires_at u = ai_expires_at i" "pc_issuer u = mi_issuer M"
    "pc_subject u = ai_requester i" "pc_tenant u = ai_tenant i" "pc_audience u = cx_audience cx"
    "pc_action u = ai_action i" "pc_target u = ai_target i" "pc_intent_id u = JStr (ai_intent_id i)"
    "pc_escrow_id u = escrow_id" "pc_extensions u = extensions"
    "sc_mode (pc_scope u) = ''exact''" "sc_single_use (pc_scope u)"
    "sc_parameter_constraints (pc_scope u) = cx_parameter_constraints cx"
    "sc_resource_selectors (pc_scope u) = cx_resource_selectors cx"
    "ah_algorithm (pc_action_hash u) = ''sha-256''"
    "ah_canonicalization (pc_action_hash u) = dep_profile D"
    "sha256_hex D (build_action_hash_input i) = Inr (ah_value (pc_action_hash u))"
  using assms by (auto simp: unsigned_pccb_def)

section \<open>A minted proof verifies\<close>

lemma child_lookup: "map_of d k = Some v \<Longrightarrow> v \<in> set (json_children (JObj d))"
  by (force dest: map_of_SomeD)

lemma part_ok:
  "is_ok (canonicalize_bytes D (JObj d)) \<Longrightarrow> map_of d k = Some v \<Longrightarrow> is_ok (canonicalize_bytes D v)"
  by (metis canonicalize_bytes_part child_lookup is_ok_iff)

lemma payload_parts:
  "map_of (unsigned_payload p) ''audience'' = Some (JObj (audience_to_dict (pc_audience p)))"
  "map_of (unsigned_payload p) ''target'' = Some (JObj (target_to_dict (pc_target p)))"
  "map_of (unsigned_payload p) ''tenant'' = Some (JObj (tenant_to_dict (pc_tenant p)))"
  "map_of (unsigned_payload p) ''subject'' = Some (JObj (party_to_dict (pc_subject p)))"
  "map_of (unsigned_payload p) ''action'' = Some (JObj (action_to_dict (pc_action p)))"
  "map_of (unsigned_payload p) ''scope'' = Some (JObj (scope_to_dict (pc_scope p)))"
  by (simp_all add: unsigned_payload_def put_defs dict_simps)

lemma constraint_part_ok:
  assumes "is_ok (canonicalize_bytes D (JObj (unsigned_payload p)))"
    and "(k, v) \<in> set (sc_parameter_constraints (pc_scope p))"
  shows "is_ok (canonicalize_bytes D v)"
proof -
  have "map_of (scope_to_dict (pc_scope p)) ''parameter_constraints'' =
      Some (JObj (sc_parameter_constraints (pc_scope p)))"
    using assms(2) by (cases "sc_parameter_constraints (pc_scope p)")
      (simp_all add: scope_to_dict_def put_defs dict_simps)
  with assms(1) have "is_ok (canonicalize_bytes D (JObj (sc_parameter_constraints (pc_scope p))))"
    by (blast intro: part_ok payload_parts)
  with assms(2) show ?thesis
    by (force simp: is_ok_iff dest: canonicalize_bytes_part[where v = v, unfolded is_ok_iff])
qed

context signer
begin

text \<open>
  For every signer that keeps the contract: what \<open>mint\<close> produces, \<open>verify\<close> accepts in the same
  context, when the clock, the boundary, the capability and the revocation source allow it.
\<close>

lemma minted_authentic:
  assumes mint: "mint D M pccb_id nonce i decision cx escrow_id extensions = Inr p"
    and ops: "mi_signer M = plain_signer alg key sign" "ve_signer V = plain_verifier verify"
    and nonempty: "\<And>q. sg_value (sign q) \<noteq> []"
    and profile: "dep_profile D \<in> set (dep_accepted_profiles D)"
  shows "authentic D V p" "bound_to D i p"
proof -
  from mint obtain u payload where u: "unsigned_pccb D M pccb_id nonce i cx escrow_id extensions = Inr u"
      and payload: "canonicalize_bytes D (JObj (unsigned_payload u)) = Inr payload"
      and p: "p = u\<lparr>pc_signature := sign payload\<rparr>"
    by (rule mint_Inr) (simp add: ops plain_signer_def)
  note f = unsigned_pccb_fields[OF u]
  have ok: "is_ok (canonicalize_bytes D (JObj (unsigned_payload u)))" using payload by simp
  have same: "same_text D (JObj a) (JObj a)" if "map_of (unsigned_payload u) k = Some (JObj a)" for k a
    using part_ok[OF ok that] by (rule same_text_refl)
  show "authentic D V p"
    using payload nonempty[of payload] verify_sign[of payload] sign_encoding[of payload]
    by (simp add: authentic_def p signature_accepted_def ops plain_verifier_def)
  show "bound_to D i p"
    using same[OF payload_parts(2)] same[OF payload_parts(3)] same[OF payload_parts(4)]
      same[OF payload_parts(5)] profile
    by (simp add: bound_to_def p f)
qed

lemma minted_verifies:
  assumes mint: "mint D M pccb_id nonce i decision cx escrow_id extensions = Inr p"
    and ops: "mi_signer M = plain_signer alg key sign" "ve_signer V = plain_verifier verify"
    and nonempty: "\<And>q. sg_value (sign q) \<noteq> []"
    and time: "in_time V p cx"
    and boundary: "\<forall>b. ve_boundary_id V = Some b \<longrightarrow> au_id (cx_audience cx) = b"
    and capability: "dep_capability_in_scope D (ac_capability (ai_action i)) (sc_capabilities (pc_scope p))"
      "dep_capability_in_scope D (ac_capability (ai_action i)) (cx_scope_capabilities cx)"
    and profile: "dep_profile D \<in> set (dep_accepted_profiles D)"
    and constraints: "dict_wf (cx_parameter_constraints cx)"
    and selectors: "cx_resource_selectors cx \<noteq> [] \<longrightarrow>
      any_target_satisfies D (ai_target i) (cx_resource_selectors cx) = Inr True"
    and authority: "not_revoked D V p cx"
  shows "Proof.verify D V i p cx = Inr ()"
proof -
  from mint obtain u payload where u: "unsigned_pccb D M pccb_id nonce i cx escrow_id extensions = Inr u"
      and payload: "canonicalize_bytes D (JObj (unsigned_payload u)) = Inr payload"
      and p: "p = u\<lparr>pc_signature := sign payload\<rparr>"
    by (rule mint_Inr) (simp add: ops plain_signer_def)
  note f = unsigned_pccb_fields[OF u]
  have ok: "is_ok (canonicalize_bytes D (JObj (unsigned_payload u)))" using payload by simp
  have same: "same_text D (JObj a) (JObj a)" if "map_of (unsigned_payload u) k = Some (JObj a)" for k a
    using part_ok[OF ok that] by (rule same_text_refl)
  have "edge_accepts D V i p cx"
  proof -
    have "\<exists>s. dget (sc_parameter_constraints (pc_scope u)) k = Some s \<and> same_text D s v"
      if "(k, v) \<in> set (cx_parameter_constraints cx)" for k v
      using that constraints constraint_part_ok[OF ok] same_text_refl
      by (auto simp: f dict_wf_def)
    then show ?thesis
      using same[OF payload_parts(1)] boundary capability selectors
      by (auto simp: edge_accepts_def p f)
  qed
  then show ?thesis using time authority minted_authentic[OF mint ops nonempty profile] by (simp add: verify_ok)
qed

end

section \<open>Fields of equal contents\<close>

lemma to_dict_wf:
  "dict_wf (target_to_dict t)" "dict_wf (tenant_to_dict tn)" "dict_wf (action_to_dict a)"
  by (simp_all add: target_to_dict_def tenant_to_dict_def action_to_dict_def put_defs dict_wf_put_if)

lemma to_dict_fields:
  "map_of (target_to_dict t) ''resource_type'' = Some (JStr (tg_resource_type t))"
  "map_of (target_to_dict t) ''resource_id'' = Some (JStr (tg_resource_id t))"
  "map_of (tenant_to_dict tn) ''tenant_id'' = Some (JStr (tn_tenant_id tn))"
  "map_of (action_to_dict a) ''capability'' = Some (JStr (ac_capability a))"
  by (simp_all add: target_to_dict_def tenant_to_dict_def action_to_dict_def put_defs dict_simps)

lemma norm_fields:
  assumes "json_norm (JObj (target_to_dict t)) = json_norm (JObj (target_to_dict t'))"
    and "json_norm (JObj (tenant_to_dict tn)) = json_norm (JObj (tenant_to_dict tn'))"
    and "json_norm (JObj (action_to_dict a)) = json_norm (JObj (action_to_dict a'))"
  shows "tn_tenant_id tn = tn_tenant_id tn' \<and> tg_resource_type t = tg_resource_type t'
    \<and> tg_resource_id t = tg_resource_id t' \<and> ac_capability a = ac_capability a'"
  using json_norm_lookup[OF to_dict_wf(1) to_dict_wf(1) assms(1), of "''resource_type''"]
    json_norm_lookup[OF to_dict_wf(1) to_dict_wf(1) assms(1), of "''resource_id''"]
    json_norm_lookup[OF to_dict_wf(2) to_dict_wf(2) assms(2), of "''tenant_id''"]
    json_norm_lookup[OF to_dict_wf(3) to_dict_wf(3) assms(3), of "''capability''"]
  by (simp add: to_dict_fields)

section \<open>Refusals of the verifier\<close>

definition PROOF_INVALID :: exn where
  "PROOF_INVALID = ProofVerificationError ''PROOF_INVALID'' ''The proof could not be verified.''"

text \<open>The signature verifier may fail, but never with a refusal of its own.\<close>

definition signer_never_refuses :: "verifier \<Rightarrow> bool" where
  "signer_never_refuses V \<longleftrightarrow>
     (\<forall>m s P. refusals_in P (sv_verify (ve_signer V) m s)) \<and>
     (\<forall>f m s i t P. sv_verify_with_metadata (ve_signer V) = Some f \<longrightarrow> refusals_in P (f m s i t))"

lemma pre_auth_collapses:
  "ve_disclosure_mode V \<noteq> LOCAL_DEBUG \<Longrightarrow> raise_pre_auth_failure V code = PROOF_INVALID"
  by (simp add: raise_pre_auth_failure_def proof_refusal_def public_proof_refusal_message_def
      PUBLIC_PROOF_REFUSAL_MESSAGES_def PROOF_INVALID_def)

lemma post_auth_generic:
  "ve_disclosure_mode V = PUBLIC_GENERIC \<Longrightarrow> raise_post_auth_failure V code edge msg = PROOF_INVALID"
  by (simp add: raise_post_auth_failure_def proof_refusal_def public_proof_refusal_message_def
      PUBLIC_PROOF_REFUSAL_MESSAGES_def PROOF_INVALID_def)

lemma verify_authenticity_refusals:
  assumes "signer_never_refuses V" "ve_disclosure_mode V \<noteq> LOCAL_DEBUG"
  shows "refusals_in (\<lambda>e. e = PROOF_INVALID) (verify_authenticity D V p)"
proof -
  have r: "canonicalize_bytes D v = Inl e \<Longrightarrow> \<not> is_refusal e" for v e
    using canonicalize_bytes_no_refusal[of "\<lambda>_. False" D v] by (auto simp: refusals_in_def)
  have sig: "refusals_in (\<lambda>e. e = PROOF_INVALID) (case sv_verify_with_metadata (ve_signer V) of
       Some f \<Rightarrow> f m s iss t | None \<Rightarrow> sv_verify (ve_signer V) m s)" for m s iss t
    using assms(1) by (auto simp: signer_never_refuses_def split: option.split)
  show ?thesis
    unfolding verify_authenticity_def
    by (auto simp: pre_auth_collapses[OF assms(2)] refusals_in_bindR sig dest: r
        split: json.split option.split sum.split)
qed

lemma canonical_equal_no_refusal [simp]: "refusals_in P (canonical_equal D a b)"
proof -
  have "refusals_in (\<lambda>_. False) (bindR (canonicalize_bytes D a)
      (\<lambda>x. bindR (canonicalize_bytes D b) (\<lambda>y. Inr (x = y))))"
    by (auto intro!: refusals_in_bindR)
  then show ?thesis by (auto simp: canonical_equal_def split: sum.split)
qed

lemma target_satisfies_no_refusal [simp]:
  "refusals_in P (selector_satisfied D t s)" "refusals_in P (target_satisfies D t s)"
  "refusals_in P (any_target_satisfies D t ss)"
proof -
  show sel: "refusals_in P (selector_satisfied D t s)" for s
    by (induction s) (auto simp: Let_def intro!: refusals_in_bindR split: option.split)
  then show sat: "refusals_in P (target_satisfies D t s)" for s
    by (simp add: target_satisfies_def)
  show "refusals_in P (any_target_satisfies D t ss)"
    by (induction ss) (auto intro!: refusals_in_bindR sat)
qed

lemma constraints_signed_refusals:
  "refusals_in P (constraints_signed D V signed cs)"
  if "\<And>code edge msg. P (raise_post_auth_failure V code edge msg)"
  using that by (induction D V signed cs rule: constraints_signed.induct)
     (auto intro!: refusals_in_bindR split: option.split)

text \<open>After the signature, every refusal is one of \<open>_raise_post_auth_failure\<close>.\<close>

lemma post_auth_refusals:
  assumes P: "\<And>code edge msg. P (raise_post_auth_failure V code edge msg)"
    and authority: "\<And>ext. refusals_in P (dep_parse_authority_extension D ext)"
  shows "refusals_in P (bindR (verify_time V p cx) (\<lambda>_.
     bindR (verify_audience_and_target D V i p cx) (\<lambda>_.
     bindR (verify_action_binding D V i p cx) (\<lambda>_.
     bindR (verify_action_hash D V i p) (\<lambda>_.
     bindR (verify_edge D V p cx) (\<lambda>_. verify_revocation D V p cx))))))"
proof -
  have eq: "refusals_in P (require_equal D V code a b)" for code a b
    by (auto simp: require_equal_def P intro!: refusals_in_bindR)
  have "refusals_in P (verify_time V p cx)"
    by (auto simp: verify_time_def dt_add_def P intro!: refusals_in_bindR)
  moreover have "refusals_in P (verify_audience_and_target D V i p cx)"
    by (auto simp: verify_audience_and_target_def P eq intro!: refusals_in_bindR split: option.split)
  moreover have "refusals_in P (verify_action_binding D V i p cx)"
    by (auto simp: verify_action_binding_def P eq intro!: refusals_in_bindR)
  moreover have "refusals_in P (verify_action_hash D V i p)"
    using sha256_hex_no_refusal[of "\<lambda>_. False" D "build_action_hash_input i"]
    by (cases "sha256_hex D (build_action_hash_input i)")
       (simp_all add: verify_action_hash_def P del: sha256_hex_no_refusal)
  moreover have "refusals_in P (verify_edge D V p cx)"
    by (auto simp: verify_edge_def P intro!: refusals_in_bindR constraints_signed_refusals)
  moreover have "refusals_in P (verify_revocation D V p cx)"
  proof -
    have "refusals_in P (authority_revocable D V p)"
      using authority[of "pc_extensions p"]
      by (auto simp: authority_revocable_def P split: sum.split exn.split pyclass.split option.split)
    then show ?thesis
      by (auto simp: verify_revocation_def P intro!: refusals_in_bindR split: option.split sum.split)
  qed
  ultimately show ?thesis by (intro refusals_in_bindR)
qed

lemma hmac_sign_nonempty:
  assumes "\<And>m. dep_sha256 D m \<noteq> []"
  shows "sg_value (hmac_sign D S q) \<noteq> []"
proof -
  have "hmac_digest D (hs_secret S) q \<noteq> []" by (simp add: hmac_digest_def assms)
  moreover have "b64url_decode [] = Inr []" by (simp add: b64url_decode_def)
  ultimately show ?thesis using b64url_decode_encode by (metis hmac_sign_def signature_spec.select_convs(4) Inr_inject)
qed

lemma authentic_cong: "ve_signer V = ve_signer V' \<Longrightarrow> authentic D V p = authentic D V' p"
  unfolding authentic_def signature_accepted_def by (simp only:)

section \<open>Sample proof\<close>

text \<open>A proof minted for the sample intent, and its verifier.\<close>

definition sample_minter :: minter where
  "sample_minter = \<lparr>mi_signer = hmac_signer_ops sample_deps sample_signer,
     mi_issuer = \<lparr>pa_type = ''service'', pa_id = ''issuer'', pa_display_name = JNull, pa_attributes = []\<rparr>,
     mi_audit_sink = None\<rparr>"

definition sample_verifier :: verifier where
  "sample_verifier = \<lparr>ve_signer = hmac_verifier sample_deps sample_signer, ve_clock_skew_tolerance = 0,
     ve_disclosure_mode = TRUSTED_DETAILED, ve_revocation_checker = None, ve_boundary_id = Some ''refunds''\<rparr>"

definition sample_mint :: "pccb res" where
  "sample_mint = mint sample_deps sample_minter ''pccb-1'' ''nonce-1'' sample_intent sample_allow
     sample_context (JStr ''esc-1'') []"

definition sample_pccb :: pccb where
  "sample_pccb = (case sample_mint of Inr p \<Rightarrow> p | Inl _ \<Rightarrow> undefined)"

lemma sample_sha256_length [simp]: "length (sample_sha256 m) = 32"
  by (simp add: sample_sha256_def)

lemma sample_action_hash_of:
  assumes "\<not> has_surrogate iid" "length iid \<le> 64"
  shows "is_ok (sha256_hex sample_deps (build_action_hash_input (sample_intent\<lparr>ai_intent_id := iid\<rparr>)))"
proof -
  have "is_ok (canonicalize_bytes sample_deps (build_action_hash_input (sample_intent\<lparr>ai_intent_id := iid\<rparr>)))"
    using length_format_timestamp[of "ai_issued_at sample_intent"]
      length_format_timestamp[of "ai_expires_at sample_intent"] assms
    by (intro canonicalize_bytes_ok)
       (simp_all add: build_action_hash_input_def sample_defs tenant_to_dict_def party_to_dict_def
         action_to_dict_def target_to_dict_def put_defs put_if_def show_int_def show_nat.simps[of 5] INT_MAX_STR_DIGITS_def)
  then show ?thesis by (simp add: sha256_hex_def is_ok_bindR_Inr)
qed

lemma sample_intent_id: "sample_intent\<lparr>ai_intent_id := ''intent-1''\<rparr> = sample_intent"
  by (simp add: sample_intent_def)

lemma sample_action_hash: "is_ok (sha256_hex sample_deps (build_action_hash_input sample_intent))"
  using sample_action_hash_of[of "''intent-1''"] by (simp add: sample_intent_id)

lemma sample_unsigned_ok:
  assumes "unsigned_pccb sample_deps sample_minter ''pccb-1'' ''nonce-1'' (sample_intent\<lparr>ai_intent_id := iid\<rparr>) sample_context (JStr ''esc-1'') ext = Inr u"
    and iid: "\<not> has_surrogate iid" "length iid \<le> 64"
    and ext: "json_clean (JObj ext)" "json_depth (JObj ext) \<le> 8" "text_bound (JObj ext) \<le> 10000"
  shows "is_ok (canonicalize_bytes sample_deps (JObj (unsigned_payload u)))"
proof -
  from assms(1) obtain h where h: "sha256_hex sample_deps (build_action_hash_input (sample_intent\<lparr>ai_intent_id := iid\<rparr>)) = Inr h"
    by (auto simp: unsigned_pccb_def)
  then obtain b where "h = hex_of_bytes (sample_sha256 b)"
    by (auto simp: sha256_hex_def sample_deps_def)
  then have clean: "\<not> has_surrogate h" "length h = 64" by (simp_all add: length_hex_of_bytes)
  have len: "length (format_timestamp (ai_expires_at sample_intent)) \<le> 27"
      "length (format_timestamp (cx_now sample_context)) \<le> 27"
    by (rule length_format_timestamp)+
  have "pc_scope u = \<lparr>sc_mode = ''exact'', sc_capabilities = [''refund.create''], sc_single_use = True,
      sc_resource_selectors = [[(''resource_type'', JStr ''order'')]],
      sc_parameter_constraints = [(''max'', JInt 10)]\<rparr>"
      "pc_action_hash u = \<lparr>ah_algorithm = ''sha-256'', ah_canonicalization = ''ACTENON-JCS-STRICT-1'', ah_value = h\<rparr>"
    using assms(1) h by (auto simp: unsigned_pccb_def sample_deps_def sample_context_def)
  note f = unsigned_pccb_fields[OF assms(1)] this contract_entry_def
      tenant_to_dict_def party_to_dict_def audience_to_dict_def action_to_dict_def target_to_dict_def
      scope_to_dict_def action_hash_to_dict_def put_defs put_if_def sample_minter_def
      sample_intent_def sample_context_def sample_audience_def
  note num = show_int_def show_nat.simps[of 5] show_nat.simps[of 10] show_nat.simps[of "Suc 0"] INT_MAX_STR_DIGITS_def
  have "json_clean (JObj (unsigned_payload u))"
    using ext(1) by (simp add: unsigned_payload_def f clean num iid)
  moreover have "json_depth (JObj (unsigned_payload u)) \<le> 33"
    using ext(2) by (simp add: unsigned_payload_def f)
  moreover have "text_bound (JObj (unsigned_payload u)) \<le> 1048576"
    using len clean iid(2) ext(3) by (simp add: unsigned_payload_def f num)
  ultimately show ?thesis by (intro canonicalize_bytes_ok) (simp_all add: sample_deps_def)
qed

lemma sample_mints:
  assumes "\<not> has_surrogate iid" "length iid \<le> 64" "json_clean (JObj ext)" "json_depth (JObj ext) \<le> 8" "text_bound (JObj ext) \<le> 10000"
  shows "is_ok (mint sample_deps sample_minter ''pccb-1'' ''nonce-1'' (sample_intent\<lparr>ai_intent_id := iid\<rparr>) sample_allow
     sample_context (JStr ''esc-1'') ext)"
proof -
  have "dep_scope_capabilities_for_mint sample_deps (cx_scope_capabilities sample_context) = Inr [''refund.create'']"
    by (simp add: sample_deps_def sample_context_def)
  with sample_action_hash_of[OF assms(1,2)] have "is_ok (unsigned_pccb sample_deps sample_minter ''pccb-1'' ''nonce-1''
      (sample_intent\<lparr>ai_intent_id := iid\<rparr>) sample_context (JStr ''esc-1'') ext)"
    by (simp add: unsigned_pccb_def is_ok_bindR_Inr)
  then obtain u where u: "unsigned_pccb sample_deps sample_minter ''pccb-1'' ''nonce-1'' (sample_intent\<lparr>ai_intent_id := iid\<rparr>)
      sample_context (JStr ''esc-1'') ext = Inr u" by (auto simp: is_ok_iff)
  with sample_unsigned_ok[OF u assms] show ?thesis
    by (auto simp: mint_def is_ok_iff sample_allow_def decision_allowed_def Let_def
        sample_minter_def hmac_signer_ops_def plain_signer_def)
qed

lemma sample_mint_pccb: "sample_mint = Inr sample_pccb"
proof -
  have "is_ok sample_mint"
    using sample_mints[of "''intent-1''" "[]"] by (simp add: sample_mint_def sample_intent_id)
  then obtain p where "sample_mint = Inr p" by (auto simp: is_ok_iff)
  then show ?thesis unfolding sample_pccb_def by (elim ssubst) simp
qed

lemma sample_pccb_fields:
  obtains u s where "unsigned_pccb sample_deps sample_minter ''pccb-1'' ''nonce-1''
      sample_intent sample_context (JStr ''esc-1'') [] = Inr u" "sample_pccb = u\<lparr>pc_signature := s\<rparr>"
  using sample_mint_pccb unfolding sample_mint_def by (elim mint_Inr) blast

lemma sample_in_time: "in_time sample_verifier sample_pccb sample_context"
  and sample_not_revoked: "not_revoked sample_deps sample_verifier sample_pccb sample_context"
  and sample_not_before: "pc_not_before sample_pccb = 63000000060000000"
  and sample_pccb_expires: "pc_expires_at sample_pccb = 63000000600000000"
  and sample_capability: "dep_capability_in_scope sample_deps (ac_capability (ai_action sample_intent))
      (sc_capabilities (pc_scope sample_pccb))"
proof -
  from sample_pccb_fields obtain u s where
    u: "unsigned_pccb sample_deps sample_minter ''pccb-1'' ''nonce-1'' sample_intent sample_context (JStr ''esc-1'') [] = Inr u"
    and p: "sample_pccb = u\<lparr>pc_signature := s\<rparr>" .
  note f = unsigned_pccb_fields[OF u]
  show "in_time sample_verifier sample_pccb sample_context"
    by (simp add: in_time_def p f sample_verifier_def sample_context_def sample_intent_def dt_ok_def
        datetime_limit_def)
  show "not_revoked sample_deps sample_verifier sample_pccb sample_context"
    by (simp add: not_revoked_def p f sample_verifier_def authority_revocable_def dmem_def)
  show "pc_not_before sample_pccb = 63000000060000000" by (simp add: p f sample_context_def)
  show "pc_expires_at sample_pccb = 63000000600000000" by (simp add: p f sample_intent_def)
  show "dep_capability_in_scope sample_deps (ac_capability (ai_action sample_intent))
      (sc_capabilities (pc_scope sample_pccb))"
    using u by (auto simp: p unsigned_pccb_def sample_deps_def sample_context_def sample_intent_def)
qed

lemma sample_selectors: "cx_resource_selectors sample_context \<noteq> [] \<longrightarrow>
    any_target_satisfies sample_deps (ai_target sample_intent) (cx_resource_selectors sample_context) = Inr True"
proof -
  have "is_ok (canonicalize_bytes sample_deps (JStr ''order''))"
    by (rule canonicalize_bytes_ok) (simp_all add: sample_deps_def)
  then have "canonical_equal sample_deps (JStr ''order'') (JStr ''order'') = Inr True"
    by (simp add: same_text_refl)
  then show ?thesis
    by (simp add: sample_context_def sample_intent_def target_satisfies_def del: canonical_equal_True)
qed

lemma sample_verifies: "verify sample_deps sample_verifier sample_intent sample_pccb sample_context = Inr ()"
  using hmac_sign_nonempty[of sample_deps sample_signer]
  by (intro hmac.minted_verifies[OF sample_mint_pccb[unfolded sample_mint_def] _ _ _ sample_in_time _
        sample_capability _ _ _ sample_selectors sample_not_revoked, where alg = "''HS256''" and key = "''k1''"])
     (simp_all add: sample_minter_def sample_verifier_def sample_defs hmac_signer_ops_def hmac_verifier_def)

lemma sample_verifies_until_expiry:
  "verify sample_deps sample_verifier sample_intent sample_pccb (sample_context\<lparr>cx_now := 63000000600000000\<rparr>) = Inr ()"
  using sample_verifies sample_pccb_expires
  by (simp add: verify_ok in_time_def edge_accepts_def not_revoked_def sample_verifier_def sample_not_before dt_ok_def
      datetime_limit_def)

section \<open>Properties\<close>

text \<open>
  C5 (verify_iff): the verifier accepts a proof for an intent in a context exactly when the proof is
  authentic, in time, bound to the intent, accepted by the declarations of the edge, and not revoked.
\<close>

theorem verify_iff:
  "verify D V i p cx = Inr () \<longleftrightarrow>
     authentic D V p \<and> in_time V p cx \<and> bound_to D i p \<and> edge_accepts D V i p cx \<and> not_revoked D V p cx"
  by (rule verify_ok)

text \<open>
  C6 (one_proof_one_action): a proof that is accepted for two intents, by whatever verifiers and in
  whatever contexts, binds both to the same contents: same target, tenant, requester and action
  (name, capability, parameters, constraints and scope), and the same action digest; and the tenant,
  the resource and the capability are literally the same.
\<close>

theorem one_proof_one_action:
  assumes "verify D V i p cx = Inr ()" "verify D V' j p cx' = Inr ()"
  shows "json_norm (JObj (target_to_dict (ai_target i))) = json_norm (JObj (target_to_dict (ai_target j)))
    \<and> json_norm (JObj (tenant_to_dict (ai_tenant i))) = json_norm (JObj (tenant_to_dict (ai_tenant j)))
    \<and> json_norm (JObj (party_to_dict (ai_requester i))) = json_norm (JObj (party_to_dict (ai_requester j)))
    \<and> json_norm (JObj (action_to_dict (ai_action i))) = json_norm (JObj (action_to_dict (ai_action j)))
    \<and> sha256_hex D (build_action_hash_input i) = sha256_hex D (build_action_hash_input j)
    \<and> tn_tenant_id (ai_tenant i) = tn_tenant_id (ai_tenant j)
    \<and> tg_resource_type (ai_target i) = tg_resource_type (ai_target j)
    \<and> tg_resource_id (ai_target i) = tg_resource_id (ai_target j)
    \<and> ac_capability (ai_action i) = ac_capability (ai_action j)"
proof -
  have i: "bound_to D i p" and j: "bound_to D j p" using assms by (simp_all add: verify_ok)
  have target: "json_norm (JObj (target_to_dict (ai_target i))) = json_norm (JObj (target_to_dict (ai_target j)))"
   and tenant: "json_norm (JObj (tenant_to_dict (ai_tenant i))) = json_norm (JObj (tenant_to_dict (ai_tenant j)))"
   and party: "json_norm (JObj (party_to_dict (ai_requester i))) = json_norm (JObj (party_to_dict (ai_requester j)))"
   and action: "json_norm (JObj (action_to_dict (ai_action i))) = json_norm (JObj (action_to_dict (ai_action j)))"
    using i j same_text_trans same_text_norm unfolding bound_to_def by blast+
  have hash: "sha256_hex D (build_action_hash_input i) = sha256_hex D (build_action_hash_input j)"
    using i j by (simp add: bound_to_def)
  from norm_fields[OF target tenant action] target tenant party action hash show ?thesis by blast
qed

text \<open>
  C14 (minted_proof_verifies): a proof minted with the local HMAC signer is authentic and bound to its intent for every verifier
  that holds the same key and in every context: such a verifier accepts it for that intent exactly when it is in time, the
  declarations of the edge (audience, boundary, capabilities, constraints, selectors) accept it and it is not revoked. SHA-256
  returns bytes, and the minting profile is one that the verifier accepts.
\<close>

theorem minted_proof_verifies:
  assumes "mint D M pccb_id nonce i decision cx escrow_id extensions = Inr p"
    and "mi_signer M = hmac_signer_ops D S" "ve_signer V = hmac_verifier D S"
    and "\<And>m. dep_sha256 D m \<noteq> []" "dep_profile D \<in> set (dep_accepted_profiles D)"
  shows "verify D V i p cx' = Inr () \<longleftrightarrow> in_time V p cx' \<and> edge_accepts D V i p cx' \<and> not_revoked D V p cx'"
proof -
  have "authentic D V p" "bound_to D i p"
    using assms hmac_sign_nonempty unfolding hmac_signer_ops_def hmac_verifier_def
    by (auto intro: hmac.minted_authentic)
  then show ?thesis by (simp add: verify_ok)
qed

theorem minted_proof_verifies_witness:
  "verify sample_deps sample_verifier sample_intent sample_pccb sample_context = Inr () \<and>
   verify sample_deps sample_verifier sample_intent sample_pccb (sample_context\<lparr>cx_now := 63000000700000000\<rparr>) \<noteq> Inr ()"
proof -
  have minted: "verify sample_deps sample_verifier sample_intent sample_pccb cx = Inr () \<longleftrightarrow>
      in_time sample_verifier sample_pccb cx \<and> edge_accepts sample_deps sample_verifier sample_intent sample_pccb cx \<and>
      not_revoked sample_deps sample_verifier sample_pccb cx" for cx
    by (rule minted_proof_verifies[OF sample_mint_pccb[unfolded sample_mint_def]])
       (simp_all add: sample_minter_def sample_verifier_def sample_defs)
  moreover have "\<not> in_time sample_verifier sample_pccb (sample_context\<lparr>cx_now := 63000000700000000\<rparr>)"
    by (simp add: in_time_def sample_pccb_expires sample_verifier_def)
  moreover have "edge_accepts sample_deps sample_verifier sample_intent sample_pccb sample_context"
    using sample_verifies by (simp add: verify_ok)
  ultimately show ?thesis using sample_in_time sample_not_revoked by simp
qed

theorem one_proof_one_action_witness:
  "sha256_hex sample_deps (build_action_hash_input sample_intent) =
     sha256_hex sample_deps (build_action_hash_input sample_intent)
   \<and> tg_resource_id (ai_target sample_intent) = ''o1''"
  using one_proof_one_action[OF sample_verifies sample_verifies] by (simp add: sample_intent_def)

text \<open>
  C36 (unauthenticated_refusals_uniform): outside \<open>local_debug\<close>, every refusal of the
  pre-authentication phase is the one generic refusal, whatever the proof was refused for.
\<close>

theorem unauthenticated_refusals_uniform:
  assumes "ve_disclosure_mode V \<noteq> LOCAL_DEBUG" "signer_never_refuses V"
    and "verify_authenticity D V p = Inl e" "is_refusal e"
  shows "e = PROOF_INVALID"
  using verify_authenticity_refusals[OF assms(2,1), of D p] assms(3,4) by simp

theorem unauthenticated_refusals_uniform_witness:
  "verify_authenticity sample_deps sample_verifier
     (sample_pccb\<lparr>pc_signature := \<lparr>sg_algorithm = ''HS256'', sg_key_id = ''k1'', sg_encoding = ''hex'',
       sg_value = ''00''\<rparr>\<rparr>) = Inl PROOF_INVALID"
proof -
  let ?p = "sample_pccb\<lparr>pc_signature := \<lparr>sg_algorithm = ''HS256'', sg_key_id = ''k1'', sg_encoding = ''hex'',
       sg_value = ''00''\<rparr>\<rparr>"
  have c: "get_or_null (unsigned_payload ?p) ''contract'' = JObj [(''name'', JStr ''pccb''), (''version'', JStr ''v1'')]"
    by (simp add: unsigned_payload_def contract_entry_def)
  have "signer_never_refuses sample_verifier"
    by (simp add: signer_never_refuses_def sample_verifier_def hmac_verifier_def plain_verifier_def)
  moreover have "verify_authenticity sample_deps sample_verifier ?p =
      Inl (raise_pre_auth_failure sample_verifier ''SIGNATURE_INVALID'')"
    unfolding verify_authenticity_def c by (simp add: validate_signature_structure_def)
  moreover have "is_refusal (raise_pre_auth_failure sample_verifier ''SIGNATURE_INVALID'')"
    by (simp add: raise_pre_auth_failure_def proof_refusal_def public_proof_refusal_message_def
        PUBLIC_PROOF_REFUSAL_MESSAGES_def sample_verifier_def)
  ultimately show ?thesis
    using unauthenticated_refusals_uniform[of sample_verifier sample_deps ?p]
    by (simp add: sample_verifier_def)
qed

text \<open>
  In \<open>public_generic\<close> mode every refusal of the whole
  verification is the generic one, so a caller learns nothing about which check failed.
\<close>

theorem generic_refusals_uniform:
  assumes "ve_disclosure_mode V = PUBLIC_GENERIC" "signer_never_refuses V"
    and "\<And>ext e. dep_parse_authority_extension D ext = Inl e \<Longrightarrow> \<not> is_refusal e"
    and "verify D V i p cx = Inl e" "is_refusal e"
  shows "e = PROOF_INVALID"
proof -
  let ?P = "\<lambda>e. e = PROOF_INVALID"
  have "refusals_in ?P (verify D V i p cx)"
    unfolding verify_def
  proof (rule refusals_in_bindR)
    show "refusals_in ?P (verify_authenticity D V p)"
      using assms(1,2) by (intro verify_authenticity_refusals) simp_all
    show "refusals_in ?P (bindR (verify_time V p cx) (\<lambda>_. bindR (verify_audience_and_target D V i p cx) (\<lambda>_.
        bindR (verify_action_binding D V i p cx) (\<lambda>_. bindR (verify_action_hash D V i p) (\<lambda>_.
        bindR (verify_edge D V p cx) (\<lambda>_. verify_revocation D V p cx))))))"
      using assms(1,3) by (intro post_auth_refusals) (auto simp: post_auth_generic refusals_in_def)
  qed
  with assms(4,5) show ?thesis by simp
qed

theorem generic_refusals_uniform_witness:
  "verify sample_deps (sample_verifier\<lparr>ve_disclosure_mode := PUBLIC_GENERIC\<rparr>) sample_intent sample_pccb
     (sample_context\<lparr>cx_now := 0\<rparr>) = Inl PROOF_INVALID"
proof -
  let ?V = "sample_verifier\<lparr>ve_disclosure_mode := PUBLIC_GENERIC\<rparr>" and ?cx = "sample_context\<lparr>cx_now := 0\<rparr>"
  have "authentic sample_deps sample_verifier sample_pccb"
    using sample_verifies by (simp add: verify_ok)
  moreover have "ve_signer ?V = ve_signer sample_verifier" by simp
  ultimately have "authentic sample_deps ?V sample_pccb"
    using authentic_cong by blast
  then have a: "verify_authenticity sample_deps ?V sample_pccb = Inr ()"
    by (simp only: verify_authenticity_ok)
  have "ve_clock_skew_tolerance ?V = 0" by (simp add: sample_verifier_def)
  then have "verify_time ?V sample_pccb ?cx = Inl (raise_post_auth_failure ?V ''PROOF_NOT_YET_VALID'' False None)"
    by (simp add: verify_time_def dt_add_def dt_ok_def datetime_limit_def sample_not_before)
  with a have "verify sample_deps ?V sample_intent sample_pccb ?cx =
      Inl (raise_post_auth_failure ?V ''PROOF_NOT_YET_VALID'' False None)"
    by (simp only: verify_def bindR_Inl bindR_Inr)
  moreover have "is_refusal (raise_post_auth_failure ?V ''PROOF_NOT_YET_VALID'' False None)"
    by (simp add: post_auth_generic PROOF_INVALID_def)
  moreover have "signer_never_refuses ?V"
    by (simp add: signer_never_refuses_def sample_verifier_def hmac_verifier_def plain_verifier_def)
  moreover have "dep_parse_authority_extension sample_deps ext = Inl e \<Longrightarrow> \<not> is_refusal e" for ext e
    by (auto simp: sample_deps_def split: option.splits json.splits)
  ultimately show ?thesis using generic_refusals_uniform[of ?V sample_deps] by simp
qed

text \<open>
  Minting succeeds only for an allow decision; the proof it returns is exact and
  single use, names exactly the intent's tenant, requester, action and target, carries the intent's
  action digest, is valid from the time of minting until the intent expires, and its signature covers
  its canonical unsigned payload.
\<close>

theorem minting_is_exact:
  assumes "mint D M pccb_id nonce i decision cx escrow_id extensions = Inr p"
  shows "decision_allowed decision
    \<and> sc_mode (pc_scope p) = ''exact'' \<and> sc_single_use (pc_scope p)
    \<and> pc_tenant p = ai_tenant i \<and> pc_subject p = ai_requester i \<and> pc_action p = ai_action i
    \<and> pc_target p = ai_target i \<and> pc_intent_id p = JStr (ai_intent_id i) \<and> pc_audience p = cx_audience cx
    \<and> sha256_hex D (build_action_hash_input i) = Inr (ah_value (pc_action_hash p))
    \<and> pc_not_before p = cx_now cx \<and> pc_expires_at p = ai_expires_at i
    \<and> (\<exists>payload. canonicalize_bytes D (JObj (unsigned_payload p)) = Inr payload
         \<and> so_sign (mi_signer M) payload = Inr (pc_signature p))"
proof -
  from assms obtain u payload s where d: "decision_allowed decision"
    and u: "unsigned_pccb D M pccb_id nonce i cx escrow_id extensions = Inr u"
    and s: "canonicalize_bytes D (JObj (unsigned_payload u)) = Inr payload"
      "so_sign (mi_signer M) payload = Inr s" "p = u\<lparr>pc_signature := s\<rparr>"
    by (rule mint_Inr)
  from d s show ?thesis by (simp add: unsigned_pccb_fields[OF u])
qed

theorem minting_is_exact_witness:
  "pc_target sample_pccb = ai_target sample_intent \<and> sc_single_use (pc_scope sample_pccb)"
  using minting_is_exact[OF sample_mint_pccb[unfolded sample_mint_def]] by simp

text \<open>
  The audit record of a mint does not depend on the action's parameters,
  constraints or scope, nor on the signature bytes, the name and attributes of the issuer or
  the extensions of the proof.
\<close>

theorem audit_record_private:
  "mint_audit_record D (p\<lparr>pc_action := (pc_action p)\<lparr>ac_parameters := ps, ac_constraints := cs, ac_scope := sc\<rparr>,
     pc_signature := (pc_signature p)\<lparr>sg_value := sv\<rparr>,
     pc_issuer := (pc_issuer p)\<lparr>pa_display_name := dn, pa_attributes := attrs\<rparr>,
     pc_extensions := ext\<rparr>) = mint_audit_record D p"
  by (simp add: mint_audit_record_def)

end
