(* ===== verification/OneShot.thy ===== *)
theory OneShot
  imports Prelude
begin

text \<open>
  The contract behind every single-use guarantee of the kernel, as the locale \<open>one_shot\<close>:
  operations that may spend a key, where a key that is spent stays spent and is never spent again.
  The replay store and both escrows are interpretations of it.
\<close>

text \<open>The keys that a sequence of operations spends, in order.\<close>

fun spend_trace :: "('op \<Rightarrow> 's \<Rightarrow> 's) \<Rightarrow> ('op \<Rightarrow> 's \<Rightarrow> 'k option) \<Rightarrow> 'op list \<Rightarrow> 's \<Rightarrow> 'k list" where
  "spend_trace run spends [] s = []"
| "spend_trace run spends (op # ops) s =
     (case spends op s of None \<Rightarrow> [] | Some k \<Rightarrow> [k]) @ spend_trace run spends ops (run op s)"

locale one_shot =
  fixes run :: "'op \<Rightarrow> 's \<Rightarrow> 's"
    and spends :: "'op \<Rightarrow> 's \<Rightarrow> 'k option"
    and spent :: "'s \<Rightarrow> 'k \<Rightarrow> bool"
  assumes spend_fresh: "spends op s = Some k \<Longrightarrow> \<not> spent s k"
    and spend_marks: "spends op s = Some k \<Longrightarrow> spent (run op s) k"
    and spent_stays: "spent s k \<Longrightarrow> spent (run op s) k"
begin

lemma spend_trace_fresh: "k \<in> set (spend_trace run spends ops s) \<Longrightarrow> \<not> spent s k"
proof (induction ops arbitrary: s)
  case (Cons op ops)
  then show ?case using spend_fresh spent_stays by (fastforce split: option.splits)
qed simp

lemma spend_trace_distinct: "distinct (spend_trace run spends ops s)"
proof (induction ops arbitrary: s)
  case (Cons op ops)
  have "k \<notin> set (spend_trace run spends ops (run op s))" if "spends op s = Some k" for k
    using spend_trace_fresh[of k ops "run op s"] spend_marks[OF that] by blast
  with Cons show ?case by (auto split: option.split)
qed simp

lemma spent_after: "k \<in> set (spend_trace run spends ops s) \<Longrightarrow> spent (fold run ops s) k"
proof (induction ops arbitrary: s)
  case (Cons op ops)
  have stays: "spent s k \<Longrightarrow> spent (fold run ops s) k" for s
    by (induction ops arbitrary: s) (simp_all add: spent_stays)
  show ?case
  proof (cases "k \<in> set (spend_trace run spends ops (run op s))")
    case True
    then show ?thesis using Cons.IH by simp
  next
    case False
    with Cons.prems have "spends op s = Some k" by (auto split: option.splits)
    then show ?thesis using stays spend_marks by simp
  qed
qed simp

end

end
