(* ===== verification/Replay.thy ===== *)
theory Replay
  imports Proof OneShot
begin

text \<open>
  Replay protection: the claims and records of \<^verbatim>\<open>replay/base.py\<close>, the relational store of
  \<^verbatim>\<open>replay/dbapi.py\<close> (with the transactions of \<^verbatim>\<open>replay/sqlite.py\<close>) and the protector of
  \<^verbatim>\<open>replay/service.py\<close>. The database keeps the table \<open>action_consumption\<close> by replay key and the
  mutation counter of \<open>replay_store_metadata\<close>; a store object keeps the counter it last observed.
  Timestamps are columns of text, compared as text by the \<open>WHERE\<close> clauses.
\<close>

section \<open>Records\<close>

record consumption_claim =
  cl_replay_key :: string
  cl_intent_id :: "string option"
  cl_pccb_id :: string
  cl_nonce :: string
  cl_action_hash :: string
  cl_audience :: string
  cl_capability :: string
  cl_tenant_id :: "string option"
  cl_subject_id :: "string option"
  cl_expires_at :: datetime
  cl_metadata :: dict

record consumption_row =
  cr_intent_id :: "string option"
  cr_pccb_id :: string
  cr_nonce :: string
  cr_action_hash :: string
  cr_audience :: string
  cr_capability :: string
  cr_tenant_id :: "string option"
  cr_subject_id :: "string option"
  cr_status :: string
  cr_created_at :: string
  cr_updated_at :: string
  cr_expires_at :: string
  cr_consumed_at :: "string option"
  cr_metadata :: dict

record consumption_state =
  cs_replay_key :: string
  cs_intent_id :: "string option"
  cs_pccb_id :: string
  cs_nonce :: string
  cs_action_hash :: string
  cs_audience :: string
  cs_capability :: string
  cs_tenant_id :: "string option"
  cs_subject_id :: "string option"
  cs_status :: string
  cs_created_at :: datetime
  cs_updated_at :: datetime
  cs_expires_at :: datetime
  cs_consumed_at :: "datetime option"
  cs_metadata :: dict

definition state_terminal :: "consumption_state \<Rightarrow> bool" where
  "state_terminal s \<longleftrightarrow> cs_status s \<in> {''consumed'', ''released'', ''expired''}"

record replay_store =
  rs_rows :: "(string \<times> consumption_row) list"
  rs_counter :: "int option"
  rs_last_observed :: int

text \<open>\<open>json.loads(json.dumps(d, sort_keys=True))\<close>: values that are not JSON raise \<open>TypeError\<close>.\<close>

fun json_serialisable :: "json \<Rightarrow> bool" where
  "json_serialisable (JArr xs) = list_all json_serialisable xs"
| "json_serialisable (JTup xs) = list_all json_serialisable xs"
| "json_serialisable (JObj d) = list_all (\<lambda>p. json_serialisable (snd p)) d"
| "json_serialisable (JOther s) = False"
| "json_serialisable _ = True"

definition json_column :: "dict \<Rightarrow> dict res" where
  "json_column d = (if json_serialisable (JObj d)
     then (case json_norm (JObj d) of JObj e \<Rightarrow> Inr e | _ \<Rightarrow> Inr [])
     else Inl (Raise TypeError ''Object is not JSON serializable''))"

definition row_to_state :: "string \<Rightarrow> consumption_row \<Rightarrow> consumption_state res" where
  "row_to_state key r =
     bindR (case cr_consumed_at r of None \<Rightarrow> Inr None
       | Some raw \<Rightarrow> if raw = [] then Inr None
           else bindR (parse_timestamp (JStr raw) ''consumed_at'') (\<lambda>t. Inr (Some t))) (\<lambda>consumed.
     bindR (parse_timestamp (JStr (cr_created_at r)) ''created_at'') (\<lambda>created.
     bindR (parse_timestamp (JStr (cr_updated_at r)) ''updated_at'') (\<lambda>updated.
     bindR (parse_timestamp (JStr (cr_expires_at r)) ''expires_at'') (\<lambda>expires.
     Inr \<lparr>cs_replay_key = key, cs_intent_id = cr_intent_id r, cs_pccb_id = cr_pccb_id r,
       cs_nonce = cr_nonce r, cs_action_hash = cr_action_hash r, cs_audience = cr_audience r,
       cs_capability = cr_capability r, cs_tenant_id = cr_tenant_id r, cs_subject_id = cr_subject_id r,
       cs_status = cr_status r, cs_created_at = created, cs_updated_at = updated,
       cs_expires_at = expires, cs_consumed_at = consumed, cs_metadata = cr_metadata r\<rparr>))))"

section \<open>The mutation counter\<close>

definition read_mutation_counter :: "replay_store \<Rightarrow> int res" where
  "read_mutation_counter st = (case rs_counter st of Some c \<Rightarrow> Inr c
     | None \<Rightarrow> Inl (ReplayValidationError ''REPLAY_STORE_ROLLBACK_DETECTED''
         ''Replay store monotonic metadata is missing.'' []))"

definition counter_details :: "int \<Rightarrow> int \<Rightarrow> dict" where
  "counter_details observed last_observed =
     [(''observed_counter'', JInt observed), (''last_observed_counter'', JInt last_observed)]"

definition assert_store_monotonic :: "replay_store \<Rightarrow> unit res \<times> replay_store" where
  "assert_store_monotonic st = (case read_mutation_counter st of
      Inl e \<Rightarrow> (Inl e, st)
    | Inr counter \<Rightarrow>
        if counter < rs_last_observed st
        then (Inl (ReplayValidationError ''REPLAY_STORE_ROLLBACK_DETECTED''
            ''Replay store state regressed behind a previously observed mutation.''
            (counter_details counter (rs_last_observed st))), st)
        else (Inr (), st\<lparr>rs_last_observed := counter\<rparr>))"

definition advance_mutation_counter :: "replay_store \<Rightarrow> int res \<times> replay_store" where
  "advance_mutation_counter st = (case rs_counter st of
      None \<Rightarrow> (Inl (ReplayValidationError ''REPLAY_STORE_ROLLBACK_DETECTED''
          ''Replay store monotonic metadata could not advance.'' []), st)
    | Some c \<Rightarrow>
        (let st' = st\<lparr>rs_counter := Some (c + 1)\<rparr> in
         if c + 1 \<le> rs_last_observed st
         then (Inl (ReplayValidationError ''REPLAY_STORE_ROLLBACK_DETECTED''
            ''Replay store mutation order regressed behind a previously observed mutation.''
            (counter_details (c + 1) (rs_last_observed st))), st')
         else (Inr (c + 1), st')))"

text \<open>\<open>counter = advance(...); connection.commit(); self._last_observed_counter = counter\<close>, where a
  failure rolls the transaction back to \<open>st0\<close>.\<close>

definition commit_mutation :: "replay_store \<Rightarrow> replay_store \<Rightarrow> (replay_store \<Rightarrow> 'a res \<times> replay_store)
    \<Rightarrow> 'a res \<times> replay_store" where
  "commit_mutation st0 st k = (case advance_mutation_counter st of
      (Inl e, _) \<Rightarrow> (Inl e, st0)
    | (Inr counter, st') \<Rightarrow> k (st'\<lparr>rs_last_observed := counter\<rparr>))"

lemma commit_mutation_cong [fundef_cong]:
  assumes "st0 = st0'" "st = st'"
    and "\<And>c st2. advance_mutation_counter st' = (Inr c, st2) \<Longrightarrow>
      k (st2\<lparr>rs_last_observed := c\<rparr>) = k' (st2\<lparr>rs_last_observed := c\<rparr>)"
  shows "commit_mutation st0 st k = commit_mutation st0' st' k'"
  using assms by (auto simp: commit_mutation_def split: prod.split sum.split)

section \<open>Operations\<close>

definition set_row :: "string \<Rightarrow> consumption_row \<Rightarrow> replay_store \<Rightarrow> replay_store" where
  "set_row key r st = st\<lparr>rs_rows := dput (rs_rows st) key r\<rparr>"

lemma assert_store_monotonic_rows:
  "assert_store_monotonic st = (r, st1) \<Longrightarrow> rs_rows st1 = rs_rows st"
  "assert_store_monotonic st = (r, st1) \<Longrightarrow> rs_counter st1 = rs_counter st"
  by (auto simp: assert_store_monotonic_def split: sum.splits if_splits)

lemma assert_store_monotonic_snd [simp]:
  "rs_rows (snd (assert_store_monotonic st)) = rs_rows st"
  "rs_counter (snd (assert_store_monotonic st)) = rs_counter st"
  by (rule assert_store_monotonic_rows[OF prod.collapse[symmetric]])+

lemma row_to_state_status: "row_to_state key r = Inr s \<Longrightarrow> cr_status r = cs_status s"
  unfolding row_to_state_def by (elim bindR_eq_InrE, drule Inr_inject, erule subst) simp

lemma row_to_state_key: "row_to_state key r = Inr s \<Longrightarrow> cs_replay_key s = key"
  unfolding row_to_state_def by (elim bindR_eq_InrE, drule Inr_inject, erule subst) simp

lemma advance_rows: "advance_mutation_counter st = (r, st') \<Longrightarrow> rs_rows st' = rs_rows st"
  by (auto simp: advance_mutation_counter_def Let_def split: option.splits if_splits)

definition row_status :: "replay_store \<Rightarrow> string \<Rightarrow> string option" where
  "row_status st key = map_option cr_status (dget (rs_rows st) key)"

text \<open>\<open>inspect\<close>: an overdue claim is marked expired and the record is read again.\<close>

function inspect :: "string \<Rightarrow> datetime \<Rightarrow> replay_store \<Rightarrow> consumption_state option res \<times> replay_store" where
  "inspect key now st =
     (case assert_store_monotonic st of
        (Inl e, st1) \<Rightarrow> (Inl e, st1)
      | (Inr _, st1) \<Rightarrow>
          (case dget (rs_rows st1) key of
             None \<Rightarrow> (Inr None, st1)
           | Some row \<Rightarrow>
               (case row_to_state key row of
                  Inl e \<Rightarrow> (Inl e, st1)
                | Inr state \<Rightarrow>
                    if cs_status state = ''claimed'' \<and> cs_expires_at state \<le> now
                    then commit_mutation st1
                      (set_row key (row\<lparr>cr_status := ''expired'', cr_updated_at := format_timestamp now\<rparr>) st1)
                      (inspect key now)
                    else (Inr (Some state), st1))))"
  by pat_completeness auto

termination
  by (relation "measure (\<lambda>(key, now, st). if row_status st key = Some ''claimed'' then 1 else 0)")
     (auto simp: row_status_def set_row_def
       dest!: row_to_state_status advance_rows assert_store_monotonic_rows(1)[OF sym])

declare inspect.simps [simp del]

text \<open>\<open>UPDATE ... WHERE replay_key = ? AND status = 'claimed' AND expires_at <= ?\<close>: text order.\<close>

definition expire_row :: "string \<Rightarrow> consumption_row \<Rightarrow> consumption_row" where
  "expire_row now_raw r = (if cr_status r = ''claimed'' \<and> cr_expires_at r \<le> now_raw
     then r\<lparr>cr_status := ''expired'', cr_updated_at := now_raw\<rparr> else r)"

definition expire_key :: "string \<Rightarrow> string \<Rightarrow> (string \<times> consumption_row) list \<Rightarrow> (string \<times> consumption_row) list" where
  "expire_key key now_raw rows = map (\<lambda>p. if fst p = key then (fst p, expire_row now_raw (snd p)) else p) rows"

text \<open>\<open>DELETE ... WHERE replay_key = ? AND status IN ('released', 'expired')\<close>.\<close>

definition delete_reclaimable :: "string \<Rightarrow> (string \<times> consumption_row) list \<Rightarrow> (string \<times> consumption_row) list" where
  "delete_reclaimable key rows =
     filter (\<lambda>p. \<not> (fst p = key \<and> cr_status (snd p) \<in> {''released'', ''expired''})) rows"

definition claim_row :: "consumption_claim \<Rightarrow> string \<Rightarrow> dict \<Rightarrow> consumption_row" where
  "claim_row c now_raw meta = \<lparr>cr_intent_id = cl_intent_id c, cr_pccb_id = cl_pccb_id c, cr_nonce = cl_nonce c,
     cr_action_hash = cl_action_hash c, cr_audience = cl_audience c, cr_capability = cl_capability c,
     cr_tenant_id = cl_tenant_id c, cr_subject_id = cl_subject_id c, cr_status = ''claimed'',
     cr_created_at = now_raw, cr_updated_at = now_raw, cr_expires_at = format_timestamp (cl_expires_at c),
     cr_consumed_at = None, cr_metadata = meta\<rparr>"

definition claim_once :: "consumption_claim \<Rightarrow> datetime \<Rightarrow> replay_store \<Rightarrow> consumption_state option res \<times> replay_store" where
  "claim_once claim now st =
     (let key = cl_replay_key claim; now_raw = format_timestamp now in
      case assert_store_monotonic st of
        (Inl e, st1) \<Rightarrow> (Inl e, st1)
      | (Inr _, st1) \<Rightarrow>
          (let rows = delete_reclaimable key (expire_key key now_raw (rs_rows st1)) in
           case json_column (cl_metadata claim) of
             Inl e \<Rightarrow> (Inl e, st1)
           | Inr meta \<Rightarrow>
               if dmem rows key
               then (case inspect key now st1 of
                   (Inl e, st2) \<Rightarrow> (Inl e, st2)
                 | (Inr existing, st2) \<Rightarrow>
                     (Inl (ReplayValidationError ''DUPLICATE_REPLAY''
                        ''The protected action has already been claimed for execution.''
                        [(''replay_key'', JStr key),
                         (''existing_status'', JStr (case existing of None \<Rightarrow> ''unknown'' | Some s \<Rightarrow> cs_status s)),
                         (''pccb_id'', JStr (cl_pccb_id claim))]), st2))
               else commit_mutation st1
                 (st1\<lparr>rs_rows := dput rows key (claim_row claim now_raw meta)\<rparr>) (inspect key now)))"

text \<open>The refusal of \<open>mark_consumed\<close> after its update matched no row.\<close>

definition refuse_consume :: "string \<Rightarrow> datetime \<Rightarrow> replay_store \<Rightarrow> consumption_state option res \<times> replay_store" where
  "refuse_consume key now st =
     (case inspect key now st of
        (Inl e, st') \<Rightarrow> (Inl e, st')
      | (Inr existing, st') \<Rightarrow>
          (Inl (ReplayValidationError ''REPLAY_STATE_INVALID''
             ''The replay record could not transition to consumed.''
             ((''replay_key'', JStr key) #
               (case existing of None \<Rightarrow> [] | Some s \<Rightarrow> [(''existing_status'', JStr (cs_status s))]))), st'))"

definition mark_consumed :: "string \<Rightarrow> datetime \<Rightarrow> replay_store \<Rightarrow> consumption_state option res \<times> replay_store" where
  "mark_consumed key now st =
     (let now_raw = format_timestamp now in
      case assert_store_monotonic st of
        (Inl e, st1) \<Rightarrow> (Inl e, st1)
      | (Inr _, st1) \<Rightarrow>
          (case dget (rs_rows st1) key of
             Some row \<Rightarrow>
               if cr_status row = ''claimed''
               then commit_mutation st1
                 (set_row key (row\<lparr>cr_status := ''consumed'', cr_updated_at := now_raw,
                    cr_consumed_at := Some now_raw\<rparr>) st1) (inspect key now)
               else refuse_consume key now st1
           | None \<Rightarrow> refuse_consume key now st1))"

definition release_claim :: "string \<Rightarrow> datetime \<Rightarrow> string \<Rightarrow> replay_store \<Rightarrow> consumption_state option res \<times> replay_store" where
  "release_claim key now reason st =
     (let now_raw = format_timestamp now in
      case assert_store_monotonic st of
        (Inl e, st1) \<Rightarrow> (Inl e, st1)
      | (Inr _, st1) \<Rightarrow>
          (case dget (rs_rows st1) key of
             None \<Rightarrow> (Inl (ReplayValidationError ''REPLAY_CLAIM_MISSING''
                ''The replay claim does not exist.'' [(''replay_key'', JStr key)]), st1)
           | Some row \<Rightarrow>
               (case row_to_state key row of
                  Inl e \<Rightarrow> (Inl e, st1)
                | Inr current \<Rightarrow>
                    if cs_status current = ''consumed'' then (Inr (Some current), st1)
                    else (case json_column (dput (cs_metadata current) ''release_reason'' (JStr reason)) of
                        Inl e \<Rightarrow> (Inl e, st1)
                      | Inr meta \<Rightarrow>
                          if cr_status row = ''claimed''
                          then commit_mutation st1
                            (set_row key (row\<lparr>cr_status := ''released'', cr_updated_at := now_raw,
                               cr_metadata := meta\<rparr>) st1) (inspect key now)
                          else (Inl (ReplayValidationError ''REPLAY_RELEASE_INVALID''
                            ''The replay claim could not be released.''
                            [(''replay_key'', JStr key), (''existing_status'', JStr (cs_status current))]), st1)))))"

text \<open>\<open>purge_expired\<close>: despite its name it marks, it does not delete.\<close>

definition overdue :: "string \<Rightarrow> consumption_row \<Rightarrow> bool" where
  "overdue now_raw r \<longleftrightarrow> cr_status r = ''claimed'' \<and> cr_expires_at r \<le> now_raw"

definition purge_expired :: "datetime \<Rightarrow> replay_store \<Rightarrow> nat res \<times> replay_store" where
  "purge_expired now st =
     (let now_raw = format_timestamp now in
      case assert_store_monotonic st of
        (Inl e, st1) \<Rightarrow> (Inl e, st1)
      | (Inr _, st1) \<Rightarrow>
          (let count = length (filter (\<lambda>p. overdue now_raw (snd p)) (rs_rows st1));
               st2 = st1\<lparr>rs_rows := map (\<lambda>p. (fst p, expire_row now_raw (snd p))) (rs_rows st1)\<rparr> in
           if count \<noteq> 0 then commit_mutation st1 st2 (\<lambda>st3. (Inr count, st3))
           else (Inr count, st1)))"

text \<open>
  Opening a store on a database: the schema is created when absent, with the counter at 0, and the
  store starts from the counter it reads.
\<close>

definition open_store :: "(string \<times> consumption_row) list \<Rightarrow> int option \<Rightarrow> replay_store" where
  "open_store rows counter = (let c = (case counter of None \<Rightarrow> 0 | Some c \<Rightarrow> c) in
     \<lparr>rs_rows = rows, rs_counter = Some c, rs_last_observed = c\<rparr>)"

section \<open>The protector\<close>

definition build_replay_key :: "deps \<Rightarrow> action_intent \<Rightarrow> pccb \<Rightarrow> string res" where
  "build_replay_key D i p =
     bindR (sha256_hex D (JObj
       [(''pccb_id'', JStr (pc_pccb_id p)),
        (''intent_id'', JStr (ai_intent_id i)),
        (''nonce'', JStr (pc_nonce p)),
        (''action_hash'', JObj (action_hash_to_dict (pc_action_hash p))),
        (''audience'', JObj (audience_to_dict (pc_audience p))),
        (''capability'', JStr (ac_capability (ai_action i))),
        (''target'', JObj (target_to_dict (ai_target i)))])) (\<lambda>h. Inr (''rpk_'' @ h))"

definition build_action_consumption_claim ::
    "deps \<Rightarrow> action_intent \<Rightarrow> pccb \<Rightarrow> dynamic_context \<Rightarrow> consumption_claim res" where
  "build_action_consumption_claim D i p cx =
     bindR (build_replay_key D i p) (\<lambda>key.
     Inr \<lparr>cl_replay_key = key, cl_intent_id = Some (ai_intent_id i), cl_pccb_id = pc_pccb_id p,
       cl_nonce = pc_nonce p, cl_action_hash = ah_value (pc_action_hash p),
       cl_audience = au_type (pc_audience p) @ '':'' @ au_id (pc_audience p),
       cl_capability = ac_capability (ai_action i), cl_tenant_id = Some (tn_tenant_id (ai_tenant i)),
       cl_subject_id = Some (pa_id (ai_requester i)), cl_expires_at = pc_expires_at p,
       cl_metadata = [(''request_id'', JStr (cx_request_id cx)), (''audience_id'', JStr (au_id (pc_audience p))),
         (''scope_capabilities'', JArr (map JStr (sc_capabilities (pc_scope p))))]\<rparr>)"

definition claim_request :: "deps \<Rightarrow> execution_request \<Rightarrow> replay_store \<Rightarrow> consumption_state option res \<times> replay_store" where
  "claim_request D rq st =
     (case build_action_consumption_claim D (rq_intent rq) (rq_pccb rq) (rq_context rq) of
        Inl e \<Rightarrow> (Inl e, st)
      | Inr claim \<Rightarrow> claim_once claim (cx_now (rq_context rq)) st)"

section \<open>How the operations change the table\<close>

lemma commit_mutation_cases:
  assumes "commit_mutation st0 st k = (r, st')"
  shows "(\<exists>e. r = Inl e \<and> st' = st0) \<or>
     (\<exists>c st2. advance_mutation_counter st = (Inr c, st2) \<and> k (st2\<lparr>rs_last_observed := c\<rparr>) = (r, st'))"
  using assms by (auto simp: commit_mutation_def split: prod.splits sum.splits)

lemma inspect_not_claimed:
  assumes "row_status st key \<noteq> Some ''claimed''"
  shows "snd (inspect key now st) = snd (assert_store_monotonic st)"
proof -
  obtain r st1 where a: "assert_store_monotonic st = (r, st1)" by fastforce
  have "cr_status row \<noteq> ''claimed''" if "dget (rs_rows st1) key = Some row" for row
    using assms that assert_store_monotonic_rows(1)[OF a] by (auto simp: row_status_def)
  then show ?thesis
    by (subst inspect.simps)
       (auto simp: a row_to_state_status[symmetric] split: sum.splits option.splits)
qed

text \<open>The rows after a look at a key: the same, or its overdue claim is marked expired.\<close>

lemma inspect_rows:
  assumes "inspect key now st = (r, st')"
  shows "rs_rows st' = rs_rows st \<or> (\<exists>row. dget (rs_rows st) key = Some row \<and> cr_status row = ''claimed''
    \<and> rs_rows st' = dput (rs_rows st) key (row\<lparr>cr_status := ''expired'', cr_updated_at := format_timestamp now\<rparr>))"
proof -
  obtain a st1 where a: "assert_store_monotonic st = (a, st1)" by fastforce
  note rows1 = assert_store_monotonic_rows(1)[OF a]
  show ?thesis
  proof (cases "rs_rows st' = rs_rows st")
    case False
    with assms a rows1 obtain row state where row: "dget (rs_rows st) key = Some row"
        "row_to_state key row = Inr state" "cs_status state = ''claimed''"
      and c: "commit_mutation st1
         (set_row key (row\<lparr>cr_status := ''expired'', cr_updated_at := format_timestamp now\<rparr>) st1)
         (inspect key now) = (r, st')"
      by (subst (asm) inspect.simps) (auto split: sum.splits option.splits if_splits)
    from commit_mutation_cases[OF c] False rows1 obtain n st2 where
      n: "advance_mutation_counter (set_row key (row\<lparr>cr_status := ''expired'',
           cr_updated_at := format_timestamp now\<rparr>) st1) = (Inr n, st2)"
      and i: "inspect key now (st2\<lparr>rs_last_observed := n\<rparr>) = (r, st')" by auto
    let ?st = "st2\<lparr>rs_last_observed := n\<rparr>"
    have rows2: "rs_rows ?st = dput (rs_rows st) key (row\<lparr>cr_status := ''expired'', cr_updated_at := format_timestamp now\<rparr>)"
      using advance_rows[OF n] rows1 by (simp add: set_row_def)
    then have "row_status ?st key \<noteq> Some ''claimed''" by (simp add: row_status_def)
    from inspect_not_claimed[OF this, of now] i
    have "st' = snd (assert_store_monotonic ?st)" by simp
    then have "rs_rows st' = rs_rows ?st" by simp
    with rows2 row row_to_state_status[OF row(2)] show ?thesis by auto
  qed simp
qed

lemma inspect_keeps:
  "row_status st k = Some s \<Longrightarrow> s \<noteq> ''claimed'' \<Longrightarrow> row_status (snd (inspect key now st)) k = Some s"
  using inspect_rows[of key now st "fst (inspect key now st)" "snd (inspect key now st)"]
  by (auto simp: row_status_def)

lemma dget_expire_key:
  "dget (expire_key key now_raw rows) k =
     (if k = key then map_option (expire_row now_raw) (dget rows k) else dget rows k)"
  unfolding expire_key_def by (induction rows) auto

lemma dget_delete_other: "k \<noteq> key \<Longrightarrow> dget (delete_reclaimable key rows) k = dget rows k"
  unfolding delete_reclaimable_def by (induction rows) auto

lemma dget_delete_kept:
  "dget rows key = Some r \<Longrightarrow> cr_status r \<notin> {''released'', ''expired''} \<Longrightarrow>
   dget (delete_reclaimable key rows) key = Some r"
  unfolding delete_reclaimable_def by (induction rows) auto

lemma dget_delete_gone:
  "dict_wf rows \<Longrightarrow> dget rows key = Some r \<Longrightarrow> cr_status r \<in> {''released'', ''expired''} \<Longrightarrow>
   dget (delete_reclaimable key rows) key = None"
  by (auto simp: delete_reclaimable_def map_of_eq_None_iff dict_wf_def dest: eq_key_imp_eq_value)

lemma dget_delete_None: "dget rows key = None \<Longrightarrow> dget (delete_reclaimable key rows) key = None"
  unfolding delete_reclaimable_def by (induction rows) (auto split: if_splits)

text \<open>A consumed record survives every operation.\<close>

lemma claim_keeps_consumed:
  assumes "row_status st k = Some ''consumed''"
  shows "row_status (snd (claim_once c now st)) k = Some ''consumed''"
proof -
  let ?key = "cl_replay_key c" and ?raw = "format_timestamp now"
  obtain a st1 where a: "assert_store_monotonic st = (a, st1)" by fastforce
  note rows1 = assert_store_monotonic_rows(1)[OF a]
  let ?rows = "delete_reclaimable ?key (expire_key ?key ?raw (rs_rows st1))"
  from assms rows1 obtain r where r: "dget (rs_rows st1) k = Some r" "cr_status r = ''consumed''"
    by (auto simp: row_status_def)
  have ex: "dget (expire_key ?key ?raw (rs_rows st1)) k = Some r"
    using r by (cases "k = ?key") (simp_all add: dget_expire_key expire_row_def)
  have kept: "dget ?rows k = Some r"
    using ex r dget_delete_other[of k ?key] dget_delete_kept[OF ex] by (cases "k = ?key") auto
  have st1: "row_status st1 k = Some ''consumed''" using r by (simp add: row_status_def)
  have ins: "row_status (snd (commit_mutation st1 (st1\<lparr>rs_rows := dput ?rows ?key row\<rparr>) (inspect ?key now))) k
      = Some ''consumed''" if "\<not> dmem ?rows ?key" for row
  proof -
    have "k \<noteq> ?key" using that kept by (auto simp: dmem_def)
    then have "row_status (st2\<lparr>rs_last_observed := n\<rparr>) k = Some ''consumed''"
      if "advance_mutation_counter (st1\<lparr>rs_rows := dput ?rows ?key row\<rparr>) = (Inr n, st2)" for n st2
      using kept r advance_rows[OF that] by (simp add: row_status_def)
    then show ?thesis
      using st1 by (auto simp: commit_mutation_def inspect_keeps split: prod.split sum.split)
  qed
  have "row_status (snd (inspect ?key now st1)) k = Some ''consumed''" using st1 by (simp add: inspect_keeps)
  with st1 ins show ?thesis
    by (auto simp: claim_once_def a Let_def split: sum.split prod.split)
qed

lemma set_row_keeps_consumed:
  assumes st: "row_status st k = Some ''consumed''" and row: "dget (rs_rows st) key = Some row"
    and claimed: "cr_status row = ''claimed''"
  shows "row_status (snd (commit_mutation st (set_row key row' st) (inspect key now))) k = Some ''consumed''"
proof -
  have "k \<noteq> key" using assms by (auto simp: row_status_def)
  then have "row_status (st2\<lparr>rs_last_observed := n\<rparr>) k = Some ''consumed''"
    if "advance_mutation_counter (set_row key row' st) = (Inr n, st2)" for n st2
    using st advance_rows[OF that] by (simp add: row_status_def set_row_def)
  then show ?thesis
    using st by (auto simp: commit_mutation_def inspect_keeps split: prod.split sum.split)
qed

lemma assert_keeps: "assert_store_monotonic st = (a, st1) \<Longrightarrow> row_status st1 k = row_status st k"
  by (simp add: row_status_def assert_store_monotonic_rows(1))

lemma refuse_consume_keeps:
  "row_status st k = Some ''consumed'' \<Longrightarrow> row_status (snd (refuse_consume key now st)) k = Some ''consumed''"
  using inspect_keeps[of st k "''consumed''" key now]
  by (auto simp: refuse_consume_def split: prod.splits sum.splits)

lemma mark_keeps_consumed:
  assumes "row_status st k = Some ''consumed''"
  shows "row_status (snd (mark_consumed key now st)) k = Some ''consumed''"
proof -
  obtain a st1 where a: "assert_store_monotonic st = (a, st1)" by fastforce
  have st1: "row_status st1 k = Some ''consumed''" using assms assert_keeps[OF a] by simp
  then show ?thesis
    using set_row_keeps_consumed[OF st1] refuse_consume_keeps[OF st1]
    by (auto simp: mark_consumed_def a Let_def split: sum.split option.split)
qed

lemma release_keeps_consumed:
  assumes "row_status st k = Some ''consumed''"
  shows "row_status (snd (release_claim key now reason st)) k = Some ''consumed''"
proof -
  obtain a st1 where a: "assert_store_monotonic st = (a, st1)" by fastforce
  have st1: "row_status st1 k = Some ''consumed''" using assms assert_keeps[OF a] by simp
  then show ?thesis
    using set_row_keeps_consumed[OF st1]
    by (auto simp: release_claim_def a Let_def split: sum.split option.split)
qed

lemma purge_keeps_consumed:
  assumes "row_status st k = Some ''consumed''"
  shows "row_status (snd (purge_expired now st)) k = Some ''consumed''"
proof -
  obtain a st1 where a: "assert_store_monotonic st = (a, st1)" by fastforce
  have st1: "row_status st1 k = Some ''consumed''" using assms assert_keeps[OF a] by simp
  have "row_status (st1\<lparr>rs_rows := map (\<lambda>p. (fst p, expire_row raw (snd p))) (rs_rows st1)\<rparr>) k = Some ''consumed''" for raw
  proof -
    obtain row where "dget (rs_rows st1) k = Some row" "cr_status row = ''consumed''"
      using st1 by (auto simp: row_status_def)
    moreover have "expire_row raw row = row" using calculation by (simp add: expire_row_def)
    ultimately show ?thesis by (simp add: row_status_def map_of_map_snd)
  qed
  then have "row_status (st2\<lparr>rs_last_observed := n\<rparr>) k = Some ''consumed''"
    if "advance_mutation_counter (st1\<lparr>rs_rows := map (\<lambda>p. (fst p, expire_row raw (snd p))) (rs_rows st1)\<rparr>) = (Inr n, st2)"
    for raw n st2
    using advance_rows[OF that] by (simp add: row_status_def)
  with st1 show ?thesis
    by (auto simp: purge_expired_def a Let_def commit_mutation_def split: sum.split prod.split)
qed

section \<open>Single use\<close>

text \<open>
  The operations any number of processes run on one database. Every operation is one immediate
  transaction, so a history is a sequence; \<open>Observer n\<close> hands the database to a store object whose
  last observed counter is \<open>n\<close>.
\<close>

datatype replay_op =
    Claim consumption_claim datetime
  | Consume string datetime
  | Release string datetime string
  | Inspect string datetime
  | Purge datetime
  | Observer int

fun run_replay :: "replay_op \<Rightarrow> replay_store \<Rightarrow> replay_store" where
  "run_replay (Claim c now) st = snd (claim_once c now st)"
| "run_replay (Consume key now) st = snd (mark_consumed key now st)"
| "run_replay (Release key now reason) st = snd (release_claim key now reason st)"
| "run_replay (Inspect key now) st = snd (inspect key now st)"
| "run_replay (Purge now) st = snd (purge_expired now st)"
| "run_replay (Observer n) st = st\<lparr>rs_last_observed := n\<rparr>"

fun spends_replay :: "replay_op \<Rightarrow> replay_store \<Rightarrow> string option" where
  "spends_replay (Consume key now) st = (if is_ok (fst (mark_consumed key now st)) then Some key else None)"
| "spends_replay _ st = None"

definition replay_spent :: "replay_store \<Rightarrow> string \<Rightarrow> bool" where
  "replay_spent st key \<longleftrightarrow> row_status st key = Some ''consumed''"

lemma row_status_observer [simp]: "row_status (st\<lparr>rs_last_observed := n\<rparr>) = row_status st"
  by (simp add: row_status_def fun_eq_iff)

lemma refuse_consume_fails: "\<not> is_ok (fst (refuse_consume key now st))"
  by (auto simp: refuse_consume_def split: prod.split sum.split)

lemma mark_consumed_ok:
  assumes "is_ok (fst (mark_consumed key now st))"
  shows "row_status st key = Some ''claimed'' \<and> row_status (snd (mark_consumed key now st)) key = Some ''consumed''"
proof -
  obtain a st1 where a: "assert_store_monotonic st = (a, st1)" by fastforce
  from assms obtain row where row: "dget (rs_rows st1) key = Some row" "cr_status row = ''claimed''"
    using refuse_consume_fails
    by (auto simp: mark_consumed_def a Let_def split: sum.splits option.splits if_splits)
  let ?row = "row\<lparr>cr_status := ''consumed'', cr_updated_at := format_timestamp now,
      cr_consumed_at := Some (format_timestamp now)\<rparr>"
  have m: "mark_consumed key now st = commit_mutation st1 (set_row key ?row st1) (inspect key now)"
    using assms row by (auto simp: mark_consumed_def a Let_def split: sum.splits)
  with assms obtain n st2 where n: "advance_mutation_counter (set_row key ?row st1) = (Inr n, st2)"
    by (auto simp: commit_mutation_def split: prod.splits sum.splits)
  have "row_status (st2\<lparr>rs_last_observed := n\<rparr>) key = Some ''consumed''"
    using advance_rows[OF n] by (simp add: row_status_def set_row_def)
  then have "row_status (snd (mark_consumed key now st)) key = Some ''consumed''"
    unfolding m by (simp add: commit_mutation_def n inspect_keeps)
  with row assert_keeps[OF a, of key] show ?thesis by (simp add: row_status_def)
qed

interpretation replay: one_shot run_replay spends_replay replay_spent
proof unfold_locales
  fix op st k
  assume s: "spends_replay op st = Some k"
  then obtain now where "op = Consume k now" "is_ok (fst (mark_consumed k now st))"
    by (cases "(op, st)" rule: spends_replay.cases) (auto split: if_splits)
  with mark_consumed_ok show "\<not> replay_spent st k" "replay_spent (run_replay op st) k"
    by (auto simp: replay_spent_def)
next
  fix op st k
  assume "replay_spent st k"
  then show "replay_spent (run_replay op st) k"
    unfolding replay_spent_def
    by (cases op) (simp_all add: claim_keeps_consumed mark_keeps_consumed
        release_keeps_consumed inspect_keeps purge_keeps_consumed row_status_observer)
qed

section \<open>Progress\<close>

definition store_current :: "replay_store \<Rightarrow> bool" where
  "store_current st \<longleftrightarrow> (case rs_counter st of None \<Rightarrow> False | Some c \<Rightarrow> rs_last_observed st \<le> c)"

lemma assert_current:
  "store_current st \<Longrightarrow> \<exists>c. rs_counter st = Some c \<and> assert_store_monotonic st = (Inr (), st\<lparr>rs_last_observed := c\<rparr>)"
  by (auto simp: store_current_def assert_store_monotonic_def read_mutation_counter_def split: option.splits)

lemma commit_current:
  assumes "rs_counter st1 = Some c" "rs_last_observed st1 \<le> c"
  shows "commit_mutation st0 st1 k = k (st1\<lparr>rs_counter := Some (c + 1), rs_last_observed := c + 1\<rparr>)"
  using assms by (simp add: commit_mutation_def advance_mutation_counter_def)

lemma inspect_live:
  assumes "rs_counter st = Some c" "rs_last_observed st = c" "dget (rs_rows st) key = Some row"
    and "row_to_state key row = Inr s" "cs_status s = ''claimed'' \<longrightarrow> now < cs_expires_at s"
  shows "inspect key now st = (Inr (Some s), st)"
  by (subst inspect.simps)
     (use assms in \<open>auto simp: assert_store_monotonic_def read_mutation_counter_def\<close>)

definition claim_state :: "consumption_claim \<Rightarrow> datetime \<Rightarrow> dict \<Rightarrow> consumption_state" where
  "claim_state c now meta = \<lparr>cs_replay_key = cl_replay_key c, cs_intent_id = cl_intent_id c,
     cs_pccb_id = cl_pccb_id c, cs_nonce = cl_nonce c, cs_action_hash = cl_action_hash c,
     cs_audience = cl_audience c, cs_capability = cl_capability c, cs_tenant_id = cl_tenant_id c,
     cs_subject_id = cl_subject_id c, cs_status = ''claimed'', cs_created_at = now, cs_updated_at = now,
     cs_expires_at = cl_expires_at c, cs_consumed_at = None, cs_metadata = meta\<rparr>"

lemma row_to_state_claim_row:
  "dt_ok now \<Longrightarrow> dt_ok (cl_expires_at c) \<Longrightarrow>
   row_to_state (cl_replay_key c) (claim_row c (format_timestamp now) meta) = Inr (claim_state c now meta)"
  by (simp add: row_to_state_def claim_row_def claim_state_def parse_format_timestamp)

lemma format_timestamp_nonempty: "dt_ok t \<Longrightarrow> format_timestamp t \<noteq> []"
  by (simp add: format_timestamp_def Let_def)

lemma row_to_state_consumed:
  assumes "dt_ok now" "dt_ok later" "dt_ok (cl_expires_at c)"
  shows "row_to_state (cl_replay_key c) (claim_row c (format_timestamp now) meta
      \<lparr>cr_status := ''consumed'', cr_updated_at := format_timestamp later,
       cr_consumed_at := Some (format_timestamp later)\<rparr>)
    = Inr (claim_state c now meta\<lparr>cs_status := ''consumed'', cs_updated_at := later, cs_consumed_at := Some later\<rparr>)"
  using assms format_timestamp_nonempty
  by (simp add: row_to_state_def claim_row_def claim_state_def parse_format_timestamp)

definition reclaimable :: "replay_store \<Rightarrow> string \<Rightarrow> bool" where
  "reclaimable st key \<longleftrightarrow> row_status st key \<in> {None, Some ''released'', Some ''expired''}"

lemma reclaimable_gone:
  assumes "dict_wf (rs_rows st)" "reclaimable st key"
  shows "dget (delete_reclaimable key (expire_key key raw (rs_rows st))) key = None"
proof (cases "dget (rs_rows st) key")
  case None
  then have "dget (expire_key key raw (rs_rows st)) key = None" by (simp add: dget_expire_key)
  then show ?thesis by (rule dget_delete_None)
next
  case (Some r)
  with assms have r: "cr_status r \<in> {''released'', ''expired''}" by (auto simp: reclaimable_def row_status_def)
  then have "dget (expire_key key raw (rs_rows st)) key = Some r"
    using Some by (auto simp: dget_expire_key expire_row_def)
  moreover have "dict_wf (expire_key key raw (rs_rows st))"
    using assms(1) by (simp add: dict_wf_def expire_key_def comp_def if_distrib cong: if_cong)
  ultimately show ?thesis using r dget_delete_gone by blast
qed

text \<open>A claim of a free key, before the expiry of the proof, is stored.\<close>

lemma claim_once_fresh:
  assumes "store_current st" "dict_wf (rs_rows st)" "reclaimable st (cl_replay_key c)"
    and "json_column (cl_metadata c) = Inr meta"
    and "dt_ok now" "dt_ok (cl_expires_at c)" "now < cl_expires_at c"
  obtains st' n where "claim_once c now st = (Inr (Some (claim_state c now meta)), st')"
    "rs_counter st' = Some n" "rs_last_observed st' = n"
    "dget (rs_rows st') (cl_replay_key c) = Some (claim_row c (format_timestamp now) meta)"
proof -
  let ?key = "cl_replay_key c" and ?row = "claim_row c (format_timestamp now) meta"
  from assert_current[OF assms(1)] obtain n where
    n: "rs_counter st = Some n" "assert_store_monotonic st = (Inr (), st\<lparr>rs_last_observed := n\<rparr>)" by blast
  let ?rows = "delete_reclaimable ?key (expire_key ?key (format_timestamp now) (rs_rows st))"
  have fresh: "\<not> dmem ?rows ?key" using reclaimable_gone[OF assms(2,3)] by (simp add: dmem_def)
  let ?st = "st\<lparr>rs_rows := dput ?rows ?key ?row, rs_counter := Some (n + 1), rs_last_observed := n + 1\<rparr>"
  have "claim_once c now st = inspect ?key now ?st"
    using n fresh assms(4) by (simp add: claim_once_def Let_def commit_current)
  also have "\<dots> = (Inr (Some (claim_state c now meta)), ?st)"
    using row_to_state_claim_row[OF assms(5,6), of meta] assms(7)
    by (intro inspect_live) (simp_all add: claim_state_def)
  finally show thesis by (rule that) simp_all
qed

lemma mark_consumed_live:
  assumes "rs_counter st = Some n" "rs_last_observed st = n"
    and "dget (rs_rows st) (cl_replay_key c) = Some (claim_row c (format_timestamp now) meta)"
    and "dt_ok now" "dt_ok later" "dt_ok (cl_expires_at c)"
  shows "fst (mark_consumed (cl_replay_key c) later st) =
    Inr (Some (claim_state c now meta\<lparr>cs_status := ''consumed'', cs_updated_at := later, cs_consumed_at := Some later\<rparr>))"
proof -
  let ?key = "cl_replay_key c" and ?row = "claim_row c (format_timestamp now) meta
      \<lparr>cr_status := ''consumed'', cr_updated_at := format_timestamp later,
       cr_consumed_at := Some (format_timestamp later)\<rparr>"
  let ?st = "set_row ?key ?row st\<lparr>rs_counter := Some (n + 1), rs_last_observed := n + 1\<rparr>"
  have "assert_store_monotonic st = (Inr (), st)"
    using assms by (simp add: assert_store_monotonic_def read_mutation_counter_def)
  then have "mark_consumed ?key later st = inspect ?key later ?st"
    using assms by (simp add: mark_consumed_def claim_row_def Let_def commit_current set_row_def)
  also have "\<dots> = (Inr (Some (claim_state c now meta\<lparr>cs_status := ''consumed'', cs_updated_at := later,
      cs_consumed_at := Some later\<rparr>)), ?st)"
    using row_to_state_consumed[OF assms(4,5,6), of meta]
    by (intro inspect_live) (simp_all add: set_row_def)
  finally show ?thesis by simp
qed

text \<open>A claim of a free key at or after the expiry of the proof is stored and marked expired.\<close>

lemma row_to_state_expired:
  assumes "dt_ok now" "dt_ok (cl_expires_at c)"
  shows "row_to_state (cl_replay_key c) (claim_row c (format_timestamp now) meta
      \<lparr>cr_status := ''expired'', cr_updated_at := format_timestamp now\<rparr>)
    = Inr (claim_state c now meta\<lparr>cs_status := ''expired''\<rparr>)"
  using assms by (simp add: row_to_state_def claim_row_def claim_state_def parse_format_timestamp)

lemma claim_once_late:
  assumes "store_current st" "dict_wf (rs_rows st)" "reclaimable st (cl_replay_key c)"
    and "json_column (cl_metadata c) = Inr meta"
    and "dt_ok now" "dt_ok (cl_expires_at c)" "cl_expires_at c \<le> now"
  obtains st' n where "claim_once c now st = (Inr (Some (claim_state c now meta\<lparr>cs_status := ''expired''\<rparr>)), st')"
    "rs_counter st' = Some n" "rs_last_observed st' = n"
    "dget (rs_rows st') (cl_replay_key c) = Some (claim_row c (format_timestamp now) meta
      \<lparr>cr_status := ''expired'', cr_updated_at := format_timestamp now\<rparr>)"
proof -
  let ?key = "cl_replay_key c" and ?row = "claim_row c (format_timestamp now) meta"
  let ?old = "?row\<lparr>cr_status := ''expired'', cr_updated_at := format_timestamp now\<rparr>"
  from assert_current[OF assms(1)] obtain n where
    n: "rs_counter st = Some n" "assert_store_monotonic st = (Inr (), st\<lparr>rs_last_observed := n\<rparr>)" by blast
  let ?rows = "delete_reclaimable ?key (expire_key ?key (format_timestamp now) (rs_rows st))"
  have fresh: "\<not> dmem ?rows ?key" using reclaimable_gone[OF assms(2,3)] by (simp add: dmem_def)
  let ?st = "st\<lparr>rs_rows := dput ?rows ?key ?row, rs_counter := Some (n + 1), rs_last_observed := n + 1\<rparr>"
  let ?st2 = "st\<lparr>rs_rows := dput (dput ?rows ?key ?row) ?key ?old, rs_counter := Some (n + 1 + 1),
    rs_last_observed := n + 1 + 1\<rparr>"
  have "claim_once c now st = inspect ?key now ?st"
    using n fresh assms(4) by (simp add: claim_once_def Let_def commit_current)
  also have "\<dots> = inspect ?key now ?st2"
    using row_to_state_claim_row[OF assms(5,6), of meta] assms(7)
    by (subst inspect.simps)
       (simp add: assert_store_monotonic_def read_mutation_counter_def claim_state_def set_row_def commit_current)
  also have "\<dots> = (Inr (Some (claim_state c now meta\<lparr>cs_status := ''expired''\<rparr>)), ?st2)"
    using row_to_state_expired[OF assms(5,6), of meta] by (intro inspect_live) simp_all
  finally show thesis by (rule that) simp_all
qed

lemma refuse_consume_expired:
  assumes "rs_counter st = Some n" "rs_last_observed st = n"
    and "dget (rs_rows st) (cl_replay_key c) = Some (claim_row c (format_timestamp now) meta
      \<lparr>cr_status := ''expired'', cr_updated_at := format_timestamp now\<rparr>)"
    and "dt_ok now" "dt_ok (cl_expires_at c)"
  shows "fst (mark_consumed (cl_replay_key c) later st) =
    Inl (ReplayValidationError ''REPLAY_STATE_INVALID'' ''The replay record could not transition to consumed.''
        [(''replay_key'', JStr (cl_replay_key c)), (''existing_status'', JStr ''expired'')])"
proof -
  have "inspect (cl_replay_key c) later st = (Inr (Some (claim_state c now meta\<lparr>cs_status := ''expired''\<rparr>)), st)"
    by (rule inspect_live[OF assms(1-3) row_to_state_expired[OF assms(4,5)]]) simp
  moreover have "assert_store_monotonic st = (Inr (), st)"
    using assms(1,2) by (simp add: assert_store_monotonic_def read_mutation_counter_def)
  ultimately show ?thesis
    using assms(3) by (simp add: mark_consumed_def refuse_consume_def Let_def)
qed

lemma rollback_refuses:
  assumes "rs_counter st = Some n" "n < rs_last_observed st"
  shows "assert_store_monotonic st =
    (Inl (ReplayValidationError ''REPLAY_STORE_ROLLBACK_DETECTED''
      ''Replay store state regressed behind a previously observed mutation.''
      (counter_details n (rs_last_observed st))), st)"
  using assms by (simp add: assert_store_monotonic_def read_mutation_counter_def)

lemma inspect_settled:
  assumes "store_current st" "dget (rs_rows st) key = Some row" "row_to_state key row = Inr s"
    and "cs_status s = ''claimed'' \<longrightarrow> now < cs_expires_at s"
  shows "fst (inspect key now st) = Inr (Some s)"
  using assert_current[OF assms(1)] assms(2-) by (subst inspect.simps) auto

section \<open>Properties\<close>

text \<open>C7 (replay_single_use): Whatever sequence of claims, consumptions, releases, inspections and
  purges is run on the database, through whatever store objects, no replay key is consumed twice.\<close>

theorem replay_single_use: "distinct (spend_trace run_replay spends_replay ops st)"
  by (rule replay.spend_trace_distinct)

text \<open>On a store whose counter has not regressed, a claim of a key that has
  no record, or only a released or expired one, made before the expiry of its proof, succeeds with a
  record of the claim, and consuming it afterwards, at any time, succeeds with the time recorded.\<close>

theorem claim_then_consume:
  assumes "store_current st" "dict_wf (rs_rows st)" "reclaimable st (cl_replay_key c)"
    and "json_column (cl_metadata c) = Inr meta"
    and "dt_ok now" "dt_ok later" "dt_ok (cl_expires_at c)" "now < cl_expires_at c"
  shows "fst (claim_once c now st) = Inr (Some (claim_state c now meta)) \<and>
    fst (mark_consumed (cl_replay_key c) later (snd (claim_once c now st))) =
      Inr (Some (claim_state c now meta\<lparr>cs_status := ''consumed'', cs_updated_at := later,
        cs_consumed_at := Some later\<rparr>))"
  by (rule claim_once_fresh[OF assms(1-5,7,8)])
     (use mark_consumed_live assms(5-7) in \<open>fastforce\<close>)

definition sample_claim :: consumption_claim where
  "sample_claim = \<lparr>cl_replay_key = ''rpk_1'', cl_intent_id = Some ''intent-1'', cl_pccb_id = ''pccb_1'',
     cl_nonce = ''n1'', cl_action_hash = ''h'', cl_audience = ''endpoint:refunds'',
     cl_capability = ''refund.create'', cl_tenant_id = Some ''t1'', cl_subject_id = Some ''a1'',
     cl_expires_at = 63000000600500000, cl_metadata = [(''request_id'', JStr ''req-1'')]\<rparr>"

lemma sample_claim_column: "json_column (cl_metadata sample_claim) = Inr [(''request_id'', JStr ''req-1'')]"
  by (simp add: sample_claim_def json_column_def)

theorem claim_then_consume_witness:
  "fst (mark_consumed ''rpk_1'' 63000000700000000 (snd (claim_once sample_claim 63000000060000000 (open_store [] None))))
   = Inr (Some (claim_state sample_claim 63000000060000000 [(''request_id'', JStr ''req-1'')]
       \<lparr>cs_status := ''consumed'', cs_updated_at := 63000000700000000, cs_consumed_at := Some 63000000700000000\<rparr>))"
proof -
  have "store_current (open_store [] None)" "dict_wf (rs_rows (open_store [] None))"
    "reclaimable (open_store [] None) (cl_replay_key sample_claim)"
    by (simp_all add: open_store_def store_current_def dict_wf_def reclaimable_def row_status_def)
  from claim_then_consume[OF this sample_claim_column, of 63000000060000000 63000000700000000]
  show ?thesis by (simp add: sample_claim_def dt_ok_def datetime_limit_def)
qed

text \<open>A second claim of a key whose record is consumed, or claimed and
  not yet overdue, is refused as a duplicate that names the status found, and the record keeps its
  status.\<close>

theorem duplicate_claim_refused:
  assumes "store_current st" "dget (rs_rows st) (cl_replay_key c) = Some row"
    and "row_to_state (cl_replay_key c) row = Inr s"
    and "cr_status row = ''consumed'' \<or>
         cr_status row = ''claimed'' \<and> format_timestamp now < cr_expires_at row \<and> now < cs_expires_at s"
    and "json_column (cl_metadata c) = Inr meta"
  shows "fst (claim_once c now st) =
      Inl (ReplayValidationError ''DUPLICATE_REPLAY''
        ''The protected action has already been claimed for execution.''
        [(''replay_key'', JStr (cl_replay_key c)), (''existing_status'', JStr (cr_status row)),
         (''pccb_id'', JStr (cl_pccb_id c))])"
    (is "_ = ?dup")
proof -
  let ?key = "cl_replay_key c"
  from assert_current[OF assms(1)] obtain n where
    n: "rs_counter st = Some n" "assert_store_monotonic st = (Inr (), st\<lparr>rs_last_observed := n\<rparr>)" by blast
  let ?st = "st\<lparr>rs_last_observed := n\<rparr>"
  have "expire_row (format_timestamp now) row = row" using assms(4) by (auto simp: expire_row_def)
  then have "dget (expire_key ?key (format_timestamp now) (rs_rows st)) ?key = Some row"
    using assms(2) by (simp add: dget_expire_key)
  then have kept: "dmem (delete_reclaimable ?key (expire_key ?key (format_timestamp now) (rs_rows st))) ?key"
    using assms(4) dget_delete_kept by (fastforce simp: dmem_def)
  have "store_current ?st" using n(1) by (simp add: store_current_def)
  then have "fst (inspect ?key now ?st) = Inr (Some s)"
    using assms(2,4) row_to_state_status[OF assms(3)] by (intro inspect_settled[OF _ _ assms(3)]) auto
  then obtain st2 where "inspect ?key now ?st = (Inr (Some s), st2)" by (metis prod.collapse)
  then show ?thesis
    using n kept assms(5) row_to_state_status[OF assms(3)] by (simp add: claim_once_def Let_def)
qed

definition sample_consumed_store :: replay_store where
  "sample_consumed_store = open_store [(''rpk_1'', claim_row sample_claim (format_timestamp 63000000060000000) []
     \<lparr>cr_status := ''consumed'', cr_updated_at := format_timestamp 63000000060000000,
      cr_consumed_at := Some (format_timestamp 63000000060000000)\<rparr>)] (Some 2)"

theorem duplicate_claim_refused_witness:
  "fst (claim_once sample_claim 63000000070000000 sample_consumed_store) =
      Inl (ReplayValidationError ''DUPLICATE_REPLAY''
        ''The protected action has already been claimed for execution.''
        [(''replay_key'', JStr ''rpk_1''), (''existing_status'', JStr ''consumed''), (''pccb_id'', JStr ''pccb_1'')])"
proof -
  have key: "cl_replay_key sample_claim = ''rpk_1''" by (simp add: sample_claim_def)
  have "store_current sample_consumed_store"
    by (simp add: sample_consumed_store_def open_store_def store_current_def)
  moreover have "dt_ok 63000000060000000" "dt_ok (cl_expires_at sample_claim)"
    by (simp_all add: sample_claim_def dt_ok_def datetime_limit_def)
  note row_to_state_consumed[OF this(1,1,2), of "[]"]
  ultimately show ?thesis
    using duplicate_claim_refused[OF _ _ _ _ sample_claim_column, of sample_consumed_store _ _ 63000000070000000]
    by (simp add: sample_consumed_store_def open_store_def key) (simp add: sample_claim_def)
qed

text \<open>A claim made at or after the expiry of its proof is stored and at once
  found overdue: the returned record is expired, and the key cannot be consumed. (The verifier
  accepts a proof up to and including its expiry plus the clock skew.)\<close>

theorem late_claim_expires:
  assumes "store_current st" "dict_wf (rs_rows st)" "reclaimable st (cl_replay_key c)"
    and "json_column (cl_metadata c) = Inr meta"
    and "dt_ok now" "dt_ok (cl_expires_at c)" "cl_expires_at c \<le> now"
  shows "fst (claim_once c now st) = Inr (Some (claim_state c now meta\<lparr>cs_status := ''expired''\<rparr>)) \<and>
    fst (mark_consumed (cl_replay_key c) later (snd (claim_once c now st))) =
      Inl (ReplayValidationError ''REPLAY_STATE_INVALID'' ''The replay record could not transition to consumed.''
        [(''replay_key'', JStr (cl_replay_key c)), (''existing_status'', JStr ''expired'')])"
  by (rule claim_once_late[OF assms]) (use refuse_consume_expired assms(5,6) in \<open>fastforce\<close>)

theorem late_claim_expires_witness:
  "fst (claim_once sample_claim 63000000600500000 (open_store [] None)) =
   Inr (Some (claim_state sample_claim 63000000600500000 [(''request_id'', JStr ''req-1'')]\<lparr>cs_status := ''expired''\<rparr>))"
proof -
  have "store_current (open_store [] None)" "dict_wf (rs_rows (open_store [] None))"
    "reclaimable (open_store [] None) (cl_replay_key sample_claim)"
    by (simp_all add: open_store_def store_current_def dict_wf_def reclaimable_def row_status_def)
  from late_claim_expires[OF this sample_claim_column, of 63000000600500000]
  show ?thesis by (simp add: sample_claim_def dt_ok_def datetime_limit_def)
qed

text \<open>The \<open>WHERE\<close> clauses compare timestamps as text, where a fraction
  sorts before the end of the whole second: half a second before its expiry a claim is already
  marked expired by a purge.\<close>

theorem text_order_expires_early:
  "63000000600000000 < cl_expires_at sample_claim \<and>
   fst (purge_expired 63000000600000000
     (open_store [(''rpk_1'', claim_row sample_claim (format_timestamp 63000000060000000) [])] (Some 1))) = Inr 1"
proof -
  have "format_timestamp 63000000600500000 < format_timestamp 63000000600000000"
    by (simp add: format_timestamp_def Let_def append_less_append fraction_text_def)
  then show ?thesis
    by (simp add: purge_expired_def open_store_def assert_store_monotonic_def read_mutation_counter_def Let_def
        overdue_def claim_row_def sample_claim_def less_imp_le commit_mutation_def advance_mutation_counter_def)
qed

text \<open>C37 (rollback_detected): A store whose database counter is behind the one it last observed
  refuses every operation, with the two counters, and writes nothing.\<close>

theorem rollback_detected:
  assumes "rs_counter st = Some n" "n < rs_last_observed st"
  defines "refused \<equiv> ReplayValidationError ''REPLAY_STORE_ROLLBACK_DETECTED''
      ''Replay store state regressed behind a previously observed mutation.''
      (counter_details n (rs_last_observed st))"
  shows "claim_once c now st = (Inl refused, st) \<and> mark_consumed key now st = (Inl refused, st) \<and>
    release_claim key now reason st = (Inl refused, st) \<and> inspect key now st = (Inl refused, st) \<and>
    purge_expired now st = (Inl refused, st)"
  using rollback_refuses[OF assms(1,2)] assms(3)
  by (simp_all add: claim_once_def mark_consumed_def release_claim_def purge_expired_def inspect.simps Let_def)

theorem rollback_detected_witness:
  "is_ok (fst (claim_once sample_claim 63000000060000000 (open_store [] (Some 4)\<lparr>rs_counter := Some 3\<rparr>))) = False"
  using rollback_detected[of "open_store [] (Some 4)\<lparr>rs_counter := Some 3\<rparr>" 3 sample_claim 63000000060000000]
  by (simp add: open_store_def)

end
