(* ===== verification/Escrow.thy ===== *)
theory Escrow
  imports Replay
begin

text \<open>
  Capability escrow: the record of \<^verbatim>\<open>escrow/base.py\<close>, the in-memory store of
  \<^verbatim>\<open>escrow/memory.py\<close> and the database of \<^verbatim>\<open>escrow/sqlite.py\<close>. The wall clock that the database
  store reads for its bookkeeping columns is an argument of \<open>sql_issue\<close> and \<open>sql_revoke\<close>.
\<close>

section \<open>Records\<close>

record escrow_record =
  er_escrow_id :: string
  er_pccb_id :: string
  er_capability :: string
  er_expires_at :: datetime
  er_state :: string
  er_consumed_at :: "datetime option"
  er_metadata :: dict

type_synonym mem_escrow = "(string \<times> escrow_record) list"

section \<open>In memory\<close>

definition mem_issue :: "string \<Rightarrow> string \<Rightarrow> string \<Rightarrow> datetime \<Rightarrow> dict option \<Rightarrow> mem_escrow
    \<Rightarrow> escrow_record res \<times> mem_escrow" where
  "mem_issue escrow_id pccb_id capability expires_at metadata st =
     (if dmem st escrow_id
      then (Inl (EscrowValidationError ''ESCROW_ALREADY_EXISTS'' ''The escrow record already exists.''), st)
      else (let r = \<lparr>er_escrow_id = escrow_id, er_pccb_id = pccb_id, er_capability = capability,
                er_expires_at = expires_at, er_state = ''issued'', er_consumed_at = None,
                er_metadata = (case metadata of None \<Rightarrow> [] | Some d \<Rightarrow> d)\<rparr>
            in (Inr r, dput st escrow_id r)))"

definition mem_inspect :: "string \<Rightarrow> mem_escrow \<Rightarrow> escrow_record option" where
  "mem_inspect escrow_id st = dget st escrow_id"

definition mem_consume :: "string \<Rightarrow> string \<Rightarrow> string \<Rightarrow> datetime \<Rightarrow> mem_escrow
    \<Rightarrow> escrow_record res \<times> mem_escrow" where
  "mem_consume escrow_id pccb_id capability now st =
     (case dget st escrow_id of
        None \<Rightarrow> (Inl (EscrowValidationError ''ESCROW_NOT_FOUND'' ''The escrow record does not exist.''), st)
      | Some r \<Rightarrow>
          if er_state r = ''revoked''
          then (Inl (EscrowValidationError ''ESCROW_REVOKED'' ''The escrow record has been revoked.''), st)
          else if er_state r = ''consumed''
          then (Inl (EscrowValidationError ''ESCROW_ALREADY_CONSUMED''
            ''The escrow record has already been consumed.''), st)
          else if er_expires_at r < now
          then (Inl (EscrowValidationError ''ESCROW_EXPIRED'' ''The escrow record has expired.''),
            dput st escrow_id (r\<lparr>er_state := ''expired''\<rparr>))
          else if er_pccb_id r \<noteq> pccb_id
          then (Inl (EscrowValidationError ''ESCROW_PCCB_MISMATCH''
            ''The escrow record does not match the proof.''), st)
          else if er_capability r \<noteq> capability
          then (Inl (EscrowValidationError ''ESCROW_CAPABILITY_MISMATCH''
            ''The escrow record does not match the requested capability.''), st)
          else (let c = r\<lparr>er_state := ''consumed'', er_consumed_at := Some now\<rparr>
                in (Inr c, dput st escrow_id c)))"

definition mem_revoke :: "string \<Rightarrow> string \<Rightarrow> mem_escrow \<Rightarrow> escrow_record res \<times> mem_escrow" where
  "mem_revoke escrow_id reason st =
     (case dget st escrow_id of
        None \<Rightarrow> (Inl (EscrowValidationError ''ESCROW_NOT_FOUND'' ''The escrow record does not exist.''), st)
      | Some r \<Rightarrow>
          (let v = r\<lparr>er_state := ''revoked'',
                er_metadata := dput (er_metadata r) ''revocation_reason'' (JStr reason)\<rparr>
           in (Inr v, dput st escrow_id v)))"

section \<open>In a database\<close>

record escrow_row =
  ew_pccb_id :: string
  ew_capability :: string
  ew_expires_at :: string
  ew_state :: string
  ew_consumed_at :: "string option"
  ew_metadata :: dict
  ew_created_at :: string
  ew_updated_at :: string

type_synonym sql_escrow = "(string \<times> escrow_row) list"

definition row_to_record :: "string \<Rightarrow> escrow_row \<Rightarrow> escrow_record res" where
  "row_to_record escrow_id w =
     bindR (parse_timestamp (JStr (ew_expires_at w)) ''expires_at'') (\<lambda>expires.
     bindR (case ew_consumed_at w of None \<Rightarrow> Inr None
       | Some raw \<Rightarrow> if raw = [] then Inr None
           else bindR (parse_timestamp (JStr raw) ''consumed_at'') (\<lambda>t. Inr (Some t))) (\<lambda>consumed.
     Inr \<lparr>er_escrow_id = escrow_id, er_pccb_id = ew_pccb_id w, er_capability = ew_capability w,
       er_expires_at = expires, er_state = ew_state w, er_consumed_at = consumed,
       er_metadata = ew_metadata w\<rparr>))"

definition sql_inspect :: "string \<Rightarrow> sql_escrow \<Rightarrow> escrow_record option res" where
  "sql_inspect escrow_id st = (case dget st escrow_id of None \<Rightarrow> Inr None
     | Some w \<Rightarrow> bindR (row_to_record escrow_id w) (\<lambda>r. Inr (Some r)))"

text \<open>Reading a record back after a write; a missing one is an internal error.\<close>

definition sql_reload :: "string \<Rightarrow> string \<Rightarrow> sql_escrow \<Rightarrow> escrow_record res" where
  "sql_reload escrow_id message st = bindR (sql_inspect escrow_id st) (\<lambda>found.
     case found of None \<Rightarrow> Inl (Raise RuntimeError message) | Some r \<Rightarrow> Inr r)"

definition sql_issue :: "datetime \<Rightarrow> string \<Rightarrow> string \<Rightarrow> string \<Rightarrow> datetime \<Rightarrow> dict option \<Rightarrow> sql_escrow
    \<Rightarrow> escrow_record res \<times> sql_escrow" where
  "sql_issue wall escrow_id pccb_id capability expires_at metadata st =
     (case json_column (case metadata of None \<Rightarrow> [] | Some d \<Rightarrow> d) of
        Inl e \<Rightarrow> (Inl e, st)
      | Inr meta \<Rightarrow>
          if dmem st escrow_id
          then (Inl (EscrowValidationError ''ESCROW_ALREADY_EXISTS'' ''The escrow record already exists.''), st)
          else (let st' = dput st escrow_id \<lparr>ew_pccb_id = pccb_id, ew_capability = capability,
                    ew_expires_at = format_timestamp expires_at, ew_state = ''issued'', ew_consumed_at = None,
                    ew_metadata = meta, ew_created_at = format_timestamp wall,
                    ew_updated_at = format_timestamp wall\<rparr>
                in (sql_reload escrow_id ''escrow record was written but could not be reloaded'' st', st')))"

definition sql_consume :: "string \<Rightarrow> string \<Rightarrow> string \<Rightarrow> datetime \<Rightarrow> sql_escrow
    \<Rightarrow> escrow_record res \<times> sql_escrow" where
  "sql_consume escrow_id pccb_id capability now st =
     (case dget st escrow_id of
        None \<Rightarrow> (Inl (EscrowValidationError ''ESCROW_NOT_FOUND'' ''The escrow record does not exist.''), st)
      | Some w \<Rightarrow>
          (case row_to_record escrow_id w of
             Inl e \<Rightarrow> (Inl e, st)
           | Inr r \<Rightarrow>
               if er_state r = ''revoked''
               then (Inl (EscrowValidationError ''ESCROW_REVOKED'' ''The escrow record has been revoked.''), st)
               else if er_state r = ''consumed''
               then (Inl (EscrowValidationError ''ESCROW_ALREADY_CONSUMED''
                 ''The escrow record has already been consumed.''), st)
               else if er_state r = ''expired''
               then (Inl (EscrowValidationError ''ESCROW_EXPIRED'' ''The escrow record has expired.''), st)
               else if er_expires_at r < now
               then (Inl (EscrowValidationError ''ESCROW_EXPIRED'' ''The escrow record has expired.''),
                 if ew_state w = ''issued''
                 then dput st escrow_id (w\<lparr>ew_state := ''expired'', ew_updated_at := format_timestamp now\<rparr>)
                 else st)
               else if er_pccb_id r \<noteq> pccb_id
               then (Inl (EscrowValidationError ''ESCROW_PCCB_MISMATCH''
                 ''The escrow record does not match the proof.''), st)
               else if er_capability r \<noteq> capability
               then (Inl (EscrowValidationError ''ESCROW_CAPABILITY_MISMATCH''
                 ''The escrow record does not match the requested capability.''), st)
               else if ew_state w = ''issued''
               then (let st' = dput st escrow_id (w\<lparr>ew_state := ''consumed'',
                         ew_consumed_at := Some (format_timestamp now), ew_updated_at := format_timestamp now\<rparr>)
                     in (sql_reload escrow_id ''escrow record was consumed but could not be reloaded'' st', st'))
               else (bindR (sql_inspect escrow_id st) (\<lambda>current.
                   if (case current of None \<Rightarrow> False | Some c \<Rightarrow> er_state c = ''consumed'')
                   then Inl (EscrowValidationError ''ESCROW_ALREADY_CONSUMED''
                     ''The escrow record has already been consumed.'')
                   else Inl (EscrowValidationError ''ESCROW_STATE_INVALID''
                     ''The escrow record could not transition to consumed.'')), st)))"

definition sql_revoke :: "datetime \<Rightarrow> string \<Rightarrow> string \<Rightarrow> sql_escrow \<Rightarrow> escrow_record res \<times> sql_escrow" where
  "sql_revoke wall escrow_id reason st =
     (case dget st escrow_id of
        None \<Rightarrow> (Inl (EscrowValidationError ''ESCROW_NOT_FOUND'' ''The escrow record does not exist.''), st)
      | Some w \<Rightarrow>
          (case row_to_record escrow_id w of
             Inl e \<Rightarrow> (Inl e, st)
           | Inr r \<Rightarrow>
               (case json_column (dput (er_metadata r) ''revocation_reason'' (JStr reason)) of
                  Inl e \<Rightarrow> (Inl e, st)
                | Inr meta \<Rightarrow>
                    (let st' = dput st escrow_id (w\<lparr>ew_state := ''revoked'', ew_metadata := meta,
                         ew_updated_at := format_timestamp wall\<rparr>)
                     in (sql_reload escrow_id ''escrow record was revoked but could not be reloaded'' st', st')))))"

section \<open>Single use\<close>

datatype escrow_op =
    Issue datetime string string string datetime "dict option"
  | ConsumeEscrow string string string datetime
  | Revoke datetime string string

fun run_mem :: "escrow_op \<Rightarrow> mem_escrow \<Rightarrow> mem_escrow" where
  "run_mem (Issue wall eid pid cap ex meta) st = snd (mem_issue eid pid cap ex meta st)"
| "run_mem (ConsumeEscrow eid pid cap now) st = snd (mem_consume eid pid cap now st)"
| "run_mem (Revoke wall eid reason) st = snd (mem_revoke eid reason st)"

fun spends_mem :: "escrow_op \<Rightarrow> mem_escrow \<Rightarrow> string option" where
  "spends_mem (ConsumeEscrow eid pid cap now) st =
     (if is_ok (fst (mem_consume eid pid cap now st)) then Some eid else None)"
| "spends_mem _ st = None"

definition mem_spent :: "mem_escrow \<Rightarrow> string \<Rightarrow> bool" where
  "mem_spent st eid \<longleftrightarrow> (case dget st eid of None \<Rightarrow> False | Some r \<Rightarrow> er_state r \<in> {''consumed'', ''revoked''})"

fun run_sql :: "escrow_op \<Rightarrow> sql_escrow \<Rightarrow> sql_escrow" where
  "run_sql (Issue wall eid pid cap ex meta) st = snd (sql_issue wall eid pid cap ex meta st)"
| "run_sql (ConsumeEscrow eid pid cap now) st = snd (sql_consume eid pid cap now st)"
| "run_sql (Revoke wall eid reason) st = snd (sql_revoke wall eid reason st)"

fun spends_sql :: "escrow_op \<Rightarrow> sql_escrow \<Rightarrow> string option" where
  "spends_sql (ConsumeEscrow eid pid cap now) st =
     (if is_ok (fst (sql_consume eid pid cap now st)) then Some eid else None)"
| "spends_sql _ st = None"

definition sql_spent :: "sql_escrow \<Rightarrow> string \<Rightarrow> bool" where
  "sql_spent st eid \<longleftrightarrow> (case dget st eid of None \<Rightarrow> False | Some w \<Rightarrow> ew_state w \<in> {''consumed'', ''revoked''})"

lemma row_to_record_state: "row_to_record eid w = Inr r \<Longrightarrow> er_state r = ew_state w"
  unfolding row_to_record_def by (elim bindR_eq_InrE, drule Inr_inject, erule subst) simp

interpretation mem_escrow: one_shot run_mem spends_mem mem_spent
proof unfold_locales
  fix op st k
  assume s: "spends_mem op st = Some k"
  then obtain pid cap now where op: "op = ConsumeEscrow k pid cap now" "is_ok (fst (mem_consume k pid cap now st))"
    by (cases "(op, st)" rule: spends_mem.cases) (auto split: if_splits)
  then show "\<not> mem_spent st k" "mem_spent (run_mem op st) k"
    by (auto simp: mem_consume_def mem_spent_def Let_def split: option.splits if_splits)
next
  fix op st k
  assume "mem_spent st k"
  then show "mem_spent (run_mem op st) k"
    by (cases op) (auto simp: mem_spent_def mem_issue_def mem_consume_def mem_revoke_def Let_def dmem_def
        split: option.splits if_splits)
qed

lemma sql_spent_dput:
  "sql_spent (dput st eid w) k \<longleftrightarrow> (if k = eid then ew_state w \<in> {''consumed'', ''revoked''} else sql_spent st k)"
  by (simp add: sql_spent_def)

lemma sql_consume_ok:
  assumes "is_ok (fst (sql_consume k pid cap now st))"
  shows "\<not> sql_spent st k \<and> sql_spent (snd (sql_consume k pid cap now st)) k"
proof -
  obtain w r where w: "dget st k = Some w" "row_to_record k w = Inr r"
    using assms by (auto simp: sql_consume_def split: option.splits sum.splits)
  have "ew_state w = ''issued''"
    using assms row_to_record_state[OF w(2)]
    by (simp add: sql_consume_def w bindR_def split: if_splits sum.splits)
  with assms row_to_record_state[OF w(2)] show ?thesis
    by (simp add: sql_consume_def w Let_def sql_spent_dput sql_spent_def[of st] split: if_splits)
qed

lemma sql_issue_keeps_spent: "sql_spent st k \<Longrightarrow> sql_spent (snd (sql_issue wall eid pid cap ex meta st)) k"
  by (auto simp: sql_issue_def Let_def sql_spent_dput dmem_def split: sum.split)
     (simp add: sql_spent_def)

lemma sql_consume_keeps_spent:
  assumes "sql_spent st k"
  shows "sql_spent (snd (sql_consume eid pid cap now st)) k"
proof (cases "k = eid")
  case True
  with assms obtain w where "dget st eid = Some w" "ew_state w = ''consumed'' \<or> ew_state w = ''revoked''"
    by (auto simp: sql_spent_def split: option.splits)
  with assms True show ?thesis
    by (cases "row_to_record eid w") (auto simp: sql_consume_def row_to_record_state)
next
  case False
  with assms show ?thesis
    by (simp add: sql_consume_def Let_def sql_spent_dput split: option.split sum.split)
qed

lemma sql_revoke_keeps_spent: "sql_spent st k \<Longrightarrow> sql_spent (snd (sql_revoke wall eid reason st)) k"
  by (simp add: sql_revoke_def Let_def sql_spent_dput split: option.split sum.split)

interpretation sql_escrow: one_shot run_sql spends_sql sql_spent
proof unfold_locales
  fix op st k
  assume s: "spends_sql op st = Some k"
  then obtain pid cap now where op: "op = ConsumeEscrow k pid cap now" "is_ok (fst (sql_consume k pid cap now st))"
    by (cases "(op, st)" rule: spends_sql.cases) (auto split: if_splits)
  then show "\<not> sql_spent st k" "sql_spent (run_sql op st) k" using sql_consume_ok by simp_all
next
  fix op st k
  assume "sql_spent st k"
  then show "sql_spent (run_sql op st) k"
    by (cases op) (simp_all add: sql_issue_keeps_spent sql_consume_keeps_spent sql_revoke_keeps_spent)
qed

section \<open>The database store refines the in-memory store\<close>

fun exec_mem :: "escrow_op \<Rightarrow> mem_escrow \<Rightarrow> escrow_record res \<times> mem_escrow" where
  "exec_mem (Issue wall eid pid cap ex meta) m = mem_issue eid pid cap ex meta m"
| "exec_mem (ConsumeEscrow eid pid cap now) m = mem_consume eid pid cap now m"
| "exec_mem (Revoke wall eid reason) m = mem_revoke eid reason m"

fun exec_sql :: "escrow_op \<Rightarrow> sql_escrow \<Rightarrow> escrow_record res \<times> sql_escrow" where
  "exec_sql (Issue wall eid pid cap ex meta) st = sql_issue wall eid pid cap ex meta st"
| "exec_sql (ConsumeEscrow eid pid cap now) st = sql_consume eid pid cap now st"
| "exec_sql (Revoke wall eid reason) st = sql_revoke wall eid reason st"

definition escrow_sim :: "sql_escrow \<Rightarrow> mem_escrow \<Rightarrow> bool" where
  "escrow_sim st m \<longleftrightarrow> (\<forall>k. sql_inspect k st = Inr (dget m k))"

text \<open>
  The operations on which the two stores agree: metadata that a JSON column gives back unchanged, and
  a clock that has not run back behind the expiry of a record already marked expired.
\<close>

fun comparable :: "escrow_op \<Rightarrow> mem_escrow \<Rightarrow> bool" where
  "comparable (Issue wall eid pid cap ex meta) m \<longleftrightarrow> dt_ok ex \<and>
     (let d = (case meta of None \<Rightarrow> [] | Some d \<Rightarrow> d) in json_column d = Inr d)"
| "comparable (ConsumeEscrow eid pid cap now) m \<longleftrightarrow> dt_ok now \<and>
     (case dget m eid of None \<Rightarrow> True | Some r \<Rightarrow> er_state r \<in> {''issued'', ''consumed'', ''revoked''}
        \<or> er_state r = ''expired'' \<and> er_expires_at r < now)"
| "comparable (Revoke wall eid reason) m \<longleftrightarrow>
     (case dget m eid of None \<Rightarrow> True | Some r \<Rightarrow>
        (let d = dput (er_metadata r) ''revocation_reason'' (JStr reason) in json_column d = Inr d))"

fun comparable_run :: "escrow_op list \<Rightarrow> mem_escrow \<Rightarrow> bool" where
  "comparable_run [] m = True"
| "comparable_run (op # ops) m \<longleftrightarrow> comparable op m \<and> comparable_run ops (snd (exec_mem op m))"

fun escrow_results :: "('op \<Rightarrow> 's \<Rightarrow> 'r \<times> 's) \<Rightarrow> 'op list \<Rightarrow> 's \<Rightarrow> 'r list" where
  "escrow_results exec [] s = []"
| "escrow_results exec (op # ops) s = fst (exec op s) # escrow_results exec ops (snd (exec op s))"

lemma sql_inspect_dput:
  "sql_inspect k (dput st eid w) = (if k = eid then bindR (row_to_record eid w) (\<lambda>r. Inr (Some r)) else sql_inspect k st)"
  by (simp add: sql_inspect_def)

lemma sql_inspect_Inr:
  "sql_inspect k st = Inr found \<longleftrightarrow>
     (case dget st k of None \<Rightarrow> found = None | Some w \<Rightarrow> \<exists>r. row_to_record k w = Inr r \<and> found = Some r)"
  by (auto simp: sql_inspect_def bindR_eq_Inr split: option.split)

lemma escrow_sim_dput:
  "escrow_sim st m \<Longrightarrow> row_to_record eid w = Inr r \<Longrightarrow> escrow_sim (dput st eid w) (dput m eid r)"
  by (simp add: escrow_sim_def sql_inspect_dput)

lemma escrow_sim_cases:
  assumes "escrow_sim st m"
  obtains (Absent) "dget st eid = None" "dget m eid = None"
  | (Present) w r where "dget st eid = Some w" "dget m eid = Some r" "row_to_record eid w = Inr r"
proof -
  from assms have "sql_inspect eid st = Inr (dget m eid)" by (simp add: escrow_sim_def)
  with that show thesis by (cases "dget st eid") (auto simp: sql_inspect_Inr)
qed

lemma sql_reload_dput:
  "row_to_record eid w = Inr r \<Longrightarrow> sql_reload eid msg (dput st eid w) = Inr r"
  by (simp add: sql_reload_def sql_inspect_dput)

text \<open>The record of a row after an update of its columns.\<close>

lemma row_to_record_state_update:
  assumes "row_to_record eid w = Inr r"
  shows "row_to_record eid (w\<lparr>ew_state := s, ew_updated_at := u\<rparr>) = Inr (r\<lparr>er_state := s\<rparr>)"
    and "row_to_record eid (w\<lparr>ew_state := s, ew_metadata := d, ew_updated_at := u\<rparr>)
      = Inr (r\<lparr>er_state := s, er_metadata := d\<rparr>)"
    and "dt_ok now \<Longrightarrow> row_to_record eid (w\<lparr>ew_state := s, ew_consumed_at := Some (format_timestamp now),
        ew_updated_at := u\<rparr>) = Inr (r\<lparr>er_state := s, er_consumed_at := Some now\<rparr>)"
  using assms format_timestamp_nonempty
  by (auto simp: row_to_record_def bindR_eq_Inr parse_format_timestamp)

lemma exec_sql_refines:
  assumes sim: "escrow_sim st m" and ok: "comparable op m"
  shows "fst (exec_sql op st) = fst (exec_mem op m) \<and> escrow_sim (snd (exec_sql op st)) (snd (exec_mem op m))"
proof (cases op)
  case (Issue wall eid pid cap ex meta)
  let ?d = "case meta of None \<Rightarrow> [] | Some d \<Rightarrow> d"
  let ?w = "\<lparr>ew_pccb_id = pid, ew_capability = cap, ew_expires_at = format_timestamp ex, ew_state = ''issued'',
    ew_consumed_at = None, ew_metadata = ?d, ew_created_at = format_timestamp wall, ew_updated_at = format_timestamp wall\<rparr>"
  have "row_to_record eid ?w = Inr \<lparr>er_escrow_id = eid, er_pccb_id = pid, er_capability = cap,
      er_expires_at = ex, er_state = ''issued'', er_consumed_at = None, er_metadata = ?d\<rparr>"
    using ok Issue by (simp add: row_to_record_def parse_format_timestamp)
  then show ?thesis
    using sim ok Issue by (cases rule: escrow_sim_cases[OF sim, where eid = eid])
      (simp_all add: sql_issue_def mem_issue_def dmem_def Let_def sql_reload_dput escrow_sim_dput)
next
  case (ConsumeEscrow eid pid cap now)
  from sim show ?thesis
  proof (cases rule: escrow_sim_cases[where eid = eid])
    case Absent
    then show ?thesis using sim ConsumeEscrow by (simp add: sql_consume_def mem_consume_def)
  next
    case (Present w r)
    have now: "dt_ok now" and st: "er_state r \<in> {''issued'', ''consumed'', ''revoked''}
        \<or> er_state r = ''expired'' \<and> er_expires_at r < now"
      using ok ConsumeEscrow Present(2) by simp_all
    note upd = row_to_record_state_update[OF Present(3)]
    have st': "ew_state w = er_state r" using row_to_record_state[OF Present(3)] by simp
    consider "er_state r = ''consumed''" | "er_state r = ''revoked''" | "er_state r = ''issued''"
      | "er_state r = ''expired''" "er_expires_at r < now" using st by blast
    then show ?thesis
    proof cases
      case 3
      then show ?thesis
        using sim ConsumeEscrow Present st' upd(3)[OF now]
        by (simp add: sql_consume_def mem_consume_def Let_def sql_reload_dput escrow_sim_dput upd(1))
    next
      case 4
      have "escrow_sim st (dput m eid (r\<lparr>er_state := ''expired''\<rparr>))"
        using sim 4 Present by (auto simp: escrow_sim_def)
      then show ?thesis using 4 ConsumeEscrow Present by (simp add: sql_consume_def mem_consume_def)
    qed (use sim ConsumeEscrow Present in \<open>simp_all add: sql_consume_def mem_consume_def\<close>)
  qed
next
  case (Revoke wall eid reason)
  from sim show ?thesis
  proof (cases rule: escrow_sim_cases[where eid = eid])
    case Absent
    then show ?thesis using sim Revoke by (simp add: sql_revoke_def mem_revoke_def)
  next
    case (Present w r)
    then show ?thesis
      using sim ok Revoke row_to_record_state_update(2)[OF Present(3)]
      by (simp add: sql_revoke_def mem_revoke_def Let_def sql_reload_dput escrow_sim_dput)
  qed
qed

lemma exec_sql_refines_run:
  "escrow_sim st m \<Longrightarrow> comparable_run ops m \<Longrightarrow> escrow_results exec_sql ops st = escrow_results exec_mem ops m"
proof (induction ops arbitrary: st m)
  case (Cons op ops)
  then show ?case using exec_sql_refines[of st m op] by simp
qed simp

section \<open>Properties\<close>

text \<open>C9 (escrow_single_use): Whatever sequence of issues, consumptions and revocations is run, neither
  store lets an escrow record be consumed twice, and a revoked record is never consumed.\<close>

theorem escrow_single_use:
  "distinct (spend_trace run_mem spends_mem ops m) \<and> distinct (spend_trace run_sql spends_sql ops st) \<and>
   (\<forall>eid. mem_spent m eid \<longrightarrow> eid \<notin> set (spend_trace run_mem spends_mem ops m)) \<and>
   (\<forall>eid. sql_spent st eid \<longrightarrow> eid \<notin> set (spend_trace run_sql spends_sql ops st))"
  using mem_escrow.spend_trace_distinct mem_escrow.spend_trace_fresh
    sql_escrow.spend_trace_distinct sql_escrow.spend_trace_fresh by metis

definition sample_escrow_ops :: "escrow_op list" where
  "sample_escrow_ops = [Issue 5 ''e1'' ''p1'' ''refund.create'' 63000000600000000 None,
     Revoke 6 ''e1'' ''stolen'', ConsumeEscrow ''e1'' ''p1'' ''refund.create'' 63000000060000000]"

theorem escrow_single_use_witness:
  "''e1'' \<notin> set (spend_trace run_mem spends_mem [ConsumeEscrow ''e1'' ''p1'' ''refund.create'' 7]
     [(''e1'', \<lparr>er_escrow_id = ''e1'', er_pccb_id = ''p1'', er_capability = ''refund.create'', er_expires_at = 9,
        er_state = ''revoked'', er_consumed_at = None, er_metadata = []\<rparr>)])"
  (is "_ \<notin> set (spend_trace _ _ ?ops ?m)")
proof -
  have "mem_spent ?m ''e1''" by (simp add: mem_spent_def)
  then show ?thesis using escrow_single_use[of ?ops ?m "[]"] by blast
qed

text \<open>C34 (sqlite_escrow_refines_memory): From matching states, a sequence of operations whose metadata
  a JSON column keeps and whose clock does not run back behind a recorded expiry gives the same
  results, record for record and refusal for refusal, on the database store and the in-memory one.\<close>

theorem sqlite_escrow_refines_memory:
  assumes "escrow_sim st m" "comparable_run ops m"
  shows "escrow_results exec_sql ops st = escrow_results exec_mem ops m"
  using assms by (rule exec_sql_refines_run)

theorem sqlite_escrow_refines_memory_witness:
  "escrow_results exec_sql sample_escrow_ops [] = escrow_results exec_mem sample_escrow_ops []"
proof (rule sqlite_escrow_refines_memory)
  show "escrow_sim [] []" by (simp add: escrow_sim_def sql_inspect_def)
  show "comparable_run sample_escrow_ops []"
    by (simp add: sample_escrow_ops_def mem_issue_def mem_revoke_def dmem_def Let_def json_column_def
        dt_ok_def datetime_limit_def)
qed

end
