(* ===== verification/Programs.thy ===== *)
theory Programs
  imports Errors
begin

text \<open>
  Statements of a Python method body as programs over a state: an exception ends the program and
  keeps the state reached so far. \<open>valid P m Q E\<close> is the Hoare triple with one postcondition for
  returning and one for raising; the rules below carry the invariant proofs of the executor, the
  middleware and the kernel.
\<close>

type_synonym ('s, 'a) prog = "'s \<Rightarrow> 'a res \<times> 's"

definition retP :: "'a \<Rightarrow> ('s, 'a) prog" where
  "retP x s = (Inr x, s)"

definition raiseP :: "exn \<Rightarrow> ('s, 'a) prog" where
  "raiseP e s = (Inl e, s)"

definition bindP :: "('s, 'a) prog \<Rightarrow> ('a \<Rightarrow> ('s, 'b) prog) \<Rightarrow> ('s, 'b) prog" where
  "bindP m f s = (case m s of (Inl e, s') \<Rightarrow> (Inl e, s') | (Inr x, s') \<Rightarrow> f x s')"

text \<open>A computation that does not touch the state, reading it, and changing it.\<close>

definition liftP :: "'a res \<Rightarrow> ('s, 'a) prog" where
  "liftP m s = (m, s)"

definition readP :: "('s \<Rightarrow> 'a) \<Rightarrow> ('s, 'a) prog" where
  "readP f s = (Inr (f s), s)"

definition modP :: "('s \<Rightarrow> 's) \<Rightarrow> ('s, unit) prog" where
  "modP f s = (Inr (), f s)"

text \<open>An operation on one component of the state, by its reader and its writer.\<close>

definition zoomP :: "('s \<Rightarrow> 'c) \<Rightarrow> ('c \<Rightarrow> 's \<Rightarrow> 's) \<Rightarrow> ('c, 'a) prog \<Rightarrow> ('s, 'a) prog" where
  "zoomP get put m s = (case m (get s) of (r, c) \<Rightarrow> (r, put c s))"

definition whenP :: "bool \<Rightarrow> ('s, unit) prog \<Rightarrow> ('s, unit) prog" where
  "whenP b m = (if b then m else retP ())"

text \<open>\<open>try: m except Exception: h\<close>, with the exception passed to the handler.\<close>

definition catchP :: "('s, 'a) prog \<Rightarrow> (exn \<Rightarrow> ('s, 'a) prog) \<Rightarrow> ('s, 'a) prog" where
  "catchP m h s = (case m s of (Inl e, s') \<Rightarrow> h e s' | (Inr x, s') \<Rightarrow> (Inr x, s'))"

lemmas prog_defs = retP_def raiseP_def bindP_def liftP_def readP_def modP_def zoomP_def whenP_def catchP_def

section \<open>Triples\<close>

definition valid :: "('s \<Rightarrow> bool) \<Rightarrow> ('s, 'a) prog \<Rightarrow> ('a \<Rightarrow> 's \<Rightarrow> bool) \<Rightarrow> (exn \<Rightarrow> 's \<Rightarrow> bool) \<Rightarrow> bool" where
  "valid P m Q E \<longleftrightarrow> (\<forall>s. P s \<longrightarrow> (case m s of (Inl e, s') \<Rightarrow> E e s' | (Inr x, s') \<Rightarrow> Q x s'))"

named_theorems vcg "rules of the triples"

lemma validI: "(\<And>s e s'. P s \<Longrightarrow> m s = (Inl e, s') \<Longrightarrow> E e s') \<Longrightarrow>
    (\<And>s x s'. P s \<Longrightarrow> m s = (Inr x, s') \<Longrightarrow> Q x s') \<Longrightarrow> valid P m Q E"
  by (auto simp: valid_def split: sum.split prod.split)

lemma validD_Inr: "valid P m Q E \<Longrightarrow> P s \<Longrightarrow> m s = (Inr x, s') \<Longrightarrow> Q x s'"
  by (auto simp: valid_def)

lemma validD_Inl: "valid P m Q E \<Longrightarrow> P s \<Longrightarrow> m s = (Inl e, s') \<Longrightarrow> E e s'"
  by (auto simp: valid_def)

lemma valid_totalI: "(\<And>s. P s \<Longrightarrow> \<exists>x s'. m s = (Inr x, s') \<and> Q x s') \<Longrightarrow> valid P m Q E"
  by (fastforce simp: valid_def)

lemma valid_weaken:
  assumes "valid P' m Q' E'" "\<And>s. P s \<Longrightarrow> P' s" "\<And>x s. Q' x s \<Longrightarrow> Q x s" "\<And>e s. E' e s \<Longrightarrow> E e s"
  shows "valid P m Q E"
proof (rule validI)
  show "E e s'" if "P s" "m s = (Inl e, s')" for s e s'
    using validD_Inl[OF assms(1)] assms(2,4) that by blast
  show "Q x s'" if "P s" "m s = (Inr x, s')" for s x s'
    using validD_Inr[OF assms(1)] assms(2,3) that by blast
qed

lemma valid_retP [vcg]: "valid (Q x) (retP x) Q E"
  and valid_raiseP [vcg]: "valid (E e) (raiseP e) Q E"
  and valid_readP [vcg]: "valid (\<lambda>s. Q (f s) s) (readP f) Q E"
  and valid_modP [vcg]: "valid (\<lambda>s. Q () (f s)) (modP f) Q E"
  and valid_liftP [vcg]: "valid (\<lambda>s. case m of Inl e \<Rightarrow> E e s | Inr x \<Rightarrow> Q x s) (liftP m) Q E"
  by (auto simp: valid_def prog_defs split: sum.split)

lemma valid_bindP [vcg]:
  "valid P m R E \<Longrightarrow> (\<And>x. valid (R x) (f x) Q E) \<Longrightarrow> valid P (bindP m f) Q E"
  by (fastforce simp: valid_def bindP_def split: sum.splits prod.splits)

lemma valid_catchP [vcg]:
  "valid P m Q R \<Longrightarrow> (\<And>e. valid (R e) (h e) Q E) \<Longrightarrow> valid P (catchP m h) Q E"
  by (fastforce simp: valid_def catchP_def split: sum.splits prod.splits)

lemma valid_if [vcg]:
  "(b \<Longrightarrow> valid P m Q E) \<Longrightarrow> (\<not> b \<Longrightarrow> valid P n Q E) \<Longrightarrow> valid P (if b then m else n) Q E"
  by simp

lemma valid_case_option [vcg]:
  "(x = None \<Longrightarrow> valid P m Q E) \<Longrightarrow> (\<And>y. x = Some y \<Longrightarrow> valid P (f y) Q E) \<Longrightarrow>
   valid P (case x of None \<Rightarrow> m | Some y \<Rightarrow> f y) Q E"
  by (cases x) simp_all

lemma valid_whenP [vcg]:
  "(b \<Longrightarrow> valid P m Q E) \<Longrightarrow> (\<And>s. \<not> b \<Longrightarrow> P s \<Longrightarrow> Q () s) \<Longrightarrow> valid P (whenP b m) Q E"
  by (auto simp: whenP_def valid_def retP_def)

lemma valid_zoomP:
  "valid P m Q E \<Longrightarrow> (\<And>s. P' s \<Longrightarrow> P (get s)) \<Longrightarrow>
   (\<And>s x c. P' s \<Longrightarrow> Q x c \<Longrightarrow> Q' x (put c s)) \<Longrightarrow> (\<And>s e c. P' s \<Longrightarrow> E e c \<Longrightarrow> E' e (put c s)) \<Longrightarrow>
   valid P' (zoomP get put m) Q' E'"
  by (fastforce simp: valid_def zoomP_def split: sum.splits prod.splits)

text \<open>A program that keeps a predicate whatever it does.\<close>

abbreviation keeps :: "('s \<Rightarrow> bool) \<Rightarrow> ('s, 'a) prog \<Rightarrow> bool" where
  "keeps I m \<equiv> valid I m (\<lambda>_. I) (\<lambda>_. I)"

lemma keepsD: "keeps I m \<Longrightarrow> I s \<Longrightarrow> I (snd (m s))"
  by (cases "m s"; cases "fst (m s)") (auto dest: validD_Inr validD_Inl)

lemma keepsI: "(\<And>s. I s \<Longrightarrow> I (snd (m s))) \<Longrightarrow> keeps I m"
  by (rule validI) (metis snd_conv)+

lemma valid_step:
  assumes "keeps P m" "\<And>e s. P s \<Longrightarrow> E e s" "\<And>x. valid P (f x) Q E"
  shows "valid P (bindP m f) Q E"
  by (rule valid_bindP[where R = "\<lambda>_. P"]) (use assms in \<open>auto intro: valid_weaken\<close>)

lemma keeps_zoomP: "(\<And>s. I s \<Longrightarrow> I (put (snd (m (get s))) s)) \<Longrightarrow> keeps I (zoomP get put m)"
  by (rule keepsI) (simp add: zoomP_def split_beta)

end
