(* ===== verification/Effects.thy ===== *)
theory Effects
  imports Replay Programs
begin

text \<open>
  Effect ownership at the protected edge: the reference and the protector of
  \<^verbatim>\<open>execution/effects.py\<close>. The ledger is the state \<open>'w\<close> of the owner's claim function; the authority
  extension parser and the effect identity are those of the protocol package.
\<close>

record effect_reference =
  ef_profile :: string
  ef_effect_id :: string
  ef_reservation_id :: string
  ef_owner_attempt_id :: string

text \<open>\<open>re.fullmatch(prefix + "[0-9a-f]{n}", s)\<close> and \<open>{n,}\<close>.\<close>

definition hex_id :: "string \<Rightarrow> nat \<Rightarrow> bool \<Rightarrow> string \<Rightarrow> bool" where
  "hex_id prefix n exact s \<longleftrightarrow> take (length prefix) s = prefix \<and>
     (let h = drop (length prefix) s in list_all is_hex_lower h \<and> (if exact then length h = n else n \<le> length h))"

definition reference_patterns :: "(string \<times> (string \<Rightarrow> bool)) list" where
  "reference_patterns =
     [(''effect_id'', hex_id ''effect_'' 64 True), (''reservation_id'', hex_id ''reservation_'' 32 True),
      (''owner_attempt_id'', hex_id ''exec_'' 16 False)]"

definition reference_from_dict :: "deps \<Rightarrow> json \<Rightarrow> effect_reference res" where
  "reference_from_dict D raw =
     (case raw of
        JObj d \<Rightarrow>
          if set (map fst d) \<noteq> insert ''profile'' (set (map fst reference_patterns))
          then Inl (Raise ValueError ''malformed effect reference'')
          else if dget d ''profile'' \<noteq> Some (JStr (dep_effect_profile D))
          then Inl (Raise ValueError ''unsupported effect profile'')
          else if \<not> list_all (\<lambda>(name, ok). case dget d name of Some (JStr s) \<Rightarrow> ok s | _ \<Rightarrow> False) reference_patterns
          then Inl (Raise ValueError ''malformed effect reference'')
          else (case (dget d ''effect_id'', dget d ''reservation_id'', dget d ''owner_attempt_id'') of
              (Some (JStr e), Some (JStr r), Some (JStr a)) \<Rightarrow>
                Inr \<lparr>ef_profile = dep_effect_profile D, ef_effect_id = e, ef_reservation_id = r, ef_owner_attempt_id = a\<rparr>
            | _ \<Rightarrow> Inl (Raise ValueError ''malformed effect reference''))
      | _ \<Rightarrow> Inl (Raise ValueError ''malformed effect reference''))"

definition reference_to_dict :: "effect_reference \<Rightarrow> dict" where
  "reference_to_dict r = [(''profile'', JStr (ef_profile r)), (''effect_id'', JStr (ef_effect_id r)),
     (''reservation_id'', JStr (ef_reservation_id r)), (''owner_attempt_id'', JStr (ef_owner_attempt_id r))]"

record 'w effect_protector =
  ep_namespace :: string
  ep_claim :: "effect_reference \<Rightarrow> execution_request \<Rightarrow> ('w, bool) prog"
  ep_descriptor_builder :: "(execution_request \<Rightarrow> dict res) option"

text \<open>The two readings of the signed extensions, with the \<open>except (TypeError, ValueError)\<close> around them.\<close>

definition effect_and_authority :: "deps \<Rightarrow> pccb \<Rightarrow> (effect_reference \<times> dict) res" where
  "effect_and_authority D p =
     (case bindR (reference_from_dict D (get_or_null (pc_extensions p) ''effect'')) (\<lambda>ref.
           bindR (dep_parse_authority_extension D (pc_extensions p)) (\<lambda>authority. Inr (ref, authority))) of
        Inr x \<Rightarrow> Inr x
      | Inl e \<Rightarrow> if catches_type_value D e
          then Inl (ProofVerificationError ''MALFORMED_REQUEST'' ''The proof has no usable effect/authority reference.'')
          else Inl e)"

definition expected_descriptor :: "deps \<Rightarrow> string \<Rightarrow> execution_request \<Rightarrow> dict" where
  "expected_descriptor D ns rq =
     [(''profile'', JStr (dep_effect_profile D)), (''namespace'', JStr ns), (''kind'', JStr ''exact''),
      (''action_type'', JStr (ac_capability (ai_action (rq_intent rq)))),
      (''target'', JObj [(''type'', JStr (tg_resource_type (ai_target (rq_intent rq)))),
         (''id'', JStr (tg_resource_id (ai_target (rq_intent rq))))]),
      (''parameters'', JObj (ac_parameters (ai_action (rq_intent rq))))]"

definition same_canonical :: "deps \<Rightarrow> json \<Rightarrow> json \<Rightarrow> unit res" where
  "same_canonical D a b =
     bindR (canonicalize_bytes D a) (\<lambda>x. bindR (canonicalize_bytes D b) (\<lambda>y.
     if x = y then Inr () else Inl (Raise ValueError ''effect descriptor does not match the actual edge request'')))"

definition derive_effect :: "deps \<Rightarrow> 'w effect_protector \<Rightarrow> execution_request \<Rightarrow> string res" where
  "derive_effect D P rq =
     (let expected = expected_descriptor D (ep_namespace P) rq in
      bindR (case ep_descriptor_builder P of None \<Rightarrow> Inr expected | Some build \<Rightarrow> build rq) (\<lambda>descriptor.
      bindR (mapR (\<lambda>name. same_canonical D (get_or_null descriptor name) (get_or_null expected name))
        [''profile'', ''namespace'', ''action_type'', ''target'']) (\<lambda>_.
      bindR (if get_or_null descriptor ''kind'' = JStr ''exact''
             then same_canonical D (get_or_null descriptor ''parameters'') (get_or_null expected ''parameters'')
             else Inr ()) (\<lambda>_.
      dep_effect_identity D descriptor))))"

definition claim_effect :: "deps \<Rightarrow> 'w effect_protector \<Rightarrow> execution_request \<Rightarrow> ('w, effect_reference) prog" where
  "claim_effect D P rq =
     bindP (liftP (effect_and_authority D (rq_pccb rq))) (\<lambda>(ref, authority).
     if ef_owner_attempt_id ref \<noteq> ai_intent_id (rq_intent rq)
     then raiseP (ProofVerificationError ''ACTION_MISMATCH''
       ''The effect reservation belongs to a different execution attempt.'')
     else (case dget authority ''issuer'' of
         None \<Rightarrow> raiseP (Raise KeyError ''issuer'')
       | Some issuer \<Rightarrow>
           if issuer \<noteq> JStr (pa_type (pc_issuer (rq_pccb rq)) @ '':'' @ pa_id (pc_issuer (rq_pccb rq)))
           then raiseP (ProofVerificationError ''ISSUER_UNTRUSTED''
             ''The effect authority issuer does not match the proof issuer.'')
           else (case derive_effect D P rq of
               Inl _ \<Rightarrow> raiseP (ProofVerificationError ''ACTION_MISMATCH''
                 ''The protected edge could not derive this effect from the exact request.'')
             | Inr computed \<Rightarrow>
                 if ef_effect_id ref \<noteq> computed
                 then raiseP (ProofVerificationError ''ACTION_MISMATCH''
                   ''The signed effect identity does not match the protected request.'')
                 else bindP (catchP (ep_claim P ref rq) (\<lambda>_. raiseP (ProofVerificationError ''POLICY_REFUSAL''
                     ''Authoritative effect ownership could not be established; execution refused.''))) (\<lambda>claimed.
                   if claimed then retP ref
                   else raiseP (ProofVerificationError ''POLICY_REFUSAL''
                     ''This effect is already owned, completed, unresolved, or not authorized for this attempt.'')))))"

end
