(* ===== verification/Receipts.thy ===== *)
theory Receipts
  imports Runtime
begin

text \<open>
  Receipts and refusals of the kernel: the factories of \<^verbatim>\<open>receipts/factory.py\<close> with the wedges of
  \<^verbatim>\<open>receipts/refund.py\<close> and \<^verbatim>\<open>receipts/invoice_payment.py\<close>. A factory takes the identifier that its
  id factory returns as an argument. Python's \<open>str\<close>, \<open>int\<close>, \<open>list\<close> and \<open>len\<close> are modelled on the JSON
  values that reach them; the texts of floats and containers, \<open>repr\<close>, and \<open>int\<close> and \<open>upper\<close> of a text that is
  not ASCII are parameters.
\<close>

section \<open>Conversions\<close>

record py_text =
  pt_str :: "json \<Rightarrow> string"
  pt_int :: "string \<Rightarrow> int option"
  pt_repr :: "json \<Rightarrow> string"
  pt_upper :: "string \<Rightarrow> string"

definition text_too_long :: "nat \<Rightarrow> bool" where
  "text_too_long digits \<longleftrightarrow> INT_MAX_STR_DIGITS < digits"

fun py_str :: "py_text \<Rightarrow> json \<Rightarrow> string res" where
  "py_str T (JStr s) = Inr s"
| "py_str T (JBool b) = Inr (if b then ''True'' else ''False'')"
| "py_str T JNull = Inr ''None''"
| "py_str T (JInt i) = (if text_too_long (length (show_nat (nat \<bar>i\<bar>)))
     then Inl (Raise ValueError ''Exceeds the limit for integer string conversion'') else Inr (show_int i))"
| "py_str T v = Inr (pt_str T v)"

definition is_space :: "char \<Rightarrow> bool" where
  "is_space c \<longleftrightarrow> of_char c = (32 :: nat) \<or> (9 \<le> (of_char c :: nat) \<and> (of_char c :: nat) \<le> 13)"

definition strip_space :: "string \<Rightarrow> string" where
  "strip_space s = rev (dropWhile is_space (rev (dropWhile is_space s)))"

text \<open>Digits with single underscores between them.\<close>

fun digit_groups :: "string \<Rightarrow> bool" where
  "digit_groups [] = False"
| "digit_groups [c] = is_digit c"
| "digit_groups (c # d # s) = (is_digit c \<and> (if d = CHR ''_'' then digit_groups s else digit_groups (d # s)))"

definition int_of_ascii :: "string \<Rightarrow> int option" where
  "int_of_ascii raw =
     (let s = strip_space raw;
          body = (case s of [] \<Rightarrow> [] | c # r \<Rightarrow> if c = CHR ''+'' \<or> c = CHR ''-'' then r else s);
          digits = filter is_digit body in
      if digit_groups body \<and> \<not> text_too_long (length digits)
      then Some ((if take 1 s = ''-'' then - 1 else 1) * int (read_nat digits)) else None)"

definition int_of_text :: "py_text \<Rightarrow> string \<Rightarrow> int option" where
  "int_of_text T s = (if list_all (\<lambda>c. of_char c < (128 :: nat)) s then int_of_ascii s else pt_int T s)"

definition truncate_rat :: "rat \<Rightarrow> int" where
  "truncate_rat r = (if 0 \<le> r then floor r else ceiling r)"

fun py_int :: "py_text \<Rightarrow> json \<Rightarrow> int res" where
  "py_int T (JInt i) = Inr i"
| "py_int T (JBool b) = Inr (if b then 1 else 0)"
| "py_int T (JFloat (FinF r)) = Inr (truncate_rat r)"
| "py_int T (JFloat (InfF b)) = Inl (Raise OverflowError ''cannot convert float infinity to integer'')"
| "py_int T (JFloat NaNF) = Inl (Raise ValueError ''cannot convert float NaN to integer'')"
| "py_int T (JStr s) = (case int_of_text T s of Some i \<Rightarrow> Inr i
     | None \<Rightarrow> Inl (Raise ValueError ''invalid literal for int() with base 10''))"
| "py_int T _ = Inl (Raise TypeError ''int() argument must be a string or a number'')"

fun py_list :: "json \<Rightarrow> json list res" where
  "py_list (JArr xs) = Inr xs"
| "py_list (JTup xs) = Inr xs"
| "py_list (JStr s) = Inr (map JStr (codepoints s))"
| "py_list (JObj d) = Inr (map (\<lambda>p. JStr (fst p)) d)"
| "py_list _ = Inl (Raise TypeError ''object is not iterable'')"

definition py_len :: "json \<Rightarrow> nat res" where
  "py_len v = bindR (py_list v) (\<lambda>xs. Inr (length xs))"

text \<open>\<open>d[k]\<close>.\<close>

definition py_index :: "dict \<Rightarrow> string \<Rightarrow> json res" where
  "py_index d k = (case dget d k of Some v \<Rightarrow> Inr v | None \<Rightarrow> Inl (Raise KeyError k))"

definition index_str :: "py_text \<Rightarrow> dict \<Rightarrow> string \<Rightarrow> string res" where
  "index_str T d k = bindR (py_index d k) (py_str T)"

section \<open>The refund wedge\<close>

definition is_refund_intent :: "action_intent \<Rightarrow> bool" where
  "is_refund_intent i \<longleftrightarrow> ac_name (ai_action i) = ''refund.create'' \<and> ac_capability (ai_action i) = ''refund.execute''"

definition refund_amount_minor :: "py_text \<Rightarrow> action_intent \<Rightarrow> int res" where
  "refund_amount_minor T i = bindR (py_index (ac_parameters (ai_action i)) ''amount_minor'') (py_int T)"

definition refund_currency :: "py_text \<Rightarrow> action_intent \<Rightarrow> string res" where
  "refund_currency T i = index_str T (ac_parameters (ai_action i)) ''currency''"

definition refund_target_id :: "action_intent \<Rightarrow> string" where
  "refund_target_id i = tg_resource_id (ai_target i)"

text \<open>The text \<open>Refund of <amount> <currency> against payment <id>\<close> that every refund summary starts with.\<close>

definition refund_subject :: "py_text \<Rightarrow> action_intent \<Rightarrow> string res" where
  "refund_subject T i =
     bindR (refund_amount_minor T i) (\<lambda>amount.
     bindR (refund_currency T i) (\<lambda>currency.
     bindR (py_str T (JInt amount)) (\<lambda>amount_text.
     Inr (''Refund of '' @ amount_text @ '' '' @ currency @ '' against payment '' @ refund_target_id i))))"

definition refund_operator_summary_for_decision :: "py_text \<Rightarrow> action_intent \<Rightarrow> policy_decision \<Rightarrow> string res" where
  "refund_operator_summary_for_decision T i d =
     bindR (refund_amount_minor T i) (\<lambda>_.
     bindR (refund_currency T i) (\<lambda>_.
     if pd_outcome d = ''allow''
     then bindR (refund_subject T i) (\<lambda>s. Inr (s @ '' is authorized for protected execution.''))
     else if pd_outcome d = ''deny''
     then bindR (refund_subject T i) (\<lambda>s. Inr (s @ '' was denied by policy.''))
     else if pd_outcome d = ''approval-required''
     then bindR (refund_subject T i) (\<lambda>s. Inr (s @ '' requires operator approval before execution.''))
     else if pd_outcome d = ''needs-evidence''
     then bindR (refund_subject T i) (\<lambda>s. Inr (s @ '' requires more evidence before execution.''))
     else Inr (pd_summary d)))"

text \<open>\<open>payload.get(key) if payload else None\<close>.\<close>

definition payload_get :: "dict option \<Rightarrow> string \<Rightarrow> json" where
  "payload_get payload key = (case payload of None \<Rightarrow> JNull | Some d \<Rightarrow> get_or_null d key)"

definition refund_operator_summary_for_execution :: "py_text \<Rightarrow> action_intent \<Rightarrow> dict option \<Rightarrow> string res" where
  "refund_operator_summary_for_execution T i payload =
     bindR (refund_subject T i) (\<lambda>s.
     let external = payload_get payload ''external_reference'' in
     if truthy external
     then bindR (py_str T external) (\<lambda>e. Inr (s @ '' executed successfully with local reference '' @ e @ ''.''))
     else Inr (s @ '' executed successfully.''))"

definition refund_detail_fields :: "py_text \<Rightarrow> action_intent \<Rightarrow> dict res" where
  "refund_detail_fields T i =
     bindR (refund_amount_minor T i) (\<lambda>amount.
     bindR (refund_currency T i) (\<lambda>currency.
     Inr [(''wedge'', JStr ''refund''), (''amount_minor'', JInt amount), (''currency'', JStr currency),
       (''target_resource_type'', JStr (tg_resource_type (ai_target i))),
       (''target_resource_id'', JStr (refund_target_id i))]))"

section \<open>The invoice-payment wedge\<close>

definition is_invoice_payment_intent :: "action_intent \<Rightarrow> bool" where
  "is_invoice_payment_intent i \<longleftrightarrow> ac_name (ai_action i) = ''invoice_payment.execute''
     \<and> ac_capability (ai_action i) = ''invoice_payment.execute''"

definition invoice_payment_detail_fields :: "action_intent \<Rightarrow> dict res" where
  "invoice_payment_detail_fields i =
     (let params = ac_parameters (ai_action i) in
      bindR (mapR (\<lambda>k. bindR (py_index params k) (\<lambda>v. Inr (k, v)))
        [''payer_entity_id'', ''supplier_id'', ''bank_account_reference'']) (\<lambda>first.
      bindR (bindR (py_index params ''invoice_ids'') py_list) (\<lambda>ids.
      bindR (mapR (\<lambda>k. bindR (py_index params k) (\<lambda>v. Inr (k, v)))
        [''amount_minor'', ''currency'', ''payment_date'', ''payment_batch_id'', ''batch_hash'', ''proposer_id'']) (\<lambda>rest.
      Inr ((''wedge'', JStr ''invoice_payment'') # first @ (''invoice_ids'', JArr ids) # rest @
        [(''target_resource_type'', JStr (tg_resource_type (ai_target i))),
         (''target_resource_id'', JStr (tg_resource_id (ai_target i)))])))))"

definition invoice_payment_decision_details :: "action_intent \<Rightarrow> policy_decision \<Rightarrow> dynamic_context \<Rightarrow> dict res" where
  "invoice_payment_decision_details i d cx =
     bindR (invoice_payment_detail_fields i) (\<lambda>fields.
     let details = dput fields ''rule_evaluations'' (JArr (map (\<lambda>r. JStr (ru_rule_id r)) (pd_rule_evaluations d))) in
     if pd_outcome d = ''approval-required''
     then bindR (py_list (get_or (cx_facts cx) ''required_approval_chain'' (JTup []))) (\<lambda>req.
       bindR (py_list (get_or (cx_facts cx) ''provided_approval_chain'' (JTup []))) (\<lambda>prov.
       Inr (dput (dput details ''required_approval_chain'' (JArr req)) ''provided_approval_chain'' (JArr prov))))
     else if pd_outcome d = ''needs-evidence''
     then Inr (dput (dput details ''required_evidence_types'' (JArr (map JStr (pd_required_evidence d))))
       ''provided_evidence_types'' (JArr (map (\<lambda>e. JStr (ev_type e)) (ai_evidence_refs i))))
     else Inr details)"

definition invoice_payment_operator_summary_for_decision ::
    "py_text \<Rightarrow> action_intent \<Rightarrow> policy_decision \<Rightarrow> string res" where
  "invoice_payment_operator_summary_for_decision T i d =
     (let params = ac_parameters (ai_action i) in
      bindR (py_index params ''amount_minor'') (\<lambda>amount.
      bindR (py_index params ''currency'') (\<lambda>currency.
      bindR (py_index params ''supplier_id'') (\<lambda>supplier.
      bindR (bindR (py_index params ''invoice_ids'') py_len) (\<lambda>count.
      bindR (py_index params ''payment_batch_id'') (\<lambda>batch.
      let texts = (\<lambda>middle ending.
        bindR (py_str T amount) (\<lambda>a. bindR (py_str T currency) (\<lambda>c. bindR (py_str T supplier) (\<lambda>s.
        bindR (py_str T batch) (\<lambda>b.
        Inr (''Invoice payment of '' @ a @ '' '' @ c @ '' to supplier '' @ s @ '' for '' @ middle @ ''batch '' @ b @ ending))))))
      in
      if pd_outcome d = ''allow''
      then texts (show_nat count @ '' invoices in '') '' is authorized for protected execution.''
      else if pd_outcome d = ''deny'' then texts [] '' was denied by finance controls.''
      else if pd_outcome d = ''approval-required''
      then texts [] '' requires the full approval chain before execution.''
      else if pd_outcome d = ''needs-evidence''
      then texts [] '' requires additional evidence before execution.''
      else Inr (pd_summary d)))))))"

definition invoice_payment_operator_summary_for_execution ::
    "py_text \<Rightarrow> action_intent \<Rightarrow> dict option \<Rightarrow> string res" where
  "invoice_payment_operator_summary_for_execution T i payload =
     (let params = ac_parameters (ai_action i) in
      bindR (py_index params ''amount_minor'') (\<lambda>amount.
      bindR (py_index params ''currency'') (\<lambda>currency.
      bindR (py_index params ''supplier_id'') (\<lambda>supplier.
      bindR (py_index params ''payment_batch_id'') (\<lambda>batch.
      let execution = payload_get payload ''payment_execution_id'';
          reconciliation = payload_get payload ''reconciliation_id'';
          paid = (\<lambda>lead. bindR (py_str T amount) (\<lambda>a. bindR (py_str T currency) (\<lambda>c.
            bindR (py_str T supplier) (\<lambda>s. bindR (py_str T batch) (\<lambda>b.
            Inr (lead @ '' executed for '' @ a @ '' '' @ c @ '' to supplier '' @ s @ '' in batch '' @ b @ ''.'')))))) in
      if truthy execution \<and> truthy reconciliation
      then bindR (py_str T execution) (\<lambda>x.
        bindR (paid (''Invoice payment '' @ x)) (\<lambda>text.
        bindR (py_str T reconciliation) (\<lambda>r. Inr (text @ '' Reconciliation record '' @ r @ '' was written.''))))
      else paid ''Invoice payment'')))))"

definition invoice_payment_operator_summary_for_refusal :: "py_text \<Rightarrow> action_intent \<Rightarrow> string \<Rightarrow> string res" where
  "invoice_payment_operator_summary_for_refusal T i code =
     (let params = ac_parameters (ai_action i) in
      bindR (index_str T params ''amount_minor'') (\<lambda>a.
      bindR (index_str T params ''currency'') (\<lambda>c.
      bindR (index_str T params ''supplier_id'') (\<lambda>s.
      bindR (index_str T params ''payment_batch_id'') (\<lambda>b.
      Inr (''Invoice payment of '' @ a @ '' '' @ c @ '' to supplier '' @ s @ '' in batch '' @ b
        @ '' was refused ('' @ code @ '').''))))))"

section \<open>The factories\<close>

definition basic_correlation :: "json \<Rightarrow> json \<Rightarrow> json \<Rightarrow> action_hash_spec option \<Rightarrow> correlation_ref" where
  "basic_correlation pccb_id escrow_id request_id ahash =
     \<lparr>co_pccb_id = pccb_id, co_escrow_id = escrow_id, co_refusal_id = JNull, co_receipt_id = JNull,
      co_request_id = request_id, co_action_hash = ahash, co_execution_attempt_id = JNull,
      co_protocol_version = JNull, co_execution_mode = JNull, co_verifier_identity = JNull,
      co_target_digest = None\<rparr>"

definition receipt_of_intent :: "string \<Rightarrow> action_intent \<Rightarrow> dynamic_context \<Rightarrow> string \<Rightarrow> string \<Rightarrow> correlation_ref
    \<Rightarrow> string \<Rightarrow> string list \<Rightarrow> dict \<Rightarrow> dict \<Rightarrow> dict \<Rightarrow> receipt" where
  "receipt_of_intent rid i cx outcome phase correlation summary reason_codes follow_up side_effects details =
     \<lparr>rc_receipt_id = rid, rc_intent_id = ai_intent_id i, rc_occurred_at = cx_now cx, rc_outcome = outcome,
      rc_tenant = ai_tenant i, rc_subject = ai_requester i, rc_action = ai_action i, rc_target = ai_target i,
      rc_summary = summary, rc_phase = JStr phase, rc_correlation = Some correlation,
      rc_reason_codes = reason_codes, rc_follow_up = follow_up, rc_side_effects = side_effects,
      rc_details = details, rc_metadata = [], rc_extensions = []\<rparr>"

definition decision_follow_up :: "policy_decision \<Rightarrow> dict" where
  "decision_follow_up d =
     (if pd_outcome d = ''approval-required''
      then [(''approver_types'', JArr (map JStr (pd_approver_types d))),
        (''instructions'', JStr ''Additional approval is required before execution.'')]
      else if pd_outcome d = ''needs-evidence''
      then [(''required_evidence'', JArr (map JStr (pd_required_evidence d))),
        (''instructions'', JStr ''Additional evidence is required before execution.'')]
      else [])"

definition create_decision_receipt :: "py_text \<Rightarrow> string \<Rightarrow> action_intent \<Rightarrow> policy_decision \<Rightarrow> dynamic_context
    \<Rightarrow> json \<Rightarrow> json \<Rightarrow> action_hash_spec option \<Rightarrow> receipt res" where
  "create_decision_receipt T rid i d cx pccb_id escrow_id ahash =
     (let rules = (''rule_evaluations'', JArr (map (\<lambda>r. JStr (ru_rule_id r)) (pd_rule_evaluations d)));
          finish = (\<lambda>summary details. Inr (receipt_of_intent rid i cx (pd_outcome d) ''decision''
            (basic_correlation pccb_id escrow_id (JStr (cx_request_id cx)) ahash) summary (pd_reason_codes d)
            (decision_follow_up d) [(''state'', JStr ''none'')] details)) in
      if is_refund_intent i
      then bindR (refund_operator_summary_for_decision T i d) (\<lambda>summary.
        bindR (refund_detail_fields T i) (\<lambda>fields. finish summary (rules # fields)))
      else if is_invoice_payment_intent i
      then bindR (invoice_payment_operator_summary_for_decision T i d) (\<lambda>summary.
        bindR (invoice_payment_decision_details i d cx) (\<lambda>details. finish summary details))
      else finish (pd_summary d) [rules])"

definition execution_side_effects :: "dict option \<Rightarrow> dict" where
  "execution_side_effects payload =
     (\<lambda>external provider reconciliation version.
        put_if (truthy version) ''resource_version'' version
        (put_if (truthy reconciliation) ''reconciliation_status'' reconciliation
        (put_if (truthy provider) ''provider_reference'' provider
        (put_if (truthy external) ''external_reference'' external [(''state'', JStr ''completed'')]))))
      (payload_get payload ''external_reference'') (payload_get payload ''provider_reference'')
      (payload_get payload ''reconciliation_status'') (payload_get payload ''resource_version'')"

definition payload_dict :: "dict option \<Rightarrow> dict" where
  "payload_dict payload = (case payload of None \<Rightarrow> [] | Some d \<Rightarrow> d)"

definition create_execution_receipt :: "py_text \<Rightarrow> string \<Rightarrow> action_intent \<Rightarrow> dynamic_context \<Rightarrow> string \<Rightarrow> json
    \<Rightarrow> dict option \<Rightarrow> action_hash_spec option \<Rightarrow> receipt res" where
  "create_execution_receipt T rid i cx pccb_id escrow_id payload ahash =
     (let finish = (\<lambda>summary details. Inr (receipt_of_intent rid i cx ''executed'' ''execution''
            (basic_correlation (JStr pccb_id) escrow_id (JStr (cx_request_id cx)) ahash) summary [] []
            (execution_side_effects payload) details)) in
      if is_refund_intent i
      then bindR (refund_operator_summary_for_execution T i payload) (\<lambda>summary.
        bindR (refund_detail_fields T i) (\<lambda>fields. finish summary (dmerge fields (payload_dict payload))))
      else if is_invoice_payment_intent i
      then bindR (invoice_payment_operator_summary_for_execution T i payload) (\<lambda>summary.
        bindR (invoice_payment_detail_fields i) (\<lambda>fields. finish summary (dmerge fields (payload_dict payload))))
      else finish ''The protected action executed successfully.'' (payload_dict payload))"

definition create_refused_receipt :: "py_text \<Rightarrow> string \<Rightarrow> action_intent \<Rightarrow> dynamic_context \<Rightarrow> refusal \<Rightarrow> receipt res" where
  "create_refused_receipt T rid i cx rf =
     (let co = (\<lambda>field. case rf_correlation rf of None \<Rightarrow> JNull | Some c \<Rightarrow> field c);
          correlation = (basic_correlation (co co_pccb_id) (co co_escrow_id) (JStr (cx_request_id cx))
            (case rf_correlation rf of None \<Rightarrow> None | Some c \<Rightarrow> co_action_hash c))
              \<lparr>co_refusal_id := JStr (rf_refusal_id rf)\<rparr>;
          finish = (\<lambda>summary details. Inr (receipt_of_intent rid i cx ''refused'' ''execution'' correlation
            summary [rf_reason_code rf] [] [(''state'', JStr ''none'')] details)) in
      if is_refund_intent i
      then bindR (index_str T (ac_parameters (ai_action i)) ''amount_minor'') (\<lambda>a.
        bindR (index_str T (ac_parameters (ai_action i)) ''currency'') (\<lambda>c.
        bindR (refund_detail_fields T i) (\<lambda>fields.
        finish (''Refund of '' @ a @ '' '' @ c @ '' against payment '' @ refund_target_id i @ '' was refused.'') fields)))
      else if is_invoice_payment_intent i
      then bindR (invoice_payment_operator_summary_for_refusal T i (rf_reason_code rf)) (\<lambda>summary.
        bindR (invoice_payment_detail_fields i) (\<lambda>fields. finish summary fields))
      else finish (rf_message rf) [])"

text \<open>\<open>RefusalFactory.create_from_exception\<close>: the intent and the context are optional.\<close>

definition create_from_exception :: "string \<Rightarrow> refusal_exception \<Rightarrow> datetime \<Rightarrow> action_intent option
    \<Rightarrow> dynamic_context option \<Rightarrow> json \<Rightarrow> json \<Rightarrow> action_hash_spec option \<Rightarrow> refusal" where
  "create_from_exception rid exc occurred_at i cx pccb_id escrow_id ahash =
     \<lparr>rf_refusal_id = rid, rf_category = re_category exc, rf_reason_code = re_code exc,
      rf_message = re_message exc, rf_retryable = re_retryable exc, rf_refused_at = occurred_at,
      rf_intent_id = (case i of None \<Rightarrow> JNull | Some i \<Rightarrow> JStr (ai_intent_id i)),
      rf_tenant = map_option ai_tenant i, rf_subject = map_option ai_requester i,
      rf_audience = map_option cx_audience cx, rf_action = map_option ai_action i,
      rf_target = map_option ai_target i,
      rf_correlation = Some (basic_correlation pccb_id escrow_id
        (case cx of None \<Rightarrow> JNull | Some cx \<Rightarrow> JStr (cx_request_id cx)) ahash),
      rf_rule_refs = re_rule_refs exc, rf_violations = re_violations exc, rf_details = re_details exc,
      rf_extensions = []\<rparr>"

end
