(* ===== verification/Outcomes.thy ===== *)
theory Outcomes
  imports Receipts
begin

text \<open>
  Where outcomes go: artifact digests (\<^verbatim>\<open>models/serialization.py\<close>), the anchors of
  \<^verbatim>\<open>execution_graph.py\<close>, the in-memory stores of \<^verbatim>\<open>receipts/store.py\<close> and the in-memory outcome
  writer of \<^verbatim>\<open>receipts/writers.py\<close>. A publication client is the list of anchors handed to it; the
  writer swallows every failure of building or publishing an anchor.
\<close>

section \<open>Digests and anchors\<close>

definition build_artifact_digest :: "deps \<Rightarrow> dict \<Rightarrow> digest_spec res" where
  "build_artifact_digest D payload =
     bindR (sha256_hex D (JObj payload)) (\<lambda>h.
     Inr \<lparr>dg_algorithm = ''sha-256'', dg_canonicalization = dep_profile D, dg_value = h\<rparr>)"

fun normalize_metadata :: "dict \<Rightarrow> dict res" where
  "normalize_metadata [] = Inr []"
| "normalize_metadata ((k, v) # d) =
     (if k = [] then Inl (Raise ValueError ''execution anchor metadata keys must be non-empty strings'')
      else if (case v of JNull \<Rightarrow> False | JStr _ \<Rightarrow> False | JInt _ \<Rightarrow> False | JFloat _ \<Rightarrow> False | JBool _ \<Rightarrow> False | _ \<Rightarrow> True)
      then Inl (Raise ValueError ''execution anchor metadata value must be a JSON scalar'')
      else bindR (normalize_metadata d) (\<lambda>d'. Inr ((k, v) # d')))"

text \<open>The checks both kinds of anchor share: the correlation of the artifact names this proof.\<close>

definition check_correlation :: "string \<Rightarrow> correlation_ref option \<Rightarrow> pccb \<Rightarrow> unit res" where
  "check_correlation what correlation p =
     (case correlation of None \<Rightarrow> Inl (Raise ValueError (what @ '' must include a correlated pccb_id''))
      | Some c \<Rightarrow>
          if co_pccb_id c = JNull then Inl (Raise ValueError (what @ '' must include a correlated pccb_id''))
          else if co_pccb_id c \<noteq> JStr (pc_pccb_id p)
          then Inl (Raise ValueError (what @ '' correlation pccb_id does not match the supplied PCCB''))
          else if co_action_hash c \<noteq> None \<and> co_action_hash c \<noteq> Some (pc_action_hash p)
          then Inl (Raise ValueError (what @ '' correlation action_hash does not match the supplied PCCB''))
          else Inr ())"

definition create_execution_anchor_from_receipt ::
    "deps \<Rightarrow> datetime \<Rightarrow> dict \<Rightarrow> receipt \<Rightarrow> pccb \<Rightarrow> execution_anchor res" where
  "create_execution_anchor_from_receipt D published_at metadata r p =
     (if rc_outcome r \<noteq> ''executed''
      then Inl (Raise ValueError ''only executed receipts can produce a receipt-based execution anchor'')
      else bindR (check_correlation ''receipt'' (rc_correlation r) p) (\<lambda>_.
        bindR (build_artifact_digest D (pccb_to_dict p)) (\<lambda>pd.
        bindR (build_artifact_digest D (receipt_to_dict r)) (\<lambda>rd.
        bindR (normalize_metadata metadata) (\<lambda>meta.
        anchor_post_init \<lparr>ea_published_at = published_at, ea_outcome = ''executed'',
          ea_action_hash = pc_action_hash p, ea_pccb_digest = pd, ea_receipt_digest = Some rd,
          ea_refusal_digest = None, ea_metadata = meta\<rparr>)))))"

definition create_execution_anchor_from_refusal ::
    "deps \<Rightarrow> datetime \<Rightarrow> dict \<Rightarrow> refusal \<Rightarrow> pccb \<Rightarrow> execution_anchor res" where
  "create_execution_anchor_from_refusal D published_at metadata r p =
     bindR (check_correlation ''refusal'' (rf_correlation r) p) (\<lambda>_.
     bindR (build_artifact_digest D (pccb_to_dict p)) (\<lambda>pd.
     bindR (build_artifact_digest D (refusal_to_dict r)) (\<lambda>rd.
     bindR (normalize_metadata metadata) (\<lambda>meta.
     anchor_post_init \<lparr>ea_published_at = published_at, ea_outcome = ''refused'',
       ea_action_hash = pc_action_hash p, ea_pccb_digest = pd, ea_receipt_digest = None,
       ea_refusal_digest = Some rd, ea_metadata = meta\<rparr>))))"

section \<open>Stores and the in-memory writer\<close>

type_synonym receipt_store = "(string \<times> receipt) list"
type_synonym refusal_store = "(string \<times> refusal) list"

definition put_receipt :: "receipt \<Rightarrow> receipt_store \<Rightarrow> receipt_store" where
  "put_receipt r st = dput st (rc_receipt_id r) r"

definition get_receipt :: "string \<Rightarrow> receipt_store \<Rightarrow> receipt option" where
  "get_receipt rid st = dget st rid"

definition put_refusal :: "refusal \<Rightarrow> refusal_store \<Rightarrow> refusal_store" where
  "put_refusal r st = dput st (rf_refusal_id r) r"

definition get_refusal :: "string \<Rightarrow> refusal_store \<Rightarrow> refusal option" where
  "get_refusal rid st = dget st rid"

record outcome_writer =
  ow_receipts :: "receipt list"
  ow_refusals :: "refusal list"
  ow_receipt_store :: "receipt_store option"
  ow_refusal_store :: "refusal_store option"
  ow_pccb_store :: "(string \<times> pccb) list option"
  ow_graph :: "execution_anchor list option"

text \<open>\<open>dict.get(key)\<close> with a JSON value as the key.\<close>

definition store_get :: "(string \<times> 'v) list \<Rightarrow> json \<Rightarrow> 'v option res" where
  "store_get st key = (if hashable key
     then (case key of JStr s \<Rightarrow> Inr (dget st s) | _ \<Rightarrow> Inr None)
     else Inl (Raise TypeError ''unhashable type''))"

definition publish_anchor :: "execution_anchor res \<Rightarrow> outcome_writer \<Rightarrow> outcome_writer" where
  "publish_anchor anchor w = (case anchor of Inl _ \<Rightarrow> w
     | Inr a \<Rightarrow> w\<lparr>ow_graph := map_option (\<lambda>xs. xs @ [a]) (ow_graph w)\<rparr>)"

text \<open>The publication both write operations end with; only looking up the proof can raise.\<close>

definition publish_outcome :: "correlation_ref option \<Rightarrow> (pccb \<Rightarrow> execution_anchor res) \<Rightarrow> outcome_writer
    \<Rightarrow> unit res \<times> outcome_writer" where
  "publish_outcome correlation build w =
     (case (ow_graph w, ow_pccb_store w) of
        (Some _, Some pccbs) \<Rightarrow>
          (case correlation of None \<Rightarrow> (Inr (), w)
           | Some c \<Rightarrow>
               if co_pccb_id c = JNull then (Inr (), w)
               else (case store_get pccbs (co_pccb_id c) of
                   Inl e \<Rightarrow> (Inl e, w)
                 | Inr None \<Rightarrow> (Inr (), w)
                 | Inr (Some p) \<Rightarrow> (Inr (), publish_anchor (build p) w)))
      | _ \<Rightarrow> (Inr (), w))"

definition write_receipt :: "deps \<Rightarrow> datetime \<Rightarrow> receipt \<Rightarrow> outcome_writer \<Rightarrow> unit res \<times> outcome_writer" where
  "write_receipt D wall r w =
     (let w' = w\<lparr>ow_receipts := ow_receipts w @ [r],
                ow_receipt_store := map_option (put_receipt r) (ow_receipt_store w)\<rparr> in
      if rc_outcome r = ''executed''
      then publish_outcome (rc_correlation r) (create_execution_anchor_from_receipt D wall [] r) w'
      else (Inr (), w'))"

definition write_refusal :: "deps \<Rightarrow> datetime \<Rightarrow> refusal \<Rightarrow> outcome_writer \<Rightarrow> unit res \<times> outcome_writer" where
  "write_refusal D wall r w =
     (let w' = w\<lparr>ow_refusals := ow_refusals w @ [r],
                ow_refusal_store := map_option (put_refusal r) (ow_refusal_store w)\<rparr> in
      publish_outcome (rf_correlation r) (create_execution_anchor_from_refusal D wall [] r) w')"

section \<open>What writing keeps\<close>

lemma publish_outcome_keeps:
  "ow_receipts (snd (publish_outcome c b w)) = ow_receipts w"
  "ow_refusals (snd (publish_outcome c b w)) = ow_refusals w"
  "ow_receipt_store (snd (publish_outcome c b w)) = ow_receipt_store w"
  "ow_refusal_store (snd (publish_outcome c b w)) = ow_refusal_store w"
  "ow_pccb_store (snd (publish_outcome c b w)) = ow_pccb_store w"
  by (simp_all add: publish_outcome_def publish_anchor_def split: option.split sum.split)

lemma write_receipt_receipts [simp]: "ow_receipts (snd (write_receipt D wall r w)) = ow_receipts w @ [r]"
  by (simp add: write_receipt_def publish_outcome_keeps Let_def)

lemma write_receipt_refusals [simp]: "ow_refusals (snd (write_receipt D wall r w)) = ow_refusals w"
  by (simp add: write_receipt_def publish_outcome_keeps Let_def)

lemma write_refusal_refusals [simp]: "ow_refusals (snd (write_refusal D wall r w)) = ow_refusals w @ [r]"
  by (simp add: write_refusal_def publish_outcome_keeps Let_def)

lemma write_refusal_receipts [simp]: "ow_receipts (snd (write_refusal D wall r w)) = ow_receipts w"
  by (simp add: write_refusal_def publish_outcome_keeps Let_def)

lemma publish_outcome_ok:
  "c = Some co \<Longrightarrow> co_pccb_id co = JStr s \<Longrightarrow> fst (publish_outcome c b w) = Inr ()"
  by (simp add: publish_outcome_def store_get_def split: option.split)

lemma write_receipt_ok:
  "rc_correlation r = Some co \<Longrightarrow> co_pccb_id co = JStr p \<Longrightarrow> fst (write_receipt D wall r w) = Inr ()"
  by (simp add: write_receipt_def Let_def publish_outcome_ok)

lemma write_refusal_ok:
  "rf_correlation r = Some co \<Longrightarrow> co_pccb_id co = JStr p \<Longrightarrow> fst (write_refusal D wall r w) = Inr ()"
  by (simp add: write_refusal_def Let_def publish_outcome_ok)

end
