(* ===== verification/Brokers.thy ===== *)
theory Brokers
  imports Runtime Outcomes Programs
begin

text \<open>
  Brokered credentials (\<^verbatim>\<open>credentials/broker.py\<close>) and operation idempotency (\<^verbatim>\<open>idempotency.py\<close>).
\<close>

section \<open>Credentials\<close>

record brokered_credential =
  bc_credential_id :: string
  bc_issued_at :: datetime
  bc_expires_at :: datetime
  bc_scope :: "string list"
  bc_metadata :: dict
  bc_secret_reference :: "string option"

definition to_public_dict :: "brokered_credential \<Rightarrow> dict" where
  "to_public_dict c =
     (let d = [(''credential_id'', JStr (bc_credential_id c)), (''issued_at'', JStr (format_timestamp (bc_issued_at c))),
               (''expires_at'', JStr (format_timestamp (bc_expires_at c))), (''scope'', JArr (map JStr (bc_scope c))),
               (''metadata'', JObj (bc_metadata c))] in
      case bc_secret_reference c of None \<Rightarrow> d | Some s \<Rightarrow> dput d ''secret_reference'' (JStr s))"

text \<open>The broker the executor calls: operations on the outside world \<open>'w\<close>.\<close>

record 'w credential_broker =
  cb_acquire :: "action_intent \<Rightarrow> pccb \<Rightarrow> dynamic_context \<Rightarrow> ('w, brokered_credential) prog"
  cb_release :: "brokered_credential \<Rightarrow> dict \<Rightarrow> ('w, unit) prog"

record memory_broker =
  mb_ttl :: int
  mb_prefix :: string
  mb_ids :: "string list"
  mb_issued :: "brokered_credential list"
  mb_released :: "(brokered_credential \<times> dict) list"

definition memory_broker_init :: "int \<Rightarrow> string \<Rightarrow> string list \<Rightarrow> memory_broker res" where
  "memory_broker_init ttl prefix ids =
     (if ttl \<le> 0 then Inl (Raise ValueError ''ttl must be positive'')
      else Inr \<lparr>mb_ttl = ttl, mb_prefix = rev (dropWhile (\<lambda>c. c = CHR ''/'') (rev prefix)), mb_ids = ids,
        mb_issued = [], mb_released = []\<rparr>)"

definition memory_acquire :: "action_intent \<Rightarrow> pccb \<Rightarrow> dynamic_context \<Rightarrow> (memory_broker, brokered_credential) prog" where
  "memory_acquire i p cx b =
     (case mb_ids b of
        [] \<Rightarrow> (Inl (Raise RuntimeError ''credential_id_factory''), b)
      | cid # ids \<Rightarrow>
          (let b' = b\<lparr>mb_ids := ids\<rparr> in
           case dt_add (cx_now cx) (mb_ttl b) of
             Inl e \<Rightarrow> (Inl e, b')
           | Inr t \<Rightarrow>
               (let c = \<lparr>bc_credential_id = cid, bc_issued_at = cx_now cx, bc_expires_at = min t (pc_expires_at p),
                      bc_scope = sc_capabilities (pc_scope p),
                      bc_metadata = [(''broker'', JStr ''in_memory''), (''intent_id'', JStr (ai_intent_id i)),
                        (''pccb_id'', JStr (pc_pccb_id p)), (''audience'', JObj (audience_to_dict (pc_audience p))),
                        (''capability'', JStr (ac_capability (ai_action i)))],
                      bc_secret_reference = Some (mb_prefix b @ ''/'' @ cid)\<rparr>
                in (Inr c, b'\<lparr>mb_issued := mb_issued b @ [c]\<rparr>))))"

definition memory_release :: "brokered_credential \<Rightarrow> dict \<Rightarrow> (memory_broker, unit) prog" where
  "memory_release c result b = (Inr (), b\<lparr>mb_released := mb_released b @ [(c, result)]\<rparr>)"

definition memory_credential_broker :: "memory_broker credential_broker" where
  "memory_credential_broker = \<lparr>cb_acquire = memory_acquire, cb_release = memory_release\<rparr>"

text \<open>A credential from the in-memory broker never outlives the proof or its time to live.\<close>

lemma memory_acquire_bounds:
  assumes "memory_acquire i p cx b = (Inr c, b')"
  shows "bc_expires_at c \<le> pc_expires_at p \<and> bc_expires_at c \<le> cx_now cx + mb_ttl b \<and>
    bc_scope c = sc_capabilities (pc_scope p) \<and> mb_issued b' = mb_issued b @ [c]"
  using assms by (auto simp: memory_acquire_def Let_def dt_add_Inr split: list.splits sum.splits)

section \<open>Idempotency\<close>

datatype outcome_state =
    REFUSED_BEFORE_EXECUTION | VERIFIED_NOT_EXECUTED | EXECUTION_ATTEMPTED
  | PROVIDER_CONFIRMED_SUCCESS | PROVIDER_CONFIRMED_FAILURE | OUTCOME_UNKNOWN
  | RECONCILED_SUCCESS | RECONCILED_FAILURE

definition is_terminal :: "outcome_state \<Rightarrow> bool" where
  "is_terminal s \<longleftrightarrow> s \<in> {REFUSED_BEFORE_EXECUTION, PROVIDER_CONFIRMED_SUCCESS, PROVIDER_CONFIRMED_FAILURE,
     RECONCILED_SUCCESS, RECONCILED_FAILURE}"

definition is_reconcilable :: "outcome_state \<Rightarrow> bool" where
  "is_reconcilable s \<longleftrightarrow> s \<in> {OUTCOME_UNKNOWN, EXECUTION_ATTEMPTED}"

text \<open>
  The records by operation id. The id is the JSON value of \<open>intent.metadata["operation_id"]\<close>: a key
  that is not hashable raises, and equal numbers of different types are one key.
\<close>

record idempotency_record =
  ir_action_hash :: string
  ir_result :: "dict option"

type_synonym idempotency_store = "(json \<times> idempotency_record) list"

definition idem_find :: "json \<Rightarrow> idempotency_store \<Rightarrow> idempotency_record option" where
  "idem_find key st = map_option snd (List.find (\<lambda>p. py_eq (fst p) key) st)"

definition idem_lookup :: "json \<Rightarrow> idempotency_store \<Rightarrow> idempotency_record option res" where
  "idem_lookup key st =
     (if hashable key then Inr (idem_find key st) else Inl (Raise TypeError ''unhashable type''))"

text \<open>\<open>record\<close>: the first result of an operation is kept.\<close>

definition IdempotencyConflict :: "py_text \<Rightarrow> json \<Rightarrow> string \<Rightarrow> string \<Rightarrow> exn" where
  "IdempotencyConflict T operation_id expected actual =
     RefusalException ''idempotency'' ''IDEMPOTENCY_CONFLICT''
       (''Operation '' @ pt_repr T operation_id @ '' was already executed with a different action_hash. Expected '' @ concat (take 12 (codepoints expected))
         @ ''..., got '' @ concat (take 12 (codepoints actual)) @ ''....'') False
       [(''operation_id'', operation_id), (''expected_action_hash'', JStr expected), (''actual_action_hash'', JStr actual)]"

definition idem_record :: "py_text \<Rightarrow> json \<Rightarrow> string \<Rightarrow> dict option \<Rightarrow> idempotency_store \<Rightarrow> unit res \<times> idempotency_store" where
  "idem_record T key ahash result st =
     (case idem_lookup key st of
        Inl e \<Rightarrow> (Inl e, st)
      | Inr (Some r) \<Rightarrow>
          if ir_action_hash r \<noteq> ahash then (Inl (IdempotencyConflict T key (ir_action_hash r) ahash), st)
          else (Inr (), st)
      | Inr None \<Rightarrow> (Inr (), st @ [(key, \<lparr>ir_action_hash = ahash, ir_result = result\<rparr>)]))"

lemma idem_find_append:
  "idem_find key (st @ st') = (case idem_find key st of None \<Rightarrow> idem_find key st' | Some r \<Rightarrow> Some r)"
  unfolding idem_find_def by (induction st) auto

text \<open>The first record of an operation is never replaced.\<close>

lemma idem_record_keeps: "idem_find k st = Some r \<Longrightarrow> idem_find k (snd (idem_record T key ahash result st)) = Some r"
  by (auto simp: idem_record_def idem_find_append split: sum.split option.split)

end
