(* ===== verification/Executor.thy ===== *)
theory Executor
  imports Escrow Effects Brokers
begin

text \<open>
  The protected executor (\<^verbatim>\<open>execution/protected_executor.py\<close>, \<^verbatim>\<open>core/redaction.py\<close>). The world an
  executor acts on is its replay store, its escrow, its idempotency store, its outcome writer and
  the outside world of the broker, the effect ledger and the handler; the local variables of
  \<open>execute\<close> extend it. The statements of \<open>execute\<close> are programs in source order; \<open>execute\<close> itself is
  their composition with the two \<open>except\<close> clauses.
\<close>

section \<open>Configuration and state\<close>

record 's replay_ops =
  ro_claim :: "execution_request \<Rightarrow> ('s, consumption_state option) prog"
  ro_mark :: "string \<Rightarrow> datetime \<Rightarrow> ('s, consumption_state option) prog"
  ro_release :: "string \<Rightarrow> datetime \<Rightarrow> string \<Rightarrow> ('s, consumption_state option) prog"

definition db_replay :: "deps \<Rightarrow> replay_store replay_ops" where
  "db_replay D = \<lparr>ro_claim = claim_request D, ro_mark = mark_consumed, ro_release = release_claim\<rparr>"

type_synonym 'e escrow_consume = "json \<Rightarrow> string \<Rightarrow> string \<Rightarrow> datetime \<Rightarrow> ('e, escrow_record) prog"

text \<open>What every component that writes outcomes is configured with: text conversions, the two id
  factories, and the wall clock the writer reads.\<close>

record factories =
  ex_text :: py_text
  ex_receipt_id :: "nat \<Rightarrow> string"
  ex_refusal_id :: "nat \<Rightarrow> string"
  ex_wall :: datetime

record ('s, 'e, 'w) executor = factories +
  ex_verifier :: verifier
  ex_broker :: "'w credential_broker"
  ex_replay :: "'s replay_ops option"
  ex_fail_open :: bool
  ex_escrow :: "'e escrow_consume option"
  ex_effects :: "'w effect_protector option"
  ex_idempotent :: bool

record ('s, 'e, 'w) world =
  wo_replay :: 's
  wo_escrow :: 'e
  wo_outside :: 'w
  wo_idempotency :: idempotency_store
  wo_writer :: outcome_writer
  wo_artifacts :: nat

record ('s, 'e, 'w) exec_state = "('s, 'e, 'w) world" +
  lv_replay_state :: "consumption_state option"
  lv_replay_consumed :: bool
  lv_credential :: "brokered_credential option"
  lv_handler_started :: bool
  lv_effect_reference :: "effect_reference option"
  lv_effect_evidence :: "dict option"

type_synonym ('s, 'e, 'w, 'a) xprog = "(('s, 'e, 'w) exec_state, 'a) prog"
type_synonym 'w brokered_handler = "execution_request \<Rightarrow> brokered_credential \<Rightarrow> ('w, dict option) prog"

definition on_replay :: "('s, 'a) prog \<Rightarrow> (('s, 'e, 'w, 'z) world_scheme, 'a) prog" where
  "on_replay = zoomP wo_replay (\<lambda>c s. s\<lparr>wo_replay := c\<rparr>)"

definition on_escrow :: "('e, 'a) prog \<Rightarrow> (('s, 'e, 'w, 'z) world_scheme, 'a) prog" where
  "on_escrow = zoomP wo_escrow (\<lambda>c s. s\<lparr>wo_escrow := c\<rparr>)"

definition on_outside :: "('w, 'a) prog \<Rightarrow> (('s, 'e, 'w, 'z) world_scheme, 'a) prog" where
  "on_outside = zoomP wo_outside (\<lambda>c s. s\<lparr>wo_outside := c\<rparr>)"

definition on_idempotency :: "(idempotency_store, 'a) prog \<Rightarrow> (('s, 'e, 'w, 'z) world_scheme, 'a) prog" where
  "on_idempotency = zoomP wo_idempotency (\<lambda>c s. s\<lparr>wo_idempotency := c\<rparr>)"

definition on_writer :: "(outcome_writer, 'a) prog \<Rightarrow> (('s, 'e, 'w, 'z) world_scheme, 'a) prog" where
  "on_writer = zoomP wo_writer (\<lambda>c s. s\<lparr>wo_writer := c\<rparr>)"

text \<open>Calling an id factory: the next identifier, used up when the artifact is built.\<close>

definition new_artifact :: "(nat \<Rightarrow> string) \<Rightarrow> (string \<Rightarrow> 'a res) \<Rightarrow> (('s, 'e, 'w, 'z) world_scheme, 'a) prog" where
  "new_artifact ids build s = (case build (ids (wo_artifacts s)) of
      Inl e \<Rightarrow> (Inl e, s) | Inr x \<Rightarrow> (Inr x, s\<lparr>wo_artifacts := Suc (wo_artifacts s)\<rparr>))"

section \<open>Refusals the executor raises\<close>

definition policy_refusal :: "policy_decision \<Rightarrow> exn" where
  "policy_refusal d =
     (case mapR (\<lambda>r. bindR (py_list (get_or (ru_details r) ''evidence_keys'' (JArr []))) (\<lambda>keys.
          Inr (JObj [(''reason_code'', JStr (ru_reason_code r)), (''summary'', JStr (ru_summary r)),
            (''required_evidence'', JArr (map JStr (ru_required_evidence r))),
            (''required_approvals'', JArr (map JStr (ru_approver_types r))), (''evidence_keys'', JArr keys)])))
          (filter (\<lambda>r. ru_outcome r \<noteq> ''allow'') (pd_rule_evaluations d)) of
        Inl e \<Rightarrow> e
      | Inr unmet \<Rightarrow>
          Refuse \<lparr>re_category = ''policy'',
            re_code = (case pd_reason_codes d of [] \<Rightarrow> ''POLICY_REFUSED'' | c # _ \<Rightarrow> c),
            re_message = pd_summary d, re_retryable = pd_outcome d \<in> {''approval-required'', ''needs-evidence''},
            re_rule_refs = map ru_rule_id (pd_rule_evaluations d), re_violations = [],
            re_details = [(''policy_outcome'', JStr (pd_outcome d)),
              (''reason_codes'', JArr (map JStr (pd_reason_codes d))),
              (''required_evidence'', JArr (map JStr (pd_required_evidence d))),
              (''approver_types'', JArr (map JStr (pd_approver_types d))),
              (''unmet_requirements'', JArr unmet)]\<rparr>)"

definition store_unavailable :: "string \<Rightarrow> string \<Rightarrow> exn" where
  "store_unavailable message operation =
     RefusalException ''replay'' ''REPLAY_STORE_UNAVAILABLE'' message True [(''operation'', JStr operation)]"

definition SAFE_HANDLER_EXCEPTION_MESSAGE :: string where
  "SAFE_HANDLER_EXCEPTION_MESSAGE =
     ''Execution failed after verification; sensitive exception details were redacted from the artifact.''"

definition exception_type :: "exn \<Rightarrow> string" where
  "exception_type e = (case e of Raise c _ \<Rightarrow> class_name c | Refuse _ \<Rightarrow> ''RefusalException'')"

definition redacted_handler_exception_details :: "exn \<Rightarrow> string option \<Rightarrow> dict" where
  "redacted_handler_exception_details e request_id =
     (let d = [(''exception_type'', JStr (exception_type e)), (''phase'', JStr ''execution''),
               (''safe_error_code'', JStr ''EXECUTION_FAILED''), (''sensitive_details_redacted'', JBool True)] in
      case request_id of None \<Rightarrow> d | Some r \<Rightarrow> dput d ''request_id'' (JStr r))"

section \<open>Replay and credential steps\<close>

definition claim_replay :: "('s, 'e, 'w) executor \<Rightarrow> execution_request \<Rightarrow> ('s, 'e, 'w, consumption_state option) xprog" where
  "claim_replay X rq =
     (case ex_replay X of
        None \<Rightarrow> retP None
      | Some ro \<Rightarrow> catchP (on_replay (ro_claim ro rq)) (\<lambda>e.
          if is_refusal e then raiseP e
          else if ex_fail_open X then retP None
          else raiseP (store_unavailable
            ''Replay/single-use state could not be established. Execution was refused.'' ''claim'')))"

definition mark_replay_consumed :: "('s, 'e, 'w) executor \<Rightarrow> execution_request \<Rightarrow> ('s, 'e, 'w, bool) xprog" where
  "mark_replay_consumed X rq =
     bindP (readP lv_replay_state) (\<lambda>state.
     case ex_replay X of
       None \<Rightarrow> retP False
     | Some ro \<Rightarrow> (case state of
         None \<Rightarrow> retP False
       | Some cs \<Rightarrow> catchP (bindP (on_replay (ro_mark ro (cs_replay_key cs) (cx_now (rq_context rq)))) (\<lambda>_. retP True)) (\<lambda>e.
           if is_refusal e then raiseP e
           else if ex_fail_open X then retP False
           else raiseP (store_unavailable
             ''Replay/single-use consumption could not be recorded. Execution was refused.'' ''consume''))))"

definition release_replay_claim :: "('s, 'e, 'w) executor \<Rightarrow> execution_request \<Rightarrow> string \<Rightarrow> ('s, 'e, 'w, unit) xprog" where
  "release_replay_claim X rq reason =
     bindP (readP lv_replay_state) (\<lambda>state.
     case ex_replay X of
       None \<Rightarrow> retP ()
     | Some ro \<Rightarrow> (case state of
         None \<Rightarrow> retP ()
       | Some cs \<Rightarrow> catchP (bindP (on_replay (ro_release ro (cs_replay_key cs) (cx_now (rq_context rq)) reason)) (\<lambda>_. retP ()))
           (\<lambda>_. retP ())))"

definition release_credential :: "('s, 'e, 'w) executor \<Rightarrow> dict \<Rightarrow> ('s, 'e, 'w, unit) xprog" where
  "release_credential X outcome =
     bindP (readP lv_credential) (\<lambda>c.
     case c of None \<Rightarrow> retP ()
     | Some c \<Rightarrow> catchP (on_outside (cb_release (ex_broker X) c outcome)) (\<lambda>_. retP ()))"

section \<open>The body of execute\<close>

definition check_policy :: "policy_decision option \<Rightarrow> ('s, 'e, 'w, unit) xprog" where
  "check_policy decision = (case decision of None \<Rightarrow> retP ()
     | Some d \<Rightarrow> if decision_allowed d then retP () else raiseP (policy_refusal d))"

definition check_effect_extension :: "('s, 'e, 'w) executor \<Rightarrow> pccb \<Rightarrow> ('s, 'e, 'w, unit) xprog" where
  "check_effect_extension X p =
     (if dmem (pc_extensions p) ''effect'' \<and> ex_effects X = None
      then raiseP (RefusalException ''policy'' ''POLICY_REFUSAL''
        ''This proof requires authoritative effect ownership verification at the edge.'' False [])
      else retP ())"

definition store_receipt :: "deps \<Rightarrow> 'f factories_scheme \<Rightarrow> receipt \<Rightarrow> (('s, 'e, 'w, 'z) world_scheme, unit) prog" where
  "store_receipt D X r = on_writer (write_receipt D (ex_wall X) r)"

definition store_refusal :: "deps \<Rightarrow> 'f factories_scheme \<Rightarrow> refusal \<Rightarrow> (('s, 'e, 'w, 'z) world_scheme, unit) prog" where
  "store_refusal D X r = on_writer (write_refusal D (ex_wall X) r)"

definition execution_receipt :: "'f factories_scheme \<Rightarrow> execution_request \<Rightarrow> dict option
    \<Rightarrow> (('s, 'e, 'w, 'z) world_scheme, receipt) prog" where
  "execution_receipt X rq payload = new_artifact (ex_receipt_id X) (\<lambda>rid.
     create_execution_receipt (ex_text X) rid (rq_intent rq) (rq_context rq) (pc_pccb_id (rq_pccb rq))
       (pc_escrow_id (rq_pccb rq)) payload (Some (pc_action_hash (rq_pccb rq))))"

text \<open>\<open>operation_id is not None and idempotency_store is not None and effect_protector is None\<close>.\<close>

definition idempotency_key :: "('s, 'e, 'w) executor \<Rightarrow> execution_request \<Rightarrow> json option" where
  "idempotency_key X rq =
     (let op = get_or_null (ai_metadata (rq_intent rq)) ''operation_id'' in
      if op \<noteq> JNull \<and> ex_idempotent X \<and> ex_effects X = None then Some op else None)"

definition idempotency_mismatch :: "py_text \<Rightarrow> json \<Rightarrow> string \<Rightarrow> string \<Rightarrow> exn" where
  "idempotency_mismatch T operation_id expected actual =
     RefusalException ''idempotency'' ''IDEMPOTENCY_CONFLICT''
       (''Operation '' @ pt_repr T operation_id @ '' was already executed with a different action_hash.'') False
       [(''operation_id'', operation_id), (''expected_action_hash'', JStr expected), (''actual_action_hash'', JStr actual)]"

text \<open>The idempotency check: a prior result for the same action ends the execution.\<close>

definition prior_result :: "deps \<Rightarrow> ('s, 'e, 'w) executor \<Rightarrow> execution_request \<Rightarrow> ('s, 'e, 'w, execution_result option) xprog" where
  "prior_result D X rq =
     (case idempotency_key X rq of
        None \<Rightarrow> retP None
      | Some op \<Rightarrow>
          bindP (readP wo_idempotency) (\<lambda>st.
          bindP (liftP (idem_lookup op st)) (\<lambda>prior.
          case prior of
            None \<Rightarrow> retP None
          | Some r \<Rightarrow>
              if ir_action_hash r \<noteq> ah_value (pc_action_hash (rq_pccb rq))
              then raiseP (idempotency_mismatch (ex_text X) op (ir_action_hash r) (ah_value (pc_action_hash (rq_pccb rq))))
              else
                bindP (mark_replay_consumed X rq) (\<lambda>consumed.
                bindP (modP (\<lambda>s. s\<lparr>lv_replay_consumed := consumed\<rparr>)) (\<lambda>_.
                bindP (execution_receipt X rq (ir_result r)) (\<lambda>receipt.
                bindP (store_receipt D X receipt) (\<lambda>_.
                retP (Some \<lparr>xr_receipt = Some receipt, xr_refusal = None, xr_payload = ir_result r\<rparr>))))))))"

definition consume_escrow :: "('s, 'e, 'w) executor \<Rightarrow> execution_request \<Rightarrow> ('s, 'e, 'w, unit) xprog" where
  "consume_escrow X rq =
     (case ex_escrow X of
        None \<Rightarrow> retP ()
      | Some consume \<Rightarrow>
          if pc_escrow_id (rq_pccb rq) = JNull
          then raiseP (RefusalException ''escrow'' ''ESCROW_REFERENCE_MISSING''
            ''The proof does not include an escrow reference.'' False [])
          else bindP (on_escrow (consume (pc_escrow_id (rq_pccb rq)) (pc_pccb_id (rq_pccb rq))
              (ac_capability (ai_action (rq_intent rq))) (cx_now (rq_context rq)))) (\<lambda>_. retP ()))"

definition own_effect :: "deps \<Rightarrow> ('s, 'e, 'w) executor \<Rightarrow> execution_request \<Rightarrow> ('s, 'e, 'w, unit) xprog" where
  "own_effect D X rq =
     (case ex_effects X of None \<Rightarrow> retP ()
      | Some P \<Rightarrow> bindP (on_outside (claim_effect D P rq)) (\<lambda>ref.
          modP (\<lambda>s. s\<lparr>lv_effect_reference := Some ref\<rparr>)))"

text \<open>The checks of the evidence a handler returns for an effect.\<close>

definition evidence_keys :: "effect_reference \<Rightarrow> string set" where
  "evidence_keys ref = set (map fst (reference_to_dict ref)) \<union> {''outcome'', ''execution_occurred'', ''evidence_hash''}"

definition read_evidence :: "deps \<Rightarrow> effect_reference \<Rightarrow> dict option \<Rightarrow> dict res" where
  "read_evidence D ref payload =
     (case get_or_null (payload_dict payload) ''effect_evidence'' of
        JObj raw \<Rightarrow>
          if set (map fst raw) \<noteq> evidence_keys ref
          then Inl (Raise ValueError ''missing boundary consequence evidence'')
          else if \<not> list_all (\<lambda>(k, v). py_eq (get_or_null raw k) v) (reference_to_dict ref)
          then Inl (Raise ValueError ''boundary evidence refers to another effect'')
          else bindR (dep_validate_effect_outcome D (get_or_null raw ''outcome'')
              (get_or_null raw ''execution_occurred'') (get_or_null raw ''evidence_hash'')) (\<lambda>_. Inr raw)
      | _ \<Rightarrow> Inl (Raise ValueError ''missing boundary consequence evidence''))"

definition evidence_invalid :: exn where
  "evidence_invalid = RefusalException ''execution'' ''OUTCOME_UNKNOWN''
     ''The protected boundary did not provide valid consequence evidence; the effect remains held.'' False []"

definition check_evidence :: "deps \<Rightarrow> dict option \<Rightarrow> ('s, 'e, 'w, unit) xprog" where
  "check_evidence D payload =
     bindP (readP lv_effect_reference) (\<lambda>ref.
     case ref of None \<Rightarrow> retP ()
     | Some ref \<Rightarrow>
         bindP (catchP (liftP (read_evidence D ref payload))
           (\<lambda>e. if is_refusal e then raiseP e else raiseP evidence_invalid)) (\<lambda>evidence.
         bindP (modP (\<lambda>s. s\<lparr>lv_effect_evidence := Some evidence\<rparr>)) (\<lambda>_.
         if get_or_null evidence ''outcome'' = JStr ''COMMITTED'' then retP ()
         else raiseP (RefusalException ''execution''
           (if get_or_null evidence ''outcome'' = JStr ''AMBIGUOUS'' then ''OUTCOME_UNKNOWN'' else ''PROVIDER_REFUSAL'')
           ''The protected boundary did not confirm a committed consequence.'' False []))))"

definition broker_payload :: "brokered_credential \<Rightarrow> dict" where
  "broker_payload c =
     [(''brokered_credential'', JObj (to_public_dict c)),
      (''credential_broker'', JObj [(''mode'', JStr ''protected_endpoint''), (''credential_material_exposed'', JBool False)])]"

definition json_payload :: "dict option \<Rightarrow> json" where
  "json_payload payload = (case payload of None \<Rightarrow> JNull | Some d \<Rightarrow> JObj d)"

definition record_idempotency :: "('s, 'e, 'w) executor \<Rightarrow> execution_request \<Rightarrow> dict option \<Rightarrow> ('s, 'e, 'w, unit) xprog" where
  "record_idempotency X rq payload = (case idempotency_key X rq of None \<Rightarrow> retP ()
     | Some op \<Rightarrow> on_idempotency (idem_record (ex_text X) op (ah_value (pc_action_hash (rq_pccb rq))) payload))"

text \<open>After the handler has returned: the release of the credential, the receipt, the bookkeeping.\<close>

definition finish_execution :: "deps \<Rightarrow> ('s, 'e, 'w) executor \<Rightarrow> execution_request \<Rightarrow> brokered_credential \<Rightarrow> dict option
    \<Rightarrow> ('s, 'e, 'w, execution_result) xprog" where
  "finish_execution D X rq c payload =
     bindP (on_outside (cb_release (ex_broker X) c [(''outcome'', JStr ''executed''), (''payload'', json_payload payload)])) (\<lambda>_.
     bindP (execution_receipt X rq (Some (dmerge (payload_dict payload) (broker_payload c)))) (\<lambda>receipt.
     bindP (readP lv_effect_evidence) (\<lambda>evidence.
     let receipt' = (case evidence of None \<Rightarrow> receipt
           | Some e \<Rightarrow> receipt\<lparr>rc_extensions := dput (rc_extensions receipt) ''effect'' (JObj e)\<rparr>) in
     bindP (store_receipt D X receipt') (\<lambda>_.
     bindP (record_idempotency X rq payload) (\<lambda>_.
     retP \<lparr>xr_receipt = Some receipt', xr_refusal = None, xr_payload = payload\<rparr>)))))"

text \<open>\<open>handler_started = True; payload = handler(request, brokered_credential)\<close>.\<close>

definition call_handler :: "'w brokered_handler \<Rightarrow> execution_request \<Rightarrow> brokered_credential
    \<Rightarrow> ('s, 'e, 'w, dict option) xprog" where
  "call_handler handler rq c =
     bindP (modP (\<lambda>s. s\<lparr>lv_handler_started := True\<rparr>)) (\<lambda>_. on_outside (handler rq c))"

definition dispatch :: "deps \<Rightarrow> ('s, 'e, 'w) executor \<Rightarrow> execution_request \<Rightarrow> 'w brokered_handler
    \<Rightarrow> ('s, 'e, 'w, execution_result) xprog" where
  "dispatch D X rq handler =
     bindP (consume_escrow X rq) (\<lambda>_.
     bindP (own_effect D X rq) (\<lambda>_.
     bindP (on_outside (cb_acquire (ex_broker X) (rq_intent rq) (rq_pccb rq) (rq_context rq))) (\<lambda>c.
     bindP (modP (\<lambda>s. s\<lparr>lv_credential := Some c\<rparr>)) (\<lambda>_.
     bindP (mark_replay_consumed X rq) (\<lambda>consumed.
     bindP (modP (\<lambda>s. s\<lparr>lv_replay_consumed := consumed\<rparr>)) (\<lambda>_.
     bindP (call_handler handler rq c) (\<lambda>payload.
     bindP (check_evidence D payload) (\<lambda>_.
     finish_execution D X rq c payload))))))))"

definition execute_body :: "deps \<Rightarrow> ('s, 'e, 'w) executor \<Rightarrow> execution_request \<Rightarrow> 'w brokered_handler
    \<Rightarrow> policy_decision option \<Rightarrow> ('s, 'e, 'w, execution_result) xprog" where
  "execute_body D X rq handler decision =
     bindP (liftP (verify D (ex_verifier X) (rq_intent rq) (rq_pccb rq) (rq_context rq))) (\<lambda>_.
     bindP (check_policy decision) (\<lambda>_.
     bindP (check_effect_extension X (rq_pccb rq)) (\<lambda>_.
     bindP (claim_replay X rq) (\<lambda>state.
     bindP (modP (\<lambda>s. s\<lparr>lv_replay_state := state\<rparr>)) (\<lambda>_.
     bindP (prior_result D X rq) (\<lambda>prior.
     case prior of Some result \<Rightarrow> retP result
     | None \<Rightarrow> dispatch D X rq handler))))))"

section \<open>The except clauses\<close>

definition effect_refusal_receipt :: "deps \<Rightarrow> receipt \<Rightarrow> effect_reference \<Rightarrow> bool \<Rightarrow> dict option \<Rightarrow> receipt res" where
  "effect_refusal_receipt D r ref started evidence =
     bindR (case evidence of Some e \<Rightarrow> Inr e
       | None \<Rightarrow> bindR (sha256_hex D (JObj [(''reference'', JObj (reference_to_dict ref)),
             (''handler_started'', JBool started), (''reason'', JArr (map JStr (rc_reason_codes r)))])) (\<lambda>h.
           Inr (reference_to_dict ref @
             [(''outcome'', JStr (if started then ''AMBIGUOUS'' else ''NOT_EXECUTED'')),
              (''execution_occurred'', if started then JNull else JBool False), (''evidence_hash'', JStr h)]))) (\<lambda>e.
     let ambiguous = (get_or_null e ''outcome'' = JStr ''AMBIGUOUS'') in
     Inr (r\<lparr>rc_summary := (if ambiguous
              then ''Execution outcome is unknown; blind retry is refused until reconciliation.'' else rc_summary r),
            rc_side_effects := [(''state'', JStr (if ambiguous then ''unknown'' else ''none''))],
            rc_extensions := dput (rc_extensions r) ''effect'' (JObj e)\<rparr>))"

text \<open>The refusal, the refused receipt and their writing, with which both clauses end.\<close>

definition refusal_for :: "execution_request \<Rightarrow> refusal_exception \<Rightarrow> string \<Rightarrow> refusal" where
  "refusal_for rq exc rid = create_from_exception rid exc (cx_now (rq_context rq))
     (Some (rq_intent rq)) (Some (rq_context rq)) (JStr (pc_pccb_id (rq_pccb rq))) (pc_escrow_id (rq_pccb rq))
     (Some (pc_action_hash (rq_pccb rq)))"

definition report_refusal :: "deps \<Rightarrow> 'f factories_scheme \<Rightarrow> execution_request \<Rightarrow> refusal_exception
    \<Rightarrow> ('s, 'e, 'w, execution_result) xprog" where
  "report_refusal D X rq exc =
     bindP (new_artifact (ex_refusal_id X) (\<lambda>rid. Inr (refusal_for rq exc rid))) (\<lambda>refusal.
     bindP (new_artifact (ex_receipt_id X) (\<lambda>rid.
       create_refused_receipt (ex_text X) rid (rq_intent rq) (rq_context rq) refusal)) (\<lambda>receipt.
     bindP (readP (\<lambda>s. s)) (\<lambda>s.
     bindP (case lv_effect_reference s of None \<Rightarrow> retP receipt
       | Some ref \<Rightarrow> liftP (effect_refusal_receipt D receipt ref (lv_handler_started s) (lv_effect_evidence s))) (\<lambda>receipt'.
     bindP (store_refusal D X refusal) (\<lambda>_.
     bindP (store_receipt D X receipt') (\<lambda>_.
     retP \<lparr>xr_receipt = Some receipt', xr_refusal = Some refusal, xr_payload = None\<rparr>))))))"

definition simple_refusal :: "string \<Rightarrow> string \<Rightarrow> string \<Rightarrow> dict \<Rightarrow> refusal_exception" where
  "simple_refusal category code message details =
     \<lparr>re_category = category, re_code = code, re_message = message, re_retryable = False,
      re_rule_refs = [], re_violations = [], re_details = details\<rparr>"

text \<open>\<open>except RefusalException\<close>.\<close>

definition on_refusal :: "deps \<Rightarrow> ('s, 'e, 'w) executor \<Rightarrow> execution_request \<Rightarrow> refusal_exception
    \<Rightarrow> ('s, 'e, 'w, execution_result) xprog" where
  "on_refusal D X rq caught =
     bindP (readP (\<lambda>s. s)) (\<lambda>s.
     let exc = (if lv_effect_reference s \<noteq> None \<and> lv_handler_started s \<and> lv_effect_evidence s = None
           then simple_refusal ''execution'' ''OUTCOME_UNKNOWN''
             ''Execution may have crossed the protected boundary; the effect remains held for reconciliation.'' []
           else caught) in
     bindP (release_credential X
       [(''outcome'', JStr (if re_code exc = ''OUTCOME_UNKNOWN'' then ''ambiguous'' else ''refused'')),
        (''reason_code'', JStr (re_code exc))]) (\<lambda>_.
     bindP (if lv_replay_consumed s then retP () else release_replay_claim X rq (re_code exc)) (\<lambda>_.
     report_refusal D X rq exc)))"

text \<open>\<open>except Exception\<close>: here an unconsumed claim is consumed, not released.\<close>

definition on_exception :: "deps \<Rightarrow> ('s, 'e, 'w) executor \<Rightarrow> execution_request \<Rightarrow> exn
    \<Rightarrow> ('s, 'e, 'w, execution_result) xprog" where
  "on_exception D X rq e =
     bindP (readP (\<lambda>s. s)) (\<lambda>s.
     let details = redacted_handler_exception_details e (Some (cx_request_id (rq_context rq)));
         held = lv_effect_reference s \<noteq> None \<and> lv_handler_started s in
     bindP (release_credential X (dmerge
       [(''outcome'', JStr (if held then ''ambiguous'' else ''failed'')), (''safe_error_code'', JStr ''EXECUTION_FAILED'')]
       details)) (\<lambda>_.
     bindP (if \<not> lv_replay_consumed s \<and> lv_replay_state s \<noteq> None
         then catchP (bindP (mark_replay_consumed X rq) (\<lambda>consumed. modP (\<lambda>s. s\<lparr>lv_replay_consumed := consumed\<rparr>)))
           (\<lambda>e'. if is_refusal e' then retP () else raiseP e')
         else retP ()) (\<lambda>_.
     report_refusal D X rq (if held
       then simple_refusal ''execution'' ''OUTCOME_UNKNOWN''
         ''The execution outcome is unknown; the effect remains held for reconciliation.'' details
       else simple_refusal ''execution'' ''EXECUTION_FAILED'' SAFE_HANDLER_EXCEPTION_MESSAGE details))))"

definition start_state :: "('s, 'e, 'w) world \<Rightarrow> ('s, 'e, 'w) exec_state" where
  "start_state w = world.extend w
     \<lparr>lv_replay_state = None, lv_replay_consumed = False, lv_credential = None, lv_handler_started = False,
      lv_effect_reference = None, lv_effect_evidence = None\<rparr>"

definition execute_try :: "deps \<Rightarrow> ('s, 'e, 'w) executor \<Rightarrow> execution_request \<Rightarrow> 'w brokered_handler
    \<Rightarrow> policy_decision option \<Rightarrow> ('s, 'e, 'w, execution_result) xprog" where
  "execute_try D X rq handler decision =
     catchP (execute_body D X rq handler decision) (\<lambda>e.
       case e of Refuse exc \<Rightarrow> on_refusal D X rq exc | Raise _ _ \<Rightarrow> on_exception D X rq e)"

definition execute :: "deps \<Rightarrow> ('s, 'e, 'w) executor \<Rightarrow> execution_request \<Rightarrow> 'w brokered_handler
    \<Rightarrow> policy_decision option \<Rightarrow> (('s, 'e, 'w) world, execution_result) prog" where
  "execute D X rq handler decision w =
     (case execute_try D X rq handler decision (start_state w) of (r, s) \<Rightarrow> (r, world.truncate s))"

section \<open>Invariants of the body\<close>

text \<open>
  The part of the state that single use is about: the replay store, the claim held and whether the
  handler has been called. \<open>core_stable I\<close>: the predicate \<open>I\<close> looks at nothing else.
\<close>

definition same_core :: "('s, 'e, 'w) exec_state \<Rightarrow> ('s, 'e, 'w) exec_state \<Rightarrow> bool" where
  "same_core s s' \<longleftrightarrow> wo_replay s' = wo_replay s \<and> lv_replay_state s' = lv_replay_state s \<and>
     lv_handler_started s' = lv_handler_started s"

definition core_stable :: "(('s, 'e, 'w) exec_state \<Rightarrow> bool) \<Rightarrow> bool" where
  "core_stable I \<longleftrightarrow> (\<forall>s s'. same_core s s' \<longrightarrow> I s \<longrightarrow> I s')"

named_theorems keeps_core "programs that keep every predicate on the core state"

lemma core_stableD: "core_stable I \<Longrightarrow> I s \<Longrightarrow> wo_replay s' = wo_replay s \<Longrightarrow>
    lv_replay_state s' = lv_replay_state s \<Longrightarrow> lv_handler_started s' = lv_handler_started s \<Longrightarrow> I s'"
  by (auto simp: core_stable_def same_core_def)

lemma keeps_core_basic [keeps_core]:
  fixes I :: "('s, 'e, 'w) exec_state \<Rightarrow> bool"
  assumes "core_stable I"
  shows "keeps I (on_outside m1)" "keeps I (on_escrow m2)" "keeps I (on_writer m3)" "keeps I (on_idempotency m4)"
    "keeps I (liftP r)" "keeps I (readP f)" "keeps I (retP x)" "keeps I (raiseP e)" "keeps I (new_artifact ids b)"
    "keeps I (modP (\<lambda>s. s\<lparr>lv_credential := c\<rparr>))" "keeps I (modP (\<lambda>s. s\<lparr>lv_replay_consumed := b1\<rparr>))"
    "keeps I (modP (\<lambda>s. s\<lparr>lv_effect_reference := er\<rparr>))" "keeps I (modP (\<lambda>s. s\<lparr>lv_effect_evidence := ee\<rparr>))"
  by (rule keepsI, erule core_stableD[OF assms];
      simp add: on_outside_def on_escrow_def on_writer_def on_idempotency_def prog_defs new_artifact_def
        split: prod.split sum.split)+

lemma keeps_bindP [keeps_core]: "keeps I m \<Longrightarrow> (\<And>x. keeps I (f x)) \<Longrightarrow> keeps I (bindP m f)"
  by (rule valid_bindP)

lemma keeps_catchP [keeps_core]: "keeps I m \<Longrightarrow> (\<And>e. keeps I (h e)) \<Longrightarrow> keeps I (catchP m h)"
  by (rule valid_catchP)

lemma keeps_core_steps:
  assumes I: "core_stable I"
  shows "keeps I (release_credential X outcome)" "keeps I (consume_escrow X rq)" "keeps I (own_effect D X rq)"
    "keeps I (check_evidence D payload)" "keeps I (finish_execution D X rq c payload)"
    "keeps I (report_refusal D X rq exc)" "keeps I (check_policy decision)" "keeps I (check_effect_extension X p)"
    "keeps I (execution_receipt X rq pl)" "keeps I (store_receipt D X r)"
  unfolding release_credential_def consume_escrow_def own_effect_def check_evidence_def finish_execution_def
    report_refusal_def check_policy_def check_effect_extension_def execution_receipt_def store_receipt_def
    store_refusal_def record_idempotency_def Let_def
  by (intro keeps_bindP keeps_catchP keeps_core_basic[OF I] valid_if valid_case_option)+

section \<open>The replay contract\<close>

text \<open>
  What the executor relies on: a claim that succeeds yields a record under the key of the request, a
  key is consumed at most once and stays consumed, whatever the executor or anything else that
  shares the store does.
\<close>

definition claim_inv :: "('s \<Rightarrow> string \<Rightarrow> bool) \<Rightarrow> 's \<Rightarrow> bool \<Rightarrow> string option \<Rightarrow> ('s, 'e, 'w) exec_state \<Rightarrow> bool" where
  "claim_inv spent r0 ok key s \<longleftrightarrow>
     (\<forall>k. spent r0 k \<longrightarrow> spent (wo_replay s) k) \<and>
     (\<forall>cs. lv_replay_state s = Some cs \<longrightarrow> key = Some (cs_replay_key cs)) \<and>
     (lv_handler_started s \<longrightarrow> ok \<and> (\<exists>k. key = Some k \<and> spent (wo_replay s) k \<and> \<not> spent r0 k))"

lemma claim_inv_stable:
  "core_stable (claim_inv spent r0 ok key)"
  "core_stable (\<lambda>s. claim_inv spent r0 ok key s \<and> Q (lv_replay_state s) (wo_replay s) (lv_handler_started s))"
  by (simp_all add: core_stable_def same_core_def claim_inv_def)

text \<open>The executor \<open>X\<close> with the replay store \<open>ro\<close> and failures refused.\<close>

definition guarded :: "'s replay_ops \<Rightarrow> ('s, 'e, 'w) executor \<Rightarrow> ('s, 'e, 'w) executor" where
  "guarded ro X = X\<lparr>ex_replay := Some ro, ex_fail_open := False\<rparr>"

definition cleared :: "deps \<Rightarrow> ('s, 'e, 'w) executor \<Rightarrow> execution_request \<Rightarrow> policy_decision option \<Rightarrow> bool" where
  "cleared D X rq decision \<longleftrightarrow> verify D (ex_verifier X) (rq_intent rq) (rq_pccb rq) (rq_context rq) = Inr () \<and>
     (case decision of None \<Rightarrow> True | Some d \<Rightarrow> decision_allowed d)"

datatype ('s, 'e, 'w, 'o) exec_op =
    Call "('s, 'e, 'w) executor" execution_request "'w brokered_handler" "policy_decision option"
  | Elsewhere 'o

fun run_exec :: "deps \<Rightarrow> 's replay_ops \<Rightarrow> ('o \<Rightarrow> 's \<Rightarrow> 's) \<Rightarrow> ('s, 'e, 'w, 'o) exec_op \<Rightarrow> ('s, 'e, 'w) world \<Rightarrow> ('s, 'e, 'w) world" where
  "run_exec D ro other (Call X rq handler decision) w = snd (execute D (guarded ro X) rq handler decision w)"
| "run_exec D ro other (Elsewhere op) w = w\<lparr>wo_replay := other op (wo_replay w)\<rparr>"

text \<open>The key under which a call reaches its handler.\<close>

fun handler_key :: "deps \<Rightarrow> 's replay_ops \<Rightarrow> (execution_request \<Rightarrow> string option) \<Rightarrow> ('s, 'e, 'w, 'o) exec_op
    \<Rightarrow> ('s, 'e, 'w) world \<Rightarrow> string option" where
  "handler_key D ro key_of (Call X rq handler decision) w =
     (if lv_handler_started (snd (execute_try D (guarded ro X) rq handler decision (start_state w)))
      then key_of rq else None)"
| "handler_key D ro key_of (Elsewhere op) w = None"

locale replay_contract =
  fixes ro :: "'s replay_ops" and spent :: "'s \<Rightarrow> string \<Rightarrow> bool"
    and key_of :: "execution_request \<Rightarrow> string option" and other :: "'o \<Rightarrow> 's \<Rightarrow> 's"
  assumes claim_key: "ro_claim ro rq r = (Inr x, r') \<Longrightarrow> \<exists>cs. x = Some cs \<and> key_of rq = Some (cs_replay_key cs)"
    and mark_spends: "ro_mark ro k now r = (Inr x, r') \<Longrightarrow> \<not> spent r k \<and> spent r' k"
    and claim_keeps: "spent r k \<Longrightarrow> spent (snd (ro_claim ro rq r)) k"
    and mark_keeps: "spent r k \<Longrightarrow> spent (snd (ro_mark ro k' now r)) k"
    and release_keeps: "spent r k \<Longrightarrow> spent (snd (ro_release ro k' now reason r)) k"
    and other_keeps: "spent r k \<Longrightarrow> spent (other op r) k"
begin

lemma keeps_on_replay:
  assumes "\<And>r k. spent r k \<Longrightarrow> spent (snd (m r)) k"
  shows "keeps (claim_inv spent r0 ok key) (on_replay m)"
    and "keeps (\<lambda>s. claim_inv spent r0 ok key s \<and> lv_replay_state s \<noteq> None \<and> \<not> lv_handler_started s) (on_replay m)"
  unfolding on_replay_def by (rule keeps_zoomP; use assms in \<open>auto simp: claim_inv_def\<close>)+

lemma keeps_mark:
  "keeps (claim_inv spent r0 ok key) (mark_replay_consumed X rq)" if "ex_replay X = Some ro"
  unfolding mark_replay_consumed_def that option.case
  by (intro keeps_bindP keeps_catchP keeps_core_basic claim_inv_stable valid_if valid_case_option
      keeps_on_replay mark_keeps)

lemma keeps_release:
  "keeps (claim_inv spent r0 ok key) (release_replay_claim X rq reason)" if "ex_replay X = Some ro"
  unfolding release_replay_claim_def that option.case
  by (intro keeps_bindP keeps_catchP keeps_core_basic claim_inv_stable valid_if valid_case_option
      keeps_on_replay release_keeps)

text \<open>Marking the claim: afterwards the key of the request has been spent by this call.\<close>

lemma mark_marks:
  assumes "ex_replay X = Some ro" "\<not> ex_fail_open X"
  shows "valid (\<lambda>s. claim_inv spent r0 ok key s \<and> lv_replay_state s \<noteq> None \<and> \<not> lv_handler_started s)
    (mark_replay_consumed X rq)
    (\<lambda>_ s. claim_inv spent r0 ok key s \<and> (\<exists>k. key = Some k \<and> spent (wo_replay s) k \<and> \<not> spent r0 k))
    (\<lambda>_. claim_inv spent r0 ok key)"
proof (rule validI)
  fix s e s' assume s: "claim_inv spent r0 ok key s \<and> lv_replay_state s \<noteq> None \<and> \<not> lv_handler_started s"
    and run: "mark_replay_consumed X rq s = (Inl e, s')"
  then show "claim_inv spent r0 ok key s'" using validD_Inl[OF keeps_mark[OF assms(1)]] by blast
next
  fix s b s' assume s: "claim_inv spent r0 ok key s \<and> lv_replay_state s \<noteq> None \<and> \<not> lv_handler_started s"
    and run: "mark_replay_consumed X rq s = (Inr b, s')"
  then obtain cs where cs: "lv_replay_state s = Some cs" "key = Some (cs_replay_key cs)"
    by (auto simp: claim_inv_def)
  have "\<not> spent (wo_replay s) (cs_replay_key cs) \<and> spent (wo_replay s') (cs_replay_key cs)"
    using run mark_spends
    by (auto simp: mark_replay_consumed_def assms cs on_replay_def prog_defs split: prod.splits sum.splits if_splits)
  moreover have "claim_inv spent r0 ok key s'" using s run validD_Inr[OF keeps_mark[OF assms(1)]] by blast
  ultimately show "claim_inv spent r0 ok key s' \<and> (\<exists>k. key = Some k \<and> spent (wo_replay s') k \<and> \<not> spent r0 k)"
    using s cs by (auto simp: claim_inv_def)
qed

lemma dispatch_inv:
  assumes X: "ex_replay X = Some ro" "\<not> ex_fail_open X" and ok: ok
  shows "valid (\<lambda>s. claim_inv spent r0 ok key s \<and> lv_replay_state s \<noteq> None \<and> \<not> lv_handler_started s)
    (dispatch D X rq handler) (\<lambda>_. claim_inv spent r0 ok key) (\<lambda>_. claim_inv spent r0 ok key)"
proof -
  let ?I = "claim_inv spent r0 ok key"
  let ?P = "\<lambda>s. ?I s \<and> lv_replay_state s \<noteq> None \<and> \<not> lv_handler_started s"
  let ?S = "\<lambda>s. ?I s \<and> (\<exists>k. key = Some k \<and> spent (wo_replay s) k \<and> \<not> spent r0 k)"
  have P: "core_stable ?P" and S: "core_stable ?S" by (simp_all add: core_stable_def same_core_def claim_inv_def)
  have handler: "valid ?S (call_handler handler rq c) (\<lambda>_. ?I) (\<lambda>_. ?I)" for c
  proof -
    have "valid ?S (modP (\<lambda>s. s\<lparr>lv_handler_started := True\<rparr>)) (\<lambda>_. ?I) (\<lambda>_. ?I)"
      by (auto simp: valid_def modP_def claim_inv_def ok)
    then show ?thesis
      unfolding call_handler_def by (rule valid_bindP) (intro keeps_core_basic claim_inv_stable)
  qed
  show ?thesis
    unfolding dispatch_def
    by (intro valid_step[where P = ?P] valid_step[where P = ?S] keeps_core_steps keeps_core_basic P S
        valid_bindP[OF mark_marks[OF X]] valid_bindP[OF handler] keeps_bindP claim_inv_stable; blast)
qed

lemma prior_result_inv:
  assumes X: "ex_replay X = Some ro"
  shows "valid (\<lambda>s. claim_inv spent r0 ok key s \<and> lv_replay_state s \<noteq> None \<and> \<not> lv_handler_started s)
    (prior_result D X rq)
    (\<lambda>prior s. claim_inv spent r0 ok key s \<and> lv_replay_state s \<noteq> None \<and> \<not> lv_handler_started s)
    (\<lambda>_. claim_inv spent r0 ok key)"
proof -
  let ?P = "\<lambda>s. claim_inv spent r0 ok key s \<and> lv_replay_state s \<noteq> None \<and> \<not> lv_handler_started s"
  have P: "core_stable ?P" by (simp add: core_stable_def same_core_def claim_inv_def)
  have mark: "keeps ?P (mark_replay_consumed X rq)"
    unfolding mark_replay_consumed_def X option.case
    by (intro keeps_bindP keeps_catchP keeps_core_basic P valid_if valid_case_option keeps_on_replay(2) mark_keeps)
  have "keeps ?P (prior_result D X rq)"
    unfolding prior_result_def
    by (intro keeps_bindP keeps_core_basic keeps_core_steps P mark valid_if valid_case_option)
  then show ?thesis by (rule valid_weaken) auto
qed

lemma claim_replay_inv:
  assumes X: "ex_replay X = Some ro" "\<not> ex_fail_open X"
  shows "valid (\<lambda>s. claim_inv spent r0 ok key s \<and> lv_replay_state s = None \<and> \<not> lv_handler_started s)
    (claim_replay X rq)
    (\<lambda>x s. claim_inv spent r0 ok key s \<and> \<not> lv_handler_started s \<and> (\<exists>cs. x = Some cs \<and> key_of rq = Some (cs_replay_key cs)))
    (\<lambda>_. claim_inv spent r0 ok key)"
proof -
  have "valid (\<lambda>s. claim_inv spent r0 ok key s \<and> lv_replay_state s = None \<and> \<not> lv_handler_started s)
    (on_replay (ro_claim ro rq))
    (\<lambda>x s. claim_inv spent r0 ok key s \<and> \<not> lv_handler_started s \<and> (\<exists>cs. x = Some cs \<and> key_of rq = Some (cs_replay_key cs)))
    (\<lambda>_. claim_inv spent r0 ok key)"
    unfolding on_replay_def
  proof (rule valid_zoomP)
    show "valid (\<lambda>r. \<forall>k. spent r0 k \<longrightarrow> spent r k) (ro_claim ro rq)
      (\<lambda>x r. (\<forall>k. spent r0 k \<longrightarrow> spent r k) \<and> (\<exists>cs. x = Some cs \<and> key_of rq = Some (cs_replay_key cs)))
      (\<lambda>e r. \<forall>k. spent r0 k \<longrightarrow> spent r k)"
      by (rule validI) (metis claim_key claim_keeps snd_conv)+
  qed (auto simp: claim_inv_def)
  then show ?thesis
    unfolding claim_replay_def X option.case if_False
    by (rule valid_catchP) (use X(2) in \<open>auto simp: valid_def raiseP_def\<close>)
qed

lemma execute_body_inv:
  assumes X: "ex_replay X = Some ro" "\<not> ex_fail_open X"
  shows "valid (\<lambda>s. claim_inv spent r0 (cleared D X rq decision) (key_of rq) s \<and> lv_replay_state s = None \<and> \<not> lv_handler_started s)
    (execute_body D X rq handler decision)
    (\<lambda>_. claim_inv spent r0 (cleared D X rq decision) (key_of rq)) (\<lambda>_. claim_inv spent r0 (cleared D X rq decision) (key_of rq))"
proof (cases "cleared D X rq decision")
  case True
  let ?I = "claim_inv spent r0 (cleared D X rq decision) (key_of rq)"
  let ?P = "\<lambda>s. ?I s \<and> lv_replay_state s = None \<and> \<not> lv_handler_started s"
  let ?Q = "\<lambda>s. ?I s \<and> lv_replay_state s \<noteq> None \<and> \<not> lv_handler_started s"
  have P: "core_stable ?P" by (simp add: core_stable_def same_core_def claim_inv_def)
  have hold: "valid (\<lambda>s. ?I s \<and> \<not> lv_handler_started s \<and> (\<exists>cs. x = Some cs \<and> key_of rq = Some (cs_replay_key cs)))
      (modP (\<lambda>s. s\<lparr>lv_replay_state := x\<rparr>)) (\<lambda>_. ?Q) (\<lambda>_. ?I)" for x
    by (auto simp: valid_def modP_def claim_inv_def)
  have last: "valid ?Q (case prior of Some result \<Rightarrow> retP result | None \<Rightarrow> dispatch D X rq handler) (\<lambda>_. ?I) (\<lambda>_. ?I)" for prior
    using dispatch_inv[OF X True] by (cases prior) (auto simp: valid_def retP_def)
  show ?thesis
    unfolding execute_body_def
    by (intro valid_step[where P = ?P] keeps_core_basic keeps_core_steps P
        valid_bindP[OF claim_replay_inv[OF X]] valid_bindP[OF hold] valid_bindP[OF prior_result_inv[OF X(1)]] last; blast)
next
  case False
  have "\<exists>e. execute_body D X rq handler decision s = (Inl e, s)" for s
    using False
    by (auto simp: execute_body_def cleared_def prog_defs check_policy_def split: sum.splits option.splits)
  then show ?thesis by (auto simp: valid_def split: sum.split)
     (metis Pair_inject sum.distinct(1))+
qed

lemma execute_try_inv:
  assumes X: "ex_replay X = Some ro" "\<not> ex_fail_open X"
  shows "valid (\<lambda>s. claim_inv spent r0 (cleared D X rq decision) (key_of rq) s \<and> lv_replay_state s = None \<and> \<not> lv_handler_started s)
    (execute_try D X rq handler decision)
    (\<lambda>_. claim_inv spent r0 (cleared D X rq decision) (key_of rq)) (\<lambda>_. claim_inv spent r0 (cleared D X rq decision) (key_of rq))"
proof -
  let ?I = "claim_inv spent r0 (cleared D X rq decision) (key_of rq)"
  have "keeps ?I (on_refusal D X rq exc)" for exc
    unfolding on_refusal_def Let_def
    by (intro keeps_bindP keeps_core_basic keeps_core_steps claim_inv_stable valid_if keeps_release X(1))
  moreover have "keeps ?I (on_exception D X rq e)" for e
    unfolding on_exception_def Let_def
    by (intro keeps_bindP keeps_catchP keeps_core_basic keeps_core_steps claim_inv_stable valid_if keeps_mark X(1))
  ultimately show ?thesis
    unfolding execute_try_def
    by (intro valid_catchP[OF execute_body_inv[OF X]]) (simp split: exn.split)
qed

text \<open>What holds when a guarded call has run.\<close>

lemma execute_inv:
  "claim_inv spent (wo_replay w) (cleared D X rq decision) (key_of rq)
     (snd (execute_try D (guarded ro X) rq handler decision (start_state w)))"
proof -
  have "claim_inv spent (wo_replay w) ok key (start_state w) \<and> lv_replay_state (start_state w) = None
      \<and> \<not> lv_handler_started (start_state w)" for ok key
    by (simp add: claim_inv_def start_state_def world.defs)
  moreover have "cleared D (guarded ro X) rq decision = cleared D X rq decision"
    by (simp add: cleared_def guarded_def)
  moreover have "ex_replay (guarded ro X) = Some ro" "\<not> ex_fail_open (guarded ro X)" by (simp_all add: guarded_def)
  ultimately show ?thesis
    using execute_try_inv[of "guarded ro X" "wo_replay w" D rq decision handler]
    by (cases "execute_try D (guarded ro X) rq handler decision (start_state w)";
        cases "fst (execute_try D (guarded ro X) rq handler decision (start_state w))")
       (auto dest: validD_Inr validD_Inl)
qed

lemma execute_replay:
  "wo_replay (snd (execute D X rq handler decision w)) =
   wo_replay (snd (execute_try D X rq handler decision (start_state w)))"
  by (simp add: execute_def world.defs split: prod.split)

end

sublocale replay_contract \<subseteq> calls: one_shot "run_exec D ro other" "handler_key D ro key_of" "\<lambda>w. spent (wo_replay w)"
proof (unfold_locales, goal_cases)
  case (1 op w k)
  then show ?case
    by (cases op) (use execute_inv in \<open>fastforce simp: claim_inv_def split: if_splits\<close>)+
next
  case (2 op w k)
  then show ?case
    by (cases op) (use execute_inv in \<open>fastforce simp: claim_inv_def execute_replay split: if_splits\<close>)+
next
  case (3 w k op)
  then show ?case
    by (cases op) (use execute_inv in \<open>fastforce simp: claim_inv_def execute_replay\<close>, simp add: other_keeps)
qed

section \<open>The database store keeps the contract\<close>

definition request_key :: "deps \<Rightarrow> execution_request \<Rightarrow> string option" where
  "request_key D rq = (case build_replay_key D (rq_intent rq) (rq_pccb rq) of Inl _ \<Rightarrow> None | Inr k \<Rightarrow> Some k)"

lemma inspect_present_settled:
  assumes "row_status st key \<noteq> Some ''claimed''" "dget (rs_rows st) key = Some row"
    and "inspect key now st = (Inr x, st')"
  shows "\<exists>s. x = Some s \<and> cs_replay_key s = key"
proof -
  obtain r st1 where a: "assert_store_monotonic st = (r, st1)" by fastforce
  have row: "dget (rs_rows st1) key = Some row" using assms(2) assert_store_monotonic_rows(1)[OF a] by simp
  have "cs_status s \<noteq> ''claimed''" if "row_to_state key row = Inr s" for s
    using assms(1,2) row_to_state_status[OF that] by (auto simp: row_status_def)
  then show ?thesis
    using assms(3) by (subst (asm) inspect.simps)
      (auto simp: a row row_to_state_key split: sum.splits if_splits)
qed

lemma inspect_present:
  assumes row: "dget (rs_rows st) key = Some row" and run: "inspect key now st = (Inr x, st')"
  shows "\<exists>s. x = Some s \<and> cs_replay_key s = key"
proof -
  obtain a st1 where a: "assert_store_monotonic st = (a, st1)" by fastforce
  have row1: "dget (rs_rows st1) key = Some row" using row assert_store_monotonic_rows(1)[OF a] by simp
  let ?st = "set_row key (row\<lparr>cr_status := ''expired'', cr_updated_at := format_timestamp now\<rparr>) st1"
  from run a row1 consider s where "row_to_state key row = Inr s" "x = Some s"
    | "commit_mutation st1 ?st (inspect key now) = (Inr x, st')"
    by (subst (asm) inspect.simps) (auto split: sum.splits if_splits)
  then show ?thesis
  proof cases
    case 1
    then show ?thesis using row_to_state_key by blast
  next
    case 2
    then obtain n st2 where n: "advance_mutation_counter ?st = (Inr n, st2)"
      and i: "inspect key now (st2\<lparr>rs_last_observed := n\<rparr>) = (Inr x, st')"
      using commit_mutation_cases by blast
    have "rs_rows (st2\<lparr>rs_last_observed := n\<rparr>) = rs_rows ?st" using advance_rows[OF n] by simp
    then show ?thesis by (intro inspect_present_settled[OF _ _ i]) (simp_all add: row_status_def set_row_def)
  qed
qed

lemma claim_once_key:
  assumes "claim_once c now st = (Inr x, st')"
  shows "\<exists>s. x = Some s \<and> cs_replay_key s = cl_replay_key c"
proof -
  obtain a st1 where a: "assert_store_monotonic st = (a, st1)" by fastforce
  let ?rows = "delete_reclaimable (cl_replay_key c) (expire_key (cl_replay_key c) (format_timestamp now) (rs_rows st1))"
  from assms obtain meta where "commit_mutation st1
      (st1\<lparr>rs_rows := dput ?rows (cl_replay_key c) (claim_row c (format_timestamp now) meta)\<rparr>)
      (inspect (cl_replay_key c) now) = (Inr x, st')"
    by (auto simp: claim_once_def a Let_def split: sum.splits prod.splits if_splits)
  from commit_mutation_cases[OF this] obtain n st2 where
    n: "advance_mutation_counter (st1\<lparr>rs_rows := dput ?rows (cl_replay_key c) (claim_row c (format_timestamp now) meta)\<rparr>) = (Inr n, st2)"
    and i: "inspect (cl_replay_key c) now (st2\<lparr>rs_last_observed := n\<rparr>) = (Inr x, st')" by blast
  show ?thesis using advance_rows[OF n] by (intro inspect_present[OF _ i]) simp
qed

interpretation db: replay_contract "db_replay D" replay_spent "request_key D" run_replay for D
proof (unfold_locales, goal_cases)
  case (1 rq r x r')
  then show ?case
    using claim_once_key
    by (fastforce simp: db_replay_def claim_request_def build_action_consumption_claim_def request_key_def
        split: sum.splits)
next
  case (2 k now r x r')
  then show ?case using mark_consumed_ok[of k now r] by (auto simp: db_replay_def replay_spent_def)
next
  case (3 r k rq)
  then show ?case
    by (auto simp: db_replay_def claim_request_def replay_spent_def claim_keeps_consumed split: sum.split)
next
  case (4 r k k' now)
  then show ?case by (simp add: db_replay_def replay_spent_def mark_keeps_consumed)
next
  case (5 r k k' now reason)
  then show ?case by (simp add: db_replay_def replay_spent_def release_keeps_consumed)
next
  case (6 r k op)
  then show ?case by (rule replay.spent_stays)
qed

section \<open>Every execution is reported\<close>

text \<open>The result carries the receipt written last, and the refusal written with it.\<close>

definition reported :: "execution_result \<Rightarrow> outcome_writer \<Rightarrow> bool" where
  "reported res w \<longleftrightarrow> (case xr_receipt res of None \<Rightarrow> False | Some r \<Rightarrow>
     ow_receipts w \<noteq> [] \<and> last (ow_receipts w) = r \<and>
     (case xr_refusal res of
        None \<Rightarrow> rc_outcome r = ''executed''
      | Some f \<Rightarrow> rc_outcome r = ''refused'' \<and> rc_reason_codes r = [rf_reason_code f] \<and> xr_payload res = None
          \<and> ow_refusals w \<noteq> [] \<and> last (ow_refusals w) = f))"

definition plain_intent :: "action_intent \<Rightarrow> bool" where
  "plain_intent i \<longleftrightarrow> \<not> is_refund_intent i \<and> \<not> is_invoice_payment_intent i"

abbreviation no_effect :: "('s, 'e, 'w) exec_state \<Rightarrow> bool" where
  "no_effect s \<equiv> lv_effect_reference s = None"

lemma keeps_no_effect:
  shows "keeps no_effect (on_outside m1)" "keeps no_effect (on_escrow m2)" "keeps no_effect (on_writer m3)"
    "keeps no_effect (on_idempotency m4)" "keeps no_effect (on_replay m5)"
    "keeps no_effect (liftP r)" "keeps no_effect (readP f)" "keeps no_effect (retP x)" "keeps no_effect (raiseP e)"
    "keeps no_effect (new_artifact ids b)" "keeps no_effect (modP (\<lambda>s. s\<lparr>lv_credential := c\<rparr>))"
    "keeps no_effect (modP (\<lambda>s. s\<lparr>lv_replay_consumed := b1\<rparr>))" "keeps no_effect (modP (\<lambda>s. s\<lparr>lv_replay_state := rs\<rparr>))"
    "keeps no_effect (modP (\<lambda>s. s\<lparr>lv_handler_started := True\<rparr>))"
  by (rule keepsI; simp add: on_outside_def on_escrow_def on_writer_def on_idempotency_def on_replay_def
        prog_defs new_artifact_def split: prod.split sum.split)+

lemmas no_effect_intros = keeps_bindP keeps_catchP valid_if valid_case_option keeps_no_effect

lemma store_run:
  "store_receipt D X r s = (fst (write_receipt D (ex_wall X) r (wo_writer s)),
     s\<lparr>wo_writer := snd (write_receipt D (ex_wall X) r (wo_writer s))\<rparr>)"
  "store_refusal D X f s = (fst (write_refusal D (ex_wall X) f (wo_writer s)),
     s\<lparr>wo_writer := snd (write_refusal D (ex_wall X) f (wo_writer s))\<rparr>)"
  by (simp_all add: store_receipt_def store_refusal_def on_writer_def zoomP_def split_beta)

lemma write_correlated:
  "map_option co_pccb_id (rc_correlation r) = Some (JStr p) \<Longrightarrow> fst (write_receipt D t r w) = Inr ()"
  using write_receipt_ok by fastforce

lemma execution_receipt_fields:
  assumes "create_execution_receipt T rid i cx pid eid payload h = Inr r"
  shows "rc_outcome r = ''executed'' \<and> rc_correlation r = Some (basic_correlation (JStr pid) eid (JStr (cx_request_id cx)) h)"
  using assms by (auto simp: create_execution_receipt_def receipt_of_intent_def Let_def split: if_splits)

lemma refused_receipt_plain:
  assumes "plain_intent i"
  obtains r where "create_refused_receipt T rid i cx f = Inr r" "rc_outcome r = ''refused''"
    "rc_reason_codes r = [rf_reason_code f]" "map_option co_pccb_id (rc_correlation r) =
      Some (case rf_correlation f of None \<Rightarrow> JNull | Some c \<Rightarrow> co_pccb_id c)"
  using assms that
  by (simp add: create_refused_receipt_def plain_intent_def receipt_of_intent_def basic_correlation_def Let_def)

definition executed_for :: "execution_request \<Rightarrow> receipt \<Rightarrow> bool" where
  "executed_for rq r \<longleftrightarrow> rc_outcome r = ''executed'' \<and>
     map_option co_pccb_id (rc_correlation r) = Some (JStr (pc_pccb_id (rq_pccb rq)))"

definition written :: "execution_request \<Rightarrow> receipt \<Rightarrow> ('s, 'e, 'w) exec_state \<Rightarrow> bool" where
  "written rq r s \<longleftrightarrow> no_effect s \<and> executed_for rq r \<and> ow_receipts (wo_writer s) \<noteq> [] \<and> last (ow_receipts (wo_writer s)) = r"

lemma execution_receipt_valid:
  "valid no_effect (execution_receipt X rq payload) (\<lambda>r s. no_effect s \<and> executed_for rq r) (\<lambda>_. no_effect)"
  using execution_receipt_fields
  by (fastforce simp: valid_def execution_receipt_def new_artifact_def executed_for_def basic_correlation_def split: sum.splits)

lemma store_receipt_valid:
  "valid (\<lambda>s. no_effect s \<and> executed_for rq r) (store_receipt D X r) (\<lambda>_. written rq r) (\<lambda>_. no_effect)"
  by (auto simp: valid_def store_run written_def executed_for_def write_receipt_ok)

lemma prior_result_reports:
  "valid no_effect (prior_result D X rq)
    (\<lambda>prior s. case prior of None \<Rightarrow> no_effect s | Some res \<Rightarrow> reported res (wo_writer s)) (\<lambda>_. no_effect)"
proof -
  have mark: "keeps no_effect (mark_replay_consumed X rq)"
    unfolding mark_replay_consumed_def by (intro no_effect_intros)
  have ret: "valid (written rq r) (retP (Some \<lparr>xr_receipt = Some r, xr_refusal = None, xr_payload = pl\<rparr>))
      (\<lambda>prior s. case prior of None \<Rightarrow> no_effect s | Some res \<Rightarrow> reported res (wo_writer s)) (\<lambda>_. no_effect)" for r pl
    by (simp add: valid_def retP_def written_def executed_for_def reported_def)
  have none: "valid no_effect (retP None)
      (\<lambda>prior s. case prior of None \<Rightarrow> no_effect s | Some res \<Rightarrow> reported res (wo_writer s)) (\<lambda>_. no_effect)"
    by (simp add: valid_def retP_def)
  have raise: "valid no_effect (raiseP e)
      (\<lambda>prior s. case prior of None \<Rightarrow> no_effect s | Some res \<Rightarrow> reported res (wo_writer s)) (\<lambda>_. no_effect)" for e
    by (simp add: valid_def raiseP_def)
  show ?thesis
    unfolding prior_result_def
    by (intro valid_if valid_case_option none raise valid_step[where P = no_effect] keeps_no_effect mark
        valid_bindP[OF execution_receipt_valid] valid_bindP[OF store_receipt_valid] ret; assumption)
qed

lemma finish_execution_reports:
  "valid no_effect (finish_execution D X rq c payload) (\<lambda>res s. reported res (wo_writer s)) (\<lambda>_. no_effect)"
proof -
  have keep: "executed_for rq (r\<lparr>rc_extensions := x\<rparr>) = executed_for rq r" for r x
    by (simp add: executed_for_def)
  have idem: "valid (written rq r) (record_idempotency X rq payload) (\<lambda>_. written rq r) (\<lambda>_. no_effect)" for r
    unfolding record_idempotency_def
    by (auto simp: valid_def written_def on_idempotency_def zoomP_def retP_def split: option.split prod.split sum.split)
  have ret: "valid (written rq r) (retP \<lparr>xr_receipt = Some r, xr_refusal = None, xr_payload = payload\<rparr>)
      (\<lambda>res s. reported res (wo_writer s)) (\<lambda>_. no_effect)" for r
    by (simp add: valid_def retP_def written_def executed_for_def reported_def)
  have tail: "valid (\<lambda>s. no_effect s \<and> executed_for rq r) (bindP (store_receipt D X r) (\<lambda>_.
      bindP (record_idempotency X rq payload) (\<lambda>_. retP \<lparr>xr_receipt = Some r, xr_refusal = None, xr_payload = payload\<rparr>)))
      (\<lambda>res s. reported res (wo_writer s)) (\<lambda>_. no_effect)" for r
    by (intro valid_bindP[OF store_receipt_valid] valid_bindP[OF idem] ret)
  have read: "valid (\<lambda>s. no_effect s \<and> executed_for rq r) (readP lv_effect_evidence)
      (\<lambda>_ s. no_effect s \<and> executed_for rq r) (\<lambda>_. no_effect)" for r
    by (simp add: valid_def readP_def)
  have "valid (\<lambda>s. no_effect s \<and> executed_for rq r) (bindP (readP lv_effect_evidence) (\<lambda>evidence.
      let r' = (case evidence of None \<Rightarrow> r | Some e \<Rightarrow> r\<lparr>rc_extensions := dput (rc_extensions r) ''effect'' (JObj e)\<rparr>) in
      bindP (store_receipt D X r') (\<lambda>_. bindP (record_idempotency X rq payload) (\<lambda>_.
      retP \<lparr>xr_receipt = Some r', xr_refusal = None, xr_payload = payload\<rparr>))))
      (\<lambda>res s. reported res (wo_writer s)) (\<lambda>_. no_effect)" for r
  proof (rule valid_bindP[OF read], goal_cases)
    case (1 evidence)
    show ?case
      using tail[of "case evidence of None \<Rightarrow> r | Some e \<Rightarrow> r\<lparr>rc_extensions := dput (rc_extensions r) ''effect'' (JObj e)\<rparr>"]
      by (cases evidence) (simp_all add: keep Let_def)
  qed
  then show ?thesis
    unfolding finish_execution_def
    by (intro valid_step[where P = no_effect] keeps_no_effect valid_bindP[OF execution_receipt_valid]; assumption?)
qed

lemma execute_body_reports:
  assumes "ex_effects X = None"
  shows "valid no_effect (execute_body D X rq handler decision) (\<lambda>res s. reported res (wo_writer s)) (\<lambda>_. no_effect)"
proof -
  have pieces: "keeps no_effect (check_policy decision)" "keeps no_effect (check_effect_extension X p)"
    "keeps no_effect (claim_replay X rq)" "keeps no_effect (mark_replay_consumed X rq)" "keeps no_effect (consume_escrow X rq)"
    "keeps no_effect (own_effect D X rq)" "keeps no_effect (call_handler handler rq c)" for p c
    unfolding check_policy_def check_effect_extension_def claim_replay_def mark_replay_consumed_def consume_escrow_def
      own_effect_def call_handler_def assms option.case
    by (intro no_effect_intros)+
  have evidence: "keeps no_effect (check_evidence D payload)" for payload
    by (rule keepsI) (simp add: check_evidence_def prog_defs)
  have dispatch: "valid no_effect (dispatch D X rq handler) (\<lambda>res s. reported res (wo_writer s)) (\<lambda>_. no_effect)"
    unfolding dispatch_def
    by (intro valid_step[where P = no_effect] keeps_no_effect pieces evidence finish_execution_reports; assumption?)
  have "valid (\<lambda>s. case prior of None \<Rightarrow> no_effect s | Some res \<Rightarrow> reported res (wo_writer s))
      (case prior of Some result \<Rightarrow> retP result | None \<Rightarrow> dispatch D X rq handler)
      (\<lambda>res s. reported res (wo_writer s)) (\<lambda>_. no_effect)" for prior
    using dispatch by (cases prior) (simp_all add: valid_def retP_def)
  then show ?thesis
    unfolding execute_body_def
    by (intro valid_step[where P = no_effect] keeps_no_effect pieces valid_bindP[OF prior_result_reports]; assumption?)
qed

lemma refusal_for_correlation:
  "rf_correlation (refusal_for rq exc n) = Some (basic_correlation (JStr (pc_pccb_id (rq_pccb rq)))
     (pc_escrow_id (rq_pccb rq)) (JStr (cx_request_id (rq_context rq))) (Some (pc_action_hash (rq_pccb rq))))"
  by (simp add: refusal_for_def create_from_exception_def)

text \<open>What reporting a refusal writes, when the refused receipt can be built.\<close>

lemma report_refusal_run:
  assumes "no_effect s"
    and r: "create_refused_receipt (ex_text X) (ex_receipt_id X (Suc (wo_artifacts s))) (rq_intent rq) (rq_context rq)
      (refusal_for rq exc (ex_refusal_id X (wo_artifacts s))) = Inr r"
    and co: "map_option co_pccb_id (rc_correlation r) = Some (JStr (pc_pccb_id (rq_pccb rq)))"
  shows "report_refusal D X rq exc s =
    (Inr \<lparr>xr_receipt = Some r, xr_refusal = Some (refusal_for rq exc (ex_refusal_id X (wo_artifacts s))), xr_payload = None\<rparr>,
     s\<lparr>wo_artifacts := Suc (Suc (wo_artifacts s)),
       wo_writer := snd (write_receipt D (ex_wall X) r (snd (write_refusal D (ex_wall X)
         (refusal_for rq exc (ex_refusal_id X (wo_artifacts s))) (wo_writer s))))\<rparr>)"
proof -
  have ok: "fst (write_receipt D t r w) = Inr ()" for t w
    using co by (rule write_correlated)
  have ok': "fst (write_refusal D t (refusal_for rq exc n) w) = Inr ()" for t w n
    by (rule write_refusal_ok[OF refusal_for_correlation]) (simp add: basic_correlation_def)
  show ?thesis
    using assms(1) by (simp add: report_refusal_def prog_defs new_artifact_def r store_run ok ok')
qed

lemma refused_receipt_exists:
  assumes "plain_intent (rq_intent rq)"
  obtains r where "create_refused_receipt T rid (rq_intent rq) (rq_context rq) (refusal_for rq exc n) = Inr r"
    "rc_outcome r = ''refused''" "rc_reason_codes r = [rf_reason_code (refusal_for rq exc n)]"
    "map_option co_pccb_id (rc_correlation r) = Some (JStr (pc_pccb_id (rq_pccb rq)))"
  by (rule refused_receipt_plain[OF assms, of T rid "rq_context rq" "refusal_for rq exc n"], rule that)
     (simp_all add: refusal_for_correlation basic_correlation_def)

lemma report_refusal_reports:
  assumes "plain_intent (rq_intent rq)"
  shows "valid no_effect (report_refusal D X rq exc) (\<lambda>res s. reported res (wo_writer s)) (\<lambda>_ _. False)"
proof -
  have "\<exists>res s'. report_refusal D X rq exc s = (Inr res, s') \<and> reported res (wo_writer s')" if "no_effect s" for s
  proof -
    obtain r where r: "create_refused_receipt (ex_text X) (ex_receipt_id X (Suc (wo_artifacts s))) (rq_intent rq) (rq_context rq)
        (refusal_for rq exc (ex_refusal_id X (wo_artifacts s))) = Inr r"
      "rc_outcome r = ''refused''" "rc_reason_codes r = [rf_reason_code (refusal_for rq exc (ex_refusal_id X (wo_artifacts s)))]"
      "map_option co_pccb_id (rc_correlation r) = Some (JStr (pc_pccb_id (rq_pccb rq)))"
      by (rule refused_receipt_exists[OF assms])
    show ?thesis using r(2,3) by (simp add: report_refusal_run[OF that r(1,4)] reported_def)
  qed
  then show ?thesis by (rule valid_totalI)
qed

lemma execute_try_reports:
  assumes "ex_effects X = None" "plain_intent (rq_intent rq)"
  shows "valid no_effect (execute_try D X rq handler decision) (\<lambda>res s. reported res (wo_writer s)) (\<lambda>_ _. False)"
proof -
  let ?Q = "\<lambda>res s. reported res (wo_writer s)"
  have cred: "valid no_effect (release_credential X outcome) (\<lambda>_. no_effect) (\<lambda>_ _. False)" for outcome
    by (auto simp: valid_def release_credential_def prog_defs on_outside_def split: option.split prod.split sum.split)
  have rel: "valid no_effect (release_replay_claim X rq reason) (\<lambda>_. no_effect) (\<lambda>_ _. False)" for reason
    by (auto simp: valid_def release_replay_claim_def prog_defs on_replay_def split: option.split prod.split sum.split)
  have mark: "valid no_effect (mark_replay_consumed X rq) (\<lambda>_. no_effect) (\<lambda>e s. is_refusal e \<and> no_effect s)"
    by (auto simp: valid_def mark_replay_consumed_def prog_defs on_replay_def store_unavailable_def
        split: option.splits prod.splits sum.splits if_splits)
  have settle: "valid no_effect (catchP (bindP (mark_replay_consumed X rq) (\<lambda>consumed. modP (\<lambda>s. s\<lparr>lv_replay_consumed := consumed\<rparr>)))
      (\<lambda>e'. if is_refusal e' then retP () else raiseP e')) (\<lambda>_. no_effect) (\<lambda>_ _. False)"
    by (rule valid_catchP[OF valid_bindP[OF mark]]) (auto simp: valid_def modP_def retP_def)
  have read: "valid no_effect (readP (\<lambda>s. s)) (\<lambda>_. no_effect) (\<lambda>_ _. False)"
    and ret: "valid no_effect (retP ()) (\<lambda>_. no_effect) (\<lambda>_ _. False)" by (auto simp: valid_def prog_defs)
  have "valid no_effect (on_refusal D X rq exc) ?Q (\<lambda>_ _. False)" for exc
    unfolding on_refusal_def Let_def
    by (intro valid_bindP[OF read] valid_bindP[OF cred] valid_bindP[where R = "\<lambda>_. no_effect"] valid_if ret rel
        report_refusal_reports assms)
  moreover have "valid no_effect (on_exception D X rq e) ?Q (\<lambda>_ _. False)" for e
    unfolding on_exception_def Let_def
    by (intro valid_bindP[OF read] valid_bindP[OF cred] valid_bindP[where R = "\<lambda>_. no_effect"] valid_if ret settle
        report_refusal_reports assms)
  ultimately show ?thesis
    unfolding execute_try_def
    by (intro valid_catchP[OF execute_body_reports[OF assms(1)]]) (simp split: exn.split)
qed

section \<open>The path to the handler\<close>

definition success_receipt :: "'f factories_scheme \<Rightarrow> execution_request \<Rightarrow> brokered_credential \<Rightarrow> dict option \<Rightarrow> nat \<Rightarrow> receipt" where
  "success_receipt X rq c payload n =
     (let full = dmerge (payload_dict payload) (broker_payload c) in
      receipt_of_intent (ex_receipt_id X n) (rq_intent rq) (rq_context rq) ''executed'' ''execution''
        (basic_correlation (JStr (pc_pccb_id (rq_pccb rq))) (pc_escrow_id (rq_pccb rq))
          (JStr (cx_request_id (rq_context rq))) (Some (pc_action_hash (rq_pccb rq))))
        ''The protected action executed successfully.'' [] [] (execution_side_effects (Some full)) full)"

lemma success_receipt_created:
  assumes "plain_intent (rq_intent rq)"
  shows "create_execution_receipt (ex_text X) (ex_receipt_id X n) (rq_intent rq) (rq_context rq) (pc_pccb_id (rq_pccb rq))
      (pc_escrow_id (rq_pccb rq)) (Some (dmerge (payload_dict payload) (broker_payload c))) (Some (pc_action_hash (rq_pccb rq)))
      = Inr (success_receipt X rq c payload n)"
  using assms by (simp add: create_execution_receipt_def plain_intent_def success_receipt_def Let_def payload_dict_def)

lemma finish_success:
  assumes "plain_intent (rq_intent rq)" "lv_effect_evidence s = None" "idempotency_key X rq = None"
    and "cb_release (ex_broker X) c [(''outcome'', JStr ''executed''), (''payload'', json_payload payload)] (wo_outside s) = (Inr u, o3)"
  shows "finish_execution D X rq c payload s =
    (Inr \<lparr>xr_receipt = Some (success_receipt X rq c payload (wo_artifacts s)), xr_refusal = None, xr_payload = payload\<rparr>,
     s\<lparr>wo_outside := o3, wo_artifacts := Suc (wo_artifacts s),
       wo_writer := snd (write_receipt D (ex_wall X) (success_receipt X rq c payload (wo_artifacts s)) (wo_writer s))\<rparr>)"
proof -
  let ?r = "success_receipt X rq c payload (wo_artifacts s)"
  have "fst (write_receipt D t ?r w) = Inr ()" for t w
    by (rule write_correlated) (simp add: success_receipt_def receipt_of_intent_def basic_correlation_def Let_def)
  with success_receipt_created[OF assms(1), of X "wo_artifacts s" payload c] show ?thesis
    using assms(2-) by (simp add: finish_execution_def prog_defs on_outside_def execution_receipt_def new_artifact_def
        store_run record_idempotency_def Let_def)
qed

lemma execute_try_success:
  assumes "cleared D X rq decision" "\<not> dmem (pc_extensions (rq_pccb rq)) ''effect''" "plain_intent (rq_intent rq)"
    and "ex_replay X = Some ro" "ro_claim ro rq (wo_replay w) = (Inr (Some cs), r1)"
    and "idempotency_key X rq = None" "ex_escrow X = None" "ex_effects X = None"
    and "cb_acquire (ex_broker X) (rq_intent rq) (rq_pccb rq) (rq_context rq) (wo_outside w) = (Inr c, o1)"
    and "ro_mark ro (cs_replay_key cs) (cx_now (rq_context rq)) r1 = (Inr y, r2)"
    and "handler rq c o1 = (Inr payload, o2)"
    and "cb_release (ex_broker X) c [(''outcome'', JStr ''executed''), (''payload'', json_payload payload)] o2 = (Inr u, o3)"
  obtains s where "execute_try D X rq handler decision (start_state w) =
      (Inr \<lparr>xr_receipt = Some (success_receipt X rq c payload (wo_artifacts w)), xr_refusal = None, xr_payload = payload\<rparr>, s)"
    "lv_handler_started s" "wo_replay s = r2" "wo_outside s = o3"
proof -
  let ?s = "(start_state w)\<lparr>lv_replay_state := Some cs, lv_credential := Some c, wo_replay := r2,
      lv_replay_consumed := True, lv_handler_started := True, wo_outside := o2\<rparr>"
  have v: "verify D (ex_verifier X) (rq_intent rq) (rq_pccb rq) (rq_context rq) = Inr ()"
    and p: "check_policy decision = retP ()"
    using assms(1) by (auto simp: cleared_def check_policy_def fun_eq_iff split: option.splits)
  have st: "wo_replay (start_state w) = wo_replay w" "wo_outside (start_state w) = wo_outside w"
    "wo_artifacts (start_state w) = wo_artifacts w" "lv_effect_evidence (start_state w) = None"
    "lv_effect_reference (start_state w) = None"
    by (simp_all add: start_state_def world.defs)
  have "execute_body D X rq handler decision (start_state w) = finish_execution D X rq c payload ?s"
    using assms st by (simp add: execute_body_def v p prog_defs check_effect_extension_def claim_replay_def on_replay_def
        prior_result_def dispatch_def consume_escrow_def own_effect_def mark_replay_consumed_def on_outside_def
        call_handler_def check_evidence_def)
  then show thesis
    using finish_success[OF assms(3), of ?s X c payload u o3 D] assms(6,12) st that
    by (simp add: execute_try_def catchP_def)
qed

lemma claim_metadata_column:
  assumes "build_action_consumption_claim D i p cx = Inr c"
  obtains meta where "json_column (cl_metadata c) = Inr meta"
  using assms that
  by (auto simp: build_action_consumption_claim_def json_column_def list_all_iff split: json.split)

text \<open>A request whose key is free in the database, before the expiry of its proof.\<close>

definition claimable :: "deps \<Rightarrow> execution_request \<Rightarrow> replay_store \<Rightarrow> bool" where
  "claimable D rq st \<longleftrightarrow> store_current st \<and> dict_wf (rs_rows st) \<and>
     (case request_key D rq of None \<Rightarrow> False | Some k \<Rightarrow> reclaimable st k) \<and>
     dt_ok (cx_now (rq_context rq)) \<and> dt_ok (pc_expires_at (rq_pccb rq)) \<and>
     cx_now (rq_context rq) < pc_expires_at (rq_pccb rq)"

lemma claimable_claims:
  assumes "claimable D rq st"
  obtains cs st1 x st2 where "ro_claim (db_replay D) rq st = (Inr (Some cs), st1)"
    "ro_mark (db_replay D) (cs_replay_key cs) (cx_now (rq_context rq)) st1 = (Inr x, st2)"
    "request_key D rq = Some (cs_replay_key cs)"
proof -
  let ?now = "cx_now (rq_context rq)"
  from assms obtain k where k: "request_key D rq = Some k" "reclaimable st k"
    by (auto simp: claimable_def split: option.splits)
  then obtain c where c: "build_action_consumption_claim D (rq_intent rq) (rq_pccb rq) (rq_context rq) = Inr c"
    "cl_replay_key c = k" "cl_expires_at c = pc_expires_at (rq_pccb rq)"
    by (auto simp: request_key_def build_action_consumption_claim_def split: sum.splits)
  obtain meta where meta: "json_column (cl_metadata c) = Inr meta" using c(1) by (rule claim_metadata_column)
  have now: "dt_ok ?now" "dt_ok (cl_expires_at c)" "?now < cl_expires_at c"
    and st: "store_current st" "dict_wf (rs_rows st)" using assms c(3) by (simp_all add: claimable_def)
  obtain st1 n where st1: "claim_once c ?now st = (Inr (Some (claim_state c ?now meta)), st1)"
    "rs_counter st1 = Some n" "rs_last_observed st1 = n"
    "dget (rs_rows st1) (cl_replay_key c) = Some (claim_row c (format_timestamp ?now) meta)"
    using claim_once_fresh[OF st _ meta now] k(2) c(2) by metis
  from mark_consumed_live[OF st1(2,3,4) now(1,1,2)] obtain x st2 where
    "mark_consumed (cl_replay_key c) ?now st1 = (Inr x, st2)" by (metis prod.collapse)
  then show thesis
    by (intro that[of "claim_state c ?now meta" st1 x st2])
       (simp_all add: db_replay_def claim_request_def c(1) st1(1) claim_state_def k(1) c(2))
qed

lemma executes_claimable:
  assumes "cleared D X rq decision" "claimable D rq (wo_replay w)" "plain_intent (rq_intent rq)"
    and "\<not> dmem (pc_extensions (rq_pccb rq)) ''effect''" "ex_escrow X = None" "ex_effects X = None" "idempotency_key X rq = None"
    and "cb_acquire (ex_broker X) (rq_intent rq) (rq_pccb rq) (rq_context rq) (wo_outside w) = (Inr c, o1)"
    and "handler rq c o1 = (Inr payload, o2)"
    and "cb_release (ex_broker X) c [(''outcome'', JStr ''executed''), (''payload'', json_payload payload)] o2 = (Inr u, o3)"
  obtains s where "execute_try D (guarded (db_replay D) X) rq handler decision (start_state w) =
      (Inr \<lparr>xr_receipt = Some (success_receipt X rq c payload (wo_artifacts w)), xr_refusal = None, xr_payload = payload\<rparr>, s)"
    "lv_handler_started s" "fst (execute D (guarded (db_replay D) X) rq handler decision w) =
      Inr \<lparr>xr_receipt = Some (success_receipt X rq c payload (wo_artifacts w)), xr_refusal = None, xr_payload = payload\<rparr>"
proof -
  let ?X = "guarded (db_replay D) X"
  obtain cs st1 x st2 where claim: "ro_claim (db_replay D) rq (wo_replay w) = (Inr (Some cs), st1)"
      "ro_mark (db_replay D) (cs_replay_key cs) (cx_now (rq_context rq)) st1 = (Inr x, st2)"
    using claimable_claims[OF assms(2)] by metis
  have X: "cleared D ?X rq decision" "ex_replay ?X = Some (db_replay D)" "idempotency_key ?X rq = None"
    "ex_escrow ?X = None" "ex_effects ?X = None" "ex_broker ?X = ex_broker X"
    "success_receipt ?X rq c payload n = success_receipt X rq c payload n" for n
    using assms by (simp_all add: cleared_def guarded_def idempotency_key_def success_receipt_def)
  show thesis
    by (rule execute_try_success[where handler = handler, OF X(1) assms(4,3) X(2) claim(1) X(3,4,5), unfolded X(6), OF assms(8) claim(2) assms(9,10)],
        rule that) (simp_all add: X(7) execute_def)
qed

section \<open>Refused proofs and effects\<close>

lemma execute_try_refused:
  assumes "verify D (ex_verifier X) (rq_intent rq) (rq_pccb rq) (rq_context rq) = Inl (Refuse exc)"
  shows "execute_try D X rq handler decision (start_state w) = report_refusal D X rq exc (start_state w)"
  using assms
  by (simp add: execute_try_def execute_body_def prog_defs on_refusal_def start_state_def world.defs Let_def
      release_credential_def release_replay_claim_def split: option.split)

lemma execute_refused:
  assumes "verify D (ex_verifier X) (rq_intent rq) (rq_pccb rq) (rq_context rq) = Inl (Refuse exc)"
    and "plain_intent (rq_intent rq)"
  shows "(let w' = snd (execute D X rq handler decision w) in
      wo_replay w' = wo_replay w \<and> wo_escrow w' = wo_escrow w \<and> wo_outside w' = wo_outside w \<and>
      wo_idempotency w' = wo_idempotency w) \<and>
    (\<exists>r f. fst (execute D X rq handler decision w) = Inr \<lparr>xr_receipt = Some r, xr_refusal = Some f, xr_payload = None\<rparr> \<and>
      rf_reason_code f = re_code exc)"
proof -
  let ?s = "start_state w"
  have st: "no_effect ?s" "wo_replay ?s = wo_replay w" "wo_escrow ?s = wo_escrow w" "wo_outside ?s = wo_outside w"
    "wo_idempotency ?s = wo_idempotency w"
    by (simp_all add: start_state_def world.defs)
  obtain r where r: "create_refused_receipt (ex_text X) (ex_receipt_id X (Suc (wo_artifacts ?s))) (rq_intent rq) (rq_context rq)
      (refusal_for rq exc (ex_refusal_id X (wo_artifacts ?s))) = Inr r"
    "map_option co_pccb_id (rc_correlation r) = Some (JStr (pc_pccb_id (rq_pccb rq)))"
    using refused_receipt_exists[OF assms(2)] by metis
  have "rf_reason_code (refusal_for rq exc n) = re_code exc" for n
    by (simp add: refusal_for_def create_from_exception_def)
  then show ?thesis
    by (simp add: execute_def execute_try_refused[OF assms(1)] report_refusal_run[OF st(1) r] world.defs st Let_def)
qed

text \<open>What a successful execution under effect protection carries.\<close>

definition committed :: "execution_result \<Rightarrow> bool" where
  "committed res \<longleftrightarrow> (case xr_receipt res of None \<Rightarrow> False | Some r \<Rightarrow>
     (case dget (rc_extensions r) ''effect'' of
        Some (JObj e) \<Rightarrow> get_or_null e ''outcome'' = JStr ''COMMITTED'' | _ \<Rightarrow> False))"

abbreviation commit_seen :: "('s, 'e, 'w) exec_state \<Rightarrow> bool" where
  "commit_seen s \<equiv> (case lv_effect_evidence s of None \<Rightarrow> False | Some e \<Rightarrow> get_or_null e ''outcome'' = JStr ''COMMITTED'')"

lemma true_triples [simp]:
  "valid P m (\<lambda>_ _. True) (\<lambda>_ _. True)"
  by (simp add: valid_def split: prod.split sum.split)

lemma finish_committed:
  "valid commit_seen (finish_execution D X rq c payload) (\<lambda>res s. committed res) (\<lambda>_ _. True)"
proof -
  have store: "keeps commit_seen (on_outside m)" "keeps commit_seen (execution_receipt X rq pl)" for m pl
    unfolding execution_receipt_def by (rule keepsI; simp add: on_outside_def zoomP_def new_artifact_def split: prod.split sum.split)+
  have read: "valid commit_seen (readP lv_effect_evidence)
      (\<lambda>ev s. \<exists>e. ev = Some e \<and> get_or_null e ''outcome'' = JStr ''COMMITTED'') (\<lambda>_ _. True)"
    by (auto simp: valid_def readP_def split: option.splits)
  have "valid (\<lambda>s. \<exists>e. ev = Some e \<and> get_or_null e ''outcome'' = JStr ''COMMITTED'')
      (let r' = (case ev of None \<Rightarrow> r | Some e \<Rightarrow> r\<lparr>rc_extensions := dput (rc_extensions r) ''effect'' (JObj e)\<rparr>) in
       bindP (store_receipt D X r') (\<lambda>_. bindP (record_idempotency X rq payload) (\<lambda>_.
       retP \<lparr>xr_receipt = Some r', xr_refusal = None, xr_payload = payload\<rparr>)))
      (\<lambda>res s. committed res) (\<lambda>_ _. True)" for ev r
    by (auto simp: valid_def prog_defs committed_def Let_def split: prod.splits sum.splits)
  then show ?thesis
    unfolding finish_execution_def
    by (intro valid_step[where P = commit_seen] store valid_bindP[OF read]; blast?)
qed

lemma dispatch_committed:
  assumes "ex_effects X = Some P"
  shows "valid (\<lambda>_. True) (dispatch D X rq handler) (\<lambda>res s. committed res) (\<lambda>_ _. True)"
proof -
  let ?owned = "\<lambda>s. lv_effect_reference s \<noteq> None"
  have owned: "valid (\<lambda>_. True) (own_effect D X rq) (\<lambda>_. ?owned) (\<lambda>_ _. True)"
    by (auto simp: valid_def own_effect_def assms prog_defs on_outside_def split: prod.splits sum.splits)
  have keep: "keeps ?owned (on_outside m)" "keeps ?owned (modP (\<lambda>s. s\<lparr>lv_credential := c\<rparr>))"
    "keeps ?owned (modP (\<lambda>s. s\<lparr>lv_replay_consumed := b\<rparr>))" "keeps ?owned (modP (\<lambda>s. s\<lparr>lv_handler_started := True\<rparr>))"
    "keeps ?owned (on_replay m')" "keeps ?owned (readP f)" "keeps ?owned (retP x)" "keeps ?owned (raiseP e)" for m m' c b f x e
    by (rule keepsI; simp add: on_outside_def on_replay_def prog_defs split: prod.split sum.split)+
  have mark: "keeps ?owned (mark_replay_consumed X rq)" and call: "keeps ?owned (call_handler handler rq c)" for c
    unfolding mark_replay_consumed_def call_handler_def by (intro keeps_bindP keeps_catchP valid_if valid_case_option keep)+
  have evidence: "valid ?owned (check_evidence D payload) (\<lambda>_. commit_seen) (\<lambda>_ _. True)" for payload
    by (auto simp: valid_def check_evidence_def prog_defs split: prod.splits sum.splits if_splits)
  show ?thesis
    unfolding dispatch_def
    by (rule valid_bindP[where R = "\<lambda>_ _. True"], simp, rule valid_bindP[OF owned],
        intro valid_step[where P = ?owned] keep mark call valid_bindP[OF evidence] finish_committed; simp)
qed

lemma execute_body_committed:
  assumes "ex_effects X = Some P"
  shows "valid (\<lambda>_. True) (execute_body D X rq handler decision) (\<lambda>res s. committed res) (\<lambda>_ _. True)"
proof -
  have prior: "valid (\<lambda>_. True) (prior_result D X rq) (\<lambda>p _. p = None) (\<lambda>_ _. True)"
    by (simp add: valid_def prior_result_def idempotency_key_def assms retP_def)
  have last: "valid (\<lambda>_. p = None) (case p of Some result \<Rightarrow> retP result | None \<Rightarrow> dispatch D X rq handler)
      (\<lambda>res s. committed res) (\<lambda>_ _. True)" for p
    using dispatch_committed[OF assms] by (cases p) (simp_all add: valid_def)
  show ?thesis
    unfolding execute_body_def
    by (intro valid_step[where P = "\<lambda>_. True"] valid_bindP[OF prior] last; simp)
qed

lemma report_refusal_refuses:
  "report_refusal D X rq exc s = (Inr res, s') \<Longrightarrow> xr_refusal res \<noteq> None"
  by (auto simp: report_refusal_def prog_defs split: prod.splits sum.splits)

lemma execute_try_committed:
  assumes "ex_effects X = Some P"
  shows "valid (\<lambda>_. True) (execute_try D X rq handler decision) (\<lambda>res s. xr_refusal res \<noteq> None \<or> committed res) (\<lambda>_ _. True)"
proof -
  have report: "valid (\<lambda>_. True) (report_refusal D X rq exc) (\<lambda>res s. xr_refusal res \<noteq> None \<or> committed res) (\<lambda>_ _. True)" for exc
    by (rule validI) (auto dest: report_refusal_refuses)
  have "valid (\<lambda>_. True) (on_refusal D X rq exc) (\<lambda>res s. xr_refusal res \<noteq> None \<or> committed res) (\<lambda>_ _. True)" for exc
    unfolding on_refusal_def Let_def by (intro valid_step[where P = "\<lambda>_. True"] report; simp)
  moreover have "valid (\<lambda>_. True) (on_exception D X rq e) (\<lambda>res s. xr_refusal res \<noteq> None \<or> committed res) (\<lambda>_ _. True)" for e
    unfolding on_exception_def Let_def by (intro valid_step[where P = "\<lambda>_. True"] report; simp)
  ultimately show ?thesis
    unfolding execute_try_def
    by (intro valid_catchP[where R = "\<lambda>_ _. True"] valid_weaken[OF execute_body_committed[OF assms]])
       (auto split: exn.split)
qed

text \<open>Under effect protection the execution succeeds when the effect is claimed and the evidence of the
  handler says it was committed.\<close>

lemma finish_with_evidence:
  assumes "plain_intent (rq_intent rq)" "idempotency_key X rq = None"
    and "cb_release (ex_broker X) c [(''outcome'', JStr ''executed''), (''payload'', json_payload payload)] (wo_outside s) = (Inr u, o3)"
  shows "\<exists>r. fst (finish_execution D X rq c payload s) = Inr \<lparr>xr_receipt = Some r, xr_refusal = None, xr_payload = payload\<rparr>"
proof -
  let ?r = "success_receipt X rq c payload (wo_artifacts s)"
  let ?r' = "case lv_effect_evidence s of None \<Rightarrow> ?r | Some e \<Rightarrow> ?r\<lparr>rc_extensions := dput (rc_extensions ?r) ''effect'' (JObj e)\<rparr>"
  have "fst (write_receipt D t ?r' w) = Inr ()" for t w
    by (rule write_correlated[where p = "pc_pccb_id (rq_pccb rq)"]) (simp add: success_receipt_def receipt_of_intent_def basic_correlation_def Let_def split: option.split)
  with success_receipt_created[OF assms(1), of X "wo_artifacts s" payload c] show ?thesis
    using assms(2-) by (simp add: finish_execution_def prog_defs on_outside_def execution_receipt_def new_artifact_def
        store_run record_idempotency_def Let_def)
qed

lemma effect_execution_succeeds:
  assumes "cleared D X rq decision" "plain_intent (rq_intent rq)"
    and "ex_replay X = None" "ex_escrow X = None" "ex_effects X = Some P"
    and "claim_effect D P rq (wo_outside w) = (Inr ref, o0)"
    and "cb_acquire (ex_broker X) (rq_intent rq) (rq_pccb rq) (rq_context rq) o0 = (Inr c, o1)"
    and "handler rq c o1 = (Inr payload, o2)"
    and "read_evidence D ref payload = Inr e" "get_or_null e ''outcome'' = JStr ''COMMITTED''"
    and "cb_release (ex_broker X) c [(''outcome'', JStr ''executed''), (''payload'', json_payload payload)] o2 = (Inr u, o3)"
  shows "\<exists>r. fst (execute D X rq handler decision w) = Inr \<lparr>xr_receipt = Some r, xr_refusal = None, xr_payload = payload\<rparr>"
proof -
  let ?s = "(start_state w)\<lparr>lv_replay_state := None, lv_effect_reference := Some ref, lv_credential := Some c,
      lv_replay_consumed := False, lv_handler_started := True, wo_outside := o2, lv_effect_evidence := Some e\<rparr>"
  have v: "verify D (ex_verifier X) (rq_intent rq) (rq_pccb rq) (rq_context rq) = Inr ()"
    and p: "check_policy decision = retP ()"
    using assms(1) by (auto simp: cleared_def check_policy_def fun_eq_iff split: option.splits)
  have key: "idempotency_key X rq = None" using assms(5) by (simp add: idempotency_key_def)
  have st: "wo_outside (start_state w) = wo_outside w" "lv_replay_state (start_state w) = None"
      "lv_replay_consumed (start_state w) = False"
    by (simp_all add: start_state_def world.defs)
  have "execute_body D X rq handler decision (start_state w) = finish_execution D X rq c payload ?s"
    using assms key st by (simp add: execute_body_def v p prog_defs check_effect_extension_def claim_replay_def
        prior_result_def dispatch_def consume_escrow_def own_effect_def mark_replay_consumed_def on_outside_def
        call_handler_def check_evidence_def)
  moreover from finish_with_evidence[OF assms(2) key, of c payload ?s u o3 D] assms(11)
  obtain r s' where "finish_execution D X rq c payload ?s =
      (Inr \<lparr>xr_receipt = Some r, xr_refusal = None, xr_payload = payload\<rparr>, s')" by (auto simp: prod_eq_iff)
  ultimately show ?thesis by (simp add: execute_def execute_try_def catchP_def)
qed

section \<open>Properties\<close>

text \<open>C1 (handler_at_most_once): Over any sequence of executions, by any executors that share a replay
  database and refuse on its failures, with any handlers, brokers, escrows and policy decisions, and
  with any other use of that database in between, no replay key reaches a handler twice.\<close>

theorem handler_at_most_once:
  "distinct (spend_trace (run_exec D (db_replay D) run_replay) (handler_key D (db_replay D) (request_key D)) ops w)"
  by (rule db.calls.spend_trace_distinct)


text \<open>C16 (execute_reports): Without effect protection, and for an intent that is neither a refund nor
  an invoice payment, an execution always returns: every refusal and every exception of the proof, the stores, the broker
  or the handler ends in a result whose receipt, and refusal if any, are the ones written last.\<close>

theorem execute_reports:
  assumes "ex_effects X = None" "plain_intent (rq_intent rq)"
  shows "\<exists>res. fst (execute D X rq handler decision w) = Inr res \<and>
    reported res (wo_writer (snd (execute D X rq handler decision w)))"
proof -
  have "no_effect (start_state w)" by (simp add: start_state_def world.defs)
  then show ?thesis
    using execute_try_reports[OF assms, of D handler decision]
    by (cases "execute_try D X rq handler decision (start_state w)"; cases "fst (execute_try D X rq handler decision (start_state w))")
       (auto simp: execute_def world.defs dest: validD_Inr validD_Inl)
qed

text \<open>C15 (cleared_request_executes): A request that verifies, is allowed by policy, whose key is free in
  the replay database and whose proof has not expired reaches its handler, and the execution returns
  the payload of the handler with an executed receipt. The executor has the database replay store, no
  escrow and no effect protection; the proof has no effect extension, no idempotency key applies, the
  intent is neither a refund nor an invoice payment, and the acquire and release of the broker and the
  handler succeed.\<close>

theorem cleared_request_executes:
  assumes "cleared D X rq decision" "claimable D rq (wo_replay w)" "plain_intent (rq_intent rq)"
    and "\<not> dmem (pc_extensions (rq_pccb rq)) ''effect''" "ex_escrow X = None" "ex_effects X = None" "idempotency_key X rq = None"
    and "cb_acquire (ex_broker X) (rq_intent rq) (rq_pccb rq) (rq_context rq) (wo_outside w) = (Inr c, o1)"
    and "handler rq c o1 = (Inr payload, o2)"
    and "cb_release (ex_broker X) c [(''outcome'', JStr ''executed''), (''payload'', json_payload payload)] o2 = (Inr u, o3)"
  shows "fst (execute D (guarded (db_replay D) X) rq handler decision w) =
      Inr \<lparr>xr_receipt = Some (success_receipt X rq c payload (wo_artifacts w)), xr_refusal = None, xr_payload = payload\<rparr>
    \<and> lv_handler_started (snd (execute_try D (guarded (db_replay D) X) rq handler decision (start_state w)))"
  by (rule executes_claimable[where handler = handler, OF assms]) simp

text \<open>A concrete endpoint: the sample verifier, the database store and the in-memory broker.\<close>

definition sample_executor :: "(replay_store, mem_escrow, memory_broker) executor" where
  "sample_executor = \<lparr>ex_text = \<lparr>pt_str = (\<lambda>_. []), pt_int = (\<lambda>_. None), pt_repr = (\<lambda>_. []), pt_upper = (\<lambda>s. s)\<rparr>,
     ex_receipt_id = (\<lambda>n. ''rcpt_'' @ show_nat n), ex_refusal_id = (\<lambda>n. ''rfsl_'' @ show_nat n), ex_wall = 0,
     ex_verifier = sample_verifier, ex_broker = memory_credential_broker,
     ex_replay = Some (db_replay sample_deps), ex_fail_open = False, ex_escrow = None, ex_effects = None,
     ex_idempotent = False\<rparr>"

definition sample_request :: execution_request where
  "sample_request = \<lparr>rq_intent = sample_intent, rq_pccb = sample_pccb, rq_context = sample_context\<rparr>"

definition sample_world :: "(replay_store, mem_escrow, memory_broker) world" where
  "sample_world = \<lparr>wo_replay = open_store [] None, wo_escrow = [],
     wo_outside = \<lparr>mb_ttl = 120000000, mb_prefix = ''memory://brokered-credential'', mb_ids = [''cred_1''],
       mb_issued = [], mb_released = []\<rparr>,
     wo_idempotency = [],
     wo_writer = \<lparr>ow_receipts = [], ow_refusals = [], ow_receipt_store = None, ow_refusal_store = None,
       ow_pccb_store = None, ow_graph = None\<rparr>, wo_artifacts = 0\<rparr>"

definition sample_handler :: "memory_broker brokered_handler" where
  "sample_handler rq c b = (Inr (Some [(''external_reference'', JStr ''re_1'')]), b)"

theorem execute_reports_witness:
  "\<exists>res. fst (execute sample_deps sample_executor sample_request sample_handler None sample_world) = Inr res \<and>
    reported res (wo_writer (snd (execute sample_deps sample_executor sample_request sample_handler None sample_world)))"
  by (rule execute_reports)
     (simp_all add: sample_executor_def sample_request_def sample_intent_def plain_intent_def is_refund_intent_def
       is_invoice_payment_intent_def)

lemma sample_pccb_shape:
  obtains h where "pc_action_hash sample_pccb = \<lparr>ah_algorithm = ''sha-256'', ah_canonicalization = ''ACTENON-JCS-STRICT-1'', ah_value = h\<rparr>"
    "\<not> has_surrogate h" "length h = 64"
    "pc_extensions sample_pccb = []" "pc_expires_at sample_pccb = 63000000600000000" "pc_pccb_id sample_pccb = ''pccb-1''"
    "pc_nonce sample_pccb = ''nonce-1''" "pc_audience sample_pccb = sample_audience" "pc_escrow_id sample_pccb = JStr ''esc-1''"
proof -
  from sample_pccb_fields obtain u s where
    u: "unsigned_pccb sample_deps sample_minter ''pccb-1'' ''nonce-1'' sample_intent sample_context (JStr ''esc-1'') [] = Inr u"
    and p: "sample_pccb = u\<lparr>pc_signature := s\<rparr>" .
  note f = unsigned_pccb_fields[OF u]
  define h where "h = ah_value (pc_action_hash u)"
  obtain b where "h = hex_of_bytes (sample_sha256 b)"
    using f(21) by (auto simp: h_def[symmetric] sha256_hex_def sample_deps_def intro: sym)
  then have "\<not> has_surrogate h" "length h = 64" by (simp_all add: length_hex_of_bytes)
  moreover have "pc_action_hash u = \<lparr>ah_algorithm = ''sha-256'', ah_canonicalization = ''ACTENON-JCS-STRICT-1'', ah_value = h\<rparr>"
    using f(19,20) by (simp add: h_def sample_deps_def)
  ultimately show thesis
    using f by (intro that[of h]) (simp_all add: p sample_intent_def sample_context_def)
qed

lemma sample_claimable: "claimable sample_deps sample_request (wo_replay sample_world)"
proof -
  obtain h where h: "pc_action_hash sample_pccb = \<lparr>ah_algorithm = ''sha-256'', ah_canonicalization = ''ACTENON-JCS-STRICT-1'', ah_value = h\<rparr>"
    "\<not> has_surrogate h" "length h = 64" "pc_extensions sample_pccb = []" "pc_expires_at sample_pccb = 63000000600000000"
    "pc_pccb_id sample_pccb = ''pccb-1''" "pc_nonce sample_pccb = ''nonce-1''" "pc_audience sample_pccb = sample_audience"
    "pc_escrow_id sample_pccb = JStr ''esc-1''"
    by (rule sample_pccb_shape)
  let ?input = "JObj [(''pccb_id'', JStr (pc_pccb_id sample_pccb)), (''intent_id'', JStr (ai_intent_id sample_intent)),
      (''nonce'', JStr (pc_nonce sample_pccb)), (''action_hash'', JObj (action_hash_to_dict (pc_action_hash sample_pccb))),
      (''audience'', JObj (audience_to_dict (pc_audience sample_pccb))), (''capability'', JStr (ac_capability (ai_action sample_intent))),
      (''target'', JObj (target_to_dict (ai_target sample_intent)))]"
  have "is_ok (canonicalize_bytes sample_deps ?input)"
    using h by (intro canonicalize_bytes_ok)
      (simp_all add: action_hash_to_dict_def audience_to_dict_def target_to_dict_def put_defs put_if_def
        sample_intent_def sample_audience_def sample_deps_def)
  then obtain k where "request_key sample_deps sample_request = Some k"
    by (auto simp: is_ok_iff request_key_def build_replay_key_def sha256_hex_def sample_request_def)
  then show ?thesis
    using h by (simp add: claimable_def sample_world_def open_store_def store_current_def dict_wf_def reclaimable_def
        row_status_def sample_request_def sample_context_def dt_ok_def datetime_limit_def)
qed

lemma sample_cleared: "cleared sample_deps sample_executor sample_request None"
  by (simp add: cleared_def sample_executor_def sample_request_def sample_verifies)

lemma sample_guarded: "guarded (db_replay sample_deps) sample_executor = sample_executor"
  by (simp add: guarded_def sample_executor_def)

lemma sample_acquire:
  "\<exists>c b. cb_acquire (ex_broker sample_executor) (rq_intent sample_request) (rq_pccb sample_request) (rq_context sample_request)
      (wo_outside sample_world) = (Inr c, b)"
  by (simp add: sample_executor_def memory_credential_broker_def memory_acquire_def sample_world_def sample_request_def
      sample_context_def dt_add_def dt_ok_def datetime_limit_def Let_def)

lemma sample_plain:
  "plain_intent (rq_intent sample_request)" "\<not> dmem (pc_extensions (rq_pccb sample_request)) ''effect''"
  "ex_escrow sample_executor = None" "ex_effects sample_executor = None" "idempotency_key sample_executor sample_request = None"
  "cb_release (ex_broker sample_executor) c d b = (Inr (), b\<lparr>mb_released := mb_released b @ [(c, d)]\<rparr>)"
  by (rule sample_pccb_shape, simp add: plain_intent_def idempotency_key_def sample_request_def sample_executor_def dmem_def
      sample_intent_def is_refund_intent_def is_invoice_payment_intent_def memory_credential_broker_def memory_release_def)+

theorem cleared_request_executes_witness:
  "\<exists>r. fst (execute sample_deps sample_executor sample_request sample_handler None sample_world) =
     Inr \<lparr>xr_receipt = Some r, xr_refusal = None, xr_payload = Some [(''external_reference'', JStr ''re_1'')]\<rparr>"
proof -
  obtain c b where "cb_acquire (ex_broker sample_executor) (rq_intent sample_request) (rq_pccb sample_request)
      (rq_context sample_request) (wo_outside sample_world) = (Inr c, b)" using sample_acquire by blast
  from cleared_request_executes[where handler = sample_handler, OF sample_cleared sample_claimable sample_plain(1-5) this
      sample_handler_def sample_plain(6)]
  show ?thesis by (simp add: sample_guarded)
qed


text \<open>When the proof is refused, the replay store, the escrow, the
  idempotency store and the outside world of the broker, the ledger and the handler are left as they
  were, and the result is the refusal with its code and no payload.\<close>

theorem refused_proof_touches_nothing:
  assumes "verify D (ex_verifier X) (rq_intent rq) (rq_pccb rq) (rq_context rq) = Inl (Refuse exc)"
    and "plain_intent (rq_intent rq)"
  shows "(let w' = snd (execute D X rq handler decision w) in
      wo_replay w' = wo_replay w \<and> wo_escrow w' = wo_escrow w \<and> wo_outside w' = wo_outside w \<and>
      wo_idempotency w' = wo_idempotency w) \<and>
    (\<exists>r f. fst (execute D X rq handler decision w) = Inr \<lparr>xr_receipt = Some r, xr_refusal = Some f, xr_payload = None\<rparr> \<and>
      rf_reason_code f = re_code exc)"
  using assms by (rule execute_refused)

definition sample_late :: dynamic_context where
  "sample_late = sample_context\<lparr>cx_now := 63000000700000000\<rparr>"

lemma sample_expired: "\<exists>exc. verify sample_deps sample_verifier i sample_pccb sample_late = Inl (Refuse exc)"
proof -
  have "verify_authenticity sample_deps sample_verifier sample_pccb = Inr ()"
    using sample_verifies by (simp add: verify_ok verify_authenticity_ok)
  moreover have "verify_time sample_verifier sample_pccb sample_late = fail_post sample_verifier ''PROOF_EXPIRED''"
    by (rule sample_pccb_shape)
       (simp add: verify_time_def sample_verifier_def sample_late_def dt_add_def dt_ok_def datetime_limit_def sample_not_before)
  ultimately show ?thesis
    by (simp add: verify_def raise_post_auth_failure_def sample_verifier_def proof_refusal_def public_proof_refusal_message_def
        PUBLIC_PROOF_REFUSAL_MESSAGES_def error_defs)
qed

theorem refused_proof_touches_nothing_witness:
  "wo_replay (snd (execute sample_deps sample_executor (sample_request\<lparr>rq_context := sample_late\<rparr>) sample_handler None sample_world))
   = wo_replay sample_world"
proof -
  obtain exc where "verify sample_deps (ex_verifier sample_executor) (rq_intent (sample_request\<lparr>rq_context := sample_late\<rparr>))
      (rq_pccb (sample_request\<lparr>rq_context := sample_late\<rparr>)) (rq_context (sample_request\<lparr>rq_context := sample_late\<rparr>)) = Inl (Refuse exc)"
    using sample_expired by (auto simp: sample_request_def sample_executor_def)
  from refused_proof_touches_nothing[OF this] sample_plain(1) show ?thesis by (simp add: Let_def)
qed

text \<open>C35 (effect_success_needs_commit): Under effect protection an execution that returns a result
  without a refusal carries, in its receipt, consequence evidence of the boundary with the outcome
  committed; success is never inferred from the handler returning.\<close>

theorem effect_success_needs_commit:
  assumes "ex_effects X = Some P" "fst (execute D X rq handler decision w) = Inr res"
  shows "xr_refusal res \<noteq> None \<or> committed res"
  using validD_Inr[OF execute_try_committed[OF assms(1)], where s = "start_state w"] assms(2)
  by (auto simp: execute_def split: prod.splits)

text \<open>An effect-protected endpoint, a proof minted with the effect and authority extensions, and a handler
  that returns the evidence of a committed effect: this execution succeeds.\<close>

definition sample_reference :: effect_reference where
  "sample_reference = \<lparr>ef_profile = ''ACTENON-EFFECT-1'', ef_effect_id = ''effect_'' @ replicate 64 CHR ''a'',
     ef_reservation_id = ''reservation_'' @ replicate 32 CHR ''b'', ef_owner_attempt_id = ''exec_'' @ replicate 16 CHR ''c''\<rparr>"

definition sample_effect_extensions :: dict where
  "sample_effect_extensions = [(''effect'', JObj (reference_to_dict sample_reference)),
     (''authority'', JObj [(''issuer'', JStr ''service:issuer''), (''revocable'', JBool False)])]"

definition sample_effect_intent :: action_intent where
  "sample_effect_intent = sample_intent\<lparr>ai_intent_id := ef_owner_attempt_id sample_reference\<rparr>"

definition sample_effect_executor :: "(replay_store, mem_escrow, memory_broker) executor" where
  "sample_effect_executor = sample_executor\<lparr>ex_replay := None, ex_effects := Some \<lparr>ep_namespace = ''refunds'',
     ep_claim = (\<lambda>ref rq b. (Inr True, b)),
     ep_descriptor_builder = Some (\<lambda>rq. Inr (expected_descriptor sample_deps ''refunds'' rq @
       [(''effect_id'', JStr (ef_effect_id sample_reference))]))\<rparr>\<rparr>"

definition sample_evidence :: dict where
  "sample_evidence = reference_to_dict sample_reference @ [(''outcome'', JStr ''COMMITTED''),
     (''execution_occurred'', JBool True), (''evidence_hash'', JStr (replicate 64 CHR ''d''))]"

definition sample_effect_handler :: "memory_broker brokered_handler" where
  "sample_effect_handler rq c b = (Inr (Some [(''effect_evidence'', JObj sample_evidence)]), b)"

lemma sample_effect_clean:
  "\<not> has_surrogate (ef_profile sample_reference)" "\<not> has_surrogate (ef_effect_id sample_reference)"
  "\<not> has_surrogate (ef_reservation_id sample_reference)" "\<not> has_surrogate (ef_owner_attempt_id sample_reference)"
  by code_simp+

lemma sample_effect_lengths:
  "length (ef_profile sample_reference) = 16" "length (ef_effect_id sample_reference) = 71"
  "length (ef_reservation_id sample_reference) = 44" "length (ef_owner_attempt_id sample_reference) = 21"
  by (simp_all add: sample_reference_def)

lemma sample_effect_minted:
  "\<exists>p. mint sample_deps sample_minter ''pccb-1'' ''nonce-1'' sample_effect_intent sample_allow
     sample_context (JStr ''esc-1'') sample_effect_extensions = Inr p"
  using sample_mints[of "ef_owner_attempt_id sample_reference" sample_effect_extensions]
  by (simp add: is_ok_iff sample_effect_intent_def sample_effect_extensions_def reference_to_dict_def
      sample_effect_clean sample_effect_lengths)

lemma sample_effect_request_ok:
  assumes "mint sample_deps sample_minter ''pccb-1'' ''nonce-1'' sample_effect_intent sample_allow
     sample_context (JStr ''esc-1'') sample_effect_extensions = Inr p"
  shows "verify sample_deps sample_verifier sample_effect_intent p sample_context = Inr ()"
    "pc_extensions p = sample_effect_extensions" "pc_issuer p = mi_issuer sample_minter"
proof -
  from assms obtain u s where
    u: "unsigned_pccb sample_deps sample_minter ''pccb-1'' ''nonce-1'' sample_effect_intent sample_context (JStr ''esc-1'') sample_effect_extensions = Inr u"
    and p: "p = u\<lparr>pc_signature := s\<rparr>" by (elim mint_Inr) blast
  note f = unsigned_pccb_fields[OF u]
  show x: "pc_extensions p = sample_effect_extensions" "pc_issuer p = mi_issuer sample_minter"
    by (simp_all add: p f)
  have t: "in_time sample_verifier p sample_context"
    by (simp add: in_time_def p f sample_verifier_def sample_context_def sample_effect_intent_def sample_intent_def dt_ok_def
        datetime_limit_def)
  have r: "not_revoked sample_deps sample_verifier p sample_context"
    by (simp add: not_revoked_def x sample_verifier_def authority_revocable_def dmem_def sample_effect_extensions_def
        sample_deps_def)
  have c: "dep_capability_in_scope sample_deps (ac_capability (ai_action sample_effect_intent)) (sc_capabilities (pc_scope p))"
    using u by (auto simp: p unsigned_pccb_def sample_deps_def sample_context_def sample_effect_intent_def sample_intent_def)
  have sel: "cx_resource_selectors sample_context \<noteq> [] \<longrightarrow>
      any_target_satisfies sample_deps (ai_target sample_effect_intent) (cx_resource_selectors sample_context) = Inr True"
    using sample_selectors by (simp add: sample_effect_intent_def)
  show "verify sample_deps sample_verifier sample_effect_intent p sample_context = Inr ()"
    using hmac_sign_nonempty[of sample_deps sample_signer]
    by (intro hmac.minted_verifies[OF assms _ _ _ t _ c _ _ _ sel r, where alg = "''HS256''" and key = "''k1''"])
     (simp_all add: sample_minter_def sample_verifier_def sample_defs hmac_signer_ops_def hmac_verifier_def sample_effect_intent_def)
qed

lemma sample_reference_read:
  "reference_from_dict sample_deps (JObj (reference_to_dict sample_reference)) = Inr sample_reference"
  by (simp add: reference_from_dict_def reference_to_dict_def reference_patterns_def sample_reference_def sample_deps_def
      hex_id_def list_all_iff is_hex_lower_def)

lemma sample_same: "same_canonical sample_deps v v = Inr ()" if "json_clean v" "json_depth v \<le> 33" "text_bound v \<le> 1048576"
  using canonicalize_bytes_ok[of v sample_deps] that by (auto simp: same_canonical_def is_ok_iff sample_deps_def)

lemma sample_deps_effect:
  "dep_effect_profile sample_deps = ''ACTENON-EFFECT-1''"
  "dep_effect_identity sample_deps d = (case dget d ''effect_id'' of Some (JStr s) \<Rightarrow> Inr s | _ \<Rightarrow> Inl (Raise ValueError ''effect''))"
  "dep_parse_authority_extension sample_deps sample_effect_extensions = Inr [(''issuer'', JStr ''service:issuer''), (''revocable'', JBool False)]"
  "get_or_null sample_effect_extensions ''effect'' = JObj (reference_to_dict sample_reference)"
  "dep_validate_effect_outcome sample_deps x y z = Inr ()"
  by (simp_all add: sample_deps_def sample_effect_extensions_def)

lemma sample_effect_claimed:
  assumes "pc_extensions p = sample_effect_extensions" "pc_issuer p = mi_issuer sample_minter"
    and "ex_effects sample_effect_executor = Some P"
  shows "claim_effect sample_deps P \<lparr>rq_intent = sample_effect_intent, rq_pccb = p, rq_context = sample_context\<rparr> b
    = (Inr sample_reference, b)"
proof -
  have "effect_and_authority sample_deps p = Inr (sample_reference, [(''issuer'', JStr ''service:issuer''), (''revocable'', JBool False)])"
    using sample_reference_read
    by (simp add: effect_and_authority_def assms(1) sample_deps_effect)
  moreover have "derive_effect sample_deps P \<lparr>rq_intent = sample_effect_intent, rq_pccb = p, rq_context = sample_context\<rparr>
      = Inr (ef_effect_id sample_reference)"
    using assms(3) by (auto simp: derive_effect_def sample_effect_executor_def expected_descriptor_def sample_same
        sample_effect_intent_def sample_intent_def sample_deps_effect show_int_def show_nat.simps[of 5] INT_MAX_STR_DIGITS_def)
  ultimately show ?thesis
    using assms(2,3) by (auto simp: claim_effect_def prog_defs sample_effect_intent_def sample_minter_def
        sample_effect_executor_def)
qed

lemma sample_effect_evidence:
  "read_evidence sample_deps sample_reference (Some [(''effect_evidence'', JObj sample_evidence)]) = Inr sample_evidence"
  "get_or_null sample_evidence ''outcome'' = JStr ''COMMITTED''"
  by (auto simp: read_evidence_def payload_dict_def sample_evidence_def evidence_keys_def reference_to_dict_def
      sample_deps_effect)

theorem effect_success_needs_commit_witness:
  "\<exists>p res. fst (execute sample_deps sample_effect_executor
       \<lparr>rq_intent = sample_effect_intent, rq_pccb = p, rq_context = sample_context\<rparr> sample_effect_handler None sample_world) = Inr res \<and>
     xr_refusal res = None \<and> committed res"
proof -
  obtain p where "mint sample_deps sample_minter ''pccb-1'' ''nonce-1'' sample_effect_intent sample_allow
      sample_context (JStr ''esc-1'') sample_effect_extensions = Inr p" using sample_effect_minted by blast
  note ok = sample_effect_request_ok[OF this]
  let ?rq = "\<lparr>rq_intent = sample_effect_intent, rq_pccb = p, rq_context = sample_context\<rparr>"
  obtain P where P: "ex_effects sample_effect_executor = Some P" by (simp add: sample_effect_executor_def)
  have X: "cleared sample_deps sample_effect_executor ?rq None" "plain_intent (rq_intent ?rq)"
    "ex_replay sample_effect_executor = None" "ex_escrow sample_effect_executor = None"
    using ok(1) by (simp_all add: cleared_def sample_effect_executor_def sample_executor_def plain_intent_def
        sample_effect_intent_def sample_intent_def is_refund_intent_def is_invoice_payment_intent_def)
  obtain c b where acquired: "cb_acquire (ex_broker sample_effect_executor) (rq_intent ?rq) (rq_pccb ?rq) (rq_context ?rq)
      (wo_outside sample_world) = (Inr c, b)"
    by (simp add: sample_effect_executor_def sample_executor_def memory_credential_broker_def memory_acquire_def sample_world_def
      sample_context_def dt_add_def dt_ok_def datetime_limit_def Let_def)
  have "cb_release (ex_broker sample_effect_executor) c d b = (Inr (), b\<lparr>mb_released := mb_released b @ [(c, d)]\<rparr>)" for d
    by (simp add: sample_effect_executor_def sample_executor_def memory_credential_broker_def memory_release_def)
  from effect_execution_succeeds[where handler = sample_effect_handler, OF X P sample_effect_claimed[OF ok(2,3) P] acquired
      sample_effect_handler_def sample_effect_evidence this]
  obtain r where "fst (execute sample_deps sample_effect_executor ?rq sample_effect_handler None sample_world) =
      Inr \<lparr>xr_receipt = Some r, xr_refusal = None, xr_payload = Some [(''effect_evidence'', JObj sample_evidence)]\<rparr>" by blast
  with effect_success_needs_commit[OF P this] show ?thesis by (intro exI) auto
qed

text \<open>For a refund intent without an amount, the refusal of the proof is not
  reported: building the refused receipt raises \<open>KeyError\<close>, which leaves \<open>execute\<close>.\<close>

theorem refund_refusal_escapes:
  assumes "verify D (ex_verifier X) (rq_intent rq) (rq_pccb rq) (rq_context rq) = Inl (Refuse exc)"
    and "is_refund_intent (rq_intent rq)" "dget (ac_parameters (ai_action (rq_intent rq))) ''amount_minor'' = None"
  shows "fst (execute D X rq handler decision w) = Inl (Raise KeyError ''amount_minor'')"
  using assms(2,3)
  by (simp add: execute_def execute_try_refused[OF assms(1)] report_refusal_def prog_defs new_artifact_def
      create_refused_receipt_def index_str_def py_index_def split: prod.split)

theorem refund_refusal_escapes_witness:
  "fst (execute sample_deps sample_executor
     \<lparr>rq_intent = sample_intent\<lparr>ai_action := \<lparr>ac_name = ''refund.create'', ac_capability = ''refund.execute'',
        ac_parameters = [(''reason'', JStr ''x'')], ac_constraints = [], ac_scope = []\<rparr>\<rparr>,
      rq_pccb = sample_pccb, rq_context = sample_late\<rparr> sample_handler None sample_world)
   = Inl (Raise KeyError ''amount_minor'')"
  (is "fst (execute _ _ ?rq _ _ _) = _")
proof -
  obtain exc where "verify sample_deps (ex_verifier sample_executor) (rq_intent ?rq) (rq_pccb ?rq) (rq_context ?rq) = Inl (Refuse exc)"
    using sample_expired[of "rq_intent ?rq"] by (auto simp: sample_executor_def)
  then show ?thesis by (rule refund_refusal_escapes) (simp_all add: is_refund_intent_def)
qed

end
