(* ===== verification/Middleware.thy ===== *)
theory Middleware
  imports Executor
begin

text \<open>
  The escrow middleware of a protected endpoint (\<^verbatim>\<open>verifier/middleware.py\<close>). Its single use rests on
  the escrow: the handler is called after the escrow record of the proof has been consumed, and before
  the replay record is. The model uses the state of the executor; of its local variables the code
  has \<open>replay_state\<close> only, and \<open>lv_handler_started\<close> records that the handler was called.
\<close>

record ('s, 'e) middleware = factories +
  md_verifier :: verifier
  md_replay :: "'s replay_ops"
  md_escrow :: "'e escrow_consume"

type_synonym 'w plain_handler = "execution_request \<Rightarrow> ('w, dict option) prog"

text \<open>\<open>replay_state.replay_key\<close>.\<close>

definition held_key :: "consumption_state option \<Rightarrow> string res" where
  "held_key state = (case state of None \<Rightarrow> Inl (Raise AttributeError ''replay_key'') | Some cs \<Rightarrow> Inr (cs_replay_key cs))"

definition mid_effect_check :: "pccb \<Rightarrow> ('s, 'e, 'w, unit) xprog" where
  "mid_effect_check p = (if dmem (pc_extensions p) ''effect''
     then raiseP (RefusalException ''policy'' ''POLICY_REFUSAL''
       ''This middleware cannot enforce effect ownership; use an effect-aware ProtectedExecutor.'' False [])
     else retP ())"

definition mid_consume :: "('s, 'e) middleware \<Rightarrow> execution_request \<Rightarrow> ('s, 'e, 'w, unit) xprog" where
  "mid_consume M rq = bindP (on_escrow (md_escrow M (pc_escrow_id (rq_pccb rq)) (pc_pccb_id (rq_pccb rq))
     (ac_capability (ai_action (rq_intent rq))) (cx_now (rq_context rq)))) (\<lambda>_. retP ())"

definition mid_mark :: "('s, 'e) middleware \<Rightarrow> execution_request \<Rightarrow> ('s, 'e, 'w, unit) xprog" where
  "mid_mark M rq =
     bindP (readP lv_replay_state) (\<lambda>state.
     bindP (liftP (held_key state)) (\<lambda>key.
     bindP (on_replay (ro_mark (md_replay M) key (cx_now (rq_context rq)))) (\<lambda>_. retP ())))"

definition mid_call :: "'w plain_handler \<Rightarrow> execution_request \<Rightarrow> ('s, 'e, 'w, dict option) xprog" where
  "mid_call handler rq = bindP (modP (\<lambda>s. s\<lparr>lv_handler_started := True\<rparr>)) (\<lambda>_. on_outside (handler rq))"

definition mid_body :: "deps \<Rightarrow> ('s, 'e) middleware \<Rightarrow> execution_request \<Rightarrow> 'w plain_handler
    \<Rightarrow> ('s, 'e, 'w, execution_result) xprog" where
  "mid_body D M rq handler =
     bindP (liftP (verify D (md_verifier M) (rq_intent rq) (rq_pccb rq) (rq_context rq))) (\<lambda>_.
     bindP (mid_effect_check (rq_pccb rq)) (\<lambda>_.
     bindP (if pc_escrow_id (rq_pccb rq) = JNull
       then raiseP (RefusalException ''escrow'' ''ESCROW_REFERENCE_MISSING''
         ''The proof does not include an escrow reference.'' False []) else retP ()) (\<lambda>_.
     bindP (on_replay (ro_claim (md_replay M) rq)) (\<lambda>state.
     bindP (modP (\<lambda>s. s\<lparr>lv_replay_state := state\<rparr>)) (\<lambda>_.
     bindP (mid_consume M rq) (\<lambda>_.
     bindP (mid_call handler rq) (\<lambda>payload.
     bindP (mid_mark M rq) (\<lambda>_.
     bindP (execution_receipt M rq payload) (\<lambda>receipt.
     bindP (store_receipt D M receipt) (\<lambda>_.
     retP \<lparr>xr_receipt = Some receipt, xr_refusal = None, xr_payload = payload\<rparr>))))))))))"

text \<open>\<open>except RefusalException\<close>: the claim is released for three categories only, and a failure of the
  release leaves \<open>execute\<close>.\<close>

definition mid_on_refusal :: "deps \<Rightarrow> ('s, 'e) middleware \<Rightarrow> execution_request \<Rightarrow> refusal_exception
    \<Rightarrow> ('s, 'e, 'w, execution_result) xprog" where
  "mid_on_refusal D M rq exc =
     bindP (readP lv_replay_state) (\<lambda>state.
     bindP (case state of None \<Rightarrow> retP ()
       | Some cs \<Rightarrow> if re_category exc \<in> {''escrow'', ''authorization'', ''proof''}
           then bindP (on_replay (ro_release (md_replay M) (cs_replay_key cs) (cx_now (rq_context rq)) (re_code exc))) (\<lambda>_. retP ())
           else retP ()) (\<lambda>_.
     report_refusal D M rq exc))"

text \<open>\<open>except Exception\<close>.\<close>

definition mid_on_exception :: "deps \<Rightarrow> ('s, 'e) middleware \<Rightarrow> execution_request \<Rightarrow> exn
    \<Rightarrow> ('s, 'e, 'w, execution_result) xprog" where
  "mid_on_exception D M rq e =
     bindP (readP lv_replay_state) (\<lambda>state.
     bindP (case state of None \<Rightarrow> retP () | Some _ \<Rightarrow> mid_mark M rq) (\<lambda>_.
     report_refusal D M rq (simple_refusal ''execution'' ''EXECUTION_FAILED'' SAFE_HANDLER_EXCEPTION_MESSAGE
       (redacted_handler_exception_details e (Some (cx_request_id (rq_context rq)))))))"

definition mid_try :: "deps \<Rightarrow> ('s, 'e) middleware \<Rightarrow> execution_request \<Rightarrow> 'w plain_handler
    \<Rightarrow> ('s, 'e, 'w, execution_result) xprog" where
  "mid_try D M rq handler = catchP (mid_body D M rq handler) (\<lambda>e.
     case e of Refuse exc \<Rightarrow> mid_on_refusal D M rq exc | Raise _ _ \<Rightarrow> mid_on_exception D M rq e)"

definition mid_execute :: "deps \<Rightarrow> ('s, 'e) middleware \<Rightarrow> execution_request \<Rightarrow> 'w plain_handler
    \<Rightarrow> (('s, 'e, 'w) world, execution_result) prog" where
  "mid_execute D M rq handler w = (case mid_try D M rq handler (start_state w) of (r, s) \<Rightarrow> (r, world.truncate s))"

section \<open>The escrow contract\<close>

text \<open>The escrow operation of a store whose ids are texts; \<open>other_id\<close> is what a value that is not a text does.\<close>

definition by_text_id :: "(json \<Rightarrow> ('e, escrow_record) prog) \<Rightarrow> (string \<Rightarrow> string \<Rightarrow> string \<Rightarrow> datetime \<Rightarrow> ('e, escrow_record) prog)
    \<Rightarrow> 'e escrow_consume" where
  "by_text_id other_id consume eid pid cap now = (case eid of JStr s \<Rightarrow> consume s pid cap now | _ \<Rightarrow> other_id eid)"

text \<open>In memory an id that is not a text is no key of the dictionary, or not hashable.\<close>

definition mem_other_id :: "json \<Rightarrow> (mem_escrow, escrow_record) prog" where
  "mem_other_id eid = raiseP (if hashable eid
     then EscrowValidationError ''ESCROW_NOT_FOUND'' ''The escrow record does not exist.''
     else Raise TypeError ''unhashable type'')"

datatype ('s, 'e, 'w, 'o) mid_op = MidCall "('s, 'e) middleware" execution_request "'w plain_handler" | MidElsewhere 'o

fun run_mid :: "deps \<Rightarrow> 'e escrow_consume \<Rightarrow> ('o \<Rightarrow> 'e \<Rightarrow> 'e) \<Rightarrow> ('s, 'e, 'w, 'o) mid_op \<Rightarrow> ('s, 'e, 'w) world \<Rightarrow> ('s, 'e, 'w) world" where
  "run_mid D consume other (MidCall M rq handler) w = snd (mid_execute D (M\<lparr>md_escrow := consume\<rparr>) rq handler w)"
| "run_mid D consume other (MidElsewhere op) w = w\<lparr>wo_escrow := other op (wo_escrow w)\<rparr>"

fun mid_handler_key :: "deps \<Rightarrow> 'e escrow_consume \<Rightarrow> ('s, 'e, 'w, 'o) mid_op \<Rightarrow> ('s, 'e, 'w) world \<Rightarrow> json option" where
  "mid_handler_key D consume (MidCall M rq handler) w =
     (if lv_handler_started (snd (mid_try D (M\<lparr>md_escrow := consume\<rparr>) rq handler (start_state w)))
      then Some (pc_escrow_id (rq_pccb rq)) else None)"
| "mid_handler_key D consume (MidElsewhere op) w = None"

definition mid_inv :: "('e \<Rightarrow> json \<Rightarrow> bool) \<Rightarrow> 'e \<Rightarrow> bool \<Rightarrow> json \<Rightarrow> ('s, 'e, 'w) exec_state \<Rightarrow> bool" where
  "mid_inv spent e0 ok eid s \<longleftrightarrow> (\<forall>k. spent e0 k \<longrightarrow> spent (wo_escrow s) k) \<and>
     (lv_handler_started s \<longrightarrow> ok \<and> spent (wo_escrow s) eid \<and> \<not> spent e0 eid)"

text \<open>Predicates on the escrow and on whether the handler was called.\<close>

definition escrow_stable :: "(('s, 'e, 'w) exec_state \<Rightarrow> bool) \<Rightarrow> bool" where
  "escrow_stable I \<longleftrightarrow> (\<forall>s s'. wo_escrow s' = wo_escrow s \<longrightarrow> lv_handler_started s' = lv_handler_started s \<longrightarrow> I s \<longrightarrow> I s')"

lemma escrow_stableD: "escrow_stable I \<Longrightarrow> I s \<Longrightarrow> wo_escrow s' = wo_escrow s \<Longrightarrow>
    lv_handler_started s' = lv_handler_started s \<Longrightarrow> I s'"
  by (auto simp: escrow_stable_def)

lemma keeps_mid_inv:
  fixes I :: "('s, 'e, 'w) exec_state \<Rightarrow> bool"
  assumes "escrow_stable I"
  shows "keeps I (on_outside m1)" "keeps I (on_replay m2)" "keeps I (on_writer m3)"
    "keeps I (liftP r)" "keeps I (readP f)" "keeps I (retP x)" "keeps I (raiseP e)" "keeps I (new_artifact ids b)"
    "keeps I (modP (\<lambda>s. s\<lparr>lv_replay_state := c\<rparr>))"
  by (rule keepsI, erule escrow_stableD[OF assms]; simp add: on_outside_def on_replay_def on_writer_def prog_defs new_artifact_def
        split: prod.split sum.split)+

lemma mid_inv_stable:
  "escrow_stable (mid_inv spent e0 ok eid)" "escrow_stable (\<lambda>s. mid_inv spent e0 ok eid s \<and> \<not> lv_handler_started s)"
  by (simp_all add: escrow_stable_def mid_inv_def)

locale escrow_contract =
  fixes consume :: "'e escrow_consume" and spent :: "'e \<Rightarrow> json \<Rightarrow> bool" and other :: "'o \<Rightarrow> 'e \<Rightarrow> 'e"
  assumes consume_spends: "consume eid pid cap now e = (Inr x, e') \<Longrightarrow> \<not> spent e eid \<and> spent e' eid"
    and consume_keeps: "spent e k \<Longrightarrow> spent (snd (consume eid pid cap now e)) k"
    and other_keeps: "spent e k \<Longrightarrow> spent (other op e) k"
begin

lemma mid_report_keeps: "keeps (mid_inv spent e0 ok eid) (report_refusal D M rq exc)"
  unfolding report_refusal_def store_refusal_def store_receipt_def
  by (intro keeps_bindP keeps_mid_inv mid_inv_stable valid_case_option)

lemma mid_mark_keeps: "keeps (mid_inv spent e0 ok eid) (mid_mark M rq)"
  unfolding mid_mark_def by (intro keeps_bindP keeps_mid_inv mid_inv_stable)

lemma mid_consume_spends:
  assumes "md_escrow M = consume"
  shows "valid (\<lambda>s. mid_inv spent e0 ok (pc_escrow_id (rq_pccb rq)) s \<and> \<not> lv_handler_started s) (mid_consume M rq)
    (\<lambda>_ s. mid_inv spent e0 ok (pc_escrow_id (rq_pccb rq)) s \<and> spent (wo_escrow s) (pc_escrow_id (rq_pccb rq))
       \<and> \<not> spent e0 (pc_escrow_id (rq_pccb rq)))
    (\<lambda>_. mid_inv spent e0 ok (pc_escrow_id (rq_pccb rq)))"
proof -
  let ?eid = "pc_escrow_id (rq_pccb rq)"
  let ?m = "consume ?eid (pc_pccb_id (rq_pccb rq)) (ac_capability (ai_action (rq_intent rq))) (cx_now (rq_context rq))"
  have "valid (\<lambda>e. \<forall>k. spent e0 k \<longrightarrow> spent e k) ?m
      (\<lambda>x e. (\<forall>k. spent e0 k \<longrightarrow> spent e k) \<and> spent e ?eid \<and> \<not> spent e0 ?eid)
      (\<lambda>_ e. \<forall>k. spent e0 k \<longrightarrow> spent e k)"
    by (rule validI) (metis consume_keeps snd_conv, metis consume_spends consume_keeps snd_conv)
  then have "valid (\<lambda>s. mid_inv spent e0 ok ?eid s \<and> \<not> lv_handler_started s) (on_escrow ?m)
    (\<lambda>_ s. mid_inv spent e0 ok ?eid s \<and> spent (wo_escrow s) ?eid \<and> \<not> spent e0 ?eid)
    (\<lambda>_. mid_inv spent e0 ok ?eid)"
    unfolding on_escrow_def by (rule valid_zoomP) (auto simp: mid_inv_def)
  then show ?thesis
    unfolding mid_consume_def assms by (rule valid_bindP) (simp add: valid_def retP_def)
qed

lemma mid_body_inv:
  assumes "md_escrow M = consume"
    and ok_def: "ok = (verify D (md_verifier M) (rq_intent rq) (rq_pccb rq) (rq_context rq) = Inr ())"
  shows "valid (\<lambda>s. mid_inv spent e0 ok (pc_escrow_id (rq_pccb rq)) s \<and> \<not> lv_handler_started s) (mid_body D M rq handler)
    (\<lambda>_. mid_inv spent e0 ok (pc_escrow_id (rq_pccb rq))) (\<lambda>_. mid_inv spent e0 ok (pc_escrow_id (rq_pccb rq)))"
proof (cases ok)
  case True
  let ?I = "mid_inv spent e0 ok (pc_escrow_id (rq_pccb rq))"
  let ?P = "\<lambda>s. ?I s \<and> \<not> lv_handler_started s"
  have call: "valid (\<lambda>s. ?I s \<and> spent (wo_escrow s) (pc_escrow_id (rq_pccb rq)) \<and> \<not> spent e0 (pc_escrow_id (rq_pccb rq)))
      (mid_call handler rq) (\<lambda>_. ?I) (\<lambda>_. ?I)"
  proof -
    have "valid (\<lambda>s. ?I s \<and> spent (wo_escrow s) (pc_escrow_id (rq_pccb rq)) \<and> \<not> spent e0 (pc_escrow_id (rq_pccb rq)))
        (modP (\<lambda>s. s\<lparr>lv_handler_started := True\<rparr>)) (\<lambda>_. ?I) (\<lambda>_. ?I)"
      using True by (auto simp: valid_def modP_def mid_inv_def)
    then show ?thesis unfolding mid_call_def by (rule valid_bindP) (intro keeps_mid_inv mid_inv_stable)
  qed
  have tail: "keeps ?I (bindP (mid_mark M rq) (\<lambda>_. bindP (execution_receipt M rq payload) (\<lambda>receipt.
      bindP (store_receipt D M receipt) (\<lambda>_. retP (res receipt)))))" for payload res
    unfolding execution_receipt_def store_receipt_def
    by (intro keeps_bindP mid_mark_keeps keeps_mid_inv mid_inv_stable)
  have check: "keeps ?P (mid_effect_check p)" for p
    unfolding mid_effect_check_def by (intro valid_if keeps_mid_inv mid_inv_stable)
  show ?thesis
    unfolding mid_body_def
    by (intro valid_step[where P = ?P] check valid_if keeps_mid_inv valid_bindP[OF mid_consume_spends[OF assms(1)]]
        valid_bindP[OF call] tail mid_inv_stable; blast?)
next
  case False
  have "\<exists>e. mid_body D M rq handler s = (Inl e, s)" for s
    using False by (auto simp: mid_body_def ok_def prog_defs split: sum.splits)
  then show ?thesis by (auto simp: valid_def split: sum.split) (metis Pair_inject sum.distinct(1))+
qed

lemma mid_try_inv:
  "mid_inv spent (wo_escrow w) (verify D (md_verifier M) (rq_intent rq) (rq_pccb rq) (rq_context rq) = Inr ())
     (pc_escrow_id (rq_pccb rq)) (snd (mid_try D (M\<lparr>md_escrow := consume\<rparr>) rq handler (start_state w)))"
proof -
  let ?M = "M\<lparr>md_escrow := consume\<rparr>"
  let ?I = "mid_inv spent (wo_escrow w) (verify D (md_verifier M) (rq_intent rq) (rq_pccb rq) (rq_context rq) = Inr ())
     (pc_escrow_id (rq_pccb rq))"
  have "keeps ?I (mid_on_refusal D ?M rq exc)" for exc
    unfolding mid_on_refusal_def
    by (intro keeps_bindP keeps_mid_inv mid_inv_stable mid_report_keeps valid_case_option valid_if)
  moreover have "keeps ?I (mid_on_exception D ?M rq e)" for e
    unfolding mid_on_exception_def
    by (intro keeps_bindP keeps_mid_inv mid_inv_stable mid_report_keeps mid_mark_keeps valid_case_option)
  ultimately have "valid (\<lambda>s. ?I s \<and> \<not> lv_handler_started s) (mid_try D ?M rq handler) (\<lambda>_. ?I) (\<lambda>_. ?I)"
    unfolding mid_try_def using mid_body_inv[of ?M _ D rq "wo_escrow w" handler, OF _ refl]
    by (intro valid_catchP[where R = "\<lambda>_. ?I"]) (auto split: exn.split)
  moreover have "?I (start_state w) \<and> \<not> lv_handler_started (start_state w)"
    by (simp add: mid_inv_def start_state_def world.defs)
  ultimately show ?thesis
    by (cases "mid_try D ?M rq handler (start_state w)"; cases "fst (mid_try D ?M rq handler (start_state w))")
       (auto dest: validD_Inr validD_Inl)
qed

lemma mid_execute_escrow:
  "wo_escrow (snd (mid_execute D M rq handler w)) = wo_escrow (snd (mid_try D M rq handler (start_state w)))"
  by (simp add: mid_execute_def world.defs split: prod.split)

end

sublocale escrow_contract \<subseteq> calls: one_shot "run_mid D consume other" "mid_handler_key D consume" "\<lambda>w. spent (wo_escrow w)"
proof (unfold_locales, goal_cases)
  case (1 op w k)
  then show ?case by (cases op) (use mid_try_inv in \<open>fastforce simp: mid_inv_def split: if_splits\<close>)+
next
  case (2 op w k)
  then show ?case by (cases op) (use mid_try_inv in \<open>fastforce simp: mid_inv_def mid_execute_escrow split: if_splits\<close>)+
next
  case (3 w k op)
  then show ?case
    by (cases op) (use mid_try_inv in \<open>fastforce simp: mid_inv_def mid_execute_escrow\<close>, simp add: other_keeps)
qed

text \<open>Both escrows keep the contract; an id that is not a text is never consumed.\<close>

definition text_spent :: "('e \<Rightarrow> string \<Rightarrow> bool) \<Rightarrow> 'e \<Rightarrow> json \<Rightarrow> bool" where
  "text_spent spent e eid \<longleftrightarrow> (case eid of JStr s \<Rightarrow> spent e s | _ \<Rightarrow> False)"

text \<open>In the database store such an id is outside the declared type of the field; \<open>bad_id\<close> is what the
  driver raises.\<close>

definition sql_other_id :: "exn \<Rightarrow> json \<Rightarrow> (sql_escrow, escrow_record) prog" where
  "sql_other_id e eid = raiseP e"

lemma by_text_id_Inr:
  assumes "by_text_id other_id consume eid pid cap now e = (Inr x, e')" "\<And>v e. \<not> is_ok (fst (other_id v e))"
  obtains s where "eid = JStr s" "consume s pid cap now e = (Inr x, e')"
proof -
  have "eid = JStr s \<Longrightarrow> thesis" for s using assms(1) that by (simp add: by_text_id_def)
  moreover have "other_id eid e \<noteq> (Inr x, e')" using assms(2)[of eid e] by (cases "other_id eid e") auto
  ultimately show thesis using assms(1) by (cases eid) (auto simp: by_text_id_def)
qed

lemma by_text_id_keeps:
  assumes "text_spent spent e k" "\<And>s t. spent e s \<Longrightarrow> spent (snd (consume t pid cap now e)) s" "\<And>v. snd (other_id v e) = e"
  shows "text_spent spent (snd (by_text_id other_id consume eid pid cap now e)) k"
  using assms by (cases k; cases eid) (simp_all add: text_spent_def by_text_id_def)

interpretation mem_guard: escrow_contract "by_text_id mem_other_id mem_consume" "text_spent mem_spent" run_mem
proof (unfold_locales, goal_cases)
  case (1 eid pid cap now e x e')
  then obtain s where "eid = JStr s" "mem_consume s pid cap now e = (Inr x, e')"
    by (rule by_text_id_Inr) (simp add: mem_other_id_def raiseP_def)
  then show ?case
    using mem_escrow.spend_fresh[of "ConsumeEscrow s pid cap now" e s]
      mem_escrow.spend_marks[of "ConsumeEscrow s pid cap now" e s]
    by (simp add: text_spent_def)
next
  case (2 e k eid pid cap now)
  then show ?case
    by (rule by_text_id_keeps)
       (use mem_escrow.spent_stays[of e _ "ConsumeEscrow t pid cap now" for t] in \<open>simp_all add: mem_other_id_def raiseP_def\<close>)
next
  case (3 e k op)
  then show ?case using mem_escrow.spent_stays by (auto simp: text_spent_def split: json.splits)
qed

interpretation sql_guard: escrow_contract "by_text_id (sql_other_id bad_id) sql_consume" "text_spent sql_spent" run_sql for bad_id
proof (unfold_locales, goal_cases)
  case (1 eid pid cap now e x e')
  then obtain s where "eid = JStr s" "sql_consume s pid cap now e = (Inr x, e')"
    by (rule by_text_id_Inr) (simp add: sql_other_id_def raiseP_def)
  then show ?case using sql_consume_ok[of s pid cap now e] by (simp add: text_spent_def)
next
  case (2 e k eid pid cap now)
  then show ?case
    by (rule by_text_id_keeps) (simp_all add: sql_consume_keeps_spent sql_other_id_def raiseP_def)
next
  case (3 e k op)
  then show ?case using sql_escrow.spent_stays by (auto simp: text_spent_def split: json.splits)
qed

section \<open>At the expiry of a proof\<close>

text \<open>A request whose key is free and whose proof is at or past its expiry.\<close>

definition overdue_request :: "deps \<Rightarrow> execution_request \<Rightarrow> replay_store \<Rightarrow> bool" where
  "overdue_request D rq st \<longleftrightarrow> store_current st \<and> dict_wf (rs_rows st) \<and>
     (case request_key D rq of None \<Rightarrow> False | Some k \<Rightarrow> reclaimable st k) \<and>
     dt_ok (cx_now (rq_context rq)) \<and> dt_ok (pc_expires_at (rq_pccb rq)) \<and>
     pc_expires_at (rq_pccb rq) \<le> cx_now (rq_context rq)"

definition cannot_consume :: "string \<Rightarrow> refusal_exception" where
  "cannot_consume key = \<lparr>re_category = ''replay'', re_code = ''REPLAY_STATE_INVALID'',
     re_message = ''The replay record could not transition to consumed.'', re_retryable = False, re_rule_refs = [],
     re_violations = [], re_details = [(''replay_key'', JStr key), (''existing_status'', JStr ''expired'')]\<rparr>"

lemma overdue_claims:
  assumes "overdue_request D rq st"
  obtains cs st1 st2 where "ro_claim (db_replay D) rq st = (Inr (Some cs), st1)"
    "ro_mark (db_replay D) (cs_replay_key cs) (cx_now (rq_context rq)) st1 = (Inl (Refuse (cannot_consume (cs_replay_key cs))), st2)"
proof -
  let ?now = "cx_now (rq_context rq)"
  from assms obtain k where k: "request_key D rq = Some k" "reclaimable st k"
    by (auto simp: overdue_request_def split: option.splits)
  then obtain c where c: "build_action_consumption_claim D (rq_intent rq) (rq_pccb rq) (rq_context rq) = Inr c"
    "cl_replay_key c = k" "cl_expires_at c = pc_expires_at (rq_pccb rq)"
    by (auto simp: request_key_def build_action_consumption_claim_def split: sum.splits)
  obtain meta where meta: "json_column (cl_metadata c) = Inr meta" using c(1) by (rule claim_metadata_column)
  have now: "dt_ok ?now" "dt_ok (cl_expires_at c)" "cl_expires_at c \<le> ?now"
    and st: "store_current st" "dict_wf (rs_rows st)" using assms c(3) by (simp_all add: overdue_request_def)
  let ?cs = "claim_state c ?now meta\<lparr>cs_status := ''expired''\<rparr>"
  obtain st1 n where st1: "claim_once c ?now st = (Inr (Some ?cs), st1)"
    "rs_counter st1 = Some n" "rs_last_observed st1 = n"
    "dget (rs_rows st1) (cl_replay_key c) = Some (claim_row c (format_timestamp ?now) meta
      \<lparr>cr_status := ''expired'', cr_updated_at := format_timestamp ?now\<rparr>)"
    using claim_once_late[OF st _ meta now] k(2) c(2) by metis
  from refuse_consume_expired[OF st1(2,3,4) now(1,2), of ?now] obtain st2 where
    "mark_consumed (cl_replay_key c) ?now st1 = (Inl (Refuse (cannot_consume (cl_replay_key c))), st2)"
    by (metis prod.collapse error_defs(1,7) cannot_consume_def)
  then show thesis
    by (intro that[of ?cs st1 st2]) (simp_all add: db_replay_def claim_request_def c(1) st1(1) claim_state_def)
qed

section \<open>Properties\<close>

text \<open>C8 (middleware_at_most_once): Over any sequence of calls of escrow middlewares, with any handlers,
  verifiers and replay stores, and any other use of the escrow in between, no escrow record reaches a
  handler twice, with the in-memory escrow as with the database escrow.\<close>

theorem middleware_at_most_once:
  "distinct (spend_trace (run_mid D (by_text_id mem_other_id mem_consume) run_mem)
     (mid_handler_key D (by_text_id mem_other_id mem_consume)) mops mw) \<and>
   distinct (spend_trace (run_mid D (by_text_id (sql_other_id bad_id) sql_consume) run_sql)
     (mid_handler_key D (by_text_id (sql_other_id bad_id) sql_consume)) sops sw)"
  by (intro conjI mem_guard.calls.spend_trace_distinct sql_guard.calls.spend_trace_distinct)

text \<open>The verifier accepts a proof at its expiry, the replay store
  holds a claim at its expiry to be expired, and the middleware calls the handler in between: the
  handler runs, and the result is a refusal with a receipt that reports no side effects.\<close>

theorem boundary_executes_then_refuses:
  assumes "verify D (md_verifier M) (rq_intent rq) (rq_pccb rq) (rq_context rq) = Inr ()"
    and "\<not> dmem (pc_extensions (rq_pccb rq)) ''effect''" "pc_escrow_id (rq_pccb rq) \<noteq> JNull"
    and "md_replay M = db_replay D" "overdue_request D rq (wo_replay w)"
    and "md_escrow M (pc_escrow_id (rq_pccb rq)) (pc_pccb_id (rq_pccb rq)) (ac_capability (ai_action (rq_intent rq)))
      (cx_now (rq_context rq)) (wo_escrow w) = (Inr er, e1)"
    and "handler rq (wo_outside w) = (Inr payload, o1)" "plain_intent (rq_intent rq)"
  shows "wo_outside (snd (mid_execute D M rq handler w)) = o1 \<and>
    (\<exists>r f. fst (mid_execute D M rq handler w) = Inr \<lparr>xr_receipt = Some r, xr_refusal = Some f, xr_payload = None\<rparr> \<and>
      rf_reason_code f = ''REPLAY_STATE_INVALID'' \<and> rc_outcome r = ''refused'' \<and>
      rc_side_effects r = [(''state'', JStr ''none'')])"
proof -
  obtain cs st1 st2 where cs: "ro_claim (db_replay D) rq (wo_replay w) = (Inr (Some cs), st1)"
    "ro_mark (db_replay D) (cs_replay_key cs) (cx_now (rq_context rq)) st1 = (Inl (Refuse (cannot_consume (cs_replay_key cs))), st2)"
    using assms(5) by (rule overdue_claims)
  let ?exc = "cannot_consume (cs_replay_key cs)"
  let ?s = "(start_state w)\<lparr>lv_replay_state := Some cs, wo_escrow := e1, lv_handler_started := True, wo_outside := o1, wo_replay := st2\<rparr>"
  have st: "wo_replay (start_state w) = wo_replay w" "wo_escrow (start_state w) = wo_escrow w"
    "wo_outside (start_state w) = wo_outside w" "lv_effect_reference (start_state w) = None"
    by (simp_all add: start_state_def world.defs)
  have "mid_body D M rq handler (start_state w) = (Inl (Refuse ?exc), ?s)"
    using assms cs st by (simp add: mid_body_def prog_defs mid_effect_check_def on_replay_def mid_consume_def on_escrow_def
        mid_call_def on_outside_def mid_mark_def held_key_def)
  then have run: "mid_try D M rq handler (start_state w) = report_refusal D M rq ?exc ?s"
    by (simp add: mid_try_def catchP_def mid_on_refusal_def cannot_consume_def bindP_def readP_def retP_def)
  have ns: "no_effect ?s" using st by simp
  obtain r where r: "create_refused_receipt (ex_text M) (ex_receipt_id M (Suc (wo_artifacts ?s))) (rq_intent rq) (rq_context rq)
      (refusal_for rq ?exc (ex_refusal_id M (wo_artifacts ?s))) = Inr r"
    "map_option co_pccb_id (rc_correlation r) = Some (JStr (pc_pccb_id (rq_pccb rq)))" "rc_outcome r = ''refused''"
    using refused_receipt_exists[OF assms(8)] by metis
  have "rc_side_effects r = [(''state'', JStr ''none'')]"
    using r(1) assms(8) by (auto simp: create_refused_receipt_def plain_intent_def receipt_of_intent_def Let_def)
  moreover have "rf_reason_code (refusal_for rq ?exc n) = ''REPLAY_STATE_INVALID''" for n
    by (simp add: refusal_for_def create_from_exception_def cannot_consume_def)
  ultimately show ?thesis
    using r(3) by (simp add: mid_execute_def run report_refusal_run[OF ns r(1,2)] world.defs)
qed

definition sample_middleware :: "(replay_store, mem_escrow) middleware" where
  "sample_middleware = \<lparr>ex_text = \<lparr>pt_str = (\<lambda>_. []), pt_int = (\<lambda>_. None), pt_repr = (\<lambda>_. []), pt_upper = (\<lambda>s. s)\<rparr>,
     ex_receipt_id = (\<lambda>n. ''rcpt_'' @ show_nat n), ex_refusal_id = (\<lambda>n. ''rfsl_'' @ show_nat n), ex_wall = 0,
     md_verifier = sample_verifier, md_replay = db_replay sample_deps, md_escrow = by_text_id mem_other_id mem_consume\<rparr>"

definition sample_boundary_request :: execution_request where
  "sample_boundary_request = sample_request\<lparr>rq_context := sample_context\<lparr>cx_now := 63000000600000000\<rparr>\<rparr>"

definition sample_escrow_world :: "(replay_store, mem_escrow, string list) world" where
  "sample_escrow_world = \<lparr>wo_replay = open_store [] None,
     wo_escrow = [(''esc-1'', \<lparr>er_escrow_id = ''esc-1'', er_pccb_id = ''pccb-1'', er_capability = ''refund.create'',
       er_expires_at = 63000000600000000, er_state = ''issued'', er_consumed_at = None, er_metadata = []\<rparr>)],
     wo_outside = [], wo_idempotency = [], wo_writer = wo_writer sample_world, wo_artifacts = 0\<rparr>"

text \<open>A handler that pays: its outside world is the list of the payments made.\<close>

definition paying_handler :: "string list plain_handler" where
  "paying_handler rq paid = (Inr None, paid @ [tg_resource_id (ai_target (rq_intent rq))])"

theorem boundary_executes_then_refuses_witness:
  "wo_outside (snd (mid_execute sample_deps sample_middleware sample_boundary_request paying_handler sample_escrow_world)) = [''o1'']"
proof -
  have rq: "rq_intent sample_boundary_request = sample_intent" "rq_pccb sample_boundary_request = sample_pccb"
    "cx_now (rq_context sample_boundary_request) = 63000000600000000"
    by (simp_all add: sample_boundary_request_def sample_request_def)
  obtain h where p: "pc_extensions sample_pccb = []" "pc_expires_at sample_pccb = 63000000600000000"
    "pc_pccb_id sample_pccb = ''pccb-1''" "pc_escrow_id sample_pccb = JStr ''esc-1''" by (rule sample_pccb_shape)
  have "request_key sample_deps sample_boundary_request = request_key sample_deps sample_request"
    by (simp add: request_key_def rq sample_request_def)
  with sample_claimable have "overdue_request sample_deps sample_boundary_request (wo_replay sample_escrow_world)"
    by (simp add: overdue_request_def claimable_def rq p sample_escrow_world_def sample_world_def dt_ok_def datetime_limit_def)
  moreover have "verify sample_deps (md_verifier sample_middleware) (rq_intent sample_boundary_request)
      (rq_pccb sample_boundary_request) (rq_context sample_boundary_request) = Inr ()"
    using sample_verifies_until_expiry by (simp add: sample_middleware_def sample_boundary_request_def sample_request_def)
  moreover have "\<exists>er e1. md_escrow sample_middleware (JStr ''esc-1'') ''pccb-1'' ''refund.create'' 63000000600000000
      (wo_escrow sample_escrow_world) = (Inr er, e1)"
    by (simp add: sample_middleware_def by_text_id_def mem_consume_def sample_escrow_world_def Let_def)
  moreover have "paying_handler sample_boundary_request (wo_outside sample_escrow_world) = (Inr None, [''o1''])"
    by (simp add: paying_handler_def rq sample_intent_def sample_escrow_world_def)
  moreover have "plain_intent (rq_intent sample_boundary_request)" "ac_capability (ai_action sample_intent) = ''refund.create''"
    using sample_plain(1) by (simp_all add: rq sample_request_def sample_intent_def)
  moreover have "md_replay sample_middleware = db_replay sample_deps" by (simp add: sample_middleware_def)
  ultimately show ?thesis
    using boundary_executes_then_refuses[of sample_deps sample_middleware sample_boundary_request sample_escrow_world]
    by (fastforce simp: rq p dmem_def)
qed

end
