(* ===== verification/Policy.thy ===== *)
theory Policy
  imports Outcomes Proof
begin

text \<open>
  Policy: the rules and the engine of \<^verbatim>\<open>policy/engine.py\<close>, receipt evidence (\<^verbatim>\<open>policy/evidence.py\<close>) and
  the refund policy (\<^verbatim>\<open>policy/refund.py\<close>). A rule maps an intent and a context to an evaluation, to
  nothing, or to an exception; the engine runs all rules of a layer in order.
\<close>

type_synonym policy_rule = "action_intent \<Rightarrow> dynamic_context \<Rightarrow> rule_evaluation option res"

definition evaluation :: "string \<Rightarrow> string \<Rightarrow> string \<Rightarrow> string \<Rightarrow> rule_evaluation" where
  "evaluation rule_id outcome reason_code summary =
     \<lparr>ru_rule_id = rule_id, ru_outcome = outcome, ru_reason_code = reason_code, ru_summary = summary,
      ru_details = [], ru_required_evidence = [], ru_approver_types = []\<rparr>"

definition deny_with :: "string \<Rightarrow> string \<Rightarrow> string \<Rightarrow> dict \<Rightarrow> rule_evaluation option res" where
  "deny_with rule_id reason_code summary details =
     Inr (Some (evaluation rule_id ''deny'' reason_code summary\<lparr>ru_details := details\<rparr>))"

section \<open>The generic rules\<close>

definition IntentChronologyHardRule :: policy_rule where
  "IntentChronologyHardRule i cx =
     (let rid = ''hard.intent.chronology'' in
      if cx_now cx < ai_issued_at i
      then deny_with rid ''INTENT_ISSUED_IN_FUTURE'' ''The action intent was issued in the future.'' []
      else if ai_expires_at i \<le> cx_now cx
      then deny_with rid ''INTENT_EXPIRED'' ''The action intent has expired.'' []
      else Inr None)"

text \<open>\<open>timedelta(seconds=n)\<close> has a largest value.\<close>

definition TIMEDELTA_MAX_SECONDS :: int where
  "TIMEDELTA_MAX_SECONDS = 86399999999999"

definition IntentTtlHardRule :: "int \<Rightarrow> policy_rule" where
  "IntentTtlHardRule default_max_ttl_seconds i cx =
     (let rid = ''hard.intent.ttl'';
          max_ttl = (case cx_max_ttl_seconds cx of Some n \<Rightarrow> n | None \<Rightarrow> default_max_ttl_seconds) in
      if max_ttl \<le> 0
      then deny_with rid ''INVALID_MAX_TTL'' ''The runtime max TTL configuration is invalid.'' []
      else if TIMEDELTA_MAX_SECONDS < max_ttl
      then Inl (Raise OverflowError ''days out of range'')
      else if max_ttl * 1000000 < ai_expires_at i - ai_issued_at i
      then deny_with rid ''INTENT_TTL_EXCEEDED'' ''The action intent exceeds the configured maximum lifetime.''
        [(''max_ttl_seconds'', JInt max_ttl)]
      else Inr None)"

definition CapabilityScopeHardRule :: policy_rule where
  "CapabilityScopeHardRule i cx =
     (if cx_scope_capabilities cx \<noteq> [] \<and> ac_capability (ai_action i) \<notin> set (cx_scope_capabilities cx)
      then deny_with ''hard.scope.capability'' ''CAPABILITY_OUTSIDE_SCOPE''
        ''The requested capability is outside the protected endpoint scope.''
        [(''allowed_capabilities'', JArr (map JStr (cx_scope_capabilities cx)))]
      else Inr None)"

record tenant_workflow_rule =
  tw_rule_id :: string
  tw_outcome :: string
  tw_summary :: string
  tw_reason_code :: string
  tw_tenant_ids :: "string list"
  tw_capabilities :: "string list"
  tw_required_fact_values :: dict
  tw_required_evidence_types :: "string list"
  tw_approver_types :: "string list"

definition sorted_set :: "string list \<Rightarrow> string list" where
  "sorted_set xs = sort (remdups xs)"

definition TenantWorkflowRule :: "tenant_workflow_rule \<Rightarrow> policy_rule" where
  "TenantWorkflowRule r i cx =
     (if tw_tenant_ids r \<noteq> [] \<and> tn_tenant_id (ai_tenant i) \<notin> set (tw_tenant_ids r) then Inr None
      else if tw_capabilities r \<noteq> [] \<and> ac_capability (ai_action i) \<notin> set (tw_capabilities r) then Inr None
      else if \<not> list_all (\<lambda>(k, v). py_eq (get_or_null (cx_facts cx) k) v) (tw_required_fact_values r) then Inr None
      else
        (let given = map ev_type (ai_evidence_refs i);
             missing = sorted_set (filter (\<lambda>t. t \<notin> set given) (tw_required_evidence_types r));
             eval = (\<lambda>outcome. evaluation (tw_rule_id r) outcome (tw_reason_code r) (tw_summary r)) in
         if tw_outcome r = ''needs-evidence'' \<and> missing \<noteq> []
         then Inr (Some (eval ''needs-evidence''\<lparr>ru_required_evidence := missing\<rparr>))
         else if tw_outcome r = ''approval-required''
         then Inr (Some (eval ''approval-required''
           \<lparr>ru_approver_types := (if tw_approver_types r \<noteq> [] then tw_approver_types r else cx_approver_types cx)\<rparr>))
         else if tw_outcome r = ''deny'' then Inr (Some (eval ''deny''))
         else if tw_outcome r = ''allow'' then Inr (Some (eval ''allow''))
         else Inr None))"

section \<open>The engine\<close>

fun run_rules :: "policy_rule list \<Rightarrow> action_intent \<Rightarrow> dynamic_context \<Rightarrow> rule_evaluation list res" where
  "run_rules [] i cx = Inr []"
| "run_rules (r # rs) i cx =
     bindR (r i cx) (\<lambda>e. bindR (run_rules rs i cx) (\<lambda>es.
     Inr (case e of None \<Rightarrow> es | Some e \<Rightarrow> e # es)))"

record policy_engine =
  pe_hard_rules :: "policy_rule list"
  pe_tenant_rules :: "(string \<times> policy_rule list) list"
  pe_default_rules :: "policy_rule list"

definition workflow_evaluate :: "policy_engine \<Rightarrow> action_intent \<Rightarrow> dynamic_context \<Rightarrow> rule_evaluation list res" where
  "workflow_evaluate E i cx =
     run_rules (pe_default_rules E @ (case dget (pe_tenant_rules E) (tn_tenant_id (ai_tenant i)) of None \<Rightarrow> [] | Some rs \<Rightarrow> rs)) i cx"

definition with_outcome :: "string \<Rightarrow> rule_evaluation list \<Rightarrow> rule_evaluation list" where
  "with_outcome o' es = filter (\<lambda>e. ru_outcome e = o') es"

definition decision :: "string \<Rightarrow> rule_evaluation list \<Rightarrow> rule_evaluation list \<Rightarrow> policy_decision" where
  "decision outcome chosen es = \<lparr>pd_outcome = outcome, pd_summary = (case chosen of [] \<Rightarrow> [] | e # _ \<Rightarrow> ru_summary e),
     pd_rule_evaluations = es, pd_reason_codes = map ru_reason_code chosen, pd_required_evidence = [], pd_approver_types = []\<rparr>"

definition default_deny :: rule_evaluation where
  "default_deny = evaluation ''workflow.default_deny'' ''deny'' ''NO_WORKFLOW_RULE_MATCH''
     ''No tenant workflow rule matched the action intent.''"

definition fallback_deny :: rule_evaluation where
  "fallback_deny = evaluation ''workflow.no_allow'' ''deny'' ''WORKFLOW_DENIED''
     ''The workflow layer did not produce an allow decision.''"

definition decide_workflow :: "rule_evaluation list \<Rightarrow> rule_evaluation list \<Rightarrow> policy_decision" where
  "decide_workflow hard flow =
     (let es = hard @ flow in
      if flow = [] then decision ''deny'' [default_deny] (es @ [default_deny])
      else if with_outcome ''deny'' flow \<noteq> [] then decision ''deny'' (with_outcome ''deny'' flow) es
      else if with_outcome ''needs-evidence'' flow \<noteq> []
      then decision ''needs-evidence'' (with_outcome ''needs-evidence'' flow) es
        \<lparr>pd_required_evidence := sorted_set (concat (map ru_required_evidence (with_outcome ''needs-evidence'' flow)))\<rparr>
      else if with_outcome ''approval-required'' flow \<noteq> []
      then decision ''approval-required'' (with_outcome ''approval-required'' flow) es
        \<lparr>pd_approver_types := sorted_set (concat (map ru_approver_types (with_outcome ''approval-required'' flow)))\<rparr>
      else if with_outcome ''allow'' flow \<noteq> [] then decision ''allow'' (with_outcome ''allow'' flow) es
      else decision ''deny'' [fallback_deny] (es @ [fallback_deny]))"

definition evaluate_policy :: "policy_engine \<Rightarrow> action_intent \<Rightarrow> dynamic_context \<Rightarrow> policy_decision res" where
  "evaluate_policy E i cx =
     bindR (run_rules (pe_hard_rules E) i cx) (\<lambda>hard.
     if with_outcome ''deny'' hard \<noteq> [] then Inr (decision ''deny'' (with_outcome ''deny'' hard) hard)
     else bindR (workflow_evaluate E i cx) (\<lambda>flow. Inr (decide_workflow hard flow)))"

section \<open>Receipt evidence\<close>

definition EVIDENCE_TYPE_RECEIPT :: string where
  "EVIDENCE_TYPE_RECEIPT = ''actenon.receipt''"

definition receipt_evidence_ref :: "deps \<Rightarrow> receipt \<Rightarrow> evidence_ref res" where
  "receipt_evidence_ref D r = bindR (build_artifact_digest D (receipt_to_dict r)) (\<lambda>d.
     Inr \<lparr>ev_type = EVIDENCE_TYPE_RECEIPT, ev_value = rc_receipt_id r, ev_digest = digest_to_dict d\<rparr>)"

record receipt_evidence_rule =
  rr_store :: "receipt_store option"
  rr_allowed_outcomes :: "string list"
  rr_required_capability :: "string option"

text \<open>The checks of one reference; \<open>None\<close> when it holds.\<close>

definition check_receipt_ref :: "deps \<Rightarrow> receipt_evidence_rule \<Rightarrow> receipt_store \<Rightarrow> evidence_ref \<Rightarrow> rule_evaluation option res" where
  "check_receipt_ref D R st ref =
     (let rid = ''hard.evidence.receipt_chain''; the_id = (''receipt_id'', JStr (ev_value ref)) in
      case get_receipt (ev_value ref) st of
        None \<Rightarrow> deny_with rid ''RECEIPT_EVIDENCE_MISSING'' ''The referenced receipt evidence could not be loaded.'' [the_id]
      | Some receipt \<Rightarrow>
          (case digest_from_dict (JObj (ev_digest ref)) ''evidence_ref.digest'' of
             Inl e \<Rightarrow>
               if (case e of Raise c _ \<Rightarrow> is_value_error D c | Refuse _ \<Rightarrow> False)
               then deny_with rid ''RECEIPT_EVIDENCE_DIGEST_INVALID''
                 ''Receipt evidence must declare a complete digest for the referenced receipt.'' [the_id]
               else Inl e
           | Inr declared \<Rightarrow>
               bindR (build_artifact_digest D (receipt_to_dict receipt)) (\<lambda>actual.
               if declared \<noteq> actual
               then deny_with rid ''RECEIPT_EVIDENCE_DIGEST_MISMATCH''
                 ''The referenced receipt digest does not match the loaded receipt artifact.''
                 [the_id, (''expected_digest'', JObj (digest_to_dict actual)), (''declared_digest'', JObj (digest_to_dict declared))]
               else if rc_outcome receipt \<notin> set (rr_allowed_outcomes R)
               then deny_with rid ''RECEIPT_EVIDENCE_OUTCOME_INVALID''
                 ''The referenced receipt outcome is not suitable for this evidence chain.''
                 [the_id, (''allowed_outcomes'', JArr (map JStr (rr_allowed_outcomes R))), (''observed_outcome'', JStr (rc_outcome receipt))]
               else (case rr_required_capability R of
                   None \<Rightarrow> Inr None
                 | Some cap \<Rightarrow>
                     if ac_capability (rc_action receipt) \<noteq> cap
                     then deny_with rid ''RECEIPT_EVIDENCE_CAPABILITY_MISMATCH''
                       ''The referenced receipt capability does not satisfy the configured receipt-chain requirement.''
                       [the_id, (''required_capability'', JStr cap), (''observed_capability'', JStr (ac_capability (rc_action receipt)))]
                     else Inr None))))"

fun check_receipt_refs :: "deps \<Rightarrow> receipt_evidence_rule \<Rightarrow> receipt_store \<Rightarrow> evidence_ref list \<Rightarrow> rule_evaluation option res" where
  "check_receipt_refs D R st [] = Inr None"
| "check_receipt_refs D R st (r # rs) = bindR (check_receipt_ref D R st r) (\<lambda>found.
     case found of Some e \<Rightarrow> Inr (Some e) | None \<Rightarrow> check_receipt_refs D R st rs)"

definition ReceiptEvidenceVerificationRule :: "deps \<Rightarrow> receipt_evidence_rule \<Rightarrow> policy_rule" where
  "ReceiptEvidenceVerificationRule D R i cx =
     (let refs = filter (\<lambda>e. ev_type e = EVIDENCE_TYPE_RECEIPT) (ai_evidence_refs i) in
      if refs = [] then Inr None
      else (case rr_store R of
          None \<Rightarrow> deny_with ''hard.evidence.receipt_chain'' ''RECEIPT_EVIDENCE_STORE_UNAVAILABLE''
            ''Receipt evidence was supplied but no receipt lookup store is configured.''
            [(''receipt_ref_count'', JInt (int (length refs)))]
        | Some st \<Rightarrow> check_receipt_refs D R st refs))"

section \<open>The refund policy\<close>

text \<open>\<open>isinstance(v, int)\<close> and its value: a \<open>bool\<close> is an \<open>int\<close>.\<close>

definition int_value :: "json \<Rightarrow> int option" where
  "int_value v = (case v of JInt i \<Rightarrow> Some i | JBool b \<Rightarrow> Some (if b then 1 else 0) | _ \<Rightarrow> None)"

definition positive_int :: "json \<Rightarrow> bool" where
  "positive_int v \<longleftrightarrow> (case int_value v of None \<Rightarrow> False | Some n \<Rightarrow> 0 < n)"

definition ascii_upper :: "string \<Rightarrow> string" where
  "ascii_upper s = map (\<lambda>c. if 97 \<le> (of_char c :: nat) \<and> (of_char c :: nat) \<le> 122 then char_of ((of_char c :: nat) - 32) else c) s"

definition py_upper :: "py_text \<Rightarrow> string \<Rightarrow> string" where
  "py_upper T s = (if list_all (\<lambda>c. of_char c < (128 :: nat)) s then ascii_upper s else pt_upper T s)"

definition is_currency :: "py_text \<Rightarrow> json \<Rightarrow> bool" where
  "is_currency T v \<longleftrightarrow> (case v of JStr s \<Rightarrow> length (codepoints s) = 3 \<and> py_upper T s = s | _ \<Rightarrow> False)"

definition RefundActionShapeRule :: "py_text \<Rightarrow> policy_rule" where
  "RefundActionShapeRule T i cx =
     (let rid = ''hard.refund.action_shape''; params = ac_parameters (ai_action i) in
      if ac_name (ai_action i) \<noteq> ''refund.create''
      then deny_with rid ''REFUND_ACTION_NAME_INVALID'' ''The refund wedge only accepts refund.create action intents.'' []
      else if ac_capability (ai_action i) \<noteq> ''refund.execute''
      then deny_with rid ''REFUND_CAPABILITY_INVALID'' ''The refund wedge only accepts refund.execute capability requests.'' []
      else if tg_resource_type (ai_target i) \<noteq> ''payment''
      then deny_with rid ''REFUND_TARGET_TYPE_INVALID'' ''Refund execution requires a payment target.'' []
      else if \<not> positive_int (get_or_null params ''amount_minor'')
      then deny_with rid ''REFUND_AMOUNT_INVALID'' ''Refund execution requires a positive integer amount_minor.'' []
      else if \<not> is_currency T (get_or_null params ''currency'')
      then deny_with rid ''REFUND_CURRENCY_INVALID'' ''Refund execution requires an uppercase three-letter currency.'' []
      else Inr None)"

definition RefundTargetBindingRule :: policy_rule where
  "RefundTargetBindingRule i cx =
     (let expected = get_or_null (cx_facts cx) ''payment_id'' in
      if truthy expected \<and> \<not> py_eq (JStr (tg_resource_id (ai_target i))) expected
      then deny_with ''hard.refund.target_binding'' ''REFUND_TARGET_MISMATCH''
        ''The refund target does not match the protected payment resource.'' [(''expected_payment_id'', expected)]
      else Inr None)"

definition RefundAmountLimitRule :: "py_text \<Rightarrow> policy_rule" where
  "RefundAmountLimitRule T i cx =
     bindR (bindR (py_index (ac_parameters (ai_action i)) ''amount_minor'') (py_int T)) (\<lambda>amount.
     let remaining = get_or_null (cx_facts cx) ''remaining_refundable_minor'' in
     if remaining = JNull then Inr None
     else bindR (py_int T remaining) (\<lambda>limit.
       if limit < amount
       then deny_with ''hard.refund.amount_limit'' ''REFUND_AMOUNT_EXCEEDS_BALANCE''
         ''The requested refund exceeds the remaining refundable balance.''
         [(''remaining_refundable_minor'', remaining), (''requested_amount_minor'', JInt amount)]
       else Inr None))"

definition RefundCurrencyMatchRule :: policy_rule where
  "RefundCurrencyMatchRule i cx =
     bindR (py_index (ac_parameters (ai_action i)) ''currency'') (\<lambda>requested.
     let expected = get_or_null (cx_facts cx) ''payment_currency'' in
     if expected \<noteq> JNull \<and> \<not> py_eq requested expected
     then deny_with ''hard.refund.currency_match'' ''REFUND_CURRENCY_MISMATCH''
       ''The refund currency must match the original payment currency.''
       [(''expected_currency'', expected), (''requested_currency'', requested)]
     else Inr None)"

definition refund_rule :: "string \<Rightarrow> string \<Rightarrow> string \<Rightarrow> string \<Rightarrow> string \<Rightarrow> tenant_workflow_rule" where
  "refund_rule rule_id outcome summary reason_code risk =
     \<lparr>tw_rule_id = rule_id, tw_outcome = outcome, tw_summary = summary, tw_reason_code = reason_code,
      tw_tenant_ids = [], tw_capabilities = [''refund.execute''],
      tw_required_fact_values = [(''risk_level'', JStr risk)], tw_required_evidence_types = [], tw_approver_types = []\<rparr>"

definition build_refund_policy_engine :: "deps \<Rightarrow> py_text \<Rightarrow> receipt_store option \<Rightarrow> policy_engine" where
  "build_refund_policy_engine D T store =
     \<lparr>pe_hard_rules =
        [IntentChronologyHardRule, IntentTtlHardRule 900, CapabilityScopeHardRule,
         ReceiptEvidenceVerificationRule D \<lparr>rr_store = store, rr_allowed_outcomes = [''executed''],
           rr_required_capability = Some ''refund.execute''\<rparr>,
         RefundActionShapeRule T, RefundTargetBindingRule, RefundAmountLimitRule T, RefundCurrencyMatchRule],
      pe_tenant_rules = [(''tenant_demo'',
        [TenantWorkflowRule (refund_rule ''tenant_demo.refund.deny'' ''deny''
           ''The refund workflow denies blocked refund requests.'' ''WORKFLOW_DENY'' ''blocked''),
         TenantWorkflowRule (refund_rule ''tenant_demo.refund.needs_evidence'' ''needs-evidence''
           ''The refund workflow requires documentary evidence before review-risk refunds can proceed.''
           ''EVIDENCE_REQUIRED'' ''review''\<lparr>tw_required_evidence_types := [''external_id'']\<rparr>),
         TenantWorkflowRule (refund_rule ''tenant_demo.refund.approval_required'' ''approval-required''
           ''The refund workflow requires operator approval for elevated-value refunds.''
           ''APPROVAL_REQUIRED'' ''approval''\<lparr>tw_approver_types := [''finance-operator'']\<rparr>),
         TenantWorkflowRule (refund_rule ''tenant_demo.refund.allow'' ''allow''
           ''The refund workflow authorizes normal-risk refunds.'' ''WORKFLOW_ALLOW'' ''normal'')])],
      pe_default_rules = []\<rparr>"

section \<open>The strictest rule decides\<close>

text \<open>A reference definition of the engine: the outcomes are ranked and the highest rank decides.\<close>

definition severity :: "string \<Rightarrow> nat" where
  "severity outcome = (if outcome = ''deny'' then 4 else if outcome = ''needs-evidence'' then 3
     else if outcome = ''approval-required'' then 2 else if outcome = ''allow'' then 1 else 0)"

definition strictest :: "rule_evaluation list \<Rightarrow> nat" where
  "strictest es = fold max (map (\<lambda>e. severity (ru_outcome e)) es) 0"

definition verdict :: "nat \<Rightarrow> string" where
  "verdict n = (if n = 3 then ''needs-evidence'' else if n = 2 then ''approval-required''
     else if n = 1 then ''allow'' else ''deny'')"

lemma severity_le: "severity k \<le> 4"
  by (simp add: severity_def)

lemma severity_eq_iff:
  "severity k = 4 \<longleftrightarrow> k = ''deny''" "severity k = 3 \<longleftrightarrow> k = ''needs-evidence''"
  "severity k = 2 \<longleftrightarrow> k = ''approval-required''" "severity k = 1 \<longleftrightarrow> k = ''allow''"
  by (simp_all add: severity_def)

lemma with_outcome_Nil_iff: "with_outcome k es = [] \<longleftrightarrow> (\<forall>e \<in> set es. ru_outcome e \<noteq> k)"
  by (simp add: with_outcome_def filter_empty_conv)

lemma strictest_le_iff: "strictest es \<le> n \<longleftrightarrow> (\<forall>e \<in> set es. severity (ru_outcome e) \<le> n)"
  by (simp add: strictest_def fold_max_le)

text \<open>The highest rank is \<open>n\<close> when some rule has it and none has a higher one.\<close>

lemma strictest_eqI:
  assumes "with_outcome k es \<noteq> []" "severity k = n" "\<And>e. e \<in> set es \<Longrightarrow> severity (ru_outcome e) \<le> n"
  shows "strictest es = n"
proof -
  have "strictest es \<le> n" using assms(3) by (simp add: strictest_le_iff)
  moreover obtain e where "e \<in> set es" "ru_outcome e = k" using assms(1) by (auto simp: with_outcome_Nil_iff)
  then have "n \<le> strictest es" using assms(2) strictest_le_iff[of es "strictest es"] by auto
  ultimately show ?thesis by simp
qed

lemma severity_below:
  "with_outcome ''deny'' es = [] \<Longrightarrow> e \<in> set es \<Longrightarrow> severity (ru_outcome e) \<le> 3"
  "with_outcome ''deny'' es = [] \<Longrightarrow> with_outcome ''needs-evidence'' es = [] \<Longrightarrow> e \<in> set es \<Longrightarrow>
    severity (ru_outcome e) \<le> 2"
  "with_outcome ''deny'' es = [] \<Longrightarrow> with_outcome ''needs-evidence'' es = [] \<Longrightarrow>
    with_outcome ''approval-required'' es = [] \<Longrightarrow> e \<in> set es \<Longrightarrow> severity (ru_outcome e) \<le> 1"
  "with_outcome ''deny'' es = [] \<Longrightarrow> with_outcome ''needs-evidence'' es = [] \<Longrightarrow>
    with_outcome ''approval-required'' es = [] \<Longrightarrow> with_outcome ''allow'' es = [] \<Longrightarrow> e \<in> set es \<Longrightarrow>
    severity (ru_outcome e) = 0"
  by (auto simp: with_outcome_Nil_iff severity_def)

lemma decision_fields [simp]:
  "pd_outcome (decision k chosen es) = k" "pd_rule_evaluations (decision k chosen es) = es"
  "pd_reason_codes (decision k chosen es) = map ru_reason_code chosen"
  by (simp_all add: decision_def)

lemma decide_workflow_strictest: "pd_outcome (decide_workflow hard flow) = verdict (strictest flow)"
proof -
  have deny: "strictest flow = 4" if "with_outcome ''deny'' flow \<noteq> []"
    using that by (rule strictest_eqI) (simp_all add: severity_def)
  have evidence: "strictest flow = 3" if "with_outcome ''needs-evidence'' flow \<noteq> []" "with_outcome ''deny'' flow = []"
    using that(1) by (rule strictest_eqI) (simp_all add: severity_below(1)[OF that(2)] severity_eq_iff)
  have approval: "strictest flow = 2" if "with_outcome ''approval-required'' flow \<noteq> []" "with_outcome ''deny'' flow = []"
      "with_outcome ''needs-evidence'' flow = []"
    using that(1) by (rule strictest_eqI) (simp_all add: severity_below(2)[OF that(2,3)] severity_eq_iff)
  have allow: "strictest flow = 1" if "with_outcome ''allow'' flow \<noteq> []" "with_outcome ''deny'' flow = []"
      "with_outcome ''needs-evidence'' flow = []" "with_outcome ''approval-required'' flow = []"
    using that(1) by (rule strictest_eqI) (simp_all add: severity_below(3)[OF that(2-4), unfolded One_nat_def] severity_eq_iff[unfolded One_nat_def])
  have none: "strictest flow = 0" if "with_outcome ''deny'' flow = []" "with_outcome ''needs-evidence'' flow = []"
      "with_outcome ''approval-required'' flow = []" "with_outcome ''allow'' flow = []"
    using severity_below(4)[OF that] strictest_le_iff[of flow 0] by simp
  show ?thesis
    using deny evidence approval allow none
    by (auto simp: decide_workflow_def Let_def verdict_def strictest_def[of "[]"] simp del: One_nat_def)
qed

text \<open>
  C32 (policy_takes_strictest): whenever the rules return, the engine returns a decision, and its
  outcome is that of the strictest rule among the hard denials and the workflow rules, in the order deny, needs-evidence,
  approval-required, allow; when no workflow rule speaks it is deny.
\<close>

theorem policy_takes_strictest:
  assumes "run_rules (pe_hard_rules E) i cx = Inr hard" "workflow_evaluate E i cx = Inr flow"
  shows "\<exists>d. evaluate_policy E i cx = Inr d \<and>
    pd_outcome d = verdict (if with_outcome ''deny'' hard = [] then strictest flow else 4)"
  using assms by (simp add: evaluate_policy_def decide_workflow_strictest verdict_def)

section \<open>A decision names its rules\<close>

text \<open>
  Every reason code is that of a recorded rule with the outcome of the decision, and the summary
  is the one of the first such rule.
\<close>

definition explained :: "policy_decision \<Rightarrow> bool" where
  "explained d \<longleftrightarrow> pd_outcome d \<in> {''allow'', ''deny'', ''approval-required'', ''needs-evidence''} \<and>
     (\<exists>e \<in> set (pd_rule_evaluations d). ru_outcome e = pd_outcome d \<and> pd_summary d = ru_summary e \<and>
        pd_reason_codes d \<noteq> [] \<and> hd (pd_reason_codes d) = ru_reason_code e) \<and>
     (\<forall>c \<in> set (pd_reason_codes d). \<exists>e \<in> set (pd_rule_evaluations d). ru_outcome e = pd_outcome d \<and> ru_reason_code e = c)"

lemma explained_decision:
  assumes "chosen \<noteq> []" "set chosen \<subseteq> set es" "\<And>e. e \<in> set chosen \<Longrightarrow> ru_outcome e = k"
    "k \<in> {''allow'', ''deny'', ''approval-required'', ''needs-evidence''}"
  shows "explained (decision k chosen es)"
  using assms by (cases chosen) (auto simp: explained_def decision_def)

lemma explained_update [simp]:
  "explained (d\<lparr>pd_required_evidence := x\<rparr>) = explained d" "explained (d\<lparr>pd_approver_types := y\<rparr>) = explained d"
  by (simp_all add: explained_def)

lemma explained_filter:
  "with_outcome k flow \<noteq> [] \<Longrightarrow> set flow \<subseteq> set es \<Longrightarrow> k \<in> {''allow'', ''deny'', ''approval-required'', ''needs-evidence''} \<Longrightarrow>
    explained (decision k (with_outcome k flow) es)"
  by (rule explained_decision) (auto simp: with_outcome_def)

lemma default_denials [simp]: "ru_outcome default_deny = ''deny''" "ru_outcome fallback_deny = ''deny''"
  by (simp_all add: default_deny_def fallback_deny_def evaluation_def)

lemma explained_denial: "ru_outcome e = ''deny'' \<Longrightarrow> e \<in> set es \<Longrightarrow> explained (decision ''deny'' [e] es)"
  by (rule explained_decision) simp_all

lemma decide_workflow_explained: "explained (decide_workflow hard flow)"
  by (simp add: decide_workflow_def Let_def explained_filter explained_denial)

text \<open>
  C38 (decision_is_explained): a decision has one of the four outcomes; each of its reason codes is
  that of a recorded rule with that outcome, there is at least one, and the first gives the summary.
\<close>

theorem decision_is_explained:
  assumes "evaluate_policy E i cx = Inr d"
  shows "explained d"
proof -
  from assms obtain hard where "(if with_outcome ''deny'' hard \<noteq> []
      then Inr (decision ''deny'' (with_outcome ''deny'' hard) hard)
      else bindR (workflow_evaluate E i cx) (\<lambda>flow. Inr (decide_workflow hard flow))) = Inr d"
    unfolding evaluate_policy_def by (elim bindR_eq_InrE)
  then show ?thesis
    by (cases "with_outcome ''deny'' hard = []") (auto simp: explained_filter decide_workflow_explained)
qed

section \<open>What an allowed refund satisfies\<close>

definition passes :: "policy_rule \<Rightarrow> action_intent \<Rightarrow> dynamic_context \<Rightarrow> bool" where
  "passes r i cx \<longleftrightarrow> (\<exists>e. r i cx = Inr e \<and> (\<forall>x. e = Some x \<longrightarrow> ru_outcome x \<noteq> ''deny''))"

lemma run_rules_passes:
  "run_rules rs i cx = Inr es \<Longrightarrow> with_outcome ''deny'' es = [] \<Longrightarrow> r \<in> set rs \<Longrightarrow> passes r i cx"
  by (induction rs arbitrary: es)
    (auto simp: bindR_eq_Inr passes_def with_outcome_Nil_iff split: option.splits)

lemma allowE:
  assumes "evaluate_policy E i cx = Inr d" "pd_outcome d = ''allow''"
  obtains hard flow where "run_rules (pe_hard_rules E) i cx = Inr hard" "with_outcome ''deny'' hard = []"
    "workflow_evaluate E i cx = Inr flow" "decide_workflow hard flow = d"
  using assms unfolding evaluate_policy_def
  by (elim bindR_eq_InrE) (simp add: bindR_eq_Inr split: if_split_asm; fastforce)

lemma allow_passes:
  assumes "evaluate_policy E i cx = Inr d" "pd_outcome d = ''allow''" "r \<in> set (pe_hard_rules E)"
  shows "passes r i cx"
  by (rule allowE[OF assms(1,2)]) (rule run_rules_passes[OF _ _ assms(3)])

lemma allow_workflow:
  assumes "evaluate_policy E i cx = Inr d" "pd_outcome d = ''allow''"
  obtains flow e where "workflow_evaluate E i cx = Inr flow" "e \<in> set flow" "ru_outcome e = ''allow''"
proof -
  from assms obtain hard flow where *: "workflow_evaluate E i cx = Inr flow" "decide_workflow hard flow = d"
    by (elim allowE)
  have "with_outcome ''allow'' flow \<noteq> []"
    using *(2) assms(2) by (auto simp: decide_workflow_def Let_def split: if_split_asm)
  with *(1) that show ?thesis by (auto simp: with_outcome_Nil_iff)
qed

text \<open>What it means to pass each rule that can only deny.\<close>

lemma passes_chronology:
  "passes IntentChronologyHardRule i cx \<Longrightarrow> ai_issued_at i \<le> cx_now cx \<and> cx_now cx < ai_expires_at i"
  by (simp add: passes_def IntentChronologyHardRule_def deny_with_def evaluation_def Let_def split: if_split_asm)

lemma passes_ttl:
  "passes (IntentTtlHardRule n) i cx \<Longrightarrow>
    ai_expires_at i - ai_issued_at i \<le> (case cx_max_ttl_seconds cx of None \<Rightarrow> n | Some m \<Rightarrow> m) * 1000000"
  by (simp add: passes_def IntentTtlHardRule_def deny_with_def evaluation_def Let_def split: if_split_asm)

lemma passes_scope:
  "passes CapabilityScopeHardRule i cx \<Longrightarrow> cx_scope_capabilities cx \<noteq> [] \<Longrightarrow>
    ac_capability (ai_action i) \<in> set (cx_scope_capabilities cx)"
  by (simp add: passes_def CapabilityScopeHardRule_def deny_with_def evaluation_def Let_def split: if_split_asm)

lemma positive_intD: "positive_int v \<Longrightarrow> \<exists>n > 0. py_int T v = Inr n"
  by (cases v) (auto simp: positive_int_def int_value_def split: if_splits)

lemma passes_shape:
  "passes (RefundActionShapeRule T) i cx \<Longrightarrow>
    is_refund_intent i \<and> tg_resource_type (ai_target i) = ''payment'' \<and>
    positive_int (get_or_null (ac_parameters (ai_action i)) ''amount_minor'') \<and>
    is_currency T (get_or_null (ac_parameters (ai_action i)) ''currency'')"
  by (simp add: passes_def RefundActionShapeRule_def deny_with_def evaluation_def Let_def is_refund_intent_def
      split: if_split_asm)

lemma passes_target:
  "passes RefundTargetBindingRule i cx \<Longrightarrow> get_or_null (cx_facts cx) ''payment_id'' = JStr s \<Longrightarrow> s \<noteq> [] \<Longrightarrow>
    tg_resource_id (ai_target i) = s"
  by (simp add: passes_def RefundTargetBindingRule_def deny_with_def evaluation_def Let_def split: if_split_asm)

lemma passes_amount:
  assumes "passes (RefundAmountLimitRule T) i cx"
    "py_int T (get_or_null (ac_parameters (ai_action i)) ''amount_minor'') = Inr n"
    "get_or_null (cx_facts cx) ''remaining_refundable_minor'' = v" "v \<noteq> JNull" "py_int T v = Inr limit"
  shows "n \<le> limit"
  using assms
  by (auto simp: passes_def RefundAmountLimitRule_def deny_with_def evaluation_def Let_def bindR_eq_Inr py_index_def
      get_or_null_def split: if_split_asm option.split_asm)

lemma passes_currency:
  "passes RefundCurrencyMatchRule i cx \<Longrightarrow> get_or_null (cx_facts cx) ''payment_currency'' = JStr c \<Longrightarrow>
    get_or_null (ac_parameters (ai_action i)) ''currency'' = JStr c"
  by (auto simp: passes_def RefundCurrencyMatchRule_def deny_with_def evaluation_def Let_def bindR_eq_Inr py_index_def
      get_or_null_def split: if_split_asm option.split_asm)

lemmas refund_passes = passes_chronology passes_ttl passes_scope passes_shape passes_target passes_amount passes_currency

text \<open>A workflow rule of the refund engine that allows is the one for normal risk.\<close>

lemma run_rules_origin:
  "run_rules rs i cx = Inr es \<Longrightarrow> e \<in> set es \<Longrightarrow> \<exists>r \<in> set rs. r i cx = Inr (Some e)"
  by (induction rs arbitrary: es) (auto simp: bindR_eq_Inr split: option.splits)

lemma TenantWorkflowRule_allows:
  "TenantWorkflowRule r i cx = Inr (Some e) \<Longrightarrow> ru_outcome e = ''allow'' \<Longrightarrow>
    tw_outcome r = ''allow'' \<and> list_all (\<lambda>(k, v). py_eq (get_or_null (cx_facts cx) k) v) (tw_required_fact_values r)"
  by (auto simp: TenantWorkflowRule_def evaluation_def Let_def split: if_split_asm)

lemma refund_workflow_allows:
  assumes "workflow_evaluate (build_refund_policy_engine D T store) i cx = Inr flow" "e \<in> set flow"
    "ru_outcome e = ''allow''"
  shows "tn_tenant_id (ai_tenant i) = ''tenant_demo'' \<and> get_or_null (cx_facts cx) ''risk_level'' = JStr ''normal''"
proof -
  from run_rules_origin[OF assms(1)[unfolded workflow_evaluate_def] assms(2)]
  obtain r where r: "tn_tenant_id (ai_tenant i) = ''tenant_demo''" "TenantWorkflowRule r i cx = Inr (Some e)"
      "tw_outcome r = ''allow'' \<longrightarrow> tw_required_fact_values r = [(''risk_level'', JStr ''normal'')]"
    by (force simp: build_refund_policy_engine_def refund_rule_def split: if_split_asm)
  with TenantWorkflowRule_allows[OF r(2) assms(3)] show ?thesis by simp
qed

lemma refund_hard_rules:
  "pe_hard_rules (build_refund_policy_engine D T store) =
     [IntentChronologyHardRule, IntentTtlHardRule 900, CapabilityScopeHardRule,
      ReceiptEvidenceVerificationRule D \<lparr>rr_store = store, rr_allowed_outcomes = [''executed''],
        rr_required_capability = Some ''refund.execute''\<rparr>,
      RefundActionShapeRule T, RefundTargetBindingRule, RefundAmountLimitRule T, RefundCurrencyMatchRule]"
  by (simp add: build_refund_policy_engine_def)

text \<open>
  C33 (allowed_refund_is_safe): when the refund engine allows an intent, the intent is a
  \<open>refund.create\<close> of a payment, has started and not expired, lives no longer than the configured lifetime and
  is inside the scope of the endpoint; the tenant is \<open>tenant_demo\<close>, the facts rate the payment as normal risk and the amount is
  positive. It is at most the refundable balance when the facts state one, its target is the payment when the facts name one,
  and its currency is that of the payment when the facts give one; the engine does not require these three facts.
\<close>

theorem allowed_refund_is_safe:
  assumes "evaluate_policy (build_refund_policy_engine D T store) i cx = Inr d" "pd_outcome d = ''allow''"
  shows "is_refund_intent i \<and> tg_resource_type (ai_target i) = ''payment'' \<and>
    tn_tenant_id (ai_tenant i) = ''tenant_demo'' \<and> get_or_null (cx_facts cx) ''risk_level'' = JStr ''normal'' \<and>
    ai_issued_at i \<le> cx_now cx \<and> cx_now cx < ai_expires_at i \<and>
    ai_expires_at i - ai_issued_at i \<le> (case cx_max_ttl_seconds cx of None \<Rightarrow> 900 | Some m \<Rightarrow> m) * 1000000 \<and>
    (cx_scope_capabilities cx = [] \<or> ''refund.execute'' \<in> set (cx_scope_capabilities cx)) \<and>
    (\<exists>n > 0. py_int T (get_or_null (ac_parameters (ai_action i)) ''amount_minor'') = Inr n \<and>
      (\<forall>v limit. get_or_null (cx_facts cx) ''remaining_refundable_minor'' = v \<longrightarrow> v \<noteq> JNull \<longrightarrow>
        py_int T v = Inr limit \<longrightarrow> n \<le> limit)) \<and>
    (\<forall>p. get_or_null (cx_facts cx) ''payment_id'' = JStr p \<longrightarrow> p \<noteq> [] \<longrightarrow> tg_resource_id (ai_target i) = p) \<and>
    (\<forall>c. get_or_null (cx_facts cx) ''payment_currency'' = JStr c \<longrightarrow>
      get_or_null (ac_parameters (ai_action i)) ''currency'' = JStr c)"
proof -
  note pass = allow_passes[OF assms, unfolded refund_hard_rules]
  have shape: "passes (RefundActionShapeRule T) i cx" by (rule pass) simp
  then have "positive_int (get_or_null (ac_parameters (ai_action i)) ''amount_minor'')"
    using passes_shape by blast
  then obtain n where n: "n > 0" "py_int T (get_or_null (ac_parameters (ai_action i)) ''amount_minor'') = Inr n"
    using positive_intD by blast
  obtain flow e where flow: "workflow_evaluate (build_refund_policy_engine D T store) i cx = Inr flow"
      "e \<in> set flow" "ru_outcome e = ''allow''"
    by (rule allow_workflow[OF assms])
  have rules: "passes IntentChronologyHardRule i cx" "passes (IntentTtlHardRule 900) i cx"
      "passes CapabilityScopeHardRule i cx" "passes RefundTargetBindingRule i cx"
      "passes (RefundAmountLimitRule T) i cx" "passes RefundCurrencyMatchRule i cx"
    by (rule pass; simp)+
  have capability: "ac_capability (ai_action i) = ''refund.execute''"
    using passes_shape[OF shape] by (simp add: is_refund_intent_def)
  show ?thesis
    using passes_shape[OF shape] refund_workflow_allows[OF flow] n passes_chronology[OF rules(1)]
      passes_ttl[OF rules(2)] passes_scope[OF rules(3), unfolded capability] passes_target[OF rules(4)]
      passes_amount[OF rules(5) n(2)] passes_currency[OF rules(6)]
    by blast
qed

definition sample_refund :: action_intent where
  "sample_refund = sample_intent\<lparr>ai_tenant := \<lparr>tn_tenant_id = ''tenant_demo'', tn_attributes = []\<rparr>,
     ai_action := \<lparr>ac_name = ''refund.create'', ac_capability = ''refund.execute'',
       ac_parameters = [(''amount_minor'', JInt 500), (''currency'', JStr ''EUR'')], ac_constraints = [], ac_scope = []\<rparr>,
     ai_target := \<lparr>tg_resource_type = ''payment'', tg_resource_id = ''pay-1'', tg_uri = JNull, tg_selectors = []\<rparr>\<rparr>"

definition sample_refund_context :: dynamic_context where
  "sample_refund_context = sample_context\<lparr>cx_scope_capabilities := [''refund.execute''],
     cx_facts := [(''payment_id'', JStr ''pay-1''), (''remaining_refundable_minor'', JInt 700),
       (''payment_currency'', JStr ''EUR''), (''risk_level'', JStr ''normal'')]\<rparr>"

definition sample_text :: py_text where
  "sample_text = \<lparr>pt_str = (\<lambda>_. []), pt_int = (\<lambda>_. None), pt_repr = (\<lambda>_. []), pt_upper = id\<rparr>"

lemma sample_currency: "is_currency T (JStr ''EUR'')"
  by (simp add: is_currency_def py_upper_def ascii_upper_def codepoints.simps is_continuation_def)

lemmas rule_defs = IntentChronologyHardRule_def IntentTtlHardRule_def CapabilityScopeHardRule_def
  ReceiptEvidenceVerificationRule_def RefundActionShapeRule_def RefundTargetBindingRule_def
  RefundAmountLimitRule_def RefundCurrencyMatchRule_def TenantWorkflowRule_def deny_with_def evaluation_def

lemma sample_refund_hard:
  "run_rules (pe_hard_rules (build_refund_policy_engine D sample_text store)) sample_refund sample_refund_context = Inr []"
  by (simp add: build_refund_policy_engine_def rule_defs sample_refund_def sample_refund_context_def sample_intent_def
      sample_context_def TIMEDELTA_MAX_SECONDS_def sample_currency positive_int_def int_value_def py_index_def Let_def)

lemma sample_refund_flow:
  "workflow_evaluate (build_refund_policy_engine D sample_text store) sample_refund sample_refund_context =
    Inr [evaluation ''tenant_demo.refund.allow'' ''allow'' ''WORKFLOW_ALLOW'' ''The refund workflow authorizes normal-risk refunds.'']"
  by (simp add: workflow_evaluate_def build_refund_policy_engine_def refund_rule_def rule_defs
      sample_refund_def sample_refund_context_def sample_intent_def sample_context_def Let_def)

definition sample_refund_decision :: policy_decision where
  "sample_refund_decision = decide_workflow [] [evaluation ''tenant_demo.refund.allow'' ''allow'' ''WORKFLOW_ALLOW''
     ''The refund workflow authorizes normal-risk refunds.'']"

lemma sample_refund_allowed:
  "evaluate_policy (build_refund_policy_engine D sample_text store) sample_refund sample_refund_context = Inr sample_refund_decision"
  by (simp add: evaluate_policy_def sample_refund_hard sample_refund_flow sample_refund_decision_def with_outcome_def)

lemma sample_refund_decision_outcome: "pd_outcome sample_refund_decision = ''allow''"
  by (simp add: sample_refund_decision_def decide_workflow_def with_outcome_def evaluation_def)

theorem allowed_refund_is_safe_witness:
  "evaluate_policy (build_refund_policy_engine sample_deps sample_text None) sample_refund sample_refund_context =
      Inr sample_refund_decision \<and> pd_outcome sample_refund_decision = ''allow'' \<and> is_refund_intent sample_refund"
  using allowed_refund_is_safe[OF sample_refund_allowed sample_refund_decision_outcome]
    sample_refund_allowed sample_refund_decision_outcome by blast

theorem policy_takes_strictest_witness:
  "\<exists>d. evaluate_policy (build_refund_policy_engine sample_deps sample_text None) sample_refund sample_refund_context = Inr d \<and>
    pd_outcome d = ''allow''"
  using policy_takes_strictest[OF sample_refund_hard sample_refund_flow]
  by (simp add: with_outcome_def strictest_def severity_def verdict_def evaluation_def)

theorem decision_is_explained_witness: "explained sample_refund_decision"
  by (rule decision_is_explained[OF sample_refund_allowed])

section \<open>A malformed refund\<close>

lemma shape_denies:
  "dget (ac_parameters (ai_action i)) ''amount_minor'' = None \<Longrightarrow>
    \<exists>e. RefundActionShapeRule T i cx = Inr (Some e) \<and> ru_outcome e = ''deny''"
  by (simp add: RefundActionShapeRule_def deny_with_def evaluation_def Let_def positive_int_def int_value_def)

lemma run_rules_raises:
  "list_all (\<lambda>r. is_ok (r i cx)) rs \<Longrightarrow> q i cx = Inl exc \<Longrightarrow> run_rules (rs @ q # rest) i cx = Inl exc"
  by (induction rs) (auto simp: is_ok_iff)

text \<open>
  A refund without \<open>amount_minor\<close> is denied by the shape rule, but
  the engine runs the remaining hard rules too, and the amount rule raises \<open>KeyError\<close> out of the engine.
\<close>

theorem malformed_refund_escapes:
  assumes "dget (ac_parameters (ai_action i)) ''amount_minor'' = None"
    "\<forall>e \<in> set (ai_evidence_refs i). ev_type e \<noteq> EVIDENCE_TYPE_RECEIPT" "cx_max_ttl_seconds cx = None"
  shows "(\<exists>e. RefundActionShapeRule T i cx = Inr (Some e) \<and> ru_outcome e = ''deny'') \<and>
    evaluate_policy (build_refund_policy_engine D T store) i cx = Inl (Raise KeyError ''amount_minor'')"
proof -
  let ?rs = "take 6 (pe_hard_rules (build_refund_policy_engine D T store))"
  let ?rest = "drop 7 (pe_hard_rules (build_refund_policy_engine D T store))"
  have returns: "list_all (\<lambda>r. is_ok (r i cx)) ?rs"
    using assms(2,3) by (simp add: refund_hard_rules rule_defs Let_def filter_empty_conv TIMEDELTA_MAX_SECONDS_def)
  have "RefundAmountLimitRule T i cx = Inl (Raise KeyError ''amount_minor'')"
    using assms(1) by (simp add: RefundAmountLimitRule_def py_index_def)
  from run_rules_raises[where q = "RefundAmountLimitRule T" and rest = ?rest, OF returns this]
  have "run_rules (pe_hard_rules (build_refund_policy_engine D T store)) i cx = Inl (Raise KeyError ''amount_minor'')"
    by (simp add: refund_hard_rules)
  then show ?thesis using shape_denies[OF assms(1)] by (simp add: evaluate_policy_def)
qed

theorem malformed_refund_escapes_witness:
  "evaluate_policy (build_refund_policy_engine sample_deps sample_text None)
    (sample_refund\<lparr>ai_action := (ai_action sample_refund)\<lparr>ac_parameters := []\<rparr>\<rparr>) (sample_refund_context\<lparr>cx_max_ttl_seconds := None\<rparr>)
    = Inl (Raise KeyError ''amount_minor'')"
  using malformed_refund_escapes[of "sample_refund\<lparr>ai_action := (ai_action sample_refund)\<lparr>ac_parameters := []\<rparr>\<rparr>"
      "sample_refund_context\<lparr>cx_max_ttl_seconds := None\<rparr>" sample_text sample_deps None]
  by (simp add: sample_refund_def sample_intent_def)

section \<open>Receipts as evidence\<close>

text \<open>
  The reference built for a receipt is accepted exactly when the
  receipt stored under its identifier has the same digest, one of the accepted outcomes and the required capability.
\<close>

theorem receipt_evidence_exact:
  assumes ref: "receipt_evidence_ref D r = Inr ref" "filter (\<lambda>e. ev_type e = EVIDENCE_TYPE_RECEIPT) (ai_evidence_refs i) = [ref]"
    and stored: "rr_store R = Some st" "get_receipt (rc_receipt_id r) st = Some r'"
    and digests: "build_artifact_digest D (receipt_to_dict r) = Inr dg" "build_artifact_digest D (receipt_to_dict r') = Inr dg'"
    and provider: "dep_profile D \<noteq> []" "\<And>m. dep_sha256 D m \<noteq> []"
  shows "ReceiptEvidenceVerificationRule D R i cx = Inr None \<longleftrightarrow>
    dg = dg' \<and> rc_outcome r' \<in> set (rr_allowed_outcomes R) \<and>
    (\<forall>cap. rr_required_capability R = Some cap \<longrightarrow> ac_capability (rc_action r') = cap)"
proof -
  have "digest_wf dg"
    using digests(1) provider by (auto simp: build_artifact_digest_def bindR_eq_Inr sha256_hex_def digest_wf_def hex_of_bytes_def hex_of_byte_def)
  then have "digest_from_dict (JObj (digest_to_dict dg)) f = Inr dg" for f
    by (simp add: digest_round_trip)
  moreover have "ref = \<lparr>ev_type = EVIDENCE_TYPE_RECEIPT, ev_value = rc_receipt_id r, ev_digest = digest_to_dict dg\<rparr>"
    using ref(1) digests(1) by (simp add: receipt_evidence_ref_def)
  ultimately have "check_receipt_ref D R st ref = Inr None \<longleftrightarrow>
    dg = dg' \<and> rc_outcome r' \<in> set (rr_allowed_outcomes R) \<and>
    (\<forall>cap. rr_required_capability R = Some cap \<longrightarrow> ac_capability (rc_action r') = cap)"
    using stored(2) digests(2) by (auto simp: check_receipt_ref_def deny_with_def Let_def split: option.split)
  moreover have "ReceiptEvidenceVerificationRule D R i cx = Inr None \<longleftrightarrow> check_receipt_ref D R st ref = Inr None"
    using ref(2) stored(1) by (auto simp: ReceiptEvidenceVerificationRule_def bindR_eq_Inr Let_def split: option.splits)
  ultimately show ?thesis by simp
qed

definition sample_receipt :: receipt where
  "sample_receipt = \<lparr>rc_receipt_id = ''rcpt-1'', rc_intent_id = ''intent-1'', rc_occurred_at = 63000000060000000,
     rc_outcome = ''executed'', rc_tenant = ai_tenant sample_refund, rc_subject = ai_requester sample_refund,
     rc_action = (ai_action sample_refund)\<lparr>ac_parameters := []\<rparr>, rc_target = ai_target sample_refund,
     rc_summary = ''done'', rc_phase = JStr ''execution'', rc_correlation = None, rc_reason_codes = [], rc_follow_up = [],
     rc_side_effects = [], rc_details = [], rc_metadata = [], rc_extensions = []\<rparr>"

lemma sample_receipt_digest: "is_ok (build_artifact_digest sample_deps (receipt_to_dict sample_receipt))"
proof -
  have "is_ok (canonicalize_bytes sample_deps (JObj (receipt_to_dict sample_receipt)))"
    using length_format_timestamp[of "rc_occurred_at sample_receipt"]
    by (intro canonicalize_bytes_ok)
       (simp_all add: receipt_to_dict_def sample_receipt_def sample_refund_def sample_intent_def sample_deps_def
         contract_entry_def put_correlation_def tenant_to_dict_def party_to_dict_def action_to_dict_def target_to_dict_def put_defs put_if_def)
  then show ?thesis by (simp add: build_artifact_digest_def sha256_hex_def is_ok_bindR_Inr)
qed

theorem receipt_evidence_exact_witness:
  "\<exists>ref. receipt_evidence_ref sample_deps sample_receipt = Inr ref \<and>
     ReceiptEvidenceVerificationRule sample_deps \<lparr>rr_store = Some [(''rcpt-1'', sample_receipt)],
       rr_allowed_outcomes = [''executed''], rr_required_capability = Some ''refund.execute''\<rparr>
       (sample_refund\<lparr>ai_evidence_refs := [ref]\<rparr>) sample_refund_context = Inr None"
proof -
  obtain dg where dg: "build_artifact_digest sample_deps (receipt_to_dict sample_receipt) = Inr dg"
    using sample_receipt_digest by (auto simp: is_ok_iff)
  then obtain ref where ref: "receipt_evidence_ref sample_deps sample_receipt = Inr ref" "ev_type ref = EVIDENCE_TYPE_RECEIPT"
    by (simp add: receipt_evidence_ref_def)
  have "dep_profile sample_deps \<noteq> []" "dep_sha256 sample_deps m \<noteq> []" for m
    using sample_sha256_length[of m] by (auto simp: sample_deps_def simp del: sample_sha256_length)
  then show ?thesis
    using ref receipt_evidence_exact[OF ref(1) _ _ _ dg dg, of "sample_refund\<lparr>ai_evidence_refs := [ref]\<rparr>"
        "\<lparr>rr_store = Some [(''rcpt-1'', sample_receipt)], rr_allowed_outcomes = [''executed''],
          rr_required_capability = Some ''refund.execute''\<rparr>" "[(''rcpt-1'', sample_receipt)]" sample_refund_context]
    by (simp add: get_receipt_def sample_receipt_def sample_refund_def)
qed

end
