(* ===== verification/Kernel.thy ===== *)
theory Kernel
  imports Middleware Policy
begin

text \<open>
  The kernel that admits intents: intake (\<^verbatim>\<open>api/intake.py\<close>), the in-memory intent and proof stores
  (\<^verbatim>\<open>evidence/stores.py\<close>), proof sealing (\<^verbatim>\<open>proof/signers/proof_seal.py\<close>) and \<^verbatim>\<open>core/kernel.py\<close>. The
  seal service is a parameter that may act on the outside world; the text of the request sent to it
  is represented by the data it encodes.
\<close>

section \<open>Intake\<close>

definition plain_violation :: "string \<Rightarrow> string \<Rightarrow> json \<Rightarrow> violation" where
  "plain_violation code message path = \<lparr>vi_code = code, vi_message = message, vi_field_path = path,
     vi_expected = JNull, vi_observed = JNull\<rparr>"

definition window_violations :: "action_intent \<Rightarrow> violation list" where
  "window_violations i =
     (if ai_expires_at i \<le> ai_issued_at i
      then [plain_violation ''INVALID_WINDOW'' ''expires_at must be later than issued_at'' (JStr ''expires_at'')] else []) @
     (if ac_parameters (ai_action i) = []
      then [plain_violation ''MISSING_ACTION_PARAMETERS'' ''action.parameters must contain at least one value''
        (JStr ''action.parameters'')] else [])"

definition parse_intent :: "deps \<Rightarrow> json \<Rightarrow> action_intent res" where
  "parse_intent D payload =
     (case intent_from_dict payload of
        Inl e \<Rightarrow>
          (case e of Raise c m \<Rightarrow>
             if is_value_error D c
             then Inl (ContractValidationError ''Action Intent contract validation failed''
               [plain_violation ''INVALID_CONTRACT'' m JNull])
             else Inl e
           | Refuse _ \<Rightarrow> Inl e)
      | Inr i \<Rightarrow>
          if window_violations i \<noteq> []
          then Inl (ContractValidationError ''Action Intent semantic validation failed'' (window_violations i))
          else Inr i)"

section \<open>Equality of proofs\<close>

text \<open>The generated \<open>__eq__\<close> of the contract classes: field by field, dictionaries as Python compares them.\<close>

definition party_eq :: "party_ref \<Rightarrow> party_ref \<Rightarrow> bool" where
  "party_eq a b \<longleftrightarrow> pa_type a = pa_type b \<and> pa_id a = pa_id b \<and> py_eq (pa_display_name a) (pa_display_name b) \<and>
     dict_eq (pa_attributes a) (pa_attributes b)"

definition tenant_eq :: "tenant_ref \<Rightarrow> tenant_ref \<Rightarrow> bool" where
  "tenant_eq a b \<longleftrightarrow> tn_tenant_id a = tn_tenant_id b \<and> dict_eq (tn_attributes a) (tn_attributes b)"

definition audience_eq :: "audience_ref \<Rightarrow> audience_ref \<Rightarrow> bool" where
  "audience_eq a b \<longleftrightarrow> au_type a = au_type b \<and> au_id a = au_id b \<and> py_eq (au_uri a) (au_uri b)"

definition action_eq :: "action_spec \<Rightarrow> action_spec \<Rightarrow> bool" where
  "action_eq a b \<longleftrightarrow> ac_name a = ac_name b \<and> ac_capability a = ac_capability b \<and>
     dict_eq (ac_parameters a) (ac_parameters b) \<and> dict_eq (ac_constraints a) (ac_constraints b) \<and>
     dict_eq (ac_scope a) (ac_scope b)"

definition target_eq :: "target_ref \<Rightarrow> target_ref \<Rightarrow> bool" where
  "target_eq a b \<longleftrightarrow> tg_resource_type a = tg_resource_type b \<and> tg_resource_id a = tg_resource_id b \<and>
     py_eq (tg_uri a) (tg_uri b) \<and> dict_eq (tg_selectors a) (tg_selectors b)"

definition scope_eq :: "scope_spec \<Rightarrow> scope_spec \<Rightarrow> bool" where
  "scope_eq a b \<longleftrightarrow> sc_mode a = sc_mode b \<and> sc_capabilities a = sc_capabilities b \<and>
     sc_single_use a = sc_single_use b \<and> list_all2 dict_eq (sc_resource_selectors a) (sc_resource_selectors b) \<and>
     dict_eq (sc_parameter_constraints a) (sc_parameter_constraints b)"

section \<open>Proof sealing\<close>

definition ProofSealError :: "string \<Rightarrow> string \<Rightarrow> bool \<Rightarrow> dict \<Rightarrow> refusal_exception" where
  "ProofSealError code message retryable details =
     \<lparr>re_category = ''proof'', re_code = code, re_message = message, re_retryable = retryable,
      re_rule_refs = [], re_violations = [], re_details = details\<rparr>"

text \<open>How a seal client ends: with a proof, with a \<open>ProofSealError\<close>, or with any other exception.\<close>

datatype seal_outcome = Sealed pccb | SealError refusal_exception | SealRaised exn

type_synonym 'w seal_client = "action_intent \<Rightarrow> policy_decision \<Rightarrow> dynamic_context \<Rightarrow> pccb \<Rightarrow> 'w \<Rightarrow> seal_outcome \<times> 'w"

definition NoOpProofSealClient :: "'w seal_client" where
  "NoOpProofSealClient i d cx p w = (Sealed p, w)"

definition rule_evaluation_payload :: "rule_evaluation \<Rightarrow> dict" where
  "rule_evaluation_payload e =
     put_array ''approver_types'' (map JStr (ru_approver_types e))
     (put_array ''required_evidence'' (map JStr (ru_required_evidence e))
     (put_dict ''details'' (ru_details e)
       [(''rule_id'', JStr (ru_rule_id e)), (''outcome'', JStr (ru_outcome e)),
        (''reason_code'', JStr (ru_reason_code e)), (''summary'', JStr (ru_summary e))]))"

definition decision_payload :: "policy_decision \<Rightarrow> dict" where
  "decision_payload d =
     put_array ''approver_types'' (map JStr (pd_approver_types d))
     (put_array ''required_evidence'' (map JStr (pd_required_evidence d))
     (put_array ''reason_codes'' (map JStr (pd_reason_codes d))
       [(''outcome'', JStr (pd_outcome d)), (''summary'', JStr (pd_summary d)),
        (''rule_evaluations'', JArr (map (\<lambda>e. JObj (rule_evaluation_payload e)) (pd_rule_evaluations d)))]))"

definition context_payload :: "dynamic_context \<Rightarrow> dict" where
  "context_payload cx =
     put_field ''max_ttl_seconds'' (case cx_max_ttl_seconds cx of None \<Rightarrow> JNull | Some n \<Rightarrow> JInt n)
     (put_array ''approver_types'' (map JStr (cx_approver_types cx))
     (put_array ''required_evidence_types'' (map JStr (cx_required_evidence_types cx))
     (put_array ''resource_selectors'' (map JObj (cx_resource_selectors cx))
     (put_dict ''parameter_constraints'' (cx_parameter_constraints cx)
     (put_dict ''facts'' (cx_facts cx)
       [(''request_id'', JStr (cx_request_id cx)), (''audience'', JObj (audience_to_dict (cx_audience cx))),
        (''scope_capabilities'', JArr (map JStr (cx_scope_capabilities cx))),
        (''now'', JStr (format_timestamp (cx_now cx)))])))))"

definition build_proof_seal_request :: "action_intent \<Rightarrow> policy_decision \<Rightarrow> dynamic_context \<Rightarrow> pccb \<Rightarrow> dict" where
  "build_proof_seal_request i d cx p =
     [(''intent'', JObj (intent_to_dict i)), (''decision'', JObj (decision_payload d)),
      (''context'', JObj (context_payload cx)), (''pccb'', JObj (pccb_to_dict p))]"

text \<open>
  \<open>HttpProofSealClient.seal\<close>. The transport is handed the data of the request body and ends like a client, with
  the bytes of a response in place of a proof; \<open>load\<close> is \<open>loads_no_duplicate_keys\<close> on them.
\<close>

definition http_seal :: "deps \<Rightarrow> (dict \<Rightarrow> 'w \<Rightarrow> (string + refusal_exception + exn) \<times> 'w) \<Rightarrow> (string \<Rightarrow> json res) \<Rightarrow> 'w seal_client" where
  "http_seal D transport load i d cx p w =
     (let failed = (\<lambda>message. SealError (ProofSealError ''PROOF_SEAL_FAILED'' message False [])) in
      case json_column (build_proof_seal_request i d cx p) of
        Inl e \<Rightarrow> (SealRaised e, w)
      | Inr body \<Rightarrow>
          (case transport body w of
             (Inr (Inl refused), w') \<Rightarrow> (SealError refused, w')
           | (Inr (Inr e), w') \<Rightarrow> (SealRaised e, w')
           | (Inl response, w') \<Rightarrow>
               ((case load response of
                   Inl e \<Rightarrow>
                     if (case e of Raise c _ \<Rightarrow> is_value_error D c | Refuse _ \<Rightarrow> False)
                     then failed ''proof seal service returned invalid JSON.'' else SealRaised e
                 | Inr (JObj response_payload) \<Rightarrow>
                     (case get_or_null response_payload ''pccb'' of
                        JObj raw \<Rightarrow> (case pccb_from_dict (JObj raw) of
                            Inl _ \<Rightarrow> failed ''proof seal service returned a malformed PCCB.''
                          | Inr sealed \<Rightarrow> Sealed sealed)
                      | _ \<Rightarrow> failed ''proof seal service response did not include a PCCB.'')
                 | Inr _ \<Rightarrow> failed ''proof seal service returned an invalid response body.''), w')))"

section \<open>The kernel\<close>

record ('e, 'w) kernel = factories +
  kn_policy :: policy_engine
  kn_minter :: minter
  kn_pccb_id :: "nat \<Rightarrow> string"
  kn_nonce :: "nat \<Rightarrow> string"
  kn_escrow_id :: "nat \<Rightarrow> string"
  kn_issue :: "string \<Rightarrow> string \<Rightarrow> string \<Rightarrow> datetime \<Rightarrow> dict option \<Rightarrow> ('e, escrow_record) prog"
  kn_seal :: "'w seal_client option"
  kn_require_seal :: bool
  kn_shares_store :: bool

text \<open>
  The stores of the kernel and the number of ids drawn; \<open>kn_shares_store\<close> says that the proof store is
  the very object the outcome writer looks proofs up in.
\<close>

record ('s, 'e, 'w) kernel_state = "('s, 'e, 'w) world" +
  kt_intents :: "(string \<times> action_intent) list option"
  kt_pccbs :: "(string \<times> pccb) list option"
  kt_drawn :: nat

type_synonym ('s, 'e, 'w, 'a) kprog = "(('s, 'e, 'w) kernel_state, 'a) prog"

definition put_intent :: "action_intent \<Rightarrow> (string \<times> action_intent) list \<Rightarrow> (string \<times> action_intent) list" where
  "put_intent i st = dput st (ai_intent_id i) i"

definition get_intent :: "string \<Rightarrow> (string \<times> action_intent) list \<Rightarrow> action_intent option" where
  "get_intent intent_id st = dget st intent_id"

definition put_pccb :: "pccb \<Rightarrow> (string \<times> pccb) list \<Rightarrow> (string \<times> pccb) list" where
  "put_pccb p st = dput st (pc_pccb_id p) p"

definition get_pccb :: "string \<Rightarrow> (string \<times> pccb) list \<Rightarrow> pccb option" where
  "get_pccb pccb_id st = dget st pccb_id"

definition required_matches :: "pccb \<Rightarrow> pccb \<Rightarrow> (string \<times> bool) list" where
  "required_matches expected actual =
     [(''intent_id'', py_eq (pc_intent_id actual) (pc_intent_id expected)),
      (''issued_at'', pc_issued_at actual = pc_issued_at expected),
      (''not_before'', pc_not_before actual = pc_not_before expected),
      (''expires_at'', pc_expires_at actual = pc_expires_at expected),
      (''subject'', party_eq (pc_subject actual) (pc_subject expected)),
      (''tenant'', tenant_eq (pc_tenant actual) (pc_tenant expected)),
      (''audience'', audience_eq (pc_audience actual) (pc_audience expected)),
      (''action'', action_eq (pc_action actual) (pc_action expected)),
      (''target'', target_eq (pc_target actual) (pc_target expected)),
      (''scope'', scope_eq (pc_scope actual) (pc_scope expected)),
      (''escrow_id'', py_eq (pc_escrow_id actual) (pc_escrow_id expected)),
      (''action_hash'', pc_action_hash actual = pc_action_hash expected)]"

definition validated_execution_pccb :: "pccb \<Rightarrow> pccb \<Rightarrow> refusal_exception + pccb" where
  "validated_execution_pccb local sealed =
     (case filter (\<lambda>p. \<not> snd p) (required_matches local sealed) of
        [] \<Rightarrow> Inr sealed
      | (field_name, _) # _ \<Rightarrow> Inl (ProofSealError ''PROOF_SEAL_INVALID''
          (''proof seal substitution changed the PCCB '' @ field_name @ ''.'') False [(''field'', JStr field_name)]))"

definition resolve_execution_pccb :: "('e, 'w) kernel \<Rightarrow> action_intent \<Rightarrow> policy_decision \<Rightarrow> dynamic_context \<Rightarrow> pccb
    \<Rightarrow> ('s, 'e, 'w, refusal_exception + pccb) kprog" where
  "resolve_execution_pccb K i d cx local =
     (case kn_seal K of
        None \<Rightarrow> retP (Inr local)
      | Some seal \<Rightarrow>
          on_outside (\<lambda>w. case seal i d cx local w of
              (Sealed sealed, w') \<Rightarrow> (Inr (validated_execution_pccb local sealed), w')
            | (SealError exc, w') \<Rightarrow> (Inr (Inl exc), w')
            | (SealRaised e, w') \<Rightarrow> (Inr (Inl (ProofSealError ''PROOF_SEAL_FAILED'' ''proof seal substitution failed.'' False [])), w')))"

definition admission :: "action_intent option \<Rightarrow> policy_decision option \<Rightarrow> receipt option \<Rightarrow> refusal option \<Rightarrow> admission_result" where
  "admission i d r f = \<lparr>ar_intent = i, ar_decision = d, ar_receipt = r, ar_refusal = f, ar_pccb = None, ar_escrow_id = JNull\<rparr>"

definition refuse_intake :: "deps \<Rightarrow> ('e, 'w) kernel \<Rightarrow> dynamic_context \<Rightarrow> refusal_exception \<Rightarrow> ('s, 'e, 'w, admission_result) kprog" where
  "refuse_intake D K cx exc =
     bindP (new_artifact (ex_refusal_id K) (\<lambda>rid. Inr (create_from_exception rid exc (cx_now cx) None (Some cx) JNull JNull None))) (\<lambda>refusal.
     bindP (store_refusal D K refusal) (\<lambda>_.
     retP (admission None None None (Some refusal))))"

definition store_intent :: "action_intent \<Rightarrow> ('s, 'e, 'w, unit) kprog" where
  "store_intent i = modP (\<lambda>s. s\<lparr>kt_intents := map_option (put_intent i) (kt_intents s)\<rparr>)"

definition decision_receipt :: "('e, 'w) kernel \<Rightarrow> action_intent \<Rightarrow> policy_decision \<Rightarrow> dynamic_context \<Rightarrow> json \<Rightarrow> json
    \<Rightarrow> action_hash_spec option \<Rightarrow> ('s, 'e, 'w, receipt) kprog" where
  "decision_receipt K i d cx pccb_id escrow_id ahash = new_artifact (ex_receipt_id K) (\<lambda>rid.
     create_decision_receipt (ex_text K) rid i d cx pccb_id escrow_id ahash)"

definition denial_exception :: "policy_decision \<Rightarrow> refusal_exception" where
  "denial_exception d =
     \<lparr>re_category = ''policy'', re_code = (case pd_reason_codes d of [] \<Rightarrow> ''POLICY_DENIED'' | c # _ \<Rightarrow> c),
      re_message = pd_summary d, re_retryable = False,
      re_rule_refs = map ru_rule_id (with_outcome ''deny'' (pd_rule_evaluations d)), re_violations = [],
      re_details = [(''reason_codes'', JArr (map JStr (pd_reason_codes d)))]\<rparr>"

definition report_denial :: "deps \<Rightarrow> ('e, 'w) kernel \<Rightarrow> action_intent \<Rightarrow> policy_decision \<Rightarrow> dynamic_context
    \<Rightarrow> ('s, 'e, 'w, admission_result) kprog" where
  "report_denial D K i d cx =
     bindP (decision_receipt K i d cx JNull JNull None) (\<lambda>receipt.
     bindP (store_receipt D K receipt) (\<lambda>_.
     bindP (new_artifact (ex_refusal_id K) (\<lambda>rid.
       Inr (create_from_exception rid (denial_exception d) (cx_now cx) (Some i) (Some cx) JNull JNull None))) (\<lambda>refusal.
     bindP (store_refusal D K refusal) (\<lambda>_.
     retP (admission (Some i) (Some d) (Some receipt) (Some refusal))))))"

definition report_pending :: "deps \<Rightarrow> ('e, 'w) kernel \<Rightarrow> action_intent \<Rightarrow> policy_decision \<Rightarrow> dynamic_context
    \<Rightarrow> ('s, 'e, 'w, admission_result) kprog" where
  "report_pending D K i d cx =
     bindP (decision_receipt K i d cx JNull JNull None) (\<lambda>receipt.
     bindP (store_receipt D K receipt) (\<lambda>_.
     retP (admission (Some i) (Some d) (Some receipt) None)))"

text \<open>Drawing the escrow id and minting under it.\<close>

definition mint_local :: "deps \<Rightarrow> ('e, 'w) kernel \<Rightarrow> action_intent \<Rightarrow> policy_decision \<Rightarrow> dynamic_context
    \<Rightarrow> ('s, 'e, 'w, string \<times> pccb) kprog" where
  "mint_local D K i d cx =
     bindP (readP kt_drawn) (\<lambda>n.
     bindP (modP (\<lambda>s. s\<lparr>kt_drawn := Suc n\<rparr>)) (\<lambda>_.
     bindP (liftP (mint D (kn_minter K) (kn_pccb_id K n) (kn_nonce K n) i d cx (JStr (kn_escrow_id K n)) [])) (\<lambda>local.
     retP (kn_escrow_id K n, local))))"

definition refuse_seal :: "deps \<Rightarrow> ('e, 'w) kernel \<Rightarrow> action_intent \<Rightarrow> policy_decision \<Rightarrow> dynamic_context \<Rightarrow> string \<Rightarrow> pccb
    \<Rightarrow> refusal_exception \<Rightarrow> ('s, 'e, 'w, admission_result) kprog" where
  "refuse_seal D K i d cx escrow_id local exc =
     bindP (new_artifact (ex_refusal_id K) (\<lambda>rid.
       Inr (create_from_exception rid exc (cx_now cx) (Some i) (Some cx) (JStr (pc_pccb_id local)) (JStr escrow_id)
         (Some (pc_action_hash local))))) (\<lambda>refusal.
     bindP (store_refusal D K refusal) (\<lambda>_.
     retP (admission (Some i) (Some d) None (Some refusal))))"

definition store_pccb :: "('e, 'w) kernel \<Rightarrow> pccb \<Rightarrow> ('s, 'e, 'w, unit) kprog" where
  "store_pccb K p = modP (\<lambda>s.
     case kt_pccbs s of None \<Rightarrow> s
     | Some st \<Rightarrow> s\<lparr>kt_pccbs := Some (put_pccb p st),
         wo_writer := (if kn_shares_store K
           then (wo_writer s)\<lparr>ow_pccb_store := map_option (put_pccb p) (ow_pccb_store (wo_writer s))\<rparr> else wo_writer s)\<rparr>)"

definition issue_escrow :: "('e, 'w) kernel \<Rightarrow> action_intent \<Rightarrow> string \<Rightarrow> pccb \<Rightarrow> ('s, 'e, 'w, escrow_record) kprog" where
  "issue_escrow K i escrow_id p = on_escrow (kn_issue K escrow_id (pc_pccb_id p) (ac_capability (ai_action i)) (pc_expires_at p)
     (Some [(''intent_id'', JStr (ai_intent_id i))]))"

definition admit_proof :: "deps \<Rightarrow> ('e, 'w) kernel \<Rightarrow> action_intent \<Rightarrow> policy_decision \<Rightarrow> dynamic_context \<Rightarrow> string \<Rightarrow> pccb
    \<Rightarrow> ('s, 'e, 'w, admission_result) kprog" where
  "admit_proof D K i d cx escrow_id p =
     bindP (issue_escrow K i escrow_id p) (\<lambda>_.
     bindP (decision_receipt K i d cx (JStr (pc_pccb_id p)) (JStr escrow_id) (Some (pc_action_hash p))) (\<lambda>receipt.
     bindP (store_pccb K p) (\<lambda>_.
     bindP (store_receipt D K receipt) (\<lambda>_.
     retP \<lparr>ar_intent = Some i, ar_decision = Some d, ar_receipt = Some receipt, ar_refusal = None,
       ar_pccb = Some p, ar_escrow_id = JStr escrow_id\<rparr>))))"

definition admit_allowed :: "deps \<Rightarrow> ('e, 'w) kernel \<Rightarrow> action_intent \<Rightarrow> policy_decision \<Rightarrow> dynamic_context
    \<Rightarrow> ('s, 'e, 'w, admission_result) kprog" where
  "admit_allowed D K i d cx =
     bindP (mint_local D K i d cx) (\<lambda>(escrow_id, local).
     bindP (resolve_execution_pccb K i d cx local) (\<lambda>resolved.
     case resolved of
       Inr p \<Rightarrow> admit_proof D K i d cx escrow_id p
     | Inl exc \<Rightarrow> if kn_require_seal K then refuse_seal D K i d cx escrow_id local exc
         else admit_proof D K i d cx escrow_id local))"

definition admit_intent :: "deps \<Rightarrow> ('e, 'w) kernel \<Rightarrow> action_intent \<Rightarrow> dynamic_context \<Rightarrow> ('s, 'e, 'w, admission_result) kprog" where
  "admit_intent D K i cx =
     bindP (store_intent i) (\<lambda>_.
     bindP (liftP (evaluate_policy (kn_policy K) i cx)) (\<lambda>d.
     if pd_outcome d = ''deny'' then report_denial D K i d cx
     else if pd_outcome d \<in> {''approval-required'', ''needs-evidence''} then report_pending D K i d cx
     else admit_allowed D K i d cx))"

definition submit_intent :: "deps \<Rightarrow> ('e, 'w) kernel \<Rightarrow> json \<Rightarrow> dynamic_context \<Rightarrow> ('s, 'e, 'w, admission_result) kprog" where
  "submit_intent D K payload cx =
     (case parse_intent D payload of
        Inr i \<Rightarrow> admit_intent D K i cx
      | Inl (Refuse exc) \<Rightarrow> refuse_intake D K cx exc
      | Inl e \<Rightarrow> raiseP e)"

definition build_execution_request :: "action_intent \<Rightarrow> pccb \<Rightarrow> dynamic_context \<Rightarrow> execution_request" where
  "build_execution_request i p cx = \<lparr>rq_intent = i, rq_pccb = p, rq_context = cx\<rparr>"

text \<open>\<open>execute\<close> hands the request to the middleware, whose stores are those of the kernel.\<close>

definition kernel_execute :: "deps \<Rightarrow> ('s, 'e) middleware \<Rightarrow> execution_request \<Rightarrow> 'w plain_handler
    \<Rightarrow> ('s, 'e, 'w, execution_result) kprog" where
  "kernel_execute D M rq handler s =
     (case mid_execute D M rq handler (world.truncate s) of (res, w) \<Rightarrow>
        (res, world.extend w \<lparr>kt_intents = kt_intents s, kt_pccbs = kt_pccbs s, kt_drawn = kt_drawn s\<rparr>))"

section \<open>Who is admitted\<close>

text \<open>What an admission may change only when it admits.\<close>

definition ungranted :: "'s \<Rightarrow> 'e \<Rightarrow> (string \<times> pccb) list option \<Rightarrow> ('s, 'e, 'w) kernel_state \<Rightarrow> bool" where
  "ungranted r0 e0 p0 s \<longleftrightarrow> wo_replay s = r0 \<and> wo_escrow s = e0 \<and> kt_pccbs s = p0"

lemma keeps_ungranted:
  "keeps (ungranted r0 e0 p0) (new_artifact ids b)" "keeps (ungranted r0 e0 p0) (store_receipt D K r)"
  "keeps (ungranted r0 e0 p0) (store_refusal D K f)" "keeps (ungranted r0 e0 p0) (store_intent i)"
  "keeps (ungranted r0 e0 p0) (liftP x)" "keeps (ungranted r0 e0 p0) (retP y)" "keeps (ungranted r0 e0 p0) (raiseP e)"
  "keeps (ungranted r0 e0 p0) (readP g)" "keeps (ungranted r0 e0 p0) (on_outside m)"
  "keeps (ungranted r0 e0 p0) (modP (\<lambda>s. s\<lparr>kt_drawn := n\<rparr>))"
  by (rule keepsI; simp add: ungranted_def store_receipt_def store_refusal_def store_intent_def on_writer_def on_outside_def
      prog_defs new_artifact_def split: prod.split sum.split)+

lemma keeps_report:
  "keeps (ungranted r0 e0 p0) (refuse_intake D K cx exc)" "keeps (ungranted r0 e0 p0) (report_denial D K i d cx)"
  "keeps (ungranted r0 e0 p0) (report_pending D K i d cx)" "keeps (ungranted r0 e0 p0) (refuse_seal D K i d cx eid p exc)"
  "keeps (ungranted r0 e0 p0) (mint_local D K i d cx)" "keeps (ungranted r0 e0 p0) (resolve_execution_pccb K i d cx p)"
  unfolding refuse_intake_def report_denial_def report_pending_def refuse_seal_def mint_local_def resolve_execution_pccb_def
    decision_receipt_def
  by (intro keeps_bindP keeps_ungranted valid_case_option)+

abbreviation grants_last :: "'s \<Rightarrow> 'e \<Rightarrow> (string \<times> pccb) list option \<Rightarrow> ('s, 'e, 'w, admission_result) kprog \<Rightarrow> bool" where
  "grants_last r0 e0 p0 m \<equiv> valid (ungranted r0 e0 p0) m
     (\<lambda>r s. ar_pccb r = None \<longrightarrow> ungranted r0 e0 p0 s) (\<lambda>_ _. True)"

lemma grants_last_keeps: "keeps (ungranted r0 e0 p0) m \<Longrightarrow> grants_last r0 e0 p0 m"
  by (erule valid_weaken) simp_all

lemma grants_last_step:
  "keeps (ungranted r0 e0 p0) m \<Longrightarrow> (\<And>x. grants_last r0 e0 p0 (f x)) \<Longrightarrow> grants_last r0 e0 p0 (bindP m f)"
  by (rule valid_step) simp_all

lemma valid_always: "valid P m (\<lambda>_ _. True) (\<lambda>_ _. True)"
  by (simp add: valid_def split: prod.split sum.split)

lemma admit_proof_grants: "grants_last r0 e0 p0 (admit_proof D K i d cx eid p)"
  unfolding admit_proof_def
  by (rule valid_bindP[OF valid_always])+ (simp add: valid_def retP_def)

lemma submit_grants_last: "grants_last r0 e0 p0 (submit_intent D K payload cx)"
  unfolding submit_intent_def admit_intent_def admit_allowed_def
  by (auto intro!: grants_last_step keeps_report keeps_ungranted valid_if admit_proof_grants
      intro: grants_last_keeps keeps_report keeps_ungranted split: sum.split exn.split)

lemma bindP_eq_InrE:
  assumes "bindP m f s = (Inr y, s')"
  obtains x s1 where "m s = (Inr x, s1)" "f x s1 = (Inr y, s')"
  using assms by (auto simp: bindP_def split: prod.splits sum.splits)

lemma unchanged_by_steps:
  "new_artifact ids b s = (x, s1) \<Longrightarrow> wo_escrow s1 = wo_escrow s \<and> kt_pccbs s1 = kt_pccbs s"
  "store_receipt D K r s = (y, s1) \<Longrightarrow> wo_escrow s1 = wo_escrow s \<and> kt_pccbs s1 = kt_pccbs s"
  "resolve_execution_pccb K i d cx p s = (z, s1) \<Longrightarrow> wo_escrow s1 = wo_escrow s \<and> kt_pccbs s1 = kt_pccbs s"
  "mint_local D K i d cx s = (m, s1) \<Longrightarrow> wo_escrow s1 = wo_escrow s \<and> kt_pccbs s1 = kt_pccbs s"
  using keepsD[OF keeps_ungranted(1), of "wo_replay s" "wo_escrow s" "kt_pccbs s" s ids b]
    keepsD[OF keeps_ungranted(2), of "wo_replay s" "wo_escrow s" "kt_pccbs s" s D K r]
    keepsD[OF keeps_report(6), of "wo_replay s" "wo_escrow s" "kt_pccbs s" s K i d cx p]
    keepsD[OF keeps_report(5), of "wo_replay s" "wo_escrow s" "kt_pccbs s" s D K i d cx]
  by (auto simp: ungranted_def)

definition preserves_bindings :: "pccb \<Rightarrow> pccb \<Rightarrow> bool" where
  "preserves_bindings local p \<longleftrightarrow> list_all snd (required_matches local p)"

lemma validated_preserves: "validated_execution_pccb local sealed = Inr p \<Longrightarrow> p = sealed \<and> preserves_bindings local p"
  by (auto simp: validated_execution_pccb_def preserves_bindings_def filter_empty_conv list_all_iff split: list.splits)

lemma resolved_preserves:
  assumes "resolve_execution_pccb K i d cx local s = (Inr (Inr p), s')"
  shows "p = local \<or> preserves_bindings local p"
  using assms validated_preserves[of local]
  by (auto simp: resolve_execution_pccb_def on_outside_def prog_defs split: option.splits prod.splits seal_outcome.splits)

lemma mint_local_Inr:
  assumes "mint_local D K i d cx s = (Inr (eid, local), s1)"
  shows "eid = kn_escrow_id K (kt_drawn s) \<and> s1 = s\<lparr>kt_drawn := Suc (kt_drawn s)\<rparr> \<and>
    mint D (kn_minter K) (kn_pccb_id K (kt_drawn s)) (kn_nonce K (kt_drawn s)) i d cx (JStr eid) [] = Inr local"
  using assms by (auto simp: mint_local_def prog_defs split: sum.splits)

lemma admit_proof_Inr:
  assumes "admit_proof D K i d cx eid p s = (Inr r, s')"
  shows "(\<exists>er. kn_issue K eid (pc_pccb_id p) (ac_capability (ai_action i)) (pc_expires_at p)
      (Some [(''intent_id'', JStr (ai_intent_id i))]) (wo_escrow s) = (Inr er, wo_escrow s')) \<and>
    kt_pccbs s' = map_option (put_pccb p) (kt_pccbs s) \<and>
    ar_intent r = Some i \<and> ar_decision r = Some d \<and> ar_pccb r = Some p \<and> ar_escrow_id r = JStr eid"
proof -
  from assms obtain er s1 receipt s2 u s3 v where steps: "issue_escrow K i eid p s = (Inr er, s1)"
      "decision_receipt K i d cx (JStr (pc_pccb_id p)) (JStr eid) (Some (pc_action_hash p)) s1 = (Inr receipt, s2)"
      "store_pccb K p s2 = (Inr u, s3)" "store_receipt D K receipt s3 = (Inr v, s')"
      and r: "r = \<lparr>ar_intent = Some i, ar_decision = Some d, ar_receipt = Some receipt, ar_refusal = None,
        ar_pccb = Some p, ar_escrow_id = JStr eid\<rparr>"
    unfolding admit_proof_def by (elim bindP_eq_InrE) (auto simp: retP_def)
  have "wo_escrow s2 = wo_escrow s1" "kt_pccbs s2 = kt_pccbs s1"
    using unchanged_by_steps(1)[OF steps(2)[unfolded decision_receipt_def]] by simp_all
  moreover have "wo_escrow s' = wo_escrow s3" "kt_pccbs s' = kt_pccbs s3" using unchanged_by_steps(2)[OF steps(4)] by simp_all
  moreover have "wo_escrow s3 = wo_escrow s2" "kt_pccbs s3 = map_option (put_pccb p) (kt_pccbs s2)"
    using steps(3) by (auto simp: store_pccb_def modP_def split: option.splits)
  moreover have "kt_pccbs s1 = kt_pccbs s" "\<exists>er. kn_issue K eid (pc_pccb_id p) (ac_capability (ai_action i)) (pc_expires_at p)
      (Some [(''intent_id'', JStr (ai_intent_id i))]) (wo_escrow s) = (Inr er, wo_escrow s1)"
    using steps(1) by (auto simp: issue_escrow_def on_escrow_def zoomP_def split: prod.splits)
  ultimately show ?thesis by (simp add: r)
qed

text \<open>What an admitted proof binds, minted here or replaced by the seal service.\<close>

definition binds :: "deps \<Rightarrow> action_intent \<Rightarrow> dynamic_context \<Rightarrow> string \<Rightarrow> pccb \<Rightarrow> bool" where
  "binds D i cx eid p \<longleftrightarrow>
     pc_escrow_id p = JStr eid \<and> pc_intent_id p = JStr (ai_intent_id i) \<and>
     pc_issued_at p = cx_now cx \<and> pc_not_before p = cx_now cx \<and> pc_expires_at p = ai_expires_at i \<and>
     party_eq (pc_subject p) (ai_requester i) \<and> tenant_eq (pc_tenant p) (ai_tenant i) \<and>
     audience_eq (pc_audience p) (cx_audience cx) \<and> action_eq (pc_action p) (ai_action i) \<and>
     target_eq (pc_target p) (ai_target i) \<and> sc_mode (pc_scope p) = ''exact'' \<and> sc_single_use (pc_scope p) \<and>
     sha256_hex D (build_action_hash_input i) = Inr (ah_value (pc_action_hash p))"

lemma preserved_binds:
  assumes "unsigned_pccb D M pid nonce i cx (JStr eid) x = Inr u"
    and "preserves_bindings (u\<lparr>pc_signature := sg\<rparr>) p"
  shows "binds D i cx eid p"
  using assms(2) unsigned_pccb_fields[OF assms(1)]
  by (simp add: preserves_bindings_def required_matches_def binds_def scope_eq_def)

definition binds_exactly :: "deps \<Rightarrow> action_intent \<Rightarrow> dynamic_context \<Rightarrow> string \<Rightarrow> pccb \<Rightarrow> bool" where
  "binds_exactly D i cx eid p \<longleftrightarrow>
     pc_escrow_id p = JStr eid \<and> pc_intent_id p = JStr (ai_intent_id i) \<and>
     pc_issued_at p = cx_now cx \<and> pc_not_before p = cx_now cx \<and> pc_expires_at p = ai_expires_at i \<and>
     pc_subject p = ai_requester i \<and> pc_tenant p = ai_tenant i \<and> pc_audience p = cx_audience cx \<and>
     pc_action p = ai_action i \<and> pc_target p = ai_target i \<and> sc_mode (pc_scope p) = ''exact'' \<and>
     sc_single_use (pc_scope p) \<and> sha256_hex D (build_action_hash_input i) = Inr (ah_value (pc_action_hash p))"

lemma minted_binds:
  assumes "mint D M pid nonce i d cx (JStr eid) x = Inr p"
  shows "binds_exactly D i cx eid p" "pd_outcome d = ''allow''" "preserves_bindings p q \<Longrightarrow> binds D i cx eid q"
proof -
  from assms obtain u pl sg where u: "decision_allowed d" "unsigned_pccb D M pid nonce i cx (JStr eid) x = Inr u"
      "p = u\<lparr>pc_signature := sg\<rparr>" by (rule mint_Inr) blast
  show "binds_exactly D i cx eid p" using unsigned_pccb_fields[OF u(2)] by (simp add: binds_exactly_def u(3))
  show "pd_outcome d = ''allow''" using u(1) by (simp add: decision_allowed_def)
  show "preserves_bindings p q \<Longrightarrow> binds D i cx eid q" using preserved_binds[OF u(2)] by (simp add: u(3))
qed

lemma admission_no_proof [simp]: "ar_pccb (admission a b c e) = None"
  by (simp add: admission_def)

lemma report_no_proof:
  "refuse_intake D K cx exc s = (Inr r, s') \<Longrightarrow> ar_pccb r = None"
  "report_denial D K i d cx s = (Inr r, s') \<Longrightarrow> ar_pccb r = None"
  "report_pending D K i d cx s = (Inr r, s') \<Longrightarrow> ar_pccb r = None"
  "refuse_seal D K i d cx eid p exc s = (Inr r, s') \<Longrightarrow> ar_pccb r = None"
  unfolding refuse_intake_def report_denial_def report_pending_def refuse_seal_def
  by - (elim bindP_eq_InrE, auto simp: retP_def)+

lemma admit_allowedE:
  assumes "admit_allowed D K i d cx s = (Inr r, s')" "ar_pccb r = Some p"
  obtains eid local s2 q where "mint D (kn_minter K) (kn_pccb_id K (kt_drawn s)) (kn_nonce K (kt_drawn s)) i d cx (JStr eid) [] = Inr local"
    "wo_escrow s2 = wo_escrow s" "kt_pccbs s2 = kt_pccbs s" "admit_proof D K i d cx eid q s2 = (Inr r, s')"
    "q = local \<or> kn_seal K \<noteq> None \<and> preserves_bindings local q"
proof -
  obtain x s1 where x: "mint_local D K i d cx s = (Inr x, s1)"
      "(case x of (eid, local) \<Rightarrow> bindP (resolve_execution_pccb K i d cx local) (\<lambda>resolved. case resolved of
          Inr p \<Rightarrow> admit_proof D K i d cx eid p
        | Inl exc \<Rightarrow> if kn_require_seal K then refuse_seal D K i d cx eid local exc else admit_proof D K i d cx eid local)) s1 = (Inr r, s')"
    using assms(1) unfolding admit_allowed_def by (rule bindP_eq_InrE)
  obtain eid local where el: "x = (eid, local)" by (cases x)
  from x(2) obtain resolved s2 where m: "resolve_execution_pccb K i d cx local s1 = (Inr resolved, s2)"
      "(case resolved of Inr p \<Rightarrow> admit_proof D K i d cx eid p
        | Inl exc \<Rightarrow> if kn_require_seal K then refuse_seal D K i d cx eid local exc else admit_proof D K i d cx eid local) s2 = (Inr r, s')"
    unfolding el prod.case by (rule bindP_eq_InrE)
  have same: "wo_escrow s2 = wo_escrow s" "kt_pccbs s2 = kt_pccbs s"
    using unchanged_by_steps(3)[OF m(1)] unchanged_by_steps(4)[OF x(1)] by simp_all
  note mint = mint_local_Inr[OF x(1)[unfolded el], THEN conjunct2, THEN conjunct2]
  show thesis
  proof (cases resolved)
    case (Inl exc)
    then have "admit_proof D K i d cx eid local s2 = (Inr r, s')"
      using m(2) assms(2) report_no_proof(4)[of D K i d cx eid local exc s2 r s'] by (cases "kn_require_seal K") simp_all
    then show thesis by (rule that[OF mint same]) simp
  next
    case (Inr q)
    then have q: "admit_proof D K i d cx eid q s2 = (Inr r, s')" using m(2) by simp
    have "q = local \<or> kn_seal K \<noteq> None \<and> preserves_bindings local q"
      using resolved_preserves[OF m(1)[unfolded Inr]] m(1) Inr
      by (cases "kn_seal K") (simp_all add: resolve_execution_pccb_def retP_def)
    with q show thesis by (rule that[OF mint same])
  qed
qed

lemma submit_allowedE:
  assumes "submit_intent D K payload cx s = (Inr r, s')" "ar_pccb r = Some p"
  obtains i d where "parse_intent D payload = Inr i" "evaluate_policy (kn_policy K) i cx = Inr d"
    "admit_allowed D K i d cx (s\<lparr>kt_intents := map_option (put_intent i) (kt_intents s)\<rparr>) = (Inr r, s')"
proof -
  obtain i where i: "parse_intent D payload = Inr i" "admit_intent D K i cx s = (Inr r, s')"
    using assms report_no_proof(1)[of D K cx _ s r s']
    by (auto simp: submit_intent_def raiseP_def split: sum.splits exn.splits)
  let ?s0 = "s\<lparr>kt_intents := map_option (put_intent i) (kt_intents s)\<rparr>"
  from i(2) obtain d where d: "evaluate_policy (kn_policy K) i cx = Inr d"
      "(if pd_outcome d = ''deny'' then report_denial D K i d cx
        else if pd_outcome d \<in> {''approval-required'', ''needs-evidence''} then report_pending D K i d cx
        else admit_allowed D K i d cx) ?s0 = (Inr r, s')"
    unfolding admit_intent_def by (elim bindP_eq_InrE) (simp add: store_intent_def modP_def liftP_def)
  have "admit_allowed D K i d cx ?s0 = (Inr r, s')"
    using d(2) assms(2) report_no_proof(2,3)[of D K i d cx ?s0 r s'] by (simp split: if_split_asm)
  then show thesis by (rule that[OF i(1) d(1)])
qed

lemma submit_admitsE:
  assumes "submit_intent D K payload cx s = (Inr r, s')" "ar_pccb r = Some p"
  obtains i d eid er where "parse_intent D payload = Inr i" "evaluate_policy (kn_policy K) i cx = Inr d"
    "pd_outcome d = ''allow''" "ar_intent r = Some i" "ar_decision r = Some d" "ar_escrow_id r = JStr eid"
    "binds_exactly D i cx eid p \<or> kn_seal K \<noteq> None \<and> binds D i cx eid p"
    "kn_issue K eid (pc_pccb_id p) (ac_capability (ai_action i)) (pc_expires_at p)
        (Some [(''intent_id'', JStr (ai_intent_id i))]) (wo_escrow s) = (Inr er, wo_escrow s')"
    "kt_pccbs s' = map_option (put_pccb p) (kt_pccbs s)"
proof -
  obtain i d where id: "parse_intent D payload = Inr i" "evaluate_policy (kn_policy K) i cx = Inr d"
    "admit_allowed D K i d cx (s\<lparr>kt_intents := map_option (put_intent i) (kt_intents s)\<rparr>) = (Inr r, s')"
    using assms by (rule submit_allowedE)
  from id(3) assms(2) show thesis
  proof (rule admit_allowedE)
    fix eid local s2 q
    assume mint: "mint D (kn_minter K) (kn_pccb_id K (kt_drawn (s\<lparr>kt_intents := map_option (put_intent i) (kt_intents s)\<rparr>)))
        (kn_nonce K (kt_drawn (s\<lparr>kt_intents := map_option (put_intent i) (kt_intents s)\<rparr>))) i d cx (JStr eid) [] = Inr local"
      and same: "wo_escrow s2 = wo_escrow (s\<lparr>kt_intents := map_option (put_intent i) (kt_intents s)\<rparr>)"
        "kt_pccbs s2 = kt_pccbs (s\<lparr>kt_intents := map_option (put_intent i) (kt_intents s)\<rparr>)"
      and q: "admit_proof D K i d cx eid q s2 = (Inr r, s')" "q = local \<or> kn_seal K \<noteq> None \<and> preserves_bindings local q"
    note fin = admit_proof_Inr[OF q(1)]
    have qp: "q = p" using fin assms(2) by simp
    from fin same obtain er where er: "kn_issue K eid (pc_pccb_id p) (ac_capability (ai_action i)) (pc_expires_at p)
        (Some [(''intent_id'', JStr (ai_intent_id i))]) (wo_escrow s) = (Inr er, wo_escrow s')"
      unfolding qp by auto
    have "binds_exactly D i cx eid p \<or> kn_seal K \<noteq> None \<and> binds D i cx eid p"
      using q(2) minted_binds(1,3)[OF mint] unfolding qp by blast
    then show thesis
      using fin same er minted_binds(2)[OF mint] unfolding qp by (intro that[OF id(1,2)]) simp_all
  qed
qed

section \<open>Properties of admission\<close>

text \<open>
  C4 (admission_needs_allow): a proof comes out of \<open>submit_intent\<close> only for a payload that
  parses, under an allow decision; the escrow record has been issued for it and it is in the proof store. It binds the
  subject, tenant, audience, action, target, lifetime and digest of the intent and that escrow record, also when a seal
  service replaced the minted proof.
\<close>

theorem admission_needs_allow:
  assumes "submit_intent D K payload cx s = (Inr r, s')" "ar_pccb r = Some p"
  shows "\<exists>i d eid er. parse_intent D payload = Inr i \<and> evaluate_policy (kn_policy K) i cx = Inr d \<and>
    pd_outcome d = ''allow'' \<and> ar_intent r = Some i \<and> ar_decision r = Some d \<and> ar_escrow_id r = JStr eid \<and>
    (binds_exactly D i cx eid p \<or> kn_seal K \<noteq> None \<and> binds D i cx eid p) \<and>
    kn_issue K eid (pc_pccb_id p) (ac_capability (ai_action i)) (pc_expires_at p)
      (Some [(''intent_id'', JStr (ai_intent_id i))]) (wo_escrow s) = (Inr er, wo_escrow s') \<and>
    kt_pccbs s' = map_option (put_pccb p) (kt_pccbs s)"
  using assms by (rule submit_admitsE) blast

text \<open>
  When \<open>submit_intent\<close> returns no proof, the escrow, the replay
  store and the proof store are as before.
\<close>

theorem unadmitted_grants_nothing:
  assumes "submit_intent D K payload cx s = (Inr r, s')" "ar_pccb r = None"
  shows "wo_escrow s' = wo_escrow s \<and> wo_replay s' = wo_replay s \<and> kt_pccbs s' = kt_pccbs s"
  using validD_Inr[OF submit_grants_last, of "wo_replay s" "wo_escrow s" "kt_pccbs s" s D K payload cx r s'] assms
  by (simp add: ungranted_def)

text \<open>The contract parsers raise, they do not refuse.\<close>

lemma basic_parsers_never_refuse [simp]:
  "refusals_in P (expect_mapping r f)" "refusals_in P (expect_string r f)" "refusals_in P (py_iter r)"
  "refusals_in P (check_contract d n)"
  by (auto simp: expect_mapping_def expect_string_def py_iter_def check_contract_def
      intro!: refusals_in_bindR split: json.split option.split)

lemma dict_pairs_never_refuse [simp]: "refusals_in P (dict_pairs n xs d)"
proof (induction n xs d rule: dict_pairs.induct)
  case (2 n x xs d)
  have "refusals_in P (dict_pair n x)" by (simp add: dict_pair_def split: option.split list.split json.split)
  with 2 show ?case by (auto intro!: refusals_in_bindR)
qed simp

lemma py_dict_never_refuses [simp]: "refusals_in P (py_dict v)"
  by (cases v rule: py_dict.cases) (simp_all split: option.split)

lemma parse_timestamp_never_refuses [simp]: "refusals_in P (parse_timestamp v f)"
  by (auto simp: parse_timestamp_def instant_of_def Let_def intro!: refusals_in_bindR split: json.split option.split)

lemma parse_intent_never_refuses [simp]: "refusals_in P (intent_from_dict raw)"
  unfolding intent_from_dict_def evidence_from_dict_def tenant_from_dict_def party_from_dict_def action_from_dict_def target_from_dict_def
  by (intro refusals_in_bindR refusals_in_mapR) simp_all

lemma store_uncorrelated:
  "rf_correlation f = Some c \<Longrightarrow> co_pccb_id c = JNull \<Longrightarrow> fst (write_refusal D wall f w) = Inr ()"
  by (simp add: write_refusal_def Let_def publish_outcome_def split: option.split)

text \<open>
  A payload that fails the contract with a value error, or whose
  window or parameters are not admissible, is answered by a schema refusal that is written out; nothing else of the
  state changes, and no intent is stored.
\<close>

theorem malformed_intent_refused:
  assumes "parse_intent D payload = Inl (Refuse exc)"
  shows "\<exists>f. submit_intent D K payload cx s =
      (Inr (admission None None None (Some f)),
       s\<lparr>wo_artifacts := Suc (wo_artifacts s), wo_writer := snd (write_refusal D (ex_wall K) f (wo_writer s))\<rparr>) \<and>
    rf_category f = ''schema'' \<and> rf_violations f \<noteq> [] \<and> rf_refused_at f = cx_now cx"
proof -
  have exc: "re_category exc = ''schema''" "re_violations exc \<noteq> []"
    using assms parse_intent_never_refuses[of "\<lambda>_. False" payload]
    by (auto simp: parse_intent_def error_defs refusals_in_def is_refusal_def split: sum.splits exn.splits if_splits)
  let ?f = "create_from_exception (ex_refusal_id K (wo_artifacts s)) exc (cx_now cx) None (Some cx) JNull JNull None"
  have "fst (write_refusal D (ex_wall K) ?f (wo_writer s)) = Inr ()"
    by (rule store_uncorrelated[where c = "basic_correlation JNull JNull (JStr (cx_request_id cx)) None"])
       (simp_all add: create_from_exception_def basic_correlation_def)
  then have "submit_intent D K payload cx s = (Inr (admission None None None (Some ?f)),
       s\<lparr>wo_artifacts := Suc (wo_artifacts s), wo_writer := snd (write_refusal D (ex_wall K) ?f (wo_writer s))\<rparr>)"
    using assms by (simp add: submit_intent_def refuse_intake_def bindP_def new_artifact_def store_run retP_def)
  moreover have "rf_category ?f = ''schema''" "rf_violations ?f \<noteq> []" "rf_refused_at ?f = cx_now cx"
    using exc by (simp_all add: create_from_exception_def)
  ultimately show ?thesis by blast
qed

section \<open>From admission to execution\<close>

lemma mid_executes:
  assumes "verify D (md_verifier M) (rq_intent rq) (rq_pccb rq) (rq_context rq) = Inr ()"
    and "\<not> dmem (pc_extensions (rq_pccb rq)) ''effect''" "pc_escrow_id (rq_pccb rq) \<noteq> JNull"
    and "md_replay M = db_replay D" "claimable D rq (wo_replay w)"
    and "md_escrow M (pc_escrow_id (rq_pccb rq)) (pc_pccb_id (rq_pccb rq)) (ac_capability (ai_action (rq_intent rq)))
      (cx_now (rq_context rq)) (wo_escrow w) = (Inr er, e1)"
    and "handler rq (wo_outside w) = (Inr payload, o1)" "plain_intent (rq_intent rq)"
  obtains receipt w' where "mid_execute D M rq handler w =
      (Inr \<lparr>xr_receipt = Some receipt, xr_refusal = None, xr_payload = payload\<rparr>, w')"
    "rc_outcome receipt = ''executed''" "wo_escrow w' = e1" "wo_outside w' = o1"
proof -
  obtain cs st1 x st2 where cs: "ro_claim (db_replay D) rq (wo_replay w) = (Inr (Some cs), st1)"
    "ro_mark (db_replay D) (cs_replay_key cs) (cx_now (rq_context rq)) st1 = (Inr x, st2)"
    using assms(5) by (rule claimable_claims)
  let ?r = "receipt_of_intent (ex_receipt_id M (wo_artifacts w)) (rq_intent rq) (rq_context rq) ''executed'' ''execution''
        (basic_correlation (JStr (pc_pccb_id (rq_pccb rq))) (pc_escrow_id (rq_pccb rq))
          (JStr (cx_request_id (rq_context rq))) (Some (pc_action_hash (rq_pccb rq))))
        ''The protected action executed successfully.'' [] [] (execution_side_effects payload) (payload_dict payload)"
  have r: "create_execution_receipt (ex_text M) (ex_receipt_id M (wo_artifacts w)) (rq_intent rq) (rq_context rq) (pc_pccb_id (rq_pccb rq))
      (pc_escrow_id (rq_pccb rq)) payload (Some (pc_action_hash (rq_pccb rq))) = Inr ?r"
    using assms(8) by (simp add: create_execution_receipt_def plain_intent_def Let_def)
  have wr: "fst (write_receipt D t ?r w) = Inr ()" for t w
    by (rule write_correlated) (simp add: receipt_of_intent_def basic_correlation_def)
  have st: "wo_replay (start_state w) = wo_replay w" "wo_escrow (start_state w) = wo_escrow w"
    "wo_outside (start_state w) = wo_outside w" "wo_artifacts (start_state w) = wo_artifacts w"
    by (simp_all add: start_state_def world.defs)
  have "\<exists>s. mid_body D M rq handler (start_state w) =
      (Inr \<lparr>xr_receipt = Some ?r, xr_refusal = None, xr_payload = payload\<rparr>, s) \<and> wo_escrow s = e1 \<and> wo_outside s = o1"
    using assms cs st r wr by (simp add: mid_body_def prog_defs mid_effect_check_def on_replay_def mid_consume_def on_escrow_def
        mid_call_def on_outside_def mid_mark_def held_key_def execution_receipt_def new_artifact_def store_run)
  then obtain s where s: "mid_try D M rq handler (start_state w) =
      (Inr \<lparr>xr_receipt = Some ?r, xr_refusal = None, xr_payload = payload\<rparr>, s)" "wo_escrow s = e1" "wo_outside s = o1"
    by (auto simp: mid_try_def catchP_def)
  show thesis
    by (rule that[of ?r "world.truncate s"]) (simp_all add: mid_execute_def s world.defs receipt_of_intent_def)
qed

lemma issued_consumes:
  assumes "mem_issue eid pid cap expires meta st = (Inr er, st')" "now \<le> expires"
  obtains er' st'' where "mem_consume eid pid cap now st' = (Inr er', st'')" "mem_spent st'' eid"
proof -
  have "dget st' eid = Some \<lparr>er_escrow_id = eid, er_pccb_id = pid, er_capability = cap, er_expires_at = expires,
      er_state = ''issued'', er_consumed_at = None, er_metadata = (case meta of None \<Rightarrow> [] | Some d \<Rightarrow> d)\<rparr>"
    using assms(1) by (auto simp: mem_issue_def Let_def split: if_splits)
  then have "\<exists>er' st''. mem_consume eid pid cap now st' = (Inr er', st'') \<and> mem_spent st'' eid"
    using assms(2) by (simp add: mem_consume_def mem_spent_def Let_def)
  then show thesis using that by blast
qed

text \<open>
  C10 (admitted_then_executed): a proof that the kernel has just admitted, presented to the middleware in the
  context and in the state of the admission, reaches its handler: the execution returns the payload of the handler with an
  executed receipt, and the escrow record is spent. The kernel and the middleware share the in-memory escrow and the replay
  store is the database; the proof verifies in that context, carries no effect extension, its replay key is free and its expiry
  ahead; the intent is neither a refund nor an invoice payment, and the handler returns.
\<close>

theorem admitted_then_executed:
  assumes "submit_intent D K payload cx s = (Inr r, s')" "ar_intent r = Some i" "ar_pccb r = Some p"
    and "kn_issue K = mem_issue" "md_escrow M = by_text_id mem_other_id mem_consume" "md_replay M = db_replay D"
    and "verify D (md_verifier M) i p cx = Inr ()" "\<not> dmem (pc_extensions p) ''effect''" "plain_intent i"
    and "claimable D (build_execution_request i p cx) (wo_replay s')"
    and "handler (build_execution_request i p cx) (wo_outside s') = (Inr out, o1)"
  shows "\<exists>receipt s''. kernel_execute D M (build_execution_request i p cx) handler s' =
      (Inr \<lparr>xr_receipt = Some receipt, xr_refusal = None, xr_payload = out\<rparr>, s'') \<and>
    rc_outcome receipt = ''executed'' \<and> wo_outside s'' = o1 \<and> text_spent mem_spent (wo_escrow s'') (pc_escrow_id p)"
proof -
  let ?rq = "build_execution_request i p cx"
  obtain eid er where a: "binds_exactly D i cx eid p \<or> kn_seal K \<noteq> None \<and> binds D i cx eid p"
    "mem_issue eid (pc_pccb_id p) (ac_capability (ai_action i)) (pc_expires_at p)
        (Some [(''intent_id'', JStr (ai_intent_id i))]) (wo_escrow s) = (Inr er, wo_escrow s')"
    using assms(1,3) by (rule submit_admitsE) (use assms(2,4) in auto)
  then have eid: "pc_escrow_id p = JStr eid" by (auto simp: binds_exactly_def binds_def)
  have "cx_now cx \<le> pc_expires_at p" using assms(10) by (simp add: claimable_def build_execution_request_def)
  from issued_consumes[OF a(2) this] obtain er' e1 where
    c: "mem_consume eid (pc_pccb_id p) (ac_capability (ai_action i)) (cx_now cx) (wo_escrow s') = (Inr er', e1)" "mem_spent e1 eid" .
  have "md_escrow M (pc_escrow_id (rq_pccb ?rq)) (pc_pccb_id (rq_pccb ?rq)) (ac_capability (ai_action (rq_intent ?rq)))
      (cx_now (rq_context ?rq)) (wo_escrow (world.truncate s')) = (Inr er', e1)"
    using c(1) by (simp add: assms(5) build_execution_request_def eid by_text_id_def world.defs)
  moreover have "handler ?rq (wo_outside (world.truncate s')) = (Inr out, o1)" using assms(11) by (simp add: world.defs)
  moreover have "claimable D ?rq (wo_replay (world.truncate s'))" using assms(10) by (simp add: world.defs)
  ultimately obtain receipt w' where "mid_execute D M ?rq handler (world.truncate s') =
      (Inr \<lparr>xr_receipt = Some receipt, xr_refusal = None, xr_payload = out\<rparr>, w')"
    "rc_outcome receipt = ''executed''" "wo_escrow w' = e1" "wo_outside w' = o1"
    using mid_executes[where handler = handler and rq = ?rq and M = M and D = D and w = "world.truncate s'"] assms(6-9) eid
    by (simp add: build_execution_request_def) metis
  then show ?thesis
    using c(2) by (auto simp: kernel_execute_def world.defs text_spent_def eid)
qed

section \<open>A null where an object is expected\<close>

text \<open>
  An intent that is well formed except for \<open>"metadata": null\<close> is not
  refused: \<open>dict(None)\<close> raises a \<open>TypeError\<close> that the intake does not catch.
\<close>

theorem null_metadata_escapes:
  assumes "intent_wf i"
  shows "submit_intent D K (JObj (dput (intent_to_dict i) ''metadata'' JNull)) cx s =
    (Inl (Raise TypeError ''object is not iterable''), s)"
proof -
  have "intent_from_dict (JObj (dput (intent_to_dict i) ''metadata'' JNull)) = Inl (Raise TypeError ''object is not iterable'')"
    using assms by (simp add: intent_from_dict_def intent_to_dict_lookup intent_wf_def contract_simps parse_format_timestamp
        cong: bindR_weak_cong)
  then show ?thesis by (simp add: submit_intent_def parse_intent_def raiseP_def)
qed

section \<open>A concrete kernel\<close>

definition sample_kernel :: "(mem_escrow, string list) kernel" where
  "sample_kernel = \<lparr>ex_text = sample_text, ex_receipt_id = (\<lambda>n. ''rcpt_'' @ show_nat n), ex_refusal_id = (\<lambda>n. ''rfsl_'' @ show_nat n),
     ex_wall = 0,
     kn_policy = \<lparr>pe_hard_rules = [IntentChronologyHardRule, IntentTtlHardRule 900, CapabilityScopeHardRule], pe_tenant_rules = [],
       pe_default_rules = [TenantWorkflowRule \<lparr>tw_rule_id = ''allow'', tw_outcome = ''allow'', tw_summary = ''ok'',
         tw_reason_code = ''OK'', tw_tenant_ids = [''t1''], tw_capabilities = [], tw_required_fact_values = [],
         tw_required_evidence_types = [], tw_approver_types = []\<rparr>]\<rparr>,
     kn_minter = sample_minter, kn_pccb_id = (\<lambda>_. ''pccb-1''), kn_nonce = (\<lambda>_. ''nonce-1''), kn_escrow_id = (\<lambda>_. ''esc-1''),
     kn_issue = mem_issue, kn_seal = None, kn_require_seal = False, kn_shares_store = True\<rparr>"

definition sample_kernel_state :: "(replay_store, mem_escrow, string list) kernel_state" where
  "sample_kernel_state = \<lparr>wo_replay = open_store [] None, wo_escrow = [], wo_outside = [], wo_idempotency = [],
     wo_writer = wo_writer sample_world, wo_artifacts = 0, kt_intents = Some [], kt_pccbs = Some [], kt_drawn = 0\<rparr>"

lemma sample_intent_wf: "intent_wf sample_intent"
  by (simp add: intent_wf_def sample_intent_def ref_wf_defs dt_ok_def datetime_limit_def)

lemma sample_parse: "parse_intent D (JObj (intent_to_dict sample_intent)) = Inr sample_intent"
  using intent_round_trip[OF sample_intent_wf] by (simp add: parse_intent_def window_violations_def sample_intent_def)

lemma sample_policy:
  obtains d where "evaluate_policy (kn_policy sample_kernel) sample_intent sample_context = Inr d" "pd_outcome d = ''allow''"
  using that
  by (simp add: sample_kernel_def evaluate_policy_def workflow_evaluate_def rule_defs sample_intent_def sample_context_def
      TIMEDELTA_MAX_SECONDS_def Let_def with_outcome_def decide_workflow_def)

lemma mint_allowed: "pd_outcome d = ''allow'' \<Longrightarrow> mint D M pid nonce i d cx eid x = mint D M pid nonce i sample_allow cx eid x"
  by (simp add: mint_def decision_allowed_def sample_allow_def)

lemma sample_submit:
  obtains r s' where "submit_intent sample_deps sample_kernel (JObj (intent_to_dict sample_intent)) sample_context sample_kernel_state = (Inr r, s')"
    "ar_intent r = Some sample_intent" "ar_pccb r = Some sample_pccb" "wo_replay s' = wo_replay sample_world" "wo_outside s' = []"
proof -
  obtain d where d: "evaluate_policy (kn_policy sample_kernel) sample_intent sample_context = Inr d" "pd_outcome d = ''allow''"
    by (rule sample_policy)
  have mint: "mint sample_deps sample_minter ''pccb-1'' ''nonce-1'' sample_intent d sample_context (JStr ''esc-1'') [] = Inr sample_pccb"
    using sample_mint_pccb mint_allowed[OF d(2)] by (simp add: sample_mint_def)
  have pid: "pc_pccb_id sample_pccb = ''pccb-1''" by (rule sample_pccb_shape)
  have plain: "\<not> is_refund_intent sample_intent" "\<not> is_invoice_payment_intent sample_intent"
    by (simp_all add: sample_intent_def is_refund_intent_def is_invoice_payment_intent_def)
  have writes: "fst (write_receipt sample_deps 0 rc w) = Inr ()"
    if "rc_correlation rc = Some (basic_correlation (JStr pid) eid req h)" for rc w pid eid req h
    by (rule write_receipt_ok[OF that]) (simp add: basic_correlation_def)
  have "\<exists>r s'. submit_intent sample_deps sample_kernel (JObj (intent_to_dict sample_intent)) sample_context sample_kernel_state = (Inr r, s') \<and>
      ar_intent r = Some sample_intent \<and> ar_pccb r = Some sample_pccb \<and> wo_replay s' = wo_replay sample_world \<and> wo_outside s' = []"
    using d mint pid plain
    by (simp add: submit_intent_def sample_parse admit_intent_def admit_allowed_def mint_local_def resolve_execution_pccb_def
        admit_proof_def prog_defs store_intent_def issue_escrow_def on_escrow_def decision_receipt_def new_artifact_def
        create_decision_receipt_def store_pccb_def store_run writes receipt_of_intent_def Let_def mem_issue_def dmem_def
        sample_kernel_def sample_kernel_state_def sample_world_def)
  then show thesis using that by blast
qed

theorem admission_needs_allow_witness:
  "\<exists>r s'. submit_intent sample_deps sample_kernel (JObj (intent_to_dict sample_intent)) sample_context sample_kernel_state = (Inr r, s') \<and>
    ar_pccb r = Some sample_pccb \<and> kt_pccbs s' = Some [(''pccb-1'', sample_pccb)]"
proof -
  obtain r s' where r: "submit_intent sample_deps sample_kernel (JObj (intent_to_dict sample_intent)) sample_context sample_kernel_state = (Inr r, s')"
    "ar_pccb r = Some sample_pccb" by (rule sample_submit)
  have "pc_pccb_id sample_pccb = ''pccb-1''" by (rule sample_pccb_shape)
  with admission_needs_allow[OF r] r show ?thesis by (auto simp: sample_kernel_state_def put_pccb_def)
qed

theorem unadmitted_grants_nothing_witness:
  "\<exists>r s'. submit_intent sample_deps sample_kernel (JObj []) sample_context sample_kernel_state = (Inr r, s') \<and>
    ar_pccb r = None \<and> wo_escrow s' = []"
proof -
  have "\<exists>exc. parse_intent sample_deps (JObj []) = Inl (Refuse exc)"
    by (simp add: parse_intent_def intent_from_dict_def check_contract_def expect_mapping_def ContractValidationError_def)
  then obtain r s' where r: "submit_intent sample_deps sample_kernel (JObj []) sample_context sample_kernel_state = (Inr r, s')" "ar_pccb r = None"
    by (auto simp: submit_intent_def refuse_intake_def bindP_def new_artifact_def store_run retP_def create_from_exception_def
        basic_correlation_def store_uncorrelated)
  with unadmitted_grants_nothing[OF r] show ?thesis by (auto simp: sample_kernel_state_def)
qed

theorem malformed_intent_refused_witness:
  "\<exists>f s'. submit_intent sample_deps sample_kernel (JObj []) sample_context sample_kernel_state = (Inr (admission None None None (Some f)), s') \<and>
    rf_category f = ''schema''"
proof -
  have "\<exists>exc. parse_intent sample_deps (JObj []) = Inl (Refuse exc)"
    by (simp add: parse_intent_def intent_from_dict_def check_contract_def expect_mapping_def ContractValidationError_def)
  then show ?thesis using malformed_intent_refused[of sample_deps "JObj []" _ sample_kernel sample_context sample_kernel_state] by blast
qed

theorem null_metadata_escapes_witness:
  "submit_intent sample_deps sample_kernel (JObj (dput (intent_to_dict sample_intent) ''metadata'' JNull)) sample_context sample_kernel_state =
    (Inl (Raise TypeError ''object is not iterable''), sample_kernel_state)"
  by (rule null_metadata_escapes[OF sample_intent_wf])

theorem admitted_then_executed_witness:
  "\<exists>r s' receipt s''. submit_intent sample_deps sample_kernel (JObj (intent_to_dict sample_intent)) sample_context sample_kernel_state = (Inr r, s') \<and>
    kernel_execute sample_deps sample_middleware (build_execution_request sample_intent sample_pccb sample_context) paying_handler s' =
      (Inr \<lparr>xr_receipt = Some receipt, xr_refusal = None, xr_payload = None\<rparr>, s'') \<and> wo_outside s'' = [''o1'']"
proof -
  obtain r s' where r: "submit_intent sample_deps sample_kernel (JObj (intent_to_dict sample_intent)) sample_context sample_kernel_state = (Inr r, s')"
    "ar_intent r = Some sample_intent" "ar_pccb r = Some sample_pccb" "wo_replay s' = wo_replay sample_world" "wo_outside s' = []"
    by (rule sample_submit)
  have rq: "build_execution_request sample_intent sample_pccb sample_context = sample_request"
    by (simp add: build_execution_request_def sample_request_def)
  have "\<not> dmem (pc_extensions sample_pccb) ''effect''" "plain_intent sample_intent"
    using sample_plain(1,2) by (simp_all add: sample_request_def)
  moreover have "claimable sample_deps sample_request (wo_replay s')" using sample_claimable r(4) by simp
  moreover have "paying_handler sample_request (wo_outside s') = (Inr None, [''o1''])"
    by (simp add: paying_handler_def sample_request_def sample_intent_def r(5))
  ultimately show ?thesis
    using admitted_then_executed[where handler = paying_handler and M = sample_middleware, OF r(1-3)] r(1) sample_verifies
    by (simp add: sample_kernel_def sample_middleware_def rq) blast
qed

end
