(* ===== verification/Evidence.thy ===== *)
theory Evidence
  imports Kernel "HOL-Library.Product_Lexorder"
begin

text \<open>
  Evidence queries (\<^verbatim>\<open>evidence/query.py\<close>): what the stored intents, proofs, receipts and refusals say about an
  execution, including the chain of receipts that the intent cites as evidence. Identifiers that artifacts carry
  unchecked are JSON values, and so are those of a result.
\<close>

section \<open>Queries and results\<close>

datatype evidence_verdict = VERIFIED_EXECUTION | VERIFIED_REFUSAL | PROOF_NOT_FOUND | HASH_MISMATCH | CHAIN_BROKEN

record evidence_query =
  eq_receipt_id :: "string option"
  eq_pccb_id :: "string option"
  eq_intent_id :: "string option"
  eq_action_hash :: "string option"

definition evidence_query_post_init :: "evidence_query \<Rightarrow> unit res" where
  "evidence_query_post_init q =
     (if length (filter (\<lambda>v. v \<noteq> None) [eq_receipt_id q, eq_pccb_id q, eq_intent_id q, eq_action_hash q]) \<noteq> 1
      then Inl (Raise ValueError ''EvidenceQuery must specify exactly one of receipt_id, pccb_id, intent_id, or action_hash'')
      else Inr ())"

record evidence_result =
  er_verdict :: evidence_verdict
  er_summary :: string
  er_receipt_id :: json
  er_refusal_id :: json
  er_pccb_id :: json
  er_intent_id :: json
  er_action_hash :: json
  er_chain_depth :: nat
  er_details :: dict

record evidence_service =
  es_intents :: "(string \<times> action_intent) list option"
  es_pccbs :: "(string \<times> pccb) list option"
  es_receipts :: "receipt_store option"
  es_refusals :: "refusal_store option"
  es_max_chain_depth :: int

definition result :: "evidence_verdict \<Rightarrow> string \<Rightarrow> evidence_result" where
  "result v summary = \<lparr>er_verdict = v, er_summary = summary, er_receipt_id = JNull, er_refusal_id = JNull,
     er_pccb_id = JNull, er_intent_id = JNull, er_action_hash = JNull, er_chain_depth = 0, er_details = []\<rparr>"

text \<open>\<open>a or b\<close> on identifiers.\<close>

definition or_else :: "json \<Rightarrow> json \<Rightarrow> json" where
  "or_else a b = (if truthy a then a else b)"

definition with_defaults :: "evidence_result \<Rightarrow> receipt \<Rightarrow> json \<Rightarrow> pccb \<Rightarrow> action_intent \<Rightarrow> nat \<Rightarrow> evidence_result" where
  "with_defaults r receipt refusal_id p i depth = r\<lparr>
     er_receipt_id := or_else (er_receipt_id r) (JStr (rc_receipt_id receipt)),
     er_refusal_id := or_else (er_refusal_id r) refusal_id,
     er_pccb_id := or_else (er_pccb_id r) (JStr (pc_pccb_id p)),
     er_intent_id := or_else (er_intent_id r) (JStr (ai_intent_id i)),
     er_action_hash := or_else (er_action_hash r) (JStr (ah_value (pc_action_hash p))),
     er_chain_depth := max (er_chain_depth r) depth\<rparr>"

section \<open>Stores\<close>

definition load_intent :: "evidence_service \<Rightarrow> json \<Rightarrow> action_intent option res" where
  "load_intent S iid = (case es_intents S of None \<Rightarrow> Inr None | Some st \<Rightarrow> store_get st iid)"

definition load_pccb :: "evidence_service \<Rightarrow> json \<Rightarrow> pccb option res" where
  "load_pccb S pid = (case es_pccbs S of None \<Rightarrow> Inr None | Some st \<Rightarrow> store_get st pid)"

definition list_receipts :: "evidence_service \<Rightarrow> receipt list" where
  "list_receipts S = (case es_receipts S of None \<Rightarrow> [] | Some st \<Rightarrow> map snd st)"

definition list_refusals :: "evidence_service \<Rightarrow> refusal list" where
  "list_refusals S = (case es_refusals S of None \<Rightarrow> [] | Some st \<Rightarrow> map snd st)"

definition list_pccbs :: "evidence_service \<Rightarrow> pccb list" where
  "list_pccbs S = (case es_pccbs S of None \<Rightarrow> [] | Some st \<Rightarrow> map snd st)"

text \<open>\<open>sorted(candidates, key=...)[0]\<close>.\<close>

definition first_by :: "('a \<Rightarrow> 'k::linorder) \<Rightarrow> 'a list \<Rightarrow> 'a option" where
  "first_by key xs = (case sort_key key xs of [] \<Rightarrow> None | x # _ \<Rightarrow> Some x)"

definition outcome_rank :: "string \<Rightarrow> nat" where
  "outcome_rank outcome = (case map_of [(''executed'', 0), (''refused'', 1), (''allow'', 2), (''deny'', 3),
     (''approval-required'', 4), (''needs-evidence'', 5)] outcome of Some n \<Rightarrow> n | None \<Rightarrow> 99)"

definition prefer_receipt :: "receipt list \<Rightarrow> receipt option" where
  "prefer_receipt = first_by (\<lambda>r. (outcome_rank (rc_outcome r), rc_occurred_at r))"

definition prefer_refusal :: "refusal list \<Rightarrow> refusal option" where
  "prefer_refusal = first_by rf_refused_at"

definition prefer_pccb :: "pccb list \<Rightarrow> pccb option" where
  "prefer_pccb = first_by pc_issued_at"

section \<open>Hashes\<close>

text \<open>\<open>correlation is not None and correlation.pccb_id == pccb_id\<close>, and the value of its action hash.\<close>

definition correlates :: "correlation_ref option \<Rightarrow> json \<Rightarrow> bool" where
  "correlates c pid = (case c of None \<Rightarrow> False | Some co \<Rightarrow> py_eq (co_pccb_id co) pid)"

definition correlated_hash :: "correlation_ref option \<Rightarrow> string option" where
  "correlated_hash c = (case c of None \<Rightarrow> None | Some co \<Rightarrow> map_option ah_value (co_action_hash co))"

definition verify_hash_integrity ::
  "deps \<Rightarrow> action_intent \<Rightarrow> pccb \<Rightarrow> receipt \<Rightarrow> refusal option \<Rightarrow> evidence_result option res" where
  "verify_hash_integrity D i p receipt refusal =
     bindR (sha256_hex D (build_action_hash_input i)) (\<lambda>expected.
     let mismatch = (\<lambda>summary h. (result HASH_MISMATCH summary)\<lparr>er_pccb_id := JStr (pc_pccb_id p),
           er_intent_id := JStr (ai_intent_id i), er_action_hash := JStr h, er_details := [(''expected_action_hash'', JStr expected)]\<rparr>);
         wrong = (\<lambda>c. case correlated_hash c of None \<Rightarrow> None | Some h \<Rightarrow> if h \<noteq> expected then Some h else None)
     in if ah_value (pc_action_hash p) \<noteq> expected
        then Inr (Some (mismatch ''The PCCB action hash does not match the canonical Action Intent hash.'' (ah_value (pc_action_hash p))))
        else (case wrong (rc_correlation receipt) of
            Some h \<Rightarrow> Inr (Some ((mismatch ''The receipt correlation action hash does not match the canonical Action Intent hash.'' h)
              \<lparr>er_receipt_id := JStr (rc_receipt_id receipt)\<rparr>))
          | None \<Rightarrow> (case refusal of None \<Rightarrow> Inr None
              | Some rf \<Rightarrow> (case wrong (rf_correlation rf) of
                  Some h \<Rightarrow> Inr (Some ((mismatch ''The refusal correlation action hash does not match the canonical Action Intent hash.'' h)
                    \<lparr>er_refusal_id := JStr (rf_refusal_id rf)\<rparr>))
                | None \<Rightarrow> Inr None))))"

section \<open>The chain of cited receipts\<close>

definition broken :: "string \<Rightarrow> action_intent \<Rightarrow> evidence_result" where
  "broken summary i = (result CHAIN_BROKEN summary)\<lparr>er_intent_id := JStr (ai_intent_id i)\<rparr>"

text \<open>
  The loop over the receipts an intent cites; \<open>next\<close> is the recursive call on the intent of a cited receipt, with
  that receipt added to those seen.
\<close>

fun chain_refs :: "deps \<Rightarrow> (string \<times> action_intent) list \<Rightarrow> receipt_store \<Rightarrow>
    (string set \<Rightarrow> action_intent \<Rightarrow> (evidence_result option \<times> nat) res) \<Rightarrow> string set \<Rightarrow> action_intent \<Rightarrow> nat \<Rightarrow>
    evidence_ref list \<Rightarrow> (evidence_result option \<times> nat) res" where
  "chain_refs D intents receipts nxt seen i max_depth [] = Inr (None, max_depth)"
| "chain_refs D intents receipts nxt seen i max_depth (ref # refs) =
     (case get_receipt (ev_value ref) receipts of
        None \<Rightarrow> Inr (Some ((broken ''A referenced receipt in the evidence chain could not be loaded.'' i)
          \<lparr>er_receipt_id := JStr (ev_value ref)\<rparr>), max_depth)
      | Some r \<Rightarrow>
          let found = (\<lambda>res. res\<lparr>er_receipt_id := JStr (rc_receipt_id r)\<rparr>) in
          if rc_receipt_id r \<in> seen
          then Inr (Some (found (broken ''A receipt evidence cycle was detected during chain traversal.'' i)), max_depth)
          else (case digest_from_dict (JObj (ev_digest ref)) ''evidence_ref.digest'' of
              Inl e \<Rightarrow> (case e of Raise ValueError _ \<Rightarrow>
                  Inr (Some (found ((result HASH_MISMATCH ''A receipt evidence reference declared an invalid digest payload.'')
                    \<lparr>er_intent_id := JStr (ai_intent_id i)\<rparr>)), max_depth)
                | _ \<Rightarrow> Inl e)
            | Inr declared \<Rightarrow>
                bindR (build_artifact_digest D (receipt_to_dict r)) (\<lambda>actual.
                if declared \<noteq> actual
                then Inr (Some (found ((result HASH_MISMATCH ''A referenced receipt digest does not match the canonical receipt artifact hash.'')
                  \<lparr>er_intent_id := JStr (ai_intent_id i),
                    er_details := [(''declared_digest'', JObj (digest_to_dict declared)), (''actual_digest'', JObj (digest_to_dict actual))]\<rparr>)), max_depth)
                else (case get_intent (rc_intent_id r) intents of
                    None \<Rightarrow> Inr (Some (found (broken ''A referenced receipt does not have a loadable parent Action Intent for continued chain traversal.'' i)), max_depth)
                  | Some parent \<Rightarrow>
                      bindR (nxt (insert (rc_receipt_id r) seen) parent) (\<lambda>(nested, nested_depth).
                      if nested \<noteq> None then Inr (nested, max max_depth (nested_depth + 1))
                      else chain_refs D intents receipts nxt seen i (max max_depth (nested_depth + 1)) refs)))))"

definition cited_receipts :: "action_intent \<Rightarrow> evidence_ref list" where
  "cited_receipts i = filter (\<lambda>e. ev_type e = EVIDENCE_TYPE_RECEIPT) (ai_evidence_refs i)"

fun verify_receipt_evidence_chain :: "deps \<Rightarrow> evidence_service \<Rightarrow> nat \<Rightarrow> string set \<Rightarrow> action_intent \<Rightarrow>
    (evidence_result option \<times> nat) res" where
  "verify_receipt_evidence_chain D S depth seen i =
     (if cited_receipts i = [] then Inr (None, 0)
      else (case (es_receipts S, es_intents S) of
          (None, _) \<Rightarrow> Inr (Some (broken ''Receipt evidence references are present, but no receipt store is configured for chain traversal.'' i), 0)
        | (_, None) \<Rightarrow> Inr (Some (broken ''Receipt evidence references are present, but no Action Intent store is configured for chain traversal.'' i), 0)
        | (Some receipts, Some intents) \<Rightarrow>
            (case depth of
               0 \<Rightarrow> Inr (Some ((broken ''Receipt evidence chain exceeded the configured maximum traversal depth.'' i)
                 \<lparr>er_details := [(''max_chain_depth'', JInt (es_max_chain_depth S))]\<rparr>), 0)
             | Suc d \<Rightarrow> chain_refs D intents receipts (verify_receipt_evidence_chain D S d) seen i 0 (cited_receipts i))))"

section \<open>Verification of one outcome\<close>

abbreviation from_receipt :: "receipt \<Rightarrow> evidence_result \<Rightarrow> evidence_result" where
  "from_receipt r res \<equiv> res\<lparr>er_receipt_id := JStr (rc_receipt_id r)\<rparr>"

abbreviation from_refusal :: "refusal \<Rightarrow> evidence_result \<Rightarrow> evidence_result" where
  "from_refusal r res \<equiv> res\<lparr>er_refusal_id := JStr (rf_refusal_id r)\<rparr>"

text \<open>\<open>x or self._load(...)\<close> and \<open>correlation is not None and correlation.pccb_id is not None\<close>.\<close>

definition given_or :: "'a option \<Rightarrow> 'a option res \<Rightarrow> 'a option res" where
  "given_or given load = (case given of Some x \<Rightarrow> Inr (Some x) | None \<Rightarrow> load)"

definition correlated_pccb :: "correlation_ref option \<Rightarrow> json option" where
  "correlated_pccb c = (case c of None \<Rightarrow> None | Some co \<Rightarrow> if co_pccb_id co = JNull then None else Some (co_pccb_id co))"

definition other_intent :: "pccb \<Rightarrow> action_intent \<Rightarrow> bool" where
  "other_intent p i \<longleftrightarrow> pc_intent_id p \<noteq> JNull \<and> pc_intent_id p \<noteq> JStr (ai_intent_id i)"

text \<open>The ending both kinds of outcome share: hashes first, then the chain.\<close>

definition conclude :: "deps \<Rightarrow> evidence_service \<Rightarrow> receipt \<Rightarrow> refusal option \<Rightarrow> action_intent \<Rightarrow> pccb \<Rightarrow> evidence_result \<Rightarrow>
    evidence_result res" where
  "conclude D S receipt refusal i p verified =
     bindR (verify_hash_integrity D i p receipt refusal) (\<lambda>hash_verdict.
     case hash_verdict of Some r \<Rightarrow> Inr r
     | None \<Rightarrow>
         bindR (verify_receipt_evidence_chain D S (nat (es_max_chain_depth S)) {} i) (\<lambda>(chain_verdict, chain_depth).
         case chain_verdict of
           Some r \<Rightarrow> Inr (with_defaults r receipt (case refusal of None \<Rightarrow> JNull | Some rf \<Rightarrow> JStr (rf_refusal_id rf)) p i chain_depth)
         | None \<Rightarrow> Inr (verified\<lparr>er_pccb_id := JStr (pc_pccb_id p), er_intent_id := JStr (ai_intent_id i),
             er_action_hash := JStr (ah_value (pc_action_hash p)), er_chain_depth := chain_depth\<rparr>)))"

definition verify_from_refusal :: "deps \<Rightarrow> evidence_service \<Rightarrow> refusal \<Rightarrow> receipt option \<Rightarrow> action_intent option \<Rightarrow> pccb option \<Rightarrow>
    evidence_result res" where
  "verify_from_refusal D S refusal paired_receipt intent given_pccb =
     (if rf_intent_id refusal = JNull
      then Inr (from_refusal refusal (result CHAIN_BROKEN ''The refusal does not identify the Action Intent it belongs to.''))
      else bindR (given_or intent (load_intent S (rf_intent_id refusal))) (\<lambda>resolved_intent. case resolved_intent of
        None \<Rightarrow> Inr (from_refusal refusal ((result CHAIN_BROKEN ''The refusal does not have a loadable Action Intent.'')
          \<lparr>er_intent_id := rf_intent_id refusal\<rparr>))
      | Some i \<Rightarrow> (case correlated_pccb (rf_correlation refusal) of
          None \<Rightarrow> Inr (from_refusal refusal (broken ''The refusal does not carry a correlated PCCB id.'' i))
        | Some pid \<Rightarrow> bindR (given_or given_pccb (load_pccb S pid)) (\<lambda>resolved_pccb. case resolved_pccb of
            None \<Rightarrow> Inr (from_refusal refusal ((broken ''The refusal points at a PCCB that is not available in the local evidence stores.'' i)
              \<lparr>er_pccb_id := pid\<rparr>))
          | Some p \<Rightarrow>
              if other_intent p i
              then Inr (from_refusal refusal ((broken ''The refusal points at a PCCB whose intent_id does not match the loaded Action Intent.'' i)
                \<lparr>er_pccb_id := JStr (pc_pccb_id p), er_details := [(''pccb_intent_id'', pc_intent_id p)]\<rparr>))
              else (case (case paired_receipt of Some r \<Rightarrow> Some r
                  | None \<Rightarrow> prefer_receipt (filter (\<lambda>r. rc_outcome r = ''refused'' \<and> rc_intent_id r = ai_intent_id i
                      \<and> correlates (rc_correlation r) (JStr (pc_pccb_id p))) (list_receipts S))) of
                None \<Rightarrow> Inr (from_refusal refusal ((broken ''The refusal does not have a matching refused receipt artifact.'' i)
                  \<lparr>er_pccb_id := JStr (pc_pccb_id p)\<rparr>))
              | Some r \<Rightarrow>
                  if rc_outcome r \<noteq> ''refused''
                  then Inr (from_refusal refusal (from_receipt r ((broken ''The receipt paired with the refusal is not a refused execution receipt.'' i)
                    \<lparr>er_pccb_id := JStr (pc_pccb_id p), er_details := [(''receipt_outcome'', JStr (rc_outcome r))]\<rparr>)))
                  else conclude D S r (Some refusal) i p
                    (from_refusal refusal (from_receipt r (result VERIFIED_REFUSAL
                      ''A valid refusal, refused receipt, PCCB, and receipt-evidence chain were found.''))))))))"

definition paired_refusal :: "evidence_service \<Rightarrow> receipt \<Rightarrow> refusal option" where
  "paired_refusal S receipt = prefer_refusal (filter (\<lambda>rf.
     (case rc_correlation receipt of None \<Rightarrow> False | Some co \<Rightarrow> correlates (rf_correlation rf) (co_pccb_id co))
     \<and> rf_intent_id rf = JStr (rc_intent_id receipt)) (list_refusals S))"

definition verify_from_receipt :: "deps \<Rightarrow> evidence_service \<Rightarrow> receipt \<Rightarrow> action_intent option \<Rightarrow> pccb option \<Rightarrow> evidence_result res" where
  "verify_from_receipt D S receipt intent given_pccb =
     (if rc_outcome receipt = ''refused''
      then (case paired_refusal S receipt of
          None \<Rightarrow> Inr (from_receipt receipt ((result CHAIN_BROKEN ''The refused receipt does not have a matching refusal artifact.'')
            \<lparr>er_intent_id := JStr (rc_intent_id receipt)\<rparr>))
        | Some rf \<Rightarrow> verify_from_refusal D S rf (Some receipt) intent given_pccb)
      else if rc_outcome receipt \<noteq> ''executed''
      then Inr (from_receipt receipt ((result PROOF_NOT_FOUND ''The referenced receipt is not a terminal execution artifact.'')
        \<lparr>er_intent_id := JStr (rc_intent_id receipt), er_details := [(''outcome'', JStr (rc_outcome receipt))]\<rparr>))
      else bindR (given_or intent (load_intent S (JStr (rc_intent_id receipt)))) (\<lambda>resolved_intent. case resolved_intent of
        None \<Rightarrow> Inr (from_receipt receipt ((result CHAIN_BROKEN ''The execution receipt does not have a loadable Action Intent.'')
          \<lparr>er_intent_id := JStr (rc_intent_id receipt)\<rparr>))
      | Some i \<Rightarrow> (case correlated_pccb (rc_correlation receipt) of
          None \<Rightarrow> Inr (from_receipt receipt ((result CHAIN_BROKEN ''The execution receipt does not carry a correlated PCCB id.'')
            \<lparr>er_intent_id := JStr (rc_intent_id receipt)\<rparr>))
        | Some pid \<Rightarrow> bindR (given_or given_pccb (load_pccb S pid)) (\<lambda>resolved_pccb. case resolved_pccb of
            None \<Rightarrow> Inr (from_receipt receipt ((result CHAIN_BROKEN
                ''The execution receipt points at a PCCB that is not available in the local evidence stores.'')
              \<lparr>er_pccb_id := pid, er_intent_id := JStr (rc_intent_id receipt)\<rparr>))
          | Some p \<Rightarrow>
              if other_intent p i
              then Inr (from_receipt receipt ((broken ''The execution receipt points at a PCCB whose intent_id does not match the loaded Action Intent.'' i)
                \<lparr>er_pccb_id := JStr (pc_pccb_id p), er_details := [(''pccb_intent_id'', pc_intent_id p)]\<rparr>))
              else conclude D S receipt None i p (from_receipt receipt (result VERIFIED_EXECUTION
                ''A valid execution receipt, PCCB, and receipt-evidence chain were found.''))))))"

section \<open>Queries\<close>

definition query_by_receipt_id :: "deps \<Rightarrow> evidence_service \<Rightarrow> string \<Rightarrow> evidence_result res" where
  "query_by_receipt_id D S rid =
     (case (case es_receipts S of None \<Rightarrow> None | Some st \<Rightarrow> get_receipt rid st) of
        None \<Rightarrow> Inr ((result PROOF_NOT_FOUND ''No receipt was found for the requested receipt_id.'')
          \<lparr>er_details := [(''receipt_id'', JStr rid)]\<rparr>)
      | Some r \<Rightarrow> verify_from_receipt D S r None None)"

definition query_by_pccb_id :: "deps \<Rightarrow> evidence_service \<Rightarrow> string \<Rightarrow> evidence_result res" where
  "query_by_pccb_id D S pid =
     (let receipt = prefer_receipt (filter (\<lambda>r. correlates (rc_correlation r) (JStr pid)) (list_receipts S));
          refusal = prefer_refusal (filter (\<lambda>r. correlates (rf_correlation r) (JStr pid)) (list_refusals S));
          p = (case es_pccbs S of None \<Rightarrow> None | Some st \<Rightarrow> get_pccb pid st) in
      case (refusal, receipt, p) of
        (Some rf, _, _) \<Rightarrow> verify_from_refusal D S rf receipt None None
      | (None, Some r, _) \<Rightarrow> verify_from_receipt D S r None p
      | (None, None, Some q) \<Rightarrow> Inr ((result CHAIN_BROKEN
            ''A PCCB exists for the requested execution, but no receipt or refusal chain was found.'')
          \<lparr>er_pccb_id := JStr (pc_pccb_id q), er_intent_id := pc_intent_id q, er_action_hash := JStr (ah_value (pc_action_hash q))\<rparr>)
      | (None, None, None) \<Rightarrow> Inr ((result PROOF_NOT_FOUND ''No proof or outcome chain was found for the requested pccb_id.'')
          \<lparr>er_details := [(''pccb_id'', JStr pid)]\<rparr>))"

definition query_by_intent_id :: "deps \<Rightarrow> evidence_service \<Rightarrow> string \<Rightarrow> evidence_result res" where
  "query_by_intent_id D S iid =
     (let receipt = prefer_receipt (filter (\<lambda>r. rc_intent_id r = iid) (list_receipts S));
          refusal = prefer_refusal (filter (\<lambda>r. rf_intent_id r = JStr iid) (list_refusals S));
          p = prefer_pccb (filter (\<lambda>q. pc_intent_id q = JStr iid) (list_pccbs S));
          i = (case es_intents S of None \<Rightarrow> None | Some st \<Rightarrow> get_intent iid st) in
      case (refusal, receipt, p) of
        (Some rf, _, _) \<Rightarrow> verify_from_refusal D S rf receipt i p
      | (None, Some r, _) \<Rightarrow> verify_from_receipt D S r i p
      | (None, None, Some q) \<Rightarrow> Inr ((result CHAIN_BROKEN
            ''Proof exists for the requested intent, but no terminal outcome artifact was found.'')
          \<lparr>er_pccb_id := JStr (pc_pccb_id q), er_intent_id := JStr iid, er_action_hash := JStr (ah_value (pc_action_hash q))\<rparr>)
      | (None, None, None) \<Rightarrow> Inr ((result PROOF_NOT_FOUND ''No proof or outcome chain was found for the requested intent_id.'')
          \<lparr>er_intent_id := JStr iid\<rparr>))"

definition query_by_action_hash :: "deps \<Rightarrow> evidence_service \<Rightarrow> string \<Rightarrow> evidence_result res" where
  "query_by_action_hash D S h =
     (case prefer_pccb (filter (\<lambda>q. ah_value (pc_action_hash q) = h) (list_pccbs S)) of
        Some q \<Rightarrow> query_by_pccb_id D S (pc_pccb_id q)
      | None \<Rightarrow>
          let receipt = prefer_receipt (filter (\<lambda>r. correlated_hash (rc_correlation r) = Some h) (list_receipts S));
              refusal = prefer_refusal (filter (\<lambda>r. correlated_hash (rf_correlation r) = Some h) (list_refusals S)) in
          (case (refusal, receipt) of
             (Some rf, _) \<Rightarrow> verify_from_refusal D S rf receipt None None
           | (None, Some r) \<Rightarrow> verify_from_receipt D S r None None
           | (None, None) \<Rightarrow> Inr ((result PROOF_NOT_FOUND ''No proof or outcome chain was found for the requested action_hash.'')
               \<lparr>er_action_hash := JStr h\<rparr>)))"

definition query :: "deps \<Rightarrow> evidence_service \<Rightarrow> evidence_query \<Rightarrow> evidence_result res" where
  "query D S q =
     (case (eq_receipt_id q, eq_pccb_id q, eq_intent_id q, eq_action_hash q) of
        (Some rid, _, _, _) \<Rightarrow> query_by_receipt_id D S rid
      | (None, Some pid, _, _) \<Rightarrow> query_by_pccb_id D S pid
      | (None, None, Some iid, _) \<Rightarrow> query_by_intent_id D S iid
      | (None, None, None, Some h) \<Rightarrow> query_by_action_hash D S h
      | _ \<Rightarrow> Inl (Raise (OtherError ''AssertionError'') ''unreachable''))"

section \<open>What a verified chain is\<close>

text \<open>Every cited receipt is stored, has the cited digest, and belongs to a stored intent whose own chain is genuine.\<close>

inductive chain_genuine :: "deps \<Rightarrow> evidence_service \<Rightarrow> action_intent \<Rightarrow> bool" for D S where
  genuine: "(\<And>e. e \<in> set (cited_receipts i) \<Longrightarrow> \<exists>receipts intents r d parent. es_receipts S = Some receipts \<and> es_intents S = Some intents \<and>
      get_receipt (ev_value e) receipts = Some r \<and> digest_from_dict (JObj (ev_digest e)) ''evidence_ref.digest'' = Inr d \<and>
      build_artifact_digest D (receipt_to_dict r) = Inr d \<and> get_intent (rc_intent_id r) intents = Some parent \<and>
      chain_genuine D S parent) \<Longrightarrow> chain_genuine D S i"

declare verify_receipt_evidence_chain.simps [simp del]

abbreviation unverified :: "evidence_result \<Rightarrow> bool" where
  "unverified r \<equiv> er_verdict r \<notin> {VERIFIED_EXECUTION, VERIFIED_REFUSAL}"

lemma result_simps [simp]: "er_verdict (result v m) = v" "er_verdict (broken m i) = CHAIN_BROKEN"
  by (simp_all add: result_def broken_def)

lemma chain_refs_None:
  assumes "chain_refs D intents receipts nxt seen i m refs = Inr (None, k)"
  shows "m \<le> k \<and> (\<forall>e \<in> set refs. \<exists>r d parent n. get_receipt (ev_value e) receipts = Some r \<and>
    digest_from_dict (JObj (ev_digest e)) ''evidence_ref.digest'' = Inr d \<and> build_artifact_digest D (receipt_to_dict r) = Inr d \<and>
    get_intent (rc_intent_id r) intents = Some parent \<and> nxt (insert (rc_receipt_id r) seen) parent = Inr (None, n) \<and> n < k)"
  using assms
proof (induction refs arbitrary: m)
  case (Cons e refs)
  from Cons.prems obtain r d parent n where
    r: "get_receipt (ev_value e) receipts = Some r" "digest_from_dict (JObj (ev_digest e)) ''evidence_ref.digest'' = Inr d"
      "build_artifact_digest D (receipt_to_dict r) = Inr d" "get_intent (rc_intent_id r) intents = Some parent"
      "nxt (insert (rc_receipt_id r) seen) parent = Inr (None, n)"
    and rest: "chain_refs D intents receipts nxt seen i (max m (n + 1)) refs = Inr (None, k)"
    by (auto simp: Let_def split: option.splits if_splits sum.splits exn.splits pyclass.splits)
  from Cons.IH[OF rest] have "m \<le> k" "n < k" by auto
  with Cons.IH[OF rest] r show ?case by auto
qed simp

lemma chain_refs_Some:
  assumes "chain_refs D intents receipts nxt seen i m refs = Inr (Some v, k)"
    and "\<And>seen parent w n. nxt seen parent = Inr (Some w, n) \<Longrightarrow> unverified w"
  shows "unverified v"
  using assms(1)
proof (induction refs arbitrary: m)
  case (Cons e refs)
  then show ?case using assms(2)
    by (auto simp: Let_def split: option.splits if_splits sum.splits exn.splits pyclass.splits)
qed simp

lemma chain_refs_depth:
  assumes "chain_refs D intents receipts nxt seen i m refs = Inr (None, k)" "\<And>seen parent n. nxt seen parent = Inr (None, n) \<Longrightarrow> n \<le> b"
    and "m \<le> Suc b"
  shows "k \<le> Suc b"
  using assms(1,3)
proof (induction refs arbitrary: m)
  case (Cons e refs)
  from Cons.prems obtain seen' parent n where "nxt seen' parent = Inr (None, n)"
      "chain_refs D intents receipts nxt seen i (max m (n + 1)) refs = Inr (None, k)"
    by (auto simp: Let_def split: option.splits if_splits sum.splits exn.splits pyclass.splits)
  with assms(2)[of seen' parent n] Cons show ?case by simp
qed simp

lemma chain_sound: "verify_receipt_evidence_chain D S depth seen i = Inr (None, k) \<Longrightarrow> chain_genuine D S i \<and> k \<le> depth"
proof (induction depth arbitrary: seen i k)
  case 0
  then have "cited_receipts i = []" "k = 0"
    by (auto simp: verify_receipt_evidence_chain.simps split: if_splits option.splits)
  then show ?case by (auto intro: genuine)
next
  case (Suc depth)
  show ?case
  proof (cases "cited_receipts i = []")
    case True
    with Suc.prems show ?thesis by (auto simp: verify_receipt_evidence_chain.simps intro: genuine)
  next
    case False
    with Suc.prems obtain receipts intents where st: "es_receipts S = Some receipts" "es_intents S = Some intents"
      and run: "chain_refs D intents receipts (verify_receipt_evidence_chain D S depth) seen i 0 (cited_receipts i) = Inr (None, k)"
      by (auto simp: verify_receipt_evidence_chain.simps[of D S "Suc depth"] split: option.splits)
    note refs = conjunct2[OF chain_refs_None[OF run]]
    have "chain_genuine D S i"
    proof (rule genuine)
      fix e assume "e \<in> set (cited_receipts i)"
      with refs Suc.IH st show "\<exists>receipts intents r d parent. es_receipts S = Some receipts \<and> es_intents S = Some intents \<and>
          get_receipt (ev_value e) receipts = Some r \<and> digest_from_dict (JObj (ev_digest e)) ''evidence_ref.digest'' = Inr d \<and>
          build_artifact_digest D (receipt_to_dict r) = Inr d \<and> get_intent (rc_intent_id r) intents = Some parent \<and>
          chain_genuine D S parent" by meson
    qed
    moreover have "k \<le> Suc depth" by (rule chain_refs_depth[OF run]) (use Suc.IH in auto)
    ultimately show ?thesis by simp
  qed
qed

lemma chain_unverified: "verify_receipt_evidence_chain D S depth seen i = Inr (Some v, k) \<Longrightarrow> unverified v"
proof (induction depth arbitrary: seen i v k)
  case 0
  then show ?case by (auto simp: verify_receipt_evidence_chain.simps split: if_splits option.splits)
next
  case (Suc depth)
  have "unverified v" if "chain_refs D intents receipts (verify_receipt_evidence_chain D S depth) seen i 0 refs = Inr (Some v, k)"
    for intents receipts refs
    by (rule chain_refs_Some[OF that]) (use Suc.IH in blast)
  with Suc.prems show ?case
    by (auto simp: verify_receipt_evidence_chain.simps[of D S "Suc depth"] split: if_splits option.splits)
qed

section \<open>What a verified outcome is\<close>

text \<open>The artifacts behind a verdict: one intent, one proof with its digest, the receipt, and a genuine chain.\<close>

definition backed :: "deps \<Rightarrow> evidence_service \<Rightarrow> evidence_result \<Rightarrow> receipt \<Rightarrow> action_intent \<Rightarrow> pccb \<Rightarrow> bool" where
  "backed D S r receipt i p \<longleftrightarrow> er_receipt_id r = JStr (rc_receipt_id receipt) \<and> er_pccb_id r = JStr (pc_pccb_id p) \<and>
     er_intent_id r = JStr (ai_intent_id i) \<and> er_action_hash r = JStr (ah_value (pc_action_hash p)) \<and> \<not> other_intent p i \<and>
     sha256_hex D (build_action_hash_input i) = Inr (ah_value (pc_action_hash p)) \<and>
     correlated_hash (rc_correlation receipt) \<in> {None, Some (ah_value (pc_action_hash p))} \<and>
     chain_genuine D S i \<and> er_chain_depth r \<le> nat (es_max_chain_depth S)"

lemma verify_hash_integrity_Some: "verify_hash_integrity D i p receipt refusal = Inr (Some v) \<Longrightarrow> unverified v"
  by (auto simp: verify_hash_integrity_def Let_def split: if_splits option.splits)

lemma verify_hash_integrity_None:
  assumes "verify_hash_integrity D i p receipt refusal = Inr None"
  shows "sha256_hex D (build_action_hash_input i) = Inr (ah_value (pc_action_hash p)) \<and>
    correlated_hash (rc_correlation receipt) \<in> {None, Some (ah_value (pc_action_hash p))}"
  using assms by (auto simp: verify_hash_integrity_def Let_def split: if_splits option.splits)

lemma conclude_verified:
  assumes "conclude D S receipt refusal i p verified = Inr r" "\<not> unverified r" "er_receipt_id verified = JStr (rc_receipt_id receipt)"
    and "\<not> other_intent p i"
  shows "backed D S r receipt i p \<and> er_verdict r = er_verdict verified \<and> er_refusal_id r = er_refusal_id verified"
proof -
  obtain k where "verify_hash_integrity D i p receipt refusal = Inr None"
      "verify_receipt_evidence_chain D S (nat (es_max_chain_depth S)) {} i = Inr (None, k)"
      "r = verified\<lparr>er_pccb_id := JStr (pc_pccb_id p), er_intent_id := JStr (ai_intent_id i),
         er_action_hash := JStr (ah_value (pc_action_hash p)), er_chain_depth := k\<rparr>"
    using assms(1,2) unfolding conclude_def
    by (auto split: option.splits dest!: verify_hash_integrity_Some chain_unverified simp: with_defaults_def)
  with assms(3,4) verify_hash_integrity_None chain_sound show ?thesis by (auto simp: backed_def)
qed

lemma given_or_Some: "given_or g l = Inr (Some x) \<longleftrightarrow> g = Some x \<or> g = None \<and> l = Inr (Some x)"
  by (auto simp: given_or_def split: option.splits)

lemma verify_from_refusal_verdict:
  assumes "verify_from_refusal D S refusal paired intent given = Inr r" "er_verdict r = VERIFIED_EXECUTION"
  shows False
proof -
  have "er_verdict r \<noteq> VERIFIED_EXECUTION" if "conclude D S x (Some refusal) i p
      (from_refusal refusal (from_receipt x (result VERIFIED_REFUSAL m))) = Inr r" "\<not> other_intent p i" for x i p m
    using conclude_verified[OF that(1)] that(2) by fastforce
  with assms show False
    unfolding verify_from_refusal_def by (auto split: if_splits option.splits)
qed

lemma verify_from_receipt_executed:
  assumes "verify_from_receipt D S receipt intent given = Inr r" "er_verdict r = VERIFIED_EXECUTION"
  obtains i p pid where "rc_outcome receipt = ''executed''" "backed D S r receipt i p"
    "given_or intent (load_intent S (JStr (rc_intent_id receipt))) = Inr (Some i)"
    "correlated_pccb (rc_correlation receipt) = Some pid" "given_or given (load_pccb S pid) = Inr (Some p)"
proof -
  obtain i p pid m where o: "rc_outcome receipt = ''executed''" "\<not> other_intent p i"
      "given_or intent (load_intent S (JStr (rc_intent_id receipt))) = Inr (Some i)"
      "correlated_pccb (rc_correlation receipt) = Some pid" "given_or given (load_pccb S pid) = Inr (Some p)"
      "conclude D S receipt None i p (from_receipt receipt (result VERIFIED_EXECUTION m)) = Inr r"
    using assms unfolding verify_from_receipt_def
    by (auto split: if_splits option.splits dest: verify_from_refusal_verdict)
  moreover have "backed D S r receipt i p" using conclude_verified[OF o(6)] o(2) assms(2) by simp
  ultimately show thesis using that by blast
qed

lemma first_by_member: "first_by k xs = Some x \<Longrightarrow> x \<in> set xs"
  by (metis first_by_def list.case(2) list.set_intros(1) list.simps(4) neq_Nil_conv option.distinct(1) option.inject set_sort)

lemma prefer_filter:
  "prefer_receipt (filter P rs) = Some r \<Longrightarrow> r \<in> set rs \<and> P r"
  "prefer_refusal (filter Q fs) = Some f \<Longrightarrow> f \<in> set fs \<and> Q f"
  "prefer_pccb (filter R ps) = Some p \<Longrightarrow> p \<in> set ps \<and> R p"
  by (auto simp: prefer_receipt_def prefer_refusal_def prefer_pccb_def dest!: first_by_member)

lemma listed_receipt: "es_receipts S = Some st \<Longrightarrow> get_receipt rid st = Some r \<Longrightarrow> r \<in> set (list_receipts S)"
  by (force simp: list_receipts_def get_receipt_def dest: map_of_SomeD)

lemma listed_pccb: "load_pccb S pid = Inr (Some p) \<Longrightarrow> p \<in> set (list_pccbs S)"
  by (force simp: list_pccbs_def load_pccb_def store_get_def dest: map_of_SomeD split: option.splits if_splits json.splits)

text \<open>A verified execution found from a receipt and nothing else.\<close>

lemma verify_from_receipt_alone:
  assumes "verify_from_receipt D S receipt None given = Inr r" "er_verdict r = VERIFIED_EXECUTION"
    and "\<And>p pid. given = Some p \<Longrightarrow> correlated_pccb (rc_correlation receipt) = Some pid \<Longrightarrow> load_pccb S pid = Inr (Some p)"
  shows "\<exists>i p pid. rc_outcome receipt = ''executed'' \<and> backed D S r receipt i p \<and> load_intent S (JStr (rc_intent_id receipt)) = Inr (Some i) \<and>
    correlated_pccb (rc_correlation receipt) = Some pid \<and> load_pccb S pid = Inr (Some p) \<and> p \<in> set (list_pccbs S)"
proof -
  obtain i p pid where v: "rc_outcome receipt = ''executed''" "backed D S r receipt i p" "load_intent S (JStr (rc_intent_id receipt)) = Inr (Some i)"
      "correlated_pccb (rc_correlation receipt) = Some pid" "given_or given (load_pccb S pid) = Inr (Some p)"
    by (rule verify_from_receipt_executed[OF assms(1,2)]) (auto simp: given_or_def)
  then have "load_pccb S pid = Inr (Some p)" using assms(3) by (auto simp: given_or_Some)
  with v listed_pccb show ?thesis by blast
qed

lemma get_pccb_loads: "es_pccbs S = Some st \<Longrightarrow> get_pccb pid st = Some p \<Longrightarrow> load_pccb S (JStr pid) = Inr (Some p)"
  by (simp add: load_pccb_def store_get_def get_pccb_def)

lemma query_by_pccb_executed:
  assumes "query_by_pccb_id D S pid = Inr r" "er_verdict r = VERIFIED_EXECUTION"
  shows "\<exists>receipt i p pid. receipt \<in> set (list_receipts S) \<and> rc_outcome receipt = ''executed'' \<and> backed D S r receipt i p \<and>
    load_intent S (JStr (rc_intent_id receipt)) = Inr (Some i) \<and>
    correlated_pccb (rc_correlation receipt) = Some pid \<and> load_pccb S pid = Inr (Some p) \<and> p \<in> set (list_pccbs S)"
proof -
  obtain receipt where receipt: "prefer_receipt (filter (\<lambda>r. correlates (rc_correlation r) (JStr pid)) (list_receipts S)) = Some receipt"
      "verify_from_receipt D S receipt None (case es_pccbs S of None \<Rightarrow> None | Some st \<Rightarrow> get_pccb pid st) = Inr r"
    using assms unfolding query_by_pccb_id_def Let_def
    by (auto split: option.splits dest: verify_from_refusal_verdict)
  note in_store = prefer_filter(1)[OF receipt(1)]
  have "load_pccb S q = Inr (Some p)"
    if "(case es_pccbs S of None \<Rightarrow> None | Some st \<Rightarrow> get_pccb pid st) = Some p" "correlated_pccb (rc_correlation receipt) = Some q" for p q
    using that in_store get_pccb_loads[of S _ pid p]
    by (auto simp: correlates_def correlated_pccb_def split: option.splits if_splits)
  from verify_from_receipt_alone[OF receipt(2) assms(2) this] in_store show ?thesis by blast
qed

text \<open>
  C20 (verified_execution_is_backed): whenever a query answers that an execution is verified, the stores hold an executed
  receipt, the intent it names and a proof whose digest is the digest of this intent, and every receipt the intent
  cites is stored with the cited digest, transitively. Unless the query names an intent, the proof is the one the
  receipt is correlated with.
\<close>

theorem verified_execution_is_backed:
  assumes "query D S q = Inr r" "er_verdict r = VERIFIED_EXECUTION"
  shows "\<exists>receipt i p pid. receipt \<in> set (list_receipts S) \<and> rc_outcome receipt = ''executed'' \<and> backed D S r receipt i p \<and>
    load_intent S (JStr (rc_intent_id receipt)) = Inr (Some i) \<and> p \<in> set (list_pccbs S) \<and>
    correlated_pccb (rc_correlation receipt) = Some pid \<and> (eq_intent_id q = None \<longrightarrow> load_pccb S pid = Inr (Some p))"
proof -
  consider (receipt) rid where "query_by_receipt_id D S rid = Inr r" | (pccb) pid where "query_by_pccb_id D S pid = Inr r"
    | (intent) iid where "eq_intent_id q = Some iid" "query_by_intent_id D S iid = Inr r" | (hash) h where "query_by_action_hash D S h = Inr r"
    using assms(1) unfolding query_def by (auto split: option.splits)
  then show ?thesis
  proof cases
    case receipt
    then obtain receipt where "receipt \<in> set (list_receipts S)" "verify_from_receipt D S receipt None None = Inr r"
      using assms(2) unfolding query_by_receipt_id_def by (auto split: option.splits dest: listed_receipt)
    with verify_from_receipt_alone[OF this(2) assms(2)] show ?thesis by blast
  next
    case pccb
    from query_by_pccb_executed[OF pccb assms(2)] show ?thesis by blast
  next
    case hash
    consider pid where "query_by_pccb_id D S pid = Inr r" | receipt where "receipt \<in> set (list_receipts S)" "verify_from_receipt D S receipt None None = Inr r"
      using hash assms(2) unfolding query_by_action_hash_def Let_def
      by (auto split: option.splits dest: verify_from_refusal_verdict prefer_filter)
    then show ?thesis
    proof cases
      case 1
      from query_by_pccb_executed[OF 1 assms(2)] show ?thesis by blast
    next
      case 2
      from verify_from_receipt_alone[OF 2(2) assms(2)] 2(1) show ?thesis by blast
    qed
  next
    case intent
    let ?i = "case es_intents S of None \<Rightarrow> None | Some st \<Rightarrow> get_intent iid st"
    let ?p = "prefer_pccb (filter (\<lambda>q. pc_intent_id q = JStr iid) (list_pccbs S))"
    obtain receipt where receipt: "prefer_receipt (filter (\<lambda>r. rc_intent_id r = iid) (list_receipts S)) = Some receipt"
        "verify_from_receipt D S receipt ?i ?p = Inr r"
      using intent assms(2) unfolding query_by_intent_id_def Let_def
      by (auto split: option.splits dest: verify_from_refusal_verdict)
    note in_store = prefer_filter(1)[OF receipt(1)]
    obtain i p pid where v: "rc_outcome receipt = ''executed''" "backed D S r receipt i p"
        "given_or ?i (load_intent S (JStr (rc_intent_id receipt))) = Inr (Some i)"
        "correlated_pccb (rc_correlation receipt) = Some pid" "given_or ?p (load_pccb S pid) = Inr (Some p)"
      by (rule verify_from_receipt_executed[OF receipt(2) assms(2)])
    have "load_intent S (JStr (rc_intent_id receipt)) = Inr (Some i)"
      using v(3) in_store by (auto simp: given_or_Some load_intent_def store_get_def get_intent_def split: option.splits)
    moreover have "p \<in> set (list_pccbs S)" using v(5) listed_pccb prefer_filter(3) by (auto simp: given_or_Some)
    ultimately show ?thesis using v in_store intent(1) by auto
  qed
qed

section \<open>A concrete history\<close>

definition sample_correlation :: "string \<Rightarrow> correlation_ref" where
  "sample_correlation pid = \<lparr>co_pccb_id = JStr pid, co_escrow_id = JNull, co_refusal_id = JNull, co_receipt_id = JNull, co_request_id = JNull,
     co_action_hash = None, co_execution_attempt_id = JNull, co_protocol_version = JNull, co_execution_mode = JNull,
     co_verifier_identity = JNull, co_target_digest = None\<rparr>"

definition sample_history :: "string \<Rightarrow> evidence_service" where
  "sample_history pid = \<lparr>es_intents = Some [(''intent-1'', sample_intent)], es_pccbs = Some [(''pccb-1'', sample_pccb)],
     es_receipts = Some [(''rcpt-1'', sample_receipt\<lparr>rc_correlation := Some (sample_correlation pid)\<rparr>)], es_refusals = None,
     es_max_chain_depth = 8\<rparr>"

definition by_receipt :: "string \<Rightarrow> evidence_query" where
  "by_receipt rid = \<lparr>eq_receipt_id = Some rid, eq_pccb_id = None, eq_intent_id = None, eq_action_hash = None\<rparr>"

definition by_intent :: "string \<Rightarrow> evidence_query" where
  "by_intent iid = \<lparr>eq_receipt_id = None, eq_pccb_id = None, eq_intent_id = Some iid, eq_action_hash = None\<rparr>"

lemma sample_proof_of_intent:
  "pc_pccb_id sample_pccb = ''pccb-1''" "pc_intent_id sample_pccb = JStr ''intent-1''"
  "sha256_hex sample_deps (build_action_hash_input sample_intent) = Inr (ah_value (pc_action_hash sample_pccb))"
proof -
  from sample_pccb_fields obtain u s where
    u: "unsigned_pccb sample_deps sample_minter ''pccb-1'' ''nonce-1'' sample_intent sample_context (JStr ''esc-1'') [] = Inr u"
    and p: "sample_pccb = u\<lparr>pc_signature := s\<rparr>" .
  show "pc_pccb_id sample_pccb = ''pccb-1''" "pc_intent_id sample_pccb = JStr ''intent-1''"
      "sha256_hex sample_deps (build_action_hash_input sample_intent) = Inr (ah_value (pc_action_hash sample_pccb))"
    using unsigned_pccb_fields(1,12,21)[OF u] by (simp_all add: p sample_intent_def)
qed

lemma sample_concludes:
  "rc_correlation r = Some (sample_correlation pid) \<Longrightarrow> conclude sample_deps (sample_history pid') r None sample_intent sample_pccb verified =
    Inr (verified\<lparr>er_pccb_id := JStr ''pccb-1'', er_intent_id := JStr ''intent-1'',
      er_action_hash := JStr (ah_value (pc_action_hash sample_pccb)), er_chain_depth := 0\<rparr>)"
proof -
  have "cited_receipts sample_intent = []" "ai_intent_id sample_intent = ''intent-1''" by (simp_all add: cited_receipts_def sample_intent_def)
  moreover assume "rc_correlation r = Some (sample_correlation pid)"
  ultimately show ?thesis
    by (simp add: conclude_def verify_hash_integrity_def sample_proof_of_intent correlated_hash_def sample_correlation_def
        verify_receipt_evidence_chain.simps)
qed

lemma sample_receipt_fields [simp]: "rc_outcome sample_receipt = ''executed''" "rc_intent_id sample_receipt = ''intent-1''"
    "rc_receipt_id sample_receipt = ''rcpt-1''"
  by (simp_all add: sample_receipt_def)

lemma sample_same_intent: "\<not> other_intent sample_pccb sample_intent"
  by (simp add: other_intent_def sample_proof_of_intent sample_intent_def)

lemma sample_by_receipt:
  "\<exists>r. query sample_deps (sample_history ''pccb-1'') (by_receipt ''rcpt-1'') = Inr r \<and> er_verdict r = VERIFIED_EXECUTION"
  by (simp add: query_def by_receipt_def query_by_receipt_id_def sample_history_def get_receipt_def verify_from_receipt_def
      given_or_def load_intent_def load_pccb_def store_get_def correlated_pccb_def sample_correlation_def sample_same_intent
      sample_concludes[unfolded sample_history_def sample_correlation_def])

theorem verified_execution_is_backed_witness:
  "\<exists>r receipt i p. query sample_deps (sample_history ''pccb-1'') (by_receipt ''rcpt-1'') = Inr r \<and>
     receipt \<in> set (list_receipts (sample_history ''pccb-1'')) \<and> backed sample_deps (sample_history ''pccb-1'') r receipt i p"
  using sample_by_receipt verified_execution_is_backed by blast

text \<open>
  A query by intent takes any proof of the intent and never compares it with the
  proof the receipt is correlated with. Here the receipt names a proof that no store holds; the query by intent
  still answers that the execution is verified, while the query by receipt reports the chain as broken.
\<close>

theorem intent_query_ignores_correlation:
  "map_option er_verdict (case query sample_deps (sample_history ''pccb-2'') (by_intent ''intent-1'') of Inr r \<Rightarrow> Some r | Inl _ \<Rightarrow> None) = Some VERIFIED_EXECUTION \<and>
   map_option er_verdict (case query sample_deps (sample_history ''pccb-2'') (by_receipt ''rcpt-1'') of Inr r \<Rightarrow> Some r | Inl _ \<Rightarrow> None) = Some CHAIN_BROKEN"
proof
  have first: "prefer_receipt [r] = Some r" "prefer_pccb [p] = Some p" "prefer_refusal [] = None" for r p
    by (simp_all add: prefer_receipt_def prefer_pccb_def prefer_refusal_def first_by_def)
  show "map_option er_verdict (case query sample_deps (sample_history ''pccb-2'') (by_intent ''intent-1'') of Inr r \<Rightarrow> Some r | Inl _ \<Rightarrow> None) = Some VERIFIED_EXECUTION"
    by (simp add: query_def by_intent_def query_by_intent_id_def sample_history_def get_intent_def verify_from_receipt_def list_receipts_def
        list_refusals_def list_pccbs_def first sample_proof_of_intent given_or_def correlated_pccb_def sample_correlation_def sample_same_intent
        sample_concludes[unfolded sample_history_def sample_correlation_def])
  show "map_option er_verdict (case query sample_deps (sample_history ''pccb-2'') (by_receipt ''rcpt-1'') of Inr r \<Rightarrow> Some r | Inl _ \<Rightarrow> None) = Some CHAIN_BROKEN"
    by (simp add: query_def by_receipt_def query_by_receipt_id_def sample_history_def get_receipt_def verify_from_receipt_def
      given_or_def load_intent_def load_pccb_def store_get_def correlated_pccb_def sample_correlation_def)
qed

end
