(* ===== verification/Merkle.thy ===== *)
theory Merkle
  imports Prelude
begin

text \<open>
  Merkle trees of a transparency log, over any leaf and node hash: the tree hash and the audit path
  of RFC 6962 as the reference, and the loop over two shifted counters by which
  \<^verbatim>\<open>verifier/transparency.py\<close> recomputes the root. The loop is shown to walk exactly the audit path, so
  that a proof is accepted if and only if it is that path, as long as no two hash inputs collide.
\<close>

section \<open>The reference\<close>

text \<open>The largest power of two below \<open>n\<close>.\<close>

fun pow2_below :: "nat \<Rightarrow> nat" where
  "pow2_below n = (if n \<le> 2 then 1 else 2 * pow2_below ((n + 1) div 2))"

declare pow2_below.simps [simp del]

lemma pow2_below_power: "\<exists>j. pow2_below n = 2 ^ j"
proof (induction n rule: pow2_below.induct)
  case (1 n)
  show ?case
  proof (cases "n \<le> 2")
    case True
    then have "pow2_below n = 2 ^ 0" by (simp add: pow2_below.simps)
    then show ?thesis by blast
  next
    case False
    with 1 obtain j where "pow2_below ((n + 1) div 2) = 2 ^ j" by blast
    with False have "pow2_below n = 2 ^ Suc j" by (simp add: pow2_below.simps[of n])
    then show ?thesis by blast
  qed
qed

lemma pow2_below_bounds: "2 \<le> n \<Longrightarrow> pow2_below n < n \<and> n \<le> 2 * pow2_below n \<and> 0 < pow2_below n"
proof (induction n rule: pow2_below.induct)
  case (1 n)
  show ?case
  proof (cases "n \<le> 2")
    case True
    with 1 show ?thesis by (simp add: pow2_below.simps)
  next
    case False
    then have "pow2_below ((n + 1) div 2) < (n + 1) div 2 \<and> (n + 1) div 2 \<le> 2 * pow2_below ((n + 1) div 2)
        \<and> 0 < pow2_below ((n + 1) div 2)"
      using 1 by simp
    with False show ?thesis by (simp add: pow2_below.simps[of n]) linarith
  qed
qed

function mth :: "('d \<Rightarrow> 'h) \<Rightarrow> ('h \<Rightarrow> 'h \<Rightarrow> 'h) \<Rightarrow> 'd list \<Rightarrow> 'h" where
  "mth leaf node xs = (if length xs \<le> 1 then leaf (hd xs)
     else node (mth leaf node (take (pow2_below (length xs)) xs)) (mth leaf node (drop (pow2_below (length xs)) xs)))"
  by pat_completeness auto
termination
proof (relation "measure (\<lambda>(leaf, node, xs). length xs)")
  show "wf (measure (\<lambda>(leaf, node, xs). length xs))" by simp
next
  fix leaf :: "'d \<Rightarrow> 'h" and node :: "'h \<Rightarrow> 'h \<Rightarrow> 'h" and xs :: "'d list"
  assume "\<not> length xs \<le> 1"
  then show "((leaf, node, take (pow2_below (length xs)) xs), (leaf, node, xs)) \<in> measure (\<lambda>(leaf, node, xs). length xs)"
    and "((leaf, node, drop (pow2_below (length xs)) xs), (leaf, node, xs)) \<in> measure (\<lambda>(leaf, node, xs). length xs)"
    using pow2_below_bounds[of "length xs"] by (simp_all, linarith)
qed

declare mth.simps [simp del]

function audit_path :: "('d \<Rightarrow> 'h) \<Rightarrow> ('h \<Rightarrow> 'h \<Rightarrow> 'h) \<Rightarrow> nat \<Rightarrow> 'd list \<Rightarrow> 'h list" where
  "audit_path leaf node m xs =
     (let k = pow2_below (length xs) in
      if length xs \<le> 1 then []
      else if m < k then audit_path leaf node m (take k xs) @ [mth leaf node (drop k xs)]
      else audit_path leaf node (m - k) (drop k xs) @ [mth leaf node (take k xs)])"
  by pat_completeness auto
termination
proof (relation "measure (\<lambda>(leaf, node, m, xs). length xs)")
  show "wf (measure (\<lambda>(leaf, node, m, xs). length xs))" by simp
next
  fix leaf :: "'d \<Rightarrow> 'h" and node :: "'h \<Rightarrow> 'h \<Rightarrow> 'h" and m and xs :: "'d list" and k
  assume "k = pow2_below (length xs)" "\<not> length xs \<le> 1"
  then show "((leaf, node, m, take k xs), (leaf, node, m, xs)) \<in> measure (\<lambda>(leaf, node, m, xs). length xs)"
    and "((leaf, node, m - k, drop k xs), (leaf, node, m, xs)) \<in> measure (\<lambda>(leaf, node, m, xs). length xs)"
    using pow2_below_bounds[of "length xs"] by (simp_all, linarith)
qed

declare audit_path.simps [simp del]

text \<open>The way from leaf \<open>m\<close> of \<open>n\<close> up to the root: \<open>True\<close> where it is a right child.\<close>

function turns :: "nat \<Rightarrow> nat \<Rightarrow> bool list" where
  "turns m n = (let k = pow2_below n in
     if n \<le> 1 then [] else if m < k then turns m k @ [False] else turns (m - k) (n - k) @ [True])"
  by pat_completeness auto
termination
proof (relation "measure snd")
  show "wf (measure (snd :: nat \<times> nat \<Rightarrow> nat))" by simp
next
  fix m n k :: nat
  assume "k = pow2_below n" "\<not> n \<le> 1"
  then show "((m, k), (m, n)) \<in> measure snd" "((m - k, n - k), (m, n)) \<in> measure snd"
    using pow2_below_bounds[of n] by simp_all
qed

declare turns.simps [simp del]

fun climb :: "('h \<Rightarrow> 'h \<Rightarrow> 'h) \<Rightarrow> bool list \<Rightarrow> 'h \<Rightarrow> 'h list \<Rightarrow> 'h" where
  "climb node (t # ts) cur (s # p) = climb node ts (if t then node s cur else node cur s) p"
| "climb node _ cur _ = cur"

section \<open>The loop\<close>

function strip_even :: "nat \<Rightarrow> nat \<Rightarrow> nat \<times> nat" where
  "strip_even fn sn = (if fn \<noteq> 0 \<and> even fn then strip_even (fn div 2) (sn div 2) else (fn, sn))"
  by pat_completeness auto
termination by (relation "measure fst") auto

declare strip_even.simps [simp del]

fun inclusion_loop :: "('h \<Rightarrow> 'h \<Rightarrow> 'h) \<Rightarrow> 'h \<Rightarrow> nat \<Rightarrow> nat \<Rightarrow> 'h list \<Rightarrow> 'h \<times> nat \<times> nat" where
  "inclusion_loop node cur fn sn [] = (cur, fn, sn)"
| "inclusion_loop node cur fn sn (sibling # path) =
     (if odd fn \<or> fn = sn
      then (case strip_even fn sn of (fn', sn') \<Rightarrow> inclusion_loop node (node sibling cur) (fn' div 2) (sn' div 2) path)
      else inclusion_loop node (node cur sibling) (fn div 2) (sn div 2) path)"

text \<open>The counters and turns of the loop, which do not depend on the hashes.\<close>

definition goes_right :: "nat \<times> nat \<Rightarrow> bool" where
  "goes_right st = (odd (fst st) \<or> fst st = snd st)"

definition step :: "nat \<times> nat \<Rightarrow> nat \<times> nat" where
  "step st = (if goes_right st then (case strip_even (fst st) (snd st) of (a, b) \<Rightarrow> (a div 2, b div 2))
     else (fst st div 2, snd st div 2))"

fun turns_of :: "nat \<times> nat \<Rightarrow> nat \<Rightarrow> bool list" where
  "turns_of st 0 = []"
| "turns_of st (Suc l) = goes_right st # turns_of (step st) l"

fun steps :: "nat \<Rightarrow> nat \<times> nat \<Rightarrow> nat \<times> nat" where
  "steps 0 st = st"
| "steps (Suc l) st = steps l (step st)"

lemma steps_add: "steps (a + b) st = steps b (steps a st)"
  by (induction a arbitrary: st) simp_all

lemma turns_of_add: "turns_of st (a + b) = turns_of st a @ turns_of (steps a st) b"
  by (induction a arbitrary: st) simp_all

lemma length_turns_of [simp]: "length (turns_of st l) = l"
  by (induction l arbitrary: st) simp_all

lemma inclusion_loop_climb:
  "inclusion_loop node cur fn sn p = (climb node (turns_of (fn, sn) (length p)) cur p, steps (length p) (fn, sn))"
proof (induction p arbitrary: cur fn sn)
  case (Cons s p)
  show ?case
  proof (cases "odd fn \<or> fn = sn")
    case True
    then have "goes_right (fn, sn)" by (simp add: goes_right_def)
    with True show ?thesis by (cases "strip_even fn sn") (simp add: Cons.IH step_def)
  next
    case False
    then have "\<not> goes_right (fn, sn)" by (simp add: goes_right_def)
    with False show ?thesis by (simp add: Cons.IH step_def)
  qed
qed simp

section \<open>The loop walks the audit path\<close>

text \<open>In a full subtree the turns are the bits of the index.\<close>

fun bits :: "nat \<Rightarrow> nat \<Rightarrow> bool list" where
  "bits 0 m = []"
| "bits (Suc j) m = odd m # bits j (m div 2)"

lemma bits_snoc: "bits (Suc j) m = bits j m @ [odd (m div 2 ^ j)]"
  by (induction j arbitrary: m) (simp_all add: div_mult2_eq)

lemma bits_sub: "2 ^ j \<le> m \<Longrightarrow> bits j (m - 2 ^ j) = bits j m"
proof (induction j arbitrary: m)
  case (Suc j)
  have "even (m - 2 * 2 ^ j) = even m" using Suc.prems by simp
  moreover have "(m - 2 * 2 ^ j) div 2 = m div 2 - 2 ^ j" using Suc.prems by simp
  ultimately show ?case using Suc.IH[of "m div 2"] Suc.prems by simp
qed simp

lemma not_small_power [simp]: "\<not> 2 * 2 ^ j \<le> Suc 0" "\<not> 2 * 2 ^ Suc j \<le> (2 :: nat)"
proof -
  have *: "1 \<le> (2 :: nat) ^ j" by simp
  show "\<not> 2 * 2 ^ j \<le> Suc 0" using * by linarith
  show "\<not> 2 * 2 ^ Suc j \<le> (2 :: nat)" unfolding power_Suc using * by linarith
qed

lemma pow2_below_double: "pow2_below (2 * 2 ^ j) = 2 ^ j"
proof (induction j)
  case (Suc j)
  have "pow2_below (2 * 2 ^ Suc j) = 2 * pow2_below ((2 * 2 ^ Suc j + 1) div 2)"
    by (subst pow2_below.simps) simp
  also have "(2 * 2 ^ Suc j + 1) div 2 = (2 * 2 ^ j :: nat)" by simp
  finally show ?case using Suc.IH by simp
qed (simp add: pow2_below.simps)

lemma turns_full: "m < 2 ^ j \<Longrightarrow> turns m (2 ^ j) = bits j m"
proof (induction j arbitrary: m)
  case 0
  then show ?case by (simp add: turns.simps)
next
  case (Suc j)
  have "turns m (2 ^ Suc j) = (if m < 2 ^ j then turns m (2 ^ j) @ [False] else turns (m - 2 ^ j) (2 ^ j) @ [True])"
    by (subst turns.simps) (simp add: Let_def pow2_below_double)
  moreover have "m div 2 ^ j = (if m < 2 ^ j then 0 else 1)"
    using Suc.prems by (auto simp: div_nat_eqI)
  ultimately show ?case using Suc.prems Suc.IH[of m] Suc.IH[of "m - 2 ^ j"] bits_sub[of j m]
    by (simp add: bits_snoc del: bits.simps)
qed

lemma step_full: "m < sn \<Longrightarrow> step (m, sn) = (m div 2, sn div 2)"
  by (auto simp: step_def goes_right_def strip_even.simps[of m])

lemma steps_full:
  "m < 2 ^ j \<Longrightarrow> 2 ^ j \<le> sn \<Longrightarrow> i \<le> j \<Longrightarrow> turns_of (m, sn) i = bits i m \<and> steps i (m, sn) = (m div 2 ^ i, sn div 2 ^ i)"
proof (induction i arbitrary: m sn j)
  case (Suc i)
  then obtain c where c: "j = Suc c" by (cases j) auto
  with Suc.prems have "m div 2 < 2 ^ c" "2 ^ c \<le> sn div 2" "m < sn" by (simp_all add: less_mult_imp_div_less)
  with Suc.IH[of "m div 2" c "sn div 2"] Suc.prems(3) c show ?case
    by (simp add: step_full goes_right_def div_mult2_eq)
qed simp

lemma length_bits [simp]: "length (bits j m) = j"
  by (induction j arbitrary: m) simp_all

text \<open>In a right subtree the counters carry one more bit, and nothing else changes.\<close>

lemma strip_even_odd: "odd fn \<Longrightarrow> strip_even fn sn = (fn, sn)"
  by (subst strip_even.simps) simp

lemma strip_even_lift:
  "fn \<noteq> 0 \<Longrightarrow> fn \<le> sn \<Longrightarrow> sn < 2 ^ a \<Longrightarrow> strip_even fn sn = (x, y) \<Longrightarrow>
    \<exists>b > 0. strip_even (fn + 2 ^ a) (sn + 2 ^ a) = (x + 2 ^ b, y + 2 ^ b) \<and> y < 2 ^ b \<and> x \<le> y"
proof (induction fn sn arbitrary: a rule: strip_even.induct)
  case (1 fn sn)
  have a: "a \<noteq> 0"
  proof
    assume "a = 0"
    with 1 show False by simp
  qed
  then obtain c where c: "a = Suc c" by (cases a) auto
  show ?case
  proof (cases "even fn")
    case True
    have half: "(fn + 2 ^ a) div 2 = fn div 2 + 2 ^ c" "(sn + 2 ^ a) div 2 = sn div 2 + 2 ^ c" by (simp_all add: c)
    have "fn div 2 \<noteq> 0" "fn div 2 \<le> sn div 2" "sn div 2 < 2 ^ c" "strip_even (fn div 2) (sn div 2) = (x, y)"
      using 1 True c by (auto simp: strip_even.simps[of fn] div_le_mono elim: evenE)
    from 1(1)[OF _ this] 1(2) True obtain b where
      "b > 0" "strip_even (fn div 2 + 2 ^ c) (sn div 2 + 2 ^ c) = (x + 2 ^ b, y + 2 ^ b)" "y < 2 ^ b" "x \<le> y" by blast
    moreover have "strip_even (fn + 2 ^ a) (sn + 2 ^ a) = strip_even (fn div 2 + 2 ^ c) (sn div 2 + 2 ^ c)"
      using True a by (subst strip_even.simps) (simp add: half)
    ultimately show ?thesis by auto
  next
    case False
    then have "odd (fn + 2 ^ a)" using a by simp
    note odd = strip_even_odd[OF this, of "sn + 2 ^ a"]
    have "x = fn" "y = sn" using 1(5) strip_even_odd[OF False, of sn] by simp_all
    note this odd
    then show ?thesis using 1 a by auto
  qed
qed

lemma step_lift:
  assumes "fn \<le> sn" "sn < 2 ^ a" "sn \<noteq> 0" "step (fn, sn) = (x, y)"
  shows "\<exists>b. step (fn + 2 ^ a, sn + 2 ^ a) = (x + 2 ^ b, y + 2 ^ b) \<and> y < 2 ^ b \<and> x \<le> y"
    and "goes_right (fn + 2 ^ a, sn + 2 ^ a) = goes_right (fn, sn)"
proof -
  have "a \<noteq> 0"
  proof
    assume "a = 0"
    with assms show False by simp
  qed
  then obtain c where c: "a = Suc c" by (cases a) auto
  show same: "goes_right (fn + 2 ^ a, sn + 2 ^ a) = goes_right (fn, sn)" by (simp add: goes_right_def c)
  show "\<exists>b. step (fn + 2 ^ a, sn + 2 ^ a) = (x + 2 ^ b, y + 2 ^ b) \<and> y < 2 ^ b \<and> x \<le> y"
  proof (cases "goes_right (fn, sn)")
    case True
    then have "fn \<noteq> 0" using assms(3) by (auto simp: goes_right_def odd_pos)
    obtain u v where uv: "strip_even fn sn = (u, v)" by fastforce
    from strip_even_lift[OF \<open>fn \<noteq> 0\<close> assms(1,2) uv] obtain b where
      b: "b > 0" "strip_even (fn + 2 ^ a) (sn + 2 ^ a) = (u + 2 ^ b, v + 2 ^ b)" "v < 2 ^ b" "u \<le> v" by blast
    then obtain e where e: "b = Suc e" by (cases b) auto
    have "x = u div 2" "y = v div 2" using assms(4) True uv by (simp_all add: step_def)
    with b e same True show ?thesis by (intro exI[of _ e]) (auto simp: step_def div_le_mono)
  next
    case False
    then have "x = fn div 2" "y = sn div 2" using assms(4) by (simp_all add: step_def)
    then show ?thesis using False same assms(1,2) c by (intro exI[of _ c]) (auto simp: step_def div_le_mono)
  qed
qed

lemma steps_lift:
  assumes "fn \<le> sn" "sn < 2 ^ a" "\<And>i. i < l \<Longrightarrow> snd (steps i (fn, sn)) \<noteq> 0" "steps l (fn, sn) = (x, y)"
  shows "turns_of (fn + 2 ^ a, sn + 2 ^ a) l = turns_of (fn, sn) l \<and>
    (\<exists>b. steps l (fn + 2 ^ a, sn + 2 ^ a) = (x + 2 ^ b, y + 2 ^ b))"
  using assms
proof (induction l arbitrary: fn sn a)
  case (Suc l)
  obtain u v where uv: "step (fn, sn) = (u, v)" by fastforce
  have "sn \<noteq> 0" using Suc.prems(3)[of 0] by simp
  from step_lift[OF Suc.prems(1,2) this uv] obtain b where
    b: "step (fn + 2 ^ a, sn + 2 ^ a) = (u + 2 ^ b, v + 2 ^ b)" "v < 2 ^ b" "u \<le> v"
       "goes_right (fn + 2 ^ a, sn + 2 ^ a) = goes_right (fn, sn)" by blast
  have "snd (steps i (u, v)) \<noteq> 0" if "i < l" for i
    using Suc.prems(3)[of "Suc i"] that uv by simp
  with Suc.IH[OF b(3,2)] Suc.prems(4) show ?case by (simp add: b(1,4) uv)
qed auto

lemma strip_even_power: "strip_even (2 ^ b) (2 ^ b) = (1, 1)"
proof (induction b)
  case (Suc b)
  then show ?case by (subst strip_even.simps) simp
qed (simp add: strip_even.simps)

lemma step_power: "step (2 ^ b, 2 ^ b) = (0, 0)" "goes_right (2 ^ b, 2 ^ b)"
  by (simp_all add: step_def goes_right_def strip_even_power)

text \<open>Before its last turn the second counter is not zero; after it both are.\<close>

lemma steps_turns_left:
  assumes "m < 2 ^ j" "2 ^ j < n" "n \<le> 2 * 2 ^ j" "turns m n = bits j m @ [False]"
  shows "turns_of (m, n - 1) (length (turns m n)) = turns m n \<and> steps (length (turns m n)) (m, n - 1) = (0, 0) \<and>
    (\<forall>i < length (turns m n). snd (steps i (m, n - 1)) \<noteq> 0)"
proof -
  have full: "turns_of (m, n - 1) i = bits i m" "steps i (m, n - 1) = (m div 2 ^ i, (n - 1) div 2 ^ i)" if "i \<le> j" for i
    using steps_full[OF assms(1) _ that, of "n - 1"] assms(2) by auto
  have top: "(n - 1) div 2 ^ j = 1" using assms(2,3) by (intro div_nat_eqI) simp_all
  have at_j: "steps j (m, n - 1) = (0, 1)" using full(2)[of j] assms(1) top by simp
  have "turns_of (m, n - 1) (j + 1) = turns m n"
    unfolding turns_of_add at_j full(1)[OF order_refl] assms(4) by (simp add: goes_right_def)
  moreover have "steps (j + 1) (m, n - 1) = (0, 0)"
    unfolding steps_add at_j by (simp add: step_full)
  moreover have "snd (steps i (m, n - 1)) \<noteq> 0" if "i \<le> j" for i
  proof -
    have "(2 :: nat) ^ i \<le> 2 ^ j" using that by (simp add: power_increasing)
    then have "2 ^ i \<le> n - 1" using assms(2) by linarith
    then show ?thesis unfolding full(2)[OF that] by (simp add: div_greater_zero_iff)
  qed
  ultimately show ?thesis by (auto simp: assms(4) less_Suc_eq_le)
qed

lemma steps_turns_right:
  assumes "turns m n = turns (m - 2 ^ j) (n - 2 ^ j) @ [True]" "2 ^ j \<le> m" "m < n" "n \<le> 2 * 2 ^ j"
    and IH: "turns_of (m - 2 ^ j, n - 2 ^ j - 1) (length (turns (m - 2 ^ j) (n - 2 ^ j))) = turns (m - 2 ^ j) (n - 2 ^ j)"
      "steps (length (turns (m - 2 ^ j) (n - 2 ^ j))) (m - 2 ^ j, n - 2 ^ j - 1) = (0, 0)"
      "\<And>i. i < length (turns (m - 2 ^ j) (n - 2 ^ j)) \<Longrightarrow> snd (steps i (m - 2 ^ j, n - 2 ^ j - 1)) \<noteq> 0"
  shows "turns_of (m, n - 1) (length (turns m n)) = turns m n \<and> steps (length (turns m n)) (m, n - 1) = (0, 0) \<and>
    (\<forall>i < length (turns m n). snd (steps i (m, n - 1)) \<noteq> 0)"
proof -
  let ?l = "length (turns (m - 2 ^ j) (n - 2 ^ j))"
  have st: "(m, n - 1) = (m - 2 ^ j + 2 ^ j, n - 2 ^ j - 1 + 2 ^ j)" using assms(2,3) by simp
  have le: "m - 2 ^ j \<le> n - 2 ^ j - 1" "n - 2 ^ j - 1 < 2 ^ j"
    using assms(2-4) by simp_all
  have lift: "turns_of (m, n - 1) l = turns_of (m - 2 ^ j, n - 2 ^ j - 1) l \<and>
      (\<exists>b. steps l (m, n - 1) = (fst (steps l (m - 2 ^ j, n - 2 ^ j - 1)) + 2 ^ b, snd (steps l (m - 2 ^ j, n - 2 ^ j - 1)) + 2 ^ b))"
    if "l \<le> ?l" for l
  proof -
    obtain x y where xy: "steps l (m - 2 ^ j, n - 2 ^ j - 1) = (x, y)" by fastforce
    have "snd (steps i (m - 2 ^ j, n - 2 ^ j - 1)) \<noteq> 0" if "i < l" for i
      by (rule IH(3)) (use that \<open>l \<le> ?l\<close> in linarith)
    from steps_lift[OF le this xy] show ?thesis unfolding st xy by simp
  qed
  from lift[of ?l] obtain b where b: "steps ?l (m, n - 1) = (2 ^ b, 2 ^ b)" using IH(2) by auto
  have "turns_of (m, n - 1) ?l = turns (m - 2 ^ j) (n - 2 ^ j)" using lift[of ?l] IH(1) by simp
  then have "turns_of (m, n - 1) (?l + 1) = turns m n" unfolding turns_of_add b assms(1) by (simp add: step_power)
  moreover have "steps (?l + 1) (m, n - 1) = (0, 0)" unfolding steps_add b by (simp add: step_power)
  moreover have "snd (steps i (m, n - 1)) \<noteq> 0" if "i \<le> ?l" for i using lift[OF that] by auto
  ultimately show ?thesis by (auto simp: assms(1) less_Suc_eq_le)
qed

lemma steps_turns:
  "m < n \<Longrightarrow> turns_of (m, n - 1) (length (turns m n)) = turns m n \<and> steps (length (turns m n)) (m, n - 1) = (0, 0) \<and>
    (\<forall>i < length (turns m n). snd (steps i (m, n - 1)) \<noteq> 0)"
proof (induction m n rule: turns.induct)
  case (1 m n)
  show ?case
  proof (cases "n \<le> 1")
    case True
    with 1 show ?thesis by (simp add: turns.simps)
  next
    case False
    obtain j where j: "pow2_below n = 2 ^ j" using pow2_below_power by blast
    with False have k: "2 ^ j < n" "n \<le> 2 * 2 ^ j" using pow2_below_bounds[of n] by simp_all
    have turns: "turns m n = (if m < 2 ^ j then turns m (2 ^ j) @ [False] else turns (m - 2 ^ j) (n - 2 ^ j) @ [True])"
      using False by (subst turns.simps) (simp add: Let_def j)
    show ?thesis
    proof (cases "m < 2 ^ j")
      case True
      with turns show ?thesis by (intro steps_turns_left[OF True k]) (simp add: turns_full)
    next
      case right: False
      with 1(2)[OF j[symmetric] False] "1.prems"
      have "turns_of (m - 2 ^ j, n - 2 ^ j - 1) (length (turns (m - 2 ^ j) (n - 2 ^ j))) = turns (m - 2 ^ j) (n - 2 ^ j) \<and>
        steps (length (turns (m - 2 ^ j) (n - 2 ^ j))) (m - 2 ^ j, n - 2 ^ j - 1) = (0, 0) \<and>
        (\<forall>i < length (turns (m - 2 ^ j) (n - 2 ^ j)). snd (steps i (m - 2 ^ j, n - 2 ^ j - 1)) \<noteq> 0)"
        by simp
      with right turns "1.prems" k show ?thesis by (intro steps_turns_right) auto
    qed
  qed
qed

lemma steps_done: "steps l (0, 0) = (0, 0)" "turns_of (0, 0) l = replicate l True"
proof -
  have "step (0, 0) = (0, 0)" "goes_right (0, 0)" by (simp_all add: step_def goes_right_def strip_even.simps)
  then show "steps l (0, 0) = (0, 0)" "turns_of (0, 0) l = replicate l True" by (induction l) simp_all
qed

text \<open>When the loop ends with a zero counter, it has made the turns of the index, and then only right turns.\<close>

lemma loop_turns:
  assumes "m < n" "snd (steps l (m, n - 1)) = 0"
  obtains e where "l = length (turns m n) + e" "turns_of (m, n - 1) l = turns m n @ replicate e True"
proof -
  note st = steps_turns[OF assms(1)]
  have "\<not> l < length (turns m n)" using st assms(2) by auto
  then obtain e where e: "l = length (turns m n) + e" using le_Suc_ex not_less by blast
  then show thesis
    using st by (intro that[OF e]) (simp add: turns_of_add steps_done)
qed

section \<open>Climbing a tree\<close>

lemma climb_append:
  "length ts = length p \<Longrightarrow> climb node (ts @ us) cur (p @ q) = climb node us (climb node ts cur p) q"
  by (induction ts p arbitrary: cur rule: list_induct2) simp_all

lemma climb_snoc:
  "length ts = length p \<Longrightarrow> climb node (ts @ [t]) cur (p @ [s]) = (if t then node s (climb node ts cur p) else node (climb node ts cur p) s)"
  by (simp add: climb_append)

lemma length_audit_path: "m < length xs \<Longrightarrow> length (audit_path leaf node m xs) = length (turns m (length xs))"
proof (induction leaf node m xs rule: audit_path.induct)
  case (1 leaf node m xs)
  show ?case
  proof (cases "length xs \<le> 1")
    case True
    then show ?thesis by (simp add: audit_path.simps turns.simps)
  next
    case False
    with 1 pow2_below_bounds[of "length xs"] show ?thesis
      by (subst audit_path.simps, subst turns.simps) (auto simp: Let_def min_def)
  qed
qed

text \<open>Climbing the audit path of a leaf gives the root.\<close>

lemma climb_audit_path:
  "m < length xs \<Longrightarrow> climb node (turns m (length xs)) (leaf (xs ! m)) (audit_path leaf node m xs) = mth leaf node xs"
proof (induction leaf node m xs rule: audit_path.induct)
  case (1 leaf node m xs)
  show ?case
  proof (cases "length xs \<le> 1")
    case True
    with 1 show ?thesis by (cases xs) (simp_all add: audit_path.simps turns.simps mth.simps)
  next
    case False
    define k where "k = pow2_below (length xs)"
    with False have k: "k < length xs" "0 < k" using pow2_below_bounds[of "length xs"] by simp_all
    have turns: "turns m (length xs) = (if m < k then turns m k @ [False] else turns (m - k) (length xs - k) @ [True])"
      using False by (subst turns.simps) (simp add: Let_def k_def)
    have path: "audit_path leaf node m xs = (if m < k then audit_path leaf node m (take k xs) @ [mth leaf node (drop k xs)]
        else audit_path leaf node (m - k) (drop k xs) @ [mth leaf node (take k xs)])"
      using False by (subst audit_path.simps) (simp add: Let_def k_def)
    have root: "mth leaf node xs = node (mth leaf node (take k xs)) (mth leaf node (drop k xs))"
      using False by (subst mth.simps) (simp add: k_def)
    show ?thesis
    proof (cases "m < k")
      case True
      with 1(1)[OF k_def False True] k show ?thesis
        by (simp add: turns path root climb_snoc length_audit_path)
    next
      case right: False
      with 1(2)[OF k_def False right] k "1.prems" show ?thesis
        by (simp add: turns path root climb_snoc length_audit_path)
    qed
  qed
qed

text \<open>The reconstruction of the root from a genuine audit path.\<close>

lemma inclusion_loop_complete:
  assumes "m < length xs"
  shows "inclusion_loop node (leaf (xs ! m)) m (length xs - 1) (audit_path leaf node m xs) = (mth leaf node xs, 0, 0)"
  using steps_turns[OF assms] climb_audit_path[OF assms, of node leaf]
  by (simp add: inclusion_loop_climb length_audit_path[OF assms])

section \<open>Only the audit path is accepted\<close>

text \<open>The pairs hashed when climbing, and when building a tree.\<close>

fun climb_pairs :: "('h \<Rightarrow> 'h \<Rightarrow> 'h) \<Rightarrow> bool list \<Rightarrow> 'h \<Rightarrow> 'h list \<Rightarrow> ('h \<times> 'h) set" where
  "climb_pairs node (t # ts) cur (s # p) =
     insert (if t then (s, cur) else (cur, s)) (climb_pairs node ts (if t then node s cur else node cur s) p)"
| "climb_pairs node _ cur _ = {}"

function tree_pairs :: "('d \<Rightarrow> 'h) \<Rightarrow> ('h \<Rightarrow> 'h \<Rightarrow> 'h) \<Rightarrow> 'd list \<Rightarrow> ('h \<times> 'h) set" where
  "tree_pairs leaf node xs = (let k = pow2_below (length xs) in if length xs \<le> 1 then {}
     else insert (mth leaf node (take k xs), mth leaf node (drop k xs))
       (tree_pairs leaf node (take k xs) \<union> tree_pairs leaf node (drop k xs)))"
  by pat_completeness auto
termination
proof (relation "measure (\<lambda>(leaf, node, xs). length xs)")
  show "wf (measure (\<lambda>(leaf, node, xs). length xs))" by simp
next
  fix leaf :: "'d \<Rightarrow> 'h" and node :: "'h \<Rightarrow> 'h \<Rightarrow> 'h" and xs :: "'d list" and k
  assume "k = pow2_below (length xs)" "\<not> length xs \<le> 1"
  then show "((leaf, node, take k xs), (leaf, node, xs)) \<in> measure (\<lambda>(leaf, node, xs). length xs)"
    and "((leaf, node, drop k xs), (leaf, node, xs)) \<in> measure (\<lambda>(leaf, node, xs). length xs)"
    using pow2_below_bounds[of "length xs"] by (simp_all, linarith)
qed

declare tree_pairs.simps [simp del]

text \<open>No two of the hash inputs in play collide.\<close>

definition collision_free :: "('d \<Rightarrow> 'h) \<Rightarrow> ('h \<Rightarrow> 'h \<Rightarrow> 'h) \<Rightarrow> 'd set \<Rightarrow> ('h \<times> 'h) set \<Rightarrow> bool" where
  "collision_free leaf node L P \<longleftrightarrow> inj_on leaf L \<and> inj_on (\<lambda>(a, b). node a b) P \<and>
     (\<forall>x \<in> L. \<forall>(a, b) \<in> P. leaf x \<noteq> node a b)"

lemma collision_freeD:
  assumes "collision_free leaf node L P"
  shows "x \<in> L \<Longrightarrow> y \<in> L \<Longrightarrow> leaf x = leaf y \<Longrightarrow> x = y"
    and "(a, b) \<in> P \<Longrightarrow> (c, d) \<in> P \<Longrightarrow> node a b = node c d \<Longrightarrow> a = c \<and> b = d"
    and "x \<in> L \<Longrightarrow> (a, b) \<in> P \<Longrightarrow> leaf x \<noteq> node a b"
  using assms by (auto simp: collision_free_def inj_on_def)

lemma climb_pairs_append:
  "length ts = length p \<Longrightarrow> climb_pairs node (ts @ us) cur (p @ q) =
    climb_pairs node ts cur p \<union> climb_pairs node us (climb node ts cur p) q"
  by (induction ts p arbitrary: cur rule: list_induct2) simp_all

lemma climb_inj:
  assumes "collision_free leaf node L P" "length ts = length p" "length p = length q"
    and "climb node ts x p = climb node ts y q" "climb_pairs node ts x p \<subseteq> P" "climb_pairs node ts y q \<subseteq> P"
  shows "x = y \<and> p = q"
  using assms(2-)
proof (induction ts p q arbitrary: x y rule: list_induct3)
  case (Cons t ts s p s' q)
  then have "(if t then node s x else node x s) = (if t then node s' y else node y s') \<and> p = q" by simp
  with Cons.prems collision_freeD(2)[OF assms(1)] show ?case by (auto split: if_splits)
qed simp

text \<open>A tree whose leaves and nodes are in play.\<close>

definition in_play :: "('d \<Rightarrow> 'h) \<Rightarrow> ('h \<Rightarrow> 'h \<Rightarrow> 'h) \<Rightarrow> 'd set \<Rightarrow> ('h \<times> 'h) set \<Rightarrow> 'd list \<Rightarrow> bool" where
  "in_play leaf node L P xs \<longleftrightarrow> xs \<noteq> [] \<and> set xs \<subseteq> L \<and> tree_pairs leaf node xs \<subseteq> P"

lemma in_play_node:
  assumes "in_play leaf node L P xs" "2 \<le> length xs" "k = pow2_below (length xs)"
  shows "mth leaf node xs = node (mth leaf node (take k xs)) (mth leaf node (drop k xs))"
    "(mth leaf node (take k xs), mth leaf node (drop k xs)) \<in> P"
    "in_play leaf node L P (take k xs)" "in_play leaf node L P (drop k xs)"
proof -
  have k: "k < length xs" "0 < k" using pow2_below_bounds[OF assms(2)] assms(3) by simp_all
  have pairs: "tree_pairs leaf node xs = insert (mth leaf node (take k xs), mth leaf node (drop k xs))
       (tree_pairs leaf node (take k xs) \<union> tree_pairs leaf node (drop k xs))"
    using assms(2,3) by (subst tree_pairs.simps) (simp add: Let_def)
  show "mth leaf node xs = node (mth leaf node (take k xs)) (mth leaf node (drop k xs))"
    using assms(2,3) by (subst mth.simps) simp
  show "(mth leaf node (take k xs), mth leaf node (drop k xs)) \<in> P"
    using assms(1) by (simp add: in_play_def pairs)
  have "set (take k xs) \<subseteq> set xs" "set (drop k xs) \<subseteq> set xs" by (rule set_take_subset, rule set_drop_subset)
  with assms(1) k show "in_play leaf node L P (take k xs)" "in_play leaf node L P (drop k xs)"
    by (auto simp: in_play_def pairs)
qed

text \<open>A root that is the hash of a pair in play belongs to a tree of at least two leaves, with those children.\<close>

lemma root_is_node:
  assumes "collision_free leaf node L P" "in_play leaf node L P xs" "mth leaf node xs = node a b" "(a, b) \<in> P"
    and "k = pow2_below (length xs)"
  shows "2 \<le> length xs" "a = mth leaf node (take k xs)" "b = mth leaf node (drop k xs)"
proof -
  show two: "2 \<le> length xs"
  proof (rule ccontr)
    assume "\<not> 2 \<le> length xs"
    then have "mth leaf node xs = leaf (hd xs)" by (simp add: mth.simps)
    moreover have "hd xs \<in> L" using assms(2) by (auto simp: in_play_def)
    ultimately show False using collision_freeD(3)[OF assms(1) _ assms(4)] assms(3) by metis
  qed
  note n = in_play_node[OF assms(2) two assms(5)]
  from collision_freeD(2)[OF assms(1) assms(4) n(2)] n(1) assms(3)
  show "a = mth leaf node (take k xs)" "b = mth leaf node (drop k xs)" by simp_all
qed

lemma snoc_cases:
  assumes "length ts = length p" "ts \<noteq> []"
  obtains us t q s where "ts = us @ [t]" "p = q @ [s]" "length us = length q"
proof -
  from assms(2) obtain us t where "ts = us @ [t]" by (metis append_butlast_last_id)
  moreover from assms have "p \<noteq> []" by auto
  then obtain q s where "p = q @ [s]" by (metis append_butlast_last_id)
  ultimately show thesis using that assms(1) by simp
qed

text \<open>One turn back from a root.\<close>

lemma climb_back:
  assumes "collision_free leaf node L P" "in_play leaf node L P xs" "length us = length q"
    and "climb node (us @ [t]) cur (q @ [s]) = mth leaf node xs" "climb_pairs node (us @ [t]) cur (q @ [s]) \<subseteq> P"
  defines "k \<equiv> pow2_below (length xs)"
  shows "2 \<le> length xs" "climb node us cur q = mth leaf node (if t then drop k xs else take k xs)"
    "climb_pairs node us cur q \<subseteq> P" "in_play leaf node L P (if t then drop k xs else take k xs)"
proof -
  let ?c = "climb node us cur q"
  have pair: "(if t then s else ?c, if t then ?c else s) \<in> P" and "climb_pairs node us cur q \<subseteq> P"
    using assms(5) by (auto simp: climb_pairs_append[OF assms(3)] split: if_splits)
  then show "climb_pairs node us cur q \<subseteq> P" by simp
  have root: "mth leaf node xs = node (if t then s else ?c) (if t then ?c else s)"
    using assms(4) by (cases t) (simp_all add: climb_snoc[OF assms(3)])
  note r = root_is_node[OF assms(1,2) root pair k_def[THEN meta_eq_to_obj_eq]]
  then show "2 \<le> length xs" "climb node us cur q = mth leaf node (if t then drop k xs else take k xs)"
    by (auto split: if_splits)
  show "in_play leaf node L P (if t then drop k xs else take k xs)"
    using in_play_node(3,4)[OF assms(2) r(1) k_def[THEN meta_eq_to_obj_eq]] by simp
qed

text \<open>A leaf that far below a root needs that many leaves.\<close>

lemma climb_needs_leaves:
  assumes "collision_free leaf node L P"
  shows "length ts = length p \<Longrightarrow> in_play leaf node L P xs \<Longrightarrow> climb node ts (leaf d) p = mth leaf node xs \<Longrightarrow>
    climb_pairs node ts (leaf d) p \<subseteq> P \<Longrightarrow> length ts = Suc l \<Longrightarrow> 2 ^ l < length xs"
proof (induction l arbitrary: ts p xs)
  case 0
  then obtain us t q s where ts: "ts = us @ [t]" "p = q @ [s]" "length us = length q"
    by (metis snoc_cases length_0_conv nat.distinct(1))
  from climb_back(1)[OF assms 0(2) ts(3) 0(3)[unfolded ts] 0(4)[unfolded ts]] show ?case by simp
next
  case (Suc l)
  then obtain us t q s where ts: "ts = us @ [t]" "p = q @ [s]" "length us = length q"
    by (metis snoc_cases length_0_conv nat.distinct(1))
  let ?k = "pow2_below (length xs)"
  note b = climb_back[OF assms Suc.prems(2) ts(3) Suc.prems(3)[unfolded ts] Suc.prems(4)[unfolded ts]]
  have "2 ^ l < length (if t then drop ?k xs else take ?k xs)"
    using Suc.IH[OF ts(3) b(4,2,3)] Suc.prems(5) ts by simp
  moreover obtain j where j: "?k = 2 ^ j" using pow2_below_power by blast
  moreover have "?k < length xs" "length xs \<le> 2 * ?k" using pow2_below_bounds[OF b(1)] by simp_all
  moreover have "length (if t then drop ?k xs else take ?k xs) \<le> ?k"
  proof (cases t)
    case True
    then show ?thesis using \<open>length xs \<le> 2 * ?k\<close> by (simp add: le_diff_conv mult_2)
  qed simp
  ultimately have "(2 :: nat) ^ l < 2 ^ j" by linarith
  then have "Suc l \<le> j" by (simp add: Suc_le_eq)
  then have "(2 :: nat) ^ Suc l \<le> 2 ^ j" by (rule power_increasing) simp
  with j \<open>?k < length xs\<close> show ?case by simp
qed

text \<open>Descending to the right.\<close>

definition right_part :: "'d list \<Rightarrow> 'd list" where
  "right_part xs = drop (pow2_below (length xs)) xs"

fun descend :: "nat \<Rightarrow> 'd list \<Rightarrow> 'd list" where
  "descend 0 xs = xs"
| "descend (Suc e) xs = descend e (right_part xs)"

fun deep :: "nat \<Rightarrow> 'd list \<Rightarrow> bool" where
  "deep 0 xs = True"
| "deep (Suc e) xs = (2 \<le> length xs \<and> deep e (right_part xs))"

lemma descend_Suc: "descend (Suc e) xs = right_part (descend e xs)"
  by (induction e arbitrary: xs) simp_all

lemma deep_Suc: "deep (Suc e) xs \<longleftrightarrow> deep e xs \<and> 2 \<le> length (descend e xs)"
  by (induction e arbitrary: xs) auto

lemma length_right_part: "length (right_part xs) \<le> length xs"
  by (simp add: right_part_def)

lemma length_descend: "length (descend e xs) \<le> length xs"
proof (induction e arbitrary: xs)
  case (Suc e)
  from Suc.IH[of "right_part xs"] length_right_part[of xs] show ?case by simp
qed simp

lemma climb_right_spine:
  assumes "collision_free leaf node L P"
  shows "length p = e \<Longrightarrow> in_play leaf node L P xs \<Longrightarrow> climb node (replicate e True) y p = mth leaf node xs \<Longrightarrow>
    climb_pairs node (replicate e True) y p \<subseteq> P \<Longrightarrow> deep e xs \<and> y = mth leaf node (descend e xs) \<and> in_play leaf node L P (descend e xs)"
proof (induction e arbitrary: p xs)
  case (Suc e)
  then obtain q s where p: "p = q @ [s]" "length q = e" by (metis length_Suc_conv_rev)
  have rep: "replicate (Suc e) True = replicate e True @ [True]" by (simp add: replicate_append_same)
  have len: "length (replicate e True) = length q" using p(2) by simp
  note b = climb_back[OF assms Suc.prems(2) len Suc.prems(3)[unfolded p rep] Suc.prems(4)[unfolded p rep]]
  have "deep e (right_part xs) \<and> y = mth leaf node (descend e (right_part xs)) \<and> in_play leaf node L P (descend e (right_part xs))"
    by (rule Suc.IH[OF p(2)]) (use b in \<open>simp_all add: right_part_def\<close>)
  with b(1) show ?case by simp
qed simp

text \<open>Extra right turns above the turns of an index lead to no leaf.\<close>

lemma no_extra_turns:
  assumes "collision_free leaf node L P"
  shows "m < length xs \<Longrightarrow> length p = length (turns m (length xs)) \<Longrightarrow> deep (Suc e) xs \<Longrightarrow> in_play leaf node L P (descend (Suc e) xs) \<Longrightarrow>
    climb node (turns m (length xs)) (leaf d) p = mth leaf node (descend (Suc e) xs) \<Longrightarrow>
    climb_pairs node (turns m (length xs)) (leaf d) p \<subseteq> P \<Longrightarrow> False"
proof (induction "length xs" arbitrary: m xs p rule: less_induct)
  case less
  obtain j where j: "pow2_below (length xs) = 2 ^ j" using pow2_below_power by blast
  have two: "2 \<le> length xs" using less.prems(3) by simp
  then have k: "2 ^ j < length xs" "length xs \<le> 2 * 2 ^ j" "0 < (2 :: nat) ^ j"
    using pow2_below_bounds[OF two] j by simp_all
  have turns: "turns m (length xs) = (if m < 2 ^ j then turns m (2 ^ j) @ [False] else turns (m - 2 ^ j) (length xs - 2 ^ j) @ [True])"
    using two by (subst turns.simps) (simp add: Let_def j)
  have part: "length (right_part xs) = length xs - 2 ^ j" by (simp add: right_part_def j)
  show False
  proof (cases "m < 2 ^ j")
    case True
    then have "length (turns m (length xs)) = Suc j" by (simp add: turns turns_full)
    from climb_needs_leaves[OF assms less.prems(2)[symmetric] less.prems(4,5,6) this]
    have "2 ^ j < length (descend (Suc e) xs)" .
    with length_descend[of e "right_part xs"] part k show False by simp
  next
    case False
    then have ts: "turns m (length xs) = turns (m - 2 ^ j) (length (right_part xs)) @ [True]" by (simp add: turns part)
    with less.prems(2) obtain q s where p: "p = q @ [s]" "length (turns (m - 2 ^ j) (length (right_part xs))) = length q"
      by (metis length_append_singleton length_Suc_conv_rev nat.inject)
    note b = climb_back[OF assms less.prems(4) p(2) less.prems(5)[unfolded ts p] less.prems(6)[unfolded ts p]]
    have right: "right_part (descend e (right_part xs)) = descend e (right_part (right_part xs))"
      using descend_Suc[of e "right_part xs"] by simp
    show False
    proof (rule less.hyps[of "right_part xs" "m - 2 ^ j" q])
      show "length (right_part xs) < length xs" "m - 2 ^ j < length (right_part xs)"
        using False less.prems(1) part k by simp_all
      show "deep (Suc e) (right_part xs)" using less.prems(3) b(1) deep_Suc[of e "right_part xs"] by simp
      show "in_play leaf node L P (descend (Suc e) (right_part xs))"
        "climb node (turns (m - 2 ^ j) (length (right_part xs))) (leaf d) q = mth leaf node (descend (Suc e) (right_part xs))"
        using b(2,4) by (simp_all add: right_part_def[symmetric] right)
      show "climb_pairs node (turns (m - 2 ^ j) (length (right_part xs))) (leaf d) q \<subseteq> P" by (rule b(3))
    qed (simp add: p(2))
  qed
qed

lemma audit_path_pairs:
  "m < length xs \<Longrightarrow> climb_pairs node (turns m (length xs)) (leaf (xs ! m)) (audit_path leaf node m xs) \<subseteq> tree_pairs leaf node xs"
proof (induction leaf node m xs rule: audit_path.induct)
  case (1 leaf node m xs)
  show ?case
  proof (cases "length xs \<le> 1")
    case True
    then show ?thesis by (simp add: turns.simps audit_path.simps)
  next
    case False
    define k where "k = pow2_below (length xs)"
    with False have k: "k < length xs" "0 < k" using pow2_below_bounds[of "length xs"] by simp_all
    have turns: "turns m (length xs) = (if m < k then turns m k @ [False] else turns (m - k) (length xs - k) @ [True])"
      using False by (subst turns.simps) (simp add: Let_def k_def)
    have path: "audit_path leaf node m xs = (if m < k then audit_path leaf node m (take k xs) @ [mth leaf node (drop k xs)]
        else audit_path leaf node (m - k) (drop k xs) @ [mth leaf node (take k xs)])"
      using False by (subst audit_path.simps) (simp add: Let_def k_def)
    have pairs: "tree_pairs leaf node xs = insert (mth leaf node (take k xs), mth leaf node (drop k xs))
       (tree_pairs leaf node (take k xs) \<union> tree_pairs leaf node (drop k xs))"
      using False by (subst tree_pairs.simps) (simp add: Let_def k_def)
    show ?thesis
    proof (cases "m < k")
      case True
      with k have m: "m < length (take k xs)" and lk: "length (take k xs) = k" and nth: "xs ! m = take k xs ! m" by simp_all
      have len: "length (turns m k) = length (audit_path leaf node m (take k xs))" using length_audit_path[OF m, of leaf node] lk by simp
      have ih: "climb_pairs node (turns m k) (leaf (xs ! m)) (audit_path leaf node m (take k xs)) \<subseteq> tree_pairs leaf node (take k xs)"
        using 1(1)[OF k_def False True m] by (simp only: lk nth)
      have root: "climb node (turns m k) (leaf (xs ! m)) (audit_path leaf node m (take k xs)) = mth leaf node (take k xs)"
        using climb_audit_path[OF m, of node leaf] by (simp only: lk nth)
      have eqs: "turns m (length xs) = turns m k @ [False]"
        "audit_path leaf node m xs = audit_path leaf node m (take k xs) @ [mth leaf node (drop k xs)]"
        by (simp_all only: turns path True if_True)
      show ?thesis unfolding eqs pairs climb_pairs_append[OF len] root using ih by auto
    next
      case right: False
      with k "1.prems" have m: "m - k < length (drop k xs)" and lk: "length (drop k xs) = length xs - k"
        and nth: "xs ! m = drop k xs ! (m - k)" by simp_all
      have len: "length (turns (m - k) (length xs - k)) = length (audit_path leaf node (m - k) (drop k xs))"
        using length_audit_path[OF m, of leaf node] lk by simp
      have ih: "climb_pairs node (turns (m - k) (length xs - k)) (leaf (xs ! m)) (audit_path leaf node (m - k) (drop k xs))
          \<subseteq> tree_pairs leaf node (drop k xs)"
        using 1(2)[OF k_def False right m] by (simp only: lk nth)
      have root: "climb node (turns (m - k) (length xs - k)) (leaf (xs ! m)) (audit_path leaf node (m - k) (drop k xs))
          = mth leaf node (drop k xs)"
        using climb_audit_path[OF m, of node leaf] by (simp only: lk nth)
      have eqs: "turns m (length xs) = turns (m - k) (length xs - k) @ [True]"
        "audit_path leaf node m xs = audit_path leaf node (m - k) (drop k xs) @ [mth leaf node (take k xs)]"
        by (simp_all only: turns path right if_False)
      show ?thesis unfolding eqs pairs climb_pairs_append[OF len] root using ih by auto
    qed
  qed
qed

text \<open>The pairs the loop hashes.\<close>

definition loop_pairs :: "('h \<Rightarrow> 'h \<Rightarrow> 'h) \<Rightarrow> 'h \<Rightarrow> nat \<Rightarrow> nat \<Rightarrow> 'h list \<Rightarrow> ('h \<times> 'h) set" where
  "loop_pairs node cur fn sn p = climb_pairs node (turns_of (fn, sn) (length p)) cur p"

lemma inclusion_loop_sound:
  assumes free: "collision_free leaf node L P" and tree: "in_play leaf node L P xs" and "d \<in> L" "m < length xs"
    and loop: "inclusion_loop node (leaf d) m (length xs - 1) p = (mth leaf node xs, fn, 0)"
    and pairs: "loop_pairs node (leaf d) m (length xs - 1) p \<subseteq> P"
  shows "d = xs ! m \<and> p = audit_path leaf node m xs"
proof -
  let ?ts = "turns m (length xs)"
  have run: "climb node (turns_of (m, length xs - 1) (length p)) (leaf d) p = mth leaf node xs"
      "snd (steps (length p) (m, length xs - 1)) = 0"
    using loop by (simp_all add: inclusion_loop_climb)
  obtain e where e: "length p = length ?ts + e" "turns_of (m, length xs - 1) (length p) = ?ts @ replicate e True"
    using assms(4) run(2) by (rule loop_turns)
  define p1 p2 where "p1 = take (length ?ts) p" and "p2 = drop (length ?ts) p"
  have p: "p = p1 @ p2" "length p1 = length ?ts" "length p2 = e" using e(1) by (simp_all add: p1_def p2_def)
  let ?y = "climb node ?ts (leaf d) p1"
  have top: "climb node (replicate e True) ?y p2 = mth leaf node xs"
    using run(1)[unfolded e(2)] climb_append[OF p(2)[symmetric]] unfolding p(1) by metis
  have sub: "climb_pairs node ?ts (leaf d) p1 \<subseteq> P" "climb_pairs node (replicate e True) ?y p2 \<subseteq> P"
    using pairs[unfolded loop_pairs_def e(2)] climb_pairs_append[OF p(2)[symmetric]] unfolding p(1) by (metis Un_subset_iff)+
  have y: "deep e xs" "?y = mth leaf node (descend e xs)" "in_play leaf node L P (descend e xs)"
    using climb_right_spine[OF free p(3) tree top sub(2)] by simp_all
  have "e = 0"
  proof (cases e)
    case (Suc e')
    from no_extra_turns[OF free assms(4) p(2) y(1)[unfolded Suc] y(3)[unfolded Suc] y(2)[unfolded Suc] sub(1)]
    show ?thesis by simp
  qed
  with y(2) p have eq: "climb node ?ts (leaf d) p = climb node ?ts (leaf (xs ! m)) (audit_path leaf node m xs)"
    using climb_audit_path[OF assms(4), of node leaf] by simp
  have "climb_pairs node ?ts (leaf (xs ! m)) (audit_path leaf node m xs) \<subseteq> P"
    using audit_path_pairs[OF assms(4), of node leaf] tree by (auto simp: in_play_def)
  from climb_inj[OF free _ _ eq _ this] sub(1) p \<open>e = 0\<close> length_audit_path[OF assms(4), of leaf node]
  have "leaf d = leaf (xs ! m)" "p = audit_path leaf node m xs" by simp_all
  moreover have "xs ! m \<in> L" using assms(4) tree by (auto simp: in_play_def)
  ultimately show ?thesis using collision_freeD(1)[OF free assms(3)] by simp
qed

text \<open>A property every hash has holds of all hashed pairs.\<close>

lemma climb_pairs_all:
  assumes "\<And>a b. Q (node a b)"
  shows "Q cur \<Longrightarrow> list_all Q p \<Longrightarrow> climb_pairs node ts cur p \<subseteq> {(a, b). Q a \<and> Q b}"
proof (induction p arbitrary: ts cur)
  case (Cons s p)
  then show ?case using assms by (cases ts) (auto split: if_splits)
qed (case_tac ts; simp)

lemma mth_all: "(\<And>x. Q (leaf x)) \<Longrightarrow> (\<And>a b. Q (node a b)) \<Longrightarrow> Q (mth leaf node xs)"
  by (subst mth.simps) simp

lemma tree_pairs_all:
  assumes "\<And>x. Q (leaf x)" "\<And>a b. Q (node a b)"
  shows "tree_pairs leaf node xs \<subseteq> {(a, b). Q a \<and> Q b}"
  using assms
proof (induction leaf node xs rule: tree_pairs.induct)
  case (1 leaf node xs)
  show ?case
  proof (cases "length xs \<le> 1")
    case False
    note ih = 1(1)[OF refl False 1(3,4)] 1(2)[OF refl False 1(3,4)]
    show ?thesis using ih mth_all[of Q leaf node, OF 1(3,4)] by (subst tree_pairs.simps) (simp add: Let_def)
  qed (simp add: tree_pairs.simps)
qed

end
