(* ===== verification/Consistency.thy ===== *)
theory Consistency
  imports Merkle
begin

text \<open>
  Append-only growth of a Merkle tree: the loop by which \<^verbatim>\<open>verifier/transparency.py\<close> rebuilds an old and a new
  root from one path. What it accepts is a tree and one that starts with it, as long as no two hash inputs
  collide, and the consistency proof of RFC 6962 is always accepted.
\<close>

section \<open>The loop\<close>

text \<open>
  The loop of \<open>verify_consistency\<close> rebuilds two roots from one path: a right turn adds a sibling to both,
  a left turn only to the newer one. A hash beyond the root is an error (\<open>None\<close>).
\<close>

function strip_odd :: "nat \<Rightarrow> nat \<Rightarrow> nat \<times> nat" where
  "strip_odd fn sn = (if odd fn then strip_odd (fn div 2) (sn div 2) else (fn, sn))"
  by pat_completeness auto
termination by (relation "measure fst") (auto elim: oddE)

declare strip_odd.simps [simp del]

fun consistency_loop :: "('h \<Rightarrow> 'h \<Rightarrow> 'h) \<Rightarrow> 'h \<Rightarrow> 'h \<Rightarrow> nat \<Rightarrow> nat \<Rightarrow> 'h list \<Rightarrow> ('h \<times> 'h \<times> nat) option" where
  "consistency_loop node first second fn sn [] = Some (first, second, sn)"
| "consistency_loop node first second fn sn (sibling # path) =
     (if sn = 0 then None
      else if odd fn \<or> fn = sn
      then (case strip_even fn sn of (fn', sn') \<Rightarrow>
        consistency_loop node (node sibling first) (node sibling second) (fn' div 2) (sn' div 2) path)
      else consistency_loop node first (node second sibling) (fn div 2) (sn div 2) path)"

fun climb_rights :: "('h \<Rightarrow> 'h \<Rightarrow> 'h) \<Rightarrow> bool list \<Rightarrow> 'h \<Rightarrow> 'h list \<Rightarrow> 'h" where
  "climb_rights node (t # ts) cur (s # p) = climb_rights node ts (if t then node s cur else cur) p"
| "climb_rights node _ cur _ = cur"

fun rights_pairs :: "('h \<Rightarrow> 'h \<Rightarrow> 'h) \<Rightarrow> bool list \<Rightarrow> 'h \<Rightarrow> 'h list \<Rightarrow> ('h \<times> 'h) set" where
  "rights_pairs node (t # ts) cur (s # p) =
     (if t then insert (s, cur) (rights_pairs node ts (node s cur) p) else rights_pairs node ts cur p)"
| "rights_pairs node _ cur _ = {}"

lemma climb_rights_append:
  "length ts = length p \<Longrightarrow> climb_rights node (ts @ us) cur (p @ q) = climb_rights node us (climb_rights node ts cur p) q"
  by (induction ts p arbitrary: cur rule: list_induct2) simp_all

lemma rights_pairs_append:
  "length ts = length p \<Longrightarrow> rights_pairs node (ts @ us) cur (p @ q) =
    rights_pairs node ts cur p \<union> rights_pairs node us (climb_rights node ts cur p) q"
  by (induction ts p arbitrary: cur rule: list_induct2) simp_all

lemma all_less_Suc: "(\<forall>i < Suc n. Q i) \<longleftrightarrow> Q 0 \<and> (\<forall>i < n. Q (Suc i))"
  using less_Suc_eq_0_disj by auto

lemma consistency_loop_climb:
  "consistency_loop node a b fn sn p =
     (if \<forall>i < length p. snd (steps i (fn, sn)) \<noteq> 0
      then Some (climb_rights node (turns_of (fn, sn) (length p)) a p, climb node (turns_of (fn, sn) (length p)) b p,
        snd (steps (length p) (fn, sn)))
      else None)"
proof (induction p arbitrary: a b fn sn)
  case (Cons s p)
  show ?case
  proof (cases "odd fn \<or> fn = sn")
    case True
    then have "goes_right (fn, sn)" by (simp add: goes_right_def)
    with True show ?thesis by (cases "strip_even fn sn") (simp add: Cons.IH step_def all_less_Suc)
  next
    case False
    then have "\<not> goes_right (fn, sn)" by (simp add: goes_right_def)
    with False show ?thesis by (simp add: Cons.IH step_def all_less_Suc)
  qed
qed simp

text \<open>A root determines its tree.\<close>

lemma mth_inj:
  assumes "collision_free leaf node L P"
  shows "in_play leaf node L P xs \<Longrightarrow> in_play leaf node L P ys \<Longrightarrow> mth leaf node xs = mth leaf node ys \<Longrightarrow> xs = ys"
proof (induction "length xs" arbitrary: xs ys rule: less_induct)
  case less
  show ?case
  proof (cases "2 \<le> length xs")
    case True
    define k where "k = pow2_below (length xs)"
    define l where "l = pow2_below (length ys)"
    note x = in_play_node[OF less.prems(1) True k_def]
    have "mth leaf node ys = node (mth leaf node (take k xs)) (mth leaf node (drop k xs))" using x(1) less.prems(3) by simp
    note y = root_is_node[OF assms less.prems(2) this x(2) l_def]
    have k: "k < length xs" "0 < k" using pow2_below_bounds[OF True] k_def by simp_all
    have "take k xs = take l ys" "drop k xs = drop l ys"
      by (rule less.hyps; use k x y in_play_node(3,4)[OF less.prems(2) y(1) l_def] in simp)+
    then show ?thesis by (metis append_take_drop_id)
  next
    case False
    then obtain a where a: "xs = [a]" using less.prems(1) by (cases xs rule: remdups_adj.cases) (auto simp: in_play_def)
    have "\<not> 2 \<le> length ys"
    proof
      assume y: "2 \<le> length ys"
      from in_play_node(1,2)[OF less.prems(2) y refl] collision_freeD(3)[OF assms, of a] less.prems(1,3)
      show False by (simp add: a in_play_def mth.simps[of leaf node "[a]"])
    qed
    then obtain b where b: "ys = [b]" using less.prems(2) by (cases ys rule: remdups_adj.cases) (auto simp: in_play_def)
    from less.prems collision_freeD(1)[OF assms, of a b] show ?thesis by (simp add: a b in_play_def mth.simps)
  qed
qed

text \<open>Two roots rebuilt from one path belong to a tree and one that starts with it.\<close>

lemma climbs_prefix:
  assumes "collision_free leaf node L P"
  shows "length ts = length p \<Longrightarrow> in_play leaf node L P xs \<Longrightarrow> in_play leaf node L P ys \<Longrightarrow>
    climb_rights node ts c p = mth leaf node xs \<Longrightarrow> climb node ts c p = mth leaf node ys \<Longrightarrow>
    rights_pairs node ts c p \<subseteq> P \<Longrightarrow> climb_pairs node ts c p \<subseteq> P \<Longrightarrow> \<exists>zs. ys = xs @ zs"
proof (induction ts arbitrary: p xs ys rule: rev_induct)
  case Nil
  then show ?case using mth_inj[OF assms, of xs ys] by simp
next
  case (snoc t ts)
  then obtain q s where p: "p = q @ [s]" "length ts = length q" by (metis length_append_singleton length_Suc_conv_rev nat.inject)
  define k where "k = pow2_below (length ys)"
  note b = climb_back[OF assms snoc.prems(3) p(2) snoc.prems(5)[unfolded p] snoc.prems(7)[unfolded p], folded k_def]
  note n = in_play_node[OF snoc.prems(3) b(1) k_def]
  show ?case
  proof (cases t)
    case False
    have "\<exists>zs. take k ys = xs @ zs"
      by (rule snoc.IH[OF p(2) snoc.prems(2) n(3)])
        (use snoc.prems(4,6) b(2,3) False in \<open>simp_all add: p climb_rights_append rights_pairs_append\<close>)
    then show ?thesis by (metis append.assoc append_take_drop_id)
  next
    case True
    define l where "l = pow2_below (length xs)"
    let ?c = "climb_rights node ts c q"
    have root: "mth leaf node xs = node s ?c" and pair: "(s, ?c) \<in> P" "rights_pairs node ts c q \<subseteq> P"
      using snoc.prems(4,6) True by (simp_all add: p climb_rights_append rights_pairs_append)
    note x = root_is_node[OF assms snoc.prems(2) root pair(1) l_def]
    note x' = in_play_node[OF snoc.prems(2) x(1) l_def]
    have "mth leaf node ys = node s (climb node ts c q)" "(s, climb node ts c q) \<in> P"
      using snoc.prems(5,7) True by (simp_all add: p climb_snoc climb_pairs_append)
    note y = root_is_node[OF assms snoc.prems(3) this k_def]
    have same: "take l xs = take k ys" by (rule mth_inj[OF assms x'(3) n(3)]) (use x(2) y(2) in simp)
    have "\<exists>zs. drop k ys = drop l xs @ zs"
      by (rule snoc.IH[OF p(2) x'(4) n(4)]) (use x(3) y(3) pair(2) b(3) in simp_all)
    then obtain zs where "drop k ys = drop l xs @ zs" by blast
    then have "ys = xs @ zs" using same by (metis append.assoc append_take_drop_id)
    then show ?thesis by blast
  qed
qed

text \<open>The pairs the loop hashes for both roots.\<close>

definition consistency_pairs :: "('h \<Rightarrow> 'h \<Rightarrow> 'h) \<Rightarrow> 'h \<Rightarrow> nat \<Rightarrow> nat \<Rightarrow> 'h list \<Rightarrow> ('h \<times> 'h) set" where
  "consistency_pairs node c fn sn p = rights_pairs node (turns_of (fn, sn) (length p)) c p
     \<union> climb_pairs node (turns_of (fn, sn) (length p)) c p"

lemma consistency_loop_sound:
  assumes "collision_free leaf node L P" "in_play leaf node L P xs" "in_play leaf node L P ys"
    and "consistency_loop node c c fn sn p = Some (mth leaf node xs, mth leaf node ys, z)"
    and "consistency_pairs node c fn sn p \<subseteq> P"
  shows "\<exists>zs. ys = xs @ zs"
proof -
  have "climb_rights node (turns_of (fn, sn) (length p)) c p = mth leaf node xs"
      "climb node (turns_of (fn, sn) (length p)) c p = mth leaf node ys"
    using assms(4) by (simp_all add: consistency_loop_climb split: if_splits)
  moreover have "rights_pairs node (turns_of (fn, sn) (length p)) c p \<subseteq> P" "climb_pairs node (turns_of (fn, sn) (length p)) c p \<subseteq> P"
    using assms(5) by (auto simp: consistency_pairs_def)
  ultimately show ?thesis by (rule climbs_prefix[OF assms(1) length_turns_of assms(2,3)])
qed

lemma rights_pairs_all:
  assumes "\<And>a b. Q (node a b)"
  shows "Q cur \<Longrightarrow> list_all Q p \<Longrightarrow> rights_pairs node ts cur p \<subseteq> {(a, b). Q a \<and> Q b}"
proof (induction p arbitrary: ts cur)
  case (Cons s p)
  then show ?case using assms by (cases ts) (auto split: if_splits)
qed (case_tac ts; simp)

section \<open>Genuine consistency proofs\<close>

text \<open>The proof of RFC 6962 that the first \<open>m\<close> leaves are a tree of their own; \<open>b\<close> while the old root is the start.\<close>

function subproof :: "('d \<Rightarrow> 'h) \<Rightarrow> ('h \<Rightarrow> 'h \<Rightarrow> 'h) \<Rightarrow> bool \<Rightarrow> nat \<Rightarrow> 'd list \<Rightarrow> 'h list" where
  "subproof leaf node b m xs =
     (let k = pow2_below (length xs) in
      if length xs \<le> m \<or> length xs \<le> 1 then (if b then [] else [mth leaf node xs])
      else if m \<le> k then subproof leaf node b m (take k xs) @ [mth leaf node (drop k xs)]
      else subproof leaf node False (m - k) (drop k xs) @ [mth leaf node (take k xs)])"
  by pat_completeness auto
termination
proof (relation "measure (\<lambda>(leaf, node, b, m, xs). length xs)")
  show "wf (measure (\<lambda>(leaf, node, b, m, xs). length xs))" by simp
next
  fix leaf :: "'d \<Rightarrow> 'h" and node :: "'h \<Rightarrow> 'h \<Rightarrow> 'h" and b m and xs :: "'d list" and k
  assume "k = pow2_below (length xs)" "\<not> (length xs \<le> m \<or> length xs \<le> 1)"
  then show "((leaf, node, b, m, take k xs), (leaf, node, b, m, xs)) \<in> measure (\<lambda>(leaf, node, b, m, xs). length xs)"
    and "((leaf, node, False, m - k, drop k xs), (leaf, node, b, m, xs)) \<in> measure (\<lambda>(leaf, node, b, m, xs). length xs)"
    using pow2_below_bounds[of "length xs"] by (simp_all, linarith)
qed

declare subproof.simps [simp del]

text \<open>The trailing one bits of \<open>m - 1\<close>: the largest full subtree that ends at leaf \<open>m\<close> has \<open>2 ^ ones (m - 1)\<close> leaves.\<close>

function ones :: "nat \<Rightarrow> nat" where
  "ones m = (if odd m then Suc (ones (m div 2)) else 0)"
  by pat_completeness auto
termination by (relation "measure id") (auto elim: oddE)

declare ones.simps [simp del]

lemma ones_le: "2 ^ ones m \<le> Suc m"
proof (induction m rule: ones.induct)
  case (1 m)
  show ?case
  proof (cases "odd m")
    case True
    then have "(2 :: nat) ^ ones m = 2 * 2 ^ ones (m div 2)" by (subst ones.simps) simp
    moreover have "m = 2 * (m div 2) + 1" using True by simp
    ultimately show ?thesis using 1[OF True] by linarith
  qed (simp add: ones.simps[of m])
qed

lemma ones_full: "ones (2 ^ a - 1) = a"
proof (induction a)
  case (Suc a)
  have "1 \<le> (2 :: nat) ^ a" by simp
  then have "2 ^ Suc a - 1 = 2 * (2 ^ a - 1 :: nat) + 1" unfolding power_Suc by linarith
  then have "odd (2 ^ Suc a - 1 :: nat)" "(2 ^ Suc a - 1) div 2 = (2 ^ a - 1 :: nat)" by (simp_all only: even_Suc) simp_all
  with Suc show ?case by (subst ones.simps) (simp only: if_True not_False_eq_True)
qed (simp add: ones.simps)

lemma ones_lift: "Suc x < 2 ^ a \<Longrightarrow> ones (x + 2 ^ a) = ones x"
proof (induction x arbitrary: a rule: ones.induct)
  case (1 x)
  then obtain c where c: "a = Suc c" by (cases a) auto
  have half: "(x + 2 ^ a) div 2 = x div 2 + 2 ^ c" and par: "odd (x + 2 ^ a) = odd x" by (simp_all add: c)
  show ?case
  proof (cases "odd x")
    case True
    then have "Suc (x div 2) < 2 ^ c" using "1.prems" c by (auto elim: oddE)
    from 1(1)[OF True this] have "ones (x div 2 + 2 ^ c) = ones (x div 2)" .
    moreover have "ones (x + 2 ^ a) = Suc (ones (x div 2 + 2 ^ c))" by (subst ones.simps) (simp only: half par True if_True not_False_eq_True)
    moreover have "ones x = Suc (ones (x div 2))" by (subst ones.simps) (simp only: True if_True not_False_eq_True)
    ultimately show ?thesis by simp
  next
    case False
    have "ones (x + 2 ^ a) = 0" by (subst ones.simps) (simp only: par False if_False)
    moreover have "ones x = 0" by (subst ones.simps) (simp only: False if_False)
    ultimately show ?thesis by simp
  qed
qed

lemma pow2_below_unique:
  assumes "2 ^ a < n" "n \<le> 2 * 2 ^ a"
  shows "pow2_below n = 2 ^ a"
proof -
  have "1 \<le> (2 :: nat) ^ a" by simp
  with assms(1) have "2 \<le> n" by linarith
  note b = pow2_below_bounds[OF this]
  obtain j where j: "pow2_below n = 2 ^ j" using pow2_below_power by blast
  have "(2 :: nat) ^ j < 2 ^ Suc a" "(2 :: nat) ^ a < 2 ^ Suc j" using assms b j by simp_all
  then have "j < Suc a" "a < Suc j" by (simp_all only: power_strict_increasing_iff one_less_numeral_iff semiring_norm)
  with j show ?thesis by simp
qed

definition block :: "('d \<Rightarrow> 'h) \<Rightarrow> ('h \<Rightarrow> 'h \<Rightarrow> 'h) \<Rightarrow> nat \<Rightarrow> 'd list \<Rightarrow> 'h" where
  "block leaf node m xs = mth leaf node (take (2 ^ ones (m - 1)) (drop (m - 2 ^ ones (m - 1)) xs))"

definition walks :: "('d \<Rightarrow> 'h) \<Rightarrow> ('h \<Rightarrow> 'h \<Rightarrow> 'h) \<Rightarrow> nat \<Rightarrow> 'd list \<Rightarrow> bool list \<Rightarrow> 'h list \<Rightarrow> bool" where
  "walks leaf node m xs ts rest \<longleftrightarrow> length ts = length rest \<and>
     climb node ts (block leaf node m xs) rest = mth leaf node xs \<and>
     climb_rights node ts (block leaf node m xs) rest = mth leaf node (take m xs)"

lemma turns_cases:
  assumes "2 \<le> n" "pow2_below n = k"
  shows "m < k \<Longrightarrow> turns m n = turns m k @ [False]" "\<not> m < k \<Longrightarrow> turns m n = turns (m - k) (n - k) @ [True]"
  using assms by (subst turns.simps; simp add: Let_def)+

lemma mth_node:
  assumes "2 \<le> length xs" "pow2_below (length xs) = k"
  shows "mth leaf node xs = node (mth leaf node (take k xs)) (mth leaf node (drop k xs))"
  using assms by (subst mth.simps) simp

lemma block_take:
  assumes "0 < m" "m \<le> k"
  shows "block leaf node m (take k xs) = block leaf node m xs"
proof -
  define b :: nat where "b = 2 ^ ones (m - 1)"
  have "b \<le> m" using ones_le[of "m - 1"] assms(1) by (simp add: b_def)
  then have "b \<le> k - (m - b)" using assms(2) by linarith
  then have "take b (drop (m - b) (take k xs)) = take b (drop (m - b) xs)"
    by (simp add: drop_take min_absorb1)
  then show ?thesis by (simp only: block_def b_def)
qed

lemma block_drop:
  assumes "2 ^ a < m" "m < n" "n \<le> 2 * 2 ^ a"
  shows "ones (m - 1) = ones (m - 2 ^ a - 1)" "block leaf node (m - 2 ^ a) (drop (2 ^ a) xs) = block leaf node m xs"
proof -
  let ?k = "2 ^ a :: nat"
  have "Suc (m - ?k - 1) < 2 ^ a" "m - ?k - 1 + 2 ^ a = m - 1" using assms by linarith+
  from ones_lift[OF this(1)] this(2) show same: "ones (m - 1) = ones (m - ?k - 1)" by simp
  have le: "2 ^ ones (m - ?k - 1) \<le> m - ?k" using ones_le[of "m - ?k - 1"] assms(1) by simp
  then have "m - 2 ^ ones (m - ?k - 1) = ?k + (m - ?k - 2 ^ ones (m - ?k - 1))" using assms(1) by linarith
  then have "drop (m - ?k - 2 ^ ones (m - ?k - 1)) (drop ?k xs) = drop (m - 2 ^ ones (m - ?k - 1)) xs"
    by (simp add: add.commute)
  then show "block leaf node (m - ?k) (drop ?k xs) = block leaf node m xs" unfolding block_def same by simp
qed

lemma walks_left:
  assumes "2 \<le> length xs" "pow2_below (length xs) = k" "0 < m" "m \<le> k" "k < length xs" "walks leaf node m (take k xs) ts rest"
  shows "walks leaf node m xs (ts @ [False]) (rest @ [mth leaf node (drop k xs)])"
proof -
  note same = block_take[OF assms(3,4), of leaf node xs]
  have "take m (take k xs) = take m xs" using assms(4) by (simp add: min_absorb1)
  with assms(6) show ?thesis
    by (simp add: walks_def climb_append climb_rights_append mth_node[OF assms(1,2)] same)
qed

lemma walks_right:
  assumes "2 \<le> length xs" "pow2_below (length xs) = 2 ^ a" "2 ^ a < m" "m < length xs" "length xs \<le> 2 * 2 ^ a"
    and "walks leaf node (m - 2 ^ a) (drop (2 ^ a) xs) ts rest"
  shows "walks leaf node m xs (ts @ [True]) (rest @ [mth leaf node (take (2 ^ a) xs)])"
proof -
  let ?k = "2 ^ a :: nat"
  note blk = block_drop(2)[OF assms(3,4,5), of leaf node xs]
  have "1 \<le> ?k" by simp
  with assms(3) have m: "length (take m xs) = m" "2 \<le> m" using assms(4) by (simp, linarith)
  moreover have "pow2_below m = ?k" using assms by (intro pow2_below_unique) simp_all
  ultimately have "mth leaf node (take m xs) = node (mth leaf node (take ?k (take m xs))) (mth leaf node (drop ?k (take m xs)))"
    by (intro mth_node) simp_all
  moreover have "take ?k (take m xs) = take ?k xs" using assms(3) by (simp add: min_absorb1)
  moreover have "drop ?k (take m xs) = take (m - ?k) (drop ?k xs)" by (rule drop_take)
  ultimately have "mth leaf node (take m xs) = node (mth leaf node (take ?k xs)) (mth leaf node (take (m - ?k) (drop ?k xs)))" by simp
  with assms(6) show ?thesis
    by (simp add: walks_def climb_append climb_rights_append mth_node[OF assms(1,2)] blk)
qed

lemma subproof_walks:
  "0 < m \<Longrightarrow> m < length xs \<Longrightarrow>
    \<exists>rest. subproof leaf node False m xs = block leaf node m xs # rest \<and>
      ones (m - 1) \<le> length (turns (m - 1) (length xs)) \<and>
      walks leaf node m xs (drop (ones (m - 1)) (turns (m - 1) (length xs))) rest"
proof (induction "length xs" arbitrary: m xs rule: less_induct)
  case less
  have two: "2 \<le> length xs" using less.prems by linarith
  obtain a where a: "pow2_below (length xs) = 2 ^ a" using pow2_below_power by blast
  have k: "2 ^ a < length xs" "length xs \<le> 2 * 2 ^ a" using pow2_below_bounds[OF two] a by simp_all
  have sub: "subproof leaf node False m xs =
      (if m \<le> 2 ^ a then subproof leaf node False m (take (2 ^ a) xs) @ [mth leaf node (drop (2 ^ a) xs)]
       else subproof leaf node False (m - 2 ^ a) (drop (2 ^ a) xs) @ [mth leaf node (take (2 ^ a) xs)])"
    using two less.prems by (subst subproof.simps) (simp add: Let_def a)
  have lens: "length (take (2 ^ a) xs) = 2 ^ a" "length (drop (2 ^ a) xs) = length xs - 2 ^ a" using k by simp_all
  consider "m < 2 ^ a" | "m = 2 ^ a" | "2 ^ a < m" by linarith
  then show ?case
  proof cases
    case 1
    note t = turns_cases(1)[OF two a, of "m - 1"]
    from less.hyps[of "take (2 ^ a) xs" m] 1 less.prems k lens obtain rest where
      r: "subproof leaf node False m (take (2 ^ a) xs) = block leaf node m (take (2 ^ a) xs) # rest"
        "ones (m - 1) \<le> length (turns (m - 1) (2 ^ a))"
        "walks leaf node m (take (2 ^ a) xs) (drop (ones (m - 1)) (turns (m - 1) (2 ^ a))) rest" by auto
    then show ?thesis
      using walks_left[OF two a less.prems(1) _ k(1) r(3)] 1 t sub
      by (intro exI[of _ "rest @ [mth leaf node (drop (2 ^ a) xs)]"])
        (simp add: block_take[OF less.prems(1)])
  next
    case 2
    have "turns (m - 1) (length xs) = bits a (m - 1) @ [False]"
      using turns_cases(1)[OF two a, of "m - 1"] turns_full[of "m - 1" a] 2 less.prems(1) by simp
    moreover have "ones (m - 1) = a" using ones_full[of a] 2 by simp
    moreover have "subproof leaf node False m (take (2 ^ a) xs) = [mth leaf node (take (2 ^ a) xs)]"
      using 2 lens by (subst subproof.simps) simp
    moreover have "mth leaf node xs = node (mth leaf node (take (2 ^ a) xs)) (mth leaf node (drop (2 ^ a) xs))"
      using mth_node[OF two a] .
    ultimately show ?thesis using sub 2 by (simp add: block_def walks_def)
  next
    case 3
    have t: "turns (m - 1) (length xs) = turns (m - 2 ^ a - 1) (length xs - 2 ^ a) @ [True]"
      using turns_cases(2)[OF two a, of "m - 1"] 3 by (simp add: diff_commute)
    have pos: "0 < (2 :: nat) ^ a" by simp
    have small: "length xs - 2 ^ a < length xs" "0 < m - 2 ^ a" "m - 2 ^ a < length xs - 2 ^ a"
      using 3 less.prems pos by linarith+
    from less.hyps[of "drop (2 ^ a) xs" "m - 2 ^ a", unfolded lens(2), OF small] obtain rest where
      r: "subproof leaf node False (m - 2 ^ a) (drop (2 ^ a) xs) = block leaf node (m - 2 ^ a) (drop (2 ^ a) xs) # rest"
        "ones (m - 2 ^ a - 1) \<le> length (turns (m - 2 ^ a - 1) (length xs - 2 ^ a))"
        "walks leaf node (m - 2 ^ a) (drop (2 ^ a) xs) (drop (ones (m - 2 ^ a - 1)) (turns (m - 2 ^ a - 1) (length xs - 2 ^ a))) rest"
      by blast
    note b = block_drop[OF 3 less.prems(2) k(2)]
    show ?thesis unfolding t b(1)
      using walks_right[OF two a 3 less.prems(2) k(2) r(3)] r(1,2) 3 sub
      by (intro exI[of _ "rest @ [mth leaf node (take (2 ^ a) xs)]"]) (simp add: b(2))
  qed
qed

lemma subproof_True:
  "0 < m \<Longrightarrow> m < length xs \<Longrightarrow> subproof leaf node True m xs =
    (if 2 ^ ones (m - 1) = m then tl (subproof leaf node False m xs) else subproof leaf node False m xs)"
proof (induction "length xs" arbitrary: xs rule: less_induct)
  case less
  have two: "2 \<le> length xs" using less.prems by linarith
  obtain a where a: "pow2_below (length xs) = 2 ^ a" using pow2_below_power by blast
  have k: "2 ^ a < length xs" "length xs \<le> 2 * 2 ^ a" using pow2_below_bounds[OF two] a by simp_all
  have sub: "subproof leaf node b m xs =
      (if m \<le> 2 ^ a then subproof leaf node b m (take (2 ^ a) xs) @ [mth leaf node (drop (2 ^ a) xs)]
       else subproof leaf node False (m - 2 ^ a) (drop (2 ^ a) xs) @ [mth leaf node (take (2 ^ a) xs)])" for b
    using two less.prems by (subst subproof.simps) (simp add: Let_def a)
  have len: "length (take (2 ^ a) xs) = 2 ^ a" using k by simp
  consider "m < 2 ^ a" | "m = 2 ^ a" | "2 ^ a < m" by linarith
  then show ?case
  proof cases
    case 1
    have "subproof leaf node False m (take (2 ^ a) xs) \<noteq> []"
      using subproof_walks[of m "take (2 ^ a) xs" leaf node] 1 less.prems len by auto
    moreover note less.hyps[of "take (2 ^ a) xs"]
    ultimately show ?thesis using 1 less.prems(1) k len by (simp add: sub)
  next
    case 2
    then have "2 ^ ones (m - 1) = m" using ones_full[of a] by simp
    moreover have "subproof leaf node b m (take (2 ^ a) xs) = (if b then [] else [mth leaf node (take (2 ^ a) xs)])" for b
      using 2 len by (subst subproof.simps) simp
    ultimately show ?thesis using 2 unfolding sub by simp
  next
    case 3
    have "2 ^ ones (m - 2 ^ a - 1) \<le> m - 2 ^ a" using ones_le[of "m - 2 ^ a - 1"] 3 by simp
    moreover have "m - 2 ^ a < m" using 3 by (intro diff_less) simp_all
    ultimately have "2 ^ ones (m - 1) \<noteq> m" using block_drop(1)[OF 3 less.prems(2) k(2)] by (metis leD)
    with 3 show ?thesis by (simp add: sub)
  qed
qed

lemma strip_odd_steps: "strip_odd m n = steps (ones m) (m, n)"
proof (induction m n rule: strip_odd.induct)
  case (1 m n)
  show ?case
  proof (cases "odd m")
    case True
    then have "step (m, n) = (m div 2, n div 2)" by (simp add: step_def goes_right_def strip_even_odd)
    with 1[OF True] True show ?thesis by (simp add: strip_odd.simps[of m] ones.simps[of m])
  qed (simp add: strip_odd.simps ones.simps)
qed

lemma strip_odd_zero: "fst (strip_odd m n) = 0 \<longleftrightarrow> 2 ^ ones m = Suc m"
proof (induction m n rule: strip_odd.induct)
  case (1 m n)
  show ?case
  proof (cases "odd m")
    case True
    have "fst (strip_odd m n) = fst (strip_odd (m div 2) (n div 2))" "(2 :: nat) ^ ones m = 2 * 2 ^ ones (m div 2)"
      using True by (subst strip_odd.simps, simp, subst ones.simps, simp)
    moreover have "m = 2 * (m div 2) + 1" using True by simp
    ultimately show ?thesis using 1[OF True] by linarith
  qed (simp add: strip_odd.simps ones.simps)
qed

text \<open>Where the loop starts, and the hashes it still reads.\<close>

definition consistency_start :: "nat \<Rightarrow> 'h \<Rightarrow> 'h list \<Rightarrow> 'h \<times> 'h list" where
  "consistency_start fn old_root path = (if fn = 0 then (old_root, path) else (hd path, tl path))"

lemma consistency_loop_complete:
  assumes "0 < m" "m < length xs" "strip_odd (m - 1) (length xs - 1) = (fn, sn)"
    and "consistency_start fn (mth leaf node (take m xs)) (subproof leaf node True m xs) = (c, rest)"
  shows "consistency_loop node c c fn sn rest = Some (mth leaf node (take m xs), mth leaf node xs, 0)"
    "fn = 0 \<or> subproof leaf node True m xs \<noteq> []"
proof -
  let ?j = "ones (m - 1)" and ?ts = "turns (m - 1) (length xs)"
  obtain r where r: "subproof leaf node False m xs = block leaf node m xs # r" "?j \<le> length ?ts"
      "walks leaf node m xs (drop ?j ?ts) r"
    using subproof_walks[OF assms(1,2), of leaf node] by blast
  have zero: "fn = 0 \<longleftrightarrow> 2 ^ ?j = m" using strip_odd_zero[of "m - 1" "length xs - 1"] assms(1,3) by simp
  have "block leaf node m xs = mth leaf node (take m xs)" if "2 ^ ?j = m" using that by (simp add: block_def)
  then have c: "c = block leaf node m xs" "rest = r"
    using assms(4) r(1) by (auto simp: consistency_start_def zero subproof_True[OF assms(1,2)] split: if_splits)
  show "fn = 0 \<or> subproof leaf node True m xs \<noteq> []" using r(1) by (simp add: zero subproof_True[OF assms(1,2)])
  have start: "steps ?j (m - 1, length xs - 1) = (fn, sn)" using assms(3) by (simp add: strip_odd_steps)
  have "length (drop ?j ?ts) = length r" using r(3) unfolding walks_def by blast
  with r(2) have len: "length ?ts = ?j + length r" unfolding length_drop by linarith
  have less: "m - 1 < length xs" using assms(1,2) by simp
  note st = steps_turns[OF less, unfolded len]
  have "steps (length r) (fn, sn) = (0, 0)" using st by (simp add: steps_add start[unfolded One_nat_def])
  moreover have "turns_of (fn, sn) (length r) = drop ?j ?ts"
  proof -
    have "turns_of (m - 1, length xs - 1) ?j @ turns_of (fn, sn) (length r) = ?ts"
      using st turns_of_add[of "(m - 1, length xs - 1)" ?j "length r"] start by metis
    then show ?thesis by (metis append_eq_conv_conj length_turns_of)
  qed
  moreover have "snd (steps i (fn, sn)) \<noteq> 0" if "i < length r" for i
  proof -
    have "snd (steps (?j + i) (m - 1, length xs - 1)) \<noteq> 0" using st that by simp
    then show ?thesis by (simp only: steps_add start not_False_eq_True)
  qed
  ultimately show "consistency_loop node c c fn sn rest = Some (mth leaf node (take m xs), mth leaf node xs, 0)"
    using r(3) by (simp add: consistency_loop_climb c walks_def)
qed

end
