(* ===== verification/Transparency.thy ===== *)
theory Transparency
  imports Consistency Samples
begin

text \<open>
  Offline verification of transparency-log evidence (\<^verbatim>\<open>verifier/transparency.py\<close>): the parsers of checkpoints
  and proofs, the selection of the pinned key, and the five verifications. The log's tree is the reference
  tree of \<open>Merkle\<close> over the SHA-256 of the dependencies; the \<open>cryptography\<close> package is the parameter
  \<open>ed25519\<close>, \<open>None\<close> where it cannot be imported (the message for that is kept up to its dash).
\<close>

section \<open>Errors\<close>

datatype tv_error = TransparencyVerificationError (tv_code: string) (tv_message: string) | Escaped exn

type_synonym 'a tv = "(tv_error, 'a) result"

text \<open>\<open>raise _error(code, message)\<close>, an exception nobody catches, and \<open>except ValueError\<close>.\<close>

definition fail :: "string \<Rightarrow> string \<Rightarrow> 'a tv" where
  "fail code message = Inl (TransparencyVerificationError code message)"

definition escaping :: "'a res \<Rightarrow> 'a tv" where
  "escaping m = (case m of Inr x \<Rightarrow> Inr x | Inl e \<Rightarrow> Inl (Escaped e))"

definition on_value_error :: "deps \<Rightarrow> string \<Rightarrow> string \<Rightarrow> 'a res \<Rightarrow> 'a tv" where
  "on_value_error D code message m = (case m of Inr x \<Rightarrow> Inr x
     | Inl (Raise c t) \<Rightarrow> if is_value_error D c then fail code message else Inl (Escaped (Raise c t))
     | Inl e \<Rightarrow> Inl (Escaped e))"

lemma fail_not_Inr [simp]: "fail code message \<noteq> Inr x" "Inr x \<noteq> fail code message"
  by (simp_all add: fail_def)

lemma escaping_Inr [simp]: "escaping m = Inr x \<longleftrightarrow> m = Inr x" "escaping (Inr x) = Inr x"
  by (cases m; simp add: escaping_def)+

lemma on_value_error_Inr [simp]: "on_value_error D code message m = Inr x \<longleftrightarrow> m = Inr x"
  "on_value_error D code message (Inr x) = Inr x"
  by (cases m; simp add: on_value_error_def split: exn.splits)+

section \<open>Results\<close>

record verified_checkpoint =
  vc_log :: party_ref
  vc_tree_size :: nat
  vc_root_hash :: string
  vc_issued_at :: datetime
  vc_key_id :: string

record verified_inclusion =
  vi_log_id :: string
  vi_tree_size :: nat
  vi_leaf_index :: nat
  vi_leaf_digest :: digest_spec
  vi_checkpoint :: "verified_checkpoint option"

record verified_consistency =
  vn_log_id :: string
  vn_old_tree_size :: nat
  vn_new_tree_size :: nat

record verified_monitor_update =
  vu_previous :: verified_checkpoint
  vu_current :: verified_checkpoint
  vu_consistency :: verified_consistency

section \<open>Field checks\<close>

definition require_mapping :: "json \<Rightarrow> string \<Rightarrow> string \<Rightarrow> dict tv" where
  "require_mapping v field_name code = (case v of JObj d \<Rightarrow> Inr d
     | _ \<Rightarrow> fail code (field_name @ '' must be a JSON object''))"

definition require_string :: "json \<Rightarrow> string \<Rightarrow> string \<Rightarrow> string tv" where
  "require_string v field_name code = (case v of
       JStr s \<Rightarrow> if s \<noteq> [] then Inr s else fail code (field_name @ '' must be a non-empty string'')
     | _ \<Rightarrow> fail code (field_name @ '' must be a non-empty string''))"

definition require_nonnegative_int :: "json \<Rightarrow> string \<Rightarrow> string \<Rightarrow> nat tv" where
  "require_nonnegative_int v field_name code = (case v of
       JInt i \<Rightarrow> if i < 0 then fail code (field_name @ '' must be a non-negative integer'') else Inr (nat i)
     | _ \<Rightarrow> fail code (field_name @ '' must be a non-negative integer''))"

text \<open>\<open>bytes.fromhex\<close> on the lowercase digits the pattern lets through.\<close>

definition is_hex256 :: "string \<Rightarrow> bool" where
  "is_hex256 s \<longleftrightarrow> length s = 64 \<and> list_all is_hex_lower s"

definition hex_val :: "char \<Rightarrow> nat" where
  "hex_val c = (let n = of_char c in if n < 58 then n - 48 else n - 87)"

fun from_hex :: "string \<Rightarrow> string" where
  "from_hex (a # b # s) = char_of (hex_val a * 16 + hex_val b) # from_hex s"
| "from_hex _ = []"

definition parse_hex_hash :: "json \<Rightarrow> string \<Rightarrow> string \<Rightarrow> string tv" where
  "parse_hex_hash v field_name code = bindR (require_string v field_name code) (\<lambda>raw.
     if \<not> is_hex256 raw then fail code (field_name @ '' must be a lowercase 64-character SHA-256 hex value'')
     else Inr (from_hex raw))"

definition parse_digest :: "deps \<Rightarrow> json \<Rightarrow> string \<Rightarrow> digest_spec tv" where
  "parse_digest D v field_name =
     bindR (require_mapping v field_name ''INVALID_LEAF_DIGEST'') (\<lambda>data.
     bindR (require_string (get_or_null data ''algorithm'') (field_name @ ''.algorithm'') ''INVALID_LEAF_DIGEST'') (\<lambda>algorithm.
     bindR (require_string (get_or_null data ''canonicalization'') (field_name @ ''.canonicalization'') ''INVALID_LEAF_DIGEST'') (\<lambda>canonicalization.
     bindR (require_string (get_or_null data ''value'') (field_name @ ''.value'') ''INVALID_LEAF_DIGEST'') (\<lambda>digest_value.
     if algorithm \<noteq> ''sha-256'' \<or> canonicalization \<notin> set (dep_accepted_profiles D) \<or> \<not> is_hex256 digest_value
     then fail ''INVALID_LEAF_DIGEST'' ''leaf digest must declare sha-256, a known canonicalization profile, and a lowercase 64-character hex value''
     else Inr \<lparr>dg_algorithm = algorithm, dg_canonicalization = canonicalization, dg_value = digest_value\<rparr>))))"

text \<open>The digest argument: a \<open>DigestSpec\<close>, or another value (for an object with \<open>to_dict\<close>, what that returns).\<close>

datatype digest_arg = DigestArg digest_spec | ValueArg json

fun resolve_digest :: "deps \<Rightarrow> digest_arg \<Rightarrow> digest_spec tv" where
  "resolve_digest D (DigestArg d) = parse_digest D (JObj (digest_to_dict d)) ''digest''"
| "resolve_digest D (ValueArg v) = parse_digest D v ''digest''"

definition parse_hash_spec :: "json \<Rightarrow> string \<Rightarrow> string \<Rightarrow> string tv" where
  "parse_hash_spec v field_name code = bindR (require_mapping v field_name code) (\<lambda>data.
     if get_or_null data ''algorithm'' \<noteq> JStr ''sha-256'' \<or> get_or_null data ''encoding'' \<noteq> JStr ''hex''
     then fail code (field_name @ '' must declare sha-256 with hex encoding'')
     else parse_hex_hash (get_or_null data ''value'') (field_name @ ''.value'') code)"

definition parse_hash_path :: "json \<Rightarrow> string \<Rightarrow> string \<Rightarrow> string list tv" where
  "parse_hash_path v field_name code = (case v of
       JArr items \<Rightarrow> mapR (\<lambda>(index, item). parse_hex_hash item (field_name @ ''['' @ show_nat index @ '']'') code) (enumerate 0 items)
     | _ \<Rightarrow> fail code (field_name @ '' must be an array''))"

definition is_base64url_char :: "char \<Rightarrow> bool" where
  "is_base64url_char c \<longleftrightarrow> b64_val c \<noteq> None \<and> c \<notin> {CHR ''+'', CHR ''/''}"

definition decode_base64url :: "deps \<Rightarrow> string \<Rightarrow> string \<Rightarrow> string \<Rightarrow> string tv" where
  "decode_base64url D v field_name code =
     (if v = [] \<or> \<not> list_all is_base64url_char v then fail code (field_name @ '' must be unpadded base64url'')
      else on_value_error D code (field_name @ '' must be unpadded base64url'') (b64url_decode v))"

definition parse_uses :: "json \<Rightarrow> json list tv" where
  "parse_uses v = (let uses = (case v of JStr s \<Rightarrow> [v] | JArr xs \<Rightarrow> xs | JTup xs \<Rightarrow> xs | _ \<Rightarrow> []) in
     if uses = [] \<or> list_ex (\<lambda>item. case item of JStr s \<Rightarrow> s = [] | _ \<Rightarrow> True) uses
     then fail ''TRUSTED_KEYS_INVALID'' ''trusted key use must be a non-empty string or array of strings''
     else Inr uses)"

definition parse_log_timestamp :: "deps \<Rightarrow> json \<Rightarrow> string \<Rightarrow> string \<Rightarrow> datetime tv" where
  "parse_log_timestamp D v field_name code =
     on_value_error D code (field_name @ '' must be an RFC3339 timestamp'') (parse_timestamp v field_name)"

text \<open>Leaf and node hashes, separated by their first byte.\<close>

definition leaf_hash :: "deps \<Rightarrow> string \<Rightarrow> string" where
  "leaf_hash D bytes = dep_sha256 D (CHR 0x00 # bytes)"

definition node_hash :: "deps \<Rightarrow> string \<Rightarrow> string \<Rightarrow> string" where
  "node_hash D left right = dep_sha256 D (CHR 0x01 # left @ right)"

section \<open>Checkpoints\<close>

text \<open>What \<open>_parse_checkpoint\<close> returns.\<close>

record parsed_checkpoint =
  ck_log :: party_ref
  ck_tree_size :: nat
  ck_root :: string
  ck_issued_at_raw :: string
  ck_issued_at :: datetime
  ck_signature :: signature_spec

definition CHECKPOINT_CONTRACT :: dict where
  "CHECKPOINT_CONTRACT = [(''name'', JStr ''transparency_checkpoint''), (''version'', JStr ''v1'')]"

definition INCLUSION_PROOF_CONTRACT :: dict where
  "INCLUSION_PROOF_CONTRACT = [(''name'', JStr ''transparency_inclusion_proof''), (''version'', JStr ''v1'')]"

definition CONSISTENCY_PROOF_CONTRACT :: dict where
  "CONSISTENCY_PROOF_CONTRACT = [(''name'', JStr ''transparency_consistency_proof''), (''version'', JStr ''v1'')]"

definition parse_checkpoint :: "deps \<Rightarrow> dict \<Rightarrow> parsed_checkpoint tv" where
  "parse_checkpoint D checkpoint =
     bindR (require_mapping (get_or_null checkpoint ''contract'') ''checkpoint.contract'' ''INVALID_CHECKPOINT'') (\<lambda>contract.
     if \<not> dict_eq contract CHECKPOINT_CONTRACT
     then fail ''INVALID_CHECKPOINT'' ''checkpoint contract must declare transparency_checkpoint v1''
     else
     bindR (on_value_error D ''INVALID_CHECKPOINT'' ''checkpoint log or signature is invalid''
       (party_from_dict (get_or_null checkpoint ''log'') ''checkpoint.log'')) (\<lambda>log.
     bindR (on_value_error D ''INVALID_CHECKPOINT'' ''checkpoint log or signature is invalid''
       (signature_from_dict (get_or_null checkpoint ''signature''))) (\<lambda>signature.
     bindR (require_nonnegative_int (get_or_null checkpoint ''tree_size'') ''checkpoint.tree_size'' ''INVALID_CHECKPOINT'') (\<lambda>tree_size.
     bindR (parse_hash_spec (get_or_null checkpoint ''root_hash'') ''checkpoint.root_hash'' ''INVALID_CHECKPOINT'') (\<lambda>root_hash.
     bindR (require_string (get_or_null checkpoint ''issued_at'') ''checkpoint.issued_at'' ''INVALID_CHECKPOINT'') (\<lambda>issued_at_raw.
     bindR (parse_log_timestamp D (JStr issued_at_raw) ''checkpoint.issued_at'' ''INVALID_CHECKPOINT'') (\<lambda>issued_at.
     Inr \<lparr>ck_log = log, ck_tree_size = tree_size, ck_root = root_hash, ck_issued_at_raw = issued_at_raw,
       ck_issued_at = issued_at, ck_signature = signature\<rparr>)))))))"

definition checkpoint_statement :: "parsed_checkpoint \<Rightarrow> dict" where
  "checkpoint_statement ck = [(''context'', JStr ''actenon.transparency-checkpoint.v1''),
     (''log'', JObj (party_to_dict (ck_log ck))), (''tree_size'', JInt (int (ck_tree_size ck))),
     (''root_hash'', JObj [(''algorithm'', JStr ''sha-256''), (''encoding'', JStr ''hex''),
       (''value'', JStr (hex_of_bytes (ck_root ck)))]),
     (''issued_at'', JStr (ck_issued_at_raw ck))]"

text \<open>One bound of the validity window of a key.\<close>

definition check_key_bound :: "deps \<Rightarrow> dict \<Rightarrow> datetime \<Rightarrow> string \<Rightarrow> bool \<Rightarrow> string \<Rightarrow> unit tv" where
  "check_key_bound D key issued_at field_name inclusive message =
     (if get_or_null key field_name = JNull then Inr ()
      else bindR (parse_log_timestamp D (get_or_null key field_name) (''keys[].'' @ field_name) ''TRUSTED_KEYS_INVALID'') (\<lambda>bound.
        if (\<not> inclusive \<and> issued_at < bound) \<or> (inclusive \<and> bound \<le> issued_at)
        then fail ''KEY_NOT_VALID'' message else Inr ()))"

fun matching_keys :: "string \<Rightarrow> json list \<Rightarrow> dict list" where
  "matching_keys key_id [] = []"
| "matching_keys key_id (JObj d # items) =
     (if get_or_null d ''key_id'' = JStr key_id then d # matching_keys key_id items else matching_keys key_id items)"
| "matching_keys key_id (item # items) = matching_keys key_id items"

text \<open>The checks on the one key whose id matches.\<close>

definition check_checkpoint_key :: "deps \<Rightarrow> signature_spec \<Rightarrow> datetime \<Rightarrow> dict \<Rightarrow> dict tv" where
  "check_checkpoint_key D signature issued_at key =
     (if get_or_null key ''algorithm'' \<noteq> JStr (sg_algorithm signature)
      then fail ''SIGNATURE_INVALID'' ''trusted key algorithm does not match the checkpoint signature''
      else bindR (parse_uses (get_or_null key ''use'')) (\<lambda>uses.
        if JStr ''transparency_checkpoint'' \<notin> set uses
        then fail ''KEY_PURPOSE_MISMATCH'' ''trusted key is not authorized for transparency checkpoints''
        else if \<not> hashable (get_or_null key ''status'') then Inl (Escaped (Raise TypeError ''unhashable type''))
        else if get_or_null key ''status'' \<notin> {JStr ''active'', JStr ''retired''}
        then fail ''KEY_NOT_VALID'' ''trusted checkpoint key is not active or retired''
        else
        bindR (check_key_bound D key issued_at ''not_before'' False ''trusted checkpoint key was not valid at signing time'') (\<lambda>_.
        bindR (check_key_bound D key issued_at ''expires_at'' True ''trusted checkpoint key was expired at signing time'') (\<lambda>_.
        bindR (check_key_bound D key issued_at ''revoked_at'' True ''trusted checkpoint key was revoked at signing time'') (\<lambda>_.
        Inr key)))))"

definition select_checkpoint_key :: "deps \<Rightarrow> dict \<Rightarrow> party_ref \<Rightarrow> signature_spec \<Rightarrow> datetime \<Rightarrow> dict tv" where
  "select_checkpoint_key D trusted_keys log_party signature issued_at =
     bindR (require_mapping (get_or_null trusted_keys ''contract'') ''trusted_keys.contract'' ''TRUSTED_KEYS_INVALID'') (\<lambda>contract.
     if get_or_null contract ''name'' \<noteq> JStr ''key_discovery'' \<or> get_or_null contract ''version'' \<noteq> JStr ''v1''
     then fail ''TRUSTED_KEYS_INVALID'' ''trusted key set must declare key_discovery v1''
     else
     bindR (on_value_error D ''TRUSTED_KEYS_INVALID'' ''trusted key-set issuer is invalid''
       (party_from_dict (get_or_null trusted_keys ''issuer'') ''trusted_keys.issuer'')) (\<lambda>issuer.
     if (pa_type issuer, pa_id issuer) \<noteq> (pa_type log_party, pa_id log_party)
     then fail ''LOG_IDENTITY_MISMATCH'' ''checkpoint log identity does not match the trusted key-set issuer''
     else (case get_or_null trusted_keys ''keys'' of
         JArr (item # items) \<Rightarrow>
           (case matching_keys (sg_key_id signature) (item # items) of
              [] \<Rightarrow> fail ''UNKNOWN_KEY_ID'' ''no trusted checkpoint key matched key_id''
            | [key] \<Rightarrow> check_checkpoint_key D signature issued_at key
            | _ \<Rightarrow> fail ''TRUSTED_KEYS_INVALID'' ''trusted key set contains duplicate key_id'')
       | _ \<Rightarrow> fail ''TRUSTED_KEYS_INVALID'' ''trusted key set must contain a non-empty keys array'')))"

type_synonym ed25519 = "(string \<Rightarrow> string \<Rightarrow> string \<Rightarrow> bool) option"

text \<open>The public key of a selected entry.\<close>

definition checkpoint_public_key :: "deps \<Rightarrow> signature_spec \<Rightarrow> dict \<Rightarrow> string tv" where
  "checkpoint_public_key D signature key =
     bindR (require_mapping (get_or_null key ''public_key_jwk'') ''keys[].public_key_jwk'' ''TRUSTED_KEYS_INVALID'') (\<lambda>jwk.
     if get_or_null jwk ''kty'' \<noteq> JStr ''OKP'' \<or> get_or_null jwk ''crv'' \<noteq> JStr ''Ed25519''
        \<or> get_or_null jwk ''kid'' \<notin> {JNull, JStr (sg_key_id signature)}
        \<or> get_or_null jwk ''alg'' \<notin> {JNull, JStr ''EdDSA''}
     then fail ''TRUSTED_KEYS_INVALID'' ''checkpoint key must be an Ed25519 OKP JWK matching signature.key_id''
     else bindR (require_string (get_or_null jwk ''x'') ''public_key_jwk.x'' ''TRUSTED_KEYS_INVALID'') (\<lambda>x.
       decode_base64url D x ''public_key_jwk.x'' ''TRUSTED_KEYS_INVALID''))"

definition verify_checkpoint_signature :: "deps \<Rightarrow> ed25519 \<Rightarrow> dict \<Rightarrow> dict \<Rightarrow> verified_checkpoint tv" where
  "verify_checkpoint_signature D ed25519 checkpoint trusted_keys =
     bindR (parse_checkpoint D checkpoint) (\<lambda>ck. let signature = ck_signature ck in
     if sg_algorithm signature \<noteq> ''EdDSA'' \<or> sg_encoding signature \<noteq> ''base64url''
     then fail ''UNSUPPORTED_ALGORITHM'' ''transparency checkpoint v1 supports EdDSA/Ed25519 with base64url encoding''
     else
     bindR (select_checkpoint_key D trusted_keys (ck_log ck) signature (ck_issued_at ck)) (\<lambda>key.
     bindR (checkpoint_public_key D signature key) (\<lambda>public_key_bytes.
     bindR (decode_base64url D (sg_value signature) ''checkpoint.signature.value'' ''SIGNATURE_INVALID'') (\<lambda>signature_bytes.
     if length public_key_bytes \<noteq> 32 \<or> length signature_bytes \<noteq> 64
     then fail ''SIGNATURE_INVALID'' ''checkpoint key or signature has an invalid Ed25519 length''
     else (case ed25519 of
         None \<Rightarrow> fail ''CRYPTO_BACKEND_UNAVAILABLE'' ''Ed25519 verification requires the 'cryptography' package''
       | Some verify \<Rightarrow>
           bindR (escaping (canonicalize_bytes D (JObj (checkpoint_statement ck)))) (\<lambda>message.
           if \<not> verify public_key_bytes signature_bytes message
           then fail ''SIGNATURE_INVALID'' ''transparency checkpoint signature could not be verified''
           else Inr \<lparr>vc_log = ck_log ck, vc_tree_size = ck_tree_size ck, vc_root_hash = hex_of_bytes (ck_root ck),
             vc_issued_at = ck_issued_at ck, vc_key_id = sg_key_id signature\<rparr>))))))"

section \<open>Inclusion\<close>

definition verify_inclusion :: "deps \<Rightarrow> digest_arg \<Rightarrow> json \<Rightarrow> dict \<Rightarrow> verified_inclusion tv" where
  "verify_inclusion D digest inclusion_proof checkpoint =
     bindR (resolve_digest D digest) (\<lambda>expected_digest.
     bindR (require_mapping inclusion_proof ''inclusion_proof'' ''INVALID_INCLUSION_PROOF'') (\<lambda>proof.
     bindR (require_mapping (get_or_null proof ''contract'') ''inclusion_proof.contract'' ''INVALID_INCLUSION_PROOF'') (\<lambda>contract.
     if \<not> dict_eq contract INCLUSION_PROOF_CONTRACT
     then fail ''INVALID_INCLUSION_PROOF'' ''proof contract must declare transparency_inclusion_proof v1''
     else if get_or_null proof ''hash_algorithm'' \<noteq> JStr ''sha-256''
     then fail ''INVALID_INCLUSION_PROOF'' ''inclusion proof hash_algorithm must be sha-256''
     else
     bindR (parse_digest D (get_or_null proof ''leaf_digest'') ''inclusion_proof.leaf_digest'') (\<lambda>observed_digest.
     if observed_digest \<noteq> expected_digest
     then fail ''LEAF_DIGEST_MISMATCH'' ''inclusion proof leaf digest does not match the supplied digest''
     else
     bindR (require_string (get_or_null proof ''log_id'') ''inclusion_proof.log_id'' ''INVALID_INCLUSION_PROOF'') (\<lambda>log_id.
     bindR (require_nonnegative_int (get_or_null proof ''tree_size'') ''inclusion_proof.tree_size'' ''INVALID_INCLUSION_PROOF'') (\<lambda>tree_size.
     bindR (require_nonnegative_int (get_or_null proof ''leaf_index'') ''inclusion_proof.leaf_index'' ''INVALID_INCLUSION_PROOF'') (\<lambda>leaf_index.
     if tree_size = 0 \<or> tree_size \<le> leaf_index
     then fail ''INVALID_INCLUSION_PROOF'' ''leaf_index must identify a leaf within the non-empty proof tree''
     else
     bindR (parse_hash_path (get_or_null proof ''audit_path'') ''inclusion_proof.audit_path'' ''INVALID_INCLUSION_PROOF'') (\<lambda>path.
     bindR (parse_checkpoint D checkpoint) (\<lambda>ck.
     if pa_id (ck_log ck) \<noteq> log_id \<or> ck_tree_size ck \<noteq> tree_size
     then fail ''CHECKPOINT_MISMATCH'' ''inclusion proof log or tree size does not match the checkpoint''
     else (case inclusion_loop (node_hash D) (leaf_hash D (from_hex (dg_value expected_digest))) leaf_index (tree_size - 1) path of
       (node, fn, sn) \<Rightarrow>
         if sn \<noteq> 0 \<or> node \<noteq> ck_root ck
         then fail ''INCLUSION_PROOF_INVALID'' ''digest is not included in the supplied checkpoint''
         else Inr \<lparr>vi_log_id = log_id, vi_tree_size = tree_size, vi_leaf_index = leaf_index,
           vi_leaf_digest = expected_digest, vi_checkpoint = None\<rparr>))))))))))"

section \<open>Consistency\<close>

text \<open>The comparison of the two roots once the documents agree.\<close>

definition check_consistency_path :: "deps \<Rightarrow> nat \<Rightarrow> string \<Rightarrow> nat \<Rightarrow> string \<Rightarrow> string list \<Rightarrow> unit tv" where
  "check_consistency_path D old_size old_root new_size new_root path =
     (if old_size = 0
      then (if path \<noteq> [] then fail ''CONSISTENCY_PROOF_INVALID'' ''empty-tree consistency proof must have an empty path'' else Inr ())
      else if old_size = new_size
      then (if path \<noteq> [] \<or> old_root \<noteq> new_root
        then fail ''EQUIVOCATION_DETECTED'' ''same-size checkpoints have different roots or a non-empty proof'' else Inr ())
      else (case strip_odd (old_size - 1) (new_size - 1) of (fn, sn) \<Rightarrow>
        if fn \<noteq> 0 \<and> path = [] then fail ''CONSISTENCY_PROOF_INVALID'' ''consistency proof path is incomplete''
        else (case consistency_start fn old_root path of (start, siblings) \<Rightarrow>
          (case consistency_loop (node_hash D) start start fn sn siblings of
             None \<Rightarrow> fail ''CONSISTENCY_PROOF_INVALID'' ''consistency proof path contains extra hashes''
           | Some (first, second, sn') \<Rightarrow>
               if sn' \<noteq> 0 \<or> first \<noteq> old_root \<or> second \<noteq> new_root
               then fail ''CONSISTENCY_PROOF_INVALID'' ''checkpoints are not append-only consistent'' else Inr ()))))"

definition verify_consistency :: "deps \<Rightarrow> dict \<Rightarrow> dict \<Rightarrow> json \<Rightarrow> verified_consistency tv" where
  "verify_consistency D old_checkpoint new_checkpoint consistency_proof =
     bindR (parse_checkpoint D old_checkpoint) (\<lambda>old.
     bindR (parse_checkpoint D new_checkpoint) (\<lambda>new.
     if (pa_type (ck_log old), pa_id (ck_log old)) \<noteq> (pa_type (ck_log new), pa_id (ck_log new))
     then fail ''LOG_IDENTITY_MISMATCH'' ''consistency checkpoints identify different logs''
     else if ck_tree_size new < ck_tree_size old
     then fail ''REWIND_DETECTED'' ''new checkpoint tree size is smaller than the previous checkpoint''
     else
     bindR (require_mapping consistency_proof ''consistency_proof'' ''INVALID_CONSISTENCY_PROOF'') (\<lambda>proof.
     bindR (require_mapping (get_or_null proof ''contract'') ''consistency_proof.contract'' ''INVALID_CONSISTENCY_PROOF'') (\<lambda>contract.
     if \<not> dict_eq contract CONSISTENCY_PROOF_CONTRACT
     then fail ''INVALID_CONSISTENCY_PROOF'' ''proof contract must declare transparency_consistency_proof v1''
     else if get_or_null proof ''hash_algorithm'' \<noteq> JStr ''sha-256''
     then fail ''INVALID_CONSISTENCY_PROOF'' ''consistency proof hash_algorithm must be sha-256''
     else
     bindR (require_string (get_or_null proof ''log_id'') ''consistency_proof.log_id'' ''INVALID_CONSISTENCY_PROOF'') (\<lambda>log_id.
     bindR (require_nonnegative_int (get_or_null proof ''old_tree_size'') ''consistency_proof.old_tree_size'' ''INVALID_CONSISTENCY_PROOF'') (\<lambda>proof_old_size.
     bindR (require_nonnegative_int (get_or_null proof ''new_tree_size'') ''consistency_proof.new_tree_size'' ''INVALID_CONSISTENCY_PROOF'') (\<lambda>proof_new_size.
     if log_id \<noteq> pa_id (ck_log old) \<or> proof_old_size \<noteq> ck_tree_size old \<or> proof_new_size \<noteq> ck_tree_size new
     then fail ''CHECKPOINT_MISMATCH'' ''consistency proof does not match the supplied checkpoints''
     else
     bindR (parse_hash_path (get_or_null proof ''consistency_path'') ''consistency_proof.consistency_path'' ''INVALID_CONSISTENCY_PROOF'') (\<lambda>path.
     bindR (check_consistency_path D (ck_tree_size old) (ck_root old) (ck_tree_size new) (ck_root new) path) (\<lambda>_.
     Inr \<lparr>vn_log_id = log_id, vn_old_tree_size = ck_tree_size old, vn_new_tree_size = ck_tree_size new\<rparr>)))))))))"

section \<open>Composed verifications\<close>

definition verify_countersignature_inclusion ::
  "deps \<Rightarrow> ed25519 \<Rightarrow> json \<Rightarrow> json \<Rightarrow> dict \<Rightarrow> dict \<Rightarrow> verified_inclusion tv" where
  "verify_countersignature_inclusion D ed25519 countersignature inclusion_proof checkpoint trusted_keys =
     bindR (require_mapping countersignature ''countersignature'' ''INVALID_COUNTERSIGNATURE'') (\<lambda>artifact.
     bindR (require_mapping (get_or_null artifact ''contract'') ''countersignature.contract'' ''INVALID_COUNTERSIGNATURE'') (\<lambda>contract.
     if get_or_null contract ''name'' \<noteq> JStr ''receipt_countersignature'' \<or> get_or_null contract ''version'' \<noteq> JStr ''v1''
     then fail ''INVALID_COUNTERSIGNATURE'' ''contract must declare receipt_countersignature v1''
     else
     bindR (parse_digest D (get_or_null artifact ''receipt_digest'') ''countersignature.receipt_digest'') (\<lambda>digest.
     bindR (require_mapping (get_or_null artifact ''anchor_reference'') ''countersignature.anchor_reference'' ''ORPHAN_COUNTERSIGNATURE'') (\<lambda>anchor.
     if get_or_null anchor ''type'' \<noteq> JStr ''transparency_log''
     then fail ''ORPHAN_COUNTERSIGNATURE'' ''counter-signature is not anchored to a transparency log''
     else
     bindR (require_string (get_or_null anchor ''id'') ''countersignature.anchor_reference.id'' ''ORPHAN_COUNTERSIGNATURE'') (\<lambda>anchor_log_id.
     bindR (require_nonnegative_int (get_or_null anchor ''leaf_index'') ''countersignature.anchor_reference.leaf_index'' ''ORPHAN_COUNTERSIGNATURE'') (\<lambda>anchor_leaf_index.
     bindR (verify_checkpoint_signature D ed25519 checkpoint trusted_keys) (\<lambda>verified_checkpoint.
     bindR (case verify_inclusion D (DigestArg digest) inclusion_proof checkpoint of
         Inl (TransparencyVerificationError code message) \<Rightarrow>
           if code = ''LEAF_DIGEST_MISMATCH''
           then fail ''ORPHAN_COUNTERSIGNATURE'' ''counter-signature digest is not the digest proven at the declared log leaf''
           else Inl (TransparencyVerificationError code message)
       | r \<Rightarrow> r) (\<lambda>verified.
     if anchor_log_id \<noteq> vi_log_id verified \<or> anchor_leaf_index \<noteq> vi_leaf_index verified
     then fail ''ORPHAN_COUNTERSIGNATURE'' ''counter-signature anchor does not match the verified inclusion proof''
     else Inr (verified\<lparr>vi_checkpoint := Some verified_checkpoint\<rparr>)))))))))"

definition verify_monitor_update ::
  "deps \<Rightarrow> ed25519 \<Rightarrow> dict \<Rightarrow> dict \<Rightarrow> json \<Rightarrow> dict \<Rightarrow> verified_monitor_update tv" where
  "verify_monitor_update D ed25519 previous_checkpoint current_checkpoint consistency_proof trusted_keys =
     bindR (verify_checkpoint_signature D ed25519 previous_checkpoint trusted_keys) (\<lambda>previous.
     bindR (verify_checkpoint_signature D ed25519 current_checkpoint trusted_keys) (\<lambda>current.
     bindR (verify_consistency D previous_checkpoint current_checkpoint consistency_proof) (\<lambda>consistency.
     Inr \<lparr>vu_previous = previous, vu_current = current, vu_consistency = consistency\<rparr>)))"

section \<open>Hexadecimal texts\<close>

lemma hex_val_digit [simp]: "n < 16 \<Longrightarrow> hex_val (hex_digit n) = n"
  by (simp add: hex_val_def Let_def of_char_hex_digit)

lemma is_hex_lower_digit [simp]: "n < 16 \<Longrightarrow> is_hex_lower (hex_digit n)"
  by (simp add: is_hex_lower_def is_digit_def of_char_hex_digit)

lemma from_hex_of_bytes [simp]: "from_hex (hex_of_bytes b) = b"
proof (induction b)
  case (Cons c b)
  have "(of_char c :: nat) < 256" by (rule of_char_lt_256)
  then have "of_char c div 16 < (16 :: nat)" "of_char c mod 16 < (16 :: nat)" by (simp_all add: div_less_iff_less_mult)
  with Cons show ?case by (simp add: hex_of_bytes_def hex_of_byte_def)
qed (simp add: hex_of_bytes_def)

lemma length_from_hex: "length (from_hex s) = length s div 2"
  by (induction s rule: from_hex.induct) simp_all

lemma is_hex256_of_bytes [simp]: "is_hex256 (hex_of_bytes b) \<longleftrightarrow> length b = 32"
proof -
  have "length (hex_of_bytes b) = 2 * length b" by (induction b) (simp_all add: hex_of_bytes_def hex_of_byte_def)
  moreover have "list_all is_hex_lower (hex_of_bytes b)"
  proof (induction b)
    case (Cons c b)
    have "(of_char c :: nat) < 256" by (rule of_char_lt_256)
    then have "of_char c div 16 < (16 :: nat)" "of_char c mod 16 < (16 :: nat)" by (simp_all add: div_less_iff_less_mult)
    with Cons show ?case by (simp add: hex_of_bytes_def hex_of_byte_def)
  qed (simp add: hex_of_bytes_def)
  ultimately show ?thesis by (simp add: is_hex256_def)
qed

section \<open>What the parsers accept\<close>

lemma require_mapping_Inr: "require_mapping v f c = Inr d \<longleftrightarrow> v = JObj d"
  by (simp add: require_mapping_def split: json.splits)

lemma require_string_Inr: "require_string v f c = Inr s \<longleftrightarrow> v = JStr s \<and> s \<noteq> []"
  by (auto simp: require_string_def split: json.splits)

lemma require_nonnegative_int_Inr: "require_nonnegative_int v f c = Inr n \<longleftrightarrow> v = JInt (int n)"
  by (auto simp: require_nonnegative_int_def split: json.splits if_splits)

lemma is_hex256_nonempty: "is_hex256 s \<Longrightarrow> s \<noteq> []"
  by (auto simp: is_hex256_def)

lemma parse_hex_hash_Inr:
  "parse_hex_hash v f c = Inr h \<longleftrightarrow> (\<exists>raw. v = JStr raw \<and> is_hex256 raw \<and> h = from_hex raw)"
  using is_hex256_nonempty by (fastforce simp: parse_hex_hash_def bindR_eq_Inr require_string_Inr split: if_splits)

lemma parse_hash_path_Inr:
  "parse_hash_path v f c = Inr path \<longleftrightarrow>
     (\<exists>items. v = JArr items \<and> list_all2 (\<lambda>item h. \<exists>raw. item = JStr raw \<and> is_hex256 raw \<and> h = from_hex raw) items path)"
proof -
  let ?Q = "\<lambda>item h. \<exists>raw. item = JStr raw \<and> is_hex256 raw \<and> h = from_hex raw"
  have "list_all2 (\<lambda>p. ?Q (snd p)) (enumerate 0 items) path \<longleftrightarrow> list_all2 ?Q items path" for items
    by (simp add: list_all2_conv_all_nth nth_enumerate_eq cong: conj_cong)
  then show ?thesis
    by (auto simp: parse_hash_path_def mapR_eq_Inr parse_hex_hash_Inr case_prod_unfold split: json.splits)
qed

lemma parse_hash_path_lengths: "parse_hash_path v f c = Inr path \<Longrightarrow> list_all (\<lambda>h. length h = 32) path"
  by (auto simp: parse_hash_path_Inr list_all2_conv_all_nth list_all_length is_hex256_def length_from_hex)

lemma parse_hash_path_hex:
  "list_all (\<lambda>h. length h = 32) path \<Longrightarrow> parse_hash_path (JArr (map (\<lambda>h. JStr (hex_of_bytes h)) path)) f c = Inr path"
  by (auto simp: parse_hash_path_Inr list_all2_conv_all_nth list_all_length)

lemma parse_digest_Inr:
  "parse_digest D v f = Inr d \<longleftrightarrow> (\<exists>data. v = JObj data \<and>
     get_or_null data ''algorithm'' = JStr (dg_algorithm d) \<and> get_or_null data ''canonicalization'' = JStr (dg_canonicalization d) \<and>
     get_or_null data ''value'' = JStr (dg_value d) \<and> dg_canonicalization d \<noteq> [] \<and>
     dg_algorithm d = ''sha-256'' \<and> dg_canonicalization d \<in> set (dep_accepted_profiles D) \<and> is_hex256 (dg_value d))"
  using is_hex256_nonempty[of "dg_value d"]
  by (cases d) (auto simp: parse_digest_def bindR_eq_Inr require_mapping_Inr require_string_Inr split: if_splits)

section \<open>The log\<close>

text \<open>The root of a log of leaf digests (RFC 6962), and the byte strings hashed for given leaves and nodes.\<close>

definition log_root :: "deps \<Rightarrow> string list \<Rightarrow> string" where
  "log_root D xs = (if xs = [] then dep_sha256 D [] else mth (leaf_hash D) (node_hash D) xs)"

definition hash_inputs :: "string set \<Rightarrow> (string \<times> string) set \<Rightarrow> string set" where
  "hash_inputs L P = (\<lambda>x. CHR 0x00 # x) ` L \<union> (\<lambda>(l, r). CHR 0x01 # l @ r) ` P"

abbreviation log_pairs :: "deps \<Rightarrow> string list \<Rightarrow> (string \<times> string) set" where
  "log_pairs D xs \<equiv> tree_pairs (leaf_hash D) (node_hash D) xs"

text \<open>The hashes a proof document carries in a field.\<close>

definition carried_path :: "json \<Rightarrow> string \<Rightarrow> string list" where
  "carried_path doc field = (case doc of
       JObj d \<Rightarrow> (case parse_hash_path (get_or_null d field) field field of Inr p \<Rightarrow> p | Inl _ \<Rightarrow> [])
     | _ \<Rightarrow> [])"

lemma carried_path_eq: "parse_hash_path (get_or_null d field) f c = Inr p \<Longrightarrow> carried_path (JObj d) field = p"
proof -
  assume "parse_hash_path (get_or_null d field) f c = Inr p"
  then have "parse_hash_path (get_or_null d field) field field = Inr p" by (simp add: parse_hash_path_Inr)
  then show ?thesis by (simp add: carried_path_def)
qed

lemma sha_collision_free:
  assumes "inj_on (dep_sha256 D) (hash_inputs L P)" "\<forall>m. length (dep_sha256 D m) = 32"
    and "P \<subseteq> {(a, b). length a = 32 \<and> length b = 32}"
  shows "collision_free (leaf_hash D) (node_hash D) L P"
proof -
  have leaf: "CHR 0x00 # x \<in> hash_inputs L P" if "x \<in> L" for x using that by (simp add: hash_inputs_def)
  have node: "CHR 0x01 # a @ b \<in> hash_inputs L P" if "(a, b) \<in> P" for a b using that by (force simp: hash_inputs_def)
  have "x = y" if "x \<in> L" "y \<in> L" "leaf_hash D x = leaf_hash D y" for x y
    using inj_onD[OF assms(1) _ leaf leaf] that by (simp add: leaf_hash_def)
  moreover have "a = c \<and> b = d" if "(a, b) \<in> P" "(c, d) \<in> P" "node_hash D a b = node_hash D c d" for a b c d
  proof -
    have "a @ b = c @ d" using inj_onD[OF assms(1) _ node node] that by (simp add: node_hash_def)
    moreover have "length a = length c" using subsetD[OF assms(3) that(1)] subsetD[OF assms(3) that(2)] by simp
    ultimately show ?thesis by simp
  qed
  moreover have "leaf_hash D x \<noteq> node_hash D a b" if "x \<in> L" "(a, b) \<in> P" for x a b
    using inj_onD[OF assms(1) _ leaf[OF that(1)] node[OF that(2)]] by (auto simp: leaf_hash_def node_hash_def)
  ultimately show ?thesis unfolding collision_free_def inj_on_def by fast
qed

section \<open>Soundness of inclusion\<close>

text \<open>The byte strings hashed by the log and by the check of a proof.\<close>

definition inclusion_inputs :: "deps \<Rightarrow> verified_inclusion \<Rightarrow> json \<Rightarrow> string list \<Rightarrow> string set" where
  "inclusion_inputs D v inclusion_proof xs = (let d = from_hex (dg_value (vi_leaf_digest v)) in
     hash_inputs (insert d (set xs)) (log_pairs D xs \<union>
       loop_pairs (node_hash D) (leaf_hash D d) (vi_leaf_index v) (length xs - 1) (carried_path inclusion_proof ''audit_path'')))"

lemma verify_inclusion_InrE:
  assumes "verify_inclusion D digest inclusion_proof checkpoint = Inr v"
  obtains ck fn where "parse_checkpoint D checkpoint = Inr ck" "vi_leaf_index v < vi_tree_size v" "ck_tree_size ck = vi_tree_size v"
    "pa_id (ck_log ck) = vi_log_id v" "resolve_digest D digest = Inr (vi_leaf_digest v)" "vi_checkpoint v = None"
    "inclusion_loop (node_hash D) (leaf_hash D (from_hex (dg_value (vi_leaf_digest v)))) (vi_leaf_index v) (vi_tree_size v - 1)
      (carried_path inclusion_proof ''audit_path'') = (ck_root ck, fn, 0)"
    "list_all (\<lambda>h. length h = 32) (carried_path inclusion_proof ''audit_path'')"
proof -
  obtain e pr path ck nd fn sn where
    "resolve_digest D digest = Inr e" "inclusion_proof = JObj pr"
    "parse_hash_path (get_or_null pr ''audit_path'') ''inclusion_proof.audit_path'' ''INVALID_INCLUSION_PROOF'' = Inr path"
    "parse_checkpoint D checkpoint = Inr ck" "vi_leaf_digest v = e" "vi_leaf_index v < vi_tree_size v"
    "pa_id (ck_log ck) = vi_log_id v" "ck_tree_size ck = vi_tree_size v" "vi_checkpoint v = None"
    "inclusion_loop (node_hash D) (leaf_hash D (from_hex (dg_value e))) (vi_leaf_index v) (vi_tree_size v - 1) path = (nd, fn, sn)"
    "sn = 0" "nd = ck_root ck"
    using assms unfolding verify_inclusion_def
    by (auto simp: require_mapping_Inr split: if_splits prod.splits)
  moreover from this have "carried_path inclusion_proof ''audit_path'' = path" by (simp add: carried_path_eq)
  moreover from calculation have "list_all (\<lambda>h. length h = 32) path" by (simp add: parse_hash_path_lengths)
  ultimately show thesis using that by simp
qed

lemma inclusion_sound:
  assumes "\<forall>m. length (dep_sha256 D m) = 32"
    and "verify_inclusion D digest inclusion_proof checkpoint = Inr v"
    and "parse_checkpoint D checkpoint = Inr ck" "ck_root ck = log_root D xs" "ck_tree_size ck = length xs"
    and "inj_on (dep_sha256 D) (inclusion_inputs D v inclusion_proof xs)"
  shows "vi_leaf_index v < length xs \<and> from_hex (dg_value (vi_leaf_digest v)) = xs ! vi_leaf_index v"
proof -
  define d where "d = from_hex (dg_value (vi_leaf_digest v))"
  define path where "path = carried_path inclusion_proof ''audit_path''"
  let ?pairs = "loop_pairs (node_hash D) (leaf_hash D d) (vi_leaf_index v) (length xs - 1) path"
  let ?P = "log_pairs D xs \<union> ?pairs" and ?L = "insert d (set xs)"
  obtain fn where loop: "inclusion_loop (node_hash D) (leaf_hash D d) (vi_leaf_index v) (length xs - 1) path = (ck_root ck, fn, 0)"
      and v: "vi_leaf_index v < length xs" and path: "list_all (\<lambda>h. length h = 32) path"
    using verify_inclusion_InrE[OF assms(2)] assms(3,5) unfolding d_def path_def by (metis Inr_inject)
  have len: "length (leaf_hash D x) = 32" "length (node_hash D a b) = 32" for x a b
    using assms(1) by (simp_all add: leaf_hash_def node_hash_def)
  have "?pairs \<subseteq> {(a, b). length a = 32 \<and> length b = 32}" "log_pairs D xs \<subseteq> {(a, b). length a = 32 \<and> length b = 32}"
    unfolding loop_pairs_def by (intro climb_pairs_all tree_pairs_all len path)+
  then have "collision_free (leaf_hash D) (node_hash D) ?L ?P"
    using assms(6) by (intro sha_collision_free[OF _ assms(1)]) (simp_all add: inclusion_inputs_def Let_def d_def path_def)
  moreover have "in_play (leaf_hash D) (node_hash D) ?L ?P xs" using v by (auto simp: in_play_def)
  moreover have "ck_root ck = mth (leaf_hash D) (node_hash D) xs" using assms(4) v by (auto simp: log_root_def)
  ultimately have "d = xs ! vi_leaf_index v"
    using inclusion_loop_sound[of "leaf_hash D" "node_hash D" ?L ?P xs d "vi_leaf_index v" path fn] loop v by simp
  with v show ?thesis by (simp add: d_def)
qed

text \<open>
  C18 (inclusion_is_genuine): an accepted inclusion proof shows the digest at the claimed index of the log whose
  root the checkpoint states, as long as SHA-256 gives 32 bytes and does not collide on the strings that the log
  and the check hash.
\<close>

theorem inclusion_is_genuine:
  assumes "\<forall>m. length (dep_sha256 D m) = 32"
    and "verify_inclusion D digest inclusion_proof checkpoint = Inr v"
    and "parse_checkpoint D checkpoint = Inr ck" "ck_root ck = log_root D xs" "ck_tree_size ck = length xs"
    and "inj_on (dep_sha256 D) (inclusion_inputs D v inclusion_proof xs)"
  shows "vi_leaf_index v < length xs \<and> from_hex (dg_value (vi_leaf_digest v)) = xs ! vi_leaf_index v"
  using assms by (rule inclusion_sound)

section \<open>Completeness of inclusion\<close>

text \<open>The documents an honest log hands out.\<close>

definition hex_path :: "string list \<Rightarrow> json" where
  "hex_path path = JArr (map (\<lambda>h. JStr (hex_of_bytes h)) path)"

definition inclusion_document :: "deps \<Rightarrow> string \<Rightarrow> digest_spec \<Rightarrow> nat \<Rightarrow> string list \<Rightarrow> dict" where
  "inclusion_document D log_id digest m xs = [(''contract'', JObj INCLUSION_PROOF_CONTRACT), (''hash_algorithm'', JStr ''sha-256''),
     (''leaf_digest'', JObj (digest_to_dict digest)), (''log_id'', JStr log_id), (''tree_size'', JInt (int (length xs))),
     (''leaf_index'', JInt (int m)), (''audit_path'', hex_path (audit_path (leaf_hash D) (node_hash D) m xs))]"

definition known_digest :: "deps \<Rightarrow> digest_spec \<Rightarrow> bool" where
  "known_digest D d \<longleftrightarrow> dg_algorithm d = ''sha-256'' \<and> dg_canonicalization d \<noteq> [] \<and>
     dg_canonicalization d \<in> set (dep_accepted_profiles D) \<and> is_hex256 (dg_value d)"

lemma parse_known_digest [simp]: "known_digest D d \<Longrightarrow> parse_digest D (JObj (digest_to_dict d)) f = Inr d"
  by (simp add: parse_digest_Inr known_digest_def digest_to_dict_def)

lemma parse_checkpoint_log_id: "parse_checkpoint D c = Inr ck \<Longrightarrow> pa_id (ck_log ck) \<noteq> []"
  by (auto simp: parse_checkpoint_def party_from_dict_def expect_string_Inr split: if_splits)

lemma audit_path_lengths:
  assumes "\<forall>m. length (dep_sha256 D m) = 32"
  shows "list_all (\<lambda>h. length h = 32) (audit_path (leaf_hash D) (node_hash D) m xs)"
proof -
  have len: "length (mth (leaf_hash D) (node_hash D) ys) = 32" for ys
    by (rule mth_all) (simp_all add: assms leaf_hash_def node_hash_def)
  show ?thesis
  proof (induction "length xs" arbitrary: m xs rule: less_induct)
    case less
    show ?case
    proof (cases "length xs \<le> 1")
      case False
      define k where "k = pow2_below (length xs)"
      have "length (take k xs) < length xs" "length (drop k xs) < length xs"
        using pow2_below_bounds[of "length xs"] False by (simp_all add: k_def) linarith
      then show ?thesis using less len by (subst audit_path.simps) (simp add: Let_def k_def[symmetric])
    qed (simp add: audit_path.simps)
  qed
qed

lemma dict_eq_contracts [simp]: "dict_eq INCLUSION_PROOF_CONTRACT INCLUSION_PROOF_CONTRACT"
  "dict_eq CONSISTENCY_PROOF_CONTRACT CONSISTENCY_PROOF_CONTRACT" "dict_eq CHECKPOINT_CONTRACT CHECKPOINT_CONTRACT"
  by (simp_all add: dict_eq_def INCLUSION_PROOF_CONTRACT_def CONSISTENCY_PROOF_CONTRACT_def CHECKPOINT_CONTRACT_def)

lemma requires [simp]: "require_mapping (JObj d) f c = Inr d" "s \<noteq> [] \<Longrightarrow> require_string (JStr s) f c = Inr s"
  "require_nonnegative_int (JInt (int n)) f c = Inr n"
  by (simp_all add: require_mapping_def require_string_def require_nonnegative_int_def)

lemma genuine_inclusion:
  assumes "\<forall>m. length (dep_sha256 D m) = 32" "known_digest D digest" "m < length xs" "xs ! m = from_hex (dg_value digest)"
    and "parse_checkpoint D checkpoint = Inr ck" "ck_root ck = log_root D xs" "ck_tree_size ck = length xs"
  shows "verify_inclusion D (DigestArg digest) (JObj (inclusion_document D (pa_id (ck_log ck)) digest m xs)) checkpoint =
    Inr \<lparr>vi_log_id = pa_id (ck_log ck), vi_tree_size = length xs, vi_leaf_index = m, vi_leaf_digest = digest, vi_checkpoint = None\<rparr>"
proof -
  have "ck_root ck = mth (leaf_hash D) (node_hash D) xs" using assms(3,6) by (auto simp: log_root_def)
  then have loop: "inclusion_loop (node_hash D) (leaf_hash D (from_hex (dg_value digest))) m (length xs - 1)
      (audit_path (leaf_hash D) (node_hash D) m xs) = (ck_root ck, 0, 0)"
    using inclusion_loop_complete[OF assms(3), of "node_hash D" "leaf_hash D"] assms(4) by simp
  have "xs \<noteq> []" using assms(3) by auto
  then show ?thesis
    using assms(2,3,5,7) loop parse_checkpoint_log_id[OF assms(5)] parse_hash_path_hex[OF audit_path_lengths[OF assms(1)]]
    by (simp add: verify_inclusion_def inclusion_document_def hex_path_def)
qed

text \<open>
  For every log, every leaf of it and every checkpoint stating its root, the
  inclusion proof of RFC 6962 is accepted, and the result names the log, the size and the index.
\<close>

theorem genuine_inclusion_accepted:
  assumes "\<forall>m. length (dep_sha256 D m) = 32" "known_digest D digest" "m < length xs" "xs ! m = from_hex (dg_value digest)"
    and "parse_checkpoint D checkpoint = Inr ck" "ck_root ck = log_root D xs" "ck_tree_size ck = length xs"
  shows "verify_inclusion D (DigestArg digest) (JObj (inclusion_document D (pa_id (ck_log ck)) digest m xs)) checkpoint =
    Inr \<lparr>vi_log_id = pa_id (ck_log ck), vi_tree_size = length xs, vi_leaf_index = m, vi_leaf_digest = digest, vi_checkpoint = None\<rparr>"
  by (rule genuine_inclusion[OF assms])

section \<open>Consistency of checkpoints\<close>

definition consistency_inputs :: "deps \<Rightarrow> json \<Rightarrow> string list \<Rightarrow> string list \<Rightarrow> string set" where
  "consistency_inputs D consistency_proof xs ys =
     (case strip_odd (length xs - 1) (length ys - 1) of (fn, sn) \<Rightarrow>
      case consistency_start fn (log_root D xs) (carried_path consistency_proof ''consistency_path'') of (start, siblings) \<Rightarrow>
        hash_inputs (set xs \<union> set ys) (log_pairs D xs \<union> log_pairs D ys \<union>
          consistency_pairs (node_hash D) start fn sn siblings))"

lemma verify_consistency_InrE:
  assumes "verify_consistency D old_checkpoint new_checkpoint consistency_proof = Inr v"
  obtains old new where "parse_checkpoint D old_checkpoint = Inr old" "parse_checkpoint D new_checkpoint = Inr new"
    "pa_type (ck_log old) = pa_type (ck_log new)" "pa_id (ck_log old) = pa_id (ck_log new)" "ck_tree_size old \<le> ck_tree_size new"
    "list_all (\<lambda>h. length h = 32) (carried_path consistency_proof ''consistency_path'')"
    "check_consistency_path D (ck_tree_size old) (ck_root old) (ck_tree_size new) (ck_root new)
      (carried_path consistency_proof ''consistency_path'') = Inr ()"
proof -
  obtain old new pr path where
    "parse_checkpoint D old_checkpoint = Inr old" "parse_checkpoint D new_checkpoint = Inr new"
    "pa_type (ck_log old) = pa_type (ck_log new)" "pa_id (ck_log old) = pa_id (ck_log new)" "ck_tree_size old \<le> ck_tree_size new"
    "consistency_proof = JObj pr"
    "parse_hash_path (get_or_null pr ''consistency_path'') ''consistency_proof.consistency_path'' ''INVALID_CONSISTENCY_PROOF'' = Inr path"
    "check_consistency_path D (ck_tree_size old) (ck_root old) (ck_tree_size new) (ck_root new) path = Inr ()"
    using assms unfolding verify_consistency_def
    by (auto simp: require_mapping_Inr split: if_splits)
  moreover from this have "carried_path consistency_proof ''consistency_path'' = path" by (simp add: carried_path_eq)
  moreover from calculation have "list_all (\<lambda>h. length h = 32) path" by (simp add: parse_hash_path_lengths)
  ultimately show thesis using that by simp
qed

lemma check_consistency_grown:
  assumes "check_consistency_path D old_size old_root new_size new_root path = Inr ()" "old_size \<noteq> 0" "old_size \<noteq> new_size"
    and "strip_odd (old_size - 1) (new_size - 1) = (fn, sn)" "consistency_start fn old_root path = (c, rest)"
  shows "consistency_loop (node_hash D) c c fn sn rest = Some (old_root, new_root, 0)"
proof (cases "consistency_loop (node_hash D) c c fn sn rest")
  case None
  with assms show ?thesis by (simp add: check_consistency_path_def split: if_splits)
next
  case (Some r)
  with assms show ?thesis by (cases r) (simp add: check_consistency_path_def split: if_splits)
qed

lemma start_lengths:
  assumes "consistency_start fn old_root path = (c, rest)" "list_all (\<lambda>h. length h = 32) path" "\<not> (fn \<noteq> 0 \<and> path = [])"
  shows "length old_root = 32 \<Longrightarrow> length c = 32" "list_all (\<lambda>h. length h = 32) rest"
  using assms by (cases path; auto simp: consistency_start_def split: if_splits)+

lemma consistency_path_sound:
  assumes "\<forall>m. length (dep_sha256 D m) = 32"
    and "list_all (\<lambda>h. length h = 32) path" "length xs \<le> length ys"
    and "check_consistency_path D (length xs) (log_root D xs) (length ys) (log_root D ys) path = Inr ()"
    and "carried_path consistency_proof ''consistency_path'' = path"
    and "inj_on (dep_sha256 D) (consistency_inputs D consistency_proof xs ys)"
  shows "\<exists>zs. ys = xs @ zs"
proof (cases "xs = []")
  case False
  obtain fn sn where strip: "strip_odd (length xs - 1) (length ys - 1) = (fn, sn)" by fastforce
  obtain c rest where start: "consistency_start fn (log_root D xs) path = (c, rest)" by fastforce
  let ?pairs = "consistency_pairs (node_hash D) c fn sn rest"
  let ?P = "log_pairs D xs \<union> log_pairs D ys \<union> ?pairs" and ?L = "set xs \<union> set ys"
  have ys: "ys \<noteq> []" using False assms(3) by auto
  have roots: "log_root D xs = mth (leaf_hash D) (node_hash D) xs" "log_root D ys = mth (leaf_hash D) (node_hash D) ys"
    using False ys by (simp_all add: log_root_def)
  have len: "length (leaf_hash D x) = 32" "length (node_hash D a b) = 32" for x a b
    using assms(1) by (simp_all add: leaf_hash_def node_hash_def)
  have "?pairs \<subseteq> {(a, b). length a = 32 \<and> length b = 32}"
  proof (cases "fn \<noteq> 0 \<and> path = []")
    case True
    then show ?thesis using start by (auto simp: consistency_start_def consistency_pairs_def)
  next
    case False
    note start_lengths[OF start assms(2) False]
    moreover have "length (log_root D xs) = 32" unfolding roots by (rule mth_all) (rule len)+
    ultimately have "length c = 32" "list_all (\<lambda>h. length h = 32) rest" by blast+
    then show ?thesis unfolding consistency_pairs_def
      by (intro Un_least climb_pairs_all[where Q = "\<lambda>h. length h = 32"] rights_pairs_all[where Q = "\<lambda>h. length h = 32"] len)
  qed
  then have "?P \<subseteq> {(a, b). length a = 32 \<and> length b = 32}" by (intro Un_least tree_pairs_all[where Q = "\<lambda>h. length h = 32"] len)
  moreover have "inj_on (dep_sha256 D) (hash_inputs ?L ?P)" using assms(5,6) strip start by (simp add: consistency_inputs_def)
  ultimately have free: "collision_free (leaf_hash D) (node_hash D) ?L ?P" by (rule sha_collision_free[OF _ assms(1), rotated])
  have play: "in_play (leaf_hash D) (node_hash D) ?L ?P xs" "in_play (leaf_hash D) (node_hash D) ?L ?P ys"
    using False ys by (auto simp: in_play_def)
  show ?thesis
  proof (cases "length xs = length ys")
    case True
    then have "mth (leaf_hash D) (node_hash D) xs = mth (leaf_hash D) (node_hash D) ys"
      using assms(4) False by (simp add: check_consistency_path_def roots split: if_splits)
    from mth_inj[OF free play this] show ?thesis by simp
  next
    case size: False
    have "length xs \<noteq> 0" using False by simp
    from check_consistency_grown[OF assms(4) this size strip start] show ?thesis
      unfolding roots by (rule consistency_loop_sound[OF free play]) simp
  qed
qed simp

text \<open>
  C17 (monitor_update_append_only): when a monitor update is accepted, the log behind the current checkpoint is the
  log behind the previous one with leaves appended, whatever the consistency proof contains, as long as SHA-256
  gives 32 bytes and does not collide on the strings that the two logs and the check hash.
\<close>

theorem monitor_update_append_only:
  assumes "\<forall>m. length (dep_sha256 D m) = 32"
    and "verify_monitor_update D ed25519 previous_checkpoint current_checkpoint consistency_proof trusted_keys = Inr u"
    and "parse_checkpoint D previous_checkpoint = Inr old" "ck_root old = log_root D xs" "ck_tree_size old = length xs"
    and "parse_checkpoint D current_checkpoint = Inr new" "ck_root new = log_root D ys" "ck_tree_size new = length ys"
    and "inj_on (dep_sha256 D) (consistency_inputs D consistency_proof xs ys)"
  shows "\<exists>zs. ys = xs @ zs"
proof -
  obtain c where c: "verify_consistency D previous_checkpoint current_checkpoint consistency_proof = Inr c"
    using assms(2) by (auto simp: verify_monitor_update_def)
  define path where "path = carried_path consistency_proof ''consistency_path''"
  have "length xs \<le> length ys" "list_all (\<lambda>h. length h = 32) path"
      "check_consistency_path D (length xs) (log_root D xs) (length ys) (log_root D ys) path = Inr ()"
    using verify_consistency_InrE[OF c] assms(3-8) unfolding path_def by (metis Inr_inject)+
  from consistency_path_sound[OF assms(1) this(2,1,3) path_def[symmetric] assms(9)] show ?thesis .
qed

definition growth_path :: "deps \<Rightarrow> nat \<Rightarrow> string list \<Rightarrow> string list" where
  "growth_path D m ys = (if m = 0 then [] else subproof (leaf_hash D) (node_hash D) True m ys)"

definition consistency_document :: "deps \<Rightarrow> string \<Rightarrow> nat \<Rightarrow> string list \<Rightarrow> dict" where
  "consistency_document D log_id m ys = [(''contract'', JObj CONSISTENCY_PROOF_CONTRACT), (''hash_algorithm'', JStr ''sha-256''),
     (''log_id'', JStr log_id), (''old_tree_size'', JInt (int m)), (''new_tree_size'', JInt (int (length ys))),
     (''consistency_path'', hex_path (growth_path D m ys))]"

lemma subproof_lengths:
  assumes "\<forall>m. length (dep_sha256 D m) = 32"
  shows "list_all (\<lambda>h. length h = 32) (subproof (leaf_hash D) (node_hash D) b m xs)"
proof -
  have len: "length (mth (leaf_hash D) (node_hash D) ys) = 32" for ys
    by (rule mth_all) (simp_all add: assms leaf_hash_def node_hash_def)
  show ?thesis
  proof (induction "length xs" arbitrary: b m xs rule: less_induct)
    case less
    show ?case
    proof (cases "length xs \<le> m \<or> length xs \<le> 1")
      case False
      define k where "k = pow2_below (length xs)"
      have "length (take k xs) < length xs" "length (drop k xs) < length xs"
        using pow2_below_bounds[of "length xs"] False by (simp_all add: k_def) linarith
      then show ?thesis using less len by (subst subproof.simps) (simp add: Let_def k_def[symmetric])
    qed (use len in \<open>simp add: subproof.simps Let_def\<close>)
  qed
qed

lemma growth_path_lengths:
  "\<forall>m. length (dep_sha256 D m) = 32 \<Longrightarrow> list_all (\<lambda>h. length h = 32) (growth_path D m ys)"
  by (simp add: growth_path_def subproof_lengths)

lemma check_consistency_genuine:
  assumes "m \<le> length ys"
  shows "check_consistency_path D m (log_root D (take m ys)) (length ys) (log_root D ys) (growth_path D m ys) = Inr ()"
proof -
  consider "m = 0" | "0 < m" "m = length ys" | "0 < m" "m < length ys" using assms by linarith
  then show ?thesis
  proof cases
    case 3
    let ?l = "leaf_hash D" and ?n = "node_hash D"
    obtain fn sn where strip: "strip_odd (m - 1) (length ys - 1) = (fn, sn)" by fastforce
    obtain c rest where start: "consistency_start fn (mth ?l ?n (take m ys)) (subproof ?l ?n True m ys) = (c, rest)" by fastforce
    have "log_root D (take m ys) = mth ?l ?n (take m ys)" "log_root D ys = mth ?l ?n ys" using 3 by (auto simp: log_root_def)
    with consistency_loop_complete[OF 3 strip start] 3 strip start show ?thesis by (auto simp: check_consistency_path_def growth_path_def)
  qed (simp_all add: check_consistency_path_def growth_path_def subproof.simps)
qed

lemma genuine_growth:
  assumes "\<forall>m. length (dep_sha256 D m) = 32" "m \<le> length ys"
    and "parse_checkpoint D old_checkpoint = Inr old" "ck_root old = log_root D (take m ys)" "ck_tree_size old = m"
    and "parse_checkpoint D new_checkpoint = Inr new" "ck_root new = log_root D ys" "ck_tree_size new = length ys"
    and "ck_log old = ck_log new"
  shows "verify_consistency D old_checkpoint new_checkpoint (JObj (consistency_document D (pa_id (ck_log old)) m ys)) =
    Inr \<lparr>vn_log_id = pa_id (ck_log old), vn_old_tree_size = m, vn_new_tree_size = length ys\<rparr>"
  using assms parse_checkpoint_log_id[OF assms(3)] parse_checkpoint_log_id[OF assms(6)] check_consistency_genuine[OF assms(2)]
    parse_hash_path_hex[OF growth_path_lengths[OF assms(1)]]
  by (simp add: verify_consistency_def consistency_document_def hex_path_def)

text \<open>
  The consistency proof of RFC 6962 between a log and any earlier state of it is
  accepted, at every pair of sizes, the empty and the equal ones included.
\<close>

theorem genuine_growth_accepted:
  assumes "\<forall>m. length (dep_sha256 D m) = 32" "m \<le> length ys"
    and "parse_checkpoint D old_checkpoint = Inr old" "ck_root old = log_root D (take m ys)" "ck_tree_size old = m"
    and "parse_checkpoint D new_checkpoint = Inr new" "ck_root new = log_root D ys" "ck_tree_size new = length ys"
    and "ck_log old = ck_log new"
  shows "verify_consistency D old_checkpoint new_checkpoint (JObj (consistency_document D (pa_id (ck_log old)) m ys)) =
    Inr \<lparr>vn_log_id = pa_id (ck_log old), vn_old_tree_size = m, vn_new_tree_size = length ys\<rparr>"
  by (rule genuine_growth[OF assms])

section \<open>Signed checkpoints\<close>

text \<open>The validity window of a key.\<close>

definition in_window :: "dict \<Rightarrow> datetime \<Rightarrow> bool" where
  "in_window key t \<longleftrightarrow>
     (get_or_null key ''not_before'' = JNull \<or> (\<exists>b. parse_timestamp (get_or_null key ''not_before'') ''keys[].not_before'' = Inr b \<and> b \<le> t)) \<and>
     (get_or_null key ''expires_at'' = JNull \<or> (\<exists>b. parse_timestamp (get_or_null key ''expires_at'') ''keys[].expires_at'' = Inr b \<and> t < b)) \<and>
     (get_or_null key ''revoked_at'' = JNull \<or> (\<exists>b. parse_timestamp (get_or_null key ''revoked_at'') ''keys[].revoked_at'' = Inr b \<and> t < b))"

definition for_checkpoints :: "dict \<Rightarrow> bool" where
  "for_checkpoints key \<longleftrightarrow> get_or_null key ''use'' = JStr ''transparency_checkpoint'' \<or>
     (\<exists>uses. get_or_null key ''use'' \<in> {JArr uses, JTup uses} \<and> JStr ''transparency_checkpoint'' \<in> set uses)"

text \<open>The key set lists exactly one key of that id, and its issuer is the log.\<close>

definition sole_key :: "dict \<Rightarrow> party_ref \<Rightarrow> string \<Rightarrow> dict \<Rightarrow> bool" where
  "sole_key trusted_keys p key_id key \<longleftrightarrow>
     (\<exists>items issuer. get_or_null trusted_keys ''keys'' = JArr items \<and> matching_keys key_id items = [key] \<and>
       party_from_dict (get_or_null trusted_keys ''issuer'') ''trusted_keys.issuer'' = Inr issuer \<and>
       pa_type issuer = pa_type p \<and> pa_id issuer = pa_id p)"

lemma check_key_bound_Inr:
  "check_key_bound D key t f inclusive m = Inr () \<longleftrightarrow> get_or_null key f = JNull \<or>
     (\<exists>b. parse_timestamp (get_or_null key f) (''keys[].'' @ f) = Inr b \<and> (if inclusive then t < b else b \<le> t))"
proof (cases "parse_timestamp (get_or_null key f) (''keys[].'' @ f)")
  case (Inl e)
  then have "parse_log_timestamp D (get_or_null key f) (''keys[].'' @ f) ''TRUSTED_KEYS_INVALID'' \<noteq> Inr b" for b
    by (simp add: parse_log_timestamp_def)
  with Inl show ?thesis by (simp add: check_key_bound_def bindR_eq_Inr)
next
  case (Inr b)
  then show ?thesis by (simp add: check_key_bound_def parse_log_timestamp_def linorder_not_less linorder_not_le)
qed

lemma parse_uses_Inr:
  "parse_uses v = Inr uses \<Longrightarrow> JStr s \<in> set uses \<Longrightarrow> v = JStr s \<or> v \<in> {JArr uses, JTup uses}"
  by (auto simp: parse_uses_def Let_def split: json.splits if_splits)

lemma check_checkpoint_key_Inr:
  assumes "check_checkpoint_key D sig t key = Inr k"
  shows "k = key \<and> in_window key t \<and> for_checkpoints key \<and> get_or_null key ''status'' \<in> {JStr ''active'', JStr ''retired''}"
proof -
  obtain uses where u: "parse_uses (get_or_null key ''use'') = Inr uses" "JStr ''transparency_checkpoint'' \<in> set uses"
    and st: "get_or_null key ''status'' \<in> {JStr ''active'', JStr ''retired''}" "k = key"
    and b: "check_key_bound D key t ''not_before'' False ''trusted checkpoint key was not valid at signing time'' = Inr ()"
      "check_key_bound D key t ''expires_at'' True ''trusted checkpoint key was expired at signing time'' = Inr ()"
      "check_key_bound D key t ''revoked_at'' True ''trusted checkpoint key was revoked at signing time'' = Inr ()"
    using assms unfolding check_checkpoint_key_def by (auto split: if_splits)
  from b have "in_window key t" unfolding check_key_bound_Inr in_window_def by simp
  moreover have "for_checkpoints key" using parse_uses_Inr[OF u] u(2) by (auto simp: for_checkpoints_def)
  ultimately show ?thesis using st by simp
qed

lemma select_checkpoint_key_Inr:
  assumes "select_checkpoint_key D keys p sig t = Inr key"
  shows "sole_key keys p (sg_key_id sig) key \<and> check_checkpoint_key D sig t key = Inr key"
proof -
  obtain issuer where i: "party_from_dict (get_or_null keys ''issuer'') ''trusted_keys.issuer'' = Inr issuer"
      "pa_type issuer = pa_type p" "pa_id issuer = pa_id p"
    and k: "(case get_or_null keys ''keys'' of
         JArr (item # items) \<Rightarrow>
           (case matching_keys (sg_key_id sig) (item # items) of
              [] \<Rightarrow> fail ''UNKNOWN_KEY_ID'' ''no trusted checkpoint key matched key_id''
            | [key] \<Rightarrow> check_checkpoint_key D sig t key
            | _ \<Rightarrow> fail ''TRUSTED_KEYS_INVALID'' ''trusted key set contains duplicate key_id'')
       | _ \<Rightarrow> fail ''TRUSTED_KEYS_INVALID'' ''trusted key set must contain a non-empty keys array'') = Inr key"
    using assms unfolding select_checkpoint_key_def by (auto split: if_splits)
  then obtain items k where "get_or_null keys ''keys'' = JArr items" "matching_keys (sg_key_id sig) items = [k]"
      "check_checkpoint_key D sig t k = Inr key"
    by (auto split: json.splits list.splits)
  moreover from this have "k = key" using check_checkpoint_key_Inr by blast
  ultimately show ?thesis using i by (auto simp: sole_key_def)
qed

text \<open>
  An accepted checkpoint carries an Ed25519 signature over its canonical
  statement, by the only key of that id that the log itself publishes, which is meant for checkpoints, active or
  retired, and whose validity window contains the time of issue.
\<close>

theorem checkpoint_needs_trusted_key:
  assumes "verify_checkpoint_signature D ed25519 checkpoint trusted_keys = Inr v"
  shows "\<exists>ck key verify pk sig message.
    parse_checkpoint D checkpoint = Inr ck \<and> vc_log v = ck_log ck \<and> vc_tree_size v = ck_tree_size ck \<and>
    from_hex (vc_root_hash v) = ck_root ck \<and> vc_issued_at v = ck_issued_at ck \<and>
    sole_key trusted_keys (vc_log v) (vc_key_id v) key \<and> for_checkpoints key \<and> in_window key (vc_issued_at v) \<and>
    get_or_null key ''status'' \<in> {JStr ''active'', JStr ''retired''} \<and>
    checkpoint_public_key D (ck_signature ck) key = Inr pk \<and> length pk = 32 \<and>
    b64url_decode (sg_value (ck_signature ck)) = Inr sig \<and> length sig = 64 \<and>
    canonicalize_bytes D (JObj (checkpoint_statement ck)) = Inr message \<and>
    ed25519 = Some verify \<and> verify pk sig message"
proof -
  obtain ck key pk sig verify message where
    c: "parse_checkpoint D checkpoint = Inr ck"
      "select_checkpoint_key D trusted_keys (ck_log ck) (ck_signature ck) (ck_issued_at ck) = Inr key"
      "checkpoint_public_key D (ck_signature ck) key = Inr pk"
      "decode_base64url D (sg_value (ck_signature ck)) ''checkpoint.signature.value'' ''SIGNATURE_INVALID'' = Inr sig"
      "length pk = 32" "length sig = 64" "ed25519 = Some verify"
      "canonicalize_bytes D (JObj (checkpoint_statement ck)) = Inr message" "verify pk sig message"
      "v = \<lparr>vc_log = ck_log ck, vc_tree_size = ck_tree_size ck, vc_root_hash = hex_of_bytes (ck_root ck),
             vc_issued_at = ck_issued_at ck, vc_key_id = sg_key_id (ck_signature ck)\<rparr>"
    using assms unfolding verify_checkpoint_signature_def Let_def by (auto split: if_splits option.splits)
  note k = select_checkpoint_key_Inr[OF c(2)]
  note kk = check_checkpoint_key_Inr[OF conjunct2[OF k]]
  have "b64url_decode (sg_value (ck_signature ck)) = Inr sig" using c(4) by (simp add: decode_base64url_def split: if_splits)
  with c k kk show ?thesis
    by (intro exI[of _ ck] exI[of _ key] exI[of _ verify] exI[of _ pk] exI[of _ sig] exI[of _ message]) simp
qed

section \<open>A concrete log\<close>

text \<open>A digest function that tells the inputs of a log of two leaves apart, and documents signed over that log.\<close>

definition tree_sha :: "string \<Rightarrow> string" where
  "tree_sha m = replicate 32 (char_of (length m + of_char (last (CHR 0x00 # m)) :: nat))"

definition tree_deps :: deps where
  "tree_deps = sample_deps\<lparr>dep_sha256 := tree_sha\<rparr>"

definition sample_log :: "string list" where
  "sample_log = [replicate 32 CHR ''a'', replicate 32 CHR ''b'']"

definition sample_log_party :: party_ref where
  "sample_log_party = \<lparr>pa_type = ''log'', pa_id = ''log-1'', pa_display_name = JNull, pa_attributes = []\<rparr>"

definition checkpoint_document :: "party_ref \<Rightarrow> nat \<Rightarrow> string \<Rightarrow> datetime \<Rightarrow> signature_spec \<Rightarrow> dict" where
  "checkpoint_document p n apex t sig = [(''contract'', JObj CHECKPOINT_CONTRACT), (''log'', JObj (party_to_dict p)),
     (''tree_size'', JInt (int n)), (''root_hash'', JObj [(''algorithm'', JStr ''sha-256''), (''encoding'', JStr ''hex''),
       (''value'', JStr (hex_of_bytes apex))]), (''issued_at'', JStr (format_timestamp t)), (''signature'', JObj (signature_to_dict sig))]"

definition sample_checkpoint_signature :: signature_spec where
  "sample_checkpoint_signature = \<lparr>sg_algorithm = ''EdDSA'', sg_key_id = ''k1'', sg_encoding = ''base64url'',
     sg_value = b64url_encode (replicate 64 CHR ''s'')\<rparr>"

definition sample_checkpoint :: "nat \<Rightarrow> dict" where
  "sample_checkpoint n = checkpoint_document sample_log_party n (log_root tree_deps (take n sample_log)) 63000000000000000
     sample_checkpoint_signature"

definition sample_parsed :: "nat \<Rightarrow> parsed_checkpoint" where
  "sample_parsed n = \<lparr>ck_log = sample_log_party, ck_tree_size = n, ck_root = log_root tree_deps (take n sample_log),
     ck_issued_at_raw = format_timestamp 63000000000000000, ck_issued_at = 63000000000000000,
     ck_signature = sample_checkpoint_signature\<rparr>"

definition sample_key :: dict where
  "sample_key = [(''key_id'', JStr ''k1''), (''algorithm'', JStr ''EdDSA''), (''use'', JStr ''transparency_checkpoint''),
     (''status'', JStr ''active''), (''public_key_jwk'', JObj [(''kty'', JStr ''OKP''), (''crv'', JStr ''Ed25519''),
       (''x'', JStr (b64url_encode (replicate 32 CHR ''s'')))])]"

definition sample_trusted_keys :: dict where
  "sample_trusted_keys = [(''contract'', contract_entry ''key_discovery''), (''issuer'', JObj (party_to_dict sample_log_party)),
     (''keys'', JArr [JObj sample_key])]"

definition sample_ed25519 :: ed25519 where
  "sample_ed25519 = Some (\<lambda>pk sig message. take 32 sig = pk)"

lemma tree_sha_length [simp]: "length (dep_sha256 tree_deps m) = 32"
  by (simp add: tree_deps_def tree_sha_def)

lemma log_root_length [simp]: "length (log_root tree_deps xs) = 32"
  by (simp add: log_root_def mth_all[where Q = "\<lambda>h. length h = 32"] leaf_hash_def node_hash_def)

lemma parse_checkpoint_document:
  assumes "party_wf p" "signature_wf sig" "dt_ok t" "length apex = 32" "format_timestamp t \<noteq> []"
  shows "parse_checkpoint D (checkpoint_document p n apex t sig) = Inr \<lparr>ck_log = p, ck_tree_size = n, ck_root = apex,
     ck_issued_at_raw = format_timestamp t, ck_issued_at = t, ck_signature = sig\<rparr>"
proof -
  have "parse_hash_spec (JObj [(''algorithm'', JStr ''sha-256''), (''encoding'', JStr ''hex''), (''value'', JStr (hex_of_bytes apex))]) f c
      = Inr apex" for f c
    using assms(4) by (auto simp: parse_hash_spec_def parse_hex_hash_Inr)
  with assms show ?thesis
    by (simp add: parse_checkpoint_def checkpoint_document_def contract_simps parse_log_timestamp_def parse_format_timestamp)
qed

lemma sample_checkpoint_parses: "parse_checkpoint tree_deps (sample_checkpoint n) = Inr (sample_parsed n)"
  unfolding sample_checkpoint_def sample_parsed_def
  by (rule parse_checkpoint_document)
    (simp_all add: party_wf_def signature_wf_def sample_log_party_def sample_checkpoint_signature_def dt_ok_def datetime_limit_def
       b64url_encode_nonempty format_timestamp_def Let_def)

lemma sample_select:
  "select_checkpoint_key tree_deps sample_trusted_keys sample_log_party sample_checkpoint_signature t = Inr sample_key"
  by (simp add: select_checkpoint_key_def sample_trusted_keys_def contract_entry_def party_round_trip party_wf_def
      sample_log_party_def sample_checkpoint_signature_def sample_key_def check_checkpoint_key_def parse_uses_def check_key_bound_def)

lemma is_base64url_b64_char: "n < 64 \<Longrightarrow> is_base64url_char (b64_char n)"
proof -
  assume "n < 64"
  moreover from this have "(of_char (b64_char n) :: nat) \<noteq> 43" "(of_char (b64_char n) :: nat) \<noteq> 47"
    by (simp_all add: b64_char_code) linarith+
  ultimately show ?thesis by (auto simp: is_base64url_char_def)
qed

lemma decode_encoded: "s \<noteq> [] \<Longrightarrow> decode_base64url D (b64url_encode s) f c = Inr s"
proof -
  assume "s \<noteq> []"
  moreover have "list_all is_base64url_char (b64url_encode s)"
    unfolding b64url_encode_digits list_all_iff using is_base64url_b64_char b64_digits_less by force
  ultimately show ?thesis by (simp add: decode_base64url_def b64url_encode_nonempty b64url_decode_encode)
qed

lemma sample_statement_ok:
  assumes "n \<le> 2"
  shows "is_ok (canonicalize_bytes tree_deps (JObj (checkpoint_statement (sample_parsed n))))"
proof (rule canonicalize_bytes_ok)
  have n: "n \<in> {0, 1, 2}" using assms by auto
  show "json_clean (JObj (checkpoint_statement (sample_parsed n)))"
    using n by (auto simp: checkpoint_statement_def sample_parsed_def party_to_dict_def sample_log_party_def put_defs put_if_def
      show_nat.simps[of 2] show_nat.simps[of "Suc 0"] show_nat.simps[of 0] INT_MAX_STR_DIGITS_def)
  show "int (json_depth (JObj (checkpoint_statement (sample_parsed n)))) \<le> dep_max_json_depth tree_deps + 1"
    by (simp add: checkpoint_statement_def sample_parsed_def party_to_dict_def sample_log_party_def put_defs put_if_def
      tree_deps_def sample_deps_def)
  show "text_bound (JObj (checkpoint_statement (sample_parsed n))) \<le> 1048576"
    using n length_format_timestamp[of 63000000000000000]
    by (auto simp: checkpoint_statement_def sample_parsed_def party_to_dict_def sample_log_party_def put_defs put_if_def
      show_int_def show_nat.simps[of 2] show_nat.simps[of "Suc 0"] show_nat.simps[of 0] length_hex_of_bytes)
qed

lemma sample_verified:
  assumes "n \<le> 2"
  shows "verify_checkpoint_signature tree_deps sample_ed25519 (sample_checkpoint n) sample_trusted_keys =
    Inr \<lparr>vc_log = sample_log_party, vc_tree_size = n, vc_root_hash = hex_of_bytes (log_root tree_deps (take n sample_log)),
      vc_issued_at = 63000000000000000, vc_key_id = ''k1''\<rparr>"
proof -
  obtain m where m: "canonicalize_bytes tree_deps (JObj (checkpoint_statement (sample_parsed n))) = Inr m"
    using sample_statement_ok[OF assms] by (auto simp: is_ok_iff)
  have "checkpoint_public_key tree_deps sample_checkpoint_signature sample_key = Inr (replicate 32 CHR ''s'')"
    using b64url_encode_nonempty[of "replicate 32 CHR ''s''"]
    by (simp add: checkpoint_public_key_def sample_key_def decode_encoded)
  moreover have "ck_signature (sample_parsed n) = sample_checkpoint_signature" "ck_log (sample_parsed n) = sample_log_party"
    by (simp_all add: sample_parsed_def)
  moreover have "sg_value sample_checkpoint_signature = b64url_encode (replicate 64 CHR ''s'')"
      "sg_algorithm sample_checkpoint_signature = ''EdDSA''" "sg_encoding sample_checkpoint_signature = ''base64url''"
      "sg_key_id sample_checkpoint_signature = ''k1''"
    by (simp_all add: sample_checkpoint_signature_def)
  ultimately show ?thesis
    using m by (simp add: verify_checkpoint_signature_def sample_checkpoint_parses sample_select decode_encoded sample_ed25519_def)
      (simp add: sample_parsed_def)
qed

text \<open>The strings hashed for the log of two leaves.\<close>

lemma leaf_sample: "leaf_hash tree_deps (replicate 32 c) = replicate 32 (char_of (33 + of_char c :: nat))"
  by (simp add: leaf_hash_def tree_deps_def tree_sha_def)

lemma sample_tree:
  defines "a \<equiv> leaf_hash tree_deps (replicate 32 CHR ''a'')" and "b \<equiv> leaf_hash tree_deps (replicate 32 CHR ''b'')"
  shows "log_pairs tree_deps sample_log = {(a, b)}" "log_pairs tree_deps (take (Suc 0) sample_log) = {}"
    "log_root tree_deps sample_log = node_hash tree_deps a b" "log_root tree_deps (take (Suc 0) sample_log) = a"
    "audit_path (leaf_hash tree_deps) (node_hash tree_deps) (Suc 0) sample_log = [a]"
    "growth_path tree_deps (Suc 0) sample_log = [b]"
  by (simp_all add: sample_log_def a_def b_def log_root_def growth_path_def tree_pairs.simps mth.simps audit_path.simps
      subproof.simps pow2_below.simps Let_def)

lemma sample_inputs_inj:
  "inj_on tree_sha (hash_inputs (set sample_log)
     {(leaf_hash tree_deps (replicate 32 CHR ''a''), leaf_hash tree_deps (replicate 32 CHR ''b''))})"
  by (simp add: hash_inputs_def sample_log_def leaf_sample tree_sha_def inj_on_def)

definition sample_digest :: digest_spec where
  "sample_digest = \<lparr>dg_algorithm = ''sha-256'', dg_canonicalization = ''ACTENON-JCS-STRICT-1'',
     dg_value = hex_of_bytes (replicate 32 CHR ''b'')\<rparr>"

definition sample_inclusion :: verified_inclusion where
  "sample_inclusion = \<lparr>vi_log_id = ''log-1'', vi_tree_size = 2, vi_leaf_index = 1, vi_leaf_digest = sample_digest, vi_checkpoint = None\<rparr>"

abbreviation sample_inclusion_proof :: json where
  "sample_inclusion_proof \<equiv> JObj (inclusion_document tree_deps ''log-1'' sample_digest 1 sample_log)"

abbreviation sample_growth_proof :: json where
  "sample_growth_proof \<equiv> JObj (consistency_document tree_deps ''log-1'' 1 sample_log)"

lemma sample_log_simps [simp]: "length sample_log = 2" "take 2 sample_log = sample_log"
    "take (Suc (Suc 0)) sample_log = sample_log" "length (take (Suc 0) sample_log) = Suc 0"
  by (simp_all add: sample_log_def)

lemma sample_parsed_simps [simp]: "ck_tree_size (sample_parsed n) = n" "ck_root (sample_parsed n) = log_root tree_deps (take n sample_log)"
    "ck_log (sample_parsed n) = sample_log_party" "pa_id sample_log_party = ''log-1''"
  by (simp_all add: sample_parsed_def sample_log_party_def)

lemma sample_known: "known_digest tree_deps sample_digest" "sample_log ! 1 = from_hex (dg_value sample_digest)"
  by (simp_all add: known_digest_def sample_digest_def tree_deps_def sample_deps_def sample_log_def)

theorem genuine_inclusion_accepted_witness:
  "verify_inclusion tree_deps (DigestArg sample_digest) sample_inclusion_proof (sample_checkpoint 2) = Inr sample_inclusion"
  using genuine_inclusion_accepted[of tree_deps sample_digest 1 sample_log "sample_checkpoint 2" "sample_parsed 2"]
  by (simp add: sample_known sample_known(2)[unfolded One_nat_def] sample_checkpoint_parses sample_inclusion_def)

lemma sample_included:
  "verify_inclusion tree_deps (DigestArg sample_digest) sample_inclusion_proof (sample_checkpoint 2) = Inr sample_inclusion"
  using genuine_inclusion[of tree_deps sample_digest 1 sample_log "sample_checkpoint 2" "sample_parsed 2"]
  by (simp add: sample_known sample_known(2)[unfolded One_nat_def] sample_checkpoint_parses sample_inclusion_def)

lemma carried_hex_path: "list_all (\<lambda>h. length h = 32) p \<Longrightarrow> get_or_null d f = hex_path p \<Longrightarrow> carried_path (JObj d) f = p"
  by (rule carried_path_eq[where f = f and c = f]) (simp add: hex_path_def parse_hash_path_hex)

lemma sample_carried:
  "carried_path sample_inclusion_proof ''audit_path'' = [leaf_hash tree_deps (replicate 32 CHR ''a'')]"
  "carried_path sample_growth_proof ''consistency_path'' = [leaf_hash tree_deps (replicate 32 CHR ''b'')]"
  by (rule carried_hex_path; simp add: leaf_hash_def inclusion_document_def consistency_document_def sample_tree)+

lemma tree_sha_dep: "dep_sha256 tree_deps = tree_sha"
  by (simp add: tree_deps_def)

lemma sample_inclusion_inj: "inj_on (dep_sha256 tree_deps) (inclusion_inputs tree_deps sample_inclusion sample_inclusion_proof sample_log)"
proof -
  have "insert (replicate 32 CHR ''b'') (set sample_log) = set sample_log" by (auto simp: sample_log_def)
  then show ?thesis
    using sample_inputs_inj unfolding inclusion_inputs_def sample_carried
    by (simp add: sample_inclusion_def sample_digest_def sample_tree loop_pairs_def goes_right_def tree_sha_dep)
qed

theorem inclusion_is_genuine_witness:
  "vi_leaf_index sample_inclusion < length sample_log \<and>
   from_hex (dg_value (vi_leaf_digest sample_inclusion)) = sample_log ! vi_leaf_index sample_inclusion"
  by (rule inclusion_is_genuine[OF _ sample_included sample_checkpoint_parses _ _ sample_inclusion_inj]) simp_all

lemma sample_grown:
  "verify_consistency tree_deps (sample_checkpoint 1) (sample_checkpoint 2) sample_growth_proof =
    Inr \<lparr>vn_log_id = ''log-1'', vn_old_tree_size = 1, vn_new_tree_size = 2\<rparr>"
  using genuine_growth[of tree_deps 1 sample_log "sample_checkpoint 1" "sample_parsed 1" "sample_checkpoint 2" "sample_parsed 2"]
  by (simp add: sample_checkpoint_parses)

theorem genuine_growth_accepted_witness:
  "verify_consistency tree_deps (sample_checkpoint 1) (sample_checkpoint 2) sample_growth_proof =
    Inr \<lparr>vn_log_id = ''log-1'', vn_old_tree_size = 1, vn_new_tree_size = 2\<rparr>"
  using genuine_growth_accepted[of tree_deps 1 sample_log "sample_checkpoint 1" "sample_parsed 1" "sample_checkpoint 2" "sample_parsed 2"]
  by (simp add: sample_checkpoint_parses)

lemma sample_update:
  "\<exists>u. verify_monitor_update tree_deps sample_ed25519 (sample_checkpoint 1) (sample_checkpoint 2) sample_growth_proof
     sample_trusted_keys = Inr u"
  using sample_grown by (simp add: verify_monitor_update_def sample_verified)

lemma sample_growth_inj: "inj_on (dep_sha256 tree_deps) (consistency_inputs tree_deps sample_growth_proof (take 1 sample_log) sample_log)"
proof -
  have "set (take (Suc 0) sample_log) \<union> set sample_log = set sample_log" by (auto simp: sample_log_def)
  then show ?thesis
    using sample_inputs_inj unfolding consistency_inputs_def sample_carried
    by (simp add: sample_tree strip_odd.simps consistency_start_def consistency_pairs_def goes_right_def tree_sha_dep)
qed

theorem monitor_update_append_only_witness: "\<exists>zs. sample_log = take 1 sample_log @ zs"
proof -
  obtain u where "verify_monitor_update tree_deps sample_ed25519 (sample_checkpoint 1) (sample_checkpoint 2) sample_growth_proof
     sample_trusted_keys = Inr u" using sample_update by blast
  from monitor_update_append_only[OF _ this sample_checkpoint_parses _ _ sample_checkpoint_parses _ _ sample_growth_inj] show ?thesis by simp
qed

theorem checkpoint_needs_trusted_key_witness:
  "\<exists>ck key verify pk sig message. parse_checkpoint tree_deps (sample_checkpoint 2) = Inr ck \<and>
     sole_key sample_trusted_keys sample_log_party ''k1'' key \<and> checkpoint_public_key tree_deps (ck_signature ck) key = Inr pk \<and>
     canonicalize_bytes tree_deps (JObj (checkpoint_statement ck)) = Inr message \<and>
     sample_ed25519 = Some verify \<and> verify pk sig message"
proof -
  have "(2 :: nat) \<le> 2" by simp
  from checkpoint_needs_trusted_key[OF sample_verified[OF this], unfolded verified_checkpoint.select_convs]
  show ?thesis by (elim exE conjE) (intro exI conjI; assumption)
qed

end
