(* ===== verification/Countersignature.thy ===== *)
theory Countersignature
  imports Transparency Outcomes
begin

text \<open>
  Offline verification of receipt counter-signatures (\<^verbatim>\<open>verifier/countersignature.py\<close>): a witness signs the digest of
  a receipt, and the verifier checks the digest and the signature against a pinned key set. The \<open>cryptography\<close>
  package is the parameter \<open>ed25519\<close> of \<open>Transparency\<close>; the message for its absence is kept up to its dash.
\<close>

section \<open>Errors and field checks\<close>

datatype cs_error = CounterSignatureVerificationError (cs_code: string) (cs_message: string) | EscapedCs exn

type_synonym 'a cs = "(cs_error, 'a) result"

record verified_countersignature =
  vs_receipt_digest :: digest_spec
  vs_witness :: party_ref
  vs_signed_at :: datetime
  vs_key_id :: string
  vs_anchor_reference :: "dict option"

definition fail_cs :: "string \<Rightarrow> string \<Rightarrow> 'a cs" where
  "fail_cs code message = Inl (CounterSignatureVerificationError code message)"

text \<open>Exceptions of a kind that is caught become a verification error, all others escape.\<close>

definition catching :: "(exn \<Rightarrow> bool) \<Rightarrow> string \<Rightarrow> string \<Rightarrow> 'a res \<Rightarrow> 'a cs" where
  "catching caught code message m = (case m of Inr x \<Rightarrow> Inr x
     | Inl e \<Rightarrow> if caught e then fail_cs code message else Inl (EscapedCs e))"

definition a_value_error :: "deps \<Rightarrow> exn \<Rightarrow> bool" where
  "a_value_error D e = (case e of Raise c _ \<Rightarrow> is_value_error D c | Refuse _ \<Rightarrow> False)"

definition require_mapping_cs :: "json \<Rightarrow> string \<Rightarrow> dict cs" where
  "require_mapping_cs v field_name = (case v of JObj d \<Rightarrow> Inr d
     | _ \<Rightarrow> fail_cs ''INVALID_COUNTERSIGNATURE'' (field_name @ '' must be a JSON object''))"

definition require_string_cs :: "json \<Rightarrow> string \<Rightarrow> string cs" where
  "require_string_cs v field_name = (case v of
       JStr s \<Rightarrow> if s \<noteq> [] then Inr s else fail_cs ''INVALID_COUNTERSIGNATURE'' (field_name @ '' must be a non-empty string'')
     | _ \<Rightarrow> fail_cs ''INVALID_COUNTERSIGNATURE'' (field_name @ '' must be a non-empty string''))"

definition decode_base64url_cs :: "deps \<Rightarrow> string \<Rightarrow> string \<Rightarrow> string cs" where
  "decode_base64url_cs D v field_name =
     (if v = [] \<or> \<not> list_all is_base64url_char v
      then fail_cs ''INVALID_COUNTERSIGNATURE'' (field_name @ '' must be unpadded base64url'')
      else catching (a_value_error D) ''INVALID_COUNTERSIGNATURE'' (field_name @ '' must be unpadded base64url'') (b64url_decode v))"

definition parse_digest_cs :: "deps \<Rightarrow> json \<Rightarrow> string \<Rightarrow> digest_spec cs" where
  "parse_digest_cs D v field_name =
     bindR (require_mapping_cs v field_name) (\<lambda>data.
     bindR (require_string_cs (get_or_null data ''algorithm'') (field_name @ ''.algorithm'')) (\<lambda>algorithm.
     bindR (require_string_cs (get_or_null data ''canonicalization'') (field_name @ ''.canonicalization'')) (\<lambda>canonicalization.
     bindR (require_string_cs (get_or_null data ''value'') (field_name @ ''.value'')) (\<lambda>digest_value.
     if algorithm \<noteq> ''sha-256'' \<or> canonicalization \<notin> set (dep_accepted_profiles D) \<or> \<not> is_hex256 digest_value
     then fail_cs ''INVALID_RECEIPT_DIGEST'' ''receipt digest must declare sha-256, a known canonicalization profile, and a lowercase 64-character hex value''
     else Inr \<lparr>dg_algorithm = algorithm, dg_canonicalization = canonicalization, dg_value = digest_value\<rparr>))))"

text \<open>
  A receipt or its digest. A mapping with the three keys of a digest is taken as one, otherwise it has to be a
  receipt, which is hashed.
\<close>

definition resolve_receipt_value :: "deps \<Rightarrow> json \<Rightarrow> digest_spec cs" where
  "resolve_receipt_value D v =
     bindR (require_mapping_cs v ''receipt_or_digest'') (\<lambda>data.
     if dmem data ''algorithm'' \<and> dmem data ''canonicalization'' \<and> dmem data ''value''
     then parse_digest_cs D (JObj data) ''receipt_or_digest''
     else if (case get_or_null data ''contract'' of
         JObj contract \<Rightarrow> get_or_null contract ''name'' \<noteq> JStr ''receipt'' \<or> get_or_null contract ''version'' \<noteq> JStr ''v1''
       | _ \<Rightarrow> True)
     then fail_cs ''INVALID_RECEIPT_DIGEST'' ''receipt_or_digest must be a Receipt v1 artifact or a complete digest object''
     else catching (catches_type_value_recursion D) ''INVALID_RECEIPT_DIGEST'' ''receipt could not be canonicalized for digest verification''
       (build_artifact_digest D data))"

fun resolve_receipt_digest :: "deps \<Rightarrow> digest_arg \<Rightarrow> digest_spec cs" where
  "resolve_receipt_digest D (DigestArg d) = parse_digest_cs D (JObj (digest_to_dict d)) ''receipt_or_digest''"
| "resolve_receipt_digest D (ValueArg v) = resolve_receipt_value D v"

definition parse_uses_cs :: "json \<Rightarrow> json list cs" where
  "parse_uses_cs v = (let uses = (case v of JStr s \<Rightarrow> [v] | JArr xs \<Rightarrow> xs | JTup xs \<Rightarrow> xs | _ \<Rightarrow> []) in
     if uses = [] \<or> list_ex (\<lambda>item. case item of JStr s \<Rightarrow> s = [] | _ \<Rightarrow> True) uses
     then fail_cs ''TRUSTED_KEYS_INVALID'' ''trusted key use must be a non-empty string or array of strings''
     else Inr uses)"

definition parse_timestamp_cs :: "deps \<Rightarrow> json \<Rightarrow> string \<Rightarrow> string \<Rightarrow> datetime cs" where
  "parse_timestamp_cs D v field_name code =
     catching (a_value_error D) code (field_name @ '' must be an RFC3339 timestamp'') (parse_timestamp v field_name)"

section \<open>Statement and key\<close>

definition signed_statement :: "digest_spec \<Rightarrow> party_ref \<Rightarrow> string \<Rightarrow> dict option \<Rightarrow> dict" where
  "signed_statement receipt_digest witness signed_at_raw anchor_reference =
     (let payload = [(''context'', JStr ''actenon.receipt-countersignature.v1''),
        (''receipt_digest'', JObj (digest_to_dict receipt_digest)), (''witness'', JObj (party_to_dict witness)),
        (''signed_at'', JStr signed_at_raw)] in
      case anchor_reference of None \<Rightarrow> payload | Some a \<Rightarrow> dput payload ''anchor_reference'' (JObj a))"

definition check_bound_cs :: "deps \<Rightarrow> dict \<Rightarrow> datetime \<Rightarrow> string \<Rightarrow> bool \<Rightarrow> string \<Rightarrow> unit cs" where
  "check_bound_cs D key signed_at field_name inclusive message =
     (if get_or_null key field_name = JNull then Inr ()
      else bindR (parse_timestamp_cs D (get_or_null key field_name) (''keys[].'' @ field_name) ''TRUSTED_KEYS_INVALID'') (\<lambda>bound.
        if (if inclusive then bound \<le> signed_at else signed_at < bound) then fail_cs ''KEY_NOT_VALID'' message else Inr ()))"

definition check_trusted_key :: "deps \<Rightarrow> signature_spec \<Rightarrow> datetime \<Rightarrow> dict \<Rightarrow> dict cs" where
  "check_trusted_key D signature signed_at key =
     (if get_or_null key ''algorithm'' \<noteq> JStr (sg_algorithm signature)
      then fail_cs ''SIGNATURE_INVALID'' ''trusted key algorithm does not match the counter-signature''
      else bindR (parse_uses_cs (get_or_null key ''use'')) (\<lambda>uses.
        if JStr ''receipt_countersignature'' \<notin> set uses
        then fail_cs ''KEY_PURPOSE_MISMATCH'' ''trusted key is not authorized for receipt counter-signatures''
        else if \<not> hashable (get_or_null key ''status'') then Inl (EscapedCs (Raise TypeError ''unhashable type''))
        else if get_or_null key ''status'' \<notin> {JStr ''active'', JStr ''retired''}
        then fail_cs ''KEY_NOT_VALID'' ''trusted counter-signing key is not active or retired''
        else
        bindR (check_bound_cs D key signed_at ''not_before'' False ''trusted counter-signing key was not valid at signing time'') (\<lambda>_.
        bindR (check_bound_cs D key signed_at ''expires_at'' True ''trusted counter-signing key was expired at signing time'') (\<lambda>_.
        bindR (check_bound_cs D key signed_at ''revoked_at'' True ''trusted counter-signing key was revoked at signing time'') (\<lambda>_.
        Inr key)))))"

definition select_trusted_key :: "deps \<Rightarrow> dict \<Rightarrow> party_ref \<Rightarrow> signature_spec \<Rightarrow> datetime \<Rightarrow> dict cs" where
  "select_trusted_key D trusted_keys witness signature signed_at =
     bindR (require_mapping_cs (get_or_null trusted_keys ''contract'') ''trusted_keys.contract'') (\<lambda>contract.
     if get_or_null contract ''name'' \<noteq> JStr ''key_discovery'' \<or> get_or_null contract ''version'' \<noteq> JStr ''v1''
     then fail_cs ''TRUSTED_KEYS_INVALID'' ''trusted key set must declare key_discovery v1''
     else
     bindR (catching (a_value_error D) ''TRUSTED_KEYS_INVALID'' ''trusted key set issuer is invalid''
       (party_from_dict (get_or_null trusted_keys ''issuer'') ''trusted_keys.issuer'')) (\<lambda>issuer.
     if (pa_type issuer, pa_id issuer) \<noteq> (pa_type witness, pa_id witness)
     then fail_cs ''WITNESS_MISMATCH'' ''counter-signature witness does not match the trusted key-set issuer''
     else (case get_or_null trusted_keys ''keys'' of
         JArr (item # items) \<Rightarrow>
           (case matching_keys (sg_key_id signature) (item # items) of
              [] \<Rightarrow> fail_cs ''UNKNOWN_KEY_ID'' ''no trusted counter-signing key matched key_id''
            | [key] \<Rightarrow> check_trusted_key D signature signed_at key
            | _ \<Rightarrow> fail_cs ''TRUSTED_KEYS_INVALID'' ''trusted key set contains duplicate key_id'')
       | _ \<Rightarrow> fail_cs ''TRUSTED_KEYS_INVALID'' ''trusted key set must contain a non-empty keys array'')))"

definition witness_public_key :: "deps \<Rightarrow> signature_spec \<Rightarrow> dict \<Rightarrow> string cs" where
  "witness_public_key D signature key =
     bindR (require_mapping_cs (get_or_null key ''public_key_jwk'') ''keys[].public_key_jwk'') (\<lambda>jwk.
     if get_or_null jwk ''kty'' \<noteq> JStr ''OKP'' \<or> get_or_null jwk ''crv'' \<noteq> JStr ''Ed25519''
        \<or> get_or_null jwk ''kid'' \<notin> {JNull, JStr (sg_key_id signature)}
        \<or> get_or_null jwk ''alg'' \<notin> {JNull, JStr ''EdDSA''}
     then fail_cs ''TRUSTED_KEYS_INVALID'' ''counter-signing key must be an Ed25519 OKP JWK matching signature.key_id''
     else bindR (require_string_cs (get_or_null jwk ''x'') ''public_key_jwk.x'') (\<lambda>x. decode_base64url_cs D x ''public_key_jwk.x''))"

definition verify_ed25519 :: "deps \<Rightarrow> ed25519 \<Rightarrow> dict \<Rightarrow> signature_spec \<Rightarrow> dict \<Rightarrow> unit cs" where
  "verify_ed25519 D ed25519 statement signature key =
     (if sg_algorithm signature \<noteq> ''EdDSA'' \<or> sg_encoding signature \<noteq> ''base64url''
      then fail_cs ''UNSUPPORTED_ALGORITHM'' ''receipt counter-signature v1 verification supports EdDSA/Ed25519 with base64url encoding''
      else
      bindR (witness_public_key D signature key) (\<lambda>public_key_bytes.
      bindR (decode_base64url_cs D (sg_value signature) ''signature.value'') (\<lambda>signature_bytes.
      if length public_key_bytes \<noteq> 32 \<or> length signature_bytes \<noteq> 64
      then fail_cs ''SIGNATURE_INVALID'' ''counter-signature key or signature has an invalid Ed25519 length''
      else (case ed25519 of
          None \<Rightarrow> fail_cs ''CRYPTO_BACKEND_UNAVAILABLE'' ''Ed25519 verification requires the 'cryptography' package''
        | Some verify \<Rightarrow>
            (case canonicalize_bytes D (JObj statement) of
               Inl e \<Rightarrow> Inl (EscapedCs e)
             | Inr message \<Rightarrow>
                 if \<not> verify public_key_bytes signature_bytes message
                 then fail_cs ''SIGNATURE_INVALID'' ''receipt counter-signature could not be verified'' else Inr ())))))"

section \<open>Verification\<close>

definition COUNTERSIGNATURE_CONTRACT :: dict where
  "COUNTERSIGNATURE_CONTRACT = [(''name'', JStr ''receipt_countersignature''), (''version'', JStr ''v1'')]"

definition verify_countersignature :: "deps \<Rightarrow> ed25519 \<Rightarrow> digest_arg \<Rightarrow> json \<Rightarrow> json \<Rightarrow> verified_countersignature cs" where
  "verify_countersignature D ed25519 receipt_or_digest countersignature trusted_keys =
     bindR (resolve_receipt_digest D receipt_or_digest) (\<lambda>expected_digest.
     bindR (require_mapping_cs countersignature ''countersignature'') (\<lambda>artifact.
     bindR (require_mapping_cs (get_or_null artifact ''contract'') ''countersignature.contract'') (\<lambda>contract.
     if \<not> dict_eq contract COUNTERSIGNATURE_CONTRACT
     then fail_cs ''INVALID_COUNTERSIGNATURE'' ''contract must declare receipt_countersignature v1''
     else
     bindR (parse_digest_cs D (get_or_null artifact ''receipt_digest'') ''countersignature.receipt_digest'') (\<lambda>observed_digest.
     if dg_value observed_digest \<noteq> dg_value expected_digest
     then fail_cs ''RECEIPT_DIGEST_MISMATCH'' ''counter-signature receipt digest does not match the supplied receipt or digest''
     else
     bindR (catching (a_value_error D) ''INVALID_COUNTERSIGNATURE'' ''counter-signature witness or signature is invalid''
       (party_from_dict (get_or_null artifact ''witness'') ''countersignature.witness'')) (\<lambda>witness.
     bindR (catching (a_value_error D) ''INVALID_COUNTERSIGNATURE'' ''counter-signature witness or signature is invalid''
       (signature_from_dict (get_or_null artifact ''signature''))) (\<lambda>signature.
     bindR (require_string_cs (get_or_null artifact ''signed_at'') ''countersignature.signed_at'') (\<lambda>signed_at_raw.
     bindR (parse_timestamp_cs D (JStr signed_at_raw) ''countersignature.signed_at'' ''INVALID_COUNTERSIGNATURE'') (\<lambda>signed_at.
     bindR (if get_or_null artifact ''anchor_reference'' = JNull then Inr None
       else bindR (require_mapping_cs (get_or_null artifact ''anchor_reference'') ''countersignature.anchor_reference'') (\<lambda>a. Inr (Some a)))
       (\<lambda>anchor_reference.
     bindR (require_mapping_cs trusted_keys ''trusted_keys'') (\<lambda>keys.
     bindR (select_trusted_key D keys witness signature signed_at) (\<lambda>key.
     bindR (verify_ed25519 D ed25519 (signed_statement observed_digest witness signed_at_raw anchor_reference) signature key) (\<lambda>_.
     Inr \<lparr>vs_receipt_digest = observed_digest, vs_witness = witness, vs_signed_at = signed_at,
       vs_key_id = sg_key_id signature, vs_anchor_reference = anchor_reference\<rparr>))))))))))))"

section \<open>What an accepted counter-signature shows\<close>

lemma fail_cs_not_Inr [simp]: "fail_cs code message \<noteq> Inr x" "Inr x \<noteq> fail_cs code message"
  by (simp_all add: fail_cs_def)

lemma catching_Inr [simp]: "catching c code message m = Inr x \<longleftrightarrow> m = Inr x" "catching c code message (Inr x) = Inr x"
  by (cases m; simp add: catching_def)+

lemma require_mapping_cs_Inr: "require_mapping_cs v f = Inr d \<longleftrightarrow> v = JObj d"
  by (simp add: require_mapping_cs_def split: json.splits)

lemma require_string_cs_Inr: "require_string_cs v f = Inr s \<longleftrightarrow> v = JStr s \<and> s \<noteq> []"
  by (auto simp: require_string_cs_def split: json.splits)

text \<open>Both modules read a digest in the same way.\<close>

lemma parse_digest_cs_Inr: "parse_digest_cs D v f = Inr d \<longleftrightarrow> parse_digest D v g = Inr d"
  unfolding parse_digest_Inr using is_hex256_nonempty[of "dg_value d"]
  by (cases d) (auto simp: parse_digest_cs_def bindR_eq_Inr require_mapping_cs_Inr require_string_cs_Inr split: if_splits)

definition for_countersignatures :: "dict \<Rightarrow> bool" where
  "for_countersignatures key \<longleftrightarrow> get_or_null key ''use'' = JStr ''receipt_countersignature'' \<or>
     (\<exists>uses. get_or_null key ''use'' \<in> {JArr uses, JTup uses} \<and> JStr ''receipt_countersignature'' \<in> set uses)"

lemma check_bound_cs_Inr:
  "check_bound_cs D key t f inclusive m = Inr () \<longleftrightarrow> get_or_null key f = JNull \<or>
     (\<exists>b. parse_timestamp (get_or_null key f) (''keys[].'' @ f) = Inr b \<and> (if inclusive then t < b else b \<le> t))"
proof (cases "parse_timestamp (get_or_null key f) (''keys[].'' @ f)")
  case (Inl e)
  then have "parse_timestamp_cs D (get_or_null key f) (''keys[].'' @ f) ''TRUSTED_KEYS_INVALID'' \<noteq> Inr b" for b
    by (simp add: parse_timestamp_cs_def)
  with Inl show ?thesis by (simp add: check_bound_cs_def bindR_eq_Inr)
next
  case (Inr b)
  then show ?thesis by (simp add: check_bound_cs_def parse_timestamp_cs_def linorder_not_less linorder_not_le)
qed

lemma check_trusted_key_Inr:
  assumes "check_trusted_key D sig t key = Inr k"
  shows "k = key \<and> in_window key t \<and> for_countersignatures key \<and> get_or_null key ''status'' \<in> {JStr ''active'', JStr ''retired''}"
proof -
  obtain uses where u: "parse_uses_cs (get_or_null key ''use'') = Inr uses" "JStr ''receipt_countersignature'' \<in> set uses"
    and st: "get_or_null key ''status'' \<in> {JStr ''active'', JStr ''retired''}" "k = key"
    and b: "check_bound_cs D key t ''not_before'' False ''trusted counter-signing key was not valid at signing time'' = Inr ()"
      "check_bound_cs D key t ''expires_at'' True ''trusted counter-signing key was expired at signing time'' = Inr ()"
      "check_bound_cs D key t ''revoked_at'' True ''trusted counter-signing key was revoked at signing time'' = Inr ()"
    using assms unfolding check_trusted_key_def by (auto split: if_splits)
  from b have "in_window key t" unfolding check_bound_cs_Inr in_window_def by simp
  moreover have "for_countersignatures key"
    using u by (auto simp: for_countersignatures_def parse_uses_cs_def Let_def split: json.splits if_splits)
  ultimately show ?thesis using st by simp
qed

lemma select_trusted_key_Inr:
  assumes "select_trusted_key D keys w sig t = Inr key"
  shows "sole_key keys w (sg_key_id sig) key \<and> check_trusted_key D sig t key = Inr key"
proof -
  obtain issuer where i: "party_from_dict (get_or_null keys ''issuer'') ''trusted_keys.issuer'' = Inr issuer"
      "pa_type issuer = pa_type w" "pa_id issuer = pa_id w"
    and k: "(case get_or_null keys ''keys'' of
         JArr (item # items) \<Rightarrow>
           (case matching_keys (sg_key_id sig) (item # items) of
              [] \<Rightarrow> fail_cs ''UNKNOWN_KEY_ID'' ''no trusted counter-signing key matched key_id''
            | [key] \<Rightarrow> check_trusted_key D sig t key
            | _ \<Rightarrow> fail_cs ''TRUSTED_KEYS_INVALID'' ''trusted key set contains duplicate key_id'')
       | _ \<Rightarrow> fail_cs ''TRUSTED_KEYS_INVALID'' ''trusted key set must contain a non-empty keys array'') = Inr key"
    using assms unfolding select_trusted_key_def by (auto split: if_splits)
  then obtain items k where "get_or_null keys ''keys'' = JArr items" "matching_keys (sg_key_id sig) items = [k]"
      "check_trusted_key D sig t k = Inr key"
    by (auto split: json.splits list.splits)
  moreover from this have "k = key" using check_trusted_key_Inr by blast
  ultimately show ?thesis using i by (auto simp: sole_key_def)
qed

text \<open>The bytes of the Ed25519 key that an entry of a key set publishes, and of the signature that an artifact carries.\<close>

definition published_ed25519 :: "dict \<Rightarrow> string \<Rightarrow> bool" where
  "published_ed25519 key pk \<longleftrightarrow> (\<exists>jwk x. get_or_null key ''public_key_jwk'' = JObj jwk \<and> get_or_null jwk ''kty'' = JStr ''OKP'' \<and>
     get_or_null jwk ''crv'' = JStr ''Ed25519'' \<and> get_or_null jwk ''x'' = JStr x \<and> b64url_decode x = Inr pk \<and> length pk = 32)"

definition carried_signature :: "dict \<Rightarrow> string \<Rightarrow> string \<Rightarrow> bool" where
  "carried_signature artifact key_id sig \<longleftrightarrow> (\<exists>s. signature_from_dict (get_or_null artifact ''signature'') = Inr s \<and>
     sg_key_id s = key_id \<and> sg_algorithm s = ''EdDSA'' \<and> b64url_decode (sg_value s) = Inr sig \<and> length sig = 64)"

text \<open>
  The witness signed the digest: the signature that the artifact carries verifies under the only key of that id that the
  witness publishes, which is meant for counter-signatures and inside its window, over the statement of digest, witness,
  time and anchor.
\<close>

definition witnessed :: "deps \<Rightarrow> ed25519 \<Rightarrow> dict \<Rightarrow> dict \<Rightarrow> verified_countersignature \<Rightarrow> bool" where
  "witnessed D ed25519 keys artifact v \<longleftrightarrow> (\<exists>key check pk sig message signed_at_raw.
     sole_key keys (vs_witness v) (vs_key_id v) key \<and> for_countersignatures key \<and> in_window key (vs_signed_at v) \<and>
     get_or_null key ''status'' \<in> {JStr ''active'', JStr ''retired''} \<and>
     get_or_null artifact ''signed_at'' = JStr signed_at_raw \<and>
     parse_timestamp (JStr signed_at_raw) ''countersignature.signed_at'' = Inr (vs_signed_at v) \<and>
     canonicalize_bytes D (JObj (signed_statement (vs_receipt_digest v) (vs_witness v) signed_at_raw (vs_anchor_reference v))) = Inr message \<and>
     ed25519 = Some check \<and> published_ed25519 key pk \<and> carried_signature artifact (vs_key_id v) sig \<and> check pk sig message)"

lemma decode_base64url_cs_Inr: "decode_base64url_cs D v f = Inr b \<Longrightarrow> b64url_decode v = Inr b"
  by (simp add: decode_base64url_cs_def split: if_splits)

lemma witness_public_key_Inr: "witness_public_key D signature key = Inr pk \<Longrightarrow> length pk = 32 \<Longrightarrow> published_ed25519 key pk"
  unfolding witness_public_key_def published_ed25519_def
  by (auto simp: require_mapping_cs_Inr require_string_cs_Inr dest!: decode_base64url_cs_Inr elim!: bindR_eq_InrE split: if_splits)

lemma verify_ed25519_Inr:
  assumes "verify_ed25519 D ed25519 statement signature key = Inr ()"
  obtains check pk sig message where "ed25519 = Some check" "published_ed25519 key pk" "sg_algorithm signature = ''EdDSA''"
    "b64url_decode (sg_value signature) = Inr sig" "length sig = 64"
    "canonicalize_bytes D (JObj statement) = Inr message" "check pk sig message"
  using assms unfolding verify_ed25519_def
  by (auto split: if_splits option.splits sum.splits dest!: decode_base64url_cs_Inr witness_public_key_Inr)

lemma verify_countersignature_InrE:
  assumes "verify_countersignature D ed25519 arg countersignature trusted_keys = Inr v"
  obtains d artifact keys where "resolve_receipt_digest D arg = Inr d" "countersignature = JObj artifact" "trusted_keys = JObj keys"
    "parse_digest_cs D (get_or_null artifact ''receipt_digest'') ''countersignature.receipt_digest'' = Inr (vs_receipt_digest v)"
    "dg_value (vs_receipt_digest v) = dg_value d" "witnessed D ed25519 keys artifact v"
proof -
  obtain d artifact keys witness signature signed_at_raw signed_at anchor key where
    v: "resolve_receipt_digest D arg = Inr d" "countersignature = JObj artifact" "trusted_keys = JObj keys"
      "parse_digest_cs D (get_or_null artifact ''receipt_digest'') ''countersignature.receipt_digest'' = Inr (vs_receipt_digest v)"
      "dg_value (vs_receipt_digest v) = dg_value d"
    and parts: "signature_from_dict (get_or_null artifact ''signature'') = Inr signature" "get_or_null artifact ''signed_at'' = JStr signed_at_raw"
    and at: "parse_timestamp_cs D (JStr signed_at_raw) ''countersignature.signed_at'' ''INVALID_COUNTERSIGNATURE'' = Inr signed_at"
    and key: "select_trusted_key D keys witness signature signed_at = Inr key"
    and ed: "verify_ed25519 D ed25519 (signed_statement (vs_receipt_digest v) witness signed_at_raw anchor) signature key = Inr ()"
    and fields: "vs_witness v = witness" "vs_signed_at v = signed_at" "vs_key_id v = sg_key_id signature" "vs_anchor_reference v = anchor"
    using assms unfolding verify_countersignature_def
    by (auto simp: require_mapping_cs_Inr require_string_cs_Inr split: if_splits)
  note k = select_trusted_key_Inr[OF key]
  note kk = check_trusted_key_Inr[OF conjunct2[OF k]]
  from ed have "witnessed D ed25519 keys artifact v"
    using k kk at parts unfolding witnessed_def carried_signature_def fields parse_timestamp_cs_def catching_Inr
    by (elim verify_ed25519_Inr) blast
  with v show thesis by (rule that)
qed

lemma verify_countersignature_inclusion_InrE:
  assumes "verify_countersignature_inclusion D ed25519 countersignature inclusion_proof checkpoint trusted_keys = Inr w"
  obtains artifact d u where "countersignature = JObj artifact"
    "parse_digest D (get_or_null artifact ''receipt_digest'') ''countersignature.receipt_digest'' = Inr d"
    "verify_inclusion D (DigestArg d) inclusion_proof checkpoint = Inr u" "vi_leaf_index w = vi_leaf_index u" "vi_leaf_digest w = vi_leaf_digest u"
  using assms unfolding verify_countersignature_inclusion_def
  by (auto simp: require_mapping_Inr split: if_splits sum.splits tv_error.splits)

lemma resolve_receipt_value_receipt:
  assumes "resolve_receipt_value D (JObj receipt) = Inr d"
    and "\<not> (dmem receipt ''algorithm'' \<and> dmem receipt ''canonicalization'' \<and> dmem receipt ''value'')"
  obtains bytes where "canonicalize_bytes D (JObj receipt) = Inr bytes" "dg_value d = hex_of_bytes (dep_sha256 D bytes)"
  using assms unfolding resolve_receipt_value_def build_artifact_digest_def sha256_hex_def
  by (auto simp: require_mapping_cs_def split: if_splits)

lemma resolve_digest_same: "resolve_digest D (DigestArg d) = Inr e \<Longrightarrow> e = d"
  by (cases d) (auto simp: digest_to_dict_def parse_digest_Inr)

section \<open>A concrete counter-signature\<close>

text \<open>A receipt whose digest is the second leaf of the sample log, signed by a witness and anchored there.\<close>

definition sample_logged_receipt :: dict where
  "sample_logged_receipt = [(''contract'', contract_entry ''receipt''), (''note'', JStr (replicate 173 CHR ''x''))]"

definition sample_witness :: party_ref where
  "sample_witness = \<lparr>pa_type = ''service'', pa_id = ''witness-1'', pa_display_name = JNull, pa_attributes = []\<rparr>"

definition sample_anchor :: dict where
  "sample_anchor = [(''type'', JStr ''transparency_log''), (''id'', JStr ''log-1''), (''leaf_index'', JInt 1)]"

definition sample_countersignature :: dict where
  "sample_countersignature = [(''contract'', JObj COUNTERSIGNATURE_CONTRACT), (''receipt_digest'', JObj (digest_to_dict sample_digest)),
     (''witness'', JObj (party_to_dict sample_witness)), (''signature'', JObj (signature_to_dict sample_checkpoint_signature)),
     (''signed_at'', JStr (format_timestamp 63000000000000000)), (''anchor_reference'', JObj sample_anchor)]"

definition sample_witness_key :: dict where
  "sample_witness_key = [(''key_id'', JStr ''k1''), (''algorithm'', JStr ''EdDSA''), (''use'', JStr ''receipt_countersignature''),
     (''status'', JStr ''active''), (''public_key_jwk'', JObj [(''kty'', JStr ''OKP''), (''crv'', JStr ''Ed25519''),
       (''x'', JStr (b64url_encode (replicate 32 CHR ''s'')))])]"

definition sample_witness_keys :: dict where
  "sample_witness_keys = [(''contract'', contract_entry ''key_discovery''), (''issuer'', JObj (party_to_dict sample_witness)),
     (''keys'', JArr [JObj sample_witness_key])]"

definition sample_countersigned :: verified_countersignature where
  "sample_countersigned = \<lparr>vs_receipt_digest = sample_digest, vs_witness = sample_witness, vs_signed_at = 63000000000000000,
     vs_key_id = ''k1'', vs_anchor_reference = Some sample_anchor\<rparr>"

lemma sample_logged_receipt_digest: "build_artifact_digest tree_deps sample_logged_receipt = Inr sample_digest"
proof -
  have "is_ok (canonicalize_bytes tree_deps (JObj sample_logged_receipt))"
    by (rule canonicalize_bytes_ok)
      (simp_all add: sample_logged_receipt_def contract_entry_def tree_deps_def sample_deps_def ascii_no_surrogate list_all_iff)
  then obtain b where b: "canonicalize_bytes tree_deps (JObj sample_logged_receipt) = Inr b" by (auto simp: is_ok_iff)
  then have "b = encode (json_norm (JObj sample_logged_receipt))" using canonicalize_value_encode[OF canonicalize_bytes_value] by blast
  then have "length b = 229" "last (CHR 0x00 # b) = CHR ''}''"
    by (simp_all add: sample_logged_receipt_def contract_entry_def quote_string_def escape_char_def length_concat sum_list_replicate)
  then have "dep_sha256 tree_deps b = replicate 32 CHR ''b''" by (simp add: tree_sha_dep tree_sha_def char_of_def)
  with b show ?thesis by (simp add: build_artifact_digest_def sha256_hex_def sample_digest_def tree_deps_def sample_deps_def)
qed

lemma sample_witness_statement:
  "is_ok (canonicalize_bytes tree_deps (JObj (signed_statement sample_digest sample_witness (format_timestamp 63000000000000000) (Some sample_anchor))))"
  by (rule canonicalize_bytes_ok)
    (use length_format_timestamp[of 63000000000000000] in
     \<open>simp_all add: signed_statement_def digest_to_dict_def sample_digest_def party_to_dict_def sample_witness_def sample_anchor_def
       put_defs put_if_def show_int_def show_nat.simps[of "Suc 0"] tree_deps_def sample_deps_def INT_MAX_STR_DIGITS_def length_hex_of_bytes\<close>)

lemma decode_encoded_cs: "s \<noteq> [] \<Longrightarrow> decode_base64url_cs D (b64url_encode s) f = Inr s"
  using decode_encoded[of s D f f] by (simp add: decode_base64url_def decode_base64url_cs_def b64url_encode_nonempty split: if_splits)

lemma sample_witness_key_trusted:
  "select_trusted_key tree_deps sample_witness_keys sample_witness sample_checkpoint_signature t = Inr sample_witness_key"
  by (simp add: select_trusted_key_def sample_witness_keys_def contract_entry_def require_mapping_cs_def party_round_trip party_wf_def
      sample_witness_def sample_checkpoint_signature_def sample_witness_key_def check_trusted_key_def parse_uses_cs_def check_bound_cs_def)

lemma sample_witness_signature:
  "verify_ed25519 tree_deps sample_ed25519 (signed_statement sample_digest sample_witness (format_timestamp 63000000000000000) (Some sample_anchor))
     sample_checkpoint_signature sample_witness_key = Inr ()"
proof -
  have "witness_public_key tree_deps sample_checkpoint_signature sample_witness_key = Inr (replicate 32 CHR ''s'')"
    using b64url_encode_nonempty[of "replicate 32 CHR ''s''"]
    by (simp add: witness_public_key_def sample_witness_key_def require_mapping_cs_def require_string_cs_def decode_encoded_cs)
  then show ?thesis
    using sample_witness_statement
    by (auto simp: verify_ed25519_def sample_checkpoint_signature_def decode_encoded_cs sample_ed25519_def is_ok_iff)
qed

lemma sample_checkpoint_signature_key: "sg_key_id sample_checkpoint_signature = ''k1''"
  by (simp add: sample_checkpoint_signature_def)

lemma sample_countersignature_verifies:
  "verify_countersignature tree_deps sample_ed25519 (ValueArg (JObj sample_logged_receipt)) (JObj sample_countersignature) (JObj sample_witness_keys)
     = Inr sample_countersigned"
proof -
  have "resolve_receipt_value tree_deps (JObj sample_logged_receipt) = Inr sample_digest"
    using sample_logged_receipt_digest
    by (simp add: resolve_receipt_value_def require_mapping_cs_def sample_logged_receipt_def contract_entry_def dmem_def)
  moreover have "parse_digest_cs tree_deps (JObj (digest_to_dict sample_digest)) f = Inr sample_digest" for f
    using parse_known_digest[OF sample_known(1)] parse_digest_cs_Inr by blast
  moreover have "parse_timestamp_cs tree_deps (JStr (format_timestamp 63000000000000000)) f c = Inr 63000000000000000" for f c
    by (simp add: parse_timestamp_cs_def parse_format_timestamp dt_ok_def datetime_limit_def)
  moreover have "signature_from_dict (JObj (signature_to_dict sample_checkpoint_signature)) = Inr sample_checkpoint_signature"
    "party_from_dict (JObj (party_to_dict sample_witness)) f = Inr sample_witness" for f
    by (simp_all add: signature_round_trip party_round_trip signature_wf_def party_wf_def sample_checkpoint_signature_def
        sample_witness_def b64url_encode_nonempty)
  moreover have "format_timestamp 63000000000000000 \<noteq> []" by (simp add: format_timestamp_def Let_def)
  moreover have "dict_eq COUNTERSIGNATURE_CONTRACT COUNTERSIGNATURE_CONTRACT" by (simp add: dict_eq_def COUNTERSIGNATURE_CONTRACT_def)
  ultimately show ?thesis
    using sample_witness_signature
    by (simp add: verify_countersignature_def sample_countersignature_def require_mapping_cs_def require_string_cs_def
        sample_witness_key_trusted sample_countersigned_def sample_checkpoint_signature_key)
qed

lemma sample_countersignature_logged:
  "\<exists>w. verify_countersignature_inclusion tree_deps sample_ed25519 (JObj sample_countersignature) sample_inclusion_proof
     (sample_checkpoint 2) sample_trusted_keys = Inr w \<and> vi_leaf_index w = 1 \<and> vi_leaf_digest w = sample_digest"
  using sample_included sample_verified[of 2]
  by (simp add: verify_countersignature_inclusion_def sample_countersignature_def COUNTERSIGNATURE_CONTRACT_def sample_anchor_def
      sample_known require_nonnegative_int_def sample_inclusion_def)

end
