(* ===== verification/TrustArtifacts.thy ===== *)
theory TrustArtifacts
  imports Countersignature Proof
begin

text \<open>
  Offline verification of issuer status and of approvals (\<^verbatim>\<open>verifier/trust_artifacts.py\<close>), and what the key selection
  of the three offline verifiers has in common, as the locale \<open>pinned_keys\<close>. The \<open>cryptography\<close> package is the
  parameter \<open>ed25519\<close> of \<open>Transparency\<close>; of its message only the part before the dash is kept. The age of a status is
  compared in microseconds, as the quotient of \<open>total_seconds\<close> is exact for windows below \<open>2\<^sup>3\<^sup>3\<close> seconds.
\<close>

section \<open>Errors and field checks\<close>

datatype ta_error = TrustArtifactVerificationError (ta_code: string) (ta_message: string) | EscapedTa exn

type_synonym 'a ta = "(ta_error, 'a) result"

record verified_issuer_status =
  vis_issuer :: party_ref
  vis_authority :: party_ref
  vis_status :: string
  vis_issued_at :: datetime
  vis_expires_at :: datetime
  vis_key_id :: string
  vis_status_reference :: "string option"

record verified_approval =
  vap_approval_id :: string
  vap_approver :: party_ref
  vap_approval_type :: string
  vap_decision :: string
  vap_action_hash :: action_hash_spec
  vap_issued_at :: datetime
  vap_key_id :: string

definition fail_ta :: "string \<Rightarrow> string \<Rightarrow> 'a ta" where
  "fail_ta code message = Inl (TrustArtifactVerificationError code message)"

text \<open>\<open>except ValueError\<close> around a parser.\<close>

definition guarding :: "deps \<Rightarrow> string \<Rightarrow> string \<Rightarrow> 'a res \<Rightarrow> 'a ta" where
  "guarding D code message m = (case m of Inr x \<Rightarrow> Inr x
     | Inl e \<Rightarrow> if a_value_error D e then fail_ta code message else Inl (EscapedTa e))"

definition unguarded :: "'a res \<Rightarrow> 'a ta" where
  "unguarded m = (case m of Inr x \<Rightarrow> Inr x | Inl e \<Rightarrow> Inl (EscapedTa e))"

definition require_mapping_ta :: "json \<Rightarrow> string \<Rightarrow> string \<Rightarrow> dict ta" where
  "require_mapping_ta v field_name code = (case v of JObj d \<Rightarrow> Inr d
     | _ \<Rightarrow> fail_ta code (field_name @ '' must be a JSON object''))"

definition require_string_ta :: "json \<Rightarrow> string \<Rightarrow> string \<Rightarrow> string ta" where
  "require_string_ta v field_name code = (case v of
       JStr s \<Rightarrow> if s \<noteq> [] then Inr s else fail_ta code (field_name @ '' must be a non-empty string'')
     | _ \<Rightarrow> fail_ta code (field_name @ '' must be a non-empty string''))"

definition parse_timestamp_ta :: "deps \<Rightarrow> json \<Rightarrow> string \<Rightarrow> string \<Rightarrow> (string \<times> datetime) ta" where
  "parse_timestamp_ta D v field_name code =
     bindR (require_string_ta v field_name code) (\<lambda>raw.
     bindR (guarding D code (field_name @ '' must be an RFC3339 timestamp'') (parse_timestamp (JStr raw) field_name)) (\<lambda>t.
     Inr (raw, t)))"

definition parse_party_ta :: "deps \<Rightarrow> json \<Rightarrow> string \<Rightarrow> string \<Rightarrow> party_ref ta" where
  "parse_party_ta D v field_name code = guarding D code (field_name @ '' must identify a party'') (party_from_dict v field_name)"

definition parse_signature_ta :: "deps \<Rightarrow> json \<Rightarrow> string \<Rightarrow> string \<Rightarrow> signature_spec ta" where
  "parse_signature_ta D v field_name code = guarding D code (field_name @ '' is invalid'') (signature_from_dict v)"

definition parse_uses_ta :: "json \<Rightarrow> json list ta" where
  "parse_uses_ta v = (let uses = (case v of JStr s \<Rightarrow> [v] | JArr xs \<Rightarrow> xs | JTup xs \<Rightarrow> xs | _ \<Rightarrow> []) in
     if uses = [] \<or> list_ex (\<lambda>item. case item of JStr s \<Rightarrow> s = [] | _ \<Rightarrow> True) uses
     then fail_ta ''TRUSTED_KEYS_INVALID'' ''trusted key use must be a non-empty string or array of strings''
     else Inr uses)"

definition decode_base64url_ta :: "deps \<Rightarrow> string \<Rightarrow> string \<Rightarrow> string \<Rightarrow> string ta" where
  "decode_base64url_ta D v field_name code =
     (if v = [] \<or> \<not> list_all is_base64url_char v then fail_ta code (field_name @ '' must be unpadded base64url'')
      else guarding D code (field_name @ '' must be unpadded base64url'') (b64url_decode v))"

section \<open>Keys and signatures\<close>

definition check_bound_ta :: "deps \<Rightarrow> dict \<Rightarrow> datetime \<Rightarrow> string \<Rightarrow> bool \<Rightarrow> string \<Rightarrow> unit ta" where
  "check_bound_ta D key signed_at field_name inclusive message =
     (if get_or_null key field_name = JNull then Inr ()
      else bindR (parse_timestamp_ta D (get_or_null key field_name) (''keys[].'' @ field_name) ''TRUSTED_KEYS_INVALID'') (\<lambda>(_, bound).
        if (if inclusive then bound \<le> signed_at else signed_at < bound) then fail_ta ''KEY_NOT_VALID'' message else Inr ()))"

definition check_key_ta :: "deps \<Rightarrow> string \<Rightarrow> signature_spec \<Rightarrow> datetime \<Rightarrow> dict \<Rightarrow> dict ta" where
  "check_key_ta D required_use signature signed_at key =
     (if get_or_null key ''algorithm'' \<noteq> JStr (sg_algorithm signature)
      then fail_ta ''SIGNATURE_INVALID'' ''trusted key algorithm does not match the artifact signature''
      else bindR (parse_uses_ta (get_or_null key ''use'')) (\<lambda>uses.
        if JStr required_use \<notin> set uses
        then fail_ta ''KEY_PURPOSE_MISMATCH'' (''trusted key is not authorized for '' @ required_use)
        else if \<not> hashable (get_or_null key ''status'') then Inl (EscapedTa (Raise TypeError ''unhashable type''))
        else if get_or_null key ''status'' \<notin> {JStr ''active'', JStr ''retired''}
        then fail_ta ''KEY_NOT_VALID'' ''trusted key is not active or retired''
        else
        bindR (check_bound_ta D key signed_at ''not_before'' False ''trusted key was not valid at signing time'') (\<lambda>_.
        bindR (check_bound_ta D key signed_at ''expires_at'' True ''trusted key was expired at signing time'') (\<lambda>_.
        bindR (check_bound_ta D key signed_at ''revoked_at'' True ''trusted key was revoked at signing time'') (\<lambda>_.
        Inr key)))))"

definition select_key :: "deps \<Rightarrow> string \<Rightarrow> json \<Rightarrow> party_ref \<Rightarrow> signature_spec \<Rightarrow> datetime \<Rightarrow> dict ta" where
  "select_key D required_use trusted_keys signing_party signature signed_at =
     bindR (require_mapping_ta trusted_keys ''trusted_keys'' ''TRUSTED_KEYS_INVALID'') (\<lambda>key_set.
     bindR (require_mapping_ta (get_or_null key_set ''contract'') ''trusted_keys.contract'' ''TRUSTED_KEYS_INVALID'') (\<lambda>contract.
     if get_or_null contract ''name'' \<noteq> JStr ''key_discovery'' \<or> get_or_null contract ''version'' \<noteq> JStr ''v1''
     then fail_ta ''TRUSTED_KEYS_INVALID'' ''trusted key set must declare key_discovery v1''
     else
     bindR (parse_party_ta D (get_or_null key_set ''issuer'') ''trusted_keys.issuer'' ''TRUSTED_KEYS_INVALID'') (\<lambda>key_issuer.
     if (pa_type key_issuer, pa_id key_issuer) \<noteq> (pa_type signing_party, pa_id signing_party)
     then fail_ta ''SIGNER_MISMATCH'' ''artifact signer does not match the trusted key-set issuer''
     else (case get_or_null key_set ''keys'' of
         JArr (item # items) \<Rightarrow>
           (case matching_keys (sg_key_id signature) (item # items) of
              [] \<Rightarrow> fail_ta ''UNKNOWN_KEY_ID'' ''no trusted key matched key_id''
            | [key] \<Rightarrow> check_key_ta D required_use signature signed_at key
            | _ \<Rightarrow> fail_ta ''TRUSTED_KEYS_INVALID'' ''trusted key set contains duplicate key_id'')
       | _ \<Rightarrow> fail_ta ''TRUSTED_KEYS_INVALID'' ''trusted key set must contain a non-empty keys array''))))"

definition public_key_ta :: "deps \<Rightarrow> signature_spec \<Rightarrow> dict \<Rightarrow> string ta" where
  "public_key_ta D signature key =
     bindR (require_mapping_ta (get_or_null key ''public_key_jwk'') ''keys[].public_key_jwk'' ''TRUSTED_KEYS_INVALID'') (\<lambda>jwk.
     if get_or_null jwk ''kty'' \<noteq> JStr ''OKP'' \<or> get_or_null jwk ''crv'' \<noteq> JStr ''Ed25519''
        \<or> get_or_null jwk ''kid'' \<notin> {JNull, JStr (sg_key_id signature)}
        \<or> get_or_null jwk ''alg'' \<notin> {JNull, JStr ''EdDSA''}
     then fail_ta ''TRUSTED_KEYS_INVALID'' ''trusted key must be an Ed25519 OKP JWK matching signature.key_id''
     else bindR (require_string_ta (get_or_null jwk ''x'') ''public_key_jwk.x'' ''TRUSTED_KEYS_INVALID'') (\<lambda>x.
       decode_base64url_ta D x ''public_key_jwk.x'' ''TRUSTED_KEYS_INVALID''))"

definition verify_ed25519_ta :: "deps \<Rightarrow> ed25519 \<Rightarrow> dict \<Rightarrow> signature_spec \<Rightarrow> dict \<Rightarrow> unit ta" where
  "verify_ed25519_ta D ed25519 statement signature key =
     (if sg_algorithm signature \<noteq> ''EdDSA'' \<or> sg_encoding signature \<noteq> ''base64url''
      then fail_ta ''UNSUPPORTED_ALGORITHM'' ''trust artifact v1 supports EdDSA/Ed25519 with base64url encoding''
      else
      bindR (public_key_ta D signature key) (\<lambda>public_key_bytes.
      bindR (decode_base64url_ta D (sg_value signature) ''signature.value'' ''SIGNATURE_INVALID'') (\<lambda>signature_bytes.
      if length public_key_bytes \<noteq> 32 \<or> length signature_bytes \<noteq> 64
      then fail_ta ''SIGNATURE_INVALID'' ''trusted key or signature has an invalid Ed25519 length''
      else (case ed25519 of
          None \<Rightarrow> fail_ta ''CRYPTO_BACKEND_UNAVAILABLE'' ''Ed25519 verification requires the 'cryptography' package''
        | Some check \<Rightarrow> bindR (unguarded (canonicalize_bytes D (JObj statement))) (\<lambda>message.
            if \<not> check public_key_bytes signature_bytes message
            then fail_ta ''SIGNATURE_INVALID'' ''artifact signature could not be verified'' else Inr ())))))"

section \<open>Issuer status\<close>

definition ISSUER_STATUS_CONTRACT :: dict where
  "ISSUER_STATUS_CONTRACT = [(''name'', JStr ''issuer_status''), (''version'', JStr ''v1'')]"

datatype issuer_arg = PartyArg party_ref | PartyValue json

fun resolve_issuer :: "deps \<Rightarrow> issuer_arg \<Rightarrow> party_ref ta" where
  "resolve_issuer D (PartyArg p) = Inr p"
| "resolve_issuer D (PartyValue v) = parse_party_ta D v ''issuer'' ''INVALID_ISSUER_STATUS''"

definition issuer_statement :: "party_ref \<Rightarrow> party_ref \<Rightarrow> string \<Rightarrow> string \<Rightarrow> string \<Rightarrow> string option \<Rightarrow> dict" where
  "issuer_statement issuer authority status issued_at_raw expires_at_raw status_reference =
     [(''context'', JStr ''actenon.issuer-status.v1''), (''issuer'', JObj (party_to_dict issuer)),
      (''authority'', JObj (party_to_dict authority)), (''status'', JStr status),
      (''issued_at'', JStr issued_at_raw), (''expires_at'', JStr expires_at_raw)]
     @ (case status_reference of None \<Rightarrow> [] | Some r \<Rightarrow> [(''status_reference'', JStr r)])"

text \<open>The checks up to the signature, and then the verdict on the status itself.\<close>

definition authenticate_issuer_status ::
  "deps \<Rightarrow> ed25519 \<Rightarrow> issuer_arg \<Rightarrow> json \<Rightarrow> json \<Rightarrow> datetime \<Rightarrow> int \<Rightarrow> verified_issuer_status ta" where
  "authenticate_issuer_status D ed25519 issuer status_artifact trusted_keys now max_age_seconds =
     bindR (resolve_issuer D issuer) (\<lambda>expected_issuer.
     bindR (require_mapping_ta status_artifact ''status_artifact'' ''INVALID_ISSUER_STATUS'') (\<lambda>artifact.
     bindR (require_mapping_ta (get_or_null artifact ''contract'') ''status_artifact.contract'' ''INVALID_ISSUER_STATUS'') (\<lambda>contract.
     if \<not> dict_eq contract ISSUER_STATUS_CONTRACT
     then fail_ta ''INVALID_ISSUER_STATUS'' ''contract must declare issuer_status v1''
     else
     bindR (parse_party_ta D (get_or_null artifact ''issuer'') ''status_artifact.issuer'' ''INVALID_ISSUER_STATUS'') (\<lambda>observed_issuer.
     if (pa_type observed_issuer, pa_id observed_issuer) \<noteq> (pa_type expected_issuer, pa_id expected_issuer)
     then fail_ta ''ISSUER_MISMATCH'' ''issuer-status artifact does not describe the expected issuer''
     else
     bindR (parse_party_ta D (get_or_null artifact ''authority'') ''status_artifact.authority'' ''INVALID_ISSUER_STATUS'') (\<lambda>authority.
     bindR (require_string_ta (get_or_null artifact ''status'') ''status_artifact.status'' ''INVALID_ISSUER_STATUS'') (\<lambda>status.
     if status \<notin> {''good_standing'', ''suspended'', ''revoked''}
     then fail_ta ''INVALID_ISSUER_STATUS'' ''issuer status must be good_standing, suspended, or revoked''
     else
     bindR (parse_timestamp_ta D (get_or_null artifact ''issued_at'') ''status_artifact.issued_at'' ''INVALID_ISSUER_STATUS'')
       (\<lambda>(issued_at_raw, issued_at).
     bindR (parse_timestamp_ta D (get_or_null artifact ''expires_at'') ''status_artifact.expires_at'' ''INVALID_ISSUER_STATUS'')
       (\<lambda>(expires_at_raw, expires_at).
     if expires_at \<le> issued_at then fail_ta ''INVALID_ISSUER_STATUS'' ''issuer-status expiry must be after issuance''
     else if now < issued_at then fail_ta ''ISSUER_STATUS_NOT_YET_VALID'' ''issuer status is not yet valid''
     else if expires_at \<le> now then fail_ta ''ISSUER_STATUS_EXPIRED'' ''issuer status has expired''
     else if max_age_seconds * 1000000 < now - issued_at
     then fail_ta ''ISSUER_STATUS_STALE'' ''issuer status exceeds the configured freshness window''
     else
     bindR (if get_or_null artifact ''status_reference'' = JNull then Inr None
       else bindR (require_string_ta (get_or_null artifact ''status_reference'') ''status_artifact.status_reference''
         ''INVALID_ISSUER_STATUS'') (\<lambda>r. Inr (Some r))) (\<lambda>status_reference.
     bindR (parse_signature_ta D (get_or_null artifact ''signature'') ''status_artifact.signature'' ''INVALID_ISSUER_STATUS'') (\<lambda>signature.
     bindR (select_key D ''issuer_status'' trusted_keys authority signature issued_at) (\<lambda>key.
     bindR (verify_ed25519_ta D ed25519
       (issuer_statement observed_issuer authority status issued_at_raw expires_at_raw status_reference) signature key) (\<lambda>_.
     Inr \<lparr>vis_issuer = observed_issuer, vis_authority = authority, vis_status = status, vis_issued_at = issued_at,
       vis_expires_at = expires_at, vis_key_id = sg_key_id signature, vis_status_reference = status_reference\<rparr>))))))))))))"

text \<open>The clock of the caller is aware of its time zone or not.\<close>

datatype clock = Aware datetime | Naive

definition verify_issuer_status ::
  "deps \<Rightarrow> ed25519 \<Rightarrow> issuer_arg \<Rightarrow> json \<Rightarrow> json \<Rightarrow> clock \<Rightarrow> int \<Rightarrow> string \<Rightarrow> verified_issuer_status option ta" where
  "verify_issuer_status D ed25519 issuer status_artifact trusted_keys now max_age_seconds status_policy =
     (if status_policy \<notin> {''required'', ''disabled''}
      then Inl (EscapedTa (Raise ValueError (''status_policy must be '' @ [CHR 0x27] @ ''required'' @ [CHR 0x27] @ '' or ''
        @ [CHR 0x27] @ ''disabled'' @ [CHR 0x27])))
      else if status_policy = ''disabled'' then Inr None
      else if status_artifact = JNull \<or> trusted_keys = JNull
      then fail_ta ''ISSUER_STATUS_REQUIRED'' ''high-assurance verification requires a signed issuer-status artifact''
      else if max_age_seconds \<le> 0 then Inl (EscapedTa (Raise ValueError ''max_age_seconds must be positive''))
      else (case now of
          Naive \<Rightarrow> Inl (EscapedTa (Raise ValueError ''now must be timezone-aware''))
        | Aware t \<Rightarrow>
            bindR (authenticate_issuer_status D ed25519 issuer status_artifact trusted_keys t max_age_seconds) (\<lambda>v.
            if vis_status v = ''revoked'' then fail_ta ''ISSUER_REVOKED'' ''issuer status is revoked''
            else if vis_status v = ''suspended'' then fail_ta ''ISSUER_SUSPENDED'' ''issuer status is suspended''
            else Inr (Some v))))"

section \<open>Approvals\<close>

definition APPROVAL_CONTRACT :: dict where
  "APPROVAL_CONTRACT = [(''name'', JStr ''approval_artifact''), (''version'', JStr ''v1'')]"

definition parse_action_hash_ta :: "deps \<Rightarrow> json \<Rightarrow> action_hash_spec ta" where
  "parse_action_hash_ta D v =
     bindR (guarding D ''INVALID_APPROVAL_ARTIFACT'' ''approval action_hash is invalid'' (action_hash_from_dict v ''action_hash'')) (\<lambda>h.
     if ah_algorithm h \<noteq> ''sha-256'' \<or> ah_canonicalization h \<notin> set (dep_accepted_profiles D) \<or> \<not> is_hex256 (ah_value h)
     then fail_ta ''INVALID_APPROVAL_ARTIFACT'' ''approval action_hash must declare sha-256, a known canonicalization profile, and lowercase hex''
     else Inr h)"

datatype expected_action = NoAction | HashArg action_hash_spec | IntentArg action_intent | MappingArg dict

definition intent_action_hash :: "deps \<Rightarrow> action_intent \<Rightarrow> action_hash_spec ta" where
  "intent_action_hash D i = bindR (unguarded (sha256_hex D (build_action_hash_input i))) (\<lambda>h.
     Inr \<lparr>ah_algorithm = ''sha-256'', ah_canonicalization = dep_profile D, ah_value = h\<rparr>)"

definition resolve_expected_mapping :: "deps \<Rightarrow> dict \<Rightarrow> action_hash_spec ta" where
  "resolve_expected_mapping D v =
     (if dmem v ''algorithm'' \<and> dmem v ''canonicalization'' \<and> dmem v ''value'' then parse_action_hash_ta D (JObj v)
      else bindR (guarding D ''INVALID_APPROVAL_ARTIFACT'' ''expected_action must be an Action Intent or action hash''
        (intent_from_dict (JObj v))) (\<lambda>i. intent_action_hash D i))"

text \<open>\<open>None\<close> is the absence of an expectation.\<close>

fun resolve_expected_action_hash :: "deps \<Rightarrow> expected_action \<Rightarrow> action_hash_spec option ta" where
  "resolve_expected_action_hash D NoAction = Inr None"
| "resolve_expected_action_hash D (HashArg h) = bindR (parse_action_hash_ta D (JObj (action_hash_to_dict h))) (\<lambda>e. Inr (Some e))"
| "resolve_expected_action_hash D (IntentArg i) = bindR (intent_action_hash D i) (\<lambda>e. Inr (Some e))"
| "resolve_expected_action_hash D (MappingArg v) = bindR (resolve_expected_mapping D v) (\<lambda>e. Inr (Some e))"

definition approval_statement :: "string \<Rightarrow> party_ref \<Rightarrow> string \<Rightarrow> string \<Rightarrow> action_hash_spec \<Rightarrow> string \<Rightarrow> dict" where
  "approval_statement approval_id approver approval_type decision action_hash issued_at_raw =
     [(''context'', JStr ''actenon.approval-artifact.v1''), (''approval_id'', JStr approval_id),
      (''approver'', JObj (party_to_dict approver)), (''approval_type'', JStr approval_type), (''decision'', JStr decision),
      (''action_hash'', JObj (action_hash_to_dict action_hash)), (''issued_at'', JStr issued_at_raw)]"

definition verify_approval_artifact :: "deps \<Rightarrow> ed25519 \<Rightarrow> json \<Rightarrow> json \<Rightarrow> expected_action \<Rightarrow> verified_approval ta" where
  "verify_approval_artifact D ed25519 approval trusted_keys expected_action =
     bindR (require_mapping_ta approval ''approval'' ''INVALID_APPROVAL_ARTIFACT'') (\<lambda>artifact.
     bindR (require_mapping_ta (get_or_null artifact ''contract'') ''approval.contract'' ''INVALID_APPROVAL_ARTIFACT'') (\<lambda>contract.
     if \<not> dict_eq contract APPROVAL_CONTRACT
     then fail_ta ''INVALID_APPROVAL_ARTIFACT'' ''contract must declare approval_artifact v1''
     else
     bindR (require_string_ta (get_or_null artifact ''approval_id'') ''approval.approval_id'' ''INVALID_APPROVAL_ARTIFACT'') (\<lambda>approval_id.
     bindR (parse_party_ta D (get_or_null artifact ''approver'') ''approval.approver'' ''INVALID_APPROVAL_ARTIFACT'') (\<lambda>approver.
     bindR (require_string_ta (get_or_null artifact ''approval_type'') ''approval.approval_type'' ''INVALID_APPROVAL_ARTIFACT'') (\<lambda>approval_type.
     bindR (require_string_ta (get_or_null artifact ''decision'') ''approval.decision'' ''INVALID_APPROVAL_ARTIFACT'') (\<lambda>decision.
     if decision \<noteq> ''approved'' then fail_ta ''APPROVAL_NOT_GRANTED'' ''approval artifact decision is not approved''
     else
     bindR (parse_action_hash_ta D (get_or_null artifact ''action_hash'')) (\<lambda>action_hash.
     bindR (resolve_expected_action_hash D expected_action) (\<lambda>expected_hash.
     if (case expected_hash of None \<Rightarrow> False | Some e \<Rightarrow> ah_value action_hash \<noteq> ah_value e)
     then fail_ta ''APPROVAL_ACTION_MISMATCH'' ''approval artifact is not bound to the expected action''
     else
     bindR (parse_timestamp_ta D (get_or_null artifact ''issued_at'') ''approval.issued_at'' ''INVALID_APPROVAL_ARTIFACT'')
       (\<lambda>(issued_at_raw, issued_at).
     bindR (parse_signature_ta D (get_or_null artifact ''signature'') ''approval.signature'' ''INVALID_APPROVAL_ARTIFACT'') (\<lambda>signature.
     bindR (select_key D ''approval_artifact'' trusted_keys approver signature issued_at) (\<lambda>key.
     bindR (verify_ed25519_ta D ed25519
       (approval_statement approval_id approver approval_type decision action_hash issued_at_raw) signature key) (\<lambda>_.
     Inr \<lparr>vap_approval_id = approval_id, vap_approver = approver, vap_approval_type = approval_type, vap_decision = decision,
       vap_action_hash = action_hash, vap_issued_at = issued_at, vap_key_id = sg_key_id signature\<rparr>))))))))))))"

section \<open>Pinned keys\<close>

text \<open>
  What the three verifiers promise of the key they select: it is the only one of that id in the set that the signing
  party publishes, it has the required use, is active or retired, and its window contains the time of signing.
\<close>

definition for_use :: "string \<Rightarrow> dict \<Rightarrow> bool" where
  "for_use u key \<longleftrightarrow> get_or_null key ''use'' = JStr u \<or>
     (\<exists>uses. get_or_null key ''use'' \<in> {JArr uses, JTup uses} \<and> JStr u \<in> set uses)"

definition pinned_key :: "string \<Rightarrow> dict \<Rightarrow> party_ref \<Rightarrow> string \<Rightarrow> datetime \<Rightarrow> dict \<Rightarrow> bool" where
  "pinned_key u keys p key_id t key \<longleftrightarrow> sole_key keys p key_id key \<and> for_use u key \<and> in_window key t \<and>
     get_or_null key ''status'' \<in> {JStr ''active'', JStr ''retired''}"

locale pinned_keys =
  fixes select :: "dict \<Rightarrow> party_ref \<Rightarrow> signature_spec \<Rightarrow> datetime \<Rightarrow> ('e, dict) result" and required_use :: string
  assumes select_pinned: "select keys p sig t = Inr key \<Longrightarrow> pinned_key required_use keys p (sg_key_id sig) t key"
begin

text \<open>The id decides the key, whoever signed whatever and when.\<close>

lemma one_key_per_id:
  assumes "select keys p sig t = Inr key" "select keys q sig' t' = Inr key'" "sg_key_id sig = sg_key_id sig'"
  shows "key = key' \<and> pa_type p = pa_type q \<and> pa_id p = pa_id q"
  using assms(1,2)[THEN select_pinned] assms(3) by (auto simp: pinned_key_def sole_key_def)

text \<open>Nothing signed at or after the revocation of its key is accepted.\<close>

lemma revoked_key_not_selected:
  assumes "select keys p sig t = Inr key" "parse_timestamp (get_or_null key ''revoked_at'') ''keys[].revoked_at'' = Inr r"
    "get_or_null key ''revoked_at'' \<noteq> JNull"
  shows "t < r"
  using select_pinned[OF assms(1)] assms(2,3) by (auto simp: pinned_key_def in_window_def)

end

lemma fail_ta_not_Inr [simp]: "fail_ta code message \<noteq> Inr x" "Inr x \<noteq> fail_ta code message"
  by (simp_all add: fail_ta_def)

lemma ta_guardE: "(if c then fail_ta code message else m) = Inr x \<Longrightarrow> (\<not> c \<Longrightarrow> m = Inr x \<Longrightarrow> R) \<Longrightarrow> R"
  by (simp split: if_splits)

lemma ta_pairE: "(case p of (a, b) \<Rightarrow> f a b) = Inr x \<Longrightarrow> (\<And>a b. p = (a, b) \<Longrightarrow> f a b = Inr x \<Longrightarrow> R) \<Longrightarrow> R"
  by (cases p) simp

lemmas ta_elims = bindR_eq_InrE ta_guardE ta_pairE

lemma guarding_Inr [simp]: "guarding D code message m = Inr x \<longleftrightarrow> m = Inr x" "unguarded m = Inr x \<longleftrightarrow> m = Inr x"
  "guarding D code message (Inr x) = Inr x" "unguarded (Inr x) = Inr x"
  by (cases m; simp add: guarding_def unguarded_def)+

lemma require_ta_Inr: "require_mapping_ta v f c = Inr d \<longleftrightarrow> v = JObj d" "require_string_ta v f c = Inr s \<longleftrightarrow> v = JStr s \<and> s \<noteq> []"
  by (auto simp: require_mapping_ta_def require_string_ta_def split: json.splits)

lemma parse_timestamp_ta_Inr: "parse_timestamp_ta D v f c = Inr (raw, t) \<longleftrightarrow> v = JStr raw \<and> raw \<noteq> [] \<and> parse_timestamp v f = Inr t"
  by (auto simp: parse_timestamp_ta_def bindR_eq_Inr require_ta_Inr)

lemma check_bound_ta_Inr:
  assumes "check_bound_ta D key t f inclusive m = Inr u"
  shows "get_or_null key f = JNull \<or> (\<exists>b. parse_timestamp (get_or_null key f) (''keys[].'' @ f) = Inr b \<and> (if inclusive then t < b else b \<le> t))"
proof (cases "get_or_null key f = JNull")
  case False
  with assms obtain raw b where "parse_timestamp_ta D (get_or_null key f) (''keys[].'' @ f) ''TRUSTED_KEYS_INVALID'' = Inr (raw, b)"
      "\<not> (if inclusive then b \<le> t else t < b)"
    unfolding check_bound_ta_def by (auto simp: bindR_eq_Inr split: if_splits)
  then show ?thesis by (auto simp: parse_timestamp_ta_Inr linorder_not_less linorder_not_le)
qed simp

lemma check_key_ta_Inr:
  assumes "check_key_ta D u sig t key = Inr k"
  shows "k = key \<and> for_use u key \<and> in_window key t \<and> get_or_null key ''status'' \<in> {JStr ''active'', JStr ''retired''}"
proof -
  obtain uses where u: "parse_uses_ta (get_or_null key ''use'') = Inr uses" "JStr u \<in> set uses"
    and st: "get_or_null key ''status'' \<in> {JStr ''active'', JStr ''retired''}" "k = key"
    and b: "check_bound_ta D key t ''not_before'' False ''trusted key was not valid at signing time'' = Inr ()"
      "check_bound_ta D key t ''expires_at'' True ''trusted key was expired at signing time'' = Inr ()"
      "check_bound_ta D key t ''revoked_at'' True ''trusted key was revoked at signing time'' = Inr ()"
    using assms unfolding check_key_ta_def by (auto split: if_splits)
  from b[THEN check_bound_ta_Inr] have "in_window key t" unfolding in_window_def by simp
  moreover have "for_use u key" using u by (auto simp: for_use_def parse_uses_ta_def Let_def split: json.splits if_splits)
  ultimately show ?thesis using st by simp
qed

lemma select_key_Inr:
  assumes "select_key D u (JObj keys) p sig t = Inr key"
  shows "pinned_key u keys p (sg_key_id sig) t key"
proof -
  obtain issuer where i: "party_from_dict (get_or_null keys ''issuer'') ''trusted_keys.issuer'' = Inr issuer"
      "pa_type issuer = pa_type p" "pa_id issuer = pa_id p"
    and k: "(case get_or_null keys ''keys'' of
         JArr (item # items) \<Rightarrow>
           (case matching_keys (sg_key_id sig) (item # items) of
              [] \<Rightarrow> fail_ta ''UNKNOWN_KEY_ID'' ''no trusted key matched key_id''
            | [key] \<Rightarrow> check_key_ta D u sig t key
            | _ \<Rightarrow> fail_ta ''TRUSTED_KEYS_INVALID'' ''trusted key set contains duplicate key_id'')
       | _ \<Rightarrow> fail_ta ''TRUSTED_KEYS_INVALID'' ''trusted key set must contain a non-empty keys array'') = Inr key"
    using assms unfolding select_key_def require_mapping_ta_def parse_party_ta_def by (auto split: if_splits)
  then obtain items k where "get_or_null keys ''keys'' = JArr items" "matching_keys (sg_key_id sig) items = [k]"
      "check_key_ta D u sig t k = Inr key"
    by (auto split: json.splits list.splits)
  with i show ?thesis using check_key_ta_Inr[of D u sig t k key] by (auto simp: pinned_key_def sole_key_def)
qed

lemma select_checkpoint_pinned:
  assumes "select_checkpoint_key D keys p sig t = Inr key"
  shows "pinned_key ''transparency_checkpoint'' keys p (sg_key_id sig) t key"
  using select_checkpoint_key_Inr[OF assms] check_checkpoint_key_Inr[of D sig t key key]
  unfolding pinned_key_def for_use_def for_checkpoints_def by blast

interpretation checkpoint_keys: pinned_keys "select_checkpoint_key D" "''transparency_checkpoint''" for D
  by unfold_locales (rule select_checkpoint_pinned)

lemma select_trusted_pinned:
  assumes "select_trusted_key D keys p sig t = Inr key"
  shows "pinned_key ''receipt_countersignature'' keys p (sg_key_id sig) t key"
  using select_trusted_key_Inr[OF assms] check_trusted_key_Inr[of D sig t key key]
  unfolding pinned_key_def for_use_def for_countersignatures_def by blast

interpretation witness_keys: pinned_keys "select_trusted_key D" "''receipt_countersignature''" for D
  by unfold_locales (rule select_trusted_pinned)

interpretation status_keys: pinned_keys "\<lambda>keys. select_key D ''issuer_status'' (JObj keys)" "''issuer_status''" for D
  by unfold_locales (rule select_key_Inr)

interpretation approval_keys: pinned_keys "\<lambda>keys. select_key D ''approval_artifact'' (JObj keys)" "''approval_artifact''" for D
  by unfold_locales (rule select_key_Inr)

section \<open>What an accepted artifact shows\<close>

text \<open>
  A party signed a statement: the signature that the artifact carries verifies under the key that the party publishes for that
  use, over the canonical text.
\<close>

definition signed_by :: "deps \<Rightarrow> ed25519 \<Rightarrow> string \<Rightarrow> dict \<Rightarrow> party_ref \<Rightarrow> string \<Rightarrow> datetime \<Rightarrow> dict \<Rightarrow> dict \<Rightarrow> bool" where
  "signed_by D ed25519 u keys p key_id t artifact statement \<longleftrightarrow> (\<exists>key check pk sig message. pinned_key u keys p key_id t key \<and>
     published_ed25519 key pk \<and> carried_signature artifact key_id sig \<and>
     ed25519 = Some check \<and> canonicalize_bytes D (JObj statement) = Inr message \<and> check pk sig message)"

lemma decode_base64url_ta_Inr: "decode_base64url_ta D v f c = Inr b \<Longrightarrow> b64url_decode v = Inr b"
  by (simp add: decode_base64url_ta_def split: if_splits)

lemma public_key_ta_Inr: "public_key_ta D signature key = Inr pk \<Longrightarrow> length pk = 32 \<Longrightarrow> published_ed25519 key pk"
  unfolding public_key_ta_def published_ed25519_def
  by (auto simp: require_ta_Inr dest!: decode_base64url_ta_Inr elim!: bindR_eq_InrE split: if_splits)

lemma verified_signed_by:
  assumes "select_key D u (JObj keys) p sig t = Inr key" "verify_ed25519_ta D ed25519 statement sig key = Inr w"
    "signature_from_dict (get_or_null artifact ''signature'') = Inr sig"
  shows "signed_by D ed25519 u keys p (sg_key_id sig) t artifact statement"
proof -
  obtain check pk s message where "ed25519 = Some check" "published_ed25519 key pk" "sg_algorithm sig = ''EdDSA''"
      "b64url_decode (sg_value sig) = Inr s" "length s = 64"
      "canonicalize_bytes D (JObj statement) = Inr message" "check pk s message"
    using assms(2) unfolding verify_ed25519_ta_def
    by (auto split: if_splits option.splits dest!: decode_base64url_ta_Inr public_key_ta_Inr)
  with select_key_Inr[OF assms(1)] assms(3) show ?thesis unfolding signed_by_def carried_signature_def by blast
qed

lemma select_key_set: "select_key D u v p sig t = Inr key \<Longrightarrow> \<exists>keys. v = JObj keys"
  by (auto simp: select_key_def require_ta_Inr elim!: bindR_eq_InrE)

text \<open>The authority published this status of the issuer.\<close>

definition status_attested :: "deps \<Rightarrow> ed25519 \<Rightarrow> json \<Rightarrow> json \<Rightarrow> verified_issuer_status \<Rightarrow> bool" where
  "status_attested D ed25519 trusted_keys status v \<longleftrightarrow> (\<exists>keys artifact issued_at_raw expires_at_raw. trusted_keys = JObj keys \<and> status = JObj artifact \<and>
     get_or_null artifact ''issued_at'' = JStr issued_at_raw \<and> get_or_null artifact ''expires_at'' = JStr expires_at_raw \<and>
     parse_timestamp (JStr issued_at_raw) ''status_artifact.issued_at'' = Inr (vis_issued_at v) \<and>
     parse_timestamp (JStr expires_at_raw) ''status_artifact.expires_at'' = Inr (vis_expires_at v) \<and>
     signed_by D ed25519 ''issuer_status'' keys (vis_authority v) (vis_key_id v) (vis_issued_at v) artifact
       (issuer_statement (vis_issuer v) (vis_authority v) (vis_status v) issued_at_raw expires_at_raw (vis_status_reference v)))"

lemma authenticate_issuer_status_Inr:
  assumes "authenticate_issuer_status D ed25519 issuer artifact trusted_keys now max_age = Inr v"
  shows "(\<exists>e. resolve_issuer D issuer = Inr e \<and> pa_type (vis_issuer v) = pa_type e \<and> pa_id (vis_issuer v) = pa_id e) \<and>
    vis_status v \<in> {''good_standing'', ''suspended'', ''revoked''} \<and> vis_issued_at v \<le> now \<and> now < vis_expires_at v \<and>
    now - vis_issued_at v \<le> max_age * 1000000 \<and> status_attested D ed25519 trusted_keys artifact v"
proof -
  obtain e a observed authority status issued_raw issued expires_raw expires reference signature key w where
    i: "resolve_issuer D issuer = Inr e" "pa_type observed = pa_type e" "pa_id observed = pa_id e"
    and a: "artifact = JObj a" "signature_from_dict (get_or_null a ''signature'') = Inr signature"
    and s: "status \<in> {''good_standing'', ''suspended'', ''revoked''}"
    and t: "parse_timestamp_ta D (get_or_null a ''issued_at'') ''status_artifact.issued_at'' ''INVALID_ISSUER_STATUS'' = Inr (issued_raw, issued)"
      "parse_timestamp_ta D (get_or_null a ''expires_at'') ''status_artifact.expires_at'' ''INVALID_ISSUER_STATUS'' = Inr (expires_raw, expires)"
      "issued \<le> now" "now < expires" "now - issued \<le> max_age * 1000000"
    and k: "select_key D ''issuer_status'' trusted_keys authority signature issued = Inr key"
      "verify_ed25519_ta D ed25519 (issuer_statement observed authority status issued_raw expires_raw reference) signature key = Inr w"
    and v: "\<lparr>vis_issuer = observed, vis_authority = authority, vis_status = status, vis_issued_at = issued,
       vis_expires_at = expires, vis_key_id = sg_key_id signature, vis_status_reference = reference\<rparr> = v"
    using assms unfolding authenticate_issuer_status_def
    by (elim ta_elims) (hypsubst, rule that; simp add: require_ta_Inr parse_signature_ta_def linorder_not_less linorder_not_le)
  obtain keys where keys: "trusted_keys = JObj keys" using select_key_set[OF k(1)] by blast
  have "status_attested D ed25519 trusted_keys artifact v"
    using t(1,2) verified_signed_by[OF k[unfolded keys] a(2)] unfolding status_attested_def v[symmetric] keys a(1)
    by (clarsimp simp: parse_timestamp_ta_Inr)
  with i s t show ?thesis unfolding v[symmetric] by simp
qed

text \<open>The key of an approver signed the approval of this digest.\<close>

definition approval_attested :: "deps \<Rightarrow> ed25519 \<Rightarrow> json \<Rightarrow> json \<Rightarrow> verified_approval \<Rightarrow> bool" where
  "approval_attested D ed25519 trusted_keys approval v \<longleftrightarrow> (\<exists>keys artifact issued_at_raw. trusted_keys = JObj keys \<and> approval = JObj artifact \<and>
     get_or_null artifact ''issued_at'' = JStr issued_at_raw \<and>
     parse_timestamp (JStr issued_at_raw) ''approval.issued_at'' = Inr (vap_issued_at v) \<and>
     signed_by D ed25519 ''approval_artifact'' keys (vap_approver v) (vap_key_id v) (vap_issued_at v) artifact
       (approval_statement (vap_approval_id v) (vap_approver v) (vap_approval_type v) (vap_decision v) (vap_action_hash v) issued_at_raw))"

lemma verify_approval_artifact_Inr:
  assumes "verify_approval_artifact D ed25519 approval trusted_keys expected = Inr v"
  obtains artifact e where "approval = JObj artifact" "parse_action_hash_ta D (get_or_null artifact ''action_hash'') = Inr (vap_action_hash v)"
    "resolve_expected_action_hash D expected = Inr e" "pred_option (\<lambda>h. ah_value (vap_action_hash v) = ah_value h) e"
    "vap_decision v = ''approved''" "approval_attested D ed25519 trusted_keys approval v"
proof -
  obtain artifact approval_id approver approval_type hash e raw issued signature key w where
    a: "approval = JObj artifact" "parse_action_hash_ta D (get_or_null artifact ''action_hash'') = Inr hash"
      "resolve_expected_action_hash D expected = Inr e" "\<not> (case e of None \<Rightarrow> False | Some h \<Rightarrow> ah_value hash \<noteq> ah_value h)"
    and t: "parse_timestamp_ta D (get_or_null artifact ''issued_at'') ''approval.issued_at'' ''INVALID_APPROVAL_ARTIFACT'' = Inr (raw, issued)"
    and sig: "signature_from_dict (get_or_null artifact ''signature'') = Inr signature"
    and k: "select_key D ''approval_artifact'' trusted_keys approver signature issued = Inr key"
      "verify_ed25519_ta D ed25519 (approval_statement approval_id approver approval_type ''approved'' hash raw) signature key = Inr w"
    and v: "\<lparr>vap_approval_id = approval_id, vap_approver = approver, vap_approval_type = approval_type, vap_decision = ''approved'',
       vap_action_hash = hash, vap_issued_at = issued, vap_key_id = sg_key_id signature\<rparr> = v"
    using assms unfolding verify_approval_artifact_def by (elim ta_elims) (hypsubst, rule that; simp add: require_ta_Inr parse_signature_ta_def)
  obtain keys where keys: "trusted_keys = JObj keys" using select_key_set[OF k(1)] by blast
  have "approval_attested D ed25519 trusted_keys approval v"
    using t a(1) verified_signed_by[OF k[unfolded keys] sig] unfolding approval_attested_def v[symmetric] keys by (auto simp: parse_timestamp_ta_Inr)
  then show thesis using a by (intro that[of artifact e]) (simp_all add: v[symmetric] split: option.splits)
qed

text \<open>
  C22 (issuer_in_good_standing): an issuer is only reported in good standing when the status is about that issuer, in force,
  not older than the configured age, and the signature it carries verifies, over its own statement, under the key of that id
  that the authority publishes for issuer statuses.
\<close>

theorem issuer_in_good_standing:
  assumes "verify_issuer_status D ed25519 (PartyArg issuer) artifact trusted_keys (Aware now) max_age ''required'' = Inr r"
  shows "\<exists>v. r = Some v \<and> vis_status v = ''good_standing'' \<and> pa_type (vis_issuer v) = pa_type issuer \<and> pa_id (vis_issuer v) = pa_id issuer \<and>
    vis_issued_at v \<le> now \<and> now < vis_expires_at v \<and> now - vis_issued_at v \<le> max_age * 1000000 \<and>
    status_attested D ed25519 trusted_keys artifact v"
proof -
  obtain v where v: "authenticate_issuer_status D ed25519 (PartyArg issuer) artifact trusted_keys now max_age = Inr v"
      "r = Some v" "vis_status v \<notin> {''revoked'', ''suspended''}"
    using assms unfolding verify_issuer_status_def by (auto split: if_splits)
  with authenticate_issuer_status_Inr[OF v(1)] show ?thesis by auto
qed

text \<open>
  C21 (approval_covers_one_action): an approval that is accepted for two intents is an approval of one action: their hashed
  contents are the same up to the order of keys, their digest is the approved one, and the signature that the approval carries
  verifies over it under the key of that id that the approver publishes for approvals; SHA-256 does not collide on the two texts.
\<close>

theorem approval_covers_one_action:
  assumes i: "verify_approval_artifact D ed25519 approval trusted_keys (IntentArg i) = Inr v"
    and j: "verify_approval_artifact D ed25519 approval trusted_keys (IntentArg j) = Inr w"
    and inj: "inj_on (dep_sha256 D) {b. canonicalize_bytes D (build_action_hash_input i) = Inr b \<or> canonicalize_bytes D (build_action_hash_input j) = Inr b}"
  shows "json_norm (build_action_hash_input i) = json_norm (build_action_hash_input j) \<and>
    sha256_hex D (build_action_hash_input i) = Inr (ah_value (vap_action_hash v)) \<and>
    vap_decision v = ''approved'' \<and> approval_attested D ed25519 trusted_keys approval v"
proof -
  obtain a e where a: "approval = JObj a" "parse_action_hash_ta D (get_or_null a ''action_hash'') = Inr (vap_action_hash v)"
      "resolve_expected_action_hash D (IntentArg i) = Inr e" "pred_option (\<lambda>h. ah_value (vap_action_hash v) = ah_value h) e"
    and signed: "vap_decision v = ''approved''" "approval_attested D ed25519 trusted_keys approval v"
    using i by (rule verify_approval_artifact_Inr)
  obtain b e' where b: "approval = JObj b" "parse_action_hash_ta D (get_or_null b ''action_hash'') = Inr (vap_action_hash w)"
      "resolve_expected_action_hash D (IntentArg j) = Inr e'" "pred_option (\<lambda>h. ah_value (vap_action_hash w) = ah_value h) e'"
    using j by (rule verify_approval_artifact_Inr)
  have hash: "sha256_hex D (build_action_hash_input i) = Inr (ah_value (vap_action_hash v))"
      "sha256_hex D (build_action_hash_input j) = Inr (ah_value (vap_action_hash w))"
    using a(3,4) b(3,4) by (auto simp: intent_action_hash_def bindR_eq_Inr)
  obtain x y where x: "canonicalize_bytes D (build_action_hash_input i) = Inr x" "hex_of_bytes (dep_sha256 D x) = ah_value (vap_action_hash v)"
    and y: "canonicalize_bytes D (build_action_hash_input j) = Inr y" "hex_of_bytes (dep_sha256 D y) = ah_value (vap_action_hash w)"
    using hash by (auto simp: sha256_hex_def bindR_eq_Inr)
  have "hex_of_bytes (dep_sha256 D x) = hex_of_bytes (dep_sha256 D y)" using a(1,2) b(1,2) x(2) y(2) by simp
  then have "dep_sha256 D x = dep_sha256 D y" by (simp only: hex_of_bytes_inj)
  then have "x = y" using inj x(1) y(1) by (auto dest: inj_onD)
  with x(1) y(1) hash signed show ?thesis by (auto intro: canonicalize_bytes_inj)
qed

section \<open>Concrete artifacts\<close>

text \<open>An approval of the sample intent and a status of its requester, both signed by the witness of the sample log.\<close>

definition sample_approved_hash :: "action_intent \<Rightarrow> action_hash_spec" where
  "sample_approved_hash i = \<lparr>ah_algorithm = ''sha-256'', ah_canonicalization = dep_profile sample_deps,
     ah_value = (case sha256_hex sample_deps (build_action_hash_input i) of Inr h \<Rightarrow> h | Inl _ \<Rightarrow> [])\<rparr>"

definition sample_approval :: "action_intent \<Rightarrow> string \<Rightarrow> dict" where
  "sample_approval i approval_type = [(''contract'', JObj APPROVAL_CONTRACT), (''approval_id'', JStr ''approval-1''),
     (''approver'', JObj (party_to_dict sample_witness)), (''approval_type'', JStr approval_type), (''decision'', JStr ''approved''),
     (''action_hash'', JObj (action_hash_to_dict (sample_approved_hash i))), (''issued_at'', JStr (format_timestamp 63000000000000000)),
     (''signature'', JObj (signature_to_dict sample_checkpoint_signature))]"

definition sample_status :: dict where
  "sample_status = [(''contract'', JObj ISSUER_STATUS_CONTRACT), (''issuer'', JObj (party_to_dict sample_witness)),
     (''authority'', JObj (party_to_dict sample_witness)), (''status'', JStr ''good_standing''),
     (''issued_at'', JStr (format_timestamp 63000000000000000)), (''expires_at'', JStr (format_timestamp 63000000600000000)),
     (''signature'', JObj (signature_to_dict sample_checkpoint_signature))]"

definition sample_party_keys :: "string \<Rightarrow> dict" where
  "sample_party_keys u = [(''contract'', contract_entry ''key_discovery''), (''issuer'', JObj (party_to_dict sample_witness)),
     (''keys'', JArr [JObj (dput sample_witness_key ''use'' (JStr u))])]"

lemma decode_encoded_ta: "s \<noteq> [] \<Longrightarrow> decode_base64url_ta D (b64url_encode s) f c = Inr s"
  using decode_encoded_cs[of s D f] by (simp add: decode_base64url_ta_def decode_base64url_cs_def b64url_encode_nonempty split: if_splits)

lemma sample_party_key:
  "u \<noteq> [] \<Longrightarrow> select_key D u (JObj (sample_party_keys u)) sample_witness sample_checkpoint_signature t = Inr (dput sample_witness_key ''use'' (JStr u))"
  by (simp add: select_key_def sample_party_keys_def contract_entry_def require_mapping_ta_def parse_party_ta_def party_round_trip party_wf_def
      sample_witness_def sample_checkpoint_signature_def sample_witness_key_def check_key_ta_def parse_uses_ta_def check_bound_ta_def)

lemma sample_party_signature:
  assumes "is_ok (canonicalize_bytes D (JObj statement))"
  shows "verify_ed25519_ta D sample_ed25519 statement sample_checkpoint_signature (dput sample_witness_key ''use'' (JStr u)) = Inr ()"
proof -
  have "public_key_ta D sample_checkpoint_signature (dput sample_witness_key ''use'' (JStr u)) = Inr (replicate 32 CHR ''s'')"
    using b64url_encode_nonempty[of "replicate 32 CHR ''s''"]
    by (simp add: public_key_ta_def sample_witness_key_def require_mapping_ta_def require_string_ta_def decode_encoded_ta)
  then show ?thesis
    using assms
    by (auto simp: verify_ed25519_ta_def sample_checkpoint_signature_def decode_encoded_ta sample_ed25519_def is_ok_iff)
qed

lemma sample_hash_value:
  assumes "is_ok (sha256_hex sample_deps (build_action_hash_input i))"
  shows "sha256_hex sample_deps (build_action_hash_input i) = Inr (ah_value (sample_approved_hash i))"
    "\<exists>b. ah_value (sample_approved_hash i) = hex_of_bytes (sample_sha256 b)"
proof -
  obtain h where h: "sha256_hex sample_deps (build_action_hash_input i) = Inr h"
    using assms by (auto simp: is_ok_iff)
  then show "sha256_hex sample_deps (build_action_hash_input i) = Inr (ah_value (sample_approved_hash i))"
    by (simp add: sample_approved_hash_def)
  from h obtain b where "h = hex_of_bytes (sample_sha256 b)" by (auto simp: sha256_hex_def sample_deps_def)
  with h show "\<exists>b. ah_value (sample_approved_hash i) = hex_of_bytes (sample_sha256 b)" by (auto simp: sample_approved_hash_def)
qed

lemma sample_hash_fields:
  "ah_algorithm (sample_approved_hash i) = ''sha-256''" "ah_canonicalization (sample_approved_hash i) = ''ACTENON-JCS-STRICT-1''"
  "is_ok (sha256_hex sample_deps (build_action_hash_input i)) \<Longrightarrow> is_hex256 (ah_value (sample_approved_hash i))"
  "set (dep_accepted_profiles sample_deps) = {''ACTENON-JCS-STRICT-1'', ''RFC8785-JCS''}"
  using sample_hash_value(2)[of i] by (auto simp: sample_approved_hash_def sample_deps_def)

lemma sample_timestamp_ta:
  "0 \<le> t \<Longrightarrow> t < datetime_limit \<Longrightarrow> parse_timestamp_ta D (JStr (format_timestamp t)) f c = Inr (format_timestamp t, t)"
  by (simp add: parse_timestamp_ta_Inr parse_format_timestamp dt_ok_def) (simp add: format_timestamp_def Let_def)

lemma sample_parts_ta:
  "parse_party_ta D (JObj (party_to_dict sample_witness)) f c = Inr sample_witness"
  "parse_signature_ta D (JObj (signature_to_dict sample_checkpoint_signature)) f c = Inr sample_checkpoint_signature"
  by (simp_all add: parse_party_ta_def parse_signature_ta_def signature_round_trip party_round_trip signature_wf_def party_wf_def
      sample_checkpoint_signature_def sample_witness_def b64url_encode_nonempty)

lemma sample_approval_statement_ok:
  assumes "is_ok (sha256_hex sample_deps (build_action_hash_input i))"
    and "approval_type \<in> {''manual'', ''security_admin'', ''resource_owner''}"
  shows "is_ok (canonicalize_bytes sample_deps (JObj (approval_statement ''approval-1'' sample_witness approval_type ''approved''
    (sample_approved_hash i) (format_timestamp 63000000000000000))))"
proof -
  obtain b where b: "ah_value (sample_approved_hash i) = hex_of_bytes (sample_sha256 b)"
    using sample_hash_value(2)[OF assms(1)] by blast
  show ?thesis
    by (rule canonicalize_bytes_ok)
      (use length_format_timestamp[of 63000000000000000] b assms(2) in
       \<open>auto simp: approval_statement_def action_hash_to_dict_def party_to_dict_def sample_witness_def
         put_defs put_if_def sample_deps_def INT_MAX_STR_DIGITS_def length_hex_of_bytes sample_hash_fields(1,2)\<close>)
qed

lemma sample_status_statement_ok:
  "is_ok (canonicalize_bytes sample_deps (JObj (issuer_statement sample_witness sample_witness ''good_standing''
     (format_timestamp 63000000000000000) (format_timestamp 63000000600000000) None)))"
  by (rule canonicalize_bytes_ok)
    (use length_format_timestamp[of 63000000000000000] length_format_timestamp[of 63000000600000000] in
     \<open>simp_all add: issuer_statement_def party_to_dict_def sample_witness_def put_defs put_if_def sample_deps_def INT_MAX_STR_DIGITS_def\<close>)

lemma sample_approval_verifies:
  assumes "is_ok (sha256_hex sample_deps (build_action_hash_input i))"
    and "approval_type \<in> {''manual'', ''security_admin'', ''resource_owner''}"
  shows "\<exists>v. verify_approval_artifact sample_deps sample_ed25519 (JObj (sample_approval i approval_type))
     (JObj (sample_party_keys ''approval_artifact'')) (IntentArg i) = Inr v \<and>
     vap_approver v = sample_witness \<and> vap_approval_type v = approval_type"
proof -
  have "parse_action_hash_ta sample_deps (JObj (action_hash_to_dict (sample_approved_hash i))) = Inr (sample_approved_hash i)"
    using is_hex256_nonempty[OF sample_hash_fields(3)[OF assms(1)]]
    by (simp add: parse_action_hash_ta_def action_hash_round_trip action_hash_wf_def sample_hash_fields assms(1))
  moreover have "intent_action_hash sample_deps i = Inr (sample_approved_hash i)"
    using sample_hash_value(1)[OF assms(1)] by (simp add: intent_action_hash_def) (simp add: sample_approved_hash_def)
  moreover have "dict_eq APPROVAL_CONTRACT APPROVAL_CONTRACT" by (simp add: dict_eq_def APPROVAL_CONTRACT_def)
  moreover have "approval_type \<noteq> []" using assms(2) by auto
  ultimately show ?thesis
    using sample_party_signature[OF sample_approval_statement_ok[OF assms]]
    by (simp add: verify_approval_artifact_def sample_approval_def require_mapping_ta_def require_string_ta_def sample_parts_ta
        sample_timestamp_ta datetime_limit_def sample_party_key)
qed

lemma sample_status_verifies:
  "\<exists>v. verify_issuer_status sample_deps sample_ed25519 (PartyArg sample_witness) (JObj sample_status) (JObj (sample_party_keys ''issuer_status''))
     (Aware 63000000060000000) 3600 ''required'' = Inr v"
proof -
  have "dict_eq ISSUER_STATUS_CONTRACT ISSUER_STATUS_CONTRACT" by (simp add: dict_eq_def ISSUER_STATUS_CONTRACT_def)
  then show ?thesis
    using sample_party_signature[OF sample_status_statement_ok]
    by (simp add: verify_issuer_status_def authenticate_issuer_status_def sample_status_def require_mapping_ta_def require_string_ta_def
        sample_parts_ta sample_timestamp_ta datetime_limit_def sample_party_key)
qed

theorem issuer_in_good_standing_witness:
  "\<exists>v. vis_status v = ''good_standing'' \<and> pa_id (vis_issuer v) = ''witness-1'' \<and> 63000000060000000 < vis_expires_at v \<and>
     status_attested sample_deps sample_ed25519 (JObj (sample_party_keys ''issuer_status'')) (JObj sample_status) v"
proof -
  obtain r where "verify_issuer_status sample_deps sample_ed25519 (PartyArg sample_witness) (JObj sample_status)
     (JObj (sample_party_keys ''issuer_status'')) (Aware 63000000060000000) 3600 ''required'' = Inr r"
    using sample_status_verifies by blast
  from issuer_in_good_standing[OF this] show ?thesis by (auto simp: sample_witness_def)
qed

theorem approval_covers_one_action_witness:
  "\<exists>v. sha256_hex sample_deps (build_action_hash_input sample_intent) = Inr (ah_value (vap_action_hash v)) \<and> vap_decision v = ''approved'' \<and>
     approval_attested sample_deps sample_ed25519 (JObj (sample_party_keys ''approval_artifact'')) (JObj (sample_approval sample_intent ''manual'')) v"
proof -
  obtain v where v: "verify_approval_artifact sample_deps sample_ed25519 (JObj (sample_approval sample_intent ''manual''))
     (JObj (sample_party_keys ''approval_artifact'')) (IntentArg sample_intent) = Inr v"
    using sample_approval_verifies[OF sample_action_hash] by blast
  have "inj_on (dep_sha256 sample_deps) {b. canonicalize_bytes sample_deps (build_action_hash_input sample_intent) = Inr b \<or>
      canonicalize_bytes sample_deps (build_action_hash_input sample_intent) = Inr b}"
    by (auto simp: inj_on_def)
  from approval_covers_one_action[OF v v this] show ?thesis by blast
qed

end
