(* ===== verification/InvoicePayments.thy ===== *)
theory InvoicePayments
  imports Policy
begin

text \<open>
  The invoice-payment wedge: the payload builders of \<^verbatim>\<open>api/invoice_payment.py\<close> and \<^verbatim>\<open>api/refund.py\<close> and the rules
  and engine of \<^verbatim>\<open>policy/invoice_payment.py\<close>. A builder takes its keyword arguments as a record; a payment date is
  its text (a \<open>date\<close> object is passed as its ISO text) and \<open>issued_at\<close> is in UTC.
\<close>

section \<open>Payloads\<close>

definition str_items :: "py_text \<Rightarrow> json list \<Rightarrow> string list res" where
  "str_items T items = mapR (py_str T) items"

definition normalize_invoice_ids :: "py_text \<Rightarrow> json list \<Rightarrow> string list res" where
  "normalize_invoice_ids T invoice_ids =
     bindR (str_items T invoice_ids) (\<lambda>texts.
     let normalized = sorted_set (filter (\<lambda>s. s \<noteq> []) texts) in
     if normalized = [] then Inl (Raise ValueError ''invoice_ids must contain at least one non-empty value'')
     else Inr normalized)"

definition normalize_payment_date :: "json \<Rightarrow> string res" where
  "normalize_payment_date value =
     bindR (parse_calendar_date value ''payment_date'') (\<lambda>(y, m, d).
     Inr (show_pad 4 y @ ''-'' @ show_pad 2 m @ ''-'' @ show_pad 2 d))"

definition compute_invoice_payment_batch_hash ::
  "deps \<Rightarrow> py_text \<Rightarrow> json \<Rightarrow> json \<Rightarrow> json \<Rightarrow> json list \<Rightarrow> json \<Rightarrow> json \<Rightarrow> json \<Rightarrow> json \<Rightarrow> string res" where
  "compute_invoice_payment_batch_hash D T payer_entity_id supplier_id bank_account_reference invoice_ids
       amount_minor currency payment_date payment_batch_id =
     bindR (normalize_invoice_ids T invoice_ids) (\<lambda>ids.
     bindR (normalize_payment_date payment_date) (\<lambda>day.
     bindR (sha256_hex D (JObj [(''payer_entity_id'', payer_entity_id), (''supplier_id'', supplier_id),
       (''bank_account_reference'', bank_account_reference), (''invoice_ids'', JArr (map JStr ids)),
       (''amount_minor'', amount_minor), (''currency'', currency), (''payment_date'', JStr day),
       (''payment_batch_id'', payment_batch_id)])) (\<lambda>h. Inr (''batch_'' @ h))))"

record payload_options =
  po_ttl_seconds :: int
  po_justification :: json
  po_evidence_refs :: "json list"
  po_context :: dict
  po_metadata :: dict

record invoice_payment_request =
  ip_intent_id :: string
  ip_tenant_id :: string
  ip_requester_id :: string
  ip_payer_entity_id :: string
  ip_supplier_id :: string
  ip_bank_account_reference :: string
  ip_invoice_ids :: "string list"
  ip_amount_minor :: int
  ip_currency :: string
  ip_payment_date :: string
  ip_payment_batch_id :: string
  ip_issued_at :: datetime
  ip_proposer_id :: string
  ip_batch_hash :: string
  ip_options :: payload_options

text \<open>The optional entries at the end of both payloads.\<close>

definition with_options :: "payload_options \<Rightarrow> dict \<Rightarrow> dict" where
  "with_options o' payload = put_array ''evidence_refs'' (po_evidence_refs o') (put_field ''justification'' (po_justification o') payload)"

definition payload_times :: "datetime \<Rightarrow> payload_options \<Rightarrow> (string \<times> string) res" where
  "payload_times issued_at o' =
     (if TIMEDELTA_MAX_SECONDS < \<bar>po_ttl_seconds o'\<bar> then Inl (Raise OverflowError ''days out of range'')
      else bindR (dt_add issued_at (po_ttl_seconds o' * 1000000)) (\<lambda>expires_at.
        Inr (format_timestamp issued_at, format_timestamp expires_at)))"

definition payment_parameters :: "invoice_payment_request \<Rightarrow> string list \<Rightarrow> string \<Rightarrow> string \<Rightarrow> dict" where
  "payment_parameters q ids day batch_hash =
     [(''payer_entity_id'', JStr (ip_payer_entity_id q)), (''supplier_id'', JStr (ip_supplier_id q)),
      (''bank_account_reference'', JStr (ip_bank_account_reference q)), (''invoice_ids'', JArr (map JStr ids)),
      (''amount_minor'', JInt (ip_amount_minor q)), (''currency'', JStr (ip_currency q)), (''payment_date'', JStr day),
      (''payment_batch_id'', JStr (ip_payment_batch_id q)), (''batch_hash'', JStr batch_hash),
      (''proposer_id'', JStr (if ip_proposer_id q \<noteq> [] then ip_proposer_id q else ip_requester_id q))]"

definition payment_constraints :: "invoice_payment_request \<Rightarrow> string list \<Rightarrow> string \<Rightarrow> string \<Rightarrow> dict" where
  "payment_constraints q ids day batch_hash =
     [(''exact_payer_entity_id'', JStr (ip_payer_entity_id q)), (''exact_supplier_id'', JStr (ip_supplier_id q)),
      (''exact_bank_account_reference'', JStr (ip_bank_account_reference q)), (''exact_invoice_ids'', JArr (map JStr ids)),
      (''exact_amount_minor'', JInt (ip_amount_minor q)), (''exact_currency'', JStr (ip_currency q)),
      (''exact_payment_date'', JStr day), (''exact_payment_batch_id'', JStr (ip_payment_batch_id q)),
      (''exact_batch_hash'', JStr batch_hash)]"

definition build_invoice_payment_action_intent_payload :: "deps \<Rightarrow> py_text \<Rightarrow> invoice_payment_request \<Rightarrow> dict res" where
  "build_invoice_payment_action_intent_payload D T q =
     bindR (normalize_invoice_ids T (map JStr (ip_invoice_ids q))) (\<lambda>ids.
     bindR (normalize_payment_date (JStr (ip_payment_date q))) (\<lambda>day.
     bindR (if ip_batch_hash q \<noteq> [] then Inr (ip_batch_hash q)
       else compute_invoice_payment_batch_hash D T (JStr (ip_payer_entity_id q)) (JStr (ip_supplier_id q))
         (JStr (ip_bank_account_reference q)) (map JStr ids) (JInt (ip_amount_minor q)) (JStr (ip_currency q)) (JStr day)
         (JStr (ip_payment_batch_id q))) (\<lambda>batch_hash.
     bindR (sha256_hex D (JObj [(''payment_batch_id'', JStr (ip_payment_batch_id q)), (''invoice_ids'', JArr (map JStr ids)),
       (''amount_minor'', JInt (ip_amount_minor q)), (''currency'', JStr (ip_currency q)),
       (''payer_entity_id'', JStr (ip_payer_entity_id q)), (''supplier_id'', JStr (ip_supplier_id q))])) (\<lambda>h.
     bindR (payload_times (ip_issued_at q) (ip_options q)) (\<lambda>(issued, expires).
     Inr (with_options (ip_options q)
       [(''contract'', contract_entry ''action_intent''), (''intent_id'', JStr (ip_intent_id q)),
        (''idempotency_key'', JStr (''ipy_'' @ h)), (''issued_at'', JStr issued), (''expires_at'', JStr expires),
        (''tenant'', JObj [(''tenant_id'', JStr (ip_tenant_id q))]),
        (''requester'', JObj [(''type'', JStr ''service''), (''id'', JStr (ip_requester_id q))]),
        (''action'', JObj [(''name'', JStr ''invoice_payment.execute''), (''capability'', JStr ''invoice_payment.execute''),
          (''parameters'', JObj (payment_parameters q ids day batch_hash)), (''constraints'', JObj (payment_constraints q ids day batch_hash)),
          (''scope'', JObj [(''target_resource_type'', JStr ''payment_batch''), (''single_use'', JBool True)])]),
        (''target'', JObj [(''resource_type'', JStr ''payment_batch''), (''resource_id'', JStr (ip_payment_batch_id q))]),
        (''context'', JObj (po_context (ip_options q))), (''metadata'', JObj (po_metadata (ip_options q)))]))))))"

record refund_payload_request =
  rp_intent_id :: string
  rp_tenant_id :: string
  rp_requester_id :: string
  rp_payment_id :: string
  rp_amount_minor :: int
  rp_currency :: string
  rp_issued_at :: datetime
  rp_options :: payload_options

definition build_refund_action_intent_payload :: "refund_payload_request \<Rightarrow> dict res" where
  "build_refund_action_intent_payload q =
     bindR (payload_times (rp_issued_at q) (rp_options q)) (\<lambda>(issued, expires).
     Inr (with_options (rp_options q)
       [(''contract'', contract_entry ''action_intent''), (''intent_id'', JStr (rp_intent_id q)),
        (''issued_at'', JStr issued), (''expires_at'', JStr expires),
        (''tenant'', JObj [(''tenant_id'', JStr (rp_tenant_id q))]),
        (''requester'', JObj [(''type'', JStr ''service''), (''id'', JStr (rp_requester_id q))]),
        (''action'', JObj [(''name'', JStr ''refund.create''), (''capability'', JStr ''refund.execute''),
          (''parameters'', JObj [(''amount_minor'', JInt (rp_amount_minor q)), (''currency'', JStr (rp_currency q))]),
          (''constraints'', JObj [(''exact_amount_minor'', JInt (rp_amount_minor q)), (''exact_currency'', JStr (rp_currency q))]),
          (''scope'', JObj [(''target_resource_type'', JStr ''payment''), (''single_use'', JBool True)])]),
        (''target'', JObj [(''resource_type'', JStr ''payment''), (''resource_id'', JStr (rp_payment_id q))]),
        (''metadata'', JObj (po_metadata (rp_options q))), (''context'', JObj (po_context (rp_options q)))]))"

section \<open>Hard rules\<close>

definition invoice_ids :: "py_text \<Rightarrow> action_intent \<Rightarrow> string list res" where
  "invoice_ids T i = (case get_or (ac_parameters (ai_action i)) ''invoice_ids'' (JArr []) of
     JArr items \<Rightarrow> str_items T items | _ \<Rightarrow> Inr [])"

text \<open>The first required text field that is missing or empty.\<close>

fun first_invalid_field :: "dict \<Rightarrow> string list \<Rightarrow> string option" where
  "first_invalid_field params [] = None"
| "first_invalid_field params (f # fs) = (case get_or_null params f of
     JStr s \<Rightarrow> if s = [] then Some f else first_invalid_field params fs
   | _ \<Rightarrow> Some f)"

definition required_string_fields :: "string list" where
  "required_string_fields = [''payer_entity_id'', ''supplier_id'', ''bank_account_reference'', ''currency'', ''payment_date'',
     ''payment_batch_id'', ''batch_hash'', ''proposer_id'']"

definition InvoicePaymentActionShapeRule :: "deps \<Rightarrow> py_text \<Rightarrow> policy_rule" where
  "InvoicePaymentActionShapeRule D T i cx =
     (let rid = ''hard.invoice_payment.action_shape''; params = ac_parameters (ai_action i) in
      if ac_name (ai_action i) \<noteq> ''invoice_payment.execute''
      then deny_with rid ''INVOICE_PAYMENT_ACTION_NAME_INVALID''
        ''The invoice payment wedge only accepts invoice_payment.execute action intents.'' []
      else if ac_capability (ai_action i) \<noteq> ''invoice_payment.execute''
      then deny_with rid ''INVOICE_PAYMENT_CAPABILITY_INVALID''
        ''The invoice payment wedge only accepts invoice_payment.execute capability requests.'' []
      else if tg_resource_type (ai_target i) \<noteq> ''payment_batch''
      then deny_with rid ''INVOICE_PAYMENT_TARGET_TYPE_INVALID'' ''Invoice payment execution requires a payment_batch target.'' []
      else (case first_invalid_field params required_string_fields of
        Some f \<Rightarrow> deny_with rid ''INVOICE_PAYMENT_FIELD_INVALID'' (''Invoice payment execution requires a non-empty '' @ f @ ''.'')
          [(''field_name'', JStr f)]
      | None \<Rightarrow>
        if \<not> positive_int (get_or_null params ''amount_minor'')
        then deny_with rid ''INVOICE_PAYMENT_AMOUNT_INVALID'' ''Invoice payment execution requires a positive integer amount_minor.'' []
        else if \<not> is_currency T (get_or_null params ''currency'')
        then deny_with rid ''INVOICE_PAYMENT_CURRENCY_INVALID''
          ''Invoice payment execution requires an uppercase three-letter currency.'' []
        else bindR (invoice_ids T i) (\<lambda>ids.
        if ids = []
        then deny_with rid ''INVOICE_SET_INVALID'' ''Invoice payment execution requires a non-empty invoice_ids set.'' []
        else bindR (normalize_invoice_ids T (map JStr ids)) (\<lambda>normalized.
        if ids \<noteq> normalized
        then deny_with rid ''INVOICE_SET_INVALID''
          ''Invoice payment invoice_ids must be unique and sorted for exact invoice-set binding.'' []
        else (case parse_calendar_date (get_or_null params ''payment_date'') ''payment_date'' of
          Inl e \<Rightarrow>
            if (case e of Raise c _ \<Rightarrow> is_value_error D c | Refuse _ \<Rightarrow> False)
            then deny_with rid ''PAYMENT_DATE_INVALID'' ''Invoice payment execution requires a YYYY-MM-DD payment_date.'' []
            else Inl e
        | Inr _ \<Rightarrow>
          if \<not> py_eq (JStr (tg_resource_id (ai_target i))) (get_or_null params ''payment_batch_id'')
          then deny_with rid ''PAYMENT_BATCH_BINDING_MISMATCH''
            ''The payment batch target must match action.parameters.payment_batch_id.'' []
          else if \<not> py_eq (get_or_null params ''proposer_id'') (JStr (pa_id (ai_requester i)))
          then deny_with rid ''PROPOSER_IDENTITY_MISMATCH''
            ''The proposer identity must exactly match the requesting subject.'' []
          else Inr None)))))"

text \<open>The expected constraint values, read from the parameters in the order of the dictionary display.\<close>

definition expected_bindings :: "py_text \<Rightarrow> action_intent \<Rightarrow> dict res" where
  "expected_bindings T i = (let params = ac_parameters (ai_action i) in
     bindR (mapR (\<lambda>k. bindR (py_index params k) (\<lambda>v. Inr (''exact_'' @ k, v)))
       [''payer_entity_id'', ''supplier_id'', ''bank_account_reference'']) (\<lambda>first.
     bindR (invoice_ids T i) (\<lambda>ids.
     bindR (mapR (\<lambda>k. bindR (py_index params k) (\<lambda>v. Inr (''exact_'' @ k, v)))
       [''amount_minor'', ''currency'', ''payment_date'', ''payment_batch_id'', ''batch_hash'']) (\<lambda>rest.
     Inr (first @ (''exact_invoice_ids'', JArr (map JStr ids)) # rest)))))"

definition InvoicePaymentConstraintBindingRule :: "py_text \<Rightarrow> policy_rule" where
  "InvoicePaymentConstraintBindingRule T i cx =
     bindR (expected_bindings T i) (\<lambda>bindings.
     let constraints = ac_constraints (ai_action i) in
     case filter (\<lambda>(k, v). \<not> py_eq (get_or_null constraints k) v) bindings of
       [] \<Rightarrow> Inr None
     | (k, v) # _ \<Rightarrow> deny_with ''hard.invoice_payment.constraint_binding'' ''PAYMENT_BINDING_MISMATCH''
         ''The invoice payment action constraints must exactly mirror the requested payment values.''
         [(''field_name'', JStr k), (''expected'', v), (''observed'', get_or_null constraints k)])"

text \<open>Three rules compare one parameter with one fact, if the context states it.\<close>

definition fact_binding :: "string \<Rightarrow> string \<Rightarrow> string \<Rightarrow> string \<Rightarrow> policy_rule" where
  "fact_binding rule_id field code summary i cx =
     (let expected = get_or_null (cx_facts cx) (''expected_'' @ field) in
      bindR (py_index (ac_parameters (ai_action i)) field) (\<lambda>observed.
      if expected \<noteq> JNull \<and> \<not> py_eq observed expected
      then deny_with rule_id code summary [(''expected_'' @ field, expected), (''observed_'' @ field, observed)]
      else Inr None))"

definition InvoicePaymentEntityBindingRule :: policy_rule where
  "InvoicePaymentEntityBindingRule = fact_binding ''hard.invoice_payment.entity_binding'' ''payer_entity_id'' ''WRONG_ENTITY''
     ''The requested payer entity does not match the protected payment context.''"

definition InvoicePaymentPayeeBindingRule :: policy_rule where
  "InvoicePaymentPayeeBindingRule = fact_binding ''hard.invoice_payment.payee_binding'' ''supplier_id'' ''PAYEE_MISMATCH''
     ''The requested supplier does not match the protected payment context.''"

definition InvoicePaymentBankBindingRule :: policy_rule where
  "InvoicePaymentBankBindingRule = fact_binding ''hard.invoice_payment.bank_binding'' ''bank_account_reference'' ''BANK_MISMATCH''
     ''The requested bank account reference does not match the validated payee bank details.''"

definition InvoicePaymentInvoiceSetRule :: "py_text \<Rightarrow> policy_rule" where
  "InvoicePaymentInvoiceSetRule T i cx =
     (let expected = get_or_null (cx_facts cx) ''expected_invoice_ids'' in
      bindR (invoice_ids T i) (\<lambda>ids.
      if expected = JNull then Inr None
      else bindR (bindR (py_list expected) (normalize_invoice_ids T)) (\<lambda>wanted.
        if ids \<noteq> wanted
        then deny_with ''hard.invoice_payment.invoice_set'' ''INVOICE_SET_MISMATCH''
          ''The requested invoice set does not match the protected payment context.''
          [(''expected_invoice_ids'', JArr (map JStr wanted)), (''observed_invoice_ids'', JArr (map JStr ids))]
        else Inr None)))"

text \<open>\<open>expected is not None and params[field] != expected\<close>: the parameter is read only when the fact is given.\<close>

definition differs_from_fact :: "dict \<Rightarrow> string \<Rightarrow> json \<Rightarrow> bool res" where
  "differs_from_fact params field expected =
     (if expected = JNull then Inr False else bindR (py_index params field) (\<lambda>v. Inr (\<not> py_eq v expected)))"

definition InvoicePaymentAmountCurrencyRule :: "py_text \<Rightarrow> policy_rule" where
  "InvoicePaymentAmountCurrencyRule T i cx =
     (let rid = ''hard.invoice_payment.amount_currency''; params = ac_parameters (ai_action i); facts = cx_facts cx;
          amount = get_or_null facts ''expected_amount_minor''; currency = get_or_null facts ''expected_currency'';
          day = get_or_null facts ''expected_payment_date'' in
      bindR (if amount = JNull then Inr None
        else bindR (py_index params ''amount_minor'') (\<lambda>v. bindR (py_int T amount) (\<lambda>n.
          Inr (if py_eq v (JInt n) then None else Some (v, n))))) (\<lambda>wrong.
      case wrong of
        Some (v, n) \<Rightarrow> deny_with rid ''PAYMENT_AMOUNT_MISMATCH''
          ''The requested payment amount does not match the protected payment context.''
          [(''expected_amount_minor'', JInt n), (''observed_amount_minor'', v)]
      | None \<Rightarrow>
          bindR (differs_from_fact params ''currency'' currency) (\<lambda>bad_currency.
          if bad_currency
          then deny_with rid ''PAYMENT_CURRENCY_MISMATCH''
            ''The requested payment currency does not match the protected payment context.''
            [(''expected_currency'', currency), (''observed_currency'', get_or_null params ''currency'')]
          else bindR (differs_from_fact params ''payment_date'' day) (\<lambda>bad_day.
            if bad_day
            then deny_with rid ''PAYMENT_DATE_MISMATCH''
              ''The requested payment date does not match the protected payment context.''
              [(''expected_payment_date'', day), (''observed_payment_date'', get_or_null params ''payment_date'')]
            else Inr None))))"

text \<open>\<open>str(item) for item in facts.get(key, default)\<close>.\<close>

definition fact_strings :: "py_text \<Rightarrow> dynamic_context \<Rightarrow> string \<Rightarrow> json \<Rightarrow> string list res" where
  "fact_strings T cx key dflt = bindR (py_list (get_or (cx_facts cx) key dflt)) (str_items T)"

definition InvoicePaymentDuplicateRule :: "py_text \<Rightarrow> policy_rule" where
  "InvoicePaymentDuplicateRule T i cx =
     bindR (invoice_ids T i) (\<lambda>ids.
     bindR (fact_strings T cx ''duplicate_invoice_ids'' (JTup [])) (\<lambda>duplicates.
     let duplicate_match = sorted_set (filter (\<lambda>x. x \<in> set duplicates) ids) in
     if duplicate_match \<noteq> [] \<or> truthy (get_or_null (cx_facts cx) ''duplicate_payment_detected'')
     then deny_with ''hard.invoice_payment.duplicate'' ''DUPLICATE_INVOICE_PAYMENT''
       ''The requested invoice payment duplicates an already-paid or already-scheduled invoice payment.''
       [(''duplicate_invoice_ids'', JArr (map JStr duplicate_match))]
     else Inr None))"

definition InvoicePaymentBatchHashRule :: "deps \<Rightarrow> py_text \<Rightarrow> policy_rule" where
  "InvoicePaymentBatchHashRule D T i cx =
     (let rid = ''hard.invoice_payment.batch_hash''; params = ac_parameters (ai_action i);
          expected = get_or_null (cx_facts cx) ''expected_batch_hash'' in
      bindR (py_index params ''payer_entity_id'') (\<lambda>payer.
      bindR (py_index params ''supplier_id'') (\<lambda>supplier.
      bindR (py_index params ''bank_account_reference'') (\<lambda>bank.
      bindR (invoice_ids T i) (\<lambda>ids.
      bindR (py_index params ''amount_minor'') (\<lambda>amount.
      bindR (py_index params ''currency'') (\<lambda>currency.
      bindR (py_index params ''payment_date'') (\<lambda>day.
      bindR (py_index params ''payment_batch_id'') (\<lambda>batch.
      bindR (compute_invoice_payment_batch_hash D T payer supplier bank (map JStr ids) amount currency day batch) (\<lambda>computed.
      bindR (py_index params ''batch_hash'') (\<lambda>batch_hash.
      if \<not> py_eq batch_hash (JStr computed)
      then deny_with rid ''BATCH_HASH_MISMATCH'' ''The requested payment batch hash does not match the declared invoice payment set.''
        [(''expected_batch_hash'', JStr computed), (''observed_batch_hash'', batch_hash)]
      else if expected \<noteq> JNull \<and> \<not> py_eq batch_hash expected
      then deny_with rid ''BATCH_HASH_MISMATCH'' ''The requested payment batch hash does not match the protected payment context.''
        [(''expected_batch_hash'', expected), (''observed_batch_hash'', batch_hash)]
      else Inr None)))))))))))"

section \<open>Workflow rules and the engine\<close>

definition for_demo_payments :: "action_intent \<Rightarrow> bool" where
  "for_demo_payments i \<longleftrightarrow> tn_tenant_id (ai_tenant i) = ''tenant_demo'' \<and> ac_capability (ai_action i) = ''invoice_payment.execute''"

definition InvoicePaymentEvidenceWorkflowRule :: "py_text \<Rightarrow> policy_rule" where
  "InvoicePaymentEvidenceWorkflowRule T i cx =
     (if \<not> for_demo_payments i then Inr None
      else bindR (fact_strings T cx ''required_evidence_types'' (JTup (map JStr (cx_required_evidence_types cx)))) (\<lambda>required.
        if required = [] then Inr None
        else let missing = sorted_set (filter (\<lambda>t. t \<notin> set (map ev_type (ai_evidence_refs i))) required) in
          if missing = [] then Inr None
          else Inr (Some (evaluation ''tenant_demo.invoice_payment.evidence'' ''needs-evidence'' ''EVIDENCE_MISSING''
            ''The invoice payment requires additional evidence before execution can proceed.''
            \<lparr>ru_required_evidence := missing, ru_details := [(''required_evidence_types'', JArr (map JStr required))]\<rparr>))))"

definition InvoicePaymentApprovalWorkflowRule :: "py_text \<Rightarrow> policy_rule" where
  "InvoicePaymentApprovalWorkflowRule T i cx =
     (if \<not> for_demo_payments i then Inr None
      else
      bindR (fact_strings T cx ''required_approval_chain'' (JTup [])) (\<lambda>required_chain.
      bindR (fact_strings T cx ''provided_approval_chain'' (JTup [])) (\<lambda>provided_chain.
      let missing_approvals = filter (\<lambda>x. x \<notin> set provided_chain) required_chain in
      if missing_approvals = [] \<and> \<not> truthy (get_or_null (cx_facts cx) ''approval_required'') then Inr None
      else bindR (fact_strings T cx ''required_approver_types'' (JTup (map JStr (cx_approver_types cx)))) (\<lambda>approver_types.
        Inr (Some (evaluation ''tenant_demo.invoice_payment.approval'' ''approval-required'' ''APPROVAL_MISSING''
          ''The invoice payment requires the full approval chain before execution can proceed.''
          \<lparr>ru_approver_types := approver_types, ru_details := [(''missing_approvals'', JArr (map JStr missing_approvals)),
            (''required_approval_chain'', JArr (map JStr required_chain))]\<rparr>))))))"

definition InvoicePaymentAllowWorkflowRule :: policy_rule where
  "InvoicePaymentAllowWorkflowRule i cx =
     (if \<not> for_demo_payments i then Inr None
      else Inr (Some (evaluation ''tenant_demo.invoice_payment.allow'' ''allow'' ''PAYMENT_READY''
        ''The invoice payment is approved for protected execution.'')))"

definition blocked_payment_rule :: tenant_workflow_rule where
  "blocked_payment_rule = \<lparr>tw_rule_id = ''tenant_demo.invoice_payment.blocked'', tw_outcome = ''deny'',
     tw_summary = ''The invoice payment workflow denies blocked payment requests.'', tw_reason_code = ''PAYMENT_BLOCKED_RISK'',
     tw_tenant_ids = [], tw_capabilities = [''invoice_payment.execute''],
     tw_required_fact_values = [(''risk_level'', JStr ''blocked'')], tw_required_evidence_types = [], tw_approver_types = []\<rparr>"

definition build_invoice_payment_policy_engine :: "deps \<Rightarrow> py_text \<Rightarrow> receipt_store option \<Rightarrow> policy_engine" where
  "build_invoice_payment_policy_engine D T store =
     \<lparr>pe_hard_rules =
        [IntentChronologyHardRule, IntentTtlHardRule 900, CapabilityScopeHardRule,
         ReceiptEvidenceVerificationRule D \<lparr>rr_store = store, rr_allowed_outcomes = [''executed''],
           rr_required_capability = Some ''invoice_payment.execute''\<rparr>,
         InvoicePaymentActionShapeRule D T, InvoicePaymentConstraintBindingRule T, InvoicePaymentEntityBindingRule,
         InvoicePaymentPayeeBindingRule, InvoicePaymentBankBindingRule, InvoicePaymentInvoiceSetRule T,
         InvoicePaymentAmountCurrencyRule T, InvoicePaymentDuplicateRule T, InvoicePaymentBatchHashRule D T],
      pe_tenant_rules = [(''tenant_demo'',
        [TenantWorkflowRule blocked_payment_rule, InvoicePaymentEvidenceWorkflowRule T,
         InvoicePaymentApprovalWorkflowRule T, InvoicePaymentAllowWorkflowRule])],
      pe_default_rules = []\<rparr>"

section \<open>Normal forms\<close>

lemma str_items_JStr [simp]: "str_items T (map JStr xs) = Inr xs"
  unfolding str_items_def by (induction xs) simp_all

lemma sorted_set_props [simp]: "sorted (sorted_set xs)" "distinct (sorted_set xs)" "set (sorted_set xs) = set xs"
  by (simp_all add: sorted_set_def)

lemma sorted_set_Nil [simp]: "sorted_set xs = [] \<longleftrightarrow> xs = []"
  by (metis set_empty sorted_set_props(3))

lemma sorted_set_id: "sorted_set xs = xs \<longleftrightarrow> sorted xs \<and> distinct xs"
  by (metis sorted_set_props(1,2) distinct_remdups_id sorted_set_def sorted_sort_id)

text \<open>What the normal form of a set of identifiers is.\<close>

definition invoice_set :: "string list \<Rightarrow> bool" where
  "invoice_set ids \<longleftrightarrow> ids \<noteq> [] \<and> [] \<notin> set ids \<and> sorted ids \<and> distinct ids"

lemma normalize_JStr:
  "normalize_invoice_ids T (map JStr xs) = (let n = sorted_set (filter (\<lambda>s. s \<noteq> []) xs) in
     if n = [] then Inl (Raise ValueError ''invoice_ids must contain at least one non-empty value'') else Inr n)"
  by (simp add: normalize_invoice_ids_def Let_def)

lemma normalize_invoice_set: "normalize_invoice_ids T xs = Inr ids \<Longrightarrow> invoice_set ids"
  by (auto simp: normalize_invoice_ids_def Let_def invoice_set_def split: if_splits)

lemma normalize_fixed: "normalize_invoice_ids T (map JStr ids) = Inr ids \<longleftrightarrow> invoice_set ids"
proof
  assume i: "invoice_set ids"
  then have "filter (\<lambda>s. s \<noteq> []) ids = ids" by (auto simp: invoice_set_def intro: filter_True)
  with i show "normalize_invoice_ids T (map JStr ids) = Inr ids" by (simp add: normalize_JStr Let_def invoice_set_def sorted_set_id)
qed (rule normalize_invoice_set)

lemma show_read_digits: "list_all is_digit s \<Longrightarrow> show_pad (length s) (read_nat s) = s"
proof (induction s rule: rev_induct)
  case (snoc c s)
  then have "digit_val c < 10" "digit_char (digit_val c) = c"
    by (auto simp: is_digit_def digit_val_def digit_char_def)
  with snoc show ?case by simp
qed simp

text \<open>A calendar date is printed as it was written.\<close>

lemma full_date_parts:
  assumes "is_full_date s"
  shows "show_pad 4 (read_nat (take 4 s)) @ ''-'' @ show_pad 2 (read_nat (take 2 (drop 5 s))) @ ''-'' @ show_pad 2 (read_nat (drop 8 s)) = s"
proof -
  have len: "length s = 10" using assms by (simp add: is_full_date_def)
  have "take 2 (drop 5 s) = [s ! 5, s ! 6]" "drop 8 s = [s ! 8, s ! 9]"
    using len by (auto intro!: nth_equalityI simp: less_Suc_eq numeral_2_eq_2)
  then have digits: "list_all is_digit (take 4 s)" "list_all is_digit (take 2 (drop 5 s))" "list_all is_digit (drop 8 s)"
    using assms by (simp_all add: is_full_date_def)
  have "show_pad 4 (read_nat (take 4 s)) = take 4 s" "show_pad 2 (read_nat (take 2 (drop 5 s))) = take 2 (drop 5 s)"
    "show_pad 2 (read_nat (drop 8 s)) = drop 8 s"
    using digits[THEN show_read_digits] len by simp_all
  moreover have "s = take 4 s @ CHR ''-'' # drop 5 s" "drop 5 s = take 2 (drop 5 s) @ CHR ''-'' # drop 8 s"
    using id_take_nth_drop[of 4 s] id_take_nth_drop[of 2 "drop 5 s"] len assms by (simp_all add: is_full_date_def)
  ultimately show ?thesis by simp
qed

lemma normalize_payment_date_text:
  "normalize_payment_date v = Inr t \<longleftrightarrow> v = JStr t \<and> is_ok (parse_calendar_date v ''payment_date'')"
proof (cases v)
  case (JStr s)
  with full_date_parts[of s] show ?thesis by (auto simp: normalize_payment_date_def parse_calendar_date_def Let_def bindR_eq_Inr)
qed (simp_all add: normalize_payment_date_def parse_calendar_date_def)

section \<open>When the engine allows\<close>

lemma passes_all:
  "(\<forall>r \<in> set rs. passes r i cx) \<longleftrightarrow> (\<exists>es. run_rules rs i cx = Inr es \<and> with_outcome ''deny'' es = [])"
proof
  show "\<forall>r \<in> set rs. passes r i cx \<Longrightarrow> \<exists>es. run_rules rs i cx = Inr es \<and> with_outcome ''deny'' es = []"
    by (induction rs) (force simp: passes_def with_outcome_def split: option.splits)+
qed (auto dest: run_rules_passes)

lemma verdict_allow: "verdict n = ''allow'' \<longleftrightarrow> n = 1"
  by (simp add: verdict_def)

lemma allowed_iff:
  "(\<exists>d. evaluate_policy E i cx = Inr d \<and> pd_outcome d = ''allow'') \<longleftrightarrow>
     (\<forall>r \<in> set (pe_hard_rules E). passes r i cx) \<and> (\<exists>flow. workflow_evaluate E i cx = Inr flow \<and> strictest flow = 1)"
proof
  assume "\<exists>d. evaluate_policy E i cx = Inr d \<and> pd_outcome d = ''allow''"
  then obtain d where d: "evaluate_policy E i cx = Inr d" "pd_outcome d = ''allow''" by blast
  then obtain hard flow where "workflow_evaluate E i cx = Inr flow" "decide_workflow hard flow = d" by (elim allowE)
  with d allow_passes[OF d] show "(\<forall>r \<in> set (pe_hard_rules E). passes r i cx) \<and> (\<exists>flow. workflow_evaluate E i cx = Inr flow \<and> strictest flow = 1)"
    by (metis decide_workflow_strictest verdict_allow)
next
  assume "(\<forall>r \<in> set (pe_hard_rules E). passes r i cx) \<and> (\<exists>flow. workflow_evaluate E i cx = Inr flow \<and> strictest flow = 1)"
  then obtain hard flow where "run_rules (pe_hard_rules E) i cx = Inr hard" "with_outcome ''deny'' hard = []"
      "workflow_evaluate E i cx = Inr flow" "strictest flow = 1"
    unfolding passes_all by blast
  then show "\<exists>d. evaluate_policy E i cx = Inr d \<and> pd_outcome d = ''allow''"
    by (simp add: evaluate_policy_def decide_workflow_strictest verdict_def)
qed

text \<open>A rule that can only deny passes when it is silent.\<close>

definition denial :: "rule_evaluation option res \<Rightarrow> bool" where
  "denial m \<longleftrightarrow> (\<forall>e. m = Inr (Some e) \<longrightarrow> ru_outcome e = ''deny'')"

definition only_denies :: "policy_rule \<Rightarrow> bool" where
  "only_denies r \<longleftrightarrow> (\<forall>i cx. denial (r i cx))"

lemma passes_silent: "only_denies r \<Longrightarrow> passes r i cx \<longleftrightarrow> r i cx = Inr None"
  by (auto simp: only_denies_def denial_def passes_def) (metis not_None_eq)

lemma denial_simps [simp]: "denial (deny_with a b c d)" "denial (Inr None)" "denial (Inl exc)"
  by (simp_all add: denial_def deny_with_def evaluation_def)

lemma denial_bindR: "(\<And>x. denial (f x)) \<Longrightarrow> denial (bindR m f)"
  by (auto simp: denial_def elim!: bindR_eq_InrE)

lemma denial_if: "denial x \<Longrightarrow> denial y \<Longrightarrow> denial (if b then x else y)"
  by simp

lemma denial_option: "denial x \<Longrightarrow> (\<And>a. denial (f a)) \<Longrightarrow> denial (case y of None \<Rightarrow> x | Some a \<Rightarrow> f a)"
  by (cases y) simp_all

lemma denial_sum: "(\<And>a. denial (f a)) \<Longrightarrow> (\<And>b. denial (g b)) \<Longrightarrow> denial (case y of Inl a \<Rightarrow> f a | Inr b \<Rightarrow> g b)"
  by (cases y) simp_all

lemma denial_list: "denial x \<Longrightarrow> (\<And>a as. denial (f a as)) \<Longrightarrow> denial (case y of [] \<Rightarrow> x | a # as \<Rightarrow> f a as)"
  by (cases y) simp_all

lemma denial_prod: "(\<And>a b. denial (f a b)) \<Longrightarrow> denial (case y of (a, b) \<Rightarrow> f a b)"
  by (cases y) simp

lemmas denial_intros = denial_simps denial_bindR denial_if denial_option denial_sum denial_list denial_prod

lemma deny_with_not_None [simp]: "deny_with a b c d \<noteq> Inr None"
  by (simp add: deny_with_def)

lemma shape_only_denies: "only_denies (InvoicePaymentActionShapeRule D T)"
  unfolding only_denies_def InvoicePaymentActionShapeRule_def Let_def by (intro allI denial_intros)

lemma constraint_only_denies: "only_denies (InvoicePaymentConstraintBindingRule T)"
  unfolding only_denies_def InvoicePaymentConstraintBindingRule_def Let_def by (intro allI denial_intros)

lemma fact_only_denies: "only_denies (fact_binding a b c d)"
  unfolding only_denies_def fact_binding_def Let_def by (intro allI denial_intros)

lemma set_only_denies: "only_denies (InvoicePaymentInvoiceSetRule T)"
  unfolding only_denies_def InvoicePaymentInvoiceSetRule_def Let_def by (intro allI denial_intros)

lemma amount_only_denies: "only_denies (InvoicePaymentAmountCurrencyRule T)"
  unfolding only_denies_def InvoicePaymentAmountCurrencyRule_def Let_def by (intro allI denial_intros)

lemma duplicate_only_denies: "only_denies (InvoicePaymentDuplicateRule T)"
  unfolding only_denies_def InvoicePaymentDuplicateRule_def Let_def by (intro allI denial_intros)

lemma hash_only_denies: "only_denies (InvoicePaymentBatchHashRule D T)"
  unfolding only_denies_def InvoicePaymentBatchHashRule_def Let_def by (intro allI denial_intros)

lemmas only_deny = shape_only_denies constraint_only_denies fact_only_denies set_only_denies amount_only_denies
  duplicate_only_denies hash_only_denies

section \<open>What each rule asks\<close>

abbreviation param :: "action_intent \<Rightarrow> string \<Rightarrow> json" where
  "param i k \<equiv> get_or_null (ac_parameters (ai_action i)) k"

abbreviation fact :: "dynamic_context \<Rightarrow> string \<Rightarrow> json" where
  "fact cx k \<equiv> get_or_null (cx_facts cx) k"

definition is_text :: "json \<Rightarrow> bool" where
  "is_text v \<longleftrightarrow> (\<exists>s. v = JStr s \<and> s \<noteq> [])"

text \<open>A payment for a set of invoices, well formed on its own.\<close>

definition well_shaped :: "py_text \<Rightarrow> action_intent \<Rightarrow> string list \<Rightarrow> bool" where
  "well_shaped T i ids \<longleftrightarrow> is_invoice_payment_intent i \<and> tg_resource_type (ai_target i) = ''payment_batch'' \<and>
     list_all (\<lambda>k. is_text (param i k)) required_string_fields \<and> positive_int (param i ''amount_minor'') \<and>
     is_currency T (param i ''currency'') \<and> invoice_ids T i = Inr ids \<and> invoice_set ids \<and>
     is_ok (parse_calendar_date (param i ''payment_date'') ''payment_date'') \<and>
     param i ''payment_batch_id'' = JStr (tg_resource_id (ai_target i)) \<and> param i ''proposer_id'' = JStr (pa_id (ai_requester i))"

lemma first_invalid_field_None: "first_invalid_field params fs = None \<longleftrightarrow> list_all (\<lambda>k. is_text (get_or_null params k)) fs"
  by (induction fs) (auto simp: is_text_def split: json.splits)

lemma silent_if: "(if b then deny_with r c s d else x) = Inr None \<longleftrightarrow> \<not> b \<and> x = Inr None"
  by simp

lemma silent_option: "(case y of None \<Rightarrow> x | Some f \<Rightarrow> deny_with r c (s f) (d f)) = Inr None \<longleftrightarrow> y = None \<and> x = Inr None"
  by (cases y) simp_all

lemma silent_date:
  "(case m of Inl e \<Rightarrow> if b e then deny_with r c s d else Inl e | Inr _ \<Rightarrow> x) = Inr None \<longleftrightarrow> is_ok m \<and> x = Inr None"
  by (cases m) (simp_all add: is_ok_def)

lemma shape_silent: "InvoicePaymentActionShapeRule D T i cx = Inr None \<longleftrightarrow> (\<exists>ids. well_shaped T i ids)"
  unfolding InvoicePaymentActionShapeRule_def Let_def silent_if silent_option silent_date bindR_eq_Inr first_invalid_field_None
    well_shaped_def is_invoice_payment_intent_def normalize_fixed[symmetric, of _ T]
  by (auto simp: normalize_fixed invoice_set_def)

lemma py_index_get: "get_or_null d k \<noteq> JNull \<Longrightarrow> py_index d k = Inr (get_or_null d k)"
  by (auto simp: py_index_def get_or_null_def split: option.splits)

lemma well_shaped_index:
  assumes "well_shaped T i ids" "k \<in> set (''amount_minor'' # required_string_fields)"
  shows "py_index (ac_parameters (ai_action i)) k = Inr (param i k)"
proof (rule py_index_get)
  show "param i k \<noteq> JNull"
    using assms by (auto simp: well_shaped_def list_all_iff is_text_def positive_int_def int_value_def)
qed

text \<open>The parameters a payment is bound to, besides its invoices.\<close>

definition bound_fields :: "string list" where
  "bound_fields = [''payer_entity_id'', ''supplier_id'', ''bank_account_reference'', ''amount_minor'', ''currency'', ''payment_date'',
     ''payment_batch_id'', ''batch_hash'']"

definition constraints_mirror :: "action_intent \<Rightarrow> string list \<Rightarrow> bool" where
  "constraints_mirror i ids \<longleftrightarrow>
     list_all (\<lambda>k. py_eq (get_or_null (ac_constraints (ai_action i)) (''exact_'' @ k)) (param i k)) bound_fields \<and>
     get_or_null (ac_constraints (ai_action i)) ''exact_invoice_ids'' = JArr (map JStr ids)"

lemma py_eq_texts: "py_eq_list xs (map JStr ids) \<longleftrightarrow> xs = map JStr ids"
  by (induction xs arbitrary: ids) (auto split: list.splits)

lemma py_eq_text_list: "py_eq v (JArr (map JStr ids)) \<longleftrightarrow> v = JArr (map JStr ids)"
proof (cases v)
  case (JFloat x)
  then show ?thesis by (cases x) simp_all
qed (simp_all add: py_eq_texts)

lemma silent_filter:
  "(case filter (\<lambda>(k, v). \<not> P k v) xs of [] \<Rightarrow> Inr None | (k, v) # _ \<Rightarrow> deny_with r c s (d k v)) = Inr None \<longleftrightarrow>
     list_all (\<lambda>(k, v). P k v) xs"
  by (induction xs) auto

lemma constraint_silent:
  assumes "well_shaped T i ids"
  shows "InvoicePaymentConstraintBindingRule T i cx = Inr None \<longleftrightarrow> constraints_mirror i ids"
proof -
  have "invoice_ids T i = Inr ids" using assms by (simp add: well_shaped_def)
  moreover note well_shaped_index[OF assms]
  ultimately have "expected_bindings T i = Inr (map (\<lambda>k. (''exact_'' @ k, param i k)) (take 3 bound_fields) @
      (''exact_invoice_ids'', JArr (map JStr ids)) # map (\<lambda>k. (''exact_'' @ k, param i k)) (drop 3 bound_fields))"
    by (simp add: expected_bindings_def required_string_fields_def bound_fields_def Let_def)
  then show ?thesis
    unfolding InvoicePaymentConstraintBindingRule_def Let_def
    by (simp add: silent_filter constraints_mirror_def bound_fields_def py_eq_text_list)
qed

text \<open>The protected context: every fact it states agrees with the payment, and none of the invoices was paid before.\<close>

definition agrees :: "dynamic_context \<Rightarrow> action_intent \<Rightarrow> string \<Rightarrow> bool" where
  "agrees cx i k \<longleftrightarrow> fact cx (''expected_'' @ k) = JNull \<or> py_eq (param i k) (fact cx (''expected_'' @ k))"

definition facts_agree :: "py_text \<Rightarrow> dynamic_context \<Rightarrow> action_intent \<Rightarrow> string list \<Rightarrow> bool" where
  "facts_agree T cx i ids \<longleftrightarrow>
     list_all (agrees cx i) [''payer_entity_id'', ''supplier_id'', ''bank_account_reference'', ''currency'', ''payment_date'', ''batch_hash''] \<and>
     (fact cx ''expected_invoice_ids'' = JNull \<or>
       (\<exists>items. py_list (fact cx ''expected_invoice_ids'') = Inr items \<and> normalize_invoice_ids T items = Inr ids)) \<and>
     (fact cx ''expected_amount_minor'' = JNull \<or>
       (\<exists>n. py_int T (fact cx ''expected_amount_minor'') = Inr n \<and> py_eq (param i ''amount_minor'') (JInt n)))"

definition not_yet_paid :: "py_text \<Rightarrow> dynamic_context \<Rightarrow> string list \<Rightarrow> bool" where
  "not_yet_paid T cx ids \<longleftrightarrow> \<not> truthy (fact cx ''duplicate_payment_detected'') \<and>
     (\<exists>paid. fact_strings T cx ''duplicate_invoice_ids'' (JTup []) = Inr paid \<and> set ids \<inter> set paid = {})"

lemma fact_silent:
  assumes "well_shaped T i ids" "k \<in> set (''amount_minor'' # required_string_fields)"
  shows "fact_binding rid k c su i cx = Inr None \<longleftrightarrow> agrees cx i k"
  using well_shaped_index[OF assms] by (auto simp: fact_binding_def agrees_def Let_def)

lemma set_silent:
  assumes "well_shaped T i ids"
  shows "InvoicePaymentInvoiceSetRule T i cx = Inr None \<longleftrightarrow> fact cx ''expected_invoice_ids'' = JNull \<or>
       (\<exists>items. py_list (fact cx ''expected_invoice_ids'') = Inr items \<and> normalize_invoice_ids T items = Inr ids)"
proof -
  have "invoice_ids T i = Inr ids" using assms by (simp add: well_shaped_def)
  then show ?thesis by (auto simp: InvoicePaymentInvoiceSetRule_def Let_def bindR_eq_Inr)
qed

lemma differs_from_fact:
  assumes "well_shaped T i ids" "k \<in> set (''amount_minor'' # required_string_fields)"
  shows "differs_from_fact (ac_parameters (ai_action i)) k (fact cx (''expected_'' @ k)) = Inr (\<not> agrees cx i k)"
  using well_shaped_index[OF assms] by (simp add: differs_from_fact_def agrees_def)

lemma amount_silent:
  assumes "well_shaped T i ids"
  shows "InvoicePaymentAmountCurrencyRule T i cx = Inr None \<longleftrightarrow> agrees cx i ''currency'' \<and> agrees cx i ''payment_date'' \<and>
    (fact cx ''expected_amount_minor'' = JNull \<or>
       (\<exists>n. py_int T (fact cx ''expected_amount_minor'') = Inr n \<and> py_eq (param i ''amount_minor'') (JInt n)))"
proof -
  have fields: "k \<in> {''currency'', ''payment_date''} \<Longrightarrow> k \<in> set (''amount_minor'' # required_string_fields)" for k
    by (auto simp: required_string_fields_def)
  have d: "differs_from_fact (ac_parameters (ai_action i)) ''currency'' (fact cx ''expected_currency'') = Inr (\<not> agrees cx i ''currency'')"
    "differs_from_fact (ac_parameters (ai_action i)) ''payment_date'' (fact cx ''expected_payment_date'') = Inr (\<not> agrees cx i ''payment_date'')"
    using differs_from_fact[OF assms fields] by auto
  have "py_index (ac_parameters (ai_action i)) ''amount_minor'' = Inr (param i ''amount_minor'')"
    by (rule well_shaped_index[OF assms]) simp
  then show ?thesis
    by (cases "py_int T (fact cx ''expected_amount_minor'')")
      (auto simp: InvoicePaymentAmountCurrencyRule_def Let_def d)
qed

lemma duplicate_silent:
  assumes "well_shaped T i ids"
  shows "InvoicePaymentDuplicateRule T i cx = Inr None \<longleftrightarrow> not_yet_paid T cx ids"
proof -
  have "invoice_ids T i = Inr ids" using assms by (simp add: well_shaped_def)
  moreover have "sorted_set (filter (\<lambda>x. x \<in> set paid) ids) = [] \<longleftrightarrow> set ids \<inter> set paid = {}" for paid
    by (auto simp: filter_empty_conv)
  ultimately show ?thesis by (auto simp: InvoicePaymentDuplicateRule_def not_yet_paid_def Let_def bindR_eq_Inr)
qed

text \<open>The declared batch hash is the hash of the declared payment.\<close>

definition batch_hash_input :: "action_intent \<Rightarrow> string list \<Rightarrow> json" where
  "batch_hash_input i ids = JObj [(''payer_entity_id'', param i ''payer_entity_id''), (''supplier_id'', param i ''supplier_id''),
     (''bank_account_reference'', param i ''bank_account_reference''), (''invoice_ids'', JArr (map JStr ids)),
     (''amount_minor'', param i ''amount_minor''), (''currency'', param i ''currency''), (''payment_date'', param i ''payment_date''),
     (''payment_batch_id'', param i ''payment_batch_id'')]"

definition hash_declared :: "deps \<Rightarrow> action_intent \<Rightarrow> string list \<Rightarrow> bool" where
  "hash_declared D i ids \<longleftrightarrow> (\<exists>h. sha256_hex D (batch_hash_input i ids) = Inr h \<and> param i ''batch_hash'' = JStr (''batch_'' @ h))"

lemma compute_hash_shaped:
  assumes "well_shaped T i ids"
  shows "compute_invoice_payment_batch_hash D T (param i ''payer_entity_id'') (param i ''supplier_id'') (param i ''bank_account_reference'')
     (map JStr ids) (param i ''amount_minor'') (param i ''currency'') (param i ''payment_date'') (param i ''payment_batch_id'')
    = bindR (sha256_hex D (batch_hash_input i ids)) (\<lambda>h. Inr (''batch_'' @ h))"
proof -
  have "normalize_invoice_ids T (map JStr ids) = Inr ids" using assms by (simp add: well_shaped_def normalize_fixed)
  moreover obtain day where "param i ''payment_date'' = JStr day"
    using assms by (auto simp: well_shaped_def required_string_fields_def is_text_def)
  moreover from this have "normalize_payment_date (param i ''payment_date'') = Inr day"
    using assms by (simp add: normalize_payment_date_text well_shaped_def)
  ultimately show ?thesis by (simp add: compute_invoice_payment_batch_hash_def batch_hash_input_def)
qed

lemma hash_silent:
  assumes "well_shaped T i ids"
  shows "InvoicePaymentBatchHashRule D T i cx = Inr None \<longleftrightarrow> hash_declared D i ids \<and> agrees cx i ''batch_hash''"
proof -
  have ids: "invoice_ids T i = Inr ids" using assms by (simp add: well_shaped_def)
  let ?P = "ac_parameters (ai_action i)"
  have get: "py_index ?P ''payer_entity_id'' = Inr (param i ''payer_entity_id'')" "py_index ?P ''supplier_id'' = Inr (param i ''supplier_id'')"
      "py_index ?P ''bank_account_reference'' = Inr (param i ''bank_account_reference'')"
      "py_index ?P ''amount_minor'' = Inr (param i ''amount_minor'')" "py_index ?P ''currency'' = Inr (param i ''currency'')"
      "py_index ?P ''payment_date'' = Inr (param i ''payment_date'')" "py_index ?P ''payment_batch_id'' = Inr (param i ''payment_batch_id'')"
      "py_index ?P ''batch_hash'' = Inr (param i ''batch_hash'')"
    by (rule well_shaped_index[OF assms], simp add: required_string_fields_def)+
  have "InvoicePaymentBatchHashRule D T i cx = Inr None \<longleftrightarrow>
      (\<exists>h. bindR (sha256_hex D (batch_hash_input i ids)) (\<lambda>h. Inr (''batch_'' @ h)) = Inr h \<and>
        param i ''batch_hash'' = JStr h \<and> agrees cx i ''batch_hash'')"
    unfolding InvoicePaymentBatchHashRule_def Let_def get ids bindR_Inr compute_hash_shaped[OF assms] agrees_def
    by (cases "sha256_hex D (batch_hash_input i ids)") simp_all
  then show ?thesis by (auto simp: hash_declared_def bindR_eq_Inr)
qed

section \<open>The workflow of a payment\<close>

text \<open>Not blocked, all required evidence referenced, the whole approval chain provided.\<close>

definition cleared_by_workflow :: "py_text \<Rightarrow> dynamic_context \<Rightarrow> action_intent \<Rightarrow> bool" where
  "cleared_by_workflow T cx i \<longleftrightarrow> fact cx ''risk_level'' \<noteq> JStr ''blocked'' \<and>
     (\<exists>required. fact_strings T cx ''required_evidence_types'' (JTup (map JStr (cx_required_evidence_types cx))) = Inr required \<and>
       set required \<subseteq> set (map ev_type (ai_evidence_refs i))) \<and>
     (\<exists>chain provided. fact_strings T cx ''required_approval_chain'' (JTup []) = Inr chain \<and>
       fact_strings T cx ''provided_approval_chain'' (JTup []) = Inr provided \<and> set chain \<subseteq> set provided) \<and>
     \<not> truthy (fact cx ''approval_required'')"

lemma evidence_silent:
  assumes "for_demo_payments i"
  shows "InvoicePaymentEvidenceWorkflowRule T i cx = Inr None \<longleftrightarrow>
     (\<exists>required. fact_strings T cx ''required_evidence_types'' (JTup (map JStr (cx_required_evidence_types cx))) = Inr required \<and>
       set required \<subseteq> set (map ev_type (ai_evidence_refs i)))"
  using assms by (auto simp: InvoicePaymentEvidenceWorkflowRule_def bindR_eq_Inr Let_def filter_empty_conv)

lemma approval_silent:
  assumes "for_demo_payments i"
  shows "InvoicePaymentApprovalWorkflowRule T i cx = Inr None \<longleftrightarrow>
     (\<exists>chain provided. fact_strings T cx ''required_approval_chain'' (JTup []) = Inr chain \<and>
       fact_strings T cx ''provided_approval_chain'' (JTup []) = Inr provided \<and> set chain \<subseteq> set provided) \<and>
     \<not> truthy (fact cx ''approval_required'')"
  using assms by (auto simp: InvoicePaymentApprovalWorkflowRule_def bindR_eq_Inr Let_def filter_empty_conv)

lemma blocked_silent:
  assumes "for_demo_payments i"
  shows "TenantWorkflowRule blocked_payment_rule i cx =
     Inr (if fact cx ''risk_level'' = JStr ''blocked''
       then Some (evaluation ''tenant_demo.invoice_payment.blocked'' ''deny'' ''PAYMENT_BLOCKED_RISK''
         ''The invoice payment workflow denies blocked payment requests.'') else None)"
  using assms by (simp add: TenantWorkflowRule_def blocked_payment_rule_def for_demo_payments_def Let_def)

lemma evidence_speaks:
  "InvoicePaymentEvidenceWorkflowRule T i cx = Inr (Some e) \<Longrightarrow> ru_outcome e = ''needs-evidence''"
  by (auto simp: InvoicePaymentEvidenceWorkflowRule_def bindR_eq_Inr Let_def evaluation_def split: if_splits)

lemma approval_speaks:
  "InvoicePaymentApprovalWorkflowRule T i cx = Inr (Some e) \<Longrightarrow> ru_outcome e = ''approval-required''"
  by (auto simp: InvoicePaymentApprovalWorkflowRule_def bindR_eq_Inr Let_def evaluation_def split: if_splits)

lemma fold_max_start: "fold max xs (a :: nat) = max a (fold max xs 0)"
proof (induction xs arbitrary: a)
  case (Cons x xs)
  show ?case using Cons[of "max x a"] Cons[of "max x 0"] by (simp add: max.assoc max.left_commute)
qed simp

lemma strictest_Cons [simp]: "strictest [] = 0" "strictest (e # es) = max (severity (ru_outcome e)) (strictest es)"
  using fold_max_start[of "map (\<lambda>e. severity (ru_outcome e)) es" "severity (ru_outcome e)"] by (simp_all add: strictest_def)

text \<open>The layer allows when only the last of its four rules speaks.\<close>

lemma payment_workflow:
  assumes "for_demo_payments i"
  shows "(\<exists>flow. workflow_evaluate (build_invoice_payment_policy_engine D T store) i cx = Inr flow \<and> strictest flow = 1) \<longleftrightarrow>
    cleared_by_workflow T cx i"
proof -
  let ?E = "InvoicePaymentEvidenceWorkflowRule T i cx" and ?A = "InvoicePaymentApprovalWorkflowRule T i cx"
  let ?rest = "\<lambda>es. case ?E of Inl x \<Rightarrow> Inl x | Inr a \<Rightarrow> (case ?A of Inl y \<Rightarrow> Inl y | Inr b \<Rightarrow>
      Inr (es @ (case a of None \<Rightarrow> [] | Some e \<Rightarrow> [e]) @ (case b of None \<Rightarrow> [] | Some e \<Rightarrow> [e]) @
        [evaluation ''tenant_demo.invoice_payment.allow'' ''allow'' ''PAYMENT_READY'' ''The invoice payment is approved for protected execution.'']))"
  have flow: "workflow_evaluate (build_invoice_payment_policy_engine D T store) i cx =
      ?rest (if fact cx ''risk_level'' = JStr ''blocked'' then [evaluation ''tenant_demo.invoice_payment.blocked'' ''deny''
        ''PAYMENT_BLOCKED_RISK'' ''The invoice payment workflow denies blocked payment requests.''] else [])"
    using assms
    by (cases ?E; cases ?A) (auto simp: workflow_evaluate_def build_invoice_payment_policy_engine_def for_demo_payments_def
        blocked_silent[OF assms] InvoicePaymentAllowWorkflowRule_def split: option.splits)
  have "cleared_by_workflow T cx i \<longleftrightarrow> fact cx ''risk_level'' \<noteq> JStr ''blocked'' \<and> ?E = Inr None \<and> ?A = Inr None"
    unfolding cleared_by_workflow_def evidence_silent[OF assms] approval_silent[OF assms] by blast
  moreover have "severity (ru_outcome e) = 3" if "?E = Inr (Some e)" for e using evidence_speaks[OF that] by (simp add: severity_def)
  moreover have "severity (ru_outcome e) = 2" if "?A = Inr (Some e)" for e using approval_speaks[OF that] by (simp add: severity_def)
  ultimately show ?thesis
    unfolding flow by (cases ?E; cases ?A) (auto simp: evaluation_def severity_def max_def split: option.splits)
qed

section \<open>An allowed payment\<close>

lemma invoice_hard_rules:
  "set (pe_hard_rules (build_invoice_payment_policy_engine D T store)) =
     {IntentChronologyHardRule, IntentTtlHardRule 900, CapabilityScopeHardRule,
      ReceiptEvidenceVerificationRule D \<lparr>rr_store = store, rr_allowed_outcomes = [''executed''],
        rr_required_capability = Some ''invoice_payment.execute''\<rparr>} \<union>
     {InvoicePaymentActionShapeRule D T, InvoicePaymentConstraintBindingRule T, InvoicePaymentEntityBindingRule,
      InvoicePaymentPayeeBindingRule, InvoicePaymentBankBindingRule, InvoicePaymentInvoiceSetRule T,
      InvoicePaymentAmountCurrencyRule T, InvoicePaymentDuplicateRule T, InvoicePaymentBatchHashRule D T}"
  by (auto simp: build_invoice_payment_policy_engine_def)

definition payment_checks :: "deps \<Rightarrow> py_text \<Rightarrow> dynamic_context \<Rightarrow> action_intent \<Rightarrow> string list \<Rightarrow> bool" where
  "payment_checks D T cx i ids \<longleftrightarrow> well_shaped T i ids \<and> constraints_mirror i ids \<and> facts_agree T cx i ids \<and> not_yet_paid T cx ids \<and>
     hash_declared D i ids"

lemma payment_rules_pass:
  "(\<forall>r \<in> {InvoicePaymentActionShapeRule D T, InvoicePaymentConstraintBindingRule T, InvoicePaymentEntityBindingRule,
      InvoicePaymentPayeeBindingRule, InvoicePaymentBankBindingRule, InvoicePaymentInvoiceSetRule T,
      InvoicePaymentAmountCurrencyRule T, InvoicePaymentDuplicateRule T, InvoicePaymentBatchHashRule D T}. passes r i cx) \<longleftrightarrow>
   (\<exists>ids. payment_checks D T cx i ids)"
proof (cases "\<exists>ids. well_shaped T i ids")
  case False
  then have "\<not> passes (InvoicePaymentActionShapeRule D T) i cx" by (simp add: passes_silent[OF shape_only_denies] shape_silent)
  with False show ?thesis by (auto simp: payment_checks_def)
next
  case True
  then obtain ids where w: "well_shaped T i ids" by blast
  have fields: "''payer_entity_id'' \<in> set (''amount_minor'' # required_string_fields)" "''supplier_id'' \<in> set (''amount_minor'' # required_string_fields)"
    "''bank_account_reference'' \<in> set (''amount_minor'' # required_string_fields)" by (simp_all add: required_string_fields_def)
  have unique: "ids' = ids" if "well_shaped T i ids'" for ids' using that w by (simp add: well_shaped_def)
  then have "(\<exists>ids. payment_checks D T cx i ids) \<longleftrightarrow> payment_checks D T cx i ids" by (auto simp: payment_checks_def)
  moreover have "passes (InvoicePaymentActionShapeRule D T) i cx" using True by (simp add: passes_silent[OF shape_only_denies] shape_silent)
  moreover note only_deny[THEN passes_silent] constraint_silent[OF w] set_silent[OF w] amount_silent[OF w] duplicate_silent[OF w] hash_silent[OF w]
    fields[THEN fact_silent[OF w]]
  ultimately show ?thesis
    unfolding InvoicePaymentEntityBindingRule_def InvoicePaymentPayeeBindingRule_def InvoicePaymentBankBindingRule_def
    by (simp add: payment_checks_def w facts_agree_def) blast
qed

text \<open>
  C30 (invoice_payment_allowed_iff): the invoice-payment engine allows an intent exactly when the general hard rules pass
  (time, lifetime, scope, receipts cited as evidence), it is a well-formed payment of a sorted set of invoices proposed
  by its requester, its constraints mirror its parameters, every fact of the protected context agrees with it, none of
  its invoices was paid before, its batch hash is the hash of the payment, and the tenant's workflow clears it: not
  blocked, all required evidence cited, the whole approval chain provided.
\<close>

theorem invoice_payment_allowed_iff:
  "(\<exists>d. evaluate_policy (build_invoice_payment_policy_engine D T store) i cx = Inr d \<and> pd_outcome d = ''allow'') \<longleftrightarrow>
     (\<forall>r \<in> {IntentChronologyHardRule, IntentTtlHardRule 900, CapabilityScopeHardRule,
        ReceiptEvidenceVerificationRule D \<lparr>rr_store = store, rr_allowed_outcomes = [''executed''],
          rr_required_capability = Some ''invoice_payment.execute''\<rparr>}. passes r i cx) \<and>
     tn_tenant_id (ai_tenant i) = ''tenant_demo'' \<and> (\<exists>ids. payment_checks D T cx i ids) \<and> cleared_by_workflow T cx i"
proof (cases "tn_tenant_id (ai_tenant i) = ''tenant_demo'' \<and> (\<exists>ids. payment_checks D T cx i ids)")
  case True
  then have "for_demo_payments i" by (auto simp: for_demo_payments_def payment_checks_def well_shaped_def is_invoice_payment_intent_def)
  from payment_workflow[OF this] True show ?thesis
    unfolding allowed_iff invoice_hard_rules ball_Un payment_rules_pass by blast
next
  case False
  have "\<not> (\<exists>flow. workflow_evaluate (build_invoice_payment_policy_engine D T store) i cx = Inr flow \<and> strictest flow = 1)"
    if "tn_tenant_id (ai_tenant i) \<noteq> ''tenant_demo''"
    using that by (auto simp: workflow_evaluate_def build_invoice_payment_policy_engine_def)
  with False show ?thesis unfolding allowed_iff invoice_hard_rules ball_Un payment_rules_pass by blast
qed

section \<open>Built payments\<close>

lemma intent_from_dict_parts:
  assumes "intent_from_dict (JObj d) = Inr i"
  shows "action_from_dict (get_or_null d ''action'') = Inr (ai_action i)" "target_from_dict (get_or_null d ''target'') = Inr (ai_target i)"
    "party_from_dict (get_or_null d ''requester'') ''requester'' = Inr (ai_requester i)"
    "tenant_from_dict (get_or_null d ''tenant'') = Inr (ai_tenant i)"
    "parse_timestamp (get_or_null d ''issued_at'') ''issued_at'' = Inr (ai_issued_at i)"
    "parse_timestamp (get_or_null d ''expires_at'') ''expires_at'' = Inr (ai_expires_at i)"
  using assms unfolding intent_from_dict_def by (auto elim!: bindR_eq_InrE)

lemma built_payment_parts:
  assumes "build_invoice_payment_action_intent_payload D T q = Inr payload" "intent_from_dict (JObj payload) = Inr i"
    and "ip_batch_hash q = []"
  obtains ids day h where "normalize_invoice_ids T (map JStr (ip_invoice_ids q)) = Inr ids"
    "normalize_payment_date (JStr (ip_payment_date q)) = Inr day"
    "compute_invoice_payment_batch_hash D T (JStr (ip_payer_entity_id q)) (JStr (ip_supplier_id q))
         (JStr (ip_bank_account_reference q)) (map JStr ids) (JInt (ip_amount_minor q)) (JStr (ip_currency q)) (JStr day)
         (JStr (ip_payment_batch_id q)) = Inr h"
    "ac_parameters (ai_action i) = payment_parameters q ids day h" "ac_constraints (ai_action i) = payment_constraints q ids day h"
    "is_invoice_payment_intent i" "tg_resource_type (ai_target i) = ''payment_batch''"
    "tg_resource_id (ai_target i) = ip_payment_batch_id q" "ip_payment_batch_id q \<noteq> []" "pa_id (ai_requester i) = ip_requester_id q" "ip_requester_id q \<noteq> []"
proof -
  obtain ids day h where parts: "normalize_invoice_ids T (map JStr (ip_invoice_ids q)) = Inr ids"
    "normalize_payment_date (JStr (ip_payment_date q)) = Inr day"
    "compute_invoice_payment_batch_hash D T (JStr (ip_payer_entity_id q)) (JStr (ip_supplier_id q))
         (JStr (ip_bank_account_reference q)) (map JStr ids) (JInt (ip_amount_minor q)) (JStr (ip_currency q)) (JStr day)
         (JStr (ip_payment_batch_id q)) = Inr h"
    and get: "get_or_null payload ''action'' = JObj [(''name'', JStr ''invoice_payment.execute''), (''capability'', JStr ''invoice_payment.execute''),
          (''parameters'', JObj (payment_parameters q ids day h)), (''constraints'', JObj (payment_constraints q ids day h)),
          (''scope'', JObj [(''target_resource_type'', JStr ''payment_batch''), (''single_use'', JBool True)])]"
      "get_or_null payload ''target'' = JObj [(''resource_type'', JStr ''payment_batch''), (''resource_id'', JStr (ip_payment_batch_id q))]"
      "get_or_null payload ''requester'' = JObj [(''type'', JStr ''service''), (''id'', JStr (ip_requester_id q))]"
    using assms(1,3) unfolding build_invoice_payment_action_intent_payload_def
    by (auto elim!: bindR_eq_InrE simp: with_options_def put_array_def put_field_def)
  note p = intent_from_dict_parts[OF assms(2), unfolded get]
  have "ac_parameters (ai_action i) = payment_parameters q ids day h" "ac_constraints (ai_action i) = payment_constraints q ids day h"
    "is_invoice_payment_intent i"
    using p(1) by (auto simp: action_from_dict_def is_invoice_payment_intent_def expect_mapping_def elim!: bindR_eq_InrE dest!: sym[of _ "ai_action i"])
  moreover have "tg_resource_type (ai_target i) = ''payment_batch''" "tg_resource_id (ai_target i) = ip_payment_batch_id q" "ip_payment_batch_id q \<noteq> []"
    using p(2) by (auto simp: target_from_dict_def expect_mapping_def expect_string_Inr elim!: bindR_eq_InrE dest!: sym[of _ "ai_target i"])
  moreover have "pa_id (ai_requester i) = ip_requester_id q" "ip_requester_id q \<noteq> []"
    using p(3) by (auto simp: party_from_dict_def expect_mapping_def expect_string_Inr elim!: bindR_eq_InrE dest!: sym[of _ "ai_requester i"])
  ultimately show thesis using parts that by blast
qed

lemma built_exact:
  assumes built: "build_invoice_payment_action_intent_payload D T q = Inr payload" "intent_from_dict (JObj payload) = Inr i"
    and given: "ip_batch_hash q = []" "ip_proposer_id q = [] \<or> ip_proposer_id q = ip_requester_id q"
    and fields: "0 < ip_amount_minor q" "is_currency T (JStr (ip_currency q))" "ip_payer_entity_id q \<noteq> []" "ip_supplier_id q \<noteq> []"
      "ip_bank_account_reference q \<noteq> []"
  shows "\<exists>ids. set ids = set (ip_invoice_ids q) - {[]} \<and> well_shaped T i ids \<and> constraints_mirror i ids \<and> hash_declared D i ids"
proof (rule built_payment_parts[OF built given(1)])
  fix ids day h
  assume ids: "normalize_invoice_ids T (map JStr (ip_invoice_ids q)) = Inr ids"
    and day: "normalize_payment_date (JStr (ip_payment_date q)) = Inr day"
    and h: "compute_invoice_payment_batch_hash D T (JStr (ip_payer_entity_id q)) (JStr (ip_supplier_id q))
         (JStr (ip_bank_account_reference q)) (map JStr ids) (JInt (ip_amount_minor q)) (JStr (ip_currency q)) (JStr day)
         (JStr (ip_payment_batch_id q)) = Inr h"
    and i: "ac_parameters (ai_action i) = payment_parameters q ids day h" "ac_constraints (ai_action i) = payment_constraints q ids day h"
    "is_invoice_payment_intent i" "tg_resource_type (ai_target i) = ''payment_batch''"
    "tg_resource_id (ai_target i) = ip_payment_batch_id q" "ip_payment_batch_id q \<noteq> []" "pa_id (ai_requester i) = ip_requester_id q"
    "ip_requester_id q \<noteq> []"
  have param: "param i k = get_or_null (payment_parameters q ids day h) k" for k by (simp add: i)
  have "set ids = set (ip_invoice_ids q) - {[]}"
    using ids by (auto simp: normalize_JStr Let_def split: if_splits)
  moreover have parse: "is_ok (parse_calendar_date (JStr day) ''payment_date'')" "day \<noteq> []"
    using day by (auto simp: normalize_payment_date_text is_ok_iff parse_calendar_date_def is_full_date_def)
  have "h \<noteq> []" using h by (auto simp: compute_invoice_payment_batch_hash_def elim!: bindR_eq_InrE)
  have currency: "ip_currency q \<noteq> []" using fields(2) by (auto simp: is_currency_def codepoints.simps)
  have shaped: "well_shaped T i ids"
    unfolding well_shaped_def param using i(3-8) parse given(2) fields currency \<open>h \<noteq> []\<close> normalize_invoice_set[OF ids]
    by (auto simp: payment_parameters_def required_string_fields_def is_text_def positive_int_def int_value_def invoice_ids_def i(1) get_or_def)
  moreover have "constraints_mirror i ids"
    unfolding constraints_mirror_def param i(2) by (simp add: bound_fields_def payment_parameters_def payment_constraints_def)
  moreover have "hash_declared D i ids"
    using trans[OF sym[OF compute_hash_shaped[OF shaped, of D, unfolded param]], of "Inr h"] h unfolding hash_declared_def param
    by (auto simp: payment_parameters_def elim!: bindR_eq_InrE)
  ultimately show ?thesis by blast
qed

text \<open>
  The intent read back from a payload built without a given batch hash, for a proposer
  that is the requester, is a well-formed payment of exactly the non-empty invoice identifiers asked for, its constraints
  mirror its parameters and it declares the hash of its batch.
\<close>

theorem built_payment_is_exact:
  assumes built: "build_invoice_payment_action_intent_payload D T q = Inr payload" "intent_from_dict (JObj payload) = Inr i"
    and given: "ip_batch_hash q = []" "ip_proposer_id q = [] \<or> ip_proposer_id q = ip_requester_id q"
    and fields: "0 < ip_amount_minor q" "is_currency T (JStr (ip_currency q))" "ip_payer_entity_id q \<noteq> []" "ip_supplier_id q \<noteq> []"
      "ip_bank_account_reference q \<noteq> []"
  shows "\<exists>ids. set ids = set (ip_invoice_ids q) - {[]} \<and> well_shaped T i ids \<and> constraints_mirror i ids \<and> hash_declared D i ids"
  using assms by (rule built_exact)

section \<open>A concrete payment\<close>

definition sample_payment :: invoice_payment_request where
  "sample_payment = \<lparr>ip_intent_id = ''pay-intent-1'', ip_tenant_id = ''tenant_demo'', ip_requester_id = ''ap-bot'',
     ip_payer_entity_id = ''entity-1'', ip_supplier_id = ''sup-1'', ip_bank_account_reference = ''bank-1'',
     ip_invoice_ids = [''inv-2'', ''inv-1'', [], ''inv-2''], ip_amount_minor = 1200, ip_currency = ''EUR'', ip_payment_date = ''2024-02-29'',
     ip_payment_batch_id = ''batch-1'', ip_issued_at = 63000000000000000, ip_proposer_id = [], ip_batch_hash = [],
     ip_options = \<lparr>po_ttl_seconds = 300, po_justification = JNull, po_evidence_refs = [], po_context = [], po_metadata = []\<rparr>\<rparr>"

definition sample_payment_context :: dynamic_context where
  "sample_payment_context = sample_context\<lparr>cx_scope_capabilities := [''invoice_payment.execute''],
     cx_facts := [(''expected_supplier_id'', JStr ''sup-1''), (''expected_amount_minor'', JStr ''1200''),
       (''expected_invoice_ids'', JArr [JStr ''inv-1'', JStr ''inv-2'']), (''duplicate_invoice_ids'', JArr [JStr ''inv-0'']),
       (''required_approval_chain'', JArr [JStr ''manager'']), (''provided_approval_chain'', JArr [JStr ''manager''])]\<rparr>"

lemma sample_sorted_ids: "sorted_set [''inv-2'', ''inv-1'', ''inv-2''] = [''inv-1'', ''inv-2'']"
  by (simp add: sorted_set_def less_char_def)

lemma sample_payment_ids: "normalize_invoice_ids T (map JStr (ip_invoice_ids sample_payment)) = Inr [''inv-1'', ''inv-2'']"
  unfolding normalize_JStr by (simp add: sample_payment_def sample_sorted_ids)

lemma sample_payment_date: "normalize_payment_date (JStr (ip_payment_date sample_payment)) = Inr ''2024-02-29''"
  by (simp add: normalize_payment_date_text sample_payment_def is_ok_iff parse_calendar_date_def is_full_date_def is_digit_def
      read_nat_def digit_val_def valid_ymd_def days_in_month_def is_leap_def Let_def)

lemma sample_hashes:
  "is_ok (sha256_hex sample_deps (JObj [(''payer_entity_id'', JStr ''entity-1''), (''supplier_id'', JStr ''sup-1''),
     (''bank_account_reference'', JStr ''bank-1''), (''invoice_ids'', JArr (map JStr [''inv-1'', ''inv-2''])),
     (''amount_minor'', JInt 1200), (''currency'', JStr ''EUR''), (''payment_date'', JStr ''2024-02-29''), (''payment_batch_id'', JStr ''batch-1'')]))"
  "is_ok (sha256_hex sample_deps (JObj [(''payment_batch_id'', JStr ''batch-1''), (''invoice_ids'', JArr (map JStr [''inv-1'', ''inv-2''])),
     (''amount_minor'', JInt 1200), (''currency'', JStr ''EUR''), (''payer_entity_id'', JStr ''entity-1''), (''supplier_id'', JStr ''sup-1'')]))"
  unfolding sha256_hex_def is_ok_bindR_Inr
  by (rule canonicalize_bytes_ok;
      simp add: sample_deps_def show_int_def show_nat.simps[of 1200] show_nat.simps[of 120] show_nat.simps[of 12] show_nat.simps[of "Suc 0"]
        INT_MAX_STR_DIGITS_def)+

lemma sample_payment_built:
  obtains payload i where "build_invoice_payment_action_intent_payload sample_deps sample_text sample_payment = Inr payload"
    "intent_from_dict (JObj payload) = Inr i" "tn_tenant_id (ai_tenant i) = ''tenant_demo''" "ai_evidence_refs i = []"
    "ai_issued_at i = 63000000000000000" "ai_expires_at i = 63000000300000000"
proof -
  obtain h1 h2 where h: "sha256_hex sample_deps (JObj [(''payer_entity_id'', JStr ''entity-1''), (''supplier_id'', JStr ''sup-1''),
     (''bank_account_reference'', JStr ''bank-1''), (''invoice_ids'', JArr (map JStr [''inv-1'', ''inv-2''])),
     (''amount_minor'', JInt 1200), (''currency'', JStr ''EUR''), (''payment_date'', JStr ''2024-02-29''), (''payment_batch_id'', JStr ''batch-1'')]) = Inr h1"
    "sha256_hex sample_deps (JObj [(''payment_batch_id'', JStr ''batch-1''), (''invoice_ids'', JArr (map JStr [''inv-1'', ''inv-2''])),
     (''amount_minor'', JInt 1200), (''currency'', JStr ''EUR''), (''payer_entity_id'', JStr ''entity-1''), (''supplier_id'', JStr ''sup-1'')]) = Inr h2"
    using sample_hashes by (auto simp: is_ok_iff)
  have set: "normalize_invoice_ids sample_text (map JStr [''inv-1'', ''inv-2'']) = Inr [''inv-1'', ''inv-2'']"
    unfolding normalize_fixed by (simp add: invoice_set_def less_char_def less_eq_char_def)
  have batch: "compute_invoice_payment_batch_hash sample_deps sample_text (JStr ''entity-1'') (JStr ''sup-1'') (JStr ''bank-1'')
      (map JStr [''inv-1'', ''inv-2'']) (JInt 1200) (JStr ''EUR'') (JStr ''2024-02-29'') (JStr ''batch-1'') = Inr (''batch_'' @ h1)"
    using set sample_payment_date h(1) by (simp add: compute_invoice_payment_batch_hash_def sample_payment_def)
  have times: "payload_times 63000000000000000 (ip_options sample_payment) = Inr (format_timestamp 63000000000000000, format_timestamp 63000000300000000)"
    by (simp add: payload_times_def sample_payment_def TIMEDELTA_MAX_SECONDS_def dt_add_def dt_ok_def datetime_limit_def)
  obtain payload where p: "build_invoice_payment_action_intent_payload sample_deps sample_text sample_payment = Inr payload"
      "payload = [(''contract'', contract_entry ''action_intent''), (''intent_id'', JStr ''pay-intent-1''),
        (''idempotency_key'', JStr (''ipy_'' @ h2)), (''issued_at'', JStr (format_timestamp 63000000000000000)),
        (''expires_at'', JStr (format_timestamp 63000000300000000)),
        (''tenant'', JObj [(''tenant_id'', JStr ''tenant_demo'')]),
        (''requester'', JObj [(''type'', JStr ''service''), (''id'', JStr ''ap-bot'')]),
        (''action'', JObj [(''name'', JStr ''invoice_payment.execute''), (''capability'', JStr ''invoice_payment.execute''),
          (''parameters'', JObj (payment_parameters sample_payment [''inv-1'', ''inv-2''] ''2024-02-29'' (''batch_'' @ h1))),
          (''constraints'', JObj (payment_constraints sample_payment [''inv-1'', ''inv-2''] ''2024-02-29'' (''batch_'' @ h1))),
          (''scope'', JObj [(''target_resource_type'', JStr ''payment_batch''), (''single_use'', JBool True)])]),
        (''target'', JObj [(''resource_type'', JStr ''payment_batch''), (''resource_id'', JStr ''batch-1'')]),
        (''context'', JObj []), (''metadata'', JObj [])]"
    unfolding build_invoice_payment_action_intent_payload_def sample_payment_ids sample_payment_date bindR_Inr
    using batch h(2) times by (simp add: sample_payment_def with_options_def put_array_def put_field_def put_if_def)
  obtain i where "intent_from_dict (JObj payload) = Inr i" "ai_evidence_refs i = []" "tn_tenant_id (ai_tenant i) = ''tenant_demo''"
      "ai_issued_at i = 63000000000000000" "ai_expires_at i = 63000000300000000"
    unfolding p(2)
    by (simp add: intent_from_dict_def expect_mapping_def check_contract_def contract_entry_def expect_string_def parse_format_timestamp
        dt_ok_def datetime_limit_def tenant_from_dict_def party_from_dict_def action_from_dict_def target_from_dict_def)
  with p(1) show thesis using that by blast
qed

lemma sample_payment_fields: "ip_batch_hash sample_payment = []" "ip_proposer_id sample_payment = []" "0 < ip_amount_minor sample_payment"
  "is_currency sample_text (JStr (ip_currency sample_payment))" "ip_payer_entity_id sample_payment \<noteq> []" "ip_supplier_id sample_payment \<noteq> []"
  "ip_bank_account_reference sample_payment \<noteq> []"
  using sample_currency by (simp_all add: sample_payment_def)

theorem built_payment_is_exact_witness:
  "\<exists>payload i ids. build_invoice_payment_action_intent_payload sample_deps sample_text sample_payment = Inr payload \<and>
     intent_from_dict (JObj payload) = Inr i \<and> set ids = {''inv-1'', ''inv-2''} \<and> well_shaped sample_text i ids \<and> hash_declared sample_deps i ids"
proof -
  obtain payload i where p: "build_invoice_payment_action_intent_payload sample_deps sample_text sample_payment = Inr payload"
    "intent_from_dict (JObj payload) = Inr i" by (rule sample_payment_built)
  have "set (ip_invoice_ids sample_payment) - {[]} = {''inv-1'', ''inv-2''}" by (auto simp: sample_payment_def)
  with built_payment_is_exact[OF p sample_payment_fields(1) disjI1[OF sample_payment_fields(2)] sample_payment_fields(3-7)] p
  show ?thesis by auto
qed

lemma sample_payment_facts:
  "param i ''supplier_id'' = JStr ''sup-1'' \<Longrightarrow> param i ''amount_minor'' = JInt 1200 \<Longrightarrow>
     facts_agree sample_text sample_payment_context i [''inv-1'', ''inv-2'']"
  "not_yet_paid sample_text sample_payment_context [''inv-1'', ''inv-2'']"
  "cleared_by_workflow sample_text sample_payment_context i"
proof -
  have "normalize_invoice_ids sample_text [JStr ''inv-1'', JStr ''inv-2''] = Inr [''inv-1'', ''inv-2'']"
    using normalize_fixed[of sample_text "[''inv-1'', ''inv-2'']"] by (simp add: invoice_set_def less_char_def less_eq_char_def)
  moreover have "int_of_text sample_text ''1200'' = Some 1200"
    by (simp add: int_of_text_def int_of_ascii_def strip_space_def is_space_def is_digit_def text_too_long_def INT_MAX_STR_DIGITS_def
        read_nat_def digit_val_def Let_def)
  ultimately show "param i ''supplier_id'' = JStr ''sup-1'' \<Longrightarrow> param i ''amount_minor'' = JInt 1200 \<Longrightarrow>
     facts_agree sample_text sample_payment_context i [''inv-1'', ''inv-2'']"
    by (simp add: facts_agree_def agrees_def sample_payment_context_def)
qed (simp_all add: not_yet_paid_def cleared_by_workflow_def fact_strings_def str_items_def sample_payment_context_def sample_context_def)

lemma sample_payment_intent:
  obtains i where "ai_evidence_refs i = []" "tn_tenant_id (ai_tenant i) = ''tenant_demo''" "ai_issued_at i = 63000000000000000"
    "ai_expires_at i = 63000000300000000" "ac_capability (ai_action i) = ''invoice_payment.execute''"
    "payment_checks sample_deps sample_text sample_payment_context i [''inv-1'', ''inv-2'']"
proof -
  obtain payload i where p: "build_invoice_payment_action_intent_payload sample_deps sample_text sample_payment = Inr payload"
    "intent_from_dict (JObj payload) = Inr i" and i: "tn_tenant_id (ai_tenant i) = ''tenant_demo''" "ai_evidence_refs i = []"
    "ai_issued_at i = 63000000000000000" "ai_expires_at i = 63000000300000000" by (rule sample_payment_built)
  obtain ids where ids: "well_shaped sample_text i ids" "constraints_mirror i ids" "hash_declared sample_deps i ids"
    using built_exact[OF p sample_payment_fields(1) disjI1[OF sample_payment_fields(2)] sample_payment_fields(3-7)] by blast
  obtain ids' day h where n: "normalize_invoice_ids sample_text (map JStr (ip_invoice_ids sample_payment)) = Inr ids'"
      and par: "ac_parameters (ai_action i) = payment_parameters sample_payment ids' day h"
    by (rule built_payment_parts[OF p sample_payment_fields(1)])
  have "invoice_ids sample_text i = Inr ids'" by (simp add: invoice_ids_def par payment_parameters_def get_or_def)
  then have "ids = [''inv-1'', ''inv-2'']" using ids(1) n sample_payment_ids by (simp add: well_shaped_def)
  moreover have "param i ''supplier_id'' = JStr ''sup-1''" "param i ''amount_minor'' = JInt 1200"
    by (simp_all add: par payment_parameters_def sample_payment_def)
  ultimately show thesis
    using that[OF i(2,1,3,4)] ids sample_payment_facts
    by (simp add: payment_checks_def well_shaped_def is_invoice_payment_intent_def)
qed

theorem invoice_payment_allowed_iff_witness:
  "\<exists>i d. evaluate_policy (build_invoice_payment_policy_engine sample_deps sample_text None) i sample_payment_context = Inr d \<and>
     pd_outcome d = ''allow''"
proof -
  obtain i where i: "ai_evidence_refs i = []" "tn_tenant_id (ai_tenant i) = ''tenant_demo''" "ai_issued_at i = 63000000000000000"
    "ai_expires_at i = 63000000300000000" "ac_capability (ai_action i) = ''invoice_payment.execute''"
    "payment_checks sample_deps sample_text sample_payment_context i [''inv-1'', ''inv-2'']"
    by (rule sample_payment_intent)
  have "\<forall>r \<in> {IntentChronologyHardRule, IntentTtlHardRule 900, CapabilityScopeHardRule,
        ReceiptEvidenceVerificationRule sample_deps \<lparr>rr_store = None, rr_allowed_outcomes = [''executed''],
          rr_required_capability = Some ''invoice_payment.execute''\<rparr>}. passes r i sample_payment_context"
    using i(1-5) by (simp add: passes_def rule_defs sample_payment_context_def sample_context_def TIMEDELTA_MAX_SECONDS_def Let_def)
  then show ?thesis using invoice_payment_allowed_iff[of sample_deps sample_text None i sample_payment_context] i(2,6) sample_payment_facts(3) by blast
qed

end
