(* ===== verification/PaymentRecords.thy ===== *)
theory PaymentRecords
  imports Receipts
begin

text \<open>
  The records of \<^verbatim>\<open>models/invoice_payment.py\<close> and their dictionaries: enrollments, invoices, batches, executions and
  reconciliations, and the state that keeps one dictionary of each. \<open>str\<close> and \<open>int\<close> convert what is read; a
  dictionary of records is written in the order of its keys.
\<close>

section \<open>Reading fields\<close>

text \<open>\<open>raw[k]\<close> and \<open>raw.items()\<close> on a value that need not be a dictionary.\<close>

definition index_json :: "json \<Rightarrow> string \<Rightarrow> json res" where
  "index_json raw k = (case raw of JObj d \<Rightarrow> py_index d k | _ \<Rightarrow> Inl (Raise TypeError ''object is not subscriptable by a string''))"

definition text_field :: "py_text \<Rightarrow> json \<Rightarrow> string \<Rightarrow> string res" where
  "text_field T raw k = bindR (index_json raw k) (py_str T)"

definition int_field :: "py_text \<Rightarrow> json \<Rightarrow> string \<Rightarrow> int res" where
  "int_field T raw k = bindR (index_json raw k) (py_int T)"

definition get_json :: "json \<Rightarrow> string \<Rightarrow> json \<Rightarrow> json" where
  "get_json raw k dflt = (case raw of JObj d \<Rightarrow> get_or d k dflt | _ \<Rightarrow> dflt)"

definition texts_of :: "py_text \<Rightarrow> json \<Rightarrow> string list res" where
  "texts_of T v = bindR (py_list v) (mapR (py_str T))"

section \<open>The records\<close>

record payee_enrollment =
  pe_payer_entity_id :: string
  pe_supplier_id :: string
  pe_bank_account_reference :: string
  pe_display_name :: json

definition enrollment_key :: "payee_enrollment \<Rightarrow> string" where
  "enrollment_key e = pe_payer_entity_id e @ '':'' @ pe_supplier_id e"

definition enrollment_from_dict :: "py_text \<Rightarrow> json \<Rightarrow> payee_enrollment res" where
  "enrollment_from_dict T raw =
     bindR (text_field T raw ''payer_entity_id'') (\<lambda>payer.
     bindR (text_field T raw ''supplier_id'') (\<lambda>supplier.
     bindR (text_field T raw ''bank_account_reference'') (\<lambda>bank.
     Inr \<lparr>pe_payer_entity_id = payer, pe_supplier_id = supplier, pe_bank_account_reference = bank,
       pe_display_name = get_json raw ''display_name'' JNull\<rparr>)))"

definition enrollment_to_dict :: "payee_enrollment \<Rightarrow> dict" where
  "enrollment_to_dict e = put_field ''display_name'' (pe_display_name e)
     [(''payer_entity_id'', JStr (pe_payer_entity_id e)), (''supplier_id'', JStr (pe_supplier_id e)),
      (''bank_account_reference'', JStr (pe_bank_account_reference e))]"

record invoice_record =
  iv_invoice_id :: string
  iv_payer_entity_id :: string
  iv_supplier_id :: string
  iv_bank_account_reference :: string
  iv_amount_minor :: int
  iv_currency :: string
  iv_status :: string
  iv_payment_execution_id :: json

definition invoice_from_dict :: "py_text \<Rightarrow> json \<Rightarrow> invoice_record res" where
  "invoice_from_dict T raw =
     bindR (text_field T raw ''invoice_id'') (\<lambda>iid.
     bindR (text_field T raw ''payer_entity_id'') (\<lambda>payer.
     bindR (text_field T raw ''supplier_id'') (\<lambda>supplier.
     bindR (text_field T raw ''bank_account_reference'') (\<lambda>bank.
     bindR (int_field T raw ''amount_minor'') (\<lambda>amount.
     bindR (text_field T raw ''currency'') (\<lambda>currency.
     bindR (py_str T (get_json raw ''status'' (JStr ''approved''))) (\<lambda>status.
     Inr \<lparr>iv_invoice_id = iid, iv_payer_entity_id = payer, iv_supplier_id = supplier, iv_bank_account_reference = bank,
       iv_amount_minor = amount, iv_currency = currency, iv_status = status,
       iv_payment_execution_id = get_json raw ''payment_execution_id'' JNull\<rparr>)))))))"

definition invoice_to_dict :: "invoice_record \<Rightarrow> dict" where
  "invoice_to_dict r = put_field ''payment_execution_id'' (iv_payment_execution_id r)
     [(''invoice_id'', JStr (iv_invoice_id r)), (''payer_entity_id'', JStr (iv_payer_entity_id r)),
      (''supplier_id'', JStr (iv_supplier_id r)), (''bank_account_reference'', JStr (iv_bank_account_reference r)),
      (''amount_minor'', JInt (iv_amount_minor r)), (''currency'', JStr (iv_currency r)), (''status'', JStr (iv_status r))]"

record payment_batch_record =
  pb_payment_batch_id :: string
  pb_payment_date :: string
  pb_batch_hash :: string
  pb_payment_execution_ids :: "string list"

definition batch_from_dict :: "py_text \<Rightarrow> json \<Rightarrow> payment_batch_record res" where
  "batch_from_dict T raw =
     bindR (text_field T raw ''payment_batch_id'') (\<lambda>bid.
     bindR (text_field T raw ''payment_date'') (\<lambda>day.
     bindR (text_field T raw ''batch_hash'') (\<lambda>h.
     bindR (texts_of T (get_json raw ''payment_execution_ids'' (JArr []))) (\<lambda>ids.
     Inr \<lparr>pb_payment_batch_id = bid, pb_payment_date = day, pb_batch_hash = h, pb_payment_execution_ids = ids\<rparr>))))"

definition batch_to_dict :: "payment_batch_record \<Rightarrow> dict" where
  "batch_to_dict r = [(''payment_batch_id'', JStr (pb_payment_batch_id r)), (''payment_date'', JStr (pb_payment_date r)),
     (''batch_hash'', JStr (pb_batch_hash r)), (''payment_execution_ids'', JArr (map JStr (pb_payment_execution_ids r)))]"

record payment_execution_record =
  px_payment_execution_id :: string
  px_payer_entity_id :: string
  px_supplier_id :: string
  px_bank_account_reference :: string
  px_invoice_ids :: "string list"
  px_amount_minor :: int
  px_currency :: string
  px_payment_date :: string
  px_payment_batch_id :: string
  px_proposer_id :: string
  px_request_id :: string
  px_intent_id :: string
  px_pccb_id :: string
  px_executed_at :: string
  px_reconciliation_status :: string

definition execution_from_dict :: "py_text \<Rightarrow> json \<Rightarrow> payment_execution_record res" where
  "execution_from_dict T raw =
     bindR (text_field T raw ''payment_execution_id'') (\<lambda>xid.
     bindR (text_field T raw ''payer_entity_id'') (\<lambda>payer.
     bindR (text_field T raw ''supplier_id'') (\<lambda>supplier.
     bindR (text_field T raw ''bank_account_reference'') (\<lambda>bank.
     bindR (bindR (index_json raw ''invoice_ids'') (texts_of T)) (\<lambda>ids.
     bindR (int_field T raw ''amount_minor'') (\<lambda>amount.
     bindR (text_field T raw ''currency'') (\<lambda>currency.
     bindR (text_field T raw ''payment_date'') (\<lambda>day.
     bindR (text_field T raw ''payment_batch_id'') (\<lambda>bid.
     bindR (text_field T raw ''proposer_id'') (\<lambda>proposer.
     bindR (text_field T raw ''request_id'') (\<lambda>rid.
     bindR (text_field T raw ''intent_id'') (\<lambda>iid.
     bindR (text_field T raw ''pccb_id'') (\<lambda>pid.
     bindR (text_field T raw ''executed_at'') (\<lambda>executed.
     bindR (py_str T (get_json raw ''reconciliation_status'' (JStr ''recorded-local''))) (\<lambda>status.
     Inr \<lparr>px_payment_execution_id = xid, px_payer_entity_id = payer, px_supplier_id = supplier, px_bank_account_reference = bank,
       px_invoice_ids = ids, px_amount_minor = amount, px_currency = currency, px_payment_date = day, px_payment_batch_id = bid,
       px_proposer_id = proposer, px_request_id = rid, px_intent_id = iid, px_pccb_id = pid, px_executed_at = executed,
       px_reconciliation_status = status\<rparr>)))))))))))))))"

definition execution_to_dict :: "payment_execution_record \<Rightarrow> dict" where
  "execution_to_dict r =
     [(''payment_execution_id'', JStr (px_payment_execution_id r)), (''payer_entity_id'', JStr (px_payer_entity_id r)),
      (''supplier_id'', JStr (px_supplier_id r)), (''bank_account_reference'', JStr (px_bank_account_reference r)),
      (''invoice_ids'', JArr (map JStr (px_invoice_ids r))), (''amount_minor'', JInt (px_amount_minor r)),
      (''currency'', JStr (px_currency r)), (''payment_date'', JStr (px_payment_date r)),
      (''payment_batch_id'', JStr (px_payment_batch_id r)), (''proposer_id'', JStr (px_proposer_id r)),
      (''request_id'', JStr (px_request_id r)), (''intent_id'', JStr (px_intent_id r)), (''pccb_id'', JStr (px_pccb_id r)),
      (''executed_at'', JStr (px_executed_at r)), (''reconciliation_status'', JStr (px_reconciliation_status r))]"

record payment_reconciliation_record =
  pr_reconciliation_id :: string
  pr_payment_execution_id :: string
  pr_payment_batch_id :: string
  pr_provider_reference :: string
  pr_amount_minor :: int
  pr_currency :: string
  pr_status :: string
  pr_recorded_at :: string

definition reconciliation_from_dict :: "py_text \<Rightarrow> json \<Rightarrow> payment_reconciliation_record res" where
  "reconciliation_from_dict T raw =
     bindR (text_field T raw ''reconciliation_id'') (\<lambda>rid.
     bindR (text_field T raw ''payment_execution_id'') (\<lambda>xid.
     bindR (text_field T raw ''payment_batch_id'') (\<lambda>bid.
     bindR (text_field T raw ''provider_reference'') (\<lambda>provider.
     bindR (int_field T raw ''amount_minor'') (\<lambda>amount.
     bindR (text_field T raw ''currency'') (\<lambda>currency.
     bindR (text_field T raw ''status'') (\<lambda>status.
     bindR (text_field T raw ''recorded_at'') (\<lambda>recorded.
     Inr \<lparr>pr_reconciliation_id = rid, pr_payment_execution_id = xid, pr_payment_batch_id = bid, pr_provider_reference = provider,
       pr_amount_minor = amount, pr_currency = currency, pr_status = status, pr_recorded_at = recorded\<rparr>))))))))"

definition reconciliation_to_dict :: "payment_reconciliation_record \<Rightarrow> dict" where
  "reconciliation_to_dict r =
     [(''reconciliation_id'', JStr (pr_reconciliation_id r)), (''payment_execution_id'', JStr (pr_payment_execution_id r)),
      (''payment_batch_id'', JStr (pr_payment_batch_id r)), (''provider_reference'', JStr (pr_provider_reference r)),
      (''amount_minor'', JInt (pr_amount_minor r)), (''currency'', JStr (pr_currency r)), (''status'', JStr (pr_status r)),
      (''recorded_at'', JStr (pr_recorded_at r))]"

section \<open>The state\<close>

record reconciliation_state =
  st_resource_version :: int
  st_payee_enrollments :: "(string \<times> payee_enrollment) list"
  st_invoices :: "(string \<times> invoice_record) list"
  st_payment_batches :: "(string \<times> payment_batch_record) list"
  st_payment_executions :: "(string \<times> payment_execution_record) list"
  st_reconciliation_records :: "(string \<times> payment_reconciliation_record) list"

text \<open>\<open>{key: cls.from_dict(value) for key, value in raw.get(field, {}).items()}\<close>, and the same in the other direction.\<close>

definition table_from_dict :: "(json \<Rightarrow> 'a res) \<Rightarrow> dict \<Rightarrow> string \<Rightarrow> (string \<times> 'a) list res" where
  "table_from_dict f raw field = (case get_or raw field (JObj []) of
     JObj d \<Rightarrow> mapR (\<lambda>p. bindR (f (snd p)) (\<lambda>v. Inr (fst p, v))) d
   | _ \<Rightarrow> Inl (Raise AttributeError ''object has no attribute items''))"

definition table_to_dict :: "('a \<Rightarrow> dict) \<Rightarrow> (string \<times> 'a) list \<Rightarrow> json" where
  "table_to_dict g table = JObj (map (\<lambda>p. (fst p, JObj (g (snd p)))) (sort_key fst table))"

definition state_from_dict :: "py_text \<Rightarrow> dict \<Rightarrow> reconciliation_state res" where
  "state_from_dict T raw =
     bindR (py_int T (get_or raw ''resource_version'' (JInt 0))) (\<lambda>version.
     bindR (table_from_dict (enrollment_from_dict T) raw ''payee_enrollments'') (\<lambda>enrollments.
     bindR (table_from_dict (invoice_from_dict T) raw ''invoices'') (\<lambda>invoices.
     bindR (table_from_dict (batch_from_dict T) raw ''payment_batches'') (\<lambda>batches.
     bindR (table_from_dict (execution_from_dict T) raw ''payment_executions'') (\<lambda>executions.
     bindR (table_from_dict (reconciliation_from_dict T) raw ''reconciliation_records'') (\<lambda>records.
     Inr \<lparr>st_resource_version = version, st_payee_enrollments = enrollments, st_invoices = invoices,
       st_payment_batches = batches, st_payment_executions = executions, st_reconciliation_records = records\<rparr>))))))"

definition state_to_dict :: "reconciliation_state \<Rightarrow> dict" where
  "state_to_dict s =
     [(''resource_version'', JInt (st_resource_version s)),
      (''payee_enrollments'', table_to_dict enrollment_to_dict (st_payee_enrollments s)),
      (''invoices'', table_to_dict invoice_to_dict (st_invoices s)),
      (''payment_batches'', table_to_dict batch_to_dict (st_payment_batches s)),
      (''payment_executions'', table_to_dict execution_to_dict (st_payment_executions s)),
      (''reconciliation_records'', table_to_dict reconciliation_to_dict (st_reconciliation_records s))]"

section \<open>Round trips\<close>

lemma read_fields [simp]:
  "text_field T (JObj d) k = bindR (py_index d k) (py_str T)" "int_field T (JObj d) k = bindR (py_index d k) (py_int T)"
  "get_json (JObj d) k dflt = get_or d k dflt" "index_json (JObj d) k = py_index d k"
  by (simp_all add: text_field_def int_field_def get_json_def index_json_def)

lemma texts_of_JStr [simp]: "texts_of T (JArr (map JStr xs)) = Inr xs"
  unfolding texts_of_def by (induction xs) simp_all

lemma py_index_Cons [simp]: "py_index ((k, v) # d) k' = (if k = k' then Inr v else py_index d k')"
  by (simp add: py_index_def)

lemma py_index_put_field [simp]: "k \<noteq> k' \<Longrightarrow> py_index (put_field k v d) k' = py_index d k'"
  by (simp add: py_index_def put_field_def put_if_def)

lemma get_or_put_field [simp]: "get_or (put_field k v d) k' x = (if v \<noteq> JNull \<and> k = k' then v else get_or d k' x)"
  by (simp add: put_field_def)

lemma record_round_trips:
  "enrollment_from_dict T (JObj (enrollment_to_dict e)) = Inr e" "invoice_from_dict T (JObj (invoice_to_dict r)) = Inr r"
  "batch_from_dict T (JObj (batch_to_dict b)) = Inr b" "execution_from_dict T (JObj (execution_to_dict x)) = Inr x"
  "reconciliation_from_dict T (JObj (reconciliation_to_dict c)) = Inr c"
  by (simp_all add: enrollment_from_dict_def enrollment_to_dict_def invoice_from_dict_def invoice_to_dict_def batch_from_dict_def
      batch_to_dict_def execution_from_dict_def execution_to_dict_def reconciliation_from_dict_def reconciliation_to_dict_def)

lemma mapR_table: "(\<And>x. f (JObj (g x)) = Inr x) \<Longrightarrow>
    mapR (\<lambda>p. bindR (f (snd p)) (\<lambda>v. Inr (fst p, v))) (map (\<lambda>p. (fst p, JObj (g (snd p)))) xs) = Inr xs"
  by (induction xs) simp_all

definition sort_tables :: "reconciliation_state \<Rightarrow> reconciliation_state" where
  "sort_tables s = s\<lparr>st_payee_enrollments := sort_key fst (st_payee_enrollments s), st_invoices := sort_key fst (st_invoices s),
     st_payment_batches := sort_key fst (st_payment_batches s), st_payment_executions := sort_key fst (st_payment_executions s),
     st_reconciliation_records := sort_key fst (st_reconciliation_records s)\<rparr>"

text \<open>
  Reading the dictionary written for a reconciliation state gives the state back, its tables
  in the order of their keys.
\<close>

theorem payment_state_round_trip: "state_from_dict T (state_to_dict s) = Inr (sort_tables s)"
  by (simp add: state_from_dict_def state_to_dict_def sort_tables_def table_from_dict_def table_to_dict_def
      record_round_trips mapR_table)

end
