(* ===== verification/Modes.thy ===== *)
theory Modes
  imports Receipts Samples
begin

text \<open>
  Execution modes: the published state model of \<^verbatim>\<open>models/execution.py\<close>, the per-mode state machines, resource receipts
  and result builders of \<^verbatim>\<open>execution/mode_aware.py\<close>, and the provider mappings of \<^verbatim>\<open>reconciliation/base.py\<close>. The result
  classes and state enumerations of the protocol package are parameters: a member is its name, a constructor a function
  that may raise, a result a value of any type.
\<close>

section \<open>The execution state model\<close>

definition TERMINAL_EXECUTION_STATES :: "string list" where
  "TERMINAL_EXECUTION_STATES = [''confirmed'', ''refused'', ''failed'', ''replay_refused'', ''expired'', ''revoked'']"

definition ALLOWED_EXECUTION_STATE_TRANSITIONS :: "(string \<times> string list) list" where
  "ALLOWED_EXECUTION_STATE_TRANSITIONS =
     [(''received'', [''policy_allowed'', ''refused'', ''expired'', ''revoked'']),
      (''policy_allowed'', [''proof_minted'', ''refused'', ''expired'', ''revoked'']),
      (''proof_minted'', [''escrow_issued'', ''refused'', ''expired'', ''revoked'']),
      (''escrow_issued'', [''execution_attempted'', ''replay_refused'', ''refused'', ''expired'', ''revoked'']),
      (''execution_attempted'', [''provider_pending'', ''confirmed'', ''failed'', ''ambiguous'']),
      (''provider_pending'', [''confirmed'', ''failed'', ''ambiguous'', ''expired'', ''revoked'']),
      (''ambiguous'', [''confirmed'', ''failed'']),
      (''confirmed'', []), (''refused'', []), (''failed'', []), (''replay_refused'', []), (''expired'', []), (''revoked'', [])]"

definition is_terminal_execution_state :: "string \<Rightarrow> bool" where
  "is_terminal_execution_state state \<longleftrightarrow> state \<in> set TERMINAL_EXECUTION_STATES"

text \<open>\<open>nxt in table[current]\<close>.\<close>

definition table_allows :: "(string \<times> string list) list \<Rightarrow> string \<Rightarrow> string \<Rightarrow> bool res" where
  "table_allows table current nxt = (case dget table current of
     None \<Rightarrow> Inl (Raise KeyError current) | Some states \<Rightarrow> Inr (nxt \<in> set states))"

definition can_transition_execution_state :: "string \<Rightarrow> string \<Rightarrow> bool res" where
  "can_transition_execution_state = table_allows ALLOWED_EXECUTION_STATE_TRANSITIONS"

abbreviation ExecutionStateTransitionError :: "string \<Rightarrow> exn" where
  "ExecutionStateTransitionError \<equiv> Raise (OtherError ''ExecutionStateTransitionError'')"

fun validate_steps :: "string list \<Rightarrow> unit res" where
  "validate_steps (current # nxt # rest) =
     (if is_terminal_execution_state current
      then Inl (ExecutionStateTransitionError ''terminal state cannot transition'')
      else bindR (can_transition_execution_state current nxt) (\<lambda>allowed.
        if \<not> allowed then Inl (ExecutionStateTransitionError ''invalid execution state transition'')
        else validate_steps (nxt # rest)))"
| "validate_steps _ = Inr ()"

definition validate_execution_state_path :: "string list \<Rightarrow> unit res" where
  "validate_execution_state_path states =
     (if states = [] then Inl (ExecutionStateTransitionError ''execution state path must not be empty'')
      else if hd states \<noteq> ''received''
      then Inl (ExecutionStateTransitionError (''execution state path must start at '' @ [CHR 0x27] @ ''received'' @ [CHR 0x27]))
      else validate_steps states)"

section \<open>Resource receipts\<close>

record resource_signing_key =
  rk_resource_id :: string
  rk_key_id :: string
  rk_secret :: string

type_synonym resource_keys = "(string \<times> resource_signing_key) list"

definition register_key :: "resource_signing_key \<Rightarrow> resource_keys \<Rightarrow> resource_keys" where
  "register_key key keys = dput keys (rk_key_id key) key"

text \<open>
  \<open>json.dumps(body, sort_keys=True, separators=(",", ":"), default=str)\<close>: only ASCII, everything else as \<open>\u\<close> escapes
  (two of them outside the basic plane). The texts of floats are a parameter; \<open>InfF True\<close> is the negative infinity.
\<close>

definition code_value :: "string \<Rightarrow> nat" where
  "code_value chunk = (case chunk of [] \<Rightarrow> 0 | c # cs \<Rightarrow>
     foldl (\<lambda>acc b. 64 * acc + ((of_char b :: nat) - 128))
       (let n = (of_char c :: nat) in if n < 128 then n else if n < 224 then n - 192 else if n < 240 then n - 224 else n - 240) cs)"

definition u_escape :: "nat \<Rightarrow> string" where
  "u_escape n = [CHR 0x5C, CHR ''u'', hex_digit (n div 4096 mod 16), hex_digit (n div 256 mod 16), hex_digit (n div 16 mod 16), hex_digit (n mod 16)]"

definition ascii_escape :: "string \<Rightarrow> string" where
  "ascii_escape chunk = (let n = code_value chunk in
     if n < 127 then concat (map escape_char chunk)
     else if n < 65536 then u_escape n
     else u_escape (55296 + (n - 65536) div 1024) @ u_escape (56320 + (n - 65536) mod 1024))"

definition dumps_string :: "string \<Rightarrow> string" where
  "dumps_string s = CHR 0x22 # concat (map ascii_escape (codepoints s)) @ [CHR 0x22]"

fun dumps :: "py_text \<Rightarrow> json \<Rightarrow> string res" where
  "dumps T JNull = Inr ''null''"
| "dumps T (JBool b) = Inr (if b then ''true'' else ''false'')"
| "dumps T (JInt i) = py_str T (JInt i)"
| "dumps T (JFloat f) = Inr (case f of NaNF \<Rightarrow> ''NaN'' | InfF neg \<Rightarrow> if neg then ''-Infinity'' else ''Infinity'' | FinF r \<Rightarrow> pt_str T (JFloat f))"
| "dumps T (JStr s) = Inr (dumps_string s)"
| "dumps T (JArr xs) = bindR (mapR (dumps T) xs) (\<lambda>ys. Inr (''['' @ join_with '','' ys @ '']''))"
| "dumps T (JTup xs) = bindR (mapR (dumps T) xs) (\<lambda>ys. Inr (''['' @ join_with '','' ys @ '']''))"
| "dumps T (JObj d) =
     bindR (mapR (\<lambda>p. bindR (snd p) (\<lambda>v. Inr (dumps_string (fst p) @ '':'' @ v)))
       (sort_key fst (map (\<lambda>p. (fst p, dumps T (snd p))) d)))
       (\<lambda>pieces. Inr (''{'' @ join_with '','' pieces @ ''}''))"
| "dumps T (JOther s) = Inr (dumps_string (pt_str T (JOther s)))"

abbreviation ResourceReceiptVerificationError :: "string \<Rightarrow> exn" where
  "ResourceReceiptVerificationError reason \<equiv>
     Raise (OtherError ''ResourceReceiptVerificationError'') (''resource receipt verification failed: '' @ reason)"

definition is_nonempty_text :: "json \<Rightarrow> bool" where
  "is_nonempty_text v \<longleftrightarrow> (case v of JStr s \<Rightarrow> s \<noteq> [] | _ \<Rightarrow> False)"

text \<open>\<open>hmac.compare_digest\<close> on two texts raises unless both are ASCII.\<close>

definition compare_digest :: "string \<Rightarrow> string \<Rightarrow> bool res" where
  "compare_digest a b =
     (if list_all (\<lambda>c. of_char c < (128 :: nat)) (a @ b) then Inr (a = b)
      else Inl (Raise TypeError ''comparing strings with non-ASCII characters is not supported''))"

definition receipt_mac :: "deps \<Rightarrow> py_text \<Rightarrow> resource_signing_key \<Rightarrow> dict \<Rightarrow> string res" where
  "receipt_mac D T key receipt = bindR (dumps T (JObj (filter (\<lambda>p. fst p \<noteq> ''signature'') receipt))) (\<lambda>canonical.
     Inr (hex_of_bytes (hmac_digest D (rk_secret key) canonical)))"

definition verify_resource_receipt :: "deps \<Rightarrow> py_text \<Rightarrow> resource_keys \<Rightarrow> json \<Rightarrow> (bool \<times> string option) res" where
  "verify_resource_receipt D T keys receipt =
     (case receipt of
        JObj d \<Rightarrow>
          (case (get_or_null d ''signature'', get_or_null d ''signing_key_id'') of
             (signature, key_id) \<Rightarrow>
               if \<not> is_nonempty_text signature then Inl (ResourceReceiptVerificationError ''receipt missing 'signature' field'')
               else if \<not> is_nonempty_text key_id then Inl (ResourceReceiptVerificationError ''receipt missing 'signing_key_id' field'')
               else (case (signature, key_id) of
                   (JStr sig, JStr kid) \<Rightarrow>
                     (case dget keys kid of
                        None \<Rightarrow> Inl (ResourceReceiptVerificationError ''no key registered for key_id'')
                      | Some key \<Rightarrow>
                          bindR (receipt_mac D T key d) (\<lambda>expected.
                          bindR (compare_digest expected sig) (\<lambda>same.
                          Inr (if same then (True, Some kid) else (False, None)))))
                 | _ \<Rightarrow> Inr (False, None)))
      | _ \<Rightarrow> Inl (ResourceReceiptVerificationError ''receipt is not a dict''))"

definition verify_or_raise :: "deps \<Rightarrow> py_text \<Rightarrow> resource_keys \<Rightarrow> json \<Rightarrow> string option res" where
  "verify_or_raise D T keys receipt =
     bindR (verify_resource_receipt D T keys receipt) (\<lambda>(ok, key_id).
     if \<not> ok then Inl (ResourceReceiptVerificationError ''signature mismatch'') else Inr key_id)"

section \<open>State machines of the modes\<close>

definition BROKERED_TRANSITIONS :: "(string \<times> string list) list" where
  "BROKERED_TRANSITIONS = [(''SUCCEEDED'', []), (''FAILED'', []), (''REFUSED'', []),
     (''OUTCOME_UNKNOWN'', [''SUCCEEDED'', ''FAILED'', ''OUTCOME_UNKNOWN''])]"

definition RESOURCE_OWNED_TRANSITIONS :: "(string \<times> string list) list" where
  "RESOURCE_OWNED_TRANSITIONS =
     [(''SUBMITTED'', [''ACCEPTED'', ''REFUSED'', ''SUCCEEDED'', ''FAILED'', ''OUTCOME_UNKNOWN'']),
      (''ACCEPTED'', [''SUCCEEDED'', ''FAILED'', ''OUTCOME_UNKNOWN'']), (''REFUSED'', []), (''SUCCEEDED'', []), (''FAILED'', []),
      (''OUTCOME_UNKNOWN'', [''SUCCEEDED'', ''FAILED'', ''OUTCOME_UNKNOWN''])]"

definition validate_transition :: "(string \<times> string list) list \<Rightarrow> string \<Rightarrow> string \<Rightarrow> unit res" where
  "validate_transition table current nxt =
     bindR (table_allows table current nxt) (\<lambda>allowed.
     if allowed then Inr () else Inl (Raise (OtherError ''StateTransitionError'') ''state transition not allowed''))"

definition brokered_can_transition :: "string \<Rightarrow> string \<Rightarrow> bool res" where
  "brokered_can_transition = table_allows BROKERED_TRANSITIONS"

definition brokered_validate_transition :: "string \<Rightarrow> string \<Rightarrow> unit res" where
  "brokered_validate_transition = validate_transition BROKERED_TRANSITIONS"

definition resource_owned_can_transition :: "string \<Rightarrow> string \<Rightarrow> bool res" where
  "resource_owned_can_transition = table_allows RESOURCE_OWNED_TRANSITIONS"

definition resource_owned_validate_transition :: "string \<Rightarrow> string \<Rightarrow> unit res" where
  "resource_owned_validate_transition = validate_transition RESOURCE_OWNED_TRANSITIONS"

section \<open>Results\<close>

record 'r mode_aware_result =
  mr_protocol_result :: 'r
  mr_pccb_id :: json
  mr_action_hash :: json
  mr_kernel_verifier_identity :: json
  mr_resource_signing_key_id :: json

definition is_final :: "('r \<Rightarrow> string) \<Rightarrow> 'r mode_aware_result \<Rightarrow> bool" where
  "is_final finality m \<longleftrightarrow> finality (mr_protocol_result m) = ''FINAL''"

definition mode_aware_to_dict :: "('r \<Rightarrow> dict res) \<Rightarrow> 'r mode_aware_result \<Rightarrow> dict res" where
  "mode_aware_to_dict serialise_result m = bindR (serialise_result (mr_protocol_result m)) (\<lambda>out.
     Inr (dput (dput (dput (dput out ''pccb_id'' (mr_pccb_id m)) ''action_hash'' (mr_action_hash m))
       ''kernel_verifier_identity'' (mr_kernel_verifier_identity m)) ''resource_signing_key_id'' (mr_resource_signing_key_id m)))"

text \<open>The arguments of the two protocol constructors.\<close>

record brokered_fields =
  bf_state :: string
  bf_verified_by :: string
  bf_executed_by :: string
  bf_provider_execution_observed :: bool
  bf_attempt_id :: string
  bf_occurred_at :: string
  bf_receipt_received :: bool
  bf_receipt_verified :: bool
  bf_provider_evidence :: dict
  bf_reconciliation_status :: json

record resource_owned_fields =
  of_state :: string
  of_verified_by :: string
  of_executed_by :: string
  of_attempt_id :: string
  of_occurred_at :: string
  of_provider_execution_observed :: bool
  of_resource_receipt_received :: bool
  of_resource_receipt_verified :: bool
  of_resource_receipt :: json
  of_submission_reference :: json

definition build_brokered_result ::
  "(brokered_fields \<Rightarrow> 'r res) \<Rightarrow> brokered_fields \<Rightarrow> json \<Rightarrow> json \<Rightarrow> json \<Rightarrow> 'r mode_aware_result res" where
  "build_brokered_result new_result args pccb_id action_hash kernel_verifier_identity =
     bindR (new_result args) (\<lambda>protocol_result.
     Inr \<lparr>mr_protocol_result = protocol_result, mr_pccb_id = pccb_id, mr_action_hash = action_hash,
       mr_kernel_verifier_identity = kernel_verifier_identity, mr_resource_signing_key_id = JNull\<rparr>)"

text \<open>The receipt as the builder checks it: whether it verified, and with which key.\<close>

definition check_resource_receipt :: "deps \<Rightarrow> py_text \<Rightarrow> resource_keys option \<Rightarrow> json \<Rightarrow> (bool \<times> json) res" where
  "check_resource_receipt D T verifier receipt =
     (case verifier of
        Some keys \<Rightarrow>
          if receipt = JNull then Inr (False, JNull)
          else (case verify_or_raise D T keys receipt of
              Inr kid \<Rightarrow> Inr (True, case kid of None \<Rightarrow> JNull | Some s \<Rightarrow> JStr s)
            | Inl e \<Rightarrow> (case e of
                Raise c m \<Rightarrow> if c = OtherError ''ResourceReceiptVerificationError'' then Inr (False, JNull) else Inl e
              | Refuse _ \<Rightarrow> Inl e))
      | None \<Rightarrow> Inr (False, JNull))"

definition build_resource_owned_result ::
  "deps \<Rightarrow> py_text \<Rightarrow> (resource_owned_fields \<Rightarrow> 'r res) \<Rightarrow> resource_keys option \<Rightarrow> resource_owned_fields \<Rightarrow> json \<Rightarrow> json \<Rightarrow> json \<Rightarrow>
    'r mode_aware_result res" where
  "build_resource_owned_result D T new_result verifier args pccb_id action_hash kernel_verifier_identity =
     bindR (check_resource_receipt D T verifier (of_resource_receipt args)) (\<lambda>(verified, signing_key_id).
     bindR (new_result (args\<lparr>of_resource_receipt_verified := verified\<rparr>)) (\<lambda>protocol_result.
     Inr \<lparr>mr_protocol_result = protocol_result, mr_pccb_id = pccb_id, mr_action_hash = action_hash,
       mr_kernel_verifier_identity = kernel_verifier_identity, mr_resource_signing_key_id = signing_key_id\<rparr>))"

section \<open>Reconciliation\<close>

record provider_snapshot =
  ps_provider_name :: string
  ps_provider_reference :: string
  ps_provider_state :: string
  ps_observed_at :: datetime
  ps_amount_minor :: "int option"
  ps_currency :: json
  ps_metadata :: dict

record provider_state_mapping =
  pm_provider_state :: string
  pm_kernel_status :: string
  pm_terminal :: bool
  pm_description :: string

record kernel_reconciliation_record =
  kr_reconciliation_id :: string
  kr_provider_name :: string
  kr_provider_reference :: string
  kr_provider_state :: string
  kr_kernel_status :: string
  kr_observed_at :: datetime
  kr_terminal :: bool
  kr_metadata :: dict

record static_reconciliation_mapper =
  sm_mappings :: "(string \<times> provider_state_mapping) list"
  sm_default_status :: string
  sm_default_terminal :: bool
  sm_default_description :: string

definition mapping_for :: "static_reconciliation_mapper \<Rightarrow> string \<Rightarrow> provider_state_mapping" where
  "mapping_for M provider_state = (case dget (sm_mappings M) provider_state of
     Some mapping \<Rightarrow> mapping
   | None \<Rightarrow> \<lparr>pm_provider_state = provider_state, pm_kernel_status = sm_default_status M, pm_terminal = sm_default_terminal M,
       pm_description = sm_default_description M\<rparr>)"

definition reconcile :: "static_reconciliation_mapper \<Rightarrow> provider_snapshot \<Rightarrow> string \<Rightarrow> kernel_reconciliation_record" where
  "reconcile M snapshot reconciliation_id = (let mapping = mapping_for M (ps_provider_state snapshot) in
     \<lparr>kr_reconciliation_id = reconciliation_id, kr_provider_name = ps_provider_name snapshot,
      kr_provider_reference = ps_provider_reference snapshot, kr_provider_state = ps_provider_state snapshot,
      kr_kernel_status = pm_kernel_status mapping, kr_observed_at = ps_observed_at snapshot, kr_terminal = pm_terminal mapping,
      kr_metadata = dput (ps_metadata snapshot) ''mapping_description'' (JStr (pm_description mapping))\<rparr>)"

section \<open>The state model as a step relation\<close>

text \<open>The published semantics: gates in order, an attempt that may stay open, and endings.\<close>

inductive execution_step :: "string \<Rightarrow> string \<Rightarrow> bool" where
  allow: "execution_step ''received'' ''policy_allowed''"
| mint: "execution_step ''policy_allowed'' ''proof_minted''"
| issue: "execution_step ''proof_minted'' ''escrow_issued''"
| attempt: "execution_step ''escrow_issued'' ''execution_attempted''"
| replayed: "execution_step ''escrow_issued'' ''replay_refused''"
| wait: "execution_step ''execution_attempted'' ''provider_pending''"
| unclear: "s \<in> {''execution_attempted'', ''provider_pending''} \<Longrightarrow> execution_step s ''ambiguous''"
| settle: "s \<in> {''execution_attempted'', ''provider_pending'', ''ambiguous''} \<Longrightarrow> t \<in> {''confirmed'', ''failed''} \<Longrightarrow> execution_step s t"
| stop: "s \<in> {''received'', ''policy_allowed'', ''proof_minted'', ''escrow_issued''} \<Longrightarrow> t \<in> {''refused'', ''expired'', ''revoked''} \<Longrightarrow> execution_step s t"
| lapse: "t \<in> {''expired'', ''revoked''} \<Longrightarrow> execution_step ''provider_pending'' t"

text \<open>A run and the state it has reached.\<close>

inductive execution_run :: "string \<Rightarrow> string list \<Rightarrow> bool" where
  start: "execution_run ''received'' [''received'']"
| step: "execution_run s xs \<Longrightarrow> execution_step s t \<Longrightarrow> execution_run t (xs @ [t])"

inductive_simps execution_step_simps: "execution_step s t"
inductive_cases execution_run_cases: "execution_run s xs"

lemma step_in_table: "execution_step s t \<Longrightarrow> \<not> is_terminal_execution_state s \<and> can_transition_execution_state s t = Inr True"
  by (erule execution_step.cases; (elim insertE emptyE)?; hypsubst;
      simp add: is_terminal_execution_state_def TERMINAL_EXECUTION_STATES_def can_transition_execution_state_def table_allows_def
        ALLOWED_EXECUTION_STATE_TRANSITIONS_def)

lemma table_in_step:
  assumes "can_transition_execution_state s t = Inr True"
  shows "execution_step s t"
proof -
  from assms obtain ts where "(s, ts) \<in> set ALLOWED_EXECUTION_STATE_TRANSITIONS" "t \<in> set ts"
    by (auto simp: can_transition_execution_state_def table_allows_def split: option.splits dest: map_of_SomeD)
  moreover have "list_all (\<lambda>(s, ts). list_all (execution_step s) ts) ALLOWED_EXECUTION_STATE_TRANSITIONS"
    by (simp add: ALLOWED_EXECUTION_STATE_TRANSITIONS_def execution_step_simps)
  ultimately show ?thesis by (auto simp: list_all_iff)
qed

lemma table_is_step_relation:
  "\<not> is_terminal_execution_state s \<and> can_transition_execution_state s t = Inr True \<longleftrightarrow> execution_step s t"
  using step_in_table table_in_step by blast

lemma validate_steps_successively: "validate_steps xs = Inr () \<longleftrightarrow> successively execution_step xs"
proof (induction xs rule: validate_steps.induct)
  case (1 s t rest)
  show ?case
  proof (cases "execution_step s t")
    case True
    with 1 table_is_step_relation[of s t] show ?thesis by simp
  next
    case False
    with table_is_step_relation[of s t] show ?thesis by (auto simp: bindR_eq_Inr)
  qed
qed simp_all

lemma run_last: "execution_run s xs \<Longrightarrow> xs \<noteq> [] \<and> hd xs = ''received'' \<and> last xs = s"
  by (induction rule: execution_run.induct) auto

lemma run_iff_successively:
  "execution_run s xs \<longleftrightarrow> xs \<noteq> [] \<and> hd xs = ''received'' \<and> last xs = s \<and> successively execution_step xs"
proof
  show "execution_run s xs \<Longrightarrow> xs \<noteq> [] \<and> hd xs = ''received'' \<and> last xs = s \<and> successively execution_step xs"
  proof (induction rule: execution_run.induct)
    case (step s xs t)
    then show ?case by (auto simp: successively_append_iff)
  qed simp
next
  show "xs \<noteq> [] \<and> hd xs = ''received'' \<and> last xs = s \<and> successively execution_step xs \<Longrightarrow> execution_run s xs"
  proof (induction xs arbitrary: s rule: rev_induct)
    case (snoc t xs)
    show ?case
    proof (cases "xs = []")
      case True
      with snoc.prems show ?thesis by (auto intro: execution_run.start)
    next
      case False
      with snoc have "execution_run (last xs) xs" "execution_step (last xs) t" by (auto simp: successively_append_iff)
      with snoc.prems show ?thesis by (auto intro: execution_run.step)
    qed
  qed simp
qed

text \<open>
  The validator accepts a path exactly when it is a run of the published state model.
\<close>

theorem state_path_accepted_iff: "validate_execution_state_path xs = Inr () \<longleftrightarrow> (\<exists>s. execution_run s xs)"
  by (auto simp: validate_execution_state_path_def validate_steps_successively run_iff_successively)

text \<open>How far a run has come: a measure that every step increases.\<close>

definition progress :: "string \<Rightarrow> nat" where
  "progress s = (if s = ''received'' then 0 else if s = ''policy_allowed'' then 1 else if s = ''proof_minted'' then 2
     else if s = ''escrow_issued'' then 3 else if s = ''execution_attempted'' then 4 else if s = ''provider_pending'' then 5
     else if s = ''ambiguous'' then 6 else 7)"

lemma step_progress: "execution_step s t \<Longrightarrow> progress s < progress t"
  by (erule execution_step.cases; (elim insertE emptyE)?; simp add: progress_def)

definition gates :: "string list" where
  "gates = [''received'', ''policy_allowed'', ''proof_minted'', ''escrow_issued'', ''execution_attempted'']"

lemma run_length: "execution_run s xs \<Longrightarrow> length xs \<le> Suc (progress s)"
proof (induction rule: execution_run.induct)
  case (step s xs t)
  then show ?case using step_progress[OF step.hyps(2)] by simp
qed simp

text \<open>The gates are passed one after the other, and what comes after an attempt is past all of them.\<close>

definition past_gates :: "string \<Rightarrow> bool" where
  "past_gates s \<longleftrightarrow> s = ''provider_pending'' \<or> s = ''ambiguous'' \<or> s = ''confirmed'' \<or> s = ''failed''"

lemma step_to_gate:
  assumes "execution_step s t" "t \<in> set gates"
  shows "s \<in> set gates \<and> progress t = Suc (progress s) \<and> t = gates ! Suc (progress s)"
  using assms by (elim execution_step.cases; (elim insertE emptyE)?; hypsubst; simp add: gates_def progress_def)

lemma step_past_gates:
  assumes "execution_step s t" "past_gates t"
  shows "s = ''execution_attempted'' \<or> past_gates s"
  using assms by (elim execution_step.cases; (elim insertE emptyE)?; hypsubst; simp add: past_gates_def)

lemma gate_progress: "t \<in> set gates \<Longrightarrow> progress t < length gates"
  unfolding gates_def list.set by (elim insertE emptyE; hypsubst; simp add: progress_def)

lemma attempted_gate: "''execution_attempted'' \<in> set gates" "take (Suc (progress ''execution_attempted'')) gates = gates"
  by (simp_all add: gates_def progress_def)

lemma length_gates: "length gates = 5"
  by (simp add: gates_def)

lemma run_gates:
  assumes "execution_run s xs"
  shows "(s \<in> set gates \<longrightarrow> xs = take (Suc (progress s)) gates) \<and> (past_gates s \<longrightarrow> take 5 xs = gates)"
  using assms
proof (induction rule: execution_run.induct)
  case start
  then show ?case by (simp add: gates_def progress_def past_gates_def)
next
  case (step s xs t)
  have "xs @ [t] = take (Suc (progress t)) gates" if "t \<in> set gates"
  proof -
    have g: "s \<in> set gates" "progress t = Suc (progress s)" "t = gates ! Suc (progress s)"
      using step_to_gate[OF step.hyps(2) that] by auto
    have "progress t < length gates" using that by (rule gate_progress)
    then have "take (Suc (progress t)) gates = take (Suc (progress s)) gates @ [t]"
      using g(2,3) take_Suc_conv_app_nth[of "Suc (progress s)" gates] by simp
    with step.IH g(1) show ?thesis by simp
  qed
  moreover have "take 5 (xs @ [t]) = gates" if "past_gates t"
  proof -
    have "take 5 xs = gates"
      using step_past_gates[OF step.hyps(2) that] step.IH attempted_gate length_gates by (metis take_all_iff order_refl)
    moreover from this have "5 \<le> length xs" using length_gates by (metis length_take min.absorb_iff2 min.commute)
    ultimately show ?thesis by simp
  qed
  ultimately show ?case by blast
qed

lemma run_confirmed_last:
  assumes "execution_run s xs" "''confirmed'' \<in> set xs"
  shows "s = ''confirmed''"
  using assms
proof (induction rule: execution_run.induct)
  case (step s xs t)
  have "\<not> execution_step ''confirmed'' t" by (simp add: execution_step_simps)
  then show ?case using step by auto
qed simp

text \<open>
  An accepted path that contains \<open>confirmed\<close> ends there and starts with a policy decision,
  a minted proof, an issued escrow and an attempt, in this order.
\<close>

theorem confirmed_passed_every_gate:
  assumes "validate_execution_state_path xs = Inr ()" "''confirmed'' \<in> set xs"
  shows "last xs = ''confirmed'' \<and>
    take 5 xs = [''received'', ''policy_allowed'', ''proof_minted'', ''escrow_issued'', ''execution_attempted'']"
proof -
  obtain s where run: "execution_run s xs"
    using assms(1) by (auto simp: validate_execution_state_path_def validate_steps_successively run_iff_successively split: if_splits)
  then have "s = ''confirmed''" using run_confirmed_last assms(2) by blast
  with run_gates[OF run] run_last[OF run] show ?thesis by (simp add: past_gates_def gates_def)
qed

theorem confirmed_passed_every_gate_witness:
  "last [''received'', ''policy_allowed'', ''proof_minted'', ''escrow_issued'', ''execution_attempted'', ''confirmed''] = ''confirmed''"
proof -
  have "validate_execution_state_path [''received'', ''policy_allowed'', ''proof_minted'', ''escrow_issued'', ''execution_attempted'', ''confirmed''] = Inr ()"
    by (simp add: validate_execution_state_path_def validate_steps_successively execution_step_simps del: validate_steps.simps)
  from confirmed_passed_every_gate[OF this] show ?thesis by simp
qed

text \<open>
  An accepted path repeats no state and has at most eight.
\<close>

theorem state_paths_are_short:
  assumes "validate_execution_state_path xs = Inr ()"
  shows "distinct xs \<and> length xs \<le> 8"
proof -
  obtain s where run: "execution_run s xs" and chain: "successively execution_step xs"
    using assms by (auto simp: validate_execution_state_path_def validate_steps_successively run_iff_successively split: if_splits)
  have "successively (\<lambda>s t. progress s < progress t) xs"
    using chain by (rule successively_mono) (rule step_progress)
  then have "sorted_wrt (<) (map progress xs)"
    by (simp add: successively_conv_sorted_wrt transp_def successively_map[symmetric])
  then have "distinct xs" using strict_sorted_iff distinct_map by blast
  moreover have "length xs \<le> 8" using run_length[OF run] by (simp add: progress_def split: if_splits)
  ultimately show ?thesis by simp
qed

theorem state_paths_are_short_witness: "distinct [''received'', ''expired''] \<and> length [''received'', ''expired''] \<le> 8"
proof -
  have "validate_execution_state_path [''received'', ''expired''] = Inr ()"
    by (simp add: validate_execution_state_path_def validate_steps_successively execution_step_simps del: validate_steps.simps)
  from state_paths_are_short[OF this] show ?thesis .
qed

section \<open>Resource receipts\<close>

text \<open>What a verified receipt shows: a registered key made the MAC of everything but the signature.\<close>

definition genuine_receipt :: "deps \<Rightarrow> py_text \<Rightarrow> resource_keys \<Rightarrow> json \<Rightarrow> string \<Rightarrow> bool" where
  "genuine_receipt D T keys receipt kid \<longleftrightarrow> (\<exists>d key mac. receipt = JObj d \<and> get_or_null d ''signing_key_id'' = JStr kid \<and>
     dget keys kid = Some key \<and> receipt_mac D T key d = Inr mac \<and> get_or_null d ''signature'' = JStr mac)"

lemma mac_is_ascii: "list_all (\<lambda>c. of_char c < (128 :: nat)) (hex_of_bytes b)"
proof -
  have "(of_char (hex_digit n) :: nat) < 128" if "n < 16" for n using of_char_hex_digit[OF that] that by (simp split: if_splits)
  moreover have "(of_char c :: nat) div 16 < 16" for c by (simp add: less_mult_imp_div_less)
  ultimately have "list_all (\<lambda>c. of_char c < (128 :: nat)) (hex_of_byte c)" for c by (simp add: hex_of_byte_def)
  then show ?thesis by (induction b) (simp_all add: hex_of_bytes_def)
qed

lemma receipt_mac_nonempty:
  assumes "\<forall>m. length (dep_sha256 D m) = 32" "receipt_mac D T key d = Inr mac"
  shows "mac \<noteq> []" "list_all (\<lambda>c. of_char c < (128 :: nat)) mac"
proof -
  from assms(2) obtain t where mac: "mac = hex_of_bytes (hmac_digest D (rk_secret key) t)"
    unfolding receipt_mac_def by (elim bindR_eq_InrE) (metis Inr_inject)
  then show "list_all (\<lambda>c. of_char c < (128 :: nat)) mac" by (simp add: mac_is_ascii)
  from mac have "length mac = 64" using assms(1) by (simp add: length_hex_of_bytes hmac_digest_def)
  then show "mac \<noteq> []" by auto
qed

lemma verify_or_raise_genuine:
  assumes "\<forall>m. length (dep_sha256 D m) = 32"
  shows "verify_or_raise D T keys receipt = Inr k \<longleftrightarrow> (\<exists>kid. k = Some kid \<and> kid \<noteq> [] \<and> genuine_receipt D T keys receipt kid)"
proof
  assume "verify_or_raise D T keys receipt = Inr k"
  then have "verify_resource_receipt D T keys receipt = Inr (True, k)"
    unfolding verify_or_raise_def by (elim bindR_eq_InrE) (auto split: if_splits)
  then obtain d sig kid key mac where "receipt = JObj d" "get_or_null d ''signature'' = JStr sig" "get_or_null d ''signing_key_id'' = JStr kid"
      "kid \<noteq> []" "dget keys kid = Some key" "receipt_mac D T key d = Inr mac" "compare_digest mac sig = Inr True" "k = Some kid"
    unfolding verify_resource_receipt_def
    by (auto simp: is_nonempty_text_def bindR_eq_Inr split: json.split_asm if_split_asm option.split_asm)
  moreover from this have "mac = sig" by (simp add: compare_digest_def split: if_splits)
  ultimately show "\<exists>kid. k = Some kid \<and> kid \<noteq> [] \<and> genuine_receipt D T keys receipt kid" by (auto simp: genuine_receipt_def)
next
  assume "\<exists>kid. k = Some kid \<and> kid \<noteq> [] \<and> genuine_receipt D T keys receipt kid"
  then obtain kid d key mac where "k = Some kid" "kid \<noteq> []" "receipt = JObj d" "get_or_null d ''signing_key_id'' = JStr kid"
      "dget keys kid = Some key" "receipt_mac D T key d = Inr mac" "get_or_null d ''signature'' = JStr mac"
    unfolding genuine_receipt_def by blast
  moreover from this receipt_mac_nonempty[OF assms] have "mac \<noteq> []" "compare_digest mac mac = Inr True"
    by (auto simp: compare_digest_def)
  ultimately show "verify_or_raise D T keys receipt = Inr k"
    by (simp add: verify_or_raise_def verify_resource_receipt_def is_nonempty_text_def)
qed

text \<open>
  C31 (success_needs_genuine_receipt): when the protocol package refuses to construct a success without a verified
  receipt, a resource-owned result in the state \<open>SUCCEEDED\<close> has a receipt with the MAC of a registered key, and names
  that key.
\<close>

theorem success_needs_genuine_receipt:
  assumes "\<forall>m. length (dep_sha256 D m) = 32"
    and "\<forall>a. of_state a = ''SUCCEEDED'' \<and> \<not> of_resource_receipt_verified a \<longrightarrow> (\<exists>e. new_result a = Inl e)"
    and "build_resource_owned_result D T new_result verifier args pccb_id action_hash identity = Inr r" "of_state args = ''SUCCEEDED''"
  shows "\<exists>keys kid. verifier = Some keys \<and> mr_resource_signing_key_id r = JStr kid \<and>
    genuine_receipt D T keys (of_resource_receipt args) kid"
proof -
  obtain verified kid p where c: "check_resource_receipt D T verifier (of_resource_receipt args) = Inr (verified, kid)"
      "new_result (args\<lparr>of_resource_receipt_verified := verified\<rparr>) = Inr p" "mr_resource_signing_key_id r = kid"
    using assms(3) unfolding build_resource_owned_result_def by (elim bindR_eq_InrE) (auto elim!: bindR_eq_InrE)
  have "verified" using c(2) assms(2)[rule_format, of "args\<lparr>of_resource_receipt_verified := False\<rparr>"] assms(4) by (cases verified) auto
  with c(1) obtain keys k where "verifier = Some keys" "verify_or_raise D T keys (of_resource_receipt args) = Inr k"
      "kid = (case k of None \<Rightarrow> JNull | Some s \<Rightarrow> JStr s)"
    by (auto simp: check_resource_receipt_def split: option.split_asm if_split_asm sum.split_asm exn.split_asm)
  then show ?thesis using c(3) verify_or_raise_genuine[OF assms(1)] by auto
qed

definition sample_resource_key :: resource_signing_key where
  "sample_resource_key = \<lparr>rk_resource_id = ''ledger'', rk_key_id = ''k1'', rk_secret = ''secret''\<rparr>"

definition sample_mac :: string where
  "sample_mac = hex_of_bytes (hmac_digest sample_deps ''secret'' (''{'' @ dumps_string ''signing_key_id'' @ '':'' @ dumps_string ''k1'' @ ''}''))"

definition sample_owned_fields :: "json \<Rightarrow> resource_owned_fields" where
  "sample_owned_fields receipt = \<lparr>of_state = ''SUCCEEDED'', of_verified_by = ''kernel'', of_executed_by = ''ledger'', of_attempt_id = ''a1'',
     of_occurred_at = ''2024-01-01T00:00:00Z'', of_provider_execution_observed = True, of_resource_receipt_received = True,
     of_resource_receipt_verified = False, of_resource_receipt = receipt, of_submission_reference = JNull\<rparr>"

text \<open>A constructor that keeps the rule of the protocol package.\<close>

definition sample_new_result :: "resource_owned_fields \<Rightarrow> resource_owned_fields res" where
  "sample_new_result a = (if of_state a = ''SUCCEEDED'' \<and> \<not> of_resource_receipt_verified a
     then Inl (Raise (OtherError ''ExecutionResultValidationError'') ''succeeded requires a verified receipt'') else Inr a)"

lemma sample_sha: "\<forall>m. length (dep_sha256 sample_deps m) = 32"
  by (auto simp: sample_deps_def sample_sha256_def min_def)

lemma sample_receipt_genuine:
  "genuine_receipt sample_deps T [(''k1'', sample_resource_key)] (JObj [(''signing_key_id'', JStr ''k1''), (''signature'', JStr sample_mac)]) ''k1''"
  by (simp add: genuine_receipt_def receipt_mac_def sample_mac_def sample_resource_key_def)

theorem success_needs_genuine_receipt_witness:
  "\<exists>T r kid. build_resource_owned_result sample_deps T sample_new_result (Some [(''k1'', sample_resource_key)])
      (sample_owned_fields (JObj [(''signing_key_id'', JStr ''k1''), (''signature'', JStr sample_mac)])) JNull JNull JNull = Inr r \<and>
     mr_resource_signing_key_id r = JStr kid"
proof -
  fix T :: py_text
  let ?receipt = "JObj [(''signing_key_id'', JStr ''k1''), (''signature'', JStr sample_mac)]"
  have "verify_or_raise sample_deps T [(''k1'', sample_resource_key)] ?receipt = Inr (Some ''k1'')"
    using verify_or_raise_genuine[OF sample_sha] sample_receipt_genuine by blast
  then obtain r where r: "build_resource_owned_result sample_deps T sample_new_result (Some [(''k1'', sample_resource_key)])
      (sample_owned_fields ?receipt) JNull JNull JNull = Inr r"
    by (simp add: build_resource_owned_result_def check_resource_receipt_def sample_owned_fields_def sample_new_result_def)
  have "\<forall>a. of_state a = ''SUCCEEDED'' \<and> \<not> of_resource_receipt_verified a \<longrightarrow> (\<exists>e. sample_new_result a = Inl e)"
    by (simp add: sample_new_result_def)
  from success_needs_genuine_receipt[OF sample_sha this r] r show ?thesis by (auto simp: sample_owned_fields_def)
qed

text \<open>
  A signature that is not ASCII is not treated as an unverified receipt: \<open>compare_digest\<close> raises a \<open>TypeError\<close>, which leaves
  the builder.
\<close>

lemma non_ascii_signature_escapes:
  assumes "get_or_null d ''signature'' = JStr sig" "get_or_null d ''signing_key_id'' = JStr kid" "kid \<noteq> []" "dget keys kid = Some key"
    and "is_ok (receipt_mac D T key d)" "\<not> list_all (\<lambda>c. of_char c < (128 :: nat)) sig" "of_resource_receipt args = JObj d"
  shows "build_resource_owned_result D T new_result (Some keys) args p a i =
    Inl (Raise TypeError ''comparing strings with non-ASCII characters is not supported'')"
proof -
  have "sig \<noteq> []" using assms(6) by auto
  moreover obtain mac where "receipt_mac D T key d = Inr mac" using assms(5) by (auto simp: is_ok_iff)
  moreover have "compare_digest mac sig = Inl (Raise TypeError ''comparing strings with non-ASCII characters is not supported'')"
    using assms(6) by (auto simp: compare_digest_def)
  ultimately show ?thesis
    using assms(1-4,7) by (simp add: build_resource_owned_result_def check_resource_receipt_def verify_or_raise_def
        verify_resource_receipt_def is_nonempty_text_def)
qed

section \<open>Endings of the modes\<close>

text \<open>Nothing follows a success, a failure or a refusal in either mode, and an unknown outcome can only be settled or stay unknown.\<close>

lemma settled_states_are_final:
  assumes "s = ''SUCCEEDED'' \<or> s = ''FAILED'' \<or> s = ''REFUSED''"
  shows "brokered_can_transition s t = Inr False" "resource_owned_can_transition s t = Inr False"
  using assms by (elim disjE; simp add: brokered_can_transition_def resource_owned_can_transition_def table_allows_def
      BROKERED_TRANSITIONS_def RESOURCE_OWNED_TRANSITIONS_def)+

lemma unknown_outcome_is_settled:
  "brokered_can_transition ''OUTCOME_UNKNOWN'' t = Inr (t = ''SUCCEEDED'' \<or> t = ''FAILED'' \<or> t = ''OUTCOME_UNKNOWN'')"
  "resource_owned_can_transition ''OUTCOME_UNKNOWN'' t = Inr (t = ''SUCCEEDED'' \<or> t = ''FAILED'' \<or> t = ''OUTCOME_UNKNOWN'')"
  by (simp_all add: brokered_can_transition_def resource_owned_can_transition_def table_allows_def BROKERED_TRANSITIONS_def
      RESOURCE_OWNED_TRANSITIONS_def)

end
