(* ===== verification/Anchors.thy ===== *)
theory Anchors
  imports Receipts Samples Posture
begin

text \<open>
  External anchors (\<^verbatim>\<open>anchors/models.py\<close>) and the local append-only log (\<^verbatim>\<open>anchors/local_log.py\<close>), a chain of hashed
  entries in a file of JSON lines. The file is the list of its lines; \<open>parse\<close> is \<open>json.loads\<close> without its hook, around which
  a line is read by the loader of \<open>Json\<close> with its size and depth limits, and the URI of the log is a field, as the code derives it from the path. A line is written with sorted keys and without
  escapes beyond those of JSON, so it is the canonical text of the entry, whose hash was just taken.
\<close>

section \<open>Digests and anchors\<close>

abbreviation ExternalAnchorFormatError :: "string \<Rightarrow> exn" where
  "ExternalAnchorFormatError \<equiv> Raise (OtherError ''ExternalAnchorFormatError'')"

abbreviation ExternalAnchorVerificationError :: "string \<Rightarrow> exn" where
  "ExternalAnchorVerificationError \<equiv> Raise (OtherError ''ExternalAnchorVerificationError'')"

definition normalize_artifact_digest :: "json \<Rightarrow> dict res" where
  "normalize_artifact_digest raw =
     bindR (expect_mapping raw ''artifact_digest'') (\<lambda>data.
     bindR (expect_string (get_or_null data ''algorithm'') ''artifact_digest.algorithm'') (\<lambda>algorithm.
     bindR (expect_string (get_or_null data ''value'') ''artifact_digest.value'') (\<lambda>v.
     if get_or_null data ''canonicalization'' = JNull then Inr [(''algorithm'', JStr algorithm), (''value'', JStr v)]
     else bindR (expect_string (get_or_null data ''canonicalization'') ''artifact_digest.canonicalization'') (\<lambda>c.
       Inr [(''algorithm'', JStr algorithm), (''value'', JStr v), (''canonicalization'', JStr c)]))))"

definition artifact_digests_match :: "json \<Rightarrow> json \<Rightarrow> bool res" where
  "artifact_digests_match left right =
     bindR (normalize_artifact_digest left) (\<lambda>l.
     bindR (normalize_artifact_digest right) (\<lambda>r.
     Inr (get_or_null l ''algorithm'' = get_or_null r ''algorithm'' \<and> get_or_null l ''value'' = get_or_null r ''value'' \<and>
       (get_or_null l ''canonicalization'' \<noteq> JNull \<and> get_or_null r ''canonicalization'' \<noteq> JNull \<longrightarrow>
        get_or_null l ''canonicalization'' = get_or_null r ''canonicalization''))))"

definition parse_anchor_hash :: "json \<Rightarrow> string \<Rightarrow> dict res" where
  "parse_anchor_hash raw field_name =
     bindR (expect_mapping raw field_name) (\<lambda>data.
     bindR (expect_string (get_or_null data ''algorithm'') (field_name @ ''.algorithm'')) (\<lambda>algorithm.
     bindR (expect_string (get_or_null data ''value'') (field_name @ ''.value'')) (\<lambda>v.
     if get_or_null data ''canonicalization'' = JNull then Inr [(''algorithm'', JStr algorithm), (''value'', JStr v)]
     else bindR (expect_string (get_or_null data ''canonicalization'') (field_name @ ''.canonicalization'')) (\<lambda>c.
       Inr [(''algorithm'', JStr algorithm), (''value'', JStr v), (''canonicalization'', JStr c)]))))"

text \<open>\<open>isinstance(raw, int)\<close> holds of \<open>True\<close> too, which counts as 1.\<close>

definition parse_positive_sequence :: "json \<Rightarrow> json res" where
  "parse_positive_sequence raw = (case raw of
       JInt i \<Rightarrow> if 0 < i then Inr raw else Inl (ExternalAnchorFormatError ''external anchor sequence must be a positive integer'')
     | JBool b \<Rightarrow> if b then Inr raw else Inl (ExternalAnchorFormatError ''external anchor sequence must be a positive integer'')
     | _ \<Rightarrow> Inl (ExternalAnchorFormatError ''external anchor sequence must be a positive integer''))"

record external_anchor =
  xa_anchor_id :: string
  xa_anchor_type :: string
  xa_artifact_digest :: dict
  xa_anchored_at :: datetime
  xa_log_uri :: string
  xa_sequence :: json
  xa_entry_hash :: dict
  xa_previous_entry_hash :: "dict option"
  xa_artifact_type :: "string option"
  xa_artifact_id :: "string option"
  xa_metadata :: dict

definition text_or_none :: "json \<Rightarrow> string option" where
  "text_or_none v = (case v of JStr s \<Rightarrow> Some s | _ \<Rightarrow> None)"

definition external_anchor_from_dict :: "json \<Rightarrow> external_anchor res" where
  "external_anchor_from_dict raw =
     bindR (expect_mapping raw ''external_anchor'') (\<lambda>data.
     bindR (expect_mapping (get_or_null data ''contract'') ''external_anchor.contract'') (\<lambda>contract.
     if get_or_null contract ''name'' \<noteq> JStr ''external_anchor'' \<or> get_or_null contract ''version'' \<noteq> JStr ''v1''
     then Inl (ExternalAnchorFormatError ''external anchor contract must declare external_anchor v1'')
     else
     bindR (expect_string (get_or_null data ''anchor_id'') ''external_anchor.anchor_id'') (\<lambda>anchor_id.
     bindR (expect_string (get_or_null data ''anchor_type'') ''external_anchor.anchor_type'') (\<lambda>anchor_type.
     bindR (normalize_artifact_digest (get_or_null data ''artifact_digest'')) (\<lambda>digest.
     bindR (parse_timestamp (get_or_null data ''anchored_at'') ''external_anchor.anchored_at'') (\<lambda>anchored_at.
     bindR (expect_string (get_or_null data ''log_uri'') ''external_anchor.log_uri'') (\<lambda>log_uri.
     bindR (parse_positive_sequence (get_or_null data ''sequence'')) (\<lambda>sequence.
     bindR (parse_anchor_hash (get_or_null data ''entry_hash'') ''external_anchor.entry_hash'') (\<lambda>entry_hash.
     bindR (if get_or_null data ''previous_entry_hash'' = JNull then Inr None
       else bindR (parse_anchor_hash (get_or_null data ''previous_entry_hash'') ''external_anchor.previous_entry_hash'') (\<lambda>h. Inr (Some h)))
       (\<lambda>previous.
     bindR (if truthy (get_or data ''metadata'' (JObj [])) then expect_mapping (get_or data ''metadata'' (JObj [])) ''external_anchor.metadata''
       else Inr []) (\<lambda>metadata.
     Inr \<lparr>xa_anchor_id = anchor_id, xa_anchor_type = anchor_type, xa_artifact_digest = digest, xa_anchored_at = anchored_at,
       xa_log_uri = log_uri, xa_sequence = sequence, xa_entry_hash = entry_hash, xa_previous_entry_hash = previous,
       xa_artifact_type = text_or_none (get_or_null data ''artifact_type''), xa_artifact_id = text_or_none (get_or_null data ''artifact_id''),
       xa_metadata = metadata\<rparr>)))))))))))"

definition EXTERNAL_ANCHOR_CONTRACT :: dict where
  "EXTERNAL_ANCHOR_CONTRACT = [(''name'', JStr ''external_anchor''), (''version'', JStr ''v1'')]"

definition external_anchor_to_dict :: "external_anchor \<Rightarrow> dict" where
  "external_anchor_to_dict a =
     [(''contract'', JObj EXTERNAL_ANCHOR_CONTRACT), (''anchor_id'', JStr (xa_anchor_id a)), (''anchor_type'', JStr (xa_anchor_type a)),
      (''artifact_digest'', JObj (xa_artifact_digest a)), (''anchored_at'', JStr (format_timestamp (xa_anchored_at a))),
      (''log_uri'', JStr (xa_log_uri a)), (''sequence'', xa_sequence a), (''entry_hash'', JObj (xa_entry_hash a))]
     @ (case xa_previous_entry_hash a of None \<Rightarrow> [] | Some h \<Rightarrow> [(''previous_entry_hash'', JObj h)])
     @ (case xa_artifact_type a of None \<Rightarrow> [] | Some s \<Rightarrow> [(''artifact_type'', JStr s)])
     @ (case xa_artifact_id a of None \<Rightarrow> [] | Some s \<Rightarrow> [(''artifact_id'', JStr s)])
     @ (if xa_metadata a = [] then [] else [(''metadata'', JObj (xa_metadata a))])"

section \<open>The log\<close>

record anchor_log =
  al_lines :: "string list"
  al_uri :: string

definition LOCAL_ANCHOR_LOG_ENTRY_CONTRACT :: dict where
  "LOCAL_ANCHOR_LOG_ENTRY_CONTRACT = [(''name'', JStr ''local_anchor_log_entry''), (''version'', JStr ''v1'')]"

definition anchor_hash_spec :: "deps \<Rightarrow> dict \<Rightarrow> dict res" where
  "anchor_hash_spec D v = bindR (sha256_hex D (JObj v)) (\<lambda>h.
     Inr [(''algorithm'', JStr ''sha-256''), (''canonicalization'', JStr (dep_profile D)), (''value'', JStr h)])"

definition entry_hash_payload :: "dict \<Rightarrow> dict" where
  "entry_hash_payload entry = filter (\<lambda>p. fst p \<noteq> ''entry_hash'') entry"

definition compute_entry_hash :: "deps \<Rightarrow> dict \<Rightarrow> dict res" where
  "compute_entry_hash D entry = anchor_hash_spec D (entry_hash_payload entry)"

definition entry_anchor :: "py_text \<Rightarrow> dict \<Rightarrow> external_anchor res" where
  "entry_anchor T entry =
     bindR (bindR (py_index entry ''anchor_id'') (py_str T)) (\<lambda>anchor_id.
     bindR (bindR (py_index entry ''anchor_type'') (py_str T)) (\<lambda>anchor_type.
     bindR (bindR (py_index entry ''artifact_digest'') normalize_artifact_digest) (\<lambda>digest.
     bindR (bindR (py_index entry ''anchored_at'') (\<lambda>v. parse_timestamp v ''anchored_at'')) (\<lambda>anchored_at.
     bindR (bindR (py_index entry ''log_uri'') (py_str T)) (\<lambda>log_uri.
     bindR (bindR (py_index entry ''sequence'') (py_int T)) (\<lambda>sequence.
     bindR (bindR (py_index entry ''entry_hash'') (\<lambda>v. expect_mapping v ''entry_hash'')) (\<lambda>entry_hash.
     bindR (if get_or_null entry ''previous_entry_hash'' = JNull then Inr None
       else bindR (expect_mapping (get_or_null entry ''previous_entry_hash'') ''previous_entry_hash'') (\<lambda>h. Inr (Some h))) (\<lambda>previous.
     bindR (if truthy (get_or_null entry ''metadata'') then expect_mapping (get_or_null entry ''metadata'') ''metadata'' else Inr []) (\<lambda>metadata.
     Inr \<lparr>xa_anchor_id = anchor_id, xa_anchor_type = anchor_type, xa_artifact_digest = digest, xa_anchored_at = anchored_at,
       xa_log_uri = log_uri, xa_sequence = JInt sequence, xa_entry_hash = entry_hash, xa_previous_entry_hash = previous,
       xa_artifact_type = text_or_none (get_or_null entry ''artifact_type''), xa_artifact_id = text_or_none (get_or_null entry ''artifact_id''),
       xa_metadata = metadata\<rparr>)))))))))"

text \<open>\<open>previous_hash\<close> is \<open>None\<close> or the hash of the entry before.\<close>

fun validate_chain :: "deps \<Rightarrow> int \<Rightarrow> json \<Rightarrow> dict list \<Rightarrow> unit res" where
  "validate_chain D index previous_hash [] = Inr ()"
| "validate_chain D index previous_hash (entry # entries) =
     (if \<not> py_eq (get_or_null entry ''contract'') (JObj LOCAL_ANCHOR_LOG_ENTRY_CONTRACT)
      then Inl (ExternalAnchorFormatError ''local anchor log entry contract is unsupported'')
      else if get_or_null entry ''anchor_type'' \<noteq> JStr ''local_append_only_log''
      then Inl (ExternalAnchorFormatError ''local anchor log entry anchor_type is unsupported'')
      else if \<not> py_eq (get_or_null entry ''sequence'') (JInt index)
      then Inl (ExternalAnchorFormatError ''local anchor log sequence is not contiguous'')
      else if \<not> py_eq (get_or_null entry ''previous_entry_hash'') previous_hash
      then Inl (ExternalAnchorVerificationError ''local anchor log hash chain is broken'')
      else bindR (compute_entry_hash D entry) (\<lambda>expected_hash.
        if \<not> py_eq (get_or_null entry ''entry_hash'') (JObj expected_hash)
        then Inl (ExternalAnchorVerificationError ''local anchor log entry hash does not match'')
        else validate_chain D (index + 1) (JObj expected_hash) entries))"

text \<open>\<open>loads_no_duplicate_keys(stripped)\<close> with the default limits.\<close>

definition load_line :: "(string \<Rightarrow> json res) \<Rightarrow> string \<Rightarrow> json res" where
  "load_line parse line = loads_no_duplicate_keys Inr parse DEFAULT_MAX_JSON_BYTES DEFAULT_MAX_JSON_DEPTH (RawStr line)"

fun read_lines :: "deps \<Rightarrow> (string \<Rightarrow> json res) \<Rightarrow> nat \<Rightarrow> string list \<Rightarrow> dict list res" where
  "read_lines D parse line_number [] = Inr []"
| "read_lines D parse line_number (line # lines) =
     (if py_strip line = [] then read_lines D parse (line_number + 1) lines
      else (case load_line parse (py_strip line) of
          Inl e \<Rightarrow> if (case e of Raise c _ \<Rightarrow> is_value_error D c | Refuse _ \<Rightarrow> False)
            then Inl (ExternalAnchorFormatError (''local anchor log line '' @ show_nat line_number @ '' is not valid JSON'')) else Inl e
        | Inr (JObj entry) \<Rightarrow> bindR (read_lines D parse (line_number + 1) lines) (\<lambda>entries. Inr (entry # entries))
        | Inr _ \<Rightarrow> Inl (ExternalAnchorFormatError (''local anchor log line '' @ show_nat line_number @ '' must be a JSON object''))))"

definition read_entries :: "deps \<Rightarrow> (string \<Rightarrow> json res) \<Rightarrow> anchor_log \<Rightarrow> dict list res" where
  "read_entries D parse log_file = bindR (read_lines D parse 1 (al_lines log_file)) (\<lambda>entries.
     bindR (validate_chain D 1 JNull entries) (\<lambda>_. Inr entries))"

definition new_entry :: "string \<Rightarrow> dict \<Rightarrow> string option \<Rightarrow> string option \<Rightarrow> datetime \<Rightarrow> dict \<Rightarrow> string \<Rightarrow> dict list \<Rightarrow> json \<Rightarrow> dict" where
  "new_entry uuid digest artifact_type artifact_id anchored_at metadata log_uri existing_entries previous_hash =
     [(''contract'', JObj LOCAL_ANCHOR_LOG_ENTRY_CONTRACT), (''anchor_contract'', JObj EXTERNAL_ANCHOR_CONTRACT),
      (''anchor_id'', JStr (''anc_local_'' @ uuid)), (''anchor_type'', JStr ''local_append_only_log''), (''artifact_digest'', JObj digest),
      (''anchored_at'', JStr (format_timestamp anchored_at)), (''log_uri'', JStr log_uri),
      (''sequence'', JInt (int (length existing_entries) + 1)), (''previous_entry_hash'', previous_hash)]
     @ (case artifact_type of None \<Rightarrow> [] | Some s \<Rightarrow> [(''artifact_type'', JStr s)])
     @ (case artifact_id of None \<Rightarrow> [] | Some s \<Rightarrow> [(''artifact_id'', JStr s)])
     @ (if metadata = [] then [] else [(''metadata'', JObj metadata)])"

definition append_entry :: "dict \<Rightarrow> anchor_log \<Rightarrow> anchor_log" where
  "append_entry entry log_file = log_file\<lparr>al_lines := al_lines log_file @ [encode (json_norm (JObj entry))]\<rparr>"

text \<open>The entry \<open>anchor_artifact_digest\<close> builds; an error before it is built leaves the file alone.\<close>

definition appended_entry ::
  "deps \<Rightarrow> (string \<Rightarrow> json res) \<Rightarrow> string \<Rightarrow> json \<Rightarrow> string option \<Rightarrow> string option \<Rightarrow> datetime \<Rightarrow> dict \<Rightarrow> anchor_log \<Rightarrow> dict res" where
  "appended_entry D parse uuid artifact_digest artifact_type artifact_id anchored_at metadata log_file =
     bindR (normalize_artifact_digest artifact_digest) (\<lambda>digest.
     bindR (read_entries D parse log_file) (\<lambda>existing_entries.
     bindR (if existing_entries = [] then Inr JNull else py_index (last existing_entries) ''entry_hash'') (\<lambda>previous_hash.
     let entry = new_entry uuid digest artifact_type artifact_id anchored_at metadata (al_uri log_file) existing_entries previous_hash in
     bindR (compute_entry_hash D entry) (\<lambda>h. Inr (entry @ [(''entry_hash'', JObj h)])))))"

definition anchor_artifact_digest ::
  "deps \<Rightarrow> py_text \<Rightarrow> (string \<Rightarrow> json res) \<Rightarrow> string \<Rightarrow> json \<Rightarrow> string option \<Rightarrow> string option \<Rightarrow> datetime \<Rightarrow> dict \<Rightarrow> anchor_log \<Rightarrow>
   external_anchor res \<times> anchor_log" where
  "anchor_artifact_digest D T parse uuid artifact_digest artifact_type artifact_id anchored_at metadata log_file =
     (case appended_entry D parse uuid artifact_digest artifact_type artifact_id anchored_at metadata log_file of
       Inl e \<Rightarrow> (Inl e, log_file)
     | Inr entry \<Rightarrow> (entry_anchor T entry, append_entry entry log_file))"

section \<open>Verification\<close>

datatype anchor_arg = AnchorArg external_anchor | AnchorValue json

fun resolve_anchor :: "anchor_arg \<Rightarrow> external_anchor res" where
  "resolve_anchor (AnchorArg a) = Inr a"
| "resolve_anchor (AnchorValue v) = external_anchor_from_dict v"

text \<open>\<open>entries[i]\<close>, counting from the end for a negative index.\<close>

definition entry_at :: "dict list \<Rightarrow> int \<Rightarrow> dict res" where
  "entry_at entries i = (let n = int (length entries); k = (if i < 0 then n + i else i) in
     if k < 0 \<or> n \<le> k then Inl (Raise (OtherError ''IndexError'') ''list index out of range'') else Inr (entries ! nat k))"

text \<open>The value of a sequence number, and the equality of two anchors as dataclasses.\<close>

definition sequence_number :: "json \<Rightarrow> int" where
  "sequence_number v = (case v of JInt i \<Rightarrow> i | JBool b \<Rightarrow> (if b then 1 else 0) | _ \<Rightarrow> 0)"

definition same_anchor :: "external_anchor \<Rightarrow> external_anchor \<Rightarrow> bool" where
  "same_anchor a b \<longleftrightarrow> xa_anchor_id a = xa_anchor_id b \<and> xa_anchor_type a = xa_anchor_type b \<and>
     dict_eq (xa_artifact_digest a) (xa_artifact_digest b) \<and> xa_anchored_at a = xa_anchored_at b \<and> xa_log_uri a = xa_log_uri b \<and>
     py_eq (xa_sequence a) (xa_sequence b) \<and> dict_eq (xa_entry_hash a) (xa_entry_hash b) \<and>
     (case (xa_previous_entry_hash a, xa_previous_entry_hash b) of
        (None, None) \<Rightarrow> True | (Some x, Some y) \<Rightarrow> dict_eq x y | _ \<Rightarrow> False) \<and>
     xa_artifact_type a = xa_artifact_type b \<and> xa_artifact_id a = xa_artifact_id b \<and> dict_eq (xa_metadata a) (xa_metadata b)"

definition verify_external_anchor ::
  "deps \<Rightarrow> py_text \<Rightarrow> (string \<Rightarrow> json res) \<Rightarrow> anchor_log \<Rightarrow> anchor_arg \<Rightarrow> json \<Rightarrow> datetime res" where
  "verify_external_anchor D T parse log_file anchor artifact_digest =
     bindR (resolve_anchor anchor) (\<lambda>parsed.
     if xa_anchor_type parsed \<noteq> ''local_append_only_log''
     then Inl (ExternalAnchorVerificationError ''unsupported external anchor type'')
     else if xa_log_uri parsed \<noteq> al_uri log_file
     then Inl (ExternalAnchorVerificationError ''external anchor points at a different local log'')
     else bindR (artifact_digests_match (JObj (xa_artifact_digest parsed)) artifact_digest) (\<lambda>matching.
     if \<not> matching
     then Inl (ExternalAnchorVerificationError ''external anchor artifact_digest does not match the signed artifact_digest'')
     else bindR (read_entries D parse log_file) (\<lambda>entries.
     if int (length entries) < sequence_number (xa_sequence parsed)
     then Inl (ExternalAnchorVerificationError ''external anchor sequence is not present in the local log'')
     else bindR (bindR (entry_at entries (sequence_number (xa_sequence parsed) - 1)) (entry_anchor T)) (\<lambda>entry.
     if \<not> same_anchor entry parsed
     then Inl (ExternalAnchorVerificationError ''external anchor does not match the local log entry'')
     else Inr (xa_anchored_at parsed)))))"

section \<open>Chains\<close>

text \<open>
  What makes an entry valid after a prefix of the log, and the logs that grow by valid entries; the second argument of
  \<open>chain\<close> is the hash the next entry has to cite.
\<close>

definition entry_valid :: "deps \<Rightarrow> int \<Rightarrow> json \<Rightarrow> dict \<Rightarrow> dict \<Rightarrow> bool" where
  "entry_valid D index previous entry h \<longleftrightarrow> py_eq (get_or_null entry ''contract'') (JObj LOCAL_ANCHOR_LOG_ENTRY_CONTRACT) \<and>
     get_or_null entry ''anchor_type'' = JStr ''local_append_only_log'' \<and> py_eq (get_or_null entry ''sequence'') (JInt index) \<and>
     py_eq (get_or_null entry ''previous_entry_hash'') previous \<and> compute_entry_hash D entry = Inr h \<and>
     py_eq (get_or_null entry ''entry_hash'') (JObj h)"

inductive chain :: "deps \<Rightarrow> dict list \<Rightarrow> json \<Rightarrow> bool" for D where
  empty: "chain D [] JNull"
| grow: "chain D es previous \<Longrightarrow> entry_valid D (int (length es) + 1) previous entry h \<Longrightarrow> chain D (es @ [entry]) (JObj h)"

inductive_cases chain_emptyE: "chain D [] p"

lemma chain_snoc: "chain D (es @ [e]) q \<longleftrightarrow> (\<exists>p h. chain D es p \<and> entry_valid D (int (length es) + 1) p e h \<and> q = JObj h)"
proof
  assume "chain D (es @ [e]) q"
  then show "\<exists>p h. chain D es p \<and> entry_valid D (int (length es) + 1) p e h \<and> q = JObj h"
    by (cases rule: chain.cases) auto
qed (auto intro: chain.grow)

lemma chain_unique: "chain D es p \<Longrightarrow> chain D es q \<Longrightarrow> p = q"
proof (induction es arbitrary: p q rule: rev_induct)
  case (snoc e es)
  then show ?case by (auto simp: chain_snoc entry_valid_def)
qed (auto elim: chain_emptyE)

lemma chain_prefix: "chain D (es @ fs) p \<Longrightarrow> \<exists>q. chain D es q"
  by (induction fs arbitrary: p rule: rev_induct) (auto simp: chain_snoc simp flip: append_assoc)

lemma validate_chain_step:
  "validate_chain D index p (e # es) = Inr () \<longleftrightarrow> (\<exists>h. entry_valid D index p e h \<and> validate_chain D (index + 1) (JObj h) es = Inr ())"
  by (auto simp: entry_valid_def bindR_eq_Inr split: if_splits)

lemma validate_chain_from:
  "chain D es p \<Longrightarrow> validate_chain D (int (length es) + 1) p fs = Inr () \<longleftrightarrow> (\<exists>q. chain D (es @ fs) q)"
proof (induction fs arbitrary: es p)
  case (Cons f fs)
  have "chain D (es @ f # fs) q \<Longrightarrow> \<exists>h. entry_valid D (int (length es) + 1) p f h" for q
    using chain_prefix[of D "es @ [f]" fs q] chain_unique[OF Cons.prems] by (auto simp: chain_snoc)
  moreover have "validate_chain D (int (length es) + 1 + 1) (JObj h) fs = Inr () \<longleftrightarrow> (\<exists>q. chain D (es @ f # fs) q)"
    if "entry_valid D (int (length es) + 1) p f h" for h
    using Cons.IH[OF chain.grow[OF Cons.prems that]] by (simp add: add.commute)
  ultimately show ?case unfolding validate_chain_step by blast
qed auto

lemma validate_chain_iff: "validate_chain D 1 JNull es = Inr () \<longleftrightarrow> (\<exists>p. chain D es p)"
  using validate_chain_from[OF chain.empty, of D es] by simp

section \<open>Entries read back\<close>

text \<open>What is written is a text without surrogates, and the hook leaves a value without repeated keys alone.\<close>

lemma has_surrogate_append:
  "xs = [] \<or> of_char (last xs) \<noteq> (237 :: nat) \<or> ys = [] \<or> of_char (hd ys) < (160 :: nat) \<Longrightarrow>
   has_surrogate (xs @ ys) \<longleftrightarrow> has_surrogate xs \<or> has_surrogate ys"
proof (induction xs)
  case (Cons x xs)
  then show ?case by (cases xs; cases ys) (auto split: if_splits)
qed simp

lemma escape_clean: "\<not> has_surrogate s \<Longrightarrow> \<not> has_surrogate (concat (map escape_char s))"
proof (induction s)
  case (Cons c s)
  have s: "\<not> has_surrogate s" using Cons.prems by (cases s) auto
  with Cons.IH have IH: "\<not> has_surrogate (concat (map escape_char s))" .
  show ?case
  proof (cases "escape_char c = [c]")
    case False
    then have "\<not> has_surrogate (escape_char c) \<and> of_char (last (escape_char c)) \<noteq> (237 :: nat)"
      by (auto simp: escape_char_def hex_of_byte_def of_char_hex_digit)
    then show ?thesis using IH by (simp add: has_surrogate_append)
  next
    case True
    show ?thesis
    proof (cases s)
      case Nil
      then show ?thesis using True by simp
    next
      case s: (Cons b r)
      obtain h t where "escape_char b = h # t" "h = b \<or> of_char h < (160 :: nat)"
        by (cases "escape_char b") (auto simp: escape_char_def split: if_splits)
      then obtain u where h: "concat (map escape_char s) = h # u" "h = b \<or> of_char h < (160 :: nat)" by (simp add: s)
      have "\<not> (of_char c = (237 :: nat) \<and> 160 \<le> (of_char b :: nat))" using Cons.prems s by simp
      then show ?thesis using True IH h by auto
    qed
  qed
qed simp

lemma quote_clean: "\<not> has_surrogate s \<Longrightarrow> \<not> has_surrogate (quote_string s)"
  using escape_clean[of s] has_surrogate_append[of "[CHR 0x22]" "concat (map escape_char s) @ [CHR 0x22]"]
  by (simp add: quote_string_def has_surrogate_append)

lemma join_clean: "(\<And>s. s \<in> set ss \<Longrightarrow> \<not> has_surrogate s) \<Longrightarrow> \<not> has_surrogate (join_with '','' ss)"
proof (induction "'',''" ss rule: join_with.induct)
  case (3 s t ss)
  have "\<not> has_surrogate ('','' @ join_with '','' (t # ss))" 
    using 3 by (subst has_surrogate_append) simp_all
  then show ?case using 3 by (simp add: has_surrogate_append)
qed simp_all

lemma bracket_clean: "\<not> has_surrogate s \<Longrightarrow> of_char a < (128 :: nat) \<Longrightarrow> of_char b < (128 :: nat) \<Longrightarrow> \<not> has_surrogate ([a] @ s @ [b])"
  by (subst has_surrogate_append, simp) (simp add: has_surrogate_append)

lemma show_nat_ascii: "list_all (\<lambda>c. (of_char c :: nat) < 128) (show_nat n)"
  using show_nat_digits[of n] by (auto simp: list_all_iff is_digit_ascii)

lemma encode_clean: "json_clean v \<Longrightarrow> \<not> has_surrogate (encode v)"
proof (induction v rule: encode.induct)
  case (3 i)
  show ?case by (rule ascii_no_surrogate) (simp add: show_int_def show_nat_ascii)
next
  case (5 xs)
  then have "\<not> has_surrogate (join_with '','' (map encode xs))" by (intro join_clean) (auto simp: list_all_iff)
  then show ?case using bracket_clean[of _ "CHR ''[''" "CHR '']''"] by simp
next
  case (6 d)
  have "\<not> has_surrogate (quote_string (fst p) @ '':'' @ encode (snd p))" if "p \<in> set d" for p
    using 6 that quote_clean[of "fst p"] has_surrogate_append[of "'':''" "encode (snd p)"]
    by (simp add: list_all_iff has_surrogate_append)
  then have "\<not> has_surrogate (join_with '','' (map (\<lambda>p. quote_string (fst p) @ '':'' @ encode (snd p)) d))" by (intro join_clean) auto
  then show ?case using bracket_clean[of _ "CHR ''{''" "CHR ''}''"] by simp
qed (auto simp: quote_clean)

lemma apply_hook_id: "json_wf v \<Longrightarrow> apply_hook v = Inr v"
proof (induction v rule: apply_hook.induct)
  case (3 d)
  then have "mapR (\<lambda>p. bindR (apply_hook (snd p)) (\<lambda>w. Inr (fst p, w))) d = Inr d"
    by (auto simp: mapR_eq_Inr list_all2_conv_all_nth list_all_length)
  then show ?case using 3 by (simp add: reject_duplicate_object_pairs_iff)
next
  case (1 xs)
  then have "mapR apply_hook xs = Inr xs" by (auto simp: mapR_eq_Inr list_all2_conv_all_nth list_all_length)
  then show ?case by simp
next
  case (2 xs)
  then have "mapR apply_hook xs = Inr xs" by (auto simp: mapR_eq_Inr list_all2_conv_all_nth list_all_length)
  then show ?case by simp
qed simp_all

lemma json_norm_idem [simp]: "json_norm (json_norm v) = json_norm v"
proof (induction v rule: json_norm.induct)
  case (3 d)
  have "map (\<lambda>p. (fst p, json_norm (snd p))) (map (\<lambda>p. (fst p, json_norm (snd p))) d) = map (\<lambda>p. (fst p, json_norm (snd p))) d"
    using 3 by auto
  then show ?case
    by (simp add: sort_map_fst[symmetric] sort_key_id_if_sorted del: map_map)
qed auto

lemma json_clean_norm: "json_clean (json_norm v) \<longleftrightarrow> json_clean v"
  by (induction v rule: json_norm.induct) (auto simp: list_all_iff)

lemma json_depth_norm_le: "json_depth (json_norm v) \<le> n \<longleftrightarrow> json_depth v \<le> n"
proof (induction v arbitrary: n rule: json_norm.induct)
  case (3 d)
  have "snd ` set (sort_key fst (map (\<lambda>p. (fst p, json_norm (snd p))) d)) = json_norm ` snd ` set d" by force
  with 3 show ?case unfolding json_depth_le_iff[of "json_norm (JObj d)"] json_depth_le_iff[of "JObj d"] by auto
next
  case (1 xs)
  then show ?case unfolding json_depth_le_iff[of "json_norm (JArr xs)"] json_depth_le_iff[of "JArr xs"] by auto
next
  case (2 xs)
  then show ?case unfolding json_depth_le_iff[of "json_norm (JTup xs)"] json_depth_le_iff[of "JTup xs"] by auto
qed auto

lemma json_depth_norm: "json_depth (json_norm v) = json_depth v"
  using json_depth_norm_le[of v "json_depth v"] json_depth_norm_le[of v "json_depth (json_norm v)"] by simp

lemma canonicalize_bytes_norm:
  assumes "canonicalize_bytes D v = Inr s"
  shows "canonicalize_bytes D (json_norm v) = Inr s"
proof -
  have v: "canonicalize_value v = Inr s" using assms by (rule canonicalize_bytes_value)
  then have "json_clean v" using canonicalize_value_ok[of v] by (simp add: is_ok_iff)
  then have "is_ok (canonicalize_value (json_norm v))" unfolding canonicalize_value_ok json_clean_norm .
  then obtain t where t: "canonicalize_value (json_norm v) = Inr t" by (auto simp: is_ok_iff)
  have "t = s" using canonicalize_value_encode[OF v] canonicalize_value_encode[OF t] by simp
  then show ?thesis using assms t by (simp add: canonicalize_bytes_iff json_depth_norm)
qed

text \<open>An entry as it is read back from its line.\<close>

definition stored :: "dict \<Rightarrow> dict" where
  "stored e = sort_key fst (map (\<lambda>p. (fst p, json_norm (snd p))) e)"

lemma json_norm_stored: "json_norm (JObj e) = JObj (stored e)" by (simp add: stored_def)

lemma stored_lookup: "dict_wf e \<Longrightarrow> map_of (stored e) k = map_option json_norm (map_of e k)"
  unfolding stored_def sort_map_fst map_of_map_snd by (simp add: map_of_sort_key)

lemma stored_get: "dict_wf e \<Longrightarrow> get_or_null (stored e) k = json_norm (get_or_null e k)"
  by (simp add: get_or_null_def stored_lookup split: option.split)

lemma stored_payload: "JObj (entry_hash_payload (stored e)) = json_norm (JObj (entry_hash_payload e))"
  by (simp add: entry_hash_payload_def stored_def filter_sort filter_map comp_def)

lemma compute_entry_hash_stored: "compute_entry_hash D e = Inr h \<Longrightarrow> compute_entry_hash D (stored e) = Inr h"
  unfolding compute_entry_hash_def anchor_hash_spec_def stored_payload sha256_hex_def
  by (auto simp: bindR_eq_Inr dest: canonicalize_bytes_norm)

section \<open>Tampering\<close>

lemma py_eq_items_iff: "py_eq_items d e \<longleftrightarrow> (\<forall>p \<in> set d. \<exists>w. map_of e (fst p) = Some w \<and> py_eq (snd p) w)"
proof (induction d)
  case (Cons p d)
  then show ?case by (cases p) (auto split: option.splits)
qed simp

lemma map_of_payload: "map_of (entry_hash_payload e) k = (if k = ''entry_hash'' then None else map_of e k)"
  unfolding entry_hash_payload_def by (induction e) auto

lemma payload_wf: "dict_wf e \<Longrightarrow> dict_wf (entry_hash_payload e)"
  by (simp add: entry_hash_payload_def dict_wf_def distinct_map_filter)

abbreviation hash_spec :: "deps \<Rightarrow> string \<Rightarrow> dict" where
  "hash_spec D u \<equiv> [(''algorithm'', JStr ''sha-256''), (''canonicalization'', JStr (dep_profile D)), (''value'', JStr u)]"

lemma py_eq_JObj: "py_eq x (JObj e) \<longleftrightarrow> (\<exists>d. x = JObj d \<and> length d = length e \<and> py_eq_items d e)"
proof (cases x)
  case (JFloat f)
  then show ?thesis by (cases f) auto
qed auto

lemma py_eq_JNull: "py_eq x JNull \<longleftrightarrow> x = JNull"
proof (cases x)
  case (JFloat f)
  then show ?thesis by (cases f) auto
qed auto

lemma hash_spec_lookup: "map_of (hash_spec D u) k = Some w \<Longrightarrow> k \<in> {''algorithm'', ''canonicalization'', ''value''} \<and> (k = ''value'' \<longrightarrow> w = JStr u)"
  by (simp split: if_splits)

lemma hash_spec_same:
  assumes "json_wf (JObj d)" "py_eq (JObj d) (JObj (hash_spec D u))"
  shows "map_of d = map_of (hash_spec D u)" "length d = 3"
proof -
  have len: "length d = length (hash_spec D u)" and items: "p \<in> set d \<Longrightarrow> \<exists>w. map_of (hash_spec D u) (fst p) = Some w \<and> py_eq (snd p) w" for p
    using assms(2) unfolding py_eq_JObj py_eq_items_iff by blast+
  have wf: "dict_wf d" using assms(1) by simp
  have eq: "map_of (hash_spec D u) (fst p) = Some (snd p)" if "p \<in> set d" for p
    using items[OF that] by (auto split: if_splits)
  have "set (map fst d) \<subseteq> {''algorithm'', ''canonicalization'', ''value''}"
  proof
    fix k assume "k \<in> set (map fst d)"
    then obtain p where "p \<in> set d" "k = fst p" by auto
    then show "k \<in> {''algorithm'', ''canonicalization'', ''value''}" using eq hash_spec_lookup by blast
  qed
  moreover have "card (set (map fst d)) = 3" using wf len distinct_card[of "map fst d"] by (simp add: dict_wf_def)
  moreover have "card {''algorithm'', ''canonicalization'', ''value''} = 3" by simp
  ultimately have keys: "set (map fst d) = {''algorithm'', ''canonicalization'', ''value''}"
    by (intro card_subset_eq) ((rule finite.intros)+, simp_all only:)
  show "map_of d = map_of (hash_spec D u)"
  proof
    fix k
    show "map_of d k = map_of (hash_spec D u) k"
    proof (cases "map_of d k")
      case None
      then have "k \<notin> set (map fst d)" by (simp add: map_of_eq_None_iff)
      then have "k \<noteq> ''algorithm''" "k \<noteq> ''canonicalization''" "k \<noteq> ''value''" unfolding keys by blast+
      then show ?thesis using None by simp
    next
      case (Some v)
      then show ?thesis using eq[OF map_of_SomeD[OF Some]] by simp
    qed
  qed
  show "length d = 3" using len by simp
qed

lemma hash_value:
  assumes "json_wf x" "py_eq x (JObj (hash_spec D u))"
  obtains d where "x = JObj d" "dict_wf d" "map_of d ''value'' = Some (JStr u)"
proof -
  obtain d where d: "x = JObj d" using assms(2) unfolding py_eq_JObj by blast
  show thesis using that[OF d] assms hash_spec_same(1)[of d D u] unfolding d by simp
qed

lemma chain_head:
  "chain D es p \<Longrightarrow> es = [] \<and> p = JNull \<or> es \<noteq> [] \<and> (\<exists>u. compute_entry_hash D (last es) = Inr (hash_spec D u) \<and> p = JObj (hash_spec D u))"
proof (induction rule: chain.induct)
  case (grow es previous entry h)
  then show ?case by (auto simp: entry_valid_def compute_entry_hash_def anchor_hash_spec_def bindR_eq_Inr)
qed simp

lemma compute_entry_hash_value:
  "compute_entry_hash D e = Inr h \<Longrightarrow> \<exists>b. canonicalize_bytes D (JObj (entry_hash_payload e)) = Inr b \<and> h = hash_spec D (hex_of_bytes (dep_sha256 D b))"
  by (auto simp: compute_entry_hash_def anchor_hash_spec_def sha256_hex_def bindR_eq_Inr)

definition hashed_texts :: "deps \<Rightarrow> dict list \<Rightarrow> string set" where
  "hashed_texts D es = {b. \<exists>e \<in> set es. canonicalize_bytes D (JObj (entry_hash_payload e)) = Inr b}"

lemma same_payload:
  assumes "compute_entry_hash D e = Inr h" "compute_entry_hash D f = Inr h" "inj_on (dep_sha256 D) (hashed_texts D es)" "e \<in> set es" "f \<in> set es"
  shows "json_norm (JObj (entry_hash_payload e)) = json_norm (JObj (entry_hash_payload f))"
proof -
  obtain a where a: "canonicalize_bytes D (JObj (entry_hash_payload e)) = Inr a" "h = hash_spec D (hex_of_bytes (dep_sha256 D a))"
    using compute_entry_hash_value[OF assms(1)] by blast
  obtain b where b: "canonicalize_bytes D (JObj (entry_hash_payload f)) = Inr b" "h = hash_spec D (hex_of_bytes (dep_sha256 D b))"
    using compute_entry_hash_value[OF assms(2)] by blast
  have "hex_of_bytes (dep_sha256 D a) = hex_of_bytes (dep_sha256 D b)" using a(2) b(2) by simp
  then have "dep_sha256 D a = dep_sha256 D b" by (simp only: hex_of_bytes_inj)
  moreover have "a \<in> hashed_texts D es" "b \<in> hashed_texts D es" using a(1) b(1) assms(4,5) unfolding hashed_texts_def by blast+
  ultimately have "a = b" using assms(3) by (auto dest: inj_onD)
  with a(1) b(1) show ?thesis by (blast intro: canonicalize_bytes_inj)
qed

lemma same_previous:
  assumes "json_norm (JObj (entry_hash_payload e)) = json_norm (JObj (entry_hash_payload f))" "json_wf (JObj e)" "json_wf (JObj f)"
  shows "json_norm (get_or_null e ''previous_entry_hash'') = json_norm (get_or_null f ''previous_entry_hash'')"
proof -
  have "map_option json_norm (map_of e ''previous_entry_hash'') = map_option json_norm (map_of f ''previous_entry_hash'')"
    using json_norm_lookup[OF _ _ assms(1), of "''previous_entry_hash''"] assms(2,3) by (simp add: payload_wf map_of_payload)
  then show ?thesis by (auto simp: get_or_null_def split: option.splits)
qed

lemma json_wf_get: "json_wf (JObj e) \<Longrightarrow> json_wf (get_or_null e k)"
  by (auto simp: get_or_null_def list_all_iff split: option.split dest!: map_of_SomeD)

lemma json_norm_JNull: "json_norm v = JNull \<longleftrightarrow> v = JNull"
  by (cases v) simp_all

lemma cited_unique:
  assumes "py_eq x (JObj (hash_spec D u))" "py_eq y (JObj (hash_spec D w))" "json_norm x = json_norm y" "json_wf x" "json_wf y"
  shows "u = w"
proof -
  obtain d where d: "x = JObj d" "dict_wf d" "map_of d ''value'' = Some (JStr u)" using hash_value[OF assms(4,1)] .
  obtain e where e: "y = JObj e" "dict_wf e" "map_of e ''value'' = Some (JStr w)" using hash_value[OF assms(5,2)] .
  show ?thesis using json_norm_lookup[OF d(2) e(2), of "''value''"] assms(3) d e by simp
qed

lemma chains_equal:
  assumes "chain D es p" "chain D fs p" "inj_on (dep_sha256 D) (hashed_texts D all)" "set es \<union> set fs \<subseteq> set all"
    "\<forall>e \<in> set all. json_wf (JObj e)"
  shows "map (\<lambda>e. json_norm (JObj (entry_hash_payload e))) es = map (\<lambda>e. json_norm (JObj (entry_hash_payload e))) fs"
  using assms(1,2,4)
proof (induction es arbitrary: fs p rule: rev_induct)
  case Nil
  then show ?case using chain_head[of D "[]" p] chain_head[of D fs p] by auto
next
  case (snoc e es)
  obtain q h where e: "chain D es q" "entry_valid D (int (length es) + 1) q e h" "p = JObj h" using snoc.prems(1) by (auto simp: chain_snoc)
  then have "fs \<noteq> []" using chain_head[OF snoc.prems(2)] by auto
  then obtain fs' f where fs: "fs = fs' @ [f]" by (metis rev_exhaust)
  obtain r where f: "chain D fs' r" "entry_valid D (int (length fs') + 1) r f h" using snoc.prems(2) e(3) by (auto simp: fs chain_snoc)
  have mem: "e \<in> set all" "f \<in> set all" using snoc.prems(3) by (auto simp: fs)
  have wf: "json_wf (JObj e)" "json_wf (JObj f)" using mem assms(5) by auto
  have same: "json_norm (JObj (entry_hash_payload e)) = json_norm (JObj (entry_hash_payload f))"
    using same_payload[OF _ _ assms(3) mem] e(2) f(2) unfolding entry_valid_def by blast
  note prev = same_previous[OF same wf]
  have cites: "py_eq (get_or_null e ''previous_entry_hash'') q" "py_eq (get_or_null f ''previous_entry_hash'') r"
    using e(2) f(2) unfolding entry_valid_def by blast+
  have "q = r"
  proof (cases "q = JNull \<or> r = JNull")
    case True
    then have "get_or_null e ''previous_entry_hash'' = JNull" "get_or_null f ''previous_entry_hash'' = JNull"
      using cites prev by (auto simp: py_eq_JNull json_norm_JNull eq_commute[of JNull])
    then show ?thesis using cites by simp
  next
    case False
    then obtain u w where "q = JObj (hash_spec D u)" "r = JObj (hash_spec D w)"
      using chain_head[OF e(1)] chain_head[OF f(1)] by blast
    with cited_unique[OF _ _ prev json_wf_get[OF wf(1)] json_wf_get[OF wf(2)]] cites show ?thesis by blast
  qed
  then have "map (\<lambda>e. json_norm (JObj (entry_hash_payload e))) es = map (\<lambda>e. json_norm (JObj (entry_hash_payload e))) fs'"
    using snoc.IH[OF e(1)] f(1) snoc.prems(3) by (auto simp: fs)
  with same show ?case by (simp add: fs)
qed

section \<open>Appending\<close>

lemma py_eq_list_map: "(\<And>x. x \<in> set xs \<Longrightarrow> py_eq (f x) x) \<Longrightarrow> py_eq_list (map f xs) xs"
  by (induction xs) auto

lemma py_eq_norm: "json_plain v \<Longrightarrow> json_wf v \<Longrightarrow> py_eq (json_norm v) v"
proof (induction v rule: json_norm.induct)
  case (1 xs)
  then show ?case by (auto simp: list_all_iff intro!: py_eq_list_map)
next
  case (3 d)
  have "\<exists>w. map_of d (fst p) = Some w \<and> py_eq (snd p) w" if p: "p \<in> set (sort_key fst (map (\<lambda>p. (fst p, json_norm (snd p))) d))" for p
  proof -
    obtain q where q: "q \<in> set d" "p = (fst q, json_norm (snd q))" using p by auto
    then have "map_of d (fst q) = Some (snd q)" using 3 by (auto simp: dict_wf_def)
    moreover have "py_eq (json_norm (snd q)) (snd q)" using 3 q(1) by (auto simp: list_all_iff)
    ultimately show ?thesis using q(2) by simp
  qed
  then show ?case by (simp add: py_eq_items_iff)
qed simp_all

lemma py_strip_line:
  assumes "d \<noteq> []"
  shows "py_strip (encode (JObj d)) = encode (JObj d)"
proof -
  obtain s where s: "join_with '','' (map (\<lambda>p. quote_string (fst p) @ '':'' @ encode (snd p)) d) = CHR 0x22 # s"
    using assms by (cases d rule: list.exhaust; cases "tl d") (auto simp: quote_string_def)
  show ?thesis unfolding encode.simps s using py_strip_visible[of "CHR ''{''" "CHR ''}''" "CHR 0x22 # s"]
    by (simp add: is_continuation_def)
qed

lemma read_lines_snoc:
  assumes "read_lines D parse n ls = Inr es" "d \<noteq> []" "load_line parse (encode (JObj d)) = Inr (JObj d)"
  shows "read_lines D parse n (ls @ [encode (JObj d)]) = Inr (es @ [d])"
  using assms(1)
proof (induction ls arbitrary: n es)
  case Nil
  have "encode (JObj d) \<noteq> []" by simp
  then show ?case using Nil assms(2,3) by (simp add: py_strip_line del: encode.simps)
next
  case (Cons l ls)
  then show ?case by (auto simp: bindR_eq_Inr split: if_splits sum.splits json.splits)
qed

section \<open>What an appended entry proves\<close>

lemma json_wf_norm: "json_wf v \<Longrightarrow> json_wf (json_norm v)"
  by (induction v rule: json_norm.induct) (auto simp: list_all_iff dict_wf_def distinct_map_sort_fst comp_def)

lemma expect_string_norm: "expect_string (json_norm v) f = expect_string v f"
  by (cases v) (simp_all add: expect_string_def)

lemma normalize_norm: "dict_wf d \<Longrightarrow> normalize_artifact_digest (JObj (stored d)) = normalize_artifact_digest (JObj d)"
  by (simp add: normalize_artifact_digest_def stored_get expect_string_norm json_norm_JNull cong: if_cong)

lemma normalize_artifact_digest_cases:
  assumes "normalize_artifact_digest raw = Inr d"
  obtains a v where "a \<noteq> []" "v \<noteq> []" "d = [(''algorithm'', JStr a), (''value'', JStr v)]"
  | a v c where "a \<noteq> []" "v \<noteq> []" "c \<noteq> []" "d = [(''algorithm'', JStr a), (''value'', JStr v), (''canonicalization'', JStr c)]"
proof -
  obtain x a v where av: "expect_string (get_or_null x ''algorithm'') ''artifact_digest.algorithm'' = Inr a"
    "expect_string (get_or_null x ''value'') ''artifact_digest.value'' = Inr v"
    and rest: "(if get_or_null x ''canonicalization'' = JNull then Inr [(''algorithm'', JStr a), (''value'', JStr v)]
      else bindR (expect_string (get_or_null x ''canonicalization'') ''artifact_digest.canonicalization'')
        (\<lambda>c. Inr [(''algorithm'', JStr a), (''value'', JStr v), (''canonicalization'', JStr c)])) = Inr d"
    using assms unfolding normalize_artifact_digest_def by (elim bindR_eq_InrE)
  have ne: "a \<noteq> []" "v \<noteq> []" using av unfolding expect_string_Inr by simp_all
  show thesis
  proof (cases "get_or_null x ''canonicalization'' = JNull")
    case True
    then show ?thesis using rest that(1)[OF ne] by simp
  next
    case False
    then obtain c where "c \<noteq> []" "d = [(''algorithm'', JStr a), (''value'', JStr v), (''canonicalization'', JStr c)]"
      using rest by (auto simp: bindR_eq_Inr expect_string_Inr)
    then show ?thesis using that(2)[OF ne] by blast
  qed
qed

lemma normalized_digest:
  assumes "normalize_artifact_digest raw = Inr d"
  shows "normalize_artifact_digest (JObj d) = Inr d" "json_wf (JObj d)"
  using assms
  by (cases rule: normalize_artifact_digest_cases; simp add: normalize_artifact_digest_def expect_string_def dict_wf_def)+

lemma normalized_matches: "normalize_artifact_digest raw = Inr d \<Longrightarrow> artifact_digests_match (JObj d) raw = Inr True"
  by (simp add: artifact_digests_match_def normalized_digest)

lemma entry_anchor_lookups:
  assumes "map_of e ''anchor_id'' = Some (JStr i)" "map_of e ''anchor_type'' = Some (JStr ty)"
    "map_of e ''artifact_digest'' = Some g" "normalize_artifact_digest g = Inr d"
    "map_of e ''anchored_at'' = Some (JStr (format_timestamp t))" "dt_ok t"
    "map_of e ''log_uri'' = Some (JStr u)" "map_of e ''sequence'' = Some (JInt n)" "map_of e ''entry_hash'' = Some (JObj h)"
    "get_or_null e ''previous_entry_hash'' = (case p of None \<Rightarrow> JNull | Some d \<Rightarrow> JObj d)"
    "get_or_null e ''artifact_type'' = (case aty of None \<Rightarrow> JNull | Some s \<Rightarrow> JStr s)"
    "get_or_null e ''artifact_id'' = (case ai of None \<Rightarrow> JNull | Some s \<Rightarrow> JStr s)"
    "get_or_null e ''metadata'' = (if m = [] then JNull else JObj m)"
  shows "entry_anchor T e = Inr \<lparr>xa_anchor_id = i, xa_anchor_type = ty, xa_artifact_digest = d, xa_anchored_at = t,
    xa_log_uri = u, xa_sequence = JInt n, xa_entry_hash = h, xa_previous_entry_hash = p, xa_artifact_type = aty, xa_artifact_id = ai,
    xa_metadata = m\<rparr>"
  using assms unfolding entry_anchor_def py_index_def
  by (cases p; cases aty; cases ai; cases "m = []") (simp_all add: parse_format_timestamp text_or_none_def)

lemma hash_spec_norm:
  assumes "json_wf x" "py_eq x (JObj (hash_spec D u))"
  shows "py_eq (json_norm x) (JObj (hash_spec D u))"
proof -
  obtain d where d: "x = JObj d" "length d = length (hash_spec D u)" "py_eq_items d (hash_spec D u)"
    using assms(2) unfolding py_eq_JObj by blast
  have items: "\<exists>w. map_of (hash_spec D u) (fst p) = Some w \<and> py_eq (snd p) w" if "p \<in> set d" for p
    using d(3) that unfolding py_eq_items_iff by blast
  have "json_norm (snd p) = snd p" if "p \<in> set d" for p
    using items[OF that] by (auto split: if_splits)
  then have "set (stored d) = set d" unfolding stored_def by (auto simp: image_iff)
  then have "py_eq_items (stored d) (hash_spec D u)" using d(3) unfolding py_eq_items_iff by simp
  then show ?thesis unfolding d(1) json_norm_stored py_eq_JObj using d(2) by (simp add: stored_def)
qed

lemma new_entry_keys: "dict_wf (new_entry uuid d ty i t m u es p @ [(''entry_hash'', h)])"
  by (simp add: new_entry_def dict_wf_def split: option.split)

lemma new_entry_payload: "entry_hash_payload (new_entry uuid d ty i t m u es p @ [(''entry_hash'', h)]) = new_entry uuid d ty i t m u es p"
  by (simp add: new_entry_def entry_hash_payload_def split: option.split)

lemma new_entry_unhashed: "entry_hash_payload (new_entry uuid d ty i t m u es p) = new_entry uuid d ty i t m u es p"
  by (simp add: new_entry_def entry_hash_payload_def split: option.split)

lemma new_entry_lookup:
  assumes "e = new_entry uuid d ty i t m u es p @ [(''entry_hash'', h)]"
  shows "map_of e ''contract'' = Some (JObj LOCAL_ANCHOR_LOG_ENTRY_CONTRACT)"
    "map_of e ''anchor_id'' = Some (JStr (''anc_local_'' @ uuid))" "map_of e ''anchor_type'' = Some (JStr ''local_append_only_log'')"
    "map_of e ''artifact_digest'' = Some (JObj d)" "map_of e ''anchored_at'' = Some (JStr (format_timestamp t))"
    "map_of e ''log_uri'' = Some (JStr u)" "map_of e ''sequence'' = Some (JInt (int (length es) + 1))"
    "map_of e ''previous_entry_hash'' = Some p" "map_of e ''entry_hash'' = Some h"
    "get_or_null e ''artifact_type'' = (case ty of None \<Rightarrow> JNull | Some s \<Rightarrow> JStr s)"
    "get_or_null e ''artifact_id'' = (case i of None \<Rightarrow> JNull | Some s \<Rightarrow> JStr s)"
    "get_or_null e ''metadata'' = (if m = [] then JNull else JObj m)"
  by (simp_all add: assms new_entry_def get_or_null_def split: option.split)

lemma appended_entryD:
  assumes "appended_entry D parse uuid g ty i t m L = Inr e"
  obtains d es p h where "normalize_artifact_digest g = Inr d" "read_entries D parse L = Inr es"
    "(if es = [] then Inr JNull else py_index (last es) ''entry_hash'') = Inr p"
    "e = new_entry uuid d ty i t m (al_uri L) es p @ [(''entry_hash'', JObj h)]"
    "compute_entry_hash D e = Inr h"
proof -
  obtain d es p h where "normalize_artifact_digest g = Inr d" "read_entries D parse L = Inr es"
    "(if es = [] then Inr JNull else py_index (last es) ''entry_hash'') = Inr p"
    and h: "compute_entry_hash D (new_entry uuid d ty i t m (al_uri L) es p) = Inr h"
    and e: "Inr (new_entry uuid d ty i t m (al_uri L) es p @ [(''entry_hash'', JObj h)]) = (Inr e :: dict res)"
    using assms unfolding appended_entry_def Let_def by (elim bindR_eq_InrE)
  moreover have "compute_entry_hash D e = Inr h"
    using h e by (auto simp: compute_entry_hash_def new_entry_payload new_entry_unhashed)
  moreover have "e = new_entry uuid d ty i t m (al_uri L) es p @ [(''entry_hash'', JObj h)]" using e by simp
  ultimately show thesis using that by blast
qed

lemma read_entries_chain: "read_entries D parse L = Inr es \<longleftrightarrow> read_lines D parse 1 (al_lines L) = Inr es \<and> (\<exists>p. chain D es p)"
  by (auto simp: read_entries_def bindR_eq_Inr validate_chain_iff[symmetric])

lemma load_line_wf: "load_line parse line = Inr v \<Longrightarrow> json_wf v"
  unfolding load_line_def loads_no_duplicate_keys_def
  by (auto elim!: bindR_eq_InrE simp: bindR_eq_Inr split: if_splits sum.splits exn.splits pyclass.splits dest: apply_hook_wf)

lemma read_lines_wf: "read_lines D parse n ls = Inr es \<Longrightarrow> e \<in> set es \<Longrightarrow> json_wf (JObj e)"
proof (induction D parse n ls arbitrary: es rule: read_lines.induct)
  case (2 D parse n l ls)
  then show ?case by (fastforce simp: bindR_eq_Inr dest: load_line_wf split: if_splits sum.splits json.splits)
qed simp

lemma read_entries_wf: "read_entries D parse L = Inr es \<Longrightarrow> \<forall>e \<in> set es. json_wf (JObj e)"
  using read_lines_wf unfolding read_entries_chain by blast

lemma hash_spec_plain:
  assumes "json_wf (JObj d)" "py_eq (JObj d) (JObj (hash_spec D u))"
  shows "json_plain (JObj d)"
proof -
  have "json_plain (snd p)" if "p \<in> set d" for p
  proof -
    have "\<exists>w. map_of (hash_spec D u) (fst p) = Some w \<and> py_eq (snd p) w"
      using assms(2) that unfolding py_eq_JObj py_eq_items_iff by blast
    then show ?thesis by (auto split: if_splits)
  qed
  then show ?thesis by (simp add: list_all_iff)
qed

lemma chain_cites:
  assumes "chain D es q" "(if es = [] then Inr JNull else py_index (last es) ''entry_hash'') = Inr p"
    "\<forall>e \<in> set es. json_wf (JObj e)"
  shows "py_eq (json_norm p) q" "json_wf p" "p = JNull \<or> (\<exists>d. p = JObj d)" "json_plain p" "py_eq p q"
proof (atomize(full), cases "es = []")
  case True
  then show "(py_eq (json_norm p) q \<and> json_wf p) \<and> (p = JNull \<or> (\<exists>d. p = JObj d)) \<and> json_plain p \<and> py_eq p q" using assms chain_head[OF assms(1)] by simp
next
  case False
  then obtain fs f where es: "es = fs @ [f]" by (metis rev_exhaust)
  obtain r h where h: "entry_valid D (int (length fs) + 1) r f h" "q = JObj h" using assms(1) by (auto simp: es chain_snoc)
  obtain u where u: "q = JObj (hash_spec D u)" using chain_head[OF assms(1)] False by blast
  have p: "get_or_null f ''entry_hash'' = p" using assms(2) by (auto simp: es py_index_def get_or_null_def split: option.splits)
  then have eq: "py_eq p (JObj (hash_spec D u))" using h u unfolding entry_valid_def by auto
  have wf: "json_wf p" using json_wf_get[of f "''entry_hash''"] assms(3) p by (auto simp: es)
  show "(py_eq (json_norm p) q \<and> json_wf p) \<and> (p = JNull \<or> (\<exists>d. p = JObj d)) \<and> json_plain p \<and> py_eq p q"
    using hash_spec_norm[OF wf eq] wf hash_value[OF wf eq] hash_spec_plain[of _ D u] eq unfolding u by metis
qed

lemma appended_entry_valid:
  assumes e: "e = new_entry uuid d ty i t m u es p @ [(''entry_hash'', JObj h)]" and h: "compute_entry_hash D e = Inr h"
    and p: "py_eq (json_norm p) q"
  shows "entry_valid D (int (length es) + 1) q (stored e) h"
proof -
  have wf: "dict_wf e" unfolding e by (rule new_entry_keys)
  note get = stored_get[OF wf] get_or_null_def[of e] new_entry_lookup[OF e]
  obtain w where w: "h = hash_spec D w" using compute_entry_hash_value[OF h] by blast
  have "py_eq (json_norm (JObj h)) (JObj h)" unfolding w by (rule py_eq_norm) (simp_all add: dict_wf_def)
  moreover have "py_eq (json_norm (JObj LOCAL_ANCHOR_LOG_ENTRY_CONTRACT)) (JObj LOCAL_ANCHOR_LOG_ENTRY_CONTRACT)"
    by (rule py_eq_norm) (simp_all add: dict_wf_def LOCAL_ANCHOR_LOG_ENTRY_CONTRACT_def)
  ultimately show ?thesis using p compute_entry_hash_stored[OF h] unfolding entry_valid_def
    by (simp add: get del: json_norm.simps(3))
qed

lemma append_entry_read:
  assumes "appended_entry D parse uuid g ty i t m L = Inr e" "load_line parse (encode (json_norm (JObj e))) = Inr (json_norm (JObj e))"
    "read_entries D parse L = Inr es" "\<forall>e \<in> set es. json_wf (JObj e)"
  shows "read_entries D parse (append_entry e L) = Inr (es @ [stored e])"
proof -
  obtain d p h where e: "e = new_entry uuid d ty i t m (al_uri L) es p @ [(''entry_hash'', JObj h)]" "compute_entry_hash D e = Inr h"
    and p: "(if es = [] then Inr JNull else py_index (last es) ''entry_hash'') = Inr p"
    using assms(1,3) by (elim appended_entryD) (metis Inr_inject)
  obtain q where q: "chain D es q" "read_lines D parse 1 (al_lines L) = Inr es" using assms(3) unfolding read_entries_chain by blast
  have "chain D (es @ [stored e]) (JObj h)"
    using chain.grow[OF q(1) appended_entry_valid[OF e chain_cites(1)[OF q(1) p assms(4)]]] .
  moreover have "stored e \<noteq> []" unfolding e(1) stored_def by (simp add: set_empty[symmetric] del: set_empty)
  ultimately show ?thesis using read_lines_snoc[OF q(2)] assms(2) unfolding json_norm_stored read_entries_chain append_entry_def by auto
qed

lemma written_anchor:
  assumes e: "e = new_entry uuid d ty i t m u es p @ [(''entry_hash'', JObj h)]" and "normalize_artifact_digest g = Inr d"
    and "dt_ok t" "p = JNull \<or> (\<exists>x. p = JObj x)"
  shows "entry_anchor T e = Inr \<lparr>xa_anchor_id = ''anc_local_'' @ uuid, xa_anchor_type = ''local_append_only_log'', xa_artifact_digest = d,
      xa_anchored_at = t, xa_log_uri = u, xa_sequence = JInt (int (length es) + 1), xa_entry_hash = h,
      xa_previous_entry_hash = (case p of JObj x \<Rightarrow> Some x | _ \<Rightarrow> None), xa_artifact_type = ty, xa_artifact_id = i, xa_metadata = m\<rparr>"
    and "entry_anchor T (stored e) = Inr \<lparr>xa_anchor_id = ''anc_local_'' @ uuid, xa_anchor_type = ''local_append_only_log'', xa_artifact_digest = d,
      xa_anchored_at = t, xa_log_uri = u, xa_sequence = JInt (int (length es) + 1), xa_entry_hash = stored h,
      xa_previous_entry_hash = (case p of JObj x \<Rightarrow> Some (stored x) | _ \<Rightarrow> None), xa_artifact_type = ty, xa_artifact_id = i,
      xa_metadata = stored m\<rparr>"
proof -
  have wf: "dict_wf e" unfolding e by (rule new_entry_keys)
  have d: "normalize_artifact_digest (JObj d) = Inr d" "dict_wf d" using normalized_digest[OF assms(2)] by simp_all
  note look = new_entry_lookup[OF e]
  have prev: "get_or_null e ''previous_entry_hash'' = p" by (simp add: get_or_null_def look)
  have m: "stored m = [] \<longleftrightarrow> m = []" by (simp add: stored_def set_empty[symmetric] del: set_empty)
  show "entry_anchor T e = Inr \<lparr>xa_anchor_id = ''anc_local_'' @ uuid, xa_anchor_type = ''local_append_only_log'', xa_artifact_digest = d,
      xa_anchored_at = t, xa_log_uri = u, xa_sequence = JInt (int (length es) + 1), xa_entry_hash = h,
      xa_previous_entry_hash = (case p of JObj x \<Rightarrow> Some x | _ \<Rightarrow> None), xa_artifact_type = ty, xa_artifact_id = i, xa_metadata = m\<rparr>"
    by (rule entry_anchor_lookups[OF look(2,3,4) d(1) look(5) assms(3) look(6,7,9)]) (use assms(4) prev look(10,11,12) in auto)
  show "entry_anchor T (stored e) = Inr \<lparr>xa_anchor_id = ''anc_local_'' @ uuid, xa_anchor_type = ''local_append_only_log'', xa_artifact_digest = d,
      xa_anchored_at = t, xa_log_uri = u, xa_sequence = JInt (int (length es) + 1), xa_entry_hash = stored h,
      xa_previous_entry_hash = (case p of JObj x \<Rightarrow> Some (stored x) | _ \<Rightarrow> None), xa_artifact_type = ty, xa_artifact_id = i,
      xa_metadata = stored m\<rparr>"
    by (rule entry_anchor_lookups[where g = "JObj (stored d)"])
      (use assms(3,4) d prev look m in \<open>auto simp: stored_lookup[OF wf] stored_get[OF wf] normalize_norm json_norm_stored split: option.split simp del: json_norm.simps(3)\<close>)
qed

lemma dict_eq_stored: "json_plain (JObj x) \<Longrightarrow> json_wf (JObj x) \<Longrightarrow> dict_eq (stored x) x"
  unfolding dict_eq_def json_norm_stored[symmetric] by (rule py_eq_norm)

lemma digest_eq_refl: "normalize_artifact_digest raw = Inr d \<Longrightarrow> dict_eq d d"
  by (erule normalize_artifact_digest_cases; hypsubst; simp add: dict_eq_def)

lemma appended_anchor:
  assumes "appended_entry D parse uuid g ty i t m L = Inr e" "read_entries D parse L = Inr es" "\<forall>e \<in> set es. json_wf (JObj e)"
    "dt_ok t" "json_plain (JObj m)" "json_wf (JObj m)"
  obtains a b where "entry_anchor T e = Inr a" "entry_anchor T (stored e) = Inr b" "same_anchor b a"
    "xa_anchor_type a = ''local_append_only_log''" "xa_log_uri a = al_uri L" "xa_sequence a = JInt (int (length es) + 1)"
    "xa_anchored_at a = t" "artifact_digests_match (JObj (xa_artifact_digest a)) g = Inr True"
proof -
  obtain d es' p h where d: "normalize_artifact_digest g = Inr d" and es': "read_entries D parse L = Inr es'"
    and p': "(if es' = [] then Inr JNull else py_index (last es') ''entry_hash'') = Inr p"
    and e': "e = new_entry uuid d ty i t m (al_uri L) es' p @ [(''entry_hash'', JObj h)]" and h: "compute_entry_hash D e = Inr h"
    using assms(1) by (rule appended_entryD)
  have "es' = es" using es' assms(2) by simp
  note p = p'[unfolded this] and e = e'[unfolded this]
  obtain q where q: "chain D es q" using assms(2) unfolding read_entries_chain by blast
  note cites = chain_cites[OF q p assms(3)]
  note an = written_anchor[OF e d assms(4) cites(3), of T]
  obtain w where w: "h = hash_spec D w" using compute_entry_hash_value[OF h] by blast
  have h_eq: "dict_eq (stored h) h" unfolding w by (rule dict_eq_stored) (simp_all add: dict_wf_def)
  have p_eq: "dict_eq (stored x) x" if x: "p = JObj x" for x
    using dict_eq_stored[of x] cites(2,4) unfolding x by simp
  show thesis
    by (rule that[OF an]) (use h_eq p_eq digest_eq_refl[OF d] dict_eq_stored[OF assms(5,6)] cites(3) normalized_matches[OF d]
      in \<open>auto simp: same_anchor_def\<close>)
qed

lemma guard_InrE: "(if c then Inl e else r) = Inr x \<Longrightarrow> (\<not> c \<Longrightarrow> r = Inr x \<Longrightarrow> P) \<Longrightarrow> P"
  by (simp split: if_splits)

lemma verify_external_anchor_step:
  "verify_external_anchor D T parse L a g = Inr t \<longleftrightarrow> (\<exists>x es entry b. resolve_anchor a = Inr x \<and> xa_anchor_type x = ''local_append_only_log'' \<and>
     xa_log_uri x = al_uri L \<and> artifact_digests_match (JObj (xa_artifact_digest x)) g = Inr True \<and> read_entries D parse L = Inr es \<and>
     sequence_number (xa_sequence x) \<le> int (length es) \<and> entry_at es (sequence_number (xa_sequence x) - 1) = Inr entry \<and>
     entry_anchor T entry = Inr b \<and> same_anchor b x \<and> t = xa_anchored_at x)"
  (is "?L \<longleftrightarrow> ?R")
proof
  assume ?L
  then show ?R unfolding verify_external_anchor_def
    by (elim bindR_eq_InrE guard_InrE) (simp only: not_not not_less sum.inject, blast)
next
  assume ?R
  then show ?L unfolding verify_external_anchor_def by (elim exE conjE) simp
qed

lemma entry_at_append: "0 \<le> k \<Longrightarrow> entry_at es k = Inr e \<Longrightarrow> entry_at (es @ fs) k = Inr e"
  by (auto simp: entry_at_def Let_def nth_append split: if_splits)

lemma parsed_sequence_positive:
  assumes "external_anchor_from_dict v = Inr x"
  shows "0 < sequence_number (xa_sequence x)"
proof -
  obtain raw where "parse_positive_sequence raw = Inr (xa_sequence x)"
    using assms unfolding external_anchor_from_dict_def
    by (elim bindR_eq_InrE guard_InrE) (simp only: sum.inject, hypsubst, simp)
  then show ?thesis by (auto simp: parse_positive_sequence_def sequence_number_def split: json.splits if_splits)
qed

lemma anchor_artifact_digest_appends:
  "appended_entry D parse uuid g ty i t m L = Inr e \<Longrightarrow>
   anchor_artifact_digest D T parse uuid g ty i t m L = (entry_anchor T e, append_entry e L)"
  by (simp add: anchor_artifact_digest_def)

lemma verify_after_append:
  assumes "read_entries D parse L = Inr es" "read_entries D parse L' = Inr (es @ fs)" "al_uri L' = al_uri L"
    "verify_external_anchor D T parse L (AnchorValue v) d = Inr s"
  shows "verify_external_anchor D T parse L' (AnchorValue v) d = Inr s"
proof -
  obtain x entry b where x: "external_anchor_from_dict v = Inr x" "xa_anchor_type x = ''local_append_only_log''" "xa_log_uri x = al_uri L"
      "artifact_digests_match (JObj (xa_artifact_digest x)) d = Inr True" "sequence_number (xa_sequence x) \<le> int (length es)"
      "entry_at es (sequence_number (xa_sequence x) - 1) = Inr entry" "entry_anchor T entry = Inr b" "same_anchor b x" "s = xa_anchored_at x"
    using assms(1,4) unfolding verify_external_anchor_step by auto
  have "entry_at (es @ fs) (sequence_number (xa_sequence x) - 1) = Inr entry"
    using entry_at_append[OF _ x(6)] parsed_sequence_positive[OF x(1)] by simp
  then show ?thesis unfolding verify_external_anchor_step using x assms(2,3) by auto
qed

lemma dict_eq_lookup:
  assumes "length d = length e" "\<And>k v. (k, v) \<in> set d \<Longrightarrow> \<exists>s. v = JStr s \<and> map_of e k = Some (JStr s)"
  shows "dict_eq d e"
  unfolding dict_eq_def py_eq_JObj py_eq_items_iff using assms by fastforce

definition parsed_hash :: "deps \<Rightarrow> string \<Rightarrow> dict" where
  "parsed_hash D u = [(''algorithm'', JStr ''sha-256''), (''value'', JStr u), (''canonicalization'', JStr (dep_profile D))]"

lemma anchor_hash_parsed:
  assumes "json_wf (JObj d)" "py_eq (JObj d) (JObj (hash_spec D u))" "u \<noteq> []" "dep_profile D \<noteq> []"
  shows "parse_anchor_hash (JObj d) f = Inr (parsed_hash D u)" "dict_eq (stored d) (parsed_hash D u)"
proof -
  note same = hash_spec_same[OF assms(1,2)]
  show "parse_anchor_hash (JObj d) f = Inr (parsed_hash D u)"
    using assms(3,4) by (simp add: parse_anchor_hash_def get_or_null_def same expect_string_def parsed_hash_def)
  have wf: "dict_wf d" using assms(1) by simp
  show "dict_eq (stored d) (parsed_hash D u)"
  proof (rule dict_eq_lookup)
    show "length (stored d) = length (parsed_hash D u)" using same(2) by (simp add: stored_def parsed_hash_def)
    fix k v assume "(k, v) \<in> set (stored d)"
    then obtain w where w: "(k, w) \<in> set d" "v = json_norm w" by (auto simp: stored_def)
    then have "map_of d k = Some w" using wf by (simp add: dict_wf_def)
    then show "\<exists>s. v = JStr s \<and> map_of (parsed_hash D u) k = Some (JStr s)"
      using w(2) unfolding same by (auto simp: parsed_hash_def split: if_splits)
  qed
qed

lemma hex_nonempty: "b \<noteq> [] \<Longrightarrow> hex_of_bytes b \<noteq> []" using length_hex_of_bytes[of b] by (cases b) auto

lemma previous_parsed:
  assumes "chain D es q" "(if es = [] then Inr JNull else py_index (last es) ''entry_hash'') = Inr p" "\<forall>e \<in> set es. json_wf (JObj e)"
    "dep_profile D \<noteq> []" "\<And>b. dep_sha256 D b \<noteq> []"
  shows "p = JNull \<or> (\<exists>x w. p = JObj x \<and> dict_eq (stored x) w \<and> parse_anchor_hash (JObj x) f = Inr w)"
proof (cases "p = JNull")
  case False
  then obtain x where x: "p = JObj x" using chain_cites(3)[OF assms(1-3)] by blast
  have wf: "json_wf (JObj x)" and eq: "py_eq (JObj x) q" using chain_cites(2,5)[OF assms(1-3)] by (simp_all only: x)
  have "es \<noteq> []" using assms(2) x by auto
  then obtain u where u: "compute_entry_hash D (last es) = Inr (hash_spec D u)" "q = JObj (hash_spec D u)" using chain_head[OF assms(1)] by blast
  have "u \<noteq> []" using compute_entry_hash_value[OF u(1)] assms(5) hex_nonempty by auto
  then show ?thesis using anchor_hash_parsed[OF wf eq[unfolded u(2)] _ assms(4)] x by blast
qed simp

lemma serialized_anchor:
  assumes e: "e = new_entry uuid d ty i t m (al_uri L) es p @ [(''entry_hash'', JObj h)]" and h: "compute_entry_hash D e = Inr h"
    and d: "normalize_artifact_digest g = Inr d" and t: "dt_ok t" and m: "json_plain (JObj m)" "json_wf (JObj m)"
    and q: "chain D es q" and p: "(if es = [] then Inr JNull else py_index (last es) ''entry_hash'') = Inr p" and wf: "\<forall>e \<in> set es. json_wf (JObj e)"
    and ne: "al_uri L \<noteq> []" "dep_profile D \<noteq> []" "\<And>b. dep_sha256 D b \<noteq> []"
    and a: "entry_anchor T e = Inr a"
  obtains b y where "external_anchor_from_dict (JObj (external_anchor_to_dict a)) = Inr y" "entry_anchor T (stored e) = Inr b" "same_anchor b y"
    "xa_anchor_type y = ''local_append_only_log''" "xa_log_uri y = al_uri L" "xa_sequence y = JInt (int (length es) + 1)"
    "xa_anchored_at y = t" "xa_artifact_digest y = d"
proof -
  note cites = chain_cites[OF q p wf]
  note an = written_anchor[OF e d t cites(3), of T]
  obtain u where u: "h = hash_spec D u" "u \<noteq> []" using compute_entry_hash_value[OF h] ne(3) hex_nonempty by blast
  have hh: "json_wf (JObj h)" "py_eq (JObj h) (JObj (hash_spec D u))" by (simp_all add: u(1) dict_wf_def)
  note ph = anchor_hash_parsed[OF hh u(2) ne(2)]
  obtain previous where prev: "p = JNull \<and> previous = None \<or> (\<exists>x w. p = JObj x \<and> previous = Some w \<and> dict_eq (stored x) w \<and>
      parse_anchor_hash (JObj x) ''external_anchor.previous_entry_hash'' = Inr w)"
    using previous_parsed[OF q p wf ne(2,3)] by blast
  define y where "y = a\<lparr>xa_entry_hash := parsed_hash D u, xa_previous_entry_hash := previous\<rparr>"
  have a_eq: "a = \<lparr>xa_anchor_id = ''anc_local_'' @ uuid, xa_anchor_type = ''local_append_only_log'', xa_artifact_digest = d,
      xa_anchored_at = t, xa_log_uri = al_uri L, xa_sequence = JInt (int (length es) + 1), xa_entry_hash = h,
      xa_previous_entry_hash = (case p of JObj x \<Rightarrow> Some x | _ \<Rightarrow> None), xa_artifact_type = ty, xa_artifact_id = i, xa_metadata = m\<rparr>"
    using an(1) a by simp
  have y1: "external_anchor_from_dict (JObj (external_anchor_to_dict a)) = Inr y"
    using prev t ne(1) ph(1) normalized_digest(1)[OF d] unfolding external_anchor_from_dict_def external_anchor_to_dict_def
    by (cases ty; cases i; cases "m = []")
      (auto simp: y_def a_eq EXTERNAL_ANCHOR_CONTRACT_def expect_string_def parse_format_timestamp parse_positive_sequence_def text_or_none_def)
  have y2: "same_anchor (\<lparr>xa_anchor_id = ''anc_local_'' @ uuid, xa_anchor_type = ''local_append_only_log'', xa_artifact_digest = d,
      xa_anchored_at = t, xa_log_uri = al_uri L, xa_sequence = JInt (int (length es) + 1), xa_entry_hash = stored h,
      xa_previous_entry_hash = (case p of JObj x \<Rightarrow> Some (stored x) | _ \<Rightarrow> None), xa_artifact_type = ty, xa_artifact_id = i,
      xa_metadata = stored m\<rparr>) y"
    using prev ph(2) digest_eq_refl[OF d] dict_eq_stored[OF m] by (auto simp: y_def a_eq same_anchor_def)
  show thesis by (rule that[OF y1 an(2) y2]) (simp_all add: y_def a_eq)
qed

lemma serialized_anchor_verifies:
  assumes "appended_entry D parse uuid g ty i t m L = Inr e" "load_line parse (encode (json_norm (JObj e))) = Inr (json_norm (JObj e))"
    "read_entries D parse L = Inr es" "\<forall>e \<in> set es. json_wf (JObj e)" "dt_ok t" "json_plain (JObj m)" "json_wf (JObj m)"
    "al_uri L \<noteq> []" "dep_profile D \<noteq> []" "\<And>b. dep_sha256 D b \<noteq> []" "entry_anchor T e = Inr a"
  shows "verify_external_anchor D T parse (append_entry e L) (AnchorValue (JObj (external_anchor_to_dict a))) g = Inr t"
proof -
  obtain d es' p' h where d: "normalize_artifact_digest g = Inr d" and es': "read_entries D parse L = Inr es'"
    and p': "(if es' = [] then Inr JNull else py_index (last es') ''entry_hash'') = Inr p'"
    and e': "e = new_entry uuid d ty i t m (al_uri L) es' p' @ [(''entry_hash'', JObj h)]" and h: "compute_entry_hash D e = Inr h"
    using assms(1) by (rule appended_entryD)
  have "es' = es" using es' assms(3) by simp
  note p = p'[unfolded this] and e = e'[unfolded this]
  obtain q where q: "chain D es q" using assms(3) unfolding read_entries_chain by blast
  obtain b y where y: "external_anchor_from_dict (JObj (external_anchor_to_dict a)) = Inr y" "entry_anchor T (stored e) = Inr b" "same_anchor b y"
    "xa_anchor_type y = ''local_append_only_log''" "xa_log_uri y = al_uri L" "xa_sequence y = JInt (int (length es) + 1)"
    "xa_anchored_at y = t" "xa_artifact_digest y = d"
    using serialized_anchor[OF e h d assms(5-7) q p assms(4,8-11)] .
  have "entry_at (es @ [stored e]) (int (length es)) = Inr (stored e)" by (simp add: entry_at_def Let_def)
  moreover have "al_uri (append_entry e L) = al_uri L" by (simp add: append_entry_def)
  ultimately show ?thesis unfolding verify_external_anchor_step
    using y append_entry_read[OF assms(1-4)] normalized_matches[OF d] by (simp add: sequence_number_def)
qed

section \<open>Lines that can be read again\<close>

text \<open>The line of an entry is within the limits of the loader.\<close>

definition line_fits :: "dict \<Rightarrow> bool" where
  "line_fits e \<longleftrightarrow> int (length (encode (json_norm (JObj e)))) \<le> DEFAULT_MAX_JSON_BYTES \<and> int (json_depth (JObj e)) \<le> DEFAULT_MAX_JSON_DEPTH"

lemma load_line_fits:
  assumes "json_clean (JObj e)" "json_wf (JObj e)" "line_fits e" "parse (encode (json_norm (JObj e))) = Inr (json_norm (JObj e))"
  shows "load_line parse (encode (json_norm (JObj e))) = Inr (json_norm (JObj e))"
proof -
  let ?v = "json_norm (JObj e)"
  have "\<not> has_surrogate (encode ?v)" using assms(1) unfolding json_clean_norm[symmetric, of "JObj e"] by (rule encode_clean)
  moreover have "apply_hook ?v = Inr ?v" using assms(2) by (intro apply_hook_id json_wf_norm)
  moreover have "validate_json_depth DEFAULT_MAX_JSON_DEPTH ?v = Inr ()"
    using assms(3) validate_json_depth_iff[of DEFAULT_MAX_JSON_DEPTH ?v] unfolding line_fits_def json_depth_norm
    by (auto simp: is_ok_iff DEFAULT_MAX_JSON_DEPTH_def)
  ultimately show ?thesis using assms(3,4)
    by (simp add: load_line_def loads_no_duplicate_keys_def line_fits_def DEFAULT_MAX_JSON_BYTES_def del: json_norm.simps encode.simps)
qed

lemma appended_entry_loads:
  assumes "appended_entry D parse uuid g ty i t m L = Inr e" "json_wf (JObj m)" "\<not> has_surrogate (dep_profile D)"
    "line_fits e" "parse (encode (json_norm (JObj e))) = Inr (json_norm (JObj e))"
  shows "load_line parse (encode (json_norm (JObj e))) = Inr (json_norm (JObj e))"
proof (rule load_line_fits)
  obtain d es p h where d: "normalize_artifact_digest g = Inr d" and es: "read_entries D parse L = Inr es"
    and p: "(if es = [] then Inr JNull else py_index (last es) ''entry_hash'') = Inr p"
    and e: "e = new_entry uuid d ty i t m (al_uri L) es p @ [(''entry_hash'', JObj h)]" and h: "compute_entry_hash D e = Inr h"
    using assms(1) by (rule appended_entryD)
  obtain b where b: "canonicalize_bytes D (JObj (entry_hash_payload e)) = Inr b" "h = hash_spec D (hex_of_bytes (dep_sha256 D b))"
    using compute_entry_hash_value[OF h] by blast
  obtain q where q: "chain D es q" using es unfolding read_entries_chain by blast
  have "json_wf (JObj d)" using d by (rule normalize_artifact_digest_cases) (simp_all add: dict_wf_def)
  moreover have "json_wf (JObj h)" unfolding b(2) by (simp add: dict_wf_def)
  moreover have "dict_wf e" unfolding e by (rule new_entry_keys)
  ultimately show "json_wf (JObj e)"
    using assms(2) chain_cites(2)[OF q p read_entries_wf[OF es]]
    by (auto simp: e new_entry_def LOCAL_ANCHOR_LOG_ENTRY_CONTRACT_def EXTERNAL_ANCHOR_CONTRACT_def dict_wf_def split: option.split)
  have "json_clean (JObj (entry_hash_payload e))"
    using canonicalize_value_ok[of "JObj (entry_hash_payload e)"] canonicalize_bytes_value[OF b(1)] by (simp add: is_ok_iff)
  moreover have "json_clean (JObj h)" unfolding b(2) using assms(3) by simp
  ultimately show "json_clean (JObj e)" by (simp add: e new_entry_payload)
qed (fact assms(4,5))+

text \<open>An entry whose line is over the limit is written all the same, and makes the whole log unreadable.\<close>

lemma read_lines_unreadable:
  assumes "\<not> is_ok (load_line parse (py_strip l))" "py_strip l \<noteq> []"
  shows "\<not> is_ok (read_lines D parse n (ls @ [l]))"
proof (induction ls arbitrary: n)
  case (Cons k ls)
  have "\<not> is_ok (read_lines D parse (Suc n) (ls @ [l]))" by (rule Cons)
  then show ?case by (auto simp: is_ok_iff bindR_eq_Inr split: sum.splits json.splits)
qed (use assms in \<open>auto simp: is_ok_iff split: sum.splits json.splits\<close>)

lemma oversized_entry_breaks_log:
  assumes "appended_entry D parse uuid g ty i t m L = Inr e" "DEFAULT_MAX_JSON_BYTES < int (length (encode (json_norm (JObj e))))"
  shows "\<not> is_ok (read_entries D parse (append_entry e L))"
proof -
  have "e \<noteq> []" using assms(1) by (rule appended_entryD) simp
  then have "stored e \<noteq> []" by (simp add: stored_def set_empty[symmetric] del: set_empty)
  note strip = py_strip_line[OF this, folded json_norm_stored]
  have "\<not> is_ok (load_line parse (encode (json_norm (JObj e))))"
    using assms(2) by (auto simp: load_line_def loads_no_duplicate_keys_def is_ok_iff bindR_eq_Inr DEFAULT_MAX_JSON_BYTES_def
      simp del: json_norm.simps encode.simps split: if_splits)
  moreover have "encode (json_norm (JObj e)) \<noteq> []" using assms(2) by (auto simp: DEFAULT_MAX_JSON_BYTES_def simp del: json_norm.simps encode.simps)
  ultimately have "\<not> is_ok (read_lines D parse 1 (al_lines L @ [encode (json_norm (JObj e))]))"
    by (intro read_lines_unreadable) (simp_all only: strip simp_thms)
  then show ?thesis by (auto simp: read_entries_def append_entry_def is_ok_iff bindR_eq_Inr simp del: json_norm.simps encode.simps)
qed

text \<open>
  C29 (anchored_then_verified): an anchor that \<open>anchor_artifact_digest\<close> returns verifies against the log it leaves, at the time it
  was anchored, both as an object and serialized, and every serialized anchor that verified before still verifies, provided that
  the line of the new entry is within the size and depth limits of the loader that reads the log; the anchor time is a
  representable date, the metadata are JSON data, the log has a URI, the profile name is a text, SHA-256 returns bytes, and
  \<open>json.loads\<close> reads back the text just written.
\<close>

theorem anchored_then_verified:
  assumes "appended_entry D parse uuid g ty i t m L = Inr e" "line_fits e" "parse (encode (json_norm (JObj e))) = Inr (json_norm (JObj e))"
    "dt_ok t" "json_plain (JObj m)" "json_wf (JObj m)"
    "al_uri L \<noteq> []" "dep_profile D \<noteq> []" "\<not> has_surrogate (dep_profile D)" "\<And>b. dep_sha256 D b \<noteq> []"
  shows "\<exists>a L'. anchor_artifact_digest D T parse uuid g ty i t m L = (Inr a, L') \<and>
    verify_external_anchor D T parse L' (AnchorArg a) g = Inr t \<and>
    verify_external_anchor D T parse L' (AnchorValue (JObj (external_anchor_to_dict a))) g = Inr t \<and>
    (\<forall>v d s. verify_external_anchor D T parse L (AnchorValue v) d = Inr s \<longrightarrow> verify_external_anchor D T parse L' (AnchorValue v) d = Inr s)"
proof -
  obtain es where es: "read_entries D parse L = Inr es" using assms(1) by (rule appended_entryD)
  note wf = read_entries_wf[OF es] and line = appended_entry_loads[OF assms(1,6,9,2,3)]
  obtain a b where a: "entry_anchor T e = Inr a" "entry_anchor T (stored e) = Inr b" "same_anchor b a"
    "xa_anchor_type a = ''local_append_only_log''" "xa_log_uri a = al_uri L" "xa_sequence a = JInt (int (length es) + 1)"
    "xa_anchored_at a = t" "artifact_digests_match (JObj (xa_artifact_digest a)) g = Inr True"
    using appended_anchor[OF assms(1) es wf assms(4-6)] .
  note after = append_entry_read[OF assms(1) line es wf]
  have uri: "al_uri (append_entry e L) = al_uri L" by (simp add: append_entry_def)
  have "entry_at (es @ [stored e]) (int (length es)) = Inr (stored e)" by (simp add: entry_at_def Let_def)
  then have "verify_external_anchor D T parse (append_entry e L) (AnchorArg a) g = Inr t"
    unfolding verify_external_anchor_step using a after uri by (simp add: sequence_number_def)
  then show ?thesis
    using anchor_artifact_digest_appends[OF assms(1), of T] a(1) verify_after_append[OF es after uri]
      serialized_anchor_verifies[OF assms(1) line es wf assms(4-8,10) a(1)] by auto
qed

text \<open>
  C28 (anchor_log_tamper_evident): two anchor logs that both read back as valid chains and whose last entries have the same hash hold
  the same entries, up to key order, all the way back to the first one, whenever SHA-256 has no collision among the entries' texts;
  so keeping the hash of the last entry is enough to notice any rewriting of the log before it.
\<close>

theorem anchor_log_tamper_evident:
  assumes "read_entries D parse L = Inr es" "read_entries D parse M = Inr fs" "es \<noteq> []" "fs \<noteq> []"
    "compute_entry_hash D (last es) = compute_entry_hash D (last fs)"
    "inj_on (dep_sha256 D) (hashed_texts D (es @ fs))"
  shows "map (\<lambda>e. json_norm (JObj (entry_hash_payload e))) es = map (\<lambda>e. json_norm (JObj (entry_hash_payload e))) fs"
proof -
  obtain p q where p: "chain D es p" and q: "chain D fs q" using assms(1,2) unfolding read_entries_chain by blast
  have "p = q" using chain_head[OF p] chain_head[OF q] assms(3-5) by auto
  moreover have "\<forall>e \<in> set (es @ fs). json_wf (JObj e)" using assms(1,2)[THEN read_entries_wf] by auto
  ultimately show ?thesis using chains_equal[OF p _ assms(6)] q by simp
qed

section \<open>Witnesses\<close>

definition sample_anchor_log :: anchor_log where
  "sample_anchor_log = \<lparr>al_lines = [], al_uri = ''file:///anchors''\<rparr>"

definition sample_anchor_digest :: json where
  "sample_anchor_digest = JObj [(''value'', JStr ''aa''), (''algorithm'', JStr ''sha-256'')]"

definition sample_unhashed :: dict where
  "sample_unhashed = new_entry ''01'' [(''algorithm'', JStr ''sha-256''), (''value'', JStr ''aa'')] None None 63000000000000000 []
     ''file:///anchors'' [] JNull"

definition sample_anchor_entry :: dict where
  "sample_anchor_entry = sample_unhashed @
     [(''entry_hash'', JObj (hash_spec sample_deps (hex_of_bytes (dep_sha256 sample_deps (encode (json_norm (JObj sample_unhashed)))))))]"

lemma compute_entry_hash_clean:
  assumes "json_clean (JObj (entry_hash_payload e))" "int (json_depth (JObj (entry_hash_payload e))) \<le> dep_max_json_depth D + 1"
    "text_bound (JObj (entry_hash_payload e)) \<le> 1048576"
  shows "compute_entry_hash D e = Inr (hash_spec D (hex_of_bytes (dep_sha256 D (encode (json_norm (JObj (entry_hash_payload e)))))))"
proof -
  obtain s where s: "canonicalize_bytes D (JObj (entry_hash_payload e)) = Inr s"
    using canonicalize_bytes_ok[OF assms] unfolding is_ok_iff by blast
  show ?thesis using canonicalize_value_encode[OF canonicalize_bytes_value[OF s]] s
    by (simp add: compute_entry_hash_def anchor_hash_spec_def sha256_hex_def del: json_norm.simps(3))
qed

lemma sample_unhashed_hash:
  "compute_entry_hash sample_deps sample_unhashed =
    Inr (hash_spec sample_deps (hex_of_bytes (dep_sha256 sample_deps (encode (json_norm (JObj sample_unhashed))))))"
proof -
  have payload: "entry_hash_payload sample_unhashed = sample_unhashed" unfolding sample_unhashed_def by (rule new_entry_unhashed)
  note sample = sample_unhashed_def new_entry_def LOCAL_ANCHOR_LOG_ENTRY_CONTRACT_def EXTERNAL_ANCHOR_CONTRACT_def
  show ?thesis
  proof (rule compute_entry_hash_clean[of sample_unhashed sample_deps, unfolded payload])
    show "json_clean (JObj sample_unhashed)" by (simp add: sample INT_MAX_STR_DIGITS_def show_nat.simps)
    show "int (json_depth (JObj sample_unhashed)) \<le> dep_max_json_depth sample_deps + 1" by (simp add: sample sample_deps_def)
    show "text_bound (JObj sample_unhashed) \<le> 1048576"
      using length_format_timestamp[of 63000000000000000] by (simp add: sample show_int_def show_nat.simps)
  qed
qed

lemma sample_appended:
  "appended_entry sample_deps parse ''01'' sample_anchor_digest None None 63000000000000000 [] sample_anchor_log = Inr sample_anchor_entry"
proof -
  have d: "normalize_artifact_digest sample_anchor_digest = Inr [(''algorithm'', JStr ''sha-256''), (''value'', JStr ''aa'')]"
    by (simp add: normalize_artifact_digest_def sample_anchor_digest_def expect_string_def)
  have r: "read_entries sample_deps parse sample_anchor_log = Inr []" by (simp add: read_entries_def sample_anchor_log_def)
  show ?thesis using sample_unhashed_hash unfolding appended_entry_def sample_anchor_entry_def d r
    by (simp add: sample_anchor_log_def sample_unhashed_def[symmetric] Let_def del: json_norm.simps(3))
qed

definition anchor_text :: py_text where
  "anchor_text = \<lparr>pt_str = (\<lambda>_. []), pt_int = (\<lambda>_. None), pt_repr = (\<lambda>_. []), pt_upper = id\<rparr>"

definition anchor_parse :: "string \<Rightarrow> json res" where
  "anchor_parse l = Inr (if l = ''bb'' then JObj sample_anchor_entry else json_norm (JObj sample_anchor_entry))"

lemma sample_entry_clean: "json_clean (JObj sample_anchor_entry)" "json_wf (JObj sample_anchor_entry)" "line_fits sample_anchor_entry"
proof -
  note sample = sample_anchor_entry_def sample_unhashed_def new_entry_def LOCAL_ANCHOR_LOG_ENTRY_CONTRACT_def EXTERNAL_ANCHOR_CONTRACT_def
  show "json_clean (JObj sample_anchor_entry)" by (simp add: sample INT_MAX_STR_DIGITS_def show_nat.simps) (simp add: sample_deps_def)
  show "json_wf (JObj sample_anchor_entry)" by (simp add: sample dict_wf_def)
  have sha: "length (dep_sha256 sample_deps b) = 32" for b by (simp add: sample_deps_def sample_sha256_def)
  have profile: "dep_profile sample_deps = ''ACTENON-JCS-STRICT-1''" by (simp add: sample_deps_def)
  have "text_bound (JObj sample_anchor_entry) \<le> 1048576"
    using length_format_timestamp[of 63000000000000000]
    by (simp add: sample show_int_def show_nat.simps length_hex_of_bytes sha profile)
  then have "length (encode (json_norm (JObj sample_anchor_entry))) \<le> 1048576"
    using length_encode[of "JObj sample_anchor_entry"] by linarith
  moreover have "json_depth (JObj sample_anchor_entry) \<le> 128" by (simp add: sample)
  ultimately show "line_fits sample_anchor_entry" unfolding line_fits_def DEFAULT_MAX_JSON_BYTES_def DEFAULT_MAX_JSON_DEPTH_def by linarith
qed

lemma sample_line: "anchor_parse (encode (json_norm (JObj sample_anchor_entry))) = Inr (json_norm (JObj sample_anchor_entry))"
  by (simp add: anchor_parse_def)

lemma sample_load: "load_line anchor_parse ''aa'' = Inr (json_norm (JObj sample_anchor_entry))" "load_line anchor_parse ''bb'' = Inr (JObj sample_anchor_entry)"
proof -
  have "apply_hook v = Inr v \<and> validate_json_depth DEFAULT_MAX_JSON_DEPTH v = Inr ()"
    if "v \<in> {JObj sample_anchor_entry, json_norm (JObj sample_anchor_entry)}" for v
  proof
    show "apply_hook v = Inr v" using that sample_entry_clean(2) by (auto intro: apply_hook_id json_wf_norm simp del: json_norm.simps json_wf.simps)
    have "json_depth v = json_depth (JObj sample_anchor_entry)" using that json_depth_norm by fastforce
    then show "validate_json_depth DEFAULT_MAX_JSON_DEPTH v = Inr ()"
      using sample_entry_clean(3) validate_json_depth_iff[of DEFAULT_MAX_JSON_DEPTH v]
      by (auto simp: line_fits_def is_ok_iff DEFAULT_MAX_JSON_DEPTH_def)
  qed
  then show "load_line anchor_parse ''aa'' = Inr (json_norm (JObj sample_anchor_entry))" "load_line anchor_parse ''bb'' = Inr (JObj sample_anchor_entry)"
    by (simp_all add: load_line_def loads_no_duplicate_keys_def anchor_parse_def DEFAULT_MAX_JSON_BYTES_def del: json_norm.simps)
qed

lemma sample_date: "dt_ok 63000000000000000"
  by (simp add: dt_ok_def datetime_limit_def)

theorem anchored_then_verified_witness:
  "\<exists>a L'. anchor_artifact_digest sample_deps anchor_text anchor_parse ''01'' sample_anchor_digest None None
     63000000000000000 [] sample_anchor_log = (Inr a, L') \<and>
   verify_external_anchor sample_deps anchor_text anchor_parse L' (AnchorArg a) sample_anchor_digest = Inr 63000000000000000"
proof -
  have "al_uri sample_anchor_log \<noteq> []" "dep_profile sample_deps \<noteq> []" "\<not> has_surrogate (dep_profile sample_deps)" "dep_sha256 sample_deps b \<noteq> []" for b
    by (simp_all add: sample_anchor_log_def sample_deps_def sample_sha256_def)
  then show ?thesis using anchored_then_verified[OF sample_appended[of anchor_parse] sample_entry_clean(3) sample_line sample_date, of anchor_text]
    by (simp add: dict_wf_def) blast
qed

lemma sample_reads:
  shows "read_entries sample_deps anchor_parse \<lparr>al_lines = [''aa''], al_uri = []\<rparr> = Inr [stored sample_anchor_entry]"
    and "read_entries sample_deps anchor_parse \<lparr>al_lines = [''bb''], al_uri = []\<rparr> = Inr [sample_anchor_entry]"
    and "compute_entry_hash sample_deps (stored sample_anchor_entry) = compute_entry_hash sample_deps sample_anchor_entry"
proof -
  obtain h where h: "sample_anchor_entry = sample_unhashed @ [(''entry_hash'', JObj h)]" "h = hash_spec sample_deps (hex_of_bytes (dep_sha256 sample_deps (encode (json_norm (JObj sample_unhashed)))))"
    unfolding sample_anchor_entry_def by blast
  have c: "compute_entry_hash sample_deps sample_anchor_entry = Inr h"
    using sample_unhashed_hash unfolding h compute_entry_hash_def sample_unhashed_def new_entry_payload new_entry_unhashed .
  have v: "entry_valid sample_deps (int (length ([] :: dict list)) + 1) JNull (stored sample_anchor_entry) h"
    by (rule appended_entry_valid[OF h(1)[unfolded sample_unhashed_def] c]) simp
  have w: "entry_valid sample_deps (int (length ([] :: dict list)) + 1) JNull sample_anchor_entry h"
    using c unfolding entry_valid_def
    by (simp add: get_or_null_def new_entry_lookup[OF h(1)[unfolded sample_unhashed_def]]) (simp add: LOCAL_ANCHOR_LOG_ENTRY_CONTRACT_def h(2))
  have strip: "py_strip ''aa'' = ''aa''" "py_strip ''bb'' = ''bb''"
    using py_strip_visible[of "CHR ''a''" "CHR ''a''" "[]"] py_strip_visible[of "CHR ''b''" "CHR ''b''" "[]"]
    by (simp_all add: is_continuation_def)
  show "read_entries sample_deps anchor_parse \<lparr>al_lines = [''aa''], al_uri = []\<rparr> = Inr [stored sample_anchor_entry]"
    unfolding read_entries_chain using chain.grow[OF chain.empty v] by (auto simp: strip sample_load json_norm_stored simp del: json_norm.simps(3))
  show "read_entries sample_deps anchor_parse \<lparr>al_lines = [''bb''], al_uri = []\<rparr> = Inr [sample_anchor_entry]"
    unfolding read_entries_chain using chain.grow[OF chain.empty w] by (auto simp: strip sample_load)
  show "compute_entry_hash sample_deps (stored sample_anchor_entry) = compute_entry_hash sample_deps sample_anchor_entry"
    using compute_entry_hash_stored[OF c] c by simp
qed

theorem anchor_log_tamper_evident_witness:
  "map (\<lambda>e. json_norm (JObj (entry_hash_payload e))) [stored sample_anchor_entry]
    = map (\<lambda>e. json_norm (JObj (entry_hash_payload e))) [sample_anchor_entry]"
proof (rule anchor_log_tamper_evident[OF sample_reads(1,2)])
  have "hashed_texts sample_deps ([stored sample_anchor_entry] @ [sample_anchor_entry]) \<subseteq> {encode (json_norm (JObj (entry_hash_payload sample_anchor_entry)))}"
    unfolding hashed_texts_def using stored_payload[of sample_anchor_entry]
    by (auto simp del: json_norm.simps(3) encode.simps dest!: canonicalize_bytes_value canonicalize_value_encode)
  then show "inj_on (dep_sha256 sample_deps) (hashed_texts sample_deps ([stored sample_anchor_entry] @ [sample_anchor_entry]))"
    by (rule inj_on_subset[rotated]) simp
qed (simp_all add: sample_reads(3))

end
