(* ===== verification/Attestations.thy ===== *)
theory Attestations
  imports Anchors
begin

text \<open>
  Signed attestations of receipts and refusals (\<^verbatim>\<open>receipts/attestation.py\<close>): an envelope with the outcome artifact, its
  digest and the proof it is bound to, signed by an issuer, and the external anchors that sit beside the signature. The classes
  for receipts and for refusals have the same code up to their names, so both are instances of one definition that takes the
  name (\<open>''receipt''\<close> or \<open>''refusal''\<close>). The attestation id and the time that \<open>issued_at or utc_now()\<close> yields are arguments.
\<close>

section \<open>Digests and signatures\<close>

abbreviation OutcomeAttestationError :: "string \<Rightarrow> exn" where
  "OutcomeAttestationError \<equiv> Raise (OtherError ''OutcomeAttestationError'')"

abbreviation OutcomeAttestationVerificationError :: "string \<Rightarrow> exn" where
  "OutcomeAttestationVerificationError \<equiv> Raise (OtherError ''OutcomeAttestationVerificationError'')"

text \<open>\<open>canonicalize_artifact_bytes\<close> under \<open>except (TypeError, ValueError, RecursionError)\<close>.\<close>

definition canonicalize_or :: "deps \<Rightarrow> exn \<Rightarrow> dict \<Rightarrow> string res" where
  "canonicalize_or D failure payload = (case canonicalize_bytes D (JObj payload) of
       Inl e \<Rightarrow> Inl (if catches_type_value_recursion D e then failure else e)
     | Inr b \<Rightarrow> Inr b)"

definition build_digest :: "deps \<Rightarrow> dict \<Rightarrow> dict res" where
  "build_digest D payload =
     bindR (canonicalize_or D (OutcomeAttestationError (''outcome attestation canonicalization failed; '' @
       ''the embedded artifact contains values unsupported by the current canonicalizer'')) payload) (\<lambda>_.
     bindR (sha256_hex D (JObj payload)) (\<lambda>h.
     Inr [(''algorithm'', JStr ''sha-256''), (''value'', JStr h)]))"

definition parse_artifact_digest :: "deps \<Rightarrow> json \<Rightarrow> dict res" where
  "parse_artifact_digest D raw =
     bindR (expect_mapping raw ''artifact_digest'') (\<lambda>data.
     bindR (expect_string (get_or_null data ''algorithm'') ''artifact_digest.algorithm'') (\<lambda>algorithm.
     bindR (expect_string (get_or_null data ''value'') ''artifact_digest.value'') (\<lambda>v.
     if get_or_null data ''canonicalization'' \<noteq> JNull \<and> get_or_null data ''canonicalization'' \<noteq> JStr (dep_profile D)
     then Inl (OutcomeAttestationVerificationError ''outcome attestation canonicalization metadata is not supported'')
     else Inr [(''algorithm'', JStr algorithm), (''value'', JStr v)])))"

definition verify_digest :: "deps \<Rightarrow> dict \<Rightarrow> json \<Rightarrow> unit res" where
  "verify_digest D expected_payload observed_digest =
     bindR (parse_artifact_digest D observed_digest) (\<lambda>digest.
     if get_or_null digest ''algorithm'' \<noteq> JStr ''sha-256''
     then Inl (OutcomeAttestationVerificationError ''outcome attestation digest algorithm is not supported'')
     else bindR (build_digest D expected_payload) (\<lambda>expected_digest.
     if get_or_null digest ''value'' \<noteq> get_or_null expected_digest ''value''
     then Inl (OutcomeAttestationVerificationError ''embedded artifact digest does not match the signed attestation payload'')
     else Inr ()))"

definition sign_unsigned_payload :: "deps \<Rightarrow> signer_ops \<Rightarrow> dict \<Rightarrow> signature_spec res" where
  "sign_unsigned_payload D S payload =
     bindR (canonicalize_or D (OutcomeAttestationError (''outcome attestation canonicalization failed; '' @
       ''the unsigned payload contains values unsupported by the current canonicalizer'')) payload) (so_sign S)"

text \<open>
  A verifier may have \<open>verify_with_metadata\<close>; the last argument of the model is the pair of anchor arguments, absent when the
  call leaves them out. A \<open>TypeError\<close> of the first call (the verifier does not know these arguments) leads to a second one.
\<close>

record attestation_verifier =
  av_verify :: "string \<Rightarrow> signature_spec \<Rightarrow> bool res"
  av_verify_with_metadata :: "(string \<Rightarrow> signature_spec \<Rightarrow> party_ref \<Rightarrow> datetime \<Rightarrow> (bool \<times> datetime option) option \<Rightarrow> bool res) option"

definition verify_unsigned_payload ::
  "deps \<Rightarrow> attestation_verifier \<Rightarrow> dict \<Rightarrow> signature_spec \<Rightarrow> party_ref \<Rightarrow> datetime \<Rightarrow> bool \<Rightarrow> datetime option \<Rightarrow> unit res" where
  "verify_unsigned_payload D V payload sig issuer issued_at external_anchor_verified external_anchor_time =
     bindR (canonicalize_or D (OutcomeAttestationVerificationError (''outcome attestation canonicalization failed during verification; '' @
       ''the signed payload contains unsupported values'')) payload) (\<lambda>canonical_payload.
     bindR (case av_verify_with_metadata V of
         Some verify_fn \<Rightarrow>
           (case verify_fn canonical_payload sig issuer issued_at (Some (external_anchor_verified, external_anchor_time)) of
             Inl (Raise TypeError m) \<Rightarrow> verify_fn canonical_payload sig issuer issued_at None
           | r \<Rightarrow> r)
       | None \<Rightarrow> av_verify V canonical_payload sig) (\<lambda>is_valid.
     if \<not> is_valid then Inl (OutcomeAttestationVerificationError ''outcome attestation signature could not be verified'')
     else Inr ()))"

section \<open>Parts of an attestation\<close>

definition parse_optional_metadata :: "json \<Rightarrow> dict res" where
  "parse_optional_metadata raw = (if raw = JNull then Inr [] else expect_mapping raw ''metadata'')"

fun parse_anchor_list :: "nat \<Rightarrow> json list \<Rightarrow> dict list res" where
  "parse_anchor_list index [] = Inr []"
| "parse_anchor_list index (anchor # anchors) =
     bindR (expect_mapping anchor (''external_anchors['' @ show_nat index @ '']'')) (\<lambda>a.
     bindR (parse_anchor_list (index + 1) anchors) (\<lambda>rest. Inr (a # rest)))"

definition parse_external_anchors :: "json \<Rightarrow> dict list res" where
  "parse_external_anchors raw = (case raw of
       JNull \<Rightarrow> Inr []
     | JArr xs \<Rightarrow> parse_anchor_list 0 xs
     | _ \<Rightarrow> Inl (Raise ValueError ''external_anchors must be an array''))"

text \<open>The anchor errors are subclasses of \<open>ValueError\<close>; a verification error is fatal, the others skip the anchor.\<close>

definition skips_anchor :: "deps \<Rightarrow> exn \<Rightarrow> bool" where
  "skips_anchor D e = (case e of Raise c _ \<Rightarrow> c = OtherError ''ExternalAnchorFormatError'' \<or> is_value_error D c | Refuse _ \<Rightarrow> False)"

definition is_anchor_failure :: "exn \<Rightarrow> bool" where
  "is_anchor_failure e = (case e of Raise c _ \<Rightarrow> c = OtherError ''ExternalAnchorVerificationError'' | Refuse _ \<Rightarrow> False)"

definition exn_message :: "exn \<Rightarrow> string" where
  "exn_message e = (case e of Raise c m \<Rightarrow> m | Refuse x \<Rightarrow> re_message x)"

fun verify_anchors_from :: "deps \<Rightarrow> (dict \<Rightarrow> json \<Rightarrow> datetime res) \<Rightarrow> json \<Rightarrow> datetime option \<Rightarrow> dict list \<Rightarrow> datetime option res" where
  "verify_anchors_from D check artifact_digest earliest [] = Inr earliest"
| "verify_anchors_from D check artifact_digest earliest (anchor # anchors) =
     (case check anchor artifact_digest of
        Inl e \<Rightarrow> if is_anchor_failure e
          then Inl (OutcomeAttestationVerificationError (''external anchor verification failed: '' @ exn_message e))
          else if skips_anchor D e then verify_anchors_from D check artifact_digest earliest anchors else Inl e
      | Inr anchored_at \<Rightarrow> verify_anchors_from D check artifact_digest
          (case earliest of None \<Rightarrow> Some anchored_at | Some t \<Rightarrow> if anchored_at < t then Some anchored_at else Some t) anchors)"

definition verify_external_anchors :: "deps \<Rightarrow> dict list \<Rightarrow> json \<Rightarrow> (dict \<Rightarrow> json \<Rightarrow> datetime res) option \<Rightarrow> datetime option res" where
  "verify_external_anchors D anchors artifact_digest verifier =
     (if anchors = [] then Inr None
      else (case verifier of None \<Rightarrow> Inr None | Some check \<Rightarrow> verify_anchors_from D check artifact_digest None anchors))"

definition BINDING_FIELDS :: "string list" where
  "BINDING_FIELDS = [''intent_id'', ''pccb_id'', ''action_hash'']"

definition normalize_proof_binding :: "json \<Rightarrow> dict res" where
  "normalize_proof_binding raw =
     bindR (expect_mapping raw ''proof_binding'') (\<lambda>data.
     bindR (mapR (\<lambda>field_name. if get_or_null data field_name = JNull then Inr None
         else bindR (expect_string (get_or_null data field_name) (''proof_binding.'' @ field_name)) (\<lambda>v. Inr (Some (field_name, JStr v))))
       BINDING_FIELDS) (\<lambda>normalized. Inr (List.map_filter id normalized)))"

definition action_hash_value :: "json \<Rightarrow> json" where
  "action_hash_value raw = (case raw of
       JStr s \<Rightarrow> raw
     | JObj d \<Rightarrow> (case get_or_null d ''value'' of JStr s \<Rightarrow> JStr s | _ \<Rightarrow> JNull)
     | _ \<Rightarrow> JNull)"

definition mapping_or_empty :: "json \<Rightarrow> dict" where
  "mapping_or_empty v = (case v of JObj d \<Rightarrow> d | _ \<Rightarrow> [])"

definition py_or :: "json \<Rightarrow> json \<Rightarrow> json" where
  "py_or a b = (if truthy a then a else b)"

definition derive_proof_binding :: "dict \<Rightarrow> dict" where
  "derive_proof_binding outcome_artifact =
     (let embedded_binding_map = mapping_or_empty (get_or_null outcome_artifact ''proof_binding'');
          correlation_map = mapping_or_empty (get_or_null outcome_artifact ''correlation'');
          intent_id = py_or (get_or_null outcome_artifact ''intent_id'') (get_or_null embedded_binding_map ''intent_id'');
          pccb_id = py_or (get_or_null embedded_binding_map ''pccb_id'') (get_or_null correlation_map ''pccb_id'');
          action_hash = py_or (get_or_null embedded_binding_map ''action_hash'') (action_hash_value (get_or_null correlation_map ''action_hash''))
      in filter (\<lambda>p. case snd p of JStr s \<Rightarrow> s \<noteq> [] | _ \<Rightarrow> False)
           [(''intent_id'', intent_id), (''pccb_id'', pccb_id), (''action_hash'', action_hash)])"

fun check_binding :: "dict \<Rightarrow> dict \<Rightarrow> string list \<Rightarrow> unit res" where
  "check_binding expected proof_binding [] = Inr ()"
| "check_binding expected proof_binding (key # ks) =
     (let observed = get_or_null proof_binding key; expected_value = get_or_null expected key in
      if expected_value \<noteq> JNull \<and> \<not> py_eq observed expected_value
      then Inl (OutcomeAttestationVerificationError (''proof_binding.'' @ key @ '' does not match the embedded outcome artifact''))
      else if expected_value = JNull \<and> observed \<noteq> JNull
      then Inl (OutcomeAttestationVerificationError
        (''proof_binding.'' @ key @ '' is not present in the embedded outcome artifact and must not be invented''))
      else check_binding expected proof_binding ks)"

definition verify_proof_binding :: "dict \<Rightarrow> dict \<Rightarrow> unit res" where
  "verify_proof_binding outcome_artifact proof_binding =
     check_binding (derive_proof_binding outcome_artifact) proof_binding BINDING_FIELDS"

definition attested_artifact_id :: "py_text \<Rightarrow> dict \<Rightarrow> string \<Rightarrow> string res" where
  "attested_artifact_id T outcome_artifact artifact_type =
     py_str T (if artifact_type = ''receipt'' then get_or outcome_artifact ''receipt_id'' (JStr ''unknown-receipt'')
       else get_or outcome_artifact ''refusal_id'' (JStr ''unknown-refusal''))"

section \<open>Attestations\<close>

record attestation =
  at_attestation_id :: string
  at_issued_at :: datetime
  at_issuer :: party_ref
  at_artifact_type :: string
  at_outcome_artifact :: dict
  at_artifact_digest :: dict
  at_proof_binding :: dict
  at_signature :: signature_spec
  at_metadata :: dict
  at_external_anchors :: "dict list"

definition attestation_from_dict :: "deps \<Rightarrow> string \<Rightarrow> json \<Rightarrow> attestation res" where
  "attestation_from_dict D kind raw =
     bindR (expect_mapping raw (kind @ ''_attestation'')) (\<lambda>data.
     bindR (expect_mapping (get_or_null data ''contract'') ''contract'') (\<lambda>contract.
     if get_or_null contract ''name'' \<noteq> JStr (kind @ ''_attestation'') \<or> get_or_null contract ''version'' \<noteq> JStr ''v2alpha1''
     then Inl (Raise ValueError (''contract must declare '' @ kind @ ''_attestation v2alpha1''))
     else
     bindR (expect_mapping (get_or_null data ''unsigned_payload'') ''unsigned_payload'') (\<lambda>payload.
     if map_of payload ''external_anchors'' \<noteq> None
     then Inl (Raise ValueError ''external_anchors must sit beside signature and must not be inside unsigned_payload'')
     else
     bindR (expect_string (get_or_null payload ''artifact_type'') ''unsigned_payload.artifact_type'') (\<lambda>artifact_type.
     if artifact_type \<noteq> kind
     then Inl (Raise ValueError (kind @ '' attestation artifact_type must be '' @ [CHR 0x27] @ kind @ [CHR 0x27]))
     else
     bindR (expect_string (get_or_null payload ''attestation_id'') ''unsigned_payload.attestation_id'') (\<lambda>attestation_id.
     bindR (parse_timestamp (get_or_null payload ''issued_at'') ''unsigned_payload.issued_at'') (\<lambda>issued_at.
     bindR (party_from_dict (get_or_null payload ''issuer'') ''unsigned_payload.issuer'') (\<lambda>issuer.
     bindR (expect_mapping (get_or_null payload ''outcome_artifact'') ''unsigned_payload.outcome_artifact'') (\<lambda>outcome_artifact.
     bindR (parse_artifact_digest D (get_or_null payload ''artifact_digest'')) (\<lambda>digest.
     bindR (normalize_proof_binding (get_or_null payload ''proof_binding'')) (\<lambda>binding.
     bindR (signature_from_dict (get_or_null data ''signature'')) (\<lambda>sig.
     bindR (parse_optional_metadata (get_or_null payload ''metadata'')) (\<lambda>metadata.
     bindR (parse_external_anchors (get_or data ''external_anchors'' (JArr []))) (\<lambda>anchors.
     Inr \<lparr>at_attestation_id = attestation_id, at_issued_at = issued_at, at_issuer = issuer, at_artifact_type = artifact_type,
       at_outcome_artifact = outcome_artifact, at_artifact_digest = digest, at_proof_binding = binding, at_signature = sig,
       at_metadata = metadata, at_external_anchors = anchors\<rparr>)))))))))))))"

definition attestation_unsigned :: "attestation \<Rightarrow> dict" where
  "attestation_unsigned a =
     [(''attestation_id'', JStr (at_attestation_id a)), (''issued_at'', JStr (format_timestamp (at_issued_at a))),
      (''issuer'', JObj (party_to_dict (at_issuer a))), (''artifact_type'', JStr (at_artifact_type a)),
      (''artifact_digest'', JObj (at_artifact_digest a)), (''outcome_artifact'', JObj (at_outcome_artifact a)),
      (''proof_binding'', JObj (filter (\<lambda>p. snd p \<noteq> JNull) (at_proof_binding a))), (''metadata'', JObj (at_metadata a))]"

definition attestation_to_dict :: "string \<Rightarrow> attestation \<Rightarrow> dict" where
  "attestation_to_dict kind a =
     [(''contract'', JObj [(''name'', JStr (kind @ ''_attestation'')), (''version'', JStr ''v2alpha1'')]),
      (''unsigned_payload'', JObj (attestation_unsigned a)), (''signature'', JObj (signature_to_dict (at_signature a))),
      (''external_anchors'', JArr (map JObj (at_external_anchors a)))]"

section \<open>The service\<close>

record attestation_service =
  as_signer :: signer_ops
  as_signer_verifier :: attestation_verifier
  as_issuer :: party_ref
  as_external_anchor_verifier :: "(dict \<Rightarrow> json \<Rightarrow> datetime res) option"

definition attest_outcome :: "deps \<Rightarrow> attestation_service \<Rightarrow> string \<Rightarrow> dict \<Rightarrow> string \<Rightarrow> datetime \<Rightarrow> dict \<Rightarrow> dict \<Rightarrow> dict list \<Rightarrow> attestation res" where
  "attest_outcome D S kind outcome_artifact attestation_id issued_at metadata proof_binding external_anchors =
     bindR (build_digest D outcome_artifact) (\<lambda>digest.
     let a = \<lparr>at_attestation_id = attestation_id, at_issued_at = issued_at, at_issuer = as_issuer S, at_artifact_type = kind,
           at_outcome_artifact = outcome_artifact, at_artifact_digest = digest,
           at_proof_binding = (if proof_binding = [] then derive_proof_binding outcome_artifact else proof_binding),
           at_signature = \<lparr>sg_algorithm = so_algorithm (as_signer S), sg_key_id = so_key_id (as_signer S), sg_encoding = ''base64url'',
             sg_value = ''pending''\<rparr>,
           at_metadata = metadata, at_external_anchors = external_anchors\<rparr> in
     bindR (sign_unsigned_payload D (as_signer S) (attestation_unsigned a)) (\<lambda>sig. Inr (a\<lparr>at_signature := sig\<rparr>)))"

definition attest_receipt :: "deps \<Rightarrow> attestation_service \<Rightarrow> receipt \<Rightarrow> string \<Rightarrow> datetime \<Rightarrow> dict \<Rightarrow> dict \<Rightarrow> dict list \<Rightarrow> attestation res" where
  "attest_receipt D S r = attest_outcome D S ''receipt'' (receipt_to_dict r)"

definition attest_refusal :: "deps \<Rightarrow> attestation_service \<Rightarrow> refusal \<Rightarrow> string \<Rightarrow> datetime \<Rightarrow> dict \<Rightarrow> dict \<Rightarrow> dict list \<Rightarrow> attestation res" where
  "attest_refusal D S r = attest_outcome D S ''refusal'' (refusal_to_dict r)"

text \<open>An attestation is given as an object or as its JSON, and the result is the parsed artifact, or its mapping where it does not parse.\<close>

datatype attestation_arg = AttestationArg attestation | AttestationValue json

datatype attested_outcome = AttestedReceipt receipt | AttestedRefusal refusal | AttestedMapping dict

definition resolve_attestation :: "deps \<Rightarrow> string \<Rightarrow> attestation_arg \<Rightarrow> attestation res" where
  "resolve_attestation D kind arg = (case arg of AttestationArg a \<Rightarrow> Inr a | AttestationValue v \<Rightarrow> attestation_from_dict D kind v)"

definition verify_attested :: "deps \<Rightarrow> attestation_service \<Rightarrow> attestation_verifier option \<Rightarrow> attestation \<Rightarrow> unit res" where
  "verify_attested D S verifier a =
     bindR (verify_digest D (at_outcome_artifact a) (JObj (at_artifact_digest a))) (\<lambda>_.
     bindR (verify_proof_binding (at_outcome_artifact a) (at_proof_binding a)) (\<lambda>_.
     bindR (verify_external_anchors D (at_external_anchors a) (JObj (at_artifact_digest a)) (as_external_anchor_verifier S))
       (\<lambda>external_anchor_time.
     verify_unsigned_payload D (case verifier of None \<Rightarrow> as_signer_verifier S | Some V \<Rightarrow> V) (attestation_unsigned a) (at_signature a)
       (at_issuer a) (at_issued_at a) (external_anchor_time \<noteq> None) external_anchor_time)))"

definition verify_receipt_attestation ::
  "deps \<Rightarrow> attestation_service \<Rightarrow> attestation_arg \<Rightarrow> attestation_verifier option \<Rightarrow> attested_outcome res" where
  "verify_receipt_attestation D S arg verifier =
     bindR (resolve_attestation D ''receipt'' arg) (\<lambda>resolved.
     bindR (verify_attested D S verifier resolved) (\<lambda>_.
     Inr (case receipt_from_dict (JObj (at_outcome_artifact resolved)) of
         Inr r \<Rightarrow> AttestedReceipt r | Inl e \<Rightarrow> AttestedMapping (at_outcome_artifact resolved))))"

definition verify_refusal_attestation ::
  "deps \<Rightarrow> attestation_service \<Rightarrow> attestation_arg \<Rightarrow> attestation_verifier option \<Rightarrow> attested_outcome res" where
  "verify_refusal_attestation D S arg verifier =
     bindR (resolve_attestation D ''refusal'' arg) (\<lambda>resolved.
     bindR (verify_attested D S verifier resolved) (\<lambda>_.
     Inr (case refusal_from_dict (JObj (at_outcome_artifact resolved)) of
         Inr r \<Rightarrow> AttestedRefusal r | Inl e \<Rightarrow> AttestedMapping (at_outcome_artifact resolved))))"

section \<open>Attestations in the local log\<close>

text \<open>\<open>LocalAppendOnlyAnchorLog.anchor_attestation\<close> and \<open>append_anchor_to_attestation\<close>, and the log as a verifier of anchors.\<close>

definition anchor_attestation ::
  "deps \<Rightarrow> py_text \<Rightarrow> (string \<Rightarrow> json res) \<Rightarrow> string \<Rightarrow> string \<Rightarrow> attestation \<Rightarrow> datetime \<Rightarrow> dict \<Rightarrow> anchor_log \<Rightarrow> external_anchor res \<times> anchor_log" where
  "anchor_attestation D T parse kind uuid a anchored_at metadata log_file =
     (case attested_artifact_id T (at_outcome_artifact a) kind of
       Inl e \<Rightarrow> (Inl e, log_file)
     | Inr artifact_id \<Rightarrow> anchor_artifact_digest D T parse uuid (JObj (at_artifact_digest a)) (Some (at_artifact_type a)) (Some artifact_id)
         anchored_at metadata log_file)"

definition append_anchor_to_attestation ::
  "deps \<Rightarrow> py_text \<Rightarrow> (string \<Rightarrow> json res) \<Rightarrow> string \<Rightarrow> string \<Rightarrow> attestation \<Rightarrow> datetime \<Rightarrow> dict \<Rightarrow> anchor_log \<Rightarrow> attestation res \<times> anchor_log" where
  "append_anchor_to_attestation D T parse kind uuid a anchored_at metadata log_file =
     (case anchor_attestation D T parse kind uuid a anchored_at metadata log_file of (r, log_file') \<Rightarrow>
       (bindR r (\<lambda>x. Inr (a\<lparr>at_external_anchors := at_external_anchors a @ [external_anchor_to_dict x]\<rparr>)), log_file'))"

definition log_anchor_verifier :: "deps \<Rightarrow> py_text \<Rightarrow> (string \<Rightarrow> json res) \<Rightarrow> anchor_log \<Rightarrow> dict \<Rightarrow> json \<Rightarrow> datetime res" where
  "log_anchor_verifier D T parse log_file anchor artifact_digest =
     verify_external_anchor D T parse log_file (AnchorValue (JObj anchor)) artifact_digest"

section \<open>What verification establishes\<close>

lemma canonicalize_or_Inr: "canonicalize_or D failure v = Inr b \<longleftrightarrow> canonicalize_bytes D (JObj v) = Inr b"
  by (simp add: canonicalize_or_def split: sum.split)

lemma build_digest_Inr:
  "build_digest D v = Inr d \<longleftrightarrow> (\<exists>b. canonicalize_bytes D (JObj v) = Inr b \<and>
     d = [(''algorithm'', JStr ''sha-256''), (''value'', JStr (hex_of_bytes (dep_sha256 D b)))])"
  unfolding build_digest_def sha256_hex_def bindR_eq_Inr canonicalize_or_Inr by auto

lemma parse_artifact_digest_cases:
  assumes "parse_artifact_digest D (JObj x) = Inr d"
  obtains a v where "a \<noteq> []" "v \<noteq> []" "get_or_null x ''algorithm'' = JStr a" "get_or_null x ''value'' = JStr v"
    "d = [(''algorithm'', JStr a), (''value'', JStr v)]"
proof -
  obtain a v where av: "expect_string (get_or_null x ''algorithm'') ''artifact_digest.algorithm'' = Inr a"
    "expect_string (get_or_null x ''value'') ''artifact_digest.value'' = Inr v"
    and d: "Inr [(''algorithm'', JStr a), (''value'', JStr v)] = (Inr d :: dict res)"
    using assms unfolding parse_artifact_digest_def expect_mapping_JObj bindR_Inr by (elim bindR_eq_InrE guard_InrE)
  show thesis by (rule that[of a v]) (use av d in \<open>simp_all add: expect_string_Inr\<close>)
qed

text \<open>The digest an attestation has to carry: no other canonicalization than the profile, SHA-256, and the hash of the artifact.\<close>

definition digest_matches :: "deps \<Rightarrow> dict \<Rightarrow> dict \<Rightarrow> bool" where
  "digest_matches D outcome d \<longleftrightarrow> get_or_null d ''canonicalization'' \<in> {JNull, JStr (dep_profile D)} \<and>
     get_or_null d ''algorithm'' = JStr ''sha-256'' \<and>
     (\<exists>b. canonicalize_bytes D (JObj outcome) = Inr b \<and> dep_sha256 D b \<noteq> [] \<and> get_or_null d ''value'' = JStr (hex_of_bytes (dep_sha256 D b)))"

lemma hex_of_bytes_Nil: "hex_of_bytes b = [] \<longleftrightarrow> b = []"
  using hex_nonempty[of b] by (auto simp: hex_of_bytes_def)

lemma verify_digest_iff: "verify_digest D v (JObj d) = Inr () \<longleftrightarrow> digest_matches D v d"
proof
  assume "verify_digest D v (JObj d) = Inr ()"
  then obtain x y where x: "parse_artifact_digest D (JObj d) = Inr x" "\<not> get_or_null x ''algorithm'' \<noteq> JStr ''sha-256''"
    and y: "build_digest D v = Inr y" "\<not> get_or_null x ''value'' \<noteq> get_or_null y ''value''"
    unfolding verify_digest_def by (elim bindR_eq_InrE guard_InrE)
  have "get_or_null d ''canonicalization'' \<in> {JNull, JStr (dep_profile D)}"
    using x(1) unfolding parse_artifact_digest_def expect_mapping_JObj bindR_Inr by (elim bindR_eq_InrE guard_InrE) blast
  moreover obtain a w where "w \<noteq> []" "get_or_null d ''algorithm'' = JStr a" "get_or_null d ''value'' = JStr w"
    "x = [(''algorithm'', JStr a), (''value'', JStr w)]"
    using parse_artifact_digest_cases[OF x(1)] by metis
  ultimately show "digest_matches D v d" using x(2) y unfolding digest_matches_def build_digest_Inr by (auto simp: hex_of_bytes_Nil)
next
  assume "digest_matches D v d"
  then obtain b where b: "get_or_null d ''canonicalization'' \<in> {JNull, JStr (dep_profile D)}" "get_or_null d ''algorithm'' = JStr ''sha-256''"
    "canonicalize_bytes D (JObj v) = Inr b" "dep_sha256 D b \<noteq> []" "get_or_null d ''value'' = JStr (hex_of_bytes (dep_sha256 D b))"
    unfolding digest_matches_def by blast
  then have "parse_artifact_digest D (JObj d) = Inr [(''algorithm'', JStr ''sha-256''), (''value'', JStr (hex_of_bytes (dep_sha256 D b)))]"
    by (auto simp: parse_artifact_digest_def expect_string_def hex_of_bytes_Nil)
  moreover have "build_digest D v = Inr [(''algorithm'', JStr ''sha-256''), (''value'', JStr (hex_of_bytes (dep_sha256 D b)))]"
    using b(3) by (simp add: build_digest_Inr)
  ultimately show "verify_digest D v (JObj d) = Inr ()" by (simp add: verify_digest_def)
qed

lemma derived_values: "get_or_null (derive_proof_binding v) k = JNull \<or> (\<exists>s. s \<noteq> [] \<and> get_or_null (derive_proof_binding v) k = JStr s)"
proof (cases "map_of (derive_proof_binding v) k")
  case (Some x)
  then have "(k, x) \<in> set (derive_proof_binding v)" by (rule map_of_SomeD)
  then have "\<exists>s. s \<noteq> [] \<and> x = JStr s"
    unfolding derive_proof_binding_def Let_def set_filter mem_Collect_eq snd_conv by (cases x) simp_all
  then show ?thesis using Some by (simp add: get_or_null_def)
qed (simp add: get_or_null_def)

lemma check_binding_iff:
  assumes "\<And>k. get_or_null e k = JNull \<or> (\<exists>s. get_or_null e k = JStr s)"
  shows "check_binding e b ks = Inr () \<longleftrightarrow> (\<forall>k \<in> set ks. get_or_null b k = get_or_null e k)"
proof (induction ks)
  case (Cons k ks)
  then show ?case using assms[of k] by (auto simp: Let_def)
qed simp

lemma verify_proof_binding_iff:
  "verify_proof_binding v b = Inr () \<longleftrightarrow> (\<forall>k \<in> set BINDING_FIELDS. get_or_null b k = get_or_null (derive_proof_binding v) k)"
  unfolding verify_proof_binding_def by (rule check_binding_iff) (use derived_values in blast)

text \<open>The anchors that verify, in order, and the condition under which none of the others is fatal.\<close>

definition anchor_times :: "(dict \<Rightarrow> json \<Rightarrow> datetime res) \<Rightarrow> json \<Rightarrow> dict list \<Rightarrow> datetime list" where
  "anchor_times check d anchors = List.map_filter (\<lambda>a. case check a d of Inr t \<Rightarrow> Some t | Inl _ \<Rightarrow> None) anchors"

definition anchor_tolerated :: "deps \<Rightarrow> (dict \<Rightarrow> json \<Rightarrow> datetime res) \<Rightarrow> json \<Rightarrow> dict \<Rightarrow> bool" where
  "anchor_tolerated D check d a \<longleftrightarrow> (case check a d of Inr _ \<Rightarrow> True | Inl e \<Rightarrow> \<not> is_anchor_failure e \<and> skips_anchor D e)"

definition earliest_of :: "datetime list \<Rightarrow> datetime option" where
  "earliest_of ts = (if ts = [] then None else Some (Min (set ts)))"

lemma earliest_of_step: "earliest_of (s # t # ts) = earliest_of ((if t < s then t else s) # ts)"
  by (cases "ts = []") (auto simp: earliest_of_def min_def)

lemma verify_anchors_from_iff:
  "verify_anchors_from D check d earliest anchors = Inr r \<longleftrightarrow> list_all (anchor_tolerated D check d) anchors \<and>
     r = earliest_of ((case earliest of None \<Rightarrow> [] | Some t \<Rightarrow> [t]) @ anchor_times check d anchors)"
proof (induction anchors arbitrary: earliest)
  case Nil
  then show ?case by (auto simp: earliest_of_def anchor_times_def map_filter_simps split: option.split)
next
  case (Cons a anchors)
  show ?case
  proof (cases "check a d")
    case (Inl e)
    then show ?thesis using Cons.IH[of earliest] by (auto simp: anchor_tolerated_def anchor_times_def map_filter_simps)
  next
    case (Inr t)
    then show ?thesis using Cons.IH[of "case earliest of None \<Rightarrow> Some t | Some s \<Rightarrow> if t < s then Some t else Some s"]
      by (cases earliest) (simp_all add: anchor_tolerated_def anchor_times_def map_filter_simps earliest_of_step)
  qed
qed

lemma verify_external_anchors_iff:
  "verify_external_anchors D anchors d (Some check) = Inr r \<longleftrightarrow>
     list_all (anchor_tolerated D check d) anchors \<and> r = earliest_of (anchor_times check d anchors)"
  by (auto simp: verify_external_anchors_def verify_anchors_from_iff earliest_of_def anchor_times_def map_filter_simps)

lemma verify_external_anchors_none: "verify_external_anchors D anchors d None = Inr r \<longleftrightarrow> r = None"
  by (auto simp: verify_external_anchors_def)

text \<open>The verifier's answer to the signature of a payload, with the anchor time it is told.\<close>

definition attestation_signature_ok :: "attestation_verifier \<Rightarrow> string \<Rightarrow> signature_spec \<Rightarrow> party_ref \<Rightarrow> datetime \<Rightarrow> datetime option \<Rightarrow> bool" where
  "attestation_signature_ok V text sig issuer t time = (case av_verify_with_metadata V of
       None \<Rightarrow> av_verify V text sig = Inr True
     | Some f \<Rightarrow> (case f text sig issuer t (Some (time \<noteq> None, time)) of
         Inr b \<Rightarrow> b
       | Inl (Raise TypeError _) \<Rightarrow> f text sig issuer t None = Inr True
       | Inl _ \<Rightarrow> False))"

lemma verify_unsigned_payload_iff:
  "verify_unsigned_payload D V payload sig issuer t (time \<noteq> None) time = Inr () \<longleftrightarrow>
     (\<exists>text. canonicalize_bytes D (JObj payload) = Inr text \<and> attestation_signature_ok V text sig issuer t time)"
proof -
  have ok: "bindR r (\<lambda>ok. if \<not> ok then Inl e else Inr ()) = Inr () \<longleftrightarrow> r = Inr True" for r :: "bool res" and e
    by (cases r) auto
  have answer: "(case av_verify_with_metadata V of
         Some verify_fn \<Rightarrow> (case verify_fn b sig issuer t (Some (time \<noteq> None, time)) of
             Inl (Raise TypeError m) \<Rightarrow> verify_fn b sig issuer t None | r \<Rightarrow> r)
       | None \<Rightarrow> av_verify V b sig) = Inr True \<longleftrightarrow> attestation_signature_ok V b sig issuer t time" for b
  proof (cases "av_verify_with_metadata V")
    case (Some f)
    show ?thesis
    proof (cases "f b sig issuer t (Some (time \<noteq> None, time))")
      case (Inl e)
      show ?thesis
      proof (cases e)
        case (Raise c m)
        then show ?thesis using Some Inl by (cases c) (simp_all add: attestation_signature_ok_def)
      qed (use Some Inl in \<open>simp add: attestation_signature_ok_def\<close>)
    qed (use Some in \<open>simp add: attestation_signature_ok_def\<close>)
  qed (simp add: attestation_signature_ok_def)
  show ?thesis unfolding verify_unsigned_payload_def
    by (subst bindR_eq_Inr) (simp only: ok answer canonicalize_or_Inr)
qed

definition anchors_accepted :: "deps \<Rightarrow> attestation_service \<Rightarrow> attestation \<Rightarrow> datetime option \<Rightarrow> bool" where
  "anchors_accepted D S a time = (case as_external_anchor_verifier S of
       None \<Rightarrow> time = None
     | Some check \<Rightarrow> list_all (anchor_tolerated D check (JObj (at_artifact_digest a))) (at_external_anchors a) \<and>
         time = earliest_of (anchor_times check (JObj (at_artifact_digest a)) (at_external_anchors a)))"

definition verifier_of :: "attestation_service \<Rightarrow> attestation_verifier option \<Rightarrow> attestation_verifier" where
  "verifier_of S verifier = (case verifier of None \<Rightarrow> as_signer_verifier S | Some V \<Rightarrow> V)"

lemma verify_attested_iff:
  "verify_attested D S verifier a = Inr () \<longleftrightarrow>
     digest_matches D (at_outcome_artifact a) (at_artifact_digest a) \<and>
     (\<forall>k \<in> set BINDING_FIELDS. get_or_null (at_proof_binding a) k = get_or_null (derive_proof_binding (at_outcome_artifact a)) k) \<and>
     (\<exists>time text. anchors_accepted D S a time \<and> canonicalize_bytes D (JObj (attestation_unsigned a)) = Inr text \<and>
       attestation_signature_ok (verifier_of S verifier) text (at_signature a) (at_issuer a) (at_issued_at a) time)"
proof -
  have anchors: "verify_external_anchors D (at_external_anchors a) (JObj (at_artifact_digest a)) (as_external_anchor_verifier S) = Inr time
    \<longleftrightarrow> anchors_accepted D S a time" for time
    by (simp add: anchors_accepted_def verify_external_anchors_iff verify_external_anchors_none split: option.split)
  have unit: "bindR m (\<lambda>_. k) = Inr () \<longleftrightarrow> m = Inr () \<and> k = Inr ()" for m k :: "unit res"
    by (cases m) auto
  have time: "bindR m k = Inr () \<longleftrightarrow> (\<exists>time. m = Inr time \<and> k time = Inr ())" for m :: "datetime option res" and k :: "_ \<Rightarrow> unit res"
    by (cases m) auto
  show ?thesis unfolding verify_attested_def verifier_of_def[symmetric] unit time verify_digest_iff verify_proof_binding_iff
      anchors verify_unsigned_payload_iff by blast
qed

section \<open>Attesting\<close>

definition nonempty_text :: "json \<Rightarrow> bool" where
  "nonempty_text v = (case v of JStr s \<Rightarrow> s \<noteq> [] | _ \<Rightarrow> False)"

lemma nonempty_text_cases: "nonempty_text v \<longleftrightarrow> (\<exists>s. s \<noteq> [] \<and> v = JStr s)"
  by (cases v) (simp_all add: nonempty_text_def)

lemma normalize_listed:
  "normalize_proof_binding (JObj (filter (\<lambda>p. nonempty_text (snd p)) [(''intent_id'', x), (''pccb_id'', y), (''action_hash'', z)])) =
   Inr (filter (\<lambda>p. nonempty_text (snd p)) [(''intent_id'', x), (''pccb_id'', y), (''action_hash'', z)])"
  by (cases "nonempty_text x"; cases "nonempty_text y"; cases "nonempty_text z")
    (auto simp: nonempty_text_cases normalize_proof_binding_def BINDING_FIELDS_def expect_string_def map_filter_simps)

lemma derive_listed:
  "\<exists>x y z. derive_proof_binding v = filter (\<lambda>p. nonempty_text (snd p)) [(''intent_id'', x), (''pccb_id'', y), (''action_hash'', z)]"
  unfolding derive_proof_binding_def Let_def nonempty_text_def by blast

lemma derive_filter: "filter (\<lambda>p. snd p \<noteq> JNull) (derive_proof_binding v) = derive_proof_binding v"
proof -
  obtain d where "derive_proof_binding v = filter (\<lambda>p. nonempty_text (snd p)) d" using derive_listed by blast
  moreover have "nonempty_text x \<longrightarrow> x \<noteq> JNull" for x by (simp add: nonempty_text_def split: json.split)
  ultimately show ?thesis by (auto simp: filter_id_conv simp del: filter_filter)
qed

lemma derive_normal: "normalize_proof_binding (JObj (derive_proof_binding v)) = Inr (derive_proof_binding v)"
  using derive_listed[of v] normalize_listed by auto

lemma attest_outcomeD:
  assumes "attest_outcome D S kind v aid t md [] as = Inr a"
  obtains b m sig where "canonicalize_bytes D (JObj v) = Inr b" "canonicalize_bytes D (JObj (attestation_unsigned a)) = Inr m"
    "so_sign (as_signer S) m = Inr sig"
    "a = \<lparr>at_attestation_id = aid, at_issued_at = t, at_issuer = as_issuer S, at_artifact_type = kind, at_outcome_artifact = v,
      at_artifact_digest = [(''algorithm'', JStr ''sha-256''), (''value'', JStr (hex_of_bytes (dep_sha256 D b)))],
      at_proof_binding = derive_proof_binding v, at_signature = sig, at_metadata = md, at_external_anchors = as\<rparr>"
proof -
  let ?a = "\<lambda>d sig. \<lparr>at_attestation_id = aid, at_issued_at = t, at_issuer = as_issuer S, at_artifact_type = kind, at_outcome_artifact = v,
      at_artifact_digest = d, at_proof_binding = derive_proof_binding v, at_signature = sig, at_metadata = md, at_external_anchors = as\<rparr>"
  have "bindR (build_digest D v) (\<lambda>d. bindR (sign_unsigned_payload D (as_signer S)
    (attestation_unsigned (?a d undefined))) (\<lambda>sig. Inr (?a d sig))) = Inr a"
    using assms by (simp add: attest_outcome_def attestation_unsigned_def)
  then obtain d sig where d: "build_digest D v = Inr d" and "sign_unsigned_payload D (as_signer S) (attestation_unsigned (?a d undefined)) = Inr sig"
    and a: "Inr (?a d sig) = (Inr a :: attestation res)"
    by (elim bindR_eq_InrE)
  then obtain m where "canonicalize_bytes D (JObj (attestation_unsigned (?a d undefined))) = Inr m" "so_sign (as_signer S) m = Inr sig"
    unfolding sign_unsigned_payload_def by (elim bindR_eq_InrE) (simp only: canonicalize_or_Inr)
  moreover have "attestation_unsigned (?a d undefined) = attestation_unsigned a" using a by (auto simp: attestation_unsigned_def)
  moreover obtain b where "canonicalize_bytes D (JObj v) = Inr b" "d = [(''algorithm'', JStr ''sha-256''), (''value'', JStr (hex_of_bytes (dep_sha256 D b)))]"
    using d unfolding build_digest_Inr by blast
  moreover have "a = ?a d sig" using a by simp
  ultimately show thesis by (intro that[of b m sig]) (simp_all only:)
qed

definition signer_verifies :: "attestation_service \<Rightarrow> bool" where
  "signer_verifies S \<longleftrightarrow> (\<forall>m sig. so_sign (as_signer S) m = Inr sig \<longrightarrow> signature_wf sig \<and>
     (\<forall>issuer t time. attestation_signature_ok (as_signer_verifier S) m sig issuer t time))"

lemma derived_binding_verifies: "verify_proof_binding v (derive_proof_binding v) = Inr ()"
  by (simp add: verify_proof_binding_iff)

lemma unsigned_anchors [simp]: "attestation_unsigned (a\<lparr>at_external_anchors := bs\<rparr>) = attestation_unsigned a"
  by (simp add: attestation_unsigned_def)

lemma attested_verifies:
  assumes "attest_outcome D S kind v aid t md [] as = Inr a" "\<And>m. dep_sha256 D m \<noteq> []"
    "anchors_accepted D S' (a\<lparr>at_external_anchors := bs\<rparr>) time"
    "\<And>m sig. so_sign (as_signer S) m = Inr sig \<Longrightarrow> attestation_signature_ok (verifier_of S' V) m sig (as_issuer S) t time"
  shows "verify_attested D S' V (a\<lparr>at_external_anchors := bs\<rparr>) = Inr ()"
  using assms(1)
proof (rule attest_outcomeD)
  fix b m sig
  assume b: "canonicalize_bytes D (JObj v) = Inr b" and m: "canonicalize_bytes D (JObj (attestation_unsigned a)) = Inr m"
    and sig: "so_sign (as_signer S) m = Inr sig"
    and a: "a = \<lparr>at_attestation_id = aid, at_issued_at = t, at_issuer = as_issuer S, at_artifact_type = kind, at_outcome_artifact = v,
      at_artifact_digest = [(''algorithm'', JStr ''sha-256''), (''value'', JStr (hex_of_bytes (dep_sha256 D b)))],
      at_proof_binding = derive_proof_binding v, at_signature = sig, at_metadata = md, at_external_anchors = as\<rparr>"
  have "digest_matches D (at_outcome_artifact a) (at_artifact_digest a)"
    unfolding digest_matches_def a using b assms(2) by simp
  moreover have "attestation_signature_ok (verifier_of S' V) m (at_signature a) (at_issuer a) (at_issued_at a) time"
    using assms(4)[OF sig] by (simp add: a)
  moreover have "at_proof_binding a = derive_proof_binding (at_outcome_artifact a)" by (simp add: a)
  ultimately show ?thesis unfolding verify_attested_iff using assms(3) m by auto
qed

lemma parse_anchor_list_map: "parse_anchor_list n (map JObj ds) = Inr ds"
  by (induction ds arbitrary: n) simp_all

lemma attestation_round_trip:
  assumes "attest_outcome D S kind v aid t md [] as = Inr a" "kind \<noteq> []" "aid \<noteq> []" "dt_ok t" "party_wf (as_issuer S)"
    "\<And>m. dep_sha256 D m \<noteq> []" "signature_wf (at_signature a)"
  shows "attestation_from_dict D kind (JObj (attestation_to_dict kind (a\<lparr>at_external_anchors := bs\<rparr>))) = Inr (a\<lparr>at_external_anchors := bs\<rparr>)"
  using assms(1)
proof (rule attest_outcomeD)
  fix b' m sig
  assume a: "a = \<lparr>at_attestation_id = aid, at_issued_at = t, at_issuer = as_issuer S, at_artifact_type = kind, at_outcome_artifact = v,
      at_artifact_digest = [(''algorithm'', JStr ''sha-256''), (''value'', JStr (hex_of_bytes (dep_sha256 D b')))],
      at_proof_binding = derive_proof_binding v, at_signature = sig, at_metadata = md, at_external_anchors = as\<rparr>"
  have digest: "parse_artifact_digest D (JObj [(''algorithm'', JStr ''sha-256''), (''value'', JStr (hex_of_bytes (dep_sha256 D b')))]) =
    Inr [(''algorithm'', JStr ''sha-256''), (''value'', JStr (hex_of_bytes (dep_sha256 D b')))]"
    using assms(6) by (simp add: parse_artifact_digest_def expect_string_def hex_of_bytes_Nil)
  show ?thesis unfolding attestation_from_dict_def attestation_to_dict_def
    using assms(2-5,7) by (simp add: a attestation_unsigned_def expect_string_def parse_format_timestamp party_round_trip digest
      derive_filter derive_normal signature_round_trip parse_optional_metadata_def parse_external_anchors_def parse_anchor_list_map)
qed

lemma no_anchors_accepted: "at_external_anchors a = [] \<Longrightarrow> anchors_accepted D S a None"
  by (simp add: anchors_accepted_def earliest_of_def anchor_times_def map_filter_simps split: option.split)

text \<open>
  What attestation needs from a kind of artifact: that it is read back from the mapping it prints. Receipts and refusals are
  the two instances.
\<close>

locale attested_kind =
  fixes kind :: string and to_dict :: "'a \<Rightarrow> dict" and from_dict :: "json \<Rightarrow> 'a res" and ok :: "'a \<Rightarrow> bool"
  assumes read_back: "ok x \<Longrightarrow> from_dict (JObj (to_dict x)) = Inr x"
    and named: "kind \<noteq> []"
begin

lemma attested_artifact:
  assumes "attest_outcome D S kind (to_dict x) aid t md [] as = Inr a" "ok x"
  shows "from_dict (JObj (at_outcome_artifact a)) = Inr x"
  using assms(1) by (rule attest_outcomeD) (simp add: read_back[OF assms(2)])

lemma attested_and_sent:
  assumes "attest_outcome D S kind (to_dict x) aid t md [] as = Inr a" "ok x" "aid \<noteq> []" "dt_ok t" "party_wf (as_issuer S)"
    "\<And>m. dep_sha256 D m \<noteq> []" "signer_verifies S" "as_signer S' = as_signer S" "as_signer_verifier S' = as_signer_verifier S"
    "anchors_accepted D S' (a\<lparr>at_external_anchors := bs\<rparr>) time"
    "arg = AttestationArg (a\<lparr>at_external_anchors := bs\<rparr>) \<or> arg = AttestationValue (JObj (attestation_to_dict kind (a\<lparr>at_external_anchors := bs\<rparr>)))"
  shows "\<exists>b. resolve_attestation D kind arg = Inr b \<and> verify_attested D S' None b = Inr () \<and> from_dict (JObj (at_outcome_artifact b)) = Inr x"
proof -
  let ?b = "a\<lparr>at_external_anchors := bs\<rparr>"
  have signed: "signature_wf sig" "attestation_signature_ok (verifier_of S' None) m sig (as_issuer S) t time" if "so_sign (as_signer S) m = Inr sig" for m sig
    using assms(7,9) that by (simp_all add: signer_verifies_def verifier_of_def)
  have "signature_wf (at_signature a)" using assms(1) by (rule attest_outcomeD) (simp add: signed(1))
  then have "resolve_attestation D kind arg = Inr ?b"
    using assms(11) attestation_round_trip[OF assms(1) named assms(3-6)] by (auto simp: resolve_attestation_def)
  then show ?thesis using attested_verifies[OF assms(1,6,10) signed(2)] attested_artifact[OF assms(1,2)] by auto
qed

lemma attested_then_read:
  assumes "attest_outcome D S kind (to_dict x) aid t md [] [] = Inr a" "ok x" "aid \<noteq> []" "dt_ok t" "party_wf (as_issuer S)"
    "\<And>m. dep_sha256 D m \<noteq> []" "signer_verifies S" "arg = AttestationArg a \<or> arg = AttestationValue (JObj (attestation_to_dict kind a))"
  shows "\<exists>b. resolve_attestation D kind arg = Inr b \<and> verify_attested D S None b = Inr () \<and> from_dict (JObj (at_outcome_artifact b)) = Inr x"
proof -
  have none: "at_external_anchors a = []" using assms(1) by (rule attest_outcomeD) simp
  then have "a\<lparr>at_external_anchors := []\<rparr> = a" by simp
  then show ?thesis using attested_and_sent[OF assms(1-7) refl refl, of "[]" None arg] no_anchors_accepted[OF none, of D S] assms(8) by simp
qed

end

interpretation receipts: attested_kind "''receipt''" receipt_to_dict receipt_from_dict receipt_wf
  by unfold_locales (simp_all add: receipt_round_trip)

interpretation refusals: attested_kind "''refusal''" refusal_to_dict refusal_from_dict refusal_wf
  by unfold_locales (simp_all add: refusal_round_trip)

text \<open>
  C27 (attested_then_verified): a well-formed receipt or refusal that the service attested with its own binding verifies with the
  same service, whether the attestation is handed over as an object or serialized and parsed again, and the artifact comes back
  unchanged; the signer's verifier is assumed to accept what the signer signs, and SHA-256 to give non-empty digests.
\<close>

theorem attested_then_verified:
  assumes "signer_verifies S" "\<And>m. dep_sha256 D m \<noteq> []" "aid \<noteq> []" "dt_ok t" "party_wf (as_issuer S)"
  shows "(receipt_wf r \<and> attest_receipt D S r aid t md [] [] = Inr a \<longrightarrow>
      verify_receipt_attestation D S (AttestationArg a) None = Inr (AttestedReceipt r) \<and>
      verify_receipt_attestation D S (AttestationValue (JObj (attestation_to_dict ''receipt'' a))) None = Inr (AttestedReceipt r)) \<and>
    (refusal_wf f \<and> attest_refusal D S f aid t md [] [] = Inr a \<longrightarrow>
      verify_refusal_attestation D S (AttestationArg a) None = Inr (AttestedRefusal f) \<and>
      verify_refusal_attestation D S (AttestationValue (JObj (attestation_to_dict ''refusal'' a))) None = Inr (AttestedRefusal f))"
proof (intro conjI impI; elim conjE)
  assume r: "receipt_wf r" "attest_receipt D S r aid t md [] [] = Inr a"
  note read = receipts.attested_then_read[OF r(2)[unfolded attest_receipt_def] r(1) assms(3-5,2,1)]
  show "verify_receipt_attestation D S (AttestationArg a) None = Inr (AttestedReceipt r)"
    using read[of "AttestationArg a"] by (auto simp: verify_receipt_attestation_def)
  show "verify_receipt_attestation D S (AttestationValue (JObj (attestation_to_dict ''receipt'' a))) None = Inr (AttestedReceipt r)"
    using read[of "AttestationValue (JObj (attestation_to_dict ''receipt'' a))"] by (auto simp: verify_receipt_attestation_def)
next
  assume f: "refusal_wf f" "attest_refusal D S f aid t md [] [] = Inr a"
  note read = refusals.attested_then_read[OF f(2)[unfolded attest_refusal_def] f(1) assms(3-5,2,1)]
  show "verify_refusal_attestation D S (AttestationArg a) None = Inr (AttestedRefusal f)"
    using read[of "AttestationArg a"] by (auto simp: verify_refusal_attestation_def)
  show "verify_refusal_attestation D S (AttestationValue (JObj (attestation_to_dict ''refusal'' a))) None = Inr (AttestedRefusal f)"
    using read[of "AttestationValue (JObj (attestation_to_dict ''refusal'' a))"] by (auto simp: verify_refusal_attestation_def)
qed

text \<open>
  C26 (attestation_accepted_iff): a receipt attestation is accepted exactly when it parses, its digest is the SHA-256 of the
  embedded artifact, each field of its proof binding is the one the artifact itself declares (none missing, none invented), no
  anchor fails against the configured log, and the verifier accepts the signature over the whole unsigned payload with the
  earliest anchor time; the result is then the parsed receipt, or the mapping when the artifact does not parse.
\<close>

theorem attestation_accepted_iff:
  "verify_receipt_attestation D S arg V = Inr out \<longleftrightarrow> (\<exists>a time m. resolve_attestation D ''receipt'' arg = Inr a \<and>
     digest_matches D (at_outcome_artifact a) (at_artifact_digest a) \<and>
     map (get_or_null (at_proof_binding a)) BINDING_FIELDS = map (get_or_null (derive_proof_binding (at_outcome_artifact a))) BINDING_FIELDS \<and>
     anchors_accepted D S a time \<and> canonicalize_bytes D (JObj (attestation_unsigned a)) = Inr m \<and>
     attestation_signature_ok (verifier_of S V) m (at_signature a) (at_issuer a) (at_issued_at a) time \<and>
     out = (case receipt_from_dict (JObj (at_outcome_artifact a)) of Inr r \<Rightarrow> AttestedReceipt r | Inl e \<Rightarrow> AttestedMapping (at_outcome_artifact a)))"
proof -
  have unit: "bindR m (\<lambda>_. k) = Inr x \<longleftrightarrow> m = Inr () \<and> k = Inr x" for m :: "unit res" and k :: "'b res" and x by (cases m) auto
  have binding: "(\<forall>k \<in> set BINDING_FIELDS. f k = g k) \<longleftrightarrow> map f BINDING_FIELDS = map g BINDING_FIELDS" for f g :: "string \<Rightarrow> json" by simp
  show ?thesis unfolding verify_receipt_attestation_def bindR_eq_Inr[of "resolve_attestation _ _ _"] unit verify_attested_iff binding
    by auto
qed

lemma receipt_artifact_id: "attested_artifact_id T (receipt_to_dict r) ''receipt'' = Inr (rc_receipt_id r)"
  by (simp add: attested_artifact_id_def receipt_to_dict_def)

lemma one_anchor_accepted:
  assumes "as_external_anchor_verifier S = Some check" "at_external_anchors a = [x]" "check x (JObj (at_artifact_digest a)) = Inr t"
  shows "anchors_accepted D S a (Some t)"
  using assms by (simp add: anchors_accepted_def anchor_tolerated_def anchor_times_def map_filter_simps earliest_of_def)

text \<open>
  An attestation anchored in a valid local log, serialized with its anchor and sent, is
  accepted by a service that checks anchors against the log as the append left it; the anchor counts with the time it was made.
\<close>

theorem anchored_attestation_verifies:
  assumes attested: "attest_receipt D S r aid t md [] [] = Inr a" "receipt_wf r" "aid \<noteq> []" "dt_ok t" "party_wf (as_issuer S)"
      "\<And>m. dep_sha256 D m \<noteq> []" "signer_verifies S"
    and entry: "appended_entry D parse uuid (JObj (at_artifact_digest a)) (Some ''receipt'') (Some (rc_receipt_id r)) ta m L = Inr e"
      "line_fits e" "parse (encode (json_norm (JObj e))) = Inr (json_norm (JObj e))"
    and args: "dt_ok ta" "json_plain (JObj m)" "json_wf (JObj m)" "al_uri L \<noteq> []" "dep_profile D \<noteq> []" "\<not> has_surrogate (dep_profile D)"
  shows "\<exists>b L' S'. append_anchor_to_attestation D T parse ''receipt'' uuid a ta m L = (Inr b, L') \<and>
    S' = S\<lparr>as_external_anchor_verifier := Some (log_anchor_verifier D T parse L')\<rparr> \<and> anchors_accepted D S' b (Some ta) \<and>
    verify_receipt_attestation D S' (AttestationValue (JObj (attestation_to_dict ''receipt'' b))) None = Inr (AttestedReceipt r)"
proof -
  have a: "at_artifact_type a = ''receipt''" "at_outcome_artifact a = receipt_to_dict r" "at_external_anchors a = []"
    using attested(1) unfolding attest_receipt_def by (rule attest_outcomeD, simp)+
  obtain es where es: "read_entries D parse L = Inr es" using entry(1) by (rule appended_entryD)
  note wf = read_entries_wf[OF es] and line = appended_entry_loads[OF entry(1) args(3,6) entry(2,3)]
  obtain x where x: "entry_anchor T e = Inr x" using appended_anchor[OF entry(1) es wf args(1-3)] by metis
  let ?L = "append_entry e L" and ?b = "a\<lparr>at_external_anchors := [external_anchor_to_dict x]\<rparr>"
  let ?S = "S\<lparr>as_external_anchor_verifier := Some (log_anchor_verifier D T parse ?L)\<rparr>"
  have appended: "append_anchor_to_attestation D T parse ''receipt'' uuid a ta m L = (Inr ?b, ?L)"
    unfolding append_anchor_to_attestation_def anchor_attestation_def a receipt_artifact_id
    using anchor_artifact_digest_appends[OF entry(1), of T] x by (simp add: a)
  have "log_anchor_verifier D T parse ?L (external_anchor_to_dict x) (JObj (at_artifact_digest a)) = Inr ta"
    unfolding log_anchor_verifier_def by (rule serialized_anchor_verifies[OF entry(1) line es wf args(1-5) attested(6) x])
  then have accepted: "anchors_accepted D ?S ?b (Some ta)" 
    by (intro one_anchor_accepted[where x = "external_anchor_to_dict x" and check = "log_anchor_verifier D T parse ?L"]) simp_all
  have "verify_receipt_attestation D ?S (AttestationValue (JObj (attestation_to_dict ''receipt'' ?b))) None = Inr (AttestedReceipt r)"
    using receipts.attested_and_sent[OF attested(1)[unfolded attest_receipt_def] attested(2-7) _ _ accepted]
    by (fastforce simp: verify_receipt_attestation_def)
  then show ?thesis using appended accepted by blast
qed

section \<open>Witnesses\<close>

definition attested_receipt :: receipt where
  "attested_receipt = \<lparr>rc_receipt_id = ''rcpt-1'', rc_intent_id = ''intent-1'', rc_occurred_at = 63000000060000000,
     rc_outcome = ''executed'', rc_tenant = ai_tenant sample_intent, rc_subject = ai_requester sample_intent,
     rc_action = (ai_action sample_intent)\<lparr>ac_parameters := []\<rparr>, rc_target = ai_target sample_intent, rc_summary = ''done'', rc_phase = JNull,
     rc_correlation = None, rc_reason_codes = [], rc_follow_up = [], rc_side_effects = [], rc_details = [], rc_metadata = [], rc_extensions = []\<rparr>"

definition sample_attestor :: attestation_service where
  "sample_attestor = \<lparr>as_signer = hmac_signer_ops sample_deps sample_signer,
     as_signer_verifier = \<lparr>av_verify = (\<lambda>p s. Inr (hmac_verify sample_deps sample_signer p s)), av_verify_with_metadata = None\<rparr>,
     as_issuer = ai_requester sample_intent, as_external_anchor_verifier = None\<rparr>"

lemma sample_attestor_verifies: "signer_verifies sample_attestor"
proof -
  have sha: "dep_sha256 sample_deps b \<noteq> []" for b by (simp add: sample_deps_def sample_sha256_def)
  have "hmac_digest sample_deps k p \<noteq> []" for k p unfolding hmac_digest_def Let_def by (rule sha)
  then have "signature_wf (hmac_sign sample_deps sample_signer m)" for m
    by (simp add: signature_wf_def hmac_sign_def sample_signer_def b64url_encode_nonempty)
  moreover have "so_sign (as_signer sample_attestor) m = Inr sig \<longleftrightarrow> sig = hmac_sign sample_deps sample_signer m" for m sig
    by (auto simp: sample_attestor_def hmac_signer_ops_def plain_signer_def)
  moreover have "attestation_signature_ok (as_signer_verifier sample_attestor) m (hmac_sign sample_deps sample_signer m) issuer t time" for m issuer t time
    using hmac.verify_sign by (simp add: attestation_signature_ok_def sample_attestor_def)
  ultimately show ?thesis unfolding signer_verifies_def by (intro allI impI conjI) simp_all
qed

lemma attested_receipt_wf: "receipt_wf attested_receipt"
  by (simp add: attested_receipt_def receipt_wf_def dt_ok_def datetime_limit_def sample_intent_def tenant_wf_def party_wf_def action_wf_def
      target_wf_def correlation_part_wf_def opt_wf_def)

lemmas attested_defs = receipt_to_dict_def attested_receipt_def contract_entry_def tenant_to_dict_def party_to_dict_def action_to_dict_def
  target_to_dict_def put_correlation_def put_defs put_if_def sample_intent_def

lemma attested_receipt_ok: "is_ok (canonicalize_bytes sample_deps (JObj (receipt_to_dict attested_receipt)))"
proof (rule canonicalize_bytes_ok)
  show "json_clean (JObj (receipt_to_dict attested_receipt))" by (simp add: attested_defs)
  show "int (json_depth (JObj (receipt_to_dict attested_receipt))) \<le> dep_max_json_depth sample_deps + 1"
    by (simp add: attested_defs sample_deps_def)
  show "text_bound (JObj (receipt_to_dict attested_receipt)) \<le> 1048576"
    using length_format_timestamp[of 63000000060000000] by (simp add: attested_defs)
qed

lemma derived_sample: "derive_proof_binding (receipt_to_dict attested_receipt) = [(''intent_id'', JStr ''intent-1'')]"
  by (simp add: derive_proof_binding_def attested_defs py_or_def mapping_or_empty_def action_hash_value_def)

lemma attested_by:
  assumes "as_issuer S = ai_requester sample_intent" "\<And>m. is_ok (so_sign (as_signer S) m)"
  obtains a where "attest_receipt sample_deps S attested_receipt ''att-1'' 63000000060000000 [] [] [] = Inr a"
proof -
  let ?v = "receipt_to_dict attested_receipt"
  obtain b where b: "canonicalize_bytes sample_deps (JObj ?v) = Inr b" using attested_receipt_ok by (auto simp: is_ok_iff)
  define h where "h = hex_of_bytes (dep_sha256 sample_deps b)"
  have h: "length h = 64" "\<not> has_surrogate h" by (simp_all add: h_def length_hex_of_bytes sample_deps_def sample_sha256_def)
  have d: "build_digest sample_deps ?v = Inr [(''algorithm'', JStr ''sha-256''), (''value'', JStr h)]"
    using b by (simp add: build_digest_Inr h_def)
  define u where "u = [(''attestation_id'', JStr ''att-1''), (''issued_at'', JStr (format_timestamp 63000000060000000)),
      (''issuer'', JObj (party_to_dict (ai_requester sample_intent))), (''artifact_type'', JStr ''receipt''),
      (''artifact_digest'', JObj [(''algorithm'', JStr ''sha-256''), (''value'', JStr h)]), (''outcome_artifact'', JObj ?v),
      (''proof_binding'', JObj [(''intent_id'', JStr ''intent-1'')]), (''metadata'', JObj [])]"
  have "is_ok (canonicalize_bytes sample_deps (JObj u))"
  proof (rule canonicalize_bytes_ok)
    show "json_clean (JObj u)" by (simp add: u_def attested_defs h)
    show "int (json_depth (JObj u)) \<le> dep_max_json_depth sample_deps + 1" by (simp add: u_def attested_defs sample_deps_def)
    show "text_bound (JObj u) \<le> 1048576" using length_format_timestamp[of 63000000060000000] by (simp add: u_def attested_defs h)
  qed
  then obtain m where m: "canonicalize_bytes sample_deps (JObj u) = Inr m" by (auto simp: is_ok_iff)
  obtain sig where sig: "so_sign (as_signer S) m = Inr sig" using assms(2)[of m] by (auto simp: is_ok_iff)
  have "is_ok (attest_receipt sample_deps S attested_receipt ''att-1'' 63000000060000000 [] [] [])"
    unfolding attest_receipt_def attest_outcome_def d sign_unsigned_payload_def
    using m sig by (simp add: attestation_unsigned_def derived_sample canonicalize_or_def u_def assms(1) is_ok_def del: canonicalize_value.simps)
  then show thesis using that by (auto simp: is_ok_iff)
qed

lemma sample_attested:
  obtains a where "attest_receipt sample_deps sample_attestor attested_receipt ''att-1'' 63000000060000000 [] [] [] = Inr a"
  by (rule attested_by[of sample_attestor]) (simp_all add: sample_attestor_def hmac_signer_ops_def plain_signer_def is_ok_def)

lemma sample_attest_facts:
  "party_wf (as_issuer sample_attestor)" "dt_ok 63000000060000000" "dep_sha256 sample_deps b \<noteq> []" "dep_profile sample_deps \<noteq> []"
  by (simp_all add: sample_attestor_def sample_intent_def party_wf_def dt_ok_def datetime_limit_def sample_deps_def sample_sha256_def)

theorem attested_then_verified_witness:
  "\<exists>a. attest_receipt sample_deps sample_attestor attested_receipt ''att-1'' 63000000060000000 [] [] [] = Inr a \<and>
     verify_receipt_attestation sample_deps sample_attestor (AttestationValue (JObj (attestation_to_dict ''receipt'' a))) None
       = Inr (AttestedReceipt attested_receipt)"
proof -
  obtain a where a: "attest_receipt sample_deps sample_attestor attested_receipt ''att-1'' 63000000060000000 [] [] [] = Inr a"
    using sample_attested .
  then show ?thesis
    using attested_then_verified[OF sample_attestor_verifies sample_attest_facts(3) _ sample_attest_facts(2,1), of "''att-1''" attested_receipt "[]" a]
      attested_receipt_wf by blast
qed

lemma sample_digest_shape:
  assumes "attest_receipt sample_deps sample_attestor attested_receipt ''att-1'' 63000000060000000 [] [] [] = Inr a"
  obtains h where "at_artifact_digest a = [(''algorithm'', JStr ''sha-256''), (''value'', JStr h)]" "length h = 64" "\<not> has_surrogate h"
  using assms unfolding attest_receipt_def
proof (rule attest_outcomeD)
  fix b m sig
  assume "a = \<lparr>at_attestation_id = ''att-1'', at_issued_at = 63000000060000000, at_issuer = as_issuer sample_attestor,
      at_artifact_type = ''receipt'', at_outcome_artifact = receipt_to_dict attested_receipt,
      at_artifact_digest = [(''algorithm'', JStr ''sha-256''), (''value'', JStr (hex_of_bytes (dep_sha256 sample_deps b)))],
      at_proof_binding = derive_proof_binding (receipt_to_dict attested_receipt), at_signature = sig, at_metadata = [], at_external_anchors = []\<rparr>"
  then show thesis
    by (intro that[of "hex_of_bytes (dep_sha256 sample_deps b)"]) (simp_all add: length_hex_of_bytes sample_deps_def sample_sha256_def)
qed

lemma sample_anchoring:
  assumes "at_artifact_digest a = [(''algorithm'', JStr ''sha-256''), (''value'', JStr h)]" "length h = 64" "\<not> has_surrogate h"
  obtains e where "\<forall>parse. appended_entry sample_deps parse ''01'' (JObj (at_artifact_digest a)) (Some ''receipt'') (Some (rc_receipt_id attested_receipt))
    63000000060000000 [] sample_anchor_log = Inr e" "line_fits e"
proof -
  let ?d = "[(''algorithm'', JStr ''sha-256''), (''value'', JStr h)]"
  let ?e = "new_entry ''01'' ?d (Some ''receipt'') (Some ''rcpt-1'') 63000000060000000 [] ''file:///anchors'' [] JNull"
  have "h \<noteq> []" using assms(2) by auto
  then have d: "normalize_artifact_digest (JObj ?d) = Inr ?d" by (simp add: normalize_artifact_digest_def expect_string_def)
  have r: "read_entries sample_deps parse sample_anchor_log = Inr []" for parse by (simp add: read_entries_def sample_anchor_log_def)
  note sample = new_entry_def LOCAL_ANCHOR_LOG_ENTRY_CONTRACT_def EXTERNAL_ANCHOR_CONTRACT_def
  have "is_ok (canonicalize_bytes sample_deps (JObj ?e))"
  proof (rule canonicalize_bytes_ok)
    show "json_clean (JObj ?e)" by (simp add: sample assms(3) INT_MAX_STR_DIGITS_def show_nat.simps)
    show "int (json_depth (JObj ?e)) \<le> dep_max_json_depth sample_deps + 1" by (simp add: sample sample_deps_def)
    show "text_bound (JObj ?e) \<le> 1048576"
      using length_format_timestamp[of 63000000060000000] by (simp add: sample assms(2) show_int_def show_nat.simps)
  qed
  then obtain b where "canonicalize_bytes sample_deps (JObj ?e) = Inr b" by (auto simp: is_ok_iff)
  then have h: "compute_entry_hash sample_deps ?e = Inr (hash_spec sample_deps (hex_of_bytes (dep_sha256 sample_deps b)))"
    by (simp add: compute_entry_hash_def anchor_hash_spec_def sha256_hex_def new_entry_unhashed)
  let ?f = "?e @ [(''entry_hash'', JObj (hash_spec sample_deps (hex_of_bytes (dep_sha256 sample_deps b))))]"
  have sha: "length (dep_sha256 sample_deps b) = 32" "dep_profile sample_deps = ''ACTENON-JCS-STRICT-1''" for b
    by (simp_all add: sample_deps_def sample_sha256_def)
  have "text_bound (JObj ?f) \<le> 1048576"
    using length_format_timestamp[of 63000000060000000] by (simp add: sample assms(2) sha show_int_def show_nat.simps length_hex_of_bytes)
  then have "length (encode (json_norm (JObj ?f))) \<le> 1048576" using length_encode[of "JObj ?f"] by linarith
  moreover have "json_depth (JObj ?f) \<le> 128" by (simp add: sample)
  ultimately have "line_fits ?f" unfolding line_fits_def DEFAULT_MAX_JSON_BYTES_def DEFAULT_MAX_JSON_DEPTH_def by linarith
  moreover have "\<forall>parse. appended_entry sample_deps parse ''01'' (JObj (at_artifact_digest a)) (Some ''receipt'')
      (Some (rc_receipt_id attested_receipt)) 63000000060000000 [] sample_anchor_log = Inr ?f"
    using h by (unfold appended_entry_def assms(1) d r) (simp add: attested_receipt_def sample_anchor_log_def)
  ultimately show thesis by (intro that)
qed

theorem anchored_attestation_verifies_witness:
  "\<exists>a parse b L' S'. attest_receipt sample_deps sample_attestor attested_receipt ''att-1'' 63000000060000000 [] [] [] = Inr a \<and>
    append_anchor_to_attestation sample_deps anchor_text parse ''receipt'' ''01'' a 63000000060000000 [] sample_anchor_log = (Inr b, L') \<and>
    verify_receipt_attestation sample_deps S' (AttestationValue (JObj (attestation_to_dict ''receipt'' b))) None = Inr (AttestedReceipt attested_receipt)"
proof -
  obtain a where a: "attest_receipt sample_deps sample_attestor attested_receipt ''att-1'' 63000000060000000 [] [] [] = Inr a"
    using sample_attested .
  obtain h where h: "at_artifact_digest a = [(''algorithm'', JStr ''sha-256''), (''value'', JStr h)]" "length h = 64" "\<not> has_surrogate h"
    using sample_digest_shape[OF a] .
  obtain e where e: "\<forall>parse. appended_entry sample_deps parse ''01'' (JObj (at_artifact_digest a)) (Some ''receipt'') (Some (rc_receipt_id attested_receipt))
    63000000060000000 [] sample_anchor_log = Inr e" "line_fits e" using sample_anchoring[OF h] .
  have plain: "json_plain (JObj [])" "json_wf (JObj [])" "al_uri sample_anchor_log \<noteq> []" by (simp_all add: dict_wf_def sample_anchor_log_def)
  have profile: "\<not> has_surrogate (dep_profile sample_deps)" by (simp add: sample_deps_def)
  show ?thesis
    using anchored_attestation_verifies[OF a attested_receipt_wf _ sample_attest_facts(2,1,3) sample_attestor_verifies
      e(1)[rule_format, of "\<lambda>l. Inr (json_norm (JObj e))"] e(2) refl sample_attest_facts(2) plain sample_attest_facts(4) profile, of anchor_text] a by fastforce
qed

end
