(* ===== verification/ManagedKeys.thy ===== *)
theory ManagedKeys
  imports Programs Signers Samples
begin

text \<open>
  Keys in the custody of a provider: the life cycle of a key (\<^verbatim>\<open>proof/signers/key_lifecycle.py\<close>), the signer over a
  managed key (\<^verbatim>\<open>external_managed.py\<close>), the AWS KMS backend (\<^verbatim>\<open>aws_kms.py\<close>) and the two thin adapters (\<^verbatim>\<open>kms.py\<close>,
  \<^verbatim>\<open>hsm.py\<close>). A provider is a parameter: its calls are programs over a world of any type, so that its answers may
  change between two calls.
\<close>

section \<open>The life cycle of a key\<close>

datatype key_state = ACTIVE | RETIRED | SUSPENDED | REVOKED | HARD_REVOKED

fun state_value :: "key_state \<Rightarrow> string" where
  "state_value ACTIVE = ''active''"
| "state_value RETIRED = ''retired''"
| "state_value SUSPENDED = ''suspended''"
| "state_value REVOKED = ''revoked''"
| "state_value HARD_REVOKED = ''hard_revoked''"

text \<open>
  \<open>str.lower()\<close>, as far as comparisons with ASCII words can tell: besides the ASCII letters only the Kelvin sign has a
  lower case that is one ASCII letter.
\<close>

definition lower_codepoint :: "string \<Rightarrow> string" where
  "lower_codepoint c = (if c = [CHR 0xE2, CHR 0x84, CHR 0xAA] then ''k'' else map lower_char c)"

definition str_lower :: "string \<Rightarrow> string" where
  "str_lower s = concat (map lower_codepoint (codepoints s))"

abbreviation KeyLifecycleError :: "string \<Rightarrow> exn" where
  "KeyLifecycleError \<equiv> Raise (OtherError ''KeyLifecycleError'')"

definition state_from_string :: "string \<Rightarrow> key_state res" where
  "state_from_string v = (case find (\<lambda>s. state_value s = str_lower v) [ACTIVE, RETIRED, SUSPENDED, REVOKED, HARD_REVOKED] of
     Some s \<Rightarrow> Inr s | None \<Rightarrow> Inl (KeyLifecycleError ''unknown key lifecycle state''))"

definition SIGN_ALLOWED_STATES :: "key_state set" where
  "SIGN_ALLOWED_STATES = {ACTIVE}"

definition VERIFY_ALLOWED_STATES :: "key_state set" where
  "VERIFY_ALLOWED_STATES = {ACTIVE, RETIRED, SUSPENDED, REVOKED}"

fun ALLOWED_TRANSITIONS :: "key_state \<Rightarrow> key_state set" where
  "ALLOWED_TRANSITIONS ACTIVE = {RETIRED, SUSPENDED, REVOKED, HARD_REVOKED}"
| "ALLOWED_TRANSITIONS RETIRED = {SUSPENDED, REVOKED, HARD_REVOKED}"
| "ALLOWED_TRANSITIONS SUSPENDED = {ACTIVE, RETIRED, REVOKED, HARD_REVOKED}"
| "ALLOWED_TRANSITIONS REVOKED = {HARD_REVOKED}"
| "ALLOWED_TRANSITIONS HARD_REVOKED = {}"

text \<open>Every operation takes a state or its text.\<close>

datatype state_arg = State key_state | StateText string

fun resolve_state :: "state_arg \<Rightarrow> key_state res" where
  "resolve_state (State s) = Inr s"
| "resolve_state (StateText t) = state_from_string t"

definition assert_can_transition :: "state_arg \<Rightarrow> state_arg \<Rightarrow> unit res" where
  "assert_can_transition from_state to_state =
     bindR (resolve_state from_state) (\<lambda>current.
     bindR (resolve_state to_state) (\<lambda>target.
     if target \<notin> ALLOWED_TRANSITIONS current
     then Inl (KeyLifecycleError (''invalid key lifecycle transition: '' @ state_value current @ '' -> '' @ state_value target))
     else Inr ()))"

definition can_transition :: "state_arg \<Rightarrow> state_arg \<Rightarrow> bool" where
  "can_transition from_state to_state \<longleftrightarrow> (case assert_can_transition from_state to_state of Inr _ \<Rightarrow> True | Inl _ \<Rightarrow> False)"

definition assert_can_sign :: "state_arg \<Rightarrow> unit res" where
  "assert_can_sign state = bindR (resolve_state state) (\<lambda>current.
     if current \<notin> SIGN_ALLOWED_STATES then Inl (KeyLifecycleError ''key cannot sign'') else Inr ())"

definition assert_can_verify :: "state_arg \<Rightarrow> unit res" where
  "assert_can_verify state = bindR (resolve_state state) (\<lambda>current.
     if current \<notin> VERIFY_ALLOWED_STATES then Inl (KeyLifecycleError ''key cannot verify'') else Inr ())"

definition is_terminal :: "state_arg \<Rightarrow> bool res" where
  "is_terminal state = bindR (resolve_state state) (\<lambda>current. Inr (ALLOWED_TRANSITIONS current = {}))"

section \<open>Managed keys and their signer\<close>

record managed_key_reference =
  mk_provider :: string
  mk_provider_key_ref :: string
  mk_key_id :: string
  mk_algorithm :: string
  mk_purpose :: string
  mk_tenant_id :: "string option"
  mk_public_key_ref :: "string option"
  mk_key_version :: "string option"
  mk_status :: string

record managed_audit_metadata =
  ma_operation_id :: string
  ma_purpose :: string
  ma_tenant_id :: "string option"
  ma_request_id :: "string option"
  ma_correlation_id :: "string option"
  ma_actor_id :: "string option"
  ma_payload_digest :: "string option"
  ma_extra :: "(string \<times> string) list"

definition audit_metadata_to_dict :: "managed_audit_metadata \<Rightarrow> dict" where
  "audit_metadata_to_dict m =
     [(''operation_id'', JStr (ma_operation_id m)), (''purpose'', JStr (ma_purpose m))]
     @ concat (map (\<lambda>(key, v). case v of None \<Rightarrow> [] | Some s \<Rightarrow> [(key, JStr s)])
         [(''tenant_id'', ma_tenant_id m), (''request_id'', ma_request_id m), (''correlation_id'', ma_correlation_id m),
          (''actor_id'', ma_actor_id m), (''payload_digest'', ma_payload_digest m)])
     @ (if ma_extra m = [] then [] else [(''extra'', JObj (map (\<lambda>(key, v). (key, JStr v)) (ma_extra m)))])"

record managed_signing_result =
  mr_algorithm :: string
  mr_key_id :: string
  mr_signature :: string
  mr_public_key_ref :: string
  mr_provider_operation_id :: "string option"

definition to_signature_spec :: "managed_signing_result \<Rightarrow> signature_spec" where
  "to_signature_spec r = \<lparr>sg_algorithm = mr_algorithm r, sg_key_id = mr_key_id r,
     sg_encoding = ''base64url'', sg_value = b64url_encode (mr_signature r)\<rparr>"

record 'w managed_backend =
  mb_get_key_status :: "managed_key_reference \<Rightarrow> ('w, string) prog"
  mb_sign_canonical_bytes :: "managed_key_reference \<Rightarrow> string \<Rightarrow> dict \<Rightarrow> ('w, managed_signing_result) prog"
  mb_verify_canonical_bytes :: "managed_key_reference \<Rightarrow> string \<Rightarrow> string \<Rightarrow> ('w, bool) prog"

record 'w managed_signer =
  ms_backend :: "'w managed_backend"
  ms_key :: managed_key_reference
  ms_required_purpose :: string
  ms_audit_metadata :: "managed_audit_metadata option"

definition ALLOWED_KEY_PURPOSES :: "string set" where
  "ALLOWED_KEY_PURPOSES = {''proof_issuance'', ''outcome_attestation''}"

definition BLOCKED_KEY_STATUSES :: "string set" where
  "BLOCKED_KEY_STATUSES = {''suspended'', ''revoked'', ''hard_revoked'', ''disabled'', ''deleted'', ''unknown''}"

abbreviation ExternalManagedSigningError :: "string \<Rightarrow> exn" where
  "ExternalManagedSigningError \<equiv> Raise (OtherError ''ExternalManagedSigningError'')"

definition ensure_key_can_sign :: "'w managed_signer \<Rightarrow> ('w, unit) prog" where
  "ensure_key_can_sign S = (let key = ms_key S in
     if mk_purpose key \<notin> ALLOWED_KEY_PURPOSES
     then raiseP (ExternalManagedSigningError (''unsupported managed signing key purpose: '' @ mk_purpose key))
     else if mk_purpose key \<noteq> ms_required_purpose S
     then raiseP (ExternalManagedSigningError (''managed signing key purpose mismatch: required '' @ ms_required_purpose S
       @ '', got '' @ mk_purpose key))
     else let local_status = str_lower (py_strip (mk_status key)) in
     bindP (mb_get_key_status (ms_backend S) key) (\<lambda>status.
     let provider_status = str_lower (py_strip status) in
     if local_status \<noteq> ''active''
     then raiseP (ExternalManagedSigningError (''managed signing key is not active: '' @ mk_status key))
     else if provider_status \<noteq> ''active''
     then raiseP (ExternalManagedSigningError ''managed signing provider reports non-active key status'')
     else if local_status \<in> BLOCKED_KEY_STATUSES \<or> provider_status \<in> BLOCKED_KEY_STATUSES
     then raiseP (ExternalManagedSigningError ''managed signing key is suspended, revoked, or unavailable'')
     else retP ()))"

definition signing_audit_metadata :: "'w managed_signer \<Rightarrow> managed_audit_metadata" where
  "signing_audit_metadata S = (case ms_audit_metadata S of Some m \<Rightarrow> m
     | None \<Rightarrow> \<lparr>ma_operation_id = ''external-managed-signing-operation'', ma_purpose = ms_required_purpose S,
         ma_tenant_id = mk_tenant_id (ms_key S), ma_request_id = None, ma_correlation_id = None, ma_actor_id = None,
         ma_payload_digest = None, ma_extra = []\<rparr>)"

definition sign_managed :: "'w managed_signer \<Rightarrow> string \<Rightarrow> ('w, managed_signing_result) prog" where
  "sign_managed S payload =
     bindP (ensure_key_can_sign S) (\<lambda>_.
     bindP (mb_sign_canonical_bytes (ms_backend S) (ms_key S) payload (audit_metadata_to_dict (signing_audit_metadata S))) (\<lambda>result.
     if mr_algorithm result \<noteq> mk_algorithm (ms_key S) \<or> mr_key_id result \<noteq> mk_key_id (ms_key S)
     then raiseP (ExternalManagedSigningError ''managed signing backend returned mismatched algorithm or key id'')
     else if mr_signature result = []
     then raiseP (ExternalManagedSigningError ''managed signing backend returned an empty signature'')
     else if mr_public_key_ref result = []
     then raiseP (ExternalManagedSigningError ''managed signing backend did not return a public key reference'')
     else retP result))"

definition managed_sign :: "'w managed_signer \<Rightarrow> string \<Rightarrow> ('w, signature_spec) prog" where
  "managed_sign S payload = bindP (sign_managed S payload) (\<lambda>result. retP (to_signature_spec result))"

text \<open>The check of a signature before the provider is asked, which all three adapters share.\<close>

definition delegate_verify :: "string \<Rightarrow> string \<Rightarrow> (string \<Rightarrow> ('w, bool) prog) \<Rightarrow> signature_spec \<Rightarrow> ('w, bool) prog" where
  "delegate_verify algorithm key_id ask sig =
     (if sg_algorithm sig \<noteq> algorithm \<or> sg_key_id sig \<noteq> key_id \<or> sg_encoding sig \<noteq> ''base64url'' then retP False
      else case b64url_decode (sg_value sig) of Inl _ \<Rightarrow> retP False | Inr raw \<Rightarrow> ask raw)"

definition managed_verify :: "'w managed_signer \<Rightarrow> string \<Rightarrow> signature_spec \<Rightarrow> ('w, bool) prog" where
  "managed_verify S payload = delegate_verify (mk_algorithm (ms_key S)) (mk_key_id (ms_key S))
     (mb_verify_canonical_bytes (ms_backend S) (ms_key S) payload)"

text \<open>Which backends may be configured.\<close>

definition is_production_like_environment :: "(string \<times> string) list \<Rightarrow> bool" where
  "is_production_like_environment env \<longleftrightarrow>
     str_lower (py_strip (case dget env ''ACTENON_ENV'' of None \<Rightarrow> [] | Some s \<Rightarrow> s)) \<in> set PRODUCTION_ENV_VALUES
     \<or> list_ex (\<lambda>name. env_truthy (dget env name)) PRODUCTION_FLAG_ENVS"

abbreviation ProductionSigningGuardError :: "string \<Rightarrow> exn" where
  "ProductionSigningGuardError \<equiv> Raise (OtherError ''ProductionSigningGuardError'')"

definition validate_signing_backend_for_environment :: "string \<Rightarrow> (string \<times> string) list \<Rightarrow> bool option \<Rightarrow> unit res" where
  "validate_signing_backend_for_environment backend environment production =
     (let backend_value = str_lower (py_strip backend);
          production_mode = (case production of None \<Rightarrow> is_production_like_environment environment | Some p \<Rightarrow> p) in
      if \<not> production_mode then Inr ()
      else if backend_value = ''external_managed'' then Inr ()
      else if backend_value = ''development_local_hmac''
      then Inl (ProductionSigningGuardError (''development_local_hmac is disabled in production. Production proof issuance ''
        @ ''requires non-exportable asymmetric KMS/HSM custody through external_managed.''))
      else if backend_value = ''pilot_local_eddsa''
        \<and> \<not> env_truthy (dget environment ''ACTENON_ALLOW_PILOT_LOCAL_EDDSA_IN_PRODUCTION'')
      then Inl (ProductionSigningGuardError (''pilot_local_eddsa is disabled in production. Use external_managed KMS/HSM custody, ''
        @ ''or set ACTENON_ALLOW_PILOT_LOCAL_EDDSA_IN_PRODUCTION=1 only for an explicitly unsafe emergency/demo override.''))
      else if backend_value \<noteq> ''pilot_local_eddsa''
      then Inl (ProductionSigningGuardError ''unknown signing backend'')
      else Inr ())"

section \<open>KMS and HSM adapters\<close>

record kms_key_handle =
  kk_key_uri :: string
  kk_key_id :: string
  kk_algorithm :: string
  kk_provider :: string
  kk_key_version :: "string option"

record hsm_key_handle =
  hk_module :: string
  hk_key_label :: string
  hk_key_id :: string
  hk_algorithm :: string
  hk_slot :: "string option"

definition kms_sign :: "(kms_key_handle \<Rightarrow> string \<Rightarrow> ('w, string) prog) \<Rightarrow> kms_key_handle \<Rightarrow> string \<Rightarrow> ('w, signature_spec) prog" where
  "kms_sign backend_sign key payload = bindP (backend_sign key payload) (\<lambda>raw_signature.
     retP \<lparr>sg_algorithm = kk_algorithm key, sg_key_id = kk_key_id key, sg_encoding = ''base64url'',
       sg_value = b64url_encode raw_signature\<rparr>)"

definition kms_verify ::
  "(kms_key_handle \<Rightarrow> string \<Rightarrow> string \<Rightarrow> ('w, bool) prog) \<Rightarrow> kms_key_handle \<Rightarrow> string \<Rightarrow> signature_spec \<Rightarrow> ('w, bool) prog" where
  "kms_verify backend_verify key payload = delegate_verify (kk_algorithm key) (kk_key_id key) (backend_verify key payload)"

definition hsm_sign :: "(hsm_key_handle \<Rightarrow> string \<Rightarrow> ('w, string) prog) \<Rightarrow> hsm_key_handle \<Rightarrow> string \<Rightarrow> ('w, signature_spec) prog" where
  "hsm_sign backend_sign key payload = bindP (backend_sign key payload) (\<lambda>raw_signature.
     retP \<lparr>sg_algorithm = hk_algorithm key, sg_key_id = hk_key_id key, sg_encoding = ''base64url'',
       sg_value = b64url_encode raw_signature\<rparr>)"

definition hsm_verify ::
  "(hsm_key_handle \<Rightarrow> string \<Rightarrow> string \<Rightarrow> ('w, bool) prog) \<Rightarrow> hsm_key_handle \<Rightarrow> string \<Rightarrow> signature_spec \<Rightarrow> ('w, bool) prog" where
  "hsm_verify backend_verify key payload = delegate_verify (hk_algorithm key) (hk_key_id key) (backend_verify key payload)"

section \<open>AWS KMS\<close>

text \<open>
  The calls of the client: \<open>describe_key\<close> gives a response, \<open>sign\<close> the entry \<open>Signature\<close> of its response if it has one,
  \<open>verify\<close> a response. Key reference, message and algorithm are the arguments that vary.
\<close>

record 'w kms_client =
  kc_describe_key :: "string \<Rightarrow> ('w, json) prog"
  kc_sign :: "string \<Rightarrow> string \<Rightarrow> string \<Rightarrow> ('w, string option) prog"
  kc_verify :: "string \<Rightarrow> string \<Rightarrow> string \<Rightarrow> string \<Rightarrow> ('w, dict) prog"

definition AWS_KMS_ALGORITHMS :: "string set" where
  "AWS_KMS_ALGORITHMS = {''RS256'', ''RS384'', ''RS512'', ''PS256'', ''PS384'', ''PS512'', ''ES256'', ''ES384'', ''ES512'', ''EdDSA''}"

definition AWS_KMS_KEY_STATE_MAP :: "(string \<times> key_state) list" where
  "AWS_KMS_KEY_STATE_MAP = [(''Enabled'', ACTIVE), (''Disabled'', SUSPENDED), (''PendingDeletion'', REVOKED),
     (''PendingImport'', SUSPENDED), (''Unavailable'', REVOKED), (''Updating'', SUSPENDED)]"

fun restrictiveness :: "key_state \<Rightarrow> nat" where
  "restrictiveness ACTIVE = 0"
| "restrictiveness RETIRED = 1"
| "restrictiveness SUSPENDED = 2"
| "restrictiveness REVOKED = 3"
| "restrictiveness HARD_REVOKED = 4"

definition stricter_state :: "key_state \<Rightarrow> key_state \<Rightarrow> key_state" where
  "stricter_state operator_state kms_state =
     (if restrictiveness operator_state < restrictiveness kms_state then kms_state else operator_state)"

text \<open>\<open>value[name]\<close> of a response.\<close>

definition subscript :: "json \<Rightarrow> string \<Rightarrow> json res" where
  "subscript v name = (case v of
     JObj d \<Rightarrow> (case dget d name of Some x \<Rightarrow> Inr x | None \<Rightarrow> Inl (Raise KeyError name))
   | _ \<Rightarrow> Inl (Raise TypeError ''not subscriptable''))"

definition describe_state :: "'w kms_client \<Rightarrow> managed_key_reference \<Rightarrow> ('w, json) prog" where
  "describe_state C key = catchP
     (bindP (kc_describe_key C (mk_provider_key_ref key)) (\<lambda>response.
      liftP (bindR (subscript response ''KeyMetadata'') (\<lambda>metadata. subscript metadata ''KeyState''))))
     (\<lambda>_. raiseP (ExternalManagedSigningError ''failed to describe KMS key''))"

definition aws_get_key_status :: "'w kms_client \<Rightarrow> managed_key_reference \<Rightarrow> ('w, string) prog" where
  "aws_get_key_status C key =
     bindP (liftP (state_from_string (mk_status key))) (\<lambda>operator_state.
     if operator_state = HARD_REVOKED then retP (state_value operator_state)
     else bindP (describe_state C key) (\<lambda>aws_state.
     if \<not> hashable aws_state then raiseP (Raise TypeError ''unhashable type'')
     else (case (case aws_state of JStr s \<Rightarrow> dget AWS_KMS_KEY_STATE_MAP s | _ \<Rightarrow> None) of
         None \<Rightarrow> raiseP (ExternalManagedSigningError ''unknown AWS KMS key state'')
       | Some kms_state \<Rightarrow> retP (state_value (stricter_state operator_state kms_state)))))"

definition aws_signing_result :: "deps \<Rightarrow> managed_key_reference \<Rightarrow> string \<Rightarrow> managed_signing_result" where
  "aws_signing_result D key signature =
     \<lparr>mr_algorithm = mk_algorithm key, mr_key_id = mk_key_id key, mr_signature = signature,
      mr_public_key_ref = (case mk_public_key_ref key of
        Some (c # cs) \<Rightarrow> c # cs | _ \<Rightarrow> ''aws-kms://'' @ mk_provider_key_ref key),
      mr_provider_operation_id = Some (''aws-kms-sign-'' @ take 16 (hex_of_bytes (dep_sha256 D signature)))\<rparr>"

definition aws_sign_canonical_bytes ::
  "deps \<Rightarrow> 'w kms_client \<Rightarrow> managed_key_reference \<Rightarrow> string \<Rightarrow> dict \<Rightarrow> ('w, managed_signing_result) prog" where
  "aws_sign_canonical_bytes D C key payload audit_metadata =
     bindP (aws_get_key_status C key) (\<lambda>status.
     case assert_can_sign (StateText status) of
       Inl _ \<Rightarrow> raiseP (ExternalManagedSigningError ''AWS KMS key cannot sign'')
     | Inr _ \<Rightarrow>
       if mk_algorithm key \<notin> AWS_KMS_ALGORITHMS
       then raiseP (ExternalManagedSigningError ''AWS KMS backend does not support algorithm'')
       else bindP (catchP (kc_sign C (mk_provider_key_ref key) payload (mk_algorithm key))
           (\<lambda>_. raiseP (ExternalManagedSigningError ''AWS KMS Sign failed''))) (\<lambda>response.
         case response of
           None \<Rightarrow> raiseP (Raise KeyError ''Signature'')
         | Some signature \<Rightarrow> retP (aws_signing_result D key signature)))"

definition aws_verify_canonical_bytes :: "'w kms_client \<Rightarrow> managed_key_reference \<Rightarrow> string \<Rightarrow> string \<Rightarrow> ('w, bool) prog" where
  "aws_verify_canonical_bytes C key payload signature =
     bindP (aws_get_key_status C key) (\<lambda>status.
     case assert_can_verify (StateText status) of
       Inl _ \<Rightarrow> retP False
     | Inr _ \<Rightarrow>
       if mk_algorithm key \<notin> AWS_KMS_ALGORITHMS then retP False
       else catchP (bindP (kc_verify C (mk_provider_key_ref key) payload signature (mk_algorithm key)) (\<lambda>response.
           retP (truthy (case dget response ''SignatureValid'' of None \<Rightarrow> JBool False | Some v \<Rightarrow> v))))
         (\<lambda>_. retP False))"

definition aws_backend :: "deps \<Rightarrow> 'w kms_client \<Rightarrow> 'w managed_backend" where
  "aws_backend D C = \<lparr>mb_get_key_status = aws_get_key_status C, mb_sign_canonical_bytes = aws_sign_canonical_bytes D C,
     mb_verify_canonical_bytes = aws_verify_canonical_bytes C\<rparr>"

section \<open>Paths of a key\<close>

text \<open>One permitted transition; a path is a sequence of them.\<close>

inductive key_step :: "key_state \<Rightarrow> key_state \<Rightarrow> bool" where
  transition: "assert_can_transition (State s) (State t) = Inr () \<Longrightarrow> key_step s t"

lemma key_step_iff [simp]: "key_step s t \<longleftrightarrow> t \<in> ALLOWED_TRANSITIONS s"
  by (simp add: key_step.simps assert_can_transition_def)

lemma blocked_path: "rtranclp key_step s t \<Longrightarrow> s \<in> {REVOKED, HARD_REVOKED} \<Longrightarrow> t \<in> {s, HARD_REVOKED}"
  by (induction rule: rtranclp_induct) auto

lemma path_to: "rtranclp key_step s t" if "s \<in> {ACTIVE, RETIRED, SUSPENDED}" for s t
proof -
  have "rtranclp key_step SUSPENDED u" "rtranclp key_step s SUSPENDED" for u
    using that by (cases u; auto intro: r_into_rtranclp)+
  then show ?thesis by (rule rtranclp_trans[rotated])
qed

text \<open>
  The states a key can reach by permitted transitions: a revoked key only ever stays revoked or becomes
  hard-revoked, a hard-revoked key stays as it is, and from every other state (also from retired, by way of suspended)
  every state can be reached.
\<close>

theorem key_paths:
  "rtranclp key_step s t \<longleftrightarrow>
     (case s of REVOKED \<Rightarrow> t \<in> {REVOKED, HARD_REVOKED} | HARD_REVOKED \<Rightarrow> t = HARD_REVOKED | _ \<Rightarrow> True)"
proof (cases "s \<in> {REVOKED, HARD_REVOKED}")
  case True
  then show ?thesis using blocked_path[of s t] by (auto intro: r_into_rtranclp split: key_state.splits)
next
  case False
  then have "s \<in> {ACTIVE, RETIRED, SUSPENDED}" by (cases s) auto
  then show ?thesis using path_to[of s t] False by (auto split: key_state.splits)
qed

lemma revoked_never_signs:
  assumes "rtranclp key_step s t" "s \<in> {REVOKED, HARD_REVOKED}"
  shows "\<exists>e. assert_can_sign (State t) = Inl (KeyLifecycleError e)"
  using blocked_path[OF assms] assms(2) by (auto simp: assert_can_sign_def SIGN_ALLOWED_STATES_def)

section \<open>What a managed signature shows\<close>

lemma bindP_Inr: "bindP m f w = (Inr y, w'') \<longleftrightarrow> (\<exists>x w'. m w = (Inr x, w') \<and> f x w' = (Inr y, w''))"
  by (auto simp: bindP_def split: sum.splits prod.splits)

lemma prog_Inr:
  "retP x w = (Inr y, w') \<longleftrightarrow> y = x \<and> w' = w" "raiseP e w \<noteq> (Inr y, w')" "liftP r w = (Inr y, w') \<longleftrightarrow> r = Inr y \<and> w' = w"
  "catchP m (\<lambda>_. raiseP e) w = (Inr y, w') \<longleftrightarrow> m w = (Inr y, w')"
  by (auto simp: prog_defs split: sum.splits prod.splits)

lemma state_value_strip [simp]: "py_strip (state_value s) = state_value s"
  by (cases s) (simp_all add: py_strip_def is_continuation_def letter_not_space)

lemma state_value_lower [simp]: "str_lower (state_value s) = state_value s"
  by (cases s) (simp_all add: str_lower_def lower_codepoint_def lower_char_def is_continuation_def)

lemma guard_Inr: "(if c then raiseP e else m) w = (Inr y, w') \<longleftrightarrow> \<not> c \<and> m w = (Inr y, w')"
  by (simp add: raiseP_def)

lemma state_value_inj [simp]: "state_value s = state_value t \<longleftrightarrow> s = t" "state_value s = ''active'' \<longleftrightarrow> s = ACTIVE"
  by (cases s; cases t; simp)+

lemma state_from_value [simp]: "state_from_string (state_value s) = Inr s"
  unfolding state_from_string_def state_value_lower by (cases s) simp_all

lemma assert_can_value [simp]:
  "assert_can_sign (StateText (state_value s)) = (if s = ACTIVE then Inr () else Inl (KeyLifecycleError ''key cannot sign''))"
  "assert_can_verify (StateText (state_value s)) = (if s = HARD_REVOKED then Inl (KeyLifecycleError ''key cannot verify'') else Inr ())"
  unfolding assert_can_sign_def assert_can_verify_def resolve_state.simps state_from_value bindR_Inr
    SIGN_ALLOWED_STATES_def VERIFY_ALLOWED_STATES_def
  by (cases s; simp)+

lemma aws_status_Inr:
  "aws_get_key_status C key w = (Inr v, w') \<longleftrightarrow> (\<exists>operator_state. state_from_string (mk_status key) = Inr operator_state \<and>
     (if operator_state = HARD_REVOKED then v = state_value HARD_REVOKED \<and> w' = w
      else \<exists>s kms_state. describe_state C key w = (Inr (JStr s), w') \<and> dget AWS_KMS_KEY_STATE_MAP s = Some kms_state \<and>
        v = state_value (stricter_state operator_state kms_state)))"
proof (cases "state_from_string (mk_status key)")
  case (Inl e)
  then show ?thesis by (simp add: aws_get_key_status_def bindP_Inr prog_Inr)
next
  case (Inr operator_state)
  show ?thesis
  proof (cases "operator_state = HARD_REVOKED")
    case True
    with Inr show ?thesis by (simp add: aws_get_key_status_def bindP_Inr prog_Inr del: state_value.simps)
  next
    case False
    have "(if \<not> hashable a then raiseP (Raise TypeError ''unhashable type'')
       else (case (case a of JStr s \<Rightarrow> dget AWS_KMS_KEY_STATE_MAP s | _ \<Rightarrow> None) of
           None \<Rightarrow> raiseP (ExternalManagedSigningError ''unknown AWS KMS key state'')
         | Some kms_state \<Rightarrow> retP (f kms_state))) u = (Inr v, w') \<longleftrightarrow>
       (\<exists>s kms_state. a = JStr s \<and> u = w' \<and> dget AWS_KMS_KEY_STATE_MAP s = Some kms_state \<and> v = f kms_state)" for a f u
      by (cases a) (auto simp: prog_Inr split: option.splits)
    with Inr False show ?thesis
      unfolding aws_get_key_status_def bindP_Inr prog_Inr by (simp add: bindP_Inr) blast
  qed
qed

lemma kms_state_active: "dget AWS_KMS_KEY_STATE_MAP s = Some ACTIVE \<longleftrightarrow> s = ''Enabled''"
  by (simp add: AWS_KMS_KEY_STATE_MAP_def)

lemma stricter_state_active: "stricter_state a k = ACTIVE \<longleftrightarrow> a = ACTIVE \<and> k = ACTIVE"
  by (cases a; cases k; simp add: stricter_state_def)

lemma stricter_state_hard: "stricter_state a k = HARD_REVOKED \<longleftrightarrow> a = HARD_REVOKED \<or> k = HARD_REVOKED"
  by (cases a; cases k; simp add: stricter_state_def)

lemma aws_status_active:
  "aws_get_key_status C key w = (Inr (state_value ACTIVE), w') \<longleftrightarrow>
     state_from_string (mk_status key) = Inr ACTIVE \<and> describe_state C key w = (Inr (JStr ''Enabled''), w')"
  unfolding aws_status_Inr state_value_inj using kms_state_active
  by (auto simp: eq_commute[of ACTIVE] stricter_state_active simp del: state_value.simps split: if_splits)

definition aws_signer :: "deps \<Rightarrow> 'w kms_client \<Rightarrow> managed_key_reference \<Rightarrow> string \<Rightarrow> 'w managed_signer" where
  "aws_signer D C key purpose =
     \<lparr>ms_backend = aws_backend D C, ms_key = key, ms_required_purpose = purpose, ms_audit_metadata = None\<rparr>"

lemma ensure_aws_key:
  "ensure_key_can_sign (aws_signer D C key purpose) w = (Inr u, w') \<longleftrightarrow>
     mk_purpose key = purpose \<and> purpose \<in> ALLOWED_KEY_PURPOSES \<and> str_lower (py_strip (mk_status key)) = ''active'' \<and>
     state_from_string (mk_status key) = Inr ACTIVE \<and> describe_state C key w = (Inr (JStr ''Enabled''), w')"
proof -
  have v: "str_lower (py_strip v) = ''active'' \<longleftrightarrow> v = state_value ACTIVE" if "aws_get_key_status C key w = (Inr v, u)" for v u
    using that unfolding aws_status_Inr by (auto simp del: state_value.simps split: if_splits)
  have "''active'' \<notin> BLOCKED_KEY_STATUSES" by (simp add: BLOCKED_KEY_STATUSES_def)
  then have "ensure_key_can_sign (aws_signer D C key purpose) w = (Inr u, w') \<longleftrightarrow>
      mk_purpose key = purpose \<and> purpose \<in> ALLOWED_KEY_PURPOSES \<and> str_lower (py_strip (mk_status key)) = ''active'' \<and>
      (\<exists>v. aws_get_key_status C key w = (Inr v, w') \<and> str_lower (py_strip v) = ''active'')"
    by (auto simp: ensure_key_can_sign_def aws_signer_def aws_backend_def Let_def bindP_Inr prog_Inr split: if_splits)
  also have "(\<exists>v. aws_get_key_status C key w = (Inr v, w') \<and> str_lower (py_strip v) = ''active'') \<longleftrightarrow>
      aws_get_key_status C key w = (Inr (state_value ACTIVE), w')" using v by blast
  finally show ?thesis unfolding aws_status_active .
qed

lemma aws_sign_Inr:
  "aws_sign_canonical_bytes D C key payload m w = (Inr r, w') \<longleftrightarrow>
     state_from_string (mk_status key) = Inr ACTIVE \<and> mk_algorithm key \<in> AWS_KMS_ALGORITHMS \<and>
     (\<exists>w1 signature. describe_state C key w = (Inr (JStr ''Enabled''), w1) \<and>
       kc_sign C (mk_provider_key_ref key) payload (mk_algorithm key) w1 = (Inr (Some signature), w') \<and>
       r = aws_signing_result D key signature)"
proof -
  have st: "(case assert_can_sign (StateText v) of Inl _ \<Rightarrow> raiseP e | Inr _ \<Rightarrow> m) u = (Inr r, u') \<longleftrightarrow>
      v = state_value ACTIVE \<and> m u = (Inr r, u')" if "aws_get_key_status C key w = (Inr v, u)"
    for v u u' e and m :: "('a, managed_signing_result) prog"
    using that unfolding aws_status_Inr by (auto simp: prog_Inr simp del: state_value.simps split: if_splits)
  have "aws_sign_canonical_bytes D C key payload m w = (Inr r, w') \<longleftrightarrow> (\<exists>w1. aws_get_key_status C key w = (Inr (state_value ACTIVE), w1) \<and>
     (if mk_algorithm key \<notin> AWS_KMS_ALGORITHMS
       then raiseP (ExternalManagedSigningError ''AWS KMS backend does not support algorithm'')
       else bindP (catchP (kc_sign C (mk_provider_key_ref key) payload (mk_algorithm key))
           (\<lambda>_. raiseP (ExternalManagedSigningError ''AWS KMS Sign failed''))) (\<lambda>response.
         case response of
           None \<Rightarrow> raiseP (Raise KeyError ''Signature'')
         | Some signature \<Rightarrow> retP (aws_signing_result D key signature))) w1 = (Inr r, w'))"
    unfolding aws_sign_canonical_bytes_def bindP_Inr using st by blast
  then show ?thesis
    unfolding aws_status_active by (auto simp: bindP_Inr prog_Inr split: option.splits)
qed

lemma aws_signing_result_fields:
  "mr_algorithm (aws_signing_result D key sig) = mk_algorithm key" "mr_key_id (aws_signing_result D key sig) = mk_key_id key"
  "mr_signature (aws_signing_result D key sig) = sig" "mr_public_key_ref (aws_signing_result D key sig) \<noteq> []"
  by (auto simp: aws_signing_result_def split: option.splits list.splits)

lemma aws_signature_spec: "to_signature_spec (aws_signing_result D key sig) =
   \<lparr>sg_algorithm = mk_algorithm key, sg_key_id = mk_key_id key, sg_encoding = ''base64url'', sg_value = b64url_encode sig\<rparr>"
  by (simp add: aws_signing_result_fields to_signature_spec_def)

lemma sign_managed_Inr:
  "sign_managed (aws_signer D C key purpose) payload w = (Inr r, w') \<longleftrightarrow>
     mk_purpose key = purpose \<and> purpose \<in> ALLOWED_KEY_PURPOSES \<and> mk_algorithm key \<in> AWS_KMS_ALGORITHMS \<and>
     str_lower (py_strip (mk_status key)) = ''active'' \<and> state_from_string (mk_status key) = Inr ACTIVE \<and>
     (\<exists>w1 w2 signature. describe_state C key w = (Inr (JStr ''Enabled''), w1) \<and> describe_state C key w1 = (Inr (JStr ''Enabled''), w2) \<and>
       kc_sign C (mk_provider_key_ref key) payload (mk_algorithm key) w2 = (Inr (Some signature), w') \<and> signature \<noteq> [] \<and>
       r = aws_signing_result D key signature)"
proof -
  have "ms_key (aws_signer D C key purpose) = key" "mb_sign_canonical_bytes (ms_backend (aws_signer D C key purpose)) = aws_sign_canonical_bytes D C"
    by (simp_all add: aws_signer_def aws_backend_def)
  then show ?thesis
    unfolding sign_managed_def bindP_Inr guard_Inr ensure_aws_key prog_Inr by (auto simp: aws_sign_Inr aws_signing_result_fields)
qed

text \<open>
  When the signer over an AWS key produces a signature: the key has the required purpose and
  an algorithm of the service, the operator and the service both call it active, at the check and again at the signing,
  and the service signed the payload; the result is that signature under the key's own name.
\<close>

theorem managed_signature_iff:
  "managed_sign (aws_signer D C key purpose) payload w = (Inr spec, w') \<longleftrightarrow>
     mk_purpose key = purpose \<and> purpose \<in> ALLOWED_KEY_PURPOSES \<and> mk_algorithm key \<in> AWS_KMS_ALGORITHMS \<and>
     str_lower (py_strip (mk_status key)) = ''active'' \<and> state_from_string (mk_status key) = Inr ACTIVE \<and>
     (\<exists>w1 w2 signature. describe_state C key w = (Inr (JStr ''Enabled''), w1) \<and> describe_state C key w1 = (Inr (JStr ''Enabled''), w2) \<and>
       kc_sign C (mk_provider_key_ref key) payload (mk_algorithm key) w2 = (Inr (Some signature), w') \<and> signature \<noteq> [] \<and>
       spec = \<lparr>sg_algorithm = mk_algorithm key, sg_key_id = mk_key_id key, sg_encoding = ''base64url'', sg_value = b64url_encode signature\<rparr>)"
proof -
  note sign_managed_Inr[of D C key purpose payload w _ w'] aws_signature_spec[of D key]
  then show ?thesis unfolding managed_sign_def bindP_Inr prog_Inr by metis
qed

lemma aws_signature_value:
  assumes "managed_sign (aws_signer D C key purpose) payload w = (Inr spec, w')"
  obtains u sig where "kc_sign C (mk_provider_key_ref key) payload (mk_algorithm key) u = (Inr (Some sig), w')"
    "spec = to_signature_spec (aws_signing_result D key sig)" "mk_algorithm key \<in> AWS_KMS_ALGORITHMS"
  using assms unfolding managed_sign_def bindP_Inr prog_Inr sign_managed_Inr by blast

lemma aws_verify_signed:
  "managed_verify (aws_signer D C key' purpose) payload (to_signature_spec (aws_signing_result D key sig)) =
     aws_verify_canonical_bytes C key' payload sig" if "key' = key\<lparr>mk_status := status\<rparr>"
  using that by (simp add: managed_verify_def delegate_verify_def aws_signer_def aws_backend_def aws_signature_spec b64url_decode_encode)

text \<open>
  A signature stays verifiable when the operator retires, suspends or revokes the key,
  and when the service disables it or schedules its deletion, provided the service confirms what it signed; once the
  operator hard-revokes the key, no signature verifies, without asking the service.
\<close>

theorem signature_survives_rotation:
  assumes signed: "managed_sign (aws_signer D C key purpose) payload w = (Inr spec, w')"
    and operator: "state_from_string status = Inr state" "state \<noteq> HARD_REVOKED"
    and service: "describe_state C key v = (Inr (JStr aws_state), v1)" "aws_state \<in> fst ` set AWS_KMS_KEY_STATE_MAP"
    and confirms: "\<And>u sig. kc_sign C (mk_provider_key_ref key) payload (mk_algorithm key) u = (Inr (Some sig), w') \<Longrightarrow>
      kc_verify C (mk_provider_key_ref key) payload sig (mk_algorithm key) v1 = (Inr [(''SignatureValid'', JBool True)], v2)"
  shows "managed_verify (aws_signer D C (key\<lparr>mk_status := status\<rparr>) purpose) payload spec v = (Inr True, v2) \<and>
    managed_verify (aws_signer D C (key\<lparr>mk_status := ''hard_revoked''\<rparr>) purpose) payload spec v = (Inr False, v)"
proof -
  obtain u sig where sig: "kc_sign C (mk_provider_key_ref key) payload (mk_algorithm key) u = (Inr (Some sig), w')"
      "spec = to_signature_spec (aws_signing_result D key sig)" "mk_algorithm key \<in> AWS_KMS_ALGORITHMS"
    using signed by (rule aws_signature_value)
  have describe: "describe_state C (key\<lparr>mk_status := t\<rparr>) = describe_state C key" for t by (simp add: describe_state_def)
  obtain kms_state where kms: "dget AWS_KMS_KEY_STATE_MAP aws_state = Some kms_state" "kms_state \<noteq> HARD_REVOKED"
    using service(2) by (auto simp: AWS_KMS_KEY_STATE_MAP_def)
  have "aws_get_key_status C (key\<lparr>mk_status := status\<rparr>) v = (Inr (state_value (stricter_state state kms_state)), v1)"
    unfolding aws_status_Inr describe using operator service(1) kms(1) by auto
  moreover have "stricter_state state kms_state \<noteq> HARD_REVOKED" using operator(2) kms(2) by (simp add: stricter_state_hard)
  ultimately have "aws_verify_canonical_bytes C (key\<lparr>mk_status := status\<rparr>) payload sig v = (Inr True, v2)"
    using confirms[OF sig(1)] sig(3) by (simp add: aws_verify_canonical_bytes_def bindP_def catchP_def retP_def)
  moreover have "aws_get_key_status C (key\<lparr>mk_status := ''hard_revoked''\<rparr>) v = (Inr (state_value HARD_REVOKED), v)"
    unfolding aws_status_Inr using state_from_value[of HARD_REVOKED] by simp
  then have "aws_verify_canonical_bytes C (key\<lparr>mk_status := ''hard_revoked''\<rparr>) payload sig v = (Inr False, v)"
    by (simp add: aws_verify_canonical_bytes_def bindP_def retP_def del: state_value.simps)
  ultimately show ?thesis unfolding sig(2) by (simp add: aws_verify_signed[OF refl])
qed

text \<open>A service whose world is the state of its only key, and a key that was retired after a signature.\<close>

definition sample_kms :: "string kms_client" where
  "sample_kms = \<lparr>kc_describe_key = (\<lambda>_. readP (\<lambda>w. JObj [(''KeyMetadata'', JObj [(''KeyState'', JStr w)])])),
     kc_sign = (\<lambda>_ payload _. retP (Some (''s'' @ payload))),
     kc_verify = (\<lambda>_ payload sig _. retP [(''SignatureValid'', JBool (sig = ''s'' @ payload))])\<rparr>"

definition sample_managed_key :: managed_key_reference where
  "sample_managed_key = \<lparr>mk_provider = ''aws-kms'', mk_provider_key_ref = ''key/1'', mk_key_id = ''k1'', mk_algorithm = ''EdDSA'',
     mk_purpose = ''proof_issuance'', mk_tenant_id = None, mk_public_key_ref = None, mk_key_version = None, mk_status = ''active''\<rparr>"

lemma sample_describe: "describe_state sample_kms key w = (Inr (JStr w), w)"
  by (simp add: describe_state_def sample_kms_def prog_defs subscript_def)

lemma sample_kms_calls [simp]: "kc_sign sample_kms ref payload alg w = (Inr (Some (''s'' @ payload)), w)"
  "kc_verify sample_kms ref payload sig alg w = (Inr [(''SignatureValid'', JBool (sig = ''s'' @ payload))], w)"
  by (simp_all add: sample_kms_def retP_def)

lemma sample_managed_signature:
  "\<exists>spec. managed_sign (aws_signer D sample_kms sample_managed_key ''proof_issuance'') ''p'' ''Enabled'' = (Inr spec, ''Enabled'')"
  unfolding managed_sign_def bindP_Inr prog_Inr sign_managed_Inr sample_describe
  using state_value_strip[of ACTIVE] state_value_lower[of ACTIVE] state_from_value[of ACTIVE]
  by (simp add: sample_managed_key_def ALLOWED_KEY_PURPOSES_def AWS_KMS_ALGORITHMS_def)

theorem signature_survives_rotation_witness:
  "\<exists>spec. managed_verify (aws_signer sample_deps sample_kms (sample_managed_key\<lparr>mk_status := ''retired''\<rparr>) ''proof_issuance'') ''p'' spec
     ''PendingDeletion'' = (Inr True, ''PendingDeletion'')"
proof -
  obtain spec where "managed_sign (aws_signer sample_deps sample_kms sample_managed_key ''proof_issuance'') ''p'' ''Enabled'' = (Inr spec, ''Enabled'')"
    using sample_managed_signature by blast
  from signature_survives_rotation[OF this, of "''retired''" RETIRED "''PendingDeletion''" "''PendingDeletion''" "''PendingDeletion''" "''PendingDeletion''"]
  show ?thesis
    using state_from_value[of RETIRED] by (auto simp: sample_describe AWS_KMS_KEY_STATE_MAP_def)
qed

text \<open>A failing description of the key raises out of the verification, whatever the signature.\<close>

lemma verification_needs_description:
  assumes "state_from_string (mk_status key) = Inr state" "state \<noteq> HARD_REVOKED"
    and "kc_describe_key C (mk_provider_key_ref key) w = (Inl e, w')"
  shows "aws_verify_canonical_bytes C key payload sig w = (Inl (ExternalManagedSigningError ''failed to describe KMS key''), w')"
  using assms by (simp add: aws_verify_canonical_bytes_def aws_get_key_status_def describe_state_def prog_defs)

section \<open>The adapters\<close>

text \<open>
  What an adapter adds to the provider's two calls. Its answer on its own signatures is the provider's; a signature under
  another name is refused without asking.
\<close>

locale delegating_signer =
  fixes sign :: "string \<Rightarrow> ('w, signature_spec) prog" and verify :: "string \<Rightarrow> signature_spec \<Rightarrow> ('w, bool) prog"
    and raw_sign :: "string \<Rightarrow> ('w, string) prog" and raw_verify :: "string \<Rightarrow> string \<Rightarrow> ('w, bool) prog"
    and algorithm key_id :: string
  assumes sign_raw: "sign p = bindP (raw_sign p) (\<lambda>raw. retP
      \<lparr>sg_algorithm = algorithm, sg_key_id = key_id, sg_encoding = ''base64url'', sg_value = b64url_encode raw\<rparr>)"
    and verify_raw: "verify p = delegate_verify algorithm key_id (raw_verify p)"
begin

lemma sign_then_verify:
  assumes "sign p w = (Inr s, w')"
  obtains raw where "raw_sign p w = (Inr raw, w')" "verify p s = raw_verify p raw"
  using assms by (auto simp: sign_raw verify_raw bindP_Inr prog_Inr delegate_verify_def b64url_decode_encode)

lemma foreign_refused: "sg_key_id s \<noteq> key_id \<or> sg_algorithm s \<noteq> algorithm \<Longrightarrow> verify p s w = (Inr False, w)"
  by (auto simp: verify_raw delegate_verify_def retP_def)

end

interpretation kms: delegating_signer "kms_sign backend_sign key" "kms_verify backend_verify key" "backend_sign key" "backend_verify key"
    "kk_algorithm key" "kk_key_id key" for backend_sign backend_verify key
  by unfold_locales (simp_all add: fun_eq_iff kms_sign_def kms_verify_def)

interpretation hsm: delegating_signer "hsm_sign backend_sign key" "hsm_verify backend_verify key" "backend_sign key" "backend_verify key"
    "hk_algorithm key" "hk_key_id key" for backend_sign backend_verify key
  by unfold_locales (simp_all add: fun_eq_iff hsm_sign_def hsm_verify_def)

section \<open>Production custody\<close>

lemma production_backends:
  "validate_signing_backend_for_environment backend env (Some True) = Inr () \<longleftrightarrow>
     str_lower (py_strip backend) = ''external_managed'' \<or>
     str_lower (py_strip backend) = ''pilot_local_eddsa'' \<and> env_truthy (dget env ''ACTENON_ALLOW_PILOT_LOCAL_EDDSA_IN_PRODUCTION'')"
  by (auto simp: validate_signing_backend_for_environment_def Let_def)

end
