(* ===== verification/KeyDiscovery.thy ===== *)
theory KeyDiscovery
  imports Attestations ManagedKeys Transparency
begin

text \<open>
  Discovery of verification keys at an issuer's well-known address (\<^verbatim>\<open>proof/signers/well_known.py\<close>): the key document and its
  parser, the resolver with its cache, the rules for using a key, and the signature verifier over the resolver. Parameters:
  the URL and IP address functions of the standard library, name resolution and the HTTP fetch, the clock, and the asymmetric
  cryptography (the record \<open>net_lib\<close>, the programs of \<open>key_source\<close> over a world of any type, and \<open>wk_crypto\<close>).
  Messages are cut where Python prints a value with \<open>repr\<close>.
\<close>

section \<open>Errors\<close>

abbreviation wk_error :: "string \<Rightarrow> string \<Rightarrow> exn" where
  "wk_error cls message \<equiv> Raise (OtherError cls) message"

definition WELL_KNOWN_ERRORS :: "string list" where
  "WELL_KNOWN_ERRORS = [''WellKnownKeyResolverError'', ''KeyDiscoveryFetchError'', ''KeyDiscoveryFormatError'', ''KeyNotFoundError'',
     ''IssuerMismatchError'', ''RevokedKeyError'', ''KeyPurposeMismatchError'', ''ExpiredKeyError'', ''KeyNotYetValidError'',
     ''UnsupportedVerificationAlgorithmError'']"

definition is_well_known_error :: "exn \<Rightarrow> bool" where
  "is_well_known_error e = (case e of Raise (OtherError cls) _ \<Rightarrow> cls \<in> set WELL_KNOWN_ERRORS | _ \<Rightarrow> False)"

definition is_key_not_found :: "exn \<Rightarrow> bool" where
  "is_key_not_found e = (case e of Raise (OtherError cls) _ \<Rightarrow> cls = ''KeyNotFoundError'' | _ \<Rightarrow> False)"

section \<open>Origins and addresses\<close>

record url_parts =
  up_scheme :: string
  up_netloc :: string
  up_hostname :: "string option"
  up_username :: "string option"
  up_password :: "string option"
  up_port :: "int option res"
  up_path :: string
  up_query :: string
  up_fragment :: string

record ip_class =
  ip_loopback :: bool
  ip_link_local :: bool
  ip_private :: bool
  ip_multicast :: bool
  ip_unspecified :: bool
  ip_reserved :: bool

text \<open>
  \<open>urlsplit\<close>, \<open>str.lower\<close>, \<open>ipaddress.ip_address\<close> (\<open>None\<close> for a text that is no address), and \<open>getaddrinfo\<close> as the list of
  addresses with whether their family is IPv4 or IPv6 (\<open>None\<close> for an \<open>OSError\<close>).
\<close>

record net_lib =
  nl_urlsplit :: "string \<Rightarrow> url_parts res"
  nl_lower :: "string \<Rightarrow> string"
  nl_ip_address :: "string \<Rightarrow> ip_class option"
  nl_getaddrinfo :: "string \<Rightarrow> (bool \<times> string) list option"

definition WELL_KNOWN_KEYS_PATH :: string where
  "WELL_KNOWN_KEYS_PATH = ''/.well-known/actenon/keys.json''"

definition BLOCKED_METADATA_HOSTS :: "string list" where
  "BLOCKED_METADATA_HOSTS = [''169.254.169.254'', ''metadata'', ''metadata.google.internal'']"

definition is_blocked_ip_address :: "ip_class \<Rightarrow> bool" where
  "is_blocked_ip_address ip \<longleftrightarrow> ip_loopback ip \<or> ip_link_local ip \<or> ip_private ip \<or> ip_multicast ip \<or> ip_unspecified ip \<or> ip_reserved ip"

definition assert_public_ip_address :: "ip_class \<Rightarrow> string \<Rightarrow> unit res" where
  "assert_public_ip_address ip field_name = (if is_blocked_ip_address ip
     then Inl (wk_error ''KeyDiscoveryFetchError'' (field_name @ '' resolves to a non-public IP address'')) else Inr ())"

text \<open>\<open>host.strip("[]").lower()\<close>.\<close>

definition strip_brackets :: "string \<Rightarrow> string" where
  "strip_brackets s = (let b = (\<lambda>c. c = CHR ''['' \<or> c = CHR '']'') in rev (dropWhile b (rev (dropWhile b s))))"

definition assert_host_is_not_blocked_ip_literal :: "net_lib \<Rightarrow> string \<Rightarrow> string \<Rightarrow> unit res" where
  "assert_host_is_not_blocked_ip_literal N host field_name =
     (let normalized_host = nl_lower N (strip_brackets host) in
      if normalized_host \<in> set BLOCKED_METADATA_HOSTS
      then Inl (wk_error ''KeyDiscoveryFetchError'' (field_name @ '' uses a blocked metadata host''))
      else (case nl_ip_address N normalized_host of None \<Rightarrow> Inr () | Some ip \<Rightarrow> assert_public_ip_address ip field_name))"

fun assert_addresses_public :: "net_lib \<Rightarrow> string \<Rightarrow> (bool \<times> string) list \<Rightarrow> unit res" where
  "assert_addresses_public N field_name [] = Inr ()"
| "assert_addresses_public N field_name ((inet, address) # rest) =
     (if \<not> inet then assert_addresses_public N field_name rest
      else (case nl_ip_address N address of
          None \<Rightarrow> Inl (wk_error ''KeyDiscoveryFetchError'' (field_name @ '' resolved to an invalid IP address''))
        | Some ip \<Rightarrow> bindR (assert_public_ip_address ip field_name) (\<lambda>_. assert_addresses_public N field_name rest)))"

definition assert_resolved_host_is_public :: "net_lib \<Rightarrow> string \<Rightarrow> string \<Rightarrow> unit res" where
  "assert_resolved_host_is_public N host field_name =
     (let normalized_host = nl_lower N (strip_brackets host) in
      if normalized_host \<in> set BLOCKED_METADATA_HOSTS
      then Inl (wk_error ''KeyDiscoveryFetchError'' (field_name @ '' uses a blocked metadata host''))
      else (case nl_getaddrinfo N normalized_host of
          None \<Rightarrow> Inl (wk_error ''KeyDiscoveryFetchError'' (''could not resolve '' @ field_name @ '' host''))
        | Some resolved \<Rightarrow> assert_addresses_public N field_name resolved))"

definition no_host :: "url_parts \<Rightarrow> bool" where
  "no_host parts \<longleftrightarrow> up_netloc parts = [] \<or> up_hostname parts = None \<or> up_hostname parts = Some []"

text \<open>The checks under \<open>except (KeyDiscoveryFetchError, ValueError)\<close>: what they raise comes out as a \<open>ValueError\<close>.\<close>

definition as_value_error :: "'a res \<Rightarrow> 'a res" where
  "as_value_error r = (case r of
       Inl (Raise c m) \<Rightarrow> if c = OtherError ''KeyDiscoveryFetchError'' \<or> c = ValueError then Inl (Raise ValueError m) else r
     | _ \<Rightarrow> r)"

definition normalize_origin :: "net_lib \<Rightarrow> string \<Rightarrow> string res" where
  "normalize_origin N origin =
     bindR (nl_urlsplit N origin) (\<lambda>parts.
     if up_scheme parts \<noteq> ''https'' then Inl (Raise ValueError ''issuer_origin must use https'')
     else if no_host parts then Inl (Raise ValueError ''issuer_origin must include a host'')
     else if up_username parts \<noteq> None \<or> up_password parts \<noteq> None
     then Inl (Raise ValueError ''issuer_origin must not include userinfo'')
     else bindR (as_value_error (bindR (assert_host_is_not_blocked_ip_literal N (the (up_hostname parts)) ''issuer_origin'')
       (\<lambda>_. up_port parts))) (\<lambda>_.
     if up_query parts \<noteq> [] \<or> up_fragment parts \<noteq> []
     then Inl (Raise ValueError ''issuer_origin must not include query or fragment components'')
     else if up_path parts \<notin> {[], ''/''}
     then Inl (Raise ValueError ''issuer_origin must be an origin, not a full URL path'')
     else Inr (up_scheme parts @ ''://'' @ nl_lower N (up_netloc parts))))"

definition port_or_raise :: "url_parts \<Rightarrow> string \<Rightarrow> int option res" where
  "port_or_raise parts field_name = (case up_port parts of
       Inl (Raise ValueError m) \<Rightarrow> Inl (wk_error ''KeyDiscoveryFetchError'' (field_name @ '' has an invalid port''))
     | r \<Rightarrow> r)"

definition origin_from_url :: "net_lib \<Rightarrow> string \<Rightarrow> string \<Rightarrow> string res" where
  "origin_from_url N url field_name =
     bindR (nl_urlsplit N url) (\<lambda>parts.
     if up_scheme parts \<noteq> ''https'' then Inl (wk_error ''KeyDiscoveryFetchError'' (field_name @ '' must use https''))
     else if no_host parts then Inl (wk_error ''KeyDiscoveryFetchError'' (field_name @ '' must include a host''))
     else if up_username parts \<noteq> None \<or> up_password parts \<noteq> None
     then Inl (wk_error ''KeyDiscoveryFetchError'' (field_name @ '' must not include userinfo''))
     else bindR (port_or_raise parts field_name) (\<lambda>_. Inr (up_scheme parts @ ''://'' @ nl_lower N (up_netloc parts))))"

definition validate_well_known_fetch_url :: "net_lib \<Rightarrow> string \<Rightarrow> string \<Rightarrow> bool \<Rightarrow> unit res" where
  "validate_well_known_fetch_url N url expected_origin resolve_host =
     bindR (nl_urlsplit N url) (\<lambda>parts.
     bindR (origin_from_url N url ''well-known discovery URL'') (\<lambda>origin.
     if origin \<noteq> expected_origin then Inl (wk_error ''KeyDiscoveryFetchError'' ''well-known discovery URL origin'')
     else if up_path parts \<noteq> WELL_KNOWN_KEYS_PATH
     then Inl (wk_error ''KeyDiscoveryFetchError'' ''well-known discovery URL path must be'')
     else if up_query parts \<noteq> [] \<or> up_fragment parts \<noteq> []
     then Inl (wk_error ''KeyDiscoveryFetchError'' ''well-known discovery URL must not include query or fragment components'')
     else (case up_hostname parts of
         None \<Rightarrow> Inl (wk_error ''KeyDiscoveryFetchError'' ''well-known discovery URL must include a host'')
       | Some host \<Rightarrow> bindR (assert_host_is_not_blocked_ip_literal N host ''well-known discovery URL'') (\<lambda>_.
           if resolve_host then assert_resolved_host_is_public N host ''well-known discovery URL'' else Inr ()))))"

section \<open>Key documents\<close>

record discovered_key =
  dk_key_id :: string
  dk_algorithm :: string
  dk_use :: "string list"
  dk_status :: string
  dk_public_key_jwk :: dict
  dk_not_before :: "datetime option"
  dk_expires_at :: "datetime option"
  dk_revoked_at :: "datetime option"
  dk_hard_revoked_at :: "datetime option"
  dk_replaced_by :: json
  dk_revocation_reason :: json

record key_document =
  kd_issuer :: party_ref
  kd_origin :: string
  kd_published_at :: datetime
  kd_keys :: "discovered_key list"
  kd_cache_max_age_seconds :: "int option"

record resolved_key =
  rk_issuer :: party_ref
  rk_origin :: string
  rk_published_at :: datetime
  rk_key :: discovered_key

definition ALLOWED_DISCOVERY_KEY_STATUSES :: "string list" where
  "ALLOWED_DISCOVERY_KEY_STATUSES = [''active'', ''retired'', ''suspended'', ''revoked'', ''hard_revoked'']"

definition ALLOWED_DISCOVERY_KEY_USES :: "string list" where
  "ALLOWED_DISCOVERY_KEY_USES = [''verify'', ''proof_issuance'', ''outcome_attestation'', ''receipt_countersignature'']"

text \<open>\<open>isinstance(raw, int)\<close> lets \<open>True\<close> through, whose value is 1.\<close>

definition parse_positive_int :: "json \<Rightarrow> string \<Rightarrow> int res" where
  "parse_positive_int raw field_name = (case raw of
       JInt i \<Rightarrow> if i \<le> 0 then Inl (wk_error ''KeyDiscoveryFormatError'' (field_name @ '' must be a positive integer'')) else Inr i
     | JBool True \<Rightarrow> Inr 1
     | _ \<Rightarrow> Inl (wk_error ''KeyDiscoveryFormatError'' (field_name @ '' must be a positive integer'')))"

fun split_commas :: "string \<Rightarrow> string list" where
  "split_commas s = (case dropWhile (\<lambda>c. c \<noteq> CHR '','') s of
       [] \<Rightarrow> [s]
     | _ # rest \<Rightarrow> takeWhile (\<lambda>c. c \<noteq> CHR '','') s # (if length rest < length s then split_commas rest else []))"

declare split_commas.simps [simp del]

fun max_age_of :: "py_text \<Rightarrow> string list \<Rightarrow> int option" where
  "max_age_of T [] = None"
| "max_age_of T (raw # rest) =
     (let part = str_lower (py_strip raw) in
      if take 8 part = ''max-age='' then
        (case int_of_text T (py_strip (drop 8 part)) of
            None \<Rightarrow> None
          | Some parsed \<Rightarrow> if 0 < parsed then Some parsed else None)
      else max_age_of T rest)"

definition parse_cache_control_max_age :: "py_text \<Rightarrow> string option \<Rightarrow> int option" where
  "parse_cache_control_max_age T raw = (case raw of None \<Rightarrow> None | Some r \<Rightarrow> max_age_of T (split_commas r))"

definition normalize_public_key_jwk :: "json \<Rightarrow> string \<Rightarrow> string \<Rightarrow> dict res" where
  "normalize_public_key_jwk public_key_jwk key_id algorithm = (case public_key_jwk of
       JObj jwk \<Rightarrow>
         if get_or_null jwk ''kid'' \<noteq> JNull \<and> get_or_null jwk ''kid'' \<noteq> JStr key_id
         then Inl (Raise ValueError ''public_key_jwk.kid'')
         else if get_or_null jwk ''alg'' \<noteq> JNull \<and> get_or_null jwk ''alg'' \<noteq> JStr algorithm
         then Inl (Raise ValueError ''public_key_jwk.alg'')
         else if get_or_null jwk ''use'' \<noteq> JNull \<and> get_or_null jwk ''use'' \<noteq> JStr ''sig''
         then Inl (Raise ValueError (''public_key_jwk.use must be '' @ [CHR 0x27] @ ''sig'' @ [CHR 0x27] @ '' when provided''))
         else Inr (put_if (map_of jwk ''use'' = None) ''use'' (JStr ''sig'')
           (put_if (map_of jwk ''alg'' = None) ''alg'' (JStr algorithm)
           (put_if (map_of jwk ''kid'' = None) ''kid'' (JStr key_id) jwk)))
     | _ \<Rightarrow> Inl (Raise ValueError ''public_key_jwk must be a JSON object''))"

fun collect_uses :: "string list \<Rightarrow> json list \<Rightarrow> string list res" where
  "collect_uses normalized [] = Inr normalized"
| "collect_uses normalized (use # uses) =
     (case use of
        JStr u \<Rightarrow>
          if u = [] then Inl (wk_error ''KeyDiscoveryFormatError'' ''keys[].use entries must be non-empty strings'')
          else if u \<notin> set ALLOWED_DISCOVERY_KEY_USES then Inl (wk_error ''KeyDiscoveryFormatError'' ''keys[].use'')
          else collect_uses (if u \<in> set normalized then normalized else normalized @ [u]) uses
      | _ \<Rightarrow> Inl (wk_error ''KeyDiscoveryFormatError'' ''keys[].use entries must be non-empty strings''))"

definition normalize_key_uses :: "json \<Rightarrow> string list res" where
  "normalize_key_uses raw =
     bindR (case raw of JStr s \<Rightarrow> Inr [raw] | JArr xs \<Rightarrow> Inr xs | JTup xs \<Rightarrow> Inr xs
       | _ \<Rightarrow> Inl (wk_error ''KeyDiscoveryFormatError'' ''keys[].use must be a non-empty string or array of strings'')) (\<lambda>uses.
     if uses = [] then Inl (wk_error ''KeyDiscoveryFormatError'' ''keys[].use must not be empty'')
     else collect_uses [] uses)"

definition serialize_key_use :: "json \<Rightarrow> json res" where
  "serialize_key_use use = bindR (normalize_key_uses use) (\<lambda>normalized.
     Inr (case normalized of [u] \<Rightarrow> JStr u | us \<Rightarrow> JArr (map JStr us)))"

definition put_time :: "string \<Rightarrow> datetime option \<Rightarrow> dict \<Rightarrow> dict" where
  "put_time k t d = (case t of None \<Rightarrow> d | Some x \<Rightarrow> dput d k (JStr (format_timestamp x)))"

text \<open>The arguments of \<open>build_key_discovery_document\<close> that describe the key are the fields of a key.\<close>

definition key_payload :: "discovered_key \<Rightarrow> json \<Rightarrow> dict \<Rightarrow> dict" where
  "key_payload k use jwk =
     put_field ''revocation_reason'' (dk_revocation_reason k)
     (put_field ''replaced_by'' (dk_replaced_by k)
     (put_time ''hard_revoked_at'' (dk_hard_revoked_at k)
     (put_time ''revoked_at'' (dk_revoked_at k)
     (put_time ''expires_at'' (dk_expires_at k)
     (put_time ''not_before'' (dk_not_before k)
       [(''key_id'', JStr (dk_key_id k)), (''algorithm'', JStr (dk_algorithm k)), (''use'', use), (''status'', JStr (dk_status k)),
        (''public_key_jwk'', JObj jwk)])))))"

definition build_key_discovery_document :: "net_lib \<Rightarrow> party_ref \<Rightarrow> string \<Rightarrow> discovered_key \<Rightarrow> json \<Rightarrow> datetime \<Rightarrow> int \<Rightarrow> dict res" where
  "build_key_discovery_document N issuer origin k use published_at cache_max_age_seconds =
     (if dk_status k \<notin> set ALLOWED_DISCOVERY_KEY_STATUSES
      then Inl (Raise ValueError (''status must be one of '' @ join_with '', '' ALLOWED_DISCOVERY_KEY_STATUSES))
      else if cache_max_age_seconds \<le> 0 then Inl (Raise ValueError ''cache_max_age_seconds must be positive'')
      else bindR (normalize_origin N origin) (\<lambda>normalized_origin.
      bindR (serialize_key_use use) (\<lambda>use_value.
      bindR (normalize_public_key_jwk (JObj (dk_public_key_jwk k)) (dk_key_id k) (dk_algorithm k)) (\<lambda>jwk.
      Inr [(''contract'', JObj [(''name'', JStr ''key_discovery''), (''version'', JStr ''v1'')]),
        (''issuer'', JObj (party_to_dict issuer)), (''origin'', JStr normalized_origin),
        (''published_at'', JStr (format_timestamp published_at)), (''cache'', JObj [(''max_age_seconds'', JInt cache_max_age_seconds)]),
        (''keys'', JArr [JObj (key_payload k use_value jwk)])]))))"

definition optional_time :: "dict \<Rightarrow> string \<Rightarrow> datetime option res" where
  "optional_time raw field_name = (if truthy (get_or_null raw field_name)
     then bindR (parse_timestamp (get_or_null raw field_name) (''keys[].'' @ field_name)) (\<lambda>t. Inr (Some t)) else Inr None)"

definition nonempty_field :: "dict \<Rightarrow> string \<Rightarrow> string res" where
  "nonempty_field raw field_name = (case get_or_null raw field_name of
       JStr s \<Rightarrow> if s = [] then Inl (wk_error ''KeyDiscoveryFormatError'' (''keys[].'' @ field_name @ '' must be a non-empty string'')) else Inr s
     | _ \<Rightarrow> Inl (wk_error ''KeyDiscoveryFormatError'' (''keys[].'' @ field_name @ '' must be a non-empty string'')))"

definition parse_key_descriptor :: "json \<Rightarrow> discovered_key res" where
  "parse_key_descriptor v = (case v of
       JObj raw \<Rightarrow>
         bindR (case py_or (get_or_null raw ''key_id'') (get_or_null raw ''kid'') of
             JStr s \<Rightarrow> if s = [] then Inl (wk_error ''KeyDiscoveryFormatError'' ''keys[].key_id must be a non-empty string'') else Inr s
           | _ \<Rightarrow> Inl (wk_error ''KeyDiscoveryFormatError'' ''keys[].key_id must be a non-empty string'')) (\<lambda>key_id.
         if get_or_null raw ''key_id'' \<noteq> JNull \<and> get_or_null raw ''kid'' \<noteq> JNull \<and> \<not> py_eq (get_or_null raw ''key_id'') (get_or_null raw ''kid'')
         then Inl (wk_error ''KeyDiscoveryFormatError'' ''keys[].kid must match keys[].key_id when both are present'')
         else
         bindR (nonempty_field raw ''algorithm'') (\<lambda>algorithm.
         bindR (normalize_key_uses (get_or_null raw ''use'')) (\<lambda>uses.
         bindR (nonempty_field raw ''status'') (\<lambda>status.
         bindR (case get_or_null raw ''public_key_jwk'' of JObj d \<Rightarrow> Inr d
           | _ \<Rightarrow> Inl (wk_error ''KeyDiscoveryFormatError'' ''keys[].public_key_jwk must be an object'')) (\<lambda>jwk.
         bindR (optional_time raw ''not_before'') (\<lambda>not_before.
         bindR (optional_time raw ''expires_at'') (\<lambda>expires_at.
         bindR (optional_time raw ''revoked_at'') (\<lambda>revoked_at.
         bindR (optional_time raw ''hard_revoked_at'') (\<lambda>hard_revoked_at.
         Inr \<lparr>dk_key_id = key_id, dk_algorithm = algorithm, dk_use = uses, dk_status = status, dk_public_key_jwk = jwk,
           dk_not_before = not_before, dk_expires_at = expires_at, dk_revoked_at = revoked_at, dk_hard_revoked_at = hard_revoked_at,
           dk_replaced_by = get_or_null raw ''replaced_by'', dk_revocation_reason = get_or_null raw ''revocation_reason''\<rparr>)))))))))
     | _ \<Rightarrow> Inl (wk_error ''KeyDiscoveryFormatError'' ''keys[] must be an object''))"

fun check_key_ids :: "string list \<Rightarrow> discovered_key list \<Rightarrow> unit res" where
  "check_key_ids seen [] = Inr ()"
| "check_key_ids seen (k # ks) =
     (if dk_key_id k \<in> set seen then Inl (wk_error ''KeyDiscoveryFormatError'' ''duplicate key_id'')
      else check_key_ids (dk_key_id k # seen) ks)"

definition max_age_field :: "dict \<Rightarrow> int option res" where
  "max_age_field cache = (if get_or_null cache ''max_age_seconds'' = JNull then Inr None
     else bindR (parse_positive_int (get_or_null cache ''max_age_seconds'') ''cache.max_age_seconds'') (\<lambda>i. Inr (Some i)))"

text \<open>\<open>load\<close> is \<open>loads_no_duplicate_keys\<close> on the body.\<close>

definition parse_discovery_document :: "deps \<Rightarrow> net_lib \<Rightarrow> (string \<Rightarrow> json res) \<Rightarrow> string \<Rightarrow> string \<Rightarrow> string \<Rightarrow> key_document res" where
  "parse_discovery_document D N load body expected_origin fetched_url =
     bindR (case load body of
         Inl e \<Rightarrow> if (case e of Raise c _ \<Rightarrow> is_value_error D c | Refuse _ \<Rightarrow> False)
           then Inl (wk_error ''KeyDiscoveryFormatError'' (''well-known key document must be valid JSON without duplicate object keys '' @
             ''and within size/depth limits''))
           else Inl e
       | Inr (JObj payload) \<Rightarrow> Inr payload
       | Inr _ \<Rightarrow> Inl (wk_error ''KeyDiscoveryFormatError'' ''well-known key document must be a JSON object'')) (\<lambda>payload.
     bindR (case get_or_null payload ''contract'' of JObj d \<Rightarrow> Inr d
       | _ \<Rightarrow> Inl (wk_error ''KeyDiscoveryFormatError'' ''contract must be an object'')) (\<lambda>contract.
     if get_or_null contract ''name'' \<noteq> JStr ''key_discovery'' \<or> get_or_null contract ''version'' \<noteq> JStr ''v1''
     then Inl (wk_error ''KeyDiscoveryFormatError'' ''contract must declare key_discovery v1'')
     else
     bindR (case get_or_null payload ''origin'' of
         JStr s \<Rightarrow> if s = [] then Inl (wk_error ''KeyDiscoveryFormatError'' ''origin must be a non-empty string'') else Inr s
       | _ \<Rightarrow> Inl (wk_error ''KeyDiscoveryFormatError'' ''origin must be a non-empty string'')) (\<lambda>origin.
     bindR (normalize_origin N origin) (\<lambda>normalized_origin.
     if normalized_origin \<noteq> expected_origin then Inl (wk_error ''KeyDiscoveryFormatError'' ''well-known key document origin'')
     else
     bindR (nl_urlsplit N fetched_url) (\<lambda>parts.
     if normalized_origin \<noteq> up_scheme parts @ ''://'' @ up_netloc parts
     then Inl (wk_error ''KeyDiscoveryFormatError'' ''well-known key document origin'')
     else
     bindR (party_from_dict (get_or_null payload ''issuer'') ''issuer'') (\<lambda>issuer.
     bindR (parse_timestamp (get_or_null payload ''published_at'') ''published_at'') (\<lambda>published_at.
     bindR (case get_or payload ''cache'' (JObj []) of JNull \<Rightarrow> Inr [] | JObj d \<Rightarrow> Inr d
       | _ \<Rightarrow> Inl (wk_error ''KeyDiscoveryFormatError'' ''cache must be an object when present'')) (\<lambda>raw_cache.
     bindR (max_age_field raw_cache) (\<lambda>cache_max_age_seconds.
     bindR (case get_or_null payload ''keys'' of
         JArr xs \<Rightarrow> if xs = [] then Inl (wk_error ''KeyDiscoveryFormatError'' ''keys must be a non-empty array'') else Inr xs
       | _ \<Rightarrow> Inl (wk_error ''KeyDiscoveryFormatError'' ''keys must be a non-empty array'')) (\<lambda>raw_keys.
     bindR (mapR parse_key_descriptor raw_keys) (\<lambda>ks.
     bindR (check_key_ids [] ks) (\<lambda>_.
     Inr \<lparr>kd_issuer = issuer, kd_origin = normalized_origin, kd_published_at = published_at, kd_keys = ks,
       kd_cache_max_age_seconds = cache_max_age_seconds\<rparr>))))))))))))"

section \<open>Using a key\<close>

definition is_in_use :: "string option \<Rightarrow> discovered_key \<Rightarrow> unit res" where
  "is_in_use required_use k = (case required_use of
       Some use \<Rightarrow>
         if use \<notin> set ALLOWED_DISCOVERY_KEY_USES \<or> use = ''verify'' then Inl (wk_error ''KeyDiscoveryFormatError'' ''required_use'')
         else if use \<notin> set (dk_use k) then Inl (wk_error ''KeyPurposeMismatchError'' ''discovery key is not authorized for required use'')
         else Inr ()
     | None \<Rightarrow> if \<not> list_ex (\<lambda>u. u \<in> set ALLOWED_DISCOVERY_KEY_USES) (dk_use k)
         then Inl (wk_error ''KeyDiscoveryFormatError'' ''discovery key has no supported use'') else Inr ())"

definition assert_key_usable :: "discovered_key \<Rightarrow> datetime \<Rightarrow> string option \<Rightarrow> bool \<Rightarrow> datetime option \<Rightarrow> unit res" where
  "assert_key_usable k issued_at required_use external_anchor_verified external_anchor_time =
     (if dk_status k \<notin> set ALLOWED_DISCOVERY_KEY_STATUSES
      then Inl (wk_error ''KeyDiscoveryFormatError'' ''discovery key has unsupported status'')
      else bindR (is_in_use required_use k) (\<lambda>_.
      if (case dk_not_before k of Some t \<Rightarrow> issued_at < t | None \<Rightarrow> False)
      then Inl (wk_error ''KeyNotYetValidError'' ''discovery key is not yet valid for the artifact issuance time'')
      else if (case dk_expires_at k of Some t \<Rightarrow> t \<le> issued_at | None \<Rightarrow> False)
      then Inl (wk_error ''ExpiredKeyError'' ''discovery key is expired for the artifact issuance time'')
      else if dk_status k = ''suspended''
      then Inl (wk_error ''RevokedKeyError'' ''discovery key is suspended'')
      else if (dk_status k = ''hard_revoked'' \<or> dk_hard_revoked_at k \<noteq> None) \<and>
        (\<not> external_anchor_verified \<or> (case (external_anchor_time, dk_hard_revoked_at k) of
           (Some t, Some h) \<Rightarrow> h \<le> t | _ \<Rightarrow> True))
      then Inl (wk_error ''RevokedKeyError'' ''discovery key is hard-revoked and requires an independently verified pre-revocation external anchor'')
      else if dk_status k = ''revoked'' \<and> dk_revoked_at k = None
      then Inl (wk_error ''RevokedKeyError'' ''discovery key is revoked without an issue-time boundary'')
      else if (case dk_revoked_at k of Some t \<Rightarrow> t \<le> issued_at | None \<Rightarrow> False)
      then Inl (wk_error ''RevokedKeyError'' ''discovery key was revoked before or at the artifact issuance time'')
      else Inr ()))"

record key_request =
  kq_key_id :: string
  kq_algorithm :: string
  kq_issued_at :: datetime
  kq_issuer :: "party_ref option"
  kq_required_use :: "string option"
  kq_anchor_verified :: bool
  kq_anchor_time :: "datetime option"

definition select_discovered_key :: "key_document \<Rightarrow> key_request \<Rightarrow> resolved_key res" where
  "select_discovered_key document q =
     (if (case kq_issuer q of Some i \<Rightarrow> pa_type (kd_issuer document) \<noteq> pa_type i \<or> pa_id (kd_issuer document) \<noteq> pa_id i | None \<Rightarrow> False)
      then Inl (wk_error ''IssuerMismatchError'' ''discovery document issuer does not match artifact issuer'')
      else (case filter (\<lambda>k. dk_key_id k = kq_key_id q) (kd_keys document) of
          [] \<Rightarrow> Inl (wk_error ''KeyNotFoundError'' ''no discovery key matched key_id'')
        | [k] \<Rightarrow>
            if dk_algorithm k \<noteq> kq_algorithm q then Inl (wk_error ''KeyNotFoundError'' ''discovery key advertises another algorithm'')
            else bindR (assert_key_usable k (kq_issued_at q) (kq_required_use q) (kq_anchor_verified q) (kq_anchor_time q)) (\<lambda>_.
              Inr \<lparr>rk_issuer = kd_issuer document, rk_origin = kd_origin document, rk_published_at = kd_published_at document, rk_key = k\<rparr>)
        | _ \<Rightarrow> Inl (wk_error ''KeyDiscoveryFormatError'' ''multiple discovery keys matched key_id'')))"

section \<open>The resolver\<close>

text \<open>
  The clock and the fetch are programs over a world; \<open>ks_default_fetch\<close> tells whether the fetch is the built-in one, which is
  when the host is resolved before the request.
\<close>

record 'w key_source =
  ks_now :: "('w, datetime) prog"
  ks_fetch :: "string \<Rightarrow> ('w, (string \<times> string) list \<times> string) prog"
  ks_default_fetch :: bool
  ks_load :: "string \<Rightarrow> json res"

record key_resolver =
  kr_issuer_origin :: string
  kr_default_max_age :: int

definition init_resolver :: "net_lib \<Rightarrow> string \<Rightarrow> rat \<Rightarrow> int \<Rightarrow> key_resolver res" where
  "init_resolver N issuer_origin timeout_seconds default_max_age =
     bindR (normalize_origin N issuer_origin) (\<lambda>origin.
     if timeout_seconds \<le> 0 then Inl (Raise ValueError ''timeout_seconds must be positive'')
     else if default_max_age \<le> 0 then Inl (Raise ValueError ''default_cache_max_age_seconds must be positive'')
     else Inr \<lparr>kr_issuer_origin = origin, kr_default_max_age = default_max_age\<rparr>)"

record cached_document =
  cd_document :: key_document
  cd_expires_at :: datetime

record 'w resolver_state =
  rs_cache :: "cached_document option"
  rs_world :: 'w

definition in_world :: "('w, 'a) prog \<Rightarrow> ('w resolver_state, 'a) prog" where
  "in_world m = zoomP rs_world (\<lambda>w s. s\<lparr>rs_world := w\<rparr>) m"

definition discovery_url :: "key_resolver \<Rightarrow> string" where
  "discovery_url R = kr_issuer_origin R @ WELL_KNOWN_KEYS_PATH"

definition header_value :: "(string \<times> string) list \<Rightarrow> string \<Rightarrow> string option" where
  "header_value headers name = map_of (rev (map (\<lambda>(k, v). (str_lower k, v)) headers)) name"

definition cache_seconds :: "key_resolver \<Rightarrow> int option \<Rightarrow> int option \<Rightarrow> int" where
  "cache_seconds R cache_control advisory = (case (cache_control, advisory) of
       (Some a, Some b) \<Rightarrow> min a b | (Some a, None) \<Rightarrow> a | (None, Some b) \<Rightarrow> b | (None, None) \<Rightarrow> kr_default_max_age R)"

definition fetch_and_cache ::
  "deps \<Rightarrow> py_text \<Rightarrow> net_lib \<Rightarrow> 'w key_source \<Rightarrow> key_resolver \<Rightarrow> datetime \<Rightarrow> ('w resolver_state, key_document) prog" where
  "fetch_and_cache D T N K R now =
     bindP (liftP (validate_well_known_fetch_url N (discovery_url R) (kr_issuer_origin R) (ks_default_fetch K))) (\<lambda>_.
     bindP (in_world (ks_fetch K (discovery_url R))) (\<lambda>response.
     bindP (liftP (parse_discovery_document D N (ks_load K) (snd response) (kr_issuer_origin R) (discovery_url R))) (\<lambda>document.
     bindP (liftP (dt_add now (1000000 * cache_seconds R (parse_cache_control_max_age T (header_value (fst response) ''cache-control''))
       (kd_cache_max_age_seconds document)))) (\<lambda>expires_at.
     bindP (modP (\<lambda>s. s\<lparr>rs_cache := Some \<lparr>cd_document = document, cd_expires_at = expires_at\<rparr>\<rparr>)) (\<lambda>_.
     retP document)))))"

definition get_document ::
  "deps \<Rightarrow> py_text \<Rightarrow> net_lib \<Rightarrow> 'w key_source \<Rightarrow> key_resolver \<Rightarrow> bool \<Rightarrow> ('w resolver_state, key_document) prog" where
  "get_document D T N K R bypass_cache =
     bindP (in_world (ks_now K)) (\<lambda>now.
     bindP (readP rs_cache) (\<lambda>cache.
     case cache of
       Some c \<Rightarrow> if \<not> bypass_cache \<and> now < cd_expires_at c then retP (cd_document c) else fetch_and_cache D T N K R now
     | None \<Rightarrow> fetch_and_cache D T N K R now))"

definition resolve_key ::
  "deps \<Rightarrow> py_text \<Rightarrow> net_lib \<Rightarrow> 'w key_source \<Rightarrow> key_resolver \<Rightarrow> key_request \<Rightarrow> bool \<Rightarrow> ('w resolver_state, resolved_key) prog" where
  "resolve_key D T N K R q bypass_cache =
     bindP (get_document D T N K R bypass_cache) (\<lambda>document.
     case select_discovered_key document q of
       Inr k \<Rightarrow> retP k
     | Inl e \<Rightarrow>
         if is_key_not_found e then
           bindP (readP rs_cache) (\<lambda>cache.
           if bypass_cache \<or> cache = None then raiseP e
           else bindP (get_document D T N K R True) (\<lambda>refreshed. liftP (select_discovered_key refreshed q)))
         else raiseP e)"

section \<open>Signatures\<close>

text \<open>
  The optional \<open>cryptography\<close> package: \<open>None\<close> when it cannot be imported. An invalid signature is the value \<open>False\<close>;
  building an RSA key from its numbers may raise.
\<close>

record crypto_backend =
  cb_ed25519 :: "string \<Rightarrow> string \<Rightarrow> string \<Rightarrow> bool"
  cb_rsa :: "nat \<Rightarrow> nat \<Rightarrow> (string \<Rightarrow> string \<Rightarrow> bool) res"

definition decode_unpadded_base64url_wire :: "json \<Rightarrow> string \<Rightarrow> string res" where
  "decode_unpadded_base64url_wire v field_name = (case v of
       JStr raw \<Rightarrow>
         if raw = [] then Inl (wk_error ''KeyDiscoveryFormatError'' (field_name @ '' must be a non-empty base64url string''))
         else if CHR ''='' \<in> set raw then Inl (wk_error ''KeyDiscoveryFormatError'' (field_name @ '' must be base64url without padding''))
         else if \<not> list_all is_base64url_char raw
         then Inl (wk_error ''KeyDiscoveryFormatError'' (field_name @ '' contains characters outside unpadded base64url''))
         else (case b64url_decode raw of Inr b \<Rightarrow> Inr b
           | Inl e \<Rightarrow> Inl (wk_error ''KeyDiscoveryFormatError'' (field_name @ '' could not be decoded as base64url'')))
     | _ \<Rightarrow> Inl (wk_error ''KeyDiscoveryFormatError'' (field_name @ '' must be a non-empty base64url string'')))"

definition jwk_part :: "dict \<Rightarrow> string \<Rightarrow> json res" where
  "jwk_part jwk k = (case map_of jwk k of Some v \<Rightarrow> Inr v
     | None \<Rightarrow> Inl (wk_error ''KeyDiscoveryFormatError'' ''public_key_jwk is missing required field''))"

definition int_from_bytes :: "string \<Rightarrow> nat" where
  "int_from_bytes b = foldl (\<lambda>n c. 256 * n + of_char c) 0 b"

fun bit_length :: "nat \<Rightarrow> nat" where
  "bit_length n = (if n = 0 then 0 else Suc (bit_length (n div 2)))"

declare bit_length.simps [simp del]

definition verify_eddsa :: "crypto_backend \<Rightarrow> dict \<Rightarrow> string \<Rightarrow> string \<Rightarrow> bool res" where
  "verify_eddsa C jwk raw_signature payload =
     (if get_or_null jwk ''kty'' \<noteq> JStr ''OKP'' \<or> get_or_null jwk ''crv'' \<noteq> JStr ''Ed25519''
      then Inl (wk_error ''KeyDiscoveryFormatError'' ''EdDSA discovery keys must publish an Ed25519 OKP JWK'')
      else bindR (jwk_part jwk ''x'') (\<lambda>x.
      bindR (decode_unpadded_base64url_wire x ''public_key_jwk.x'') (\<lambda>public_key_bytes.
      if length public_key_bytes \<noteq> 32
      then Inl (wk_error ''KeyDiscoveryFormatError'' ''EdDSA discovery keys must publish a raw 32-byte Ed25519 public key'')
      else if length raw_signature \<noteq> 64 then Inr False
      else Inr (cb_ed25519 C public_key_bytes raw_signature payload))))"

definition verify_rs256 :: "crypto_backend \<Rightarrow> dict \<Rightarrow> string \<Rightarrow> string \<Rightarrow> bool res" where
  "verify_rs256 C jwk raw_signature payload =
     (if get_or_null jwk ''kty'' \<noteq> JStr ''RSA''
      then Inl (wk_error ''KeyDiscoveryFormatError'' ''RS256 discovery keys must publish an RSA JWK'')
      else bindR (jwk_part jwk ''n'') (\<lambda>n.
      bindR (decode_unpadded_base64url_wire n ''public_key_jwk.n'') (\<lambda>n_bytes.
      bindR (jwk_part jwk ''e'') (\<lambda>e.
      bindR (decode_unpadded_base64url_wire e ''public_key_jwk.e'') (\<lambda>e_bytes.
      if bit_length (int_from_bytes n_bytes) < 2048
      then Inl (wk_error ''KeyDiscoveryFormatError'' ''RS256 discovery keys must use RSA modulus size >= 2048 bits'')
      else if int_from_bytes e_bytes \<noteq> 65537
      then Inl (wk_error ''KeyDiscoveryFormatError'' ''RS256 discovery keys must use public exponent 65537'')
      else (case cb_rsa C (int_from_bytes e_bytes) (int_from_bytes n_bytes) of
          Inr verify_fn \<Rightarrow> Inr (verify_fn raw_signature payload)
        | Inl (Raise ValueError m) \<Rightarrow> Inl (wk_error ''KeyDiscoveryFormatError'' ''RS256 discovery key has invalid RSA public numbers'')
        | Inl e \<Rightarrow> Inl e))))))"

definition verify_signature_with_resolved_key ::
  "crypto_backend option \<Rightarrow> string \<Rightarrow> signature_spec \<Rightarrow> resolved_key \<Rightarrow> bool res" where
  "verify_signature_with_resolved_key backend payload sig resolved =
     (let jwk = dk_public_key_jwk (rk_key resolved) in
      if sg_encoding sig \<noteq> ''base64url'' then Inr False
      else if get_or_null jwk ''kid'' \<noteq> JNull \<and> get_or_null jwk ''kid'' \<noteq> JStr (dk_key_id (rk_key resolved))
      then Inl (wk_error ''KeyDiscoveryFormatError'' ''public_key_jwk.kid does not match the discovery key_id'')
      else if get_or_null jwk ''alg'' \<noteq> JNull \<and> get_or_null jwk ''alg'' \<noteq> JStr (sg_algorithm sig)
      then Inl (wk_error ''KeyDiscoveryFormatError'' ''public_key_jwk.alg does not match the signature algorithm'')
      else (case backend of
          None \<Rightarrow> Inl (wk_error ''UnsupportedVerificationAlgorithmError'' ''asymmetric well-known key verification requires the optional package'')
        | Some C \<Rightarrow> bindR (decode_unpadded_base64url_wire (JStr (sg_value sig)) ''signature.value'') (\<lambda>raw_signature.
            if sg_algorithm sig = ''EdDSA'' then verify_eddsa C jwk raw_signature payload
            else if sg_algorithm sig = ''RS256'' then verify_rs256 C jwk raw_signature payload
            else Inl (wk_error ''UnsupportedVerificationAlgorithmError''
              ''well-known verification supports RS256 and EdDSA only when the optional crypto backend is available''))))"

record key_verifier =
  kv_required_use :: string
  kv_anchor_verified :: bool
  kv_anchor_time :: "datetime option"

text \<open>\<open>verify\<close> of the plain interface always refuses; \<open>issued_at\<close> is required, the anchor arguments may be left out.\<close>

definition wk_verify :: "string \<Rightarrow> signature_spec \<Rightarrow> bool" where
  "wk_verify payload sig = False"

definition wk_request :: "key_verifier \<Rightarrow> signature_spec \<Rightarrow> party_ref option \<Rightarrow> datetime \<Rightarrow> bool option \<Rightarrow> datetime option \<Rightarrow> key_request" where
  "wk_request V sig issuer issued_at anchor_verified anchor_time =
     \<lparr>kq_key_id = sg_key_id sig, kq_algorithm = sg_algorithm sig, kq_issued_at = issued_at, kq_issuer = issuer,
      kq_required_use = Some (kv_required_use V),
      kq_anchor_verified = (case anchor_verified of None \<Rightarrow> kv_anchor_verified V | Some b \<Rightarrow> b),
      kq_anchor_time = (case anchor_time of None \<Rightarrow> kv_anchor_time V | Some t \<Rightarrow> Some t)\<rparr>"

definition wk_verify_with_metadata ::
  "deps \<Rightarrow> py_text \<Rightarrow> net_lib \<Rightarrow> 'w key_source \<Rightarrow> key_resolver \<Rightarrow> crypto_backend option \<Rightarrow> key_verifier \<Rightarrow> string \<Rightarrow> signature_spec \<Rightarrow>
   party_ref option \<Rightarrow> datetime option \<Rightarrow> bool option \<Rightarrow> datetime option \<Rightarrow> ('w resolver_state, bool) prog" where
  "wk_verify_with_metadata D T N K R backend V payload sig issuer issued_at anchor_verified anchor_time =
     (case issued_at of
        None \<Rightarrow> retP False
      | Some t \<Rightarrow> catchP
          (bindP (resolve_key D T N K R (wk_request V sig issuer t anchor_verified anchor_time) False) (\<lambda>resolved.
           liftP (verify_signature_with_resolved_key backend payload sig resolved)))
          (\<lambda>e. if is_well_known_error e then retP False else raiseP e))"

section \<open>When a key may be used\<close>

definition use_allowed :: "string option \<Rightarrow> discovered_key \<Rightarrow> bool" where
  "use_allowed required_use k = (case required_use of
       Some use \<Rightarrow> use \<in> set ALLOWED_DISCOVERY_KEY_USES \<and> use \<noteq> ''verify'' \<and> use \<in> set (dk_use k)
     | None \<Rightarrow> (\<exists>u \<in> set (dk_use k). u \<in> set ALLOWED_DISCOVERY_KEY_USES))"

definition anchored_before :: "datetime \<Rightarrow> bool \<Rightarrow> datetime option \<Rightarrow> bool" where
  "anchored_before h verified time \<longleftrightarrow> verified \<and> (\<exists>t. time = Some t \<and> t < h)"

text \<open>The rules of \<open>_assert_key_usable\<close> as one condition on the key and the request.\<close>

definition key_usable :: "discovered_key \<Rightarrow> key_request \<Rightarrow> bool" where
  "key_usable k q \<longleftrightarrow> dk_status k \<in> set ALLOWED_DISCOVERY_KEY_STATUSES \<and> dk_status k \<noteq> ''suspended'' \<and>
     use_allowed (kq_required_use q) k \<and>
     (\<forall>t. dk_not_before k = Some t \<longrightarrow> t \<le> kq_issued_at q) \<and> (\<forall>t. dk_expires_at k = Some t \<longrightarrow> kq_issued_at q < t) \<and>
     (dk_status k = ''revoked'' \<longrightarrow> dk_revoked_at k \<noteq> None) \<and> (\<forall>t. dk_revoked_at k = Some t \<longrightarrow> kq_issued_at q < t) \<and>
     (dk_status k = ''hard_revoked'' \<longrightarrow> dk_hard_revoked_at k \<noteq> None) \<and>
     (\<forall>h. dk_hard_revoked_at k = Some h \<longrightarrow> anchored_before h (kq_anchor_verified q) (kq_anchor_time q))"

lemma is_in_use_iff: "is_in_use u k = Inr () \<longleftrightarrow> use_allowed u k"
  by (auto simp: is_in_use_def use_allowed_def list_ex_iff split: option.split)

lemma assert_key_usable_iff:
  "assert_key_usable k (kq_issued_at q) (kq_required_use q) (kq_anchor_verified q) (kq_anchor_time q) = Inr () \<longleftrightarrow> key_usable k q"
proof -
  have unit: "bindR m (\<lambda>_. r) = Inr () \<longleftrightarrow> m = Inr () \<and> r = Inr ()" for m r :: "unit res" by (cases m) auto
  have guard: "(if c then Inl e else r) = Inr () \<longleftrightarrow> \<not> c \<and> r = Inr ()" for c e and r :: "unit res" by simp
  show ?thesis unfolding assert_key_usable_def unit guard is_in_use_iff key_usable_def anchored_before_def
    by (cases "dk_not_before k"; cases "dk_expires_at k"; cases "dk_revoked_at k"; cases "dk_hard_revoked_at k"; cases "kq_anchor_time q") auto
qed

definition issuer_matches :: "key_document \<Rightarrow> party_ref option \<Rightarrow> bool" where
  "issuer_matches d issuer \<longleftrightarrow> (\<forall>i. issuer = Some i \<longrightarrow> pa_type (kd_issuer d) = pa_type i \<and> pa_id (kd_issuer d) = pa_id i)"

lemma select_discovered_key_iff:
  "select_discovered_key d q = Inr r \<longleftrightarrow> issuer_matches d (kq_issuer q) \<and>
     (\<exists>k. filter (\<lambda>k. dk_key_id k = kq_key_id q) (kd_keys d) = [k] \<and> dk_algorithm k = kq_algorithm q \<and> key_usable k q \<and>
       r = \<lparr>rk_issuer = kd_issuer d, rk_origin = kd_origin d, rk_published_at = kd_published_at d, rk_key = k\<rparr>)"
proof -
  have unit: "bindR m (\<lambda>_. Inr x) = Inr y \<longleftrightarrow> m = Inr () \<and> y = x" for m :: "unit res" and x y :: resolved_key by (cases m) auto
  show ?thesis unfolding select_discovered_key_def issuer_matches_def
    by (cases "filter (\<lambda>k. dk_key_id k = kq_key_id q) (kd_keys d)" rule: list.exhaust; cases "kq_issuer q")
      (auto simp: unit assert_key_usable_iff split: list.split)
qed

section \<open>The cache\<close>

definition cache_ok :: "key_resolver \<Rightarrow> 'w resolver_state \<Rightarrow> bool" where
  "cache_ok R s \<longleftrightarrow> (\<forall>c. rs_cache s = Some c \<longrightarrow> kd_origin (cd_document c) = kr_issuer_origin R \<and>
     distinct (map dk_key_id (kd_keys (cd_document c))))"

lemma check_key_ids_iff: "check_key_ids seen ks = Inr () \<longleftrightarrow> distinct (map dk_key_id ks) \<and> set (map dk_key_id ks) \<inter> set seen = {}"
  by (induction ks arbitrary: seen) auto

lemma parse_discovery_document_ok:
  assumes "parse_discovery_document D N load body origin url = Inr d"
  shows "kd_origin d = origin" "distinct (map dk_key_id (kd_keys d))"
proof -
  obtain ks x where x: "check_key_ids [] ks = Inr x" "kd_keys d = ks" "\<not> kd_origin d \<noteq> origin"
    using assms unfolding parse_discovery_document_def
    by (elim bindR_eq_InrE guard_InrE) (simp only: sum.inject, hypsubst, simp)
  then show "kd_origin d = origin" "distinct (map dk_key_id (kd_keys d))" by (simp_all add: check_key_ids_iff)
qed

lemma in_world_cache: "in_world m s = (r, s') \<Longrightarrow> rs_cache s' = rs_cache s"
  by (auto simp: in_world_def zoomP_def split: prod.splits)

lemma keeps_in_world: "(\<And>s w. I s \<Longrightarrow> I (s\<lparr>rs_world := w\<rparr>)) \<Longrightarrow> keeps I (in_world m)"
  unfolding in_world_def by (rule keeps_zoomP) simp

lemma cache_ok_world [simp]: "cache_ok R (s\<lparr>rs_world := w\<rparr>) = cache_ok R s"
  by (simp add: cache_ok_def)

lemma keeps_lift: "keeps I (liftP m)"
  by (rule keepsI) (simp add: liftP_def)

definition served :: "key_resolver \<Rightarrow> key_document \<Rightarrow> 'w resolver_state \<Rightarrow> bool" where
  "served R d s \<longleftrightarrow> cache_ok R s \<and> (\<exists>c. rs_cache s = Some c \<and> cd_document c = d)"

lemma fetch_and_cache_serves: "valid (cache_ok R) (fetch_and_cache D T N K R now) (served R) (\<lambda>_. cache_ok R)"
proof -
  have fetched: "valid (cache_ok R) (bindP (liftP (parse_discovery_document D N (ks_load K) (snd response) (kr_issuer_origin R) (discovery_url R)))
    (\<lambda>document. bindP (liftP (dt_add now (1000000 * cache_seconds R (parse_cache_control_max_age T (header_value (fst response) ''cache-control''))
       (kd_cache_max_age_seconds document)))) (\<lambda>expires_at.
     bindP (modP (\<lambda>s. s\<lparr>rs_cache := Some \<lparr>cd_document = document, cd_expires_at = expires_at\<rparr>\<rparr>)) (\<lambda>_. retP document)))) (served R) (\<lambda>_. cache_ok R)"
    for response
    by (auto simp: valid_def bindP_def liftP_def modP_def retP_def served_def cache_ok_def dest: parse_discovery_document_ok
      split: sum.splits prod.splits)
  show ?thesis unfolding fetch_and_cache_def
    by (rule valid_step[OF keeps_lift], simp, rule valid_step[OF keeps_in_world], simp, simp, rule fetched)
qed

lemma get_document_serves: "valid (cache_ok R) (get_document D T N K R b) (served R) (\<lambda>_. cache_ok R)"
  unfolding get_document_def
proof (rule valid_step[OF keeps_in_world])
  fix now
  show "valid (cache_ok R) (bindP (readP rs_cache) (\<lambda>cache. case cache of
       Some c \<Rightarrow> if \<not> b \<and> now < cd_expires_at c then retP (cd_document c) else fetch_and_cache D T N K R now
     | None \<Rightarrow> fetch_and_cache D T N K R now)) (served R) (\<lambda>_. cache_ok R)"
  proof (rule valid_bindP[where R = "\<lambda>cache s. cache_ok R s \<and> rs_cache s = cache"])
    show "valid (cache_ok R) (readP rs_cache) (\<lambda>cache s. cache_ok R s \<and> rs_cache s = cache) (\<lambda>_. cache_ok R)"
      by (simp add: valid_def readP_def)
    fix cache
    show "valid (\<lambda>s. cache_ok R s \<and> rs_cache s = cache) (case cache of
       Some c \<Rightarrow> if \<not> b \<and> now < cd_expires_at c then retP (cd_document c) else fetch_and_cache D T N K R now
     | None \<Rightarrow> fetch_and_cache D T N K R now) (served R) (\<lambda>_. cache_ok R)"
      by (intro valid_case_option valid_if valid_weaken[OF fetch_and_cache_serves]) (auto simp: valid_def retP_def served_def)
  qed
qed simp_all

definition resolved_from_cache :: "key_resolver \<Rightarrow> key_request \<Rightarrow> resolved_key \<Rightarrow> 'w resolver_state \<Rightarrow> bool" where
  "resolved_from_cache R q r s \<longleftrightarrow> cache_ok R s \<and> (\<exists>c. rs_cache s = Some c \<and> select_discovered_key (cd_document c) q = Inr r)"

lemma resolve_key_serves: "valid (cache_ok R) (resolve_key D T N K R q b) (resolved_from_cache R q) (\<lambda>_. cache_ok R)"
  unfolding resolve_key_def
proof (rule valid_bindP[OF get_document_serves])
  fix d
  have again: "valid (cache_ok R) (bindP (get_document D T N K R True) (\<lambda>refreshed. liftP (select_discovered_key refreshed q)))
    (resolved_from_cache R q) (\<lambda>_. cache_ok R)"
    by (rule valid_bindP[OF get_document_serves]) (auto simp: valid_def liftP_def served_def resolved_from_cache_def split: sum.split)
  show "valid (served R d) (case select_discovered_key d q of Inr k \<Rightarrow> retP k
     | Inl e \<Rightarrow> if is_key_not_found e then
           bindP (readP rs_cache) (\<lambda>cache. if b \<or> cache = None then raiseP e
           else bindP (get_document D T N K R True) (\<lambda>refreshed. liftP (select_discovered_key refreshed q)))
         else raiseP e) (resolved_from_cache R q) (\<lambda>_. cache_ok R)"
  proof (cases "select_discovered_key d q")
    case (Inl e)
    have "valid (cache_ok R) (bindP (readP rs_cache) (\<lambda>cache. if b \<or> cache = None then raiseP e
           else bindP (get_document D T N K R True) (\<lambda>refreshed. liftP (select_discovered_key refreshed q)))) (resolved_from_cache R q) (\<lambda>_. cache_ok R)"
      by (rule valid_bindP[where R = "\<lambda>_. cache_ok R"], simp add: valid_def readP_def)
        (intro valid_if again, simp add: valid_def raiseP_def)
    note refresh = valid_weaken[OF this, of "served R d"]
    have "valid (served R d) (raiseP e) (resolved_from_cache R q) (\<lambda>_. cache_ok R)" by (simp add: valid_def raiseP_def served_def)
    then show ?thesis using Inl refresh by (cases "is_key_not_found e") (simp_all add: served_def)
  qed (auto simp: valid_def retP_def served_def resolved_from_cache_def)
qed

section \<open>What an accepted signature means\<close>

text \<open>A key of the cached document that carries a signature, under the conditions of a request.\<close>

definition published_key :: "key_resolver \<Rightarrow> key_request \<Rightarrow> 'w resolver_state \<Rightarrow> discovered_key \<Rightarrow> bool" where
  "published_key R q s k \<longleftrightarrow> (\<exists>c. rs_cache s = Some c \<and> kd_origin (cd_document c) = kr_issuer_origin R \<and>
     issuer_matches (cd_document c) (kq_issuer q) \<and> filter (\<lambda>x. dk_key_id x = kq_key_id q) (kd_keys (cd_document c)) = [k] \<and>
     dk_algorithm k = kq_algorithm q \<and> key_usable k q)"

lemma resolve_key_published:
  assumes "cache_ok R s" "resolve_key D T N K R q b s = (Inr r, s')"
  shows "cache_ok R s'" "published_key R q s' (rk_key r)"
proof -
  have "resolved_from_cache R q r s'" using validD_Inr[OF resolve_key_serves assms] .
  then show "cache_ok R s'" "published_key R q s' (rk_key r)"
    unfolding resolved_from_cache_def published_key_def select_discovered_key_iff cache_ok_def by auto
qed

lemma wk_accepts:
  assumes "wk_verify_with_metadata D T N K R backend V payload sig issuer issued_at av anchor_time s = (Inr True, s')"
  obtains t r where "issued_at = Some t" "resolve_key D T N K R (wk_request V sig issuer t av anchor_time) False s = (Inr r, s')"
    "verify_signature_with_resolved_key backend payload sig r = Inr True"
proof (cases issued_at)
  case None
  then show thesis using assms by (simp add: wk_verify_with_metadata_def retP_def)
next
  case (Some t)
  let ?q = "wk_request V sig issuer t av anchor_time"
  obtain r s'' where "resolve_key D T N K R ?q False s = (r, s'')" by fastforce
  then show thesis using assms that[OF Some] Some
    by (cases r) (auto simp: wk_verify_with_metadata_def catchP_def bindP_def liftP_def retP_def raiseP_def split: sum.splits if_splits)
qed

lemma supported_algorithm:
  assumes "verify_signature_with_resolved_key backend payload sig r = Inr True"
  shows "sg_algorithm sig \<in> {''EdDSA'', ''RS256''}" "backend \<noteq> None"
  using assms unfolding verify_signature_with_resolved_key_def Let_def
  by (auto split: if_splits option.splits simp: bindR_eq_Inr)

text \<open>
  C24 (well_known_signature_sound): the well-known verifier only accepts a signature under a key that the document of the
  configured origin publishes exactly once under that id, for the same algorithm and issuer, with the required use, not suspended,
  with the time of issue in its validity window and before its ordinary revocation if it has one; under a hard-revoked key a
  verified external anchor lies before the hard revocation, with which the time of issue itself is not compared. The
  cryptographic check passed with EdDSA or RS256, and the cache still holds a document of that origin with distinct key ids.
\<close>

theorem well_known_signature_sound:
  assumes "cache_ok R s" "wk_verify_with_metadata D T N K R backend V payload sig issuer issued_at av anchor_time s = (Inr True, s')"
  shows "\<exists>t r. issued_at = Some t \<and> cache_ok R s' \<and> published_key R (wk_request V sig issuer t av anchor_time) s' (rk_key r) \<and>
    verify_signature_with_resolved_key backend payload sig r = Inr True \<and> sg_algorithm sig \<in> {''EdDSA'', ''RS256''}"
  using assms(2)
proof (rule wk_accepts)
  fix t r
  assume t: "issued_at = Some t" and r: "resolve_key D T N K R (wk_request V sig issuer t av anchor_time) False s = (Inr r, s')"
    and sig: "verify_signature_with_resolved_key backend payload sig r = Inr True"
  show ?thesis using t sig resolve_key_published[OF assms(1) r] supported_algorithm(1)[OF sig] by blast
qed

section \<open>Attestations under revoked keys\<close>

text \<open>The verifier at one moment, in the shape an attestation service takes it.\<close>

definition wk_attestation_verifier ::
  "deps \<Rightarrow> py_text \<Rightarrow> net_lib \<Rightarrow> 'w key_source \<Rightarrow> key_resolver \<Rightarrow> crypto_backend option \<Rightarrow> key_verifier \<Rightarrow> 'w resolver_state \<Rightarrow> attestation_verifier" where
  "wk_attestation_verifier D T N K R backend V s = \<lparr>av_verify = (\<lambda>payload sig. Inr (wk_verify payload sig)),
     av_verify_with_metadata = Some (\<lambda>payload sig issuer t anchor. fst (wk_verify_with_metadata D T N K R backend V payload sig (Some issuer) (Some t)
       (map_option fst anchor) (Option.bind anchor snd) s))\<rparr>"

lemma earliest_of_mem: "earliest_of ts = Some t \<Longrightarrow> t \<in> set ts"
  by (auto simp: earliest_of_def split: if_splits)

lemma anchor_times_mem: "t \<in> set (anchor_times check d anchors) \<longleftrightarrow> (\<exists>a \<in> set anchors. check a d = Inr t)"
  by (induction anchors) (auto simp: anchor_times_def map_filter_simps split: sum.splits)

definition anchored_earlier :: "attestation_service \<Rightarrow> attestation \<Rightarrow> datetime \<Rightarrow> bool" where
  "anchored_earlier S a h \<longleftrightarrow> (\<exists>check t. as_external_anchor_verifier S = Some check \<and> t < h \<and>
     (\<exists>anchor \<in> set (at_external_anchors a). check anchor (JObj (at_artifact_digest a)) = Inr t))"

lemma hard_revoked_answer:
  assumes "cache_ok R s" "fst (wk_verify_with_metadata D T N K R backend V m sig issuer (Some t) av time s) = Inr True"
  obtains s' k where "wk_verify_with_metadata D T N K R backend V m sig issuer (Some t) av time s = (Inr True, s')"
    "published_key R (wk_request V sig issuer t av time) s' k"
    "\<forall>h. dk_hard_revoked_at k = Some h \<longrightarrow> anchored_before h (case av of None \<Rightarrow> kv_anchor_verified V | Some b \<Rightarrow> b)
      (case time of None \<Rightarrow> kv_anchor_time V | Some u \<Rightarrow> Some u)"
    "dk_status k = ''hard_revoked'' \<longrightarrow> dk_hard_revoked_at k \<noteq> None"
proof -
  obtain s' where s': "wk_verify_with_metadata D T N K R backend V m sig issuer (Some t) av time s = (Inr True, s')"
    using assms(2) by (metis prod.collapse)
  obtain r where "resolve_key D T N K R (wk_request V sig issuer t av time) False s = (Inr r, s')"
    using wk_accepts[OF s'] by (metis option.inject)
  then have k: "published_key R (wk_request V sig issuer t av time) s' (rk_key r)" using resolve_key_published[OF assms(1)] by blast
  then have "key_usable (rk_key r) (wk_request V sig issuer t av time)" unfolding published_key_def by blast
  then show thesis by (intro that[OF s' k]) (simp_all add: key_usable_def wk_request_def)
qed

lemma attestation_ok_calls:
  assumes "attestation_signature_ok V m sig i t time" "av_verify_with_metadata V = Some f"
  shows "f m sig i t (Some (time \<noteq> None, time)) = Inr True \<or> f m sig i t None = Inr True"
proof (cases "f m sig i t (Some (time \<noteq> None, time))")
  case (Inl e)
  show ?thesis
  proof (cases e)
    case (Raise c x)
    then show ?thesis using assms Inl by (cases c) (simp_all add: attestation_signature_ok_def)
  qed (use assms Inl in \<open>simp add: attestation_signature_ok_def\<close>)
qed (use assms in \<open>simp add: attestation_signature_ok_def\<close>)

lemma anchored_earlierI:
  assumes "anchors_accepted D S a (Some t)" "t < h"
  shows "anchored_earlier S a h"
proof (cases "as_external_anchor_verifier S")
  case (Some check)
  then have "earliest_of (anchor_times check (JObj (at_artifact_digest a)) (at_external_anchors a)) = Some t"
    using assms(1) by (simp add: anchors_accepted_def)
  then have "\<exists>x \<in> set (at_external_anchors a). check x (JObj (at_artifact_digest a)) = Inr t"
    unfolding anchor_times_mem[symmetric] by (rule earliest_of_mem)
  then show ?thesis using Some assms(2) unfolding anchored_earlier_def by blast
qed (use assms in \<open>simp add: anchors_accepted_def\<close>)

lemma accepted_attestation:
  assumes "verify_receipt_attestation D S arg (Some V) = Inr out"
  obtains a time m where "resolve_attestation D ''receipt'' arg = Inr a" "anchors_accepted D S a time"
    "canonicalize_bytes D (JObj (attestation_unsigned a)) = Inr m"
    "attestation_signature_ok V m (at_signature a) (at_issuer a) (at_issued_at a) time"
proof -
  obtain a x where a: "resolve_attestation D ''receipt'' arg = Inr a" "verify_attested D S (Some V) a = Inr x"
    using assms unfolding verify_receipt_attestation_def by (elim bindR_eq_InrE)
  have "verify_attested D S (Some V) a = Inr ()" using a(2) by simp
  then show thesis unfolding verify_attested_iff verifier_of_def option.case using that[OF a(1)] by blast
qed

text \<open>
  C23 (hard_revoked_needs_anchor): a receipt attestation accepted through the well-known verifier (which claims no anchor of its
  own) was signed with a published key; if that key has been hard-revoked, one of the attestation's anchors verified in the
  service's log at a time before the revocation. So stealing a revoked key does not make old receipts.
\<close>

theorem hard_revoked_needs_anchor:
  assumes "cache_ok R s" "\<not> kv_anchor_verified V"
    "verify_receipt_attestation D S arg (Some (wk_attestation_verifier D T N K R backend V s)) = Inr out"
  shows "\<exists>a m av time s' k. resolve_attestation D ''receipt'' arg = Inr a \<and> canonicalize_bytes D (JObj (attestation_unsigned a)) = Inr m \<and>
    wk_verify_with_metadata D T N K R backend V m (at_signature a) (Some (at_issuer a)) (Some (at_issued_at a)) av time s = (Inr True, s') \<and>
    published_key R (wk_request V (at_signature a) (Some (at_issuer a)) (at_issued_at a) av time) s' k \<and>
    (dk_status k = ''hard_revoked'' \<longrightarrow> dk_hard_revoked_at k \<noteq> None) \<and> (\<forall>h. dk_hard_revoked_at k = Some h \<longrightarrow> anchored_earlier S a h)"
proof -
  obtain a time m where a: "resolve_attestation D ''receipt'' arg = Inr a" "anchors_accepted D S a time"
    "canonicalize_bytes D (JObj (attestation_unsigned a)) = Inr m"
    "attestation_signature_ok (wk_attestation_verifier D T N K R backend V s) m (at_signature a) (at_issuer a) (at_issued_at a) time"
    using accepted_attestation[OF assms(3)] .
  let ?call = "\<lambda>av time. wk_verify_with_metadata D T N K R backend V m (at_signature a) (Some (at_issuer a)) (Some (at_issued_at a)) av time s"
  have "fst (?call (Some (time \<noteq> None)) time) = Inr True \<or> fst (?call None None) = Inr True"
    using attestation_ok_calls[OF a(4)] by (simp add: wk_attestation_verifier_def)
  then obtain av u where call: "fst (?call av u) = Inr True" "av = Some (time \<noteq> None) \<and> u = time \<or> av = None \<and> u = None" by blast
  obtain s' k where k: "?call av u = (Inr True, s')" "published_key R (wk_request V (at_signature a) (Some (at_issuer a)) (at_issued_at a) av u) s' k"
    "\<forall>h. dk_hard_revoked_at k = Some h \<longrightarrow> anchored_before h (case av of None \<Rightarrow> kv_anchor_verified V | Some b \<Rightarrow> b)
      (case u of None \<Rightarrow> kv_anchor_time V | Some u \<Rightarrow> Some u)"
    "dk_status k = ''hard_revoked'' \<longrightarrow> dk_hard_revoked_at k \<noteq> None"
    using hard_revoked_answer[OF assms(1) call(1)] .
  have "anchored_earlier S a h" if h: "dk_hard_revoked_at k = Some h" for h
  proof -
    obtain t where "time = Some t" "t < h"
      using k(3)[rule_format, OF h] call(2) assms(2) by (auto simp: anchored_before_def)
    then show ?thesis using anchored_earlierI a(2) by blast
  qed
  then show ?thesis using a(1,3) k(1,2,4) by blast
qed

section \<open>How often the document is fetched\<close>

text \<open>A source that counts its requests.\<close>

definition counted :: "'w key_source \<Rightarrow> ('w \<times> nat) key_source" where
  "counted K = \<lparr>ks_now = (\<lambda>(w, n). case ks_now K w of (r, w') \<Rightarrow> (r, (w', n))),
     ks_fetch = (\<lambda>url (w, n). case ks_fetch K url w of (r, w') \<Rightarrow> (r, (w', Suc n))),
     ks_default_fetch = ks_default_fetch K, ks_load = ks_load K\<rparr>"

abbreviation requests :: "('w \<times> nat) resolver_state \<Rightarrow> nat" where
  "requests s \<equiv> snd (rs_world s)"

lemma now_requests: "requests (snd (in_world (ks_now (counted K)) s)) = requests s"
  by (cases "rs_world s"; cases "ks_now K (fst (rs_world s))") (simp add: in_world_def zoomP_def counted_def)

lemma fetch_requests: "requests (snd (in_world (ks_fetch (counted K) url) s)) = Suc (requests s)"
  by (cases "rs_world s"; cases "ks_fetch K url (fst (rs_world s))") (simp add: in_world_def zoomP_def counted_def)

definition spends :: "nat \<Rightarrow> (('w \<times> nat) resolver_state, 'a) prog \<Rightarrow> bool" where
  "spends n m \<longleftrightarrow> (\<forall>s. requests (snd (m s)) \<le> requests s + n)"

lemma spends_bind:
  assumes "spends i m" "\<And>x. spends j (f x)"
  shows "spends (i + j) (bindP m f)"
  unfolding spends_def
proof
  fix s
  obtain r s' where r: "m s = (r, s')" by fastforce
  have s': "requests s' \<le> requests s + i" using assms(1) r unfolding spends_def by (metis snd_conv)
  show "requests (snd (bindP m f s)) \<le> requests s + (i + j)"
  proof (cases r)
    case (Inr x)
    have "requests (snd (f x s')) \<le> requests s' + j" using assms(2)[of x] unfolding spends_def by blast
    then show ?thesis using s' r Inr by (simp add: bindP_def)
  qed (use s' r in \<open>simp add: bindP_def\<close>)
qed

lemma spends_simple: "spends n (liftP m)" "spends n (retP x)" "spends n (raiseP e)" "spends n (readP g)"
  "spends n (modP (\<lambda>s. s\<lparr>rs_cache := c\<rparr>))" "spends n (in_world (ks_now (counted K)))"
  by (simp_all add: spends_def liftP_def retP_def raiseP_def readP_def modP_def now_requests)

lemma spends_fetch: "spends (Suc 0) (in_world (ks_fetch (counted K) url))"
  by (simp add: spends_def fetch_requests)

lemma spends_first: "spends i m \<Longrightarrow> (\<And>x. spends 0 (f x)) \<Longrightarrow> spends i (bindP m f)"
  using spends_bind[of i m 0 f] by simp

lemma spends_second: "spends 0 m \<Longrightarrow> (\<And>x. spends j (f x)) \<Longrightarrow> spends j (bindP m f)"
  using spends_bind[of 0 m j f] by simp

lemma fetch_and_cache_spends: "spends (Suc 0) (fetch_and_cache D T N (counted K) R now)"
  unfolding fetch_and_cache_def
  by (rule spends_second[OF spends_simple(1)], rule spends_first[OF spends_fetch], (rule spends_second spends_simple)+)

lemma get_document_spends: "spends (Suc 0) (get_document D T N (counted K) R b)"
proof -
  have "spends (Suc 0) (case cache of Some c \<Rightarrow> if \<not> b \<and> now < cd_expires_at c then retP (cd_document c) else fetch_and_cache D T N (counted K) R now
     | None \<Rightarrow> fetch_and_cache D T N (counted K) R now)" for cache now
    by (simp add: fetch_and_cache_spends spends_simple split: option.split)
  then show ?thesis unfolding get_document_def
    by (intro spends_second[OF spends_simple(6)] spends_second[OF spends_simple(4)])
qed

lemma resolve_key_spends: "spends (Suc 0 + Suc 0) (resolve_key D T N (counted K) R q b)"
proof -
  have "spends (Suc 0) (if b \<or> cache = None then raiseP e
     else bindP (get_document D T N (counted K) R True) (\<lambda>refreshed. liftP (select_discovered_key refreshed q)))" for e cache
    by (simp add: spends_simple spends_first[OF get_document_spends spends_simple(1)])
  then have "spends (Suc 0) (bindP (readP rs_cache) (\<lambda>cache. if b \<or> cache = None then raiseP e
       else bindP (get_document D T N (counted K) R True) (\<lambda>refreshed. liftP (select_discovered_key refreshed q))))" for e
    by (rule spends_second[OF spends_simple(4)])
  then have "spends (Suc 0) (case select_discovered_key d q of Inr k \<Rightarrow> retP k | Inl e \<Rightarrow> if is_key_not_found e then
       bindP (readP rs_cache) (\<lambda>cache. if b \<or> cache = None then raiseP e
       else bindP (get_document D T N (counted K) R True) (\<lambda>refreshed. liftP (select_discovered_key refreshed q)))
     else raiseP e)" for d
    by (simp add: spends_simple split: sum.split)
  then show ?thesis unfolding resolve_key_def by (intro spends_bind get_document_spends)
qed

text \<open>
  C25 (resolver_requests_bounded): resolving a key makes at most two requests (the second when the key was not in the document
  the first one or the cache gave), and none when an unexpired cached document has a usable key.
\<close>

theorem resolver_requests_bounded:
  "requests (snd (resolve_key D T N (counted K) R q b s)) \<le> requests s + 2 \<and>
   (rs_cache s = Some c \<and> fst (ks_now K (fst (rs_world s))) = Inr now \<and> now < cd_expires_at c \<and> select_discovered_key (cd_document c) q = Inr r \<longrightarrow>
    fst (resolve_key D T N (counted K) R q False s) = Inr r \<and> requests (snd (resolve_key D T N (counted K) R q False s)) = requests s)"
proof (intro conjI impI; (elim conjE)?)
  show "requests (snd (resolve_key D T N (counted K) R q b s)) \<le> requests s + 2" using resolve_key_spends[of D T N K R q b]
    by (simp add: spends_def)
next
  assume c: "rs_cache s = Some c" and now: "fst (ks_now K (fst (rs_world s))) = Inr now" "now < cd_expires_at c"
    and r: "select_discovered_key (cd_document c) q = Inr r"
  obtain s' where s': "in_world (ks_now (counted K)) s = (Inr now, s')" "rs_cache s' = Some c" "requests s' = requests s"
    using now(1) c by (cases "rs_world s"; cases "ks_now K (fst (rs_world s))") (simp add: in_world_def zoomP_def counted_def)
  then have "get_document D T N (counted K) R False s = (Inr (cd_document c), s')"
    using now(2) by (simp add: get_document_def bindP_def readP_def retP_def)
  then have "resolve_key D T N (counted K) R q False s = (Inr r, s')" using r by (simp add: resolve_key_def bindP_def retP_def)
  then show "fst (resolve_key D T N (counted K) R q False s) = Inr r" "requests (snd (resolve_key D T N (counted K) R q False s)) = requests s"
    using s' by simp_all
qed

section \<open>Publishing a key\<close>

lemma put_time_lookup [simp]:
  "get_or_null d k = JNull \<Longrightarrow> get_or_null (put_time k t d) k = (case t of None \<Rightarrow> JNull | Some x \<Rightarrow> JStr (format_timestamp x))"
  "k \<noteq> k' \<Longrightarrow> get_or_null (put_time k t d) k' = get_or_null d k'"
  by (simp_all add: put_time_def split: option.split)

lemma key_payload_lookup:
  "get_or_null (key_payload k use jwk) ''key_id'' = JStr (dk_key_id k)" "get_or_null (key_payload k use jwk) ''kid'' = JNull"
  "get_or_null (key_payload k use jwk) ''algorithm'' = JStr (dk_algorithm k)" "get_or_null (key_payload k use jwk) ''use'' = use"
  "get_or_null (key_payload k use jwk) ''status'' = JStr (dk_status k)" "get_or_null (key_payload k use jwk) ''public_key_jwk'' = JObj jwk"
  "get_or_null (key_payload k use jwk) ''replaced_by'' = dk_replaced_by k"
  "get_or_null (key_payload k use jwk) ''revocation_reason'' = dk_revocation_reason k"
  by (simp_all add: key_payload_def)

lemma key_payload_times:
  "get_or_null (key_payload k use jwk) ''not_before'' = (case dk_not_before k of None \<Rightarrow> JNull | Some t \<Rightarrow> JStr (format_timestamp t))"
  "get_or_null (key_payload k use jwk) ''expires_at'' = (case dk_expires_at k of None \<Rightarrow> JNull | Some t \<Rightarrow> JStr (format_timestamp t))"
  "get_or_null (key_payload k use jwk) ''revoked_at'' = (case dk_revoked_at k of None \<Rightarrow> JNull | Some t \<Rightarrow> JStr (format_timestamp t))"
  "get_or_null (key_payload k use jwk) ''hard_revoked_at'' = (case dk_hard_revoked_at k of None \<Rightarrow> JNull | Some t \<Rightarrow> JStr (format_timestamp t))"
  by (simp_all add: key_payload_def)


definition key_times_ok :: "discovered_key \<Rightarrow> bool" where
  "key_times_ok k \<longleftrightarrow> list_all (\<lambda>t. case t of None \<Rightarrow> True | Some x \<Rightarrow> dt_ok x) [dk_not_before k, dk_expires_at k, dk_revoked_at k, dk_hard_revoked_at k]"

lemma optional_time_payload:
  assumes "get_or_null raw f = (case t of None \<Rightarrow> JNull | Some x \<Rightarrow> JStr (format_timestamp x))" "case t of None \<Rightarrow> True | Some x \<Rightarrow> dt_ok x"
  shows "optional_time raw f = Inr t"
proof (cases t)
  case (Some x)
  then have "format_timestamp x \<noteq> []" using assms(2) by (simp add: format_timestamp_def Let_def)
  then show ?thesis using assms Some by (simp add: optional_time_def parse_format_timestamp)
qed (use assms in \<open>simp add: optional_time_def\<close>)

lemma parse_key_payload:
  assumes "dk_key_id k \<noteq> []" "dk_algorithm k \<noteq> []" "dk_status k \<noteq> []" "normalize_key_uses use = Inr uses" "key_times_ok k"
  shows "parse_key_descriptor (JObj (key_payload k use jwk)) = Inr (k\<lparr>dk_use := uses, dk_public_key_jwk := jwk\<rparr>)"
proof -
  have times: "optional_time (key_payload k use jwk) ''not_before'' = Inr (dk_not_before k)"
    "optional_time (key_payload k use jwk) ''expires_at'' = Inr (dk_expires_at k)"
    "optional_time (key_payload k use jwk) ''revoked_at'' = Inr (dk_revoked_at k)"
    "optional_time (key_payload k use jwk) ''hard_revoked_at'' = Inr (dk_hard_revoked_at k)"
    by (rule optional_time_payload, rule key_payload_times, use assms(5) in \<open>simp add: key_times_ok_def\<close>)+
  show ?thesis using assms(1-4)
    by (simp add: parse_key_descriptor_def key_payload_lookup py_or_def nonempty_field_def times)
qed

lemma collect_uses_distinct: "collect_uses acc us = Inr ns \<Longrightarrow> distinct acc \<Longrightarrow> set acc \<subseteq> set ALLOWED_DISCOVERY_KEY_USES \<Longrightarrow>
  distinct ns \<and> set ns \<subseteq> set ALLOWED_DISCOVERY_KEY_USES \<and> (us \<noteq> [] \<or> acc \<noteq> [] \<longrightarrow> ns \<noteq> [])"
proof (induction acc us arbitrary: ns rule: collect_uses.induct)
  case (2 normalized use uses)
  then show ?case by (fastforce split: json.splits if_splits)
qed auto

lemma collect_uses_again:
  "distinct (acc @ ns) \<Longrightarrow> set ns \<subseteq> set ALLOWED_DISCOVERY_KEY_USES \<Longrightarrow> collect_uses acc (map JStr ns) = Inr (acc @ ns)"
proof (induction ns arbitrary: acc)
  case (Cons u ns)
  have "u \<noteq> []" using Cons.prems(2) by (auto simp: ALLOWED_DISCOVERY_KEY_USES_def)
  then show ?case using Cons.prems Cons.IH[of "acc @ [u]"] by auto
qed simp

lemma serialized_use:
  assumes "serialize_key_use use = Inr v"
  obtains uses where "normalize_key_uses use = Inr uses" "normalize_key_uses v = Inr uses"
proof -
  obtain uses where u: "normalize_key_uses use = Inr uses" and v: "v = (case uses of [x] \<Rightarrow> JStr x | us \<Rightarrow> JArr (map JStr us))"
    using assms unfolding serialize_key_use_def by (elim bindR_eq_InrE) simp
  obtain us where "us \<noteq> []" "collect_uses [] us = Inr uses"
    using u unfolding normalize_key_uses_def by (elim bindR_eq_InrE guard_InrE) blast
  then have ok: "distinct uses" "set uses \<subseteq> set ALLOWED_DISCOVERY_KEY_USES" "uses \<noteq> []" using collect_uses_distinct[of "[]" us uses] by auto
  have again: "collect_uses [] (map JStr uses) = Inr uses" using collect_uses_again[of "[]" uses] ok by simp
  have "normalize_key_uses v = Inr uses"
  proof (cases "tl uses")
    case Nil
    then obtain x where "uses = [x]" using ok(3) by (cases uses) auto
    then show ?thesis using again v by (simp add: normalize_key_uses_def)
  next
    case (Cons y ys)
    then obtain x where "uses = x # y # ys" by (cases uses) auto
    then show ?thesis using again v by (simp add: normalize_key_uses_def)
  qed
  then show thesis using that u by blast
qed

text \<open>
  A document built for a key parses back to that key, with its uses normalized and its JWK completed, when the URL functions
  map the origin to itself.
\<close>

theorem published_key_is_discovered:
  assumes "build_key_discovery_document N issuer origin k use t age = Inr d" "load body = Inr (JObj d)"
    "dk_key_id k \<noteq> []" "dk_algorithm k \<noteq> []" "key_times_ok k" "dt_ok t" "party_wf issuer"
    "normalize_origin N origin = Inr home" "normalize_origin N home = Inr home"
    "nl_urlsplit N url = Inr parts" "home = up_scheme parts @ ''://'' @ up_netloc parts"
  shows "\<exists>uses jwk. normalize_key_uses use = Inr uses \<and>
    normalize_public_key_jwk (JObj (dk_public_key_jwk k)) (dk_key_id k) (dk_algorithm k) = Inr jwk \<and>
    parse_discovery_document D N load body home url = Inr \<lparr>kd_issuer = issuer, kd_origin = home, kd_published_at = t,
      kd_keys = [k\<lparr>dk_use := uses, dk_public_key_jwk := jwk\<rparr>], kd_cache_max_age_seconds = Some age\<rparr>"
proof -
  obtain v jwk where status: "\<not> dk_status k \<notin> set ALLOWED_DISCOVERY_KEY_STATUSES" and age: "\<not> age \<le> 0"
    and v: "serialize_key_use use = Inr v" and jwk: "normalize_public_key_jwk (JObj (dk_public_key_jwk k)) (dk_key_id k) (dk_algorithm k) = Inr jwk"
    and d: "Inr [(''contract'', JObj [(''name'', JStr ''key_discovery''), (''version'', JStr ''v1'')]),
        (''issuer'', JObj (party_to_dict issuer)), (''origin'', JStr home),
        (''published_at'', JStr (format_timestamp t)), (''cache'', JObj [(''max_age_seconds'', JInt age)]),
        (''keys'', JArr [JObj (key_payload k v jwk)])] = (Inr d :: dict res)"
    using assms(1) unfolding build_key_discovery_document_def assms(8) bindR_Inr by (elim bindR_eq_InrE guard_InrE)
  obtain uses where uses: "normalize_key_uses use = Inr uses" "normalize_key_uses v = Inr uses" using serialized_use[OF v] .
  have "dk_status k \<noteq> []" using status by (auto simp: ALLOWED_DISCOVERY_KEY_STATUSES_def)
  note key = parse_key_payload[OF assms(3,4) this uses(2) assms(5), of jwk]
  have "home \<noteq> []" using assms(11) by simp
  then have "parse_discovery_document D N load body home url = Inr \<lparr>kd_issuer = issuer, kd_origin = home, kd_published_at = t,
      kd_keys = [k\<lparr>dk_use := uses, dk_public_key_jwk := jwk\<rparr>], kd_cache_max_age_seconds = Some age\<rparr>"
    using assms(2,6,7,9,10,11) d age key
    by (auto simp: parse_discovery_document_def party_round_trip parse_format_timestamp max_age_field_def parse_positive_int_def)
  then show ?thesis using uses(1) jwk by blast
qed
section \<open>Witnesses\<close>

definition disc_key :: discovered_key where
  "disc_key = \<lparr>dk_key_id = ''k1'', dk_algorithm = ''EdDSA'', dk_use = [''outcome_attestation''], dk_status = ''hard_revoked'',
     dk_public_key_jwk = [(''kty'', JStr ''OKP''), (''crv'', JStr ''Ed25519''), (''x'', JStr (b64url_encode (replicate 32 CHR ''k'')))],
     dk_not_before = None, dk_expires_at = None, dk_revoked_at = None, dk_hard_revoked_at = Some 63000000200000000,
     dk_replaced_by = JNull, dk_revocation_reason = JNull\<rparr>"

definition disc_document :: key_document where
  "disc_document = \<lparr>kd_issuer = ai_requester sample_intent, kd_origin = ''https://issuer.example'', kd_published_at = 63000000000000000,
     kd_keys = [disc_key], kd_cache_max_age_seconds = Some 600\<rparr>"

text \<open>The time of issue is not compared with the hard revocation: an artifact that claims to be issued after it
  is accepted when an anchor lies before it.\<close>

lemma issued_after_hard_revocation_accepted:
  "dk_hard_revoked_at disc_key = Some 63000000200000000"
  "assert_key_usable disc_key 63000000300000000 (Some ''outcome_attestation'') True (Some 63000000100000000) = Inr ()"
  by code_simp+

definition disc_state :: "'w \<Rightarrow> 'w resolver_state" where
  "disc_state w = \<lparr>rs_cache = Some \<lparr>cd_document = disc_document, cd_expires_at = 63000000900000000\<rparr>, rs_world = w\<rparr>"

definition disc_source :: "unit key_source" where
  "disc_source = \<lparr>ks_now = (\<lambda>w. (Inr 63000000300000000, w)),
     ks_fetch = (\<lambda>url w. (Inl (wk_error ''KeyDiscoveryFetchError'' ''offline''), w)), ks_default_fetch = False,
     ks_load = (\<lambda>_. Inl (Raise ValueError ''no JSON''))\<rparr>"

definition disc_resolver :: key_resolver where
  "disc_resolver = \<lparr>kr_issuer_origin = ''https://issuer.example'', kr_default_max_age = 300\<rparr>"

definition disc_net :: net_lib where
  "disc_net = \<lparr>nl_urlsplit = (\<lambda>_. Inr \<lparr>up_scheme = ''https'', up_netloc = ''issuer.example'', up_hostname = Some ''issuer.example'',
       up_username = None, up_password = None, up_port = Inr None, up_path = [], up_query = [], up_fragment = []\<rparr>), nl_lower = id, nl_ip_address = (\<lambda>_. None), nl_getaddrinfo = (\<lambda>_. None)\<rparr>"

definition disc_verifier :: key_verifier where
  "disc_verifier = \<lparr>kv_required_use = ''outcome_attestation'', kv_anchor_verified = False, kv_anchor_time = None\<rparr>"

definition disc_signature :: signature_spec where
  "disc_signature = \<lparr>sg_algorithm = ''EdDSA'', sg_key_id = ''k1'', sg_encoding = ''base64url'', sg_value = b64url_encode (replicate 64 CHR ''s'')\<rparr>"

definition disc_crypto :: crypto_backend where
  "disc_crypto = \<lparr>cb_ed25519 = (\<lambda>key sig payload. key = replicate 32 CHR ''k'' \<and> sig = replicate 64 CHR ''s''),
     cb_rsa = (\<lambda>e n. Inl (Raise ValueError ''no RSA''))\<rparr>"

lemma disc_state_ok: "cache_ok disc_resolver (disc_state w)"
  by (simp add: cache_ok_def disc_state_def disc_document_def disc_resolver_def)

lemma wire_decode:
  assumes "b \<noteq> []"
  shows "decode_unpadded_base64url_wire (JStr (b64url_encode b)) f = Inr b"
proof -
  have chars: "list_all is_base64url_char (b64url_encode b)"
    unfolding b64url_encode_digits list_all_iff using is_base64url_b64_char b64_digits_less by force
  have "\<not> is_base64url_char (CHR ''='')" by (simp add: is_base64url_char_def b64_val_def)
  then have "CHR ''='' \<notin> set (b64url_encode b)" using chars by (auto simp: list_all_iff)
  then show ?thesis using chars assms by (simp add: decode_unpadded_base64url_wire_def b64url_encode_nonempty b64url_decode_encode)
qed

lemma disc_selects:
  assumes "kq_key_id q = ''k1''" "kq_algorithm q = ''EdDSA''" "kq_issuer q = None \<or> kq_issuer q = Some (ai_requester sample_intent)"
    "kq_required_use q = Some ''outcome_attestation''" "kq_anchor_verified q" "kq_anchor_time q = Some 63000000100000000"
  shows "select_discovered_key disc_document q = Inr \<lparr>rk_issuer = ai_requester sample_intent, rk_origin = ''https://issuer.example'',
    rk_published_at = 63000000000000000, rk_key = disc_key\<rparr>"
  unfolding select_discovered_key_iff using assms
  by (auto simp: issuer_matches_def disc_document_def disc_key_def key_usable_def use_allowed_def anchored_before_def
    ALLOWED_DISCOVERY_KEY_STATUSES_def ALLOWED_DISCOVERY_KEY_USES_def)

lemma disc_resolves:
  assumes "select_discovered_key disc_document q = Inr r"
  shows "resolve_key D T N disc_source R q False (disc_state ()) = (Inr r, disc_state ())"
  using assms by (simp add: resolve_key_def get_document_def bindP_def in_world_def zoomP_def disc_source_def disc_state_def readP_def retP_def)

lemma disc_verifies:
  "wk_verify_with_metadata D T N disc_source R (Some disc_crypto) disc_verifier m disc_signature (Some (ai_requester sample_intent)) (Some t)
     (Some True) (Some 63000000100000000) (disc_state ()) = (Inr True, disc_state ())"
proof -
  let ?q = "wk_request disc_verifier disc_signature (Some (ai_requester sample_intent)) t (Some True) (Some 63000000100000000)"
  let ?r = "\<lparr>rk_issuer = ai_requester sample_intent, rk_origin = ''https://issuer.example'', rk_published_at = 63000000000000000, rk_key = disc_key\<rparr>"
  have "select_discovered_key disc_document ?q = Inr ?r" by (rule disc_selects) (simp_all add: wk_request_def disc_verifier_def disc_signature_def)
  then have r: "resolve_key D T N disc_source R ?q False (disc_state ()) = (Inr ?r, disc_state ())" by (rule disc_resolves)
  have "verify_signature_with_resolved_key (Some disc_crypto) m disc_signature ?r = Inr True"
    by (simp add: verify_signature_with_resolved_key_def verify_eddsa_def jwk_part_def wire_decode disc_signature_def disc_key_def disc_crypto_def)
  then show ?thesis by (simp add: wk_verify_with_metadata_def catchP_def bindP_def liftP_def r)
qed

theorem well_known_signature_sound_witness:
  "\<exists>r. published_key disc_resolver (wk_request disc_verifier disc_signature (Some (ai_requester sample_intent)) 63000000060000000 (Some True)
     (Some 63000000100000000)) (disc_state ()) (rk_key r) \<and>
   verify_signature_with_resolved_key (Some disc_crypto) ''payload'' disc_signature r = Inr True"
  using well_known_signature_sound[OF disc_state_ok disc_verifies[of sample_deps anchor_text disc_net disc_resolver "''payload''" 63000000060000000]]
  by auto

theorem resolver_requests_bounded_witness:
  "\<exists>q r. fst (resolve_key sample_deps anchor_text disc_net (counted disc_source) disc_resolver q False (disc_state ((), 0))) = Inr r \<and>
     requests (snd (resolve_key sample_deps anchor_text disc_net (counted disc_source) disc_resolver q False (disc_state ((), 0)))) = 0"
proof -
  let ?q = "wk_request disc_verifier disc_signature None 63000000060000000 (Some True) (Some 63000000100000000)"
  obtain r where r: "select_discovered_key disc_document ?q = Inr r"
    using disc_selects[of ?q] by (auto simp: wk_request_def disc_verifier_def disc_signature_def)
  have "rs_cache (disc_state ((), 0 :: nat)) = Some \<lparr>cd_document = disc_document, cd_expires_at = 63000000900000000\<rparr>"
    "fst (ks_now disc_source (fst (rs_world (disc_state ((), 0 :: nat))))) = Inr 63000000300000000"
    by (simp_all add: disc_state_def disc_source_def)
  then have "fst (resolve_key sample_deps anchor_text disc_net (counted disc_source) disc_resolver ?q False (disc_state ((), 0))) = Inr r \<and>
     requests (snd (resolve_key sample_deps anchor_text disc_net (counted disc_source) disc_resolver ?q False (disc_state ((), 0)))) =
     requests (disc_state ((), 0))"
    using resolver_requests_bounded[of sample_deps anchor_text disc_net disc_source disc_resolver ?q False "disc_state ((), 0)"
      "\<lparr>cd_document = disc_document, cd_expires_at = 63000000900000000\<rparr>" 63000000300000000 r] r by simp
  then show ?thesis by (auto simp: disc_state_def)
qed

definition disc_attestor :: attestation_service where
  "disc_attestor = \<lparr>as_signer = plain_signer ''EdDSA'' ''k1'' (\<lambda>_. disc_signature),
     as_signer_verifier = \<lparr>av_verify = (\<lambda>p s. Inr False), av_verify_with_metadata = None\<rparr>,
     as_issuer = ai_requester sample_intent, as_external_anchor_verifier = Some (\<lambda>anchor d. Inr 63000000100000000)\<rparr>"

lemma disc_attested:
  obtains a where "attest_receipt sample_deps disc_attestor attested_receipt ''att-1'' 63000000060000000 [] [] [] = Inr a"
  by (rule attested_by[of disc_attestor]) (simp_all add: disc_attestor_def plain_signer_def is_ok_def)

theorem hard_revoked_needs_anchor_witness:
  "\<exists>a out av time (s' :: unit resolver_state) k. verify_receipt_attestation sample_deps disc_attestor (AttestationArg a)
      (Some (wk_attestation_verifier sample_deps anchor_text disc_net disc_source disc_resolver (Some disc_crypto) disc_verifier (disc_state ()))) = Inr out \<and>
    published_key disc_resolver (wk_request disc_verifier (at_signature a) (Some (at_issuer a)) (at_issued_at a) av time) s' k"
proof -
  let ?V = "wk_attestation_verifier sample_deps anchor_text disc_net disc_source disc_resolver (Some disc_crypto) disc_verifier (disc_state ())"
  obtain a where a: "attest_receipt sample_deps disc_attestor attested_receipt ''att-1'' 63000000060000000 [] [] [] = Inr a"
    using disc_attested .
  let ?a = "a\<lparr>at_external_anchors := [[]]\<rparr>"
  have "anchors_accepted sample_deps disc_attestor ?a (Some 63000000100000000)"
    by (rule one_anchor_accepted[where x = "[]" and check = "\<lambda>anchor d. Inr 63000000100000000"]) (simp_all add: disc_attestor_def)
  moreover have "attestation_signature_ok (verifier_of disc_attestor (Some ?V)) m sig (as_issuer disc_attestor) 63000000060000000 (Some 63000000100000000)"
    if "so_sign (as_signer disc_attestor) m = Inr sig" for m sig
    using that by (simp add: attestation_signature_ok_def verifier_of_def wk_attestation_verifier_def disc_attestor_def plain_signer_def disc_verifies)
  ultimately have "verify_attested sample_deps disc_attestor (Some ?V) ?a = Inr ()"
    using attested_verifies[OF a[unfolded attest_receipt_def] sample_attest_facts(3)] by blast
  then have "\<exists>out. verify_receipt_attestation sample_deps disc_attestor (AttestationArg ?a) (Some ?V) = Inr out"
    by (simp add: verify_receipt_attestation_def resolve_attestation_def)
  then obtain out where out: "verify_receipt_attestation sample_deps disc_attestor (AttestationArg ?a) (Some ?V) = Inr out" ..
  have "\<not> kv_anchor_verified disc_verifier" by (simp add: disc_verifier_def)
  from hard_revoked_needs_anchor[OF disc_state_ok this out] obtain b av time and s' :: "unit resolver_state" and k where "resolve_attestation sample_deps ''receipt'' (AttestationArg ?a) = Inr b"
    "published_key disc_resolver (wk_request disc_verifier (at_signature b) (Some (at_issuer b)) (at_issued_at b) av time) s' k" by blast
  then show ?thesis using out unfolding resolve_attestation_def by fastforce
qed

theorem published_key_is_discovered_witness:
  "\<exists>d uses jwk. build_key_discovery_document disc_net (ai_requester sample_intent) ''https://issuer.example'' disc_key (JStr ''outcome_attestation'')
      63000000000000000 600 = Inr d \<and>
    parse_discovery_document sample_deps disc_net (\<lambda>_. Inr (JObj d)) [] ''https://issuer.example'' [] =
      Inr \<lparr>kd_issuer = ai_requester sample_intent, kd_origin = ''https://issuer.example'', kd_published_at = 63000000000000000,
        kd_keys = [disc_key\<lparr>dk_use := uses, dk_public_key_jwk := jwk\<rparr>], kd_cache_max_age_seconds = Some 600\<rparr>"
proof -
  have home: "normalize_origin disc_net x = Inr ''https://issuer.example''" for x
    by (simp add: normalize_origin_def disc_net_def no_host_def as_value_error_def assert_host_is_not_blocked_ip_literal_def
      strip_brackets_def BLOCKED_METADATA_HOSTS_def)
  have "is_ok (build_key_discovery_document disc_net (ai_requester sample_intent) ''https://issuer.example'' disc_key (JStr ''outcome_attestation'')
      63000000000000000 600)"
    by (simp add: build_key_discovery_document_def home serialize_key_use_def normalize_key_uses_def normalize_public_key_jwk_def disc_key_def
      ALLOWED_DISCOVERY_KEY_STATUSES_def ALLOWED_DISCOVERY_KEY_USES_def is_ok_def)
  then obtain d where d: "build_key_discovery_document disc_net (ai_requester sample_intent) ''https://issuer.example'' disc_key
      (JStr ''outcome_attestation'') 63000000000000000 600 = Inr d" by (auto simp: is_ok_iff)
  have key: "dk_key_id disc_key \<noteq> []" "dk_algorithm disc_key \<noteq> []" "key_times_ok disc_key" "dt_ok 63000000000000000" "party_wf (ai_requester sample_intent)"
    by (simp_all add: disc_key_def key_times_ok_def dt_ok_def datetime_limit_def party_wf_def sample_intent_def)
  obtain parts where parts: "nl_urlsplit disc_net [] = Inr parts" "''https://issuer.example'' = up_scheme parts @ ''://'' @ up_netloc parts"
    by (simp add: disc_net_def)
  show ?thesis using published_key_is_discovered[OF d, of "\<lambda>_. Inr (JObj d)" "[]", OF refl key home home parts, of sample_deps] d by blast
qed

end
