(* ===== verification/PolicyPacks.thy ===== *)
theory PolicyPacks
  imports Receipts Posture
begin

text \<open>
  The preflight rules (\<^verbatim>\<open>preflight/policy_packs.py\<close>, and \<open>EvidenceKey\<close> of \<^verbatim>\<open>preflight/models.py\<close>). A rule is a function
  of the intent and the evidence, a dictionary of JSON values, that has no result, or the result record that
  \<open>build_preflight_rule_result\<close> builds, or raises. Strings are lowered by Python where they are ASCII; the lower case of
  other texts is a parameter beside those of \<open>py_text\<close>. Python sets are not JSON values and do not occur in the evidence.
\<close>

section \<open>Results\<close>

record text_ops =
  tx_text :: py_text
  tx_lower :: "string \<Rightarrow> string"

definition ascii_text :: "string \<Rightarrow> bool" where
  "ascii_text s = list_all (\<lambda>c. of_char c < (128 :: nat)) s"

definition lower_text :: "text_ops \<Rightarrow> string \<Rightarrow> string" where
  "lower_text X s = (if ascii_text s then py_lower s else tx_lower X s)"

definition text_of :: "text_ops \<Rightarrow> json \<Rightarrow> string res" where
  "text_of X v = py_str (tx_text X) v"

record preflight_evidence_key =
  ek_key :: string
  ek_value_type :: string
  ek_example :: json
  ek_description :: string
  ek_required :: bool

definition evidence_key :: "string \<Rightarrow> string \<Rightarrow> json \<Rightarrow> string \<Rightarrow> preflight_evidence_key" where
  "evidence_key key value_type example description =
     \<lparr>ek_key = key, ek_value_type = value_type, ek_example = example, ek_description = description, ek_required = True\<rparr>"

record rule_result =
  rr_outcome :: string
  rr_reason_code :: string
  rr_summary :: string
  rr_risk_level :: string
  rr_matched_rules :: "string list"
  rr_required_evidence :: "string list"
  rr_required_approvals :: "string list"
  rr_evidence_keys :: "preflight_evidence_key list"
  rr_metadata :: dict

definition preflight_result :: "string \<Rightarrow> string \<Rightarrow> string \<Rightarrow> string \<Rightarrow> string \<Rightarrow> string list \<Rightarrow> string list
    \<Rightarrow> preflight_evidence_key list \<Rightarrow> dict \<Rightarrow> rule_result" where
  "preflight_result outcome reason_code summary risk_level matched_rule required_evidence required_approvals evidence_keys metadata =
     \<lparr>rr_outcome = outcome, rr_reason_code = reason_code, rr_summary = summary, rr_risk_level = risk_level,
      rr_matched_rules = [matched_rule], rr_required_evidence = required_evidence, rr_required_approvals = required_approvals,
      rr_evidence_keys = evidence_keys, rr_metadata = metadata\<rparr>"

type_synonym preflight_rule = "action_intent \<Rightarrow> dict \<Rightarrow> rule_result option res"

record policy_pack =
  pk_pack_id :: string
  pk_display_name :: string
  pk_capabilities :: "string list"
  pk_rules :: "preflight_rule list"
  pk_is_template :: bool
  pk_disclaimer :: json

abbreviation capability_of :: "action_intent \<Rightarrow> string" where
  "capability_of i \<equiv> ac_capability (ai_action i)"

abbreviation parameters_of :: "action_intent \<Rightarrow> dict" where
  "parameters_of i \<equiv> ac_parameters (ai_action i)"

section \<open>Capabilities\<close>

definition DESTRUCTIVE_AND_DATA_CAPABILITIES :: "string list" where
  "DESTRUCTIVE_AND_DATA_CAPABILITIES = [''database.delete'', ''database.schema.apply'', ''infrastructure.delete'', ''backup.delete'',
     ''volume.delete'', ''migration.apply'', ''deployment.execute'', ''iam.permission.grant'', ''data.export'', ''payment.release'']"

definition DATA_PRIVACY_CAPABILITIES :: "string list" where
  "DATA_PRIVACY_CAPABILITIES = [''data.export'', ''data.download'', ''data.share'', ''data.sync.external'', ''report.generate.external'']"

definition ACCESS_GOVERNANCE_CAPABILITIES :: "string list" where
  "ACCESS_GOVERNANCE_CAPABILITIES = [''iam.permission.grant'', ''iam.role.assign'', ''iam.role.membership.change'', ''iam.api_key.create'',
     ''iam.credential.rotate'', ''workspace.share'']"

definition PAYMENTS_CAPABILITIES :: "string list" where
  "PAYMENTS_CAPABILITIES = [''payment.create'', ''payment.release'', ''payment.transfer'', ''payment.refund'', ''invoice.approve'',
     ''payout.release'', ''bank_details.update'']"

definition CLINICAL_TEMPLATE_CAPABILITIES :: "string list" where
  "CLINICAL_TEMPLATE_CAPABILITIES = [''clinical.note.draft'', ''clinical.note.publish'', ''clinical.record.update'', ''medication.order'',
     ''treatment_plan.change'']"

section \<open>Reading the evidence\<close>

text \<open>\<open>a or b or c\<close>.\<close>

fun or_chain :: "json list \<Rightarrow> json" where
  "or_chain [] = JNull"
| "or_chain [v] = v"
| "or_chain (v # w # vs) = (if truthy v then v else or_chain (w # vs))"

definition pf_env :: "text_ops \<Rightarrow> action_intent \<Rightarrow> dict \<Rightarrow> string res" where
  "pf_env X i ev =
     bindR (text_of X (or_chain [get_or_null ev ''environment'', get_or_null (parameters_of i) ''environment'',
       get_or_null (tg_selectors (ai_target i)) ''environment'', get_or_null (ai_context i) ''environment'', JStr ''unknown'']))
       (\<lambda>raw. Inr (lower_text X raw))"

definition FALSE_WORDS :: "string list" where
  "FALSE_WORDS = [[], ''0'', ''false'', ''no'', ''n'', ''none'', ''null'', ''missing'', ''absent'', ''unavailable'']"

definition pf_truthy :: "text_ops \<Rightarrow> json \<Rightarrow> bool" where
  "pf_truthy X v =
     (case v of JBool b \<Rightarrow> b | JNull \<Rightarrow> False | JStr s \<Rightarrow> lower_text X (py_strip s) \<notin> set FALSE_WORDS | _ \<Rightarrow> truthy v)"

definition has_change_ticket :: "text_ops \<Rightarrow> action_intent \<Rightarrow> dict \<Rightarrow> bool" where
  "has_change_ticket X i ev \<longleftrightarrow> pf_truthy X (get_or_null ev ''change_ticket'') \<or>
     pf_truthy X (get_or_null (parameters_of i) ''change_ticket'') \<or> pf_truthy X (get_or_null (ai_context i) ''change_ticket'')"

definition has_backup_evidence :: "text_ops \<Rightarrow> action_intent \<Rightarrow> dict \<Rightarrow> bool" where
  "has_backup_evidence X i ev \<longleftrightarrow> pf_truthy X (get_or_null ev ''backup_verified'') \<or> pf_truthy X (get_or_null ev ''backup_snapshot'') \<or>
     pf_truthy X (get_or_null (parameters_of i) ''backup_verified'') \<or> pf_truthy X (get_or_null (ai_context i) ''backup_verified'')"

definition requires_backup :: "string \<Rightarrow> bool" where
  "requires_backup capability \<longleftrightarrow> capability \<in> set [''database.delete'', ''database.schema.apply'', ''infrastructure.delete'',
     ''backup.delete'', ''volume.delete'', ''migration.apply'']"

definition approval_present :: "text_ops \<Rightarrow> action_intent \<Rightarrow> dict \<Rightarrow> bool" where
  "approval_present X i ev \<longleftrightarrow> pf_truthy X (get_or_null ev ''verified_approval_present'') \<or>
     pf_truthy X (get_or_null ev ''approval_present'') \<or> pf_truthy X (get_or_null (parameters_of i) ''approval_present'') \<or>
     pf_truthy X (get_or_null (ai_context i) ''approval_present'')"

text \<open>\<open>tuple(dict.fromkeys(xs))\<close>: each value once, where it first occurs.\<close>

definition from_keys :: "'a list \<Rightarrow> 'a list" where
  "from_keys xs = rev (remdups (rev xs))"

text \<open>The texts of a list or tuple; \<open>None\<close> for a value of another type.\<close>

definition item_texts :: "text_ops \<Rightarrow> json \<Rightarrow> string list option res" where
  "item_texts X v = (case v of
      JArr xs \<Rightarrow> bindR (mapR (text_of X) xs) (\<lambda>ts. Inr (Some ts))
    | JTup xs \<Rightarrow> bindR (mapR (text_of X) xs) (\<lambda>ts. Inr (Some ts))
    | _ \<Rightarrow> Inr None)"

definition approver_types :: "text_ops \<Rightarrow> action_intent \<Rightarrow> dict \<Rightarrow> string list res" where
  "approver_types X i ev =
     (let verified = or_chain [get_or_null ev ''verified_approver_types'', JTup []];
          raw = or_chain [get_or_null ev ''approver_types'', get_or_null (parameters_of i) ''approver_types'',
            get_or_null (ai_context i) ''approver_types'', JTup []] in
      bindR (case verified of JStr s \<Rightarrow> Inr [s]
          | _ \<Rightarrow> bindR (item_texts X verified) (\<lambda>ts. Inr (case ts of None \<Rightarrow> [] | Some xs \<Rightarrow> xs))) (\<lambda>verified_values.
      case raw of JStr s \<Rightarrow> Inr (from_keys (verified_values @ [s]))
      | _ \<Rightarrow> bindR (item_texts X raw) (\<lambda>ts. Inr (case ts of None \<Rightarrow> verified_values | Some xs \<Rightarrow> from_keys (verified_values @ xs)))))"

definition approval_satisfied :: "text_ops \<Rightarrow> action_intent \<Rightarrow> dict \<Rightarrow> string list \<Rightarrow> bool res" where
  "approval_satisfied X i ev required_approvals =
     (if \<not> approval_present X i ev then Inr False
      else bindR (approver_types X i ev) (\<lambda>provided.
        Inr (provided = [] \<or> set required_approvals \<subseteq> set provided)))"

text \<open>\<open>int(raw)\<close>, and 0 where that raises a \<open>TypeError\<close> or \<open>ValueError\<close>.\<close>

definition int_or_zero :: "text_ops \<Rightarrow> json \<Rightarrow> int res" where
  "int_or_zero X raw = (case py_int (tx_text X) raw of
      Inl (Raise c m) \<Rightarrow> (if c = TypeError \<or> c = ValueError then Inr 0 else Inl (Raise c m))
    | r \<Rightarrow> r)"

definition pf_row_count :: "text_ops \<Rightarrow> action_intent \<Rightarrow> dict \<Rightarrow> int res" where
  "pf_row_count X i ev = int_or_zero X (get_or ev ''row_count'' (get_or (parameters_of i) ''row_count''
     (get_or (parameters_of i) ''records'' (JInt 0))))"

definition pf_value :: "action_intent \<Rightarrow> dict \<Rightarrow> string \<Rightarrow> json \<Rightarrow> json" where
  "pf_value i ev key dflt =
     (if dmem ev key then get_or_null ev key
      else if dmem (parameters_of i) key then get_or_null (parameters_of i) key
      else get_or (ai_context i) key dflt)"

abbreviation pf_flag :: "text_ops \<Rightarrow> action_intent \<Rightarrow> dict \<Rightarrow> string \<Rightarrow> bool" where
  "pf_flag X i ev key \<equiv> pf_truthy X (pf_value i ev key JNull)"

definition normal_text :: "text_ops \<Rightarrow> string \<Rightarrow> string" where
  "normal_text X s = lower_text X (py_strip s)"

definition pf_string_value :: "text_ops \<Rightarrow> action_intent \<Rightarrow> dict \<Rightarrow> string \<Rightarrow> string \<Rightarrow> string res" where
  "pf_string_value X i ev key dflt = bindR (text_of X (pf_value i ev key (JStr dflt))) (\<lambda>s. Inr (normal_text X s))"

definition pf_string_values :: "text_ops \<Rightarrow> action_intent \<Rightarrow> dict \<Rightarrow> string \<Rightarrow> string list res" where
  "pf_string_values X i ev key =
     (let raw = pf_value i ev key (JTup []) in
      case raw of JStr s \<Rightarrow> Inr (if py_strip s \<noteq> [] then [normal_text X s] else [])
      | _ \<Rightarrow> bindR (item_texts X raw) (\<lambda>ts. Inr (case ts of None \<Rightarrow> []
          | Some xs \<Rightarrow> map (normal_text X) (filter (\<lambda>s. py_strip s \<noteq> []) xs))))"

definition sensitivity_classification :: "text_ops \<Rightarrow> action_intent \<Rightarrow> dict \<Rightarrow> string res" where
  "sensitivity_classification X i ev =
     bindR (pf_string_value X i ev ''sensitivity_classification'' []) (\<lambda>a. if a \<noteq> [] then Inr a else
     bindR (pf_string_value X i ev ''data_classification'' []) (\<lambda>b. if b \<noteq> [] then Inr b else
     pf_string_value X i ev ''sensitivity'' []))"

definition starts_with :: "string \<Rightarrow> string \<Rightarrow> bool" where
  "starts_with s p \<longleftrightarrow> take (length p) s = p"

definition is_external_destination :: "text_ops \<Rightarrow> action_intent \<Rightarrow> dict \<Rightarrow> bool res" where
  "is_external_destination X i ev =
     bindR (pf_string_value X i ev ''destination'' []) (\<lambda>destination.
     bindR (pf_string_value X i ev ''destination_classification'' []) (\<lambda>destination_classification.
     Inr (list_ex (starts_with destination) [''http://'', ''https://'', ''s3://'', ''gs://''] \<or>
       destination \<in> set [''external'', ''third_party'', ''vendor''] \<or>
       destination_classification \<in> set [''external'', ''third_party'', ''vendor''])))"

section \<open>Rules that every pack can have\<close>

definition approval_evidence_keys :: "string list \<Rightarrow> preflight_evidence_key list" where
  "approval_evidence_keys required_approvals =
     [evidence_key ''approval_present'' ''boolean'' (JBool True) ''Set true only after the required approval has been verified.'',
      evidence_key ''approver_types'' ''array[string]'' (JArr (map JStr required_approvals))
        ''Approval roles present for this exact action.'',
      evidence_key ''approval_artifacts'' ''array[approval_artifact.v1]'' (JArr [])
        ''Preferred: signed approvals bound to this exact action.'',
      evidence_key ''approval_trusted_keys'' ''array[key_discovery.v1]'' (JArr [])
        ''Pinned public keys for the signed approval artifacts.'']"

definition domain_capability_rule :: "string \<Rightarrow> string list \<Rightarrow> preflight_rule" where
  "domain_capability_rule pack_id capabilities i ev =
     (if capability_of i \<in> set capabilities then Inr None
      else Inr (Some (preflight_result ''needs_evidence'' ''PREFLIGHT_CAPABILITY_NOT_COVERED''
        (''The action capability is not covered by the '' @ pack_id @ '' policy pack.'') ''medium''
        (pack_id @ ''.capability_not_covered'') [''policy_pack_selection''] []
        [evidence_key ''policy_pack_selection'' ''string'' (JStr pack_id)
           ''Select a policy pack that explicitly covers this action capability.'']
        [(''capability'', JStr (capability_of i))])))"

definition requirements_satisfied_rule :: "string \<Rightarrow> string \<Rightarrow> preflight_rule" where
  "requirements_satisfied_rule pack_id summary i ev =
     Inr (Some (preflight_result ''allow'' ''PREFLIGHT_REQUIREMENTS_SATISFIED'' summary ''low''
       (pack_id @ ''.requirements_satisfied'') [] [] [] [(''capability'', JStr (capability_of i))]))"

section \<open>Destructive infrastructure and data actions\<close>

definition unsupported_capability :: "text_ops \<Rightarrow> preflight_rule" where
  "unsupported_capability X i ev =
     (if capability_of i \<notin> set DESTRUCTIVE_AND_DATA_CAPABILITIES
      then bindR (text_of X (get_or ev ''capability_classification'' (JStr []))) (\<lambda>raw.
        if normal_text X raw = ''non_consequential'' then Inr None
        else Inr (Some (preflight_result ''needs_evidence'' ''PREFLIGHT_CAPABILITY_UNCLASSIFIED''
          ''The action capability is not covered by the default preflight policy pack.'' ''medium''
          ''destructive_data.capability_unclassified'' [''capability_classification''] []
          [evidence_key ''capability_classification'' ''string'' (JStr ''non_consequential'')
            ''Use non_consequential only after locally reviewing a capability outside the default policy pack.'']
          [(''capability'', JStr (capability_of i))])))
      else Inr None)"

definition missing_change_ticket :: "text_ops \<Rightarrow> preflight_rule" where
  "missing_change_ticket X i ev =
     bindR (pf_env X i ev) (\<lambda>environment.
     if capability_of i \<in> set DESTRUCTIVE_AND_DATA_CAPABILITIES \<and> environment = ''production'' \<and> \<not> has_change_ticket X i ev
     then Inr (Some (preflight_result ''needs_evidence'' ''PREFLIGHT_CHANGE_TICKET_REQUIRED''
       ''Production consequential action requires a change ticket before execution.'' ''high''
       ''destructive_data.change_ticket_required'' [''change_ticket''] []
       [evidence_key ''change_ticket'' ''string'' (JStr ''CHG-2026-0042'') ''Verified change-ticket identifier bound to this action.'']
       [(''environment'', JStr environment), (''capability'', JStr (capability_of i))]))
     else Inr None)"

definition missing_backup_evidence :: "text_ops \<Rightarrow> preflight_rule" where
  "missing_backup_evidence X i ev =
     bindR (pf_env X i ev) (\<lambda>environment.
     if environment = ''production'' \<and> requires_backup (capability_of i) \<and> \<not> has_backup_evidence X i ev
     then Inr (Some (preflight_result ''needs_evidence'' ''PREFLIGHT_BACKUP_EVIDENCE_REQUIRED''
       ''Production destructive action requires current backup evidence before execution.'' ''high''
       ''destructive_data.backup_evidence_required'' [''backup_verified''] []
       [evidence_key ''backup_verified'' ''boolean'' (JBool True) ''True only after a current backup has been verified.'']
       [(''environment'', JStr environment), (''capability'', JStr (capability_of i))]))
     else Inr None)"

definition production_destructive_without_approval :: "text_ops \<Rightarrow> preflight_rule" where
  "production_destructive_without_approval X i ev =
     bindR (pf_env X i ev) (\<lambda>environment.
     if environment \<noteq> ''production'' then Inr None
     else if capability_of i \<in> set [''database.delete'', ''infrastructure.delete'', ''backup.delete'', ''volume.delete'',
       ''migration.apply'', ''database.schema.apply'']
     then if capability_of i = ''backup.delete''
       then Inr (Some (preflight_result ''deny'' ''PREFLIGHT_PRODUCTION_BACKUP_DELETE_DENIED''
         ''Production backup deletion is denied by the default preflight policy pack.'' ''critical''
         ''destructive_data.production_backup_delete_denied'' [] [] []
         [(''environment'', JStr environment), (''capability'', JStr (capability_of i))]))
       else let required_approvals = [''infrastructure_owner'', ''security_admin''] in
         bindR (approval_satisfied X i ev required_approvals) (\<lambda>satisfied.
         if \<not> satisfied
         then Inr (Some (preflight_result ''approval_required'' ''PREFLIGHT_PRODUCTION_DESTRUCTIVE_APPROVAL_REQUIRED''
           ''Production destructive action requires explicit approval before execution.'' ''critical''
           ''destructive_data.production_destructive_approval_required'' [] required_approvals
           (approval_evidence_keys required_approvals)
           [(''environment'', JStr environment), (''capability'', JStr (capability_of i))]))
         else Inr None)
     else Inr None)"

definition broad_data_export :: "text_ops \<Rightarrow> preflight_rule" where
  "broad_data_export X i ev =
     (if capability_of i \<noteq> ''data.export'' then Inr None
      else bindR (pf_row_count X i ev) (\<lambda>row_count.
        let sensitive = pf_truthy X (get_or ev ''sensitive_data'' (get_or_null (parameters_of i) ''sensitive_data'')) in
        bindR (is_external_destination X i ev) (\<lambda>external.
        let required_approvals = [''data_owner'', ''privacy_reviewer''] in
        if 10000 \<le> row_count \<or> sensitive \<or> external
        then bindR (approval_satisfied X i ev required_approvals) (\<lambda>satisfied.
          if \<not> satisfied
          then Inr (Some (preflight_result ''approval_required'' ''PREFLIGHT_BROAD_DATA_EXPORT_APPROVAL_REQUIRED''
            ''Broad or sensitive data export requires approval before execution.'' ''high''
            ''destructive_data.broad_data_export_approval_required'' [] required_approvals (approval_evidence_keys required_approvals)
            [(''row_count'', JInt row_count), (''sensitive_data'', JBool sensitive), (''external_destination'', JBool external)]))
          else Inr None)
        else Inr None)))"

definition admin_permission_grant :: "text_ops \<Rightarrow> preflight_rule" where
  "admin_permission_grant X i ev =
     (if capability_of i \<noteq> ''iam.permission.grant'' then Inr None
      else bindR (text_of X (get_or ev ''role'' (get_or (parameters_of i) ''role'' (get_or (parameters_of i) ''permission'' (JStr [])))))
        (\<lambda>raw. let role = lower_text X raw; required_approvals = [''security_admin''] in
        if role \<in> set [''admin'', ''administrator'', ''owner'', ''root'', ''superuser''] \<or> CHR ''*'' \<in> set role
        then bindR (approval_satisfied X i ev required_approvals) (\<lambda>satisfied.
          if \<not> satisfied
          then Inr (Some (preflight_result ''approval_required'' ''PREFLIGHT_ADMIN_PERMISSION_APPROVAL_REQUIRED''
            ''Admin or wildcard permission grant requires approval before execution.'' ''high''
            ''destructive_data.admin_permission_approval_required'' [] required_approvals (approval_evidence_keys required_approvals)
            [(''role'', JStr role)]))
          else Inr None)
        else Inr None))"

definition sandbox_low_risk_allow :: "text_ops \<Rightarrow> preflight_rule" where
  "sandbox_low_risk_allow X i ev =
     bindR (pf_env X i ev) (\<lambda>environment.
     if environment \<in> set [''sandbox'', ''dev'', ''development'', ''test'', ''staging'']
     then Inr (Some (preflight_result ''allow'' ''PREFLIGHT_SANDBOX_LOW_RISK_ALLOWED''
       ''Sandbox or non-production consequential action is allowed by the default preflight policy pack.'' ''low''
       ''destructive_data.sandbox_low_risk_allowed'' [] [] []
       [(''environment'', JStr environment), (''capability'', JStr (capability_of i))]))
     else Inr None)"

definition default_decision :: "text_ops \<Rightarrow> preflight_rule" where
  "default_decision X i ev =
     bindR (pf_env X i ev) (\<lambda>environment.
     if environment = ''unknown''
     then Inr (Some (preflight_result ''needs_evidence'' ''PREFLIGHT_CONTEXT_REQUIRED''
       ''Preflight needs an environment classification before this action can proceed.'' ''medium''
       ''destructive_data.context_required'' [''environment''] []
       [evidence_key ''environment'' ''string'' (JStr ''production'') ''Deployment environment for the exact target action.'']
       [(''capability'', JStr (capability_of i))]))
     else Inr (Some (preflight_result ''allow'' ''PREFLIGHT_REQUIREMENTS_SATISFIED''
       ''All requirements in the default Preflight policy pack are satisfied.'' ''low'' ''destructive_data.requirements_satisfied''
       [] [] [] [(''environment'', JStr environment), (''capability'', JStr (capability_of i))])))"

definition build_destructive_actions_policy_pack :: "text_ops \<Rightarrow> policy_pack" where
  "build_destructive_actions_policy_pack X =
     \<lparr>pk_pack_id = ''destructive_data_v1'', pk_display_name = ''Destructive infrastructure and data actions'',
      pk_capabilities = DESTRUCTIVE_AND_DATA_CAPABILITIES,
      pk_rules = [unsupported_capability X, missing_change_ticket X, missing_backup_evidence X, production_destructive_without_approval X,
        broad_data_export X, admin_permission_grant X, sandbox_low_risk_allow X, default_decision X],
      pk_is_template = False, pk_disclaimer = JNull\<rparr>"

section \<open>Data privacy and external egress\<close>

definition classification_required :: "text_ops \<Rightarrow> preflight_rule" where
  "classification_required X i ev =
     (if capability_of i \<notin> set DATA_PRIVACY_CAPABILITIES then Inr None
      else bindR (sensitivity_classification X i ev) (\<lambda>sensitivity.
        if sensitivity \<noteq> [] \<or> pf_flag X i ev ''sensitive_data'' then Inr None
        else Inr (Some (preflight_result ''needs_evidence'' ''PREFLIGHT_DATA_CLASSIFICATION_REQUIRED''
          ''Data movement requires a sensitivity classification before execution.'' ''medium''
          ''data_privacy.data_classification_required'' [''sensitivity_classification''] []
          [evidence_key ''sensitivity_classification'' ''string'' (JStr ''internal'')
            ''Classification for the exact dataset, such as public, internal, confidential, restricted, pii, or phi.''] []))))"

definition broad_or_sensitive_export :: "int \<Rightarrow> text_ops \<Rightarrow> preflight_rule" where
  "broad_or_sensitive_export broad_export_row_threshold X i ev =
     (if capability_of i \<notin> set DATA_PRIVACY_CAPABILITIES then Inr None
      else bindR (pf_row_count X i ev) (\<lambda>row_count.
        bindR (sensitivity_classification X i ev) (\<lambda>sensitivity.
        let sensitive = sensitivity \<in> set [''confidential'', ''restricted'', ''sensitive'', ''pii'', ''phi'', ''financial''] \<or>
          pf_flag X i ev ''sensitive_data'' in
        bindR (is_external_destination X i ev) (\<lambda>external.
        let required_approvals = [''data_owner'', ''privacy_reviewer''] in
        if broad_export_row_threshold \<le> row_count \<or> sensitive \<or> external
        then bindR (approval_satisfied X i ev required_approvals) (\<lambda>satisfied.
          if \<not> satisfied
          then Inr (Some (preflight_result ''approval_required'' ''PREFLIGHT_BROAD_DATA_EXPORT_APPROVAL_REQUIRED''
            ''Broad, sensitive, or external data movement requires data-owner and privacy approval.'' ''high''
            ''data_privacy.broad_export_approval_required'' [] required_approvals (approval_evidence_keys required_approvals)
            [(''row_count'', JInt row_count), (''row_threshold'', JInt broad_export_row_threshold),
             (''sensitivity_classification'', JStr sensitivity), (''external_destination'', JBool external)]))
          else Inr None)
        else Inr None))))"

definition external_destination_control :: "string list \<Rightarrow> text_ops \<Rightarrow> preflight_rule" where
  "external_destination_control allowed_destinations X i ev =
     (if capability_of i \<notin> set DATA_PRIVACY_CAPABILITIES then Inr None
      else bindR (is_external_destination X i ev) (\<lambda>external.
        if \<not> external then Inr None
        else bindR (pf_string_value X i ev ''destination'' []) (\<lambda>destination.
          if destination \<in> set allowed_destinations \<or> pf_flag X i ev ''destination_allowlisted'' \<or>
            pf_flag X i ev ''external_egress_approved''
          then Inr None
          else Inr (Some (preflight_result ''needs_evidence'' ''PREFLIGHT_EXTERNAL_EGRESS_EVIDENCE_REQUIRED''
            ''External data movement requires an allow-listed destination or verified egress exception.'' ''high''
            ''data_privacy.external_egress_evidence_required'' [''destination_allowlisted'', ''external_egress_approved''] []
            [evidence_key ''destination_allowlisted'' ''boolean'' (JBool True)
               ''True when the exact destination is on the deployment's reviewed allow-list.'',
             evidence_key ''external_egress_approved'' ''boolean'' (JBool True)
               ''True only after a reviewed exception authorizes this exact external destination.'']
            [(''destination'', JStr destination)])))))"

definition residency_control :: "(string \<times> string) list \<Rightarrow> text_ops \<Rightarrow> preflight_rule" where
  "residency_control allowed_residencies X i ev =
     (if capability_of i \<notin> set DATA_PRIVACY_CAPABILITIES then Inr None
      else bindR (pf_string_value X i ev ''source_residency'' []) (\<lambda>source.
        bindR (pf_string_value X i ev ''destination_residency'' []) (\<lambda>destination.
        if source = [] \<or> destination = [] \<or> source = destination then Inr None
        else if (source, destination) \<in> set allowed_residencies \<or> pf_flag X i ev ''residency_allowed'' then Inr None
        else Inr (Some (preflight_result ''needs_evidence'' ''PREFLIGHT_RESIDENCY_EVIDENCE_REQUIRED''
          ''Cross-residency data movement requires verified residency authorization.'' ''high''
          ''data_privacy.residency_evidence_required'' [''residency_allowed''] []
          [evidence_key ''residency_allowed'' ''boolean'' (JBool True)
             ''True only when policy permits this exact source-to-destination residency pair.'']
          [(''source_residency'', JStr source), (''destination_residency'', JStr destination)])))))"

definition build_data_privacy_policy_pack :: "text_ops \<Rightarrow> int \<Rightarrow> string list \<Rightarrow> (string \<times> string) list \<Rightarrow> policy_pack res" where
  "build_data_privacy_policy_pack X broad_export_row_threshold allowed_external_destinations allowed_residency_pairs =
     (if broad_export_row_threshold < 1 then Inl (Raise ValueError ''broad_export_row_threshold must be positive'')
      else
      let allowed_destinations = map (normal_text X) (filter (\<lambda>v. py_strip v \<noteq> []) allowed_external_destinations);
          allowed_residencies = map (\<lambda>(source, destination). (normal_text X source, normal_text X destination))
            (filter (\<lambda>(source, destination). py_strip source \<noteq> [] \<and> py_strip destination \<noteq> []) allowed_residency_pairs) in
      Inr \<lparr>pk_pack_id = ''data_privacy_v1'', pk_display_name = ''Data privacy and external egress'',
        pk_capabilities = DATA_PRIVACY_CAPABILITIES,
        pk_rules = [domain_capability_rule ''data_privacy_v1'' DATA_PRIVACY_CAPABILITIES, classification_required X,
          broad_or_sensitive_export broad_export_row_threshold X, external_destination_control allowed_destinations X,
          residency_control allowed_residencies X,
          requirements_satisfied_rule ''data_privacy'' ''Data privacy requirements are satisfied for this action.''],
        pk_is_template = False, pk_disclaimer = JNull\<rparr>)"

section \<open>IAM and access governance\<close>

definition DEFAULT_PRIVILEGED_ROLES :: "string list" where
  "DEFAULT_PRIVILEGED_ROLES = [''admin'', ''administrator'', ''owner'', ''root'', ''superuser'']"

text \<open>\<open>_string_value("role") or _string_value("permission")\<close>.\<close>

definition requested_role :: "text_ops \<Rightarrow> action_intent \<Rightarrow> dict \<Rightarrow> string res" where
  "requested_role X i ev = bindR (pf_string_value X i ev ''role'' []) (\<lambda>role.
     if role \<noteq> [] then Inr role else pf_string_value X i ev ''permission'' [])"

definition privileged_or_standing_access :: "string list \<Rightarrow> text_ops \<Rightarrow> preflight_rule" where
  "privileged_or_standing_access privileged X i ev =
     (if capability_of i \<notin> set ACCESS_GOVERNANCE_CAPABILITIES then Inr None
      else bindR (requested_role X i ev) (\<lambda>role.
        bindR (pf_string_value X i ev ''role_tier'' []) (\<lambda>role_tier.
        bindR (pf_string_value X i ev ''access_mode'' ''jit'') (\<lambda>access_mode.
        let required_approvals = [''security_admin'', ''resource_owner''] in
        if (role \<in> set privileged \<or> role_tier \<in> set [''admin'', ''privileged'', ''critical'']) \<or> CHR ''*'' \<in> set role \<or>
          access_mode = ''standing''
        then bindR (approval_satisfied X i ev required_approvals) (\<lambda>satisfied.
          if \<not> satisfied
          then Inr (Some (preflight_result ''approval_required'' ''PREFLIGHT_PRIVILEGED_ACCESS_APPROVAL_REQUIRED''
            ''Privileged, wildcard, or standing access requires security and resource-owner approval.'' ''high''
            ''access_governance.privileged_access_approval_required'' [] required_approvals (approval_evidence_keys required_approvals)
            [(''role'', JStr role), (''role_tier'', JStr role_tier), (''access_mode'', JStr access_mode)]))
          else Inr None)
        else Inr None))))"

definition separation_of_duties :: "text_ops \<Rightarrow> preflight_rule" where
  "separation_of_duties X i ev =
     (if capability_of i \<notin> set ACCESS_GOVERNANCE_CAPABILITIES then Inr None
      else if \<not> approval_present X i ev then Inr None
      else bindR (pf_string_values X i ev ''approver_ids'') (\<lambda>approver_ids.
        if lower_text X (pa_id (ai_requester i)) \<notin> set approver_ids \<and> \<not> pf_flag X i ev ''requester_is_approver'' then Inr None
        else Inr (Some (preflight_result ''deny'' ''PREFLIGHT_SEPARATION_OF_DUTIES_VIOLATION''
          ''The requesting subject cannot satisfy its own privileged-access approval.'' ''critical''
          ''access_governance.separation_of_duties'' [] []
          [evidence_key ''approver_ids'' ''array[string]'' (JArr [JStr ''security-reviewer-42'', JStr ''resource-owner-17''])
             ''Verified approver identities for separation-of-duties evaluation.''] []))))"

definition build_access_governance_policy_pack :: "text_ops \<Rightarrow> string list \<Rightarrow> policy_pack" where
  "build_access_governance_policy_pack X privileged_roles =
     (let privileged = map (normal_text X) (filter (\<lambda>role. py_strip role \<noteq> []) privileged_roles) in
      \<lparr>pk_pack_id = ''access_governance_v1'', pk_display_name = ''IAM and access governance'',
       pk_capabilities = ACCESS_GOVERNANCE_CAPABILITIES,
       pk_rules = [domain_capability_rule ''access_governance_v1'' ACCESS_GOVERNANCE_CAPABILITIES, separation_of_duties X,
         privileged_or_standing_access privileged X,
         requirements_satisfied_rule ''access_governance'' ''Access-governance requirements are satisfied for this action.''],
       pk_is_template = False, pk_disclaimer = JNull\<rparr>)"

section \<open>Payments and destination controls\<close>

definition destination_changed :: "text_ops \<Rightarrow> action_intent \<Rightarrow> dict \<Rightarrow> bool" where
  "destination_changed X i ev \<longleftrightarrow> capability_of i = ''bank_details.update'' \<or> pf_flag X i ev ''destination_changed''"

definition payment_approval :: "int \<Rightarrow> text_ops \<Rightarrow> preflight_rule" where
  "payment_approval approval_threshold_minor X i ev =
     (if capability_of i \<notin> set PAYMENTS_CAPABILITIES then Inr None
      else bindR (int_or_zero X (pf_value i ev ''amount_minor'' (pf_value i ev ''notional_minor'' (JInt 0)))) (\<lambda>amount_minor.
        let required_approvals = [''finance_approver''] in
        if approval_threshold_minor \<le> amount_minor \<or> pf_flag X i ev ''new_payee'' \<or> destination_changed X i ev
        then bindR (approval_satisfied X i ev required_approvals) (\<lambda>satisfied.
          if \<not> satisfied
          then Inr (Some (preflight_result ''approval_required'' ''PREFLIGHT_PAYMENT_APPROVAL_REQUIRED''
            ''High-notional payment or changed payee destination requires finance approval.'' ''high''
            ''payments.payment_approval_required'' [] required_approvals (approval_evidence_keys required_approvals)
            [(''amount_minor'', JInt amount_minor), (''approval_threshold_minor'', JInt approval_threshold_minor),
             (''new_payee'', JBool (pf_flag X i ev ''new_payee'')), (''destination_changed'', JBool (destination_changed X i ev))]))
          else Inr None)
        else Inr None))"

definition payee_verification :: "text_ops \<Rightarrow> preflight_rule" where
  "payee_verification X i ev =
     (if capability_of i \<notin> set PAYMENTS_CAPABILITIES then Inr None
      else if \<not> (pf_flag X i ev ''new_payee'' \<or> destination_changed X i ev) then Inr None
      else if pf_flag X i ev ''payee_verified'' \<and> pf_flag X i ev ''destination_verified'' then Inr None
      else Inr (Some (preflight_result ''needs_evidence'' ''PREFLIGHT_PAYEE_DESTINATION_VERIFICATION_REQUIRED''
        ''New or changed payment destinations require verified payee and destination evidence.'' ''high''
        ''payments.payee_destination_verification_required'' [''payee_verified'', ''destination_verified''] []
        [evidence_key ''payee_verified'' ''boolean'' (JBool True) ''True after the payee identity has been verified for this action.'',
         evidence_key ''destination_verified'' ''boolean'' (JBool True)
           ''True after the exact bank, wallet, or payout destination has been verified.''] [])))"

definition build_payments_policy_pack :: "text_ops \<Rightarrow> int \<Rightarrow> policy_pack res" where
  "build_payments_policy_pack X approval_threshold_minor =
     (if approval_threshold_minor < 1 then Inl (Raise ValueError ''approval_threshold_minor must be positive'')
      else Inr \<lparr>pk_pack_id = ''payments_v1'', pk_display_name = ''Payments and destination controls'',
        pk_capabilities = PAYMENTS_CAPABILITIES,
        pk_rules = [domain_capability_rule ''payments_v1'' PAYMENTS_CAPABILITIES, payment_approval approval_threshold_minor X,
          payee_verification X, requirements_satisfied_rule ''payments'' ''Payment policy requirements are satisfied for this action.''],
        pk_is_template = False, pk_disclaimer = JNull\<rparr>)"

section \<open>The clinical template\<close>

definition high_risk_clinical_action :: "text_ops \<Rightarrow> preflight_rule" where
  "high_risk_clinical_action X i ev =
     (if capability_of i \<notin> set CLINICAL_TEMPLATE_CAPABILITIES then Inr None
      else bindR (pf_string_value X i ev ''clinical_risk'' []) (\<lambda>risk.
        let required_approvals = [''licensed_clinician''] in
        if capability_of i \<in> set [''medication.order'', ''treatment_plan.change'', ''clinical.note.publish''] \<or>
          risk \<in> set [''high'', ''critical'']
        then bindR (approval_satisfied X i ev required_approvals) (\<lambda>satisfied.
          if \<not> satisfied
          then Inr (Some (preflight_result ''approval_required'' ''PREFLIGHT_CLINICAL_REVIEW_REQUIRED''
            ''This template requires licensed-clinician review for the selected clinical action.'' ''high''
            ''clinical_template.clinical_review_required'' [] required_approvals (approval_evidence_keys required_approvals)
            [(''clinical_risk'', JStr risk)]))
          else Inr None)
        else Inr None))"

definition build_clinical_policy_pack_template :: "text_ops \<Rightarrow> policy_pack" where
  "build_clinical_policy_pack_template X =
     \<lparr>pk_pack_id = ''clinical_template_v1'', pk_display_name = ''Clinical workflow TEMPLATE (not certified guidance)'',
      pk_capabilities = CLINICAL_TEMPLATE_CAPABILITIES,
      pk_rules = [domain_capability_rule ''clinical_template_v1'' CLINICAL_TEMPLATE_CAPABILITIES, high_risk_clinical_action X,
        requirements_satisfied_rule ''clinical_template'' ''The illustrative clinical-template requirements are satisfied.''],
      pk_is_template = True,
      pk_disclaimer = JStr (''Illustrative template only. It is not certified clinical guidance, '' @
        ''medical advice, or a substitute for local clinical governance.'')\<rparr>"

end
