(* ===== verification/Preflight.thy ===== *)
theory Preflight
  imports PolicyPacks TrustArtifacts Kernel
begin

text \<open>
  The preflight engine (\<^verbatim>\<open>preflight/engine.py\<close>), its decision objects (\<^verbatim>\<open>preflight/models.py\<close>) and the evidence builder
  (\<^verbatim>\<open>preflight/evidence.py\<close>). The engine first replaces approval artifacts by what their verification shows, then asks every
  rule of the pack, and reports the result of the highest risk, an unmet requirement before any permission.
\<close>

section \<open>Decisions\<close>

record requirement =
  rt_reason_code :: string
  rt_summary :: string
  rt_evidence_keys :: "preflight_evidence_key list"
  rt_required_approvals :: "string list"
  rt_required_evidence :: "string list"
  rt_outcome :: string
  rt_risk_level :: string
  rt_matched_rules :: "string list"

record preflight_decision =
  pf_decision_id :: string
  pf_outcome :: string
  pf_reason_code :: string
  pf_summary :: string
  pf_required_evidence :: "string list"
  pf_required_approvals :: "string list"
  pf_risk_level :: string
  pf_matched_rules :: "string list"
  pf_metadata :: dict
  pf_unmet_requirements :: "requirement list"

definition PREFLIGHT_OUTCOMES :: "string list" where
  "PREFLIGHT_OUTCOMES = [''allow'', ''deny'', ''approval_required'', ''needs_evidence'']"

definition evidence_key_to_dict :: "preflight_evidence_key \<Rightarrow> dict" where
  "evidence_key_to_dict k = [(''key'', JStr (ek_key k)), (''type'', JStr (ek_value_type k)), (''example'', ek_example k),
     (''description'', JStr (ek_description k)), (''required'', JBool (ek_required k))]"

definition evidence_key_from_dict :: "py_text \<Rightarrow> dict \<Rightarrow> preflight_evidence_key res" where
  "evidence_key_from_dict T raw =
     bindR (index_str T raw ''key'') (\<lambda>key.
     bindR (index_str T raw ''type'') (\<lambda>value_type.
     bindR (py_str T (get_or raw ''description'' (JStr []))) (\<lambda>description.
     Inr \<lparr>ek_key = key, ek_value_type = value_type, ek_example = get_or_null raw ''example'', ek_description = description,
       ek_required = truthy (get_or raw ''required'' (JBool True))\<rparr>)))"

text \<open>\<open>tuple(str(item) for item in raw.get(key, []))\<close>.\<close>

definition str_tuple :: "py_text \<Rightarrow> dict \<Rightarrow> string \<Rightarrow> string list res" where
  "str_tuple T raw key = bindR (py_iter (get_or raw key (JArr []))) (mapR (py_str T))"

text \<open>\<open>tuple(f(dict(item)) for item in raw.get(key, []))\<close>.\<close>

definition dict_tuple :: "(dict \<Rightarrow> 'a res) \<Rightarrow> dict \<Rightarrow> string \<Rightarrow> 'a list res" where
  "dict_tuple f raw key = bindR (py_iter (get_or raw key (JArr []))) (mapR (\<lambda>item. bindR (py_dict item) f))"

definition requirement_to_dict :: "requirement \<Rightarrow> dict" where
  "requirement_to_dict r = [(''reason_code'', JStr (rt_reason_code r)), (''summary'', JStr (rt_summary r)),
     (''evidence_keys'', JArr (map (\<lambda>k. JObj (evidence_key_to_dict k)) (rt_evidence_keys r))),
     (''required_approvals'', JArr (map JStr (rt_required_approvals r))),
     (''required_evidence'', JArr (map JStr (rt_required_evidence r))), (''outcome'', JStr (rt_outcome r)),
     (''risk_level'', JStr (rt_risk_level r)), (''matched_rules'', JArr (map JStr (rt_matched_rules r)))]"

definition checked_outcome :: "json \<Rightarrow> string \<Rightarrow> string res" where
  "checked_outcome v message = (case v of
      JStr s \<Rightarrow> if s \<in> set PREFLIGHT_OUTCOMES then Inr s else Inl (Raise ValueError message)
    | _ \<Rightarrow> Inl (Raise ValueError message))"

definition requirement_from_dict :: "py_text \<Rightarrow> dict \<Rightarrow> requirement res" where
  "requirement_from_dict T raw =
     bindR (checked_outcome (get_or raw ''outcome'' (JStr ''needs_evidence'')) ''requirement outcome must be a valid Preflight outcome'') (\<lambda>outcome.
     bindR (index_str T raw ''reason_code'') (\<lambda>reason_code.
     bindR (index_str T raw ''summary'') (\<lambda>summary.
     bindR (dict_tuple (evidence_key_from_dict T) raw ''evidence_keys'') (\<lambda>evidence_keys.
     bindR (str_tuple T raw ''required_approvals'') (\<lambda>required_approvals.
     bindR (str_tuple T raw ''required_evidence'') (\<lambda>required_evidence.
     bindR (py_str T (get_or raw ''risk_level'' (JStr ''medium''))) (\<lambda>risk_level.
     bindR (str_tuple T raw ''matched_rules'') (\<lambda>matched_rules.
     Inr \<lparr>rt_reason_code = reason_code, rt_summary = summary, rt_evidence_keys = evidence_keys,
       rt_required_approvals = required_approvals, rt_required_evidence = required_evidence, rt_outcome = outcome,
       rt_risk_level = risk_level, rt_matched_rules = matched_rules\<rparr>))))))))"

definition decision_to_dict :: "preflight_decision \<Rightarrow> dict" where
  "decision_to_dict d = [(''contract'', contract_entry ''preflight_decision''), (''decision_id'', JStr (pf_decision_id d)),
     (''outcome'', JStr (pf_outcome d)), (''reason_code'', JStr (pf_reason_code d)), (''summary'', JStr (pf_summary d)),
     (''required_evidence'', JArr (map JStr (pf_required_evidence d))),
     (''required_approvals'', JArr (map JStr (pf_required_approvals d))), (''risk_level'', JStr (pf_risk_level d)),
     (''matched_rules'', JArr (map JStr (pf_matched_rules d))), (''metadata'', JObj (pf_metadata d)),
     (''unmet_requirements'', JArr (map (\<lambda>r. JObj (requirement_to_dict r)) (pf_unmet_requirements d)))]"

definition decision_from_dict :: "py_text \<Rightarrow> dict \<Rightarrow> preflight_decision res" where
  "decision_from_dict T raw =
     bindR (case get_or_null raw ''contract'' of
         JObj c \<Rightarrow> guardR (get_or_null c ''name'' = JStr ''preflight_decision'' \<and> get_or_null c ''version'' = JStr ''v1'')
           (Raise ValueError ''contract must declare preflight_decision v1'') (Inr ())
       | _ \<Rightarrow> Inl (Raise ValueError ''contract must declare preflight_decision v1'')) (\<lambda>_.
     bindR (checked_outcome (get_or_null raw ''outcome'')
       ''outcome must be one of allow, deny, approval_required, needs_evidence'') (\<lambda>outcome.
     bindR (index_str T raw ''decision_id'') (\<lambda>decision_id.
     bindR (index_str T raw ''reason_code'') (\<lambda>reason_code.
     bindR (index_str T raw ''summary'') (\<lambda>summary.
     bindR (str_tuple T raw ''required_evidence'') (\<lambda>required_evidence.
     bindR (str_tuple T raw ''required_approvals'') (\<lambda>required_approvals.
     bindR (py_str T (get_or raw ''risk_level'' (JStr ''medium''))) (\<lambda>risk_level.
     bindR (str_tuple T raw ''matched_rules'') (\<lambda>matched_rules.
     bindR (py_dict (get_or raw ''metadata'' (JObj []))) (\<lambda>metadata.
     bindR (dict_tuple (requirement_from_dict T) raw ''unmet_requirements'') (\<lambda>unmet_requirements.
     Inr \<lparr>pf_decision_id = decision_id, pf_outcome = outcome, pf_reason_code = reason_code, pf_summary = summary,
       pf_required_evidence = required_evidence, pf_required_approvals = required_approvals, pf_risk_level = risk_level,
       pf_matched_rules = matched_rules, pf_metadata = metadata, pf_unmet_requirements = unmet_requirements\<rparr>)))))))))))"

section \<open>The evidence builder\<close>

text \<open>
  \<open>PreflightEvidence\<close>: the fields that are copied by name are a function of the name, \<open>None\<close> where a field is not set.
\<close>

record preflight_evidence =
  pe_field :: "string \<Rightarrow> json"
  pe_approver_types :: "string list"
  pe_approval_artifacts :: "dict list"
  pe_approval_trusted_keys :: "dict list"
  pe_approver_ids :: "string list"

definition EVIDENCE_FIELDS :: "string list" where
  "EVIDENCE_FIELDS = [''environment'', ''change_ticket'', ''backup_verified'', ''backup_snapshot'', ''approval_present'',
     ''capability_classification'', ''row_count'', ''destination'', ''sensitive_data'', ''role'', ''sensitivity_classification'',
     ''destination_classification'', ''destination_allowlisted'', ''external_egress_approved'', ''source_residency'',
     ''destination_residency'', ''residency_allowed'', ''role_tier'', ''access_mode'', ''requester_is_approver'', ''amount_minor'',
     ''notional_minor'', ''new_payee'', ''destination_changed'', ''payee_verified'', ''destination_verified'', ''clinical_risk'']"

definition preflight_evidence_to_dict :: "preflight_evidence \<Rightarrow> dict" where
  "preflight_evidence_to_dict e =
     put_array ''approver_ids'' (map JStr (pe_approver_ids e))
     (put_array ''approval_trusted_keys'' (map JObj (pe_approval_trusted_keys e))
     (put_array ''approval_artifacts'' (map JObj (pe_approval_artifacts e))
     (put_array ''approver_types'' (map JStr (pe_approver_types e))
       (fold (\<lambda>key payload. put_field key (pe_field e key) payload) EVIDENCE_FIELDS []))))"

definition one_or_many :: "py_text \<Rightarrow> json \<Rightarrow> string list res" where
  "one_or_many T raw = (case raw of JStr s \<Rightarrow> Inr [s] | _ \<Rightarrow> bindR (py_iter raw) (mapR (py_str T)))"

definition preflight_evidence_from_mapping :: "py_text \<Rightarrow> dict \<Rightarrow> preflight_evidence res" where
  "preflight_evidence_from_mapping T raw =
     bindR (one_or_many T (get_or raw ''approver_types'' (JTup []))) (\<lambda>types.
     bindR (bindR (py_iter (get_or raw ''approval_artifacts'' (JTup []))) (mapR py_dict)) (\<lambda>artifacts.
     bindR (bindR (py_iter (get_or raw ''approval_trusted_keys'' (JTup []))) (mapR py_dict)) (\<lambda>trusted_keys.
     bindR (one_or_many T (get_or raw ''approver_ids'' (JTup []))) (\<lambda>ids.
     Inr \<lparr>pe_field = (\<lambda>key. if key \<in> set EVIDENCE_FIELDS then get_or_null raw key else JNull), pe_approver_types = types,
       pe_approval_artifacts = artifacts, pe_approval_trusted_keys = trusted_keys, pe_approver_ids = ids\<rparr>))))"

section \<open>Signed approvals\<close>

definition party_key :: "json \<Rightarrow> (string \<times> string) option" where
  "party_key raw = (case raw of
      JObj d \<Rightarrow> (case (get_or_null d ''type'', get_or_null d ''id'') of (JStr t, JStr i) \<Rightarrow> Some (t, i) | _ \<Rightarrow> None)
    | _ \<Rightarrow> None)"

text \<open>\<open>TrustArtifactVerificationError\<close> is a \<open>ValueError\<close>; nothing in the engine catches it.\<close>

definition of_ta :: "'a ta \<Rightarrow> 'a res" where
  "of_ta m = (case m of Inr x \<Rightarrow> Inr x
     | Inl (TrustArtifactVerificationError code message) \<Rightarrow> Inl (Raise ValueError (code @ '': '' @ message))
     | Inl (EscapedTa e) \<Rightarrow> Inl e)"

fun approval_key_sets :: "json list \<Rightarrow> ((string \<times> string) \<times> json) list \<Rightarrow> ((string \<times> string) \<times> json) list res" where
  "approval_key_sets [] key_sets = Inr key_sets"
| "approval_key_sets (raw_key_set # rest) key_sets = (case raw_key_set of
      JObj d \<Rightarrow> (case party_key (get_or_null d ''issuer'') of
          None \<Rightarrow> Inl (Raise ValueError ''approval_trusted_keys must have unique, valid issuer identities'')
        | Some identity \<Rightarrow>
            if dmem key_sets identity
            then Inl (Raise ValueError ''approval_trusted_keys must have unique, valid issuer identities'')
            else approval_key_sets rest (dput key_sets identity raw_key_set))
    | _ \<Rightarrow> Inl (Raise ValueError ''approval_trusted_keys entries must be JSON objects''))"

definition verify_one_approval :: "deps \<Rightarrow> ed25519 \<Rightarrow> action_intent \<Rightarrow> ((string \<times> string) \<times> json) list \<Rightarrow> json \<Rightarrow> verified_approval res" where
  "verify_one_approval D ed i key_sets raw_artifact = (case raw_artifact of
      JObj d \<Rightarrow> (case party_key (get_or_null d ''approver'') of
          None \<Rightarrow> Inl (Raise ValueError ''no trusted approval key set matches the artifact approver'')
        | Some identity \<Rightarrow> (case dget key_sets identity of
            None \<Rightarrow> Inl (Raise ValueError ''no trusted approval key set matches the artifact approver'')
          | Some keys \<Rightarrow> of_ta (verify_approval_artifact D ed raw_artifact keys (IntentArg i))))
    | _ \<Rightarrow> Inl (Raise ValueError ''approval_artifacts entries must be JSON objects''))"

definition json_items :: "json \<Rightarrow> json list option" where
  "json_items v = (case v of JArr xs \<Rightarrow> Some xs | JTup xs \<Rightarrow> Some xs | _ \<Rightarrow> None)"

definition with_verified_approvals :: "deps \<Rightarrow> ed25519 \<Rightarrow> action_intent \<Rightarrow> dict \<Rightarrow> dict res" where
  "with_verified_approvals D ed i ev =
     (let raw_artifacts = get_or ev ''approval_artifacts'' (JTup []) in
      if \<not> truthy raw_artifacts then Inr ev
      else case json_items raw_artifacts of
        None \<Rightarrow> Inl (Raise ValueError ''approval_artifacts must be an array of approval objects'')
      | Some artifacts \<Rightarrow> (case json_items (get_or ev ''approval_trusted_keys'' (JTup [])) of
          None \<Rightarrow> Inl (Raise ValueError ''approval_trusted_keys must contain a public key set for each signed approval'')
        | Some [] \<Rightarrow> Inl (Raise ValueError ''approval_trusted_keys must contain a public key set for each signed approval'')
        | Some raw_key_sets \<Rightarrow>
            bindR (approval_key_sets raw_key_sets []) (\<lambda>key_sets.
            bindR (mapR (verify_one_approval D ed i key_sets) artifacts) (\<lambda>verified.
            Inr (dmerge ev
              [(''verified_approval_present'', JBool True),
               (''verified_approver_types'', JArr (map JStr (from_keys (map vap_approval_type verified)))),
               (''verified_approver_ids'', JArr (map JStr (from_keys (map (\<lambda>v. pa_id (vap_approver v)) verified)))),
               (''verified_approval_ids'', JArr (map (\<lambda>v. JStr (vap_approval_id v)) verified))])))))"

section \<open>The engine\<close>

datatype intent_arg = IntentObject action_intent | IntentMapping json
datatype evidence_arg = EvidenceObject preflight_evidence | EvidenceMapping dict | NoEvidence

definition coerce_intent :: "deps \<Rightarrow> intent_arg \<Rightarrow> action_intent res" where
  "coerce_intent D raw = (case raw of IntentObject i \<Rightarrow> Inr i | IntentMapping payload \<Rightarrow> parse_intent D payload)"

definition coerce_evidence :: "evidence_arg \<Rightarrow> dict" where
  "coerce_evidence a = (case a of EvidenceObject e \<Rightarrow> preflight_evidence_to_dict e | EvidenceMapping d \<Rightarrow> d | NoEvidence \<Rightarrow> [])"

definition preflight_decision_id :: "deps \<Rightarrow> action_intent \<Rightarrow> string \<Rightarrow> string \<Rightarrow> string res" where
  "preflight_decision_id D i reason_code outcome =
     bindR (sha256_hex D (JObj [(''intent_id'', JStr (ai_intent_id i)), (''capability'', JStr (capability_of i)),
       (''target'', JObj (target_to_dict (ai_target i))), (''outcome'', JStr outcome), (''reason_code'', JStr reason_code)]))
       (\<lambda>digest. Inr (''pfl_'' @ take 24 digest))"

definition risk_priority :: "string \<Rightarrow> nat" where
  "risk_priority s = (case map_of [(''low'', 1), (''medium'', 2), (''high'', 3), (''critical'', 4)] s of None \<Rightarrow> 2 | Some n \<Rightarrow> n)"

definition outcome_priority :: "string \<Rightarrow> nat" where
  "outcome_priority s =
     (case map_of [(''allow'', 1), (''needs_evidence'', 2), (''approval_required'', 3), (''deny'', 4)] s of None \<Rightarrow> 2 | Some n \<Rightarrow> n)"

text \<open>
  \<open>max(enumerate(candidates), key=_result_priority)\<close>: by risk, then by outcome, and the first of those, as the index
  counts negatively.
\<close>

definition more_urgent :: "rule_result \<Rightarrow> rule_result \<Rightarrow> bool" where
  "more_urgent a b \<longleftrightarrow> risk_priority (rr_risk_level b) < risk_priority (rr_risk_level a) \<or>
     risk_priority (rr_risk_level b) = risk_priority (rr_risk_level a) \<and> outcome_priority (rr_outcome b) < outcome_priority (rr_outcome a)"

fun select_result :: "rule_result \<Rightarrow> rule_result list \<Rightarrow> rule_result" where
  "select_result best [] = best"
| "select_result best (r # rs) = select_result (if more_urgent r best then r else best) rs"

definition unique_strings :: "(rule_result \<Rightarrow> string list) \<Rightarrow> rule_result list \<Rightarrow> string list" where
  "unique_strings f results = fold (\<lambda>v values. if v \<in> set values then values else values @ [v]) (concat (map f results)) []"

definition requirement_from_result :: "rule_result \<Rightarrow> requirement" where
  "requirement_from_result r = \<lparr>rt_reason_code = rr_reason_code r, rt_summary = rr_summary r, rt_evidence_keys = rr_evidence_keys r,
     rt_required_approvals = rr_required_approvals r, rt_required_evidence = rr_required_evidence r, rt_outcome = rr_outcome r,
     rt_risk_level = rr_risk_level r, rt_matched_rules = rr_matched_rules r\<rparr>"

definition rule_results :: "preflight_rule list \<Rightarrow> action_intent \<Rightarrow> dict \<Rightarrow> rule_result list res" where
  "rule_results rules i ev = bindR (mapR (\<lambda>rule. rule i ev) rules) (\<lambda>outs. Inr (map the (filter (\<lambda>r. r \<noteq> None) outs)))"

definition pack_metadata :: "policy_pack \<Rightarrow> dict" where
  "pack_metadata pack = put_if (pk_is_template pack) ''disclaimer'' (pk_disclaimer pack)
     (put_if (pk_is_template pack) ''is_template'' (JBool True)
       [(''pack_id'', JStr (pk_pack_id pack)), (''display_name'', JStr (pk_display_name pack))])"

definition decide :: "deps \<Rightarrow> policy_pack \<Rightarrow> action_intent \<Rightarrow> rule_result list \<Rightarrow> preflight_decision res" where
  "decide D pack i results =
     (let blockers = filter (\<lambda>r. rr_outcome r \<noteq> ''allow'') results;
          candidates = (if blockers \<noteq> [] then blockers else filter (\<lambda>r. rr_outcome r = ''allow'') results) in
      case candidates of
        [] \<Rightarrow> Inl (Raise RuntimeError ''preflight policy pack did not produce a decision'')
      | c # cs \<Rightarrow>
        let selected = select_result c cs; requirements = map requirement_from_result blockers;
            metadata = dmerge [(''policy_pack'', JObj (pack_metadata pack)), (''intent_id'', JStr (ai_intent_id i)),
              (''capability'', JStr (capability_of i)), (''target'', JObj (target_to_dict (ai_target i))),
              (''evaluated_rule_count'', JInt (int (length (pk_rules pack)))), (''matched_result_count'', JInt (int (length results))),
              (''unmet_requirement_count'', JInt (int (length requirements)))] (rr_metadata selected) in
        bindR (preflight_decision_id D i (rr_reason_code selected) (rr_outcome selected)) (\<lambda>decision_id.
        Inr \<lparr>pf_decision_id = decision_id, pf_outcome = rr_outcome selected, pf_reason_code = rr_reason_code selected,
          pf_summary = rr_summary selected, pf_required_evidence = unique_strings rr_required_evidence blockers,
          pf_required_approvals = unique_strings rr_required_approvals blockers, pf_risk_level = rr_risk_level selected,
          pf_matched_rules = unique_strings rr_matched_rules (if blockers \<noteq> [] then blockers else [selected]),
          pf_metadata = metadata, pf_unmet_requirements = requirements\<rparr>))"

definition preflight_check :: "deps \<Rightarrow> ed25519 \<Rightarrow> policy_pack \<Rightarrow> intent_arg \<Rightarrow> policy_pack option \<Rightarrow> evidence_arg \<Rightarrow> preflight_decision res" where
  "preflight_check D ed engine_pack intent policy_pack evidence_context =
     bindR (coerce_intent D intent) (\<lambda>i.
     bindR (with_verified_approvals D ed i (coerce_evidence evidence_context)) (\<lambda>ev.
     let pack = (case policy_pack of Some p \<Rightarrow> p | None \<Rightarrow> engine_pack) in
     bindR (rule_results (pk_rules pack) i ev) (\<lambda>results.
     decide D pack i results)))"

section \<open>What a decision says\<close>

lemma from_keys_facts: "set (from_keys xs) = set xs" "distinct (from_keys xs)"
  by (simp_all add: from_keys_def)

lemma list_all2_Inr_set: "list_all2 (\<lambda>x y. f x = Inr y) xs ys \<Longrightarrow> set ys = {y. \<exists>x \<in> set xs. f x = Inr y}"
  by (induction rule: list_all2_induct) auto

lemma rule_results_set:
  assumes "rule_results rules i ev = Inr results"
  shows "set results = {r. \<exists>rule \<in> set rules. rule i ev = Inr (Some r)}"
proof -
  obtain outs where outs: "list_all2 (\<lambda>rule out. rule i ev = Inr out) rules outs" "results = map the (filter (\<lambda>r. r \<noteq> None) outs)"
    using assms unfolding rule_results_def by (elim bindR_eq_InrE) (simp add: mapR_eq_Inr)
  have "r \<in> set results \<longleftrightarrow> Some r \<in> set outs" for r unfolding outs(2) by force
  then show ?thesis using list_all2_Inr_set[OF outs(1)] by auto
qed

lemma rule_results_total:
  assumes "rule_results rules i ev = Inr results" "rule \<in> set rules"
  shows "\<exists>out. rule i ev = Inr out \<and> (\<forall>r. out = Some r \<longrightarrow> r \<in> set results)"
proof -
  obtain outs where outs: "list_all2 (\<lambda>rule out. rule i ev = Inr out) rules outs"
    using assms(1) unfolding rule_results_def by (elim bindR_eq_InrE) (simp add: mapR_eq_Inr)
  then obtain out where "rule i ev = Inr out"
    using assms(2) by (auto simp: list_all2_conv_all_nth in_set_conv_nth)
  with assms(2) rule_results_set[OF assms(1)] show ?thesis by auto
qed

lemma select_result_in: "select_result best rs \<in> insert best (set rs)"
  by (induction best rs rule: select_result.induct) auto

text \<open>\<open>more_urgent\<close> compares pairs of numbers lexicographically.\<close>

lemma more_urgent_trans: "\<not> more_urgent a b \<Longrightarrow> \<not> more_urgent b c \<Longrightarrow> \<not> more_urgent a c"
  by (auto simp: more_urgent_def)

lemma select_result_greatest: "r \<in> insert best (set rs) \<Longrightarrow> \<not> more_urgent r (select_result best rs)"
proof (induction best rs arbitrary: r rule: select_result.induct)
  case (1 best)
  then show ?case by (simp add: more_urgent_def)
next
  case (2 best x rs)
  let ?m = "if more_urgent x best then x else best"
  have m: "\<not> more_urgent ?m (select_result ?m rs)" using "2.IH" by blast
  have b: "\<not> more_urgent best ?m" "\<not> more_urgent x ?m" by (auto simp: more_urgent_def)
  show ?case using 2(2) "2.IH" more_urgent_trans[OF b(1) m] more_urgent_trans[OF b(2) m] by auto
qed

text \<open>What a decision takes from the results of the rules.\<close>

definition decided_from :: "rule_result list \<Rightarrow> preflight_decision \<Rightarrow> bool" where
  "decided_from results d \<longleftrightarrow>
     (pf_outcome d = ''allow'') = (\<forall>r \<in> set results. rr_outcome r = ''allow'') \<and>
     pf_unmet_requirements d = map requirement_from_result (filter (\<lambda>r. rr_outcome r \<noteq> ''allow'') results) \<and>
     (\<exists>s \<in> set results. pf_outcome d = rr_outcome s \<and> pf_reason_code d = rr_reason_code s \<and> pf_risk_level d = rr_risk_level s \<and>
       (\<forall>r \<in> set results. rr_outcome r \<noteq> ''allow'' \<longrightarrow> \<not> more_urgent r s))"

lemma decide_Inr:
  assumes "decide D pack i results = Inr d"
  shows "decided_from results d"
proof -
  define blockers where "blockers = filter (\<lambda>r. rr_outcome r \<noteq> ''allow'') results"
  define candidates where "candidates = (if blockers \<noteq> [] then blockers else filter (\<lambda>r. rr_outcome r = ''allow'') results)"
  obtain c cs where c: "candidates = c # cs"
    using assms unfolding decide_def Let_def blockers_def[symmetric] candidates_def[symmetric] by (cases candidates) simp_all
  define s where "s = select_result c cs"
  have d: "pf_outcome d = rr_outcome s" "pf_reason_code d = rr_reason_code s" "pf_risk_level d = rr_risk_level s"
      "pf_unmet_requirements d = map requirement_from_result blockers"
    using assms c unfolding decide_def Let_def blockers_def[symmetric] candidates_def[symmetric] s_def
    by (auto simp: bindR_eq_Inr)
  have s: "s \<in> set candidates" "\<And>r. r \<in> set candidates \<Longrightarrow> \<not> more_urgent r s"
    using select_result_in[of c cs] select_result_greatest[of _ c cs] c by (auto simp: s_def)
  have sub: "set candidates \<subseteq> set results" by (auto simp: candidates_def blockers_def)
  have blocked: "blockers \<noteq> [] \<Longrightarrow> candidates = blockers" by (simp add: candidates_def)
  have free: "blockers = [] \<longleftrightarrow> (\<forall>r \<in> set results. rr_outcome r = ''allow'')"
    by (auto simp: blockers_def filter_empty_conv)
  have allow: "rr_outcome s = ''allow'' \<longleftrightarrow> blockers = []"
    using s(1) by (auto simp: candidates_def blockers_def split: if_splits)
  have greatest: "\<forall>r \<in> set results. rr_outcome r \<noteq> ''allow'' \<longrightarrow> \<not> more_urgent r s"
  proof (intro ballI impI)
    fix r assume "r \<in> set results" "rr_outcome r \<noteq> ''allow''"
    then have "r \<in> set blockers" by (simp add: blockers_def)
    then show "\<not> more_urgent r s" using s(2) blocked by (cases blockers) auto
  qed
  show ?thesis
    unfolding decided_from_def using d s(1) sub free allow greatest blockers_def by auto
qed

lemma preflight_check_Inr:
  assumes "preflight_check D ed pack intent override evidence = Inr d"
  obtains i ev results where "coerce_intent D intent = Inr i" "with_verified_approvals D ed i (coerce_evidence evidence) = Inr ev"
    "rule_results (pk_rules (case override of Some p \<Rightarrow> p | None \<Rightarrow> pack)) i ev = Inr results" "decided_from results d"
  using assms unfolding preflight_check_def Let_def by (elim bindR_eq_InrE) (blast dest: decide_Inr)

definition allowing :: "preflight_rule \<Rightarrow> action_intent \<Rightarrow> dict \<Rightarrow> bool" where
  "allowing rule i ev \<longleftrightarrow> (\<exists>out. rule i ev = Inr out \<and> pred_option (\<lambda>r. rr_outcome r = ''allow'') out)"

lemma decided_allowing:
  assumes "rule_results rules i ev = Inr results" "decided_from results d"
  shows "pf_outcome d = ''allow'' \<longleftrightarrow> (\<forall>rule \<in> set rules. allowing rule i ev)"
proof -
  have "(\<forall>x \<in> set results. rr_outcome x = ''allow'') \<longleftrightarrow> (\<forall>rule \<in> set rules. allowing rule i ev)"
    using rule_results_set[OF assms(1)] rule_results_total[OF assms(1)] by (fastforce simp: pred_option_def allowing_def)
  then show ?thesis using assms(2) unfolding decided_from_def by blast
qed

text \<open>
  C12 (preflight_allows_iff): a decision allows exactly when every rule of the pack ran and none of them asked for more, the
  rules seeing the evidence after its signed approvals were verified; its unmet requirements are the results that do not
  allow, in the order of the rules.
\<close>

theorem preflight_allows_iff:
  assumes "preflight_check D ed pack intent None evidence = Inr d"
  shows "\<exists>i ev results. coerce_intent D intent = Inr i \<and> with_verified_approvals D ed i (coerce_evidence evidence) = Inr ev \<and>
    rule_results (pk_rules pack) i ev = Inr results \<and>
    (pf_outcome d = ''allow'' \<longleftrightarrow> (\<forall>rule \<in> set (pk_rules pack). allowing rule i ev)) \<and>
    pf_unmet_requirements d = map requirement_from_result (filter (\<lambda>r. rr_outcome r \<noteq> ''allow'') results)"
proof -
  obtain i ev results where r: "coerce_intent D intent = Inr i" "with_verified_approvals D ed i (coerce_evidence evidence) = Inr ev"
    "rule_results (pk_rules pack) i ev = Inr results" "decided_from results d"
    using assms by (rule preflight_check_Inr) simp
  then show ?thesis using decided_allowing[OF r(3,4)] unfolding decided_from_def by blast
qed

lemma preflight_result_outcome [simp]: "rr_outcome (preflight_result oc rc su rl mr re ra ek md) = oc"
  "rr_risk_level (preflight_result oc rc su rl mr re ra ek md) = rl"
  by (simp_all add: preflight_result_def)

lemma allowing_ticket:
  assumes "allowing (missing_change_ticket X) i ev" "pf_env X i ev = Inr ''production''" "capability_of i \<in> set DESTRUCTIVE_AND_DATA_CAPABILITIES"
  shows "has_change_ticket X i ev"
  using assms by (auto simp: allowing_def missing_change_ticket_def split: if_splits)

lemma allowing_backup:
  assumes "allowing (missing_backup_evidence X) i ev" "pf_env X i ev = Inr ''production''" "requires_backup (capability_of i)"
  shows "has_backup_evidence X i ev"
  using assms by (auto simp: allowing_def missing_backup_evidence_def split: if_splits)

lemma allowing_approval:
  assumes "allowing (production_destructive_without_approval X) i ev" "pf_env X i ev = Inr ''production''" "requires_backup (capability_of i)"
  shows "capability_of i \<noteq> ''backup.delete''" "approval_satisfied X i ev [''infrastructure_owner'', ''security_admin''] = Inr True"
  using assms
  by (auto simp: allowing_def production_destructive_without_approval_def requires_backup_def Let_def bindR_eq_Inr split: if_splits)

lemma destructive_capability: "requires_backup c \<Longrightarrow> c \<in> set DESTRUCTIVE_AND_DATA_CAPABILITIES"
  by (auto simp: requires_backup_def DESTRUCTIVE_AND_DATA_CAPABILITIES_def)

lemma backup_deletion_denied:
  assumes "decided_from results d" "rule_results (pk_rules (build_destructive_actions_policy_pack X)) i ev = Inr results"
    and "pf_env X i ev = Inr ''production''" "capability_of i = ''backup.delete''"
  shows "pf_outcome d = ''deny''"
proof -
  let ?r = "\<lambda>r. production_destructive_without_approval X i ev = Inr (Some r)"
  obtain r where r: "?r r" "rr_outcome r = ''deny''" "rr_risk_level r = ''critical''"
    using assms(3,4) by (simp add: production_destructive_without_approval_def)
  then have "r \<in> set results"
    using rule_results_set[OF assms(2)] by (auto simp: build_destructive_actions_policy_pack_def)
  moreover obtain s where s: "pf_outcome d = rr_outcome s" "\<forall>r \<in> set results. rr_outcome r \<noteq> ''allow'' \<longrightarrow> \<not> more_urgent r s"
    using assms(1) unfolding decided_from_def by blast
  ultimately have "\<not> more_urgent r s" using r(2) by simp
  then show ?thesis using r(2,3) s(1) by (auto simp: more_urgent_def risk_priority_def outcome_priority_def split: if_splits option.splits)
qed

text \<open>
  C13 (default_pack_gates_destruction): in production, the default pack allows a destructive action only with a change ticket,
  backup evidence and an approval, by both required roles whenever roles are stated; it denies the deletion of a backup
  whatever the evidence.
\<close>

theorem default_pack_gates_destruction:
  assumes "preflight_check D ed (build_destructive_actions_policy_pack X) (IntentObject i) None evidence = Inr d"
    and "with_verified_approvals D ed i (coerce_evidence evidence) = Inr ev"
    and "pf_env X i ev = Inr ''production''" and "requires_backup (capability_of i)"
  shows "(pf_outcome d = ''allow'' \<longrightarrow> has_change_ticket X i ev \<and> has_backup_evidence X i ev \<and> approval_present X i ev \<and>
      (\<exists>provided. approver_types X i ev = Inr provided \<and> (provided = [] \<or> {''infrastructure_owner'', ''security_admin''} \<subseteq> set provided))) \<and>
    (capability_of i = ''backup.delete'' \<longrightarrow> pf_outcome d = ''deny'')"
proof -
  obtain results where res: "rule_results (pk_rules (build_destructive_actions_policy_pack X)) i ev = Inr results" "decided_from results d"
    using assms(1) by (rule preflight_check_Inr) (use assms(2) in \<open>simp add: coerce_intent_def\<close>)
  have rules: "allowing rule i ev" if "pf_outcome d = ''allow''" "rule \<in> set (pk_rules (build_destructive_actions_policy_pack X))" for rule
    using decided_allowing[OF res] that by blast
  show ?thesis
  proof (intro conjI impI)
    assume allow: "pf_outcome d = ''allow''"
    note pack = rules[OF allow, unfolded build_destructive_actions_policy_pack_def, simplified]
    show "has_change_ticket X i ev" by (rule allowing_ticket[OF _ assms(3) destructive_capability[OF assms(4)]]) (simp add: pack)
    show "has_backup_evidence X i ev" by (rule allowing_backup[OF _ assms(3,4)]) (simp add: pack)
    have ok: "approval_satisfied X i ev [''infrastructure_owner'', ''security_admin''] = Inr True"
      by (rule allowing_approval(2)[OF _ assms(3,4)]) (simp add: pack)
    then show "approval_present X i ev" "\<exists>provided. approver_types X i ev = Inr provided \<and>
        (provided = [] \<or> {''infrastructure_owner'', ''security_admin''} \<subseteq> set provided)"
      by (auto simp: approval_satisfied_def bindR_eq_Inr split: if_splits)
  qed (rule backup_deletion_denied[OF res(2,1) assms(3)])
qed

section \<open>Signed approvals and separation of duties\<close>

definition VERIFIED_KEYS :: "string list" where
  "VERIFIED_KEYS = [''verified_approval_present'', ''verified_approver_types'', ''verified_approver_ids'', ''verified_approval_ids'']"

lemma with_verified_approvals_keeps:
  assumes "with_verified_approvals D ed i ev = Inr ev'" "k \<notin> set VERIFIED_KEYS"
  shows "map_of ev' k = map_of ev k"
proof -
  consider "ev' = ev" | a b c d where "ev' = dmerge ev [(''verified_approval_present'', a), (''verified_approver_types'', b),
      (''verified_approver_ids'', c), (''verified_approval_ids'', d)]"
    using assms(1) unfolding with_verified_approvals_def Let_def
    by (auto simp: bindR_eq_Inr split: if_splits option.splits list.splits)
  then show ?thesis using assms(2) by cases (auto simp: VERIFIED_KEYS_def)
qed

lemma pf_value_with_verified:
  assumes "with_verified_approvals D ed i ev = Inr ev'" "k \<notin> set VERIFIED_KEYS"
  shows "pf_value i ev' k dflt = pf_value i ev k dflt"
  using with_verified_approvals_keeps[OF assms] by (simp add: pf_value_def dmem_def get_or_null_def)

text \<open>
  The separation of duties of the access pack only looks at the approver ids and the
  flag the caller declares: signed approvals never trigger it, even when the requester signed them.
\<close>

theorem separation_ignores_signed_approvals:
  assumes "with_verified_approvals D ed i ev = Inr ev'"
    and "pf_value i ev ''approver_ids'' JNull = JNull" "pf_value i ev ''requester_is_approver'' JNull = JNull"
  shows "separation_of_duties X i ev' = Inr None"
proof -
  have vals: "pf_value i ev' k dflt = pf_value i ev k dflt" if "k \<in> {''approver_ids'', ''requester_is_approver''}" for k dflt
    by (rule pf_value_with_verified[OF assms(1)]) (use that in \<open>auto simp: VERIFIED_KEYS_def\<close>)
  have "pf_value i ev ''approver_ids'' (JTup []) \<in> {JNull, JTup []}"
    using assms(2) by (auto simp: pf_value_def get_or_def get_or_null_def split: if_splits option.splits)
  then have "pf_string_values X i ev' ''approver_ids'' = Inr []"
    by (auto simp: pf_string_values_def vals item_texts_def)
  moreover have "\<not> pf_flag X i ev' ''requester_is_approver''"
    using assms(3) by (simp add: vals pf_truthy_def)
  ultimately show ?thesis by (simp add: separation_of_duties_def)
qed

definition sample_texts :: text_ops where
  "sample_texts = \<lparr>tx_text = sample_text, tx_lower = id\<rparr>"

definition self_grant :: action_intent where
  "self_grant = sample_intent\<lparr>ai_requester := sample_witness, ai_action := \<lparr>ac_name = ''assign'', ac_capability = ''iam.role.assign'',
     ac_parameters = [(''role'', JStr ''admin'')], ac_constraints = [], ac_scope = []\<rparr>\<rparr>"

definition self_approvals :: dict where
  "self_approvals = [(''approval_artifacts'', JArr [JObj (sample_approval self_grant ''security_admin''), JObj (sample_approval self_grant ''resource_owner'')]),
     (''approval_trusted_keys'', JArr [JObj (sample_party_keys ''approval_artifact'')])]"

lemma self_grant_hash: "is_ok (sha256_hex sample_deps (build_action_hash_input self_grant))"
proof -
  have "is_ok (canonicalize_bytes sample_deps (build_action_hash_input self_grant))"
    using length_format_timestamp[of "ai_issued_at sample_intent"] length_format_timestamp[of "ai_expires_at sample_intent"]
    by (intro canonicalize_bytes_ok)
       (simp_all add: self_grant_def sample_witness_def build_action_hash_input_def sample_defs tenant_to_dict_def party_to_dict_def
         action_to_dict_def target_to_dict_def put_defs put_if_def INT_MAX_STR_DIGITS_def)
  then show ?thesis by (simp add: sha256_hex_def is_ok_bindR_Inr)
qed

lemma sample_party_key_of:
  "party_key (get_or_null (sample_party_keys u) ''issuer'') = Some (''service'', ''witness-1'')"
  "party_key (get_or_null (sample_approval i t) ''approver'') = Some (''service'', ''witness-1'')"
  by (simp_all add: sample_party_keys_def sample_approval_def party_key_def party_to_dict_def sample_witness_def put_defs put_if_def)

lemma self_approvals_verify:
  "\<exists>ids. with_verified_approvals sample_deps sample_ed25519 self_grant self_approvals = Inr (dmerge self_approvals
     [(''verified_approval_present'', JBool True), (''verified_approver_types'', JArr [JStr ''security_admin'', JStr ''resource_owner'']),
      (''verified_approver_ids'', JArr [JStr ''witness-1'']), (''verified_approval_ids'', JArr ids)])"
proof -
  let ?keys = "[((''service'', ''witness-1''), JObj (sample_party_keys ''approval_artifact''))]"
  have one: "\<exists>v. verify_one_approval sample_deps sample_ed25519 self_grant ?keys (JObj (sample_approval self_grant t)) = Inr v \<and>
      pa_id (vap_approver v) = ''witness-1'' \<and> vap_approval_type v = t" if t: "t \<in> {''manual'', ''security_admin'', ''resource_owner''}" for t
  proof -
    obtain v where "verify_approval_artifact sample_deps sample_ed25519 (JObj (sample_approval self_grant t))
        (JObj (sample_party_keys ''approval_artifact'')) (IntentArg self_grant) = Inr v" "vap_approver v = sample_witness" "vap_approval_type v = t"
      using sample_approval_verifies[OF self_grant_hash t] by blast
    then show ?thesis by (simp add: verify_one_approval_def sample_party_key_of of_ta_def) (simp add: sample_witness_def)
  qed
  obtain v w where v: "verify_one_approval sample_deps sample_ed25519 self_grant ?keys (JObj (sample_approval self_grant ''security_admin'')) = Inr v"
      "pa_id (vap_approver v) = ''witness-1''" "vap_approval_type v = ''security_admin''"
    and w: "verify_one_approval sample_deps sample_ed25519 self_grant ?keys (JObj (sample_approval self_grant ''resource_owner'')) = Inr w"
      "pa_id (vap_approver w) = ''witness-1''" "vap_approval_type w = ''resource_owner''"
    using one[of "''security_admin''"] one[of "''resource_owner''"] by blast
  have "approval_key_sets [JObj (sample_party_keys ''approval_artifact'')] [] = Inr ?keys"
    by (simp add: sample_party_key_of dmem_def)
  then show ?thesis
    using v w by (simp add: with_verified_approvals_def self_approvals_def json_items_def from_keys_def)
qed

lemma sample_decision_id:
  "is_ok (preflight_decision_id sample_deps self_grant ''PREFLIGHT_REQUIREMENTS_SATISFIED'' ''allow'')"
proof -
  have "is_ok (canonicalize_bytes sample_deps (JObj [(''intent_id'', JStr (ai_intent_id self_grant)), (''capability'', JStr (capability_of self_grant)),
       (''target'', JObj (target_to_dict (ai_target self_grant))), (''outcome'', JStr ''allow''),
       (''reason_code'', JStr ''PREFLIGHT_REQUIREMENTS_SATISFIED'')]))"
    by (intro canonicalize_bytes_ok)
       (simp_all add: self_grant_def sample_defs target_to_dict_def put_defs put_if_def INT_MAX_STR_DIGITS_def)
  then show ?thesis by (simp add: preflight_decision_id_def sha256_hex_def is_ok_bindR_Inr)
qed

theorem separation_ignores_signed_approvals_witness:
  "\<exists>ev' d. with_verified_approvals sample_deps sample_ed25519 self_grant self_approvals = Inr ev' \<and>
     get_or_null ev' ''verified_approver_ids'' = JArr [JStr (pa_id (ai_requester self_grant))] \<and>
     separation_of_duties sample_texts self_grant ev' = Inr None \<and>
     preflight_check sample_deps sample_ed25519 (build_access_governance_policy_pack sample_texts DEFAULT_PRIVILEGED_ROLES)
       (IntentObject self_grant) None (EvidenceMapping self_approvals) = Inr d \<and> pf_outcome d = ''allow''"
proof -
  obtain ids where ev: "with_verified_approvals sample_deps sample_ed25519 self_grant self_approvals = Inr (dmerge self_approvals
     [(''verified_approval_present'', JBool True), (''verified_approver_types'', JArr [JStr ''security_admin'', JStr ''resource_owner'']),
      (''verified_approver_ids'', JArr [JStr ''witness-1'']), (''verified_approval_ids'', JArr ids)])" (is "_ = Inr ?ev")
    using self_approvals_verify by blast
  have sep: "separation_of_duties sample_texts self_grant ?ev = Inr None"
    by (rule separation_ignores_signed_approvals[OF ev])
      (simp_all add: pf_value_def self_approvals_def self_grant_def sample_intent_def dmem_def)
  have grant: "parameters_of self_grant = [(''role'', JStr ''admin'')]" "ai_context self_grant = []" "capability_of self_grant = ''iam.role.assign''"
    by (simp_all add: self_grant_def sample_intent_def)
  have "approval_satisfied sample_texts self_grant ?ev [''security_admin'', ''resource_owner''] = Inr True"
    by (simp add: approval_satisfied_def approval_present_def pf_truthy_def approver_types_def Let_def item_texts_def text_of_def
        from_keys_def self_approvals_def grant get_or_null_def)
  then have priv: "privileged_or_standing_access privileged sample_texts self_grant ?ev = Inr None" for privileged
    by (simp add: privileged_or_standing_access_def requested_role_def pf_string_value_def pf_value_def dmem_def text_of_def
        self_approvals_def grant get_or_null_def get_or_def Let_def)
  have cap: "domain_capability_rule pid ACCESS_GOVERNANCE_CAPABILITIES self_grant ?ev = Inr None" for pid
    by (simp add: domain_capability_rule_def grant ACCESS_GOVERNANCE_CAPABILITIES_def)
  obtain did where did: "preflight_decision_id sample_deps self_grant ''PREFLIGHT_REQUIREMENTS_SATISFIED'' ''allow'' = Inr did"
    using sample_decision_id by (auto simp: is_ok_iff)
  have "\<exists>d. preflight_check sample_deps sample_ed25519 (build_access_governance_policy_pack sample_texts DEFAULT_PRIVILEGED_ROLES)
       (IntentObject self_grant) None (EvidenceMapping self_approvals) = Inr d \<and> pf_outcome d = ''allow''"
    by (simp add: preflight_check_def coerce_intent_def coerce_evidence_def ev build_access_governance_policy_pack_def Let_def
        rule_results_def sep priv cap requirements_satisfied_rule_def decide_def did preflight_result_def del: dmerge_Cons)
  moreover have "get_or_null ?ev ''verified_approver_ids'' = JArr [JStr (pa_id (ai_requester self_grant))]"
    by (simp add: get_or_null_def self_grant_def sample_witness_def)
  ultimately show ?thesis using ev sep by blast
qed

section \<open>A permitted deletion\<close>

definition sample_deletion :: action_intent where
  "sample_deletion = sample_intent\<lparr>ai_action := \<lparr>ac_name = ''drop'', ac_capability = ''database.delete'',
     ac_parameters = [(''table'', JStr ''orders'')], ac_constraints = [], ac_scope = []\<rparr>\<rparr>"

definition deletion_evidence :: dict where
  "deletion_evidence = [(''environment'', JStr ''production''), (''change_ticket'', JStr ''CHG-1''), (''backup_verified'', JBool True),
     (''approval_present'', JBool True), (''approver_types'', JArr [JStr ''security_admin'', JStr ''infrastructure_owner''])]"

lemma deletion_facts:
  "parameters_of sample_deletion = [(''table'', JStr ''orders'')]" "ai_context sample_deletion = []" "capability_of sample_deletion = ''database.delete''"
  "tg_selectors (ai_target sample_deletion) = []"
  by (simp_all add: sample_deletion_def sample_intent_def)

lemma deletion_env: "pf_env sample_texts sample_deletion deletion_evidence = Inr ''production''"
  by (simp add: pf_env_def deletion_evidence_def deletion_facts text_of_def lower_text_def ascii_text_def py_lower_def lower_char_def)

lemma deletion_approved:
  "approval_satisfied sample_texts sample_deletion deletion_evidence [''infrastructure_owner'', ''security_admin''] = Inr True"
  by (simp add: approval_satisfied_def approval_present_def pf_truthy_def approver_types_def Let_def item_texts_def text_of_def
      from_keys_def deletion_evidence_def deletion_facts)

lemma deletion_ticket: "has_change_ticket sample_texts sample_deletion deletion_evidence"
proof -
  have "py_strip ''CHG-1'' = ''CHG-1''"
    using py_strip_visible[of "CHR ''C''" "CHR ''1''" "''HG-''"] by (simp add: is_continuation_def)
  then show ?thesis
    by (simp add: has_change_ticket_def pf_truthy_def deletion_evidence_def lower_text_def ascii_text_def py_lower_def lower_char_def FALSE_WORDS_def)
qed

lemma deletion_rules:
  "unsupported_capability sample_texts sample_deletion deletion_evidence = Inr None"
  "missing_change_ticket sample_texts sample_deletion deletion_evidence = Inr None"
  "missing_backup_evidence sample_texts sample_deletion deletion_evidence = Inr None"
  "production_destructive_without_approval sample_texts sample_deletion deletion_evidence = Inr None"
  "broad_data_export sample_texts sample_deletion deletion_evidence = Inr None"
  "admin_permission_grant sample_texts sample_deletion deletion_evidence = Inr None"
  "sandbox_low_risk_allow sample_texts sample_deletion deletion_evidence = Inr None"
  by (simp_all add: unsupported_capability_def DESTRUCTIVE_AND_DATA_CAPABILITIES_def missing_change_ticket_def deletion_env deletion_ticket
      missing_backup_evidence_def production_destructive_without_approval_def Let_def deletion_approved broad_data_export_def
      admin_permission_grant_def sandbox_low_risk_allow_def deletion_facts)
    (simp add: has_backup_evidence_def pf_truthy_def deletion_evidence_def)

lemma deletion_decision_id:
  "is_ok (preflight_decision_id sample_deps sample_deletion ''PREFLIGHT_REQUIREMENTS_SATISFIED'' ''allow'')"
proof -
  have "is_ok (canonicalize_bytes sample_deps (JObj [(''intent_id'', JStr (ai_intent_id sample_deletion)), (''capability'', JStr (capability_of sample_deletion)),
       (''target'', JObj (target_to_dict (ai_target sample_deletion))), (''outcome'', JStr ''allow''),
       (''reason_code'', JStr ''PREFLIGHT_REQUIREMENTS_SATISFIED'')]))"
    by (intro canonicalize_bytes_ok)
       (simp_all add: sample_deletion_def sample_defs target_to_dict_def put_defs put_if_def INT_MAX_STR_DIGITS_def)
  then show ?thesis by (simp add: preflight_decision_id_def sha256_hex_def is_ok_bindR_Inr)
qed

lemma deletion_unsigned:
  "with_verified_approvals sample_deps sample_ed25519 sample_deletion (coerce_evidence (EvidenceMapping deletion_evidence)) = Inr deletion_evidence"
  by (simp add: with_verified_approvals_def deletion_evidence_def coerce_evidence_def)

lemma deletion_allowed:
  "\<exists>d. preflight_check sample_deps sample_ed25519 (build_destructive_actions_policy_pack sample_texts) (IntentObject sample_deletion) None
     (EvidenceMapping deletion_evidence) = Inr d \<and> pf_outcome d = ''allow''"
proof -
  obtain did where did: "preflight_decision_id sample_deps sample_deletion ''PREFLIGHT_REQUIREMENTS_SATISFIED'' ''allow'' = Inr did"
    using deletion_decision_id by (auto simp: is_ok_iff)
  show ?thesis
    by (simp add: preflight_check_def coerce_intent_def deletion_unsigned build_destructive_actions_policy_pack_def Let_def
        rule_results_def deletion_rules default_decision_def deletion_env decide_def did preflight_result_def del: dmerge_Cons)
qed

theorem preflight_allows_iff_witness:
  "\<exists>(d :: preflight_decision) results. pf_outcome d = ''allow'' \<and> rule_results (pk_rules (build_destructive_actions_policy_pack sample_texts)) sample_deletion
     deletion_evidence = Inr results \<and> pf_unmet_requirements d = map requirement_from_result (filter (\<lambda>r. rr_outcome r \<noteq> ''allow'') results)"
proof -
  obtain d where d: "preflight_check sample_deps sample_ed25519 (build_destructive_actions_policy_pack sample_texts) (IntentObject sample_deletion) None
     (EvidenceMapping deletion_evidence) = Inr d" "pf_outcome d = ''allow''"
    using deletion_allowed by blast
  obtain results where "rule_results (pk_rules (build_destructive_actions_policy_pack sample_texts)) sample_deletion deletion_evidence = Inr results"
      "pf_unmet_requirements d = map requirement_from_result (filter (\<lambda>r. rr_outcome r \<noteq> ''allow'') results)"
    using preflight_allows_iff[OF d(1)] by (auto simp: coerce_intent_def deletion_unsigned)
  with d(2) show ?thesis by blast
qed

theorem default_pack_gates_destruction_witness:
  "has_change_ticket sample_texts sample_deletion deletion_evidence \<and> has_backup_evidence sample_texts sample_deletion deletion_evidence \<and>
   approval_present sample_texts sample_deletion deletion_evidence"
proof -
  obtain d where d: "preflight_check sample_deps sample_ed25519 (build_destructive_actions_policy_pack sample_texts) (IntentObject sample_deletion) None
     (EvidenceMapping deletion_evidence) = Inr d" "pf_outcome d = ''allow''"
    using deletion_allowed by blast
  have "requires_backup (capability_of sample_deletion)" by (simp add: requires_backup_def deletion_facts)
  from default_pack_gates_destruction[OF d(1) deletion_unsigned deletion_env this] d(2) show ?thesis by blast
qed

section \<open>Round trips\<close>

lemma str_tuple_texts [simp]: "str_tuple T ((k, JArr (map JStr xs)) # d) k = Inr xs"
  by (simp add: str_tuple_def py_iter_def mapR_eq_Inr list_all2_conv_all_nth)

lemma str_tuple_skip [simp]: "k \<noteq> k' \<Longrightarrow> str_tuple T ((k', v) # d) k = str_tuple T d k"
  "k \<noteq> k' \<Longrightarrow> dict_tuple f ((k', v) # d) k = dict_tuple f d k"
  by (simp_all add: str_tuple_def dict_tuple_def)

lemma dict_tuple_dicts:
  "\<forall>x \<in> set xs. f (g x) = Inr x \<Longrightarrow> dict_tuple f ((k, JArr (map (\<lambda>x. JObj (g x)) xs)) # d) k = Inr xs"
  by (simp add: dict_tuple_def py_iter_def mapR_eq_Inr list_all2_conv_all_nth)

lemma evidence_key_round_trip: "evidence_key_from_dict T (evidence_key_to_dict k) = Inr k"
  by (simp add: evidence_key_from_dict_def evidence_key_to_dict_def index_str_def py_index_def)

lemma requirement_round_trip:
  "rt_outcome r \<in> set PREFLIGHT_OUTCOMES \<Longrightarrow> requirement_from_dict T (requirement_to_dict r) = Inr r"
  by (simp add: requirement_from_dict_def requirement_to_dict_def checked_outcome_def index_str_def py_index_def dict_tuple_dicts
      evidence_key_round_trip)

definition decision_valid :: "preflight_decision \<Rightarrow> bool" where
  "decision_valid d \<longleftrightarrow> pf_outcome d \<in> set PREFLIGHT_OUTCOMES \<and> (\<forall>r \<in> set (pf_unmet_requirements d). rt_outcome r \<in> set PREFLIGHT_OUTCOMES)"

lemma valid_decision_round_trip:
  assumes "decision_valid d"
  shows "decision_from_dict T (decision_to_dict d) = Inr d"
  using assms
  by (simp add: decision_from_dict_def decision_to_dict_def contract_entry_def checked_outcome_def index_str_def py_index_def dict_tuple_dicts
      requirement_round_trip decision_valid_def)

text \<open>Packs whose rules only give the four outcomes: the five packs of the source are such packs.\<close>

definition pack_valid :: "policy_pack \<Rightarrow> bool" where
  "pack_valid pack \<longleftrightarrow> (\<forall>rule \<in> set (pk_rules pack). \<forall>i ev r. rule i ev = Inr (Some r) \<longrightarrow> rr_outcome r \<in> set PREFLIGHT_OUTCOMES)"

definition gives_outcome :: "rule_result option res \<Rightarrow> bool" where
  "gives_outcome m \<longleftrightarrow> (\<forall>r. m = Inr (Some r) \<longrightarrow> rr_outcome r \<in> set PREFLIGHT_OUTCOMES)"

lemma gives_outcome_intros:
  "gives_outcome (Inr None)"
  "oc \<in> set PREFLIGHT_OUTCOMES \<Longrightarrow> gives_outcome (Inr (Some (preflight_result oc rc su rl mr re ra ek md)))"
  "gives_outcome a \<Longrightarrow> gives_outcome b \<Longrightarrow> gives_outcome (if c then a else b)"
  "(\<And>x. gives_outcome (f x)) \<Longrightarrow> gives_outcome (bindR m f)"
  "(\<And>x. gives_outcome (f x)) \<Longrightarrow> gives_outcome (Let v f)"
  by (auto simp: gives_outcome_def bindR_eq_Inr Let_def)

lemma rules_give_outcomes:
  "gives_outcome (domain_capability_rule p cs i ev)" "gives_outcome (requirements_satisfied_rule p su i ev)"
  "gives_outcome (unsupported_capability X i ev)" "gives_outcome (missing_change_ticket X i ev)"
  "gives_outcome (missing_backup_evidence X i ev)" "gives_outcome (production_destructive_without_approval X i ev)"
  "gives_outcome (broad_data_export X i ev)" "gives_outcome (admin_permission_grant X i ev)"
  "gives_outcome (sandbox_low_risk_allow X i ev)" "gives_outcome (default_decision X i ev)"
  "gives_outcome (classification_required X i ev)" "gives_outcome (broad_or_sensitive_export n X i ev)"
  "gives_outcome (external_destination_control ds X i ev)" "gives_outcome (residency_control rs X i ev)"
  "gives_outcome (privileged_or_standing_access ps X i ev)" "gives_outcome (separation_of_duties X i ev)"
  "gives_outcome (payment_approval n X i ev)" "gives_outcome (payee_verification X i ev)"
  "gives_outcome (high_risk_clinical_action X i ev)"
  unfolding domain_capability_rule_def requirements_satisfied_rule_def unsupported_capability_def missing_change_ticket_def
    missing_backup_evidence_def production_destructive_without_approval_def broad_data_export_def admin_permission_grant_def
    sandbox_low_risk_allow_def default_decision_def classification_required_def broad_or_sensitive_export_def
    external_destination_control_def residency_control_def privileged_or_standing_access_def separation_of_duties_def
    payment_approval_def payee_verification_def high_risk_clinical_action_def
  by (intro gives_outcome_intros; simp add: PREFLIGHT_OUTCOMES_def)+

lemma pack_valid_gives: "pack_valid pack \<longleftrightarrow> (\<forall>rule \<in> set (pk_rules pack). \<forall>i ev. gives_outcome (rule i ev))"
  by (auto simp: pack_valid_def gives_outcome_def)

lemma built_in_packs_valid:
  "pack_valid (build_destructive_actions_policy_pack X)"
  "pack_valid (build_access_governance_policy_pack X roles)"
  "pack_valid (build_clinical_policy_pack_template X)"
  "build_data_privacy_policy_pack X n ds rs = Inr pack \<Longrightarrow> pack_valid pack"
  "build_payments_policy_pack X n = Inr pack \<Longrightarrow> pack_valid pack"
  by (auto simp: pack_valid_gives rules_give_outcomes build_destructive_actions_policy_pack_def build_access_governance_policy_pack_def
      build_clinical_policy_pack_template_def build_data_privacy_policy_pack_def build_payments_policy_pack_def Let_def split: if_splits)

lemma decided_valid:
  assumes "pack_valid pack" "rule_results (pk_rules pack) i ev = Inr results" "decided_from results d"
  shows "decision_valid d"
proof -
  have "\<forall>r \<in> set results. rr_outcome r \<in> set PREFLIGHT_OUTCOMES"
    using rule_results_set[OF assms(2)] assms(1) by (auto simp: pack_valid_def)
  then show ?thesis
    using assms(3) by (auto simp: decided_from_def decision_valid_def requirement_from_result_def)
qed

text \<open>Every decision under such a pack survives its dictionary.\<close>

theorem preflight_decision_round_trip:
  assumes "preflight_check D ed pack intent None evidence = Inr d" "pack_valid pack"
  shows "decision_from_dict T (decision_to_dict d) = Inr d"
proof -
  obtain i ev results where "rule_results (pk_rules pack) i ev = Inr results" "decided_from results d"
    using assms(1) by (rule preflight_check_Inr) simp
  then show ?thesis using valid_decision_round_trip decided_valid[OF assms(2)] by blast
qed

text \<open>
  A role that is explicitly null is the role \<open>none\<close>: the permission is then not looked at, and whatever it grants needs
  no approval.
\<close>

lemma null_role_hides_permission:
  assumes "pf_value i ev ''role'' (JStr []) = JNull" "pf_value i ev ''role_tier'' (JStr []) = JStr []"
    and "pf_value i ev ''access_mode'' (JStr ''jit'') = JStr ''jit''"
  shows "privileged_or_standing_access DEFAULT_PRIVILEGED_ROLES X i ev = Inr None"
proof -
  have strip: "py_strip ''None'' = ''None''" "py_strip ''jit'' = ''jit''" "py_strip [] = []"
    using py_strip_visible[of "CHR ''N''" "CHR ''e''" "''on''"] py_strip_visible[of "CHR ''j''" "CHR ''t''" "''i''"]
    by (simp_all add: is_continuation_def py_strip_def)
  moreover have "py_lower ''None'' = ''none''" "py_lower ''jit'' = ''jit''" by code_simp+
  ultimately have "normal_text X ''None'' = ''none''" "normal_text X ''jit'' = ''jit''" "normal_text X [] = []"
    by (simp_all add: normal_text_def lower_text_def ascii_text_def) (simp add: py_lower_def)
  then show ?thesis
    using assms by (simp add: privileged_or_standing_access_def requested_role_def pf_string_value_def text_of_def DEFAULT_PRIVILEGED_ROLES_def)
qed

end
