(* ===== verification/Gate.thy ===== *)
theory Gate
  imports Preflight
begin

text \<open>
  The gate (\<^verbatim>\<open>gate.py\<close>): the facade that mints proofs, asks the preflight engine and hands a protected side effect to the
  executor. The executor it builds, its escrow and its minter are fields of the gate. The readings of its clock and of its
  request-id, proof-id and escrow-id factories are arguments; a side effect is given with the number of positional
  arguments \<open>inspect.signature\<close> reports for it, a signature that cannot be read counting as none.
\<close>

section \<open>Outcomes\<close>

record gate_outcome =
  go_receipt :: "receipt option"
  go_refusal :: "refusal option"
  go_payload :: "dict option"
  go_unmet_requirements :: "requirement list"

definition gate_ok :: "gate_outcome \<Rightarrow> bool" where
  "gate_ok o' \<longleftrightarrow> go_refusal o' = None \<and> (case go_receipt o' of None \<Rightarrow> False | Some r \<Rightarrow> rc_outcome r = ''executed'')"

definition gate_outcome_word :: "gate_outcome \<Rightarrow> string" where
  "gate_outcome_word o' = (if gate_ok o' then ''executed'' else ''refused'')"

definition gate_reason_code :: "gate_outcome \<Rightarrow> json" where
  "gate_reason_code o' = (case go_refusal o' of Some f \<Rightarrow> JStr (rf_reason_code f) | None \<Rightarrow> JNull)"

definition gate_outcome_to_dict :: "gate_outcome \<Rightarrow> dict" where
  "gate_outcome_to_dict o' =
     (let d = [(''ok'', JBool (gate_ok o')), (''outcome'', JStr (gate_outcome_word o')), (''reason_code'', gate_reason_code o'),
            (''unmet_requirements'', JArr (map (\<lambda>r. JObj (requirement_to_dict r)) (go_unmet_requirements o'))),
            (''payload'', case go_payload o' of None \<Rightarrow> JNull | Some p \<Rightarrow> JObj p)];
          d' = (case go_receipt o' of None \<Rightarrow> d | Some r \<Rightarrow> dput d ''receipt'' (JObj (receipt_to_dict r))) in
      case go_refusal o' of None \<Rightarrow> d' | Some f \<Rightarrow> dput d' ''refusal'' (JObj (refusal_to_dict f)))"

section \<open>Arguments\<close>

datatype audience_arg = AudienceObject audience_ref | AudienceText string
datatype issuer_text = IssuerObject party_ref | IssuerText string

text \<open>\<open>value.partition(":")\<close>: what is before and after the first colon, if there is one.\<close>

definition partition_colon :: "string \<Rightarrow> (string \<times> string) option" where
  "partition_colon s = (case dropWhile (\<lambda>c. c \<noteq> CHR '':'') s of [] \<Rightarrow> None
     | _ # rest \<Rightarrow> Some (takeWhile (\<lambda>c. c \<noteq> CHR '':'') s, rest))"

definition coerce_audience :: "audience_arg \<Rightarrow> audience_ref res" where
  "coerce_audience a = (case a of AudienceObject r \<Rightarrow> Inr r
     | AudienceText s \<Rightarrow> (case partition_colon s of
         None \<Rightarrow> Inr \<lparr>au_type = ''service'', au_id = s, au_uri = JNull\<rparr>
       | Some (ty, i) \<Rightarrow> if ty = [] \<or> i = []
           then Inl (Raise ValueError ''audience must be an AudienceRef or a non-empty 'type:id' string'')
           else Inr \<lparr>au_type = ty, au_id = i, au_uri = JNull\<rparr>))"

definition coerce_party :: "issuer_text \<Rightarrow> party_ref res" where
  "coerce_party a = (case a of IssuerObject r \<Rightarrow> Inr r
     | IssuerText s \<Rightarrow> (case partition_colon s of
         None \<Rightarrow> Inr \<lparr>pa_type = ''service'', pa_id = s, pa_display_name = JNull, pa_attributes = []\<rparr>
       | Some (ty, i) \<Rightarrow> if ty = [] \<or> i = []
           then Inl (Raise ValueError ''issuer must be a PartyRef or a non-empty 'type:id' string'')
           else Inr \<lparr>pa_type = ty, pa_id = i, pa_display_name = JNull, pa_attributes = []\<rparr>))"

section \<open>From a preflight decision to a policy decision\<close>

definition policy_outcome :: "string \<Rightarrow> string res" where
  "policy_outcome v = (case map_of [(''allow'', ''allow''), (''deny'', ''deny''), (''approval_required'', ''approval-required''),
      (''needs_evidence'', ''needs-evidence'')] v of None \<Rightarrow> Inl (Raise KeyError v) | Some w \<Rightarrow> Inr w)"

definition requirement_evaluation :: "requirement \<Rightarrow> rule_evaluation res" where
  "requirement_evaluation r = bindR (policy_outcome (rt_outcome r)) (\<lambda>outcome.
     Inr \<lparr>ru_rule_id = (case rt_matched_rules r of [] \<Rightarrow> ''actenon.gate.preflight'' | m # _ \<Rightarrow> m), ru_outcome = outcome,
       ru_reason_code = rt_reason_code r, ru_summary = rt_summary r,
       ru_details = [(''evidence_keys'', JArr (map (\<lambda>k. JObj (evidence_key_to_dict k)) (rt_evidence_keys r))),
         (''risk_level'', JStr (rt_risk_level r))],
       ru_required_evidence = rt_required_evidence r, ru_approver_types = rt_required_approvals r\<rparr>)"

definition policy_from_preflight :: "preflight_decision \<Rightarrow> policy_decision res" where
  "policy_from_preflight d =
     bindR (policy_outcome (pf_outcome d)) (\<lambda>outcome.
     bindR (if pf_unmet_requirements d \<noteq> [] then mapR requirement_evaluation (pf_unmet_requirements d)
       else Inr (map (\<lambda>rule_id. \<lparr>ru_rule_id = rule_id, ru_outcome = outcome, ru_reason_code = pf_reason_code d, ru_summary = pf_summary d,
           ru_details = [], ru_required_evidence = pf_required_evidence d, ru_approver_types = pf_required_approvals d\<rparr>)
         (if pf_matched_rules d \<noteq> [] then pf_matched_rules d else [''actenon.gate.preflight'']))) (\<lambda>evaluations.
     Inr \<lparr>pd_outcome = outcome, pd_summary = pf_summary d, pd_rule_evaluations = evaluations,
       pd_reason_codes = fold (\<lambda>r codes. if rt_reason_code r \<in> set codes then codes else codes @ [rt_reason_code r])
         (pf_unmet_requirements d) [pf_reason_code d],
       pd_required_evidence = pf_required_evidence d, pd_approver_types = pf_required_approvals d\<rparr>))"

section \<open>The gate\<close>

record ('s, 'e, 'w) gate =
  gt_audience :: audience_ref
  gt_issuer :: party_ref
  gt_minter :: "minter option"
  gt_declared_capabilities :: "string list option"
  gt_declared_parameter_constraints :: dict
  gt_declared_resource_selectors :: "dict list"
  gt_policy_pack :: "policy_pack option"
  gt_issue :: "(string \<Rightarrow> string \<Rightarrow> string \<Rightarrow> datetime \<Rightarrow> dict option \<Rightarrow> ('e, escrow_record) prog) option"
  gt_executor :: "('s, 'e, 'w) executor"
  gt_own_downgrades :: "string list"

text \<open>
  \<open>__init__\<close>, as far as it can fail or records a downgrade; \<open>P\<close> is the process the gate is built in, and the executor is
  the one around the verifier, absent when the verifier is.
\<close>

definition gate_init :: "process \<Rightarrow> audience_arg \<Rightarrow> issuer_text \<Rightarrow> minter option \<Rightarrow> string list option \<Rightarrow> dict \<Rightarrow> dict list
    \<Rightarrow> policy_pack option \<Rightarrow> (string \<Rightarrow> string \<Rightarrow> string \<Rightarrow> datetime \<Rightarrow> dict option \<Rightarrow> ('e, escrow_record) prog) option
    \<Rightarrow> ('s, 'e, 'w) executor option \<Rightarrow> ('s, 'e, 'w) gate res" where
  "gate_init P audience issuer minter capabilities parameter_constraints resource_selectors policy_pack issue executor =
     (case executor of None \<Rightarrow> Inl (Raise ValueError (''ActenonGate requires a verifier. '' @
        ''Use ActenonGate.local_dev(...) for local development, or pass a configured SignatureVerifier for production.''))
     | Some X \<Rightarrow>
     bindR (coerce_audience audience) (\<lambda>aud.
     bindR (coerce_party issuer) (\<lambda>iss.
     bindR (case capabilities of
         None \<Rightarrow> bindR (permit_downgrade P ''undeclared_capabilities'' ''ACTENON_UNSAFE_ALLOW_UNDECLARED_CAPABILITIES''
           ''An ActenonGate with no declared capabilities'') (\<lambda>d. Inr [d])
       | Some _ \<Rightarrow> Inr []) (\<lambda>downgrades.
     Inr \<lparr>gt_audience = aud, gt_issuer = iss, gt_minter = minter, gt_declared_capabilities = capabilities,
       gt_declared_parameter_constraints = parameter_constraints, gt_declared_resource_selectors = resource_selectors,
       gt_policy_pack = policy_pack, gt_issue = issue, gt_executor = X, gt_own_downgrades = downgrades\<rparr>))))"

definition gate_context :: "('s, 'e, 'w) gate \<Rightarrow> string \<Rightarrow> datetime \<Rightarrow> action_intent \<Rightarrow> audience_ref \<Rightarrow> dict \<Rightarrow> dynamic_context" where
  "gate_context G request_id now i audience ev =
     \<lparr>cx_request_id = request_id, cx_audience = audience,
      cx_scope_capabilities = (case gt_declared_capabilities G of Some cs \<Rightarrow> cs | None \<Rightarrow> [capability_of i]),
      cx_now = now, cx_facts = ev, cx_parameter_constraints = gt_declared_parameter_constraints G,
      cx_resource_selectors = gt_declared_resource_selectors G, cx_required_evidence_types = [], cx_approver_types = [],
      cx_max_ttl_seconds = Some 900\<rparr>"

definition minting_context :: "('s, 'e, 'w) gate \<Rightarrow> string \<Rightarrow> datetime \<Rightarrow> action_intent \<Rightarrow> dynamic_context" where
  "minting_context G request_id now i =
     \<lparr>cx_request_id = request_id, cx_audience = gt_audience G, cx_scope_capabilities = [capability_of i], cx_now = now, cx_facts = [],
      cx_parameter_constraints = (if ac_constraints (ai_action i) \<noteq> [] then ac_constraints (ai_action i) else parameters_of i),
      cx_resource_selectors = [if tg_selectors (ai_target i) \<noteq> [] then tg_selectors (ai_target i)
        else [(''resource_id'', JStr (tg_resource_id (ai_target i)))]],
      cx_required_evidence_types = [], cx_approver_types = [], cx_max_ttl_seconds = Some 900\<rparr>"

definition gate_allow :: policy_decision where
  "gate_allow = \<lparr>pd_outcome = ''allow'', pd_summary = ''The configured issuer allowed proof minting for this exact action.'',
     pd_rule_evaluations = [], pd_reason_codes = [''GATE_PROOF_MINTED''], pd_required_evidence = [], pd_approver_types = []\<rparr>"

definition mint_proof :: "deps \<Rightarrow> ('s, 'e, 'w) gate \<Rightarrow> string \<Rightarrow> datetime \<Rightarrow> string \<Rightarrow> string \<Rightarrow> string \<Rightarrow> intent_arg \<Rightarrow> string \<Rightarrow> json
    \<Rightarrow> (('s, 'e, 'w) world, pccb) prog" where
  "mint_proof D G request_id now escrow_id pccb_id nonce action decision_word authority =
     (case gt_minter G of
        None \<Rightarrow> raiseP (Raise RuntimeError ''this gate is verifier-only; configure a signer to mint proofs'')
      | Some M \<Rightarrow>
        if decision_word \<noteq> ''allow'' then raiseP (Raise ValueError (''PCCB minting requires decision='allow'' @ [CHR 0x27]))
        else
        bindP (liftP (coerce_intent D action)) (\<lambda>i.
        bindP (liftP (mint D M pccb_id nonce i gate_allow (minting_context G request_id now i)
          (if gt_issue G = None then JNull else JStr escrow_id)
          (if authority = JNull then [] else [(''authority'', authority)]))) (\<lambda>p.
        case gt_issue G of
          None \<Rightarrow> retP p
        | Some issue \<Rightarrow> bindP (on_escrow (issue escrow_id (pc_pccb_id p) (capability_of i) (pc_expires_at p)
            (Some [(''intent_id'', JStr (ai_intent_id i)), (''issuer'', JObj (party_to_dict (gt_issuer G)))]))) (\<lambda>_. retP p))))"

text \<open>
  \<open>mint_proof_after_preflight\<close>: the callable's answer is a JSON value or an object of another class, of which only its
  attribute \<open>allowed\<close> is \<open>False\<close> or not matters.
\<close>

datatype preflight_answer = Answer json | AnswerObject bool string

definition DENIAL_WORDS :: "string list" where
  "DENIAL_WORDS = [''deny'', ''denied'', ''refuse'', ''refused'', ''block'', ''blocked'']"

abbreviation PermissionError :: "string \<Rightarrow> exn" where
  "PermissionError \<equiv> Raise (OtherError ''PermissionError'')"

definition check_answer :: "text_ops \<Rightarrow> preflight_answer \<Rightarrow> unit res" where
  "check_answer X answer = (case answer of
      Answer (JBool False) \<Rightarrow> Inl (PermissionError ''PREFLIGHT_POLICY_DENIED'')
    | Answer (JObj d) \<Rightarrow>
        bindR (text_of X (get_or d ''decision'' (get_or d ''status'' (JStr [])))) (\<lambda>status.
        if get_or_null d ''allowed'' = JBool False \<or> lower_text X status \<in> set DENIAL_WORDS
        then bindR (text_of X (get_or d ''reason'' (JStr ''PREFLIGHT_POLICY_DENIED''))) (\<lambda>reason. Inl (PermissionError reason))
        else Inr ())
    | AnswerObject disallowed reason \<Rightarrow> if disallowed then Inl (PermissionError reason) else Inr ()
    | _ \<Rightarrow> Inr ())"

definition mint_proof_after_preflight :: "deps \<Rightarrow> text_ops \<Rightarrow> ('s, 'e, 'w) gate \<Rightarrow> string \<Rightarrow> datetime \<Rightarrow> string \<Rightarrow> string \<Rightarrow> string
    \<Rightarrow> intent_arg \<Rightarrow> (intent_arg \<Rightarrow> preflight_answer res) option \<Rightarrow> string \<Rightarrow> json \<Rightarrow> (('s, 'e, 'w) world, pccb) prog" where
  "mint_proof_after_preflight D X G request_id now escrow_id pccb_id nonce action preflight decision_word authority =
     (case preflight of
        None \<Rightarrow> raiseP (Raise ValueError ''mint_proof_after_preflight requires a preflight policy callable'')
      | Some ask \<Rightarrow>
        bindP (liftP (ask action)) (\<lambda>answer.
        bindP (liftP (check_answer X answer)) (\<lambda>_.
        mint_proof D G request_id now escrow_id pccb_id nonce action decision_word authority)))"

section \<open>Protection\<close>

datatype 'w side_effect =
    Plain "('w, json) prog"
  | OnIntent "action_intent \<Rightarrow> ('w, json) prog"
  | OnRequest "execution_request \<Rightarrow> brokered_credential \<Rightarrow> ('w, json) prog"

definition as_payload :: "json \<Rightarrow> dict" where
  "as_payload v = (case v of JNull \<Rightarrow> [] | JObj d \<Rightarrow> d | _ \<Rightarrow> [(''result'', v)])"

definition invoke_side_effect :: "'w side_effect \<Rightarrow> 'w brokered_handler" where
  "invoke_side_effect se rq c =
     bindP (case se of Plain f \<Rightarrow> f | OnIntent f \<Rightarrow> f (rq_intent rq) | OnRequest f \<Rightarrow> f rq c) (\<lambda>v. retP (Some (as_payload v)))"

datatype proof_arg = ProofObject pccb | ProofMapping json | NoProof

definition gate_refuse :: "deps \<Rightarrow> ('s, 'e, 'w) gate \<Rightarrow> action_intent \<Rightarrow> dynamic_context \<Rightarrow> refusal_exception \<Rightarrow> requirement list
    \<Rightarrow> (('s, 'e, 'w) world, gate_outcome) prog" where
  "gate_refuse D G i cx exc unmet_requirements =
     bindP (new_artifact (ex_refusal_id (gt_executor G)) (\<lambda>rid.
       Inr (create_from_exception rid exc (cx_now cx) (Some i) (Some cx) JNull JNull None))) (\<lambda>refusal.
     bindP (new_artifact (ex_receipt_id (gt_executor G)) (\<lambda>rid.
       create_refused_receipt (ex_text (gt_executor G)) rid i cx refusal)) (\<lambda>receipt.
     bindP (store_refusal D (gt_executor G) refusal) (\<lambda>_.
     bindP (store_receipt D (gt_executor G) receipt) (\<lambda>_.
     retP \<lparr>go_receipt = Some receipt, go_refusal = Some refusal, go_payload = None, go_unmet_requirements = unmet_requirements\<rparr>))))"

text \<open>The proof of a request: an object, or a mapping that is parsed; a refusal for \<open>_refuse\<close> is in the left summand.\<close>

definition read_proof :: "deps \<Rightarrow> proof_arg \<Rightarrow> string \<Rightarrow> (refusal_exception + pccb) res" where
  "read_proof D proof missing_proof_reason_code = (case proof of
      NoProof \<Rightarrow> Inr (Inl (simple_refusal ''proof'' missing_proof_reason_code
        ''The protected action did not include a proof credential block.'' []))
    | ProofObject p \<Rightarrow> Inr (Inr p)
    | ProofMapping v \<Rightarrow> (case pccb_from_dict v of
        Inr p \<Rightarrow> Inr (Inr p)
      | Inl (Raise c m) \<Rightarrow> if is_value_error D c
          then Inr (Inl (simple_refusal ''schema'' ''SCHEMA_INVALID'' (''PCCB contract validation failed: '' @ m) []))
          else Inl (Raise c m)
      | Inl e \<Rightarrow> Inl e))"

text \<open>The preflight of the gate: the policy decision for the executor and the unmet requirements.\<close>

definition gate_preflight :: "deps \<Rightarrow> ed25519 \<Rightarrow> ('s, 'e, 'w) gate \<Rightarrow> action_intent \<Rightarrow> dict \<Rightarrow> (policy_decision option \<times> requirement list) res" where
  "gate_preflight D ed G i ev = (case gt_policy_pack G of
      None \<Rightarrow> Inr (None, [])
    | Some pack \<Rightarrow>
      bindR (preflight_check D ed pack (IntentObject i) None (EvidenceMapping ev)) (\<lambda>preflight.
      bindR (policy_from_preflight preflight) (\<lambda>d.
      Inr (Some d, pf_unmet_requirements preflight))))"

text \<open>From the check of the escrow reference on.\<close>

definition run_protected :: "deps \<Rightarrow> ('s, 'e, 'w) gate \<Rightarrow> action_intent \<Rightarrow> dynamic_context \<Rightarrow> 'w side_effect \<Rightarrow> policy_decision option
    \<Rightarrow> requirement list \<Rightarrow> pccb \<Rightarrow> (('s, 'e, 'w) world, gate_outcome) prog" where
  "run_protected D G i cx side_effect policy_decision unmet_requirements p =
     (if gt_issue G \<noteq> None \<and> pc_escrow_id p = JNull
      then raiseP (EscrowConfigurationError
        (''Actenon escrow is enabled, but the proof is missing `pccb.escrow_reference.escrow_id`. Mint the proof with '' @
         ''ActenonGate.mint_proof(...) on the same escrow-enabled gate so the PCCB and escrow record are created together.'')
        ''pccb.escrow_reference.escrow_id'' ''ActenonGate.mint_proof(...)'')
      else
      bindP (execute D (gt_executor G) \<lparr>rq_intent = i, rq_pccb = p, rq_context = cx\<rparr> (invoke_side_effect side_effect) policy_decision)
        (\<lambda>result.
      retP \<lparr>go_receipt = xr_receipt result, go_refusal = xr_refusal result, go_payload = xr_payload result,
        go_unmet_requirements = unmet_requirements\<rparr>))"

definition protect :: "deps \<Rightarrow> ed25519 \<Rightarrow> ('s, 'e, 'w) gate \<Rightarrow> string \<Rightarrow> datetime \<Rightarrow> intent_arg \<Rightarrow> proof_arg \<Rightarrow> 'w side_effect
    \<Rightarrow> audience_arg option \<Rightarrow> evidence_arg \<Rightarrow> string \<Rightarrow> (('s, 'e, 'w) world, gate_outcome) prog" where
  "protect D ed G request_id now action proof side_effect audience evidence missing_proof_reason_code =
     bindP (liftP (coerce_intent D action)) (\<lambda>i.
     bindP (liftP (case audience of Some a \<Rightarrow> coerce_audience a | None \<Rightarrow> Inr (gt_audience G))) (\<lambda>aud.
     let ev = coerce_evidence evidence; cx = gate_context G request_id now i aud ev in
     bindP (liftP (gate_preflight D ed G i ev)) (\<lambda>(policy_decision, unmet_requirements).
     bindP (liftP (read_proof D proof missing_proof_reason_code)) (\<lambda>read.
     case read of
       Inl exc \<Rightarrow> gate_refuse D G i cx exc unmet_requirements
     | Inr p \<Rightarrow> run_protected D G i cx side_effect policy_decision unmet_requirements p))))"

section \<open>What an action needs\<close>

text \<open>The stores and the outside world are as in \<open>w\<close>; only identifiers are drawn and outcomes written.\<close>

definition untouched :: "('s, 'e, 'w) world \<Rightarrow> ('s, 'e, 'w, 'z) world_scheme \<Rightarrow> bool" where
  "untouched w s \<longleftrightarrow> wo_replay s = wo_replay w \<and> wo_escrow s = wo_escrow w \<and> wo_outside s = wo_outside w \<and>
     wo_idempotency s = wo_idempotency w"

lemma untouched_truncate [simp]: "untouched w (world.truncate s) = untouched w s" "untouched w (start_state w)" "untouched w w"
  by (simp_all add: untouched_def world.defs start_state_def)

lemma keeps_untouched:
  "keeps (untouched w) (new_artifact ids b)" "keeps (untouched w) (store_refusal D X f)" "keeps (untouched w) (store_receipt D X r)"
  "keeps (untouched w) (liftP m)" "keeps (untouched w) (retP x)" "keeps (untouched w) (readP g)" "keeps (untouched w) (raiseP e)"
  by (rule keepsI; simp add: untouched_def new_artifact_def store_refusal_def store_receipt_def on_writer_def prog_defs
      split: sum.split prod.split)+

lemma report_refusal_untouched:
  "valid (untouched w) (report_refusal D X rq exc) (\<lambda>r s. untouched w s \<and> xr_refusal r \<noteq> None) (\<lambda>_. untouched w)"
  unfolding report_refusal_def
  by (intro valid_step[OF keeps_untouched(1)] valid_step[OF keeps_untouched(2)] valid_step[OF keeps_untouched(3)]
      valid_step[OF keeps_untouched(6)] valid_step[OF valid_case_option] keeps_untouched)
    (auto simp: valid_def retP_def)

lemma uncleared_body:
  assumes "\<not> cleared D X rq dec"
  shows "\<exists>e. execute_body D X rq handler dec s = (Inl e, s)"
  using assms
  by (cases "verify D (ex_verifier X) (rq_intent rq) (rq_pccb rq) (rq_context rq)")
     (auto simp: execute_body_def prog_defs check_policy_def cleared_def split: option.splits)

lemma uncleared_try:
  assumes "\<not> cleared D X rq dec"
  shows "\<exists>exc. execute_try D X rq handler dec (start_state w) = report_refusal D X rq exc (start_state w)"
proof -
  obtain e where "execute_body D X rq handler dec (start_state w) = (Inl e, start_state w)"
    using uncleared_body[OF assms] by blast
  then show ?thesis
    by (cases e)
       (auto simp: execute_try_def catchP_def on_refusal_def on_exception_def prog_defs start_state_def world.defs Let_def
         release_credential_def release_replay_claim_def split: option.splits)
qed

lemma uncleared_execute:
  assumes "\<not> cleared D X rq dec"
  shows "untouched w (snd (execute D X rq handler dec w)) \<and>
    pred_sum (\<lambda>_. True) (\<lambda>r. xr_refusal r \<noteq> None) (fst (execute D X rq handler dec w))"
proof -
  obtain exc where "execute_try D X rq handler dec (start_state w) = report_refusal D X rq exc (start_state w)"
    using uncleared_try[OF assms] by blast
  moreover have "case report_refusal D X rq exc (start_state w) of (Inl e, s) \<Rightarrow> untouched w s | (Inr r, s) \<Rightarrow> untouched w s \<and> xr_refusal r \<noteq> None"
    by (rule report_refusal_untouched[unfolded valid_def, rule_format]) simp
  ultimately show ?thesis by (auto simp: execute_def split: prod.splits sum.splits)
qed


text \<open>The gate lets an action through: its proof verifies against what the gate itself declares, and its preflight, if it has a pack, allows.\<close>

definition gate_clears :: "deps \<Rightarrow> ed25519 \<Rightarrow> ('s, 'e, 'w) gate \<Rightarrow> string \<Rightarrow> datetime \<Rightarrow> action_intent \<Rightarrow> pccb \<Rightarrow> audience_ref \<Rightarrow> dict \<Rightarrow> bool" where
  "gate_clears D ed G request_id now i p aud ev \<longleftrightarrow>
     verify D (ex_verifier (gt_executor G)) i p (gate_context G request_id now i aud ev) = Inr () \<and>
     (case gt_policy_pack G of None \<Rightarrow> True
      | Some pack \<Rightarrow> \<exists>d. preflight_check D ed pack (IntentObject i) None (EvidenceMapping ev) = Inr d \<and> pf_outcome d = ''allow'')"

definition requests :: "deps \<Rightarrow> ('s, 'e, 'w) gate \<Rightarrow> intent_arg \<Rightarrow> proof_arg \<Rightarrow> string \<Rightarrow> audience_arg option \<Rightarrow> action_intent \<Rightarrow> pccb \<Rightarrow> audience_ref \<Rightarrow> bool" where
  "requests D G action proof code audience i p aud \<longleftrightarrow> coerce_intent D action = Inr i \<and> read_proof D proof code = Inr (Inr p) \<and>
     (case audience of Some a \<Rightarrow> coerce_audience a | None \<Rightarrow> Inr (gt_audience G)) = Inr aud"

lemma policy_outcome_allow: "policy_outcome s = Inr ''allow'' \<longleftrightarrow> s = ''allow''"
  by (auto simp: policy_outcome_def split: if_splits)

lemma gate_preflight_Inr:
  assumes "gate_preflight D ed G i ev = Inr (dec, unmet)"
  shows "pred_option decision_allowed dec \<longleftrightarrow> (case gt_policy_pack G of None \<Rightarrow> True
      | Some pack \<Rightarrow> \<exists>d. preflight_check D ed pack (IntentObject i) None (EvidenceMapping ev) = Inr d \<and> pf_outcome d = ''allow'')"
proof (cases "gt_policy_pack G")
  case None
  then show ?thesis using assms by (simp add: gate_preflight_def)
next
  case (Some pack)
  then obtain d pd where d: "preflight_check D ed pack (IntentObject i) None (EvidenceMapping ev) = Inr d"
      "policy_from_preflight d = Inr pd" "dec = Some pd"
    using assms unfolding gate_preflight_def by (auto elim!: bindR_eq_InrE)
  have "policy_outcome (pf_outcome d) = Inr (pd_outcome pd)"
    using d(2) unfolding policy_from_preflight_def by (elim bindR_eq_InrE) auto
  then have "decision_allowed pd \<longleftrightarrow> pf_outcome d = ''allow''"
    using policy_outcome_allow[of "pf_outcome d"] by (auto simp: decision_allowed_def)
  then show ?thesis using Some d by simp
qed

lemma gate_refuse_untouched:
  "valid (untouched w) (gate_refuse D G i cx exc unmet) (\<lambda>out s. untouched w s \<and> \<not> gate_ok out) (\<lambda>_. untouched w)"
  unfolding gate_refuse_def
  by (intro valid_step[OF keeps_untouched(1)] valid_step[OF keeps_untouched(2)] valid_step[OF keeps_untouched(3)])
    (auto simp: valid_def retP_def gate_ok_def)

lemma valid_lifted:
  "(\<And>x. m = Inr x \<Longrightarrow> valid P (f x) Q E) \<Longrightarrow> (\<And>s e. P s \<Longrightarrow> E e s) \<Longrightarrow> valid P (bindP (liftP m) f) Q E"
  by (cases m) (auto simp: valid_def bindP_def liftP_def)

lemma uncleared_execute_valid:
  assumes "\<not> cleared D X rq dec"
  shows "valid (untouched w) (execute D X rq handler dec) (\<lambda>r s. untouched w s \<and> xr_refusal r \<noteq> None) (\<lambda>_. untouched w)"
proof -
  have "untouched w s' \<and> pred_sum (\<lambda>_. True) (\<lambda>r. xr_refusal r \<noteq> None) r"
    if "untouched w s" "execute D X rq handler dec s = (r, s')" for s r s'
    using uncleared_execute[OF assms, of s handler] that by (simp add: untouched_def)
  then show ?thesis by (intro validI) fastforce+
qed

lemma uncleared_run:
  assumes "\<not> cleared D (gt_executor G) \<lparr>rq_intent = i, rq_pccb = p, rq_context = cx\<rparr> dec"
  shows "valid (untouched w) (run_protected D G i cx side_effect dec unmet p) (\<lambda>out s. untouched w s \<and> \<not> gate_ok out) (\<lambda>_. untouched w)"
  unfolding run_protected_def
  by (rule valid_if, simp add: valid_def raiseP_def, rule valid_bindP[OF uncleared_execute_valid[OF assms]])
    (auto simp: valid_def retP_def gate_ok_def)

lemma uncleared_protect:
  assumes "\<forall>i p aud. requests D G action proof code audience i p aud \<longrightarrow>
    \<not> gate_clears D ed G request_id now i p aud (coerce_evidence evidence)"
  shows "valid (untouched w) (protect D ed G request_id now action proof side_effect audience evidence code)
    (\<lambda>out s. untouched w s \<and> \<not> gate_ok out) (\<lambda>_. untouched w)"
proof -
  let ?Q = "\<lambda>out s. untouched w s \<and> \<not> gate_ok out" and ?ev = "coerce_evidence evidence"
  have run: "valid (untouched w) (run_protected D G i (gate_context G request_id now i aud ?ev) side_effect dec unmet p) ?Q (\<lambda>_. untouched w)"
    if "coerce_intent D action = Inr i" "(case audience of Some a \<Rightarrow> coerce_audience a | None \<Rightarrow> Inr (gt_audience G)) = Inr aud"
      "gate_preflight D ed G i ?ev = Inr (dec, unmet)" "read_proof D proof code = Inr (Inr p)" for i aud dec unmet p
  proof (rule uncleared_run)
    have "\<not> gate_clears D ed G request_id now i p aud ?ev" using assms that(1,2,4) by (simp add: requests_def)
    then show "\<not> cleared D (gt_executor G) \<lparr>rq_intent = i, rq_pccb = p, rq_context = gate_context G request_id now i aud ?ev\<rparr> dec"
      using gate_preflight_Inr[OF that(3)] by (cases dec) (simp_all add: gate_clears_def cleared_def)
  qed
  show ?thesis
    unfolding protect_def Let_def
  proof (intro valid_lifted)
    fix i aud x
    assume ok: "coerce_intent D action = Inr i" "(case audience of Some a \<Rightarrow> coerce_audience a | None \<Rightarrow> Inr (gt_audience G)) = Inr aud"
      "gate_preflight D ed G i ?ev = Inr x"
    obtain dec unmet where x: "x = (dec, unmet)" by (cases x)
    show "valid (untouched w) (case x of (policy_decision, unmet_requirements) \<Rightarrow>
        bindP (liftP (read_proof D proof code)) (\<lambda>read. case read of
          Inl exc \<Rightarrow> gate_refuse D G i (gate_context G request_id now i aud ?ev) exc unmet_requirements
        | Inr p \<Rightarrow> run_protected D G i (gate_context G request_id now i aud ?ev) side_effect policy_decision unmet_requirements p)) ?Q (\<lambda>_. untouched w)"
      unfolding x prod.case
    proof (rule valid_lifted)
      fix read assume "read_proof D proof code = Inr read"
      then show "valid (untouched w) (case read of
          Inl exc \<Rightarrow> gate_refuse D G i (gate_context G request_id now i aud ?ev) exc unmet
        | Inr p \<Rightarrow> run_protected D G i (gate_context G request_id now i aud ?ev) side_effect dec unmet p) ?Q (\<lambda>_. untouched w)"
        using run[OF ok(1,2) ok(3)[unfolded x]] gate_refuse_untouched by (cases read) simp_all
    qed
  qed
qed

text \<open>
  C3 (uncleared_action_touches_nothing): a gate that does not clear an action, because its proof is missing, cannot be read or
  does not verify against the capabilities, constraints and resources the gate itself declares, or because preflight does not
  allow it, leaves the replay store, the escrow, the idempotency records and the outside world as they were, and never
  reports it as executed.
\<close>

theorem uncleared_action_touches_nothing:
  assumes "\<forall>i p aud. requests D G action proof code audience i p aud \<longrightarrow>
    \<not> gate_clears D ed G request_id now i p aud (coerce_evidence evidence)"
  shows "untouched w (snd (protect D ed G request_id now action proof side_effect audience evidence code w)) \<and>
    pred_sum (\<lambda>_. True) (\<lambda>out. \<not> gate_ok out) (fst (protect D ed G request_id now action proof side_effect audience evidence code w))"
proof -
  let ?run = "protect D ed G request_id now action proof side_effect audience evidence code w"
  have all: "case ?run of (Inl e, s) \<Rightarrow> untouched w s | (Inr out, s) \<Rightarrow> untouched w s \<and> \<not> gate_ok out"
    by (rule uncleared_protect[OF assms, unfolded valid_def, rule_format]) simp
  obtain r s where "?run = (r, s)" by (rule prod.exhaust)
  with all show ?thesis by (cases r) simp_all
qed

lemma allowing_preflight:
  assumes "preflight_check D ed pack intent None evidence = Inr d" "pf_outcome d = ''allow''"
  shows "\<exists>pd. policy_from_preflight d = Inr pd \<and> decision_allowed pd \<and> pf_unmet_requirements d = []"
proof -
  obtain i ev results where "decided_from results d"
    using assms(1) by (rule preflight_check_Inr)
  then have "pf_unmet_requirements d = []"
    using assms(2) by (auto simp: decided_from_def filter_empty_conv)
  then show ?thesis
    using assms(2) by (simp add: policy_from_preflight_def policy_outcome_def decision_allowed_def)
qed

lemma gate_clears_preflight:
  assumes "gate_clears D ed G request_id now i p aud ev"
  shows "\<exists>dec. gate_preflight D ed G i ev = Inr (dec, []) \<and>
    cleared D (gt_executor G) \<lparr>rq_intent = i, rq_pccb = p, rq_context = gate_context G request_id now i aud ev\<rparr> dec"
proof (cases "gt_policy_pack G")
  case None
  then show ?thesis using assms by (simp add: gate_clears_def gate_preflight_def cleared_def)
next
  case (Some pack)
  then obtain d where d: "preflight_check D ed pack (IntentObject i) None (EvidenceMapping ev) = Inr d" "pf_outcome d = ''allow''"
    using assms by (auto simp: gate_clears_def)
  then obtain pd where "policy_from_preflight d = Inr pd" "decision_allowed pd" "pf_unmet_requirements d = []"
    using allowing_preflight by blast
  then show ?thesis using Some d assms by (simp add: gate_clears_def gate_preflight_def cleared_def)
qed

text \<open>
  C11 (cleared_action_runs): an action that the gate clears, whose key is free in the replay database before the expiry of the
  proof, runs: the gate reports it as executed with the payload of the side effect and no unmet requirement. The gate has the
  database replay store, no escrow and no effect protection; the proof has no effect extension, no idempotency key applies to the
  request, the intent is neither a refund nor an invoice payment, and the broker's acquire and release and the side effect succeed.
\<close>

theorem cleared_action_runs:
  fixes G :: "(replay_store, 'e, 'w) gate"
  assumes "requests D G action proof code audience i p aud" "gate_clears D ed G request_id now i p aud (coerce_evidence evidence)"
    and "gt_executor G = guarded (db_replay D) X" "gt_issue G = None" "ex_escrow X = None" "ex_effects X = None"
    and "rq = \<lparr>rq_intent = i, rq_pccb = p, rq_context = gate_context G request_id now i aud (coerce_evidence evidence)\<rparr>"
    and "claimable D rq (wo_replay w)" "plain_intent i" "\<not> dmem (pc_extensions p) ''effect''" "idempotency_key X rq = None"
    and "cb_acquire (ex_broker X) i p (rq_context rq) (wo_outside w) = (Inr c, o1)"
    and "invoke_side_effect side_effect rq c o1 = (Inr (Some payload), o2)"
    and "cb_release (ex_broker X) c [(''outcome'', JStr ''executed''), (''payload'', JObj payload)] o2 = (Inr u, o3)"
  shows "\<exists>out. fst (protect D ed G request_id now action proof side_effect audience evidence code w) = Inr out \<and>
    gate_ok out \<and> go_payload out = Some payload \<and> go_unmet_requirements out = []"
proof -
  obtain dec where dec: "gate_preflight D ed G i (coerce_evidence evidence) = Inr (dec, [])" "cleared D (gt_executor G) rq dec"
    using gate_clears_preflight[OF assms(2)] assms(7) by blast
  have cl: "cleared D X rq dec" using dec(2) assms(3) by (simp add: cleared_def guarded_def)
  obtain r where run: "execute D (guarded (db_replay D) X) rq (invoke_side_effect side_effect) dec w =
      (Inr \<lparr>xr_receipt = Some (success_receipt X rq c (Some payload) (wo_artifacts w)), xr_refusal = None, xr_payload = Some payload\<rparr>, r)"
    by (rule executes_claimable[where handler = "invoke_side_effect side_effect" and X = X and payload = "Some payload", OF cl assms(8)])
      (use assms(5,6,7,9-14) in \<open>simp_all add: json_payload_def prod_eq_iff\<close>)
  have "rc_outcome (success_receipt X rq c (Some payload) n) = ''executed''" for n
    by (simp add: success_receipt_def receipt_of_intent_def Let_def)
  then show ?thesis
    using assms(1) run dec(1)
    by (simp add: protect_def requests_def Let_def prog_defs run_protected_def assms(3,4) assms(7)[symmetric] gate_ok_def)
qed


section \<open>A concrete gate\<close>

definition sample_gate :: "(replay_store, mem_escrow, memory_broker) gate" where
  "sample_gate = \<lparr>gt_audience = sample_audience, gt_issuer = sample_witness, gt_minter = None,
     gt_declared_capabilities = Some [''refund.create''], gt_declared_parameter_constraints = [(''max'', JInt 10)],
     gt_declared_resource_selectors = [[(''resource_type'', JStr ''order'')]], gt_policy_pack = None, gt_issue = None,
     gt_executor = sample_executor, gt_own_downgrades = []\<rparr>"

definition sample_effect :: "memory_broker side_effect" where
  "sample_effect = Plain (retP (JStr ''re_1''))"

lemma sample_gate_context: "gate_context sample_gate ''req-1'' 63000000060000000 sample_intent sample_audience [] = sample_context"
  by (simp add: gate_context_def sample_gate_def sample_context_def)

lemma sample_requests:
  "requests sample_deps G (IntentObject i) (ProofObject p) code (Some (AudienceObject aud)) i p aud"
  by (simp add: requests_def coerce_intent_def read_proof_def coerce_audience_def)

theorem cleared_action_runs_witness:
  "\<exists>out. fst (protect sample_deps sample_ed25519 sample_gate ''req-1'' 63000000060000000 (IntentObject sample_intent) (ProofObject sample_pccb)
     sample_effect (Some (AudienceObject sample_audience)) NoEvidence ''PCCB_REQUIRED'' sample_world) = Inr out \<and>
     gate_ok out \<and> go_payload out = Some [(''result'', JStr ''re_1'')]"
proof -
  have ev: "coerce_evidence NoEvidence = []" by (simp add: coerce_evidence_def)
  have clears: "gate_clears sample_deps sample_ed25519 sample_gate ''req-1'' 63000000060000000 sample_intent sample_pccb sample_audience []"
    using sample_cleared by (simp add: gate_clears_def sample_gate_context cleared_def sample_request_def) (simp add: sample_gate_def)
  obtain c b where acquire: "cb_acquire (ex_broker sample_executor) (rq_intent sample_request) (rq_pccb sample_request)
      (rq_context sample_request) (wo_outside sample_world) = (Inr c, b)" using sample_acquire by blast
  have inv: "invoke_side_effect sample_effect sample_request c b = (Inr (Some [(''result'', JStr ''re_1'')]), b)"
    by (simp add: invoke_side_effect_def sample_effect_def prog_defs as_payload_def)
  have rq: "sample_request = \<lparr>rq_intent = sample_intent, rq_pccb = sample_pccb,
      rq_context = gate_context sample_gate ''req-1'' 63000000060000000 sample_intent sample_audience (coerce_evidence NoEvidence)\<rparr>"
    by (simp add: sample_request_def ev sample_gate_context)
  have gate: "gt_executor sample_gate = guarded (db_replay sample_deps) sample_executor" "gt_issue sample_gate = None"
    by (simp_all add: sample_gate_def sample_guarded)
  from cleared_action_runs[where w = sample_world, OF sample_requests clears[folded ev] gate sample_plain(3,4) rq sample_claimable]
  show ?thesis using sample_plain acquire inv by (simp add: sample_request_def) blast
qed

lemma unknown_environment_not_allowed:
  assumes "preflight_check D ed (build_destructive_actions_policy_pack sample_texts) (IntentObject sample_intent) None (EvidenceMapping []) = Inr d"
  shows "pf_outcome d \<noteq> ''allow''"
proof -
  obtain i ev results where r: "coerce_intent D (IntentObject sample_intent) = Inr i"
      "with_verified_approvals D ed i (coerce_evidence (EvidenceMapping [])) = Inr ev"
      "rule_results (pk_rules (build_destructive_actions_policy_pack sample_texts)) i ev = Inr results" "decided_from results d"
    using assms by (rule preflight_check_Inr) simp
  have i: "i = sample_intent" "ev = []"
    using r(1,2) by (auto simp: coerce_intent_def coerce_evidence_def with_verified_approvals_def)
  have "pf_env sample_texts sample_intent [] = Inr ''unknown''"
    by (simp add: pf_env_def sample_intent_def text_of_def lower_text_def ascii_text_def py_lower_def lower_char_def)
  then have "\<not> allowing (default_decision sample_texts) sample_intent []"
    by (simp add: allowing_def default_decision_def)
  then show ?thesis
    using decided_allowing[OF r(3,4)] i by (auto simp: build_destructive_actions_policy_pack_def)
qed

theorem uncleared_action_touches_nothing_witness:
  "untouched sample_world (snd (protect sample_deps sample_ed25519
     (sample_gate\<lparr>gt_policy_pack := Some (build_destructive_actions_policy_pack sample_texts)\<rparr>) ''req-1'' 63000000060000000
     (IntentObject sample_intent) (ProofObject sample_pccb) sample_effect None NoEvidence ''PCCB_REQUIRED'' sample_world))"
proof -
  let ?G = "sample_gate\<lparr>gt_policy_pack := Some (build_destructive_actions_policy_pack sample_texts)\<rparr>"
  have "\<forall>i p aud. requests sample_deps ?G (IntentObject sample_intent) (ProofObject sample_pccb) ''PCCB_REQUIRED'' None i p aud \<longrightarrow>
      \<not> gate_clears sample_deps sample_ed25519 ?G ''req-1'' 63000000060000000 i p aud (coerce_evidence NoEvidence)"
    using unknown_environment_not_allowed by (auto simp: requests_def coerce_intent_def gate_clears_def coerce_evidence_def)
  from uncleared_action_touches_nothing[OF this] show ?thesis by blast
qed

end
