(* ===== verification/Spec2Isabelle.thy ===== *)
theory Spec2Isabelle
  imports Evidence TrustArtifacts InvoicePayments PaymentRecords Modes KeyDiscovery Gate
begin

text \<open>
  A verification development of the Actenon kernel (\<^verbatim>\<open>src/actenon\<close>), a Python library that puts a
  cryptographic proof between the decision to act and the action.

  \<^bold>\<open>The program.\<close> An agent submits an Action Intent. The kernel (\<^verbatim>\<open>core/kernel.py\<close>) parses it, asks the policy
  engine for a decision, mints a signed proof for exactly this action (a PCCB), optionally has it sealed by a
  service, issues a single-use escrow record and writes receipts. A protected endpoint (\<^verbatim>\<open>verifier/middleware.py\<close>
  or \<^verbatim>\<open>execution/protected_executor.py\<close>) verifies the proof against the intent in its own context, claims a replay
  key, consumes the escrow or the claim, calls the handler once and writes a receipt or a refusal. Receipts are
  anchored in a transparency log that anybody can check offline (\<^verbatim>\<open>verifier/transparency.py\<close>), counter-signed by
  witnesses, attested by an issuer whose keys are managed and published, and queried as evidence afterwards.

  \<^bold>\<open>Theories and sources\<close>, in the order of their imports.
  \<^item> \<open>Prelude\<close>, \<open>Values\<close>, \<open>Errors\<close>: results, ordered dictionaries, decimal and hexadecimal texts; JSON-like Python
    values with Python's equality and truth; exceptions as values (\<^verbatim>\<open>core/errors.py\<close>).
  \<^item> \<open>Json\<close>, \<open>Timestamps\<close>, \<open>Canonical\<close>: \<^verbatim>\<open>core/json.py\<close> with its iterative depth check, the timestamps of
    \<^verbatim>\<open>models/contracts.py\<close>, the canonical text of \<^verbatim>\<open>proof/canonical.py\<close>. Lemmas: the depth loop computes the depth,
    timestamps round-trip and their whole-second texts are ordered as the instants, equal canonical texts mean
    equal values up to the order of keys, and which values have a canonical text at all.
  \<^item> \<open>Contracts\<close>, \<open>Artifacts\<close>, \<open>Runtime\<close>: every class of \<^verbatim>\<open>models/contracts.py\<close> with \<open>from_dict\<close> and \<open>to_dict\<close>, and
    \<^verbatim>\<open>models/runtime.py\<close>. Lemmas: parsing what was printed gives the value back, and what is parsed is well-formed.
  \<^item> \<open>Posture\<close>, \<open>Signers\<close>: \<^verbatim>\<open>security_posture.py\<close>, \<^verbatim>\<open>proof/signers/local.py\<close> and \<^verbatim>\<open>base.py\<close>; the contract of a
    signer is the locale \<open>signer\<close>, interpreted by the HMAC signer.
  \<^item> \<open>Samples\<close>: the concrete values of the witnesses.
  \<^item> \<open>Proof\<close>: \<^verbatim>\<open>proof/service.py\<close>: minting, and the verifier in its two phases. The verifier accepts exactly what a
    declarative predicate says; a proof is bound to one action; refusals before authentication look alike.
  \<^item> \<open>OneShot\<close>, \<open>Replay\<close>, \<open>Escrow\<close>: the locale \<open>one_shot\<close> states what "at most once" needs of a store; the replay
    database (\<^verbatim>\<open>replay/dbapi.py\<close>, \<^verbatim>\<open>replay/service.py\<close>) and both escrows (\<^verbatim>\<open>escrow/memory.py\<close>, \<^verbatim>\<open>escrow/sqlite.py\<close>)
    are interpretations, and the database escrow refines the one in memory.
  \<^item> \<open>Programs\<close>: method bodies as programs over a state with exceptions, and the Hoare rules the next theories use.
  \<^item> \<open>Effects\<close>, \<open>Receipts\<close>, \<open>Outcomes\<close>, \<open>Brokers\<close>: \<^verbatim>\<open>execution/effects.py\<close>, the factories and stores of
    \<^verbatim>\<open>receipts/\<close>, \<^verbatim>\<open>credentials/broker.py\<close>, \<^verbatim>\<open>idempotency.py\<close>.
  \<^item> \<open>Executor\<close>, \<open>Middleware\<close>: \<open>execute\<close> of both endpoints with all their handlers of exceptions. The locales
    \<open>replay_contract\<close> and \<open>escrow_contract\<close> are what they rely on; inside them each is a \<open>one_shot\<close> itself.
  \<^item> \<open>Policy\<close>, \<open>Kernel\<close>: \<^verbatim>\<open>policy/engine.py\<close>, \<^verbatim>\<open>policy/refund.py\<close>, \<^verbatim>\<open>policy/evidence.py\<close>; admission and execution
    through the kernel, which composes everything above.
  \<^item> \<open>Merkle\<close>, \<open>Consistency\<close>, \<open>Transparency\<close>: the trees and proofs of RFC 6962 as the reference, the two loops over
    shifted counters, and the five verifications. The loops accept exactly the reference proofs.
  \<^item> \<open>Countersignature\<close>, \<open>TrustArtifacts\<close>: \<^verbatim>\<open>verifier/countersignature.py\<close> and \<^verbatim>\<open>verifier/trust_artifacts.py\<close>, the offline
    verifiers of counter-signed receipts, issuer status and approvals. Their key selections and that of the log are
    interpretations of the locale \<open>pinned_keys\<close>; an approval covers one action, and a good standing is fresh;
    in each case the signature the artifact carries verifies under the key published for its id (\<open>published_ed25519\<close>).
  \<^item> \<open>Evidence\<close>: \<^verbatim>\<open>evidence/query.py\<close>: a verified execution is backed by a stored proof, intent and receipt that agree.
  \<^item> \<open>InvoicePayments\<close>, \<open>PaymentRecords\<close>: the second policy wedge (\<^verbatim>\<open>api/invoice_payment.py\<close>, \<^verbatim>\<open>api/refund.py\<close>,
    \<^verbatim>\<open>policy/invoice_payment.py\<close>) and the records of \<^verbatim>\<open>models/invoice_payment.py\<close>: exactly when a payment is allowed.
  \<^item> \<open>Modes\<close>: \<^verbatim>\<open>models/execution.py\<close>, \<^verbatim>\<open>execution/mode_aware.py\<close>, \<^verbatim>\<open>reconciliation/base.py\<close>: the state machines of the
    execution modes as step relations, which paths they accept and what a success needs.
  \<^item> \<open>ManagedKeys\<close>: \<^verbatim>\<open>proof/signers/\<close>\<^verbatim>\<open>key_lifecycle.py\<close>, \<^verbatim>\<open>external_managed.py\<close>, \<^verbatim>\<open>aws_kms.py\<close>, \<^verbatim>\<open>kms.py\<close>, \<^verbatim>\<open>hsm.py\<close>: the
    life cycle of a key as a step relation, and exactly when a managed key signs; the two adapters are
    interpretations of the locale \<open>delegating_signer\<close>.
  \<^item> \<open>Anchors\<close>, \<open>Attestations\<close>, \<open>KeyDiscovery\<close>: the local anchor log (\<^verbatim>\<open>anchors/\<close>), a hash chain as an inductive
    predicate that the validation loop decides; signed outcome attestations (\<^verbatim>\<open>receipts/attestation.py\<close>), with receipts
    and refusals as interpretations of the locale \<open>attested_kind\<close>; and the resolver of published keys with its cache
    (\<^verbatim>\<open>proof/signers/well_known.py\<close>). The log is read through \<open>loads_no_duplicate_keys\<close> of
    \<open>Json\<close> with its size and depth limits. Lemmas: the hash of the last entry fixes the log, what was anchored within these
    limits and what was attested verifies (and what a longer line does to the log), exactly when an attestation is accepted,
    and what a revoked key can still vouch for.
  \<^item> \<open>PolicyPacks\<close>, \<open>Preflight\<close>, \<open>Gate\<close>: the preflight rules, their engine with the verification of signed approvals
    (\<^verbatim>\<open>preflight/\<close>), and the gate (\<^verbatim>\<open>gate.py\<close>) that puts preflight, proof and executor before a side effect. Lemmas: when a
    decision allows, what the default pack demands of a destructive action, that decisions round-trip, and that the gate
    runs what it clears and touches nothing otherwise.
  \<^item> \<open>Spec2Isabelle\<close>: the property that spans the counter-signatures and the log.

  \<^bold>\<open>State and operations.\<close> A class with fields is a record, a method that changes state is a function from the old
  to the new state or a program over the record of the component's world; an exception is a value of the sum type
  \<open>exn\<close>, so that every raise and early return is a branch. Fields that the code takes without checking are JSON
  values; \<open>JNull\<close> is \<open>None\<close>. Instants are microseconds since the year 1 as integers; \<open>datetime\<close> arithmetic outside
  the range of the type raises. Messages are kept unless Python builds them with \<open>repr\<close>.

  \<^bold>\<open>Parameters.\<close> What the repository imports from elsewhere is an argument: the record \<open>deps\<close> (the protocol package
  and SHA-256), text conversions (\<open>str\<close>, \<open>json.loads\<close>), URL and IP address functions, the transport and the sealing
  client, the key services and the fetch of key documents, the effect ledger, handlers, policy rules of the deployment,
  the asymmetric cryptography. A property that relies on their documented
  behaviour says so in its hypotheses (for example that SHA-256 gives 32 bytes, or does not collide on a stated
  finite set of strings) and has a witness with a concrete instance.

  \<^bold>\<open>Loops and bounds.\<close> Every function is total: loops are structural recursions or have a measure (the depth loop a
  size of the pending values, the counter loops the counter). No fuel is used.

  \<^bold>\<open>Not modelled.\<close> Concurrency inside one process (operations are atomic, as the code's locks and transactions make
  them; interleavings are sequences of operations); file and network I/O and database drivers; warnings, metrics and
  logging; the verifier SDK and the boundary facade, which wire the components above; intent records and policy
  bundles; the adapters of agent frameworks; the local runtime, its server, the command line, the
  demos and the viewer; the source scanner and the coverage matrix; the conformance suite.
\<close>

section \<open>Counter-signed and logged receipts\<close>

text \<open>
  C19 (countersigned_receipt_is_logged): when the counter-signature of a receipt and its inclusion in the log are both
  accepted, the log whose root the checkpoint states holds the SHA-256 of the canonical receipt at the proven index, and
  the signature that the artifact carries verifies, over the statement of that digest, under the key of that id that the
  witness publishes for counter-signatures; SHA-256 gives 32 bytes and does not
  collide on the strings hashed.
\<close>

theorem countersigned_receipt_is_logged:
  assumes sha: "\<forall>m. length (dep_sha256 D m) = 32"
    and cs: "verify_countersignature D ed25519 (ValueArg (JObj receipt)) countersignature (JObj keys) = Inr v"
    and receipt: "\<not> (dmem receipt ''algorithm'' \<and> dmem receipt ''canonicalization'' \<and> dmem receipt ''value'')"
    and incl: "verify_countersignature_inclusion D ed25519 countersignature inclusion_proof checkpoint log_keys = Inr w"
    and ck: "parse_checkpoint D checkpoint = Inr ck" "ck_root ck = log_root D xs" "ck_tree_size ck = length xs"
    and inj: "inj_on (dep_sha256 D) (inclusion_inputs D w inclusion_proof xs)"
  shows "\<exists>bytes artifact. canonicalize_bytes D (JObj receipt) = Inr bytes \<and> vi_leaf_index w < length xs \<and>
    xs ! vi_leaf_index w = dep_sha256 D bytes \<and> countersignature = JObj artifact \<and> witnessed D ed25519 keys artifact v"
proof -
  obtain d artifact where d: "resolve_receipt_value D (JObj receipt) = Inr d" "countersignature = JObj artifact"
      "parse_digest D (get_or_null artifact ''receipt_digest'') ''countersignature.receipt_digest'' = Inr (vs_receipt_digest v)"
      "dg_value (vs_receipt_digest v) = dg_value d" "witnessed D ed25519 keys artifact v"
    using cs by (rule verify_countersignature_InrE) (simp add: parse_digest_cs_Inr[where g = "''countersignature.receipt_digest''"])
  obtain bytes where bytes: "canonicalize_bytes D (JObj receipt) = Inr bytes" "dg_value d = hex_of_bytes (dep_sha256 D bytes)"
    using resolve_receipt_value_receipt[OF d(1) receipt] .
  obtain u where u: "verify_inclusion D (DigestArg (vs_receipt_digest v)) inclusion_proof checkpoint = Inr u"
      "vi_leaf_index w = vi_leaf_index u" "vi_leaf_digest w = vi_leaf_digest u"
    using incl d(2,3) by (auto elim!: verify_countersignature_inclusion_InrE)
  have "inj_on (dep_sha256 D) (inclusion_inputs D u inclusion_proof xs)" using inj u(2,3) by (simp add: inclusion_inputs_def)
  note leaf = inclusion_sound[OF sha u(1) ck this]
  have "vi_leaf_digest u = vs_receipt_digest v" using u(1) by (auto elim: verify_inclusion_InrE dest: resolve_digest_same)
  with leaf bytes d(2,4,5) u(2) show ?thesis by auto
qed

theorem countersigned_receipt_is_logged_witness:
  "\<exists>bytes. canonicalize_bytes tree_deps (JObj sample_logged_receipt) = Inr bytes \<and> sample_log ! 1 = dep_sha256 tree_deps bytes \<and>
     witnessed tree_deps sample_ed25519 sample_witness_keys sample_countersignature sample_countersigned"
proof -
  obtain w where w: "verify_countersignature_inclusion tree_deps sample_ed25519 (JObj sample_countersignature) sample_inclusion_proof
     (sample_checkpoint 2) sample_trusted_keys = Inr w" "vi_leaf_index w = 1" "vi_leaf_digest w = sample_digest"
    using sample_countersignature_logged by blast
  have "inj_on (dep_sha256 tree_deps) (inclusion_inputs tree_deps w sample_inclusion_proof sample_log)"
    using sample_inclusion_inj w(2,3) by (simp add: inclusion_inputs_def sample_inclusion_def)
  from countersigned_receipt_is_logged[OF _ sample_countersignature_verifies _ w(1) sample_checkpoint_parses _ _ this] show ?thesis
    by (auto simp: w(2) sample_logged_receipt_def dmem_def)
qed

end
